(* ===== verification/MC_Prelude.thy ===== *)
theory MC_Prelude
  imports Main "HOL-Library.Char_ord" "HOL-Library.List_Lexorder"
begin

text \<open>
  Shared vocabulary of the development.

  \<^item> Go strings are byte sequences, so they are HOL strings (lists of 8-bit characters); the
    bytewise order of Go's \<^verbatim>\<open><\<close> on strings is the lexicographic order on lists.
  \<^item> Results of fallible Go functions are sums, with \<^const>\<open>Inl\<close> for the error.
  \<^item> The record \<open>go_lib\<close> collects what the program takes from the Go runtime and cannot be read
    in the repository: the Unicode tables behind \<^verbatim>\<open>strings.ToLower\<close>,
    \<^verbatim>\<open>strings.ToUpper\<close>, \<^verbatim>\<open>strings.EqualFold\<close>,
    \<^verbatim>\<open>strings.TrimSpace\<close> on non-ASCII text, the RE2 engine and the shortest
    decimal form (\<^verbatim>\<open>%g\<close>) of a finite float. On ASCII text the string
    functions are computed here, as the ASCII fast paths of the Go library do.
\<close>

named_theorems go_simps "evaluation rules for the Go string helpers"
named_theorems lex_inv "operations that keep a lexer inside its input"

section \<open>Results\<close>

fun is_err :: "'e + 'a \<Rightarrow> bool" where
  "is_err (Inl _) = True"
| "is_err (Inr _) = False"

lemma is_err_iff: "is_err r \<longleftrightarrow> (\<exists>e. r = Inl e)"
  by (cases r) auto

lemma not_is_err_iff: "\<not> is_err r \<longleftrightarrow> (\<exists>v. r = Inr v)"
  by (cases r) auto

section \<open>Bytes\<close>

abbreviation byte_of :: "char \<Rightarrow> nat" where
  "byte_of c \<equiv> of_char c"

definition is_ascii_byte :: "char \<Rightarrow> bool" where
  "is_ascii_byte c \<longleftrightarrow> byte_of c < 128"

text \<open>\<^verbatim>\<open>unicode.IsLetter(rune(b))\<close> and \<^verbatim>\<open>unicode.IsDigit(rune(b))\<close>
  for a single byte \<open>b\<close>: the Latin-1 part of the Unicode tables.\<close>

definition is_letter_byte :: "char \<Rightarrow> bool" where
  "is_letter_byte c \<longleftrightarrow>
     (let b = byte_of c in
      (65 \<le> b \<and> b \<le> 90) \<or> (97 \<le> b \<and> b \<le> 122) \<or> b = 170 \<or> b = 181 \<or> b = 186 \<or>
      (192 \<le> b \<and> b \<le> 214) \<or> (216 \<le> b \<and> b \<le> 246) \<or> 248 \<le> b)"

definition is_digit_byte :: "char \<Rightarrow> bool" where
  "is_digit_byte c \<longleftrightarrow> 48 \<le> byte_of c \<and> byte_of c \<le> 57"

definition is_ascii_space :: "char \<Rightarrow> bool" where
  "is_ascii_space c \<longleftrightarrow> byte_of c = 32 \<or> (9 \<le> byte_of c \<and> byte_of c \<le> 13)"

definition ascii_lower :: "char \<Rightarrow> char" where
  "ascii_lower c = (if 65 \<le> byte_of c \<and> byte_of c \<le> 90 then char_of (byte_of c + 32) else c)"

definition ascii_upper :: "char \<Rightarrow> char" where
  "ascii_upper c = (if 97 \<le> byte_of c \<and> byte_of c \<le> 122 then char_of (byte_of c - 32) else c)"

definition digit_val :: "char \<Rightarrow> nat" where
  "digit_val c = byte_of c - 48"

definition digit_char :: "nat \<Rightarrow> char" where
  "digit_char d = char_of (d + 48)"

lemma digit_char_digit: "d < 10 \<Longrightarrow> is_digit_byte (digit_char d)"
  by (simp add: is_digit_byte_def digit_char_def)

lemma digit_val_char [simp]: "d < 10 \<Longrightarrow> digit_val (digit_char d) = d"
  by (simp add: digit_val_def digit_char_def)

lemma digit_not_letter: "is_digit_byte c \<Longrightarrow> \<not> is_letter_byte c"
  by (auto simp: is_digit_byte_def is_letter_byte_def Let_def)

section \<open>What the Go runtime provides\<close>

record go_lib =
  unicode_lower :: "string \<Rightarrow> string"
  unicode_upper :: "string \<Rightarrow> string"
  unicode_fold :: "string \<Rightarrow> string \<Rightarrow> bool"
  unicode_trim :: "string \<Rightarrow> string"
  regex_compile :: "string \<Rightarrow> string + (string \<Rightarrow> bool)"
  format_g :: "bool \<Rightarrow> nat \<Rightarrow> int \<Rightarrow> string"

definition all_ascii :: "string \<Rightarrow> bool" where
  "all_ascii s \<longleftrightarrow> list_all is_ascii_byte s"

definition to_lower :: "go_lib \<Rightarrow> string \<Rightarrow> string" where
  "to_lower G s = (if all_ascii s then map ascii_lower s else unicode_lower G s)"

definition to_upper :: "go_lib \<Rightarrow> string \<Rightarrow> string" where
  "to_upper G s = (if all_ascii s then map ascii_upper s else unicode_upper G s)"

definition equal_fold :: "go_lib \<Rightarrow> string \<Rightarrow> string \<Rightarrow> bool" where
  "equal_fold G s t = (if all_ascii s \<and> all_ascii t then map ascii_lower s = map ascii_lower t
                       else unicode_fold G s t)"

definition trim_space :: "go_lib \<Rightarrow> string \<Rightarrow> string" where
  "trim_space G s =
     (if all_ascii s then rev (dropWhile is_ascii_space (rev (dropWhile is_ascii_space s)))
      else unicode_trim G s)"

definition has_prefix :: "string \<Rightarrow> string \<Rightarrow> bool" where
  "has_prefix s p \<longleftrightarrow> take (length p) s = p"

lemma has_prefix_append [simp]: "has_prefix (p @ s) p"
  by (simp add: has_prefix_def)

lemma has_prefix_iff: "has_prefix s p \<longleftrightarrow> (\<exists>t. s = p @ t)"
  by (metis append_take_drop_id has_prefix_append has_prefix_def)

text \<open>\<^verbatim>\<open>strings.Contains\<close>: some suffix of \<open>s\<close> starts with \<open>p\<close>.\<close>

fun contains_sub :: "string \<Rightarrow> string \<Rightarrow> bool" where
  "contains_sub [] p = (p = [])"
| "contains_sub (c # s) p = (has_prefix (c # s) p \<or> contains_sub s p)"

text \<open>Index of the first byte that satisfies \<open>P\<close> (\<^verbatim>\<open>strings.Index\<close> and
  \<^verbatim>\<open>strings.IndexAny\<close> of single bytes), \<^const>\<open>None\<close> for Go's -1.\<close>

fun index_where :: "(char \<Rightarrow> bool) \<Rightarrow> string \<Rightarrow> nat option" where
  "index_where P [] = None"
| "index_where P (c # s) = (if P c then Some 0 else map_option Suc (index_where P s))"

lemma index_where_Some:
  "index_where P s = Some i \<Longrightarrow> i < length s \<and> P (s ! i) \<and> list_all (\<lambda>c. \<not> P c) (take i s)"
  by (induction s arbitrary: i) (auto split: if_splits)

lemma index_where_None: "index_where P s = None \<longleftrightarrow> list_all (\<lambda>c. \<not> P c) s"
  by (induction s) auto

section \<open>Formatting\<close>

text \<open>\<^verbatim>\<open>%d\<close> of a non-negative integer.\<close>

fun show_nat :: "nat \<Rightarrow> string" where
  "show_nat n = (if n < 10 then [digit_char n] else show_nat (n div 10) @ [digit_char (n mod 10)])"

declare show_nat.simps [simp del]

definition show_int :: "int \<Rightarrow> string" where
  "show_int i = (if i < 0 then CHR ''-'' # show_nat (nat (- i)) else show_nat (nat i))"

lemma show_nat_nonempty [simp]: "show_nat n \<noteq> []"
  by (subst show_nat.simps) simp

lemma show_nat_digits: "list_all is_digit_byte (show_nat n)"
proof (induction n rule: show_nat.induct)
  case (1 n)
  then show ?case
    by (subst show_nat.simps) (auto simp: digit_char_digit)
qed

text \<open>Reading a digit string back.\<close>

definition digits_val :: "string \<Rightarrow> nat" where
  "digits_val s = foldl (\<lambda>n c. 10 * n + digit_val c) 0 s"

lemma digits_val_snoc: "digits_val (s @ [c]) = 10 * digits_val s + digit_val c"
  by (simp add: digits_val_def)

lemma digits_val_Nil [simp]: "digits_val [] = 0"
  by (simp add: digits_val_def)

lemma digits_val_show_nat [simp]: "digits_val (show_nat n) = n"
proof (induction n rule: show_nat.induct)
  case (1 n)
  show ?case
  proof (cases "n < 10")
    case True
    then show ?thesis by (simp add: show_nat.simps [of n] digits_val_def)
  next
    case False
    with 1 have "digits_val (show_nat (n div 10)) = n div 10" by simp
    with False show ?thesis
      by (simp add: show_nat.simps [of n] digits_val_snoc)
  qed
qed

lemma show_nat_inj: "show_nat a = show_nat b \<longleftrightarrow> a = b"
  by (metis digits_val_show_nat)

text \<open>\<^verbatim>\<open>%c\<close> of a byte taken as a code point: UTF-8, two bytes from 128 on.\<close>

definition fmt_c :: "char \<Rightarrow> string" where
  "fmt_c c = (if is_ascii_byte c then [c]
              else [char_of (192 + byte_of c div 64), char_of (128 + byte_of c mod 64)])"

text \<open>\<^verbatim>\<open>strings.Join\<close>.\<close>

fun join_with :: "string \<Rightarrow> string list \<Rightarrow> string" where
  "join_with sep [] = []"
| "join_with sep [x] = x"
| "join_with sep (x # y # ys) = x @ sep @ join_with sep (y # ys)"

section \<open>Association lists with distinct keys\<close>

text \<open>A Go map whose iteration order matters is modelled by a finite map together with the order
  in which a \<^verbatim>\<open>range\<close> loop visits its keys.\<close>

definition range_order :: "('k \<rightharpoonup> 'v) \<Rightarrow> 'k list \<Rightarrow> bool" where
  "range_order m ks \<longleftrightarrow> distinct ks \<and> set ks = dom m"

lemma range_order_in: "range_order m ks \<Longrightarrow> k \<in> set ks \<longleftrightarrow> (\<exists>v. m k = Some v)"
  by (auto simp: range_order_def)

section \<open>A concrete runtime\<close>

text \<open>An instance of the runtime parameters for evaluating examples: text outside ASCII is left
  alone and patterns match by substring. No theorem about the program assumes it.\<close>

definition plain_lib :: go_lib where
  "plain_lib = \<lparr>unicode_lower = (\<lambda>s. s), unicode_upper = (\<lambda>s. s), unicode_fold = (=),
     unicode_trim = (\<lambda>s. s), regex_compile = (\<lambda>p. Inr (\<lambda>s. contains_sub s (drop 4 p))),
     format_g = (\<lambda>neg m e. (if neg then ''-'' else '''') @ show_nat m @ ''p'' @ show_int e)\<rparr>"

lemma prod_cases3': obtains a b c where "(x :: ('a \<times> 'b) \<times> 'c) = ((a, b), c)"
  by (cases x) auto

end
