(* ===== verification/DSL_Lexer.thy ===== *)
theory DSL_Lexer
  imports MC_Prelude
begin

text \<open>
  The lexer of the disk matching language (\<^verbatim>\<open>dsl/lexer.go\<close>) and its positions and
  errors (\<^verbatim>\<open>dsl/errors.go\<close>). A lexer is the input with a byte offset and a
  line/column pair; every scanner is a function from the lexer to a token and the lexer after it.
  The lemmas show that no scanner leaves the input, that every call either makes progress or
  reports the end of input, and which token each piece of concrete syntax produces.
\<close>

section \<open>Positions and errors\<close>

record position =
  Line :: int
  Column :: int
  Offset :: int

definition position_String :: "position \<Rightarrow> string" where
  "position_String p = ''line '' @ show_int (Line p) @ '', column '' @ show_int (Column p)"

datatype dsl_error =
    PlainError string
  | ParseError position string string
  | EvalError position string
  | TypeError position string string
  | UnknownFunctionError position string
  | UnknownVariableError position string

fun dsl_error_text :: "dsl_error \<Rightarrow> string" where
  "dsl_error_text (PlainError m) = m"
| "dsl_error_text (ParseError p m ctxt) =
     (if ctxt \<noteq> '''' then ''parse error at '' @ position_String p @ '': '' @ m @ [CHR 0x0A] @ ''  '' @ ctxt
      else ''parse error at '' @ position_String p @ '': '' @ m)"
| "dsl_error_text (EvalError p m) = ''evaluation error at '' @ position_String p @ '': '' @ m"
| "dsl_error_text (TypeError p e g) =
     ''type error at '' @ position_String p @ '': expected '' @ e @ '', got '' @ g"
| "dsl_error_text (UnknownFunctionError p n) =
     ''unknown function '' @ [CHR 0x27] @ n @ [CHR 0x27] @ '' at '' @ position_String p"
| "dsl_error_text (UnknownVariableError p n) =
     ''unknown variable '' @ [CHR 0x27] @ n @ [CHR 0x27] @ '' at '' @ position_String p"

section \<open>Tokens\<close>

datatype token_type =
    TokenEOF | TokenIdent | TokenNumber | TokenString | TokenTrue | TokenFalse
  | TokenAt | TokenLParen | TokenRParen | TokenComma | TokenError

fun token_type_String :: "token_type \<Rightarrow> string" where
  "token_type_String TokenEOF = ''EOF''"
| "token_type_String TokenIdent = ''IDENT''"
| "token_type_String TokenNumber = ''NUMBER''"
| "token_type_String TokenString = ''STRING''"
| "token_type_String TokenTrue = ''TRUE''"
| "token_type_String TokenFalse = ''FALSE''"
| "token_type_String TokenAt = ''@''"
| "token_type_String TokenLParen = ''(''"
| "token_type_String TokenRParen = '')''"
| "token_type_String TokenComma = '',''"
| "token_type_String TokenError = ''ERROR''"

record token =
  ttype :: token_type
  tvalue :: string
  tpos :: position

section \<open>The lexer\<close>

record lexer =
  linput :: string
  lpos :: nat
  lline :: nat
  lcolumn :: nat
  lstart :: nat

definition MaxInputSize :: nat where
  "MaxInputSize = 10 * 1024"

definition NewLexer :: "string \<Rightarrow> dsl_error + lexer" where
  "NewLexer input =
     (if MaxInputSize < length input
      then Inl (PlainError (''input size '' @ show_nat (length input) @
             '' exceeds maximum allowed size '' @ show_nat MaxInputSize))
      else Inr \<lparr>linput = input, lpos = 0, lline = 1, lcolumn = 1, lstart = 0\<rparr>)"

definition currentPos :: "lexer \<Rightarrow> position" where
  "currentPos l = \<lparr>Line = int (lline l), Column = int (lcolumn l), Offset = int (lpos l)\<rparr>"

definition advance :: "lexer \<Rightarrow> lexer" where
  "advance l =
     (if lpos l < length (linput l)
      then (if linput l ! lpos l = CHR 0x0A
            then l\<lparr>lline := lline l + 1, lcolumn := 1, lpos := lpos l + 1\<rparr>
            else l\<lparr>lcolumn := lcolumn l + 1, lpos := lpos l + 1\<rparr>)
      else l)"

lemma linput_advance [simp]: "linput (advance l) = linput l"
  by (simp add: advance_def)

lemma lpos_advance: "lpos l < length (linput l) \<Longrightarrow> lpos (advance l) = Suc (lpos l)"
  by (simp add: advance_def)

text \<open>The scanning loops of the form
  \<^verbatim>\<open>for l.pos < len(l.input) && p(l.input[l.pos]) { l.advance() }\<close>.\<close>

function scan_while :: "(char \<Rightarrow> bool) \<Rightarrow> lexer \<Rightarrow> lexer" where
  "scan_while p l =
     (if lpos l < length (linput l) \<and> p (linput l ! lpos l) then scan_while p (advance l) else l)"
  by pat_completeness auto
termination
  by (relation "measure (\<lambda>(p, l). length (linput l) - lpos l)") (auto simp: lpos_advance)

declare scan_while.simps [simp del]

definition is_ws :: "char \<Rightarrow> bool" where
  "is_ws c \<longleftrightarrow> c = CHR '' '' \<or> c = CHR 0x09 \<or> c = CHR 0x0A \<or> c = CHR 0x0D"

definition skipWhitespace :: "lexer \<Rightarrow> lexer" where
  "skipWhitespace l = scan_while is_ws l"

definition slice :: "lexer \<Rightarrow> nat \<Rightarrow> string" where
  "slice l st = take (lpos l - st) (drop st (linput l))"

definition is_ident_byte :: "char \<Rightarrow> bool" where
  "is_ident_byte c \<longleftrightarrow> is_letter_byte c \<or> is_digit_byte c \<or> c = CHR ''_''"

definition scanIdentOrKeyword :: "go_lib \<Rightarrow> lexer \<Rightarrow> token \<times> lexer" where
  "scanIdentOrKeyword G l =
     (let l' = scan_while is_ident_byte l;
          value = slice l' (lpos l);
          low = to_lower G value;
          ty = (if low = ''true'' then TokenTrue else if low = ''false'' then TokenFalse else TokenIdent)
      in (\<lparr>ttype = ty, tvalue = value, tpos = currentPos l\<rparr>, l'))"

definition at_char :: "lexer \<Rightarrow> (char \<Rightarrow> bool) \<Rightarrow> bool" where
  "at_char l p \<longleftrightarrow> lpos l < length (linput l) \<and> p (linput l ! lpos l)"

definition scanNumber :: "lexer \<Rightarrow> token \<times> lexer" where
  "scanNumber l =
     (let l1 = (if at_char l (\<lambda>c. c = CHR ''-'') then advance l else l);
          l2 = scan_while is_digit_byte l1;
          hasDigits2 = (lpos l1 < lpos l2);
          l3 = (if at_char l2 (\<lambda>c. c = CHR ''.'') then advance l2 else l2);
          l4 = (if at_char l2 (\<lambda>c. c = CHR ''.'') then scan_while is_digit_byte l3 else l3);
          hasDigits = (hasDigits2 \<or> lpos l3 < lpos l4)
      in if \<not> hasDigits
         then (\<lparr>ttype = TokenError,
                tvalue = ''invalid number: '' @ [CHR 0x27] @ slice l4 (lpos l) @ [CHR 0x27] @ '' (no digits)'',
                tpos = currentPos l\<rparr>, l4)
         else let l5 = (if at_char l4 is_letter_byte then scan_while is_letter_byte l4 else l4)
              in (\<lparr>ttype = TokenNumber, tvalue = slice l5 (lpos l), tpos = currentPos l\<rparr>, l5))"

function raw_loop :: "lexer \<Rightarrow> string \<Rightarrow> string option \<times> lexer" where
  "raw_loop l sb =
     (if lpos l < length (linput l)
      then let ch = linput l ! lpos l in
           if ch = CHR 0x27
           then (if lpos l + 1 < length (linput l) \<and> linput l ! (lpos l + 1) = CHR 0x27
                 then raw_loop (advance (advance l)) (sb @ [CHR 0x27])
                 else (Some sb, advance l))
           else raw_loop (advance l) (sb @ [ch])
      else (None, l))"
  by pat_completeness auto
termination
  by (relation "measure (\<lambda>(l, sb). length (linput l) - lpos l)") (auto simp: lpos_advance)

declare raw_loop.simps [simp del]

definition unterminated :: "position \<Rightarrow> token" where
  "unterminated p = \<lparr>ttype = TokenError, tvalue = ''unterminated string literal'', tpos = p\<rparr>"

definition scanRawString :: "lexer \<Rightarrow> token \<times> lexer" where
  "scanRawString l =
     (case raw_loop (advance l) '''' of
        (Some sb, l') \<Rightarrow> (\<lparr>ttype = TokenString, tvalue = sb, tpos = currentPos l\<rparr>, l')
      | (None, l') \<Rightarrow> (unterminated (currentPos l), l'))"

text \<open>The escape sequences of double-quoted strings.\<close>

definition unescape :: "char \<Rightarrow> char option" where
  "unescape c = (if c = CHR 0x5C then Some (CHR 0x5C) else if c = CHR 0x22 then Some (CHR 0x22)
     else if c = CHR ''n'' then Some (CHR 0x0A) else if c = CHR ''t'' then Some (CHR 0x09)
     else if c = CHR ''r'' then Some (CHR 0x0D) else None)"

function esc_loop :: "position \<Rightarrow> lexer \<Rightarrow> string \<Rightarrow> token \<times> lexer" where
  "esc_loop startPos l sb =
     (if lpos l < length (linput l)
      then let ch = linput l ! lpos l in
           if ch = CHR 0x22
           then (\<lparr>ttype = TokenString, tvalue = sb, tpos = startPos\<rparr>, advance l)
           else if ch = CHR 0x5C
           then (if length (linput l) \<le> lpos l + 1
                 then (\<lparr>ttype = TokenError, tvalue = ''unterminated escape sequence'', tpos = startPos\<rparr>, l)
                 else let l' = advance l; escaped = linput l' ! lpos l' in
                      case unescape escaped of
                        Some c \<Rightarrow> esc_loop startPos (advance l') (sb @ [c])
                      | None \<Rightarrow> (\<lparr>ttype = TokenError,
                                  tvalue = ''invalid escape sequence '' @ [CHR 0x27, CHR 0x5C] @ fmt_c escaped @ [CHR 0x27],
                                  tpos = currentPos l'\<rparr>, l'))
           else if ch = CHR 0x0A then (unterminated startPos, l)
           else esc_loop startPos (advance l) (sb @ [ch])
      else (unterminated startPos, l))"
  by pat_completeness auto
termination
  by (relation "measure (\<lambda>(p, l, sb). length (linput l) - lpos l)") (auto simp: lpos_advance)

declare esc_loop.simps [simp del]

definition scanEscapedString :: "lexer \<Rightarrow> token \<times> lexer" where
  "scanEscapedString l = esc_loop (currentPos l) (advance l) ''''"

definition NextToken :: "go_lib \<Rightarrow> lexer \<Rightarrow> token \<times> lexer" where
  "NextToken G l0 =
     (let l1 = skipWhitespace l0 in
      if length (linput l1) \<le> lpos l1
      then (\<lparr>ttype = TokenEOF, tvalue = '''', tpos = currentPos l1\<rparr>, l1)
      else let l = l1\<lparr>lstart := lpos l1\<rparr>;
               startPos = currentPos l;
               ch = linput l ! lpos l in
        if ch = CHR ''('' then (\<lparr>ttype = TokenLParen, tvalue = ''('', tpos = startPos\<rparr>, advance l)
        else if ch = CHR '')'' then (\<lparr>ttype = TokenRParen, tvalue = '')'', tpos = startPos\<rparr>, advance l)
        else if ch = CHR '','' then (\<lparr>ttype = TokenComma, tvalue = '','', tpos = startPos\<rparr>, advance l)
        else if ch = CHR ''@'' then (\<lparr>ttype = TokenAt, tvalue = ''@'', tpos = startPos\<rparr>, advance l)
        else if ch = CHR 0x27 then scanRawString l
        else if ch = CHR 0x22 then scanEscapedString l
        else if is_letter_byte ch \<or> ch = CHR ''_'' then scanIdentOrKeyword G l
        else if is_digit_byte ch \<or> ch = CHR ''.'' \<or> ch = CHR ''-'' then scanNumber l
        else (\<lparr>ttype = TokenError,
               tvalue = ''unexpected character '' @ [CHR 0x27] @ fmt_c ch @ [CHR 0x27],
               tpos = startPos\<rparr>, advance l))"

definition Peek :: "go_lib \<Rightarrow> lexer \<Rightarrow> token \<times> lexer" where
  "Peek G l = (let (tok, l') = NextToken G l
               in (tok, l'\<lparr>lpos := lpos l, lline := lline l, lcolumn := lcolumn l\<rparr>))"

fun line_start :: "string \<Rightarrow> nat \<Rightarrow> nat" where
  "line_start s 0 = 0"
| "line_start s (Suc n) = (if s ! n \<noteq> CHR 0x0A then line_start s n else Suc n)"

function line_end :: "string \<Rightarrow> nat \<Rightarrow> nat" where
  "line_end s n = (if n < length s \<and> s ! n \<noteq> CHR 0x0A then line_end s (Suc n) else n)"
  by pat_completeness auto
termination
  by (relation "measure (\<lambda>(s, n). length s - n)") auto

declare line_end.simps [simp del]

definition GetContextLine :: "lexer \<Rightarrow> position \<Rightarrow> string" where
  "GetContextLine l pos =
     (let s = linput l; n = int (length s) in
      if (Offset pos < 0 \<or> n \<le> Offset pos) \<and> length s = 0 then ''''
      else let off = (if Offset pos < 0 then 0 else if n \<le> Offset pos then length s - 1
                      else nat (Offset pos));
               st = line_start s off; en = line_end s off
           in take (en - st) (drop st s))"

section \<open>Every scanner stays inside the input and moves forward\<close>

text \<open>\<open>ahead l l'\<close>: same input, \<open>l'\<close> is not before \<open>l\<close>, and still inside if \<open>l\<close> was.\<close>

definition ahead :: "lexer \<Rightarrow> lexer \<Rightarrow> bool" where
  "ahead l l' \<longleftrightarrow> linput l' = linput l \<and> lpos l \<le> lpos l' \<and>
     (lpos l \<le> length (linput l) \<longrightarrow> lpos l' \<le> length (linput l))"

lemma ahead_refl [simp, intro]: "ahead l l"
  by (simp add: ahead_def)

lemma ahead_trans [trans]: "ahead a b \<Longrightarrow> ahead b c \<Longrightarrow> ahead a c"
  by (auto simp: ahead_def)

lemma ahead_advance [lex_inv]: "ahead l (advance l)"
  by (auto simp: ahead_def advance_def)

lemma ahead_scan_while [lex_inv]: "ahead l (scan_while p l)"
proof (induction p l rule: scan_while.induct)
  case (1 p l)
  then show ?case
    by (subst scan_while.simps) (auto intro: ahead_trans [OF ahead_advance])
qed

lemma ahead_raw_loop [lex_inv]: "ahead l (snd (raw_loop l sb))"
proof (induction l sb rule: raw_loop.induct)
  case (1 l sb)
  note adv = ahead_advance [of l] ahead_trans [OF ahead_advance ahead_advance, of l]
  show ?case
    by (subst raw_loop.simps)
      (use 1 adv in \<open>auto simp: Let_def intro: ahead_trans\<close>)
qed

lemma ahead_esc_loop [lex_inv]: "ahead l (snd (esc_loop p l sb))"
proof (induction p l sb rule: esc_loop.induct)
  case (1 p l sb)
  note adv = ahead_advance [of l] ahead_trans [OF ahead_advance ahead_advance, of l]
  show ?case
    by (subst esc_loop.simps)
      (use 1 adv in \<open>auto simp: Let_def split: option.split intro: ahead_trans\<close>)
qed

lemma scan_while_progress: "at_char l p \<Longrightarrow> lpos l < lpos (scan_while p l)"
  using ahead_scan_while [of "advance l" p]
  by (subst scan_while.simps) (auto simp: at_char_def ahead_def lpos_advance)

lemma ahead_cond_scan: "ahead l (if at_char l q then scan_while p l else l)"
  by (simp add: ahead_scan_while)

lemma ahead_scanNumber [lex_inv]: "ahead l (snd (scanNumber l))"
proof -
  let ?l1 = "if at_char l (\<lambda>c. c = CHR ''-'') then advance l else l"
  let ?l2 = "scan_while is_digit_byte ?l1"
  let ?d = "at_char ?l2 (\<lambda>c. c = CHR ''.'')"
  let ?l3 = "if ?d then advance ?l2 else ?l2"
  let ?l4 = "if ?d then scan_while is_digit_byte ?l3 else ?l3"
  have "ahead l ?l1" by (simp add: ahead_advance)
  also have "ahead ?l1 ?l2" by (rule ahead_scan_while)
  also have "ahead ?l2 ?l3" by (simp add: ahead_advance)
  also have "ahead ?l3 ?l4" by (simp add: ahead_scan_while)
  finally have l4: "ahead l ?l4" .
  show ?thesis
    using l4 ahead_trans [OF l4 ahead_cond_scan [of ?l4 is_letter_byte is_letter_byte]]
    unfolding scanNumber_def Let_def by simp
qed

lemma ahead_scanIdent [lex_inv]: "ahead l (snd (scanIdentOrKeyword G l))"
  by (simp add: scanIdentOrKeyword_def Let_def ahead_scan_while)

lemma ahead_scanRawString [lex_inv]: "ahead l (snd (scanRawString l))"
  using ahead_trans [OF ahead_advance ahead_raw_loop, of l "[]"]
  by (auto simp: scanRawString_def split: prod.split option.split)

lemma ahead_scanEscapedString [lex_inv]: "ahead l (snd (scanEscapedString l))"
  using ahead_trans [OF ahead_advance ahead_esc_loop, of l]
  by (simp add: scanEscapedString_def)

lemma ahead_lstart [simp]: "ahead (l\<lparr>lstart := n\<rparr>) l' = ahead l l'"
  by (simp add: ahead_def)

lemma ahead_NextToken [lex_inv]: "ahead l (snd (NextToken G l))"
proof -
  let ?l1 = "skipWhitespace l"
  let ?l2 = "?l1\<lparr>lstart := lpos ?l1\<rparr>"
  have 1: "ahead l ?l1" by (simp add: skipWhitespace_def ahead_scan_while)
  have "ahead ?l1 (snd (scanIdentOrKeyword G ?l2))" "ahead ?l1 (snd (scanNumber ?l2))"
    "ahead ?l1 (snd (scanRawString ?l2))" "ahead ?l1 (snd (scanEscapedString ?l2))"
    "ahead ?l1 (advance ?l2)"
    using lex_inv [of ?l2] by simp_all
  then have "ahead ?l1 (snd (NextToken G l))"
    unfolding NextToken_def Let_def by simp
  with 1 show ?thesis by (rule ahead_trans)
qed

section \<open>The remaining input\<close>

definition rest :: "lexer \<Rightarrow> string" where
  "rest l = drop (lpos l) (linput l)"

lemma rest_nonempty: "lpos l < length (linput l) \<longleftrightarrow> rest l \<noteq> []"
  by (auto simp: rest_def)

lemma rest_hd: "rest l \<noteq> [] \<Longrightarrow> linput l ! lpos l = hd (rest l)"
  by (simp add: rest_def hd_drop_conv_nth)

lemma rest_advance [simp]: "rest (advance l) = tl (rest l)"
  by (auto simp: rest_def advance_def tl_drop drop_Suc)

lemma rest_lstart [simp]: "rest (l\<lparr>lstart := n\<rparr>) = rest l"
  by (simp add: rest_def)

lemma at_char_rest: "at_char l p \<longleftrightarrow> (case rest l of [] \<Rightarrow> False | c # _ \<Rightarrow> p c)"
  by (auto simp: at_char_def rest_nonempty rest_hd split: list.split)

lemma rest_scan_while: "rest (scan_while p l) = dropWhile p (rest l)"
proof (induction p l rule: scan_while.induct)
  case (1 p l)
  show ?case
    by (cases "rest l"; subst scan_while.simps)
      (use 1 rest_hd [of l] in \<open>auto simp: rest_nonempty\<close>)
qed

lemma lpos_scan_while: "lpos (scan_while p l) = lpos l + length (takeWhile p (rest l))"
proof (induction p l rule: scan_while.induct)
  case (1 p l)
  show ?case
    by (cases "rest l"; subst scan_while.simps)
      (use 1 rest_hd [of l] rest_nonempty [of l] in \<open>auto simp: lpos_advance\<close>)
qed

lemma linput_scan_while [simp]: "linput (scan_while p l) = linput l"
  using ahead_scan_while [of l p] by (simp add: ahead_def)

lemma slice_rest: "linput l' = linput l \<Longrightarrow> slice l' (lpos l) = take (lpos l' - lpos l) (rest l)"
  by (simp add: slice_def rest_def)

lemma slice_scan_while: "slice (scan_while p l) (lpos l) = takeWhile p (rest l)"
  by (simp add: slice_rest lpos_scan_while takeWhile_eq_take [symmetric])

lemma rest_skipWhitespace: "rest (skipWhitespace l) = dropWhile is_ws (rest l)"
  by (simp add: skipWhitespace_def rest_scan_while)

lemma rest_length: "length (rest l) = length (linput l) - lpos l"
  by (simp add: rest_def)

section \<open>Progress\<close>

lemma scanNumber_progress:
  assumes "at_char l (\<lambda>c. is_digit_byte c \<or> c = CHR ''.'' \<or> c = CHR ''-'')"
  shows "lpos l < lpos (snd (scanNumber l))"
proof -
  let ?l1 = "if at_char l (\<lambda>c. c = CHR ''-'') then advance l else l"
  let ?l2 = "scan_while is_digit_byte ?l1"
  let ?d = "at_char ?l2 (\<lambda>c. c = CHR ''.'')"
  let ?l3 = "if ?d then advance ?l2 else ?l2"
  let ?l4 = "if ?d then scan_while is_digit_byte ?l3 else ?l3"
  let ?l5 = "if at_char ?l4 is_letter_byte then scan_while is_letter_byte ?l4 else ?l4"
  have a: "ahead ?l1 ?l2" "ahead ?l2 ?l3" "ahead ?l3 ?l4" "ahead ?l4 ?l5"
    by (simp_all add: lex_inv)
  have "lpos l < lpos ?l3"
  proof (cases "at_char l (\<lambda>c. c = CHR ''-'')")
    case True
    then have "lpos l < lpos ?l1" by (simp add: at_char_def lpos_advance)
    with a show ?thesis unfolding ahead_def by linarith
  next
    case F: False
    show ?thesis
    proof (cases "at_char l is_digit_byte")
      case True
      from scan_while_progress [OF this] F a show ?thesis unfolding ahead_def by simp
    next
      case False
      with assms F have "at_char l (\<lambda>c. c = CHR ''.'')" "?l2 = l"
        by (auto simp: at_char_def scan_while.simps [of _ l])
      then show ?thesis using F by (simp add: at_char_def lpos_advance)
    qed
  qed
  with a have "lpos l < lpos ?l4" "lpos l < lpos ?l5" unfolding ahead_def by linarith+
  then show ?thesis unfolding scanNumber_def Let_def by simp
qed

lemma NextToken_progress:
  assumes "ttype (fst (NextToken G l)) \<noteq> TokenEOF"
  shows "lpos l < lpos (snd (NextToken G l))"
proof -
  let ?l1 = "skipWhitespace l"
  let ?l2 = "?l1\<lparr>lstart := lpos ?l1\<rparr>"
  have "ahead l ?l1" by (simp add: skipWhitespace_def ahead_scan_while)
  then have le: "lpos l \<le> lpos ?l1" by (simp add: ahead_def)
  from assms have in1: "lpos ?l1 < length (linput ?l1)"
    by (rule_tac ccontr) (simp add: NextToken_def Let_def)
  then have adv: "lpos ?l1 < lpos (advance ?l2)" by (simp add: lpos_advance)
  have str: "lpos ?l1 < lpos (snd (scanRawString ?l2))" "lpos ?l1 < lpos (snd (scanEscapedString ?l2))"
    using adv ahead_raw_loop [of "advance ?l2" "[]"] ahead_esc_loop [of "advance ?l2" "currentPos ?l2" "[]"]
    by (auto simp: scanRawString_def scanEscapedString_def ahead_def split: prod.split option.split)
  have ident: "is_letter_byte (linput ?l2 ! lpos ?l2) \<or> linput ?l2 ! lpos ?l2 = CHR ''_'' \<Longrightarrow>
      lpos ?l1 < lpos (snd (scanIdentOrKeyword G ?l2))"
    using scan_while_progress [of ?l2 is_ident_byte] in1
    by (auto simp: scanIdentOrKeyword_def Let_def at_char_def is_ident_byte_def)
  have num: "is_digit_byte (linput ?l2 ! lpos ?l2) \<or> linput ?l2 ! lpos ?l2 = CHR ''.'' \<or>
      linput ?l2 ! lpos ?l2 = CHR ''-'' \<Longrightarrow> lpos ?l1 < lpos (snd (scanNumber ?l2))"
    using scanNumber_progress [of ?l2] in1 by (simp add: at_char_def)
  have "lpos ?l1 < lpos (snd (NextToken G l))"
    unfolding NextToken_def Let_def
    using in1 adv str ident num by simp
  with le show ?thesis by simp
qed

lemma rest_NextToken_le: "length (rest (snd (NextToken G l))) \<le> length (rest l)"
  using ahead_NextToken [of l G] by (auto simp: ahead_def rest_length)

lemma rest_NextToken_less:
  assumes "ttype (fst (NextToken G l)) \<noteq> TokenEOF"
  shows "length (rest (snd (NextToken G l))) < length (rest l)"
proof -
  from NextToken_progress [OF assms] ahead_NextToken [of l G]
  have p: "lpos l < lpos (snd (NextToken G l))" and i: "linput (snd (NextToken G l)) = linput l"
    by (auto simp: ahead_def)
  have "lpos (skipWhitespace l) < length (linput (skipWhitespace l))"
    using assms by (rule_tac ccontr) (simp add: NextToken_def Let_def)
  then have "lpos l < length (linput l)"
    by (auto simp: skipWhitespace_def lpos_scan_while)
  with p i show ?thesis by (simp add: rest_length)
qed

section \<open>Which token each piece of concrete syntax produces\<close>

definition starts_with :: "(char \<Rightarrow> bool) \<Rightarrow> string \<Rightarrow> bool" where
  "starts_with p s \<longleftrightarrow> (case s of [] \<Rightarrow> False | c # _ \<Rightarrow> p c)"

lemma starts_with_simps [simp]:
  "\<not> starts_with p []" "starts_with p (c # s) \<longleftrightarrow> p c"
  by (simp_all add: starts_with_def)

lemma takeWhile_prefix: "list_all p s \<Longrightarrow> \<not> starts_with p r \<Longrightarrow> takeWhile p (s @ r) = s"
  by (induction s) (cases r; auto)+

lemma dropWhile_prefix: "list_all p s \<Longrightarrow> \<not> starts_with p r \<Longrightarrow> dropWhile p (s @ r) = r"
  by (induction s) (cases r; auto)+

text \<open>\<open>lexes G l ty v r\<close>: the next token of \<open>l\<close> has type \<open>ty\<close> and value \<open>v\<close> and leaves \<open>r\<close>.\<close>

definition lexes :: "go_lib \<Rightarrow> lexer \<Rightarrow> token_type \<Rightarrow> string \<Rightarrow> string \<Rightarrow> bool" where
  "lexes G l ty v r \<longleftrightarrow>
     (let (t, l') = NextToken G l in ttype t = ty \<and> tvalue t = v \<and> rest l' = r)"

text \<open>What \<^const>\<open>NextToken\<close> sees: the input after white space.\<close>

lemma lexes_at:
  assumes "dropWhile is_ws (rest l) = c # r"
  obtains l2 where "rest l2 = c # r" and "linput l2 ! lpos l2 = c" and "lpos l2 < length (linput l2)"
    and "l2 = (skipWhitespace l)\<lparr>lstart := lpos (skipWhitespace l)\<rparr>"
proof
  let ?l2 = "(skipWhitespace l)\<lparr>lstart := lpos (skipWhitespace l)\<rparr>"
  show 1: "rest ?l2 = c # r" using assms by (simp add: rest_skipWhitespace)
  then show "linput ?l2 ! lpos ?l2 = c" by (metis list.distinct(1) list.sel(1) rest_hd)
  show "lpos ?l2 < length (linput ?l2)" using 1 by (metis list.distinct(1) rest_nonempty)
qed simp

lemma NextToken_step:
  assumes "l2 = (skipWhitespace l)\<lparr>lstart := lpos (skipWhitespace l)\<rparr>"
    and "lpos l2 < length (linput l2)"
  shows "NextToken G l =
     (let ch = linput l2 ! lpos l2 in
        if ch = CHR ''('' then (\<lparr>ttype = TokenLParen, tvalue = ''('', tpos = currentPos l2\<rparr>, advance l2)
        else if ch = CHR '')'' then (\<lparr>ttype = TokenRParen, tvalue = '')'', tpos = currentPos l2\<rparr>, advance l2)
        else if ch = CHR '','' then (\<lparr>ttype = TokenComma, tvalue = '','', tpos = currentPos l2\<rparr>, advance l2)
        else if ch = CHR ''@'' then (\<lparr>ttype = TokenAt, tvalue = ''@'', tpos = currentPos l2\<rparr>, advance l2)
        else if ch = CHR 0x27 then scanRawString l2
        else if ch = CHR 0x22 then scanEscapedString l2
        else if is_letter_byte ch \<or> ch = CHR ''_'' then scanIdentOrKeyword G l2
        else if is_digit_byte ch \<or> ch = CHR ''.'' \<or> ch = CHR ''-'' then scanNumber l2
        else (\<lparr>ttype = TokenError,
               tvalue = ''unexpected character '' @ [CHR 0x27] @ fmt_c ch @ [CHR 0x27],
               tpos = currentPos l2\<rparr>, advance l2))"
  using assms unfolding NextToken_def Let_def by simp

lemma lexes_EOF: "dropWhile is_ws (rest l) = [] \<Longrightarrow> lexes G l TokenEOF [] []"
  by (auto simp: lexes_def NextToken_def Let_def rest_nonempty rest_skipWhitespace
      simp flip: not_less)

lemma lexes_punct:
  "dropWhile is_ws (rest l) = CHR ''('' # r \<Longrightarrow> lexes G l TokenLParen ''('' r"
  "dropWhile is_ws (rest l) = CHR '')'' # r \<Longrightarrow> lexes G l TokenRParen '')'' r"
  "dropWhile is_ws (rest l) = CHR '','' # r \<Longrightarrow> lexes G l TokenComma '','' r"
  "dropWhile is_ws (rest l) = CHR ''@'' # r \<Longrightarrow> lexes G l TokenAt ''@'' r"
  by (erule lexes_at, simp add: lexes_def NextToken_step)+

lemma ident_char_facts:
  assumes "is_letter_byte c \<or> c = CHR ''_''"
  shows "c \<noteq> CHR ''('' \<and> c \<noteq> CHR '')'' \<and> c \<noteq> CHR '','' \<and> c \<noteq> CHR ''@'' \<and> c \<noteq> CHR 0x27 \<and> c \<noteq> CHR 0x22"
  using assms by (auto simp: is_letter_byte_def)

definition keyword_type :: "go_lib \<Rightarrow> string \<Rightarrow> token_type" where
  "keyword_type G s = (if to_lower G s = ''true'' then TokenTrue
                       else if to_lower G s = ''false'' then TokenFalse else TokenIdent)"

lemma lexes_ident:
  assumes "dropWhile is_ws (rest l) = c # s @ r" and c: "is_letter_byte c \<or> c = CHR ''_''"
    and s: "list_all is_ident_byte s" and r: "\<not> starts_with is_ident_byte r"
  shows "lexes G l (keyword_type G (c # s)) (c # s) r"
proof -
  from assms(1) obtain l2 where l2: "rest l2 = c # s @ r" "linput l2 ! lpos l2 = c"
      "lpos l2 < length (linput l2)" "l2 = (skipWhitespace l)\<lparr>lstart := lpos (skipWhitespace l)\<rparr>"
    by (rule lexes_at)
  have ids: "list_all is_ident_byte (c # s)" using c s by (auto simp: is_ident_byte_def)
  have "takeWhile is_ident_byte (rest l2) = c # s" "dropWhile is_ident_byte (rest l2) = r"
    using takeWhile_prefix [OF ids r] dropWhile_prefix [OF ids r] l2(1) by simp_all
  then have "scanIdentOrKeyword G l2 =
      (\<lparr>ttype = keyword_type G (c # s), tvalue = c # s, tpos = currentPos l2\<rparr>, scan_while is_ident_byte l2)"
    and "rest (scan_while is_ident_byte l2) = r"
    by (simp_all add: scanIdentOrKeyword_def Let_def slice_scan_while keyword_type_def rest_scan_while)
  with ident_char_facts [OF c] c show ?thesis
    by (simp add: lexes_def NextToken_step [OF l2(4,3)] l2(2))
qed

text \<open>Single-quoted strings: quoting doubles the quote character.\<close>

definition raw_quote :: "string \<Rightarrow> string" where
  "raw_quote s = concat (map (\<lambda>c. if c = CHR 0x27 then [CHR 0x27, CHR 0x27] else [c]) s)"

lemma raw_quote_simps [simp]:
  "raw_quote [] = []"
  "raw_quote (c # s) = (if c = CHR 0x27 then CHR 0x27 # CHR 0x27 # raw_quote s else c # raw_quote s)"
  by (simp_all add: raw_quote_def)

lemma rest_second: "rest l = a # b # r \<Longrightarrow> lpos l + 1 < length (linput l) \<and> linput l ! (lpos l + 1) = b"
proof -
  assume a: "rest l = a # b # r"
  then have "length (linput l) - lpos l = Suc (Suc (length r))" using rest_length [of l] by simp
  then have lt: "lpos l + 1 < length (linput l)" by linarith
  have "linput l ! (lpos l + 1) = rest l ! 1" using lt by (simp add: rest_def)
  with a lt show ?thesis by simp
qed

lemma rest_single: "rest l = [a] \<Longrightarrow> \<not> lpos l + 1 < length (linput l)"
  using rest_length [of l] by simp

lemma raw_loop_quote:
  assumes "rest l = raw_quote s @ CHR 0x27 # r" and "\<not> starts_with (\<lambda>c. c = CHR 0x27) r"
  shows "\<exists>l'. raw_loop l sb = (Some (sb @ s), l') \<and> rest l' = r"
  using assms
proof (induction s arbitrary: l sb)
  case Nil
  then have in_l: "lpos l < length (linput l)" "linput l ! lpos l = CHR 0x27"
    by (auto simp: rest_nonempty rest_hd)
  have "\<not> (lpos l + 1 < length (linput l) \<and> linput l ! (lpos l + 1) = CHR 0x27)"
    using Nil rest_second [of l "CHR 0x27"] rest_single [of l "CHR 0x27"] by (cases r) auto
  with in_l have "raw_loop l sb = (Some sb, advance l)" by (auto simp: raw_loop.simps [of l])
  with Nil show ?case by simp
next
  case (Cons c s)
  then have in_l: "lpos l < length (linput l)" "linput l ! lpos l = c"
    by (auto simp: rest_nonempty rest_hd split: if_splits)
  show ?case
  proof (cases "c = CHR 0x27")
    case True
    with Cons.prems(1) have "rest l = CHR 0x27 # CHR 0x27 # raw_quote s @ CHR 0x27 # r" by simp
    with rest_second [OF this] in_l True
    have "raw_loop l sb = raw_loop (advance (advance l)) (sb @ [c])"
      and "rest (advance (advance l)) = raw_quote s @ CHR 0x27 # r"
      by (simp_all add: raw_loop.simps [of l] Let_def)
    with Cons.IH [of "advance (advance l)" "sb @ [c]"] Cons.prems(2) show ?thesis by simp
  next
    case False
    with Cons.prems(1) in_l have "raw_loop l sb = raw_loop (advance l) (sb @ [c])"
      and "rest (advance l) = raw_quote s @ CHR 0x27 # r"
      by (simp_all add: raw_loop.simps [of l] Let_def)
    with Cons.IH [of "advance l" "sb @ [c]"] Cons.prems(2) show ?thesis by simp
  qed
qed

lemma lexes_raw:
  assumes "dropWhile is_ws (rest l) = CHR 0x27 # raw_quote s @ CHR 0x27 # r"
    and "\<not> starts_with (\<lambda>c. c = CHR 0x27) r"
  shows "lexes G l TokenString s r"
proof -
  from assms(1) obtain l2 where l2: "rest l2 = CHR 0x27 # raw_quote s @ CHR 0x27 # r"
      "linput l2 ! lpos l2 = CHR 0x27" "lpos l2 < length (linput l2)"
      "l2 = (skipWhitespace l)\<lparr>lstart := lpos (skipWhitespace l)\<rparr>"
    by (rule lexes_at)
  from raw_loop_quote [of "advance l2" s r "[]"] l2(1) assms(2)
  obtain l' where "raw_loop (advance l2) [] = (Some s, l')" "rest l' = r" by auto
  then show ?thesis
    by (simp add: lexes_def NextToken_step [OF l2(4,3)] l2(2) scanRawString_def)
qed

text \<open>Double-quoted strings: quoting writes an escape sequence for the backslash, the double
  quote and the newline.\<close>

definition esc_quote :: "string \<Rightarrow> string" where
  "esc_quote s = concat (map (\<lambda>c. if c = CHR 0x5C then [CHR 0x5C, CHR 0x5C]
      else if c = CHR 0x22 then [CHR 0x5C, CHR 0x22]
      else if c = CHR 0x0A then [CHR 0x5C, CHR ''n''] else [c]) s)"

lemma esc_loop_quote:
  assumes "rest l = esc_quote s @ CHR 0x22 # r"
  shows "\<exists>l'. esc_loop p l sb = (\<lparr>ttype = TokenString, tvalue = sb @ s, tpos = p\<rparr>, l') \<and> rest l' = r"
  using assms
proof (induction s arbitrary: l sb)
  case Nil
  then have "lpos l < length (linput l)" "linput l ! lpos l = CHR 0x22"
    by (auto simp: rest_nonempty rest_hd esc_quote_def)
  with Nil show ?case by (simp add: esc_loop.simps [of p l] esc_quote_def)
next
  case (Cons c s)
  have q: "rest l = (if c = CHR 0x5C then [CHR 0x5C, CHR 0x5C] else if c = CHR 0x22 then [CHR 0x5C, CHR 0x22]
      else if c = CHR 0x0A then [CHR 0x5C, CHR ''n''] else [c]) @ esc_quote s @ CHR 0x22 # r"
    using Cons.prems by (simp add: esc_quote_def)
  show ?case
  proof (cases "c = CHR 0x5C \<or> c = CHR 0x22 \<or> c = CHR 0x0A")
    case True
    then obtain e where e: "rest l = CHR 0x5C # e # esc_quote s @ CHR 0x22 # r" "unescape e = Some c"
      using q by (elim disjE) (simp_all add: unescape_def)
    then have in_l: "lpos l < length (linput l)" "linput l ! lpos l = CHR 0x5C"
      using rest_nonempty [of l] rest_hd [of l] by simp_all
    have "esc_loop p l sb = esc_loop p (advance (advance l)) (sb @ [c])"
      using in_l e rest_second [OF e(1)] by (simp add: esc_loop.simps [of p l] lpos_advance Let_def)
    with Cons.IH [of "advance (advance l)" "sb @ [c]"] e(1) show ?thesis by simp
  next
    case False
    with q have r: "rest l = c # esc_quote s @ CHR 0x22 # r" by simp
    then have "lpos l < length (linput l)" "linput l ! lpos l = c"
      using rest_nonempty [of l] rest_hd [of l] by simp_all
    with False have "esc_loop p l sb = esc_loop p (advance l) (sb @ [c])"
      by (simp add: esc_loop.simps [of p l])
    with Cons.IH [of "advance l" "sb @ [c]"] r show ?thesis by simp
  qed
qed

lemma lexes_esc:
  assumes "dropWhile is_ws (rest l) = CHR 0x22 # esc_quote s @ CHR 0x22 # r"
  shows "lexes G l TokenString s r"
proof -
  from assms obtain l2 where l2: "rest l2 = CHR 0x22 # esc_quote s @ CHR 0x22 # r"
      "linput l2 ! lpos l2 = CHR 0x22" "lpos l2 < length (linput l2)"
      "l2 = (skipWhitespace l)\<lparr>lstart := lpos (skipWhitespace l)\<rparr>"
    by (rule lexes_at)
  from esc_loop_quote [of "advance l2" s r "currentPos l2" "[]"] l2(1)
  obtain l' where "esc_loop (currentPos l2) (advance l2) [] =
      (\<lparr>ttype = TokenString, tvalue = s, tpos = currentPos l2\<rparr>, l')" "rest l' = r" by auto
  then show ?thesis
    by (simp add: lexes_def NextToken_step [OF l2(4,3)] l2(2) scanEscapedString_def)
qed

text \<open>Numbers: an optional sign, digits, an optional fraction and an optional unit.\<close>

record number_parts =
  np_neg :: bool
  np_int :: string
  np_frac :: "string option"
  np_unit :: string

definition number_text :: "number_parts \<Rightarrow> string" where
  "number_text n = (if np_neg n then ''-'' else '''') @ np_int n @
     (case np_frac n of None \<Rightarrow> '''' | Some f \<Rightarrow> CHR ''.'' # f) @ np_unit n"

definition wf_number :: "number_parts \<Rightarrow> bool" where
  "wf_number n \<longleftrightarrow> list_all is_digit_byte (np_int n) \<and>
     (case np_frac n of None \<Rightarrow> np_int n \<noteq> '''' | Some f \<Rightarrow> list_all is_digit_byte f \<and> (np_int n \<noteq> '''' \<or> f \<noteq> '''')) \<and>
     list_all is_letter_byte (np_unit n)"

lemma digit_byte_facts:
  "is_digit_byte c \<Longrightarrow> c \<noteq> CHR ''-'' \<and> c \<noteq> CHR ''.'' \<and> \<not> is_letter_byte c \<and> c \<noteq> CHR ''_'' \<and> \<not> is_ws c"
  by (auto simp: is_digit_byte_def is_letter_byte_def is_ws_def)

lemma letter_byte_facts:
  "is_letter_byte c \<Longrightarrow> c \<noteq> CHR ''-'' \<and> c \<noteq> CHR ''.'' \<and> \<not> is_digit_byte c \<and> \<not> is_ws c"
  by (auto simp: is_digit_byte_def is_letter_byte_def is_ws_def Let_def)

text \<open>A lexer that has consumed exactly \<open>t\<close> holds \<open>t\<close> in its slice.\<close>

lemma slice_prefix:
  assumes "ahead l l'" "lpos l \<le> length (linput l)" "rest l = t @ rest l'"
  shows "slice l' (lpos l) = t"
proof -
  from assms have "lpos l' - lpos l = length t"
    using rest_length [of l] rest_length [of l'] unfolding ahead_def
    by (metis (no_types, lifting) add_diff_cancel_right' add_diff_inverse_nat diff_diff_left
        diff_le_mono2 length_append nat_add_left_cancel_le not_less le_add_diff_inverse2)
  moreover have "linput l' = linput l" using assms(1) by (simp add: ahead_def)
  ultimately show ?thesis using assms(3) by (simp add: slice_rest)
qed

lemma scanNumber_text:
  assumes l: "rest l = number_text n @ r" "lpos l \<le> length (linput l)" and wf: "wf_number n"
    and r: "\<not> starts_with (\<lambda>c. is_digit_byte c \<or> is_letter_byte c \<or> c = CHR ''.'') r"
  shows "\<exists>l'. scanNumber l = (\<lparr>ttype = TokenNumber, tvalue = number_text n, tpos = currentPos l\<rparr>, l') \<and> rest l' = r"
proof -
  let ?fr = "case np_frac n of None \<Rightarrow> '''' | Some f \<Rightarrow> CHR ''.'' # f"
  let ?l1 = "if at_char l (\<lambda>c. c = CHR ''-'') then advance l else l"
  let ?l2 = "scan_while is_digit_byte ?l1"
  let ?d = "at_char ?l2 (\<lambda>c. c = CHR ''.'')"
  let ?l3 = "if ?d then advance ?l2 else ?l2"
  let ?l4 = "if ?d then scan_while is_digit_byte ?l3 else ?l3"
  let ?l5 = "if at_char ?l4 is_letter_byte then scan_while is_letter_byte ?l4 else ?l4"
  have ur: "\<not> starts_with is_digit_byte (np_unit n @ r)" "\<not> starts_with (\<lambda>c. c = CHR ''.'') (np_unit n @ r)"
    using wf r by (cases "np_unit n"; cases r; auto simp: wf_number_def dest: letter_byte_facts)+
  have fur: "\<not> starts_with is_digit_byte (?fr @ np_unit n @ r)"
    using ur by (auto split: option.split dest: digit_byte_facts)
  have int: "list_all is_digit_byte (np_int n)" using wf by (simp add: wf_number_def)
  have r1: "rest ?l1 = np_int n @ ?fr @ np_unit n @ r"
    using l(1) wf
    by (cases "np_int n"; cases "np_neg n")
      (auto simp: at_char_rest number_text_def wf_number_def split: option.splits dest: digit_byte_facts)
  then have r2: "rest ?l2 = ?fr @ np_unit n @ r" and p2: "lpos ?l2 = lpos ?l1 + length (np_int n)"
    using dropWhile_prefix [OF int fur] takeWhile_prefix [OF int fur]
    by (simp_all add: rest_scan_while lpos_scan_while)
  have d: "?d \<longleftrightarrow> np_frac n \<noteq> None"
    using ur(2) r2 by (auto simp: at_char_rest starts_with_def split: option.split list.splits)
  have r4: "rest ?l4 = np_unit n @ r" and p4: "lpos ?l4 = lpos ?l3 + (case np_frac n of None \<Rightarrow> 0 | Some f \<Rightarrow> length f)"
    using d r2 wf dropWhile_prefix [OF _ ur(1)] takeWhile_prefix [OF _ ur(1)]
    by (auto simp: rest_scan_while lpos_scan_while wf_number_def split: option.splits)
  have u: "list_all is_letter_byte (np_unit n)" "\<not> starts_with is_letter_byte r"
    using wf r by (auto simp: wf_number_def starts_with_def split: list.splits)
  have r5: "rest ?l5 = r"
    using r4 dropWhile_prefix [OF u] by (auto simp: rest_scan_while at_char_rest split: list.splits)
  have "ahead l ?l1" by (simp add: ahead_advance)
  also have "ahead ?l1 ?l2" by (rule ahead_scan_while)
  also have "ahead ?l2 ?l3" by (simp add: ahead_advance)
  also have "ahead ?l3 ?l4" by (simp add: ahead_scan_while)
  also have "ahead ?l4 ?l5" by (rule ahead_cond_scan)
  finally have "ahead l ?l5" .
  from slice_prefix [OF this l(2)] l(1) r5 have sl: "slice ?l5 (lpos l) = number_text n" by simp
  have hd: "lpos ?l1 < lpos ?l2 \<or> lpos ?l3 < lpos ?l4"
    using p2 p4 wf by (auto simp: wf_number_def split: option.splits)
  show ?thesis
    using sl r5 hd unfolding scanNumber_def Let_def by simp
qed

lemma number_char_facts:
  assumes "is_digit_byte c \<or> c = CHR ''.'' \<or> c = CHR ''-''"
  shows "c \<noteq> CHR ''('' \<and> c \<noteq> CHR '')'' \<and> c \<noteq> CHR '','' \<and> c \<noteq> CHR ''@'' \<and> c \<noteq> CHR 0x27 \<and>
     c \<noteq> CHR 0x22 \<and> c \<noteq> CHR ''_'' \<and> \<not> is_letter_byte c"
  using assms by (elim disjE) (auto simp: is_digit_byte_def is_letter_byte_def)

lemma lexes_number:
  assumes "dropWhile is_ws (rest l) = number_text n @ r" and wf: "wf_number n"
    and r: "\<not> starts_with (\<lambda>c. is_digit_byte c \<or> is_letter_byte c \<or> c = CHR ''.'') r"
  shows "lexes G l TokenNumber (number_text n) r"
proof -
  from wf obtain c t where ct: "number_text n = c # t" "is_digit_byte c \<or> c = CHR ''.'' \<or> c = CHR ''-''"
    by (cases "np_int n"; cases "np_neg n"; force simp: wf_number_def number_text_def split: option.splits)
  with assms(1) have "dropWhile is_ws (rest l) = c # t @ r" by simp
  then obtain l2 where l2: "rest l2 = c # t @ r" "linput l2 ! lpos l2 = c"
      "lpos l2 < length (linput l2)" "l2 = (skipWhitespace l)\<lparr>lstart := lpos (skipWhitespace l)\<rparr>"
    by (rule lexes_at)
  from scanNumber_text [of l2 n r] l2 ct wf r obtain l' where
    "scanNumber l2 = (\<lparr>ttype = TokenNumber, tvalue = number_text n, tpos = currentPos l2\<rparr>, l')" "rest l' = r"
    by auto
  moreover have "NextToken G l = scanNumber l2"
    using ct(2) number_char_facts [OF ct(2)] by (simp add: NextToken_step [OF l2(4,3)] l2(2))
  ultimately show ?thesis by (simp add: lexes_def)
qed

end
