(* ===== verification/Go_Float.thy ===== *)
theory Go_Float
  imports MC_Prelude Complex_Main
begin

text \<open>
  IEEE 754 binary64 as far as the disk matching language uses it: conversion of decimal literals
  (\<^verbatim>\<open>strconv.ParseFloat\<close>), conversion of \<^verbatim>\<open>uint64\<close> sizes,
  multiplication by a unit and comparison. A finite value is a sign, a mantissa \<open>m\<close> and an
  exponent \<open>e\<close>, standing for \<open>\<plusminus> m * 2 ^ e\<close> with \<open>m < 2 ^ 53\<close> and \<open>-1074 \<le> e \<le> 971\<close>.
  Rounding is to nearest, ties to even. NaN cannot arise from these operations: a literal that
  overflows is rejected, and no operand of a multiplication is infinite.
\<close>

datatype float64 = Fin bool nat int | Inf bool

text \<open>Number of binary digits.\<close>

fun blen :: "nat \<Rightarrow> nat" where
  "blen n = (if n = 0 then 0 else Suc (blen (n div 2)))"

declare blen.simps [simp del]

lemma blen_0 [simp]: "blen 0 = 0"
  by (simp add: blen.simps)

lemma blen_upper: "n < 2 ^ blen n"
proof (induction n rule: blen.induct)
  case (1 n)
  show ?case
  proof (cases "n = 0")
    case False
    with 1 have "n div 2 < 2 ^ blen (n div 2)" by simp
    then have "n < 2 * 2 ^ blen (n div 2)" by linarith
    with False show ?thesis by (simp add: blen.simps [of n])
  qed simp
qed

lemma blen_lower: "0 < n \<Longrightarrow> 2 ^ blen n \<le> 2 * n"
proof (induction n rule: blen.induct)
  case (1 n)
  show ?case
  proof (cases "n div 2 = 0")
    case True
    with 1 have "n = 1" by simp
    then show ?thesis by (simp add: blen.simps [of "Suc 0"])
  next
    case False
    with 1 have "2 ^ blen (n div 2) \<le> 2 * (n div 2)" by simp
    then have "2 * 2 ^ blen (n div 2) \<le> 2 * n" by linarith
    with 1 show ?thesis by (simp add: blen.simps [of n])
  qed
qed

text \<open>Round \<open>n / d\<close> to the nearest natural number, ties to even.\<close>

definition rne :: "nat \<Rightarrow> nat \<Rightarrow> nat" where
  "rne n d = (let q = n div d; r = n mod d
              in if d < 2 * r \<or> (2 * r = d \<and> odd q) then Suc q else q)"

lemma rne_exact: "0 < d \<Longrightarrow> rne (q * d) d = q"
  by (simp add: rne_def)

text \<open>\<open>n / d\<close> divided by \<open>2 ^ e\<close>, as a fraction.\<close>

definition scale_frac :: "nat \<Rightarrow> nat \<Rightarrow> int \<Rightarrow> nat \<times> nat" where
  "scale_frac n d e = (if 0 \<le> e then (n, d * 2 ^ nat e) else (n * 2 ^ nat (- e), d))"

text \<open>The exponent at which \<open>n / d\<close> has a 53-bit mantissa, at least the subnormal exponent.\<close>

definition float_exp :: "nat \<Rightarrow> nat \<Rightarrow> int" where
  "float_exp n d =
     (let a = int (blen n) - int (blen d) - 53;
          (p, q) = scale_frac n d a
      in max (if 2 ^ 53 * q \<le> p then a + 1 else a) (- 1074))"

definition round_float :: "bool \<Rightarrow> nat \<Rightarrow> nat \<Rightarrow> float64" where
  "round_float s n d =
     (if n = 0 then Fin s 0 0
      else let e = float_exp n d;
               (p, q) = scale_frac n d e;
               m = rne p q;
               (m', e') = (if m = 2 ^ 53 then (2 ^ 52, e + 1) else (m, e))
           in if 971 < e' then Inf s else if m' = 0 then Fin s 0 0 else Fin s m' e')"

definition float_of_nat :: "nat \<Rightarrow> float64" where
  "float_of_nat n = round_float False n 1"

fun float_mul :: "float64 \<Rightarrow> float64 \<Rightarrow> float64" where
  "float_mul (Fin s m e) (Fin t k f) =
     (if 0 \<le> e + f then round_float (s \<noteq> t) (m * k * 2 ^ nat (e + f)) 1
      else round_float (s \<noteq> t) (m * k) (2 ^ nat (- (e + f))))"
| "float_mul (Inf s) (Fin t k f) = Inf (s \<noteq> t)"
| "float_mul (Fin s m e) (Inf t) = Inf (s \<noteq> t)"
| "float_mul (Inf s) (Inf t) = Inf (s \<noteq> t)"

text \<open>Comparison: bring two finite values to a common exponent.\<close>

definition signed_mag :: "bool \<Rightarrow> nat \<Rightarrow> int" where
  "signed_mag s k = (if s then - int k else int k)"

fun float_less :: "float64 \<Rightarrow> float64 \<Rightarrow> bool" where
  "float_less (Fin s m e) (Fin t k f) =
     (signed_mag s (m * 2 ^ nat (e - min e f)) < signed_mag t (k * 2 ^ nat (f - min e f)))"
| "float_less (Inf s) (Fin _ _ _) = s"
| "float_less (Fin _ _ _) (Inf t) = (\<not> t)"
| "float_less (Inf s) (Inf t) = (s \<and> \<not> t)"

definition float_eq :: "float64 \<Rightarrow> float64 \<Rightarrow> bool" where
  "float_eq x y \<longleftrightarrow> \<not> float_less x y \<and> \<not> float_less y x"

text \<open>The real number a finite value stands for, for specifications.\<close>

fun fval :: "float64 \<Rightarrow> real" where
  "fval (Fin s m e) = (if s then - 1 else 1) * real m * 2 powi e"
| "fval (Inf s) = 0"

fun finite_float :: "float64 \<Rightarrow> bool" where
  "finite_float (Fin _ _ _) = True"
| "finite_float (Inf _) = False"

section \<open>Comparison is the order on the values\<close>

lemma fval_common:
  assumes "f \<le> e"
  shows "fval (Fin s m e) = of_int (signed_mag s (m * 2 ^ nat (e - f))) * 2 powi f"
proof -
  have "(2::real) powi e = 2 powi (e - f) * 2 powi f"
    by (simp flip: power_int_add)
  also have "(2::real) powi (e - f) = 2 ^ nat (e - f)"
    using assms by (simp add: power_int_def)
  finally show ?thesis by (simp add: signed_mag_def)
qed

lemma float_less_fval:
  assumes "finite_float x" "finite_float y"
  shows "float_less x y \<longleftrightarrow> fval x < fval y"
proof (cases x; cases y)
  fix s m e t k f
  assume xy: "x = Fin s m e" "y = Fin t k f"
  let ?g = "min e f"
  have "fval x < fval y \<longleftrightarrow>
      (of_int (signed_mag s (m * 2 ^ nat (e - ?g))) :: real) * 2 powi ?g
        < of_int (signed_mag t (k * 2 ^ nat (f - ?g))) * 2 powi ?g"
    using xy fval_common [of ?g e s m] fval_common [of ?g f t k] by simp
  also have "\<dots> \<longleftrightarrow> signed_mag s (m * 2 ^ nat (e - ?g)) < signed_mag t (k * 2 ^ nat (f - ?g))"
    by (subst mult_less_cancel_right_pos) auto
  finally show ?thesis using xy by simp
qed (use assms in auto)

lemma float_eq_fval:
  "finite_float x \<Longrightarrow> finite_float y \<Longrightarrow> float_eq x y \<longleftrightarrow> fval x = fval y"
  by (auto simp: float_eq_def float_less_fval)

lemma float_less_irrefl [simp]: "\<not> float_less x x"
  by (cases x) auto

lemma float_less_asym: "float_less x y \<Longrightarrow> \<not> float_less y x"
  by (cases x; cases y) (auto simp: min.commute)

lemma float_less_trans:
  assumes "float_less x y" "float_less y z"
  shows "float_less x z"
proof (cases "finite_float x \<and> finite_float y \<and> finite_float z")
  case True
  with assms show ?thesis by (auto simp: float_less_fval)
next
  case False
  with assms show ?thesis by (cases x; cases y; cases z) auto
qed

lemma float_eq_refl [simp]: "float_eq x x"
  by (simp add: float_eq_def)

lemma float_eq_sym: "float_eq x y \<longleftrightarrow> float_eq y x"
  by (auto simp: float_eq_def)

section \<open>Exactness below \<open>2 ^ 53\<close>\<close>

lemma blen_1 [simp]: "blen (Suc 0) = 1"
  by (simp add: blen.simps [of "Suc 0"])

lemma blen_double: "0 < n \<Longrightarrow> blen (2 * n) = Suc (blen n)"
  by (simp add: blen.simps [of "2 * n"])

lemma blen_mult_pow2: "0 < n \<Longrightarrow> blen (n * 2 ^ j) = blen n + j"
proof (induction j)
  case (Suc j)
  have "blen (n * 2 ^ Suc j) = blen (2 * (n * 2 ^ j))" by (simp add: mult_ac)
  also have "\<dots> = Suc (blen (n * 2 ^ j))" using Suc.prems by (intro blen_double) simp
  finally show ?case using Suc by simp
qed simp

lemma blen_pow2 [simp]: "blen (2 ^ j) = Suc j"
  using blen_mult_pow2 [of 1 j] by simp

lemma blen_mono_bound: "n < 2 ^ k \<Longrightarrow> blen n \<le> k"
proof (cases "n = 0")
  case False
  assume "n < 2 ^ k"
  with False blen_lower [of n] have "(2::nat) ^ blen n < 2 * 2 ^ k" by simp
  then have "(2::nat) ^ blen n < 2 ^ Suc k" by simp
  then show ?thesis
    by (metis less_Suc_eq_le one_less_numeral_iff power_less_imp_less_exp semiring_norm(76))
qed simp

text \<open>Rounding depends on the fraction only, not on a common power of two.\<close>

lemma rne_cancel: "0 < c \<Longrightarrow> rne (n * c) (d * c) = rne n d"
  by (cases "d = 0") (auto simp: rne_def Let_def mult.assoc [symmetric])

lemma scale_frac_cancel:
  "scale_frac (n * c) (d * c) e = (fst (scale_frac n d e) * c, snd (scale_frac n d e) * c)"
  by (simp add: scale_frac_def mult_ac)

lemma float_exp_cancel:
  assumes "0 < n" "0 < d"
  shows "float_exp (n * 2 ^ j) (d * 2 ^ j) = float_exp n d"
  using assms
  by (simp add: float_exp_def blen_mult_pow2 scale_frac_cancel case_prod_beta Let_def
      mult.assoc [symmetric])

lemma round_float_cancel:
  assumes "0 < d"
  shows "round_float s (n * 2 ^ j) (d * 2 ^ j) = round_float s n d"
proof (cases "n = 0")
  case False
  then show ?thesis
    using assms by (simp add: round_float_def float_exp_cancel scale_frac_cancel rne_cancel
        case_prod_beta Let_def)
qed (simp add: round_float_def)

lemma float_exp_small:
  assumes "0 < n" "n < 2 ^ 53"
  shows "float_exp n 1 = int (blen n) - 53"
proof -
  let ?b = "blen n"
  have b: "?b \<le> 53" using assms by (intro blen_mono_bound)
  have "(2::nat) ^ 53 * 2 = 2 ^ ?b * 2 ^ (54 - ?b)"
    using b by (simp flip: power_add)
  also have "\<dots> \<le> 2 * n * 2 ^ (54 - ?b)"
    using blen_lower [OF assms(1)] by simp
  finally have "2 ^ 53 \<le> n * 2 ^ (54 - ?b)" by simp
  moreover have "nat (54 - int ?b) = 54 - ?b" by simp
  ultimately show ?thesis
    using b by (simp add: float_exp_def scale_frac_def)
qed

lemma float_of_nat_small:
  assumes "0 < n" "n < 2 ^ 53"
  shows "float_of_nat n = Fin False (n * 2 ^ (53 - blen n)) (int (blen n) - 53)"
proof -
  let ?b = "blen n"
  have b: "?b \<le> 53" using assms by (intro blen_mono_bound)
  have "n * 2 ^ (53 - ?b) < 2 ^ ?b * 2 ^ (53 - ?b)" using blen_upper [of n] by simp
  also have "\<dots> = 2 ^ 53" using b by (simp flip: power_add)
  finally have lt: "n * 2 ^ (53 - ?b) < 2 ^ 53" .
  have sc: "scale_frac n 1 (int ?b - 53) = (n * 2 ^ (53 - ?b), 1)"
    using b by (cases "?b = 53") (auto simp: scale_frac_def nat_diff_distrib')
  have ex: "float_exp n (Suc 0) = int ?b - 53" using float_exp_small [OF assms] by simp
  show ?thesis
    using assms lt b sc by (simp add: float_of_nat_def round_float_def ex rne_def Let_def)
qed

lemma fval_float_of_nat:
  assumes "n < 2 ^ 53"
  shows "finite_float (float_of_nat n)" and "fval (float_of_nat n) = real n"
proof -
  have "finite_float (float_of_nat n) \<and> fval (float_of_nat n) = real n"
  proof (cases "n = 0")
    case True
    then show ?thesis by (simp add: float_of_nat_def round_float_def)
  next
    case False
    have b: "blen n \<le> 53" using assms by (intro blen_mono_bound)
    have "(2::real) ^ (53 - blen n) * 2 powi (int (blen n) - 53) = 2 powi (int (53 - blen n) + (int (blen n) - 53))"
      by (subst power_int_add) auto
    also have "\<dots> = 1" using b by simp
    finally show ?thesis
      using False assms by (simp add: float_of_nat_small)
  qed
  then show "finite_float (float_of_nat n)" "fval (float_of_nat n) = real n" by auto
qed

lemma float_less_of_nat:
  "m < 2 ^ 53 \<Longrightarrow> n < 2 ^ 53 \<Longrightarrow> float_less (float_of_nat m) (float_of_nat n) \<longleftrightarrow> m < n"
  by (simp add: float_less_fval fval_float_of_nat)

lemma float_eq_of_nat:
  "m < 2 ^ 53 \<Longrightarrow> n < 2 ^ 53 \<Longrightarrow> float_eq (float_of_nat m) (float_of_nat n) \<longleftrightarrow> m = n"
  by (simp add: float_eq_fval fval_float_of_nat)

text \<open>Multiplying two integers is exact while the product stays below \<open>2 ^ 53\<close>.\<close>

lemma float_mul_of_nat:
  assumes "a < 2 ^ 53" "b < 2 ^ 53" "a * b < 2 ^ 53"
  shows "float_mul (float_of_nat a) (float_of_nat b) = float_of_nat (a * b)"
proof (cases "a = 0 \<or> b = 0")
  case True
  then show ?thesis
  proof
    assume "a = 0"
    then show ?thesis
      by (cases "b = 0") (auto simp: float_of_nat_small [OF _ assms(2)] float_of_nat_def [of 0] round_float_def)
  next
    assume "b = 0"
    then show ?thesis
      by (cases "a = 0") (auto simp: float_of_nat_small [OF _ assms(1)] float_of_nat_def [of 0] round_float_def)
  qed
next
  case False
  let ?i = "53 - blen a" and ?j = "53 - blen b"
  have bl: "blen a \<le> 53" "blen b \<le> 53" using assms by (auto intro: blen_mono_bound)
  have n: "nat (- (int (blen a) - 53 + (int (blen b) - 53))) = ?i + ?j" using bl by simp
  have p: "a * 2 ^ ?i * (b * 2 ^ ?j) = a * b * 2 ^ (?i + ?j)" by (simp add: power_add mult_ac)
  show ?thesis
  proof (cases "blen a = 53 \<and> blen b = 53")
    case True
    with False assms show ?thesis
      by (simp add: float_of_nat_small [of a] float_of_nat_small [of b] float_of_nat_def [of "a * b"])
  next
    case F: False
    with bl have "int (blen a) - 53 + (int (blen b) - 53) < 0" by linarith
    then have "float_mul (float_of_nat a) (float_of_nat b) =
        round_float False (a * 2 ^ ?i * (b * 2 ^ ?j))
          (2 ^ nat (- (int (blen a) - 53 + (int (blen b) - 53))))"
      using False assms by (simp add: float_of_nat_small [of a] float_of_nat_small [of b])
    also have "\<dots> = round_float False (a * b * 2 ^ (?i + ?j)) (2 ^ (?i + ?j))"
      by (simp only: n p)
    also have "\<dots> = round_float False (a * b) 1"
      using round_float_cancel [of 1 False "a * b" "?i + ?j"] by simp
    finally show ?thesis by (simp add: float_of_nat_def)
  qed
qed

end
