(* ===== verification/DSL_Parser.thy ===== *)
theory DSL_Parser
  imports DSL_Lexer Go_Float
begin

text \<open>
  Sizes with units (\<^verbatim>\<open>dsl/units.go\<close>), the syntax tree (\<^verbatim>\<open>dsl/ast.go\<close>)
  and the recursive-descent parser (\<^verbatim>\<open>dsl/parser.go\<close>) of the disk matching language.
  The parser functions take fuel, because the recursion runs over the lexer's state and not over a
  datatype; \<open>Parse\<close> supplies twice the input length, and \<open>parse_enough_fuel\<close> shows that the
  parser then always returns. The other lemmas bound the depth of what is parsed and show that
  printing an expression and parsing it gives the expression back.
\<close>

section \<open>Sizes with units\<close>

definition KiB :: nat where "KiB = 1024"
definition MiB :: nat where "MiB = 1024 * KiB"
definition GiB :: nat where "GiB = 1024 * MiB"
definition TiB :: nat where "TiB = 1024 * GiB"
definition PiB :: nat where "PiB = 1024 * TiB"
definition KB :: nat where "KB = 1000"
definition MB :: nat where "MB = 1000 * KB"
definition GB :: nat where "GB = 1000 * MB"
definition TB :: nat where "TB = 1000 * GB"
definition PB :: nat where "PB = 1000 * TB"

lemmas unit_defs = KiB_def MiB_def GiB_def TiB_def PiB_def KB_def MB_def GB_def TB_def PB_def

definition unitMultipliers :: "string \<rightharpoonup> nat" where
  "unitMultipliers = map_of
     [(''B'', 1), (''KIB'', KiB), (''MIB'', MiB), (''GIB'', GiB), (''TIB'', TiB), (''PIB'', PiB),
      (''KB'', KB), (''MB'', MB), (''GB'', GB), (''TB'', TB), (''PB'', PB),
      (''K'', KB), (''M'', MB), (''G'', GB), (''T'', TB), (''P'', PB)]"

text \<open>\<^verbatim>\<open>strconv.ParseFloat\<close> on strings of digits, points and signs, which is all the
  scan in \<open>ParseNumberWithUnit\<close> lets through; \<^const>\<open>None\<close> for a syntax or range error.\<close>

definition float_of_parts :: "bool \<Rightarrow> string \<Rightarrow> string \<Rightarrow> float64 option" where
  "float_of_parts neg ip fp =
     (case round_float neg (digits_val (ip @ fp)) (10 ^ length fp) of
        Inf _ \<Rightarrow> None
      | x \<Rightarrow> Some x)"

definition parse_float :: "string \<Rightarrow> float64 option" where
  "parse_float s =
     (let neg = starts_with (\<lambda>c. c = CHR ''-'') s;
          r = (if starts_with (\<lambda>c. c = CHR ''-'' \<or> c = CHR ''+'') s then tl s else s);
          ip = takeWhile is_digit_byte r
      in case dropWhile is_digit_byte r of
           [] \<Rightarrow> if ip = [] then None else float_of_parts neg ip []
         | c # fp \<Rightarrow>
             if c = CHR ''.'' \<and> list_all is_digit_byte fp \<and> (ip \<noteq> [] \<or> fp \<noteq> [])
             then float_of_parts neg ip fp else None)"

definition is_num_byte :: "char \<Rightarrow> bool" where
  "is_num_byte c \<longleftrightarrow> is_digit_byte c \<or> c = CHR ''.'' \<or> c = CHR ''-'' \<or> c = CHR ''+''"

definition ParseNumberWithUnit :: "go_lib \<Rightarrow> string \<Rightarrow> string + float64 \<times> string" where
  "ParseNumberWithUnit G s =
     (if s = '''' then Inl ''empty number string''
      else let numPart = takeWhile is_num_byte s in
        if numPart = '''' then Inl (''invalid number format: '' @ s)
        else let unitPart = trim_space G (dropWhile is_num_byte s) in
          case parse_float numPart of
            None \<Rightarrow> Inl (''invalid number: '' @ numPart)
          | Some value \<Rightarrow>
              if unitPart = '''' then Inr (value, '''')
              else case unitMultipliers (to_upper G unitPart) of
                     None \<Rightarrow> Inl (''unknown unit: '' @ unitPart)
                   | Some multiplier \<Rightarrow> Inr (float_mul value (float_of_nat multiplier), unitPart))"

section \<open>Syntax trees\<close>

datatype expr =
    StringLiteral position string bool
  | NumberLiteral position float64 string string
  | BoolLiteral position bool
  | Variable position string
  | FunctionCall position string "expr list"

fun expr_Pos :: "expr \<Rightarrow> position" where
  "expr_Pos (StringLiteral p _ _) = p"
| "expr_Pos (NumberLiteral p _ _ _) = p"
| "expr_Pos (BoolLiteral p _) = p"
| "expr_Pos (Variable p _) = p"
| "expr_Pos (FunctionCall p _ _) = p"

section \<open>The parser\<close>

definition MaxRecursionDepth :: nat where
  "MaxRecursionDepth = 100"

record parser =
  plexer :: lexer
  pcurrent :: token
  pinput :: string
  pdepth :: nat

definition padvance :: "go_lib \<Rightarrow> parser \<Rightarrow> parser" where
  "padvance G p = (let (t, l) = NextToken G (plexer p) in p\<lparr>pcurrent := t, plexer := l\<rparr>)"

definition NewParser :: "go_lib \<Rightarrow> string \<Rightarrow> dsl_error + parser" where
  "NewParser G input =
     (case NewLexer input of
        Inl e \<Rightarrow> Inl e
      | Inr l \<Rightarrow> Inr (padvance G \<lparr>plexer = l,
                  pcurrent = \<lparr>ttype = TokenEOF, tvalue = '''', tpos = \<lparr>Line = 0, Column = 0, Offset = 0\<rparr>\<rparr>,
                  pinput = input, pdepth = 0\<rparr>))"

definition perror :: "parser \<Rightarrow> string \<Rightarrow> dsl_error" where
  "perror p msg = ParseError (tpos (pcurrent p)) msg (GetContextLine (plexer p) (tpos (pcurrent p)))"

definition expect :: "go_lib \<Rightarrow> parser \<Rightarrow> token_type \<Rightarrow> dsl_error + parser" where
  "expect G p typ =
     (if ttype (pcurrent p) \<noteq> typ
      then Inl (perror p (''expected '' @ token_type_String typ @ '', got '' @ token_type_String (ttype (pcurrent p))))
      else Inr (padvance G p))"

definition parseVariable :: "go_lib \<Rightarrow> parser \<Rightarrow> dsl_error + expr \<times> parser" where
  "parseVariable G p =
     (let p1 = padvance G p in
      if ttype (pcurrent p1) \<noteq> TokenIdent
      then Inl (perror p1 (''expected variable name after '' @ [CHR 0x27] @ ''@'' @ [CHR 0x27]))
      else Inr (Variable (tpos (pcurrent p)) (tvalue (pcurrent p1)), padvance G p1))"

definition parseString :: "go_lib \<Rightarrow> parser \<Rightarrow> dsl_error + expr \<times> parser" where
  "parseString G p =
     Inr (StringLiteral (tpos (pcurrent p)) (tvalue (pcurrent p)) False, padvance G p)"

definition parseNumber :: "go_lib \<Rightarrow> parser \<Rightarrow> dsl_error + expr \<times> parser" where
  "parseNumber G p =
     (case ParseNumberWithUnit G (tvalue (pcurrent p)) of
        Inl e \<Rightarrow> Inl (ParseError (tpos (pcurrent p)) e '''')
      | Inr (value, unit) \<Rightarrow>
          Inr (NumberLiteral (tpos (pcurrent p)) value (tvalue (pcurrent p)) unit, padvance G p))"

definition parseBool :: "go_lib \<Rightarrow> parser \<Rightarrow> dsl_error + expr \<times> parser" where
  "parseBool G p =
     Inr (BoolLiteral (tpos (pcurrent p)) (ttype (pcurrent p) = TokenTrue), padvance G p)"

text \<open>\<^verbatim>\<open>defer func() { p.depth-- }()\<close> on the parser a successful call returns.\<close>

definition leave :: "(dsl_error + expr \<times> parser) option \<Rightarrow> (dsl_error + expr \<times> parser) option" where
  "leave r = (case r of Some (Inr (e, p)) \<Rightarrow> Some (Inr (e, p\<lparr>pdepth := pdepth p - 1\<rparr>)) | _ \<Rightarrow> r)"

fun parseExpression :: "nat \<Rightarrow> go_lib \<Rightarrow> parser \<Rightarrow> (dsl_error + expr \<times> parser) option"
  and parseFunctionCall :: "nat \<Rightarrow> go_lib \<Rightarrow> parser \<Rightarrow> (dsl_error + expr \<times> parser) option"
  and parseArgs :: "nat \<Rightarrow> go_lib \<Rightarrow> parser \<Rightarrow> expr list \<Rightarrow> (dsl_error + expr list \<times> parser) option" where
  "parseExpression 0 G p = None"
| "parseExpression (Suc n) G p0 =
     (let p = p0\<lparr>pdepth := pdepth p0 + 1\<rparr> in
      if MaxRecursionDepth < pdepth p
      then Some (Inl (perror p (''expression nesting exceeds maximum depth of '' @ show_nat MaxRecursionDepth)))
      else leave (case ttype (pcurrent p) of
             TokenIdent \<Rightarrow> parseFunctionCall n G p
           | TokenAt \<Rightarrow> Some (parseVariable G p)
           | TokenString \<Rightarrow> Some (parseString G p)
           | TokenNumber \<Rightarrow> Some (parseNumber G p)
           | TokenTrue \<Rightarrow> Some (parseBool G p)
           | TokenFalse \<Rightarrow> Some (parseBool G p)
           | TokenError \<Rightarrow> Some (Inl (perror p (tvalue (pcurrent p))))
           | _ \<Rightarrow> Some (Inl (perror p (''unexpected token '' @ [CHR 0x27] @ tvalue (pcurrent p) @ [CHR 0x27])))))"
| "parseFunctionCall 0 G p = None"
| "parseFunctionCall (Suc n) G p =
     (let pos = tpos (pcurrent p); name = tvalue (pcurrent p); p1 = padvance G p in
      if ttype (pcurrent p1) \<noteq> TokenLParen
      then Some (Inl (perror p1 (''expected '' @ [CHR 0x27] @ ''('' @ [CHR 0x27] @ '' after function name '' @
                  [CHR 0x27] @ name @ [CHR 0x27])))
      else let p2 = padvance G p1 in
           case (if ttype (pcurrent p2) \<noteq> TokenRParen then parseArgs n G p2 [] else Some (Inr ([], p2))) of
             None \<Rightarrow> None
           | Some (Inl e) \<Rightarrow> Some (Inl e)
           | Some (Inr (args, p3)) \<Rightarrow>
               (case expect G p3 TokenRParen of
                  Inl e \<Rightarrow> Some (Inl e)
                | Inr p4 \<Rightarrow> Some (Inr (FunctionCall pos name args, p4))))"
| "parseArgs 0 G p args = None"
| "parseArgs (Suc n) G p args =
     (case parseExpression n G p of
        None \<Rightarrow> None
      | Some (Inl e) \<Rightarrow> Some (Inl e)
      | Some (Inr (arg, p1)) \<Rightarrow>
          if ttype (pcurrent p1) = TokenComma then parseArgs n G (padvance G p1) (args @ [arg])
          else Some (Inr (args @ [arg], p1)))"

text \<open>\<^verbatim>\<open>Parser.Parse\<close>: an expression followed by the end of the input.\<close>

definition parse_all :: "nat \<Rightarrow> go_lib \<Rightarrow> parser \<Rightarrow> (dsl_error + expr) option" where
  "parse_all n G p =
     (case parseExpression n G p of
        None \<Rightarrow> None
      | Some (Inl e) \<Rightarrow> Some (Inl e)
      | Some (Inr (e, p1)) \<Rightarrow>
          if ttype (pcurrent p1) \<noteq> TokenEOF
          then Some (Inl (perror p1 (''unexpected token '' @ [CHR 0x27] @ tvalue (pcurrent p1) @ [CHR 0x27] @
                 '', expected end of input'')))
          else Some (Inr e))"

definition parse_fuel :: "string \<Rightarrow> nat" where
  "parse_fuel input = 2 * length input + 3"

text \<open>\<^verbatim>\<open>dsl.Parse\<close>.\<close>

definition Parse :: "go_lib \<Rightarrow> string \<Rightarrow> (dsl_error + expr) option" where
  "Parse G input =
     (case NewParser G input of
        Inl e \<Rightarrow> Some (Inl e)
      | Inr p \<Rightarrow> parse_all (parse_fuel input) G p)"

section \<open>The parser returns\<close>

text \<open>What is left to read: the bytes the lexer has not seen, and the token in hand.\<close>

definition pmeas :: "parser \<Rightarrow> nat" where
  "pmeas p = length (rest (plexer p)) + (if ttype (pcurrent p) = TokenEOF then 0 else 1)"

lemma pmeas_depth [simp]: "pmeas (p\<lparr>pdepth := d\<rparr>) = pmeas p"
  by (simp add: pmeas_def)

lemma padvance_fields:
  "pcurrent (padvance G p) = fst (NextToken G (plexer p))"
  "plexer (padvance G p) = snd (NextToken G (plexer p))"
  "pdepth (padvance G p) = pdepth p"
  by (simp_all add: padvance_def split: prod.split)

lemma pmeas_padvance: "ttype (pcurrent p) \<noteq> TokenEOF \<Longrightarrow> pmeas (padvance G p) < pmeas p"
  using rest_NextToken_less [of G "plexer p"] rest_NextToken_le [of G "plexer p"]
  by (auto simp: pmeas_def padvance_fields)

lemma pmeas_padvance_le: "pmeas (padvance G p) \<le> pmeas p"
  using rest_NextToken_less [of G "plexer p"] rest_NextToken_le [of G "plexer p"]
  by (auto simp: pmeas_def padvance_fields)

lemma simple_parsers_decrease:
  assumes "ttype (pcurrent p) \<noteq> TokenEOF"
  shows "parseVariable G p = Inr (e, p') \<Longrightarrow> pmeas p' < pmeas p"
    and "parseString G p = Inr (e, p') \<Longrightarrow> pmeas p' < pmeas p"
    and "parseNumber G p = Inr (e, p') \<Longrightarrow> pmeas p' < pmeas p"
    and "parseBool G p = Inr (e, p') \<Longrightarrow> pmeas p' < pmeas p"
  using pmeas_padvance [OF assms, of G] pmeas_padvance_le [of G "padvance G p"]
  by (auto simp: parseVariable_def parseString_def parseNumber_def parseBool_def Let_def
      split: if_splits sum.splits)

lemma leave_Inr: "leave r = Some (Inr (e, p)) \<longleftrightarrow> (\<exists>q. r = Some (Inr (e, q)) \<and> p = q\<lparr>pdepth := pdepth q - 1\<rparr>)"
  by (auto simp: leave_def split: option.splits sum.splits)

lemma leave_None [simp]: "leave r = None \<longleftrightarrow> r = None"
  by (auto simp: leave_def split: option.splits sum.splits prod.splits)

lemma parse_decreases:
  "parseExpression n G p = Some (Inr (e, p')) \<Longrightarrow> pmeas p' < pmeas p"
  "parseFunctionCall n G p = Some (Inr (e, p')) \<Longrightarrow> ttype (pcurrent p) \<noteq> TokenEOF \<Longrightarrow> pmeas p' < pmeas p"
  "parseArgs n G p as = Some (Inr (es, p')) \<Longrightarrow> pmeas p' < pmeas p"
proof (induction n G p and n G p and n G p as arbitrary: e p' and e p' and es p'
    rule: parseExpression_parseFunctionCall_parseArgs.induct)
  case (2 n G p0)
  then show ?case
    using simple_parsers_decrease [of "p0\<lparr>pdepth := pdepth p0 + 1\<rparr>" G]
    by (auto simp: Let_def leave_Inr split: if_splits token_type.splits)
next
  case (4 n G p)
  let ?p1 = "padvance G p"
  let ?p2 = "padvance G ?p1"
  from 4 have "pmeas ?p1 < pmeas p" by (intro pmeas_padvance)
  with pmeas_padvance_le [of G ?p1] have p2: "pmeas ?p2 < pmeas p" by simp
  from "4.prems"(1) obtain as p3 where
    a: "(if ttype (pcurrent ?p2) \<noteq> TokenRParen then parseArgs n G ?p2 [] else Some (Inr ([], ?p2))) = Some (Inr (as, p3))"
    and e: "expect G p3 TokenRParen = Inr p'"
    by (auto simp: Let_def split: if_splits option.splits sum.splits)
  have "pmeas p3 \<le> pmeas ?p2"
    using a "4.IH" "4.prems"(1) by (fastforce simp: Let_def split: if_splits option.splits sum.splits)
  moreover have "pmeas p' \<le> pmeas p3"
    using e pmeas_padvance_le by (auto simp: expect_def split: if_splits)
  ultimately show ?case using p2 by simp
next
  case (6 n G p as)
  from "6.prems" obtain a p1 where a: "parseExpression n G p = Some (Inr (a, p1))"
    by (auto split: option.splits sum.splits)
  with "6.IH"(1) have p1: "pmeas p1 < pmeas p" by blast
  show ?case
  proof (cases "ttype (pcurrent p1) = TokenComma")
    case True
    with "6.prems" a have "parseArgs n G (padvance G p1) (as @ [a]) = Some (Inr (es, p'))" by simp
    with "6.IH"(2) a True have "pmeas p' < pmeas (padvance G p1)" by blast
    with p1 pmeas_padvance_le [of G p1] show ?thesis by simp
  next
    case False
    with "6.prems" a p1 show ?thesis by simp
  qed
qed simp_all

lemma parse_enough_fuel:
  "2 * pmeas p + 1 \<le> n \<Longrightarrow> parseExpression n G p \<noteq> None"
  "2 * pmeas p \<le> n \<Longrightarrow> ttype (pcurrent p) \<noteq> TokenEOF \<Longrightarrow> parseFunctionCall n G p \<noteq> None"
  "2 * pmeas p + 2 \<le> n \<Longrightarrow> parseArgs n G p as \<noteq> None"
proof (induction n G p and n G p and n G p as
    rule: parseExpression_parseFunctionCall_parseArgs.induct)
  case (2 n G p0)
  then show ?case by (auto simp: Let_def simp del: not_None_eq split: token_type.split)
next
  case (3 G p)
  then show ?case by (simp add: pmeas_def)
next
  case (4 n G p)
  let ?p1 = "padvance G p"
  let ?p2 = "padvance G ?p1"
  have p1: "pmeas ?p1 < pmeas p" using 4 by (intro pmeas_padvance)
  show ?case
  proof (cases "ttype (pcurrent ?p1) = TokenLParen \<and> ttype (pcurrent ?p2) \<noteq> TokenRParen")
    case True
    then have "pmeas ?p2 < pmeas ?p1" by (intro pmeas_padvance) simp
    with p1 "4.prems" have "2 * pmeas ?p2 + 2 \<le> n" by simp
    with "4.IH" True have "parseArgs n G ?p2 [] \<noteq> None" by simp
    with True show ?thesis by (auto simp: Let_def split: sum.split)
  next
    case False
    then show ?thesis by (auto simp: Let_def split: sum.split)
  qed
next
  case (6 n G p as)
  then have "parseExpression n G p \<noteq> None" by simp
  then show ?case
  proof (cases "parseExpression n G p")
    case (Some r)
    show ?thesis
    proof (cases r)
      case (Inr ap)
      obtain a p1 where ap: "ap = (a, p1)" by (cases ap)
      with Some Inr have d: "pmeas p1 < pmeas p" by (auto dest: parse_decreases(1))
      have "ttype (pcurrent p1) = TokenComma \<Longrightarrow> parseArgs n G (padvance G p1) (as @ [a]) \<noteq> None"
        using "6.IH"(2) [OF Some _ ap [symmetric]] Inr d pmeas_padvance [of p1 G] "6.prems" by simp
      with Some Inr ap show ?thesis by simp
    qed (simp add: Some)
  qed simp
qed simp_all

lemma NewParser_pmeas:
  assumes "NewParser G input = Inr p"
  shows "pmeas p \<le> Suc (length input)"
proof -
  let ?l = "\<lparr>linput = input, lpos = 0, lline = 1, lcolumn = 1, lstart = 0\<rparr>"
  from assms have "plexer p = snd (NextToken G ?l)"
    by (auto simp: NewParser_def NewLexer_def padvance_fields split: sum.splits if_splits)
  then have "length (rest (plexer p)) \<le> length (rest ?l)" by (simp add: rest_NextToken_le)
  then show ?thesis by (simp add: pmeas_def rest_def)
qed

lemma Parse_returns: "\<exists>r. Parse G input = Some r"
proof (cases "NewParser G input")
  case (Inr p)
  have "2 * pmeas p + 1 \<le> parse_fuel input"
    using NewParser_pmeas [OF Inr] by (simp add: parse_fuel_def)
  then obtain r where "parseExpression (parse_fuel input) G p = Some r"
    using parse_enough_fuel(1) by blast
  with Inr show ?thesis
    by (cases r) (auto simp: Parse_def parse_all_def)
qed (simp add: Parse_def)

section \<open>Nesting is bounded\<close>

fun expr_depth :: "expr \<Rightarrow> nat" where
  "expr_depth (FunctionCall _ _ args) = Suc (Max (set (0 # map expr_depth args)))"
| "expr_depth _ = 1"

lemma expr_depth_call_le:
  "expr_depth (FunctionCall p f args) \<le> Suc d \<longleftrightarrow> (\<forall>a \<in> set args. expr_depth a \<le> d)"
  by auto

declare expr_depth.simps(1) [simp del]

lemma simple_parsers_depth:
  "parseVariable G p = Inr (e, p') \<Longrightarrow> expr_depth e = 1 \<and> pdepth p' = pdepth p"
  "parseString G p = Inr (e, p') \<Longrightarrow> expr_depth e = 1 \<and> pdepth p' = pdepth p"
  "parseNumber G p = Inr (e, p') \<Longrightarrow> expr_depth e = 1 \<and> pdepth p' = pdepth p"
  "parseBool G p = Inr (e, p') \<Longrightarrow> expr_depth e = 1 \<and> pdepth p' = pdepth p"
  by (auto simp: parseVariable_def parseString_def parseNumber_def parseBool_def Let_def padvance_fields
      split: if_splits sum.splits)

lemma parse_depth:
  "parseExpression n G p = Some (Inr (e, p')) \<Longrightarrow>
     pdepth p' = pdepth p \<and> pdepth p + expr_depth e \<le> MaxRecursionDepth"
  "parseFunctionCall n G p = Some (Inr (e, p')) \<Longrightarrow> pdepth p \<le> MaxRecursionDepth \<Longrightarrow>
     pdepth p' = pdepth p \<and> pdepth p + expr_depth e \<le> Suc MaxRecursionDepth"
  "parseArgs n G p as = Some (Inr (es, p')) \<Longrightarrow> \<forall>a \<in> set as. pdepth p + expr_depth a \<le> MaxRecursionDepth \<Longrightarrow>
     pdepth p' = pdepth p \<and> (\<forall>a \<in> set es. pdepth p + expr_depth a \<le> MaxRecursionDepth)"
proof (induction n G p and n G p and n G p as arbitrary: e p' and e p' and es p'
    rule: parseExpression_parseFunctionCall_parseArgs.induct)
  case (2 n G p0)
  let ?p = "p0\<lparr>pdepth := pdepth p0 + 1\<rparr>"
  have d: "pdepth ?p \<le> MaxRecursionDepth"
    using "2.prems" by (rule_tac ccontr) (simp add: Let_def)
  let ?R = "case ttype (pcurrent ?p) of
             TokenIdent \<Rightarrow> parseFunctionCall n G ?p
           | TokenAt \<Rightarrow> Some (parseVariable G ?p)
           | TokenString \<Rightarrow> Some (parseString G ?p)
           | TokenNumber \<Rightarrow> Some (parseNumber G ?p)
           | TokenTrue \<Rightarrow> Some (parseBool G ?p)
           | TokenFalse \<Rightarrow> Some (parseBool G ?p)
           | TokenError \<Rightarrow> Some (Inl (perror ?p (tvalue (pcurrent ?p))))
           | _ \<Rightarrow> Some (Inl (perror ?p (''unexpected token '' @ [CHR 0x27] @ tvalue (pcurrent ?p) @ [CHR 0x27])))"
  have "leave ?R = Some (Inr (e, p'))"
    using "2.prems" d unfolding parseExpression.simps(2) Let_def by simp
  then obtain q where q: "p' = q\<lparr>pdepth := pdepth q - 1\<rparr>" and r: "?R = Some (Inr (e, q))"
    unfolding leave_Inr by blast
  have "pdepth q = pdepth ?p \<and> pdepth ?p + expr_depth e \<le> Suc MaxRecursionDepth"
  proof (cases "ttype (pcurrent ?p) = TokenIdent")
    case True
    with r have "parseFunctionCall n G ?p = Some (Inr (e, q))" by simp
    moreover from d have nd: "\<not> MaxRecursionDepth < pdepth ?p" by simp
    ultimately show ?thesis using "2.IH" [OF refl nd True] d by blast
  next
    case False
    with r d simple_parsers_depth [of G ?p e q] show ?thesis
      by (auto split: token_type.splits)
  qed
  with q show ?case by auto
next
  case (4 n G p)
  let ?p1 = "padvance G p"
  let ?p2 = "padvance G ?p1"
  from "4.prems"(1) obtain as p3 where
    a: "(if ttype (pcurrent ?p2) \<noteq> TokenRParen then parseArgs n G ?p2 [] else Some (Inr ([], ?p2))) = Some (Inr (as, p3))"
    and ex: "expect G p3 TokenRParen = Inr p'" and e: "e = FunctionCall (tpos (pcurrent p)) (tvalue (pcurrent p)) as"
    and lp: "ttype (pcurrent ?p1) = TokenLParen"
    by (auto simp: Let_def split: if_splits option.splits sum.splits)
  have "pdepth p3 = pdepth ?p2 \<and> (\<forall>a \<in> set as. pdepth ?p2 + expr_depth a \<le> MaxRecursionDepth)"
  proof (cases "ttype (pcurrent ?p2) \<noteq> TokenRParen")
    case True
    with a have "parseArgs n G ?p2 [] = Some (Inr (as, p3))" by simp
    from "4.IH" [OF refl refl refl _ refl True this] lp show ?thesis by simp
  qed (use a in auto)
  then have "pdepth p3 = pdepth p" and "\<forall>a \<in> set as. expr_depth a \<le> MaxRecursionDepth - pdepth p"
    by (auto simp: padvance_fields)
  with ex e "4.prems"(2) expr_depth_call_le [of "tpos (pcurrent p)" "tvalue (pcurrent p)" as "MaxRecursionDepth - pdepth p"]
  show ?case
    by (auto simp: expect_def padvance_fields split: if_splits)
next
  case (6 n G p as)
  from "6.prems" obtain a p1 where a: "parseExpression n G p = Some (Inr (a, p1))"
    by (auto split: option.splits sum.splits)
  with "6.IH"(1) have p1: "pdepth p1 = pdepth p" "pdepth p + expr_depth a \<le> MaxRecursionDepth" by blast+
  show ?case
  proof (cases "ttype (pcurrent p1) = TokenComma")
    case True
    with "6.prems" a have "parseArgs n G (padvance G p1) (as @ [a]) = Some (Inr (es, p'))" by simp
    from "6.IH"(2) [OF a refl refl True this] p1 "6.prems"(2) show ?thesis by (auto simp: padvance_fields)
  next
    case False
    with "6.prems" a p1 show ?thesis by auto
  qed
qed simp_all

lemma Parse_depth:
  assumes "Parse G input = Some (Inr e)"
  shows "expr_depth e \<le> MaxRecursionDepth"
proof -
  from assms obtain p p' where "NewParser G input = Inr p"
      and e: "parseExpression (parse_fuel input) G p = Some (Inr (e, p'))"
    by (auto simp: Parse_def parse_all_def split: sum.splits option.splits if_splits)
  from parse_depth(1) [OF e] show ?thesis by simp
qed

section \<open>Printing and parsing\<close>

fun print_expr :: "expr \<Rightarrow> string" where
  "print_expr (StringLiteral _ s _) = [CHR 0x27] @ raw_quote s @ [CHR 0x27]"
| "print_expr (NumberLiteral _ _ raw _) = raw"
| "print_expr (BoolLiteral _ b) = (if b then ''true'' else ''false'')"
| "print_expr (Variable _ name) = CHR ''@'' # name"
| "print_expr (FunctionCall _ f args) = f @ ''('' @ join_with '','' (map print_expr args) @ '')''"

definition origin :: position where
  "origin = \<lparr>Line = 0, Column = 0, Offset = 0\<rparr>"

text \<open>An expression without its source positions.\<close>

fun erase :: "expr \<Rightarrow> expr" where
  "erase (StringLiteral _ s b) = StringLiteral origin s b"
| "erase (NumberLiteral _ v raw u) = NumberLiteral origin v raw u"
| "erase (BoolLiteral _ b) = BoolLiteral origin b"
| "erase (Variable _ name) = Variable origin name"
| "erase (FunctionCall _ f args) = FunctionCall origin f (map erase args)"

definition valid_ident :: "go_lib \<Rightarrow> string \<Rightarrow> bool" where
  "valid_ident G s \<longleftrightarrow> starts_with (\<lambda>c. is_letter_byte c \<or> c = CHR ''_'') s \<and>
     list_all is_ident_byte s \<and> keyword_type G s = TokenIdent"

text \<open>What the parser can produce: identifiers that are not keywords, numbers as the lexer
  delimits them with the value their text has, strings without the raw mark.\<close>

fun wf_expr :: "go_lib \<Rightarrow> expr \<Rightarrow> bool" where
  "wf_expr G (StringLiteral _ s b) = (\<not> b)"
| "wf_expr G (NumberLiteral _ v raw u) =
     ((\<exists>n. wf_number n \<and> raw = number_text n) \<and> ParseNumberWithUnit G raw = Inr (v, u))"
| "wf_expr G (BoolLiteral _ b) = True"
| "wf_expr G (Variable _ name) = valid_ident G name"
| "wf_expr G (FunctionCall _ f args) = (valid_ident G f \<and> list_all (wf_expr G) args)"

definition follow :: "string \<Rightarrow> bool" where
  "follow r \<longleftrightarrow> r = [] \<or> starts_with (\<lambda>c. c = CHR '','' \<or> c = CHR '')'') r"

lemma follow_facts:
  assumes "follow r"
  shows "\<not> starts_with is_ident_byte r" and "\<not> starts_with (\<lambda>c. c = CHR 0x27) r"
    and "\<not> starts_with (\<lambda>c. is_digit_byte c \<or> is_letter_byte c \<or> c = CHR ''.'') r"
  using assms by (cases r; auto simp: follow_def is_ident_byte_def is_letter_byte_def is_digit_byte_def)+

text \<open>A parser whose lookahead token is the first token of \<open>s\<close>.\<close>

definition at_text :: "go_lib \<Rightarrow> parser \<Rightarrow> string \<Rightarrow> bool" where
  "at_text G p s \<longleftrightarrow> (\<exists>l. rest l = s \<and> pcurrent p = fst (NextToken G l) \<and> plexer p = snd (NextToken G l))"

lemma at_text_depth [simp]: "at_text G (p\<lparr>pdepth := d\<rparr>) s = at_text G p s"
  by (simp add: at_text_def)

lemma at_text_token:
  assumes "at_text G p s" and "\<And>l. rest l = s \<Longrightarrow> lexes G l ty v r"
  shows "ttype (pcurrent p) = ty" "tvalue (pcurrent p) = v" "at_text G (padvance G p) r"
proof -
  from assms(1) obtain l where l: "rest l = s" "pcurrent p = fst (NextToken G l)" "plexer p = snd (NextToken G l)"
    unfolding at_text_def by blast
  from assms(2) [OF l(1)] have "ttype (pcurrent p) = ty \<and> tvalue (pcurrent p) = v \<and> rest (plexer p) = r"
    using l by (simp add: lexes_def case_prod_beta Let_def)
  then show "ttype (pcurrent p) = ty" "tvalue (pcurrent p) = v" "at_text G (padvance G p) r"
    by (auto simp: at_text_def padvance_fields)
qed

lemma no_ws_prefix: "s \<noteq> [] \<Longrightarrow> \<not> is_ws (hd s) \<Longrightarrow> dropWhile is_ws (s @ r) = s @ r"
  by (cases s) auto

lemma ident_not_ws: "is_letter_byte c \<or> c = CHR ''_'' \<Longrightarrow> \<not> is_ws c"
  by (auto simp: is_ws_def is_letter_byte_def)

lemma at_text_ident:
  assumes "at_text G p (f @ r)" "starts_with (\<lambda>c. is_letter_byte c \<or> c = CHR ''_'') f"
    "list_all is_ident_byte f" "\<not> starts_with is_ident_byte r"
  shows "ttype (pcurrent p) = keyword_type G f" "tvalue (pcurrent p) = f" "at_text G (padvance G p) r"
proof -
  from assms(2) obtain c s where f: "f = c # s" "is_letter_byte c \<or> c = CHR ''_''"
    by (cases f) auto
  have "lexes G l (keyword_type G f) f r" if "rest l = f @ r" for l
    using that f assms lexes_ident [of l c s r G] ident_not_ws [of c] by simp
  with assms(1) show "ttype (pcurrent p) = keyword_type G f" "tvalue (pcurrent p) = f"
    "at_text G (padvance G p) r" by (blast dest: at_text_token)+
qed

lemma at_text_punct:
  "at_text G p (CHR ''('' # r) \<Longrightarrow> ttype (pcurrent p) = TokenLParen \<and> at_text G (padvance G p) r"
  "at_text G p (CHR '')'' # r) \<Longrightarrow> ttype (pcurrent p) = TokenRParen \<and> at_text G (padvance G p) r"
  "at_text G p (CHR '','' # r) \<Longrightarrow> ttype (pcurrent p) = TokenComma \<and> at_text G (padvance G p) r"
  "at_text G p (CHR ''@'' # r) \<Longrightarrow> ttype (pcurrent p) = TokenAt \<and> at_text G (padvance G p) r"
  using at_text_token [of G p _ TokenLParen "''(''" r] lexes_punct(1) [of _ r G]
    at_text_token [of G p _ TokenRParen "'')''" r] lexes_punct(2) [of _ r G]
    at_text_token [of G p _ TokenComma "'',''" r] lexes_punct(3) [of _ r G]
    at_text_token [of G p _ TokenAt "''@''" r] lexes_punct(4) [of _ r G]
  by (simp_all add: is_ws_def)

definition parses :: "go_lib \<Rightarrow> expr \<Rightarrow> bool" where
  "parses G e \<longleftrightarrow> (\<forall>n p r. parseExpression n G p \<noteq> None \<longrightarrow> at_text G p (print_expr e @ r) \<longrightarrow> follow r \<longrightarrow>
     pdepth p + expr_depth e \<le> MaxRecursionDepth \<longrightarrow>
     (\<exists>e' p'. parseExpression n G p = Some (Inr (e', p')) \<and> erase e' = erase e \<and> at_text G p' r \<and> pdepth p' = pdepth p))"

lemma parsesD:
  assumes "parses G e" "parseExpression n G p \<noteq> None" "at_text G p (print_expr e @ r)" "follow r"
    "pdepth p + expr_depth e \<le> MaxRecursionDepth"
  obtains e' p' where "parseExpression n G p = Some (Inr (e', p'))" "erase e' = erase e"
    "at_text G p' r" "pdepth p' = pdepth p"
  using assms unfolding parses_def by blast

lemma parses_args:
  assumes "\<forall>a \<in> set args. parses G a" "args \<noteq> []" "parseArgs n G p acc \<noteq> None"
    "at_text G p (join_with '','' (map print_expr args) @ CHR '')'' # r)"
    "\<forall>a \<in> set args. pdepth p + expr_depth a \<le> MaxRecursionDepth"
  shows "\<exists>es p'. parseArgs n G p acc = Some (Inr (acc @ es, p')) \<and> map erase es = map erase args \<and>
     at_text G p' (CHR '')'' # r) \<and> pdepth p' = pdepth p"
  using assms
proof (induction args arbitrary: n p acc)
  case (Cons a args)
  from Cons.prems(3) obtain k where n: "n = Suc k" by (cases n) auto
  have ne: "parseExpression k G p \<noteq> None"
    using Cons.prems(3) n by (cases "parseExpression k G p") simp_all
  show ?case
  proof (cases args)
    case Nil
    with Cons.prems have t: "at_text G p (print_expr a @ CHR '')'' # r)" by simp
    obtain e' p' where e: "parseExpression k G p = Some (Inr (e', p'))" "erase e' = erase a"
        "at_text G p' (CHR '')'' # r)" "pdepth p' = pdepth p"
      by (rule parsesD [of G a k p "CHR '')'' # r"]) (use Cons.prems ne t in \<open>auto simp: follow_def\<close>)
    then have "parseArgs n G p acc = Some (Inr (acc @ [e'], p'))"
      using n at_text_punct(2) [OF e(3)] by simp
    with e Nil show ?thesis by auto
  next
    case (Cons b bs)
    let ?r = "join_with '','' (map print_expr args) @ CHR '')'' # r"
    have t: "at_text G p (print_expr a @ CHR '','' # ?r)" using Cons.prems(4) Cons by simp
    obtain e' p' where e: "parseExpression k G p = Some (Inr (e', p'))" "erase e' = erase a"
        "at_text G p' (CHR '','' # ?r)" "pdepth p' = pdepth p"
      by (rule parsesD [of G a k p "CHR '','' # ?r"]) (use Cons.prems ne t in \<open>auto simp: follow_def\<close>)
    from at_text_punct(3) [OF e(3)] have c: "ttype (pcurrent p') = TokenComma" "at_text G (padvance G p') ?r"
      by auto
    have "parseArgs n G p acc = parseArgs k G (padvance G p') (acc @ [e'])" using n e c by simp
    moreover have "\<exists>es q. parseArgs k G (padvance G p') (acc @ [e']) = Some (Inr ((acc @ [e']) @ es, q)) \<and>
        map erase es = map erase args \<and> at_text G q (CHR '')'' # r) \<and> pdepth q = pdepth (padvance G p')"
    proof (rule Cons.IH)
      show "parseArgs k G (padvance G p') (acc @ [e']) \<noteq> None"
        using calculation Cons.prems(3) by simp
    qed (use Cons.prems c e local.Cons in \<open>auto simp: padvance_fields\<close>)
    ultimately show ?thesis using e by (fastforce simp: padvance_fields)
  qed
qed simp

text \<open>One level of \<^const>\<open>parseExpression\<close> on each kind of token.\<close>

lemma parseExpression_token:
  assumes "parseExpression n G p \<noteq> None" "pdepth p < MaxRecursionDepth"
  shows "ttype (pcurrent p) = TokenIdent \<Longrightarrow>
      parseExpression n G p = leave (parseFunctionCall (n - 1) G (p\<lparr>pdepth := pdepth p + 1\<rparr>))"
    and "ttype (pcurrent p) = TokenAt \<Longrightarrow>
      parseExpression n G p = leave (Some (parseVariable G (p\<lparr>pdepth := pdepth p + 1\<rparr>)))"
    and "ttype (pcurrent p) = TokenString \<Longrightarrow>
      parseExpression n G p = leave (Some (parseString G (p\<lparr>pdepth := pdepth p + 1\<rparr>)))"
    and "ttype (pcurrent p) = TokenNumber \<Longrightarrow>
      parseExpression n G p = leave (Some (parseNumber G (p\<lparr>pdepth := pdepth p + 1\<rparr>)))"
    and "ttype (pcurrent p) \<in> {TokenTrue, TokenFalse} \<Longrightarrow>
      parseExpression n G p = leave (Some (parseBool G (p\<lparr>pdepth := pdepth p + 1\<rparr>)))"
  using assms by (cases n; auto simp: Let_def)+

lemma padvance_depth: "padvance G (p\<lparr>pdepth := d\<rparr>) = (padvance G p)\<lparr>pdepth := d\<rparr>"
  by (simp add: padvance_def split: prod.split)

lemma at_text_padvance_depth [simp]:
  "at_text G (padvance G (p\<lparr>pdepth := d\<rparr>)) s = at_text G (padvance G p) s"
  by (simp add: padvance_depth)

lemma to_lower_keywords: "to_lower G ''true'' = ''true''" "to_lower G ''false'' = ''false''"
  by (simp_all add: to_lower_def all_ascii_def is_ascii_byte_def ascii_lower_def)

text \<open>To show \<^const>\<open>parses\<close> it is enough to run one level on a parser at the text.\<close>

lemma parsesI:
  assumes "\<And>n p r. parseExpression n G p \<noteq> None \<Longrightarrow> at_text G p (print_expr e @ r) \<Longrightarrow> follow r \<Longrightarrow>
      pdepth p < MaxRecursionDepth \<Longrightarrow> pdepth p + expr_depth e \<le> MaxRecursionDepth \<Longrightarrow>
      \<exists>e' p'. parseExpression n G p = Some (Inr (e', p')) \<and> erase e' = erase e \<and>
        at_text G p' r \<and> pdepth p' = pdepth p"
  shows "parses G e"
  unfolding parses_def
proof (intro allI impI)
  fix n p r
  assume p: "parseExpression n G p \<noteq> None" "at_text G p (print_expr e @ r)" "follow r"
    "pdepth p + expr_depth e \<le> MaxRecursionDepth"
  have "0 < expr_depth e" by (cases e) (simp_all add: expr_depth.simps(1))
  with p(4) have "pdepth p < MaxRecursionDepth" by simp
  from assms [OF p(1-3) this p(4)] show "\<exists>e' p'. parseExpression n G p = Some (Inr (e', p')) \<and>
      erase e' = erase e \<and> at_text G p' r \<and> pdepth p' = pdepth p"
    by blast
qed

lemma parses_string: "parses G (StringLiteral q s False)"
proof (rule parsesI)
  fix n p r
  assume p: "parseExpression n G p \<noteq> None" "at_text G p (print_expr (StringLiteral q s False) @ r)"
    "follow r" "pdepth p < MaxRecursionDepth"
  have lx: "lexes G l TokenString s r" if "rest l = CHR 0x27 # raw_quote s @ CHR 0x27 # r" for l
    using that lexes_raw [of l s r G] follow_facts(2) [OF p(3)] by (simp add: is_ws_def)
  from p(2) have "at_text G p (CHR 0x27 # raw_quote s @ CHR 0x27 # r)" by simp
  note t = at_text_token [OF this lx]
  with parseExpression_token(3) [OF p(1,4)]
  show "\<exists>e' p'. parseExpression n G p = Some (Inr (e', p')) \<and>
      erase e' = erase (StringLiteral q s False) \<and> at_text G p' r \<and> pdepth p' = pdepth p"
    by (simp add: parseString_def leave_def padvance_depth padvance_fields)
qed

lemma number_text_no_ws: "wf_number m \<Longrightarrow> number_text m \<noteq> [] \<and> \<not> is_ws (hd (number_text m))"
  by (cases "np_int m"; cases "np_neg m"; cases "np_frac m")
    (auto simp: wf_number_def number_text_def is_ws_def is_digit_byte_def)

lemma parses_number:
  assumes m: "wf_number m" "ParseNumberWithUnit G (number_text m) = Inr (v, u)"
  shows "parses G (NumberLiteral q v (number_text m) u)"
proof (rule parsesI)
  fix n p r
  assume p: "parseExpression n G p \<noteq> None"
    "at_text G p (print_expr (NumberLiteral q v (number_text m) u) @ r)" "follow r" "pdepth p < MaxRecursionDepth"
  have lx: "lexes G l TokenNumber (number_text m) r" if "rest l = number_text m @ r" for l
    using that lexes_number [of l m r G] m follow_facts(3) [OF p(3)] number_text_no_ws [OF m(1)]
    by (simp add: no_ws_prefix)
  from p(2) have "at_text G p (number_text m @ r)" by simp
  note t = at_text_token [OF this lx]
  with m parseExpression_token(4) [OF p(1,4)]
  show "\<exists>e' p'. parseExpression n G p = Some (Inr (e', p')) \<and>
      erase e' = erase (NumberLiteral q v (number_text m) u) \<and> at_text G p' r \<and> pdepth p' = pdepth p"
    by (simp add: parseNumber_def leave_def padvance_depth padvance_fields)
qed

lemma parses_bool: "parses G (BoolLiteral q b)"
proof (rule parsesI)
  fix n p r
  assume p: "parseExpression n G p \<noteq> None" "at_text G p (print_expr (BoolLiteral q b) @ r)"
    "follow r" "pdepth p < MaxRecursionDepth"
  from p(2) have "at_text G p ((if b then ''true'' else ''false'') @ r)" by simp
  from at_text_ident [OF this _ _ follow_facts(1) [OF p(3)]]
  have "ttype (pcurrent p) = (if b then TokenTrue else TokenFalse)" "at_text G (padvance G p) r"
    by (cases b; simp add: keyword_type_def to_lower_keywords is_ident_byte_def is_letter_byte_def)+
  with parseExpression_token(5) [OF p(1,4)]
  show "\<exists>e' p'. parseExpression n G p = Some (Inr (e', p')) \<and>
      erase e' = erase (BoolLiteral q b) \<and> at_text G p' r \<and> pdepth p' = pdepth p"
    by (cases b) (simp_all add: parseBool_def leave_def padvance_depth padvance_fields)
qed

lemma parses_variable:
  assumes "valid_ident G name"
  shows "parses G (Variable q name)"
proof (rule parsesI)
  fix n p r
  assume p: "parseExpression n G p \<noteq> None" "at_text G p (print_expr (Variable q name) @ r)"
    "follow r" "pdepth p < MaxRecursionDepth"
  from p(2) at_text_punct(4) [of G p "name @ r"]
  have a: "ttype (pcurrent p) = TokenAt" "at_text G (padvance G p) (name @ r)" by auto
  have "ttype (pcurrent (padvance G p)) = TokenIdent" "tvalue (pcurrent (padvance G p)) = name"
      "at_text G (padvance G (padvance G p)) r"
    using at_text_ident [OF a(2) _ _ follow_facts(1) [OF p(3)]] assms by (auto simp: valid_ident_def)
  with a parseExpression_token(2) [OF p(1,4)]
  show "\<exists>e' p'. parseExpression n G p = Some (Inr (e', p')) \<and>
      erase e' = erase (Variable q name) \<and> at_text G p' r \<and> pdepth p' = pdepth p"
    by (simp add: parseVariable_def leave_def padvance_depth padvance_fields Let_def)
qed

lemma parses_not_rparen:
  assumes "parses G a" "at_text G p (print_expr a @ r)" "follow r" "pdepth p + expr_depth a \<le> MaxRecursionDepth"
  shows "ttype (pcurrent p) \<noteq> TokenRParen"
proof
  assume t: "ttype (pcurrent p) = TokenRParen"
  let ?n = "2 * pmeas p + 1"
  have "parseExpression ?n G p \<noteq> None" by (rule parse_enough_fuel) simp
  then obtain e' p' where "parseExpression ?n G p = Some (Inr (e', p'))"
    using assms by (blast elim: parsesD)
  with t show False by (auto simp: Let_def leave_def split: if_splits)
qed

lemma join_first: "\<exists>t. join_with '','' (map print_expr (a # as)) @ CHR '')'' # r = print_expr a @ t \<and> follow t"
  by (cases as) (auto simp: follow_def)

lemma parses_arg_list:
  assumes args: "\<forall>a \<in> set args. parses G a" and t: "at_text G p (join_with '','' (map print_expr args) @ CHR '')'' # r)"
    and d: "\<forall>a \<in> set args. pdepth p + expr_depth a \<le> MaxRecursionDepth"
    and ne: "(if ttype (pcurrent p) \<noteq> TokenRParen then parseArgs k G p [] else Some (Inr ([], p))) \<noteq> None"
  shows "\<exists>es p'. (if ttype (pcurrent p) \<noteq> TokenRParen then parseArgs k G p [] else Some (Inr ([], p))) = Some (Inr (es, p')) \<and>
     map erase es = map erase args \<and> at_text G p' (CHR '')'' # r) \<and> pdepth p' = pdepth p"
proof (cases args)
  case Nil
  with t at_text_punct(2) [of G p r] show ?thesis by simp
next
  case (Cons a as)
  obtain t' where "join_with '','' (map print_expr args) @ CHR '')'' # r = print_expr a @ t'" "follow t'"
    using join_first Cons by metis
  with t args d Cons have "ttype (pcurrent p) \<noteq> TokenRParen"
    by (intro parses_not_rparen [of G a p t']) auto
  with ne Cons args t d parses_args [of args G k p "[]" r] show ?thesis by auto
qed

lemma parseFunctionCall_unfold:
  assumes "ttype (pcurrent (padvance G p)) = TokenLParen" "p2 = padvance G (padvance G p)"
  shows "parseFunctionCall (Suc k) G p =
      (case (if ttype (pcurrent p2) \<noteq> TokenRParen then parseArgs k G p2 [] else Some (Inr ([], p2))) of
          None \<Rightarrow> None | Some (Inl e) \<Rightarrow> Some (Inl e)
        | Some (Inr (as, p3)) \<Rightarrow> (case expect G p3 TokenRParen of Inl e \<Rightarrow> Some (Inl e)
            | Inr p4 \<Rightarrow> Some (Inr (FunctionCall (tpos (pcurrent p)) (tvalue (pcurrent p)) as, p4))))"
  using assms by (simp add: Let_def)

lemma parses_call:
  assumes f: "valid_ident G f" and args: "\<forall>a \<in> set args. parses G a"
  shows "parses G (FunctionCall q f args)"
proof (rule parsesI)
  fix n p0 r
  assume p: "parseExpression n G p0 \<noteq> None" "at_text G p0 (print_expr (FunctionCall q f args) @ r)"
    "follow r" "pdepth p0 < MaxRecursionDepth"
    and d: "pdepth p0 + expr_depth (FunctionCall q f args) \<le> MaxRecursionDepth"
  define p1 where "p1 = p0\<lparr>pdepth := Suc (pdepth p0)\<rparr>"
  define p2 where "p2 = padvance G (padvance G p1)"
  let ?j = "join_with '','' (map print_expr args)"
  have "at_text G p1 (f @ CHR ''('' # ?j @ CHR '')'' # r)" using p(2) by (simp add: p1_def)
  from at_text_ident [OF this] f have t: "ttype (pcurrent p0) = TokenIdent" "tvalue (pcurrent p1) = f"
      "at_text G (padvance G p1) (CHR ''('' # ?j @ CHR '')'' # r)"
    by (auto simp: valid_ident_def is_ident_byte_def is_letter_byte_def is_digit_byte_def p1_def)
  from at_text_punct(1) [OF t(3)] have lp: "ttype (pcurrent (padvance G p1)) = TokenLParen"
    and t2: "at_text G p2 (?j @ CHR '')'' # r)" by (auto simp: p2_def)
  have d2: "pdepth p2 = Suc (pdepth p0)" by (simp add: p1_def p2_def padvance_fields)
  have dargs: "\<forall>a \<in> set args. pdepth p2 + expr_depth a \<le> MaxRecursionDepth"
    using d d2 p(4) expr_depth_call_le [of q f args "MaxRecursionDepth - Suc (pdepth p0)"] by fastforce
  have call: "parseExpression n G p0 = leave (parseFunctionCall (n - 1) G p1)"
    using parseExpression_token(1) [OF p(1,4) t(1)] by (simp add: p1_def)
  with p(1) have nf: "parseFunctionCall (n - 1) G p1 \<noteq> None" by (metis leave_None)
  then obtain k where k: "n - 1 = Suc k" by (cases "n - 1") auto
  let ?A = "if ttype (pcurrent p2) \<noteq> TokenRParen then parseArgs k G p2 [] else Some (Inr ([], p2))"
  note fc = parseFunctionCall_unfold [OF lp p2_def, of k]
  have "?A \<noteq> None" using nf unfolding k fc by (cases ?A) auto
  from parses_arg_list [OF args t2 dargs this] obtain es p3 where A: "?A = Some (Inr (es, p3))"
      "map erase es = map erase args" "at_text G p3 (CHR '')'' # r)" "pdepth p3 = pdepth p2" by blast
  with at_text_punct(2) [OF A(3)] have "expect G p3 TokenRParen = Inr (padvance G p3)"
      "at_text G (padvance G p3) r" by (auto simp: expect_def)
  with A(2,4) d2 t(2) show "\<exists>e' p'. parseExpression n G p0 = Some (Inr (e', p')) \<and>
      erase e' = erase (FunctionCall q f args) \<and> at_text G p' r \<and> pdepth p' = pdepth p0"
    unfolding call k fc A(1) by (simp add: leave_def padvance_fields)
qed

lemma wf_expr_parses: "wf_expr G e \<Longrightarrow> parses G e"
  by (induction e)
    (auto simp: parses_string parses_number parses_bool parses_variable list_all_iff intro: parses_call)

lemma Parse_print_expr:
  assumes wf: "wf_expr G e" and d: "expr_depth e \<le> MaxRecursionDepth"
    and len: "length (print_expr e) \<le> MaxInputSize"
  shows "\<exists>e'. Parse G (print_expr e) = Some (Inr e') \<and> erase e' = erase e"
proof -
  let ?l = "\<lparr>linput = print_expr e, lpos = 0, lline = 1, lcolumn = 1, lstart = 0\<rparr>"
  from len obtain p where p: "NewParser G (print_expr e) = Inr p" "pdepth p = 0"
      "pcurrent p = fst (NextToken G ?l)" "plexer p = snd (NextToken G ?l)"
    by (auto simp: NewParser_def NewLexer_def padvance_fields)
  then have t: "at_text G p (print_expr e @ [])" by (auto simp: at_text_def rest_def intro!: exI [of _ ?l])
  let ?n = "parse_fuel (print_expr e)"
  have "2 * pmeas p + 1 \<le> ?n" using NewParser_pmeas [OF p(1)] by (simp add: parse_fuel_def)
  then have "parseExpression ?n G p \<noteq> None" by (rule parse_enough_fuel)
  then obtain e' p' where e: "parseExpression ?n G p = Some (Inr (e', p'))" "erase e' = erase e" "at_text G p' []"
    using d p(2) by (elim parsesD [OF wf_expr_parses [OF wf] _ t]) (simp_all add: follow_def)
  then have "ttype (pcurrent p') = TokenEOF"
    using at_text_token(1) [OF e(3), of TokenEOF "[]" "[]"] lexes_EOF by simp
  with e p(1) show ?thesis by (auto simp: Parse_def parse_all_def)
qed

section \<open>Sizes written in decimal with a unit are exact\<close>

lemma show_nat_takeWhile:
  assumes "\<not> starts_with p r" "\<And>c. is_digit_byte c \<Longrightarrow> p c"
  shows "takeWhile p (show_nat n @ r) = show_nat n" "dropWhile p (show_nat n @ r) = r"
  using assms show_nat_digits [of n]
  by (auto intro!: takeWhile_prefix dropWhile_prefix elim: list.pred_mono_strong)

lemma show_nat_head: "\<exists>c s. show_nat n = c # s \<and> is_digit_byte c"
  using show_nat_digits [of n] show_nat_nonempty [of n] by (cases "show_nat n") auto

lemma parse_float_show_nat:
  assumes "n < 2 ^ 53"
  shows "parse_float (show_nat n) = Some (float_of_nat n)"
proof -
  obtain c s where c: "show_nat n = c # s" "is_digit_byte c" using show_nat_head by blast
  then have st: "\<not> starts_with (\<lambda>c. c = CHR ''-'') (show_nat n)"
      "\<not> starts_with (\<lambda>c. c = CHR ''-'' \<or> c = CHR ''+'') (show_nat n)"
    by (auto simp: is_digit_byte_def)
  have tw: "takeWhile is_digit_byte (show_nat n) = show_nat n" "dropWhile is_digit_byte (show_nat n) = []"
    using show_nat_takeWhile [of is_digit_byte "[]" n] by simp_all
  have "float_of_parts False (show_nat n) [] = Some (float_of_nat n)"
    using fval_float_of_nat(1) [OF assms]
    by (cases "float_of_nat n") (simp_all add: float_of_parts_def float_of_nat_def)
  then show ?thesis unfolding parse_float_def Let_def by (simp only: st tw if_False) (use tw in simp)
qed

lemma letters_trim:
  assumes "list_all is_letter_byte u" "all_ascii u"
  shows "trim_space G u = u"
proof -
  have ns: "list_all (\<lambda>c. \<not> is_ascii_space c) u"
    using assms(1) by (rule list.pred_mono_strong) (auto simp: is_letter_byte_def is_ascii_space_def Let_def)
  then have "dropWhile is_ascii_space u = u" "dropWhile is_ascii_space (rev u) = rev u"
    by (cases u, auto simp: list_all_iff, cases "rev u", auto simp: list_all_iff)
  with assms(2) show ?thesis by (simp add: trim_space_def)
qed

lemma unit_below: "unitMultipliers u = Some k \<Longrightarrow> 0 < k \<and> k < 2 ^ 53"
  by (auto simp: unitMultipliers_def unit_defs split: if_splits)

lemma ParseNumberWithUnit_exact:
  assumes u: "list_all is_letter_byte u" "all_ascii u" "u \<noteq> []" and k: "unitMultipliers (to_upper G u) = Some k"
    and b: "n * k < 2 ^ 53"
  shows "ParseNumberWithUnit G (show_nat n @ u) = Inr (float_of_nat (n * k), u)"
proof -
  have "\<not> starts_with is_num_byte u"
    using u by (cases u) (auto simp: is_num_byte_def dest: letter_byte_facts, simp add: is_letter_byte_def)
  then have tw: "takeWhile is_num_byte (show_nat n @ u) = show_nat n" "dropWhile is_num_byte (show_nat n @ u) = u"
    using show_nat_takeWhile [of is_num_byte u n] by (auto simp: is_num_byte_def)
  from unit_below [OF k] have k': "0 < k" "k < 2 ^ 53" by auto
  have "n \<le> n * k" using k' by simp
  from this b have n: "n < 2 ^ 53" by (rule le_less_trans)
  show ?thesis
    using u k tw letters_trim [OF u(1,2)] parse_float_show_nat [OF n] float_mul_of_nat [OF n k'(2) b]
    by (simp add: ParseNumberWithUnit_def Let_def)
qed

definition size_parts :: "nat \<Rightarrow> string \<Rightarrow> number_parts" where
  "size_parts n u = \<lparr>np_neg = False, np_int = show_nat n, np_frac = None, np_unit = u\<rparr>"

lemma size_parts_text: "number_text (size_parts n u) = show_nat n @ u"
  by (simp add: number_text_def size_parts_def)

lemma size_parts_wf: "list_all is_letter_byte u \<Longrightarrow> wf_number (size_parts n u)"
  by (simp add: wf_number_def size_parts_def show_nat_digits)

section \<open>Properties\<close>

text \<open>C38 (termination). Parsing any input returns: it ends with an error or with an expression
  whose calls are nested at most \<open>MaxRecursionDepth\<close> deep, and only inputs within the size limit
  are accepted.\<close>

theorem Parse_total:
  "case Parse G input of
     None \<Rightarrow> False
   | Some (Inl _) \<Rightarrow> True
   | Some (Inr e) \<Rightarrow> expr_depth e \<le> MaxRecursionDepth \<and> length input \<le> MaxInputSize"
proof -
  obtain r where r: "Parse G input = Some r" using Parse_returns by blast
  have "r = Inr e \<Longrightarrow> length input \<le> MaxInputSize" for e
    using r by (auto simp: Parse_def NewParser_def NewLexer_def split: if_splits)
  with r show ?thesis using Parse_depth by (cases r) auto
qed

text \<open>C39 (round trip). An expression as the parser builds them, within the nesting and size
  limits, is parsed back from its printed form: same functions, variables, literals and argument
  order, only source positions aside.\<close>

theorem parse_print_roundtrip:
  assumes "wf_expr G e" "expr_depth e \<le> MaxRecursionDepth" "length (print_expr e) \<le> MaxInputSize"
  shows "\<exists>e'. Parse G (print_expr e) = Some (Inr e') \<and> erase e' = erase e"
  using assms by (rule Parse_print_expr)

definition sample_query :: expr where
  "sample_query = FunctionCall origin ''and''
     [FunctionCall origin ''eq'' [Variable origin ''vendor'', StringLiteral origin ''ATA disk'' False],
      FunctionCall origin ''not'' [BoolLiteral origin False]]"

theorem parse_print_roundtrip_witness:
  "\<exists>e'. Parse plain_lib (print_expr sample_query) = Some (Inr e') \<and> erase e' = sample_query"
proof -
  have "wf_expr plain_lib sample_query" "expr_depth sample_query \<le> MaxRecursionDepth"
    "length (print_expr sample_query) \<le> MaxInputSize" "erase sample_query = sample_query"
    by (simp_all add: sample_query_def valid_ident_def keyword_type_def to_lower_def all_ascii_def
        is_ascii_byte_def is_letter_byte_def is_ident_byte_def is_digit_byte_def ascii_lower_def
        MaxRecursionDepth_def MaxInputSize_def raw_quote_def expr_depth.simps)
  then show ?thesis using parse_print_roundtrip [of plain_lib sample_query] by simp
qed

end
