(* ===== verification/Disk_Types.thy ===== *)
theory Disk_Types
  imports MC_Prelude "HOL-Library.Word"
begin

text \<open>
  Disks as the storage inventory reports them and the rule that selects the disks an OSD may be
  created on (\<^verbatim>\<open>common/storage.go\<close>). Of the inventory's structures the records hold
  the fields that the program reads. Sizes and partition numbers are 64-bit unsigned.
\<close>

type_synonym u64 = "64 word"

record partition =
  part_ID :: string
  part_Size :: u64
  part_Partition :: u64
  part_Device :: string

record disk =
  disk_ID :: string
  disk_Model :: string
  disk_Type :: string
  disk_Size :: u64
  disk_ReadOnly :: bool
  disk_DeviceID :: string
  disk_DevicePath :: string
  disk_Partitions :: "partition list"
  disk_Device :: string

text \<open>A configured OSD: \<^verbatim>\<open>types.Disk\<close>.\<close>

record configured_disk =
  cd_OSD :: int
  cd_Path :: string
  cd_Location :: string

definition DevicePathPrefix :: string where
  "DevicePathPrefix = ''/dev/disk/by-id/''"

definition MinOSDSize :: u64 where
  "MinOSDSize = 2147483648"

definition GetDevicePath :: "disk \<Rightarrow> string" where
  "GetDevicePath d =
     (if 0 < length (disk_DeviceID d) then DevicePathPrefix @ disk_DeviceID d
      else if 0 < length (disk_DevicePath d) then ''/dev/disk/by-path/'' @ disk_DevicePath d
      else ''/dev/'' @ disk_ID d)"

text \<open>What the program asks the host: the mount table and the device links of existing OSDs,
  each of which can fail.\<close>

record host_probe =
  IsMounted :: "string \<Rightarrow> string + bool"
  IsCephDevice :: "string \<Rightarrow> string + bool"

definition configured_on_host :: "configured_disk list \<Rightarrow> string \<Rightarrow> string \<Rightarrow> bool" where
  "configured_on_host configured hostname path \<longleftrightarrow>
     list_ex (\<lambda>c. cd_Location c = hostname \<and> cd_Path c = path) configured"

text \<open>One iteration of the loop in \<^verbatim>\<open>FilterAvailableDisks\<close>: whether the disk is kept.\<close>

definition disk_available :: "host_probe \<Rightarrow> configured_disk list \<Rightarrow> string \<Rightarrow> disk \<Rightarrow> bool" where
  "disk_available P configured hostname d =
     (if disk_ReadOnly d then False
      else if 0 < length (disk_Partitions d) then False
      else if disk_Size d < MinOSDSize then False
      else let path = GetDevicePath d in
        if configured_on_host configured hostname path then False
        else case IsMounted P path of
               Inl _ \<Rightarrow> False
             | Inr mounted \<Rightarrow>
                 if mounted then False
                 else case IsCephDevice P path of
                        Inl _ \<Rightarrow> False
                      | Inr ceph \<Rightarrow> \<not> ceph)"

definition FilterAvailableDisks ::
    "host_probe \<Rightarrow> string + string \<Rightarrow> disk list \<Rightarrow> configured_disk list \<Rightarrow> string + disk list" where
  "FilterAvailableDisks P hostname disks configured =
     (case hostname of
        Inl e \<Rightarrow> Inl (''failed to get hostname: '' @ e)
      | Inr h \<Rightarrow> Inr (filter (disk_available P configured h) disks))"

lemma disk_availableD:
  assumes "disk_available P configured h d"
  shows "\<not> disk_ReadOnly d" "disk_Partitions d = []" "MinOSDSize \<le> disk_Size d"
    "\<not> configured_on_host configured h (GetDevicePath d)"
    "IsMounted P (GetDevicePath d) = Inr False" "IsCephDevice P (GetDevicePath d) = Inr False"
  using assms
  by (auto simp: disk_available_def Let_def split: if_splits sum.splits)

lemma disk_available_iff:
  "disk_available P configured h d \<longleftrightarrow>
     \<not> disk_ReadOnly d \<and> disk_Partitions d = [] \<and> MinOSDSize \<le> disk_Size d \<and>
     \<not> configured_on_host configured h (GetDevicePath d) \<and>
     IsMounted P (GetDevicePath d) = Inr False \<and> IsCephDevice P (GetDevicePath d) = Inr False"
  by (auto simp: disk_available_def Let_def split: if_splits sum.splits)

end
