(* ===== verification/DSL_Eval.thy ===== *)
theory DSL_Eval
  imports DSL_Parser Disk_Types
begin

text \<open>
  Evaluation of the disk matching language: device variables and runtime values
  (\<^verbatim>\<open>dsl/vars.go\<close>), the evaluator (\<^verbatim>\<open>dsl/eval.go\<close>) and the
  package interface (\<^verbatim>\<open>dsl/dsl.go\<close>). Each handler of the evaluator takes the
  evaluator for its arguments, so that \<open>Eval\<close> ties the recursion over the syntax tree.
  The lemmas give the boolean reading of the connectives, the order behind the comparisons, and
  that a validated expression meets no unknown name at run time.
\<close>

section \<open>Runtime values\<close>

datatype dsl_value = BoolValue bool | StringValue string | NumberValue float64 | NilValue

datatype value_type = ValueTypeNil | ValueTypeBool | ValueTypeString | ValueTypeNumber

fun value_type_String :: "value_type \<Rightarrow> string" where
  "value_type_String ValueTypeNil = ''nil''"
| "value_type_String ValueTypeBool = ''bool''"
| "value_type_String ValueTypeString = ''string''"
| "value_type_String ValueTypeNumber = ''number''"

fun val_Type :: "dsl_value \<Rightarrow> value_type" where
  "val_Type (BoolValue _) = ValueTypeBool"
| "val_Type (StringValue _) = ValueTypeString"
| "val_Type (NumberValue _) = ValueTypeNumber"
| "val_Type NilValue = ValueTypeNil"

definition float_zero :: float64 where
  "float_zero = Fin False 0 0"

fun val_Bool :: "dsl_value \<Rightarrow> bool" where
  "val_Bool (BoolValue b) = b"
| "val_Bool (StringValue s) = (s \<noteq> '''')"
| "val_Bool (NumberValue n) = (\<not> float_eq n float_zero)"
| "val_Bool NilValue = False"

fun fmt_g :: "go_lib \<Rightarrow> float64 \<Rightarrow> string" where
  "fmt_g G (Fin s m e) = format_g G s m e"
| "fmt_g G (Inf s) = (if s then ''-Inf'' else ''+Inf'')"

fun val_String :: "go_lib \<Rightarrow> dsl_value \<Rightarrow> string" where
  "val_String G (BoolValue b) = (if b then ''true'' else ''false'')"
| "val_String G (StringValue s) = s"
| "val_String G (NumberValue n) = fmt_g G n"
| "val_String G NilValue = ''''"

fun val_Number :: "dsl_value \<Rightarrow> float64" where
  "val_Number (BoolValue b) = (if b then float_of_nat 1 else float_zero)"
| "val_Number (StringValue _) = float_zero"
| "val_Number (NumberValue n) = n"
| "val_Number NilValue = float_zero"

section \<open>The device under test\<close>

record device_context =
  dc_Disk :: disk
  dc_Hostname :: string
  dc_Path :: string
  dc_DevNode :: string

definition getDevNode :: "go_lib \<Rightarrow> disk \<Rightarrow> string" where
  "getDevNode G d =
     (let i = trim_space G (disk_ID d) in
      if i = '''' then GetDevicePath d
      else if has_prefix i ''/dev/'' then i
      else ''/dev/'' @ i)"

definition NewDeviceContext :: "go_lib \<Rightarrow> disk \<Rightarrow> string \<Rightarrow> device_context" where
  "NewDeviceContext G d hostname =
     \<lparr>dc_Disk = d, dc_Hostname = hostname, dc_Path = GetDevicePath d, dc_DevNode = getDevNode G d\<rparr>"

text \<open>\<^verbatim>\<open>GetHostname\<close>, given what \<^verbatim>\<open>os.Hostname\<close> returns.\<close>

definition GetHostname :: "string + string \<Rightarrow> string" where
  "GetHostname h =
     (case h of
        Inl _ \<Rightarrow> ''''
      | Inr hostname \<Rightarrow>
          (case index_where (\<lambda>c. c = CHR ''.'') hostname of
             Some i \<Rightarrow> if 0 < i then take i hostname else hostname
           | None \<Rightarrow> hostname))"

definition extractVendor :: "go_lib \<Rightarrow> string \<Rightarrow> string" where
  "extractVendor G model0 =
     (let model = trim_space G model0 in
      if model = '''' then ''''
      else case index_where (\<lambda>c. c = CHR '' '' \<or> c = CHR 0x09) model of
        Some (Suc i) \<Rightarrow> take (Suc i) model
      | _ \<Rightarrow> (case index_where (\<lambda>c. c = CHR ''_'') model of
                 Some (Suc i) \<Rightarrow> take (Suc i) model
               | _ \<Rightarrow> model))"

definition no_pos :: position where
  "no_pos = \<lparr>Line = 0, Column = 0, Offset = 0\<rparr>"

definition ResolveVariable :: "go_lib \<Rightarrow> device_context \<Rightarrow> string \<Rightarrow> dsl_error + dsl_value" where
  "ResolveVariable G dc name =
     (let n = to_lower G name; d = dc_Disk dc in
      if n = ''type'' then Inr (StringValue (to_lower G (disk_Type d)))
      else if n = ''vendor'' then Inr (StringValue (to_lower G (extractVendor G (disk_Model d))))
      else if n = ''model'' then Inr (StringValue (to_lower G (disk_Model d)))
      else if n = ''size'' then Inr (NumberValue (float_of_nat (unat (disk_Size d))))
      else if n = ''devnode'' then Inr (StringValue (dc_DevNode dc))
      else if n = ''host'' then Inr (StringValue (dc_Hostname dc))
      else Inl (UnknownVariableError no_pos (CHR ''@'' # name)))"

section \<open>Comparing values\<close>

definition valuesEqual :: "go_lib \<Rightarrow> dsl_value \<Rightarrow> dsl_value \<Rightarrow> bool" where
  "valuesEqual G a b =
     (if val_Type a = ValueTypeNumber \<and> val_Type b = ValueTypeNumber then float_eq (val_Number a) (val_Number b)
      else if val_Type a = ValueTypeBool \<and> val_Type b = ValueTypeBool then val_Bool a = val_Bool b
      else equal_fold G (val_String G a) (val_String G b))"

definition compareValues :: "go_lib \<Rightarrow> dsl_value \<Rightarrow> dsl_value \<Rightarrow> string + int" where
  "compareValues G a b =
     (if val_Type a = ValueTypeNumber \<and> val_Type b = ValueTypeNumber
      then Inr (if float_less (val_Number a) (val_Number b) then - 1
                else if float_less (val_Number b) (val_Number a) then 1 else 0)
      else if val_Type a = ValueTypeString \<and> val_Type b = ValueTypeString
      then Inr (if val_String G a < val_String G b then - 1
                else if val_String G b < val_String G a then 1 else 0)
      else Inl (''cannot compare '' @ value_type_String (val_Type a) @ '' with '' @
             value_type_String (val_Type b) @ '': use unquoted numbers for numeric comparisons''))"

section \<open>The evaluator\<close>

type_synonym evaluator = "expr \<Rightarrow> dsl_error + dsl_value"

definition MaxRegexPatternLength :: nat where
  "MaxRegexPatternLength = 1000"

definition evalVariable :: "go_lib \<Rightarrow> device_context \<Rightarrow> position \<Rightarrow> string \<Rightarrow> dsl_error + dsl_value" where
  "evalVariable G dc pos name =
     (case ResolveVariable G dc name of
        Inr v \<Rightarrow> Inr v
      | Inl (UnknownVariableError _ n) \<Rightarrow> Inl (UnknownVariableError pos n)
      | Inl e \<Rightarrow> Inl (EvalError pos (dsl_error_text e)))"

fun evalAnd :: "evaluator \<Rightarrow> expr list \<Rightarrow> dsl_error + dsl_value" where
  "evalAnd ev [] = Inr (BoolValue True)"
| "evalAnd ev (a # args) =
     (case ev a of
        Inl e \<Rightarrow> Inl e
      | Inr v \<Rightarrow> if \<not> val_Bool v then Inr (BoolValue False) else evalAnd ev args)"

fun evalOr :: "evaluator \<Rightarrow> expr list \<Rightarrow> dsl_error + dsl_value" where
  "evalOr ev [] = Inr (BoolValue False)"
| "evalOr ev (a # args) =
     (case ev a of
        Inl e \<Rightarrow> Inl e
      | Inr v \<Rightarrow> if val_Bool v then Inr (BoolValue True) else evalOr ev args)"

definition arity_error :: "position \<Rightarrow> string \<Rightarrow> string \<Rightarrow> expr list \<Rightarrow> dsl_error" where
  "arity_error pos f n args = EvalError pos (f @ ''() expects '' @ n @ '', got '' @ show_nat (length args))"

definition evalNot :: "evaluator \<Rightarrow> position \<Rightarrow> expr list \<Rightarrow> dsl_error + dsl_value" where
  "evalNot ev pos args =
     (case args of
        [a] \<Rightarrow> (case ev a of Inl e \<Rightarrow> Inl e | Inr v \<Rightarrow> Inr (BoolValue (\<not> val_Bool v)))
      | _ \<Rightarrow> Inl (arity_error pos ''not'' ''1 argument'' args))"

fun in_loop :: "go_lib \<Rightarrow> evaluator \<Rightarrow> dsl_value \<Rightarrow> expr list \<Rightarrow> dsl_error + dsl_value" where
  "in_loop G ev needle [] = Inr (BoolValue False)"
| "in_loop G ev needle (a # args) =
     (case ev a of
        Inl e \<Rightarrow> Inl e
      | Inr candidate \<Rightarrow> if valuesEqual G needle candidate then Inr (BoolValue True)
                         else in_loop G ev needle args)"

definition evalIn :: "go_lib \<Rightarrow> evaluator \<Rightarrow> position \<Rightarrow> expr list \<Rightarrow> dsl_error + dsl_value" where
  "evalIn G ev pos args =
     (case args of
        x # y # ys \<Rightarrow> (case ev x of Inl e \<Rightarrow> Inl e | Inr needle \<Rightarrow> in_loop G ev needle (y # ys))
      | _ \<Rightarrow> Inl (arity_error pos ''in'' ''at least 2 arguments'' args))"

definition evalRe :: "go_lib \<Rightarrow> evaluator \<Rightarrow> position \<Rightarrow> expr list \<Rightarrow> dsl_error + dsl_value" where
  "evalRe G ev pos args =
     (case args of
        [pat, val] \<Rightarrow>
          (case ev pat of
             Inl e \<Rightarrow> Inl e
           | Inr pv \<Rightarrow>
               let pattern = val_String G pv in
               if MaxRegexPatternLength < length pattern
               then Inl (EvalError (expr_Pos pat) (''regex pattern exceeds maximum length of '' @
                      show_nat MaxRegexPatternLength @ '' characters''))
               else case ev val of
                      Inl e \<Rightarrow> Inl e
                    | Inr vv \<Rightarrow>
                        (case regex_compile G (''(?i)'' @ pattern) of
                           Inl e \<Rightarrow> Inl (EvalError (expr_Pos pat) (''invalid regex pattern: '' @ e))
                         | Inr match \<Rightarrow> Inr (BoolValue (match (val_String G vv)))))
      | _ \<Rightarrow> Inl (arity_error pos ''re'' ''2 arguments'' args))"

definition evalComparison :: "go_lib \<Rightarrow> evaluator \<Rightarrow> position \<Rightarrow> string \<Rightarrow> expr list \<Rightarrow> dsl_error + dsl_value" where
  "evalComparison G ev pos op args =
     (case args of
        [x, y] \<Rightarrow>
          (case ev x of
             Inl e \<Rightarrow> Inl e
           | Inr left \<Rightarrow>
               (case ev y of
                  Inl e \<Rightarrow> Inl e
                | Inr right \<Rightarrow>
                    if op = ''eq'' then Inr (BoolValue (valuesEqual G left right))
                    else if op = ''ne'' then Inr (BoolValue (\<not> valuesEqual G left right))
                    else case compareValues G left right of
                           Inl e \<Rightarrow> Inl (EvalError pos e)
                         | Inr cmp \<Rightarrow>
                             if op = ''gt'' then Inr (BoolValue (cmp > 0))
                             else if op = ''ge'' then Inr (BoolValue (cmp \<ge> 0))
                             else if op = ''lt'' then Inr (BoolValue (cmp < 0))
                             else if op = ''le'' then Inr (BoolValue (cmp \<le> 0))
                             else Inl (EvalError pos (''unknown comparison operator: '' @ op))))
      | _ \<Rightarrow> Inl (arity_error pos op ''2 arguments'' args))"

definition evalFunction :: "go_lib \<Rightarrow> evaluator \<Rightarrow> position \<Rightarrow> string \<Rightarrow> expr list \<Rightarrow> dsl_error + dsl_value" where
  "evalFunction G ev pos fname args =
     (let name = to_lower G fname in
      if name = ''and'' then evalAnd ev args
      else if name = ''or'' then evalOr ev args
      else if name = ''not'' then evalNot ev pos args
      else if name = ''in'' then evalIn G ev pos args
      else if name = ''re'' then evalRe G ev pos args
      else if name = ''eq'' \<or> name = ''ne'' \<or> name = ''gt'' \<or> name = ''ge'' \<or> name = ''lt'' \<or> name = ''le''
      then evalComparison G ev pos name args
      else Inl (UnknownFunctionError pos fname))"

text \<open>Each handler calls the evaluator on its arguments only.\<close>

lemma evalAnd_cong [fundef_cong]:
  "args = args' \<Longrightarrow> (\<And>a. a \<in> set args' \<Longrightarrow> ev a = ev' a) \<Longrightarrow> evalAnd ev args = evalAnd ev' args'"
  by (induction args arbitrary: args') (auto split: sum.split)

lemma evalOr_cong [fundef_cong]:
  "args = args' \<Longrightarrow> (\<And>a. a \<in> set args' \<Longrightarrow> ev a = ev' a) \<Longrightarrow> evalOr ev args = evalOr ev' args'"
  by (induction args arbitrary: args') (auto split: sum.split)

lemma in_loop_cong:
  "(\<And>a. a \<in> set args \<Longrightarrow> ev a = ev' a) \<Longrightarrow> in_loop G ev v args = in_loop G ev' v args"
  by (induction args) (auto split: sum.split)

lemma evalFunction_cong [fundef_cong]:
  assumes "args = args'" "\<And>a. a \<in> set args' \<Longrightarrow> ev a = ev' a"
  shows "evalFunction G ev pos f args = evalFunction G ev' pos f args'"
proof -
  have "evalNot ev pos args = evalNot ev' pos args'" for pos
    using assms by (auto simp: evalNot_def split: list.split)
  moreover have "evalIn G ev pos args = evalIn G ev' pos args'" for pos
    using assms by (auto simp: evalIn_def split: list.split sum.split intro: in_loop_cong)
  moreover have "evalRe G ev pos args = evalRe G ev' pos args'" for pos
    using assms by (auto simp: evalRe_def Let_def split: list.split sum.split)
  moreover have "evalComparison G ev pos op args = evalComparison G ev' pos op args'" for pos op
    using assms by (auto simp: evalComparison_def split: list.split sum.split)
  moreover have "evalAnd ev args = evalAnd ev' args'" "evalOr ev args = evalOr ev' args'"
    using assms by (auto intro: evalAnd_cong evalOr_cong)
  ultimately show ?thesis by (simp add: evalFunction_def Let_def)
qed

fun Eval :: "go_lib \<Rightarrow> device_context \<Rightarrow> expr \<Rightarrow> dsl_error + dsl_value" where
  "Eval G dc (StringLiteral _ s _) = Inr (StringValue s)"
| "Eval G dc (NumberLiteral _ n _ _) = Inr (NumberValue n)"
| "Eval G dc (BoolLiteral _ b) = Inr (BoolValue b)"
| "Eval G dc (Variable pos name) = evalVariable G dc pos name"
| "Eval G dc (FunctionCall pos name args) = evalFunction G (Eval G dc) pos name args"

section \<open>The package interface\<close>

definition KnownFunctions :: "string list" where
  "KnownFunctions = [''and'', ''or'', ''not'', ''in'', ''re'', ''eq'', ''ne'', ''gt'', ''ge'', ''lt'', ''le'']"

definition KnownVariables :: "string list" where
  "KnownVariables = [''type'', ''vendor'', ''model'', ''size'', ''devnode'', ''host'']"

definition isKnownFunction :: "go_lib \<Rightarrow> string \<Rightarrow> bool" where
  "isKnownFunction G name \<longleftrightarrow>
     to_lower G name \<in> {''and'', ''or'', ''not'', ''in'', ''re'', ''eq'', ''ne'', ''gt'', ''ge'', ''lt'', ''le''}"

definition isKnownVariable :: "string \<Rightarrow> bool" where
  "isKnownVariable name \<longleftrightarrow> name \<in> {''type'', ''vendor'', ''model'', ''size'', ''devnode'', ''host''}"

text \<open>The first error of a list of checks.\<close>

fun first_error :: "('a \<Rightarrow> 'e option) \<Rightarrow> 'a list \<Rightarrow> 'e option" where
  "first_error f [] = None"
| "first_error f (x # xs) = (case f x of Some e \<Rightarrow> Some e | None \<Rightarrow> first_error f xs)"

lemma first_error_cong [fundef_cong]:
  "xs = ys \<Longrightarrow> (\<And>x. x \<in> set ys \<Longrightarrow> f x = g x) \<Longrightarrow> first_error f xs = first_error g ys"
  by (induction xs arbitrary: ys) (auto split: option.split)

lemma first_error_None: "first_error f xs = None \<longleftrightarrow> (\<forall>x \<in> set xs. f x = None)"
  by (induction xs) (auto split: option.split)

fun Validate :: "go_lib \<Rightarrow> expr \<Rightarrow> dsl_error option" where
  "Validate G (FunctionCall pos name args) =
     (if \<not> isKnownFunction G name then Some (UnknownFunctionError pos name)
      else first_error (Validate G) args)"
| "Validate G (Variable pos name) =
     (if \<not> isKnownVariable name then Some (UnknownVariableError pos (CHR ''@'' # name)) else None)"
| "Validate G _ = None"

definition MatchDevice :: "go_lib \<Rightarrow> expr \<Rightarrow> disk \<Rightarrow> string \<Rightarrow> dsl_error + bool" where
  "MatchDevice G e d hostname =
     (case Eval G (NewDeviceContext G d hostname) e of
        Inl err \<Rightarrow> Inl err
      | Inr v \<Rightarrow> Inr (val_Bool v))"

fun MatchDevices :: "go_lib \<Rightarrow> expr \<Rightarrow> disk list \<Rightarrow> string \<Rightarrow> dsl_error + disk list" where
  "MatchDevices G e [] hostname = Inr []"
| "MatchDevices G e (d # ds) hostname =
     (case MatchDevice G e d hostname of
        Inl err \<Rightarrow> Inl err
      | Inr match \<Rightarrow>
          (case MatchDevices G e ds hostname of
             Inl err \<Rightarrow> Inl err
           | Inr matched \<Rightarrow> Inr (if match then d # matched else matched)))"

definition dsl_GetDevicePath :: "go_lib \<Rightarrow> disk \<Rightarrow> string" where
  "dsl_GetDevicePath G d = dc_Path (NewDeviceContext G d '''')"

lemma dsl_GetDevicePath_eq [simp]: "dsl_GetDevicePath G d = GetDevicePath d"
  by (simp add: dsl_GetDevicePath_def NewDeviceContext_def)

section \<open>Known names\<close>

lemma known_functions_listed: "isKnownFunction G name \<longleftrightarrow> to_lower G name \<in> set KnownFunctions"
  by (simp add: isKnownFunction_def KnownFunctions_def)

lemma known_variables_listed: "isKnownVariable name \<longleftrightarrow> name \<in> set KnownVariables"
  by (simp add: isKnownVariable_def KnownVariables_def)

lemma to_lower_known_variable: "isKnownVariable name \<Longrightarrow> to_lower G name = name"
  by (auto simp: isKnownVariable_def to_lower_def all_ascii_def is_ascii_byte_def ascii_lower_def)

lemma known_variable_resolves:
  assumes "isKnownVariable name"
  shows "\<exists>v. ResolveVariable G dc name = Inr v"
  using assms to_lower_known_variable [OF assms, of G]
  by (auto simp: isKnownVariable_def ResolveVariable_def Let_def)

fun unknown_name_error :: "dsl_error \<Rightarrow> bool" where
  "unknown_name_error (UnknownFunctionError _ _) = True"
| "unknown_name_error (UnknownVariableError _ _) = True"
| "unknown_name_error _ = False"

definition no_unknown :: "dsl_error + dsl_value \<Rightarrow> bool" where
  "no_unknown r \<longleftrightarrow> (case r of Inl e \<Rightarrow> \<not> unknown_name_error e | Inr _ \<Rightarrow> True)"

lemma no_unknown_simps [simp]:
  "no_unknown (Inr v)" "no_unknown (Inl (EvalError p m))"
  by (simp_all add: no_unknown_def)

lemma in_loop_no_unknown: "\<forall>a \<in> set args. no_unknown (ev a) \<Longrightarrow> no_unknown (in_loop G ev v args)"
  by (induction args) (auto simp: no_unknown_def split: sum.splits)

lemma handlers_no_unknown:
  assumes "\<forall>a \<in> set args. no_unknown (ev a)"
  shows "no_unknown (evalAnd ev args)" "no_unknown (evalOr ev args)" "no_unknown (evalNot ev pos args)"
    "no_unknown (evalIn G ev pos args)" "no_unknown (evalRe G ev pos args)"
    "no_unknown (evalComparison G ev pos op args)"
proof -
  show "no_unknown (evalAnd ev args)"
    using assms by (induction args) (auto simp: no_unknown_def split: sum.splits)
  show "no_unknown (evalOr ev args)"
    using assms by (induction args) (auto simp: no_unknown_def split: sum.splits)
  show "no_unknown (evalNot ev pos args)"
    using assms by (auto simp: evalNot_def arity_error_def no_unknown_def split: list.splits sum.splits)
  show "no_unknown (evalRe G ev pos args)"
    using assms by (auto simp: evalRe_def arity_error_def no_unknown_def Let_def split: list.splits sum.splits)
  show "no_unknown (evalComparison G ev pos op args)"
    using assms by (auto simp: evalComparison_def arity_error_def no_unknown_def split: list.splits sum.splits)
  show "no_unknown (evalIn G ev pos args)"
  proof (cases "\<exists>x y ys. args = x # y # ys")
    case True
    then obtain x y ys where a: "args = x # y # ys" by blast
    with assms have "no_unknown (ev x)" "no_unknown (in_loop G ev v (y # ys))" for v
      using in_loop_no_unknown [of "y # ys" ev G v] by simp_all
    with a show ?thesis by (cases "ev x") (simp_all add: evalIn_def no_unknown_def del: in_loop.simps)
  qed (auto simp: evalIn_def arity_error_def split: list.splits)
qed

lemma evalFunction_no_unknown:
  assumes "isKnownFunction G name" "\<forall>a \<in> set args. no_unknown (ev a)"
  shows "no_unknown (evalFunction G ev pos name args)"
  using assms(1) handlers_no_unknown [OF assms(2)]
  unfolding evalFunction_def Let_def isKnownFunction_def by auto

lemma validated_no_unknown: "Validate G e = None \<Longrightarrow> no_unknown (Eval G dc e)"
proof (induction G e rule: Validate.induct)
  case (1 G pos name args)
  then show ?case
    by (auto simp: first_error_None split: if_splits intro!: evalFunction_no_unknown)
next
  case (2 G pos name)
  then obtain v where "ResolveVariable G dc name = Inr v"
    using known_variable_resolves by (force split: if_splits)
  then show ?case by (simp add: evalVariable_def)
qed simp_all

section \<open>Connectives\<close>

lemma evalAnd_values:
  assumes "\<forall>a \<in> set args. ev a = Inr (f a)"
  shows "evalAnd ev args = Inr (BoolValue (\<forall>a \<in> set args. val_Bool (f a)))"
  using assms by (induction args) auto

lemma evalOr_values:
  assumes "\<forall>a \<in> set args. ev a = Inr (f a)"
  shows "evalOr ev args = Inr (BoolValue (\<exists>a \<in> set args. val_Bool (f a)))"
  using assms by (induction args) auto

text \<open>Evaluation order: the result is decided by the first argument that is not true (not false
  for the disjunction); arguments after it are not evaluated.\<close>

definition evals_to :: "evaluator \<Rightarrow> bool \<Rightarrow> expr \<Rightarrow> bool" where
  "evals_to ev b a \<longleftrightarrow> (case ev a of Inl _ \<Rightarrow> False | Inr v \<Rightarrow> val_Bool v = b)"

lemma evalAnd_order:
  "evalAnd ev args =
     (case dropWhile (evals_to ev True) args of
        [] \<Rightarrow> Inr (BoolValue True)
      | a # _ \<Rightarrow> (case ev a of Inl e \<Rightarrow> Inl e | Inr _ \<Rightarrow> Inr (BoolValue False)))"
  by (induction args) (auto simp: evals_to_def split: sum.split)

lemma evalOr_order:
  "evalOr ev args =
     (case dropWhile (evals_to ev False) args of
        [] \<Rightarrow> Inr (BoolValue False)
      | a # _ \<Rightarrow> (case ev a of Inl e \<Rightarrow> Inl e | Inr _ \<Rightarrow> Inr (BoolValue True)))"
  by (induction args) (auto simp: evals_to_def split: sum.split)

section \<open>Comparisons\<close>

lemma compareValues_cases:
  assumes "compareValues G a b = Inr c"
  shows "c = - 1 \<or> c = 0 \<or> c = 1"
  using assms by (auto simp: compareValues_def split: if_splits)

lemma compareValues_swap:
  assumes "compareValues G a b = Inr c"
  shows "compareValues G b a = Inr (- c)"
  using assms float_less_asym [of "val_Number a" "val_Number b"]
  by (auto simp: compareValues_def split: if_splits)

lemma MatchDevices_values:
  assumes "\<forall>d \<in> set ds. MatchDevice G e d h = Inr (f d)"
  shows "MatchDevices G e ds h = Inr (filter f ds)"
  using assms by (induction ds) auto

lemma MatchDevices_no_err: "MatchDevices G e ds h = Inr ms \<Longrightarrow> \<forall>d \<in> set ds. \<not> is_err (MatchDevice G e d h)"
  by (induction ds arbitrary: ms) (auto split: sum.splits)

lemma MatchDevices_Inr:
  "MatchDevices G e ds h = Inr ms \<longleftrightarrow>
     (\<forall>d \<in> set ds. \<not> is_err (MatchDevice G e d h)) \<and> ms = filter (\<lambda>d. MatchDevice G e d h = Inr True) ds"
proof -
  have "\<forall>d \<in> set ds. \<not> is_err (MatchDevice G e d h) \<Longrightarrow>
      MatchDevices G e ds h = Inr (filter (\<lambda>d. MatchDevice G e d h = Inr True) ds)"
    by (rule MatchDevices_values) (auto simp: not_is_err_iff)
  with MatchDevices_no_err show ?thesis by fastforce
qed

section \<open>Size queries\<close>

lemma erase_eqs:
  "erase e = FunctionCall p f args \<longleftrightarrow> p = origin \<and> (\<exists>q as. e = FunctionCall q f as \<and> map erase as = args)"
  "erase e = Variable p v \<longleftrightarrow> p = origin \<and> (\<exists>q. e = Variable q v)"
  "erase e = NumberLiteral p x r u \<longleftrightarrow> p = origin \<and> (\<exists>q. e = NumberLiteral q x r u)"
  by (cases e; auto)+

definition size_query :: "nat \<Rightarrow> string \<Rightarrow> expr" where
  "size_query n u = FunctionCall origin ''ge''
     [Variable origin ''size'', NumberLiteral origin (float_of_nat (n * the (unitMultipliers (map ascii_upper u))))
        (show_nat n @ u) u]"

lemma size_query_text: "print_expr (size_query n u) = ''ge(@size,'' @ show_nat n @ u @ '')''"
  by (simp add: size_query_def)

lemma size_query_wf:
  assumes "list_all is_letter_byte u" "all_ascii u" "u \<noteq> []" "unitMultipliers (map ascii_upper u) = Some k"
    "n * k < 2 ^ 53"
  shows "wf_expr G (size_query n u)"
proof -
  have "ParseNumberWithUnit G (show_nat n @ u) = Inr (float_of_nat (n * k), u)"
    using assms by (intro ParseNumberWithUnit_exact) (auto simp: to_upper_def)
  moreover have "\<exists>m. wf_number m \<and> show_nat n @ u = number_text m"
    using size_parts_wf [OF assms(1), of n] size_parts_text [of n u] by metis
  ultimately show ?thesis
    using assms(4)
    by (simp add: size_query_def valid_ident_def keyword_type_def to_lower_def all_ascii_def
        is_ascii_byte_def is_letter_byte_def is_ident_byte_def is_digit_byte_def ascii_lower_def)
qed

lemma ge_size_value:
  assumes "N < 2 ^ 53" "unat (disk_Size d) < 2 ^ 53"
  shows "MatchDevice G (FunctionCall p ''ge'' [Variable q ''size'', NumberLiteral r (float_of_nat N) t u]) d h
           = Inr (N \<le> unat (disk_Size d))"
proof -
  have l: "to_lower G ''size'' = ''size''" "to_lower G ''ge'' = ''ge''"
    by (simp_all add: to_lower_def all_ascii_def is_ascii_byte_def ascii_lower_def)
  then have "ResolveVariable G (NewDeviceContext G d h) ''size'' = Inr (NumberValue (float_of_nat (unat (disk_Size d))))"
    by (simp add: ResolveVariable_def NewDeviceContext_def)
  with l show ?thesis using assms
    by (simp add: MatchDevice_def evalFunction_def evalVariable_def evalComparison_def compareValues_def
        float_less_of_nat not_less)
qed

section \<open>Properties\<close>

text \<open>C40 (end to end). A size threshold written as a decimal number and a unit, as in
  \<open>ge(@size,100GiB)\<close>, means what it says: the query parses, passes validation, and selects a disk
  exactly when the disk has at least that many bytes, as long as both numbers stay below
  \<open>2 ^ 53\<close>, where 64-bit floats are exact.\<close>

theorem size_query_exact:
  assumes "list_all is_letter_byte u" "all_ascii u" "u \<noteq> []" "unitMultipliers (map ascii_upper u) = Some k"
    and "n * k < 2 ^ 53" "unat (disk_Size d) < 2 ^ 53" "length u + length (show_nat n) \<le> 100"
  shows "\<exists>e. Parse G (''ge(@size,'' @ show_nat n @ u @ '')'') = Some (Inr e) \<and> Validate G e = None \<and>
           MatchDevice G e d h = Inr (n * k \<le> unat (disk_Size d))"
proof -
  have "wf_expr G (size_query n u)" using assms(1-5) by (rule size_query_wf)
  moreover have "expr_depth (size_query n u) \<le> MaxRecursionDepth"
    by (simp add: size_query_def MaxRecursionDepth_def expr_depth.simps)
  moreover have "length (print_expr (size_query n u)) \<le> MaxInputSize"
    using assms(7) by (simp add: size_query_text MaxInputSize_def)
  ultimately obtain e where e: "Parse G (print_expr (size_query n u)) = Some (Inr e)" "erase e = erase (size_query n u)"
    using Parse_print_expr by blast
  from e(2) assms(4) obtain p q r where
    "e = FunctionCall p ''ge'' [Variable q ''size'', NumberLiteral r (float_of_nat (n * k)) (show_nat n @ u) u]"
    by (auto simp: size_query_def erase_eqs)
  with e(1) ge_size_value [OF assms(5,6)] show ?thesis
    by (simp add: size_query_text isKnownFunction_def isKnownVariable_def to_lower_def all_ascii_def
        is_ascii_byte_def ascii_lower_def)
qed

definition sample_disk :: disk where
  "sample_disk = \<lparr>disk_ID = ''sda'', disk_Model = ''ACME X1'', disk_Type = ''ssd'', disk_Size = 107374182400,
     disk_ReadOnly = False, disk_DeviceID = ''wwn-1'', disk_DevicePath = '''', disk_Partitions = [], disk_Device = ''8:0''\<rparr>"

theorem size_query_exact_witness:
  "\<exists>e. Parse plain_lib (''ge(@size,'' @ show_nat 100 @ ''GiB'' @ '')'') = Some (Inr e) \<and> Validate plain_lib e = None \<and>
     MatchDevice plain_lib e sample_disk ''node1'' = Inr (100 * GiB \<le> 107374182400)"
proof -
  have "map ascii_upper ''GiB'' = ''GIB''" by code_simp
  then have u: "list_all is_letter_byte ''GiB''" "all_ascii ''GiB''" "''GiB'' \<noteq> []"
      "unitMultipliers (map ascii_upper ''GiB'') = Some GiB"
    by (simp_all add: is_letter_byte_def all_ascii_def is_ascii_byte_def unitMultipliers_def)
  have "100 * GiB < 2 ^ 53" "unat (disk_Size sample_disk) < 2 ^ 53" "length ''GiB'' + length (show_nat 100) \<le> 100"
      "unat (disk_Size sample_disk) = 107374182400"
    by (simp_all add: unit_defs sample_disk_def show_nat.simps)
  with size_query_exact [OF u, of 100 sample_disk plain_lib "''node1''"] show ?thesis by simp
qed

text \<open>An expression that passes validation never reports an unknown function or
  variable when it is evaluated, on any device: every name was settled up front.\<close>

theorem validated_eval_known:
  assumes "Validate G e = None"
  shows "no_unknown (Eval G dc e)"
  using assms by (rule validated_no_unknown)

theorem validated_eval_known_witness:
  "Validate plain_lib sample_query = None \<and>
   no_unknown (Eval plain_lib (NewDeviceContext plain_lib sample_disk ''node1'') sample_query)"
proof -
  have "Validate plain_lib sample_query = None"
    by (simp add: sample_query_def isKnownFunction_def isKnownVariable_def to_lower_def all_ascii_def
        is_ascii_byte_def ascii_lower_def)
  with validated_eval_known [OF this] show ?thesis by simp
qed

text \<open>Matching a list of devices returns exactly the matching ones, in the order
  given, and succeeds exactly when no device fails to evaluate.\<close>

theorem MatchDevices_spec:
  "MatchDevices G e ds h = Inr ms \<longleftrightarrow>
     (\<forall>d \<in> set ds. \<not> is_err (MatchDevice G e d h)) \<and> ms = filter (\<lambda>d. MatchDevice G e d h = Inr True) ds"
  by (rule MatchDevices_Inr)

theorem MatchDevices_spec_witness:
  "MatchDevices plain_lib (BoolLiteral origin True) [sample_disk] ''node1'' = Inr [sample_disk]"
  by (subst MatchDevices_spec) (simp add: MatchDevice_def)

text \<open>Evaluation order of the connectives: \<open>and\<close> is decided by the first
  argument that does not evaluate to true and \<open>or\<close> by the first that does not evaluate to false;
  that argument's error is the result, and later arguments are not evaluated.\<close>

theorem connectives_short_circuit:
  "Eval G dc (FunctionCall pos ''and'' args) =
     (case dropWhile (evals_to (Eval G dc) True) args of
        [] \<Rightarrow> Inr (BoolValue True)
      | a # _ \<Rightarrow> (case Eval G dc a of Inl e \<Rightarrow> Inl e | Inr _ \<Rightarrow> Inr (BoolValue False)))
   \<and> Eval G dc (FunctionCall pos ''or'' args) =
     (case dropWhile (evals_to (Eval G dc) False) args of
        [] \<Rightarrow> Inr (BoolValue False)
      | a # _ \<Rightarrow> (case Eval G dc a of Inl e \<Rightarrow> Inl e | Inr _ \<Rightarrow> Inr (BoolValue True)))"
proof -
  have "to_lower G ''and'' = ''and''" "to_lower G ''or'' = ''or''"
    by (simp_all add: to_lower_def all_ascii_def is_ascii_byte_def ascii_lower_def)
  then show ?thesis by (simp add: evalFunction_def evalAnd_order evalOr_order)
qed

end
