(* ===== verification/Go_Env.thy ===== *)
theory Go_Env
  imports MC_Prelude "HOL-Library.Multiset"
begin

text \<open>
  Go conventions the server components share.

  \<^item> An error value is its message together with the sentinels found on its
    \<^verbatim>\<open>Unwrap\<close> chain, which is what \<^verbatim>\<open>errors.Is\<close> and
    \<^verbatim>\<open>api.StatusErrorCheck\<close> look at; \<^verbatim>\<open>%w\<close> keeps the chain of its
    operand and \<^verbatim>\<open>%v\<close> drops it.
  \<^item> JSON documents are syntax trees; the text layer of \<^verbatim>\<open>encoding/json\<close> is not modelled.
  \<^item> A Go map is an association list with distinct keys. A \<^verbatim>\<open>range\<close> loop visits it in
    an order chosen by a scheduler, a parameter that may differ from loop to loop.
\<close>

section \<open>Errors\<close>

datatype sentinel =
    ErrCephNotBootstrapped | ErrUnknownPlacementMember | ErrKeepOneInvariant | ErrPlacementApplyInProgress
  | ErrRgwFrontendInvalid | ErrPlacementOperationFailed | ErrRGWInactive
  | ErrCephBootstrapInProgress | ErrUnknownBootstrapTarget | ErrPartialBootstrap
  | StatusError nat

fun sentinel_text :: "sentinel \<Rightarrow> string" where
  "sentinel_text ErrCephNotBootstrapped = ''Ceph not bootstrapped''"
| "sentinel_text ErrUnknownPlacementMember = ''unknown cluster member in placement policy''"
| "sentinel_text ErrKeepOneInvariant = ''keep-one invariant''"
| "sentinel_text ErrPlacementApplyInProgress = ''placement apply already in progress''"
| "sentinel_text ErrRgwFrontendInvalid = ''invalid RGW frontend configuration''"
| "sentinel_text ErrPlacementOperationFailed = ''placement operation failed''"
| "sentinel_text ErrRGWInactive = ''rgw service is not active''"
| "sentinel_text ErrCephBootstrapInProgress = ''ceph bootstrap already in progress''"
| "sentinel_text ErrUnknownBootstrapTarget = ''unknown bootstrap target member''"
| "sentinel_text ErrPartialBootstrap = ''partial Ceph bootstrap detected''"
| "sentinel_text (StatusError n) = ''''"

record go_error =
  etext :: string
  echain :: "sentinel list"

text \<open>\<^verbatim>\<open>errors.New\<close> and \<^verbatim>\<open>fmt.Errorf\<close> without \<^verbatim>\<open>%w\<close>.\<close>

definition err_new :: "string \<Rightarrow> go_error" where
  "err_new s = \<lparr>etext = s, echain = []\<rparr>"

text \<open>A sentinel as an error value, and \<^verbatim>\<open>api.StatusErrorf\<close>.\<close>

definition err_of :: "sentinel \<Rightarrow> go_error" where
  "err_of s = \<lparr>etext = sentinel_text s, echain = [s]\<rparr>"

definition err_status :: "nat \<Rightarrow> string \<Rightarrow> go_error" where
  "err_status c msg = \<lparr>etext = msg, echain = [StatusError c]\<rparr>"

text \<open>\<^verbatim>\<open>fmt.Errorf(pre + "%w" + post, err)\<close> and the form with two
  \<^verbatim>\<open>%w\<close> verbs.\<close>

definition err_wrap :: "string \<Rightarrow> go_error \<Rightarrow> string \<Rightarrow> go_error" where
  "err_wrap pre e post = \<lparr>etext = pre @ etext e @ post, echain = echain e\<rparr>"

definition err_wrap2 :: "go_error \<Rightarrow> string \<Rightarrow> go_error \<Rightarrow> string \<Rightarrow> go_error" where
  "err_wrap2 e mid f post = \<lparr>etext = etext e @ mid @ etext f @ post, echain = echain e @ echain f\<rparr>"

text \<open>\<^verbatim>\<open>%q\<close> of a text without characters that need escaping.\<close>

definition quoted :: "string \<Rightarrow> string" where
  "quoted s = CHR 0x22 # s @ [CHR 0x22]"

definition errors_Is :: "go_error \<Rightarrow> sentinel \<Rightarrow> bool" where
  "errors_Is e s \<longleftrightarrow> s \<in> set (echain e)"

fun status_codes :: "sentinel list \<Rightarrow> nat list" where
  "status_codes [] = []"
| "status_codes (StatusError c # ss) = c # status_codes ss"
| "status_codes (_ # ss) = status_codes ss"

definition StatusErrorCheck :: "go_error \<Rightarrow> nat \<Rightarrow> bool" where
  "StatusErrorCheck e code \<longleftrightarrow> (case status_codes (echain e) of [] \<Rightarrow> False | c # _ \<Rightarrow> c = code)"

lemma errors_Is_simps [simp]:
  "\<not> errors_Is (err_new m) s"
  "errors_Is (err_of t) s \<longleftrightarrow> s = t"
  "errors_Is (err_status c m) s \<longleftrightarrow> s = StatusError c"
  "errors_Is (err_wrap pre e post) s \<longleftrightarrow> errors_Is e s"
  "errors_Is (err_wrap2 e mid f post) s \<longleftrightarrow> errors_Is e s \<or> errors_Is f s"
  by (auto simp: errors_Is_def err_new_def err_of_def err_status_def err_wrap_def err_wrap2_def)

section \<open>JSON trees\<close>

text \<open>Numbers that are not integer literals carry no value: no Go field the program decodes accepts
  them.\<close>

datatype json = JNull | JBool bool | JInt int | JNumber string | JStr string
  | JArr "json list" | JObj "(string \<times> json) list"

section \<open>Maps and loop order\<close>

type_synonym sched = "nat \<Rightarrow> string list \<Rightarrow> string list"

text \<open>The order in which the loop numbered \<open>k\<close> visits the keys: what the scheduler says, as long
  as it is a permutation of the keys.\<close>

definition loop_order :: "sched \<Rightarrow> nat \<Rightarrow> string list \<Rightarrow> string list" where
  "loop_order S k ks = (if mset (S k ks) = mset ks then S k ks else ks)"

lemma mset_loop_order [simp]: "mset (loop_order S k ks) = mset ks"
  by (simp add: loop_order_def)

lemma set_loop_order [simp]: "set (loop_order S k ks) = set ks"
  by (metis mset_loop_order set_mset_mset)

lemma length_loop_order [simp]: "length (loop_order S k ks) = length ks"
  by (metis mset_loop_order size_mset)

lemma loop_order_Nil [simp]: "loop_order S k [] = []"
  by (simp add: loop_order_def)

lemma distinct_loop_order [simp]: "distinct (loop_order S k ks) \<longleftrightarrow> distinct ks"
  by (metis mset_loop_order mset_eq_imp_distinct_iff)

definition keys :: "(string \<times> 'v) list \<Rightarrow> string list" where
  "keys m = map fst m"

lemma keys_simps [simp]: "keys [] = []" "keys ((k, v) # m) = k # keys m"
  by (simp_all add: keys_def)

lemma map_of_keys: "map_of m k = None \<longleftrightarrow> k \<notin> set (keys m)"
  by (auto simp: keys_def map_of_eq_None_iff)

text \<open>Go's \<^verbatim>\<open>sort.Strings\<close>: bytewise order.\<close>

abbreviation sort_strings :: "string list \<Rightarrow> string list" where
  "sort_strings \<equiv> sort"

end
