(* ===== verification/Placement_Types.thy ===== *)
theory Placement_Types
  imports Go_Env "HOL-Library.AList"
begin

text \<open>
  The placement policy document (\<^verbatim>\<open>api/types/placement.go\<close>): its types, the validation
  of an RGW entry, and the JSON form in which it is received and stored. Pointers that may be nil
  are options; a Go map is an association list with distinct keys, and a nil map or slice is
  \<^const>\<open>None\<close>. Base64 decoding and X.509 key pair checking are parameters.

  Decoding follows \<^verbatim>\<open>encoding/json\<close>: keys match field names up to case, null leaves a
  value as it is, unknown keys are skipped or, in the strict mode the request handlers ask for,
  rejected.
\<close>

section \<open>Types\<close>

record rgw_placement =
  rp_Enabled :: "bool option"
  rp_SSL :: "bool option"
  rp_Port :: int
  rp_SSLPort :: int
  rp_SSLCertificate :: string
  rp_SSLPrivateKey :: string

record nfs_placement =
  nfs_GroupID :: string
  nfs_BindAddress :: string

record member_placement =
  mp_Control :: "bool option"
  mp_Rgw :: "rgw_placement option"
  mp_Nfs :: "nfs_placement list option"
  mp_StorageEligible :: "bool option"

record placement_policy =
  pp_Mode :: string
  pp_Members :: "(string \<times> member_placement) list option"

definition PlacementModeReconcile :: string where
  "PlacementModeReconcile = ''reconcile''"

definition members_of :: "placement_policy \<Rightarrow> (string \<times> member_placement) list" where
  "members_of p = (case pp_Members p of None \<Rightarrow> [] | Some ms \<Rightarrow> ms)"

definition member_entry :: "placement_policy \<Rightarrow> string \<Rightarrow> member_placement option" where
  "member_entry p = map_of (members_of p)"

text \<open>A Go map has each key once.\<close>

definition wf_policy :: "placement_policy \<Rightarrow> bool" where
  "wf_policy p \<longleftrightarrow> distinct (keys (members_of p))"

section \<open>Validating an RGW entry\<close>

record tls_lib =
  base64_decode :: "string \<Rightarrow> string option"
  x509_key_pair :: "string \<Rightarrow> string \<Rightarrow> bool"

definition NormalizeRGWPorts :: "int \<Rightarrow> int \<Rightarrow> bool \<Rightarrow> string + int \<times> int" where
  "NormalizeRGWPorts port sslPort ssl =
     (if port < 0 \<or> 65535 < port \<or> sslPort < 0 \<or> 65535 < sslPort
      then Inl ''RGW ports must be between 0 and 65535''
      else if \<not> ssl then Inr (if port = 0 then 80 else port, 0)
      else let sslPort = (if sslPort = 0 then 443 else sslPort) in
        if port = sslPort then Inl ''HTTP and TLS listeners must use different ports''
        else Inr (port, sslPort))"

definition DecodeRGWCertificate :: "tls_lib \<Rightarrow> string \<Rightarrow> string \<Rightarrow> string + string \<times> string" where
  "DecodeRGWCertificate T certificate privateKey =
     (if certificate = '''' \<or> privateKey = '''' then Inl ''TLS requires both a certificate and a private key''
      else case base64_decode T certificate of
        None \<Rightarrow> Inl ''invalid base64 TLS certificate''
      | Some cert \<Rightarrow>
          (case base64_decode T privateKey of
             None \<Rightarrow> Inl ''invalid base64 TLS private key''
           | Some key \<Rightarrow>
               if \<not> x509_key_pair T cert key then Inl ''invalid or mismatched TLS certificate and private key''
               else Inr (cert, key)))"

definition Normalized :: "tls_lib \<Rightarrow> rgw_placement \<Rightarrow> string + rgw_placement" where
  "Normalized T r =
     (case rp_Enabled r of
        None \<Rightarrow> Inl ''rgw.enabled is required''
      | Some enabled \<Rightarrow>
          if \<not> enabled
          then Inr \<lparr>rp_Enabled = rp_Enabled r, rp_SSL = None, rp_Port = 0, rp_SSLPort = 0, rp_SSLCertificate = '''', rp_SSLPrivateKey = ''''\<rparr>
          else case rp_SSL r of
            None \<Rightarrow> Inl ''rgw.ssl is required when RGW is enabled''
          | Some ssl \<Rightarrow>
              if \<not> ssl \<and> (rp_SSLCertificate r \<noteq> '''' \<or> rp_SSLPrivateKey r \<noteq> '''')
              then Inl ''TLS material requires rgw.ssl=true''
              else case NormalizeRGWPorts (rp_Port r) (rp_SSLPort r) ssl of
                Inl e \<Rightarrow> Inl e
              | Inr (port, sslPort) \<Rightarrow>
                  let r' = r\<lparr>rp_Port := port, rp_SSLPort := sslPort\<rparr> in
                  if rp_SSLCertificate r' \<noteq> '''' \<or> rp_SSLPrivateKey r' \<noteq> ''''
                  then (case DecodeRGWCertificate T (rp_SSLCertificate r') (rp_SSLPrivateKey r') of
                          Inl e \<Rightarrow> Inl e | Inr _ \<Rightarrow> Inr r')
                  else Inr r')"

text \<open>What a normalized entry looks like.\<close>

definition normal_rgw :: "rgw_placement \<Rightarrow> bool" where
  "normal_rgw r \<longleftrightarrow>
     (case rp_Enabled r of
        None \<Rightarrow> False
      | Some False \<Rightarrow> rp_SSL r = None \<and> rp_Port r = 0 \<and> rp_SSLPort r = 0 \<and> rp_SSLCertificate r = '''' \<and> rp_SSLPrivateKey r = ''''
      | Some True \<Rightarrow>
          (case rp_SSL r of
             None \<Rightarrow> False
           | Some False \<Rightarrow> 1 \<le> rp_Port r \<and> rp_Port r \<le> 65535 \<and> rp_SSLPort r = 0 \<and>
                            rp_SSLCertificate r = '''' \<and> rp_SSLPrivateKey r = ''''
           | Some True \<Rightarrow> 0 \<le> rp_Port r \<and> rp_Port r \<le> 65535 \<and> 1 \<le> rp_SSLPort r \<and> rp_SSLPort r \<le> 65535 \<and>
                            rp_Port r \<noteq> rp_SSLPort r \<and> (rp_SSLCertificate r = '''' \<longleftrightarrow> rp_SSLPrivateKey r = '''')))"

lemma NormalizeRGWPorts_Inr:
  assumes "NormalizeRGWPorts p q ssl = Inr (p', q')"
  shows "0 \<le> p'" "p' \<le> 65535" "ssl \<Longrightarrow> 1 \<le> q' \<and> q' \<le> 65535 \<and> p' \<noteq> q'" "\<not> ssl \<Longrightarrow> 1 \<le> p' \<and> q' = 0"
  using assms by (auto simp: NormalizeRGWPorts_def Let_def split: if_splits)

lemma NormalizeRGWPorts_again:
  assumes "NormalizeRGWPorts p q ssl = Inr (p', q')"
  shows "NormalizeRGWPorts p' q' ssl = Inr (p', q')"
  using assms by (auto simp: NormalizeRGWPorts_def Let_def split: if_splits)

lemma Normalized_normal:
  assumes "Normalized T r = Inr r'"
  shows "normal_rgw r'"
proof (cases "rp_Enabled r")
  case (Some en)
  show ?thesis
  proof (cases "en \<and> rp_SSL r \<noteq> None")
    case False
    with assms Some show ?thesis by (auto simp: Normalized_def normal_rgw_def split: if_splits option.splits)
  next
    case True
    then obtain ssl where en: "en" "rp_SSL r = Some ssl" by auto
    with assms Some obtain p q where pq: "NormalizeRGWPorts (rp_Port r) (rp_SSLPort r) ssl = Inr (p, q)"
        "r' = r\<lparr>rp_Port := p, rp_SSLPort := q\<rparr>" "\<not> ssl \<longrightarrow> rp_SSLCertificate r = '''' \<and> rp_SSLPrivateKey r = ''''"
        "rp_SSLCertificate r = '''' \<longleftrightarrow> rp_SSLPrivateKey r = ''''"
      by (auto simp: Normalized_def Let_def DecodeRGWCertificate_def split: if_splits sum.splits)
    with NormalizeRGWPorts_Inr [OF pq(1)] Some en show ?thesis by (cases ssl) (auto simp: normal_rgw_def)
  qed
qed (use assms in \<open>simp add: Normalized_def\<close>)

lemma Normalized_again:
  assumes "Normalized T r = Inr r'"
  shows "Normalized T r' = Inr r'"
proof (cases "rp_Enabled r")
  case (Some en)
  show ?thesis
  proof (cases "en \<and> rp_SSL r \<noteq> None")
    case False
    with assms Some show ?thesis by (auto simp: Normalized_def split: if_splits option.splits)
  next
    case True
    then obtain ssl where en: "en" "rp_SSL r = Some ssl" by auto
    with assms Some obtain p q where pq: "NormalizeRGWPorts (rp_Port r) (rp_SSLPort r) ssl = Inr (p, q)"
        "r' = r\<lparr>rp_Port := p, rp_SSLPort := q\<rparr>"
      by (auto simp: Normalized_def Let_def split: if_splits sum.splits)
    from assms Some en pq show ?thesis
      by (auto simp: Normalized_def Let_def NormalizeRGWPorts_again [OF pq(1)] split: if_splits sum.splits)
  qed
qed (use assms in \<open>simp add: Normalized_def\<close>)

section \<open>Encoding\<close>

text \<open>\<^verbatim>\<open>json.Marshal\<close>: fields in declaration order, \<^verbatim>\<open>omitempty\<close> fields
  left out when empty, map keys sorted.\<close>

definition enc_bool_ptr :: "bool option \<Rightarrow> json" where
  "enc_bool_ptr b = (case b of None \<Rightarrow> JNull | Some b \<Rightarrow> JBool b)"

definition opt_field :: "bool \<Rightarrow> string \<Rightarrow> json \<Rightarrow> (string \<times> json) list" where
  "opt_field absent k v = (if absent then [] else [(k, v)])"

definition enc_rgw :: "rgw_placement \<Rightarrow> json" where
  "enc_rgw r = JObj
     ([(''enabled'', enc_bool_ptr (rp_Enabled r))] @
      opt_field (rp_SSL r = None) ''ssl'' (enc_bool_ptr (rp_SSL r)) @
      opt_field (rp_Port r = 0) ''port'' (JInt (rp_Port r)) @
      opt_field (rp_SSLPort r = 0) ''ssl_port'' (JInt (rp_SSLPort r)) @
      opt_field (rp_SSLCertificate r = '''') ''ssl_certificate'' (JStr (rp_SSLCertificate r)) @
      opt_field (rp_SSLPrivateKey r = '''') ''ssl_private_key'' (JStr (rp_SSLPrivateKey r)))"

definition enc_nfs :: "nfs_placement \<Rightarrow> json" where
  "enc_nfs n = JObj [(''group_id'', JStr (nfs_GroupID n)), (''bind_address'', JStr (nfs_BindAddress n))]"

definition enc_member :: "member_placement \<Rightarrow> json" where
  "enc_member mp = JObj
     (opt_field (mp_Control mp = None) ''control'' (enc_bool_ptr (mp_Control mp)) @
      opt_field (mp_Rgw mp = None) ''rgw'' (case mp_Rgw mp of None \<Rightarrow> JNull | Some r \<Rightarrow> enc_rgw r) @
      [(''nfs'', case mp_Nfs mp of None \<Rightarrow> JNull | Some ns \<Rightarrow> JArr (map enc_nfs ns))] @
      opt_field (mp_StorageEligible mp = None) ''storage_eligible'' (enc_bool_ptr (mp_StorageEligible mp)))"

definition enc_policy :: "placement_policy \<Rightarrow> json" where
  "enc_policy p = JObj
     [(''mode'', JStr (pp_Mode p)),
      (''members'', case pp_Members p of None \<Rightarrow> JNull
                     | Some ms \<Rightarrow> JObj (map (\<lambda>(n, mp). (n, enc_member mp)) (sort_key fst ms)))]"

section \<open>Decoding\<close>

definition dec_bool_ptr :: "json \<Rightarrow> bool option option" where
  "dec_bool_ptr j = (case j of JNull \<Rightarrow> Some None | JBool b \<Rightarrow> Some (Some b) | _ \<Rightarrow> None)"

definition dec_string :: "string \<Rightarrow> json \<Rightarrow> string option" where
  "dec_string cur j = (case j of JNull \<Rightarrow> Some cur | JStr s \<Rightarrow> Some s | _ \<Rightarrow> None)"

definition dec_bool :: "bool \<Rightarrow> json \<Rightarrow> bool option" where
  "dec_bool cur j = (case j of JNull \<Rightarrow> Some cur | JBool b \<Rightarrow> Some b | _ \<Rightarrow> None)"

definition int64 :: "int \<Rightarrow> bool" where
  "int64 i \<longleftrightarrow> - (2 ^ 63) \<le> i \<and> i < 2 ^ 63"

definition dec_int :: "int \<Rightarrow> json \<Rightarrow> int option" where
  "dec_int cur j = (case j of JNull \<Rightarrow> Some cur | JInt i \<Rightarrow> if int64 i then Some i else None | _ \<Rightarrow> None)"

text \<open>The fields of an object in document order; \<^const>\<open>None\<close> from the field function means that
  no field of the struct has this name.\<close>

fun dec_fields :: "bool \<Rightarrow> (string \<Rightarrow> json \<Rightarrow> 'r \<Rightarrow> 'r option option) \<Rightarrow> (string \<times> json) list \<Rightarrow> 'r \<Rightarrow> 'r option" where
  "dec_fields strict f [] r = Some r"
| "dec_fields strict f ((k, v) # kvs) r =
     (case f k v r of
        None \<Rightarrow> if strict then None else dec_fields strict f kvs r
      | Some None \<Rightarrow> None
      | Some (Some r') \<Rightarrow> dec_fields strict f kvs r')"

definition dec_struct :: "bool \<Rightarrow> (string \<Rightarrow> json \<Rightarrow> 'r \<Rightarrow> 'r option option) \<Rightarrow> 'r \<Rightarrow> json \<Rightarrow> 'r option" where
  "dec_struct strict f r j = (case j of JNull \<Rightarrow> Some r | JObj kvs \<Rightarrow> dec_fields strict f kvs r | _ \<Rightarrow> None)"

definition rgw_zero :: rgw_placement where
  "rgw_zero = \<lparr>rp_Enabled = None, rp_SSL = None, rp_Port = 0, rp_SSLPort = 0, rp_SSLCertificate = '''', rp_SSLPrivateKey = ''''\<rparr>"

definition member_zero :: member_placement where
  "member_zero = \<lparr>mp_Control = None, mp_Rgw = None, mp_Nfs = None, mp_StorageEligible = None\<rparr>"

definition policy_zero :: placement_policy where
  "policy_zero = \<lparr>pp_Mode = '''', pp_Members = None\<rparr>"

definition rgw_field :: "go_lib \<Rightarrow> string \<Rightarrow> json \<Rightarrow> rgw_placement \<Rightarrow> rgw_placement option option" where
  "rgw_field G k v r =
     (if equal_fold G k ''enabled'' then Some (map_option (\<lambda>b. r\<lparr>rp_Enabled := b\<rparr>) (dec_bool_ptr v))
      else if equal_fold G k ''ssl'' then Some (map_option (\<lambda>b. r\<lparr>rp_SSL := b\<rparr>) (dec_bool_ptr v))
      else if equal_fold G k ''port'' then Some (map_option (\<lambda>i. r\<lparr>rp_Port := i\<rparr>) (dec_int (rp_Port r) v))
      else if equal_fold G k ''ssl_port'' then Some (map_option (\<lambda>i. r\<lparr>rp_SSLPort := i\<rparr>) (dec_int (rp_SSLPort r) v))
      else if equal_fold G k ''ssl_certificate''
      then Some (map_option (\<lambda>s. r\<lparr>rp_SSLCertificate := s\<rparr>) (dec_string (rp_SSLCertificate r) v))
      else if equal_fold G k ''ssl_private_key''
      then Some (map_option (\<lambda>s. r\<lparr>rp_SSLPrivateKey := s\<rparr>) (dec_string (rp_SSLPrivateKey r) v))
      else None)"

definition nfs_field :: "go_lib \<Rightarrow> string \<Rightarrow> json \<Rightarrow> nfs_placement \<Rightarrow> nfs_placement option option" where
  "nfs_field G k v n =
     (if equal_fold G k ''group_id'' then Some (map_option (\<lambda>s. n\<lparr>nfs_GroupID := s\<rparr>) (dec_string (nfs_GroupID n) v))
      else if equal_fold G k ''bind_address''
      then Some (map_option (\<lambda>s. n\<lparr>nfs_BindAddress := s\<rparr>) (dec_string (nfs_BindAddress n) v))
      else None)"

definition dec_nfs :: "go_lib \<Rightarrow> bool \<Rightarrow> json \<Rightarrow> nfs_placement list option option" where
  "dec_nfs G strict j =
     (case j of
        JNull \<Rightarrow> Some None
      | JArr js \<Rightarrow> map_option Some (those (map (dec_struct strict (nfs_field G) \<lparr>nfs_GroupID = '''', nfs_BindAddress = ''''\<rparr>) js))
      | _ \<Rightarrow> None)"

definition dec_rgw_ptr :: "go_lib \<Rightarrow> bool \<Rightarrow> rgw_placement option \<Rightarrow> json \<Rightarrow> rgw_placement option option" where
  "dec_rgw_ptr G strict cur j =
     (if j = JNull then Some None
      else map_option Some (dec_struct strict (rgw_field G) (case cur of None \<Rightarrow> rgw_zero | Some r \<Rightarrow> r) j))"

definition member_field :: "go_lib \<Rightarrow> bool \<Rightarrow> string \<Rightarrow> json \<Rightarrow> member_placement \<Rightarrow> member_placement option option" where
  "member_field G strict k v mp =
     (if equal_fold G k ''control'' then Some (map_option (\<lambda>b. mp\<lparr>mp_Control := b\<rparr>) (dec_bool_ptr v))
      else if equal_fold G k ''rgw'' then Some (map_option (\<lambda>r. mp\<lparr>mp_Rgw := r\<rparr>) (dec_rgw_ptr G strict (mp_Rgw mp) v))
      else if equal_fold G k ''nfs'' then Some (map_option (\<lambda>ns. mp\<lparr>mp_Nfs := ns\<rparr>) (dec_nfs G strict v))
      else if equal_fold G k ''storage_eligible'' then Some (map_option (\<lambda>b. mp\<lparr>mp_StorageEligible := b\<rparr>) (dec_bool_ptr v))
      else None)"

fun dec_member_map :: "go_lib \<Rightarrow> bool \<Rightarrow> (string \<times> json) list \<Rightarrow> (string \<times> member_placement) list \<Rightarrow> (string \<times> member_placement) list option" where
  "dec_member_map G strict [] ms = Some ms"
| "dec_member_map G strict ((n, v) # kvs) ms =
     (case dec_struct strict (member_field G strict) member_zero v of
        None \<Rightarrow> None
      | Some mp \<Rightarrow> dec_member_map G strict kvs (AList.update n mp ms))"

definition dec_members :: "go_lib \<Rightarrow> bool \<Rightarrow> (string \<times> member_placement) list option \<Rightarrow> json \<Rightarrow> (string \<times> member_placement) list option option" where
  "dec_members G strict cur j =
     (case j of
        JNull \<Rightarrow> Some None
      | JObj kvs \<Rightarrow> map_option Some (dec_member_map G strict kvs (case cur of None \<Rightarrow> [] | Some ms \<Rightarrow> ms))
      | _ \<Rightarrow> None)"

definition policy_field :: "go_lib \<Rightarrow> bool \<Rightarrow> string \<Rightarrow> json \<Rightarrow> placement_policy \<Rightarrow> placement_policy option option" where
  "policy_field G strict k v p =
     (if equal_fold G k ''mode'' then Some (map_option (\<lambda>s. p\<lparr>pp_Mode := s\<rparr>) (dec_string (pp_Mode p) v))
      else if equal_fold G k ''members'' then Some (map_option (\<lambda>ms. p\<lparr>pp_Members := ms\<rparr>) (dec_members G strict (pp_Members p) v))
      else None)"

definition dec_policy :: "go_lib \<Rightarrow> bool \<Rightarrow> json \<Rightarrow> placement_policy option" where
  "dec_policy G strict j = dec_struct strict (policy_field G strict) policy_zero j"

section \<open>The stored form reads back\<close>

lemma fold_names [simp]:
  "equal_fold G ''enabled'' ''enabled''" "equal_fold G ''ssl'' ''ssl''" "equal_fold G ''port'' ''port''"
  "equal_fold G ''ssl_port'' ''ssl_port''" "equal_fold G ''ssl_certificate'' ''ssl_certificate''"
  "equal_fold G ''ssl_private_key'' ''ssl_private_key''" "equal_fold G ''group_id'' ''group_id''"
  "equal_fold G ''bind_address'' ''bind_address''" "equal_fold G ''control'' ''control''" "equal_fold G ''rgw'' ''rgw''"
  "equal_fold G ''nfs'' ''nfs''" "equal_fold G ''storage_eligible'' ''storage_eligible''" "equal_fold G ''mode'' ''mode''"
  "equal_fold G ''members'' ''members''"
  by (simp_all add: equal_fold_def all_ascii_def is_ascii_byte_def)

lemma fold_names_differ [simp]:
  "\<not> equal_fold G ''ssl'' ''enabled''" "\<not> equal_fold G ''port'' ''enabled''" "\<not> equal_fold G ''port'' ''ssl''"
  "\<not> equal_fold G ''ssl_port'' ''enabled''" "\<not> equal_fold G ''ssl_port'' ''ssl''" "\<not> equal_fold G ''ssl_port'' ''port''"
  "\<not> equal_fold G ''ssl_certificate'' ''enabled''" "\<not> equal_fold G ''ssl_certificate'' ''ssl''"
  "\<not> equal_fold G ''ssl_certificate'' ''port''" "\<not> equal_fold G ''ssl_certificate'' ''ssl_port''"
  "\<not> equal_fold G ''ssl_private_key'' ''enabled''" "\<not> equal_fold G ''ssl_private_key'' ''ssl''"
  "\<not> equal_fold G ''ssl_private_key'' ''port''" "\<not> equal_fold G ''ssl_private_key'' ''ssl_port''"
  "\<not> equal_fold G ''ssl_private_key'' ''ssl_certificate''"
  "\<not> equal_fold G ''bind_address'' ''group_id''" "\<not> equal_fold G ''rgw'' ''control''" "\<not> equal_fold G ''nfs'' ''control''"
  "\<not> equal_fold G ''nfs'' ''rgw''" "\<not> equal_fold G ''storage_eligible'' ''control''"
  "\<not> equal_fold G ''storage_eligible'' ''rgw''" "\<not> equal_fold G ''storage_eligible'' ''nfs''"
  "\<not> equal_fold G ''members'' ''mode''"
  by (simp_all add: equal_fold_def all_ascii_def is_ascii_byte_def ascii_lower_def)

lemma dec_bool_ptr_enc [simp]: "dec_bool_ptr (enc_bool_ptr b) = Some b"
  by (cases b) (simp_all add: dec_bool_ptr_def enc_bool_ptr_def)

lemma dec_prims [simp]:
  "dec_string cur (JStr s) = Some s" "int64 i \<Longrightarrow> dec_int c (JInt i) = Some i"
  by (simp_all add: dec_string_def dec_int_def)

lemma dec_enc_rgw:
  assumes "int64 (rp_Port r)" "int64 (rp_SSLPort r)"
  shows "dec_struct strict (rgw_field G) rgw_zero (enc_rgw r) = Some r"
  using assms
  by (cases r) (simp add: enc_rgw_def dec_struct_def opt_field_def rgw_field_def rgw_zero_def)

lemma dec_enc_nfs: "dec_struct strict (nfs_field G) n0 (enc_nfs n) = Some n"
  by (cases n; cases n0) (simp add: enc_nfs_def dec_struct_def nfs_field_def)

lemma dec_enc_nfs_list:
  "those (map (dec_struct strict (nfs_field G) n0) (map enc_nfs ns)) = Some ns"
  by (induction ns) (simp_all add: dec_enc_nfs)

definition wf_ports :: "member_placement \<Rightarrow> bool" where
  "wf_ports mp \<longleftrightarrow> (case mp_Rgw mp of None \<Rightarrow> True | Some r \<Rightarrow> int64 (rp_Port r) \<and> int64 (rp_SSLPort r))"

lemma dec_enc_rgw_ptr:
  assumes "int64 (rp_Port r)" "int64 (rp_SSLPort r)"
  shows "dec_rgw_ptr G strict None (enc_rgw r) = Some (Some r)"
  using dec_enc_rgw [OF assms] by (simp add: dec_rgw_ptr_def) (simp add: enc_rgw_def)

lemma dec_enc_nfs_field: "dec_nfs G strict (case ns of None \<Rightarrow> JNull | Some ns \<Rightarrow> JArr (map enc_nfs ns)) = Some ns"
  using dec_enc_nfs_list by (cases ns) (simp_all add: dec_nfs_def del: map_map)

lemma dec_enc_member:
  assumes "wf_ports mp"
  shows "dec_struct strict (member_field G strict) member_zero (enc_member mp) = Some mp"
  using assms
  by (cases mp; cases "mp_Rgw mp")
    (simp_all add: enc_member_def dec_struct_def opt_field_def member_field_def member_zero_def wf_ports_def
      dec_enc_nfs_field dec_enc_rgw_ptr)

lemma dec_enc_member_map:
  assumes "\<forall>(n, mp) \<in> set ms. wf_ports mp" "distinct (keys ms)" "set (keys ms) \<inter> set (keys acc) = {}"
  shows "dec_member_map G strict (map (\<lambda>(n, mp). (n, enc_member mp)) ms) acc = Some (acc @ ms)"
  using assms
proof (induction ms arbitrary: acc)
  case (Cons a ms)
  obtain n mp where a: "a = (n, mp)" by (rule prod.exhaust)
  with Cons.prems have "n \<notin> set (keys acc)" by auto
  then have "AList.update n mp acc = acc @ [(n, mp)]" by (induction acc) auto
  with Cons a show ?case by (simp add: dec_enc_member keys_def)
qed simp

lemma distinct_keys_sort: "distinct (keys (sort_key fst ms)) \<longleftrightarrow> distinct (keys ms)"
proof -
  have "mset (keys (sort_key fst ms)) = mset (keys ms)" by (simp add: keys_def)
  then show ?thesis by (rule mset_eq_imp_distinct_iff)
qed

lemma map_of_sort_key:
  assumes "distinct (keys ms)"
  shows "map_of (sort_key fst ms) = map_of ms"
proof (rule map_of_inject_set [THEN iffD2])
  show "distinct (map fst (sort_key fst ms))" using assms distinct_keys_sort [of ms] by (simp add: keys_def)
qed (use assms in \<open>simp_all add: keys_def\<close>)

definition sorted_policy :: "placement_policy \<Rightarrow> placement_policy" where
  "sorted_policy p = p\<lparr>pp_Members := map_option (sort_key fst) (pp_Members p)\<rparr>"

lemma dec_enc_policy:
  assumes "wf_policy p" "\<forall>(n, mp) \<in> set (members_of p). wf_ports mp"
  shows "dec_policy G strict (enc_policy p) = Some (sorted_policy p)"
proof (cases "pp_Members p")
  case None
  then show ?thesis
    by (cases p) (simp add: dec_policy_def enc_policy_def dec_struct_def policy_field_def policy_zero_def
        dec_members_def sorted_policy_def)
next
  case (Some ms)
  with assms have "distinct (keys (sort_key fst ms))" "\<forall>(n, mp) \<in> set (sort_key fst ms). wf_ports mp"
    using distinct_keys_sort [of ms] by (simp_all add: wf_policy_def members_of_def)
  then have "dec_member_map G strict (map (\<lambda>(n, mp). (n, enc_member mp)) (sort_key fst ms)) [] = Some (sort_key fst ms)"
    using dec_enc_member_map by (metis append_Nil inf_bot_right keys_simps(1) list.set(1))
  with Some show ?thesis
    by (cases p) (simp add: dec_policy_def enc_policy_def dec_struct_def policy_field_def policy_zero_def
        dec_members_def sorted_policy_def)
qed

lemma member_entry_sorted:
  assumes "wf_policy p"
  shows "member_entry (sorted_policy p) = member_entry p"
  using assms map_of_sort_key
  by (cases "pp_Members p") (simp_all add: member_entry_def members_of_def sorted_policy_def wf_policy_def)

end
