(* ===== verification/Control_Readiness.thy ===== *)
theory Control_Readiness
  imports Placement_Types
begin

text \<open>
  Readiness of control services (\<^verbatim>\<open>ceph/control_readiness.go\<close> and the quorum query of
  \<^verbatim>\<open>ceph/monitor.go\<close>): reading the daemons' state from the JSON that the Ceph commands
  print, polling until a service is viable or time runs out, and the viability map that the placement
  engine uses to decide which services may count as retained. The outputs of the commands and what
  each poll observes are parameters.
\<close>

section \<open>Control services\<close>

definition controlServices :: "string list" where
  "controlServices = [''mon'', ''mgr'', ''mds'']"

text \<open>A map from services to members; an entry can be true or false.\<close>

type_synonym control_map = "string \<Rightarrow> (string \<times> bool) list"

definition on :: "control_map \<Rightarrow> string \<Rightarrow> string \<Rightarrow> bool" where
  "on m svc x \<longleftrightarrow> map_of (m svc) x = Some True"

definition set_on :: "control_map \<Rightarrow> string \<Rightarrow> string \<Rightarrow> bool \<Rightarrow> control_map" where
  "set_on m svc x b = m(svc := AList.update x b (m svc))"

lemma on_set_on [simp]: "on (set_on m svc x b) svc' y \<longleftrightarrow> (if svc' = svc \<and> y = x then b else on m svc' y)"
  by (auto simp: on_def set_on_def update_conv')

lemma keys_set_on: "set (keys (set_on m svc x b svc')) = set (keys (m svc')) \<union> (if svc' = svc then {x} else {})"
  by (auto simp: set_on_def keys_def dom_update image_iff)

lemma on_keys: "on m svc x \<Longrightarrow> x \<in> set (keys (m svc))"
  by (auto simp: on_def keys_def intro: rev_image_eqI dest: map_of_SomeD)

section \<open>Reading command output\<close>

definition dec_list :: "(json \<Rightarrow> 'a option) \<Rightarrow> json \<Rightarrow> 'a list option" where
  "dec_list f j = (case j of JNull \<Rightarrow> Some [] | JArr js \<Rightarrow> those (map f js) | _ \<Rightarrow> None)"

text \<open>A daemon entry with its name and state.\<close>

record daemon =
  dm_name :: string
  dm_state :: string

definition daemon_field :: "go_lib \<Rightarrow> string \<Rightarrow> json \<Rightarrow> daemon \<Rightarrow> daemon option option" where
  "daemon_field G k v d =
     (if equal_fold G k ''name'' then Some (map_option (\<lambda>s. d\<lparr>dm_name := s\<rparr>) (dec_string (dm_name d) v))
      else if equal_fold G k ''state'' then Some (map_option (\<lambda>s. d\<lparr>dm_state := s\<rparr>) (dec_string (dm_state d) v))
      else None)"

text \<open>The structs with only a name field.\<close>

definition name_field :: "go_lib \<Rightarrow> string \<Rightarrow> json \<Rightarrow> string \<Rightarrow> string option option" where
  "name_field G k v n = (if equal_fold G k ''name'' then Some (dec_string n v) else None)"

definition quorum_field :: "go_lib \<Rightarrow> string \<Rightarrow> json \<Rightarrow> string list \<times> string list \<Rightarrow> (string list \<times> string list) option option" where
  "quorum_field G k v q =
     (if equal_fold G k ''quorum_names'' then Some (map_option (\<lambda>ns. (ns, snd q)) (dec_list (dec_string '''') v))
      else if equal_fold G k ''quorum'' then Some (map_option (\<lambda>ns. (fst q, ns)) (dec_list (dec_struct False (name_field G) '''') v))
      else None)"

text \<open>A command's result is an error or the JSON it printed; \<^const>\<open>None\<close> stands for output that is
  not JSON.\<close>

type_synonym cmd_output = "go_error + json option"

definition getMonQuorumNames :: "go_lib \<Rightarrow> cmd_output \<Rightarrow> go_error + string list" where
  "getMonQuorumNames G out =
     (case out of
        Inl e \<Rightarrow> Inl (err_wrap (''failed to run '' @ [CHR 0x27] @ ''ceph mon stat'' @ [CHR 0x27] @ '': '') e '''')
      | Inr j \<Rightarrow>
          (case Option.bind j (dec_struct False (quorum_field G) ([], [])) of
             None \<Rightarrow> Inl (err_new (''failed to parse '' @ [CHR 0x27] @ ''ceph mon stat'' @ [CHR 0x27] @ '' output: json''))
           | Some (quorumNames, quorum) \<Rightarrow> Inr (if 0 < length quorumNames then quorumNames else quorum)))"

definition monInQuorum :: "go_lib \<Rightarrow> cmd_output \<Rightarrow> string \<Rightarrow> go_error + bool" where
  "monInQuorum G out member =
     (case getMonQuorumNames G out of Inl e \<Rightarrow> Inl e | Inr quorum \<Rightarrow> Inr (member \<in> set quorum))"

definition mgrActiveOrStandby :: "go_lib \<Rightarrow> cmd_output \<Rightarrow> string \<Rightarrow> go_error + bool" where
  "mgrActiveOrStandby G out member =
     (case out of
        Inl e \<Rightarrow> Inl (err_wrap (''failed to run '' @ [CHR 0x27] @ ''ceph mgr metadata'' @ [CHR 0x27] @ '': '') e '''')
      | Inr j \<Rightarrow>
          (case Option.bind j (dec_list (dec_struct False (name_field G) '''')) of
             None \<Rightarrow> Inl (err_new (''failed to parse '' @ [CHR 0x27] @ ''ceph mgr metadata'' @ [CHR 0x27] @ '' output: json''))
           | Some daemons \<Rightarrow> Inr (list_ex (\<lambda>n. n = member) daemons)))"

text \<open>The MDS map: the standbys and, per filesystem, the daemons of its info map.\<close>

definition dec_daemon :: "go_lib \<Rightarrow> json \<Rightarrow> daemon option" where
  "dec_daemon G = dec_struct False (daemon_field G) \<lparr>dm_name = '''', dm_state = ''''\<rparr>"

definition dec_info :: "go_lib \<Rightarrow> (string \<times> daemon) list \<Rightarrow> json \<Rightarrow> (string \<times> daemon) list option" where
  "dec_info G cur j =
     (case j of
        JNull \<Rightarrow> Some []
      | JObj kvs \<Rightarrow> foldl (\<lambda>acc (k, v). case acc of None \<Rightarrow> None
                                       | Some m \<Rightarrow> map_option (\<lambda>d. AList.update k d m) (dec_daemon G v)) (Some cur) kvs
      | _ \<Rightarrow> None)"

definition mdsmap_field :: "go_lib \<Rightarrow> string \<Rightarrow> json \<Rightarrow> (string \<times> daemon) list \<Rightarrow> (string \<times> daemon) list option option" where
  "mdsmap_field G k v m = (if equal_fold G k ''info'' then Some (dec_info G m v) else None)"

definition fs_field :: "go_lib \<Rightarrow> string \<Rightarrow> json \<Rightarrow> (string \<times> daemon) list \<Rightarrow> (string \<times> daemon) list option option" where
  "fs_field G k v m = (if equal_fold G k ''mdsmap'' then Some (dec_struct False (mdsmap_field G) m v) else None)"

type_synonym fsmap = "daemon list \<times> (string \<times> daemon) list list"

definition fsmap_field :: "go_lib \<Rightarrow> string \<Rightarrow> json \<Rightarrow> fsmap \<Rightarrow> fsmap option option" where
  "fsmap_field G k v m =
     (if equal_fold G k ''standbys'' then Some (map_option (\<lambda>ds. (ds, snd m)) (dec_list (dec_daemon G) v))
      else if equal_fold G k ''filesystems'' then Some (map_option (\<lambda>fs. (fst m, fs)) (dec_list (dec_struct False (fs_field G) []) v))
      else None)"

definition mds_stat_field :: "go_lib \<Rightarrow> string \<Rightarrow> json \<Rightarrow> fsmap \<Rightarrow> fsmap option option" where
  "mds_stat_field G k v m = (if equal_fold G k ''fsmap'' then Some (dec_struct False (fsmap_field G) m v) else None)"

definition daemon_up :: "string \<Rightarrow> daemon \<Rightarrow> bool" where
  "daemon_up member d \<longleftrightarrow> dm_name d = member \<and> has_prefix (dm_state d) ''up:''"

definition mdsUp :: "go_lib \<Rightarrow> cmd_output \<Rightarrow> string \<Rightarrow> go_error + bool" where
  "mdsUp G out member =
     (case out of
        Inl e \<Rightarrow> Inl (err_wrap (''failed to run '' @ [CHR 0x27] @ ''ceph mds stat'' @ [CHR 0x27] @ '': '') e '''')
      | Inr j \<Rightarrow>
          (case Option.bind j (dec_struct False (mds_stat_field G) ([], [])) of
             None \<Rightarrow> Inl (err_new (''failed to parse '' @ [CHR 0x27] @ ''ceph mds stat'' @ [CHR 0x27] @ '' output: json''))
           | Some (standbys, filesystems) \<Rightarrow>
               Inr (list_ex (daemon_up member) standbys \<or>
                    list_ex (\<lambda>fs. list_ex (\<lambda>(k, d). daemon_up member d) fs) filesystems)))"

definition controlServiceReady :: "go_lib \<Rightarrow> (string \<Rightarrow> cmd_output) \<Rightarrow> string \<Rightarrow> string \<Rightarrow> go_error + bool" where
  "controlServiceReady G cmd service member =
     (if service = ''mon'' then monInQuorum G (cmd ''mon stat'') member
      else if service = ''mgr'' then mgrActiveOrStandby G (cmd ''mgr metadata'') member
      else if service = ''mds'' then mdsUp G (cmd ''mds stat'') member
      else Inl (err_new (''unknown control service: '' @ service)))"

section \<open>Polling\<close>

text \<open>One round of the polling loop: what the check returns, whether the request context had ended by
  then, whether the deadline has passed, and whether the context ends during the pause.\<close>

record poll =
  pl_check :: "go_error + bool"
  pl_ctx_err :: bool
  pl_past_deadline :: bool
  pl_ctx_done :: bool

text \<open>\<^const>\<open>None\<close>: still polling when the observations end.\<close>

fun waitForControlServiceReady :: "poll list \<Rightarrow> bool option" where
  "waitForControlServiceReady [] = None"
| "waitForControlServiceReady (p # ps) =
     (if is_err (pl_check p) \<and> pl_ctx_err p then Some False
      else if pl_check p = Inr True then Some True
      else if pl_past_deadline p then Some False
      else if pl_ctx_done p then Some False
      else waitForControlServiceReady ps)"

definition stops :: "poll \<Rightarrow> bool" where
  "stops p \<longleftrightarrow> pl_past_deadline p \<or> pl_ctx_done p \<or> (is_err (pl_check p) \<and> pl_ctx_err p)"

lemma wait_ends: "\<exists>p \<in> set ps. stops p \<or> pl_check p = Inr True \<Longrightarrow> \<exists>b. waitForControlServiceReady ps = Some b"
  by (induction ps) (auto simp: stops_def)

lemma wait_true_iff:
  "waitForControlServiceReady ps = Some True \<longleftrightarrow>
     (\<exists>i < length ps. pl_check (ps ! i) = Inr True \<and> (\<forall>j < i. \<not> stops (ps ! j)))"
proof (induction ps)
  case (Cons p ps)
  have "(\<exists>i < length (p # ps). pl_check ((p # ps) ! i) = Inr True \<and> (\<forall>j < i. \<not> stops ((p # ps) ! j))) \<longleftrightarrow>
      pl_check p = Inr True \<or> (\<not> stops p \<and> (\<exists>i < length ps. pl_check (ps ! i) = Inr True \<and> (\<forall>j < i. \<not> stops (ps ! j))))"
    by (auto simp: Ex_less_Suc2 All_less_Suc2)
  with Cons show ?case by (cases "pl_check p") (auto simp: stops_def)
qed simp

section \<open>Viability\<close>

text \<open>A member whose entry sets control to false.\<close>

definition removal_target :: "placement_policy \<Rightarrow> string \<Rightarrow> bool" where
  "removal_target policy m \<longleftrightarrow> (case member_entry policy m of None \<Rightarrow> False | Some mp \<Rightarrow> mp_Control mp = Some False)"

definition observed_pairs :: "control_map \<Rightarrow> (string \<times> string) list" where
  "observed_pairs m = concat (map (\<lambda>svc. map (\<lambda>(x, b). (svc, x)) (filter snd (m svc))) controlServices)"

definition pending_checks :: "control_map \<Rightarrow> placement_policy \<Rightarrow> (string \<times> string) list" where
  "pending_checks m policy = filter (\<lambda>(svc, x). \<not> removal_target policy x) (observed_pairs m)"

definition has_removals :: "control_map \<Rightarrow> placement_policy \<Rightarrow> bool" where
  "has_removals m policy \<longleftrightarrow> list_ex (\<lambda>(svc, x). removal_target policy x) (observed_pairs m)"

text \<open>\<open>ready\<close> gives the outcome of polling a service on a member. Every pair is polled once and the
  outcomes touch different entries, so the order in which they arrive does not matter.\<close>

definition controlServiceViability :: "(string \<Rightarrow> string \<Rightarrow> bool) \<Rightarrow> control_map \<Rightarrow> placement_policy \<Rightarrow> control_map" where
  "controlServiceViability ready observedControl policy =
     (let pending = pending_checks observedControl policy in
      if \<not> has_removals observedControl policy \<or> length pending = 0 then observedControl
      else foldl (\<lambda>m (svc, x). if \<not> ready svc x then set_on m svc x False else m) observedControl pending)"

definition formatControlMap :: "control_map \<Rightarrow> string" where
  "formatControlMap m =
     join_with '','' (map (\<lambda>svc. svc @ '':['' @
       join_with '' '' (sort_strings (map (\<lambda>(x, b). x @ (if b then ''+'' else ''-'')) (m svc))) @ '']'') controlServices)"

definition wf_cmap :: "control_map \<Rightarrow> bool" where
  "wf_cmap m \<longleftrightarrow> (\<forall>svc. distinct (keys (m svc)))"

lemma wf_cmap_set_on: "wf_cmap m \<Longrightarrow> wf_cmap (set_on m svc x b)"
  by (auto simp: wf_cmap_def set_on_def keys_def distinct_update)

lemma observed_pairs_iff:
  assumes "wf_cmap m"
  shows "(svc, x) \<in> set (observed_pairs m) \<longleftrightarrow> svc \<in> set controlServices \<and> on m svc x"
proof -
  have "(x, True) \<in> set (m svc) \<longleftrightarrow> on m svc x"
    unfolding on_def using assms by (metis keys_def map_of_eq_Some_iff wf_cmap_def)
  moreover have "(svc, x) \<in> set (observed_pairs m) \<longleftrightarrow> svc \<in> set controlServices \<and> (x, True) \<in> set (m svc)"
    unfolding observed_pairs_def by force
  ultimately show ?thesis by simp
qed

lemma foldl_not_ready:
  "on (foldl (\<lambda>m (svc, x). if \<not> ready svc x then set_on m svc x False else m) m ps) svc x \<longleftrightarrow>
     on m svc x \<and> ((svc, x) \<in> set ps \<longrightarrow> ready svc x)"
proof (induction ps arbitrary: m)
  case (Cons p ps)
  obtain s y where p: "p = (s, y)" by (rule prod.exhaust)
  show ?case
  proof (cases "ready s y")
    case True
    then show ?thesis unfolding p foldl.simps prod.case Cons by auto
  next
    case False
    then show ?thesis unfolding p foldl.simps prod.case Cons by auto
  qed
qed simp

lemma viability_on:
  assumes "wf_cmap obs"
  shows "on (controlServiceViability ready obs policy) svc x \<longleftrightarrow>
    on obs svc x \<and> (has_removals obs policy \<and> svc \<in> set controlServices \<and> \<not> removal_target policy x \<longrightarrow> ready svc x)"
proof (cases "has_removals obs policy \<and> pending_checks obs policy \<noteq> []")
  case True
  then show ?thesis
    using observed_pairs_iff [OF assms, of svc x]
    by (auto simp: controlServiceViability_def foldl_not_ready pending_checks_def)
next
  case False
  then have v: "controlServiceViability ready obs policy = obs" by (auto simp: controlServiceViability_def)
  have "has_removals obs policy \<Longrightarrow> svc \<in> set controlServices \<Longrightarrow> on obs svc x \<Longrightarrow> removal_target policy x"
    using False observed_pairs_iff [OF assms, of svc x] by (auto simp: pending_checks_def filter_empty_conv)
  with v show ?thesis by auto
qed

end
