(* ===== verification/Cluster_DB.thy ===== *)
theory Cluster_DB
  imports Go_Env
begin

text \<open>
  The shared cluster database as the placement and bootstrap code uses it
  (\<^verbatim>\<open>database/\<close>): the tables, transactions, and the row operations of
  \<^verbatim>\<open>placement_policy_extras.go\<close>, \<^verbatim>\<open>cluster_lifecycle_extras.go\<close>,
  \<^verbatim>\<open>rgw_frontend.go\<close> and the service and config mappers.

  Every statement of a transaction, its start and its commit can fail. The state carries the list
  of outcomes still to come, so a theorem about all states covers every failure pattern; an
  exhausted list means that nothing fails any more. A transaction that does not commit leaves the
  tables as they were.
\<close>

section \<open>Tables\<close>

record policy_row =
  pr_active :: int
  pr_policy_json :: "json option"
  pr_last_refusal :: "string option"
  pr_apply_lock_token :: int

record lifecycle =
  CephBootstrapState :: string
  CephBootstrapTarget :: string
  Detail :: string

record rgw_frontend =
  fe_Member :: string
  fe_Port :: int
  fe_SSLPort :: int
  fe_SSL :: bool

record cluster_db =
  db_members :: "string list"
  db_services :: "(string \<times> string) list"
  db_grouped :: "(string \<times> string \<times> string) list"
  db_rgw_frontends :: "rgw_frontend list"
  db_config :: "(string \<times> string) list"
  db_policy :: "policy_row option"
  db_lifecycle :: "lifecycle option"

section \<open>Transactions\<close>

record 'd db_state =
  dbs :: 'd
  faults :: "string option list"

type_synonym dbst = "cluster_db db_state"
type_synonym ('d, 'a) dtx = "'d db_state \<Rightarrow> (go_error + 'a) \<times> 'd db_state"
type_synonym 'a tx = "(cluster_db, 'a) dtx"

text \<open>One statement: it consumes one outcome and either fails or runs.\<close>

definition stmt :: "('d \<Rightarrow> 'a \<times> 'd) \<Rightarrow> 'd db_state \<Rightarrow> (string + 'a) \<times> 'd db_state" where
  "stmt q st =
     (case faults st of
        Some e # fs \<Rightarrow> (Inl e, st\<lparr>faults := fs\<rparr>)
      | fs \<Rightarrow> (let (v, d) = q (dbs st) in (Inr v, \<lparr>dbs = d, faults = tl fs\<rparr>)))"

definition tx_return :: "'a \<Rightarrow> ('d, 'a) dtx" where
  "tx_return v st = (Inr v, st)"

definition tx_fail :: "go_error \<Rightarrow> ('d, 'a) dtx" where
  "tx_fail e st = (Inl e, st)"

definition tx_bind :: "('d, 'a) dtx \<Rightarrow> ('a \<Rightarrow> ('d, 'b) dtx) \<Rightarrow> ('d, 'b) dtx" where
  "tx_bind f g st = (case f st of (Inl e, st1) \<Rightarrow> (Inl e, st1) | (Inr v, st1) \<Rightarrow> g v st1)"

text \<open>A statement whose failure is wrapped as \<^verbatim>\<open>fmt.Errorf(pre + "%w", err)\<close>.\<close>

definition tx_stmt :: "string \<Rightarrow> ('d \<Rightarrow> 'a \<times> 'd) \<Rightarrow> ('d, 'a) dtx" where
  "tx_stmt pre q st = (case stmt q st of (Inl e, st1) \<Rightarrow> (Inl (err_new (pre @ e)), st1) | (Inr v, st1) \<Rightarrow> (Inr v, st1))"

text \<open>An operation whose error is wrapped.\<close>

definition tx_wrap :: "string \<Rightarrow> ('d, 'a) dtx \<Rightarrow> ('d, 'a) dtx" where
  "tx_wrap pre f st = (case f st of (Inl e, st1) \<Rightarrow> (Inl (err_wrap pre e ''''), st1) | (Inr v, st1) \<Rightarrow> (Inr v, st1))"

text \<open>An operation whose error is printed into a new one with \<^verbatim>\<open>%v\<close>.\<close>

definition tx_opaque :: "string \<Rightarrow> ('d, 'a) dtx \<Rightarrow> ('d, 'a) dtx" where
  "tx_opaque pre f st = (case f st of (Inl e, st1) \<Rightarrow> (Inl (err_new (pre @ etext e)), st1) | (Inr v, st1) \<Rightarrow> (Inr v, st1))"

definition Transaction :: "('d, 'a) dtx \<Rightarrow> ('d, 'a) dtx" where
  "Transaction f st =
     (case stmt (\<lambda>d. ((), d)) st of
        (Inl e, st1) \<Rightarrow> (Inl (err_new e), st1)
      | (Inr _, st1) \<Rightarrow>
          (case f st1 of
             (Inl e, st2) \<Rightarrow> (Inl e, st2\<lparr>dbs := dbs st\<rparr>)
           | (Inr v, st2) \<Rightarrow>
               (case stmt (\<lambda>d. ((), d)) st2 of
                  (Inl e, st3) \<Rightarrow> (Inl (err_new e), st3\<lparr>dbs := dbs st\<rparr>)
                | (Inr _, st3) \<Rightarrow> (Inr v, st3))))"

section \<open>Rules for transactions\<close>

lemma stmt_Inr:
  assumes "stmt q st = (Inr v, st')"
  shows "q (dbs st) = (v, dbs st')"
  using assms by (auto simp: stmt_def split: list.splits option.splits prod.splits)

lemma stmt_Inl: "stmt q st = (Inl e, st') \<Longrightarrow> dbs st' = dbs st"
  by (auto simp: stmt_def split: list.splits option.splits prod.splits)

lemma stmt_no_faults [simp]: "stmt q \<lparr>dbs = d, faults = []\<rparr> = (Inr (fst (q d)), \<lparr>dbs = snd (q d), faults = []\<rparr>)"
  by (simp add: stmt_def split: prod.split)

lemma tx_return_Inr: "tx_return w st = (Inr v, st') \<longleftrightarrow> w = v \<and> st = st'"
  by (auto simp: tx_return_def)

lemma tx_fail_Inr: "tx_fail e st \<noteq> (Inr v, st')"
  by (simp add: tx_fail_def)

lemma tx_bind_Inr: "tx_bind f g st = (Inr v, st') \<longleftrightarrow> (\<exists>w st1. f st = (Inr w, st1) \<and> g w st1 = (Inr v, st'))"
  by (auto simp: tx_bind_def split: prod.splits sum.splits)

lemma tx_wrap_Inr: "tx_wrap pre f st = (Inr v, st') \<longleftrightarrow> f st = (Inr v, st')"
  by (auto simp: tx_wrap_def split: prod.splits sum.splits)

lemma tx_stmt_Inr: "tx_stmt pre q st = (Inr v, st') \<Longrightarrow> q (dbs st) = (v, dbs st')"
  by (auto simp: tx_stmt_def dest: stmt_Inr split: prod.splits sum.splits)

lemma tx_option_Inr:
  "(case row of None \<Rightarrow> f | Some r \<Rightarrow> g r) st = (Inr v, st') \<longleftrightarrow>
     row = None \<and> f st = (Inr v, st') \<or> (\<exists>r. row = Some r \<and> g r st = (Inr v, st'))"
  by (cases row) auto

lemma tx_opaque_Inr: "tx_opaque pre f st = (Inr v, st') \<longleftrightarrow> f st = (Inr v, st')"
  by (auto simp: tx_opaque_def split: prod.splits sum.splits)

lemmas tx_Inr = tx_return_Inr tx_fail_Inr tx_bind_Inr tx_wrap_Inr tx_opaque_Inr tx_option_Inr

lemma Transaction_Inl: "Transaction f st = (Inl e, st') \<Longrightarrow> dbs st' = dbs st"
  by (auto simp: Transaction_def dest: stmt_Inl split: prod.splits sum.splits)

lemma Transaction_Inr:
  assumes "Transaction f st = (Inr v, st')"
  obtains st1 st2 where "f st1 = (Inr v, st2)" "dbs st1 = dbs st" "dbs st2 = dbs st'"
proof -
  from assms obtain u st1 st2 u' where
    s: "stmt (\<lambda>d. ((), d)) st = (Inr u, st1)" "f st1 = (Inr v, st2)" "stmt (\<lambda>d. ((), d)) st2 = (Inr u', st')"
    by (auto simp: Transaction_def split: prod.splits sum.splits)
  from stmt_Inr [OF s(1)] stmt_Inr [OF s(3)] have "dbs st1 = dbs st" "dbs st2 = dbs st'" by auto
  with s(2) show thesis by (rule that)
qed

text \<open>Evaluation when nothing fails any more.\<close>

lemma tx_no_faults [simp]:
  "tx_stmt pre q \<lparr>dbs = d, faults = []\<rparr> = (Inr (fst (q d)), \<lparr>dbs = snd (q d), faults = []\<rparr>)"
  "tx_return v \<lparr>dbs = d, faults = []\<rparr> = (Inr v, \<lparr>dbs = d, faults = []\<rparr>)"
  "tx_fail e \<lparr>dbs = d, faults = []\<rparr> = (Inl e, \<lparr>dbs = d, faults = []\<rparr>)"
  by (simp_all add: tx_stmt_def tx_return_def tx_fail_def)

text \<open>A fact that a piece of a transaction keeps whatever its outcome.\<close>

definition tx_inv :: "('d \<Rightarrow> bool) \<Rightarrow> ('d, 'a) dtx \<Rightarrow> bool" where
  "tx_inv Q t \<longleftrightarrow> (\<forall>st. Q (dbs st) \<longrightarrow> Q (dbs (snd (t st))))"

lemma tx_invD: "tx_inv Q t \<Longrightarrow> t st = (r, st') \<Longrightarrow> Q (dbs st) \<Longrightarrow> Q (dbs st')"
  by (metis tx_inv_def snd_conv)

lemma tx_inv_return: "tx_inv Q (tx_return v)" "tx_inv Q (tx_fail e)"
  by (simp_all add: tx_inv_def tx_return_def tx_fail_def)

lemma tx_inv_stmt:
  fixes Q :: "'d \<Rightarrow> bool"
  assumes "\<And>d. Q d \<Longrightarrow> Q (snd (q d))"
  shows "tx_inv Q (tx_stmt pre q)"
  unfolding tx_inv_def
proof (intro allI impI)
  fix st :: "'d db_state" assume "Q (dbs st)"
  then show "Q (dbs (snd (tx_stmt pre q st)))"
    using assms [of "dbs st"] by (cases "stmt q st"; cases "fst (stmt q st)") (auto simp: tx_stmt_def dest!: stmt_Inr stmt_Inl)
qed

lemma tx_inv_bind:
  fixes Q :: "'d \<Rightarrow> bool"
  assumes "tx_inv Q f" "\<And>v. tx_inv Q (g v)"
  shows "tx_inv Q (tx_bind f g)"
  unfolding tx_inv_def
proof (intro allI impI)
  fix st :: "'d db_state" assume q: "Q (dbs st)"
  obtain r st1 where f: "f st = (r, st1)" by (rule prod.exhaust)
  have "Q (dbs st1)" using tx_invD [OF assms(1) f q] .
  then show "Q (dbs (snd (tx_bind f g st)))" using f assms(2) by (cases r) (simp_all add: tx_bind_def tx_inv_def)
qed

lemma tx_inv_wrap: "tx_inv Q f \<Longrightarrow> tx_inv Q (tx_wrap pre f)"
  unfolding tx_inv_def by (auto simp: tx_wrap_def split_def split: sum.split)

lemma tx_inv_opaque: "tx_inv Q f \<Longrightarrow> tx_inv Q (tx_opaque pre f)"
  unfolding tx_inv_def by (auto simp: tx_opaque_def split_def split: sum.split)

lemma tx_inv_Transaction:
  fixes Q :: "'d \<Rightarrow> bool"
  assumes "tx_inv Q f"
  shows "tx_inv Q (Transaction f)"
  unfolding tx_inv_def
proof (intro allI impI)
  fix st :: "'d db_state" assume q: "Q (dbs st)"
  obtain r st1 where t: "Transaction f st = (r, st1)" by (rule prod.exhaust)
  show "Q (dbs (snd (Transaction f st)))"
  proof (cases r)
    case (Inl e)
    with t q show ?thesis by (auto dest: Transaction_Inl)
  next
    case (Inr v)
    with t q show ?thesis by (auto elim!: Transaction_Inr dest: tx_invD [OF assms])
  qed
qed

lemma tx_inv_if: "(b \<Longrightarrow> tx_inv Q f) \<Longrightarrow> (\<not> b \<Longrightarrow> tx_inv Q g) \<Longrightarrow> tx_inv Q (if b then f else g)"
  by simp

section \<open>The placement policy row\<close>

record policy_record =
  rec_Active :: bool
  rec_PolicyJSON :: "json option"
  rec_LastRefusal :: string

definition no_rows :: string where
  "no_rows = ''sql: no rows in result set''"

definition query_policy :: "cluster_db \<Rightarrow> policy_row option \<times> cluster_db" where
  "query_policy d = (db_policy d, d)"

text \<open>An UPDATE of the singleton row under a condition: the number of rows it changed.\<close>

definition update_policy :: "(policy_row \<Rightarrow> bool) \<Rightarrow> (policy_row \<Rightarrow> policy_row) \<Rightarrow> cluster_db \<Rightarrow> nat \<times> cluster_db" where
  "update_policy P f d =
     (case db_policy d of
        None \<Rightarrow> (0, d)
      | Some r \<Rightarrow> if P r then (1, d\<lparr>db_policy := Some (f r)\<rparr>) else (0, d))"

definition rows_affected :: "nat \<Rightarrow> nat tx" where
  "rows_affected n = tx_stmt ''failed to check rows affected: '' (\<lambda>d. (n, d))"

definition GetPlacementPolicy :: "policy_record tx" where
  "GetPlacementPolicy =
     tx_bind (tx_stmt ''failed to read placement policy: '' query_policy) (\<lambda>row.
       case row of
         None \<Rightarrow> tx_fail (err_new (''failed to read placement policy: '' @ no_rows))
       | Some r \<Rightarrow> tx_return \<lparr>rec_Active = (pr_active r \<noteq> 0), rec_PolicyJSON = pr_policy_json r,
                      rec_LastRefusal = (case pr_last_refusal r of None \<Rightarrow> '''' | Some s \<Rightarrow> s)\<rparr>)"

definition expect_policy_row :: "nat \<Rightarrow> unit tx" where
  "expect_policy_row n =
     tx_bind (rows_affected n) (\<lambda>rows.
       if rows = 0 then tx_fail (err_new ''placement_policy singleton row not found'') else tx_return ())"

definition SetPlacementPolicy :: "bool \<Rightarrow> json \<Rightarrow> unit tx" where
  "SetPlacementPolicy active policyJSON =
     tx_bind (tx_stmt ''failed to update placement policy: ''
       (update_policy (\<lambda>_. True) (\<lambda>r. r\<lparr>pr_active := (if active then 1 else 0), pr_policy_json := Some policyJSON\<rparr>)))
     expect_policy_row"

definition db_ClearPlacementPolicy :: "unit tx" where
  "db_ClearPlacementPolicy =
     tx_bind (tx_stmt ''failed to clear placement policy: ''
       (update_policy (\<lambda>_. True) (\<lambda>r. r\<lparr>pr_active := 0, pr_policy_json := None, pr_last_refusal := None\<rparr>)))
     expect_policy_row"

definition SetPlacementRefusal :: "string \<Rightarrow> unit tx" where
  "SetPlacementRefusal reason =
     tx_bind (tx_stmt ''failed to set placement refusal: ''
       (update_policy (\<lambda>_. True) (\<lambda>r. r\<lparr>pr_last_refusal := (if reason = '''' then None else Some reason)\<rparr>)))
     expect_policy_row"

subsection \<open>The apply lock\<close>

definition acquire_update :: "int \<Rightarrow> int \<Rightarrow> cluster_db \<Rightarrow> nat \<times> cluster_db" where
  "acquire_update token staleBefore =
     update_policy (\<lambda>r. pr_apply_lock_token r = 0 \<or> pr_apply_lock_token r < staleBefore)
       (\<lambda>r. r\<lparr>pr_apply_lock_token := token\<rparr>)"

definition release_update :: "int \<Rightarrow> cluster_db \<Rightarrow> nat \<times> cluster_db" where
  "release_update token =
     update_policy (\<lambda>r. pr_apply_lock_token r = token) (\<lambda>r. r\<lparr>pr_apply_lock_token := 0\<rparr>)"

definition TryAcquirePlacementApplyLock :: "int \<Rightarrow> int \<Rightarrow> bool tx" where
  "TryAcquirePlacementApplyLock token staleBefore =
     tx_bind (tx_stmt ''failed to read placement apply lock token: '' query_policy) (\<lambda>row.
       if row = None then tx_fail (err_new (''failed to read placement apply lock token: '' @ no_rows))
       else tx_bind (tx_stmt ''failed to acquire placement apply lock: '' (acquire_update token staleBefore)) (\<lambda>n.
              tx_bind (rows_affected n) (\<lambda>rows. tx_return (rows = 1))))"

definition ReleasePlacementApplyLock :: "int \<Rightarrow> bool tx" where
  "ReleasePlacementApplyLock token =
     tx_bind (tx_stmt ''failed to release placement apply lock: '' (release_update token)) (\<lambda>n.
       tx_bind (rows_affected n) (\<lambda>rows. tx_return (rows = 1)))"

section \<open>The lifecycle row\<close>

definition CephStateNotBootstrapped :: string where "CephStateNotBootstrapped = ''not_bootstrapped''"
definition CephStateInProgress :: string where "CephStateInProgress = ''in_progress''"
definition CephStateBootstrapped :: string where "CephStateBootstrapped = ''bootstrapped''"
definition CephStateFailed :: string where "CephStateFailed = ''failed''"

lemmas ceph_state_defs = CephStateNotBootstrapped_def CephStateInProgress_def CephStateBootstrapped_def CephStateFailed_def

lemma ceph_states_distinct [simp]:
  "CephStateNotBootstrapped \<noteq> CephStateInProgress" "CephStateNotBootstrapped \<noteq> CephStateBootstrapped"
  "CephStateNotBootstrapped \<noteq> CephStateFailed" "CephStateInProgress \<noteq> CephStateNotBootstrapped"
  "CephStateInProgress \<noteq> CephStateBootstrapped" "CephStateInProgress \<noteq> CephStateFailed"
  "CephStateBootstrapped \<noteq> CephStateNotBootstrapped" "CephStateBootstrapped \<noteq> CephStateInProgress"
  "CephStateBootstrapped \<noteq> CephStateFailed" "CephStateFailed \<noteq> CephStateNotBootstrapped"
  "CephStateFailed \<noteq> CephStateInProgress" "CephStateFailed \<noteq> CephStateBootstrapped"
  by (simp_all add: ceph_state_defs)

definition query_lifecycle :: "cluster_db \<Rightarrow> lifecycle option \<times> cluster_db" where
  "query_lifecycle d = (db_lifecycle d, d)"

definition update_lifecycle :: "(lifecycle \<Rightarrow> bool) \<Rightarrow> (lifecycle \<Rightarrow> lifecycle) \<Rightarrow> cluster_db \<Rightarrow> nat \<times> cluster_db" where
  "update_lifecycle P f d =
     (case db_lifecycle d of
        None \<Rightarrow> (0, d)
      | Some r \<Rightarrow> if P r then (1, d\<lparr>db_lifecycle := Some (f r)\<rparr>) else (0, d))"

definition GetClusterLifecycle :: "lifecycle tx" where
  "GetClusterLifecycle =
     tx_bind (tx_stmt ''failed to read cluster lifecycle: '' query_lifecycle) (\<lambda>row.
       case row of
         None \<Rightarrow> tx_fail (err_new (''failed to read cluster lifecycle: '' @ no_rows))
       | Some lc \<Rightarrow> tx_return lc)"

definition SetClusterLifecycle :: "lifecycle \<Rightarrow> unit tx" where
  "SetClusterLifecycle lc =
     tx_bind (tx_stmt ''failed to update cluster lifecycle: '' (update_lifecycle (\<lambda>_. True) (\<lambda>_. lc))) (\<lambda>n.
       tx_bind (rows_affected n) (\<lambda>rows.
         if rows = 0 then tx_fail (err_new ''cluster_lifecycle singleton row not found'') else tx_return ()))"

section \<open>Config and service rows\<close>

definition query_config :: "string \<Rightarrow> cluster_db \<Rightarrow> string option \<times> cluster_db" where
  "query_config key d = (map_of (db_config d) key, d)"

definition DeleteConfigItem :: "string \<Rightarrow> unit tx" where
  "DeleteConfigItem key =
     tx_bind (tx_stmt ''Delete \"config\": ''
       (\<lambda>d. (length (filter (\<lambda>r. fst r = key) (db_config d)), d\<lparr>db_config := filter (\<lambda>r. fst r \<noteq> key) (db_config d)\<rparr>)))
     (\<lambda>n. tx_bind (tx_stmt ''Fetch affected rows: '' (\<lambda>d. (n, d))) (\<lambda>n.
       if n = 0 then tx_fail (err_status 404 ''ConfigItem not found'')
       else if 1 < n then tx_fail (err_new (''Query deleted '' @ show_nat n @ '' ConfigItem rows instead of 1''))
       else tx_return ()))"

definition GetConfigItem :: "string \<Rightarrow> string tx" where
  "GetConfigItem key =
     tx_bind (tx_stmt ''Failed to fetch from \"config\" table: Failed to fetch from \"config\" table: ''
       (\<lambda>d. (filter (\<lambda>r. fst r = key) (db_config d), d)))
     (\<lambda>rows. case rows of
        [] \<Rightarrow> tx_fail (err_status 404 ''ConfigItem not found'')
      | [r] \<Rightarrow> tx_return (snd r)
      | _ \<Rightarrow> tx_fail (err_new ''More than one \"config\" entry matches''))"

definition GetConfigItems :: "(string \<times> string) list tx" where
  "GetConfigItems = tx_stmt ''Failed to fetch from \"config\" table: Failed to fetch from \"config\" table: '' (\<lambda>d. (sort_key fst (db_config d), d))"

definition ConfigItemExists :: "string \<Rightarrow> bool tx" where
  "ConfigItemExists key = tx_stmt ''Failed to get \"config\" ID: '' (\<lambda>d. (map_of (db_config d) key \<noteq> None, d))"

definition CreateConfigItem :: "string \<Rightarrow> string \<Rightarrow> unit tx" where
  "CreateConfigItem key value =
     tx_bind (tx_wrap ''Failed to check for duplicates: '' (ConfigItemExists key)) (\<lambda>exists.
       if exists then tx_fail (err_status 409 ''This \"config\" entry already exists'')
       else tx_bind (tx_stmt ''Failed to create \"config\" entry: '' (\<lambda>d. ((), d\<lparr>db_config := db_config d @ [(key, value)]\<rparr>))) (\<lambda>_.
         tx_stmt ''Failed to fetch \"config\" entry ID: '' (\<lambda>d. ((), d))))"

definition UpsertConfigItem :: "string \<Rightarrow> string \<Rightarrow> unit tx" where
  "UpsertConfigItem key value =
     tx_stmt (''failed to upsert config item '' @ (CHR 0x22 # key) @ [CHR 0x22] @ '': '')
       (\<lambda>d. ((), d\<lparr>db_config := (if \<exists>r \<in> set (db_config d). fst r = key
                          then map (\<lambda>r. if fst r = key then (key, value) else r) (db_config d)
                          else db_config d @ [(key, value)])\<rparr>))"

definition GetServices :: "(string \<times> string) list tx" where
  "GetServices = tx_stmt ''Failed to fetch from \"services\" table: '' (\<lambda>d. (db_services d, d))"

definition GetGroupedServices :: "(string \<times> string \<times> string) list tx" where
  "GetGroupedServices = tx_stmt ''Failed to fetch from \"grouped_services\" table: '' (\<lambda>d. (db_grouped d, d))"

definition ServiceExists :: "string \<Rightarrow> string \<Rightarrow> bool tx" where
  "ServiceExists member service =
     tx_stmt ''Failed to get \"services\" ID: '' (\<lambda>d. ((member, service) \<in> set (db_services d), d))"

text \<open>Inserting a row for a name that is not a cluster member violates the not-null constraint of
  \<^verbatim>\<open>member_id\<close>.\<close>

definition CreateService :: "string \<Rightarrow> string \<Rightarrow> unit tx" where
  "CreateService member service =
     tx_bind (tx_wrap ''Failed to check for duplicates: '' (ServiceExists member service)) (\<lambda>exists.
       if exists then tx_fail (err_status 409 ''This \"services\" entry already exists'')
       else tx_bind (tx_stmt ''Failed to create \"services\" entry: ''
              (\<lambda>d. if member \<in> set (db_members d) then (True, d\<lparr>db_services := db_services d @ [(member, service)]\<rparr>)
                   else (False, d)))
            (\<lambda>ok. if ok then tx_return ()
                  else tx_fail (err_new ''Failed to create \"services\" entry: NOT NULL constraint failed: services.member_id'')))"

definition DeleteService_row :: "string \<Rightarrow> string \<Rightarrow> unit tx" where
  "DeleteService_row member service =
     tx_bind (tx_stmt ''Delete \"services\": ''
       (\<lambda>d. (length (filter (\<lambda>r. r = (member, service)) (db_services d)),
              d\<lparr>db_services := filter (\<lambda>r. r \<noteq> (member, service)) (db_services d)\<rparr>)))
     (\<lambda>n. tx_bind (tx_stmt ''Fetch affected rows: '' (\<lambda>d. (n, d))) (\<lambda>n.
       if n = 0 then tx_fail (err_status 404 ''Service not found'')
       else if 1 < n then tx_fail (err_new (''Query deleted '' @ show_nat n @ '' Service rows instead of 1''))
       else tx_return ()))"

section \<open>RGW frontend rows\<close>

definition UpsertRGWFrontend :: "string \<Rightarrow> int \<Rightarrow> int \<Rightarrow> bool \<Rightarrow> unit tx" where
  "UpsertRGWFrontend member port sslPort ssl =
     (let row = \<lparr>fe_Member = member, fe_Port = port, fe_SSLPort = sslPort, fe_SSL = ssl\<rparr>;
          pre = ''failed to upsert rgw frontend for '' @ member @ '': '' in
      tx_bind (tx_stmt pre (\<lambda>d.
        if member \<notin> set (db_members d) then (False, d)
        else if \<exists>r \<in> set (db_rgw_frontends d). fe_Member r = member
        then (True, d\<lparr>db_rgw_frontends := map (\<lambda>r. if fe_Member r = member then row else r) (db_rgw_frontends d)\<rparr>)
        else (True, d\<lparr>db_rgw_frontends := db_rgw_frontends d @ [row]\<rparr>)))
      (\<lambda>ok. if ok then tx_return () else tx_fail (err_new (pre @ ''NOT NULL constraint failed: rgw_frontends.member_id''))))"

definition GetRGWFrontends :: "rgw_frontend list tx" where
  "GetRGWFrontends =
     tx_stmt ''failed to query rgw frontends: '' (\<lambda>d. (sort_key fe_Member (db_rgw_frontends d), d))"

definition DeleteRGWFrontendByMember :: "string \<Rightarrow> unit tx" where
  "DeleteRGWFrontendByMember member =
     tx_stmt (''failed to delete rgw frontend for '' @ member @ '': '')
       (\<lambda>d. ((), d\<lparr>db_rgw_frontends := filter (\<lambda>r. fe_Member r \<noteq> member) (db_rgw_frontends d)\<rparr>))"

section \<open>What a successful operation did\<close>

lemma policy_update_Inr:
  assumes "tx_bind (tx_stmt pre (update_policy (\<lambda>_. True) f)) expect_policy_row st = (Inr v, st')"
  shows "\<exists>r. db_policy (dbs st) = Some r \<and> dbs st' = (dbs st)\<lparr>db_policy := Some (f r)\<rparr>"
proof -
  from assms obtain n where n: "update_policy (\<lambda>_. True) f (dbs st) = (n, dbs st')" "n \<noteq> 0"
    by (auto simp: expect_policy_row_def rows_affected_def tx_Inr split: if_splits dest!: tx_stmt_Inr)
  then show ?thesis by (auto simp: update_policy_def split: option.splits)
qed

lemma SetPlacementPolicy_Inr:
  assumes "SetPlacementPolicy a j st = (Inr v, st')"
  shows "\<exists>r. db_policy (dbs st) = Some r \<and>
    dbs st' = (dbs st)\<lparr>db_policy := Some (r\<lparr>pr_active := (if a then 1 else 0), pr_policy_json := Some j\<rparr>)\<rparr>"
  using policy_update_Inr [OF assms [unfolded SetPlacementPolicy_def]] .

lemma ClearPlacementPolicy_Inr:
  assumes "db_ClearPlacementPolicy st = (Inr v, st')"
  shows "\<exists>r. db_policy (dbs st) = Some r \<and>
    dbs st' = (dbs st)\<lparr>db_policy := Some (r\<lparr>pr_active := 0, pr_policy_json := None, pr_last_refusal := None\<rparr>)\<rparr>"
  using policy_update_Inr [OF assms [unfolded db_ClearPlacementPolicy_def]] .

lemma SetPlacementRefusal_Inr:
  assumes "SetPlacementRefusal m st = (Inr v, st')"
  shows "\<exists>r. db_policy (dbs st) = Some r \<and>
    dbs st' = (dbs st)\<lparr>db_policy := Some (r\<lparr>pr_last_refusal := (if m = '''' then None else Some m)\<rparr>)\<rparr>"
  using policy_update_Inr [OF assms [unfolded SetPlacementRefusal_def]] .

lemma GetPlacementPolicy_Inr:
  assumes "GetPlacementPolicy st = (Inr v, st')"
  shows "dbs st' = dbs st \<and> (\<exists>r. db_policy (dbs st) = Some r \<and> rec_Active v = (pr_active r \<noteq> 0) \<and>
    rec_PolicyJSON v = pr_policy_json r)"
  using assms
  by (auto simp: GetPlacementPolicy_def query_policy_def tx_Inr dest!: tx_stmt_Inr)

lemma GetClusterLifecycle_Inr:
  assumes "GetClusterLifecycle st = (Inr lc, st')"
  shows "dbs st' = dbs st \<and> db_lifecycle (dbs st) = Some lc"
  using assms
  by (auto simp: GetClusterLifecycle_def query_lifecycle_def tx_Inr dest!: tx_stmt_Inr)

lemma SetClusterLifecycle_Inr:
  assumes "SetClusterLifecycle lc st = (Inr v, st')"
  shows "db_lifecycle (dbs st) \<noteq> None \<and> dbs st' = (dbs st)\<lparr>db_lifecycle := Some lc\<rparr>"
proof -
  from assms obtain n where "update_lifecycle (\<lambda>_. True) (\<lambda>_. lc) (dbs st) = (n, dbs st')" "n \<noteq> 0"
    by (auto simp: SetClusterLifecycle_def rows_affected_def tx_Inr split: if_splits dest!: tx_stmt_Inr)
  then show ?thesis by (auto simp: update_lifecycle_def split: option.splits)
qed

end
