(* ===== verification/Lifecycle.thy ===== *)
theory Lifecycle
  imports Cluster_DB
begin

text \<open>
  The Ceph bootstrap lifecycle (\<^verbatim>\<open>ceph/lifecycle.go\<close>,
  \<^verbatim>\<open>ceph/bootstrap_ceph.go\<close>). A bootstrap claims the lifecycle row with a conditional
  UPDATE, runs the bootstrap steps and records the outcome. The member list, the connectivity check
  and the bootstrap steps are parameters, as they are injected functions in the code.

  The lemmas show on which states a bootstrap starts, what it leaves behind on every branch, and, by
  rule induction over a step relation of contending members, that two bootstraps never run at the
  same time unless one is forced.
\<close>

section \<open>Reading the lifecycle\<close>

definition AdminKeyringFieldName :: string where
  "AdminKeyringFieldName = ''keyring.client.admin''"

definition configIndicatesBootstrapped :: "bool tx" where
  "configIndicatesBootstrapped =
     tx_bind (tx_stmt ''failed to read fsid config: '' (query_config ''fsid'')) (\<lambda>fsid.
       case fsid of
         None \<Rightarrow> tx_return False
       | Some fsid \<Rightarrow>
           tx_bind (tx_stmt ''failed to read admin keyring config: '' (query_config AdminKeyringFieldName)) (\<lambda>adminKey.
             case adminKey of
               None \<Rightarrow> tx_return False
             | Some adminKey \<Rightarrow> tx_return (fsid \<noteq> '''' \<and> adminKey \<noteq> '''')))"

definition config_bootstrapped :: "cluster_db \<Rightarrow> bool" where
  "config_bootstrapped d \<longleftrightarrow>
     (\<exists>fsid key. map_of (db_config d) ''fsid'' = Some fsid \<and> map_of (db_config d) AdminKeyringFieldName = Some key \<and>
        fsid \<noteq> '''' \<and> key \<noteq> '''')"

lemma configIndicatesBootstrapped_Inr:
  assumes "configIndicatesBootstrapped st = (Inr b, st')"
  shows "dbs st' = dbs st \<and> b = config_bootstrapped (dbs st)"
  using assms
  by (auto simp: configIndicatesBootstrapped_def config_bootstrapped_def query_config_def tx_Inr dest!: tx_stmt_Inr)

definition getClusterLifecycleFunc :: "lifecycle tx" where
  "getClusterLifecycleFunc = Transaction GetClusterLifecycle"

definition cephBootstrappedFromConfigFunc :: "bool tx" where
  "cephBootstrappedFromConfigFunc = Transaction configIndicatesBootstrapped"

definition cephIsBootstrappedFunc :: "bool tx" where
  "cephIsBootstrappedFunc st =
     (case getClusterLifecycleFunc st of
        (Inr lc, st1) \<Rightarrow> if CephBootstrapState lc = CephStateBootstrapped then (Inr True, st1)
                          else cephBootstrappedFromConfigFunc st1
      | (Inl e, st1) \<Rightarrow> cephBootstrappedFromConfigFunc st1)"

definition MarkCephBootstrappedFunc :: "bool \<Rightarrow> unit tx" where
  "MarkCephBootstrappedFunc server_cert st =
     (if \<not> server_cert then (Inr (), st)
      else Transaction (SetClusterLifecycle
             \<lparr>CephBootstrapState = CephStateBootstrapped, CephBootstrapTarget = '''', Detail = ''''\<rparr>) st)"

section \<open>Starting a bootstrap\<close>

text \<open>What the code gets from outside: whether the server has a certificate, the member list, the
  connectivity check (\<^const>\<open>None\<close> for success) and the bootstrap steps.\<close>

record boot_env =
  be_server_cert :: bool
  be_members :: "go_error + string list"
  be_verify :: "go_error option"
  be_steps :: "string \<Rightarrow> dbst \<Rightarrow> go_error option \<times> dbst"

text \<open>The UTF-8 bytes of the dash in the messages.\<close>

definition em_dash :: string where
  "em_dash = [CHR 0xE2, CHR 0x80, CHR 0x94]"

definition recover_read :: "(bool \<times> string) tx" where
  "recover_read =
     tx_bind (tx_wrap ''failed to read lifecycle state: '' GetClusterLifecycle) (\<lambda>lc.
       if CephBootstrapState lc = CephStateBootstrapped then tx_return (False, CephBootstrapTarget lc)
       else tx_bind (tx_wrap ''failed to check Ceph config for existing bootstrap: '' configIndicatesBootstrapped)
              (\<lambda>b. tx_return (b, CephBootstrapTarget lc)))"

definition bootstrapped_row :: "string \<Rightarrow> lifecycle" where
  "bootstrapped_row target = \<lparr>CephBootstrapState = CephStateBootstrapped, CephBootstrapTarget = target, Detail = ''''\<rparr>"

definition recoverStaleBootstrappedLifecycle :: "boot_env \<Rightarrow> string \<Rightarrow> bool tx" where
  "recoverStaleBootstrappedLifecycle E target st =
     (case Transaction recover_read st of
        (Inl e, st1) \<Rightarrow> (Inl e, st1)
      | (Inr (staleConfigBootstrap, recordedTarget), st1) \<Rightarrow>
          if \<not> staleConfigBootstrap then (Inr False, st1)
          else case be_verify E of
            Some e \<Rightarrow>
              (let hint = (if recordedTarget \<noteq> '''' \<and> recordedTarget \<noteq> target
                     then '' Note: the previous bootstrap attempt was recorded on member '' @ quoted recordedTarget @
                          ''; this verification ran on '' @ quoted target @
                          '', which may lack a local ceph.conf '' @ em_dash @ '' retry with --target '' @ recordedTarget @
                          '' before treating the bootstrap as partial.''
                     else '''')
               in (Inl (err_wrap '''' (err_of ErrPartialBootstrap)
                     ('': fsid/admin keyring config rows exist but Ceph connectivity verification failed: '' @ etext e @
                      ''. Clean up the partial bootstrap on '' @ target @
                      '' (remove ceph.conf/keyrings and the fsid/keyring.client.admin config rows) before retrying.'' @ hint)), st1))
          | None \<Rightarrow>
              (case Transaction (SetClusterLifecycle (bootstrapped_row target)) st1 of
                 (Inl e, st2) \<Rightarrow> (Inl (err_wrap ''verified existing Ceph bootstrap but failed to mark lifecycle bootstrapped: '' e ''''), st2)
               | (Inr _, st2) \<Rightarrow> (Inr True, st2)))"

definition force_reset :: "unit tx" where
  "force_reset =
     tx_bind (tx_stmt ''failed to force-reset lifecycle state: ''
       (update_lifecycle (\<lambda>r. CephBootstrapState r = CephStateInProgress)
          (\<lambda>r. r\<lparr>CephBootstrapState := CephStateFailed, Detail := ''force-reset from in_progress''\<rparr>)))
     (\<lambda>_. tx_return ())"

definition claim_update :: "string \<Rightarrow> cluster_db \<Rightarrow> nat \<times> cluster_db" where
  "claim_update target =
     update_lifecycle (\<lambda>r. CephBootstrapState r = CephStateNotBootstrapped \<or> CephBootstrapState r = CephStateFailed)
       (\<lambda>_. \<lparr>CephBootstrapState = CephStateInProgress, CephBootstrapTarget = target, Detail = ''''\<rparr>)"

text \<open>The conditional UPDATE of \<^verbatim>\<open>atomicStartBootstrap\<close> and what follows it.\<close>

definition claim_tx :: "string \<Rightarrow> bool tx" where
  "claim_tx target =
     tx_bind (tx_stmt ''failed to update lifecycle state: '' (claim_update target)) (\<lambda>n.
     tx_bind (rows_affected n) (\<lambda>rows.
       if rows = 1 then tx_return True
       else
       tx_bind GetClusterLifecycle (\<lambda>lc.
         if CephBootstrapState lc = CephStateBootstrapped then tx_return False
         else if CephBootstrapState lc = CephStateInProgress then tx_fail (err_of ErrCephBootstrapInProgress)
         else tx_fail (err_new (''unexpected lifecycle state '' @ quoted (CephBootstrapState lc) @ '': cannot start bootstrap'')))))"

text \<open>The transaction of \<^verbatim>\<open>atomicStartBootstrap\<close>; the result says whether to proceed.\<close>

definition start_tx :: "string \<Rightarrow> bool \<Rightarrow> bool tx" where
  "start_tx target force =
     tx_bind (if force then force_reset else tx_return ()) (\<lambda>_.
     tx_bind (tx_wrap ''failed to read lifecycle state: '' GetClusterLifecycle) (\<lambda>lc.
     tx_bind (tx_wrap ''failed to check Ceph config for existing bootstrap: '' configIndicatesBootstrapped) (\<lambda>configBootstrapped.
       if configBootstrapped
       then if CephBootstrapState lc = CephStateBootstrapped then tx_return False
            else tx_fail (err_wrap '''' (err_of ErrPartialBootstrap)
                   ('': a prior Ceph-only bootstrap left partial state (fsid/admin keyring present but Ceph not fully bootstrapped). Re-running would generate a divergent FSID and conflict with existing DB rows. Clean up the partial bootstrap on ''
                    @ target @ '' (remove ceph.conf/keyrings and the fsid/keyring.client.admin config rows) before retrying''))
       else claim_tx target)))"

definition atomicStartBootstrap :: "boot_env \<Rightarrow> string \<Rightarrow> bool \<Rightarrow> bool tx" where
  "atomicStartBootstrap E target force st =
     (case be_members E of
        Inl e \<Rightarrow> (Inl (err_wrap ''failed to list cluster members: '' e ''''), st)
      | Inr members \<Rightarrow>
          if target \<notin> set members
          then (Inl (err_wrap '''' (err_of ErrUnknownBootstrapTarget) ('': '' @ target)), st)
          else case recoverStaleBootstrappedLifecycle E target st of
            (Inl e, st1) \<Rightarrow> (Inl e, st1)
          | (Inr recovered, st1) \<Rightarrow>
              if recovered then (Inr False, st1) else Transaction (start_tx target force) st1)"

section \<open>Bootstrapping\<close>

definition record_tx :: "string \<Rightarrow> go_error option \<Rightarrow> unit tx" where
  "record_tx target bootErr =
     (case bootErr of
        Some e \<Rightarrow> SetClusterLifecycle \<lparr>CephBootstrapState = CephStateFailed, CephBootstrapTarget = target, Detail = etext e\<rparr>
      | None \<Rightarrow> SetClusterLifecycle (bootstrapped_row target))"

text \<open>The first argument says whether the process-local mutex was free.\<close>

definition BootstrapCeph :: "bool \<Rightarrow> boot_env \<Rightarrow> string \<Rightarrow> bool \<Rightarrow> unit tx" where
  "BootstrapCeph locked E target force st =
     (if \<not> locked then (Inl (err_of ErrCephBootstrapInProgress), st)
      else if \<not> be_server_cert E then (Inl (err_new ''no server certificate''), st)
      else case atomicStartBootstrap E target force st of
        (Inl e, st1) \<Rightarrow> (Inl e, st1)
      | (Inr proceed, st1) \<Rightarrow>
          if \<not> proceed then (Inr (), st1)
          else case be_steps E target st1 of
            (bootErr, st2) \<Rightarrow>
              (case Transaction (record_tx target bootErr) st2 of
                 (Inl recordErr, st3) \<Rightarrow>
                   (case bootErr of
                      Some e \<Rightarrow> (Inl (err_wrap (''ceph bootstrap failed ('' @ etext e @ '') and recording the result also failed: '')
                                   recordErr (''; lifecycle state may be stale '' @ em_dash @ '' retry or use --force to recover'')), st3)
                    | None \<Rightarrow> (Inl (err_wrap ''failed to record ceph bootstrap result: '' recordErr
                                   (''; lifecycle state may be stale '' @ em_dash @ '' retry or use --force to recover'')), st3))
               | (Inr _, st3) \<Rightarrow>
                   (case bootErr of Some e \<Rightarrow> (Inl e, st3) | None \<Rightarrow> (Inr (), st3))))"

section \<open>When a bootstrap starts\<close>

definition lifecycle_state :: "cluster_db \<Rightarrow> string option" where
  "lifecycle_state d = map_option CephBootstrapState (db_lifecycle d)"

definition claimed_row :: "string \<Rightarrow> lifecycle" where
  "claimed_row target = \<lparr>CephBootstrapState = CephStateInProgress, CephBootstrapTarget = target, Detail = ''''\<rparr>"

lemma force_reset_Inr:
  assumes "force_reset st = (Inr v, st')"
  shows "db_config (dbs st') = db_config (dbs st) \<and>
    (if lifecycle_state (dbs st) = Some CephStateInProgress then lifecycle_state (dbs st') = Some CephStateFailed
     else dbs st' = dbs st)"
proof -
  from assms obtain n where "update_lifecycle (\<lambda>r. CephBootstrapState r = CephStateInProgress)
      (\<lambda>r. r\<lparr>CephBootstrapState := CephStateFailed, Detail := ''force-reset from in_progress''\<rparr>) (dbs st) = (n, dbs st')"
    by (auto simp: force_reset_def tx_Inr dest!: tx_stmt_Inr)
  then show ?thesis
    by (cases "db_lifecycle (dbs st)")
      (auto simp: update_lifecycle_def lifecycle_state_def split: if_splits dest: sym [of _ "dbs st'"])
qed

lemma claim_update_cases:
  assumes "claim_update t d = (n, d')"
  shows "if lifecycle_state d \<in> {Some CephStateNotBootstrapped, Some CephStateFailed}
         then n = 1 \<and> d' = d\<lparr>db_lifecycle := Some (claimed_row t)\<rparr> else n = 0 \<and> d' = d"
  using assms
  by (cases "db_lifecycle d") (auto simp: claim_update_def update_lifecycle_def lifecycle_state_def claimed_row_def)

lemma claim_tx_Inr:
  assumes "claim_tx t st = (Inr proceed, st')"
  shows "if proceed then lifecycle_state (dbs st) \<in> {Some CephStateNotBootstrapped, Some CephStateFailed} \<and>
             dbs st' = (dbs st)\<lparr>db_lifecycle := Some (claimed_row t)\<rparr>
         else lifecycle_state (dbs st) = Some CephStateBootstrapped \<and> dbs st' = dbs st"
proof -
  from assms obtain n m st1 st2 where n: "tx_stmt ''failed to update lifecycle state: '' (claim_update t) st = (Inr n, st1)"
      "rows_affected n st1 = (Inr m, st2)"
    and p: "if m = 1 then proceed \<and> st' = st2
      else \<exists>lc. GetClusterLifecycle st2 = (Inr lc, st') \<and> CephBootstrapState lc = CephStateBootstrapped \<and> \<not> proceed"
    unfolding claim_tx_def by (auto simp: tx_Inr split: if_splits)
  from n have c: "claim_update t (dbs st) = (m, dbs st2)" by (auto simp: rows_affected_def dest!: tx_stmt_Inr)
  from claim_update_cases [OF c] p show ?thesis
    by (auto simp: lifecycle_state_def split: if_splits dest!: GetClusterLifecycle_Inr)
qed

lemma start_tx_Inr:
  assumes "start_tx t force st = (Inr proceed, st')"
  obtains st1 where "if force then force_reset st = (Inr (), st1) else st1 = st"
    "if proceed then \<not> config_bootstrapped (dbs st1) \<and>
          lifecycle_state (dbs st1) \<in> {Some CephStateNotBootstrapped, Some CephStateFailed} \<and>
          dbs st' = (dbs st1)\<lparr>db_lifecycle := Some (claimed_row t)\<rparr>
     else lifecycle_state (dbs st1) = Some CephStateBootstrapped \<and> dbs st' = dbs st1"
proof -
  from assms obtain st1 st2 st3 lc cb where f: "(if force then force_reset else tx_return ()) st = (Inr (), st1)"
    and lc: "GetClusterLifecycle st1 = (Inr lc, st2)" and cb: "configIndicatesBootstrapped st2 = (Inr cb, st3)"
    and rest: "if cb then CephBootstrapState lc = CephStateBootstrapped \<and> \<not> proceed \<and> st' = st3
       else claim_tx t st3 = (Inr proceed, st')"
    unfolding start_tx_def by (auto simp: tx_Inr split: if_splits)
  have 1: "if force then force_reset st = (Inr (), st1) else st1 = st"
    using f by (auto simp: tx_return_def split: if_splits)
  have d2: "dbs st2 = dbs st1" "db_lifecycle (dbs st1) = Some lc" using GetClusterLifecycle_Inr [OF lc] by auto
  have d3: "dbs st3 = dbs st1" "cb = config_bootstrapped (dbs st1)" using configIndicatesBootstrapped_Inr [OF cb] d2 by auto
  show thesis
  proof (cases cb)
    case True
    with rest d2 d3 show thesis by (intro that [OF 1]) (auto simp: lifecycle_state_def)
  next
    case False
    with rest claim_tx_Inr [of t st3 proceed st'] d3 show thesis by (intro that [OF 1]) auto
  qed
qed

lemma start_tx_proceeds:
  assumes "start_tx t force st = (Inr True, st')"
  shows "\<not> config_bootstrapped (dbs st)" "lifecycle_state (dbs st') = Some CephStateInProgress"
    "lifecycle_state (dbs st) \<in> {Some CephStateNotBootstrapped, Some CephStateFailed} \<union> (if force then {Some CephStateInProgress} else {})"
proof -
  from assms obtain st1 where s: "if force then force_reset st = (Inr (), st1) else st1 = st"
    "\<not> config_bootstrapped (dbs st1)" "lifecycle_state (dbs st1) \<in> {Some CephStateNotBootstrapped, Some CephStateFailed}"
    "dbs st' = (dbs st1)\<lparr>db_lifecycle := Some (claimed_row t)\<rparr>"
    by (auto elim: start_tx_Inr)
  from s(4) show "lifecycle_state (dbs st') = Some CephStateInProgress"
    by (simp add: lifecycle_state_def claimed_row_def)
  from s(1,2) show "\<not> config_bootstrapped (dbs st)"
    by (auto simp: config_bootstrapped_def split: if_splits dest!: force_reset_Inr)
  from s(1,3) show "lifecycle_state (dbs st) \<in> {Some CephStateNotBootstrapped, Some CephStateFailed} \<union> (if force then {Some CephStateInProgress} else {})"
    by (auto split: if_splits dest!: force_reset_Inr)
qed

section \<open>Contending bootstraps\<close>

text \<open>Requests are numbers; \<open>bs_running\<close> holds those whose bootstrap steps are under way. Each step is
  one transaction of a request made without force, so their interleaving is arbitrary: \<open>begin_ok\<close> and
  \<open>begin_not\<close> are the start transaction, \<open>heal\<close> is the recovery of a stale row, \<open>work\<close> what the
  bootstrap steps write, \<open>finish\<close> the recording of the outcome, \<open>idle\<close> everything else.\<close>

record boot_sys =
  bs_st :: dbst
  bs_running :: "nat set"

inductive boot_step :: "boot_sys \<Rightarrow> boot_sys \<Rightarrow> bool" where
  begin_ok: "c \<notin> bs_running s \<Longrightarrow> Transaction (start_tx target False) (bs_st s) = (Inr True, st') \<Longrightarrow>
    boot_step s (s\<lparr>bs_st := st', bs_running := insert c (bs_running s)\<rparr>)"
| begin_not: "Transaction (start_tx target False) (bs_st s) = (r, st') \<Longrightarrow> r \<noteq> Inr True \<Longrightarrow>
    boot_step s (s\<lparr>bs_st := st'\<rparr>)"
| heal: "Transaction (SetClusterLifecycle (bootstrapped_row target)) (bs_st s) = (r, st') \<Longrightarrow>
    boot_step s (s\<lparr>bs_st := st'\<rparr>)"
| work: "c \<in> bs_running s \<Longrightarrow>
    lifecycle_state (dbs st') = lifecycle_state (dbs (bs_st s)) \<or> lifecycle_state (dbs st') = Some CephStateBootstrapped \<Longrightarrow>
    boot_step s (s\<lparr>bs_st := st'\<rparr>)"
| finish: "c \<in> bs_running s \<Longrightarrow> Transaction (record_tx target bootErr) (bs_st s) = (r, st') \<Longrightarrow>
    boot_step s (s\<lparr>bs_st := st', bs_running := bs_running s - {c}\<rparr>)"
| crash: "boot_step s (s\<lparr>bs_running := bs_running s - {c}\<rparr>)"
| idle: "lifecycle_state (dbs st') = lifecycle_state (dbs (bs_st s)) \<Longrightarrow> boot_step s (s\<lparr>bs_st := st'\<rparr>)"

inductive_cases boot_stepE: "boot_step s s'"

definition boot_inv :: "boot_sys \<Rightarrow> bool" where
  "boot_inv s \<longleftrightarrow> (\<exists>c. bs_running s \<subseteq> {c}) \<and>
     (bs_running s \<noteq> {} \<longrightarrow> lifecycle_state (dbs (bs_st s)) \<in> {Some CephStateInProgress, Some CephStateBootstrapped})"

lemma start_tx_not_proceeding:
  assumes "Transaction (start_tx target False) st = (r, st')" "r \<noteq> Inr True"
  shows "dbs st' = dbs st"
proof (cases r)
  case (Inl e)
  with assms Transaction_Inl show ?thesis by blast
next
  case (Inr b)
  with assms obtain st1 st2 where t: "start_tx target False st1 = (Inr False, st2)" "dbs st1 = dbs st" "dbs st2 = dbs st'"
    by (auto elim: Transaction_Inr)
  from t(1) have "dbs st2 = dbs st1" by (auto elim: start_tx_Inr)
  with t show ?thesis by simp
qed

lemma start_tx_transaction:
  assumes "Transaction (start_tx target False) st = (Inr True, st')"
  shows "\<not> config_bootstrapped (dbs st)" "lifecycle_state (dbs st') = Some CephStateInProgress"
    "lifecycle_state (dbs st) \<in> {Some CephStateNotBootstrapped, Some CephStateFailed}"
proof -
  from assms obtain st1 st2 where t: "start_tx target False st1 = (Inr True, st2)" "dbs st1 = dbs st" "dbs st2 = dbs st'"
    by (auto elim: Transaction_Inr)
  from start_tx_proceeds [OF t(1)] t(2,3) show "\<not> config_bootstrapped (dbs st)"
    "lifecycle_state (dbs st') = Some CephStateInProgress"
    "lifecycle_state (dbs st) \<in> {Some CephStateNotBootstrapped, Some CephStateFailed}" by simp_all
qed

lemma SetClusterLifecycle_committed:
  assumes "Transaction (SetClusterLifecycle lc) st = (Inr u, st')"
  shows "dbs st' = (dbs st)\<lparr>db_lifecycle := Some lc\<rparr>" "lifecycle_state (dbs st') = Some (CephBootstrapState lc)"
proof -
  from assms obtain st1 st2 where t: "SetClusterLifecycle lc st1 = (Inr u, st2)" "dbs st1 = dbs st" "dbs st2 = dbs st'"
    by (auto elim: Transaction_Inr)
  from SetClusterLifecycle_Inr [OF t(1)] t(2,3)
  show "dbs st' = (dbs st)\<lparr>db_lifecycle := Some lc\<rparr>" by simp
  then show "lifecycle_state (dbs st') = Some (CephBootstrapState lc)" by (simp add: lifecycle_state_def)
qed

lemma SetClusterLifecycle_transaction:
  assumes "Transaction (SetClusterLifecycle lc) st = (r, st')"
  shows "dbs st' = dbs st \<or> lifecycle_state (dbs st') = Some (CephBootstrapState lc)"
  using assms Transaction_Inl SetClusterLifecycle_committed(2) by (cases r) blast+

lemma boot_inv_db:
  assumes "boot_inv s"
    "lifecycle_state (dbs st') = lifecycle_state (dbs (bs_st s)) \<or> lifecycle_state (dbs st') = Some CephStateBootstrapped"
  shows "boot_inv (s\<lparr>bs_st := st'\<rparr>)"
  using assms by (auto simp: boot_inv_def)

lemma boot_inv_step:
  assumes "boot_step s s'" "boot_inv s"
  shows "boot_inv s'"
  using assms
proof (cases rule: boot_step.cases)
  case (begin_ok c target st')
  note started = start_tx_transaction [OF begin_ok(3)]
  have "bs_running s = {}"
  proof (rule ccontr)
    assume "bs_running s \<noteq> {}"
    with assms(2) have "lifecycle_state (dbs (bs_st s)) \<in> {Some CephStateInProgress, Some CephStateBootstrapped}"
      by (simp add: boot_inv_def)
    with started(3) show False by auto
  qed
  with begin_ok(1) started(2) show ?thesis by (simp add: boot_inv_def)
next
  case (begin_not target r st')
  have "dbs st' = dbs (bs_st s)" using start_tx_not_proceeding begin_not(2,3) by blast
  then show ?thesis unfolding begin_not(1) by (intro boot_inv_db assms(2)) simp
next
  case (heal target r st')
  have "dbs st' = dbs (bs_st s) \<or> lifecycle_state (dbs st') = Some CephStateBootstrapped"
    using SetClusterLifecycle_transaction [OF heal(2)] by (simp add: bootstrapped_row_def)
  then show ?thesis unfolding heal(1) by (intro boot_inv_db assms(2)) auto
next
  case (work c st')
  then show ?thesis unfolding work(1) by (intro boot_inv_db assms(2))
next
  case (finish c target bootErr r st')
  with assms(2) have "bs_running s - {c} = {}" by (auto simp: boot_inv_def)
  with finish(1) show ?thesis by (simp add: boot_inv_def)
next
  case (crash c)
  from assms(2) show ?thesis unfolding crash by (auto simp: boot_inv_def)
next
  case (idle st')
  then show ?thesis unfolding idle(1) by (intro boot_inv_db assms(2)) simp
qed

lemma boot_inv_reachable:
  assumes "boot_step\<^sup>*\<^sup>* s0 s" "bs_running s0 = {}"
  shows "boot_inv s"
  using assms(1)
proof (induction rule: rtranclp_induct)
  case base
  from assms(2) show ?case by (simp add: boot_inv_def)
next
  case (step y z)
  with boot_inv_step show ?case by blast
qed

section \<open>Whole bootstraps\<close>

lemma recover_read_Inr:
  assumes "Transaction recover_read st = (Inr (stale, target), st')"
  shows "dbs st' = dbs st" "stale \<longleftrightarrow> lifecycle_state (dbs st) \<noteq> Some CephStateBootstrapped \<and> config_bootstrapped (dbs st)"
    "db_lifecycle (dbs st) \<noteq> None"
proof -
  from assms obtain st1 st2 where t: "recover_read st1 = (Inr (stale, target), st2)" "dbs st1 = dbs st" "dbs st2 = dbs st'"
    by (auto elim: Transaction_Inr)
  from t(1) have "dbs st2 = dbs st1 \<and> (stale \<longleftrightarrow> lifecycle_state (dbs st1) \<noteq> Some CephStateBootstrapped \<and> config_bootstrapped (dbs st1)) \<and>
      db_lifecycle (dbs st1) \<noteq> None"
    unfolding recover_read_def
    by (auto simp: tx_Inr lifecycle_state_def split: if_splits
        dest!: GetClusterLifecycle_Inr configIndicatesBootstrapped_Inr)
  with t(2,3) show "dbs st' = dbs st" "stale \<longleftrightarrow> lifecycle_state (dbs st) \<noteq> Some CephStateBootstrapped \<and> config_bootstrapped (dbs st)"
    "db_lifecycle (dbs st) \<noteq> None" by simp_all
qed

lemma recover_cases:
  assumes "recoverStaleBootstrappedLifecycle E target st = (Inr recovered, st')"
  shows "if recovered then lifecycle_state (dbs st') = Some CephStateBootstrapped \<and> config_bootstrapped (dbs st) \<and>
             lifecycle_state (dbs st) \<noteq> Some CephStateBootstrapped \<and> be_verify E = None
         else dbs st' = dbs st"
proof -
  from assms obtain stale rt st1 where r: "Transaction recover_read st = (Inr (stale, rt), st1)"
    by (auto simp: recoverStaleBootstrappedLifecycle_def split: prod.splits sum.splits)
  show ?thesis
  proof (cases stale)
    case False
    with assms r recover_read_Inr [OF r] show ?thesis by (simp add: recoverStaleBootstrappedLifecycle_def)
  next
    case True
    with assms r obtain u where u: "Transaction (SetClusterLifecycle (bootstrapped_row target)) st1 = (Inr u, st')" "recovered"
        "be_verify E = None"
      by (auto simp: recoverStaleBootstrappedLifecycle_def Let_def split: prod.splits sum.splits option.splits)
    from SetClusterLifecycle_committed(2) [OF u(1)] have "lifecycle_state (dbs st') = Some CephStateBootstrapped"
      by (simp add: bootstrapped_row_def)
    with u True recover_read_Inr [OF r] show ?thesis by simp
  qed
qed

lemma force_reset_frame:
  assumes "force_reset st = (Inr v, st')"
  shows "(dbs st')\<lparr>db_lifecycle := r\<rparr> = (dbs st)\<lparr>db_lifecycle := r\<rparr>"
proof -
  from assms obtain n where "update_lifecycle (\<lambda>r. CephBootstrapState r = CephStateInProgress)
      (\<lambda>r. r\<lparr>CephBootstrapState := CephStateFailed, Detail := ''force-reset from in_progress''\<rparr>) (dbs st) = (n, dbs st')"
    by (auto simp: force_reset_def tx_Inr dest!: tx_stmt_Inr)
  then show ?thesis
    by (cases "db_lifecycle (dbs st)") (auto simp: update_lifecycle_def split: if_splits dest: sym [of _ "dbs st'"])
qed

lemma start_tx_commit:
  assumes "Transaction (start_tx t force) st = (Inr proceed, st')"
  shows "if proceed then \<not> config_bootstrapped (dbs st) \<and> dbs st' = (dbs st)\<lparr>db_lifecycle := Some (claimed_row t)\<rparr>
         else lifecycle_state (dbs st') = Some CephStateBootstrapped"
proof -
  from assms obtain st1 st2 where t: "start_tx t force st1 = (Inr proceed, st2)" "dbs st1 = dbs st" "dbs st2 = dbs st'"
    by (auto elim: Transaction_Inr)
  obtain st3 where s: "if force then force_reset st1 = (Inr (), st3) else st3 = st1"
    "if proceed then \<not> config_bootstrapped (dbs st3) \<and>
          lifecycle_state (dbs st3) \<in> {Some CephStateNotBootstrapped, Some CephStateFailed} \<and>
          dbs st2 = (dbs st3)\<lparr>db_lifecycle := Some (claimed_row t)\<rparr>
     else lifecycle_state (dbs st3) = Some CephStateBootstrapped \<and> dbs st2 = dbs st3"
    by (rule start_tx_Inr [OF t(1)])
  show ?thesis
  proof (cases proceed)
    case True
    have "dbs st2 = (dbs st1)\<lparr>db_lifecycle := Some (claimed_row t)\<rparr>"
      using s True force_reset_frame by (auto split: if_splits)
    with True t start_tx_proceeds(1) [of t force st1 st2] show ?thesis by simp
  next
    case False
    with s t show ?thesis by simp
  qed
qed

lemma atomicStart_commit:
  assumes "atomicStartBootstrap E t force st = (Inr proceed, st')"
  shows "if proceed then \<not> config_bootstrapped (dbs st) \<and> dbs st' = (dbs st)\<lparr>db_lifecycle := Some (claimed_row t)\<rparr>
         else lifecycle_state (dbs st') = Some CephStateBootstrapped"
    "\<exists>ms. be_members E = Inr ms \<and> t \<in> set ms"
proof -
  from assms obtain ms recovered st1 where r: "be_members E = Inr ms" "t \<in> set ms"
      "recoverStaleBootstrappedLifecycle E t st = (Inr recovered, st1)"
      "if recovered then \<not> proceed \<and> st' = st1 else Transaction (start_tx t force) st1 = (Inr proceed, st')"
    by (auto simp: atomicStartBootstrap_def split: sum.splits prod.splits if_splits)
  then show "\<exists>ms. be_members E = Inr ms \<and> t \<in> set ms" by blast
  from recover_cases [OF r(3)] r(4) start_tx_commit [of t force st1 proceed st']
  show "if proceed then \<not> config_bootstrapped (dbs st) \<and> dbs st' = (dbs st)\<lparr>db_lifecycle := Some (claimed_row t)\<rparr>
        else lifecycle_state (dbs st') = Some CephStateBootstrapped"
    by (cases recovered) auto
qed

lemma BootstrapCeph_success:
  assumes "BootstrapCeph locked E t force st = (Inr (), st')"
  shows "lifecycle_state (dbs st') = Some CephStateBootstrapped"
proof -
  from assms obtain proceed st1 where a: "atomicStartBootstrap E t force st = (Inr proceed, st1)"
    by (auto simp: BootstrapCeph_def split: if_splits prod.splits sum.splits)
  show ?thesis
  proof (cases proceed)
    case False
    with assms a atomicStart_commit(1) [OF a] show ?thesis by (auto simp: BootstrapCeph_def split: if_splits)
  next
    case True
    with assms a obtain st2 u where "Transaction (record_tx t None) st2 = (Inr u, st')"
      by (auto simp: BootstrapCeph_def split: if_splits prod.splits sum.splits option.splits)
    with SetClusterLifecycle_committed(2) show ?thesis by (fastforce simp: record_tx_def bootstrapped_row_def)
  qed
qed

lemma BootstrapCeph_failed_steps:
  assumes "atomicStartBootstrap E t force st = (Inr True, st1)" "be_server_cert E"
    "be_steps E t st1 = (Some e, st2)" "Transaction (record_tx t (Some e)) st2 = (Inr u, st3)"
  shows "BootstrapCeph True E t force st = (Inl e, st3)"
    "db_lifecycle (dbs st3) = Some \<lparr>CephBootstrapState = CephStateFailed, CephBootstrapTarget = t, Detail = etext e\<rparr>"
  using assms SetClusterLifecycle_committed(1) [of _ st2 u st3]
  by (auto simp: BootstrapCeph_def record_tx_def)

text \<open>Evaluation of the reads when nothing fails.\<close>

lemma lifecycle_no_faults:
  assumes "db_lifecycle d = Some lc" "CephBootstrapState lc = CephStateBootstrapped"
  shows "GetClusterLifecycle \<lparr>dbs = d, faults = []\<rparr> = (Inr lc, \<lparr>dbs = d, faults = []\<rparr>)"
    "recoverStaleBootstrappedLifecycle E t \<lparr>dbs = d, faults = []\<rparr> = (Inr False, \<lparr>dbs = d, faults = []\<rparr>)"
    "force_reset \<lparr>dbs = d, faults = []\<rparr> = (Inr (), \<lparr>dbs = d, faults = []\<rparr>)"
    "claim_tx t \<lparr>dbs = d, faults = []\<rparr> = (Inr False, \<lparr>dbs = d, faults = []\<rparr>)"
  using assms
  by (simp_all add: GetClusterLifecycle_def recoverStaleBootstrappedLifecycle_def recover_read_def Transaction_def
      tx_bind_def tx_wrap_def query_lifecycle_def force_reset_def update_lifecycle_def claim_tx_def claim_update_def rows_affected_def)

lemma configIndicates_no_faults:
  "configIndicatesBootstrapped \<lparr>dbs = d, faults = []\<rparr> = (Inr (config_bootstrapped d), \<lparr>dbs = d, faults = []\<rparr>)"
  by (simp add: configIndicatesBootstrapped_def config_bootstrapped_def query_config_def tx_bind_def split: option.split)

lemma start_tx_bootstrapped:
  assumes "db_lifecycle d = Some lc" "CephBootstrapState lc = CephStateBootstrapped"
  shows "start_tx t force \<lparr>dbs = d, faults = []\<rparr> = (Inr False, \<lparr>dbs = d, faults = []\<rparr>)"
  using lifecycle_no_faults [OF assms] assms(2)
  by (cases force) (simp_all add: start_tx_def tx_bind_def tx_wrap_def configIndicates_no_faults tx_return_def)

lemma BootstrapCeph_bootstrapped:
  assumes "db_lifecycle d = Some lc" "CephBootstrapState lc = CephStateBootstrapped"
    and "be_server_cert E" "be_members E = Inr ms" "target \<in> set ms"
  shows "BootstrapCeph True E target force \<lparr>dbs = d, faults = []\<rparr> = (Inr (), \<lparr>dbs = d, faults = []\<rparr>)"
proof -
  have "Transaction (start_tx target force) \<lparr>dbs = d, faults = []\<rparr> = (Inr False, \<lparr>dbs = d, faults = []\<rparr>)"
    by (simp add: Transaction_def start_tx_bootstrapped [OF assms(1,2)])
  with assms(3-5) show ?thesis
    by (simp add: BootstrapCeph_def atomicStartBootstrap_def lifecycle_no_faults(2) [OF assms(1,2)])
qed

section \<open>Properties\<close>

text \<open>C29 (invariant). At most one Ceph bootstrap runs at a time: along every interleaving of the
  transactions of unforced requests on any members, with database failures, recoveries of stale rows
  and crashes, two different requests are never both past the start, and while one is, the lifecycle
  row is not free to be claimed.\<close>

theorem bootstrap_exclusive:
  assumes "bs_running s0 = {}" "boot_step\<^sup>*\<^sup>* s0 s" "c \<in> bs_running s" "c' \<in> bs_running s"
  shows "c = c' \<and> lifecycle_state (dbs (bs_st s)) \<in> {Some CephStateInProgress, Some CephStateBootstrapped}"
proof -
  have "boot_inv s" using boot_inv_reachable assms(1,2) by blast
  with assms(3,4) show ?thesis by (auto simp: boot_inv_def)
qed

definition fresh_db :: cluster_db where
  "fresh_db = \<lparr>db_members = [''n1'', ''n2''], db_services = [], db_grouped = [], db_rgw_frontends = [], db_config = [],
     db_policy = None,
     db_lifecycle = Some \<lparr>CephBootstrapState = CephStateNotBootstrapped, CephBootstrapTarget = '''', Detail = ''''\<rparr>\<rparr>"

lemma fresh_start:
  "Transaction (start_tx t False) \<lparr>dbs = fresh_db, faults = []\<rparr> =
     (Inr True, \<lparr>dbs = fresh_db\<lparr>db_lifecycle := Some (claimed_row t)\<rparr>, faults = []\<rparr>)"
  by (simp add: Transaction_def start_tx_def tx_bind_def tx_wrap_def tx_return_def GetClusterLifecycle_def query_lifecycle_def
      configIndicates_no_faults config_bootstrapped_def fresh_db_def claim_tx_def claim_update_def update_lifecycle_def
      rows_affected_def claimed_row_def)

theorem bootstrap_exclusive_witness:
  "\<exists>s. boot_step \<lparr>bs_st = \<lparr>dbs = fresh_db, faults = []\<rparr>, bs_running = {}\<rparr> s \<and> 3 \<in> bs_running s \<and>
     lifecycle_state (dbs (bs_st s)) \<in> {Some CephStateInProgress, Some CephStateBootstrapped}"
proof -
  let ?init = "\<lparr>bs_st = \<lparr>dbs = fresh_db, faults = []\<rparr>, bs_running = {}\<rparr>"
  let ?s = "\<lparr>bs_st = \<lparr>dbs = fresh_db\<lparr>db_lifecycle := Some (claimed_row ''n1'')\<rparr>, faults = []\<rparr>, bs_running = {3}\<rparr>"
  have "boot_step ?init (?init\<lparr>bs_st := bs_st ?s, bs_running := insert 3 (bs_running ?init)\<rparr>)"
    by (rule boot_step.begin_ok [where s = ?init and target = "''n1''"]) (simp_all add: fresh_start)
  then have step: "boot_step ?init ?s" by simp
  have "(3 :: nat) = 3 \<and> lifecycle_state (dbs (bs_st ?s)) \<in> {Some CephStateInProgress, Some CephStateBootstrapped}"
    by (rule bootstrap_exclusive [of ?init ?s]) (use step in auto)
  with step show ?thesis by (intro exI [of _ ?s]) simp
qed

text \<open>C30 (safety). A bootstrap proceeds only for a known member and only when no fsid and admin
  keyring are on record, forced or not, and claiming the row changes nothing else: an existing Ceph
  cluster is never bootstrapped over.\<close>

theorem bootstrap_never_over_existing:
  assumes "atomicStartBootstrap E target force st = (Inr True, st')"
  shows "\<not> config_bootstrapped (dbs st) \<and> (\<exists>ms. be_members E = Inr ms \<and> target \<in> set ms) \<and>
    dbs st' = (dbs st)\<lparr>db_lifecycle := Some (claimed_row target)\<rparr>"
  using atomicStart_commit [OF assms] by simp

definition fresh_env :: boot_env where
  "fresh_env = \<lparr>be_server_cert = True, be_members = Inr [''n1'', ''n2''], be_verify = None,
     be_steps = (\<lambda>t st. (Some (err_new ''precheck failed''), st))\<rparr>"

lemma fresh_recover:
  "recoverStaleBootstrappedLifecycle fresh_env t \<lparr>dbs = fresh_db, faults = []\<rparr> = (Inr False, \<lparr>dbs = fresh_db, faults = []\<rparr>)"
  by (simp add: recoverStaleBootstrappedLifecycle_def Transaction_def recover_read_def tx_bind_def tx_wrap_def tx_return_def
      GetClusterLifecycle_def query_lifecycle_def configIndicates_no_faults config_bootstrapped_def fresh_db_def)

lemma fresh_atomic_start:
  "atomicStartBootstrap fresh_env ''n1'' False \<lparr>dbs = fresh_db, faults = []\<rparr> =
     (Inr True, \<lparr>dbs = fresh_db\<lparr>db_lifecycle := Some (claimed_row ''n1'')\<rparr>, faults = []\<rparr>)"
proof -
  have "be_members fresh_env = Inr [''n1'', ''n2'']" by (simp add: fresh_env_def)
  then show ?thesis by (simp add: atomicStartBootstrap_def fresh_recover fresh_start)
qed

theorem bootstrap_never_over_existing_witness:
  "\<not> config_bootstrapped fresh_db \<and> (\<exists>ms. be_members fresh_env = Inr ms \<and> ''n1'' \<in> set ms)"
  using bootstrap_never_over_existing [OF fresh_atomic_start] by simp

text \<open>Success is never reported early: whenever a bootstrap request returns without
  error (no-op, recovery or a full run), the lifecycle row on record says bootstrapped.\<close>

theorem bootstrap_success_recorded:
  assumes "BootstrapCeph locked E target force st = (Inr (), st')"
  shows "lifecycle_state (dbs st') = Some CephStateBootstrapped"
  using assms by (rule BootstrapCeph_success)

text \<open>Bootstrapping is idempotent: on a cluster on record as bootstrapped, a request
  for a known member succeeds without running the bootstrap steps or touching the database, whatever
  the steps and the connectivity check would do, forced or not.\<close>

theorem bootstrap_idempotent:
  assumes "db_lifecycle d = Some lc" "CephBootstrapState lc = CephStateBootstrapped"
    and "be_server_cert E" "be_members E = Inr ms" "target \<in> set ms"
  shows "BootstrapCeph True E target force \<lparr>dbs = d, faults = []\<rparr> = (Inr (), \<lparr>dbs = d, faults = []\<rparr>)"
  using assms by (rule BootstrapCeph_bootstrapped)

definition booted_db :: cluster_db where
  "booted_db = fresh_db\<lparr>db_lifecycle := Some (bootstrapped_row ''n1''), db_config := [(''fsid'', ''f''), (AdminKeyringFieldName, ''k'')]\<rparr>"

theorem bootstrap_idempotent_witness:
  "BootstrapCeph True fresh_env ''n2'' True \<lparr>dbs = booted_db, faults = []\<rparr> = (Inr (), \<lparr>dbs = booted_db, faults = []\<rparr>)"
  by (rule bootstrap_idempotent [of _ "bootstrapped_row ''n1''" _ "[''n1'', ''n2'']"])
    (simp_all add: booted_db_def bootstrapped_row_def fresh_env_def)

theorem bootstrap_success_recorded_witness:
  "lifecycle_state booted_db = Some CephStateBootstrapped"
proof -
  have "BootstrapCeph True fresh_env ''n2'' True \<lparr>dbs = booted_db, faults = []\<rparr> = (Inr (), \<lparr>dbs = booted_db, faults = []\<rparr>)"
    by (rule BootstrapCeph_bootstrapped [of _ "bootstrapped_row ''n1''" _ "[''n1'', ''n2'']"])
      (simp_all add: booted_db_def bootstrapped_row_def fresh_env_def)
  from bootstrap_success_recorded [OF this] show ?thesis by simp
qed

text \<open>A bootstrap whose steps fail returns that error and leaves the row failed, with the
  target and the error text, so the next request can start again: failure is neither swallowed nor
  does it strand the row as long as the outcome can be recorded.\<close>

theorem bootstrap_failure_recorded:
  assumes "atomicStartBootstrap E target force st = (Inr True, st1)" "be_server_cert E"
    "be_steps E target st1 = (Some e, st2)" "Transaction (record_tx target (Some e)) st2 = (Inr u, st3)"
  shows "BootstrapCeph True E target force st = (Inl e, st3) \<and>
    db_lifecycle (dbs st3) = Some \<lparr>CephBootstrapState = CephStateFailed, CephBootstrapTarget = target, Detail = etext e\<rparr>"
  using BootstrapCeph_failed_steps [OF assms] by simp

theorem bootstrap_failure_recorded_witness:
  "fst (BootstrapCeph True fresh_env ''n1'' False \<lparr>dbs = fresh_db, faults = []\<rparr>) = Inl (err_new ''precheck failed'')"
proof -
  let ?st = "\<lparr>dbs = fresh_db\<lparr>db_lifecycle := Some (claimed_row ''n1'')\<rparr>, faults = []\<rparr>"
  have steps: "be_steps fresh_env ''n1'' ?st = (Some (err_new ''precheck failed''), ?st)" "be_server_cert fresh_env"
    by (simp_all add: fresh_env_def)
  obtain u st3 where "Transaction (record_tx ''n1'' (Some (err_new ''precheck failed''))) ?st = (Inr u, st3)"
    by (simp add: Transaction_def record_tx_def SetClusterLifecycle_def tx_bind_def update_lifecycle_def rows_affected_def)
  from bootstrap_failure_recorded [OF fresh_atomic_start steps(2,1) this] show ?thesis by simp
qed

end
