(* ===== verification/Control_Removal.thy ===== *)
theory Control_Removal
  imports Control_Readiness Lifecycle
begin

text \<open>
  Taking a control daemon out of the Ceph maps (\<^verbatim>\<open>ceph/monitor.go\<close>,
  \<^verbatim>\<open>ceph/manager.go\<close>, \<^verbatim>\<open>ceph/metadata.go\<close> and
  \<^verbatim>\<open>ceph/control_removal.go\<close>), and the local effects of a member's daemon on which this
  and the service operations are built.

  Every effect outside the database (a Ceph command, a snap operation, a change of files) is a phase.
  The environment decides, from the phases run so far, whether it fails and what it prints; the phases
  run are logged, so theorems can speak about their order.
\<close>

section \<open>Local effects\<close>

datatype phase =
    CephCmd "string list"
  | RenderConfig
  | ReadMessengerMode
  | FindIpOnSubnet string
  | SnapCheckActive string
  | SnapStart string
  | SnapStop string
  | MakeDataDir string
  | MakeKeyring string
  | LinkKeyring string
  | CleanData string
  | MonitorAddresses
  | RgwRecoverPending
  | RgwReuseTLS
  | RgwPublish int int bool "string option" "string option"
  | RgwCheckActive
  | RgwRestore
  | RgwFinish
  | RgwRefreshMarker
  | RemovePath string

record host_env =
  he_Name :: string
  he_ServerCert :: bool
  he_fail :: "phase list \<Rightarrow> phase \<Rightarrow> go_error option"
  he_json :: "phase list \<Rightarrow> phase \<Rightarrow> json option"
  he_text :: "phase list \<Rightarrow> phase \<Rightarrow> string"
  he_flag :: "phase list \<Rightarrow> phase \<Rightarrow> bool"
  he_tls_pair :: "phase list \<Rightarrow> string \<times> string"
  he_polls :: "phase list \<Rightarrow> nat"
  he_ParseIP :: "string \<Rightarrow> bool"
  he_lib :: go_lib
  he_tls :: tls_lib

record host_st =
  hs_db :: dbst
  hs_log :: "phase list"

type_synonym proc = "host_st \<Rightarrow> go_error option \<times> host_st"

definition logged :: "phase \<Rightarrow> host_st \<Rightarrow> host_st" where
  "logged p s = s\<lparr>hs_log := hs_log s @ [p]\<rparr>"

definition act :: "host_env \<Rightarrow> phase \<Rightarrow> proc" where
  "act E p s = (he_fail E (hs_log s) p, logged p s)"

text \<open>A Ceph command that prints JSON.\<close>

definition cmd_reply :: "host_env \<Rightarrow> phase list \<Rightarrow> string list \<Rightarrow> cmd_output" where
  "cmd_reply E log args =
     (case he_fail E log (CephCmd args) of Some e \<Rightarrow> Inl e | None \<Rightarrow> Inr (he_json E log (CephCmd args)))"

definition ceph_json :: "host_env \<Rightarrow> string list \<Rightarrow> host_st \<Rightarrow> cmd_output \<times> host_st" where
  "ceph_json E args s = (cmd_reply E (hs_log s) args, logged (CephCmd args) s)"

lemma hs_logged [simp]: "hs_log (logged p s) = hs_log s @ [p]" "hs_db (logged p s) = hs_db s"
  by (simp_all add: logged_def)

text \<open>Phases run one after the other; the error of the first is passed through a wrapper.\<close>

definition run_then :: "(go_error \<Rightarrow> go_error) \<Rightarrow> proc \<Rightarrow> proc \<Rightarrow> proc" where
  "run_then wrap f g s = (case f s of (Some e, s1) \<Rightarrow> (Some (wrap e), s1) | (None, s1) \<Rightarrow> g s1)"

lemma run_then_None:
  "run_then wrap f g s = (None, s') \<longleftrightarrow> (\<exists>s1. f s = (None, s1) \<and> g s1 = (None, s'))"
  by (auto simp: run_then_def split: prod.splits option.splits)

lemma run_then_cases:
  assumes "run_then wrap f g s = (r, s')"
  obtains (failed) e where "f s = (Some e, s')" "r = Some (wrap e)" | (went_on) s1 where "f s = (None, s1)" "g s1 = (r, s')"
  using assms by (auto simp: run_then_def split: prod.splits option.splits)

section \<open>The monitor map\<close>

definition mons_field :: "go_lib \<Rightarrow> string \<Rightarrow> json \<Rightarrow> json option \<Rightarrow> json option option option" where
  "mons_field G k v m = (if equal_fold G k ''mons'' then Some (Some (Some v)) else None)"

definition map_error :: "string \<Rightarrow> go_error" where
  "map_error detail = err_new (''failed to parse monitor map: '' @ detail)"

fun mon_names :: "nat \<Rightarrow> string list \<Rightarrow> go_error + string list" where
  "mon_names i [] = Inr []"
| "mon_names i (n # ns) =
     (if n = '''' then Inl (map_error (''monitor at index '' @ show_nat i @ '' has no name''))
      else case mon_names (i + 1) ns of Inl e \<Rightarrow> Inl e | Inr rest \<Rightarrow> Inr (n # rest))"

definition getMonmapNames :: "go_lib \<Rightarrow> cmd_output \<Rightarrow> go_error + string list" where
  "getMonmapNames G out =
     (case out of
        Inl e \<Rightarrow> Inl (err_wrap ''failed to read monitor map: '' e '''')
      | Inr j \<Rightarrow>
          (case Option.bind j (dec_struct False (mons_field G) None) of
             None \<Rightarrow> Inl (map_error ''json'')
           | Some None \<Rightarrow> Inl (map_error (''missing '' @ quoted ''mons'' @ '' field''))
           | Some (Some JNull) \<Rightarrow> Inl (map_error (quoted ''mons'' @ '' must be a non-null array''))
           | Some (Some mons) \<Rightarrow>
               (case dec_list (dec_struct False (name_field G) '''') mons of
                  None \<Rightarrow> Inl (map_error (''invalid '' @ quoted ''mons'' @ '' field: json''))
                | Some ns \<Rightarrow>
                    if length ns = 0 then Inl (map_error (quoted ''mons'' @ '' must contain at least one monitor''))
                    else mon_names 0 ns)))"

definition mon_dump :: "string list" where "mon_dump = [''mon'', ''dump'', ''-f'', ''json'']"
definition mon_stat :: "string list" where "mon_stat = [''mon'', ''stat'', ''-f'', ''json'']"
definition mon_rm :: "string \<Rightarrow> string list" where "mon_rm hostname = [''mon'', ''rm'', hostname]"

definition monInMonmap :: "host_env \<Rightarrow> string \<Rightarrow> host_st \<Rightarrow> (go_error + bool) \<times> host_st" where
  "monInMonmap E hostname s =
     (case ceph_json E mon_dump s of
        (out, s1) \<Rightarrow> (case getMonmapNames (he_lib E) out of Inl e \<Rightarrow> Inl e | Inr names \<Rightarrow> Inr (hostname \<in> set names), s1))"

definition removeMon :: "host_env \<Rightarrow> string \<Rightarrow> proc" where
  "removeMon E hostname s =
     (case act E (CephCmd (mon_rm hostname)) s of
        (Some e, s1) \<Rightarrow> (Some (err_wrap (''failed to remove monitor '' @ quoted hostname @ '': '') e ''''), s1)
      | (None, s1) \<Rightarrow> (None, s1))"

definition verifyMonAbsent :: "host_env \<Rightarrow> string \<Rightarrow> host_st \<Rightarrow> (bool \<times> go_error option) \<times> host_st" where
  "verifyMonAbsent E hostname s =
     (case monInMonmap E hostname s of
        (Inl e, s1) \<Rightarrow> ((True, Some e), s1)
      | (Inr present, s1) \<Rightarrow> ((\<not> present, None), s1))"

definition refuse_mon :: "string \<Rightarrow> nat \<Rightarrow> nat \<Rightarrow> nat \<Rightarrow> go_error" where
  "refuse_mon hostname inQuorum needed remaining =
     err_wrap '''' (err_of ErrKeepOneInvariant)
       ('': refusing to remove monitor '' @ quoted hostname @ '': '' @ show_nat inQuorum @
        '' remaining monitor(s) in quorum, need '' @ show_nat needed @ '' for the resulting '' @ show_nat remaining @ ''-monitor map'')"

text \<open>The number of quorum members that stay, and how many the smaller map needs.\<close>

definition remaining_in_quorum :: "string \<Rightarrow> string list \<Rightarrow> string list \<Rightarrow> nat" where
  "remaining_in_quorum hostname monmap quorum = length (filter (\<lambda>n. n \<noteq> hostname \<and> n \<in> set monmap) quorum)"

definition ensureMonAbsent :: "host_env \<Rightarrow> string \<Rightarrow> proc" where
  "ensureMonAbsent E hostname s =
     (case ceph_json E mon_dump s of (out, s1) \<Rightarrow>
        (case getMonmapNames (he_lib E) out of
           Inl e \<Rightarrow> (Some e, s1)
         | Inr monmap \<Rightarrow>
             if hostname \<notin> set monmap then (None, s1)
             else
               (case ceph_json E mon_stat s1 of (out, s2) \<Rightarrow>
                  (case getMonQuorumNames (he_lib E) out of
                     Inl e \<Rightarrow> (Some e, s2)
                   | Inr quorum \<Rightarrow>
                       (let remainingMons = length monmap - 1;
                            requiredQuorum = remainingMons div 2 + 1;
                            remainingInQuorum = remaining_in_quorum hostname monmap quorum
                        in
                        if remainingInQuorum < requiredQuorum
                        then (Some (refuse_mon hostname remainingInQuorum requiredQuorum remainingMons), s2)
                        else
                          (case removeMon E hostname s2 of
                             (None, s3) \<Rightarrow> (None, s3)
                           | (Some removeErr, s3) \<Rightarrow>
                               (case verifyMonAbsent E hostname s3 of
                                  ((_, Some verifyErr), s4) \<Rightarrow>
                                    (Some (err_wrap '''' removeErr (''; failed to verify monitor removal: '' @ etext verifyErr)), s4)
                                | ((absent, None), s4) \<Rightarrow> (if absent then None else Some removeErr, s4))))))))"

section \<open>Managers and metadata servers\<close>

text \<open>Polling until the daemon has left the map; \<open>n\<close> is the number of pauses before the deadline.\<close>

fun verifyControlDaemonAbsent :: "(host_st \<Rightarrow> (go_error + bool) \<times> host_st) \<Rightarrow> nat \<Rightarrow> host_st
    \<Rightarrow> (bool \<times> go_error option) \<times> host_st" where
  "verifyControlDaemonAbsent presence n s =
     (case presence s of (r, s1) \<Rightarrow>
        if r = Inr False then ((True, None), s1)
        else (case n of
                0 \<Rightarrow> ((False, case r of Inl e \<Rightarrow> Some e | Inr _ \<Rightarrow> None), s1)
              | Suc k \<Rightarrow> verifyControlDaemonAbsent presence k s1))"

declare verifyControlDaemonAbsent.simps [simp del]

definition mgr_present :: "host_env \<Rightarrow> string \<Rightarrow> host_st \<Rightarrow> (go_error + bool) \<times> host_st" where
  "mgr_present E hostname s =
     (case ceph_json E [''mgr'', ''metadata'', ''-f'', ''json''] s of (out, s1) \<Rightarrow> (mgrActiveOrStandby (he_lib E) out hostname, s1))"

definition mds_present :: "host_env \<Rightarrow> string \<Rightarrow> host_st \<Rightarrow> (go_error + bool) \<times> host_st" where
  "mds_present E hostname s =
     (case ceph_json E [''mds'', ''stat'', ''-f'', ''json''] s of (out, s1) \<Rightarrow> (mdsUp (he_lib E) out hostname, s1))"

definition evictMgr :: "host_env \<Rightarrow> string \<Rightarrow> proc" where
  "evictMgr E hostname s =
     (case act E (CephCmd [''mgr'', ''fail'', hostname]) s of
        (Some e, s1) \<Rightarrow> (Some (err_wrap (''failed to fail mgr '' @ quoted hostname @ '': '') e ''''), s1)
      | (None, s1) \<Rightarrow> (None, s1))"

definition evictMds :: "host_env \<Rightarrow> string \<Rightarrow> proc" where
  "evictMds E hostname s =
     (case act E (CephCmd [''mds'', ''fail'', hostname, ''--yes-i-really-mean-it'']) s of
        (Some e, s1) \<Rightarrow> (Some (err_wrap (''failed to fail mds '' @ quoted hostname @ '': '') e ''''), s1)
      | (None, s1) \<Rightarrow> (None, s1))"

text \<open>The common shape of \<^verbatim>\<open>ensureMgrAbsent\<close> and \<^verbatim>\<open>ensureMdsAbsent\<close>.\<close>

definition evict_and_verify :: "string \<Rightarrow> (host_st \<Rightarrow> (go_error + bool) \<times> host_st) \<Rightarrow> proc \<Rightarrow> host_env \<Rightarrow> string \<Rightarrow> proc" where
  "evict_and_verify kind presence evict E hostname s =
     (case presence s of
        (Inl e, s1) \<Rightarrow> (Some (err_wrap (''failed to read '' @ kind @ '' map: '') e ''''), s1)
      | (Inr False, s1) \<Rightarrow> (None, s1)
      | (Inr True, s1) \<Rightarrow>
          (case evict s1 of (evictErr, s2) \<Rightarrow>
             (case verifyControlDaemonAbsent presence (he_polls E (hs_log s2)) s2 of
                ((absent, Some verifyErr), s3) \<Rightarrow>
                  (case evictErr of
                     Some e \<Rightarrow> (Some (err_wrap '''' e (''; failed to verify '' @ kind @ '' removal: '' @ etext verifyErr)), s3)
                   | None \<Rightarrow> (Some (err_wrap (kind @ '' '' @ quoted hostname @ '' removal could not be verified: '') verifyErr ''''), s3))
              | ((True, None), s3) \<Rightarrow> (None, s3)
              | ((False, None), s3) \<Rightarrow>
                  (case evictErr of
                     Some e \<Rightarrow> (Some e, s3)
                   | None \<Rightarrow> (Some (err_new (kind @ '' '' @ quoted hostname @ '' remains in the '' @ kind @ '' map after removal'')), s3)))))"

definition ensureMgrAbsent :: "host_env \<Rightarrow> string \<Rightarrow> proc" where
  "ensureMgrAbsent E hostname = evict_and_verify ''mgr'' (mgr_present E hostname) (evictMgr E hostname) E hostname"

definition ensureMdsAbsent :: "host_env \<Rightarrow> string \<Rightarrow> proc" where
  "ensureMdsAbsent E hostname = evict_and_verify ''mds'' (mds_present E hostname) (evictMds E hostname) E hostname"

section \<open>Only the log changes\<close>

text \<open>A procedure that leaves the database alone and only appends to the log.\<close>

definition appends :: "('r \<times> host_st) \<Rightarrow> host_st \<Rightarrow> bool" where
  "appends res s \<longleftrightarrow> hs_db (snd res) = hs_db s \<and> (\<exists>l. hs_log (snd res) = hs_log s @ l)"

lemma appends_refl [simp]: "appends (r, s) s"
  by (simp add: appends_def)

lemma appends_logged [simp]: "appends (r, logged p s) s"
  by (simp add: appends_def)

lemma appends_trans: "appends (r, s1) s \<Longrightarrow> appends res s1 \<Longrightarrow> appends res s"
  by (auto simp: appends_def)

lemma act_appends [simp]: "appends (act E p s) s"
  by (simp add: act_def)

lemma ceph_json_appends [simp]: "appends (ceph_json E args s) s"
  by (simp add: ceph_json_def split: option.splits)

lemma appends_case:
  assumes "appends (f s) s" "\<And>a s1. appends (g a s1) s1"
  shows "appends (case f s of (a, s1) \<Rightarrow> g a s1) s"
proof -
  obtain a s1 where "f s = (a, s1)" by (rule prod.exhaust)
  with assms show ?thesis by (auto intro: appends_trans)
qed

lemma monInMonmap_appends: "appends (monInMonmap E h s) s"
  unfolding monInMonmap_def by (rule appends_case) simp_all

lemma verifyMonAbsent_appends: "appends (verifyMonAbsent E h s) s"
  unfolding verifyMonAbsent_def by (rule appends_case [OF monInMonmap_appends]) (simp split: sum.split)

lemma removeMon_appends: "appends (removeMon E h s) s"
  unfolding removeMon_def by (rule appends_case [OF act_appends]) (simp split: option.split)

lemma ensureMonAbsent_appends: "appends (ensureMonAbsent E h s) s"
  unfolding ensureMonAbsent_def Let_def
  by (intro appends_case ceph_json_appends removeMon_appends verifyMonAbsent_appends
      | simp split del: if_split | (split sum.split, intro conjI allI impI) | (split if_split, intro conjI impI)
      | (split option.split, intro conjI allI impI) | (split prod.split, intro conjI allI impI))+

section \<open>Quorum safety of monitor removal\<close>

text \<open>What the monitors reported to the commands of one removal.\<close>

definition seen_monmap :: "host_env \<Rightarrow> phase list \<Rightarrow> go_error + string list" where
  "seen_monmap E log = getMonmapNames (he_lib E) (cmd_reply E log mon_dump)"

definition seen_quorum :: "host_env \<Rightarrow> phase list \<Rightarrow> go_error + string list" where
  "seen_quorum E log = getMonQuorumNames (he_lib E) (cmd_reply E log mon_stat)"

lemma mon_cmds_differ [simp]: "mon_dump \<noteq> mon_stat" "mon_rm h \<noteq> mon_dump" "mon_rm h \<noteq> mon_stat"
  by (simp_all add: mon_dump_def mon_stat_def mon_rm_def)

lemma refuse_mon_Is [simp]: "errors_Is (refuse_mon h a b c) ErrKeepOneInvariant"
  by (simp add: refuse_mon_def)

text \<open>The removal as a decision over what was reported.\<close>

lemma ensureMonAbsent_cases:
  assumes "ensureMonAbsent E h s = (r, s')"
  obtains (unreadable) e where "seen_monmap E (hs_log s) = Inl e" "r = Some e" "hs_log s' = hs_log s @ [CephCmd mon_dump]"
  | (gone) monmap where "seen_monmap E (hs_log s) = Inr monmap" "h \<notin> set monmap" "r = None" "hs_log s' = hs_log s @ [CephCmd mon_dump]"
  | (no_quorum) e where "seen_quorum E (hs_log s @ [CephCmd mon_dump]) = Inl e" "r = Some e"
      "hs_log s' = hs_log s @ [CephCmd mon_dump, CephCmd mon_stat]"
  | (refused) e where "r = Some e" "errors_Is e ErrKeepOneInvariant" "hs_log s' = hs_log s @ [CephCmd mon_dump, CephCmd mon_stat]"
  | (removed) monmap quorum rest where "seen_monmap E (hs_log s) = Inr monmap" "h \<in> set monmap"
      "seen_quorum E (hs_log s @ [CephCmd mon_dump]) = Inr quorum"
      "(length monmap - 1) div 2 + 1 \<le> remaining_in_quorum h monmap quorum"
      "hs_log s' = hs_log s @ [CephCmd mon_dump, CephCmd mon_stat, CephCmd (mon_rm h)] @ rest"
      "r = None \<Longrightarrow> he_fail E (hs_log s @ [CephCmd mon_dump, CephCmd mon_stat]) (CephCmd (mon_rm h)) = None \<or>
         (\<exists>later. seen_monmap E (hs_log s @ [CephCmd mon_dump, CephCmd mon_stat, CephCmd (mon_rm h)]) = Inr later \<and> h \<notin> set later)"
proof (cases "seen_monmap E (hs_log s)")
  case (Inl e)
  with assms show thesis by (intro unreadable) (auto simp: ensureMonAbsent_def ceph_json_def seen_monmap_def)
next
  case (Inr monmap)
  let ?log = "hs_log s @ [CephCmd mon_dump, CephCmd mon_stat]"
  show thesis
  proof (cases "h \<in> set monmap")
    case False
    with Inr assms show thesis by (intro gone) (auto simp: ensureMonAbsent_def ceph_json_def seen_monmap_def)
  next
    case h: True
    show thesis
    proof (cases "seen_quorum E (hs_log s @ [CephCmd mon_dump])")
      case (Inl e)
      with Inr h assms show thesis
        by (intro no_quorum) (auto simp: ensureMonAbsent_def ceph_json_def seen_monmap_def seen_quorum_def)
    next
      case q: (Inr quorum)
      let ?few = "remaining_in_quorum h monmap quorum < (length monmap - 1) div 2 + 1"
      show thesis
      proof (cases ?few)
        case True
        with Inr h q assms show thesis
          by (intro refused [of "refuse_mon h (remaining_in_quorum h monmap quorum) ((length monmap - 1) div 2 + 1) (length monmap - 1)"])
            (auto simp: ensureMonAbsent_def ceph_json_def seen_monmap_def seen_quorum_def Let_def)
      next
        case False
        obtain v s3 where rm: "removeMon E h (logged (CephCmd mon_stat) (logged (CephCmd mon_dump) s)) = (v, s3)" by (rule prod.exhaust)
        then have log3: "hs_log s3 = ?log @ [CephCmd (mon_rm h)]" and v: "v = None \<longleftrightarrow> he_fail E ?log (CephCmd (mon_rm h)) = None"
          by (auto simp: removeMon_def act_def split: prod.splits option.splits)
        from False Inr h q assms rm have run: "(case v of None \<Rightarrow> (None, s3)
            | Some removeErr \<Rightarrow> (case verifyMonAbsent E h s3 of
                ((_, Some verifyErr), s4) \<Rightarrow> (Some (err_wrap '''' removeErr (''; failed to verify monitor removal: '' @ etext verifyErr)), s4)
              | ((absent, None), s4) \<Rightarrow> (if absent then None else Some removeErr, s4))) = (r, s')"
          by (simp add: ensureMonAbsent_def ceph_json_def seen_monmap_def seen_quorum_def Let_def split: option.splits)
        have ver: "verifyMonAbsent E h s3 = (case seen_monmap E (hs_log s3) of Inl e \<Rightarrow> ((True, Some e), logged (CephCmd mon_dump) s3)
            | Inr later \<Rightarrow> ((h \<notin> set later, None), logged (CephCmd mon_dump) s3))"
          by (simp add: verifyMonAbsent_def monInMonmap_def ceph_json_def seen_monmap_def split: sum.split)
        show thesis
        proof (rule removed [OF Inr h q])
          show "(length monmap - 1) div 2 + 1 \<le> remaining_in_quorum h monmap quorum" using False by simp
          show "hs_log s' = hs_log s @ [CephCmd mon_dump, CephCmd mon_stat, CephCmd (mon_rm h)] @
              (if v = None then [] else [CephCmd mon_dump])"
            using run log3 unfolding ver by (auto split: option.splits sum.splits)
          show "he_fail E ?log (CephCmd (mon_rm h)) = None \<or>
              (\<exists>later. seen_monmap E (hs_log s @ [CephCmd mon_dump, CephCmd mon_stat, CephCmd (mon_rm h)]) = Inr later \<and> h \<notin> set later)"
            if "r = None"
            using run that v log3 unfolding ver by (auto split: option.splits sum.splits if_splits)
        qed
      qed
    qed
  qed
qed

lemma remaining_majority:
  assumes "distinct monmap" "distinct quorum" "h \<in> set monmap" "(length monmap - 1) div 2 + 1 \<le> remaining_in_quorum h monmap quorum"
  shows "card (set monmap - {h}) < 2 * card (set quorum \<inter> (set monmap - {h}))"
proof -
  have "set quorum \<inter> (set monmap - {h}) = set (filter (\<lambda>n. n \<noteq> h \<and> n \<in> set monmap) quorum)" by auto
  moreover have "distinct (filter (\<lambda>n. n \<noteq> h \<and> n \<in> set monmap) quorum)" using assms(2) by simp
  ultimately have "card (set quorum \<inter> (set monmap - {h})) = remaining_in_quorum h monmap quorum"
    unfolding remaining_in_quorum_def by (metis distinct_card)
  moreover have "card (set monmap - {h}) = length monmap - 1" using assms(1,3) by (simp add: distinct_card)
  ultimately show ?thesis using assms(4) by linarith
qed

lemma new_part: "hs_log s' = hs_log s @ l \<Longrightarrow> hs_log s' = hs_log s @ l' \<Longrightarrow> l = l'"
  by simp

text \<open>C31 (safety). A monitor is taken out of the monitor map only when the monitors that stay and are
  in quorum form a strict majority of the map that results: whenever the removal command is issued, the
  map and the quorum read just before it show that, for maps and quorums without repeated names.\<close>

theorem mon_removal_keeps_majority:
  assumes "ensureMonAbsent E h s = (r, s')" "hs_log s' = hs_log s @ l" "CephCmd (mon_rm h) \<in> set l"
  shows "\<exists>monmap quorum. seen_monmap E (hs_log s) = Inr monmap \<and> seen_quorum E (hs_log s @ [CephCmd mon_dump]) = Inr quorum \<and>
    h \<in> set monmap \<and>
    (distinct monmap \<and> distinct quorum \<longrightarrow> card (set monmap - {h}) < 2 * card (set quorum \<inter> (set monmap - {h})))"
  using assms(1)
proof (cases rule: ensureMonAbsent_cases)
  case (removed monmap quorum rest)
  then show ?thesis using remaining_majority by blast
qed (use assms(2,3) in auto)

text \<open>Three monitors, all in quorum.\<close>

definition sample_mons :: "string list" where
  "sample_mons = [''a'', ''b'', ''c'']"

definition named :: "string \<Rightarrow> json" where
  "named n = JObj [(''name'', JStr n)]"

definition sample_host :: host_env where
  "sample_host = \<lparr>he_Name = ''a'', he_ServerCert = True, he_fail = (\<lambda>_ _. None),
     he_json = (\<lambda>_ p. Some (if p = CephCmd mon_dump then JObj [(''mons'', JArr (map named sample_mons))]
                            else JObj [(''quorum_names'', JArr (map JStr sample_mons))])),
     he_text = (\<lambda>_ _. ''''), he_flag = (\<lambda>_ _. False), he_tls_pair = (\<lambda>_. (''crt'', ''key'')), he_polls = (\<lambda>_. 3), he_ParseIP = (\<lambda>_. True), he_lib = plain_lib,
     he_tls = \<lparr>base64_decode = Some, x509_key_pair = (\<lambda>_ _. True)\<rparr>\<rparr>"

definition sample_start :: host_st where
  "sample_start = \<lparr>hs_db = \<lparr>dbs = fresh_db, faults = []\<rparr>, hs_log = []\<rparr>"

lemma sample_seen:
  "seen_monmap sample_host [] = Inr sample_mons" "seen_quorum sample_host [CephCmd mon_dump] = Inr sample_mons"
  by code_simp+

theorem mon_removal_keeps_majority_witness:
  "card (set sample_mons - {''a''}) < 2 * card (set sample_mons \<inter> (set sample_mons - {''a''}))"
proof -
  let ?l = "[CephCmd mon_dump, CephCmd mon_stat, CephCmd (mon_rm ''a'')]"
  have "remaining_in_quorum ''a'' sample_mons sample_mons = 2" "length sample_mons = 3" "''a'' \<in> set sample_mons"
    by (simp_all add: remaining_in_quorum_def sample_mons_def)
  then have "ensureMonAbsent sample_host ''a'' sample_start = (None, sample_start\<lparr>hs_log := ?l\<rparr>)"
    using sample_seen
    by (simp add: ensureMonAbsent_def ceph_json_def seen_monmap_def seen_quorum_def Let_def removeMon_def act_def
        sample_start_def logged_def) (simp add: sample_host_def)
  from mon_removal_keeps_majority [OF this, of ?l] sample_seen show ?thesis
    by (auto simp: sample_start_def sample_mons_def)
qed

section \<open>Removal of managers and metadata servers\<close>

lemma verify_absent:
  assumes "verifyControlDaemonAbsent presence n s = ((True, None), s')"
  shows "\<exists>s1. presence s1 = (Inr False, s')"
  using assms
proof (induction n arbitrary: s)
  case 0
  then show ?case by (subst (asm) verifyControlDaemonAbsent.simps) (auto split: prod.splits if_splits)
next
  case (Suc n)
  then show ?case by (subst (asm) verifyControlDaemonAbsent.simps) (auto split: prod.splits if_splits)
qed

lemma evict_and_verify_absent:
  assumes "evict_and_verify kind presence evict E h s = (None, s')"
  shows "\<exists>s1. presence s1 = (Inr False, s')"
proof -
  obtain p s1 where p: "presence s = (p, s1)" by (rule prod.exhaust)
  show ?thesis
  proof (cases "p = Inr True")
    case True
    obtain e s2 where e: "evict s1 = (e, s2)" by (rule prod.exhaust)
    obtain a v s3 where v: "verifyControlDaemonAbsent presence (he_polls E (hs_log s2)) s2 = ((a, v), s3)" by (rule prod_cases3')
    from assms p True e v have "a" "v = None" "s3 = s'"
      by (auto simp: evict_and_verify_def split: option.splits bool.splits)
    with v have "verifyControlDaemonAbsent presence (he_polls E (hs_log s2)) s2 = ((True, None), s')" by simp
    from verify_absent [OF this] show ?thesis .
  next
    case False
    with assms p have "p = Inr False" "s1 = s'" by (auto simp: evict_and_verify_def split: sum.splits bool.splits)
    with p show ?thesis by blast
  qed
qed

lemma verify_appends:
  assumes "\<And>s. appends (presence s) s"
  shows "appends (verifyControlDaemonAbsent presence n s) s"
proof (induction n arbitrary: s)
  case 0
  show ?case by (subst verifyControlDaemonAbsent.simps, rule appends_case [OF assms]) simp
next
  case (Suc n)
  show ?case by (subst verifyControlDaemonAbsent.simps, rule appends_case [OF assms]) (simp add: Suc)
qed

lemma evict_and_verify_appends:
  assumes "\<And>s. appends (presence s) s" "\<And>s. appends (evict s) s"
  shows "appends (evict_and_verify kind presence evict E h s) s"
proof -
  obtain p s1 where p: "presence s = (p, s1)" by (rule prod.exhaust)
  obtain e s2 where e: "evict s1 = (e, s2)" by (rule prod.exhaust)
  obtain a v s3 where v: "verifyControlDaemonAbsent presence (he_polls E (hs_log s2)) s2 = ((a, v), s3)" by (rule prod_cases3')
  have s1: "appends (r, s1) s" for r :: "go_error option" using assms(1) [of s] p by (simp add: appends_def)
  have s3: "appends (r, s3) s" for r :: "go_error option"
    using s1 [of None] assms(2) [of s1] e verify_appends [where presence = presence and s = s2 and n = "he_polls E (hs_log s2)", OF assms(1)] v
    by (auto simp: appends_def)
  show ?thesis
    unfolding evict_and_verify_def using p e v s1 s3 by (auto split: sum.splits bool.splits option.splits)
qed

lemma mgr_present_appends: "appends (mgr_present E h s) s"
  unfolding mgr_present_def by (rule appends_case) simp_all

lemma mds_present_appends: "appends (mds_present E h s) s"
  unfolding mds_present_def by (rule appends_case) simp_all

lemma evict_appends: "appends (evictMgr E h s) s" "appends (evictMds E h s) s"
  unfolding evictMgr_def evictMds_def by (rule appends_case [OF act_appends], simp split: option.split)+

lemma ensureMgrAbsent_appends: "appends (ensureMgrAbsent E h s) s"
  unfolding ensureMgrAbsent_def by (rule evict_and_verify_appends [OF mgr_present_appends evict_appends(1)])

lemma ensureMdsAbsent_appends: "appends (ensureMdsAbsent E h s) s"
  unfolding ensureMdsAbsent_def by (rule evict_and_verify_appends [OF mds_present_appends evict_appends(2)])

end
