(* ===== verification/Placement_Engine.thy ===== *)
theory Placement_Engine
  imports Control_Readiness Lifecycle
begin

text \<open>
  The placement engine (\<^verbatim>\<open>ceph/placement.go\<close>): validation and normalization of a
  policy, its storage, and the reconciliation that adds control services before it removes any and
  never removes the last viable one.

  The dispatch of a service operation to a member, the readiness polls, the member list and the order
  of map iterations are parameters. A dispatch may fail and may change the database in any way; what
  the engine relies on is stated by the locale \<open>service_dispatch\<close>. The trace of dispatched operations
  is part of the state so that theorems can speak about order.
\<close>

section \<open>State and parameters\<close>

datatype dispatch =
    AddControl string string
  | RemoveControl string string
  | EnableRgw string rgw_placement
  | RemoveRgw string

record engine =
  e_st :: dbst
  e_trace :: "dispatch list"

record hooks =
  hk_dispatch :: "dispatch \<Rightarrow> dispatch list \<Rightarrow> dbst \<Rightarrow> go_error option \<times> dbst"
  hk_ready :: "string \<Rightarrow> string \<Rightarrow> bool"
  hk_sched :: sched
  hk_server_cert :: bool
  hk_members :: "go_error + string list"
  hk_tls :: tls_lib

definition call :: "hooks \<Rightarrow> dispatch \<Rightarrow> engine \<Rightarrow> go_error option \<times> engine" where
  "call H op w =
     (let (r, st) = hk_dispatch H op (e_trace w) (e_st w) in (r, \<lparr>e_st = st, e_trace = e_trace w @ [op]\<rparr>))"

section \<open>Validation\<close>

definition ValidatePlacement :: "hooks \<Rightarrow> placement_policy \<Rightarrow> dbst \<Rightarrow> go_error option \<times> dbst" where
  "ValidatePlacement H policy st =
     (if \<not> hk_server_cert H then (Some (err_new ''no server certificate''), st)
      else if members_of policy = [] then (None, st)
      else case cephIsBootstrappedFunc st of
        (Inl e, st1) \<Rightarrow> (Some (err_wrap ''failed to determine Ceph bootstrap state: '' e ''''), st1)
      | (Inr bootstrapped, st1) \<Rightarrow>
          if \<not> bootstrapped
          then (Some (err_wrap '''' (err_of ErrCephNotBootstrapped) '': run `microceph cluster bootstrap-ceph` first''), st1)
          else case hk_members H of
            Inl e \<Rightarrow> (Some (err_wrap ''failed to list cluster members: '' e ''''), st1)
          | Inr members \<Rightarrow>
              (case filter (\<lambda>m. m \<notin> set members) (loop_order (hk_sched H) 1 (keys (members_of policy))) of
                 [] \<Rightarrow> (None, st1)
               | m # _ \<Rightarrow> (Some (err_wrap '''' (err_of ErrUnknownPlacementMember) ('': '' @ m)), st1)))"

fun normalize_loop :: "tls_lib \<Rightarrow> placement_policy \<Rightarrow> string list \<Rightarrow> (string \<times> member_placement) list
    \<Rightarrow> go_error + (string \<times> member_placement) list" where
  "normalize_loop T policy [] out = Inr out"
| "normalize_loop T policy (name # names) out =
     (case member_entry policy name of
        None \<Rightarrow> normalize_loop T policy names out
      | Some mp \<Rightarrow>
          (case mp_Rgw mp of
             None \<Rightarrow> normalize_loop T policy names out
           | Some r \<Rightarrow>
               (case Normalized T r of
                  Inl e \<Rightarrow> Inl (err_wrap2 (err_of ErrRgwFrontendInvalid) ('': member '' @ name @ '': '') (err_new e) '''')
                | Inr normalized \<Rightarrow>
                    normalize_loop T policy names (AList.update name (mp\<lparr>mp_Rgw := Some normalized\<rparr>) out))))"

definition normalizePlacement :: "hooks \<Rightarrow> placement_policy \<Rightarrow> go_error + placement_policy" where
  "normalizePlacement H policy =
     (case normalize_loop (hk_tls H) policy (loop_order (hk_sched H) 0 (keys (members_of policy))) (members_of policy) of
        Inl e \<Rightarrow> Inl e
      | Inr ms \<Rightarrow> Inr (policy\<lparr>pp_Members := map_option (\<lambda>_. ms) (pp_Members policy)\<rparr>))"

section \<open>Storing\<close>

definition strip_secrets :: "member_placement \<Rightarrow> member_placement" where
  "strip_secrets mp = mp\<lparr>mp_Rgw := map_option (\<lambda>r. r\<lparr>rp_SSLCertificate := '''', rp_SSLPrivateKey := ''''\<rparr>) (mp_Rgw mp)\<rparr>"

definition policyForStorage :: "placement_policy \<Rightarrow> placement_policy" where
  "policyForStorage policy =
     policy\<lparr>pp_Members := map_option (map (\<lambda>(n, mp). (n, strip_secrets mp))) (pp_Members policy)\<rparr>"

definition placementPolicyJSON :: "placement_policy \<Rightarrow> json" where
  "placementPolicyJSON policy = enc_policy (policyForStorage policy)"

definition storePlacementPolicy :: "placement_policy \<Rightarrow> unit tx" where
  "storePlacementPolicy policy = Transaction (SetPlacementPolicy True (placementPolicyJSON policy))"

definition ClearPlacementPolicy :: "unit tx" where
  "ClearPlacementPolicy = Transaction db_ClearPlacementPolicy"

definition setPlacementRefusal :: "string \<Rightarrow> unit tx" where
  "setPlacementRefusal reason = Transaction (SetPlacementRefusal reason)"

text \<open>Recording a refusal is best effort: its own failure is only logged.\<close>

definition recordPlacementRefusal :: "go_error \<Rightarrow> dbst \<Rightarrow> dbst" where
  "recordPlacementRefusal cause st = snd (setPlacementRefusal (etext cause) st)"

section \<open>The control pass\<close>

definition observe_row :: "control_map \<Rightarrow> string \<times> string \<Rightarrow> control_map" where
  "observe_row m row = (case row of (member, svc) \<Rightarrow> if svc \<in> set controlServices then set_on m svc member True else m)"

definition getObservedControlServicesFunc :: "control_map tx" where
  "getObservedControlServicesFunc =
     Transaction (tx_bind GetServices (\<lambda>services. tx_return (foldl observe_row (\<lambda>_. []) services)))"

definition desiredControl :: "placement_policy \<Rightarrow> string list" where
  "desiredControl policy = map fst (filter (\<lambda>(n, mp). mp_Control mp = Some True) (members_of policy))"

definition op_failed :: "string \<Rightarrow> string \<Rightarrow> string \<Rightarrow> go_error \<Rightarrow> go_error" where
  "op_failed what svc member e =
     err_wrap2 (err_of ErrPlacementOperationFailed) ('': failed to '' @ what @ '' '' @ svc @ '' on '' @ member @ '': '') e ''''"

fun add_members :: "hooks \<Rightarrow> string \<Rightarrow> string list \<Rightarrow> control_map \<Rightarrow> engine \<Rightarrow> (go_error + control_map) \<times> engine" where
  "add_members H svc [] obs w = (Inr obs, w)"
| "add_members H svc (m # ms) obs w =
     (if \<not> on obs svc m
      then (case call H (AddControl m svc) w of
              (Some e, w1) \<Rightarrow> (Inl (op_failed ''add'' svc m e), w1)
            | (None, w1) \<Rightarrow> add_members H svc ms (set_on obs svc m True) w1)
      else add_members H svc ms obs w)"

fun add_services :: "hooks \<Rightarrow> string list \<Rightarrow> string list \<Rightarrow> control_map \<Rightarrow> engine \<Rightarrow> (go_error + control_map) \<times> engine" where
  "add_services H desired [] obs w = (Inr obs, w)"
| "add_services H desired (svc # svcs) obs w =
     (case add_members H svc (loop_order (hk_sched H) (10 + length svcs) desired) obs w of
        (Inl e, w1) \<Rightarrow> (Inl e, w1)
      | (Inr obs1, w1) \<Rightarrow> add_services H desired svcs obs1 w1)"

text \<open>A member keeps its control services unless its entry sets control to false.\<close>

definition keeper :: "placement_policy \<Rightarrow> string \<Rightarrow> bool" where
  "keeper policy m \<longleftrightarrow>
     (case member_entry policy m of None \<Rightarrow> True | Some mp \<Rightarrow> mp_Control mp = None \<or> mp_Control mp = Some True)"

definition retainers :: "placement_policy \<Rightarrow> control_map \<Rightarrow> control_map \<Rightarrow> string \<Rightarrow> string \<Rightarrow> nat" where
  "retainers policy obs via svc m =
     length (filter (\<lambda>x. x \<noteq> m \<and> on via svc x \<and> keeper policy x) (keys (obs svc)))"

definition refused_text :: "string list \<Rightarrow> string" where
  "refused_text refused = '': refused to remove last control service(s): '' @ join_with '', '' refused"

definition retainRefusals :: "go_error \<Rightarrow> string list \<Rightarrow> go_error" where
  "retainRefusals e refused =
     (if length refused = 0 then e
      else err_wrap2 e ''; also '' (err_of ErrKeepOneInvariant) (refused_text refused))"

type_synonym removal_state = "control_map \<times> control_map \<times> string list"

fun remove_members :: "hooks \<Rightarrow> placement_policy \<Rightarrow> string \<Rightarrow> string list \<Rightarrow> removal_state \<Rightarrow> engine
    \<Rightarrow> (go_error + removal_state) \<times> engine" where
  "remove_members H policy svc [] s w = (Inr s, w)"
| "remove_members H policy svc (m # ms) (obs, via, refused) w =
     (if \<not> removal_target policy m \<or> \<not> on obs svc m then remove_members H policy svc ms (obs, via, refused) w
      else if retainers policy obs via svc m = 0
      then remove_members H policy svc ms (obs, via, refused @ [svc @ '' on '' @ m]) w
      else case call H (RemoveControl m svc) w of
        (Some e, w1) \<Rightarrow> (Inl (retainRefusals (op_failed ''remove'' svc m e) refused), w1)
      | (None, w1) \<Rightarrow> remove_members H policy svc ms (set_on obs svc m False, set_on via svc m False, refused) w1)"

fun remove_services :: "hooks \<Rightarrow> placement_policy \<Rightarrow> string list \<Rightarrow> removal_state \<Rightarrow> engine \<Rightarrow> (go_error + removal_state) \<times> engine" where
  "remove_services H policy [] s w = (Inr s, w)"
| "remove_services H policy (svc # svcs) s w =
     (case remove_members H policy svc (loop_order (hk_sched H) (20 + length svcs) (keys (members_of policy))) s w of
        (Inl e, w1) \<Rightarrow> (Inl e, w1)
      | (Inr s1, w1) \<Rightarrow> remove_services H policy svcs s1 w1)"

section \<open>The RGW pass\<close>

definition rgwDispatchFailure :: "string \<Rightarrow> string \<Rightarrow> go_error \<Rightarrow> string \<times> bool" where
  "rgwDispatchFailure action member e =
     (action @ '' '' @ member @ '': '' @ etext e, \<not> StatusErrorCheck e 400)"

definition rgwAggregateError :: "string list \<Rightarrow> bool \<Rightarrow> go_error" where
  "rgwAggregateError failures operational =
     err_wrap '''' (err_of (if operational then ErrPlacementOperationFailed else ErrRgwFrontendInvalid))
       ('': '' @ join_with ''; '' failures)"

text \<open>The loops of the RGW pass: every operation is dispatched, failures are collected.\<close>

fun rgw_loop :: "hooks \<Rightarrow> string \<Rightarrow> (string \<Rightarrow> dispatch) \<Rightarrow> string list \<Rightarrow> string list \<times> bool \<Rightarrow> engine
    \<Rightarrow> (string list \<times> bool) \<times> engine" where
  "rgw_loop H action op [] acc w = (acc, w)"
| "rgw_loop H action op (m # ms) (failures, operational) w =
     (case call H (op m) w of
        (None, w1) \<Rightarrow> rgw_loop H action op ms (failures, operational) w1
      | (Some e, w1) \<Rightarrow>
          (case rgwDispatchFailure action m e of
             (detail, op1) \<Rightarrow> rgw_loop H action op ms (failures @ [detail], operational \<or> op1) w1))"

definition rgw_intent :: "placement_policy \<Rightarrow> bool \<Rightarrow> string list" where
  "rgw_intent policy enabled =
     sort_strings (map fst (filter (\<lambda>(n, mp). case mp_Rgw mp of None \<Rightarrow> False
       | Some r \<Rightarrow> (rp_Enabled r = Some True) = enabled) (members_of policy)))"

definition rgw_entry :: "placement_policy \<Rightarrow> string \<Rightarrow> rgw_placement" where
  "rgw_entry policy m =
     (case member_entry policy m of
        None \<Rightarrow> rgw_zero
      | Some mp \<Rightarrow> (case mp_Rgw mp of None \<Rightarrow> rgw_zero | Some r \<Rightarrow> r))"

definition applyRgwPlacement :: "hooks \<Rightarrow> placement_policy \<Rightarrow> engine \<Rightarrow> go_error option \<times> engine" where
  "applyRgwPlacement H policy w =
     (let enables = rgw_intent policy True; disables = rgw_intent policy False in
      if length enables = 0 \<and> length disables = 0 then (None, w)
      else case rgw_loop H ''enabling RGW on'' (\<lambda>m. EnableRgw m (rgw_entry policy m)) enables ([], False) w of
        ((failures, operational), w1) \<Rightarrow>
          if 0 < length failures
          then (Some (rgwAggregateError
                  (if 0 < length disables then failures @ [''deferred disabling RGW on '' @ join_with '', '' disables] else failures)
                  operational), w1)
          else (case rgw_loop H ''disabling RGW on'' RemoveRgw disables (failures, operational) w1 of
                  ((failures, operational), w2) \<Rightarrow>
                    if 0 < length failures then (Some (rgwAggregateError failures operational), w2) else (None, w2)))"

section \<open>Reconciling and applying\<close>

definition reconcilePlacement :: "hooks \<Rightarrow> placement_policy \<Rightarrow> engine \<Rightarrow> go_error option \<times> engine" where
  "reconcilePlacement H policy w =
     (if \<not> hk_server_cert H then (Some (err_new ''no server certificate''), w)
      else if members_of policy = [] then (None, w)
      else case getObservedControlServicesFunc (e_st w) of
        (Inl e, st1) \<Rightarrow>
          (Some (err_wrap2 (err_of ErrPlacementOperationFailed) '': failed to get observed control services: '' e ''''), w\<lparr>e_st := st1\<rparr>)
      | (Inr observedControl, st1) \<Rightarrow>
          (case add_services H (desiredControl policy) controlServices observedControl (w\<lparr>e_st := st1\<rparr>) of
             (Inl e, w1) \<Rightarrow> (Some e, w1)
           | (Inr obs1, w1) \<Rightarrow>
               (case remove_services H policy controlServices
                       (obs1, controlServiceViability (hk_ready H) obs1 policy, []) w1 of
                  (Inl e, w2) \<Rightarrow> (Some e, w2)
                | (Inr (obs2, via2, refused), w2) \<Rightarrow>
                    (case applyRgwPlacement H policy w2 of
                       (Some rgwErr, w3) \<Rightarrow> (Some (retainRefusals rgwErr refused), w3)
                     | (None, w3) \<Rightarrow>
                         if 0 < length refused
                         then (Some (err_wrap '''' (err_of ErrKeepOneInvariant) (refused_text refused)), w3)
                         else (None, w3)))))"

definition refuse :: "go_error \<Rightarrow> engine \<Rightarrow> go_error option \<times> engine" where
  "refuse e w = (Some e, w\<lparr>e_st := recordPlacementRefusal e (e_st w)\<rparr>)"

definition ApplyPlacementPolicy :: "hooks \<Rightarrow> placement_policy \<Rightarrow> engine \<Rightarrow> go_error option \<times> engine" where
  "ApplyPlacementPolicy H policy w =
     (case normalizePlacement H policy of
        Inl e \<Rightarrow> refuse e w
      | Inr normalized \<Rightarrow>
          (case ValidatePlacement H normalized (e_st w) of
             (Some e, st1) \<Rightarrow> refuse e (w\<lparr>e_st := st1\<rparr>)
           | (None, st1) \<Rightarrow>
               (case storePlacementPolicy normalized st1 of
                  (Inl e, st2) \<Rightarrow> refuse e (w\<lparr>e_st := st2\<rparr>)
                | (Inr _, st2) \<Rightarrow>
                    (case reconcilePlacement H normalized (w\<lparr>e_st := st2\<rparr>) of
                       (Some e, w3) \<Rightarrow> refuse e w3
                     | (None, w3) \<Rightarrow> (None, w3\<lparr>e_st := snd (setPlacementRefusal '''' (e_st w3))\<rparr>)))))"

section \<open>What the passes dispatch\<close>

lemma bool_opt_cases: "b = None \<or> b = Some True \<or> b = Some False"
  by (cases b) auto

lemma keeper_iff: "keeper policy m \<longleftrightarrow> \<not> removal_target policy m"
  using bool_opt_cases by (fastforce simp: keeper_def removal_target_def split: option.splits)

lemma call_trace: "call H op w = (r, w') \<Longrightarrow> e_trace w' = e_trace w @ [op]"
  by (auto simp: call_def split: prod.splits)

lemma retainers_pos:
  "retainers policy obs via svc m \<noteq> 0 \<longleftrightarrow> (\<exists>k \<in> set (keys (obs svc)). k \<noteq> m \<and> on via svc k \<and> keeper policy k)"
  by (auto simp: retainers_def filter_empty_conv)

text \<open>Members a service is added to: those without it. The result map has the service on all of
  them, and nowhere else than before.\<close>

lemma add_members_trace:
  assumes "add_members H svc ms obs w = (r, w')"
  shows "\<exists>T. e_trace w' = e_trace w @ map (\<lambda>m. AddControl m svc) T \<and> set T \<subseteq> {m \<in> set ms. \<not> on obs svc m}"
  using assms
proof (induction ms arbitrary: obs w)
  case (Cons m ms)
  show ?case
  proof (cases "on obs svc m")
    case True
    with Cons show ?thesis by fastforce
  next
    case False
    obtain q w1 where q: "call H (AddControl m svc) w = (q, w1)" by (rule prod.exhaust)
    show ?thesis
    proof (cases q)
      case None
      with Cons.prems False q have "add_members H svc ms (set_on obs svc m True) w1 = (r, w')" by simp
      from Cons.IH [OF this] obtain T where T: "e_trace w' = e_trace w1 @ map (\<lambda>m. AddControl m svc) T"
          "set T \<subseteq> {x \<in> set ms. \<not> on (set_on obs svc m True) svc x}" by blast
      with False call_trace [OF q] show ?thesis by (intro exI [of _ "m # T"]) (auto split: if_splits)
    next
      case (Some e)
      with Cons.prems False q call_trace [OF q] show ?thesis by (intro exI [of _ "[m]"]) auto
    qed
  qed
qed simp

lemma add_members_obs:
  assumes "add_members H svc ms obs w = (Inr obs', w')"
  shows "on obs' svc' x \<longleftrightarrow> on obs svc' x \<or> (svc' = svc \<and> x \<in> set ms)"
    "wf_cmap obs \<Longrightarrow> wf_cmap obs'"
  using assms
proof (induction ms arbitrary: obs w)
  case (Cons m ms)
  {
    case 1
    then show ?case using Cons.IH(1) by (auto split: if_splits prod.splits option.splits)
  next
    case 2
    then show ?case using Cons.IH(2) by (auto split: if_splits prod.splits option.splits intro: wf_cmap_set_on)
  }
qed auto

lemma add_services_trace:
  assumes "add_services H desired svcs obs w = (r, w')"
  shows "\<exists>T. e_trace w' = e_trace w @ map (\<lambda>(m, svc). AddControl m svc) T \<and> set T \<subseteq> set desired \<times> set svcs"
  using assms
proof (induction svcs arbitrary: obs w)
  case (Cons svc svcs)
  obtain q w1 where q: "add_members H svc (loop_order (hk_sched H) (10 + length svcs) desired) obs w = (q, w1)"
    by (rule prod.exhaust)
  from add_members_trace [OF q] obtain T where T: "e_trace w1 = e_trace w @ map (\<lambda>m. AddControl m svc) T" "set T \<subseteq> set desired"
    by auto
  show ?case
  proof (cases q)
    case (Inl e)
    with Cons.prems q T show ?thesis by (intro exI [of _ "map (\<lambda>m. (m, svc)) T"]) auto
  next
    case (Inr obs1)
    with Cons.prems q have "add_services H desired svcs obs1 w1 = (r, w')" by simp
    from Cons.IH [OF this] obtain T' where "e_trace w' = e_trace w1 @ map (\<lambda>(m, svc). AddControl m svc) T'"
        "set T' \<subseteq> set desired \<times> set svcs" by blast
    with T show ?thesis by (intro exI [of _ "map (\<lambda>m. (m, svc)) T @ T'"]) auto
  qed
qed simp

lemma add_services_obs:
  assumes "add_services H desired svcs obs w = (Inr obs', w')"
  shows "on obs' svc x \<longleftrightarrow> on obs svc x \<or> (svc \<in> set svcs \<and> x \<in> set desired)"
    "wf_cmap obs \<Longrightarrow> wf_cmap obs'"
  using assms
proof (induction svcs arbitrary: obs w)
  case (Cons s svcs)
  {
    case 1
    then obtain obs1 w1 where a: "add_members H s (loop_order (hk_sched H) (10 + length svcs) desired) obs w = (Inr obs1, w1)"
        "add_services H desired svcs obs1 w1 = (Inr obs', w')"
      by (auto split: prod.splits sum.splits)
    from Cons.IH(1) [OF a(2)] add_members_obs(1) [OF a(1)] show ?case by auto
  next
    case 2
    then obtain obs1 w1 where a: "add_members H s (loop_order (hk_sched H) (10 + length svcs) desired) obs w = (Inr obs1, w1)"
        "add_services H desired svcs obs1 w1 = (Inr obs', w')"
      by (auto split: prod.splits sum.splits)
    from Cons.IH(2) [OF _ a(2)] add_members_obs(2) [OF a(1)] 2 show ?case by auto
  }
qed auto

text \<open>Every removal is of a member marked for removal, with another keeper viable.\<close>

definition removal_ok :: "placement_policy \<Rightarrow> control_map \<Rightarrow> string \<Rightarrow> string \<Rightarrow> bool" where
  "removal_ok policy via svc m \<longleftrightarrow> removal_target policy m \<and> (\<exists>k. keeper policy k \<and> on via svc k)"

lemma removal_ok_update:
  "removal_target policy m \<Longrightarrow> removal_ok policy (set_on via svc m b) svc' x = removal_ok policy via svc' x"
  by (auto simp: removal_ok_def keeper_iff)

lemma remove_members_trace:
  assumes "remove_members H policy svc ms (obs, via, refused) w = (r, w')"
  shows "\<exists>T. e_trace w' = e_trace w @ map (\<lambda>m. RemoveControl m svc) T \<and>
    set T \<subseteq> {m \<in> set ms. on obs svc m \<and> removal_ok policy via svc m}"
  using assms
proof (induction ms arbitrary: obs via refused w)
  case (Cons m ms)
  show ?case
  proof (cases "\<not> removal_target policy m \<or> \<not> on obs svc m \<or> retainers policy obs via svc m = 0")
    case True
    with Cons.prems obtain refused' where "remove_members H policy svc ms (obs, via, refused') w = (r, w')"
      by (auto split: if_splits)
    from Cons.IH [OF this] show ?thesis by fastforce
  next
    case False
    then have ok: "removal_target policy m" "on obs svc m" "removal_ok policy via svc m"
      by (auto simp: retainers_pos removal_ok_def simp del: neq0_conv)
    obtain q w1 where q: "call H (RemoveControl m svc) w = (q, w1)" by (rule prod.exhaust)
    show ?thesis
    proof (cases q)
      case (Some e)
      with Cons.prems False q ok call_trace [OF q] show ?thesis by (intro exI [of _ "[m]"]) auto
    next
      case None
      with Cons.prems False q
      have "remove_members H policy svc ms (set_on obs svc m False, set_on via svc m False, refused) w1 = (r, w')" by simp
      from Cons.IH [OF this] ok(1) obtain T where T: "e_trace w' = e_trace w1 @ map (\<lambda>m. RemoveControl m svc) T"
          "set T \<subseteq> {x \<in> set ms. on (set_on obs svc m False) svc x \<and> removal_ok policy via svc x}"
        by (auto simp: removal_ok_update)
      with ok call_trace [OF q] show ?thesis by (intro exI [of _ "m # T"]) (auto split: if_splits)
    qed
  qed
qed simp

lemma remove_members_state:
  assumes "remove_members H policy svc ms (obs, via, refused) w = (Inr (obs', via', refused'), w')"
  shows "on obs' svc' x \<Longrightarrow> on obs svc' x" "svc' \<noteq> svc \<Longrightarrow> on obs' svc' x = on obs svc' x"
    "removal_ok policy via' svc' x = removal_ok policy via svc' x"
  using assms
proof (induction ms arbitrary: obs via refused w)
  case (Cons m ms)
  {
    case 1
    then show ?case using Cons.IH(1) by (fastforce split: if_splits prod.splits option.splits)
  next
    case 2
    then show ?case using Cons.IH(2) by (fastforce split: if_splits prod.splits option.splits)
  next
    case 3
    then show ?case using Cons.IH(3) by (fastforce simp: removal_ok_update split: if_splits prod.splits option.splits)
  }
qed auto

lemma remove_services_trace:
  assumes "remove_services H policy svcs (obs, via, refused) w = (r, w')" "distinct svcs"
  shows "\<exists>T. e_trace w' = e_trace w @ map (\<lambda>(m, svc). RemoveControl m svc) T \<and>
    set T \<subseteq> {(m, svc). svc \<in> set svcs \<and> m \<in> set (keys (members_of policy)) \<and> on obs svc m \<and> removal_ok policy via svc m}"
  using assms
proof (induction svcs arbitrary: obs via refused w)
  case (Cons svc svcs)
  obtain q w1 where q: "remove_members H policy svc (loop_order (hk_sched H) (20 + length svcs) (keys (members_of policy)))
      (obs, via, refused) w = (q, w1)" by (rule prod.exhaust)
  from remove_members_trace [OF q] obtain T where T: "e_trace w1 = e_trace w @ map (\<lambda>m. RemoveControl m svc) T"
      "set T \<subseteq> {m \<in> set (keys (members_of policy)). on obs svc m \<and> removal_ok policy via svc m}" by auto
  show ?case
  proof (cases q)
    case (Inl e)
    with Cons.prems q T show ?thesis by (intro exI [of _ "map (\<lambda>m. (m, svc)) T"]) auto
  next
    case (Inr s1)
    obtain obs1 via1 refused1 where s1: "s1 = (obs1, via1, refused1)" by (cases s1) auto
    note st = remove_members_state [OF q [unfolded Inr s1]]
    from Cons.prems q Inr s1 have "remove_services H policy svcs (obs1, via1, refused1) w1 = (r, w')" by simp
    from Cons.IH [OF this] Cons.prems(2) obtain T' where T': "e_trace w' = e_trace w1 @ map (\<lambda>(m, svc). RemoveControl m svc) T'"
        "set T' \<subseteq> {(m, svc). svc \<in> set svcs \<and> m \<in> set (keys (members_of policy)) \<and> on obs1 svc m \<and> removal_ok policy via1 svc m}"
      by auto
    have "set T' \<subseteq> {(m, svc). svc \<in> set svcs \<and> m \<in> set (keys (members_of policy)) \<and> on obs svc m \<and> removal_ok policy via svc m}"
      using T'(2) st(1,3) by blast
    with T T'(1) show ?thesis by (intro exI [of _ "map (\<lambda>m. (m, svc)) T @ T'"]) auto
  qed
qed simp

lemma rgw_loop_trace:
  "rgw_loop H action op ms acc w = (acc', w') \<Longrightarrow> e_trace w' = e_trace w @ map op ms"
proof (induction ms arbitrary: acc w)
  case (Cons m ms)
  obtain f b where acc: "acc = (f, b)" by (rule prod.exhaust)
  obtain q w1 where q: "call H (op m) w = (q, w1)" by (rule prod.exhaust)
  from Cons.prems acc q obtain acc1 where "rgw_loop H action op ms acc1 w1 = (acc', w')"
    by (cases q) (auto split: prod.splits)
  with Cons.IH call_trace [OF q] show ?case by fastforce
qed simp

lemma rgw_loop_failures:
  "rgw_loop H action op ms (f, b) w = ((f', b'), w') \<Longrightarrow> \<exists>g. f' = f @ g"
proof (induction ms arbitrary: f b w)
  case (Cons m ms)
  obtain q w1 where q: "call H (op m) w = (q, w1)" by (rule prod.exhaust)
  from Cons.prems q obtain h b1 where "rgw_loop H action op ms (f @ h, b1) w1 = ((f', b'), w')"
    by (cases q) (auto split: prod.splits intro: that [of "[]"])
  from Cons.IH [OF this] show ?case by auto
qed simp

lemma rgw_pass_trace:
  assumes "applyRgwPlacement H policy w = (r, w')"
  shows "\<exists>E D. e_trace w' = e_trace w @ E @ D \<and>
    E = map (\<lambda>m. EnableRgw m (rgw_entry policy m)) (rgw_intent policy True) \<and>
    (D = [] \<or> D = map RemoveRgw (rgw_intent policy False))"
proof (cases "rgw_intent policy True = [] \<and> rgw_intent policy False = []")
  case True
  with assms show ?thesis by (auto simp: applyRgwPlacement_def)
next
  case False
  let ?E = "\<lambda>m. EnableRgw m (rgw_entry policy m)"
  obtain f b w1 where l1: "rgw_loop H ''enabling RGW on'' ?E (rgw_intent policy True) ([], False) w = ((f, b), w1)"
    by (rule prod_cases3' [of "rgw_loop H ''enabling RGW on'' ?E (rgw_intent policy True) ([], False) w"])
  obtain f2 b2 w2 where l2: "rgw_loop H ''disabling RGW on'' RemoveRgw (rgw_intent policy False) (f, b) w1 = ((f2, b2), w2)"
    by (rule prod_cases3' [of "rgw_loop H ''disabling RGW on'' RemoveRgw (rgw_intent policy False) (f, b) w1"])
  have "w' = w1 \<or> w' = w2"
  proof (cases f)
    case Nil
    from assms have "w' = w2"
      unfolding applyRgwPlacement_def Let_def l1 prod.case Nil using False l2 [unfolded Nil] by (simp split: if_splits)
    then show ?thesis ..
  next
    case (Cons x xs)
    from assms have "w' = w1"
      unfolding applyRgwPlacement_def Let_def l1 prod.case Cons using False by (simp split: if_splits)
    then show ?thesis ..
  qed
  with rgw_loop_trace [OF l1] rgw_loop_trace [OF l2] show ?thesis by auto
qed

section \<open>The reconciliation as a whole\<close>

text \<open>The control map read from the service rows.\<close>

lemma observe_rows:
  "on (foldl observe_row m rows) svc x \<longleftrightarrow> on m svc x \<or> (svc \<in> set controlServices \<and> (x, svc) \<in> set rows)"
proof (induction rows arbitrary: m)
  case (Cons row rows)
  obtain y s where row: "row = (y, s)" by (rule prod.exhaust)
  have "on (observe_row m row) svc x \<longleftrightarrow> on m svc x \<or> (svc \<in> set controlServices \<and> (x, svc) = row)"
    by (auto simp: observe_row_def row)
  then show ?case unfolding foldl.simps Cons.IH by auto
qed simp

lemma wf_observe_rows: "wf_cmap m \<Longrightarrow> wf_cmap (foldl observe_row m rows)"
proof (induction rows arbitrary: m)
  case (Cons row rows)
  then have "wf_cmap (observe_row m row)" by (cases row) (auto simp: observe_row_def intro: wf_cmap_set_on)
  then show ?case unfolding foldl.simps by (rule Cons.IH)
qed simp

lemma observed_Inr:
  assumes "getObservedControlServicesFunc st = (Inr obs, st')"
  shows "dbs st' = dbs st" "wf_cmap obs"
    "on obs svc x \<longleftrightarrow> svc \<in> set controlServices \<and> (x, svc) \<in> set (db_services (dbs st))"
proof -
  from assms obtain st1 st2 where t:
      "tx_bind GetServices (\<lambda>services. tx_return (foldl observe_row (\<lambda>_. []) services)) st1 = (Inr obs, st2)"
      "dbs st1 = dbs st" "dbs st2 = dbs st'"
    unfolding getObservedControlServicesFunc_def by (auto elim: Transaction_Inr)
  then have o: "obs = foldl observe_row (\<lambda>_. []) (db_services (dbs st))" "dbs st' = dbs st"
    by (auto simp: GetServices_def tx_Inr dest!: tx_stmt_Inr)
  show "dbs st' = dbs st" by (rule o(2))
  show "wf_cmap obs" unfolding o(1) by (rule wf_observe_rows) (simp add: wf_cmap_def)
  show "on obs svc x \<longleftrightarrow> svc \<in> set controlServices \<and> (x, svc) \<in> set (db_services (dbs st))"
    unfolding o(1) observe_rows by (simp add: on_def)
qed

text \<open>The phases a reconciliation went through, whatever its outcome.\<close>

lemma reconcile_phases:
  assumes "reconcilePlacement H policy w = (r, w')"
  obtains (idle) "e_trace w' = e_trace w" "e_st w' = e_st w \<or> dbs (e_st w') = dbs (e_st w)"
  | (adds) obs st1 e where "getObservedControlServicesFunc (e_st w) = (Inr obs, st1)"
      "add_services H (desiredControl policy) controlServices obs (w\<lparr>e_st := st1\<rparr>) = (Inl e, w')" "r = Some e"
  | (removes) obs st1 obs1 w1 e where "getObservedControlServicesFunc (e_st w) = (Inr obs, st1)"
      "add_services H (desiredControl policy) controlServices obs (w\<lparr>e_st := st1\<rparr>) = (Inr obs1, w1)"
      "remove_services H policy controlServices (obs1, controlServiceViability (hk_ready H) obs1 policy, []) w1 = (Inl e, w')"
      "r = Some e"
  | (all) obs st1 obs1 w1 obs2 via2 refused w2 rgw where "getObservedControlServicesFunc (e_st w) = (Inr obs, st1)"
      "add_services H (desiredControl policy) controlServices obs (w\<lparr>e_st := st1\<rparr>) = (Inr obs1, w1)"
      "remove_services H policy controlServices (obs1, controlServiceViability (hk_ready H) obs1 policy, []) w1
         = (Inr (obs2, via2, refused), w2)"
      "applyRgwPlacement H policy w2 = (rgw, w')"
      "r = (case rgw of Some e \<Rightarrow> Some (retainRefusals e refused)
            | None \<Rightarrow> if 0 < length refused then Some (err_wrap '''' (err_of ErrKeepOneInvariant) (refused_text refused)) else None)"
proof (cases "hk_server_cert H \<and> members_of policy \<noteq> []")
  case False
  with assms have "w' = w" by (auto simp: reconcilePlacement_def split: if_splits)
  with idle show thesis by simp
next
  case True
  obtain o1 st1 where o1: "getObservedControlServicesFunc (e_st w) = (o1, st1)" by (rule prod.exhaust)
  show thesis
  proof (cases o1)
    case (Inl e)
    with o1 True assms have "w' = w\<lparr>e_st := st1\<rparr>" by (auto simp: reconcilePlacement_def)
    moreover from o1 Inl have "dbs st1 = dbs (e_st w)"
      unfolding getObservedControlServicesFunc_def by (auto dest: Transaction_Inl)
    ultimately show thesis using idle by simp
  next
    case (Inr obs)
    note o1 = o1 [unfolded Inr]
    obtain a w1 where a: "add_services H (desiredControl policy) controlServices obs (w\<lparr>e_st := st1\<rparr>) = (a, w1)"
      by (rule prod.exhaust)
    show thesis
    proof (cases a)
      case (Inl e)
      with o1 a True assms have "w' = w1" "r = Some e" by (auto simp: reconcilePlacement_def)
      with adds [OF o1] a Inl show thesis by blast
    next
      case (Inr obs1)
      note a = a [unfolded Inr]
      obtain d w2 where d: "remove_services H policy controlServices
          (obs1, controlServiceViability (hk_ready H) obs1 policy, []) w1 = (d, w2)" by (rule prod.exhaust)
      show thesis
      proof (cases d)
        case (Inl e)
        with o1 a d True assms have "w' = w2" "r = Some e" by (auto simp: reconcilePlacement_def)
        with removes [OF o1 a] d Inl show thesis by blast
      next
        case (Inr s)
        obtain obs2 via2 refused where s: "s = (obs2, via2, refused)" by (cases s) auto
        obtain rgw w3 where g: "applyRgwPlacement H policy w2 = (rgw, w3)" by (rule prod.exhaust)
        from o1 a d Inr s g True assms have "w' = w3"
            "r = (case rgw of Some e \<Rightarrow> Some (retainRefusals e refused)
              | None \<Rightarrow> if 0 < length refused then Some (err_wrap '''' (err_of ErrKeepOneInvariant) (refused_text refused)) else None)"
          by (auto simp: reconcilePlacement_def split: option.splits if_splits)
        with all [OF o1 a] d g Inr s show thesis by blast
      qed
    qed
  qed
qed

text \<open>An operation the policy asks for.\<close>

fun asked_for :: "placement_policy \<Rightarrow> dispatch \<Rightarrow> bool" where
  "asked_for policy (AddControl m svc) \<longleftrightarrow>
     svc \<in> set controlServices \<and> (\<exists>mp. (m, mp) \<in> set (members_of policy) \<and> mp_Control mp = Some True)"
| "asked_for policy (RemoveControl m svc) \<longleftrightarrow>
     svc \<in> set controlServices \<and> (\<exists>mp. (m, mp) \<in> set (members_of policy) \<and> mp_Control mp = Some False)"
| "asked_for policy (EnableRgw m r) \<longleftrightarrow>
     (\<exists>mp. (m, mp) \<in> set (members_of policy) \<and> mp_Rgw mp \<noteq> None) \<and> r = rgw_entry policy m"
| "asked_for policy (RemoveRgw m) \<longleftrightarrow>
     (\<exists>mp r. (m, mp) \<in> set (members_of policy) \<and> mp_Rgw mp = Some r \<and> rp_Enabled r \<noteq> Some True)"

fun is_add :: "dispatch \<Rightarrow> bool" where
  "is_add (AddControl _ _) = True"
| "is_add _ = False"

fun is_remove :: "dispatch \<Rightarrow> bool" where
  "is_remove (RemoveControl _ _) = True"
| "is_remove _ = False"

fun is_rgw :: "dispatch \<Rightarrow> bool" where
  "is_rgw (EnableRgw _ _) = True"
| "is_rgw (RemoveRgw _) = True"
| "is_rgw _ = False"

lemma desiredControl_entry: "m \<in> set (desiredControl policy) \<longleftrightarrow> (\<exists>mp. (m, mp) \<in> set (members_of policy) \<and> mp_Control mp = Some True)"
  by (force simp: desiredControl_def)

lemma removal_target_entry: "removal_target policy m \<Longrightarrow> \<exists>mp. (m, mp) \<in> set (members_of policy) \<and> mp_Control mp = Some False"
  by (auto simp: removal_target_def member_entry_def split: option.splits dest: map_of_SomeD)

lemma rgw_intent_entry:
  "m \<in> set (rgw_intent policy b) \<longleftrightarrow>
     (\<exists>mp r. (m, mp) \<in> set (members_of policy) \<and> mp_Rgw mp = Some r \<and> (rp_Enabled r = Some True) = b)"
  by (force simp: rgw_intent_def split: option.splits)

text \<open>The trace of a reconciliation: additions, then removals, then the RGW operations; every
  operation is asked for by the policy, and every removal leaves a viable keeper.\<close>

lemma adds_phase:
  assumes "getObservedControlServicesFunc (e_st w) = (Inr obs, st1)"
    "add_services H (desiredControl policy) controlServices obs (w\<lparr>e_st := st1\<rparr>) = (r, w1)"
  shows "\<exists>A. e_trace w1 = e_trace w @ A \<and> list_all is_add A \<and> list_all (asked_for policy) A"
proof -
  from add_services_trace [OF assms(2)] obtain T where
    T: "e_trace w1 = e_trace w @ map (\<lambda>(m, svc). AddControl m svc) T" "set T \<subseteq> set (desiredControl policy) \<times> set controlServices"
    by auto
  then show ?thesis
    by (intro exI [of _ "map (\<lambda>(m, svc). AddControl m svc) T"]) (fastforce simp: list_all_iff desiredControl_entry)
qed

lemma removes_phase:
  assumes "remove_services H policy controlServices (obs1, controlServiceViability (hk_ready H) obs1 policy, []) w1 = (r, w2)"
    and wf: "wf_cmap obs1"
  shows "\<exists>R. e_trace w2 = e_trace w1 @ R \<and> list_all is_remove R \<and> list_all (asked_for policy) R \<and>
    (\<forall>m svc. RemoveControl m svc \<in> set R \<longrightarrow> removal_target policy m \<and>
       (\<exists>k. keeper policy k \<and> on obs1 svc k \<and> hk_ready H svc k))"
proof -
  let ?via = "controlServiceViability (hk_ready H) obs1 policy"
  have "distinct controlServices" by (simp add: controlServices_def)
  from remove_services_trace [OF assms(1) this] obtain T where
    T: "e_trace w2 = e_trace w1 @ map (\<lambda>(m, svc). RemoveControl m svc) T"
      "set T \<subseteq> {(m, svc). svc \<in> set controlServices \<and> m \<in> set (keys (members_of policy)) \<and> on obs1 svc m \<and> removal_ok policy ?via svc m}"
    by auto
  have ok: "removal_target policy m \<and> svc \<in> set controlServices \<and> (\<exists>k. keeper policy k \<and> on obs1 svc k \<and> hk_ready H svc k)"
    if "(m, svc) \<in> set T" for m svc
  proof -
    from that T(2) have m: "svc \<in> set controlServices" "on obs1 svc m" "removal_target policy m"
        and "\<exists>k. keeper policy k \<and> on ?via svc k" by (auto simp: removal_ok_def)
    then obtain k where k: "keeper policy k" "on ?via svc k" by blast
    have "has_removals obs1 policy"
      using m observed_pairs_iff [OF wf, of svc m] by (auto simp: has_removals_def list_ex_iff)
    with k m viability_on [OF wf, of "hk_ready H" policy svc k] show ?thesis by (auto simp: keeper_iff)
  qed
  then show ?thesis
    using T(1) removal_target_entry
    by (intro exI [of _ "map (\<lambda>(m, svc). RemoveControl m svc) T"]) (fastforce simp: list_all_iff)
qed

lemma rgw_phase:
  assumes "applyRgwPlacement H policy w = (r, w')"
  shows "\<exists>G. e_trace w' = e_trace w @ G \<and> list_all is_rgw G \<and> list_all (asked_for policy) G"
proof -
  from rgw_pass_trace [OF assms] obtain E D where "e_trace w' = e_trace w @ E @ D"
    "E = map (\<lambda>m. EnableRgw m (rgw_entry policy m)) (rgw_intent policy True)"
    "D = [] \<or> D = map RemoveRgw (rgw_intent policy False)" by blast
  then show ?thesis
    by (intro exI [of _ "E @ D"]) (auto simp: list_all_iff rgw_intent_entry, blast+)
qed

lemma reconcile_trace:
  assumes "reconcilePlacement H policy w = (r, w')"
  shows "\<exists>A R G. e_trace w' = e_trace w @ A @ R @ G \<and> list_all is_add A \<and> list_all is_remove R \<and> list_all is_rgw G \<and>
    list_all (asked_for policy) (A @ R @ G) \<and>
    (\<forall>m svc. RemoveControl m svc \<in> set R \<longrightarrow> removal_target policy m \<and>
       (\<exists>k obs1 w1. keeper policy k \<and> hk_ready H svc k \<and> on obs1 svc k \<and>
         (\<exists>obs st1. getObservedControlServicesFunc (e_st w) = (Inr obs, st1) \<and>
            add_services H (desiredControl policy) controlServices obs (w\<lparr>e_st := st1\<rparr>) = (Inr obs1, w1))))"
  using assms
proof (cases rule: reconcile_phases)
  case idle
  then show ?thesis by (intro exI [of _ "[]"]) simp
next
  case (adds obs st1 e)
  from adds_phase [OF adds(1,2)] obtain A where "e_trace w' = e_trace w @ A" "list_all is_add A" "list_all (asked_for policy) A"
    by blast
  then show ?thesis by (intro exI [of _ A] exI [of _ "[]"]) simp
next
  case (removes obs st1 obs1 w1 e)
  have "wf_cmap obs1" using add_services_obs(2) [OF removes(2)] observed_Inr(2) [OF removes(1)] by blast
  from adds_phase [OF removes(1,2)] removes_phase [OF removes(3) this] obtain A R where
    "e_trace w' = e_trace w @ A @ R" "list_all is_add A" "list_all is_remove R" "list_all (asked_for policy) (A @ R)"
    "\<forall>m svc. RemoveControl m svc \<in> set R \<longrightarrow> removal_target policy m \<and> (\<exists>k. keeper policy k \<and> on obs1 svc k \<and> hk_ready H svc k)"
    by auto
  with removes(1,2) show ?thesis by (intro exI [of _ A] exI [of _ R] exI [of _ "[]"]) fastforce
next
  case (all obs st1 obs1 w1 obs2 via2 refused w2 rgw)
  have "wf_cmap obs1" using add_services_obs(2) [OF all(2)] observed_Inr(2) [OF all(1)] by blast
  from adds_phase [OF all(1,2)] removes_phase [OF all(3) this] rgw_phase [OF all(4)] obtain A R G where
    "e_trace w' = e_trace w @ A @ R @ G" "list_all is_add A" "list_all is_remove R" "list_all is_rgw G"
    "list_all (asked_for policy) (A @ R @ G)"
    "\<forall>m svc. RemoveControl m svc \<in> set R \<longrightarrow> removal_target policy m \<and> (\<exists>k. keeper policy k \<and> on obs1 svc k \<and> hk_ready H svc k)"
    by auto
  with all(1,2) show ?thesis by (intro exI [of _ A] exI [of _ R] exI [of _ G]) fastforce
qed

section \<open>What the engine relies on\<close>

text \<open>The contract of the service operations: adding a service records it on success, and no operation
  drops a service row other than the one it removes. Nothing is assumed about failed operations, and
  operations may change everything else.\<close>

locale service_dispatch =
  fixes disp :: "dispatch \<Rightarrow> dispatch list \<Rightarrow> dbst \<Rightarrow> go_error option \<times> dbst"
  assumes add_records: "disp (AddControl m s) h st = (None, st') \<Longrightarrow> (m, s) \<in> set (db_services (dbs st'))"
    and keeps: "disp op h st = (r, st') \<Longrightarrow> (m, s) \<in> set (db_services (dbs st)) \<Longrightarrow>
      op \<noteq> RemoveControl m s \<Longrightarrow> \<not> (op = RemoveRgw m \<and> s = ''rgw'') \<Longrightarrow> (m, s) \<in> set (db_services (dbs st'))"
begin

definition recorded :: "engine \<Rightarrow> string \<Rightarrow> string \<Rightarrow> bool" where
  "recorded w m s \<longleftrightarrow> (m, s) \<in> set (db_services (dbs (e_st w)))"

lemma call_recorded:
  assumes "hk_dispatch H = disp" "call H op w = (r, w')" "recorded w m s" "op \<noteq> RemoveControl m s" "s \<noteq> ''rgw''"
  shows "recorded w' m s"
  using assms keeps by (auto simp: recorded_def call_def split: prod.splits)

lemma call_add_recorded:
  assumes "hk_dispatch H = disp" "call H (AddControl m s) w = (None, w')"
  shows "recorded w' m s"
  using assms add_records by (auto simp: recorded_def call_def split: prod.splits)

lemma add_members_recorded:
  assumes "hk_dispatch H = disp" "add_members H svc ms obs w = (r, w')" "s \<noteq> ''rgw''" "recorded w m s"
  shows "recorded w' m s"
  using assms
proof (induction ms arbitrary: obs w)
  case (Cons x xs)
  show ?case
  proof (cases "on obs svc x")
    case True
    with Cons show ?thesis by simp
  next
    case False
    obtain q w1 where q: "call H (AddControl x svc) w = (q, w1)" by (rule prod.exhaust)
    have "recorded w1 m s" using call_recorded [OF Cons.prems(1) q] Cons.prems(3,4) by simp
    with Cons False q show ?thesis by (cases q) auto
  qed
qed simp

lemma add_members_all:
  assumes "hk_dispatch H = disp" "add_members H svc ms obs w = (Inr obs', w')"
    and "\<And>s x. s \<noteq> ''rgw'' \<Longrightarrow> on obs s x \<Longrightarrow> recorded w x s" "s \<noteq> ''rgw''" "on obs' s x"
  shows "recorded w' x s"
  using assms
proof (induction ms arbitrary: obs w)
  case (Cons y ys)
  show ?case
  proof (cases "on obs svc y")
    case True
    with Cons.prems have "add_members H svc ys obs w = (Inr obs', w')" by simp
    from Cons.IH [OF Cons.prems(1) this] Cons.prems(3-5) show ?thesis by blast
  next
    case False
    obtain q w1 where q: "call H (AddControl y svc) w = (q, w1)" by (rule prod.exhaust)
    with Cons.prems False have q1: "q = None" "add_members H svc ys (set_on obs svc y True) w1 = (Inr obs', w')"
      by (auto split: option.splits)
    have "recorded w1 x' s'" if "s' \<noteq> ''rgw''" "on (set_on obs svc y True) s' x'" for s' x'
      using that call_add_recorded [OF Cons.prems(1) q [unfolded q1(1)]] call_recorded [OF Cons.prems(1) q] Cons.prems(3)
      by (auto split: if_splits)
    from Cons.IH [OF Cons.prems(1) q1(2) this Cons.prems(4,5)] show ?thesis .
  qed
qed simp

lemma add_services_recorded:
  assumes "hk_dispatch H = disp" "add_services H desired svcs obs w = (r, w')" "s \<noteq> ''rgw''" "recorded w m s"
  shows "recorded w' m s"
  using assms
proof (induction svcs arbitrary: obs w)
  case (Cons svc svcs)
  obtain q w1 where q: "add_members H svc (loop_order (hk_sched H) (10 + length svcs) desired) obs w = (q, w1)"
    by (rule prod.exhaust)
  have "recorded w1 m s" using add_members_recorded [OF Cons.prems(1) q] Cons.prems(3,4) by blast
  with Cons q show ?case by (cases q) auto
qed simp

lemma add_services_all:
  assumes "hk_dispatch H = disp" "add_services H desired svcs obs w = (Inr obs', w')"
    and "\<And>s x. s \<noteq> ''rgw'' \<Longrightarrow> on obs s x \<Longrightarrow> recorded w x s" "s \<noteq> ''rgw''" "on obs' s x"
  shows "recorded w' x s"
  using assms
proof (induction svcs arbitrary: obs w)
  case (Cons svc svcs)
  from Cons.prems obtain obs1 w1 where a:
      "add_members H svc (loop_order (hk_sched H) (10 + length svcs) desired) obs w = (Inr obs1, w1)"
      "add_services H desired svcs obs1 w1 = (Inr obs', w')"
    by (auto split: prod.splits sum.splits)
  have "recorded w1 x' s'" if "s' \<noteq> ''rgw''" "on obs1 s' x'" for s' x'
    using add_members_all [OF Cons.prems(1) a(1) Cons.prems(3) that] .
  from Cons.IH [OF Cons.prems(1) a(2) this Cons.prems(4,5)] show ?case .
qed simp

lemma remove_members_recorded:
  assumes "hk_dispatch H = disp" "remove_members H policy svc ms st w = (r, w')" "s \<noteq> ''rgw''" "recorded w m s"
    and "keeper policy m \<or> s \<noteq> svc"
  shows "recorded w' m s"
  using assms
proof (induction ms arbitrary: st w)
  case (Cons x xs)
  obtain obs via refused where st: "st = (obs, via, refused)" by (cases st) auto
  show ?case
  proof (cases "\<not> removal_target policy x \<or> \<not> on obs svc x \<or> retainers policy obs via svc x = 0")
    case True
    with Cons.prems(2) st obtain st' where "remove_members H policy svc xs st' w = (r, w')" by (auto split: if_splits)
    from Cons.IH [OF Cons.prems(1) this Cons.prems(3-5)] show ?thesis .
  next
    case False
    obtain q w1 where q: "call H (RemoveControl x svc) w = (q, w1)" by (rule prod.exhaust)
    have "recorded w1 m s"
      using call_recorded [OF Cons.prems(1) q Cons.prems(4)] Cons.prems(3,5) False by (auto simp: keeper_iff)
    with Cons False q st show ?thesis by (cases q) auto
  qed
qed simp

lemma remove_services_recorded:
  assumes "hk_dispatch H = disp" "remove_services H policy svcs st w = (r, w')" "s \<noteq> ''rgw''" "recorded w m s"
    and "keeper policy m \<or> s \<notin> set svcs"
  shows "recorded w' m s"
  using assms
proof (induction svcs arbitrary: st w)
  case (Cons svc svcs)
  obtain q w1 where q: "remove_members H policy svc (loop_order (hk_sched H) (20 + length svcs) (keys (members_of policy))) st w = (q, w1)"
    by (rule prod.exhaust)
  have "recorded w1 m s" using remove_members_recorded [OF Cons.prems(1) q Cons.prems(3,4)] Cons.prems(5) by auto
  with Cons q show ?case by (cases q) auto
qed simp

lemma rgw_loop_recorded:
  assumes "hk_dispatch H = disp" "rgw_loop H action op ms acc w = (acc', w')" "s \<noteq> ''rgw''" "recorded w m s"
    and "\<And>x y z. op x \<noteq> RemoveControl y z"
  shows "recorded w' m s"
  using assms(1-4)
proof (induction ms arbitrary: acc w)
  case (Cons x xs)
  obtain f b where acc: "acc = (f, b)" by (rule prod.exhaust)
  obtain q w1 where q: "call H (op x) w = (q, w1)" by (rule prod.exhaust)
  have "recorded w1 m s" using call_recorded [OF Cons.prems(1) q Cons.prems(4)] Cons.prems(3) assms(5) by simp
  moreover from Cons.prems(2) acc q obtain acc1 where "rgw_loop H action op xs acc1 w1 = (acc', w')"
    by (cases q) (auto split: prod.splits)
  ultimately show ?case using Cons.IH Cons.prems(1,3) by blast
qed simp

end

text \<open>The RGW pass as its two loops.\<close>

lemma applyRgw_loops:
  assumes "applyRgwPlacement H policy w = (r, w')"
  obtains (idle) "w' = w"
  | (enables) acc where "rgw_loop H ''enabling RGW on'' (\<lambda>m. EnableRgw m (rgw_entry policy m)) (rgw_intent policy True) ([], False) w = (acc, w')"
  | (both) acc w1 acc' where
      "rgw_loop H ''enabling RGW on'' (\<lambda>m. EnableRgw m (rgw_entry policy m)) (rgw_intent policy True) ([], False) w = (acc, w1)"
      "rgw_loop H ''disabling RGW on'' RemoveRgw (rgw_intent policy False) acc w1 = (acc', w')" "fst acc = []"
proof (cases "rgw_intent policy True = [] \<and> rgw_intent policy False = []")
  case True
  with assms show thesis by (intro idle) (simp add: applyRgwPlacement_def)
next
  case False
  let ?E = "\<lambda>m. EnableRgw m (rgw_entry policy m)"
  obtain f b w1 where l1: "rgw_loop H ''enabling RGW on'' ?E (rgw_intent policy True) ([], False) w = ((f, b), w1)"
    by (rule prod_cases3' [of "rgw_loop H ''enabling RGW on'' ?E (rgw_intent policy True) ([], False) w"])
  show thesis
  proof (cases f)
    case (Cons x xs)
    from assms have "w' = w1"
      unfolding applyRgwPlacement_def Let_def l1 prod.case Cons using False by (simp split: if_splits)
    with enables l1 show thesis by blast
  next
    case Nil
    obtain f2 b2 w2 where l2: "rgw_loop H ''disabling RGW on'' RemoveRgw (rgw_intent policy False) (f, b) w1 = ((f2, b2), w2)"
      by (rule prod_cases3' [of "rgw_loop H ''disabling RGW on'' RemoveRgw (rgw_intent policy False) (f, b) w1"])
    from assms have "w' = w2"
      unfolding applyRgwPlacement_def Let_def l1 prod.case Nil using False l2 [unfolded Nil] by (simp split: if_splits)
    with both l1 l2 Nil show thesis by simp
  qed
qed

context service_dispatch
begin

lemma rgw_recorded:
  assumes "hk_dispatch H = disp" "applyRgwPlacement H policy w = (r, w')" "s \<noteq> ''rgw''" "recorded w m s"
  shows "recorded w' m s"
  using assms(2)
proof (cases rule: applyRgw_loops)
  case idle
  with assms(4) show ?thesis by simp
next
  case (enables acc)
  from rgw_loop_recorded [OF assms(1) enables assms(3,4)] show ?thesis by simp
next
  case (both acc w1 acc')
  have "recorded w1 m s" using rgw_loop_recorded [OF assms(1) both(1) assms(3,4)] by simp
  from rgw_loop_recorded [OF assms(1) both(2) assms(3) this] show ?thesis by simp
qed

lemma observed_recorded:
  assumes "getObservedControlServicesFunc (e_st w) = (Inr obs, st1)"
  shows "on obs s x \<Longrightarrow> recorded (w\<lparr>e_st := st1\<rparr>) x s" "recorded w x s \<Longrightarrow> recorded (w\<lparr>e_st := st1\<rparr>) x s"
  using observed_Inr [OF assms] by (auto simp: recorded_def)

text \<open>A keeper that has a control service after the additions still has it at the end.\<close>

lemma removal_phases_keep:
  assumes "hk_dispatch H = disp"
    and "remove_services H policy controlServices st w1 = (r, w2)" "s \<noteq> ''rgw''" "recorded w1 k s"
    and "keeper policy k \<or> s \<notin> set controlServices"
  shows "recorded w2 k s" "applyRgwPlacement H policy w2 = (q, w3) \<Longrightarrow> recorded w3 k s"
proof -
  show "recorded w2 k s" using remove_services_recorded assms by blast
  then show "applyRgwPlacement H policy w2 = (q, w3) \<Longrightarrow> recorded w3 k s" using rgw_recorded assms(1,3) by blast
qed

text \<open>Rows the trace does not remove survive the removal phase.\<close>

lemma remove_members_untouched:
  assumes "hk_dispatch H = disp" "remove_members H policy svc ms st w = (r, w')" "s \<noteq> ''rgw''" "recorded w m s"
    and "RemoveControl m s \<notin> set (e_trace w')"
  shows "recorded w' m s"
  using assms(1-5)
proof (induction ms arbitrary: st w)
  case (Cons x xs)
  obtain obs via refused where st: "st = (obs, via, refused)" by (cases st) auto
  show ?case
  proof (cases "\<not> removal_target policy x \<or> \<not> on obs svc x \<or> retainers policy obs via svc x = 0")
    case True
    with Cons.prems(2) st obtain st' where "remove_members H policy svc xs st' w = (r, w')" by (auto split: if_splits)
    from Cons.IH [OF Cons.prems(1) this Cons.prems(3-5)] show ?thesis .
  next
    case False
    obtain q w1 where q: "call H (RemoveControl x svc) w = (q, w1)" by (rule prod.exhaust)
    have sub: "set (e_trace w1) \<subseteq> set (e_trace w')"
    proof (cases q)
      case None
      with Cons.prems(2) False q st obtain o1 v1 f1 where "remove_members H policy svc xs (o1, v1, f1) w1 = (r, w')" by auto
      from remove_members_trace [OF this] show ?thesis by auto
    qed (use Cons.prems(2) False q st in auto)
    have "RemoveControl x svc \<noteq> RemoveControl m s" using sub Cons.prems(5) call_trace [OF q] by auto
    then have "recorded w1 m s" using call_recorded [OF Cons.prems(1) q Cons.prems(4) _ Cons.prems(3)] by simp
    with Cons False q st show ?thesis by (cases q) auto
  qed
qed simp

lemma remove_services_untouched:
  assumes "hk_dispatch H = disp" "remove_services H policy svcs st w = (r, w')" "s \<noteq> ''rgw''" "recorded w m s"
    and "RemoveControl m s \<notin> set (e_trace w')" "distinct svcs"
  shows "recorded w' m s"
  using assms
proof (induction svcs arbitrary: st w)
  case (Cons svc svcs)
  obtain q w1 where q: "remove_members H policy svc (loop_order (hk_sched H) (20 + length svcs) (keys (members_of policy))) st w = (q, w1)"
    by (rule prod.exhaust)
  have "set (e_trace w1) \<subseteq> set (e_trace w')"
  proof (cases q)
    case (Inr s1)
    obtain o1 v1 f1 where s1: "s1 = (o1, v1, f1)" by (cases s1) auto
    with Cons.prems(2) q Inr have "remove_services H policy svcs (o1, v1, f1) w1 = (r, w')" by simp
    from remove_services_trace [OF this] Cons.prems(6) show ?thesis by auto
  qed (use Cons.prems(2) q in auto)
  then have "recorded w1 m s" using remove_members_untouched [OF Cons.prems(1) q Cons.prems(3,4)] Cons.prems(5) by auto
  with Cons q show ?case by (cases q) auto
qed simp

lemma keeps_one_aux:
  assumes disp: "hk_dispatch H = disp" and fresh: "e_trace w = []"
    and svc: "svc \<in> set controlServices" and has: "recorded w m0 svc"
    and o: "getObservedControlServicesFunc (e_st w) = (Inr obs, st1)"
    and a: "add_services H (desiredControl policy) controlServices obs (w\<lparr>e_st := st1\<rparr>) = (Inr obs1, w1)"
    and d: "remove_services H policy controlServices (obs1, controlServiceViability (hk_ready H) obs1 policy, []) w1 = (r, w2)"
  shows "\<exists>m. recorded w2 m svc"
proof -
  have rgw: "svc \<noteq> ''rgw''" using svc by (auto simp: controlServices_def)
  have m0: "recorded w1 m0 svc" using add_services_recorded [OF disp a rgw] observed_recorded(2) [OF o has] by blast
  show ?thesis
  proof (cases "RemoveControl m0 svc \<in> set (e_trace w2)")
    case False
    have "distinct controlServices" by (simp add: controlServices_def)
    with remove_services_untouched [OF disp d rgw m0 False] show ?thesis by blast
  next
    case True
    have wf: "wf_cmap obs1" using add_services_obs(2) [OF a] observed_Inr(2) [OF o] by blast
    from adds_phase [OF o a] removes_phase [OF d wf] fresh True obtain k where k: "keeper policy k" "on obs1 svc k"
      by (fastforce simp: list_all_iff)
    have "recorded w1 k svc"
      using add_services_all [OF disp a] observed_recorded(1) [OF o] rgw k(2) by blast
    with removal_phases_keep(1) [OF disp d rgw] k(1) show ?thesis by blast
  qed
qed

text \<open>Keep-one: a control service that is on record somewhere is on record somewhere afterwards,
  however the reconciliation ends.\<close>

lemma reconcile_keeps_one:
  assumes disp: "hk_dispatch H = disp" and run: "reconcilePlacement H policy w = (r, w')" and fresh: "e_trace w = []"
    and svc: "svc \<in> set controlServices" and has: "recorded w m0 svc"
  shows "\<exists>m. recorded w' m svc"
  using run
proof (cases rule: reconcile_phases)
  case idle
  with has show ?thesis by (auto simp: recorded_def)
next
  case (adds obs st1 e)
  have "svc \<noteq> ''rgw''" using svc by (auto simp: controlServices_def)
  with add_services_recorded [OF disp adds(2)] observed_recorded(2) [OF adds(1) has] show ?thesis by blast
next
  case (removes obs st1 obs1 w1 e)
  show ?thesis by (rule keeps_one_aux [OF disp fresh svc has removes(1,2,3)])
next
  case (all obs st1 obs1 w1 obs2 via2 refused w2 rgw)
  have "\<exists>m. recorded w2 m svc" by (rule keeps_one_aux [OF disp fresh svc has all(1,2,3)])
  moreover have "svc \<noteq> ''rgw''" using svc by (auto simp: controlServices_def)
  ultimately show ?thesis using rgw_recorded [OF disp all(4)] by blast
qed

end

section \<open>Exact outcome when every operation succeeds\<close>

definition never_fails :: "hooks \<Rightarrow> bool" where
  "never_fails H \<longleftrightarrow> (\<forall>op h st. fst (hk_dispatch H op h st) = None)"

lemma call_ok:
  assumes "never_fails H"
  obtains w1 where "call H op w = (None, w1)" "e_trace w1 = e_trace w @ [op]"
proof -
  have "fst (call H op w) = None" using assms by (simp add: never_fails_def call_def split: prod.splits) (metis fst_conv)
  then obtain w1 where "call H op w = (None, w1)" by (metis prod.collapse)
  with that call_trace show thesis by blast
qed

lemma add_members_exact:
  assumes "never_fails H" "distinct ms"
  shows "\<exists>obs' w'. add_members H svc ms obs w = (Inr obs', w') \<and>
    e_trace w' = e_trace w @ map (\<lambda>m. AddControl m svc) (filter (\<lambda>m. \<not> on obs svc m) ms)"
  using assms(2)
proof (induction ms arbitrary: obs w)
  case (Cons m ms)
  show ?case
  proof (cases "on obs svc m")
    case True
    with Cons show ?thesis by simp
  next
    case False
    obtain w1 where w1: "call H (AddControl m svc) w = (None, w1)" "e_trace w1 = e_trace w @ [AddControl m svc]"
      using call_ok [OF assms(1)] .
    have "filter (\<lambda>x. \<not> on (set_on obs svc m True) svc x) ms = filter (\<lambda>x. \<not> on obs svc x) ms"
      using Cons.prems by (intro filter_cong) auto
    with Cons.IH [of "set_on obs svc m True" w1] Cons.prems False w1 show ?thesis by auto
  qed
qed simp

lemma add_services_exact:
  assumes "never_fails H" "distinct desired" "distinct svcs"
  shows "\<exists>obs' w' A. add_services H desired svcs obs w = (Inr obs', w') \<and> e_trace w' = e_trace w @ A \<and>
    set A = {AddControl m svc |m svc. svc \<in> set svcs \<and> m \<in> set desired \<and> \<not> on obs svc m}"
  using assms(3)
proof (induction svcs arbitrary: obs w)
  case (Cons svc svcs)
  let ?ms = "loop_order (hk_sched H) (10 + length svcs) desired"
  obtain obs1 w1 where a: "add_members H svc ?ms obs w = (Inr obs1, w1)"
      "e_trace w1 = e_trace w @ map (\<lambda>m. AddControl m svc) (filter (\<lambda>m. \<not> on obs svc m) ?ms)"
    using add_members_exact [OF assms(1), of ?ms svc obs w] assms(2) by auto
  have dist: "distinct svcs" using Cons.prems by simp
  obtain obs2 w2 A where b: "add_services H desired svcs obs1 w1 = (Inr obs2, w2)" "e_trace w2 = e_trace w1 @ A"
      "set A = {AddControl m s |m s. s \<in> set svcs \<and> m \<in> set desired \<and> \<not> on obs1 s m}"
    by (rule exE [OF Cons.IH [OF dist, of obs1 w1]], elim exE conjE) (rule that)
  have "on obs1 s m \<longleftrightarrow> on obs s m" if "s \<in> set svcs" for s m
    using add_members_obs(1) [OF a(1), of s m] that Cons.prems by auto
  with b(3) have A: "set A = {AddControl m s |m s. s \<in> set svcs \<and> m \<in> set desired \<and> \<not> on obs s m}" by auto
  let ?A = "map (\<lambda>m. AddControl m svc) (filter (\<lambda>m. \<not> on obs svc m) ?ms) @ A"
  have "set ?A = {AddControl m s |m s. s \<in> set (svc # svcs) \<and> m \<in> set desired \<and> \<not> on obs s m}"
    unfolding set_append A by auto
  moreover have "e_trace w2 = e_trace w @ ?A" using a(2) b(2) by simp
  moreover have "add_services H desired (svc # svcs) obs w = (Inr obs2, w2)" using a(1) b(1) by simp
  ultimately show ?case by blast
qed simp

text \<open>Whether some keeper of the service is viable.\<close>

definition viable_keeper :: "placement_policy \<Rightarrow> control_map \<Rightarrow> string \<Rightarrow> bool" where
  "viable_keeper policy via svc \<longleftrightarrow> (\<exists>k. keeper policy k \<and> on via svc k)"

lemma retainers_viable:
  assumes "\<And>k. on via svc k \<Longrightarrow> k \<in> set (keys (obs svc))" "removal_target policy m"
  shows "retainers policy obs via svc m \<noteq> 0 \<longleftrightarrow> viable_keeper policy via svc"
proof -
  have "k \<noteq> m" if "keeper policy k" for k using that assms(2) by (auto simp: keeper_iff)
  then show ?thesis unfolding retainers_pos viable_keeper_def using assms(1) by blast
qed

lemma remove_members_exact:
  assumes "never_fails H" "distinct ms" "\<And>k. on via svc k \<Longrightarrow> k \<in> set (keys (obs svc))"
  shows "\<exists>obs' via' w'. remove_members H policy svc ms (obs, via, refused) w =
      (Inr (obs', via', refused @ map (\<lambda>m. svc @ '' on '' @ m)
         (filter (\<lambda>m. removal_target policy m \<and> on obs svc m \<and> \<not> viable_keeper policy via svc) ms)), w') \<and>
    e_trace w' = e_trace w @ map (\<lambda>m. RemoveControl m svc)
      (filter (\<lambda>m. removal_target policy m \<and> on obs svc m \<and> viable_keeper policy via svc) ms) \<and>
    (\<forall>s. s \<noteq> svc \<longrightarrow> obs' s = obs s \<and> via' s = via s)"
  using assms(2,3)
proof (induction ms arbitrary: obs via refused w)
  case (Cons m ms)
  show ?case
  proof (cases "removal_target policy m \<and> on obs svc m")
    case False
    with Cons.IH [of via obs refused w] Cons.prems show ?thesis by auto
  next
    case True
    show ?thesis
    proof (cases "viable_keeper policy via svc")
      case False
      with True retainers_viable [of via svc obs policy m] Cons.prems(2) have "retainers policy obs via svc m = 0" by blast
      with Cons.IH [of via obs "refused @ [svc @ '' on '' @ m]" w] Cons.prems True False show ?thesis by auto
    next
      case v: True
      with True retainers_viable [of via svc obs policy m] Cons.prems(2) have r: "retainers policy obs via svc m \<noteq> 0" by blast
      obtain w1 where w1: "call H (RemoveControl m svc) w = (None, w1)" "e_trace w1 = e_trace w @ [RemoveControl m svc]"
        using call_ok [OF assms(1)] .
      let ?obs = "set_on obs svc m False" and ?via = "set_on via svc m False"
      have k: "on ?via svc k \<Longrightarrow> k \<in> set (keys (?obs svc))" for k
        using Cons.prems(2) by (auto simp: keys_set_on split: if_splits)
      have vk: "viable_keeper policy ?via svc \<longleftrightarrow> viable_keeper policy via svc"
        using True by (auto simp: viable_keeper_def keeper_iff)
      have f: "filter (\<lambda>x. removal_target policy x \<and> on ?obs svc x \<and> viable_keeper policy ?via svc) ms =
          filter (\<lambda>x. removal_target policy x \<and> on obs svc x \<and> viable_keeper policy via svc) ms"
        using Cons.prems(1) vk by (intro filter_cong) auto
      have g: "filter (\<lambda>x. removal_target policy x \<and> on ?obs svc x \<and> \<not> viable_keeper policy ?via svc) ms = []"
        using v vk by (simp add: filter_empty_conv)
      from Cons.IH [of ?via ?obs refused w1] k Cons.prems(1) f g obtain obs' via' w' where
        ih: "remove_members H policy svc ms (?obs, ?via, refused) w1 = (Inr (obs', via', refused), w')"
          "e_trace w' = e_trace w1 @ map (\<lambda>m. RemoveControl m svc)
             (filter (\<lambda>x. removal_target policy x \<and> on obs svc x \<and> viable_keeper policy via svc) ms)"
          "\<forall>s. s \<noteq> svc \<longrightarrow> obs' s = ?obs s \<and> via' s = ?via s"
        by auto
      with True v r w1 show ?thesis by (simp add: set_on_def)
    qed
  qed
qed simp

definition refusal_of :: "string \<times> string \<Rightarrow> string" where
  "refusal_of p = snd p @ '' on '' @ fst p"

definition removal_candidate :: "placement_policy \<Rightarrow> control_map \<Rightarrow> string \<Rightarrow> string \<Rightarrow> bool" where
  "removal_candidate policy obs svc m \<longleftrightarrow> m \<in> set (keys (members_of policy)) \<and> removal_target policy m \<and> on obs svc m"

lemma remove_members_keys:
  assumes "remove_members H policy svc ms (obs, via, refused) w = (Inr (obs', via', refused'), w')"
    and "\<And>s k. on via s k \<Longrightarrow> k \<in> set (keys (obs s))" "on via' s k"
  shows "k \<in> set (keys (obs' s))"
  using assms
proof (induction ms arbitrary: obs via refused w)
  case (Cons m ms)
  show ?case
  proof (cases "\<not> removal_target policy m \<or> \<not> on obs svc m \<or> retainers policy obs via svc m = 0")
    case True
    with Cons.prems(1) obtain refused1 where "remove_members H policy svc ms (obs, via, refused1) w = (Inr (obs', via', refused'), w')"
      by (auto split: if_splits)
    from Cons.IH [OF this Cons.prems(2,3)] show ?thesis .
  next
    case False
    with Cons.prems(1) obtain w1 where
      "remove_members H policy svc ms (set_on obs svc m False, set_on via svc m False, refused) w1 = (Inr (obs', via', refused'), w')"
      by (auto split: prod.splits option.splits)
    moreover have "on (set_on via svc m False) s k \<Longrightarrow> k \<in> set (keys (set_on obs svc m False s))" for s k
      using Cons.prems(2) by (auto simp: keys_set_on split: if_splits)
    ultimately show ?thesis using Cons.IH Cons.prems(3) by blast
  qed
qed auto

lemma remove_services_exact:
  assumes "never_fails H" "wf_policy policy" "distinct svcs" "\<And>svc k. on via svc k \<Longrightarrow> k \<in> set (keys (obs svc))"
  shows "\<exists>obs' via' w' T F. remove_services H policy svcs (obs, via, refused) w = (Inr (obs', via', refused @ map refusal_of F), w') \<and>
    e_trace w' = e_trace w @ map (\<lambda>(m, svc). RemoveControl m svc) T \<and>
    set T = {(m, svc). svc \<in> set svcs \<and> removal_candidate policy obs svc m \<and> viable_keeper policy via svc} \<and>
    set F = {(m, svc). svc \<in> set svcs \<and> removal_candidate policy obs svc m \<and> \<not> viable_keeper policy via svc}"
  using assms(3,4)
proof (induction svcs arbitrary: obs via refused w)
  case (Cons svc svcs)
  let ?ms = "loop_order (hk_sched H) (20 + length svcs) (keys (members_of policy))"
  let ?rm = "filter (\<lambda>m. removal_target policy m \<and> on obs svc m \<and> viable_keeper policy via svc) ?ms"
  let ?rf = "filter (\<lambda>m. removal_target policy m \<and> on obs svc m \<and> \<not> viable_keeper policy via svc) ?ms"
  have "distinct ?ms" using assms(2) by (simp add: wf_policy_def)
  from remove_members_exact [OF assms(1) this, of via svc obs policy refused w] Cons.prems(2) obtain obs1 via1 w1 where
    a: "remove_members H policy svc ?ms (obs, via, refused) w = (Inr (obs1, via1, refused @ map (\<lambda>m. svc @ '' on '' @ m) ?rf), w1)"
      "e_trace w1 = e_trace w @ map (\<lambda>m. RemoveControl m svc) ?rm" "\<forall>s. s \<noteq> svc \<longrightarrow> obs1 s = obs s \<and> via1 s = via s"
    by blast
  have same: "removal_candidate policy obs1 s m = removal_candidate policy obs s m" "viable_keeper policy via1 s = viable_keeper policy via s"
    if "s \<in> set svcs" for s m
  proof -
    have "obs1 s = obs s" "via1 s = via s" using that Cons.prems(1) a(3) by auto
    then show "removal_candidate policy obs1 s m = removal_candidate policy obs s m" "viable_keeper policy via1 s = viable_keeper policy via s"
      by (simp_all add: removal_candidate_def viable_keeper_def on_def)
  qed
  have k: "k \<in> set (keys (obs1 s))" if "on via1 s k" for s k
    using that remove_members_keys [OF a(1)] Cons.prems(2) by blast
  from Cons.IH [of via1 obs1 "refused @ map (\<lambda>m. svc @ '' on '' @ m) ?rf" w1] k Cons.prems(1) obtain obs2 via2 w2 T F where
    b: "remove_services H policy svcs (obs1, via1, refused @ map (\<lambda>m. svc @ '' on '' @ m) ?rf) w1
          = (Inr (obs2, via2, (refused @ map (\<lambda>m. svc @ '' on '' @ m) ?rf) @ map refusal_of F), w2)"
      "e_trace w2 = e_trace w1 @ map (\<lambda>(m, svc). RemoveControl m svc) T"
      "set T = {(m, s). s \<in> set svcs \<and> removal_candidate policy obs1 s m \<and> viable_keeper policy via1 s}"
      "set F = {(m, s). s \<in> set svcs \<and> removal_candidate policy obs1 s m \<and> \<not> viable_keeper policy via1 s}"
    by auto
  let ?T = "map (\<lambda>m. (m, svc)) ?rm @ T" and ?F = "map (\<lambda>m. (m, svc)) ?rf @ F"
  have "remove_services H policy (svc # svcs) (obs, via, refused) w = (Inr (obs2, via2, refused @ map refusal_of ?F), w2)"
    using a(1) b(1) by (simp add: refusal_of_def comp_def)
  moreover have "e_trace w2 = e_trace w @ map (\<lambda>(m, svc). RemoveControl m svc) ?T" using a(2) b(2) by (simp add: comp_def)
  moreover have "set ?T = {(m, s). s \<in> set (svc # svcs) \<and> removal_candidate policy obs s m \<and> viable_keeper policy via s}"
    unfolding set_append b(3) using same by (auto simp: removal_candidate_def)
  moreover have "set ?F = {(m, s). s \<in> set (svc # svcs) \<and> removal_candidate policy obs s m \<and> \<not> viable_keeper policy via s}"
    unfolding set_append b(4) using same by (auto simp: removal_candidate_def)
  ultimately show ?case by blast
qed simp

lemma rgw_loop_ok:
  assumes "never_fails H"
  shows "\<exists>w'. rgw_loop H action op ms acc w = (acc, w')"
proof (induction ms arbitrary: w)
  case (Cons m ms)
  obtain f b where acc: "acc = (f, b)" by (rule prod.exhaust)
  obtain w1 where "call H (op m) w = (None, w1)" using call_ok [OF assms] by metis
  with Cons [of w1] acc show ?case by simp
qed simp

lemma applyRgw_ok:
  assumes "never_fails H"
  shows "\<exists>w'. applyRgwPlacement H policy w = (None, w')"
proof -
  let ?E = "\<lambda>m. EnableRgw m (rgw_entry policy m)"
  obtain w1 where l1: "rgw_loop H ''enabling RGW on'' ?E (rgw_intent policy True) ([], False) w = (([], False), w1)"
    using rgw_loop_ok [OF assms, of "''enabling RGW on''" ?E "rgw_intent policy True" "([], False)" w] by auto
  obtain w2 where "rgw_loop H ''disabling RGW on'' RemoveRgw (rgw_intent policy False) ([], False) w1 = (([], False), w2)"
    using rgw_loop_ok [OF assms, of "''disabling RGW on''" RemoveRgw "rgw_intent policy False" "([], False)" w1] by auto
  with l1 show ?thesis unfolding applyRgwPlacement_def Let_def by simp
qed

text \<open>What a member is to become, read off the policy.\<close>

definition wants_control :: "placement_policy \<Rightarrow> string \<Rightarrow> bool" where
  "wants_control policy m \<longleftrightarrow> (case member_entry policy m of None \<Rightarrow> False | Some mp \<Rightarrow> mp_Control mp = Some True)"

lemma wants_control_desired:
  assumes "wf_policy policy"
  shows "m \<in> set (desiredControl policy) \<longleftrightarrow> wants_control policy m"
proof -
  have "(m, mp) \<in> set (members_of policy) \<longleftrightarrow> member_entry policy m = Some mp" for mp
    using assms by (auto simp: wf_policy_def member_entry_def keys_def)
  then show ?thesis by (auto simp: desiredControl_entry wants_control_def split: option.splits)
qed

lemma distinct_desired: "wf_policy policy \<Longrightarrow> distinct (desiredControl policy)"
  unfolding wf_policy_def desiredControl_def keys_def by (rule distinct_map_filter)

text \<open>Another member keeps the service: it has it or is to get it, and it is ready.\<close>

definition kept_elsewhere :: "hooks \<Rightarrow> placement_policy \<Rightarrow> cluster_db \<Rightarrow> string \<Rightarrow> bool" where
  "kept_elsewhere H policy d svc \<longleftrightarrow>
     (\<exists>k. keeper policy k \<and> hk_ready H svc k \<and> ((k, svc) \<in> set (db_services d) \<or> wants_control policy k))"

lemma candidate_iff:
  assumes wf: "wf_policy policy" and svc: "svc \<in> set controlServices"
    and o: "\<And>s x. on obs s x \<longleftrightarrow> s \<in> set controlServices \<and> (x, s) \<in> set (db_services d)"
    and a: "\<And>s x. on obs1 s x \<longleftrightarrow> on obs s x \<or> (s \<in> set controlServices \<and> x \<in> set (desiredControl policy))"
    and w1: "wf_cmap obs1"
  shows "removal_candidate policy obs1 svc m \<longleftrightarrow> removal_target policy m \<and> (m, svc) \<in> set (db_services d)"
    "removal_candidate policy obs1 svc m \<Longrightarrow>
       viable_keeper policy (controlServiceViability (hk_ready H) obs1 policy) svc = kept_elsewhere H policy d svc"
proof -
  have tgt: "removal_target policy m \<Longrightarrow> m \<in> set (keys (members_of policy)) \<and> \<not> wants_control policy m"
    by (auto simp: removal_target_def wants_control_def member_entry_def keys_def split: option.splits
        dest: map_of_SomeD intro: rev_image_eqI)
  show c: "removal_candidate policy obs1 svc m \<longleftrightarrow> removal_target policy m \<and> (m, svc) \<in> set (db_services d)"
    using tgt svc by (auto simp: removal_candidate_def a o wants_control_desired [OF wf])
  assume m: "removal_candidate policy obs1 svc m"
  then have "removal_target policy m" "on obs1 svc m" by (auto simp: removal_candidate_def)
  then have "has_removals obs1 policy"
    using observed_pairs_iff [OF w1, of svc m] svc by (auto simp: has_removals_def list_ex_iff)
  then have "keeper policy k \<and> on (controlServiceViability (hk_ready H) obs1 policy) svc k \<longleftrightarrow>
      keeper policy k \<and> hk_ready H svc k \<and> ((k, svc) \<in> set (db_services d) \<or> wants_control policy k)" for k
    using svc by (auto simp: viability_on [OF w1] keeper_iff a o wants_control_desired [OF wf])
  then show "viable_keeper policy (controlServiceViability (hk_ready H) obs1 policy) svc = kept_elsewhere H policy d svc"
    by (simp add: viable_keeper_def kept_elsewhere_def)
qed

lemma reconcile_exact:
  assumes ok: "never_fails H" and wf: "wf_policy policy" and "hk_server_cert H" "members_of policy \<noteq> []"
    and o: "getObservedControlServicesFunc (e_st w) = (Inr obs, st1)"
  defines "d \<equiv> dbs (e_st w)"
  shows "\<exists>r w' A R G. reconcilePlacement H policy w = (r, w') \<and> e_trace w' = e_trace w @ A @ R @ G \<and> list_all is_rgw G \<and>
    set A = {AddControl m svc |m svc. svc \<in> set controlServices \<and> wants_control policy m \<and> (m, svc) \<notin> set (db_services d)} \<and>
    set R = {RemoveControl m svc |m svc. svc \<in> set controlServices \<and> removal_target policy m \<and> (m, svc) \<in> set (db_services d) \<and>
               kept_elsewhere H policy d svc} \<and>
    (case r of
       None \<Rightarrow> \<forall>m svc. svc \<in> set controlServices \<and> removal_target policy m \<and> (m, svc) \<in> set (db_services d) \<longrightarrow> kept_elsewhere H policy d svc
     | Some e \<Rightarrow> errors_Is e ErrKeepOneInvariant \<and> \<not> errors_Is e ErrPlacementOperationFailed \<and>
         (\<exists>m svc. svc \<in> set controlServices \<and> removal_target policy m \<and> (m, svc) \<in> set (db_services d) \<and> \<not> kept_elsewhere H policy d svc))"
proof -
  have dc: "distinct controlServices" by (simp add: controlServices_def)
  have d: "dbs st1 = d" and wo: "wf_cmap obs" and oi: "\<And>s x. on obs s x \<longleftrightarrow> s \<in> set controlServices \<and> (x, s) \<in> set (db_services d)"
    using observed_Inr [OF o] by (auto simp: d_def)
  obtain obs1 w1 A where a: "add_services H (desiredControl policy) controlServices obs (w\<lparr>e_st := st1\<rparr>) = (Inr obs1, w1)"
      "e_trace w1 = e_trace w @ A"
      and A: "set A = {AddControl m svc |m svc. svc \<in> set controlServices \<and> m \<in> set (desiredControl policy) \<and> \<not> on obs svc m}"
    using add_services_exact [OF ok distinct_desired [OF wf] dc, of obs "w\<lparr>e_st := st1\<rparr>"] by auto
  have w1: "wf_cmap obs1" and ai: "\<And>s x. on obs1 s x \<longleftrightarrow> on obs s x \<or> (s \<in> set controlServices \<and> x \<in> set (desiredControl policy))"
    using add_services_obs [OF a(1)] wo by auto
  let ?via = "controlServiceViability (hk_ready H) obs1 policy"
  have vk: "\<And>svc k. on ?via svc k \<Longrightarrow> k \<in> set (keys (obs1 svc))" using viability_on [OF w1] on_keys by blast
  from remove_services_exact [where via = ?via and obs = obs1 and refused = "[]" and w = w1, OF ok wf dc vk] obtain obs2 via2 w2 T F where
    r: "remove_services H policy controlServices (obs1, ?via, []) w1 = (Inr (obs2, via2, map refusal_of F), w2)"
      "e_trace w2 = e_trace w1 @ map (\<lambda>(m, svc). RemoveControl m svc) T"
    and T: "set T = {(m, svc). svc \<in> set controlServices \<and> removal_candidate policy obs1 svc m \<and> viable_keeper policy ?via svc}"
    and F: "set F = {(m, svc). svc \<in> set controlServices \<and> removal_candidate policy obs1 svc m \<and> \<not> viable_keeper policy ?via svc}"
    by auto
  obtain w3 where g: "applyRgwPlacement H policy w2 = (None, w3)" using applyRgw_ok [OF ok] by blast
  from rgw_phase [OF g] obtain G where G: "e_trace w3 = e_trace w2 @ G" "list_all is_rgw G" by blast
  note cand = candidate_iff [OF wf _ oi ai w1]
  have T': "set T = {(m, svc). svc \<in> set controlServices \<and> removal_target policy m \<and> (m, svc) \<in> set (db_services d) \<and> kept_elsewhere H policy d svc}"
    unfolding T using cand by blast
  have F': "set F = {(m, svc). svc \<in> set controlServices \<and> removal_target policy m \<and> (m, svc) \<in> set (db_services d) \<and> \<not> kept_elsewhere H policy d svc}"
    unfolding F using cand by blast
  let ?r = "if F = [] then None else Some (err_wrap '''' (err_of ErrKeepOneInvariant) (refused_text (map refusal_of F)))"
  have run: "reconcilePlacement H policy w = (?r, w3)"
    unfolding reconcilePlacement_def using assms(3,4) o a(1) r(1) g by simp
  have adds: "set A = {AddControl m svc |m svc. svc \<in> set controlServices \<and> wants_control policy m \<and> (m, svc) \<notin> set (db_services d)}"
    unfolding A oi wants_control_desired [OF wf] by auto
  have rems: "set (map (\<lambda>(m, svc). RemoveControl m svc) T) = {RemoveControl m svc |m svc. svc \<in> set controlServices \<and>
      removal_target policy m \<and> (m, svc) \<in> set (db_services d) \<and> kept_elsewhere H policy d svc}"
    unfolding set_map T' by auto
  have outcome: "case ?r of None \<Rightarrow> \<forall>m svc. svc \<in> set controlServices \<and> removal_target policy m \<and> (m, svc) \<in> set (db_services d) \<longrightarrow> kept_elsewhere H policy d svc
     | Some e \<Rightarrow> errors_Is e ErrKeepOneInvariant \<and> \<not> errors_Is e ErrPlacementOperationFailed \<and>
         (\<exists>m svc. svc \<in> set controlServices \<and> removal_target policy m \<and> (m, svc) \<in> set (db_services d) \<and> \<not> kept_elsewhere H policy d svc)"
  proof (cases F)
    case Nil
    with F' show ?thesis by auto
  next
    case (Cons p ps)
    then have "p \<in> set F" by simp
    with F' Cons show ?thesis by (cases p) auto
  qed
  have trace: "e_trace w3 = e_trace w @ A @ map (\<lambda>(m, svc). RemoveControl m svc) T @ G" using a(2) r(2) G(1) by simp
  show ?thesis
    by (rule exI [of _ ?r], rule exI [of _ w3], rule exI [of _ A], rule exI [of _ "map (\<lambda>(m, svc). RemoveControl m svc) T"],
        rule exI [of _ G]) (intro conjI run trace G(2) adds rems outcome)
qed

end
