(* ===== verification/Placement_Apply.thy ===== *)
theory Placement_Apply
  imports Placement_Engine
begin

text \<open>
  Applying a policy from end to end: what normalization does to it, what is stored of it and read
  back, and the storage gate that OSD enrollment consults (\<^verbatim>\<open>checkStorageEligibility\<close> of
  \<^verbatim>\<open>ceph/osd.go\<close>). The lemmas show that a policy that cannot apply replaces nothing, that
  what is stored is the normalized policy without TLS material, and that the gate fails closed.
\<close>

section \<open>Normalization\<close>

definition norm_entry :: "tls_lib \<Rightarrow> member_placement \<Rightarrow> string + member_placement" where
  "norm_entry T mp =
     (case mp_Rgw mp of
        None \<Rightarrow> Inr mp
      | Some r \<Rightarrow> (case Normalized T r of Inl e \<Rightarrow> Inl e | Inr r' \<Rightarrow> Inr (mp\<lparr>mp_Rgw := Some r'\<rparr>)))"

lemma normalize_loop_step:
  "normalize_loop T policy (n # ns) out =
     (case member_entry policy n of
        None \<Rightarrow> normalize_loop T policy ns out
      | Some mp \<Rightarrow>
          (case norm_entry T mp of
             Inl e \<Rightarrow> Inl (err_wrap2 (err_of ErrRgwFrontendInvalid) ('': member '' @ n @ '': '') (err_new e) '''')
           | Inr mp' \<Rightarrow> normalize_loop T policy ns (if mp_Rgw mp = None then out else AList.update n mp' out)))"
  by (auto simp: norm_entry_def split: option.splits sum.splits)

lemma norm_entry_None [simp]: "mp_Rgw mp = None \<Longrightarrow> norm_entry T mp = Inr mp"
  by (simp add: norm_entry_def)

lemma normalize_loop_ok:
  "\<not> is_err (normalize_loop T policy ns out) \<longleftrightarrow>
     (\<forall>n \<in> set ns. \<forall>mp. member_entry policy n = Some mp \<longrightarrow> \<not> is_err (norm_entry T mp))"
proof (induction ns arbitrary: out)
  case (Cons x ns)
  show ?case unfolding normalize_loop_step
    by (cases "member_entry policy x"; cases "norm_entry T (the (member_entry policy x))") (simp_all add: Cons)
qed simp

lemma normalize_loop_entry:
  assumes "normalize_loop T policy ns out = Inr out'"
  shows "map_of out' n =
    (case member_entry policy n of
       None \<Rightarrow> map_of out n
     | Some mp \<Rightarrow> if n \<in> set ns \<and> mp_Rgw mp \<noteq> None then Some (projr (norm_entry T mp)) else map_of out n)"
  using assms
proof (induction ns arbitrary: out)
  case (Cons x ns)
  show ?case
  proof (cases "member_entry policy x")
    case None
    with Cons.prems have "normalize_loop T policy ns out = Inr out'" unfolding normalize_loop_step by simp
    from Cons.IH [OF this] None show ?thesis by (auto split: option.splits)
  next
    case (Some mp)
    with Cons.prems obtain mp' where m: "norm_entry T mp = Inr mp'"
        "normalize_loop T policy ns (if mp_Rgw mp = None then out else AList.update x mp' out) = Inr out'"
      unfolding normalize_loop_step by (cases "norm_entry T mp") auto
    from Cons.IH [OF m(2)] Some m(1) show ?thesis by (auto simp: update_conv' split: option.splits)
  qed
qed (simp split: option.splits)

lemma normalize_loop_distinct:
  "normalize_loop T policy ns out = Inr out' \<Longrightarrow> distinct (keys out) \<Longrightarrow> distinct (keys out')"
proof (induction ns arbitrary: out)
  case (Cons x ns)
  show ?case
  proof (cases "member_entry policy x")
    case None
    with Cons show ?thesis by simp
  next
    case (Some mp)
    with Cons.prems(1) obtain mp' where
        "normalize_loop T policy ns (if mp_Rgw mp = None then out else AList.update x mp' out) = Inr out'"
      unfolding normalize_loop_step by (cases "norm_entry T mp") auto
    from Cons.IH [OF this] Cons.prems(2) show ?thesis by (simp add: keys_def distinct_update split: if_splits)
  qed
qed simp

text \<open>The normalized policy: same members, each entry normalized.\<close>

lemma normalizePlacement_Inr:
  assumes "normalizePlacement H policy = Inr p'" "wf_policy policy"
  shows "wf_policy p'" "pp_Mode p' = pp_Mode policy"
    "member_entry p' n = map_option (\<lambda>mp. projr (norm_entry (hk_tls H) mp)) (member_entry policy n)"
    "member_entry policy n = Some mp \<Longrightarrow> \<not> is_err (norm_entry (hk_tls H) mp)"
proof -
  let ?ns = "loop_order (hk_sched H) 0 (keys (members_of policy))"
  from assms(1) obtain ms where ms: "normalize_loop (hk_tls H) policy ?ns (members_of policy) = Inr ms"
      "p' = policy\<lparr>pp_Members := map_option (\<lambda>_. ms) (pp_Members policy)\<rparr>"
    by (auto simp: normalizePlacement_def split: sum.splits)
  have m: "members_of p' = ms"
    using ms by (cases "pp_Members policy") (auto simp: members_of_def)
  show "pp_Mode p' = pp_Mode policy" using ms(2) by simp
  show "wf_policy p'" using normalize_loop_distinct [OF ms(1)] assms(2) by (simp add: wf_policy_def m)
  have k: "member_entry policy n = Some mp \<Longrightarrow> n \<in> set ?ns" for n mp
    by (force simp: member_entry_def keys_def dest: map_of_SomeD)
  show "member_entry p' n = map_option (\<lambda>mp. projr (norm_entry (hk_tls H) mp)) (member_entry policy n)"
    using normalize_loop_entry [OF ms(1), of n] k by (auto simp: member_entry_def m split: option.splits)
  show "member_entry policy n = Some mp \<Longrightarrow> \<not> is_err (norm_entry (hk_tls H) mp)"
    using normalize_loop_ok [of "hk_tls H" policy ?ns "members_of policy"] k ms(1) by (metis is_err.simps(2))
qed

lemma norm_entry_fields:
  assumes "\<not> is_err (norm_entry T mp)"
  defines "mp' \<equiv> projr (norm_entry T mp)"
  shows "mp_Control mp' = mp_Control mp" "mp_Nfs mp' = mp_Nfs mp" "mp_StorageEligible mp' = mp_StorageEligible mp"
    "mp_Rgw mp' = Some r' \<Longrightarrow> normal_rgw r' \<and> (\<exists>r. mp_Rgw mp = Some r \<and> Normalized T r = Inr r')"
  using assms Normalized_normal
  by (auto simp: norm_entry_def split: option.splits sum.splits)

lemma member_in_entry: "wf_policy p \<Longrightarrow> (n, mp) \<in> set (members_of p) \<longleftrightarrow> member_entry p n = Some mp"
  by (auto simp: wf_policy_def member_entry_def keys_def)

lemma normal_rgw_ports: "normal_rgw r \<Longrightarrow> int64 (rp_Port r) \<and> int64 (rp_SSLPort r)"
  by (auto simp: normal_rgw_def int64_def split: option.splits bool.splits)

definition normal_policy :: "placement_policy \<Rightarrow> bool" where
  "normal_policy p \<longleftrightarrow> wf_policy p \<and> (\<forall>(n, mp) \<in> set (members_of p). case mp_Rgw mp of None \<Rightarrow> True | Some r \<Rightarrow> normal_rgw r)"

lemma normalizePlacement_normal:
  assumes "normalizePlacement H policy = Inr p'" "wf_policy policy"
  shows "normal_policy p'"
proof -
  note n = normalizePlacement_Inr [OF assms]
  have "case mp_Rgw mp of None \<Rightarrow> True | Some r \<Rightarrow> normal_rgw r" if m: "(x, mp) \<in> set (members_of p')" for x mp
  proof (cases "mp_Rgw mp")
    case (Some r)
    from m n(1) have "member_entry p' x = Some mp" by (simp add: member_in_entry)
    with n(3) [of x] obtain mp0 where mp0: "member_entry policy x = Some mp0" "mp = projr (norm_entry (hk_tls H) mp0)"
      by (cases "member_entry policy x") auto
    from norm_entry_fields(4) [OF n(4) [OF mp0(1)], of r] mp0(2) Some show ?thesis by simp
  qed simp
  with n(1) show ?thesis by (auto simp: normal_policy_def)
qed

section \<open>What is stored\<close>

definition no_secrets :: "placement_policy \<Rightarrow> bool" where
  "no_secrets p \<longleftrightarrow> (\<forall>(n, mp) \<in> set (members_of p). case mp_Rgw mp of None \<Rightarrow> True
     | Some r \<Rightarrow> rp_SSLCertificate r = '''' \<and> rp_SSLPrivateKey r = '''')"

lemma members_of_storage: "members_of (policyForStorage p) = map (\<lambda>(n, mp). (n, strip_secrets mp)) (members_of p)"
  by (cases "pp_Members p") (simp_all add: policyForStorage_def members_of_def)

lemma member_entry_storage: "member_entry (policyForStorage p) n = map_option strip_secrets (member_entry p n)"
  unfolding member_entry_def members_of_storage by (simp add: map_of_map)

lemma policyForStorage_no_secrets: "no_secrets (policyForStorage p)"
  unfolding no_secrets_def members_of_storage by (auto simp: strip_secrets_def split: option.splits)

lemma wf_policyForStorage: "wf_policy (policyForStorage p) = wf_policy p"
proof -
  have "keys (members_of (policyForStorage p)) = keys (members_of p)"
    unfolding members_of_storage keys_def by (simp add: comp_def case_prod_beta)
  then show ?thesis by (simp add: wf_policy_def)
qed

text \<open>A stored document: the encoding of a policy with valid ports and no TLS material.\<close>

definition stored_ok :: "json \<Rightarrow> bool" where
  "stored_ok j \<longleftrightarrow> (\<exists>p. j = enc_policy p \<and> wf_policy p \<and> no_secrets p \<and> (\<forall>(n, mp) \<in> set (members_of p). wf_ports mp))"

lemma normal_stored_ok:
  assumes "normal_policy p"
  shows "stored_ok (placementPolicyJSON p)"
proof -
  have "wf_ports (strip_secrets mp)" if "(n, mp) \<in> set (members_of p)" for n mp
    using that assms normal_rgw_ports
    by (fastforce simp: normal_policy_def wf_ports_def strip_secrets_def split: option.splits)
  then have "\<forall>(n, mp) \<in> set (members_of (policyForStorage p)). wf_ports mp" unfolding members_of_storage by auto
  with assms show ?thesis
    unfolding stored_ok_def placementPolicyJSON_def
    by (auto simp: normal_policy_def wf_policyForStorage policyForStorage_no_secrets)
qed

lemma stored_reads_back:
  assumes "normal_policy p"
  shows "dec_policy G strict (placementPolicyJSON p) = Some (sorted_policy (policyForStorage p))"
proof -
  have "wf_ports (strip_secrets mp)" if "(n, mp) \<in> set (members_of p)" for n mp
    using that assms normal_rgw_ports
    by (fastforce simp: normal_policy_def wf_ports_def strip_secrets_def split: option.splits)
  then have "\<forall>(n, mp) \<in> set (members_of (policyForStorage p)). wf_ports mp" unfolding members_of_storage by auto
  with assms show ?thesis
    unfolding placementPolicyJSON_def by (intro dec_enc_policy) (simp_all add: normal_policy_def wf_policyForStorage)
qed

section \<open>The storage gate\<close>

definition unmarshal_error :: string where
  "unmarshal_error = ''failed to unmarshal placement policy: json: cannot unmarshal''"

text \<open>\<open>has_state\<close> is whether the manager has a cluster state at all.\<close>

definition checkStorageEligibility :: "go_lib \<Rightarrow> bool \<Rightarrow> string \<Rightarrow> dbst \<Rightarrow> go_error option \<times> dbst" where
  "checkStorageEligibility G has_state localName st =
     (if \<not> has_state then (None, st)
      else case Transaction GetPlacementPolicy st of
        (Inl e, st1) \<Rightarrow> (Some (err_wrap ''failed to retrieve placement policy: '' e ''''), st1)
      | (Inr rec, st1) \<Rightarrow>
          if \<not> rec_Active rec then (None, st1)
          else case rec_PolicyJSON rec of
            None \<Rightarrow> (Some (err_new ''role-management is enabled but no placement policy is installed''), st1)
          | Some j \<Rightarrow>
              (case dec_policy G False j of
                 None \<Rightarrow> (Some (err_new unmarshal_error), st1)
               | Some policy \<Rightarrow>
                   (case member_entry policy localName of
                      None \<Rightarrow> (Some (err_new (''Cannot enroll OSD: member '' @ quoted localName @ '' is not present in the active policy'')), st1)
                    | Some mp \<Rightarrow>
                        if mp_StorageEligible mp = None \<or> mp_StorageEligible mp = Some False
                        then (Some (err_new (''Cannot enroll OSD: member '' @ quoted localName @ '' does not have the '' @
                                [CHR 0x27] @ ''storage'' @ [CHR 0x27] @ '' role assigned'')), st1)
                        else (None, st1))))"

lemma Transaction_policy_Inr:
  assumes "Transaction GetPlacementPolicy st = (Inr rec, st')"
  shows "dbs st' = dbs st" "\<exists>r. db_policy (dbs st) = Some r \<and> rec_Active rec = (pr_active r \<noteq> 0) \<and> rec_PolicyJSON rec = pr_policy_json r"
proof -
  from assms obtain st1 st2 where t: "GetPlacementPolicy st1 = (Inr rec, st2)" "dbs st1 = dbs st" "dbs st2 = dbs st'"
    by (auto elim: Transaction_Inr)
  from GetPlacementPolicy_Inr [OF t(1)] t(2,3)
  show "dbs st' = dbs st" "\<exists>r. db_policy (dbs st) = Some r \<and> rec_Active rec = (pr_active r \<noteq> 0) \<and> rec_PolicyJSON rec = pr_policy_json r"
    by auto
qed

lemma gate_closed:
  assumes "checkStorageEligibility G True m st = (None, st')"
  shows "\<exists>r. db_policy (dbs st) = Some r \<and>
    (pr_active r = 0 \<or> (\<exists>j p mp. pr_policy_json r = Some j \<and> dec_policy G False j = Some p \<and>
       member_entry p m = Some mp \<and> mp_StorageEligible mp = Some True))"
proof -
  from assms obtain rec st1 where t: "Transaction GetPlacementPolicy st = (Inr rec, st1)"
    by (auto simp: checkStorageEligibility_def split: prod.splits sum.splits)
  from Transaction_policy_Inr(2) [OF t] obtain r where
    r: "db_policy (dbs st) = Some r" "rec_Active rec = (pr_active r \<noteq> 0)" "rec_PolicyJSON rec = pr_policy_json r" by blast
  show ?thesis
  proof (cases "pr_active r = 0")
    case True
    with r show ?thesis by simp
  next
    case False
    with assms t r obtain j p mp where "pr_policy_json r = Some j" "dec_policy G False j = Some p" "member_entry p m = Some mp"
        "\<not> (mp_StorageEligible mp = None \<or> mp_StorageEligible mp = Some False)"
      by (auto simp: checkStorageEligibility_def split: option.splits if_splits)
    with r show ?thesis using bool_opt_cases [of "mp_StorageEligible mp"] by auto
  qed
qed

section \<open>Facts every dispatch keeps\<close>

definition preserved :: "hooks \<Rightarrow> (cluster_db \<Rightarrow> bool) \<Rightarrow> bool" where
  "preserved H Q \<longleftrightarrow> (\<forall>op h st. Q (dbs st) \<longrightarrow> Q (dbs (snd (hk_dispatch H op h st))))"

abbreviation holds :: "(cluster_db \<Rightarrow> bool) \<Rightarrow> engine \<Rightarrow> bool" where
  "holds Q w \<equiv> Q (dbs (e_st w))"

lemma call_preserved: "preserved H Q \<Longrightarrow> call H op w = (r, w') \<Longrightarrow> holds Q w \<Longrightarrow> holds Q w'"
  by (auto simp: preserved_def call_def split: prod.splits) (metis snd_conv)

lemma add_members_preserved:
  assumes "preserved H Q" "add_members H svc ms obs w = (r, w')" "holds Q w"
  shows "holds Q w'"
  using assms(2,3)
proof (induction ms arbitrary: obs w)
  case (Cons m ms)
  obtain q w1 where q: "call H (AddControl m svc) w = (q, w1)" by (rule prod.exhaust)
  have "holds Q w1" using call_preserved [OF assms(1) q Cons.prems(2)] .
  with Cons q show ?case by (cases "on obs svc m"; cases q) auto
qed simp

lemma add_services_preserved:
  assumes "preserved H Q" "add_services H desired svcs obs w = (r, w')" "holds Q w"
  shows "holds Q w'"
  using assms(2,3)
proof (induction svcs arbitrary: obs w)
  case (Cons svc svcs)
  obtain q w1 where q: "add_members H svc (loop_order (hk_sched H) (10 + length svcs) desired) obs w = (q, w1)" by (rule prod.exhaust)
  have "holds Q w1" using add_members_preserved [OF assms(1) q Cons.prems(2)] .
  with Cons q show ?case by (cases q) auto
qed simp

lemma remove_members_preserved:
  assumes "preserved H Q" "remove_members H policy svc ms s w = (r, w')" "holds Q w"
  shows "holds Q w'"
  using assms(2,3)
proof (induction ms arbitrary: s w)
  case (Cons m ms)
  obtain obs via refused where s: "s = (obs, via, refused)" by (cases s) auto
  obtain q w1 where q: "call H (RemoveControl m svc) w = (q, w1)" by (rule prod.exhaust)
  have h: "holds Q w1" using call_preserved [OF assms(1) q Cons.prems(2)] .
  show ?case
  proof (cases "\<not> removal_target policy m \<or> \<not> on obs svc m \<or> retainers policy obs via svc m = 0")
    case True
    with Cons.prems(1) s obtain s1 where "remove_members H policy svc ms s1 w = (r, w')" by (auto split: if_splits)
    from Cons.IH [OF this Cons.prems(2)] show ?thesis .
  next
    case False
    with Cons q s h show ?thesis by (cases q) auto
  qed
qed simp

lemma remove_services_preserved:
  assumes "preserved H Q" "remove_services H policy svcs s w = (r, w')" "holds Q w"
  shows "holds Q w'"
  using assms(2,3)
proof (induction svcs arbitrary: s w)
  case (Cons svc svcs)
  obtain q w1 where q: "remove_members H policy svc (loop_order (hk_sched H) (20 + length svcs) (keys (members_of policy))) s w = (q, w1)"
    by (rule prod.exhaust)
  have "holds Q w1" using remove_members_preserved [OF assms(1) q Cons.prems(2)] .
  with Cons q show ?case by (cases q) auto
qed simp

lemma rgw_loop_preserved:
  assumes "preserved H Q" "rgw_loop H action op ms acc w = (acc', w')" "holds Q w"
  shows "holds Q w'"
  using assms(2,3)
proof (induction ms arbitrary: acc w)
  case (Cons x xs)
  obtain f b where acc: "acc = (f, b)" by (rule prod.exhaust)
  obtain q w1 where q: "call H (op x) w = (q, w1)" by (rule prod.exhaust)
  have h: "holds Q w1" using call_preserved [OF assms(1) q Cons.prems(2)] .
  from Cons.prems(1) acc q obtain acc1 where "rgw_loop H action op xs acc1 w1 = (acc', w')"
    by (cases q) (auto split: prod.splits)
  from Cons.IH [OF this h] show ?case .
qed simp

lemma applyRgw_preserved:
  assumes "preserved H Q" "applyRgwPlacement H policy w = (r, w')" "holds Q w"
  shows "holds Q w'"
  using assms(2)
proof (cases rule: applyRgw_loops)
  case (both acc w1 acc')
  from rgw_loop_preserved [OF assms(1) both(2)] rgw_loop_preserved [OF assms(1) both(1) assms(3)] show ?thesis by blast
qed (use assms rgw_loop_preserved in blast)+

lemma reconcile_preserved:
  assumes "preserved H Q" "reconcilePlacement H policy w = (r, w')" "holds Q w"
  shows "holds Q w'"
  using assms(2)
proof (cases rule: reconcile_phases)
  case idle
  with assms(3) show ?thesis by auto
next
  case (adds obs st1 e)
  have "holds Q (w\<lparr>e_st := st1\<rparr>)" using observed_Inr(1) [OF adds(1)] assms(3) by simp
  with add_services_preserved [OF assms(1) adds(2)] show ?thesis by blast
next
  case (removes obs st1 obs1 w1 e)
  have "holds Q (w\<lparr>e_st := st1\<rparr>)" using observed_Inr(1) [OF removes(1)] assms(3) by simp
  with add_services_preserved [OF assms(1) removes(2)] remove_services_preserved [OF assms(1) removes(3)] show ?thesis by blast
next
  case (all obs st1 obs1 w1 obs2 via2 refused w2 rgw)
  have "holds Q (w\<lparr>e_st := st1\<rparr>)" using observed_Inr(1) [OF all(1)] assms(3) by simp
  with add_services_preserved [OF assms(1) all(2)] remove_services_preserved [OF assms(1) all(3)]
    applyRgw_preserved [OF assms(1) all(4)] show ?thesis by blast
qed

section \<open>Applying a policy\<close>

text \<open>The part of the policy row that states the desired placement.\<close>

definition policy_core :: "cluster_db \<Rightarrow> (int \<times> json option) option" where
  "policy_core d = map_option (\<lambda>r. (pr_active r, pr_policy_json r)) (db_policy d)"

lemma Transaction_keeps:
  assumes "\<And>st v st'. f st = (Inr v, st') \<Longrightarrow> P (dbs st) \<Longrightarrow> P (dbs st')" "P (dbs st)"
  shows "P (dbs (snd (Transaction f st)))"
proof -
  obtain r st' where r: "Transaction f st = (r, st')" by (rule prod.exhaust)
  show ?thesis
  proof (cases r)
    case (Inl e)
    with r Transaction_Inl [of f st e st'] assms(2) show ?thesis by simp
  next
    case (Inr v)
    with r obtain st1 st2 where "f st1 = (Inr v, st2)" "dbs st1 = dbs st" "dbs st2 = dbs st'" by (auto elim: Transaction_Inr)
    with assms r show ?thesis by (metis snd_conv)
  qed
qed

lemma refusal_keeps_core: "policy_core (dbs (snd (setPlacementRefusal m st))) = policy_core (dbs st)"
  unfolding setPlacementRefusal_def
  by (rule Transaction_keeps [where P = "\<lambda>d. policy_core d = policy_core (dbs st)"])
    (auto simp: policy_core_def dest!: SetPlacementRefusal_Inr)

lemma bootstrapped_check_keeps: "dbs (snd (cephIsBootstrappedFunc st)) = dbs st"
proof -
  have c: "dbs (snd (cephBootstrappedFromConfigFunc st)) = dbs st" for st
    unfolding cephBootstrappedFromConfigFunc_def
    by (rule Transaction_keeps [where P = "\<lambda>d. d = dbs st"]) (auto dest!: configIndicatesBootstrapped_Inr)
  have l: "dbs (snd (getClusterLifecycleFunc st)) = dbs st"
    unfolding getClusterLifecycleFunc_def
    by (rule Transaction_keeps [where P = "\<lambda>d. d = dbs st"]) (auto dest!: GetClusterLifecycle_Inr)
  show ?thesis using l c by (auto simp: cephIsBootstrappedFunc_def split: prod.splits sum.splits)
qed

lemma validate_keeps: "dbs (snd (ValidatePlacement H policy st)) = dbs st"
  using bootstrapped_check_keeps [of st]
  by (auto simp: ValidatePlacement_def split: prod.splits sum.splits list.splits)

lemma store_cases:
  assumes "storePlacementPolicy p st = (r, st')"
  shows "(is_err r \<and> dbs st' = dbs st) \<or> (\<not> is_err r \<and> policy_core (dbs st') = Some (1, Some (placementPolicyJSON p)))"
proof (cases r)
  case (Inl e)
  with assms show ?thesis unfolding storePlacementPolicy_def by (auto dest: Transaction_Inl)
next
  case (Inr v)
  with assms obtain st1 st2 where "SetPlacementPolicy True (placementPolicyJSON p) st1 = (Inr v, st2)" "dbs st2 = dbs st'"
    unfolding storePlacementPolicy_def by (auto elim: Transaction_Inr)
  with SetPlacementPolicy_Inr [of True "placementPolicyJSON p" st1 v st2] Inr show ?thesis by (auto simp: policy_core_def)
qed

lemma refuse_core: "refuse e w = (r, w') \<Longrightarrow> policy_core (dbs (e_st w')) = policy_core (dbs (e_st w)) \<and> e_trace w' = e_trace w \<and> r = Some e"
  using refusal_keeps_core by (auto simp: refuse_def recordPlacementRefusal_def)

lemma apply_core:
  assumes keep: "\<And>c. preserved H (\<lambda>d. policy_core d = c)" and run: "ApplyPlacementPolicy H policy w = (r, w')"
  shows "(r \<noteq> None \<and> e_trace w' = e_trace w \<and> policy_core (dbs (e_st w')) = policy_core (dbs (e_st w))) \<or>
    (\<exists>n. normalizePlacement H policy = Inr n \<and> policy_core (dbs (e_st w')) = Some (1, Some (placementPolicyJSON n)))"
proof (cases "normalizePlacement H policy")
  case (Inl e)
  with run refuse_core show ?thesis by (fastforce simp: ApplyPlacementPolicy_def)
next
  case (Inr n)
  obtain v st1 where v: "ValidatePlacement H n (e_st w) = (v, st1)" by (rule prod.exhaust)
  then have d1: "dbs st1 = dbs (e_st w)" using validate_keeps [of H n "e_st w"] by simp
  show ?thesis
  proof (cases v)
    case (Some e)
    with run Inr v have "refuse e (w\<lparr>e_st := st1\<rparr>) = (r, w')" by (simp add: ApplyPlacementPolicy_def)
    from refuse_core [OF this] d1 show ?thesis by simp
  next
    case None
    obtain s st2 where s: "storePlacementPolicy n st1 = (s, st2)" by (rule prod.exhaust)
    show ?thesis
    proof (cases s)
      case (Inl e)
      with run Inr v None s have "refuse e (w\<lparr>e_st := st2\<rparr>) = (r, w')" by (simp add: ApplyPlacementPolicy_def)
      from refuse_core [OF this] store_cases [OF s] Inl d1 show ?thesis by auto
    next
      case (Inr u)
      obtain c w3 where c: "reconcilePlacement H n (w\<lparr>e_st := st2\<rparr>) = (c, w3)" by (rule prod.exhaust)
      have "policy_core (dbs st2) = Some (1, Some (placementPolicyJSON n))" using store_cases [OF s] Inr by simp
      then have p3: "policy_core (dbs (e_st w3)) = Some (1, Some (placementPolicyJSON n))"
        using reconcile_preserved [OF keep c] by simp
      have "policy_core (dbs (e_st w')) = policy_core (dbs (e_st w3))"
      proof (cases c)
        case None
        with run \<open>normalizePlacement H policy = Inr n\<close> v \<open>v = None\<close> s Inr c show ?thesis
          using refusal_keeps_core by (auto simp: ApplyPlacementPolicy_def)
      next
        case (Some e)
        with run \<open>normalizePlacement H policy = Inr n\<close> v \<open>v = None\<close> s Inr c have "refuse e w3 = (r, w')"
          by (simp add: ApplyPlacementPolicy_def)
        from refuse_core [OF this] show ?thesis by simp
      qed
      with p3 \<open>normalizePlacement H policy = Inr n\<close> show ?thesis by auto
    qed
  qed
qed

end
