(* ===== verification/Service_Placement.thy ===== *)
theory Service_Placement
  imports Control_Removal Placement_Apply
begin

text \<open>
  Placing and deleting a service on a member (\<^verbatim>\<open>ceph/services_placement.go\<close>,
  \<^verbatim>\<open>services_placement_generic.go\<close>, \<^verbatim>\<open>service_placement_mon.go\<close>,
  \<^verbatim>\<open>service_placement_client.go\<close>, \<^verbatim>\<open>services_placement_rgw.go\<close> and
  \<^verbatim>\<open>services.go\<close>), the endpoints that serve them (\<^verbatim>\<open>api/services.go\<close>), and
  the dispatch the placement engine uses in production (\<^verbatim>\<open>client/services.go\<close>,
  \<^verbatim>\<open>cmd/microcephd/prod_wiring.go\<close>).

  The operations on one member are serialized by a mutex, so each is one procedure. Work on files
  and on the gateway's configuration is a phase of the environment; the database work is modelled
  statement by statement.
\<close>

section \<open>The placement interface\<close>

text \<open>What a placement object carries from one call to the next.\<close>

record rgw_service =
  sp_Port :: int
  sp_SSLPort :: int
  sp_SSL :: "bool option"
  sp_SSLCertificate :: string
  sp_SSLPrivateKey :: string
  sp_effPort :: int
  sp_effSSLPort :: int
  sp_certPEM :: "string option"
  sp_keyPEM :: "string option"

record nfs_service =
  ns_ClusterID :: string
  ns_V4MinVersion :: int
  ns_BindAddress :: string
  ns_BindPort :: int

datatype params = NoParams | RgwParams rgw_service | NfsParams nfs_service

record placement_intf =
  PopulateParams :: "host_env \<Rightarrow> json option \<Rightarrow> go_error + params"
  HospitalityCheck :: "host_env \<Rightarrow> params \<Rightarrow> proc"
  ServiceInit :: "host_env \<Rightarrow> params \<Rightarrow> proc"
  PostPlacementCheck :: "host_env \<Rightarrow> params \<Rightarrow> proc"
  DbUpdate :: "host_env \<Rightarrow> params \<Rightarrow> proc"

text \<open>A database procedure of a member.\<close>

definition on_db :: "unit tx \<Rightarrow> proc" where
  "on_db t s = (case t (hs_db s) of (Inl e, st) \<Rightarrow> (Some e, s\<lparr>hs_db := st\<rparr>) | (Inr _, st) \<Rightarrow> (None, s\<lparr>hs_db := st\<rparr>))"

section \<open>The generic placement\<close>

definition genericHospitalityCheck :: "host_env \<Rightarrow> string \<Rightarrow> proc" where
  "genericHospitalityCheck E service s =
     (case act E (SnapCheckActive service) s of
        (None, s1) \<Rightarrow> (Some (err_new (service @ '' service already active on host'')), s1)
      | (Some _, s1) \<Rightarrow> (None, s1))"

definition keyringServices :: "string list" where
  "keyringServices = [''mon'', ''mgr'', ''mds'', ''rbd-mirror'', ''cephfs-mirror'']"

definition dataPath :: "host_env \<Rightarrow> string \<Rightarrow> string" where
  "dataPath E name = ''data/'' @ name @ ''/ceph-'' @ he_Name E"

definition genericServiceInit :: "host_env \<Rightarrow> string \<Rightarrow> proc" where
  "genericServiceInit E name s =
     (if name \<notin> set keyringServices then (Some (err_new (name @ '' is not registered in the generic implementation'')), s)
      else run_then (\<lambda>e. err_wrap (''failed to add datapath '' @ dataPath E name @ '' for service '' @ name @ '': '') e '''')
             (act E (MakeDataDir name))
           (run_then (\<lambda>e. err_wrap (''failed to add service '' @ name @ '': '') e '''') (act E (MakeKeyring name))
           (run_then (\<lambda>e. err_wrap (''failed to perform snap start for service '' @ name @ '': '') e '''') (act E (SnapStart name))
           (\<lambda>s. (None, s)))) s)"

fun stay_up :: "host_env \<Rightarrow> string \<Rightarrow> nat \<Rightarrow> proc" where
  "stay_up E service 0 s = (None, s)"
| "stay_up E service (Suc attempts) s =
     (case act E (SnapCheckActive service) s of
        (Some e, s1) \<Rightarrow> (Some e, s1)
      | (None, s1) \<Rightarrow> stay_up E service attempts s1)"

definition genericPostPlacementCheck :: "host_env \<Rightarrow> string \<Rightarrow> proc" where
  "genericPostPlacementCheck E service = stay_up E service 4"

definition record_role :: "string \<Rightarrow> string \<Rightarrow> unit tx" where
  "record_role member service = tx_wrap ''failed to record role: '' (CreateService member service)"

definition genericDbUpdate :: "host_env \<Rightarrow> string \<Rightarrow> proc" where
  "genericDbUpdate E service = on_db (Transaction (record_role (he_Name E) service))"

definition GenericServicePlacement :: "string \<Rightarrow> placement_intf" where
  "GenericServicePlacement name =
     \<lparr>PopulateParams = (\<lambda>E payload. Inr NoParams),
      HospitalityCheck = (\<lambda>E p. genericHospitalityCheck E name),
      ServiceInit = (\<lambda>E p. genericServiceInit E name),
      PostPlacementCheck = (\<lambda>E p. genericPostPlacementCheck E name),
      DbUpdate = (\<lambda>E p. genericDbUpdate E name)\<rparr>"

section \<open>Client-like services\<close>

definition clientServiceInit :: "host_env \<Rightarrow> string \<Rightarrow> proc" where
  "clientServiceInit E name s =
     (if name \<notin> set keyringServices then (Some (err_new (name @ '' is not registered in the generic implementation'')), s)
      else run_then (\<lambda>e. err_wrap (''failed to add datapath '' @ dataPath E name @ '' for service '' @ name @ '': '') e '''')
             (act E (MakeDataDir name))
           (run_then (\<lambda>e. err_wrap (''failed to add service '' @ name @ '': '') e '''') (act E (MakeKeyring name))
           (run_then (\<lambda>e. err_wrap ''failed to create symlink to RGW keyring: '' e '''') (act E (LinkKeyring name))
           (run_then (\<lambda>e. err_wrap (''failed to perform snap start for service '' @ name @ '': '') e '''') (act E (SnapStart name))
           (\<lambda>s. (None, s))))) s)"

definition ClientServicePlacement :: "string \<Rightarrow> placement_intf" where
  "ClientServicePlacement name =
     \<lparr>PopulateParams = (\<lambda>E payload. Inr NoParams),
      HospitalityCheck = (\<lambda>E p. genericHospitalityCheck E name),
      ServiceInit = (\<lambda>E p. clientServiceInit E name),
      PostPlacementCheck = (\<lambda>E p. genericPostPlacementCheck E name),
      DbUpdate = (\<lambda>E p. genericDbUpdate E name)\<rparr>"

section \<open>Monitors\<close>

text \<open>Recording the monitor's address. Reading the messenger mode of the configuration file and finding
  the address are effects outside the database that happen inside the transaction.\<close>

definition updateDbForMon :: "host_env \<Rightarrow> phase list \<Rightarrow> unit tx" where
  "updateDbForMon E log st =
     (case he_fail E log ReadMessengerMode of
        Some e \<Rightarrow> (Inl e, st)
      | None \<Rightarrow>
          tx_bind (GetConfigItem ''public_network'') (\<lambda>network st1.
            let log1 = log @ [ReadMessengerMode] in
            case he_fail E log1 (FindIpOnSubnet network) of
              Some e \<Rightarrow> (Inl (err_wrap (''failed to locate ip on subnet '' @ network @ '': '') e ''''), st1)
            | None \<Rightarrow>
                (let ip = he_text E log1 (FindIpOnSubnet network);
                     monHost = (if he_flag E log ReadMessengerMode then ''v2:'' @ ip @ '':3300'' else ip)
                 in tx_wrap ''failed to record mon host: '' (UpsertConfigItem (''mon.host.'' @ he_Name E) monHost) st1)) st)"

definition mon_DbUpdate :: "host_env \<Rightarrow> string \<Rightarrow> proc" where
  "mon_DbUpdate E name s =
     on_db (Transaction (tx_bind (record_role (he_Name E) name) (\<lambda>_.
       tx_wrap ''failed to record mon host: '' (updateDbForMon E (hs_log s))))) s"

definition MonServicePlacement :: "string \<Rightarrow> placement_intf" where
  "MonServicePlacement name =
     \<lparr>PopulateParams = (\<lambda>E payload. Inr NoParams),
      HospitalityCheck = (\<lambda>E p. genericHospitalityCheck E name),
      ServiceInit = (\<lambda>E p. genericServiceInit E name),
      PostPlacementCheck = (\<lambda>E p. genericPostPlacementCheck E name),
      DbUpdate = (\<lambda>E p. mon_DbUpdate E name)\<rparr>"

section \<open>The gateway\<close>

definition rgw_service_zero :: rgw_service where
  "rgw_service_zero = \<lparr>sp_Port = 0, sp_SSLPort = 0, sp_SSL = None, sp_SSLCertificate = '''', sp_SSLPrivateKey = '''',
     sp_effPort = 0, sp_effSSLPort = 0, sp_certPEM = None, sp_keyPEM = None\<rparr>"

definition rgw_service_field :: "go_lib \<Rightarrow> string \<Rightarrow> json \<Rightarrow> rgw_service \<Rightarrow> rgw_service option option" where
  "rgw_service_field G k v r =
     (if equal_fold G k ''Port'' then Some (map_option (\<lambda>i. r\<lparr>sp_Port := i\<rparr>) (dec_int (sp_Port r) v))
      else if equal_fold G k ''SSLPort'' then Some (map_option (\<lambda>i. r\<lparr>sp_SSLPort := i\<rparr>) (dec_int (sp_SSLPort r) v))
      else if equal_fold G k ''SSL'' then Some (map_option (\<lambda>b. r\<lparr>sp_SSL := b\<rparr>) (dec_bool_ptr v))
      else if equal_fold G k ''SSLCertificate''
      then Some (map_option (\<lambda>t. r\<lparr>sp_SSLCertificate := t\<rparr>) (dec_string (sp_SSLCertificate r) v))
      else if equal_fold G k ''SSLPrivateKey''
      then Some (map_option (\<lambda>t. r\<lparr>sp_SSLPrivateKey := t\<rparr>) (dec_string (sp_SSLPrivateKey r) v))
      else None)"

definition rgw_invalid :: "string \<Rightarrow> go_error" where
  "rgw_invalid detail = err_wrap '''' (err_of ErrRgwFrontendInvalid) ('': '' @ detail)"

text \<open>The settings that validation turns a decoded request into.\<close>

definition rgw_effective :: "tls_lib \<Rightarrow> rgw_service \<Rightarrow> go_error + rgw_service" where
  "rgw_effective T r0 =
     (let ssl = (case sp_SSL r0 of Some b \<Rightarrow> b | None \<Rightarrow> sp_SSLCertificate r0 \<noteq> '''' \<or> sp_SSLPrivateKey r0 \<noteq> '''');
          r = r0\<lparr>sp_SSL := Some ssl\<rparr>
      in
      case Normalized T \<lparr>rp_Enabled = Some True, rp_SSL = sp_SSL r, rp_Port = sp_Port r, rp_SSLPort = sp_SSLPort r,
                         rp_SSLCertificate = sp_SSLCertificate r, rp_SSLPrivateKey = sp_SSLPrivateKey r\<rparr> of
        Inl e \<Rightarrow> Inl (rgw_invalid e)
      | Inr normalized \<Rightarrow>
          (let r1 = r\<lparr>sp_effPort := rp_Port normalized, sp_effSSLPort := rp_SSLPort normalized\<rparr> in
           if sp_SSLCertificate r1 \<noteq> ''''
           then (case DecodeRGWCertificate T (sp_SSLCertificate r1) (sp_SSLPrivateKey r1) of
                   Inl e \<Rightarrow> Inl (rgw_invalid e)
                 | Inr (cert, key) \<Rightarrow> Inr (r1\<lparr>sp_certPEM := Some cert, sp_keyPEM := Some key\<rparr>))
           else Inr r1))"

definition rgw_PopulateParams :: "host_env \<Rightarrow> json option \<Rightarrow> go_error + params" where
  "rgw_PopulateParams E payload =
     (case payload of
        Some (JObj (kv # kvs)) \<Rightarrow>
          (case dec_struct False (rgw_service_field (he_lib E)) rgw_service_zero (JObj (kv # kvs)) of
             None \<Rightarrow> Inl (rgw_invalid ''json: cannot unmarshal'')
           | Some r \<Rightarrow> (case rgw_effective (he_tls E) r of Inl e \<Rightarrow> Inl e | Inr r1 \<Rightarrow> Inr (RgwParams r1)))
      | _ \<Rightarrow> Inl (rgw_invalid ''rgw payload must be a JSON object with at least one field''))"

definition rgw_of :: "params \<Rightarrow> rgw_service" where
  "rgw_of p = (case p of RgwParams r \<Rightarrow> r | _ \<Rightarrow> rgw_service_zero)"

definition done_with :: proc where
  "done_with s = (None, s)"

definition rgw_ServiceInit :: "host_env \<Rightarrow> rgw_service \<Rightarrow> proc" where
  "rgw_ServiceInit E r =
     (let publish = (\<lambda>cert key. run_then id (act E (RgwPublish (sp_effPort r) (sp_effSSLPort r) (sp_SSL r = Some True) cert key)) done_with)
      in
      run_then id (act E MonitorAddresses)
      (run_then id (act E RgwRecoverPending)
      (if sp_SSL r = Some True \<and> sp_certPEM r = None
       then (\<lambda>s. run_then id (act E RgwReuseTLS)
              (case he_tls_pair E (hs_log s) of (cert, key) \<Rightarrow> publish (Some cert) (Some key)) s)
       else publish (sp_certPEM r) (sp_keyPEM r))))"

definition err_join :: "go_error \<Rightarrow> go_error option \<Rightarrow> go_error" where
  "err_join e f = (case f of None \<Rightarrow> e | Some g \<Rightarrow> err_wrap2 e [CHR 0x0A] g '''')"

text \<open>Failing after publication: the previous frontend is restored first.\<close>

definition rgw_undo :: "host_env \<Rightarrow> string \<Rightarrow> go_error \<Rightarrow> proc" where
  "rgw_undo E what e s =
     (case act E RgwRestore s of (rb, s1) \<Rightarrow>
        (Some (err_wrap2 (err_of ErrPlacementOperationFailed) ('': '' @ what @ '': '') (err_join e rb) ''''), s1))"

definition rgw_PostPlacementCheck :: "host_env \<Rightarrow> proc" where
  "rgw_PostPlacementCheck E s =
     (case act E RgwCheckActive s of
        (None, s1) \<Rightarrow> (None, s1)
      | (Some e, s1) \<Rightarrow> rgw_undo E ''RGW did not stay active'' e s1)"

definition tx_tolerate :: "nat \<Rightarrow> unit tx \<Rightarrow> unit tx" where
  "tx_tolerate code f st =
     (case f st of (Inl e, st1) \<Rightarrow> if StatusErrorCheck e code then (Inr (), st1) else (Inl e, st1) | (Inr u, st1) \<Rightarrow> (Inr u, st1))"

definition record_rgw :: "string \<Rightarrow> rgw_service \<Rightarrow> unit tx" where
  "record_rgw member r =
     tx_bind (tx_wrap ''failed to record rgw service: '' (tx_tolerate 409 (CreateService member ''rgw''))) (\<lambda>_.
       tx_wrap ''failed to record rgw frontend: '' (UpsertRGWFrontend member (sp_effPort r) (sp_effSSLPort r) (sp_SSL r = Some True)))"

definition rgw_DbUpdate :: "host_env \<Rightarrow> rgw_service \<Rightarrow> proc" where
  "rgw_DbUpdate E r s =
     (if \<not> he_ServerCert E then rgw_undo E ''no server certificate'' (err_new ''member has no server certificate'') s
      else case on_db (Transaction (record_rgw (he_Name E) r)) s of
        (Some e, s1) \<Rightarrow> rgw_undo E ''failed to record RGW state'' e s1
      | (None, s1) \<Rightarrow>
          (case act E RgwFinish s1 of
             (None, s2) \<Rightarrow> (None, s2)
           | (Some _, s2) \<Rightarrow> (None, snd (act E RgwRefreshMarker s2))))"

definition RgwServicePlacement :: placement_intf where
  "RgwServicePlacement =
     \<lparr>PopulateParams = rgw_PopulateParams,
      HospitalityCheck = (\<lambda>E p. done_with),
      ServiceInit = (\<lambda>E p. rgw_ServiceInit E (rgw_of p)),
      PostPlacementCheck = (\<lambda>E p. rgw_PostPlacementCheck E),
      DbUpdate = (\<lambda>E p. rgw_DbUpdate E (rgw_of p))\<rparr>"

section \<open>Enabling a service\<close>

text \<open>Of the NFS placement only the validation of its request is modelled; the other methods of its object
  are a parameter. A request that is the JSON value null makes the pointer nil, and the field access
  that follows panics: that outcome is the error \<open>nil_pointer\<close>.\<close>

definition nfs_zero :: nfs_service where
  "nfs_zero = \<lparr>ns_ClusterID = '''', ns_V4MinVersion = 0, ns_BindAddress = '''', ns_BindPort = 0\<rparr>"

definition dec_uint :: "int \<Rightarrow> json \<Rightarrow> int option" where
  "dec_uint cur j = (case j of JNull \<Rightarrow> Some cur | JInt i \<Rightarrow> if 0 \<le> i \<and> i < 2 ^ 64 then Some i else None | _ \<Rightarrow> None)"

definition nfs_service_field :: "go_lib \<Rightarrow> string \<Rightarrow> json \<Rightarrow> nfs_service \<Rightarrow> nfs_service option option" where
  "nfs_service_field G k v n =
     (if equal_fold G k ''cluster_id'' then Some (map_option (\<lambda>t. n\<lparr>ns_ClusterID := t\<rparr>) (dec_string (ns_ClusterID n) v))
      else if equal_fold G k ''v4_min_version'' then Some (map_option (\<lambda>i. n\<lparr>ns_V4MinVersion := i\<rparr>) (dec_uint (ns_V4MinVersion n) v))
      else if equal_fold G k ''bind_address'' then Some (map_option (\<lambda>t. n\<lparr>ns_BindAddress := t\<rparr>) (dec_string (ns_BindAddress n) v))
      else if equal_fold G k ''bind_port'' then Some (map_option (\<lambda>i. n\<lparr>ns_BindPort := i\<rparr>) (dec_uint (ns_BindPort n) v))
      else None)"

definition word_char :: "char \<Rightarrow> bool" where
  "word_char c \<longleftrightarrow> (let n = of_char c :: nat in 48 \<le> n \<and> n \<le> 57 \<or> 65 \<le> n \<and> n \<le> 90 \<or> 97 \<le> n \<and> n \<le> 122 \<or> n = 95)"

text \<open>The regular expression \<^verbatim>\<open>^[\w][\w.-]{1,61}[\w]$\<close>.\<close>

definition NFSClusterIDRegex :: "string \<Rightarrow> bool" where
  "NFSClusterIDRegex t \<longleftrightarrow>
     3 \<le> length t \<and> length t \<le> 63 \<and> word_char (hd t) \<and> word_char (last t) \<and>
     list_all (\<lambda>c. word_char c \<or> c = CHR ''.'' \<or> c = CHR ''-'') t"

definition nil_pointer :: go_error where
  "nil_pointer = err_new ''runtime error: invalid memory address or nil pointer dereference''"

definition apostrophed :: "string \<Rightarrow> string" where
  "apostrophed t = CHR 0x27 # t @ [CHR 0x27]"

definition nfs_PopulateParams :: "host_env \<Rightarrow> json option \<Rightarrow> go_error + params" where
  "nfs_PopulateParams E payload =
     (case payload of
        None \<Rightarrow> Inl (err_new ''json: cannot unmarshal'')
      | Some JNull \<Rightarrow> Inl nil_pointer
      | Some j \<Rightarrow>
          (case dec_struct False (nfs_service_field (he_lib E)) nfs_zero j of
             None \<Rightarrow> Inl (err_new ''json: cannot unmarshal'')
           | Some n \<Rightarrow>
               if \<not> NFSClusterIDRegex (ns_ClusterID n) then Inl (err_new ''expected cluster_id to be valid'')
               else if 2 < ns_V4MinVersion n
               then Inl (err_new (''expected v4_min_version '' @ apostrophed (show_int (ns_V4MinVersion n)) @ '' to be in the interval [0, 2]''))
               else if ns_BindAddress n \<noteq> '''' \<and> \<not> he_ParseIP E (ns_BindAddress n)
               then Inl (err_new (''bind_address '' @ apostrophed (ns_BindAddress n) @ '' could not be parsed''))
               else if 49151 < ns_BindPort n
               then Inl (err_new (''expected bind_port number '' @ apostrophed (show_int (ns_BindPort n)) @ '' to be in range [1-49151]''))
               else Inr (NfsParams (n\<lparr>ns_BindAddress := (if ns_BindAddress n = '''' then ''0.0.0.0'' else ns_BindAddress n),
                                       ns_BindPort := (if ns_BindPort n = 0 then 2049 else ns_BindPort n)\<rparr>))))"

definition GetServicePlacementTable :: "placement_intf \<Rightarrow> (string \<times> placement_intf) list" where
  "GetServicePlacementTable nfs =
     [(''mon'', MonServicePlacement ''mon''), (''mgr'', GenericServicePlacement ''mgr''), (''mds'', GenericServicePlacement ''mds''),
      (''nfs'', nfs\<lparr>PopulateParams := nfs_PopulateParams\<rparr>), (''rgw'', RgwServicePlacement),
      (''rbd-mirror'', ClientServicePlacement ''rbd-mirror''), (''cephfs-mirror'', ClientServicePlacement ''cephfs-mirror'')]"

record enable_service =
  es_Name :: string
  es_Wait :: bool
  es_Payload :: "json option"

definition EnableService :: "host_env \<Rightarrow> enable_service \<Rightarrow> placement_intf \<Rightarrow> proc" where
  "EnableService E payload item =
     (case PopulateParams item E (es_Payload payload) of
        Inl e \<Rightarrow> (\<lambda>s. (Some (err_wrap (''failed to populate the payload for '' @ es_Name payload @ '' enablement: '') e ''''), s))
      | Inr p \<Rightarrow>
          run_then (\<lambda>e. err_wrap (''failed to render ceph config before '' @ es_Name payload @ '' enablement: '') e '''') (act E RenderConfig)
          (run_then (\<lambda>e. err_wrap (''host failed hospitality check for '' @ es_Name payload @ '' enablement: '') e '''') (HospitalityCheck item E p)
          (run_then (\<lambda>e. err_wrap (''failed to initialise '' @ es_Name payload @ '' service at host: '') e '''') (ServiceInit item E p)
          (run_then (\<lambda>e. err_wrap (es_Name payload @ '' service unable to sustain on host: '') e '''') (PostPlacementCheck item E p)
          (run_then (\<lambda>e. err_wrap (''failed to add DB record for '' @ es_Name payload @ '': '') e '''') (DbUpdate item E p)
           done_with)))))"

text \<open>Without waiting, the request is answered at once and the work is left to run later.\<close>

definition ServicePlacementHandler :: "host_env \<Rightarrow> placement_intf \<Rightarrow> enable_service \<Rightarrow> host_st
    \<Rightarrow> go_error option \<times> proc option \<times> host_st" where
  "ServicePlacementHandler E nfs payload s =
     (case map_of (GetServicePlacementTable nfs) (es_Name payload) of
        None \<Rightarrow> (Some (err_new (es_Name payload @ '' enablement is not supported'')), None, s)
      | Some sp \<Rightarrow>
          if es_Wait payload
          then (case EnableService E payload sp s of (r, s1) \<Rightarrow> (r, None, s1))
          else (None, Some (EnableService E payload sp), s))"

section \<open>Deleting a service\<close>

definition remove_service_rows :: "string \<Rightarrow> string \<Rightarrow> unit tx" where
  "remove_service_rows member service =
     tx_bind (tx_wrap (''failed to remove service from db '' @ quoted service @ '': '')
                (if service = ''rgw'' then tx_tolerate 404 (DeleteService_row member service) else DeleteService_row member service))
     (\<lambda>_. tx_bind (if service = ''mon'' then DeleteConfigItem (''mon.host.'' @ member) else tx_return ())
     (\<lambda>_. if service = ''rgw'' then tx_wrap ''failed to remove rgw frontend from db: '' (DeleteRGWFrontendByMember member)
           else tx_return ()))"

definition removeServiceDatabase :: "host_env \<Rightarrow> string \<Rightarrow> proc" where
  "removeServiceDatabase E service s =
     (if \<not> he_ServerCert E then (Some (err_new ''no server certificate''), s)
      else on_db (Transaction (remove_service_rows (he_Name E) service)) s)"

definition cleanService :: "host_env \<Rightarrow> string \<Rightarrow> proc" where
  "cleanService E service s =
     (case act E (CleanData service) s of
        (Some e, s1) \<Rightarrow> (Some (err_wrap (''failed to remove service '' @ quoted service @ '' data: '') e ''''), s1)
      | (None, s1) \<Rightarrow> (None, s1))"

definition DeleteService :: "host_env \<Rightarrow> string \<Rightarrow> proc" where
  "DeleteService E service =
     (let hostname = he_Name E in
      run_then (\<lambda>e. err_wrap (''failed to render ceph config before '' @ service @ '' removal: '') e '''')
        (if service \<in> set controlServices then act E RenderConfig else done_with)
      (run_then (\<lambda>e. err_wrap (''failed to remove monitor membership '' @ quoted hostname @ '': '') e '''')
        (if service = ''mon'' then ensureMonAbsent E hostname else done_with)
      (run_then (\<lambda>e. err_wrap (''failed to stop daemon '' @ quoted service @ '': '') e '''') (act E (SnapStop service))
      (run_then (\<lambda>e. err_wrap (''failed to remove '' @ service @ '' map membership '' @ quoted hostname @ '': '') e '''')
        (if service = ''mgr'' then ensureMgrAbsent E hostname else if service = ''mds'' then ensureMdsAbsent E hostname else done_with)
      (run_then (\<lambda>e. err_wrap (''failed to clean service '' @ quoted service @ '': '') e '''') (cleanService E service)
      (run_then (\<lambda>e. err_wrap (''failed to remove service '' @ quoted service @ '' from database: '') e '''') (removeServiceDatabase E service)
       done_with))))))"

text \<open>The files of the gateway, in the order in which they are removed.\<close>

definition rgwFiles :: "string list" where
  "rgwFiles = [''conf/ceph.client.radosgw.gateway.keyring'', ''data/radosgw/ceph-radosgw.gateway'', ''ssl/rgw-tls'',
     ''ssl/server.crt'', ''ssl/server.key'', ''conf/radosgw.conf'', ''conf/radosgw.conf.pending'']"

fun remove_paths :: "host_env \<Rightarrow> string list \<Rightarrow> go_error list \<Rightarrow> host_st \<Rightarrow> go_error list \<times> host_st" where
  "remove_paths E [] failures s = (failures, s)"
| "remove_paths E (f # fs) failures s =
     (case act E (RemovePath f) s of
        (Some e, s1) \<Rightarrow> remove_paths E fs (failures @ [e]) s1
      | (None, s1) \<Rightarrow> remove_paths E fs failures s1)"

definition err_join_all :: "go_error list \<Rightarrow> go_error" where
  "err_join_all es = \<lparr>etext = join_with [CHR 0x0A] (map etext es), echain = concat (map echain es)\<rparr>"

definition DisableRGW :: "host_env \<Rightarrow> proc" where
  "DisableRGW E s =
     run_then (\<lambda>e. err_wrap2 (err_of ErrPlacementOperationFailed) '': cannot stop RGW: '' e '''') (act E (SnapStop ''rgw''))
     (run_then (\<lambda>e. err_wrap2 (err_of ErrPlacementOperationFailed) '': '' e '''') (removeServiceDatabase E ''rgw'')
     (\<lambda>s. case remove_paths E rgwFiles [] s of (failures, s1) \<Rightarrow>
        if length failures \<noteq> 0
        then (Some (err_wrap2 (err_of ErrPlacementOperationFailed) '': RGW cleanup failed: '' (err_join_all failures) ''''), s1)
        else (None, s1))) s"

section \<open>The service endpoints\<close>

text \<open>A response: success, an error with its status, or the sync response that carries an error behind
  a success status. \<open>SmartError\<close> of the cluster library is a parameter.\<close>

datatype response = SyncOk | SyncFailed go_error | ErrorResponse nat go_error

definition serviceErrorResponse :: "(go_error \<Rightarrow> nat) \<Rightarrow> go_error \<Rightarrow> response" where
  "serviceErrorResponse smart e =
     (if errors_Is e ErrPlacementOperationFailed then ErrorResponse 500 e
      else if errors_Is e ErrRgwFrontendInvalid then ErrorResponse 400 e
      else ErrorResponse (smart e) e)"

text \<open>A request that did not decode is \<^const>\<open>None\<close>.\<close>

definition cmdEnableServicePut :: "(go_error \<Rightarrow> nat) \<Rightarrow> host_env \<Rightarrow> placement_intf \<Rightarrow> enable_service option \<Rightarrow> host_st
    \<Rightarrow> response \<times> proc option \<times> host_st" where
  "cmdEnableServicePut smart E nfs req s =
     (case req of
        None \<Rightarrow> (ErrorResponse 400 (err_new ''json: cannot unmarshal''), None, s)
      | Some payload \<Rightarrow>
          (case ServicePlacementHandler E nfs payload s of
             (Some e, later, s1) \<Rightarrow> (serviceErrorResponse smart e, later, s1)
           | (None, later, s1) \<Rightarrow> (SyncOk, later, s1)))"

definition cmdDeleteService :: "placement_intf \<Rightarrow> host_env \<Rightarrow> string \<Rightarrow> host_st \<Rightarrow> response \<times> host_st" where
  "cmdDeleteService nfs E which s =
     (if map_of (GetServicePlacementTable nfs) which = None
      then (ErrorResponse 500 (err_new (which @ '' is not a valid ceph service'')), s)
      else case DeleteService E which s of (Some e, s1) \<Rightarrow> (SyncFailed e, s1) | (None, s1) \<Rightarrow> (SyncOk, s1))"

definition cmdRGWServiceDelete :: "(go_error \<Rightarrow> nat) \<Rightarrow> host_env \<Rightarrow> host_st \<Rightarrow> response \<times> host_st" where
  "cmdRGWServiceDelete smart E s =
     (case DisableRGW E s of (Some e, s1) \<Rightarrow> (serviceErrorResponse smart e, s1) | (None, s1) \<Rightarrow> (SyncOk, s1))"

section \<open>Dispatch to a member\<close>

text \<open>
  The client of the cluster library and the members it reaches are parameters that may depend on the
  operations dispatched before: whether a leader client is available, whether a request reaches its
  target, the target's environment, what the client's \<^verbatim>\<open>Query\<close> returns for a response, and
  the result of the capability query.
\<close>

record network =
  nt_leader :: "dispatch list \<Rightarrow> go_error option"
  nt_lost :: "dispatch list \<Rightarrow> go_error option"
  nt_env :: "dispatch list \<Rightarrow> string \<Rightarrow> host_env"
  nt_query :: "dispatch list \<Rightarrow> response \<Rightarrow> go_error option"
  nt_capabilities :: "dispatch list \<Rightarrow> string \<Rightarrow> go_error + string list"
  nt_SmartError :: "go_error \<Rightarrow> nat"
  nt_nfs :: placement_intf

text \<open>The client reports success only for a response that says success.\<close>

definition reports_failures :: "network \<Rightarrow> bool" where
  "reports_failures N \<longleftrightarrow> (\<forall>h r. nt_query N h r = None \<longrightarrow> r = SyncOk)"

definition request :: "network \<Rightarrow> dispatch list \<Rightarrow> string \<Rightarrow> (host_env \<Rightarrow> host_st \<Rightarrow> response \<times> host_st) \<Rightarrow> dbst
    \<Rightarrow> go_error option \<times> dbst" where
  "request N h target handler st =
     (case nt_lost N h of
        Some e \<Rightarrow> (Some e, st)
      | None \<Rightarrow>
          (case handler ((nt_env N h target)\<lparr>he_Name := target\<rparr>) \<lparr>hs_db = st, hs_log = []\<rparr> of
             (resp, s1) \<Rightarrow> (nt_query N h resp, hs_db s1)))"

text \<open>The routes of \<^verbatim>\<open>services/<name>\<close>. A deletion carries no body, so the NFS handler rejects it.\<close>

definition put_service :: "network \<Rightarrow> enable_service \<Rightarrow> host_env \<Rightarrow> host_st \<Rightarrow> response \<times> host_st" where
  "put_service N payload E s =
     (if map_of (GetServicePlacementTable (nt_nfs N)) (es_Name payload) = None then (ErrorResponse 404 (err_new ''not found''), s)
      else case cmdEnableServicePut (nt_SmartError N) E (nt_nfs N) (Some payload) s of (resp, _, s1) \<Rightarrow> (resp, s1))"

definition delete_service :: "network \<Rightarrow> string \<Rightarrow> host_env \<Rightarrow> host_st \<Rightarrow> response \<times> host_st" where
  "delete_service N service E s =
     (if map_of (GetServicePlacementTable (nt_nfs N)) service = None then (ErrorResponse 404 (err_new ''not found''), s)
      else if service = ''nfs'' then (ErrorResponse 500 (err_new ''EOF''), s)
      else if service = ''rgw'' then cmdRGWServiceDelete (nt_SmartError N) E s
      else cmdDeleteService (nt_nfs N) E service s)"

definition with_leader :: "network \<Rightarrow> dispatch list \<Rightarrow> (dbst \<Rightarrow> go_error option \<times> dbst) \<Rightarrow> dbst \<Rightarrow> go_error option \<times> dbst" where
  "with_leader N h f st =
     (case nt_leader N h of Some e \<Rightarrow> (Some (err_wrap ''failed to get leader client: '' e ''''), st) | None \<Rightarrow> f st)"

definition wrap_result :: "string \<Rightarrow> go_error option \<times> dbst \<Rightarrow> go_error option \<times> dbst" where
  "wrap_result pre res = (map_option (\<lambda>e. err_wrap pre e '''') (fst res), snd res)"

definition SendServicePlacementReq :: "network \<Rightarrow> dispatch list \<Rightarrow> enable_service \<Rightarrow> string \<Rightarrow> dbst \<Rightarrow> go_error option \<times> dbst" where
  "SendServicePlacementReq N h data target st =
     wrap_result (''failed placing service '' @ es_Name data @ '': '') (request N h target (put_service N data) st)"

definition client_DeleteService :: "network \<Rightarrow> dispatch list \<Rightarrow> string \<Rightarrow> string \<Rightarrow> dbst \<Rightarrow> go_error option \<times> dbst" where
  "client_DeleteService N h target service st =
     wrap_result (''failed disabling service '' @ service @ '': '') (request N h target (delete_service N service) st)"

definition CheckRGWPlacementSupport :: "network \<Rightarrow> dispatch list \<Rightarrow> string \<Rightarrow> go_error option" where
  "CheckRGWPlacementSupport N h target =
     (let unavailable = Some (err_status 400 (''placement-rgw capability is unavailable for member '' @ target)) in
      case nt_capabilities N h target of
        Inl e \<Rightarrow> if StatusErrorCheck e 404 then unavailable
                 else Some (err_wrap (''failed to query RGW placement support for '' @ target @ '': '') e '''')
      | Inr supported \<Rightarrow> if ''placement-rgw'' \<in> set supported then None else unavailable)"

definition enc_rgw_service :: "rgw_placement \<Rightarrow> json" where
  "enc_rgw_service r = JObj
     [(''Port'', JInt (rp_Port r)), (''SSLPort'', JInt (rp_SSLPort r)), (''SSL'', enc_bool_ptr (rp_SSL r)),
      (''SSLCertificate'', JStr (rp_SSLCertificate r)), (''SSLPrivateKey'', JStr (rp_SSLPrivateKey r))]"

definition prodAddControlServiceFunc :: "network \<Rightarrow> dispatch list \<Rightarrow> string \<Rightarrow> string \<Rightarrow> dbst \<Rightarrow> go_error option \<times> dbst" where
  "prodAddControlServiceFunc N h member service =
     with_leader N h (SendServicePlacementReq N h \<lparr>es_Name = service, es_Wait = True, es_Payload = None\<rparr> member)"

definition prodRemoveControlServiceFunc :: "network \<Rightarrow> dispatch list \<Rightarrow> string \<Rightarrow> string \<Rightarrow> dbst \<Rightarrow> go_error option \<times> dbst" where
  "prodRemoveControlServiceFunc N h member service = with_leader N h (client_DeleteService N h member service)"

definition prodEnableRgwServiceFunc :: "network \<Rightarrow> dispatch list \<Rightarrow> string \<Rightarrow> rgw_placement \<Rightarrow> dbst \<Rightarrow> go_error option \<times> dbst" where
  "prodEnableRgwServiceFunc N h member rgw =
     with_leader N h (\<lambda>st. case CheckRGWPlacementSupport N h member of
        Some e \<Rightarrow> (Some e, st)
      | None \<Rightarrow> SendServicePlacementReq N h \<lparr>es_Name = ''rgw'', es_Wait = True, es_Payload = Some (enc_rgw_service rgw)\<rparr> member st)"

definition prodRemoveRgwServiceFunc :: "network \<Rightarrow> dispatch list \<Rightarrow> string \<Rightarrow> dbst \<Rightarrow> go_error option \<times> dbst" where
  "prodRemoveRgwServiceFunc N h member = with_leader N h (client_DeleteService N h member ''rgw'')"

definition prod_dispatch :: "network \<Rightarrow> dispatch \<Rightarrow> dispatch list \<Rightarrow> dbst \<Rightarrow> go_error option \<times> dbst" where
  "prod_dispatch N op h =
     (case op of
        AddControl m svc \<Rightarrow> prodAddControlServiceFunc N h m svc
      | RemoveControl m svc \<Rightarrow> prodRemoveControlServiceFunc N h m svc
      | EnableRgw m r \<Rightarrow> prodEnableRgwServiceFunc N h m r
      | RemoveRgw m \<Rightarrow> prodRemoveRgwServiceFunc N h m)"

section \<open>What the procedures do to the database\<close>

text \<open>A fact about the tables that a procedure, or a piece of a transaction, keeps whatever its outcome.\<close>

definition proc_inv :: "(cluster_db \<Rightarrow> bool) \<Rightarrow> proc \<Rightarrow> bool" where
  "proc_inv Q f \<longleftrightarrow> (\<forall>s. Q (dbs (hs_db s)) \<longrightarrow> Q (dbs (hs_db (snd (f s)))))"

definition leaves_db :: "proc \<Rightarrow> bool" where
  "leaves_db f \<longleftrightarrow> (\<forall>s. dbs (hs_db (snd (f s))) = dbs (hs_db s))"

lemma proc_invD: "proc_inv Q f \<Longrightarrow> f s = (r, s') \<Longrightarrow> Q (dbs (hs_db s)) \<Longrightarrow> Q (dbs (hs_db s'))"
  by (metis proc_inv_def snd_conv)

lemma leaves_inv: "leaves_db f \<Longrightarrow> proc_inv Q f"
  by (simp add: leaves_db_def proc_inv_def)

lemma appends_leaves: "(\<And>s. appends (f s) s) \<Longrightarrow> leaves_db f"
  by (simp add: appends_def leaves_db_def)

lemma leaves_act [intro]: "leaves_db (act E p)"
  by (rule appends_leaves) simp

lemma leaves_done [intro]: "leaves_db done_with"
  by (simp add: leaves_db_def done_with_def)

lemma leaves_run_then [intro]: "leaves_db f \<Longrightarrow> leaves_db g \<Longrightarrow> leaves_db (run_then wrap f g)"
  by (auto simp: leaves_db_def run_then_def split: prod.splits option.splits) (metis snd_conv)+

lemma inv_run_then:
  assumes "proc_inv Q f" "proc_inv Q g"
  shows "proc_inv Q (run_then wrap f g)"
  unfolding proc_inv_def
proof (intro allI impI)
  fix s :: host_st assume q: "Q (dbs (hs_db s))"
  obtain r s1 where f: "f s = (r, s1)" by (rule prod.exhaust)
  have "Q (dbs (hs_db s1))" using proc_invD [OF assms(1) f q] .
  then have "Q (dbs (hs_db (snd (g s1))))" using assms(2) by (simp add: proc_inv_def)
  with \<open>Q (dbs (hs_db s1))\<close> f show "Q (dbs (hs_db (snd (run_then wrap f g s))))" by (cases r) (simp_all add: run_then_def)
qed

lemma inv_transaction:
  assumes "tx_inv Q t"
  shows "proc_inv Q (on_db (Transaction t))"
  unfolding proc_inv_def
proof (intro allI impI)
  fix s :: host_st assume "Q (dbs (hs_db s))"
  then have "Q (dbs (snd (Transaction t (hs_db s))))"
    by (intro Transaction_keeps [where P = Q]) (use tx_invD [OF assms] in blast)
  then show "Q (dbs (hs_db (snd (on_db (Transaction t) s))))" by (auto simp: on_db_def split: prod.splits sum.splits)
qed

lemma tx_inv_tolerate: "tx_inv Q f \<Longrightarrow> tx_inv Q (tx_tolerate c f)"
  unfolding tx_inv_def by (auto simp: tx_tolerate_def split_def split: sum.split)

lemmas tx_inv_rules = tx_inv_return tx_inv_bind tx_inv_wrap tx_inv_tolerate tx_inv_if

text \<open>Facts that additions to the service, frontend and config tables keep.\<close>

definition stable_fact :: "(cluster_db \<Rightarrow> bool) \<Rightarrow> bool" where
  "stable_fact Q \<longleftrightarrow> (\<forall>d. Q d \<longrightarrow> (\<forall>c. Q (d\<lparr>db_config := c\<rparr>)) \<and> (\<forall>f. Q (d\<lparr>db_rgw_frontends := f\<rparr>)) \<and>
     (\<forall>r. Q (d\<lparr>db_services := db_services d @ [r]\<rparr>)))"

definition spares_fact :: "(cluster_db \<Rightarrow> bool) \<Rightarrow> string \<times> string \<Rightarrow> bool" where
  "spares_fact Q row \<longleftrightarrow> (\<forall>d. Q d \<longrightarrow> Q (d\<lparr>db_services := filter (\<lambda>r. r \<noteq> row) (db_services d)\<rparr>))"

lemma CreateService_inv: "stable_fact Q \<Longrightarrow> tx_inv Q (CreateService m svc)"
  unfolding CreateService_def ServiceExists_def by (intro tx_inv_rules tx_inv_stmt) (auto simp: stable_fact_def)

lemma GetConfigItem_inv: "tx_inv Q (GetConfigItem k)"
  unfolding GetConfigItem_def by (intro tx_inv_rules tx_inv_stmt) (auto split: list.split intro: tx_inv_rules)

lemma config_inv: "stable_fact Q \<Longrightarrow> tx_inv Q (UpsertConfigItem k v)" "stable_fact Q \<Longrightarrow> tx_inv Q (DeleteConfigItem k)"
  unfolding UpsertConfigItem_def DeleteConfigItem_def by (intro tx_inv_rules tx_inv_stmt; auto simp: stable_fact_def)+

lemma frontend_inv: "stable_fact Q \<Longrightarrow> tx_inv Q (UpsertRGWFrontend m p q b)" "stable_fact Q \<Longrightarrow> tx_inv Q (DeleteRGWFrontendByMember m)"
  unfolding UpsertRGWFrontend_def DeleteRGWFrontendByMember_def Let_def
  by (intro tx_inv_rules tx_inv_stmt; auto simp: stable_fact_def)+

lemma DeleteService_row_inv: "spares_fact Q (m, svc) \<Longrightarrow> tx_inv Q (DeleteService_row m svc)"
  unfolding DeleteService_row_def by (intro tx_inv_rules tx_inv_stmt) (auto simp: spares_fact_def)

lemma updateDbForMon_inv:
  assumes "stable_fact Q"
  shows "tx_inv Q (updateDbForMon E log)"
proof -
  let ?rec = "\<lambda>network st1. let log1 = log @ [ReadMessengerMode] in
            case he_fail E log1 (FindIpOnSubnet network) of
              Some e \<Rightarrow> (Inl (err_wrap (''failed to locate ip on subnet '' @ network @ '': '') e ''''), st1)
            | None \<Rightarrow>
                (let ip = he_text E log1 (FindIpOnSubnet network);
                     monHost = (if he_flag E log ReadMessengerMode then ''v2:'' @ ip @ '':3300'' else ip)
                 in tx_wrap ''failed to record mon host: '' (UpsertConfigItem (''mon.host.'' @ he_Name E) monHost) st1)"
  have "tx_inv Q (?rec network)" for network
    using tx_inv_wrap [OF config_inv(1) [OF assms]] by (auto simp: tx_inv_def Let_def split: option.splits)
  from tx_inv_bind [OF GetConfigItem_inv [of Q "''public_network''"] this] show ?thesis
    unfolding updateDbForMon_def tx_inv_def by (simp split: option.split)
qed

lemma remove_rows_inv: "stable_fact Q \<Longrightarrow> spares_fact Q (m, svc) \<Longrightarrow> tx_inv Q (remove_service_rows m svc)"
  unfolding remove_service_rows_def
  by (intro tx_inv_rules DeleteService_row_inv config_inv(2) frontend_inv(2)) auto

lemma removeServiceDatabase_inv:
  assumes "stable_fact Q" "spares_fact Q (he_Name E, svc)"
  shows "proc_inv Q (removeServiceDatabase E svc)"
  using inv_transaction [OF remove_rows_inv [OF assms]] by (simp add: proc_inv_def removeServiceDatabase_def)

lemma cleanService_leaves [intro]: "leaves_db (cleanService E svc)"
  by (rule appends_leaves) (auto simp: cleanService_def appends_def act_def split: option.split)

lemma ensure_leaves [intro]:
  "leaves_db (ensureMonAbsent E h)" "leaves_db (ensureMgrAbsent E h)" "leaves_db (ensureMdsAbsent E h)"
  by (rule appends_leaves, rule ensureMonAbsent_appends ensureMgrAbsent_appends ensureMdsAbsent_appends)+

lemma DeleteService_inv:
  assumes "stable_fact Q" "spares_fact Q (he_Name E, svc)"
  shows "proc_inv Q (DeleteService E svc)"
  unfolding DeleteService_def Let_def
  by (intro inv_run_then removeServiceDatabase_inv [OF assms]) (auto intro!: leaves_inv split: if_splits)

lemma remove_paths_leaves: "dbs (hs_db (snd (remove_paths E fs failures s))) = dbs (hs_db s)"
proof (induction fs arbitrary: failures s)
  case (Cons f fs)
  then show ?case by (cases "he_fail E (hs_log s) (RemovePath f)") (simp_all add: act_def)
qed simp

lemma DisableRGW_inv:
  assumes "stable_fact Q" "spares_fact Q (he_Name E, ''rgw'')"
  shows "proc_inv Q (DisableRGW E)"
proof -
  let ?files = "\<lambda>s. case remove_paths E rgwFiles [] s of (failures, s1) \<Rightarrow>
        if length failures \<noteq> 0
        then (Some (err_wrap2 (err_of ErrPlacementOperationFailed) '': RGW cleanup failed: '' (err_join_all failures) ''''), s1)
        else (None, s1)"
  have "dbs (hs_db (snd (?files s))) = dbs (hs_db s)" for s
    using remove_paths_leaves [of E rgwFiles "[]" s] by (auto split: prod.split)
  then have "leaves_db ?files" unfolding leaves_db_def by blast
  then have "proc_inv Q (\<lambda>s. DisableRGW E s)"
    unfolding DisableRGW_def
    by (intro inv_run_then removeServiceDatabase_inv [OF assms] leaves_inv leaves_act)
  then show ?thesis .
qed

lemma stay_up_leaves: "dbs (hs_db (snd (stay_up E svc n s))) = dbs (hs_db s)"
proof (induction n arbitrary: s)
  case (Suc n)
  then show ?case by (cases "he_fail E (hs_log s) (SnapCheckActive svc)") (simp_all add: act_def)
qed simp

lemma generic_leaves [intro]:
  "leaves_db (genericHospitalityCheck E svc)" "leaves_db (genericServiceInit E svc)" "leaves_db (clientServiceInit E svc)"
  "leaves_db (genericPostPlacementCheck E svc)"
proof -
  show "leaves_db (genericHospitalityCheck E svc)"
    by (rule appends_leaves) (auto simp: genericHospitalityCheck_def appends_def act_def split: option.split)
  have d: "leaves_db (\<lambda>s. (None, s))" by (simp add: leaves_db_def)
  have b: "leaves_db (\<lambda>s. if b then (r, s) else f s)" if "leaves_db f" for b r f
    using that by (simp add: leaves_db_def)
  show "leaves_db (genericServiceInit E svc)" "leaves_db (clientServiceInit E svc)"
    unfolding genericServiceInit_def clientServiceInit_def by (rule b, intro leaves_run_then leaves_act d)+
  show "leaves_db (genericPostPlacementCheck E svc)"
    by (simp add: leaves_db_def genericPostPlacementCheck_def stay_up_leaves)
qed

lemma rgw_leaves [intro]: "leaves_db (rgw_ServiceInit E r)" "leaves_db (rgw_undo E what e)" "leaves_db (rgw_PostPlacementCheck E)"
proof -
  have reuse: "leaves_db (\<lambda>s. run_then id (act E RgwReuseTLS) (case he_tls_pair E (hs_log s) of (cert, key) \<Rightarrow> f cert key) s)"
    if f: "\<And>c k. leaves_db (f c k)" for f
    unfolding leaves_db_def
  proof
    fix s :: host_st
    obtain c k where p: "he_tls_pair E (hs_log s) = (c, k)" by (rule prod.exhaust)
    have "leaves_db (run_then id (act E RgwReuseTLS) (f c k))" using f by blast
    with p show "dbs (hs_db (snd (run_then id (act E RgwReuseTLS) (case he_tls_pair E (hs_log s) of (cert, key) \<Rightarrow> f cert key) s))) = dbs (hs_db s)"
      by (simp add: leaves_db_def)
  qed
  have either: "leaves_db (if b then f else g)" if "leaves_db f" "leaves_db g" for b f g
    using that by simp
  show "leaves_db (rgw_ServiceInit E r)"
    unfolding rgw_ServiceInit_def Let_def
    by (intro leaves_run_then leaves_act either) (intro reuse leaves_run_then leaves_act leaves_done)+
  show u: "leaves_db (rgw_undo E what e)" for what e by (simp add: leaves_db_def rgw_undo_def act_def)
  show "leaves_db (rgw_PostPlacementCheck E)"
    using u by (auto simp: leaves_db_def rgw_PostPlacementCheck_def act_def split: option.split)
qed

lemma rgw_DbUpdate_inv:
  assumes "stable_fact Q"
  shows "proc_inv Q (rgw_DbUpdate E r)"
  unfolding proc_inv_def
proof (intro allI impI)
  fix s :: host_st assume q: "Q (dbs (hs_db s))"
  have "tx_inv Q (record_rgw (he_Name E) r)"
    unfolding record_rgw_def by (intro tx_inv_rules CreateService_inv frontend_inv(1) assms)
  note k = proc_invD [OF inv_transaction [OF this]]
  obtain v s1 where v: "on_db (Transaction (record_rgw (he_Name E) r)) s = (v, s1)" by (rule prod.exhaust)
  have u: "dbs (hs_db (snd (rgw_undo E what e t))) = dbs (hs_db t)" for what e t by (simp add: rgw_undo_def act_def)
  show "Q (dbs (hs_db (snd (rgw_DbUpdate E r s))))"
  proof (cases "he_ServerCert E")
    case True
    have "dbs (hs_db (snd (rgw_DbUpdate E r s))) = dbs (hs_db s1)"
      using True v u by (simp add: rgw_DbUpdate_def act_def split: option.split)
    with k [OF v q] show ?thesis by simp
  qed (use q in \<open>simp add: rgw_DbUpdate_def u\<close>)
qed

lemma record_inv:
  assumes "stable_fact Q"
  shows "proc_inv Q (genericDbUpdate E svc)" "proc_inv Q (mon_DbUpdate E svc)"
proof -
  show "proc_inv Q (genericDbUpdate E svc)"
    unfolding genericDbUpdate_def record_role_def by (intro inv_transaction tx_inv_rules CreateService_inv assms)
  have "proc_inv Q (on_db (Transaction (tx_bind (record_role (he_Name E) svc) (\<lambda>_.
       tx_wrap ''failed to record mon host: '' (updateDbForMon E log)))))" for log
    unfolding record_role_def by (intro inv_transaction tx_inv_rules CreateService_inv updateDbForMon_inv assms)
  then show "proc_inv Q (mon_DbUpdate E svc)" by (simp add: proc_inv_def mon_DbUpdate_def)
qed

text \<open>Items whose phases leave the database alone until the last, which only adds.\<close>

definition additive_item :: "placement_intf \<Rightarrow> bool" where
  "additive_item item \<longleftrightarrow>
     (\<forall>E p. leaves_db (HospitalityCheck item E p) \<and> leaves_db (ServiceInit item E p) \<and> leaves_db (PostPlacementCheck item E p) \<and>
        (\<forall>Q. stable_fact Q \<longrightarrow> proc_inv Q (DbUpdate item E p)))"

lemma additive_items: "additive_item (GenericServicePlacement n)" "additive_item (ClientServicePlacement n)"
  "additive_item (MonServicePlacement n)" "additive_item RgwServicePlacement"
  by (auto simp: additive_item_def GenericServicePlacement_def ClientServicePlacement_def MonServicePlacement_def
      RgwServicePlacement_def record_inv rgw_DbUpdate_inv)

lemma EnableService_inv:
  assumes "additive_item item" "stable_fact Q"
  shows "proc_inv Q (EnableService E payload item)"
proof (cases "PopulateParams item E (es_Payload payload)")
  case (Inl e)
  then show ?thesis by (simp add: proc_inv_def EnableService_def)
next
  case (Inr p)
  have "proc_inv Q (HospitalityCheck item E p)" "proc_inv Q (ServiceInit item E p)"
    "proc_inv Q (PostPlacementCheck item E p)" "proc_inv Q (DbUpdate item E p)"
    "proc_inv Q (act E RenderConfig)" "proc_inv Q done_with"
    using assms leaves_inv leaves_act leaves_done by (auto simp: additive_item_def)
  then show ?thesis unfolding EnableService_def Inr sum.case by (intro inv_run_then)
qed

section \<open>The engine's contract holds in production\<close>

definition has_row :: "string \<times> string \<Rightarrow> cluster_db \<Rightarrow> bool" where
  "has_row row d \<longleftrightarrow> row \<in> set (db_services d)"

lemma has_row_stable: "stable_fact (has_row row)" "row \<noteq> row' \<Longrightarrow> spares_fact (has_row row) row'"
  by (auto simp: stable_fact_def spares_fact_def has_row_def)

lemma CreateService_Inr:
  assumes "CreateService m svc st = (Inr v, st')"
  shows "has_row (m, svc) (dbs st')"
proof -
  from assms obtain st1 :: dbst where "(dbs st1)\<lparr>db_services := db_services (dbs st1) @ [(m, svc)]\<rparr> = dbs st'"
    by (auto simp: CreateService_def tx_Inr split: if_splits dest!: tx_stmt_Inr)
  from arg_cong [OF this [symmetric], of db_services] show ?thesis by (simp add: has_row_def)
qed

lemma on_db_None: "on_db (Transaction t) s = (None, s') \<Longrightarrow> \<exists>v st. Transaction t (hs_db s) = (Inr v, st) \<and> hs_db s' = st"
  by (auto simp: on_db_def split: prod.splits sum.splits)

lemma record_role_recorded:
  assumes "Transaction (tx_bind (record_role m svc) g) (hs_db s) = (Inr v, st')" "\<And>v. tx_inv (has_row (m, svc)) (g v)"
  shows "has_row (m, svc) (dbs st')"
proof -
  from assms(1) obtain st1 st2 where t: "tx_bind (record_role m svc) g st1 = (Inr v, st2)" "dbs st2 = dbs st'"
    by (auto elim: Transaction_Inr)
  then obtain u st where "record_role m svc st1 = (Inr u, st)" "g u st = (Inr v, st2)" by (auto simp: tx_Inr)
  then have "has_row (m, svc) (dbs st)" using CreateService_Inr by (simp add: record_role_def tx_wrap_Inr)
  with tx_invD [OF assms(2) \<open>g u st = (Inr v, st2)\<close>] t(2) show ?thesis by simp
qed

lemma tx_bind_return: "tx_bind f tx_return = f"
  by (auto simp: tx_bind_def tx_return_def fun_eq_iff split: prod.split sum.split)

lemma DbUpdate_recorded:
  "genericDbUpdate E svc s = (None, s') \<Longrightarrow> has_row (he_Name E, svc) (dbs (hs_db s'))"
  "mon_DbUpdate E svc s = (None, s') \<Longrightarrow> has_row (he_Name E, svc) (dbs (hs_db s'))"
proof -
  assume "genericDbUpdate E svc s = (None, s')"
  from on_db_None [OF this [unfolded genericDbUpdate_def]] obtain v where
    "Transaction (tx_bind (record_role (he_Name E) svc) tx_return) (hs_db s) = (Inr v, hs_db s')" by (auto simp: tx_bind_return)
  from record_role_recorded [OF this tx_inv_return(1)] show "has_row (he_Name E, svc) (dbs (hs_db s'))" .
next
  assume "mon_DbUpdate E svc s = (None, s')"
  from on_db_None [OF this [unfolded mon_DbUpdate_def]] show "has_row (he_Name E, svc) (dbs (hs_db s'))"
    using record_role_recorded [where g = "\<lambda>_. tx_wrap ''failed to record mon host: '' (updateDbForMon E (hs_log s))"]
      tx_inv_wrap [OF updateDbForMon_inv [OF has_row_stable(1)]] by auto
qed

lemma EnableService_None:
  assumes "EnableService E payload item s = (None, s')"
  obtains p s1 where "PopulateParams item E (es_Payload payload) = Inr p" "DbUpdate item E p s1 = (None, s')"
  using assms by (auto simp: EnableService_def run_then_None done_with_def split: sum.splits)

lemma table_cases:
  assumes "map_of (GetServicePlacementTable nfs) name = Some item" "name \<noteq> ''nfs''"
  shows "additive_item item"
    "name \<noteq> ''rgw'' \<Longrightarrow> item = MonServicePlacement name \<or> item = GenericServicePlacement name \<or> item = ClientServicePlacement name"
    "name = ''rgw'' \<Longrightarrow> item = RgwServicePlacement"
  using assms additive_items by (auto simp: GetServicePlacementTable_def split: if_splits)

lemma nfs_add_rejected:
  assumes "map_of (GetServicePlacementTable nfs) ''nfs'' = Some item" "es_Payload payload = None"
  shows "EnableService E payload item s = (r, s') \<Longrightarrow> r \<noteq> None \<and> s' = s"
  using assms by (auto simp: GetServicePlacementTable_def EnableService_def nfs_PopulateParams_def)

text \<open>A service request keeps every stable fact; when it reports success for a request without payload,
  the row is there.\<close>

lemma put_service_cases:
  assumes "put_service N payload E s = (resp, s')" "es_Wait payload"
  obtains (unknown) "resp \<noteq> SyncOk" "s' = s"
  | (enabled) item r where "map_of (GetServicePlacementTable (nt_nfs N)) (es_Name payload) = Some item"
      "EnableService E payload item s = (r, s')" "resp = SyncOk \<longleftrightarrow> r = None"
proof (cases "map_of (GetServicePlacementTable (nt_nfs N)) (es_Name payload)")
  case None
  with assms show thesis by (intro unknown) (auto simp: put_service_def)
next
  case (Some item)
  obtain r s1 where e: "EnableService E payload item s = (r, s1)" by (rule prod.exhaust)
  with assms Some have "s1 = s'" "resp = SyncOk \<longleftrightarrow> r = None"
    by (auto simp: put_service_def cmdEnableServicePut_def ServicePlacementHandler_def serviceErrorResponse_def split: option.splits if_splits)
  with Some e show thesis by (intro enabled) auto
qed

lemma put_service_inv:
  assumes "put_service N payload E s = (resp, s')" "es_Wait payload" "es_Name payload = ''nfs'' \<Longrightarrow> es_Payload payload = None"
    and "stable_fact Q" "Q (dbs (hs_db s))"
  shows "Q (dbs (hs_db s'))"
  using assms(1,2)
proof (cases rule: put_service_cases)
  case (enabled item r)
  show ?thesis
  proof (cases "es_Name payload = ''nfs''")
    case True
    with enabled(1) have "map_of (GetServicePlacementTable (nt_nfs N)) ''nfs'' = Some item" by simp
    from nfs_add_rejected [OF this assms(3) [OF True] enabled(2)] assms(5) show ?thesis by simp
  next
    case False
    from proc_invD [OF EnableService_inv [OF table_cases(1) [OF enabled(1) False] assms(4)] enabled(2) assms(5)] show ?thesis .
  qed
qed (use assms(5) in simp)

lemma put_service_records:
  assumes "put_service N payload E s = (SyncOk, s')" "es_Wait payload" "es_Payload payload = None"
  shows "has_row (he_Name E, es_Name payload) (dbs (hs_db s'))"
  using assms(1,2)
proof (cases rule: put_service_cases)
  case (enabled item r)
  with nfs_add_rejected [of "nt_nfs N" item payload E s r s'] assms(3) have nfs: "es_Name payload \<noteq> ''nfs''" by auto
  note t = table_cases [OF enabled(1) nfs]
  from enabled(2,3) obtain p s2 where d: "PopulateParams item E (es_Payload payload) = Inr p" "DbUpdate item E p s2 = (None, s')"
    by (auto elim: EnableService_None)
  with assms(3) t(3) have "es_Name payload \<noteq> ''rgw''" by (auto simp: RgwServicePlacement_def rgw_PopulateParams_def)
  with t(2) d(2) DbUpdate_recorded show ?thesis
    by (auto simp: MonServicePlacement_def GenericServicePlacement_def ClientServicePlacement_def)
qed simp

lemma delete_service_inv:
  assumes "delete_service N svc E s = (resp, s')" "stable_fact Q" "spares_fact Q (he_Name E, svc)" "Q (dbs (hs_db s))"
  shows "Q (dbs (hs_db s'))"
proof -
  have "Q (dbs (hs_db (snd (DeleteService E svc s))))" "svc = ''rgw'' \<Longrightarrow> Q (dbs (hs_db (snd (DisableRGW E s))))"
    using DeleteService_inv [OF assms(2,3)] DisableRGW_inv [OF assms(2)] assms(3,4) by (simp_all add: proc_inv_def)
  with assms(1,4) show ?thesis
    by (auto simp: delete_service_def cmdDeleteService_def cmdRGWServiceDelete_def split: if_splits prod.splits option.splits)
qed

lemma request_cases:
  assumes "request N h target handler st = (r, st')"
  obtains (lost) "r \<noteq> None" "st' = st"
  | (served) resp s1 where "handler ((nt_env N h target)\<lparr>he_Name := target\<rparr>) \<lparr>hs_db = st, hs_log = []\<rparr> = (resp, s1)"
      "r = nt_query N h resp" "st' = hs_db s1"
proof (cases "nt_lost N h")
  case None
  obtain resp s1 where "handler ((nt_env N h target)\<lparr>he_Name := target\<rparr>) \<lparr>hs_db = st, hs_log = []\<rparr> = (resp, s1)"
    by (rule prod.exhaust)
  with None assms show thesis by (intro served) (auto simp: request_def)
next
  case (Some e)
  with assms have "r = Some e" "st' = st" by (auto simp: request_def)
  then show thesis by (intro lost) auto
qed

lemma put_dispatch_inv:
  assumes "SendServicePlacementReq N h \<lparr>es_Name = svc, es_Wait = True, es_Payload = pl\<rparr> m st = (r, st')" "svc = ''nfs'' \<Longrightarrow> pl = None"
    and "stable_fact Q" "Q (dbs st)"
  shows "Q (dbs st')"
proof -
  let ?p = "\<lparr>es_Name = svc, es_Wait = True, es_Payload = pl\<rparr>"
  from assms(1) obtain r0 where "request N h m (put_service N ?p) st = (r0, st')"
    by (cases "request N h m (put_service N ?p) st") (auto simp: SendServicePlacementReq_def wrap_result_def)
  then show ?thesis
  proof (cases rule: request_cases)
    case (served resp s1)
    from put_service_inv [OF served(1) _ _ assms(3)] assms(2,4) served(3) show ?thesis by simp
  qed (use assms(4) in simp)
qed

lemma delete_dispatch_inv:
  assumes "client_DeleteService N h m svc st = (r, st')" "stable_fact Q" "spares_fact Q (m, svc)" "Q (dbs st)"
  shows "Q (dbs st')"
proof -
  from assms(1) obtain r0 where "request N h m (delete_service N svc) st = (r0, st')"
    by (cases "request N h m (delete_service N svc) st") (auto simp: client_DeleteService_def wrap_result_def)
  then show ?thesis
  proof (cases rule: request_cases)
    case (served resp s1)
    from delete_service_inv [OF served(1) assms(2)] assms(3,4) served(3) show ?thesis by simp
  qed (use assms(4) in simp)
qed

text \<open>The row an operation may delete.\<close>

fun deletes :: "dispatch \<Rightarrow> string \<times> string \<Rightarrow> bool" where
  "deletes (RemoveControl m svc) row \<longleftrightarrow> row = (m, svc)"
| "deletes (RemoveRgw m) row \<longleftrightarrow> row = (m, ''rgw'')"
| "deletes _ row \<longleftrightarrow> False"

lemma prod_inv:
  assumes "prod_dispatch N op h st = (r, st')" "stable_fact Q" "\<And>row. deletes op row \<Longrightarrow> spares_fact Q row" "Q (dbs st)"
  shows "Q (dbs st')"
proof (cases "nt_leader N h")
  case (Some e)
  with assms(1,4) show ?thesis
    by (cases op) (auto simp: prod_dispatch_def prodAddControlServiceFunc_def prodRemoveControlServiceFunc_def
        prodEnableRgwServiceFunc_def prodRemoveRgwServiceFunc_def with_leader_def)
next
  case None
  show ?thesis
  proof (cases op)
    case (AddControl m' s')
    with assms(1) None have "SendServicePlacementReq N h \<lparr>es_Name = s', es_Wait = True, es_Payload = None\<rparr> m' st = (r, st')"
      by (simp add: prod_dispatch_def prodAddControlServiceFunc_def with_leader_def)
    from put_dispatch_inv [OF this _ assms(2,4)] show ?thesis by simp
  next
    case (RemoveControl m' s')
    with assms(1) None have "client_DeleteService N h m' s' st = (r, st')"
      by (simp add: prod_dispatch_def prodRemoveControlServiceFunc_def with_leader_def)
    from delete_dispatch_inv [OF this assms(2) _ assms(4)] assms(3) RemoveControl show ?thesis by simp
  next
    case (EnableRgw m' p)
    show ?thesis
    proof (cases "CheckRGWPlacementSupport N h m'")
      case support: None
      with EnableRgw assms(1) None have
        "SendServicePlacementReq N h \<lparr>es_Name = ''rgw'', es_Wait = True, es_Payload = Some (enc_rgw_service p)\<rparr> m' st = (r, st')"
        by (simp add: prod_dispatch_def prodEnableRgwServiceFunc_def with_leader_def)
      from put_dispatch_inv [OF this _ assms(2,4)] show ?thesis by simp
    next
      case (Some e)
      with EnableRgw assms(1,4) None show ?thesis by (simp add: prod_dispatch_def prodEnableRgwServiceFunc_def with_leader_def)
    qed
  next
    case (RemoveRgw m')
    with assms(1) None have "client_DeleteService N h m' ''rgw'' st = (r, st')"
      by (simp add: prod_dispatch_def prodRemoveRgwServiceFunc_def with_leader_def)
    from delete_dispatch_inv [OF this assms(2) _ assms(4)] assms(3) RemoveRgw show ?thesis by simp
  qed
qed

lemma prod_keeps:
  assumes "prod_dispatch N op h st = (r, st')" "(m, svc) \<in> set (db_services (dbs st))"
    "op \<noteq> RemoveControl m svc" "\<not> (op = RemoveRgw m \<and> svc = ''rgw'')"
  shows "(m, svc) \<in> set (db_services (dbs st'))"
proof -
  have "spares_fact (has_row (m, svc)) row" if "deletes op row" for row
    using that assms(3,4) has_row_stable(2) by (cases op) auto
  from prod_inv [OF assms(1) has_row_stable(1) this] assms(2) show ?thesis by (simp add: has_row_def)
qed

lemma prod_add_records:
  assumes "prod_dispatch N (AddControl m svc) h st = (None, st')" "reports_failures N"
  shows "(m, svc) \<in> set (db_services (dbs st'))"
proof -
  let ?p = "\<lparr>es_Name = svc, es_Wait = True, es_Payload = None\<rparr>"
  from assms(1) have "SendServicePlacementReq N h ?p m st = (None, st')"
    by (auto simp: prod_dispatch_def prodAddControlServiceFunc_def with_leader_def split: option.splits)
  then have "request N h m (put_service N ?p) st = (None, st')"
    by (cases "request N h m (put_service N ?p) st") (auto simp: SendServicePlacementReq_def wrap_result_def)
  then show ?thesis
  proof (cases rule: request_cases)
    case (served resp s1)
    with assms(2) have "resp = SyncOk" unfolding reports_failures_def by (metis served(2))
    from put_service_records [OF served(1) [unfolded this]] served(3) show ?thesis by (simp add: has_row_def)
  qed simp
qed

text \<open>The client library's part of the contract as a locale: under it, the production dispatch satisfies
  what the placement engine relies on.\<close>

locale service_client =
  fixes N :: network
  assumes reports: "reports_failures N"

sublocale service_client \<subseteq> prod: service_dispatch "prod_dispatch N"
  by unfold_locales (use prod_add_records reports prod_keeps in blast)+

text \<open>A client that returns an error for every response but success, in front of members on which
  everything works.\<close>

definition plain_network :: network where
  "plain_network = \<lparr>nt_leader = (\<lambda>_. None), nt_lost = (\<lambda>_. None), nt_env = (\<lambda>_ _. sample_host),
     nt_query = (\<lambda>_ r. case r of SyncOk \<Rightarrow> None | SyncFailed e \<Rightarrow> Some e | ErrorResponse c e \<Rightarrow> Some (err_status c (etext e))),
     nt_capabilities = (\<lambda>_ _. Inr [''placement-rgw'']), nt_SmartError = (\<lambda>_. 500), nt_nfs = GenericServicePlacement ''nfs''\<rparr>"

interpretation plain: service_client plain_network
  by unfold_locales (auto simp: reports_failures_def plain_network_def split: response.splits)

end
