(* ===== verification/Placement_Lock.thy ===== *)
theory Placement_Lock
  imports Cluster_DB
begin

text \<open>
  The cluster-wide placement apply lock (\<^verbatim>\<open>ceph/placement.go\<close>, lock functions). The
  lock is a token in the policy row; the token is the acquisition time of its holder, so it is also
  a lease. The locale \<open>lease_lock\<close> states what the conditional UPDATEs promise, the step relation
  \<open>lock_step\<close> lets any number of members lock, work, unlock, crash and retry with skewed clocks, and
  the invariant shows that two holders never overlap while their leases last.
\<close>

section \<open>Taking and releasing the lock\<close>

text \<open>Fifteen minutes in nanoseconds.\<close>

definition placementApplyLease :: int where
  "placementApplyLease = 15 * 60 * 1000000000"

text \<open>The first argument is the local clock reading, \<^verbatim>\<open>time.Now().UnixNano()\<close>.\<close>

definition LockPlacementApply :: "int \<Rightarrow> int tx" where
  "LockPlacementApply now st =
     (let token = now; staleBefore = token - placementApplyLease in
      case Transaction (TryAcquirePlacementApplyLock token staleBefore) st of
        (Inl e, st1) \<Rightarrow> (Inl (err_wrap ''failed to acquire placement apply lock: '' e ''''), st1)
      | (Inr acquired, st1) \<Rightarrow>
          if \<not> acquired
          then (Inl (err_wrap '''' (err_of ErrPlacementApplyInProgress) '': retry after the current apply completes''), st1)
          else (Inr token, st1))"

definition UnlockPlacementApply :: "int \<Rightarrow> unit tx" where
  "UnlockPlacementApply token st =
     (case Transaction (ReleasePlacementApplyLock token) st of
        (Inl e, st1) \<Rightarrow> (Inl (err_wrap ''failed to release placement apply lock: '' e ''''), st1)
      | (Inr released, st1) \<Rightarrow> (Inr (), st1))"

section \<open>What the row operations promise\<close>

definition lock_token :: "cluster_db \<Rightarrow> int" where
  "lock_token d = (case db_policy d of None \<Rightarrow> 0 | Some r \<Rightarrow> pr_apply_lock_token r)"

locale lease_lock =
  fixes token_of :: "'d \<Rightarrow> int"
    and acquire :: "int \<Rightarrow> int \<Rightarrow> 'd \<Rightarrow> nat \<times> 'd"
    and release :: "int \<Rightarrow> 'd \<Rightarrow> nat \<times> 'd"
  assumes acquire_won: "acquire t s d = (1, d') \<Longrightarrow> (token_of d = 0 \<or> token_of d < s) \<and> token_of d' = t"
    and acquire_lost: "acquire t s d = (n, d') \<Longrightarrow> n \<noteq> 1 \<Longrightarrow> d' = d"
    and release_won: "release t d = (1, d') \<Longrightarrow> token_of d = t \<and> token_of d' = 0"
    and release_lost: "release t d = (n, d') \<Longrightarrow> n \<noteq> 1 \<Longrightarrow> d' = d"
begin

text \<open>A live token is never displaced: neither by an acquisition whose staleness bound it meets nor
  by a release with another token.\<close>

lemma acquire_keeps_live:
  assumes "acquire t s d = (n, d')" "token_of d \<noteq> 0" "s \<le> token_of d"
  shows "n \<noteq> 1 \<and> d' = d"
proof -
  have "n \<noteq> 1" using assms acquire_won [of t s d d'] by auto
  with acquire_lost assms(1) show ?thesis by blast
qed

lemma release_keeps_other:
  assumes "release t d = (n, d')" "token_of d \<noteq> t"
  shows "n \<noteq> 1 \<and> d' = d"
proof -
  have "n \<noteq> 1" using assms release_won [of t d d'] by auto
  with release_lost assms(1) show ?thesis by blast
qed

lemma release_frees: "release t d = (n, d') \<Longrightarrow> token_of d' = token_of d \<or> token_of d = t \<and> token_of d' = 0"
  using release_won [of t d d'] release_lost [of t d n d'] by (cases "n = 1") auto

end

interpretation row_lock: lease_lock lock_token acquire_update release_update
  by unfold_locales
    (auto simp: lock_token_def acquire_update_def release_update_def update_policy_def split: option.splits if_splits)

lemma TryAcquire_Inr:
  assumes "TryAcquirePlacementApplyLock t s st = (Inr b, st')"
  shows "\<exists>n. acquire_update t s (dbs st) = (n, dbs st') \<and> b = (n = 1)"
  using assms
  by (auto simp: TryAcquirePlacementApplyLock_def rows_affected_def tx_Inr query_policy_def
      split: if_splits dest!: tx_stmt_Inr)

lemma Release_Inr:
  assumes "ReleasePlacementApplyLock t st = (Inr b, st')"
  shows "\<exists>n. release_update t (dbs st) = (n, dbs st') \<and> b = (n = 1)"
  using assms
  by (auto simp: ReleasePlacementApplyLock_def rows_affected_def tx_Inr dest!: tx_stmt_Inr)

lemma Lock_cases:
  assumes "LockPlacementApply now st = (r, st')"
  shows "(r = Inr now \<and> acquire_update now (now - placementApplyLease) (dbs st) = (1, dbs st')) \<or>
         (is_err r \<and> dbs st' = dbs st)"
proof (cases "Transaction (TryAcquirePlacementApplyLock now (now - placementApplyLease)) st")
  case (Pair res st1)
  show ?thesis
  proof (cases res)
    case (Inl e)
    with Pair assms Transaction_Inl show ?thesis by (auto simp: LockPlacementApply_def Let_def)
  next
    case (Inr b)
    with Pair obtain n where n: "acquire_update now (now - placementApplyLease) (dbs st) = (n, dbs st1)" "b = (n = 1)"
      by (metis Transaction_Inr TryAcquire_Inr)
    with Inr Pair assms show ?thesis
      using row_lock.acquire_lost [OF n(1)] by (auto simp: LockPlacementApply_def Let_def split: if_splits)
  qed
qed

lemma Unlock_cases:
  assumes "UnlockPlacementApply t st = (r, st')"
  shows "(\<exists>n. release_update t (dbs st) = (n, dbs st')) \<or> (is_err r \<and> dbs st' = dbs st)"
proof (cases "Transaction (ReleasePlacementApplyLock t) st")
  case (Pair res st1)
  show ?thesis
  proof (cases res)
    case (Inl e)
    with Pair assms Transaction_Inl show ?thesis by (auto simp: UnlockPlacementApply_def)
  next
    case (Inr b)
    with Pair have "\<exists>n. release_update t (dbs st) = (n, dbs st1)" by (metis Transaction_Inr Release_Inr)
    with Inr Pair assms show ?thesis by (auto simp: UnlockPlacementApply_def)
  qed
qed

section \<open>Contending members\<close>

text \<open>Any number of request handlers, named by numbers, share the database. A holder is recorded with
  the true time of its acquisition and its token; the clocks of the members differ from true time by
  at most \<open>\<delta>\<close>. The step \<open>other\<close> stands for every other database access of the program: it may change
  any table but not the lock token.\<close>

record lock_sys =
  ls_now :: int
  ls_st :: dbst
  ls_holder :: "nat \<Rightarrow> (int \<times> int) option"

inductive lock_step :: "int \<Rightarrow> lock_sys \<Rightarrow> lock_sys \<Rightarrow> bool" for \<delta> :: int where
  tick: "0 \<le> dt \<Longrightarrow> lock_step \<delta> s (s\<lparr>ls_now := ls_now s + dt\<rparr>)"
| lock: "\<bar>skew\<bar> \<le> \<delta> \<Longrightarrow> 0 < ls_now s + skew \<Longrightarrow> ls_holder s c = None \<Longrightarrow>
    LockPlacementApply (ls_now s + skew) (ls_st s) = (Inr token, st') \<Longrightarrow>
    lock_step \<delta> s (s\<lparr>ls_st := st', ls_holder := (ls_holder s)(c := Some (ls_now s, token))\<rparr>)"
| refused: "LockPlacementApply t (ls_st s) = (Inl e, st') \<Longrightarrow> lock_step \<delta> s (s\<lparr>ls_st := st'\<rparr>)"
| unlock: "ls_holder s c = Some (a, token) \<Longrightarrow> UnlockPlacementApply token (ls_st s) = (r, st') \<Longrightarrow>
    lock_step \<delta> s (s\<lparr>ls_st := st', ls_holder := (ls_holder s)(c := None)\<rparr>)"
| crash: "lock_step \<delta> s (s\<lparr>ls_holder := (ls_holder s)(c := None)\<rparr>)"
| other: "lock_token (dbs st') = lock_token (dbs (ls_st s)) \<Longrightarrow> lock_step \<delta> s (s\<lparr>ls_st := st'\<rparr>)"

inductive_cases lock_stepE: "lock_step \<delta> s s'"

definition lease_live :: "int \<Rightarrow> lock_sys \<Rightarrow> int \<Rightarrow> bool" where
  "lease_live \<delta> s a \<longleftrightarrow> ls_now s - a \<le> placementApplyLease - 2 * \<delta>"

definition sys_token :: "lock_sys \<Rightarrow> int" where
  "sys_token s = lock_token (dbs (ls_st s))"

definition lock_inv :: "int \<Rightarrow> lock_sys \<Rightarrow> bool" where
  "lock_inv \<delta> s \<longleftrightarrow>
     (\<forall>c a t. ls_holder s c = Some (a, t) \<longrightarrow>
        a \<le> ls_now s \<and> \<bar>t - a\<bar> \<le> \<delta> \<and> 0 < t \<and> (lease_live \<delta> s a \<longrightarrow> sys_token s = t)) \<and>
     (\<forall>c c' a a'. ls_holder s c = Some (a, sys_token s) \<longrightarrow> ls_holder s c' = Some (a', sys_token s) \<longrightarrow> c = c')"

lemma lock_invD:
  assumes "lock_inv \<delta> s" "ls_holder s c = Some (a, t)"
  shows "a \<le> ls_now s" "\<bar>t - a\<bar> \<le> \<delta>" "0 < t" "lease_live \<delta> s a \<Longrightarrow> sys_token s = t"
  using assms by (auto simp: lock_inv_def)

lemma lock_invI:
  assumes "\<And>c a t. ls_holder s c = Some (a, t) \<Longrightarrow>
      a \<le> ls_now s \<and> \<bar>t - a\<bar> \<le> \<delta> \<and> 0 < t \<and> (lease_live \<delta> s a \<longrightarrow> sys_token s = t)"
    and "\<And>c c' a a'. ls_holder s c = Some (a, sys_token s) \<Longrightarrow> ls_holder s c' = Some (a', sys_token s) \<Longrightarrow> c = c'"
  shows "lock_inv \<delta> s"
  using assms unfolding lock_inv_def by blast

lemma lock_inv_unique:
  "lock_inv \<delta> s \<Longrightarrow> ls_holder s c = Some (a, sys_token s) \<Longrightarrow> ls_holder s c' = Some (a', sys_token s) \<Longrightarrow> c = c'"
  unfolding lock_inv_def by blast

text \<open>An acquisition finds no live holder, and none with the token it installs.\<close>

lemma lock_finds_expired:
  assumes inv: "lock_inv \<delta> s" and sk: "\<bar>skew\<bar> \<le> \<delta>" and d: "4 * \<delta> \<le> placementApplyLease"
    and acq: "acquire_update (ls_now s + skew) (ls_now s + skew - placementApplyLease) (dbs (ls_st s)) = (1, d')"
    and h: "ls_holder s c = Some (a, t)"
  shows "\<not> lease_live \<delta> s a \<and> t \<noteq> ls_now s + skew"
proof -
  note facts = lock_invD [OF inv h]
  have free: "sys_token s = 0 \<or> sys_token s < ls_now s + skew - placementApplyLease"
    using row_lock.acquire_won [OF acq] by (simp add: sys_token_def)
  have dead: "\<not> lease_live \<delta> s a"
  proof
    assume live: "lease_live \<delta> s a"
    with facts(3,4) free have "t < ls_now s + skew - placementApplyLease" by auto
    with facts(2) sk live show False by (simp add: lease_live_def)
  qed
  moreover have "t = ls_now s + skew \<Longrightarrow> lease_live \<delta> s a"
    using facts(2) sk d by (simp add: lease_live_def)
  ultimately show ?thesis by blast
qed

lemma lock_inv_lock:
  assumes inv: "lock_inv \<delta> s" and sk: "\<bar>skew\<bar> \<le> \<delta>" and d: "4 * \<delta> \<le> placementApplyLease"
    and pos: "0 < ls_now s + skew"
    and acq: "acquire_update (ls_now s + skew) (ls_now s + skew - placementApplyLease) (dbs (ls_st s)) = (1, dbs st')"
  shows "lock_inv \<delta> (s\<lparr>ls_st := st', ls_holder := (ls_holder s)(c := Some (ls_now s, ls_now s + skew))\<rparr>)"
proof -
  have tok: "lock_token (dbs st') = ls_now s + skew" using row_lock.acquire_won [OF acq] by simp
  show ?thesis
    using lock_finds_expired [OF inv sk d acq] lock_invD(1-3) [OF inv] sk pos
    by (auto simp: lock_inv_def tok sys_token_def lease_live_def)
qed

lemma lock_inv_unlock:
  assumes inv: "lock_inv \<delta> s" and h: "ls_holder s c = Some (a, t)"
    and d: "lock_token (dbs st') = sys_token s \<or> sys_token s = t \<and> lock_token (dbs st') = 0"
  shows "lock_inv \<delta> (s\<lparr>ls_st := st', ls_holder := (ls_holder s)(c := None)\<rparr>)"
proof (cases "lock_token (dbs st') = sys_token s")
  case True
  then show ?thesis using inv by (auto simp: lock_inv_def sys_token_def lease_live_def)
next
  case False
  with d have t: "sys_token s = t" "lock_token (dbs st') = 0" by auto
  have dead: "\<not> lease_live \<delta> s a'" if "c' \<noteq> c" "ls_holder s c' = Some (a', t')" for c' a' t'
  proof
    assume "lease_live \<delta> s a'"
    with lock_invD(4) [OF inv that(2)] have "sys_token s = t'" by simp
    with lock_inv_unique [OF inv] h t(1) that show False by auto
  qed
  let ?s' = "s\<lparr>ls_st := st', ls_holder := (ls_holder s)(c := None)\<rparr>"
  show ?thesis
  proof (rule lock_invI)
    fix c' a' t' assume "ls_holder ?s' c' = Some (a', t')"
    then have c': "c' \<noteq> c" "ls_holder s c' = Some (a', t')" by (auto split: if_splits)
    with lock_invD(1-3) [OF inv c'(2)] dead [OF c']
    show "a' \<le> ls_now ?s' \<and> \<bar>t' - a'\<bar> \<le> \<delta> \<and> 0 < t' \<and> (lease_live \<delta> ?s' a' \<longrightarrow> sys_token ?s' = t')"
      by (simp add: lease_live_def)
  next
    fix c1 c2 a1 a2 assume "ls_holder ?s' c1 = Some (a1, sys_token ?s')"
    then have "ls_holder s c1 = Some (a1, 0)" using t(2) by (auto simp: sys_token_def split: if_splits)
    with lock_invD(3) [OF inv] show "c1 = c2" by fastforce
  qed
qed

lemma lock_inv_step:
  assumes "lock_step \<delta> s s'" "lock_inv \<delta> s" "0 \<le> \<delta>" "4 * \<delta> \<le> placementApplyLease"
  shows "lock_inv \<delta> s'"
  using assms(1)
proof (cases rule: lock_step.cases)
  case (tick dt)
  show ?thesis
  proof (rule lock_invI)
    fix c a t assume "ls_holder s' c = Some (a, t)"
    with tick have "ls_holder s c = Some (a, t)" by simp
    from lock_invD [OF assms(2) this] tick
    show "a \<le> ls_now s' \<and> \<bar>t - a\<bar> \<le> \<delta> \<and> 0 < t \<and> (lease_live \<delta> s' a \<longrightarrow> sys_token s' = t)"
      by (simp add: lease_live_def sys_token_def)
  qed (use tick lock_inv_unique [OF assms(2)] in \<open>simp add: sys_token_def\<close>)
next
  case (lock skew c token st')
  from Lock_cases [OF lock(5)] have "token = ls_now s + skew"
    "acquire_update (ls_now s + skew) (ls_now s + skew - placementApplyLease) (dbs (ls_st s)) = (1, dbs st')" by auto
  with lock assms lock_inv_lock [of \<delta> s skew st' c] show ?thesis by simp
next
  case (refused t e st')
  from Lock_cases [OF refused(2)] have "dbs st' = dbs (ls_st s)" by auto
  with refused(1) assms(2) show ?thesis by (simp add: lock_inv_def lease_live_def sys_token_def)
next
  case (unlock c a token r st')
  from Unlock_cases [OF unlock(3)]
  have "lock_token (dbs st') = sys_token s \<or> sys_token s = token \<and> lock_token (dbs st') = 0"
    using row_lock.release_frees by (auto simp: sys_token_def)
  with unlock assms(2) lock_inv_unlock show ?thesis by blast
next
  case (crash c)
  with assms(2) show ?thesis by (auto simp: lock_inv_def lease_live_def sys_token_def)
next
  case (other st')
  with assms(2) show ?thesis by (simp add: lock_inv_def lease_live_def sys_token_def)
qed

lemma lock_inv_reachable:
  assumes "(lock_step \<delta>)\<^sup>*\<^sup>* s0 s" "ls_holder s0 = (\<lambda>_. None)" "0 \<le> \<delta>" "4 * \<delta> \<le> placementApplyLease"
  shows "lock_inv \<delta> s"
  using assms(1)
proof (induction rule: rtranclp_induct)
  case base
  from assms(2) show ?case by (simp add: lock_inv_def)
next
  case (step y z)
  with assms(3,4) lock_inv_step show ?case by blast
qed

text \<open>The other operations on the policy row leave the lock alone.\<close>

lemma policy_ops_keep_lock:
  "SetPlacementPolicy a j st = (Inr v, st') \<Longrightarrow> lock_token (dbs st') = lock_token (dbs st)"
  "db_ClearPlacementPolicy st = (Inr v, st') \<Longrightarrow> lock_token (dbs st') = lock_token (dbs st)"
  "SetPlacementRefusal r st = (Inr v, st') \<Longrightarrow> lock_token (dbs st') = lock_token (dbs st)"
  by (auto simp: lock_token_def dest!: SetPlacementPolicy_Inr ClearPlacementPolicy_Inr SetPlacementRefusal_Inr)

section \<open>Properties\<close>

text \<open>C28 (invariant). Mutual exclusion of placement applies: along every run of any number of
  members, with database failures, crashes and clocks up to \<open>\<delta>\<close> off, two different requests never
  hold the lock at the same time while their leases last (the lease less twice the clock error).\<close>

theorem lock_mutual_exclusion:
  assumes "0 \<le> \<delta>" "4 * \<delta> \<le> placementApplyLease"
    and "ls_holder s0 = (\<lambda>_. None)" "(lock_step \<delta>)\<^sup>*\<^sup>* s0 s"
    and "ls_holder s c = Some (a, t)" "lease_live \<delta> s a"
    and "ls_holder s c' = Some (a', t')" "lease_live \<delta> s a'"
  shows "c = c' \<and> sys_token s = t"
proof -
  have inv: "lock_inv \<delta> s" using lock_inv_reachable assms(1-4) by blast
  have "sys_token s = t" "sys_token s = t'"
    using lock_invD(4) [OF inv assms(5,6)] lock_invD(4) [OF inv assms(7,8)] by auto
  with assms(5,7) lock_inv_unique [OF inv] show ?thesis by blast
qed

definition sample_db :: cluster_db where
  "sample_db = \<lparr>db_members = [''n1'', ''n2''], db_services = [], db_grouped = [], db_rgw_frontends = [],
     db_config = [], db_policy = Some \<lparr>pr_active = 0, pr_policy_json = None, pr_last_refusal = None, pr_apply_lock_token = 0\<rparr>,
     db_lifecycle = Some \<lparr>CephBootstrapState = CephStateNotBootstrapped, CephBootstrapTarget = '''', Detail = ''''\<rparr>\<rparr>"

definition sample_sys :: lock_sys where
  "sample_sys = \<lparr>ls_now = 1000, ls_st = \<lparr>dbs = sample_db, faults = []\<rparr>, ls_holder = (\<lambda>_. None)\<rparr>"

lemma Lock_no_faults:
  "LockPlacementApply now \<lparr>dbs = d, faults = []\<rparr> =
     (if lock_token d = 0 \<or> lock_token d < now - placementApplyLease
      then (case db_policy d of
              None \<Rightarrow> (Inl (err_wrap ''failed to acquire placement apply lock: ''
                        (err_new (''failed to read placement apply lock token: '' @ no_rows)) ''''), \<lparr>dbs = d, faults = []\<rparr>)
            | Some r \<Rightarrow> (Inr now, \<lparr>dbs = d\<lparr>db_policy := Some (r\<lparr>pr_apply_lock_token := now\<rparr>)\<rparr>, faults = []\<rparr>))
      else (Inl (err_wrap '''' (err_of ErrPlacementApplyInProgress) '': retry after the current apply completes''),
            \<lparr>dbs = d, faults = []\<rparr>))"
  by (simp add: LockPlacementApply_def Transaction_def TryAcquirePlacementApplyLock_def tx_bind_def rows_affected_def
      query_policy_def acquire_update_def update_policy_def lock_token_def Let_def split: option.split)

theorem lock_mutual_exclusion_witness:
  "\<exists>s. lock_step 5 sample_sys s \<and> ls_holder s 7 = Some (1000, 1002) \<and> sys_token s = 1002"
proof -
  let ?d = "sample_db\<lparr>db_policy := Some \<lparr>pr_active = 0, pr_policy_json = None, pr_last_refusal = None, pr_apply_lock_token = 1002\<rparr>\<rparr>"
  let ?s = "sample_sys\<lparr>ls_st := \<lparr>dbs = ?d, faults = []\<rparr>, ls_holder := (ls_holder sample_sys)(7 := Some (ls_now sample_sys, 1002))\<rparr>"
  have "LockPlacementApply (ls_now sample_sys + 2) (ls_st sample_sys) = (Inr 1002, \<lparr>dbs = ?d, faults = []\<rparr>)"
    by (simp add: Lock_no_faults sample_sys_def sample_db_def lock_token_def)
  then have step: "lock_step 5 sample_sys ?s"
    using lock_step.lock [of 2 5 sample_sys 7] by (simp add: sample_sys_def)
  have "(7 :: nat) = 7 \<and> sys_token ?s = 1002"
    by (rule lock_mutual_exclusion [of 5 sample_sys ?s 7 1000 1002 7 1000 1002])
      (use step in \<open>auto simp: placementApplyLease_def sample_sys_def lease_live_def\<close>)
  with step show ?thesis by (intro exI [of _ ?s]) (simp add: sample_sys_def)
qed

text \<open>When the database answers, the lock is taken exactly when it is free or its
  holder's lease has run out; otherwise the caller gets the retryable in-progress error and the
  database is untouched.\<close>

theorem lock_granted_iff:
  "case LockPlacementApply now \<lparr>dbs = d, faults = []\<rparr> of
     (Inr token, st') \<Rightarrow> token = now \<and> lock_token (dbs st') = now \<and> db_policy d \<noteq> None \<and>
        (lock_token d = 0 \<or> lock_token d < now - placementApplyLease)
   | (Inl e, st') \<Rightarrow> dbs st' = d \<and>
        (db_policy d = None \<or>
         errors_Is e ErrPlacementApplyInProgress \<and> lock_token d \<noteq> 0 \<and> now - placementApplyLease \<le> lock_token d)"
  by (simp add: Lock_no_faults split: option.split) (simp add: lock_token_def)

text \<open>Releasing with a token that is no longer the current one changes nothing: a
  holder whose lease was reclaimed cannot free the lock of its successor.\<close>

theorem unlock_spares_successor:
  assumes "lock_token (dbs st) \<noteq> token"
  shows "dbs (snd (UnlockPlacementApply token st)) = dbs st"
proof -
  obtain r st' where u: "UnlockPlacementApply token st = (r, st')" by (rule prod.exhaust)
  from Unlock_cases [OF u] show ?thesis
    using row_lock.release_keeps_other assms u by auto
qed

theorem unlock_spares_successor_witness:
  "dbs (snd (UnlockPlacementApply 5 \<lparr>dbs = sample_db, faults = []\<rparr>)) = sample_db"
  using unlock_spares_successor [of "\<lparr>dbs = sample_db, faults = []\<rparr>" 5] by (simp add: sample_db_def lock_token_def)

end
