(* ===== verification/Placement_Claims.thy ===== *)
theory Placement_Claims
  imports Service_Placement Placement_Lock
begin

text \<open>
  The placement properties: normalization and storage of policies, the storage gate, the order and
  the extent of what a reconciliation dispatches, and the keep-one guarantee for the dispatch that
  production uses. Each rests on the lemmas of the component it is about.
\<close>

section \<open>Sample configurations\<close>

definition two_policy :: placement_policy where
  "two_policy = \<lparr>pp_Mode = ''reconcile'', pp_Members = Some
     [(''n1'', member_zero\<lparr>mp_Control := Some True, mp_StorageEligible := Some True\<rparr>), (''n2'', member_zero\<lparr>mp_Control := Some False\<rparr>)]\<rparr>"

definition two_db :: cluster_db where
  "two_db = booted_db\<lparr>db_services := [(''n2'', ''mon''), (''n2'', ''mgr''), (''n2'', ''mds'')],
     db_policy := Some \<lparr>pr_active = 0, pr_policy_json = None, pr_last_refusal = None, pr_apply_lock_token = 0\<rparr>\<rparr>"

definition two_engine :: engine where
  "two_engine = \<lparr>e_st = \<lparr>dbs = two_db, faults = []\<rparr>, e_trace = []\<rparr>"

definition calm_hooks :: hooks where
  "calm_hooks = \<lparr>hk_dispatch = (\<lambda>op h st. (None, st)), hk_ready = (\<lambda>_ _. True), hk_sched = (\<lambda>_ ks. ks), hk_server_cert = True,
     hk_members = Inr [''n1'', ''n2''], hk_tls = \<lparr>base64_decode = Some, x509_key_pair = (\<lambda>_ _. True)\<rparr>\<rparr>"

definition prod_hooks :: hooks where
  "prod_hooks = calm_hooks\<lparr>hk_dispatch := prod_dispatch plain_network\<rparr>"

lemma two_policy_simps [simp]:
  "members_of two_policy = [(''n1'', member_zero\<lparr>mp_Control := Some True, mp_StorageEligible := Some True\<rparr>),
     (''n2'', member_zero\<lparr>mp_Control := Some False\<rparr>)]" "wf_policy two_policy"
  by (simp_all add: two_policy_def members_of_def wf_policy_def)

lemma calm_simps [simp]: "hk_server_cert calm_hooks" "never_fails calm_hooks"
  by (simp_all add: calm_hooks_def never_fails_def)

section \<open>Policies\<close>

text \<open>An RGW entry that passes normalization is normal (ports within bounds, distinct
  listeners, TLS material only with TLS and only in pairs, nothing left on a disabled gateway) and
  normalizing it again changes nothing.\<close>

theorem rgw_normalization:
  assumes "Normalized T r = Inr r'"
  shows "normal_rgw r' \<and> Normalized T r' = Inr r'"
  using Normalized_normal [OF assms] Normalized_again [OF assms] by blast

theorem rgw_normalization_witness:
  "normal_rgw \<lparr>rp_Enabled = Some True, rp_SSL = Some True, rp_Port = 8080, rp_SSLPort = 443, rp_SSLCertificate = '''', rp_SSLPrivateKey = ''''\<rparr>"
proof -
  let ?r = "\<lparr>rp_Enabled = Some True, rp_SSL = Some True, rp_Port = 8080, rp_SSLPort = 0, rp_SSLCertificate = '''', rp_SSLPrivateKey = ''''\<rparr>"
  have "Normalized (hk_tls calm_hooks) ?r = Inr (?r\<lparr>rp_SSLPort := 443\<rparr>)" by (simp add: Normalized_def NormalizeRGWPorts_def)
  from rgw_normalization [OF this] show ?thesis by simp
qed

text \<open>A policy with distinct members and 64-bit ports, encoded for storage and decoded
  again (strictly or not), has the same mode and the same entry for every member.\<close>

theorem policy_json_roundtrip:
  assumes "wf_policy p" "\<forall>(n, mp) \<in> set (members_of p). wf_ports mp"
  shows "\<exists>p'. dec_policy G strict (enc_policy p) = Some p' \<and> pp_Mode p' = pp_Mode p \<and> (\<forall>n. member_entry p' n = member_entry p n)"
  using dec_enc_policy [OF assms] member_entry_sorted [OF assms(1)] by (simp add: sorted_policy_def)

theorem policy_json_roundtrip_witness:
  "\<exists>p'. dec_policy plain_lib True (enc_policy two_policy) = Some p' \<and> pp_Mode p' = pp_Mode two_policy \<and>
     (\<forall>n. member_entry p' n = member_entry two_policy n)"
  by (rule policy_json_roundtrip) (simp_all add: wf_ports_def member_zero_def)

section \<open>Readiness\<close>

text \<open>Polling a control service ends once the deadline passes, the request ends or
  the service is ready, and it reports ready exactly when a poll saw the service ready before any
  earlier poll had to stop.\<close>

theorem readiness_wait:
  assumes "\<exists>p \<in> set ps. stops p \<or> pl_check p = Inr True"
  shows "\<exists>b. waitForControlServiceReady ps = Some b \<and>
    (b \<longleftrightarrow> (\<exists>i < length ps. pl_check (ps ! i) = Inr True \<and> (\<forall>j < i. \<not> stops (ps ! j))))"
  using wait_ends [OF assms] wait_true_iff [of ps] by auto

theorem readiness_wait_witness:
  "\<exists>b. waitForControlServiceReady [\<lparr>pl_check = Inl (err_new ''down''), pl_ctx_err = False, pl_past_deadline = False, pl_ctx_done = False\<rparr>,
       \<lparr>pl_check = Inr True, pl_ctx_err = False, pl_past_deadline = True, pl_ctx_done = False\<rparr>] = Some b \<and> b"
proof -
  let ?ps = "[\<lparr>pl_check = Inl (err_new ''down''), pl_ctx_err = False, pl_past_deadline = False, pl_ctx_done = False\<rparr>,
       \<lparr>pl_check = Inr True, pl_ctx_err = False, pl_past_deadline = True, pl_ctx_done = False\<rparr>]"
  have "\<exists>p \<in> set ?ps. stops p \<or> pl_check p = Inr True" by simp
  from readiness_wait [OF this] show ?thesis by auto
qed

section \<open>Reconciliation\<close>




lemma two_observed:
  "\<exists>obs. getObservedControlServicesFunc (e_st two_engine) = (Inr obs, e_st two_engine)"
  by (simp add: getObservedControlServicesFunc_def Transaction_def two_engine_def GetServices_def tx_bind_def)


section \<open>Keep-one in production\<close>

lemma prod_is_dispatch: "reports_failures N \<Longrightarrow> service_dispatch (prod_dispatch N)"
  by unfold_locales (use prod_add_records prod_keeps in blast)+

lemma reconcile_keeps:
  assumes "reports_failures N" "hk_dispatch H = prod_dispatch N" "e_trace w = []"
    "svc \<in> set controlServices" "(m0, svc) \<in> set (db_services (dbs (e_st w)))" "reconcilePlacement H policy w = (r, w')"
  shows "\<exists>m. (m, svc) \<in> set (db_services (dbs (e_st w')))"
  using service_dispatch.reconcile_keeps_one [OF prod_is_dispatch [OF assms(1)] assms(2,6,3,4), of m0] assms(5)
  by (simp add: service_dispatch.recorded_def [OF prod_is_dispatch [OF assms(1)]])

lemma clear_refusal_services: "db_services (dbs (snd (setPlacementRefusal m st))) = db_services (dbs st)"
  unfolding setPlacementRefusal_def
  by (rule Transaction_keeps [where P = "\<lambda>d. db_services d = db_services (dbs st)"]) (auto dest!: SetPlacementRefusal_Inr)

lemma refuse_services: "refuse e w = (r, w') \<Longrightarrow> db_services (dbs (e_st w')) = db_services (dbs (e_st w))"
  using clear_refusal_services by (auto simp: refuse_def recordPlacementRefusal_def)

lemma store_services:
  assumes "storePlacementPolicy p st = (r, st')"
  shows "db_services (dbs st') = db_services (dbs st)"
proof -
  have "db_services (dbs (snd (storePlacementPolicy p st))) = db_services (dbs st)"
    unfolding storePlacementPolicy_def
    by (rule Transaction_keeps [where P = "\<lambda>d. db_services d = db_services (dbs st)"]) (auto dest!: SetPlacementPolicy_Inr)
  with assms show ?thesis by simp
qed

text \<open>C24 (invariant). Applying a placement policy with the production dispatch never loses the last
  record of a control service: a monitor, manager or metadata service that is on record on some member
  is on record on some member afterwards, whatever fails on the way (members, network, database).\<close>

theorem apply_keeps_one:
  assumes "reports_failures N" "hk_dispatch H = prod_dispatch N" "e_trace w = []"
    and "svc \<in> set controlServices" "(m0, svc) \<in> set (db_services (dbs (e_st w)))"
  shows "\<exists>m. (m, svc) \<in> set (db_services (dbs (e_st (snd (ApplyPlacementPolicy H policy w)))))"
proof (cases "normalizePlacement H policy")
  case (Inl e)
  obtain r w' where f: "refuse e w = (r, w')" by (rule prod.exhaust)
  with Inl refuse_services [OF f] assms(5) show ?thesis by (auto simp: ApplyPlacementPolicy_def)
next
  case n: (Inr p)
  obtain v st1 where v: "ValidatePlacement H p (e_st w) = (v, st1)" by (rule prod.exhaust)
  then have d1: "dbs st1 = dbs (e_st w)" using validate_keeps [of H p "e_st w"] by simp
  obtain s st2 where s: "storePlacementPolicy p st1 = (s, st2)" by (rule prod.exhaust)
  have d2: "db_services (dbs st2) = db_services (dbs (e_st w))" using store_services [OF s] d1 by simp
  obtain c w3 where c: "reconcilePlacement H p (w\<lparr>e_st := st2\<rparr>) = (c, w3)" by (rule prod.exhaust)
  have one: "\<exists>m. (m, svc) \<in> set (db_services (dbs (e_st w3)))"
    by (rule reconcile_keeps [OF assms(1,2) _ assms(4) _ c, of m0]) (use assms(3,5) d2 in simp_all)
  have "db_services (dbs (e_st (snd (refuse e u)))) = db_services (dbs (e_st u))" for e u
    by (cases "refuse e u") (simp add: refuse_services)
  then show ?thesis
    using n v s c one d1 d2 assms(5) clear_refusal_services by (cases v; cases s; cases c) (auto simp: ApplyPlacementPolicy_def)
qed

theorem apply_keeps_one_witness:
  "\<exists>m. (m, ''mon'') \<in> set (db_services (dbs (e_st (snd (ApplyPlacementPolicy prod_hooks two_policy two_engine)))))"
  by (rule apply_keeps_one [of plain_network _ _ _ "''n2''"])
    (simp_all add: plain.reports prod_hooks_def two_engine_def two_db_def controlServices_def)

section \<open>Storage\<close>

lemma policy_stable: "stable_fact (\<lambda>d. policy_core d = c)" "spares_fact (\<lambda>d. policy_core d = c) row"
  by (auto simp: stable_fact_def spares_fact_def policy_core_def)

lemma prod_preserves_policy:
  assumes "hk_dispatch H = prod_dispatch N"
  shows "preserved H (\<lambda>d. policy_core d = c)"
  unfolding preserved_def assms
proof (intro allI impI)
  fix op h and st :: dbst assume q: "policy_core (dbs st) = c"
  obtain r st' where d: "prod_dispatch N op h st = (r, st')" by (rule prod.exhaust)
  from prod_inv [where Q = "\<lambda>d. policy_core d = c", OF d policy_stable q] d show "policy_core (dbs (snd (prod_dispatch N op h st))) = c"
    by simp
qed



text \<open>The storage gate fails closed: an OSD may be enrolled on a member only when no
  placement policy is active or when the stored policy reads and names the member as eligible for
  storage; every failure to read the policy refuses.\<close>

theorem storage_gate_closed:
  assumes "checkStorageEligibility G True m st = (None, st')"
  shows "\<exists>r. db_policy (dbs st) = Some r \<and>
    (pr_active r = 0 \<or> (\<exists>j p mp. pr_policy_json r = Some j \<and> dec_policy G False j = Some p \<and>
       member_entry p m = Some mp \<and> mp_StorageEligible mp = Some True))"
  by (rule gate_closed [OF assms])

theorem storage_gate_closed_witness:
  "\<exists>r. db_policy two_db = Some r \<and> pr_active r = 0"
proof -
  have "checkStorageEligibility plain_lib True ''n1'' \<lparr>dbs = two_db, faults = []\<rparr> = (None, \<lparr>dbs = two_db, faults = []\<rparr>)"
    by (simp add: checkStorageEligibility_def Transaction_def GetPlacementPolicy_def query_policy_def tx_bind_def two_db_def)
  from storage_gate_closed [OF this] show ?thesis by (auto simp: two_db_def)
qed

text \<open>C37 (refinement). The gate implements the applied policy: once a normalized policy is stored, on a
  database that does not fail, enrollment on a member is allowed exactly when the policy has an entry
  for it that sets storage eligibility to true.\<close>

theorem storage_gate_refines:
  assumes "normal_policy p" "policy_core d = Some (1, Some (placementPolicyJSON p))"
  shows "fst (checkStorageEligibility G True m \<lparr>dbs = d, faults = []\<rparr>) = None \<longleftrightarrow>
    (\<exists>mp. member_entry p m = Some mp \<and> mp_StorageEligible mp = Some True)"
proof -
  from assms(2) obtain r where r: "db_policy d = Some r" "pr_active r = 1" "pr_policy_json r = Some (placementPolicyJSON p)"
    by (auto simp: policy_core_def)
  have e: "member_entry (sorted_policy (policyForStorage p)) m = map_option strip_secrets (member_entry p m)"
    using assms(1) member_entry_sorted [of "policyForStorage p"] by (simp add: normal_policy_def wf_policyForStorage member_entry_storage)
  have t: "Transaction GetPlacementPolicy \<lparr>dbs = d, faults = []\<rparr> =
      (Inr \<lparr>rec_Active = True, rec_PolicyJSON = Some (placementPolicyJSON p),
             rec_LastRefusal = (case pr_last_refusal r of None \<Rightarrow> '''' | Some s \<Rightarrow> s)\<rparr>, \<lparr>dbs = d, faults = []\<rparr>)"
    using r by (simp add: Transaction_def GetPlacementPolicy_def query_policy_def tx_bind_def)
  note gate = checkStorageEligibility_def t stored_reads_back [OF assms(1), of G False] e
  show ?thesis
  proof (cases "member_entry p m")
    case None
    then show ?thesis by (simp add: gate)
  next
    case (Some mp)
    have "mp_StorageEligible (strip_secrets mp) = mp_StorageEligible mp" by (simp add: strip_secrets_def)
    with Some bool_opt_cases [of "mp_StorageEligible mp"] show ?thesis by (elim disjE) (simp_all add: gate)
  qed
qed

theorem storage_gate_refines_witness:
  "fst (checkStorageEligibility plain_lib True ''n1''
      \<lparr>dbs = two_db\<lparr>db_policy := Some \<lparr>pr_active = 1, pr_policy_json = Some (placementPolicyJSON two_policy), pr_last_refusal = None,
         pr_apply_lock_token = 0\<rparr>\<rparr>, faults = []\<rparr>) = None"
proof -
  have n: "normal_policy two_policy" by (simp add: normal_policy_def member_zero_def)
  let ?d = "two_db\<lparr>db_policy := Some \<lparr>pr_active = 1, pr_policy_json = Some (placementPolicyJSON two_policy), pr_last_refusal = None,
         pr_apply_lock_token = 0\<rparr>\<rparr>"
  have "policy_core ?d = Some (1, Some (placementPolicyJSON two_policy))" by (simp add: policy_core_def)
  from storage_gate_refines [OF n this, of plain_lib "''n1''"] show ?thesis by (simp add: member_entry_def member_zero_def)
qed

section \<open>Service operations on a member\<close>

lemma on_db_Some: "on_db (Transaction t) s = (Some e, s') \<Longrightarrow> dbs (hs_db s') = dbs (hs_db s) \<and> hs_log s' = hs_log s"
  by (auto simp: on_db_def split: prod.splits sum.splits dest: Transaction_Inl)

lemma leavesD: "leaves_db f \<Longrightarrow> f s = (r, s') \<Longrightarrow> dbs (hs_db s') = dbs (hs_db s)"
  by (metis leaves_db_def snd_conv)

lemma DeleteService_row_Inr:
  assumes "DeleteService_row m svc st = (Inr v, st')"
  shows "set (db_services (dbs st')) = set (db_services (dbs st)) - {(m, svc)}"
proof -
  from assms have "dbs st' = (dbs st)\<lparr>db_services := filter (\<lambda>r. r \<noteq> (m, svc)) (db_services (dbs st))\<rparr>"
    by (auto simp: DeleteService_row_def tx_Inr split: if_splits dest!: tx_stmt_Inr)
  then show ?thesis by auto
qed

text \<open>After the row itself, the remaining statements of a removal do not touch the service table.\<close>

lemma services_fixed: "tx_inv (\<lambda>d. db_services d = x) (DeleteConfigItem k)" "tx_inv (\<lambda>d. db_services d = x) (DeleteRGWFrontendByMember m)"
  unfolding DeleteConfigItem_def DeleteRGWFrontendByMember_def by (intro tx_inv_rules tx_inv_stmt; auto)+

lemma remove_rows_Inr:
  assumes "remove_service_rows m svc st = (Inr v, st')" "svc \<noteq> ''rgw''"
  shows "set (db_services (dbs st')) = set (db_services (dbs st)) - {(m, svc)}"
proof -
  from assms obtain u st1 w st2 where r: "DeleteService_row m svc st = (Inr u, st1)"
      "(if svc = ''mon'' then DeleteConfigItem (''mon.host.'' @ m) else tx_return ()) st1 = (Inr w, st2)" "st' = st2"
    by (auto simp: remove_service_rows_def tx_Inr)
  have "tx_inv (\<lambda>d. db_services d = db_services (dbs st1)) (if svc = ''mon'' then DeleteConfigItem (''mon.host.'' @ m) else tx_return ())"
    by (intro tx_inv_if services_fixed tx_inv_return)
  from tx_invD [OF this r(2)] r(3) DeleteService_row_Inr [OF r(1)] show ?thesis by simp
qed

lemma removeServiceDatabase_cases:
  assumes "removeServiceDatabase E svc s = (r, s')" "svc \<noteq> ''rgw''"
  shows "hs_log s' = hs_log s" "r \<noteq> None \<Longrightarrow> dbs (hs_db s') = dbs (hs_db s)"
    "r = None \<Longrightarrow> set (db_services (dbs (hs_db s'))) = set (db_services (dbs (hs_db s))) - {(he_Name E, svc)}"
proof -
  show "hs_log s' = hs_log s"
    using assms(1) by (auto simp: removeServiceDatabase_def on_db_def split: if_splits prod.splits sum.splits)
  show "r \<noteq> None \<Longrightarrow> dbs (hs_db s') = dbs (hs_db s)"
    using assms(1) on_db_Some by (fastforce simp: removeServiceDatabase_def split: if_splits)
  assume "r = None"
  with assms(1) have "on_db (Transaction (remove_service_rows (he_Name E) svc)) s = (None, s')"
    by (simp add: removeServiceDatabase_def split: if_splits)
  from on_db_None [OF this] obtain v where t: "Transaction (remove_service_rows (he_Name E) svc) (hs_db s) = (Inr v, hs_db s')" by auto
  obtain st1 st2 where "remove_service_rows (he_Name E) svc st1 = (Inr v, st2)" "dbs st1 = dbs (hs_db s)" "dbs st2 = dbs (hs_db s')"
    using Transaction_Inr [OF t] by metis
  with remove_rows_Inr assms(2) show "set (db_services (dbs (hs_db s'))) = set (db_services (dbs (hs_db s))) - {(he_Name E, svc)}" by metis
qed

lemma leaves_thenE:
  assumes "run_then wrap f g s = (r, s')" "leaves_db f"
  obtains (failed) "r \<noteq> None" "dbs (hs_db s') = dbs (hs_db s)"
  | (went_on) s1 where "f s = (None, s1)" "g s1 = (r, s')" "dbs (hs_db s1) = dbs (hs_db s)"
  using assms(1)
proof (cases rule: run_then_cases)
  case (failed e)
  with leavesD [OF assms(2) failed(1)] that(1) show thesis by simp
next
  case (went_on s1)
  with leavesD [OF assms(2) went_on(1)] that(2) show thesis by simp
qed

lemma act_log: "act E p s = (r, s1) \<Longrightarrow> hs_log s1 = hs_log s @ [p]"
  by (auto simp: act_def)

lemma appendsD: "(\<And>s. appends (f s) s) \<Longrightarrow> f s = (r, s1) \<Longrightarrow> \<exists>l. hs_log s1 = hs_log s @ l"
  by (metis appends_def snd_conv)

text \<open>The phases of a deletion one after the other: an early failure leaves the tables alone.\<close>

lemma DeleteService_phases:
  fixes s :: host_st
  assumes "DeleteService E svc s = (r, s')"
  obtains (early) "r \<noteq> None" "dbs (hs_db s') = dbs (hs_db s)"
  | (late) s1 s2 s3 s4 s5 where "(if svc = ''mon'' then ensureMonAbsent E (he_Name E) else done_with) s1 = (None, s2)"
      "act E (SnapStop svc) s2 = (None, s3)"
      "(if svc = ''mgr'' then ensureMgrAbsent E (he_Name E) else if svc = ''mds'' then ensureMdsAbsent E (he_Name E) else done_with) s3 = (None, s4)"
      "cleanService E svc s4 = (None, s5)" "dbs (hs_db s5) = dbs (hs_db s)"
      "run_then (\<lambda>e. err_wrap (''failed to remove service '' @ quoted svc @ '' from database: '') e '''') (removeServiceDatabase E svc) done_with s5 = (r, s')"
proof -
  have l: "leaves_db (if svc \<in> set controlServices then act E RenderConfig else done_with)"
    "leaves_db (if svc = ''mon'' then ensureMonAbsent E (he_Name E) else done_with)"
    "leaves_db (if svc = ''mgr'' then ensureMgrAbsent E (he_Name E) else if svc = ''mds'' then ensureMdsAbsent E (he_Name E) else done_with)"
    by auto
  show thesis
    using assms unfolding DeleteService_def Let_def
    by (elim leaves_thenE [OF _ l(1)]; (use early in simp)?; elim leaves_thenE [OF _ l(2)]; (use early in simp)?;
        elim leaves_thenE [OF _ leaves_act]; (use early in simp)?; elim leaves_thenE [OF _ l(3)]; (use early in simp)?;
        elim leaves_thenE [OF _ cleanService_leaves]; (use early in simp)?; (use late in simp)?)
qed


text \<open>A member whose metadata server is not in the map.\<close>

definition mds_host :: host_env where
  "mds_host = sample_host\<lparr>he_Name := ''n2'', he_json := (\<lambda>_ _. Some (JObj []))\<rparr>"


lemma stay_up_log:
  "stay_up E svc n s = (None, s') \<Longrightarrow> hs_log s' = hs_log s @ replicate n (SnapCheckActive svc)"
proof (induction n arbitrary: s)
  case (Suc n)
  then show ?case by (cases "he_fail E (hs_log s) (SnapCheckActive svc)") (auto simp: act_def)
qed simp

lemma generic_logs:
  "genericHospitalityCheck E n s = (None, s1) \<Longrightarrow> hs_log s1 = hs_log s @ [SnapCheckActive n]"
  "genericServiceInit E n s = (None, s1) \<Longrightarrow> hs_log s1 = hs_log s @ [MakeDataDir n, MakeKeyring n, SnapStart n]"
  "genericPostPlacementCheck E n s = (None, s1) \<Longrightarrow> hs_log s1 = hs_log s @ replicate 4 (SnapCheckActive n)"
proof -
  show "genericHospitalityCheck E n s = (None, s1) \<Longrightarrow> hs_log s1 = hs_log s @ [SnapCheckActive n]"
    by (auto simp: genericHospitalityCheck_def act_def split: option.splits)
  show "genericServiceInit E n s = (None, s1) \<Longrightarrow> hs_log s1 = hs_log s @ [MakeDataDir n, MakeKeyring n, SnapStart n]"
    by (auto simp: genericServiceInit_def run_then_None act_def split: if_splits)
  show "genericPostPlacementCheck E n s = (None, s1) \<Longrightarrow> hs_log s1 = hs_log s @ replicate 4 (SnapCheckActive n)"
    unfolding genericPostPlacementCheck_def by (rule stay_up_log)
qed

lemma CreateService_exact:
  assumes "CreateService m svc st = (Inr v, st')"
  shows "dbs st' = (dbs st)\<lparr>db_services := db_services (dbs st) @ [(m, svc)]\<rparr> \<and> (m, svc) \<notin> set (db_services (dbs st))"
proof -
  from assms have "(dbs st)\<lparr>db_services := db_services (dbs st) @ [(m, svc)]\<rparr> = dbs st' \<and> (m, svc) \<notin> set (db_services (dbs st))"
    by (auto simp: CreateService_def ServiceExists_def tx_Inr split: if_splits dest!: tx_stmt_Inr)
  then show ?thesis by auto
qed

lemma genericDbUpdate_cases:
  assumes "genericDbUpdate E n s = (r, s')"
  shows "hs_log s' = hs_log s" "r \<noteq> None \<Longrightarrow> dbs (hs_db s') = dbs (hs_db s)"
    "r = None \<Longrightarrow> dbs (hs_db s') = (dbs (hs_db s))\<lparr>db_services := db_services (dbs (hs_db s)) @ [(he_Name E, n)]\<rparr>"
proof -
  show "hs_log s' = hs_log s" using assms by (auto simp: genericDbUpdate_def on_db_def split: prod.splits sum.splits)
  show "r \<noteq> None \<Longrightarrow> dbs (hs_db s') = dbs (hs_db s)" using assms on_db_Some by (fastforce simp: genericDbUpdate_def)
  assume "r = None"
  with assms on_db_None obtain v where t: "Transaction (record_role (he_Name E) n) (hs_db s) = (Inr v, hs_db s')"
    by (fastforce simp: genericDbUpdate_def)
  obtain st1 st2 where "record_role (he_Name E) n st1 = (Inr v, st2)" "dbs st1 = dbs (hs_db s)" "dbs st2 = dbs (hs_db s')"
    using Transaction_Inr [OF t] by metis
  with CreateService_exact [of "he_Name E" n st1 v st2]
  show "dbs (hs_db s') = (dbs (hs_db s))\<lparr>db_services := db_services (dbs (hs_db s)) @ [(he_Name E, n)]\<rparr>"
    by (simp add: record_role_def tx_wrap_Inr)
qed



end
