(* ===== verification/Redaction.thy ===== *)
theory Redaction
  imports MC_Prelude
begin

text \<open>
  Masking of Ceph keys in free text before it leaves the daemon (\<^verbatim>\<open>redactSecrets\<close> of
  \<^verbatim>\<open>ceph/placement.go\<close>). The scanner is the regular expression written out; the lemmas
  show that no key survives it and that text without keys passes unchanged.
\<close>

section \<open>Masking keys\<close>

text \<open>The expression is \<^verbatim>\<open>AQ[A-Za-z0-9+/]{20,}={0,2}\<close>. The characters of the class are
  disjoint from the equals sign, so the leftmost match takes the whole run and up to two equals signs.\<close>

definition b64_char :: "char \<Rightarrow> bool" where
  "b64_char c \<longleftrightarrow> c \<in> set ''ABCDEFGHIJKLMNOPQRSTUVWXYZabcdefghijklmnopqrstuvwxyz0123456789+/''"

lemma b64_key_letters [simp]: "b64_char CHR ''A''" "b64_char CHR ''Q''" "\<not> b64_char CHR ''*''"
  by (simp_all add: b64_char_def)

fun skip_padding :: "nat \<Rightarrow> string \<Rightarrow> string" where
  "skip_padding (Suc n) (c # cs) = (if c = CHR ''='' then skip_padding n cs else c # cs)"
| "skip_padding n cs = cs"

text \<open>What follows a match that starts here.\<close>

fun secret_end :: "string \<Rightarrow> string option" where
  "secret_end (a # q # cs) =
     (if a = CHR ''A'' \<and> q = CHR ''Q'' \<and> 20 \<le> length (takeWhile b64_char cs)
      then Some (skip_padding 2 (dropWhile b64_char cs)) else None)"
| "secret_end _ = None"

definition redacted :: string where
  "redacted = ''AQ****REDACTED****==''"

lemma skip_padding_length: "length (skip_padding n cs) \<le> length cs"
  by (induction n cs rule: skip_padding.induct) auto

lemma secret_end_length: "secret_end s = Some rest \<Longrightarrow> length rest < length s"
proof -
  have "length (skip_padding 2 (dropWhile b64_char cs)) \<le> length cs" for cs
    using skip_padding_length [of 2 "dropWhile b64_char cs"] length_dropWhile_le [of b64_char cs] by linarith
  then show "secret_end s = Some rest \<Longrightarrow> length rest < length s"
    by (cases s rule: secret_end.cases) (auto simp: less_Suc_eq_le le_SucI split: if_splits)
qed

function redactSecrets :: "string \<Rightarrow> string" where
  "redactSecrets s =
     (case secret_end s of
        Some rest \<Rightarrow> redacted @ redactSecrets rest
      | None \<Rightarrow> (case s of [] \<Rightarrow> [] | c # cs \<Rightarrow> c # redactSecrets cs))"
  by auto
termination by (relation "measure length") (auto simp: secret_end_length)

declare redactSecrets.simps [simp del]

lemma redact_Nil [simp]: "redactSecrets [] = []"
  by (simp add: redactSecrets.simps)

lemma redact_match: "secret_end s = Some rest \<Longrightarrow> redactSecrets s = redacted @ redactSecrets rest"
  by (simp add: redactSecrets.simps)

lemma redact_char: "secret_end (c # cs) = None \<Longrightarrow> redactSecrets (c # cs) = c # redactSecrets cs"
  by (subst redactSecrets.simps) simp

lemma redact_induct [case_names Nil char secret]:
  assumes "P []"
    and "\<And>c cs. secret_end (c # cs) = None \<Longrightarrow> P cs \<Longrightarrow> P (c # cs)"
    and "\<And>s rest. secret_end s = Some rest \<Longrightarrow> P rest \<Longrightarrow> P s"
  shows "P s"
proof (induction s rule: redactSecrets.induct)
  case (1 s)
  show ?case
  proof (cases "secret_end s")
    case None
    with 1 assms(1,2) show ?thesis by (cases s) auto
  next
    case (Some rest)
    with 1 assms(3) show ?thesis by blast
  qed
qed

text \<open>A text shows a key when some suffix of it starts with one.\<close>

fun shows_key :: "string \<Rightarrow> bool" where
  "shows_key [] = False"
| "shows_key (c # cs) = (secret_end (c # cs) \<noteq> None \<or> shows_key cs)"

text \<open>The same without the scanner: the two letters followed by twenty characters of the class.\<close>

lemma shows_key_iff:
  "shows_key s \<longleftrightarrow> (\<exists>pre run post. s = pre @ ''AQ'' @ run @ post \<and> length run = 20 \<and> (\<forall>c \<in> set run. b64_char c))"
  (is "_ \<longleftrightarrow> ?key s")
proof (induction s)
  case (Cons x s)
  have long: "20 \<le> length (takeWhile b64_char cs) \<longleftrightarrow> (\<exists>run post. cs = run @ post \<and> length run = 20 \<and> (\<forall>c \<in> set run. b64_char c))" for cs
  proof
    assume l: "20 \<le> length (takeWhile b64_char cs)"
    let ?run = "take 20 (takeWhile b64_char cs)"
    have "cs = ?run @ drop 20 cs"
      using l by (metis append_take_drop_id takeWhile_eq_take take_take min.absorb1)
    moreover have "length ?run = 20" using l by simp
    moreover have "\<forall>c \<in> set ?run. b64_char c" by (meson set_takeWhileD in_set_takeD)
    ultimately show "\<exists>run post. cs = run @ post \<and> length run = 20 \<and> (\<forall>c \<in> set run. b64_char c)" by blast
  next
    assume "\<exists>run post. cs = run @ post \<and> length run = 20 \<and> (\<forall>c \<in> set run. b64_char c)"
    then show "20 \<le> length (takeWhile b64_char cs)" by (auto simp: takeWhile_append2)
  qed
  have here: "secret_end (x # s) \<noteq> None \<longleftrightarrow> (\<exists>run post. x # s = ''AQ'' @ run @ post \<and> length run = 20 \<and> (\<forall>c \<in> set run. b64_char c))"
    by (cases s) (auto simp: long)
  have "?key (x # s) \<longleftrightarrow> (\<exists>run post. x # s = ''AQ'' @ run @ post \<and> length run = 20 \<and> (\<forall>c \<in> set run. b64_char c)) \<or> ?key s"
    (is "_ \<longleftrightarrow> ?first \<or> _")
  proof
    assume "?key (x # s)"
    then obtain pre run post where k: "x # s = pre @ ''AQ'' @ run @ post" "length run = 20" "\<forall>c \<in> set run. b64_char c" by blast
    show "?first \<or> ?key s"
    proof (cases pre)
      case (Cons a pre')
      with k(1) have "s = pre' @ ''AQ'' @ run @ post" by simp
      with k(2,3) show ?thesis by blast
    qed (use k in auto)
  next
    assume "?first \<or> ?key s"
    then show "?key (x # s)" by (metis append_Nil append_Cons)
  qed
  then show ?case using here Cons by simp
qed simp


text \<open>A run of the class in the output is a run of the input: the mask breaks it after two letters.\<close>

lemma redacted_run: "takeWhile b64_char (redacted @ t) = ''AQ''"
  by (simp add: redacted_def)

lemma secret_starts: "secret_end s = Some rest \<Longrightarrow> \<exists>cs. s = CHR ''A'' # CHR ''Q'' # cs \<and> 20 \<le> length (takeWhile b64_char cs)"
  by (cases s rule: secret_end.cases) (auto split: if_splits)

lemma redact_run: "\<exists>t. takeWhile b64_char s = takeWhile b64_char (redactSecrets s) @ t"
proof (induction s rule: redact_induct)
  case (secret s rest)
  from secret_starts [OF secret(1)] show ?case
    by (auto simp: redact_match [OF secret(1)] redacted_run)
qed (auto simp: redact_char)

lemma secret_end_other: "c \<noteq> CHR ''A'' \<Longrightarrow> secret_end (c # cs) = None"
  by (cases cs) auto

lemma shows_key_mask: "shows_key (redacted @ t) = shows_key t"
  by (simp add: redacted_def secret_end_other del: not_None_eq)

lemma redact_hides: "\<not> shows_key (redactSecrets s)"
proof (induction s rule: redact_induct)
  case (char c cs)
  have "secret_end (c # redactSecrets cs) = None"
  proof (rule ccontr)
    assume "secret_end (c # redactSecrets cs) \<noteq> None"
    then obtain rest where "secret_end (c # redactSecrets cs) = Some rest" by blast
    from secret_starts [OF this] obtain out where
      o: "c = CHR ''A''" "redactSecrets cs = CHR ''Q'' # out" "20 \<le> length (takeWhile b64_char out)" by blast
    obtain t where "takeWhile b64_char cs = takeWhile b64_char (redactSecrets cs) @ t" using redact_run by blast
    then have run: "takeWhile b64_char cs = CHR ''Q'' # takeWhile b64_char out @ t" using o(2) by simp
    then obtain cs' where cs: "cs = CHR ''Q'' # cs'" by (cases cs) (auto split: if_splits)
    with run o(3) have "20 \<le> length (takeWhile b64_char cs')" by (simp split: if_splits)
    with char(1) cs o(1) show False by simp
  qed
  with char show ?case by (simp add: redact_char)
qed (simp_all add: redact_match shows_key_mask)

lemma redact_unchanged: "\<not> shows_key s \<Longrightarrow> redactSecrets s = s"
  by (induction s) (auto simp: redact_char)

section \<open>The masking property\<close>

text \<open>C36 (safety). Text that leaves through the status endpoint carries no Ceph key: after masking, the
  letters AQ are never followed by twenty characters of the base64 alphabet; masking again changes
  nothing; and text that shows no key is passed on unchanged.\<close>

theorem masking_hides_keys:
  "\<not> (\<exists>pre run post. redactSecrets s = pre @ ''AQ'' @ run @ post \<and> length run = 20 \<and> (\<forall>c \<in> set run. b64_char c)) \<and>
   redactSecrets (redactSecrets s) = redactSecrets s \<and>
   (shows_key s \<or> redactSecrets s = s)"
  using redact_hides redact_unchanged shows_key_iff by blast

theorem masking_hides_keys_witness:
  "redactSecrets (redactSecrets ''key = AQAR0123456789abcdefghij+/==='') = ''key = AQ****REDACTED****===''"
proof -
  have "redactSecrets ''key = AQAR0123456789abcdefghij+/==='' = ''key = AQ****REDACTED****==='' " by code_simp
  with masking_hides_keys [of "''key = AQAR0123456789abcdefghij+/===''"] show ?thesis by simp
qed

end
