(* ===== verification/Placement_Status.thy ===== *)
theory Placement_Status
  imports Placement_Apply Redaction
begin

text \<open>
  What \<^verbatim>\<open>GET /placement\<close> reports (\<^verbatim>\<open>ceph/placement.go\<close>, status functions):
  masking of Ceph keys in free text, blanking of TLS material in the desired policy, and the observed
  placement gathered from the service, group and frontend tables.
\<close>


section \<open>The desired policy\<close>

definition blank_rgw :: "rgw_placement \<Rightarrow> rgw_placement" where
  "blank_rgw r = r\<lparr>rp_SSLCertificate := '''', rp_SSLPrivateKey := ''''\<rparr>"

definition redactStoredPolicy :: "placement_policy option \<Rightarrow> placement_policy option" where
  "redactStoredPolicy policy =
     (case policy of
        None \<Rightarrow> None
      | Some p \<Rightarrow> Some (p\<lparr>pp_Members :=
          map_option (map (\<lambda>(n, mp). (n, mp\<lparr>mp_Rgw := map_option blank_rgw (mp_Rgw mp)\<rparr>))) (pp_Members p)\<rparr>))"

section \<open>Observed placement\<close>

record rgw_observed_frontend =
  of_Port :: int
  of_SSLPort :: int
  of_SSL :: bool

record observed_member =
  om_Member :: string
  om_Control :: bool
  om_Rgw :: bool
  om_RgwFrontend :: "rgw_observed_frontend option"
  om_Nfs :: "string list"

record placement_status =
  ps_Active :: bool
  ps_Policy :: "placement_policy option"
  ps_Observed :: "observed_member list"
  ps_BootstrapState :: string
  ps_BootstrapTarget :: string
  ps_BlockedReason :: string
  ps_PlacementRefusal :: string

type_synonym observed_map = "(string \<times> observed_member) list"

definition om_zero :: "string \<Rightarrow> observed_member" where
  "om_zero m = \<lparr>om_Member = m, om_Control = False, om_Rgw = False, om_RgwFrontend = None, om_Nfs = []\<rparr>"

text \<open>The entry of a member, made when it is not there yet; the map holds pointers, so changing the
  entry changes the map.\<close>

definition with_member :: "string \<Rightarrow> (observed_member \<Rightarrow> observed_member) \<Rightarrow> observed_map \<Rightarrow> observed_map" where
  "with_member m f obs = AList.update m (f (case map_of obs m of None \<Rightarrow> om_zero m | Some om \<Rightarrow> om)) obs"

definition observe_service :: "observed_map \<Rightarrow> string \<times> string \<Rightarrow> observed_map" where
  "observe_service obs row =
     (case row of (member, service) \<Rightarrow>
        with_member member (\<lambda>om.
          if service \<in> {''mon'', ''mgr'', ''mds''} then om\<lparr>om_Control := True\<rparr>
          else if service = ''rgw'' then om\<lparr>om_Rgw := True\<rparr>
          else om) obs)"

text \<open>A grouped service row is its service, its group and its member.\<close>

definition observe_group :: "observed_map \<Rightarrow> string \<times> string \<times> string \<Rightarrow> observed_map" where
  "observe_group obs row =
     (case row of (service, groupID, member) \<Rightarrow>
        if service \<noteq> ''nfs'' then obs
        else with_member member (\<lambda>om. om\<lparr>om_Nfs := om_Nfs om @ [groupID]\<rparr>) obs)"

definition populateRGWFrontend :: "observed_map \<Rightarrow> rgw_frontend \<Rightarrow> observed_map" where
  "populateRGWFrontend obs frontend =
     (case map_of obs (fe_Member frontend) of
        None \<Rightarrow> obs
      | Some member \<Rightarrow>
          if \<not> om_Rgw member then obs
          else AList.update (fe_Member frontend) (member\<lparr>om_RgwFrontend :=
                 Some \<lparr>of_Port = fe_Port frontend, of_SSLPort = fe_SSLPort frontend, of_SSL = fe_SSL frontend\<rparr>\<rparr>) obs)"

definition populateRGWFrontends :: "observed_map \<Rightarrow> rgw_frontend list \<Rightarrow> observed_map" where
  "populateRGWFrontends = foldl populateRGWFrontend"

definition observed_values :: "sched \<Rightarrow> observed_map \<Rightarrow> observed_member list" where
  "observed_values S obs = map (\<lambda>m. the (map_of obs m)) (loop_order S 40 (keys obs))"

section \<open>The status\<close>

text \<open>The desired policy as the response shows it.\<close>

definition status_policy :: "go_lib \<Rightarrow> policy_record \<Rightarrow> go_error + placement_policy option" where
  "status_policy G rec =
     (case rec_PolicyJSON rec of
        Some j \<Rightarrow>
          if rec_Active rec
          then (case dec_policy G False j of
                  None \<Rightarrow> Inl (err_new unmarshal_error)
                | Some policy \<Rightarrow> Inr (redactStoredPolicy (Some policy)))
          else Inr None
      | None \<Rightarrow> Inr None)"

definition status_tx :: "go_lib \<Rightarrow> sched \<Rightarrow> placement_status tx" where
  "status_tx G S =
     tx_bind GetPlacementPolicy (\<lambda>rec.
       case status_policy G rec of
         Inl e \<Rightarrow> tx_fail e
       | Inr policy \<Rightarrow>
           tx_bind GetClusterLifecycle (\<lambda>lc.
           tx_bind GetServices (\<lambda>services.
           tx_bind GetGroupedServices (\<lambda>groupedServices.
           tx_bind GetRGWFrontends (\<lambda>rgwFrontends.
             let obs = foldl observe_group (foldl observe_service [] services) groupedServices
             in tx_return
               \<lparr>ps_Active = rec_Active rec,
                ps_Policy = policy,
                ps_Observed = observed_values S (populateRGWFrontends obs rgwFrontends),
                ps_BootstrapState = CephBootstrapState lc,
                ps_BootstrapTarget = CephBootstrapTarget lc,
                ps_BlockedReason = (if CephBootstrapState lc = CephStateFailed then redactSecrets (Detail lc) else ''''),
                ps_PlacementRefusal = redactSecrets (rec_LastRefusal rec)\<rparr>)))))"

definition GetPlacementStatus :: "go_lib \<Rightarrow> sched \<Rightarrow> bool \<Rightarrow> placement_status tx" where
  "GetPlacementStatus G S server_cert st =
     (if \<not> server_cert then (Inl (err_new ''no server certificate''), st)
      else Transaction (status_tx G S) st)"

section \<open>What the map holds after the loops\<close>

definition obs_wf :: "observed_map \<Rightarrow> bool" where
  "obs_wf obs \<longleftrightarrow> distinct (keys obs) \<and> (\<forall>m om. map_of obs m = Some om \<longrightarrow> om_Member om = m)"

definition entry :: "observed_map \<Rightarrow> string \<Rightarrow> observed_member" where
  "entry obs m = (case map_of obs m of None \<Rightarrow> om_zero m | Some om \<Rightarrow> om)"

lemma entry_with_member: "entry (with_member m f obs) m' = (if m' = m then f (entry obs m) else entry obs m')"
  by (simp add: entry_def with_member_def update_conv')

lemma keys_with_member: "set (keys (with_member m f obs)) = insert m (set (keys obs))"
  by (simp add: with_member_def keys_def dom_update)

lemma obs_wfI: "distinct (keys obs) \<Longrightarrow> (\<And>m om. map_of obs m = Some om \<Longrightarrow> om_Member om = m) \<Longrightarrow> obs_wf obs"
  by (simp add: obs_wf_def)

lemma obs_wf_update:
  assumes "obs_wf obs" "om_Member om = m"
  shows "obs_wf (AList.update m om obs)"
proof (rule obs_wfI)
  show "distinct (keys (AList.update m om obs))" using assms(1) by (simp add: obs_wf_def keys_def distinct_update)
  show "om_Member x = m'" if "map_of (AList.update m om obs) m' = Some x" for m' x
    using that assms unfolding obs_wf_def update_conv' by (metis fun_upd_apply option.inject)
qed

lemma obs_wf_entry: "obs_wf obs \<Longrightarrow> om_Member (entry obs m) = m"
  unfolding obs_wf_def entry_def by (cases "map_of obs m") (simp_all add: om_zero_def)

lemma wf_with_member:
  assumes "obs_wf obs" "\<And>om. om_Member (f om) = om_Member om"
  shows "obs_wf (with_member m f obs)"
  using obs_wf_update [OF assms(1), of "f (entry obs m)" m] obs_wf_entry [OF assms(1)] assms(2)
  by (simp add: with_member_def entry_def)

text \<open>One row.\<close>

definition in_control :: "(string \<times> string) list \<Rightarrow> string \<Rightarrow> bool" where
  "in_control rows m \<longleftrightarrow> (m, ''mon'') \<in> set rows \<or> (m, ''mgr'') \<in> set rows \<or> (m, ''mds'') \<in> set rows"

definition nfs_groups :: "(string \<times> string \<times> string) list \<Rightarrow> string \<Rightarrow> string list" where
  "nfs_groups rows m = map (\<lambda>r. fst (snd r)) (filter (\<lambda>r. fst r = ''nfs'' \<and> snd (snd r) = m) rows)"

lemma observe_service_row:
  "entry (observe_service obs row) m =
     (entry obs m)\<lparr>om_Control := om_Control (entry obs m) \<or> in_control [row] m, om_Rgw := om_Rgw (entry obs m) \<or> (m, ''rgw'') = row\<rparr>"
  "set (keys (observe_service obs row)) = insert (fst row) (set (keys obs))"
  "obs_wf obs \<Longrightarrow> obs_wf (observe_service obs row)"
  by (cases row; auto simp: observe_service_def entry_with_member keys_with_member in_control_def intro!: wf_with_member)+

lemma observe_group_row:
  "entry (observe_group obs row) m = (entry obs m)\<lparr>om_Nfs := om_Nfs (entry obs m) @ nfs_groups [row] m\<rparr>"
  "set (keys (observe_group obs row)) = set (keys obs) \<union> {m. nfs_groups [row] m \<noteq> []}"
  "obs_wf obs \<Longrightarrow> obs_wf (observe_group obs row)"
  by (cases row; auto simp: observe_group_def entry_with_member keys_with_member nfs_groups_def intro!: wf_with_member)+

lemma populate_row:
  "entry (populateRGWFrontend obs r) m =
     (if m = fe_Member r \<and> om_Rgw (entry obs m)
      then (entry obs m)\<lparr>om_RgwFrontend := Some \<lparr>of_Port = fe_Port r, of_SSLPort = fe_SSLPort r, of_SSL = fe_SSL r\<rparr>\<rparr>
      else entry obs m)"
  "set (keys (populateRGWFrontend obs r)) = set (keys obs)"
  "obs_wf obs \<Longrightarrow> obs_wf (populateRGWFrontend obs r)"
proof -
  show "entry (populateRGWFrontend obs r) m =
     (if m = fe_Member r \<and> om_Rgw (entry obs m)
      then (entry obs m)\<lparr>om_RgwFrontend := Some \<lparr>of_Port = fe_Port r, of_SSLPort = fe_SSLPort r, of_SSL = fe_SSL r\<rparr>\<rparr>
      else entry obs m)"
    by (auto simp: populateRGWFrontend_def entry_def update_conv' om_zero_def split: option.splits)
  show "set (keys (populateRGWFrontend obs r)) = set (keys obs)"
    by (auto simp: populateRGWFrontend_def keys_def dom_update dest: map_of_SomeD split: option.splits)
      (metis fst_conv imageI map_of_SomeD)
  show "obs_wf obs \<Longrightarrow> obs_wf (populateRGWFrontend obs r)"
  proof (cases "map_of obs (fe_Member r)")
    case (Some om)
    assume "obs_wf obs"
    moreover from this Some have "om_Member om = fe_Member r" by (simp add: obs_wf_def)
    ultimately show ?thesis using Some by (auto simp: populateRGWFrontend_def intro!: obs_wf_update)
  qed (simp add: populateRGWFrontend_def)
qed

text \<open>All rows.\<close>

lemma observed_services:
  "entry (foldl observe_service obs rows) m =
     (entry obs m)\<lparr>om_Control := om_Control (entry obs m) \<or> in_control rows m, om_Rgw := om_Rgw (entry obs m) \<or> (m, ''rgw'') \<in> set rows\<rparr>"
  "set (keys (foldl observe_service obs rows)) = set (keys obs) \<union> fst ` set rows"
  "obs_wf obs \<Longrightarrow> obs_wf (foldl observe_service obs rows)"
proof (induction rows arbitrary: obs)
  case (Cons row rows)
  {
    case 1
    have "in_control (row # rows) m \<longleftrightarrow> in_control [row] m \<or> in_control rows m" by (auto simp: in_control_def)
    then show ?case by (simp add: Cons observe_service_row(1) disj_assoc)
  next
    case 2
    show ?case by (simp add: Cons observe_service_row(2))
  next
    case 3
    then show ?case by (simp add: Cons observe_service_row(3))
  }
qed (simp_all add: in_control_def)

lemma nfs_groups_Cons: "nfs_groups (row # rows) m = nfs_groups [row] m @ nfs_groups rows m"
  by (simp add: nfs_groups_def)

lemma observed_groups:
  "entry (foldl observe_group obs rows) m = (entry obs m)\<lparr>om_Nfs := om_Nfs (entry obs m) @ nfs_groups rows m\<rparr>"
  "set (keys (foldl observe_group obs rows)) = set (keys obs) \<union> {m. nfs_groups rows m \<noteq> []}"
  "obs_wf obs \<Longrightarrow> obs_wf (foldl observe_group obs rows)"
proof (induction rows arbitrary: obs)
  case (Cons row rows)
  {
    case 1
    show ?case by (simp add: Cons observe_group_row(1) nfs_groups_Cons [of row rows])
  next
    case 2
    show ?case by (auto simp: Cons observe_group_row(2) nfs_groups_Cons [of row rows])
  next
    case 3
    then show ?case by (simp add: Cons observe_group_row(3))
  }
qed (simp_all add: nfs_groups_def)

text \<open>The frontend of a member: the last row with its name.\<close>

definition last_frontend :: "rgw_frontend list \<Rightarrow> string \<Rightarrow> rgw_observed_frontend option" where
  "last_frontend rows m =
     (case filter (\<lambda>r. fe_Member r = m) (rev rows) of
        [] \<Rightarrow> None
      | r # _ \<Rightarrow> Some \<lparr>of_Port = fe_Port r, of_SSLPort = fe_SSLPort r, of_SSL = fe_SSL r\<rparr>)"

lemma last_frontend_snoc:
  "last_frontend (rows @ [r]) m =
     (if fe_Member r = m then Some \<lparr>of_Port = fe_Port r, of_SSLPort = fe_SSLPort r, of_SSL = fe_SSL r\<rparr> else last_frontend rows m)"
  by (simp add: last_frontend_def)

lemma observed_frontends:
  "entry (populateRGWFrontends obs rows) m =
     (if om_Rgw (entry obs m) \<and> last_frontend rows m \<noteq> None then (entry obs m)\<lparr>om_RgwFrontend := last_frontend rows m\<rparr>
      else entry obs m)"
  "set (keys (populateRGWFrontends obs rows)) = set (keys obs)"
  "obs_wf obs \<Longrightarrow> obs_wf (populateRGWFrontends obs rows)"
  unfolding populateRGWFrontends_def
proof (induction rows arbitrary: m rule: rev_induct)
  case (snoc row rows)
  {
    case 1
    show ?case by (auto simp: snoc(1) populate_row(1) last_frontend_snoc)
  next
    case 2
    show ?case by (simp add: snoc(2) populate_row(2))
  next
    case 3
    then show ?case by (simp add: snoc(3) populate_row(3))
  }
qed (simp_all add: last_frontend_def)


section \<open>What a status says\<close>

text \<open>The observed entry of a member as the tables define it.\<close>

definition observed_spec :: "cluster_db \<Rightarrow> string \<Rightarrow> observed_member" where
  "observed_spec d m =
     (let rgw = (m, ''rgw'') \<in> set (db_services d) in
      \<lparr>om_Member = m, om_Control = in_control (db_services d) m, om_Rgw = rgw,
       om_RgwFrontend = (if rgw then last_frontend (sort_key fe_Member (db_rgw_frontends d)) m else None),
       om_Nfs = nfs_groups (db_grouped d) m\<rparr>)"

definition observed_members :: "cluster_db \<Rightarrow> string set" where
  "observed_members d = fst ` set (db_services d) \<union> {m. nfs_groups (db_grouped d) m \<noteq> []}"

definition observed_map :: "cluster_db \<Rightarrow> observed_map" where
  "observed_map d = populateRGWFrontends (foldl observe_group (foldl observe_service [] (db_services d)) (db_grouped d))
     (sort_key fe_Member (db_rgw_frontends d))"

lemma obs_wf_Nil: "obs_wf []"
  by (simp add: obs_wf_def)

lemma entry_Nil: "entry [] m = om_zero m"
  by (simp add: entry_def)

lemma observed_map_facts:
  "entry (observed_map d) m = observed_spec d m" "set (keys (observed_map d)) = observed_members d" "obs_wf (observed_map d)"
  unfolding observed_map_def
  by (auto simp: observed_frontends observed_groups observed_services entry_Nil om_zero_def observed_spec_def Let_def
      observed_members_def obs_wf_Nil)

lemma observed_values_set: "set (observed_values S obs) = (\<lambda>m. the (map_of obs m)) ` set (keys obs)"
  by (simp add: observed_values_def)

lemma entry_key: "m \<in> set (keys obs) \<Longrightarrow> the (map_of obs m) = entry obs m"
  using map_of_keys [of obs m] by (auto simp: entry_def split: option.splits)

lemma observed_values_members: "map om_Member (observed_values S obs) = loop_order S 40 (keys obs)" if "obs_wf obs"
proof -
  have "om_Member (the (map_of obs m)) = m" if "m \<in> set (keys obs)" for m
    using obs_wf_entry [OF \<open>obs_wf obs\<close>, of m] entry_key [OF that] by simp
  then show ?thesis by (auto simp: observed_values_def intro!: map_idI)
qed

lemma redacted_policy_clean: "redactStoredPolicy (Some p) = Some q \<Longrightarrow> no_secrets q"
  by (cases "pp_Members p")
    (auto simp: redactStoredPolicy_def no_secrets_def members_of_def blank_rgw_def split: option.splits)

lemma status_tx_Inr:
  assumes "status_tx G S st = (Inr s, st')"
  obtains rec lc where "dbs st' = dbs st" "db_lifecycle (dbs st) = Some lc" "status_policy G rec = Inr (ps_Policy s)"
    "\<exists>r. db_policy (dbs st) = Some r \<and> rec_Active rec = (pr_active r \<noteq> 0) \<and> rec_PolicyJSON rec = pr_policy_json r"
    "ps_Active s = rec_Active rec" "ps_Observed s = observed_values S (observed_map (dbs st))"
    "ps_BootstrapState s = CephBootstrapState lc" "ps_PlacementRefusal s = redactSecrets (rec_LastRefusal rec)"
    "ps_BlockedReason s = (if CephBootstrapState lc = CephStateFailed then redactSecrets (Detail lc) else '''')"
proof -
  from assms obtain rec st1 where r: "GetPlacementPolicy st = (Inr rec, st1)"
      and rest: "(case status_policy G rec of Inl e \<Rightarrow> tx_fail e
       | Inr policy \<Rightarrow> tx_bind GetClusterLifecycle (\<lambda>lc. tx_bind GetServices (\<lambda>services.
           tx_bind GetGroupedServices (\<lambda>groupedServices. tx_bind GetRGWFrontends (\<lambda>rgwFrontends.
             let obs = foldl observe_group (foldl observe_service [] services) groupedServices
             in tx_return
               \<lparr>ps_Active = rec_Active rec, ps_Policy = policy,
                ps_Observed = observed_values S (populateRGWFrontends obs rgwFrontends),
                ps_BootstrapState = CephBootstrapState lc, ps_BootstrapTarget = CephBootstrapTarget lc,
                ps_BlockedReason = (if CephBootstrapState lc = CephStateFailed then redactSecrets (Detail lc) else ''''),
                ps_PlacementRefusal = redactSecrets (rec_LastRefusal rec)\<rparr>))))) st1 = (Inr s, st')"
    by (auto simp: status_tx_def tx_bind_Inr)
  from rest obtain policy where p: "status_policy G rec = Inr policy" by (cases "status_policy G rec") (auto simp: tx_fail_Inr)
  from rest [unfolded p] obtain lc st2 sv st3 gs st4 fe st5 where
    l: "GetClusterLifecycle st1 = (Inr lc, st2)" and q: "GetServices st2 = (Inr sv, st3)"
      "GetGroupedServices st3 = (Inr gs, st4)" "GetRGWFrontends st4 = (Inr fe, st5)" and fin: "st' = st5"
      "s = \<lparr>ps_Active = rec_Active rec, ps_Policy = policy,
                ps_Observed = observed_values S (populateRGWFrontends (foldl observe_group (foldl observe_service [] sv) gs) fe),
                ps_BootstrapState = CephBootstrapState lc, ps_BootstrapTarget = CephBootstrapTarget lc,
                ps_BlockedReason = (if CephBootstrapState lc = CephStateFailed then redactSecrets (Detail lc) else ''''),
                ps_PlacementRefusal = redactSecrets (rec_LastRefusal rec)\<rparr>"
    by (simp add: tx_bind_Inr tx_return_Inr Let_def) blast
  note facts = GetPlacementPolicy_Inr [OF r] GetClusterLifecycle_Inr [OF l]
    q(1) [unfolded GetServices_def, THEN tx_stmt_Inr] q(2) [unfolded GetGroupedServices_def, THEN tx_stmt_Inr]
    q(3) [unfolded GetRGWFrontends_def, THEN tx_stmt_Inr]
  show thesis
    by (rule that [of lc rec]) (use facts p fin in \<open>auto simp: observed_map_def\<close>)
qed


text \<open>C35 (safety). A status that is returned changed nothing, shows the stored policy with all TLS material
  blanked and free of keys in its texts, and its observed part lists exactly the members with a service
  or an NFS group, each once, with the flags, gateway frontend and groups that the tables record.\<close>

theorem placement_status_truthful:
  assumes "GetPlacementStatus G S cert st = (Inr s, st')"
  shows "dbs st' = dbs st \<and>
    (\<exists>r. db_policy (dbs st) = Some r \<and> ps_Active s = (pr_active r \<noteq> 0) \<and>
       ps_Policy s = (if pr_active r \<noteq> 0 then redactStoredPolicy (Option.bind (pr_policy_json r) (dec_policy G False)) else None)) \<and>
    (\<forall>p. ps_Policy s = Some p \<longrightarrow> no_secrets p) \<and>
    \<not> shows_key (ps_BlockedReason s) \<and> \<not> shows_key (ps_PlacementRefusal s) \<and>
    distinct (map om_Member (ps_Observed s)) \<and>
    set (ps_Observed s) = observed_spec (dbs st) ` observed_members (dbs st)"
proof -
  from assms have "Transaction (status_tx G S) st = (Inr s, st')" by (auto simp: GetPlacementStatus_def split: if_splits)
  then obtain st1 st2 where t: "status_tx G S st1 = (Inr s, st2)" and eqs: "dbs st1 = dbs st" "dbs st2 = dbs st'"
    by (rule Transaction_Inr)
  from t obtain rec lc where f: "dbs st2 = dbs st1" "db_lifecycle (dbs st1) = Some lc" "status_policy G rec = Inr (ps_Policy s)"
    "\<exists>r. db_policy (dbs st1) = Some r \<and> rec_Active rec = (pr_active r \<noteq> 0) \<and> rec_PolicyJSON rec = pr_policy_json r"
    "ps_Active s = rec_Active rec" "ps_Observed s = observed_values S (observed_map (dbs st1))"
    "ps_BootstrapState s = CephBootstrapState lc" "ps_PlacementRefusal s = redactSecrets (rec_LastRefusal rec)"
    "ps_BlockedReason s = (if CephBootstrapState lc = CephStateFailed then redactSecrets (Detail lc) else '''')"
    by (rule status_tx_Inr)
  from f(3) have pol: "ps_Policy s = (if rec_Active rec then redactStoredPolicy (Option.bind (rec_PolicyJSON rec) (dec_policy G False)) else None)"
    by (auto simp: status_policy_def redactStoredPolicy_def split: option.splits if_splits)
  have clean: "no_secrets p" if "ps_Policy s = Some p" for p
    using that f(3) redacted_policy_clean by (auto simp: status_policy_def split: option.splits if_splits)
  have obs: "set (ps_Observed s) = observed_spec (dbs st) ` observed_members (dbs st)"
    unfolding f(6) eqs(1) observed_values_set observed_map_facts(2) [of "dbs st", symmetric]
    by (rule image_cong) (simp_all add: entry_key observed_map_facts(1))
  have dist: "distinct (map om_Member (ps_Observed s))"
    using f(6) observed_map_facts(3) [of "dbs st1"] by (simp add: observed_values_members) (simp add: obs_wf_def)
  show ?thesis using f eqs pol clean obs dist redact_hides by auto
qed


definition status_db :: cluster_db where
  "status_db = \<lparr>db_members = [''n1'', ''n2''], db_services = [(''n1'', ''mon''), (''n1'', ''rgw'')],
     db_grouped = [(''nfs'', ''g1'', ''n2'')],
     db_rgw_frontends = [\<lparr>fe_Member = ''n1'', fe_Port = 80, fe_SSLPort = 0, fe_SSL = False\<rparr>], db_config = [],
     db_policy = Some \<lparr>pr_active = 1, pr_policy_json = Some (JObj [(''mode'', JStr ''reconcile''), (''members'', JObj [(''n1'',
        JObj [(''rgw'', JObj [(''enabled'', JBool True), (''ssl_private_key'', JStr ''secret'')])])])]),
        pr_last_refusal = Some ''AQAR0123456789abcdefghij=='', pr_apply_lock_token = 0\<rparr>,
     db_lifecycle = Some \<lparr>CephBootstrapState = CephStateBootstrapped, CephBootstrapTarget = ''n1'', Detail = ''''\<rparr>\<rparr>"

theorem placement_status_truthful_witness:
  "\<exists>s. fst (GetPlacementStatus plain_lib (\<lambda>_ ks. ks) True \<lparr>dbs = status_db, faults = []\<rparr>) = Inr s \<and>
     set (ps_Observed s) = observed_spec status_db ` observed_members status_db \<and> ps_PlacementRefusal s = redacted \<and>
     map_option no_secrets (ps_Policy s) = Some True"
proof -
  let ?run = "GetPlacementStatus plain_lib (\<lambda>_ ks. ks) True \<lparr>dbs = status_db, faults = []\<rparr>"
  have ok: "\<not> is_err (fst ?run) \<and> ps_PlacementRefusal (projr (fst ?run)) = redacted \<and> ps_Policy (projr (fst ?run)) \<noteq> None"
    by code_simp
  then obtain s st' where run: "?run = (Inr s, st')" by (metis is_err.elims(3) prod.collapse)
  from placement_status_truthful [OF run] ok run show ?thesis by auto
qed

end
