(* ===== verification/Placement_Api.thy ===== *)
theory Placement_Api
  imports Placement_Claims Placement_Status
begin

text \<open>
  The placement and bootstrap endpoints (\<^verbatim>\<open>api/placement.go\<close>): reading the body, taking and
  releasing the apply lock around the work, and the status of each outcome. The properties follow a
  request through the handler, the lock, the engine and the storage gate.
\<close>

section \<open>Requests and responses\<close>

text \<open>A body is the sequence of values the JSON decoder finds in it; the text layer is not modelled. An
  empty sequence is an empty body.\<close>

datatype body_value = Doc json | Malformed string

definition BadRequest :: "go_error \<Rightarrow> response" where
  "BadRequest e = ErrorResponse 400 e"

definition InternalError :: "go_error \<Rightarrow> response" where
  "InternalError e = ErrorResponse 500 e"

definition isClientSidePlacementError :: "go_error \<Rightarrow> bool" where
  "isClientSidePlacementError e \<longleftrightarrow>
     errors_Is e ErrCephNotBootstrapped \<or> errors_Is e ErrUnknownPlacementMember \<or>
     errors_Is e ErrKeepOneInvariant \<or> errors_Is e ErrRgwFrontendInvalid"

definition inProgressResponse :: "go_error \<Rightarrow> response option" where
  "inProgressResponse e =
     (if errors_Is e ErrPlacementApplyInProgress \<or> errors_Is e ErrCephBootstrapInProgress
      then Some (ErrorResponse 409 e) else None)"

definition cmdPlacementGet :: "go_lib \<Rightarrow> sched \<Rightarrow> bool \<Rightarrow> dbst \<Rightarrow> (response + placement_status) \<times> dbst" where
  "cmdPlacementGet G S server_cert st =
     (case GetPlacementStatus G S server_cert st of
        (Inl e, st1) \<Rightarrow> (Inl (InternalError e), st1)
      | (Inr status, st1) \<Rightarrow> (Inr status, st1))"

section \<open>The apply lock around a handler\<close>

text \<open>\<open>smart\<close> is the status the cluster library gives an error. The release is deferred: it runs whatever
  the work returned, and its own failure is only logged.\<close>

definition under_apply_lock :: "(go_error \<Rightarrow> nat) \<Rightarrow> int \<Rightarrow> (engine \<Rightarrow> response \<times> engine) \<Rightarrow> engine \<Rightarrow> response \<times> engine" where
  "under_apply_lock smart now work w =
     (case LockPlacementApply now (e_st w) of
        (Inl e, st1) \<Rightarrow>
          (case inProgressResponse e of
             Some resp \<Rightarrow> (resp, w\<lparr>e_st := st1\<rparr>)
           | None \<Rightarrow> (ErrorResponse (smart e) e, w\<lparr>e_st := st1\<rparr>))
      | (Inr lockToken, st1) \<Rightarrow>
          (case work (w\<lparr>e_st := st1\<rparr>) of
             (resp, w2) \<Rightarrow>
               (case UnlockPlacementApply lockToken (e_st w2) of (unlockErr, st3) \<Rightarrow> (resp, w2\<lparr>e_st := st3\<rparr>))))"

section \<open>Installing and clearing a policy\<close>

definition put_body :: "go_lib \<Rightarrow> body_value list \<Rightarrow> go_error + placement_policy" where
  "put_body G body =
     (case body of
        [] \<Rightarrow> Inl (err_new ''EOF'')
      | Malformed e # _ \<Rightarrow> Inl (err_new e)
      | Doc j # rest \<Rightarrow>
          (case dec_policy G True j of
             None \<Rightarrow> Inl (err_new ''json: cannot unmarshal'')
           | Some policy \<Rightarrow>
               if rest \<noteq> [] then Inl (err_new ''placement request must contain exactly one JSON object'')
               else if pp_Mode policy \<noteq> PlacementModeReconcile
               then Inl (err_new (''placement mode is required; supported mode: '' @ quoted PlacementModeReconcile))
               else Inr policy))"

definition apply_response :: "(go_error \<Rightarrow> nat) \<Rightarrow> go_error option \<Rightarrow> response" where
  "apply_response smart r =
     (case r of
        None \<Rightarrow> SyncOk
      | Some e \<Rightarrow>
          if errors_Is e ErrPlacementOperationFailed then InternalError e
          else if isClientSidePlacementError e then BadRequest e
          else ErrorResponse (smart e) e)"

definition cmdPlacementPut :: "(go_error \<Rightarrow> nat) \<Rightarrow> go_lib \<Rightarrow> hooks \<Rightarrow> int \<Rightarrow> body_value list \<Rightarrow> engine \<Rightarrow> response \<times> engine" where
  "cmdPlacementPut smart G H now body w =
     (case put_body G body of
        Inl e \<Rightarrow> (BadRequest e, w)
      | Inr policy \<Rightarrow>
          under_apply_lock smart now (\<lambda>w1.
            case ApplyPlacementPolicy H policy w1 of (r, w2) \<Rightarrow> (apply_response smart r, w2)) w)"

definition cmdPlacementDelete :: "(go_error \<Rightarrow> nat) \<Rightarrow> int \<Rightarrow> engine \<Rightarrow> response \<times> engine" where
  "cmdPlacementDelete smart now =
     under_apply_lock smart now (\<lambda>w1.
       case ClearPlacementPolicy (e_st w1) of
         (Inl e, st2) \<Rightarrow> (InternalError e, w1\<lparr>e_st := st2\<rparr>)
       | (Inr _, st2) \<Rightarrow> (SyncOk, w1\<lparr>e_st := st2\<rparr>))"

section \<open>Bootstrapping Ceph\<close>

record bootstrap_request =
  br_Target :: string
  br_MonIp :: string
  br_PublicNet :: string
  br_ClusterNet :: string
  br_DefaultCipher :: string
  br_V2Only :: bool
  br_AvailabilityZone :: string
  br_Force :: bool

definition bootstrap_request_zero :: bootstrap_request where
  "bootstrap_request_zero = \<lparr>br_Target = '''', br_MonIp = '''', br_PublicNet = '''', br_ClusterNet = '''', br_DefaultCipher = '''',
     br_V2Only = False, br_AvailabilityZone = '''', br_Force = False\<rparr>"

definition bootstrap_field :: "go_lib \<Rightarrow> string \<Rightarrow> json \<Rightarrow> bootstrap_request \<Rightarrow> bootstrap_request option option" where
  "bootstrap_field G k v r =
     (if equal_fold G k ''target'' then Some (map_option (\<lambda>s. r\<lparr>br_Target := s\<rparr>) (dec_string (br_Target r) v))
      else if equal_fold G k ''mon_ip'' then Some (map_option (\<lambda>s. r\<lparr>br_MonIp := s\<rparr>) (dec_string (br_MonIp r) v))
      else if equal_fold G k ''public_network'' then Some (map_option (\<lambda>s. r\<lparr>br_PublicNet := s\<rparr>) (dec_string (br_PublicNet r) v))
      else if equal_fold G k ''cluster_network'' then Some (map_option (\<lambda>s. r\<lparr>br_ClusterNet := s\<rparr>) (dec_string (br_ClusterNet r) v))
      else if equal_fold G k ''default_cipher'' then Some (map_option (\<lambda>s. r\<lparr>br_DefaultCipher := s\<rparr>) (dec_string (br_DefaultCipher r) v))
      else if equal_fold G k ''v2_only'' then Some (map_option (\<lambda>b. r\<lparr>br_V2Only := b\<rparr>) (dec_bool (br_V2Only r) v))
      else if equal_fold G k ''availability_zone'' then Some (map_option (\<lambda>s. r\<lparr>br_AvailabilityZone := s\<rparr>) (dec_string (br_AvailabilityZone r) v))
      else if equal_fold G k ''force'' then Some (map_option (\<lambda>b. r\<lparr>br_Force := b\<rparr>) (dec_bool (br_Force r) v))
      else None)"

definition isClientSideBootstrapError :: "go_error \<Rightarrow> bool" where
  "isClientSideBootstrapError e \<longleftrightarrow> errors_Is e ErrUnknownBootstrapTarget \<or> errors_Is e ErrPartialBootstrap"

text \<open>The request after decoding and the fallback to the query parameter. The decoder reads the first
  value only.\<close>

definition bootstrap_target :: "go_lib \<Rightarrow> string \<Rightarrow> body_value list \<Rightarrow> go_error + bootstrap_request" where
  "bootstrap_target G query_target body =
     (let with_target = (\<lambda>req. if br_Target req = '''' then req\<lparr>br_Target := query_target\<rparr> else req) in
      case body of
        [] \<Rightarrow> Inr (with_target bootstrap_request_zero)
      | Malformed e # _ \<Rightarrow> Inl (err_new e)
      | Doc j # _ \<Rightarrow>
          (case dec_struct True (bootstrap_field G) bootstrap_request_zero j of
             None \<Rightarrow> Inl (err_new ''json: cannot unmarshal'')
           | Some req \<Rightarrow> Inr (with_target req)))"

text \<open>\<open>boot\<close> gives the environment in which the bootstrap of this request runs; \<open>locked\<close> says whether the
  process-local mutex was free.\<close>

definition cmdCephBootstrapPut :: "(go_error \<Rightarrow> nat) \<Rightarrow> go_lib \<Rightarrow> (bootstrap_request \<Rightarrow> boot_env) \<Rightarrow> bool \<Rightarrow> string \<Rightarrow> string
    \<Rightarrow> body_value list \<Rightarrow> dbst \<Rightarrow> response \<times> dbst" where
  "cmdCephBootstrapPut smart G boot locked localName query_target body st =
     (case bootstrap_target G query_target body of
        Inl e \<Rightarrow> (BadRequest e, st)
      | Inr req \<Rightarrow>
          if br_Target req = '''' then (BadRequest (err_new ''target member is required''), st)
          else if localName \<noteq> br_Target req
          then (BadRequest (err_new (''Ceph-only bootstrap target '' @ quoted (br_Target req) @ '' does not match local member '' @
                  quoted localName @ ''; ensure the request is routed to the target member (e.g. via --target)'')), st)
          else case BootstrapCeph locked (boot req) (br_Target req) (br_Force req) st of
            (Inr _, st1) \<Rightarrow> (SyncOk, st1)
          | (Inl e, st1) \<Rightarrow>
              if isClientSideBootstrapError e then (BadRequest e, st1)
              else (case inProgressResponse e of
                      Some resp \<Rightarrow> (resp, st1)
                    | None \<Rightarrow> (ErrorResponse (smart e) e, st1)))"

section \<open>Bodies\<close>

lemma dec_fields_inv:
  assumes "dec_fields strict f kvs r = Some r'" "P r" "\<And>k v x y. f k v x = Some (Some y) \<Longrightarrow> P x \<Longrightarrow> P y"
  shows "P r'"
  using assms(1,2)
proof (induction kvs arbitrary: r)
  case (Cons kv kvs)
  obtain k v where kv: "kv = (k, v)" by (rule prod.exhaust)
  from Cons.prems kv show ?case
    using Cons.IH assms(3) [of k v r] by (auto split: option.splits if_splits)
qed simp

lemma dec_struct_inv:
  assumes "dec_struct strict f r j = Some r'" "P r" "\<And>k v x y. f k v x = Some (Some y) \<Longrightarrow> P x \<Longrightarrow> P y"
  shows "P r'"
  using assms by (auto simp: dec_struct_def split: json.splits intro: dec_fields_inv)

lemma dec_member_map_distinct:
  "dec_member_map G strict kvs ms = Some ms' \<Longrightarrow> distinct (keys ms) \<Longrightarrow> distinct (keys ms')"
  by (induction G strict kvs ms rule: dec_member_map.induct)
    (auto simp: keys_def distinct_update split: option.splits)

lemma dec_members_wf:
  assumes "dec_members G strict (pp_Members p) v = Some ms" "wf_policy p"
  shows "wf_policy (p\<lparr>pp_Members := ms\<rparr>)"
proof (cases v)
  case (JObj kvs)
  with assms obtain ms' where ms: "dec_member_map G strict kvs (members_of p) = Some ms'" "ms = Some ms'"
    by (auto simp: dec_members_def members_of_def split: option.splits)
  from dec_member_map_distinct [OF ms(1)] assms(2) ms(2) show ?thesis by (simp add: wf_policy_def members_of_def)
qed (use assms in \<open>auto simp: dec_members_def wf_policy_def members_of_def\<close>)

lemma dec_policy_wf:
  assumes "dec_policy G strict j = Some p"
  shows "wf_policy p"
  using assms [unfolded dec_policy_def]
proof (rule dec_struct_inv)
  show "wf_policy policy_zero" by (simp add: policy_zero_def wf_policy_def members_of_def)
next
  fix k v x y assume f: "policy_field G strict k v x = Some (Some y)" and w: "wf_policy x"
  show "wf_policy y"
  proof (cases "equal_fold G k ''mode''")
    case True
    with f w show ?thesis by (auto simp: policy_field_def wf_policy_def members_of_def)
  next
    case False
    with f obtain ms where "dec_members G strict (pp_Members x) v = Some ms" "y = x\<lparr>pp_Members := ms\<rparr>"
      by (auto simp: policy_field_def split: if_splits)
    with dec_members_wf w show ?thesis by blast
  qed
qed

lemma put_body_Inr:
  assumes "put_body G body = Inr p"
  shows "wf_policy p" "pp_Mode p = PlacementModeReconcile" "\<exists>j. body = [Doc j] \<and> dec_policy G True j = Some p"
  using assms dec_policy_wf
  by (auto simp: put_body_def split: list.splits body_value.splits option.splits if_splits)

section \<open>The lock token during the work\<close>

lemma policy_update_token:
  "lock_token (dbs (snd (setPlacementRefusal m st))) = lock_token (dbs st)"
  "lock_token (dbs (snd (storePlacementPolicy p st))) = lock_token (dbs st)"
  "lock_token (dbs (snd (ClearPlacementPolicy st))) = lock_token (dbs st)"
  unfolding setPlacementRefusal_def storePlacementPolicy_def ClearPlacementPolicy_def
  by (rule Transaction_keeps [where P = "\<lambda>d. lock_token d = lock_token (dbs st)"];
      auto simp: lock_token_def dest!: SetPlacementRefusal_Inr SetPlacementPolicy_Inr ClearPlacementPolicy_Inr)+

lemma token_stable: "stable_fact (\<lambda>d. lock_token d = t)" "spares_fact (\<lambda>d. lock_token d = t) row"
  by (auto simp: stable_fact_def spares_fact_def lock_token_def)

lemma prod_preserves:
  assumes "hk_dispatch H = prod_dispatch N" "stable_fact Q" "\<And>row. spares_fact Q row"
  shows "preserved H Q"
  unfolding preserved_def assms(1)
proof (intro allI impI)
  fix op h and st :: dbst assume q: "Q (dbs st)"
  obtain r st' where d: "prod_dispatch N op h st = (r, st')" by (rule prod.exhaust)
  from prod_inv [OF d assms(2) assms(3) q] d show "Q (dbs (snd (prod_dispatch N op h st)))" by simp
qed

lemma refuse_token: "refuse e w = (r, w') \<Longrightarrow> lock_token (dbs (e_st w')) = lock_token (dbs (e_st w))"
  using policy_update_token(1) by (auto simp: refuse_def recordPlacementRefusal_def)

lemma apply_keeps_token:
  assumes "hk_dispatch H = prod_dispatch N" "ApplyPlacementPolicy H policy w = (r, w')"
  shows "lock_token (dbs (e_st w')) = lock_token (dbs (e_st w))"
proof (cases "normalizePlacement H policy")
  case (Inl e)
  with assms(2) refuse_token show ?thesis by (simp add: ApplyPlacementPolicy_def)
next
  case norm: (Inr n)
  obtain v st1 where v: "ValidatePlacement H n (e_st w) = (v, st1)" by (rule prod.exhaust)
  then have d1: "dbs st1 = dbs (e_st w)" using validate_keeps [of H n "e_st w"] by simp
  obtain s st2 where s: "storePlacementPolicy n st1 = (s, st2)" by (rule prod.exhaust)
  have t2: "lock_token (dbs st2) = lock_token (dbs (e_st w))" using policy_update_token(2) [of n st1] s d1 by simp
  obtain c w3 where c: "reconcilePlacement H n (w\<lparr>e_st := st2\<rparr>) = (c, w3)" by (rule prod.exhaust)
  have t3: "lock_token (dbs (e_st w3)) = lock_token (dbs (e_st w))"
    using reconcile_preserved [OF prod_preserves [OF assms(1) token_stable] c] t2 by simp
  note run = assms(2) [unfolded ApplyPlacementPolicy_def] norm v
  show ?thesis
  proof (cases v)
    case (Some e)
    with run have "refuse e (w\<lparr>e_st := st1\<rparr>) = (r, w')" by simp
    from refuse_token [OF this] d1 show ?thesis by simp
  next
    case None
    show ?thesis
    proof (cases s)
      case (Inl e)
      with run s None have "refuse e (w\<lparr>e_st := st2\<rparr>) = (r, w')" by simp
      from refuse_token [OF this] t2 show ?thesis by simp
    next
      case (Inr u)
      with run s None t3 refuse_token policy_update_token(1) show ?thesis
        by (cases c) (auto simp: c)
    qed
  qed
qed

text \<open>The handler's frame: either the lock was refused and only failures were consumed, or the work ran
  between taking a free or expired lock and its release.\<close>

lemma under_lock_cases:
  assumes "under_apply_lock smart now work w = (resp, w')"
  obtains (refused) e st1 where "LockPlacementApply now (e_st w) = (Inl e, st1)" "resp \<noteq> SyncOk" "dbs (e_st w') = dbs (e_st w)"
      "e_trace w' = e_trace w"
    | (ran) st1 w2 r st3 where "LockPlacementApply now (e_st w) = (Inr now, st1)" "work (w\<lparr>e_st := st1\<rparr>) = (resp, w2)"
      "UnlockPlacementApply now (e_st w2) = (r, st3)" "w' = w2\<lparr>e_st := st3\<rparr>"
      "lock_token (dbs (e_st w)) = 0 \<or> lock_token (dbs (e_st w)) < now - placementApplyLease" "lock_token (dbs st1) = now"
proof -
  obtain l st1 where l: "LockPlacementApply now (e_st w) = (l, st1)" by (rule prod.exhaust)
  show thesis
  proof (cases l)
    case (Inl e)
    with l Lock_cases [OF l] have "dbs st1 = dbs (e_st w)" by auto
    with refused Inl l assms show thesis
      by (auto simp: under_apply_lock_def inProgressResponse_def split: option.splits if_splits)
  next
    case (Inr t)
    from Lock_cases [OF l] Inr have t: "t = now" "acquire_update now (now - placementApplyLease) (dbs (e_st w)) = (1, dbs st1)" by auto
    obtain q w2 where q: "work (w\<lparr>e_st := st1\<rparr>) = (q, w2)" by (rule prod.exhaust)
    obtain r st3 where r: "UnlockPlacementApply now (e_st w2) = (r, st3)" by (rule prod.exhaust)
    have "resp = q \<and> w' = w2\<lparr>e_st := st3\<rparr>" using assms l Inr t q r by (simp add: under_apply_lock_def)
    with ran l Inr t q r row_lock.acquire_won [OF t(2)] show thesis by blast
  qed
qed

lemma unlock_own:
  assumes "UnlockPlacementApply t st = (r, st')" "lock_token (dbs st) = t" "t \<noteq> 0"
  shows "lock_token (dbs st') = (if is_err r then t else 0)" "policy_core (dbs st') = policy_core (dbs st)"
proof -
  obtain q st1 where q: "Transaction (ReleasePlacementApplyLock t) st = (q, st1)" by (rule prod.exhaust)
  have "lock_token (dbs st') = (if is_err r then t else 0) \<and> policy_core (dbs st') = policy_core (dbs st)"
  proof (cases q)
    case (Inl e)
    with q have "dbs st1 = dbs st" using Transaction_Inl by blast
    with q Inl assms show ?thesis by (auto simp: UnlockPlacementApply_def)
  next
    case (Inr b)
    from q [unfolded Inr] obtain u1 u2 where u: "ReleasePlacementApplyLock t u1 = (Inr b, u2)" "dbs u1 = dbs st" "dbs u2 = dbs st1"
      by (rule Transaction_Inr)
    from Release_Inr [OF u(1)] u(2,3) obtain n where n: "release_update t (dbs st) = (n, dbs st1)" by auto
    from assms(2,3) obtain row where "db_policy (dbs st) = Some row" "pr_apply_lock_token row = t"
      by (auto simp: lock_token_def split: option.splits)
    with n have "dbs st1 = (dbs st)\<lparr>db_policy := Some (row\<lparr>pr_apply_lock_token := 0\<rparr>)\<rparr>"
      by (simp add: release_update_def update_policy_def)
    with \<open>db_policy (dbs st) = Some row\<close> q Inr assms(1) show ?thesis
      by (auto simp: UnlockPlacementApply_def lock_token_def policy_core_def)
  qed
  then show "lock_token (dbs st') = (if is_err r then t else 0)" "policy_core (dbs st') = policy_core (dbs st)" by blast+
qed


section \<open>Properties\<close>

text \<open>C34 (safety). A request to install a policy either leaves the tables and the trace of dispatches as they
  were and does not report success, or it had a body of exactly one strictly decoded document with the
  required mode, found the apply lock free or expired, held it during the whole work, and then asked for
  its release, which frees the lock unless the database fails.\<close>

theorem placement_put_exclusive:
  assumes "hk_dispatch H = prod_dispatch N" "0 < now" "cmdPlacementPut smart G H now body w = (resp, w')"
  shows "(resp \<noteq> SyncOk \<and> dbs (e_st w') = dbs (e_st w) \<and> e_trace w' = e_trace w) \<or>
    (\<exists>j p w1 w2 r. body = [Doc j] \<and> dec_policy G True j = Some p \<and> pp_Mode p = PlacementModeReconcile \<and>
       (lock_token (dbs (e_st w)) = 0 \<or> lock_token (dbs (e_st w)) < now - placementApplyLease) \<and>
       lock_token (dbs (e_st w1)) = now \<and> (\<exists>e. ApplyPlacementPolicy H p w1 = (e, w2)) \<and> lock_token (dbs (e_st w2)) = now \<and>
       UnlockPlacementApply now (e_st w2) = (r, e_st w') \<and> lock_token (dbs (e_st w')) = (if is_err r then now else 0))"
proof (cases "put_body G body")
  case (Inl e)
  with assms(3) show ?thesis by (auto simp: cmdPlacementPut_def BadRequest_def)
next
  case (Inr p)
  note p = put_body_Inr [OF Inr]
  from assms(3) Inr have "under_apply_lock smart now (\<lambda>w1. case ApplyPlacementPolicy H p w1 of (r, w2) \<Rightarrow> (apply_response smart r, w2)) w = (resp, w')"
    by (simp add: cmdPlacementPut_def)
  then show ?thesis
  proof (cases rule: under_lock_cases)
    case refused
    then show ?thesis by blast
  next
    case (ran st1 w2 r st3)
    obtain e where e: "ApplyPlacementPolicy H p (w\<lparr>e_st := st1\<rparr>) = (e, w2)" using ran(2) by (auto split: prod.splits)
    have tok: "lock_token (dbs (e_st w2)) = now" using apply_keeps_token [OF assms(1) e] ran(6) by simp
    have "lock_token (dbs st3) = (if is_err r then now else 0)" using unlock_own(1) [OF ran(3) tok] assms(2) by simp
    moreover obtain j where "body = [Doc j]" "dec_policy G True j = Some p" using p(3) by blast
    ultimately show ?thesis using p(2) e tok ran
      by (intro disjI2) (rule exI [of _ j], rule exI [of _ p], rule exI [of _ "w\<lparr>e_st := st1\<rparr>"], rule exI [of _ w2], rule exI [of _ r], simp)
  qed
qed

text \<open>A successful installation replaces the desired placement as a whole: the stored policy
  is the submitted one, normalized and without TLS material, and from then on the storage gate lets a
  member enroll a disk only when the submitted document itself grants it; a grant of an earlier policy
  that the document omits is gone.\<close>

theorem placement_put_replaces:
  assumes "hk_dispatch H = prod_dispatch N" "0 < now" "cmdPlacementPut smart G H now [Doc j] w = (SyncOk, w')"
    and "dec_policy G True j = Some p" "checkStorageEligibility G True m \<lparr>dbs = dbs (e_st w'), faults = fs\<rparr> = (None, st')"
  shows "\<exists>mp. member_entry p m = Some mp \<and> mp_StorageEligible mp = Some True"
proof -
  have pb: "put_body G [Doc j] = Inr p" using assms(3,4) by (auto simp: cmdPlacementPut_def put_body_def BadRequest_def split: if_splits)
  note p = put_body_Inr [OF pb]
  from assms(3) pb have "under_apply_lock smart now (\<lambda>w1. case ApplyPlacementPolicy H p w1 of (r, w2) \<Rightarrow> (apply_response smart r, w2)) w = (SyncOk, w')"
    by (simp add: cmdPlacementPut_def)
  then obtain st1 w2 r where ran: "ApplyPlacementPolicy H p (w\<lparr>e_st := st1\<rparr>) = (None, w2)" "lock_token (dbs st1) = now"
      "UnlockPlacementApply now (e_st w2) = (r, e_st w')"
    by (cases rule: under_lock_cases)
      (auto simp: apply_response_def BadRequest_def InternalError_def split: prod.splits option.splits if_splits)
  have tok: "lock_token (dbs (e_st w2)) = now" using apply_keeps_token [OF assms(1) ran(1)] ran(2) by simp
  from apply_core [OF prod_preserves_policy [OF assms(1)] ran(1)] obtain n where
    n: "normalizePlacement H p = Inr n" "policy_core (dbs (e_st w2)) = Some (1, Some (placementPolicyJSON n))" by blast
  have core: "policy_core (dbs (e_st w')) = Some (1, Some (placementPolicyJSON n))"
    using unlock_own(2) [OF ran(3) tok] assms(2) n(2) by simp
  note nn = normalizePlacement_Inr [OF n(1) p(1)] normalizePlacement_normal [OF n(1) p(1)]
  have reads: "dec_policy G False (placementPolicyJSON n) = Some (sorted_policy (policyForStorage n))" by (rule stored_reads_back [OF nn(5)])
  have e: "member_entry (sorted_policy (policyForStorage n)) m = map_option strip_secrets (member_entry n m)"
    using nn(5) member_entry_sorted [of "policyForStorage n"] by (simp add: normal_policy_def wf_policyForStorage member_entry_storage)
  from gate_closed [OF assms(5)] core reads obtain mp' where
    g: "member_entry (sorted_policy (policyForStorage n)) m = Some mp'" "mp_StorageEligible mp' = Some True"
    by (auto simp: policy_core_def)
  from g e obtain mp where mp: "member_entry n m = Some mp" "mp_StorageEligible (strip_secrets mp) = Some True" by auto
  from mp nn(3) [of m] obtain mp0 where "member_entry p m = Some mp0" "mp = projr (norm_entry (hk_tls H) mp0)" by auto
  with mp(2) norm_entry_fields(3) [OF nn(4)] show ?thesis by (auto simp: strip_secrets_def)
qed


definition waiting_doc :: json where
  "waiting_doc = JObj [(''mode'', JStr ''reconcile''), (''members'', JObj [(''n1'', JObj [(''storage_eligible'', JBool True)])])]"

lemma put_sample:
  "fst (cmdPlacementPut (\<lambda>_. 500) plain_lib prod_hooks 5 [Doc waiting_doc] two_engine) = SyncOk"
  "map_option (\<lambda>p. map fst (members_of p)) (dec_policy plain_lib True waiting_doc) = Some [''n1'']"
  by code_simp+

theorem placement_put_exclusive_witness:
  "\<exists>w'. cmdPlacementPut (\<lambda>_. 500) plain_lib prod_hooks 5 [Doc waiting_doc] two_engine = (SyncOk, w') \<and> lock_token (dbs (e_st w')) \<in> {0, 5}"
proof -
  obtain w' where run: "cmdPlacementPut (\<lambda>_. 500) plain_lib prod_hooks 5 [Doc waiting_doc] two_engine = (SyncOk, w')"
    using put_sample(1) by (metis prod.collapse)
  have "hk_dispatch prod_hooks = prod_dispatch plain_network" by (simp add: prod_hooks_def)
  from placement_put_exclusive [OF this _ run] run show ?thesis by (auto split: if_splits)
qed

theorem placement_put_replaces_witness:
  "fst (checkStorageEligibility plain_lib True ''n2''
      \<lparr>dbs = dbs (e_st (snd (cmdPlacementPut (\<lambda>_. 500) plain_lib prod_hooks 5 [Doc waiting_doc] two_engine))), faults = []\<rparr>) \<noteq> None"
proof
  let ?w = "snd (cmdPlacementPut (\<lambda>_. 500) plain_lib prod_hooks 5 [Doc waiting_doc] two_engine)"
  assume "fst (checkStorageEligibility plain_lib True ''n2'' \<lparr>dbs = dbs (e_st ?w), faults = []\<rparr>) = None"
  then obtain st' where gate: "checkStorageEligibility plain_lib True ''n2'' \<lparr>dbs = dbs (e_st ?w), faults = []\<rparr> = (None, st')"
    by (metis prod.collapse)
  have run: "cmdPlacementPut (\<lambda>_. 500) plain_lib prod_hooks 5 [Doc waiting_doc] two_engine = (SyncOk, ?w)"
    using put_sample(1) by (metis prod.collapse)
  obtain p where p: "dec_policy plain_lib True waiting_doc = Some p" "map fst (members_of p) = [''n1'']"
    using put_sample(2) by auto
  have "hk_dispatch prod_hooks = prod_dispatch plain_network" by (simp add: prod_hooks_def)
  from placement_put_replaces [OF this _ run p(1) gate] have "\<exists>mp. member_entry p ''n2'' = Some mp" by auto
  then have "''n2'' \<in> set (map fst (members_of p))" by (force simp: member_entry_def dest: map_of_SomeD)
  with p(2) show False by simp
qed

text \<open>Clearing the policy is the way to stand down: when it reports success, no service
  operation was dispatched, no policy is left stored or active, and on a database that does not fail
  every member may enroll disks again.\<close>

theorem placement_delete_stands_down:
  assumes "0 < now" "cmdPlacementDelete smart now w = (SyncOk, w')"
  shows "e_trace w' = e_trace w \<and> policy_core (dbs (e_st w')) = Some (0, None) \<and>
    fst (checkStorageEligibility G has_state m \<lparr>dbs = dbs (e_st w'), faults = []\<rparr>) = None"
proof -
  from assms(2) obtain st1 st2 r u where ran: "ClearPlacementPolicy st1 = (Inr u, st2)" "UnlockPlacementApply now st2 = (r, e_st w')"
      "e_trace w' = e_trace w" "lock_token (dbs st1) = now"
    unfolding cmdPlacementDelete_def
    by (cases rule: under_lock_cases) (auto simp: InternalError_def split: prod.splits sum.splits)
  from ran(1) obtain u1 u2 where "db_ClearPlacementPolicy u1 = (Inr u, u2)" "dbs u2 = dbs st2"
    unfolding ClearPlacementPolicy_def by (auto elim: Transaction_Inr)
  then obtain row0 where "dbs st2 = (dbs u1)\<lparr>db_policy := Some (row0\<lparr>pr_active := 0, pr_policy_json := None, pr_last_refusal := None\<rparr>)\<rparr>"
    by (metis ClearPlacementPolicy_Inr)
  then have c2: "policy_core (dbs st2) = Some (0, None)" by (simp add: policy_core_def)
  have "lock_token (dbs st2) = now" using policy_update_token(3) [of st1] ran(1,4) by simp
  from unlock_own(2) [OF ran(2) this] assms(1) c2 have core: "policy_core (dbs (e_st w')) = Some (0, None)" by simp
  then obtain row where "db_policy (dbs (e_st w')) = Some row" "pr_active row = 0" by (auto simp: policy_core_def)
  then have "fst (checkStorageEligibility G has_state m \<lparr>dbs = dbs (e_st w'), faults = []\<rparr>) = None"
    by (simp add: checkStorageEligibility_def Transaction_def GetPlacementPolicy_def query_policy_def tx_bind_def)
  with core ran(3) show ?thesis by blast
qed

theorem placement_delete_stands_down_witness:
  "fst (checkStorageEligibility plain_lib True ''n2'' \<lparr>dbs = dbs (e_st (snd (cmdPlacementDelete (\<lambda>_. 500) 9 two_engine))), faults = []\<rparr>) = None"
proof -
  have "fst (cmdPlacementDelete (\<lambda>_. 500) 9 two_engine) = SyncOk" by code_simp
  then have "cmdPlacementDelete (\<lambda>_. 500) 9 two_engine = (SyncOk, snd (cmdPlacementDelete (\<lambda>_. 500) 9 two_engine))" by (metis prod.collapse)
  from placement_delete_stands_down [OF _ this] show ?thesis by simp
qed

text \<open>A bootstrap request changes the shared tables only on the member it names: on every other
  member, and when it names none or does not decode, the answer is a client error and nothing happens.\<close>

theorem bootstrap_only_on_target:
  assumes "cmdCephBootstrapPut smart G boot locked localName query_target body st = (resp, st')"
  shows "(st' = st \<and> (\<exists>e. resp = ErrorResponse 400 e)) \<or>
    (\<exists>req r. bootstrap_target G query_target body = Inr req \<and> br_Target req = localName \<and> localName \<noteq> '''' \<and>
       BootstrapCeph locked (boot req) localName (br_Force req) st = (r, st') \<and> (resp = SyncOk \<longleftrightarrow> \<not> is_err r))"
proof (cases "bootstrap_target G query_target body")
  case (Inl e)
  with assms show ?thesis by (auto simp: cmdCephBootstrapPut_def BadRequest_def)
next
  case (Inr req)
  obtain r st1 where r: "BootstrapCeph locked (boot req) (br_Target req) (br_Force req) st = (r, st1)" by (rule prod.exhaust)
  show ?thesis
  proof (cases "br_Target req = localName \<and> localName \<noteq> ''''")
    case True
    with assms Inr r show ?thesis
      by (cases r) (auto simp: cmdCephBootstrapPut_def BadRequest_def inProgressResponse_def split: if_splits option.splits)
  next
    case False
    with assms Inr show ?thesis by (auto simp: cmdCephBootstrapPut_def BadRequest_def split: if_splits)
  qed
qed

theorem bootstrap_only_on_target_witness:
  "snd (cmdCephBootstrapPut (\<lambda>_. 500) plain_lib (\<lambda>_. fresh_env) True ''n1'' ''n2'' [] \<lparr>dbs = fresh_db, faults = []\<rparr>) = \<lparr>dbs = fresh_db, faults = []\<rparr>"
proof -
  let ?run = "cmdCephBootstrapPut (\<lambda>_. 500) plain_lib (\<lambda>_. fresh_env) True ''n1'' ''n2'' [] \<lparr>dbs = fresh_db, faults = []\<rparr>"
  have t: "bootstrap_target plain_lib ''n2'' [] = Inr (bootstrap_request_zero\<lparr>br_Target := ''n2''\<rparr>)"
    by (simp add: bootstrap_target_def Let_def bootstrap_request_zero_def)
  obtain resp st' where run: "?run = (resp, st')" by (rule prod.exhaust)
  from bootstrap_only_on_target [OF run] t run show ?thesis by auto
qed

end
