(* ===== verification/Host_Log.thy ===== *)
theory Host_Log
  imports Go_Env
begin

text \<open>
  Local work of a member as a sequence of requests to its host: commands, file operations, device
  locks and database calls. What the host answers is a parameter that may depend on everything asked
  before, so a theorem for all hosts covers every failure and every interference from outside. A
  procedure appends its requests to the log and returns a result or an error.

  The second half is a small program logic for such procedures: a triple says which requests a
  procedure may make, given what the log shows at that moment, and what holds when it returns.
\<close>

section \<open>Requests and answers\<close>

datatype request =
    Cmd "string list"
  | Stat string
  | ReadFile string
  | WriteFile string json
  | Rename string string
  | RemoveFile string
  | RemoveAll string
  | EvalSymlinks string
  | Flock string
  | Funlock string
  | Db string "string list"
  | Probe string "string list"

text \<open>A failure says whether it is a missing file, the exit code of a command if there is one, and its
  message; an answer carries its text and, when that is a JSON document, its tree.\<close>

datatype reply = Failed bool "nat option" string | Answer string "json option"

type_synonym history = "request list"
type_synonym host = "history \<Rightarrow> request \<Rightarrow> reply"
type_synonym 'a io = "history \<Rightarrow> (go_error + 'a) \<times> history"

definition answered :: "reply \<Rightarrow> bool" where
  "answered r \<longleftrightarrow> (case r of Failed _ _ _ \<Rightarrow> False | Answer _ _ \<Rightarrow> True)"

definition not_exist :: "reply \<Rightarrow> bool" where
  "not_exist r \<longleftrightarrow> (case r of Failed missing _ _ \<Rightarrow> missing | Answer _ _ \<Rightarrow> False)"

definition exit_code :: "reply \<Rightarrow> nat option" where
  "exit_code r = (case r of Failed _ c _ \<Rightarrow> c | Answer _ _ \<Rightarrow> None)"

definition reply_text :: "reply \<Rightarrow> string" where
  "reply_text r = (case r of Failed _ _ t \<Rightarrow> t | Answer t _ \<Rightarrow> t)"

definition reply_json :: "reply \<Rightarrow> json option" where
  "reply_json r = (case r of Failed _ _ _ \<Rightarrow> None | Answer _ j \<Rightarrow> j)"

lemma reply_simps [simp]:
  "answered (Answer t j)" "\<not> answered (Failed m c e)" "not_exist (Failed m c e) = m" "\<not> not_exist (Answer t j)"
  "exit_code (Failed m c e) = c" "reply_text (Answer t j) = t" "reply_text (Failed m c e) = e" "reply_json (Answer t j) = j"
  by (simp_all add: answered_def not_exist_def exit_code_def reply_text_def reply_json_def)

definition io_return :: "'a \<Rightarrow> 'a io" where
  "io_return v log = (Inr v, log)"

definition io_fail :: "go_error \<Rightarrow> 'a io" where
  "io_fail e log = (Inl e, log)"

definition io_bind :: "'a io \<Rightarrow> ('a \<Rightarrow> 'b io) \<Rightarrow> 'b io" where
  "io_bind f g log = (case f log of (Inl e, log1) \<Rightarrow> (Inl e, log1) | (Inr v, log1) \<Rightarrow> g v log1)"

text \<open>One request; the procedure sees the whole answer.\<close>

definition ask :: "host \<Rightarrow> request \<Rightarrow> reply io" where
  "ask H r log = (Inr (H log r), log @ [r])"

text \<open>The result of a procedure as a value, as when the code looks at an error before it decides.\<close>

definition attempt :: "'a io \<Rightarrow> (go_error + 'a) io" where
  "attempt f log = (case f log of (r, log1) \<Rightarrow> (Inr r, log1))"

definition io_wrap :: "string \<Rightarrow> 'a io \<Rightarrow> 'a io" where
  "io_wrap pre f log = (case f log of (Inl e, log1) \<Rightarrow> (Inl (err_wrap pre e ''''), log1) | (Inr v, log1) \<Rightarrow> (Inr v, log1))"

text \<open>A request whose failure is the error of the procedure.\<close>

definition must :: "host \<Rightarrow> request \<Rightarrow> reply io" where
  "must H r = io_bind (ask H r) (\<lambda>a. if answered a then io_return a else io_fail (err_new (reply_text a)))"

section \<open>A program logic\<close>

text \<open>The log grows by requests that are allowed at their moment.\<close>

fun allowed_ext :: "(history \<Rightarrow> request \<Rightarrow> bool) \<Rightarrow> history \<Rightarrow> history \<Rightarrow> bool" where
  "allowed_ext Q log [] \<longleftrightarrow> True"
| "allowed_ext Q log (r # rs) \<longleftrightarrow> Q log r \<and> allowed_ext Q (log @ [r]) rs"

lemma allowed_ext_append: "allowed_ext Q log (xs @ ys) \<longleftrightarrow> allowed_ext Q log xs \<and> allowed_ext Q (log @ xs) ys"
  by (induction xs arbitrary: log) auto

lemma allowed_ext_nth: "allowed_ext Q log ext \<Longrightarrow> k < length ext \<Longrightarrow> Q (log @ take k ext) (ext ! k)"
proof (induction ext arbitrary: log k)
  case (Cons r rs)
  show ?case
  proof (cases k)
    case (Suc i)
    with Cons.IH [of "log @ [r]" i] Cons.prems show ?thesis by simp
  qed (use Cons.prems in simp)
qed simp

definition triple :: "(history \<Rightarrow> request \<Rightarrow> bool) \<Rightarrow> (history \<Rightarrow> bool) \<Rightarrow> 'a io \<Rightarrow> ('a \<Rightarrow> history \<Rightarrow> bool) \<Rightarrow> (go_error \<Rightarrow> history \<Rightarrow> bool) \<Rightarrow> bool" where
  "triple Q Pre f Post Err \<longleftrightarrow>
     (\<forall>log. Pre log \<longrightarrow> (\<exists>ext. snd (f log) = log @ ext \<and> allowed_ext Q log ext \<and>
        (case fst (f log) of Inr v \<Rightarrow> Post v (log @ ext) | Inl e \<Rightarrow> Err e (log @ ext))))"

lemma tripleI:
  assumes "\<And>log. Pre log \<Longrightarrow> \<exists>ext. snd (f log) = log @ ext \<and> allowed_ext Q log ext \<and>
        (case fst (f log) of Inr v \<Rightarrow> Post v (log @ ext) | Inl e \<Rightarrow> Err e (log @ ext))"
  shows "triple Q Pre f Post Err"
  using assms by (simp add: triple_def)

lemma tripleD:
  assumes "triple Q Pre f Post Err" "Pre log" "f log = (r, log')"
  obtains ext where "log' = log @ ext" "allowed_ext Q log ext" "case r of Inr v \<Rightarrow> Post v log' | Inl e \<Rightarrow> Err e log'"
proof -
  from assms(1,2) obtain ext where "snd (f log) = log @ ext" "allowed_ext Q log ext"
      "case fst (f log) of Inr v \<Rightarrow> Post v (log @ ext) | Inl e \<Rightarrow> Err e (log @ ext)"
    unfolding triple_def by blast
  then show thesis using assms(3) by (intro that) auto
qed

text \<open>So every request of a run is allowed at its moment.\<close>

lemma triple_request:
  assumes "triple Q Pre f Post Err" "Pre log" "f log = (r, log @ ext)" "k < length ext"
  shows "Q (log @ take k ext) (ext ! k)"
proof -
  from assms(1-3) obtain ext' where "log @ ext = log @ ext'" "allowed_ext Q log ext'" by (rule tripleD)
  with assms(4) show ?thesis using allowed_ext_nth by simp
qed

lemma triple_return: "(\<And>log. Pre log \<Longrightarrow> Post v log) \<Longrightarrow> triple Q Pre (io_return v) Post Err"
  by (auto simp: triple_def io_return_def)

lemma triple_fail: "(\<And>log. Pre log \<Longrightarrow> Err e log) \<Longrightarrow> triple Q Pre (io_fail e) Post Err"
  by (auto simp: triple_def io_fail_def)

lemma triple_bind:
  assumes f: "triple Q Pre f Mid Err" and g: "\<And>v. triple Q (Mid v) (g v) Post Err"
  shows "triple Q Pre (io_bind f g) Post Err"
proof (rule tripleI)
  fix log assume pre: "Pre log"
  obtain r log1 where r: "f log = (r, log1)" by (rule prod.exhaust)
  from f pre r obtain ext where ext: "log1 = log @ ext" "allowed_ext Q log ext" "case r of Inr v \<Rightarrow> Mid v log1 | Inl e \<Rightarrow> Err e log1"
    by (rule tripleD)
  show "\<exists>ext. snd (io_bind f g log) = log @ ext \<and> allowed_ext Q log ext \<and>
      (case fst (io_bind f g log) of Inr v \<Rightarrow> Post v (log @ ext) | Inl e \<Rightarrow> Err e (log @ ext))"
  proof (cases r)
    case (Inl e)
    with r ext show ?thesis by (auto simp: io_bind_def)
  next
    case (Inr v)
    obtain q log2 where q: "g v log1 = (q, log2)" by (rule prod.exhaust)
    from ext(3) Inr have "Mid v log1" by simp
    with g q obtain ext2 where e2: "log2 = log1 @ ext2" "allowed_ext Q log1 ext2" "case q of Inr v \<Rightarrow> Post v log2 | Inl e \<Rightarrow> Err e log2"
      by (metis tripleD)
    have "snd (io_bind f g log) = log @ (ext @ ext2)" "fst (io_bind f g log) = q" using r Inr q ext(1) e2(1) by (simp_all add: io_bind_def)
    moreover have "allowed_ext Q log (ext @ ext2)" using ext(1,2) e2(2) by (simp add: allowed_ext_append)
    ultimately show ?thesis using e2(1,3) ext(1) by (metis append_assoc)
  qed
qed

lemma triple_ask:
  assumes "\<And>log. Pre log \<Longrightarrow> Q log r" "\<And>log. Pre log \<Longrightarrow> Post (H log r) (log @ [r])"
  shows "triple Q Pre (ask H r) Post Err"
  using assms by (auto simp: triple_def ask_def)

lemma triple_attempt: "triple Q Pre f (\<lambda>v. Post (Inr v)) (\<lambda>e. Post (Inl e)) \<Longrightarrow> triple Q Pre (attempt f) Post Err"
  unfolding triple_def attempt_def
proof (intro allI impI)
  fix log
  assume t: "\<forall>log. Pre log \<longrightarrow> (\<exists>ext. snd (f log) = log @ ext \<and> allowed_ext Q log ext \<and>
      (case fst (f log) of Inr v \<Rightarrow> Post (Inr v) (log @ ext) | Inl e \<Rightarrow> Post (Inl e) (log @ ext)))" and "Pre log"
  then obtain ext where "snd (f log) = log @ ext" "allowed_ext Q log ext" "Post (fst (f log)) (log @ ext)"
    by (cases "fst (f log)") fastforce+
  then show "\<exists>ext. snd (case f log of (r, log1) \<Rightarrow> (Inr r, log1)) = log @ ext \<and> allowed_ext Q log ext \<and>
      (case fst (case f log of (r, log1) \<Rightarrow> (Inr r, log1)) of Inr v \<Rightarrow> Post v (log @ ext) | Inl e \<Rightarrow> Err e (log @ ext))"
    by (auto simp: split_def)
qed

lemma triple_wrap: "triple Q Pre f Post (\<lambda>e. Err (err_wrap pre e '''')) \<Longrightarrow> triple Q Pre (io_wrap pre f) Post Err"
  unfolding triple_def io_wrap_def
  by (intro allI impI) (drule spec, drule (1) mp, auto split: prod.splits sum.splits)

lemma triple_weaken:
  assumes "triple Q Pre f Post Err" "\<And>log. Pre' log \<Longrightarrow> Pre log" "\<And>v log. Post v log \<Longrightarrow> Post' v log" "\<And>e log. Err e log \<Longrightarrow> Err' e log"
  shows "triple Q Pre' f Post' Err'"
  unfolding triple_def
proof (intro allI impI)
  fix log assume "Pre' log"
  with assms(1,2) obtain ext where "snd (f log) = log @ ext" "allowed_ext Q log ext"
      "case fst (f log) of Inr v \<Rightarrow> Post v (log @ ext) | Inl e \<Rightarrow> Err e (log @ ext)"
    unfolding triple_def by blast
  with assms(3,4) show "\<exists>ext. snd (f log) = log @ ext \<and> allowed_ext Q log ext \<and>
      (case fst (f log) of Inr v \<Rightarrow> Post' v (log @ ext) | Inl e \<Rightarrow> Err' e (log @ ext))"
    by (auto split: sum.splits)
qed

lemma triple_if:
  assumes "b \<Longrightarrow> triple Q Pre f Post Err" "\<not> b \<Longrightarrow> triple Q Pre g Post Err"
  shows "triple Q Pre (if b then f else g) Post Err"
  using assms by simp

lemma triple_pure: "(b \<Longrightarrow> triple Q Pre f Post Err) \<Longrightarrow> triple Q (\<lambda>log. Pre log \<and> b) f Post Err"
  by (cases b) (auto simp: triple_def)

lemma triple_option:
  assumes "x = None \<Longrightarrow> triple Q Pre f Post Err" "\<And>v. x = Some v \<Longrightarrow> triple Q Pre (g v) Post Err"
  shows "triple Q Pre (case x of None \<Rightarrow> f | Some v \<Rightarrow> g v) Post Err"
  using assms by (cases x) auto

lemma triple_sum:
  assumes "\<And>e. x = Inl e \<Longrightarrow> triple Q Pre (f e) Post Err" "\<And>v. x = Inr v \<Longrightarrow> triple Q Pre (g v) Post Err"
  shows "triple Q Pre (case x of Inl e \<Rightarrow> f e | Inr v \<Rightarrow> g v) Post Err"
  using assms by (cases x) auto

lemmas triple_rules = triple_if triple_option triple_sum

lemma triple_must:
  assumes "\<And>log. Pre log \<Longrightarrow> Q log r"
    and "\<And>log. Pre log \<Longrightarrow> answered (H log r) \<Longrightarrow> Post (H log r) (log @ [r])"
    and "\<And>log e. Pre log \<Longrightarrow> \<not> answered (H log r) \<Longrightarrow> Err e (log @ [r])"
  shows "triple Q Pre (must H r) Post Err"
  unfolding triple_def must_def io_bind_def ask_def io_return_def io_fail_def using assms by auto

text \<open>A fact about every result can be added.\<close>

lemma triple_result:
  assumes "triple Q Pre f Post Err" "\<And>log v log'. f log = (Inr v, log') \<Longrightarrow> P v"
  shows "triple Q Pre f (\<lambda>v log. Post v log \<and> P v) Err"
  unfolding triple_def
proof (intro allI impI)
  fix log assume "Pre log"
  with assms(1) obtain ext where ext: "snd (f log) = log @ ext" "allowed_ext Q log ext"
      "case fst (f log) of Inr v \<Rightarrow> Post v (log @ ext) | Inl e \<Rightarrow> Err e (log @ ext)"
    unfolding triple_def by blast
  have "P v" if "fst (f log) = Inr v" for v using assms(2) [of log v "snd (f log)"] that by (metis prod.collapse)
  with ext show "\<exists>ext. snd (f log) = log @ ext \<and> allowed_ext Q log ext \<and>
      (case fst (f log) of Inr v \<Rightarrow> Post v (log @ ext) \<and> P v | Inl e \<Rightarrow> Err e (log @ ext))"
    by (auto split: sum.splits)
qed

text \<open>What the log already shows stays true as it grows.\<close>

definition grows :: "(history \<Rightarrow> bool) \<Rightarrow> bool" where
  "grows P \<longleftrightarrow> (\<forall>log r. P log \<longrightarrow> P (log @ [r]))"

lemma growsD: "grows P \<Longrightarrow> P log \<Longrightarrow> P (log @ [r])"
  by (simp add: grows_def)

lemma grows_append: "grows P \<Longrightarrow> P log \<Longrightarrow> P (log @ ext)"
  by (induction ext rule: rev_induct) (auto simp: grows_def simp flip: append_assoc)

definition happened :: "host \<Rightarrow> (reply \<Rightarrow> bool) \<Rightarrow> request \<Rightarrow> history \<Rightarrow> bool" where
  "happened H P r log \<longleftrightarrow> (\<exists>k < length log. log ! k = r \<and> P (H (take k log) r))"

lemma happened_snoc: "happened H P r (log @ [x]) \<longleftrightarrow> happened H P r log \<or> (x = r \<and> P (H log r))"
proof
  assume "happened H P r (log @ [x])"
  then obtain k where "k < Suc (length log)" "(log @ [x]) ! k = r" "P (H (take k (log @ [x])) r)" by (auto simp: happened_def)
  then show "happened H P r log \<or> (x = r \<and> P (H log r))" by (cases "k = length log") (auto simp: happened_def nth_append)
next
  assume "happened H P r log \<or> (x = r \<and> P (H log r))"
  then show "happened H P r (log @ [x])"
  proof
    assume "happened H P r log"
    then show ?thesis unfolding happened_def by (force simp: nth_append)
  next
    assume "x = r \<and> P (H log r)"
    then show ?thesis unfolding happened_def by (intro exI [of _ "length log"]) simp
  qed
qed

lemma grows_happened: "grows (happened H P r)"
  by (simp add: grows_def happened_snoc)

lemma grows_conj: "grows P \<Longrightarrow> grows P' \<Longrightarrow> grows (\<lambda>log. P log \<and> P' log)"
  by (simp add: grows_def)

lemma grows_const: "grows (\<lambda>_. b)"
  by (simp add: grows_def)

lemma grows_disj: "grows P \<Longrightarrow> grows P' \<Longrightarrow> grows (\<lambda>log. P log \<or> P' log)"
  by (simp add: grows_def)

lemmas grows_rules = grows_happened grows_conj grows_disj grows_const

text \<open>A procedure keeps what the log shows.\<close>

lemma triple_frame:
  assumes "triple Q Pre f Post Err" "grows I"
  shows "triple Q (\<lambda>log. Pre log \<and> I log) f (\<lambda>v log. Post v log \<and> I log) (\<lambda>e log. Err e log \<and> I log)"
  unfolding triple_def
proof (intro allI impI)
  fix log assume "Pre log \<and> I log"
  with assms(1) obtain ext where "snd (f log) = log @ ext" "allowed_ext Q log ext"
      "case fst (f log) of Inr v \<Rightarrow> Post v (log @ ext) | Inl e \<Rightarrow> Err e (log @ ext)"
    unfolding triple_def by blast
  moreover have "I (log @ ext)" using grows_append [OF assms(2)] \<open>Pre log \<and> I log\<close> by blast
  ultimately show "\<exists>ext. snd (f log) = log @ ext \<and> allowed_ext Q log ext \<and>
      (case fst (f log) of Inr v \<Rightarrow> Post v (log @ ext) \<and> I (log @ ext) | Inl e \<Rightarrow> Err e (log @ ext) \<and> I (log @ ext))"
    by (auto split: sum.splits)
qed

lemma allowed_ext_mono: "allowed_ext Q log ext \<Longrightarrow> (\<And>log r. Q log r \<Longrightarrow> Q' log r) \<Longrightarrow> allowed_ext Q' log ext"
  by (induction ext arbitrary: log) auto

lemma triple_allow: "triple Q Pre f Post Err \<Longrightarrow> (\<And>log r. Q log r \<Longrightarrow> Q' log r) \<Longrightarrow> triple Q' Pre f Post Err"
  unfolding triple_def using allowed_ext_mono by meson

text \<open>Every request is made when such a fact already holds.\<close>

lemma triple_knowing:
  assumes "triple Q Pre f Post Err" "grows I"
  shows "triple (\<lambda>log r. Q log r \<and> I log) (\<lambda>log. Pre log \<and> I log) f Post Err"
  unfolding triple_def
proof (intro allI impI)
  fix log assume pre: "Pre log \<and> I log"
  with assms(1) obtain ext where ext: "snd (f log) = log @ ext" "allowed_ext Q log ext"
      "case fst (f log) of Inr v \<Rightarrow> Post v (log @ ext) | Inl e \<Rightarrow> Err e (log @ ext)"
    unfolding triple_def by blast
  have "I log" using pre by simp
  with ext(2) have "allowed_ext (\<lambda>log r. Q log r \<and> I log) log ext"
  proof (induction ext arbitrary: log)
    case (Cons r rs)
    with growsD [OF assms(2)] show ?case by simp
  qed simp
  with ext show "\<exists>ext. snd (f log) = log @ ext \<and> allowed_ext (\<lambda>log r. Q log r \<and> I log) log ext \<and>
      (case fst (f log) of Inr v \<Rightarrow> Post v (log @ ext) | Inl e \<Rightarrow> Err e (log @ ext))"
    by blast
qed

section \<open>Procedures that make only certain requests\<close>

definition only :: "(request \<Rightarrow> bool) \<Rightarrow> 'a io \<Rightarrow> bool" where
  "only R f \<longleftrightarrow> (\<forall>log. \<exists>ext. snd (f log) = log @ ext \<and> list_all R ext)"

lemma only_return: "only R (io_return v)"
  by (simp add: only_def io_return_def)

lemma only_fail: "only R (io_fail e)"
  by (simp add: only_def io_fail_def)

lemma only_ask: "R r \<Longrightarrow> only R (ask H r)"
  by (simp add: only_def ask_def)

lemma only_bind:
  assumes "only R f" "\<And>v. only R (g v)"
  shows "only R (io_bind f g)"
  unfolding only_def
proof
  fix log
  obtain r log1 where r: "f log = (r, log1)" by (rule prod.exhaust)
  with assms(1) obtain e1 where e1: "log1 = log @ e1" "list_all R e1" unfolding only_def by (metis snd_conv)
  show "\<exists>ext. snd (io_bind f g log) = log @ ext \<and> list_all R ext"
  proof (cases r)
    case (Inl e)
    with r e1 show ?thesis by (simp add: io_bind_def)
  next
    case (Inr v)
    with assms(2) [of v] obtain e2 where "snd (g v log1) = log1 @ e2" "list_all R e2" unfolding only_def by blast
    with r Inr e1 show ?thesis by (intro exI [of _ "e1 @ e2"]) (simp add: io_bind_def)
  qed
qed

lemma only_wrap: "only R f \<Longrightarrow> only R (io_wrap pre f)"
  unfolding only_def io_wrap_def by (metis (mono_tags, lifting) old.sum.exhaust prod.collapse snd_conv split_conv sum.case)

lemma only_attempt: "only R f \<Longrightarrow> only R (attempt f)"
  by (simp add: only_def attempt_def split_def)

lemma only_must: "R r \<Longrightarrow> only R (must H r)"
  unfolding must_def by (intro only_bind only_ask) (simp_all add: only_return only_fail)

lemma only_if: "(b \<Longrightarrow> only R f) \<Longrightarrow> (\<not> b \<Longrightarrow> only R g) \<Longrightarrow> only R (if b then f else g)"
  by simp

lemma only_option: "(x = None \<Longrightarrow> only R f) \<Longrightarrow> (\<And>v. x = Some v \<Longrightarrow> only R (g v)) \<Longrightarrow> only R (case x of None \<Rightarrow> f | Some v \<Rightarrow> g v)"
  by (cases x) auto

lemma only_sum: "(\<And>e. x = Inl e \<Longrightarrow> only R (f e)) \<Longrightarrow> (\<And>v. x = Inr v \<Longrightarrow> only R (g v)) \<Longrightarrow> only R (case x of Inl e \<Rightarrow> f e | Inr v \<Rightarrow> g v)"
  by (cases x) auto

lemma only_mono: "only R f \<Longrightarrow> (\<And>r. R r \<Longrightarrow> R' r) \<Longrightarrow> only R' f"
  unfolding only_def by (meson list.pred_mono_strong)

lemmas only_rules = only_return only_fail only_bind only_wrap only_attempt only_if only_option only_sum

text \<open>Such a procedure keeps what its requests keep.\<close>

lemma only_triple:
  assumes "only R f" "\<And>log r. I log \<Longrightarrow> R r \<Longrightarrow> Q log r \<and> I (log @ [r])"
  shows "triple Q I f (\<lambda>_. I) (\<lambda>_. I)"
proof (rule tripleI)
  fix log assume I: "I log"
  from assms(1) obtain ext where ext: "snd (f log) = log @ ext" "list_all R ext" unfolding only_def by blast
  have "allowed_ext Q log ext \<and> I (log @ ext)" using I ext(2)
  proof (induction ext arbitrary: log)
    case (Cons r rs)
    with assms(2) [of log r] Cons.IH [of "log @ [r]"] show ?case by simp
  qed simp
  with ext(1) show "\<exists>ext. snd (f log) = log @ ext \<and> allowed_ext Q log ext \<and>
      (case fst (f log) of Inr v \<Rightarrow> I (log @ ext) | Inl e \<Rightarrow> I (log @ ext))"
    by (auto split: sum.splits)
qed

end
