(* ===== verification/Osd_Env.thy ===== *)
theory Osd_Env
  imports Host_Log Disk_Types Placement_Types
begin

text \<open>
  The environment of the OSD manager: its host, the storage inventory, and the tables of the shared
  database it reads. Tables are read at a moment of the log, since other members write them too; a
  failed transaction is an error. Queries over them follow the statements of
  \<^verbatim>\<open>database/disk_extras.go\<close> and \<^verbatim>\<open>database/host_tag.mapper.go\<close>.
\<close>

record host_tag =
  ht_Member :: string
  ht_Key :: string
  ht_Value :: string

text \<open>The queries of the \<^verbatim>\<open>gjson\<close> library on a command's output and on its results, and
  the \<^verbatim>\<open>%v\<close> form of values other than short integers, strings, booleans and null.\<close>

record gjson_lib =
  gj_get :: "reply \<Rightarrow> string \<Rightarrow> json option"
  gj_sub :: "json \<Rightarrow> string \<Rightarrow> json option"
  gj_array :: "json option \<Rightarrow> json list"
  gj_string :: "json option \<Rightarrow> string"
  gj_int :: "json \<Rightarrow> int"
  gj_other :: "json \<Rightarrow> string"

text \<open>The last field is what the command runner keeps of a failed command besides its message: the
  text on its error stream and the document on its output, if the error has them.\<close>

record osd_env =
  oe_host :: host
  oe_lib :: go_lib
  oe_polls :: "history \<Rightarrow> nat"
  oe_storage :: "history \<Rightarrow> string + disk list"
  oe_name :: string
  oe_data :: string
  oe_disks :: "history \<Rightarrow> string + configured_disk list"
  oe_tags :: "history \<Rightarrow> string + host_tag list"
  oe_gjson :: gjson_lib
  oe_run_error :: "string \<Rightarrow> (string \<times> json option) option"

abbreviation osd_ask :: "osd_env \<Rightarrow> request \<Rightarrow> reply io" where
  "osd_ask E \<equiv> ask (oe_host E)"

abbreviation osd_must :: "osd_env \<Rightarrow> request \<Rightarrow> reply io" where
  "osd_must E \<equiv> must (oe_host E)"

definition of_result :: "go_error + 'a \<Rightarrow> 'a io" where
  "of_result r = (case r of Inl e \<Rightarrow> io_fail e | Inr v \<Rightarrow> io_return v)"

text \<open>Read something of the environment at this moment and log that it was read.\<close>

definition observe :: "request \<Rightarrow> (history \<Rightarrow> string + 'a) \<Rightarrow> 'a io" where
  "observe r v h = (case v h of Inl e \<Rightarrow> (Inl (err_new e), h @ [r]) | Inr x \<Rightarrow> (Inr x, h @ [r]))"

definition getStorage :: "osd_env \<Rightarrow> disk list io" where
  "getStorage E = observe (Probe ''storage'' []) (oe_storage E)"

text \<open>Up to three attempts; the error is that of the last one.\<close>

fun storage_attempts :: "osd_env \<Rightarrow> nat \<Rightarrow> disk list io" where
  "storage_attempts E 0 = getStorage E"
| "storage_attempts E (Suc k) =
     io_bind (attempt (getStorage E)) (\<lambda>r. case r of Inr disks \<Rightarrow> io_return disks | Inl _ \<Rightarrow> storage_attempts E k)"

definition getStorageWithRetry :: "osd_env \<Rightarrow> disk list io" where
  "getStorageWithRetry E = storage_attempts E 2"

definition dec_u64 :: "u64 \<Rightarrow> json \<Rightarrow> u64 option" where
  "dec_u64 cur j = (case j of JNull \<Rightarrow> Some cur | JInt i \<Rightarrow> if 0 \<le> i \<and> i < 2 ^ 64 then Some (word_of_int i) else None | _ \<Rightarrow> None)"

text \<open>\<^verbatim>\<open>strings.Split\<close> with a separator of one byte.\<close>

fun split_on :: "char \<Rightarrow> string \<Rightarrow> string list" where
  "split_on c [] = [[]]"
| "split_on c (x # xs) = (if x = c then [] # split_on c xs else (case split_on c xs of [] \<Rightarrow> [[x]] | w # ws \<Rightarrow> (x # w) # ws))"

lemma split_on_nonempty [simp]: "split_on c s \<noteq> []"
  by (cases s) (auto split: list.splits)

lemma split_on_append:
  "split_on c (a @ c # b) = split_on c a @ split_on c b"
  by (induction a) (auto split: list.splits)

lemma split_on_clean: "c \<notin> set s \<Longrightarrow> split_on c s = [s]"
  by (induction s) auto

lemma only_observe: "R r \<Longrightarrow> only R (observe r v)"
  by (auto simp: only_def observe_def split: sum.splits)

lemma triple_observe:
  assumes "\<And>h. Pre h \<Longrightarrow> Q h r" "\<And>h x. Pre h \<Longrightarrow> v h = Inr x \<Longrightarrow> Post x (h @ [r])" "\<And>h e. Pre h \<Longrightarrow> Err e (h @ [r])"
  shows "triple Q Pre (observe r v) Post Err"
  unfolding triple_def observe_def using assms by (auto split: sum.splits)

lemma only_getStorage: "R (Probe ''storage'' []) \<Longrightarrow> only R (getStorage E)"
  unfolding getStorage_def by (rule only_observe)

lemma only_storage: "R (Probe ''storage'' []) \<Longrightarrow> only R (getStorageWithRetry E)"
proof -
  assume R: "R (Probe ''storage'' [])"
  have "only R (storage_attempts E k)" for k by (induction k) (auto intro!: only_rules only_getStorage R)
  then show ?thesis by (simp add: getStorageWithRetry_def)
qed

lemma only_of_result: "only R (of_result r)"
  by (cases r) (simp_all add: of_result_def only_rules)

section \<open>Queries\<close>

definition disks_query :: "osd_env \<Rightarrow> string \<Rightarrow> configured_disk list io" where
  "disks_query E name = observe (Db name []) (oe_disks E)"

definition HaveOSD :: "osd_env \<Rightarrow> int \<Rightarrow> bool io" where
  "HaveOSD E osd = io_bind (disks_query E ''haveOsd'') (\<lambda>rows. io_return (0 < length (filter (\<lambda>d. cd_OSD d = osd) rows)))"

text \<open>A query for a single row fails when there is none.\<close>

definition OSD_Path :: "osd_env \<Rightarrow> int \<Rightarrow> string io" where
  "OSD_Path E osd =
     io_bind (disks_query E ''osdPath'') (\<lambda>rows.
       case filter (\<lambda>d. cd_OSD d = osd) rows of
         [] \<Rightarrow> io_fail (err_new ''Failed to get osdPath objects: sql: no rows in result set'')
       | d # _ \<Rightarrow> io_return (cd_Path d))"

definition OSD_List :: "osd_env \<Rightarrow> configured_disk list io" where
  "OSD_List E = disks_query E ''diskObjects''"

definition DeleteDisk :: "osd_env \<Rightarrow> string \<Rightarrow> string \<Rightarrow> unit io" where
  "DeleteDisk E member path = io_bind (osd_must E (Db ''diskDeleteByMemberAndPath'' [member, path])) (\<lambda>_. io_return ())"

definition OSD_Delete :: "osd_env \<Rightarrow> int \<Rightarrow> unit io" where
  "OSD_Delete E osd = io_bind (OSD_Path E osd) (\<lambda>path. DeleteDisk E (oe_name E) path)"

text \<open>One record per member with a disk that is not excluded; \<open>-1\<close> excludes none.\<close>

definition MembersDiskCnt :: "configured_disk list \<Rightarrow> int \<Rightarrow> (string \<times> nat) list" where
  "MembersDiskCnt rows exclude =
     (let kept = (if exclude = -1 then rows else filter (\<lambda>d. cd_OSD d \<noteq> exclude) rows) in
      map (\<lambda>m. (m, length (filter (\<lambda>d. cd_Location d = m) kept))) (remdups (map cd_Location kept)))"

definition CountExclude :: "osd_env \<Rightarrow> int \<Rightarrow> nat io" where
  "CountExclude E exclude = io_bind (disks_query E ''membersDiskCntExclude'') (\<lambda>rows. io_return (length (MembersDiskCnt rows exclude)))"

definition Count :: "osd_env \<Rightarrow> nat io" where
  "Count E = io_bind (disks_query E ''membersDiskCnt'') (\<lambda>rows. io_return (length (MembersDiskCnt rows (-1))))"

text \<open>The count is the number of members that keep a disk.\<close>

lemma length_MembersDiskCnt: "length (MembersDiskCnt rows x) = card (cd_Location ` {d \<in> set rows. x = -1 \<or> cd_OSD d \<noteq> x})"
  by (auto simp: MembersDiskCnt_def Let_def length_remdups_card_conv intro!: arg_cong [where f = card])

record az_data =
  az_host :: string
  az_unique :: "string list"

definition getAZData :: "osd_env \<Rightarrow> string \<Rightarrow> az_data io" where
  "getAZData E hostname =
     io_bind (io_wrap ''failed to get host tags: '' (observe (Db ''hostTagObjectsByKey'' [''availability-zone'']) (oe_tags E))) (\<lambda>tags.
       let zone = filter (\<lambda>t. ht_Key t = ''availability-zone'') tags in
       io_return \<lparr>az_host = foldl (\<lambda>az t. if ht_Member t = hostname then ht_Value t else az) '''' zone,
                  az_unique = remdups (map ht_Value zone)\<rparr>)"

end
