(* ===== verification/Ceph_Config.thy ===== *)
theory Ceph_Config
  imports Osd_Env
begin

text \<open>
  The table of supported configuration keys and the operations on Ceph's configuration
  (\<^verbatim>\<open>ceph/config.go\<close>). Values live in Ceph; the operations are guarded commands.
\<close>

datatype config_permission = ClusterConfigRO | ClusterConfigRW

record config_def =
  cf_Who :: string
  cf_Permission :: config_permission
  cf_Daemons :: "string list"

definition global_key :: "string \<Rightarrow> string list \<Rightarrow> string \<times> config_def" where
  "global_key k daemons = (k, \<lparr>cf_Who = ''global'', cf_Permission = ClusterConfigRW, cf_Daemons = daemons\<rparr>)"

definition GetConstConfigTable :: "(string \<times> config_def) list" where
  "GetConstConfigTable =
     [(''public_network'', \<lparr>cf_Who = ''global'', cf_Permission = ClusterConfigRO, cf_Daemons = [''osd'']\<rparr>),
      global_key ''cluster_network'' [''osd''],
      global_key ''rbd_default_features'' [],
      global_key ''osd_pool_default_crush_rule'' [],
      global_key ''rgw_s3_auth_use_keystone'' [''rgw''],
      global_key ''rgw_keystone_url'' [''rgw''],
      global_key ''rgw_keystone_admin_token'' [''rgw''],
      global_key ''rgw_keystone_admin_token_path'' [''rgw''],
      global_key ''rgw_keystone_admin_user'' [''rgw''],
      global_key ''rgw_keystone_admin_password'' [''rgw''],
      global_key ''rgw_keystone_admin_password_path'' [''rgw''],
      global_key ''rgw_keystone_admin_project'' [''rgw''],
      global_key ''rgw_keystone_admin_domain'' [''rgw''],
      global_key ''rgw_keystone_service_token_enabled'' [''rgw''],
      global_key ''rgw_keystone_service_token_accepted_roles'' [''rgw''],
      global_key ''rgw_keystone_expired_token_cache_expiration'' [''rgw''],
      global_key ''rgw_keystone_api_version'' [''rgw''],
      global_key ''rgw_keystone_accepted_roles'' [''rgw''],
      global_key ''rgw_keystone_accepted_admin_roles'' [''rgw''],
      global_key ''rgw_keystone_token_cache_size'' [''rgw''],
      global_key ''rgw_keystone_verify_ssl'' [''rgw''],
      global_key ''rgw_keystone_implicit_tenants'' [''rgw''],
      global_key ''rgw_swift_account_in_url'' [''rgw''],
      global_key ''rgw_swift_versioning_enabled'' [''rgw''],
      global_key ''rgw_swift_enforce_content_length'' [''rgw''],
      global_key ''rgw_swift_custom_header'' [''rgw'']]"

definition isKeyPresent :: "(string \<times> config_def) list \<Rightarrow> string \<Rightarrow> bool" where
  "isKeyPresent c key \<longleftrightarrow> map_of c key \<noteq> None"

text \<open>Indexing a Go map with an absent key gives the zero value.\<close>

definition config_who :: "string \<Rightarrow> string" where
  "config_who key = (case map_of GetConstConfigTable key of None \<Rightarrow> '''' | Some d \<Rightarrow> cf_Who d)"

definition getClusterConfigDefinition :: "string \<Rightarrow> go_error + config_def" where
  "getClusterConfigDefinition key =
     (case map_of GetConstConfigTable key of
        None \<Rightarrow> Inl (err_new (''requested key '' @ key @ '' is not a MicroCeph supported cluster config''))
      | Some d \<Rightarrow> Inr d)"

definition canSetConfig :: "string \<Rightarrow> go_error + unit" where
  "canSetConfig key =
     (case getClusterConfigDefinition key of
        Inl e \<Rightarrow> Inl e
      | Inr d \<Rightarrow>
          if cf_Permission d \<noteq> ClusterConfigRW
          then Inl (err_new (''requested key '' @ key @ '' does not support write operation''))
          else Inr ())"

definition canReadConfig :: "string \<Rightarrow> go_error + unit" where
  "canReadConfig key = (case getClusterConfigDefinition key of Inl e \<Rightarrow> Inl e | Inr _ \<Rightarrow> Inr ())"

definition config_set_cmd :: "string \<Rightarrow> string \<Rightarrow> request" where
  "config_set_cmd key v = Cmd [''ceph'', ''config'', ''set'', config_who key, key, v, ''-f'', ''json-pretty'']"

definition setConfigItem :: "osd_env \<Rightarrow> string \<Rightarrow> string \<Rightarrow> unit io" where
  "setConfigItem E key v = io_bind (osd_must E (config_set_cmd key v)) (\<lambda>_. io_return ())"

definition SetConfigItem :: "osd_env \<Rightarrow> string \<Rightarrow> string \<Rightarrow> unit io" where
  "SetConfigItem E key v =
     (case canSetConfig key of
        Inl e \<Rightarrow> io_fail (err_new (''config set('' @ key @ '') failed: '' @ etext e))
      | Inr _ \<Rightarrow> setConfigItem E key v)"

definition GetConfigItem :: "osd_env \<Rightarrow> string \<Rightarrow> string io" where
  "GetConfigItem E key =
     (case canReadConfig key of
        Inl e \<Rightarrow> io_fail e
      | Inr _ \<Rightarrow>
          (let who = (if config_who key \<noteq> ''global'' then config_who key else ''mon'') in
           io_bind (osd_must E (Cmd [''ceph'', ''config'', ''get'', who, key])) (\<lambda>r. io_return (reply_text r))))"

definition RemoveConfigItem :: "osd_env \<Rightarrow> string \<Rightarrow> unit io" where
  "RemoveConfigItem E key =
     (case canSetConfig key of
        Inl e \<Rightarrow> io_fail e
      | Inr _ \<Rightarrow> io_bind (osd_must E (Cmd [''ceph'', ''config'', ''rm'', config_who key, key])) (\<lambda>_. io_return ()))"

record config_item =
  ci_Section :: string
  ci_Name :: string
  ci_Value :: string

definition config_item_field :: "go_lib \<Rightarrow> string \<Rightarrow> json \<Rightarrow> config_item \<Rightarrow> config_item option option" where
  "config_item_field G k v c =
     (if equal_fold G k ''Section'' then Some (map_option (\<lambda>s. c\<lparr>ci_Section := s\<rparr>) (dec_string (ci_Section c) v))
      else if equal_fold G k ''Name'' then Some (map_option (\<lambda>s. c\<lparr>ci_Name := s\<rparr>) (dec_string (ci_Name c) v))
      else if equal_fold G k ''Value'' then Some (map_option (\<lambda>s. c\<lparr>ci_Value := s\<rparr>) (dec_string (ci_Value c) v))
      else None)"

definition dec_dump :: "go_lib \<Rightarrow> json \<Rightarrow> config_item list option" where
  "dec_dump G j =
     (case j of
        JNull \<Rightarrow> Some []
      | JArr js \<Rightarrow> those (map (dec_struct False (config_item_field G) \<lparr>ci_Section = '''', ci_Name = '''', ci_Value = ''''\<rparr>) js)
      | _ \<Rightarrow> None)"

definition ListConfigs :: "osd_env \<Rightarrow> (string \<times> string) list io" where
  "ListConfigs E =
     io_bind (osd_must E (Cmd [''ceph'', ''config'', ''dump'', ''-f'', ''json-pretty''])) (\<lambda>r.
       case Option.bind (reply_json r) (dec_dump (oe_lib E)) of
         None \<Rightarrow> io_fail (err_new ''json'')
       | Some dump \<Rightarrow> io_return (map (\<lambda>i. (ci_Name i, ci_Value i)) (filter (\<lambda>i. isKeyPresent GetConstConfigTable (ci_Name i)) dump)))"

section \<open>What the guards allow\<close>

lemma table_keys_distinct: "distinct (map fst GetConstConfigTable)"
  by code_simp

lemma table_permissions: "list_all (\<lambda>(k, d). cf_Permission d = ClusterConfigRW \<longleftrightarrow> k \<noteq> ''public_network'') GetConstConfigTable"
  by code_simp

lemma canSetConfig_iff: "canSetConfig k = Inr () \<longleftrightarrow> k \<in> fst ` set GetConstConfigTable \<and> k \<noteq> ''public_network''"
proof (cases "map_of GetConstConfigTable k")
  case None
  then have "k \<notin> fst ` set GetConstConfigTable" by (simp add: map_of_eq_None_iff)
  with None show ?thesis by (simp add: canSetConfig_def getClusterConfigDefinition_def)
next
  case (Some d)
  have "cf_Permission d = ClusterConfigRW \<longleftrightarrow> k \<noteq> ''public_network''"
    using map_of_SomeD [OF Some] table_permissions by (fastforce simp: list_all_iff)
  moreover have "k \<in> fst ` set GetConstConfigTable" using map_of_SomeD [OF Some] by force
  ultimately show ?thesis using Some by (simp add: canSetConfig_def getClusterConfigDefinition_def)
qed

text \<open>A setting writes only a supported key that is not read-only, in the global section.\<close>

lemma set_only_writable: "only (\<lambda>r. r = config_set_cmd k v \<and> k \<in> fst ` set GetConstConfigTable \<and> k \<noteq> ''public_network'') (SetConfigItem E k v)"
  unfolding SetConfigItem_def setConfigItem_def
  by (intro only_rules only_must) (metis canSetConfig_iff old.unit.exhaust)

end
