(* ===== verification/Crush.thy ===== *)
theory Crush
  imports Ceph_Config
begin

text \<open>
  CRUSH rules and failure domains (\<^verbatim>\<open>ceph/crush.go\<close> and the failure domain part of
  \<^verbatim>\<open>ceph/osd.go\<close>): the automatic rules for the domains osd, host and rack, the switch of
  pools between them, the rack topology of availability zones, and the decisions a removal makes about
  them.
\<close>

section \<open>Rules\<close>

definition is_crush_char :: "char \<Rightarrow> bool" where
  "is_crush_char c \<longleftrightarrow> (is_ascii_byte c \<and> is_letter_byte c) \<or> is_digit_byte c \<or> c \<in> set [CHR 0x5F, CHR 0x2E, CHR 0x2D]"

definition IsValidCrushName :: "string \<Rightarrow> bool" where
  "IsValidCrushName name \<longleftrightarrow> name \<noteq> [] \<and> list_all is_crush_char name"

definition addCrushRule :: "osd_env \<Rightarrow> string \<Rightarrow> string \<Rightarrow> unit io" where
  "addCrushRule E name failureDomain =
     io_bind (osd_must E (Cmd [''ceph'', ''osd'', ''crush'', ''rule'', ''create-replicated'', name, ''default'', failureDomain])) (\<lambda>_. io_return ())"

definition listCrushRules :: "osd_env \<Rightarrow> string list io" where
  "listCrushRules E =
     io_bind (osd_must E (Cmd [''ceph'', ''osd'', ''crush'', ''rule'', ''ls''])) (\<lambda>r.
       io_return (split_on (CHR 0x0A) (trim_space (oe_lib E) (reply_text r))))"

definition haveCrushRule :: "osd_env \<Rightarrow> string \<Rightarrow> bool io" where
  "haveCrushRule E name =
     io_bind (attempt (listCrushRules E)) (\<lambda>rules. io_return (case rules of Inl _ \<Rightarrow> False | Inr rs \<Rightarrow> name \<in> set rs))"

text \<open>\<^verbatim>\<open>fmt.Sprintf("%v", val)\<close> of a decoded JSON value.\<close>

definition fmt_any :: "osd_env \<Rightarrow> json \<Rightarrow> string" where
  "fmt_any E v =
     (case v of
        JNull \<Rightarrow> ''<nil>''
      | JBool b \<Rightarrow> if b then ''true'' else ''false''
      | JStr s \<Rightarrow> s
      | JInt i \<Rightarrow> if \<bar>i\<bar> < 2 ^ 53 then show_int i else gj_other (oe_gjson E) v
      | _ \<Rightarrow> gj_other (oe_gjson E) v)"

text \<open>A JSON object as a Go map: the last of equal keys counts.\<close>

definition json_map :: "json \<Rightarrow> (string \<times> json) list option" where
  "json_map j = (case j of JNull \<Rightarrow> Some [] | JObj kvs \<Rightarrow> Some (rev kvs) | _ \<Rightarrow> None)"

definition getCrushRuleID :: "osd_env \<Rightarrow> string \<Rightarrow> string io" where
  "getCrushRuleID E name =
     io_bind (osd_must E (Cmd [''ceph'', ''osd'', ''crush'', ''rule'', ''dump'', name])) (\<lambda>r.
       case Option.bind (reply_json r) json_map of
         None \<Rightarrow> io_fail (err_new ''json'')
       | Some m \<Rightarrow>
           (case map_of m ''rule_id'' of
              None \<Rightarrow> io_fail (err_new ''rule_id not found in crush rule dump'')
            | Some v \<Rightarrow> io_return (fmt_any E v)))"

definition auto_rule :: "string \<Rightarrow> string" where
  "auto_rule domain = ''microceph_auto_'' @ domain"

definition getPoolsForDomain :: "osd_env \<Rightarrow> string \<Rightarrow> string list io" where
  "getPoolsForDomain E domain =
     io_bind (haveCrushRule E (auto_rule domain)) (\<lambda>have.
       if \<not> have then io_return []
       else io_bind (getCrushRuleID E (auto_rule domain)) (\<lambda>ruleID.
         io_bind (osd_must E (Cmd [''ceph'', ''osd'', ''pool'', ''ls'', ''detail'', ''--format=json''])) (\<lambda>r.
           io_return (map (\<lambda>p. gj_string (oe_gjson E) (Some p))
             (gj_array (oe_gjson E) (gj_get (oe_gjson E) r (''#(crush_rule=='' @ ruleID @ '')#.pool_name'')))))))"

definition pool_rule_cmd :: "string \<Rightarrow> string \<Rightarrow> request" where
  "pool_rule_cmd pool rule = Cmd [''ceph'', ''osd'', ''pool'', ''set'', pool, ''crush_rule'', rule]"

definition setPoolCrushRule :: "osd_env \<Rightarrow> string \<Rightarrow> string \<Rightarrow> unit io" where
  "setPoolCrushRule E pool rule = io_bind (osd_must E (pool_rule_cmd pool rule)) (\<lambda>_. io_return ())"

definition setDefaultCrushRule :: "osd_env \<Rightarrow> string \<Rightarrow> unit io" where
  "setDefaultCrushRule E rule = io_bind (getCrushRuleID E rule) (\<lambda>rid. SetConfigItem E ''osd_pool_default_crush_rule'' rid)"

definition getDefaultCrushRule :: "osd_env \<Rightarrow> string io" where
  "getDefaultCrushRule E = io_bind (GetConfigItem E ''osd_pool_default_crush_rule'') (\<lambda>v. io_return (trim_space (oe_lib E) v))"

definition IsOnRackRule :: "osd_env \<Rightarrow> bool io" where
  "IsOnRackRule E =
     io_bind (io_wrap ''failed to get default crush rule: '' (getDefaultCrushRule E)) (\<lambda>currentRule.
     io_bind (io_wrap ''failed to get rack crush rule ID: '' (getCrushRuleID E (auto_rule ''rack''))) (\<lambda>rackRule.
       io_return (currentRule = rackRule)))"

definition ensure_rule :: "osd_env \<Rightarrow> string \<Rightarrow> unit io" where
  "ensure_rule E domain =
     io_bind (haveCrushRule E (auto_rule domain)) (\<lambda>have.
       if have then io_return ()
       else io_wrap ''Failed to add microceph default crush rule: '' (addCrushRule E (auto_rule domain) domain))"

definition ensureCrushRules :: "osd_env \<Rightarrow> unit io" where
  "ensureCrushRules E = io_bind (ensure_rule E ''osd'') (\<lambda>_. io_bind (ensure_rule E ''host'') (\<lambda>_. ensure_rule E ''rack''))"

definition BootstrapCrushRules :: "osd_env \<Rightarrow> unit io" where
  "BootstrapCrushRules E = io_bind (ensureCrushRules E) (\<lambda>_. setDefaultCrushRule E (auto_rule ''osd''))"

section \<open>Racks\<close>

definition getOSDTreeNodes :: "osd_env \<Rightarrow> json option io" where
  "getOSDTreeNodes E =
     io_bind (io_wrap ''failed to get osd tree: '' (osd_must E (Cmd [''ceph'', ''osd'', ''tree'', ''-f'', ''json'']))) (\<lambda>r.
       io_return (gj_get (oe_gjson E) r ''nodes''))"

definition sub :: "osd_env \<Rightarrow> json option \<Rightarrow> string \<Rightarrow> json option" where
  "sub E j path = Option.bind j (\<lambda>j. gj_sub (oe_gjson E) j path)"

definition countOSDsInAZRack :: "osd_env \<Rightarrow> json option \<Rightarrow> string \<Rightarrow> nat" where
  "countOSDsInAZRack E nodes az =
     (let G = oe_gjson E; rackNode = sub E nodes (''#(name=='' @ quoted (''az.'' @ az) @ '')'') in
      if rackNode = None \<or> gj_string G (sub E rackNode ''type'') \<noteq> ''rack'' then 0
      else if sub E rackNode ''children'' = None then 0
      else sum_list (map (\<lambda>hostID.
             length (filter (\<lambda>osdID. 0 \<le> gj_int G osdID)
               (gj_array G (sub E nodes (''#(id=='' @ show_int (gj_int G hostID) @ '').children'')))))
           (gj_array G (sub E rackNode ''children''))))"

definition countAZsWithOSDs :: "osd_env \<Rightarrow> json option \<Rightarrow> string list \<Rightarrow> string \<Rightarrow> nat" where
  "countAZsWithOSDs E nodes azNames currentAZ =
     length (filter (\<lambda>az. az = currentAZ \<or> 0 < countOSDsInAZRack E nodes az) azNames)"

section \<open>Failure domains\<close>

fun set_pools :: "osd_env \<Rightarrow> string \<Rightarrow> string list \<Rightarrow> unit io" where
  "set_pools E rule [] = io_return ()"
| "set_pools E rule (p # ps) = io_bind (setPoolCrushRule E p rule) (\<lambda>_. set_pools E rule ps)"

definition switchFailureDomain :: "osd_env \<Rightarrow> string \<Rightarrow> string \<Rightarrow> unit io" where
  "switchFailureDomain E old new =
     io_bind (setDefaultCrushRule E (auto_rule new)) (\<lambda>_.
     io_bind (getPoolsForDomain E old) (\<lambda>pools. set_pools E (auto_rule new) pools))"

definition ceph_run :: "osd_env \<Rightarrow> string \<Rightarrow> string list \<Rightarrow> unit io" where
  "ceph_run E pre args = io_wrap pre (io_bind (osd_must E (Cmd (''ceph'' # args))) (\<lambda>_. io_return ()))"

definition updateTopology :: "osd_env \<Rightarrow> unit io" where
  "updateTopology E =
     io_bind (getAZData E (oe_name E)) (\<lambda>data.
       if az_host data = '''' then io_return ()
       else
         (let rack = ''az.'' @ az_host data; host = oe_name E in
          io_bind (ceph_run E (''failed to create rack bucket '' @ rack @ '': '') [''osd'', ''crush'', ''add-bucket'', rack, ''rack'']) (\<lambda>_.
          io_bind (ceph_run E (''failed to move rack '' @ rack @ '' under root: '') [''osd'', ''crush'', ''move'', rack, ''root=default'']) (\<lambda>_.
          io_bind (ceph_run E (''failed to create host bucket '' @ host @ '': '') [''osd'', ''crush'', ''add-bucket'', host, ''host'']) (\<lambda>_.
          io_bind (ceph_run E (''failed to move host '' @ host @ '' under rack '' @ rack @ '': '') [''osd'', ''crush'', ''move'', host, ''rack='' @ rack]) (\<lambda>_.
            if length (az_unique data) < 3 then io_return ()
            else
              io_bind (io_wrap ''failed to count AZs with OSDs: '' (getOSDTreeNodes E)) (\<lambda>nodes.
                if countAZsWithOSDs E nodes (az_unique data) (az_host data) < 3 then io_return ()
                else
                  io_bind (haveCrushRule E (auto_rule ''rack'')) (\<lambda>have.
                  io_bind (if have then io_return () else io_wrap ''failed to add rack crush rule: '' (addCrushRule E (auto_rule ''rack'') ''rack'')) (\<lambda>_.
                  io_bind (io_wrap ''failed to switch to rack failure domain: '' (switchFailureDomain E ''osd'' ''rack'')) (\<lambda>_.
                    io_wrap ''failed to switch host pools to rack failure domain: '' (switchFailureDomain E ''host'' ''rack''))))))))))
         )"

definition updateFailureDomain :: "osd_env \<Rightarrow> unit io" where
  "updateFailureDomain E =
     io_bind (io_wrap ''failed to check for AZs: '' (getAZData E (oe_name E))) (\<lambda>data.
       if 0 < length (az_unique data) then io_return ()
       else
         io_bind (io_wrap ''failed to count members: '' (Count E)) (\<lambda>numNodes.
           if 3 \<le> numNodes then io_wrap ''failed to set host failure domain: '' (switchFailureDomain E ''osd'' ''host'')
           else io_return ()))"

section \<open>Decisions about a removal\<close>

definition IsDowngradeNeeded :: "osd_env \<Rightarrow> int \<Rightarrow> bool io" where
  "IsDowngradeNeeded E osd =
     io_bind (getDefaultCrushRule E) (\<lambda>currentRule.
     io_bind (getCrushRuleID E (auto_rule ''host'')) (\<lambda>hostRule.
       if currentRule \<noteq> hostRule then io_return False
       else io_bind (CountExclude E osd) (\<lambda>numNodes. io_return (numNodes < 3))))"

definition getOSDHostAZ :: "osd_env \<Rightarrow> int \<Rightarrow> string io" where
  "getOSDHostAZ E osd =
     io_bind (io_wrap ''failed to list disks: '' (OSD_List E)) (\<lambda>disks.
       let hostname = (case List.find (\<lambda>d. cd_OSD d = osd) disks of None \<Rightarrow> '''' | Some d \<Rightarrow> cd_Location d) in
       if hostname = '''' then io_fail (err_new (''osd.'' @ show_int osd @ '' not found in database''))
       else io_bind (getAZData E hostname) (\<lambda>data. io_return (az_host data)))"

definition IsRackDegradeBlocked :: "osd_env \<Rightarrow> int \<Rightarrow> bool io" where
  "IsRackDegradeBlocked E osd =
     io_bind (IsOnRackRule E) (\<lambda>onRack.
       if \<not> onRack then io_return False
       else io_bind (getOSDHostAZ E osd) (\<lambda>osdAZ.
         if osdAZ = '''' then io_return False
         else io_bind (getAZData E '''') (\<lambda>data.
           io_bind (getOSDTreeNodes E) (\<lambda>nodes.
             if 3 < countAZsWithOSDs E nodes (az_unique data) '''' then io_return False
             else io_return (countOSDsInAZRack E nodes osdAZ \<le> 1)))))"

definition scaleDownFailureDomain :: "osd_env \<Rightarrow> int \<Rightarrow> unit io" where
  "scaleDownFailureDomain E osd =
     io_bind (IsDowngradeNeeded E osd) (\<lambda>needDowngrade.
       if \<not> needDowngrade then io_return ()
       else io_wrap ''failed to switch failure domain: '' (switchFailureDomain E ''host'' ''osd''))"

end
