(* ===== verification/Aux_Plan.thy ===== *)
theory Aux_Plan
  imports DSL_Eval Go_Env
begin

text \<open>
  Planning WAL and DB partitions (\<^verbatim>\<open>ceph/osd_waldb.go\<close>,
  \<^verbatim>\<open>planAuxiliaryPartitionsDetailed\<close>, and the helpers of \<^verbatim>\<open>ceph/osd.go\<close>):
  which carrier each partition goes to, its slot in the partition table, and when the carriers are
  too small. Sizes and slots are 64-bit and wrap; the lemmas show where they do not. Searching a free
  slot is a loop that would not end on a table with all slots taken, so it returns an option.
\<close>

section \<open>Sizes as text\<close>

fun iec_exp :: "nat \<Rightarrow> nat" where
  "iec_exp n = (if n < 1024 then 0 else Suc (iec_exp (n div 1024)))"

declare iec_exp.simps [simp del]

text \<open>\<^verbatim>\<open>%.2f\<close> of a float divided by a power of two, which is exact.\<close>

definition two_decimals :: "nat \<Rightarrow> string" where
  "two_decimals c = show_nat (c div 100) @ ''.'' @ [digit_char (c mod 100 div 10), digit_char (c mod 10)]"

definition formatBytesIEC :: "int \<Rightarrow> string" where
  "formatBytesIEC bytes =
     (if bytes < 1024 then show_int bytes @ '' B''
      else let ex = iec_exp (nat bytes div 1024) in
        case float_of_nat (nat bytes) of
          Fin s m e \<Rightarrow>
            (let (p, q) = scale_frac (100 * m) 1 (10 * (int ex + 1) - e)
             in two_decimals (rne p q) @ '' '' @ [''KMGTPE'' ! ex] @ ''iB'')
        | Inf s \<Rightarrow> ''+Inf '' @ [''KMGTPE'' ! ex] @ ''iB'')"

section \<open>Plans\<close>

record planned_aux =
  pa_Kind :: string
  pa_ParentPath :: string
  pa_Partition :: u64
  pa_SizeBytes :: u64
  pa_PartUUID :: string
  pa_InitializeGPT :: bool
  pa_ResetBeforeUse :: bool

record carrier_state =
  cs_Path :: string
  cs_Disk :: disk
  cs_PartitionNo :: u64
  cs_PartitionCnt :: int
  cs_RemainingSize :: u64
  cs_ResetBeforeUse :: bool

definition diskUsedBytes :: "disk \<Rightarrow> u64" where
  "diskUsedBytes d =
     (let used = foldl (\<lambda>used part. used + part_Size part) 0 (disk_Partitions d)
      in if disk_Size d < used then disk_Size d else used)"

definition occupied_slots :: "disk \<Rightarrow> u64 list" where
  "occupied_slots d = map part_Partition (disk_Partitions d)"

text \<open>Count up from a slot until one is free. With one more try than there are occupied slots the search
  ends unless all slots are taken.\<close>

fun vacant_slot :: "nat \<Rightarrow> u64 list \<Rightarrow> u64 \<Rightarrow> u64 option" where
  "vacant_slot 0 occ n = None"
| "vacant_slot (Suc k) occ n = (if n \<in> set occ then vacant_slot k occ (n + 1) else Some n)"

definition nextPartitionNumber :: "disk \<Rightarrow> u64 option" where
  "nextPartitionNumber d = vacant_slot (Suc (length (disk_Partitions d))) (occupied_slots d) 1"

definition carrier_start :: "(string \<Rightarrow> bool) \<Rightarrow> disk \<Rightarrow> carrier_state option" where
  "carrier_start resetBeforeUse disk =
     (let path = GetDevicePath disk; used = diskUsedBytes disk in
      case nextPartitionNumber disk of
        None \<Rightarrow> None
      | Some partitionNo \<Rightarrow>
          Some (if resetBeforeUse path
                then \<lparr>cs_Path = path, cs_Disk = disk\<lparr>disk_Partitions := []\<rparr>, cs_PartitionNo = 1, cs_PartitionCnt = 0,
                      cs_RemainingSize = disk_Size disk, cs_ResetBeforeUse = True\<rparr>
                else \<lparr>cs_Path = path, cs_Disk = disk, cs_PartitionNo = partitionNo,
                      cs_PartitionCnt = int (length (disk_Partitions disk)),
                      cs_RemainingSize = (if used < disk_Size disk then disk_Size disk - used else 0),
                      cs_ResetBeforeUse = False\<rparr>))"

text \<open>One pass over the carriers: the index of the best one so far, or none.\<close>

definition better :: "carrier_state list \<Rightarrow> u64 \<Rightarrow> nat option \<Rightarrow> nat \<Rightarrow> nat option" where
  "better states sizeBytes choice idx =
     (if cs_RemainingSize (states ! idx) < sizeBytes then choice
      else case choice of
        None \<Rightarrow> Some idx
      | Some c \<Rightarrow>
          if cs_PartitionCnt (states ! idx) < cs_PartitionCnt (states ! c) \<or>
             (cs_PartitionCnt (states ! idx) = cs_PartitionCnt (states ! c) \<and> cs_Path (states ! idx) < cs_Path (states ! c))
          then Some idx else Some c)"

definition choose_carrier :: "carrier_state list \<Rightarrow> u64 \<Rightarrow> nat option" where
  "choose_carrier states sizeBytes = foldl (better states sizeBytes) None [0..<length states]"

definition planned_on :: "string \<Rightarrow> u64 \<Rightarrow> carrier_state \<Rightarrow> planned_aux" where
  "planned_on kind sizeBytes c =
     \<lparr>pa_Kind = kind, pa_ParentPath = cs_Path c, pa_Partition = cs_PartitionNo c, pa_SizeBytes = sizeBytes, pa_PartUUID = '''',
      pa_InitializeGPT = (cs_PartitionCnt c = 0), pa_ResetBeforeUse = cs_ResetBeforeUse c\<rparr>"

definition take_slot :: "u64 \<Rightarrow> carrier_state \<Rightarrow> carrier_state option" where
  "take_slot sizeBytes c =
     map_option (\<lambda>n. c\<lparr>cs_RemainingSize := cs_RemainingSize c - sizeBytes, cs_PartitionCnt := cs_PartitionCnt c + 1,
        cs_PartitionNo := n, cs_ResetBeforeUse := False\<rparr>)
       (vacant_slot (Suc (length (disk_Partitions (cs_Disk c)))) (occupied_slots (cs_Disk c)) (cs_PartitionNo c + 1))"

fun plan_loop :: "go_lib \<Rightarrow> string \<Rightarrow> u64 \<Rightarrow> string list \<Rightarrow> carrier_state list \<Rightarrow> (string + planned_aux list) option" where
  "plan_loop G kind sizeBytes [] states = Some (Inr [])"
| "plan_loop G kind sizeBytes (osd # osds) states =
     (case choose_carrier states sizeBytes of
        None \<Rightarrow> Some (Inl (''insufficient capacity for '' @ to_upper G kind @ '' partitions of size '' @ formatBytesIEC (sint sizeBytes)))
      | Some choice \<Rightarrow>
          (case take_slot sizeBytes (states ! choice) of
             None \<Rightarrow> None
           | Some c \<Rightarrow>
               map_option (map_sum id ((#) (planned_on kind sizeBytes (states ! choice))))
                 (plan_loop G kind sizeBytes osds (states[choice := c]))))"

text \<open>The result has one entry per OSD, none of them set when there is nothing to do.\<close>

definition planAuxiliaryPartitionsDetailed ::
    "go_lib \<Rightarrow> string list \<Rightarrow> disk list \<Rightarrow> (string \<Rightarrow> bool) \<Rightarrow> u64 \<Rightarrow> string \<Rightarrow> (string + planned_aux option list) option" where
  "planAuxiliaryPartitionsDetailed G osdPaths carriers resetBeforeUse sizeBytes kind =
     (if osdPaths = [] \<or> carriers = [] then Some (Inr (replicate (length osdPaths) None))
      else case those (map (carrier_start resetBeforeUse) carriers) of
        None \<Rightarrow> None
      | Some states \<Rightarrow> map_option (map_sum id (map Some)) (plan_loop G kind sizeBytes osdPaths states))"

section \<open>Free slots\<close>

lemma vacant_slot_Some:
  assumes "vacant_slot k occ n = Some s"
  shows "s \<notin> set occ" "\<exists>i. i < k \<and> s = n + of_nat i \<and> (\<forall>j < i. n + of_nat j \<in> set occ)"
proof -
  have "s \<notin> set occ \<and> (\<exists>i. i < k \<and> s = n + of_nat i \<and> (\<forall>j < i. n + of_nat j \<in> set occ))"
    using assms
  proof (induction k arbitrary: n)
    case (Suc k)
    show ?case
    proof (cases "n \<in> set occ")
      case True
      with Suc obtain i where i: "s \<notin> set occ" "i < k" "s = n + 1 + of_nat i" "\<forall>j < i. n + 1 + of_nat j \<in> set occ" by auto
      have "\<forall>j < Suc i. n + of_nat j \<in> set occ"
      proof (intro allI impI)
        fix j assume "j < Suc i"
        with True i(4) show "n + of_nat j \<in> set occ" by (cases j) (auto simp: add.assoc)
      qed
      with i show ?thesis by (intro conjI exI [of _ "Suc i"]) (auto simp: add.assoc)
    next
      case False
      with Suc.prems show ?thesis by auto
    qed
  qed simp
  then show "s \<notin> set occ" "\<exists>i. i < k \<and> s = n + of_nat i \<and> (\<forall>j < i. n + of_nat j \<in> set occ)" by blast+
qed

lemma vacant_slot_None:
  "vacant_slot k occ n = None \<Longrightarrow> \<forall>j < k. n + of_nat j \<in> set occ"
proof (induction k arbitrary: n)
  case (Suc k)
  then have "n \<in> set occ" "\<forall>j < k. n + 1 + of_nat j \<in> set occ" by (auto split: if_splits)
  then show ?case by (auto simp: add.assoc less_Suc_eq_0_disj)
qed simp

lemma unat_of_small: "j < 2 ^ 64 \<Longrightarrow> unat (of_nat j :: u64) = j"
  by (simp add: unsigned_of_nat take_bit_eq_mod)

text \<open>The search ends: fewer occupied entries than slots leave one of the first few free.\<close>

lemma vacant_slot_returns:
  fixes n :: u64
  assumes "length occ < k" "k \<le> 2 ^ 64"
  shows "\<exists>s. vacant_slot k occ n = Some s"
proof (rule ccontr)
  assume "\<not> ?thesis"
  then have all: "\<forall>j < k. n + of_nat j \<in> set occ" using vacant_slot_None by (metis not_Some_eq)
  have "inj_on (\<lambda>j. n + of_nat j) {..<k}"
  proof (rule inj_onI)
    fix i j assume "i \<in> {..<k}" "j \<in> {..<k}" "n + of_nat i = n + of_nat j"
    then have "i < 2 ^ 64" "j < 2 ^ 64" "(of_nat i :: u64) = of_nat j" using assms(2) by auto
    then show "i = j" by (metis unat_of_small)
  qed
  then have "k = card ((\<lambda>j. n + of_nat j) ` {..<k})" by (simp add: card_image)
  also have "\<dots> \<le> card (set occ)" using all by (intro card_mono) auto
  also have "\<dots> \<le> length occ" by (rule card_length)
  finally show False using assms(1) by simp
qed


text \<open>The first free slot of a table, as a specification.\<close>

definition first_free :: "nat set \<Rightarrow> nat" where
  "first_free S = (LEAST n. 1 \<le> n \<and> n \<notin> S)"

lemma first_freeI:
  assumes "1 \<le> n" "n \<notin> S" "\<And>m. 1 \<le> m \<Longrightarrow> m < n \<Longrightarrow> m \<in> S"
  shows "first_free S = n"
  unfolding first_free_def using assms by (intro Least_equality) (auto simp: not_le [symmetric])

lemma first_free_props:
  assumes "finite S"
  shows "1 \<le> first_free S" "first_free S \<notin> S" "1 \<le> m \<Longrightarrow> m < first_free S \<Longrightarrow> m \<in> S" "first_free S \<le> Suc (card S)"
proof -
  have ex: "\<exists>n. 1 \<le> n \<and> n \<notin> S"
    using infinite_UNIV_nat assms by (metis ex_new_if_finite finite.insertI insertCI le_zero_eq nat_le_linear not_less_eq_eq One_nat_def)
  then have "1 \<le> first_free S \<and> first_free S \<notin> S" unfolding first_free_def by (rule LeastI_ex)
  then show a: "1 \<le> first_free S" "first_free S \<notin> S" by blast+
  show b: "1 \<le> m \<Longrightarrow> m < first_free S \<Longrightarrow> m \<in> S" for m unfolding first_free_def using not_less_Least by blast
  have "{1..<first_free S} \<subseteq> S" using b by auto
  then have "card {1..<first_free S} \<le> card S" using assms by (rule card_mono [rotated])
  then show "first_free S \<le> Suc (card S)" by simp
qed

definition taken :: "disk \<Rightarrow> nat set" where
  "taken d = unat ` set (occupied_slots d)"

lemma taken_finite [simp]: "finite (taken d)"
  by (simp add: taken_def)

lemma taken_card: "card (taken d) \<le> length (disk_Partitions d)"
  unfolding taken_def occupied_slots_def
  by (metis card_image_le card_length finite_set le_trans length_map)

text \<open>Counting up from a slot whose predecessors are all taken finds the first free one.\<close>

lemma vacant_first_free:
  fixes n :: u64
  assumes s: "vacant_slot (Suc (length (disk_Partitions d))) (occupied_slots d) n = Some s"
    and small: "unat n + length (disk_Partitions d) < 2 ^ 64" "1 \<le> unat n"
    and below: "\<And>m. 1 \<le> m \<Longrightarrow> m < unat n \<Longrightarrow> m \<in> taken d \<union> E" and E: "E \<subseteq> {..<unat n}"
  shows "unat s = first_free (taken d \<union> E)" "unat n \<le> unat s"
proof -
  from vacant_slot_Some [OF s] obtain i where i: "s \<notin> set (occupied_slots d)" "i \<le> length (disk_Partitions d)" "s = n + of_nat i"
    "\<forall>j < i. n + of_nat j \<in> set (occupied_slots d)" by auto
  have u: "unat (n + of_nat j) = unat n + j" if "j \<le> i" for j
  proof -
    have "unat (of_nat j :: u64) = j" using that i(2) small by (intro unat_of_small) linarith
    then show ?thesis using that i(2) small by (subst unat_add_lem [THEN iffD1]) auto
  qed
  then have us: "unat s = unat n + i" using i(3) by simp
  then show "unat n \<le> unat s" by simp
  have "unat s \<notin> taken d \<union> E" using i(1) E us by (auto simp: taken_def dest: word_unat_eq_iff [THEN iffD2])
  moreover have "m \<in> taken d \<union> E" if "1 \<le> m" "m < unat s" for m
  proof (cases "m < unat n")
    case False
    define j where "j = m - unat n"
    with False that us have j: "m = unat n + j" "j < i" by auto
    with i(4) u [of j] have "n + of_nat j \<in> set (occupied_slots d)" "m = unat (n + of_nat j)" by auto
    then show ?thesis unfolding taken_def by blast
  qed (use below that in blast)
  ultimately show "unat s = first_free (taken d \<union> E)"
    using first_freeI [of "unat s" "taken d \<union> E"] small(2) us by simp
qed


section \<open>The choice of a carrier\<close>

definition preferred :: "carrier_state \<Rightarrow> carrier_state \<Rightarrow> bool" where
  "preferred a b \<longleftrightarrow> cs_PartitionCnt a < cs_PartitionCnt b \<or> (cs_PartitionCnt a = cs_PartitionCnt b \<and> cs_Path a < cs_Path b)"

lemma preferred_trans: "preferred a b \<Longrightarrow> \<not> preferred c b \<Longrightarrow> \<not> preferred c a"
  by (auto simp: preferred_def)

definition best_upto :: "carrier_state list \<Rightarrow> u64 \<Rightarrow> nat \<Rightarrow> nat option \<Rightarrow> bool" where
  "best_upto states sz n choice \<longleftrightarrow>
     (case choice of
        None \<Rightarrow> \<forall>i < n. cs_RemainingSize (states ! i) < sz
      | Some c \<Rightarrow> c < n \<and> sz \<le> cs_RemainingSize (states ! c) \<and>
          (\<forall>i < n. sz \<le> cs_RemainingSize (states ! i) \<longrightarrow> \<not> preferred (states ! i) (states ! c)))"

lemma best_upto_step: "best_upto states sz n choice \<Longrightarrow> best_upto states sz (Suc n) (better states sz choice n)"
  unfolding best_upto_def better_def preferred_def [symmetric]
  by (cases choice) (auto simp: less_Suc_eq not_less preferred_def [of x x for x] dest: preferred_trans)

lemma choose_best: "best_upto states sz (length states) (choose_carrier states sz)"
proof -
  have "best_upto states sz n (foldl (better states sz) None [0..<n])" for n
    by (induction n) (simp_all add: best_upto_step, simp add: best_upto_def)
  then show ?thesis by (simp add: choose_carrier_def)
qed

lemma choose_Some:
  assumes "choose_carrier states sz = Some c"
  shows "c < length states" "sz \<le> cs_RemainingSize (states ! c)"
    "i < length states \<Longrightarrow> sz \<le> cs_RemainingSize (states ! i) \<Longrightarrow> \<not> preferred (states ! i) (states ! c)"
  using choose_best [of states sz] assms by (auto simp: best_upto_def)

lemma choose_None: "choose_carrier states sz = None \<Longrightarrow> s \<in> set states \<Longrightarrow> cs_RemainingSize s < sz"
  using choose_best [of states sz] by (auto simp: best_upto_def in_set_conv_nth)

section \<open>What the loop plans on one carrier\<close>

text \<open>The next slot is the first free one when the slots planned so far are taken too.\<close>

definition slot_inv :: "nat \<Rightarrow> carrier_state \<Rightarrow> nat set \<Rightarrow> bool" where
  "slot_inv room c E \<longleftrightarrow>
     finite E \<and> E \<subseteq> {..<unat (cs_PartitionNo c)} \<and> unat (cs_PartitionNo c) = first_free (taken (cs_Disk c) \<union> E) \<and>
     2 * length (disk_Partitions (cs_Disk c)) + card E + room + 2 < 2 ^ 64"

lemma slot_inv_mono: "slot_inv (Suc room) c E \<Longrightarrow> slot_inv room c E"
  unfolding slot_inv_def by (elim conjE, intro conjI; (assumption | linarith))

lemma slot_inv_step:
  assumes inv: "slot_inv (Suc room) c E" and t: "take_slot sz c = Some c'"
  shows "slot_inv room c' (insert (unat (cs_PartitionNo c)) E)"
proof -
  let ?d = "cs_Disk c" and ?n = "cs_PartitionNo c"
  from t obtain n where n: "vacant_slot (Suc (length (disk_Partitions ?d))) (occupied_slots ?d) (?n + 1) = Some n"
    "c' = c\<lparr>cs_RemainingSize := cs_RemainingSize c - sz, cs_PartitionCnt := cs_PartitionCnt c + 1,
        cs_PartitionNo := n, cs_ResetBeforeUse := False\<rparr>" by (auto simp: take_slot_def)
  have E: "finite E" "E \<subseteq> {..<unat ?n}" and ff: "unat ?n = first_free (taken ?d \<union> E)"
    and room: "2 * length (disk_Partitions ?d) + card E + Suc room + 2 < 2 ^ 64" using inv by (auto simp: slot_inv_def)
  note ffp = first_free_props [of "taken ?d \<union> E"]
  have "card (taken ?d \<union> E) \<le> length (disk_Partitions ?d) + card E"
    using card_Un_le [of "taken ?d" E] taken_card [of ?d] by linarith
  with ffp(4) E(1) ff have bound: "unat ?n \<le> Suc (length (disk_Partitions ?d) + card E)" by simp
  have succ: "unat (?n + 1) = Suc (unat ?n)"
    using bound room by (subst unat_add_lem [THEN iffD1]) auto
  have pos: "1 \<le> unat ?n" using ffp(1) E(1) ff by simp
  have "m \<in> taken ?d \<union> insert (unat ?n) E" if "1 \<le> m" "m < unat (?n + 1)" for m
    using that succ ffp(3) [of m] E(1) ff by (cases "m = unat ?n") auto
  moreover have "insert (unat ?n) E \<subseteq> {..<unat (?n + 1)}" using E(2) succ by auto
  ultimately have v: "unat n = first_free (taken ?d \<union> insert (unat ?n) E)" "unat (?n + 1) \<le> unat n"
    using vacant_first_free [OF n(1), of "insert (unat ?n) E"] bound room succ by auto
  have "insert (unat ?n) E \<subseteq> {..<unat n}" using E(2) v(2) succ by auto
  moreover have "card (insert (unat ?n) E) \<le> Suc (card E)" using E(1) by (simp add: card_insert_if)
  ultimately show ?thesis using v(1) E(1) room n(2) by (simp add: slot_inv_def)
qed


definition on_carrier :: "string \<Rightarrow> planned_aux list \<Rightarrow> planned_aux list" where
  "on_carrier path out = filter (\<lambda>a. pa_ParentPath a = path) out"

text \<open>The part of a plan that goes to a carrier in state \<open>c\<close>, whose slots \<open>E\<close> were planned before.\<close>

definition carrier_plan :: "carrier_state \<Rightarrow> nat set \<Rightarrow> string \<Rightarrow> u64 \<Rightarrow> planned_aux list \<Rightarrow> bool" where
  "carrier_plan c E kind sz ps \<longleftrightarrow>
     unat sz * length ps \<le> unat (cs_RemainingSize c) \<and>
     (\<forall>k < length ps. pa_Kind (ps ! k) = kind \<and> pa_SizeBytes (ps ! k) = sz \<and>
        unat (pa_Partition (ps ! k)) = first_free (taken (cs_Disk c) \<union> E \<union> (unat \<circ> pa_Partition) ` set (take k ps)) \<and>
        pa_ResetBeforeUse (ps ! k) = (cs_ResetBeforeUse c \<and> k = 0) \<and>
        pa_InitializeGPT (ps ! k) = (cs_PartitionCnt c = 0 \<and> k = 0))"

lemma carrier_plan_Cons:
  assumes "carrier_plan c' (insert (unat (cs_PartitionNo c)) E) kind sz ps" "take_slot sz c = Some c'"
    and "sz \<le> cs_RemainingSize c" "slot_inv room c E" "0 \<le> cs_PartitionCnt c"
  shows "carrier_plan c E kind sz (planned_on kind sz c # ps)"
proof -
  from assms(2) obtain n where c': "c' = c\<lparr>cs_RemainingSize := cs_RemainingSize c - sz, cs_PartitionCnt := cs_PartitionCnt c + 1,
        cs_PartitionNo := n, cs_ResetBeforeUse := False\<rparr>" by (auto simp: take_slot_def)
  have rem: "unat (cs_RemainingSize c - sz) = unat (cs_RemainingSize c) - unat sz" "unat sz \<le> unat (cs_RemainingSize c)"
    using assms(3) by (simp_all add: unat_sub word_le_nat_alt)
  have "unat sz * length ps \<le> unat (cs_RemainingSize c) - unat sz" using assms(1) rem(1) by (simp add: carrier_plan_def c')
  then have room: "unat sz * length (planned_on kind sz c # ps) \<le> unat (cs_RemainingSize c)" using rem(2) by simp
  show ?thesis unfolding carrier_plan_def
  proof (intro conjI allI impI)
    show "unat sz * length (planned_on kind sz c # ps) \<le> unat (cs_RemainingSize c)" by (rule room)
    fix k assume k: "k < length (planned_on kind sz c # ps)"
    let ?a = "(planned_on kind sz c # ps) ! k"
    have ff: "unat (cs_PartitionNo c) = first_free (taken (cs_Disk c) \<union> E)" using assms(4) by (simp add: slot_inv_def)
    have *: "pa_Kind ?a = kind \<and> pa_SizeBytes ?a = sz \<and>
        unat (pa_Partition ?a) = first_free (taken (cs_Disk c) \<union> E \<union> (unat \<circ> pa_Partition) ` set (take k (planned_on kind sz c # ps))) \<and>
        pa_ResetBeforeUse ?a = (cs_ResetBeforeUse c \<and> k = 0) \<and> pa_InitializeGPT ?a = (cs_PartitionCnt c = 0 \<and> k = 0)"
    proof (cases k)
      case 0
      with ff show ?thesis by (simp add: planned_on_def)
    next
      case (Suc i)
      with k assms(1) have "pa_Kind (ps ! i) = kind \<and> pa_SizeBytes (ps ! i) = sz \<and>
          unat (pa_Partition (ps ! i)) = first_free (taken (cs_Disk c) \<union> insert (unat (cs_PartitionNo c)) E \<union> (unat \<circ> pa_Partition) ` set (take i ps)) \<and>
          \<not> pa_ResetBeforeUse (ps ! i) \<and> (pa_InitializeGPT (ps ! i) \<longleftrightarrow> cs_PartitionCnt c + 1 = 0 \<and> i = 0)"
        by (simp add: carrier_plan_def c')
      with Suc assms(5) show ?thesis by (simp add: planned_on_def)
    qed
    from * show "pa_Kind ?a = kind" "pa_SizeBytes ?a = sz"
      "unat (pa_Partition ?a) = first_free (taken (cs_Disk c) \<union> E \<union> (unat \<circ> pa_Partition) ` set (take k (planned_on kind sz c # ps)))"
      "pa_ResetBeforeUse ?a = (cs_ResetBeforeUse c \<and> k = 0)" "pa_InitializeGPT ?a = (cs_PartitionCnt c = 0 \<and> k = 0)" by blast+
  qed
qed

lemma take_slot_keeps:
  assumes "take_slot sz c = Some c'"
  shows "cs_Path c' = cs_Path c" "0 \<le> cs_PartitionCnt c \<Longrightarrow> 0 \<le> cs_PartitionCnt c'" "cs_Disk c' = cs_Disk c"
    "cs_RemainingSize c' = cs_RemainingSize c - sz"
  using assms by (auto simp: take_slot_def)

lemma plan_loop_step:
  assumes "plan_loop G kind sz (osd # osds) states = Some (Inr out)"
  obtains c s' ps where "choose_carrier states sz = Some c" "take_slot sz (states ! c) = Some s'"
    "plan_loop G kind sz osds (states[c := s']) = Some (Inr ps)" "out = planned_on kind sz (states ! c) # ps"
proof -
  from assms obtain c s' where c: "choose_carrier states sz = Some c" "take_slot sz (states ! c) = Some s'"
    by (auto split: option.splits)
  with assms obtain r where r: "plan_loop G kind sz osds (states[c := s']) = Some r"
      "map_sum id ((#) (planned_on kind sz (states ! c))) r = Inr out" by auto
  then obtain ps where "r = Inr ps" "out = planned_on kind sz (states ! c) # ps" by (cases r) auto
  with c r that show thesis by blast
qed

lemma distinct_paths_update:
  assumes "c < length states" "cs_Path s' = cs_Path (states ! c)"
  shows "map cs_Path (states[c := s']) = map cs_Path states"
  using assms by (metis list_update_id map_update)

lemma plan_loop_carrier:
  assumes "plan_loop G kind sz osds states = Some (Inr out)" "distinct (map cs_Path states)" "i < length states"
    and "slot_inv (length osds) (states ! i) E" "0 \<le> cs_PartitionCnt (states ! i)"
  shows "carrier_plan (states ! i) E kind sz (on_carrier (cs_Path (states ! i)) out)"
  using assms
proof (induction osds arbitrary: states out E)
  case Nil
  then show ?case by (simp add: carrier_plan_def on_carrier_def)
next
  case (Cons osd osds)
  from Cons.prems(1) obtain c s' ps where c: "choose_carrier states sz = Some c" "take_slot sz (states ! c) = Some s'"
    "plan_loop G kind sz osds (states[c := s']) = Some (Inr ps)" "out = planned_on kind sz (states ! c) # ps"
    by (rule plan_loop_step)
  note ch = choose_Some [OF c(1)]
  note keep = take_slot_keeps [OF c(2)]
  have d: "distinct (map cs_Path (states[c := s']))" using Cons.prems(2) distinct_paths_update [OF ch(1) keep(1)] by simp
  have i: "i < length (states[c := s'])" using Cons.prems(3) by simp
  show ?case
  proof (cases "c = i")
    case True
    have "slot_inv (length osds) s' (insert (unat (cs_PartitionNo (states ! i))) E)"
      using slot_inv_step [of "length osds" "states ! i" E sz s'] Cons.prems(4) c(2) True by simp
    with Cons.IH [OF c(3) d i] True Cons.prems(3,5) keep
    have "carrier_plan s' (insert (unat (cs_PartitionNo (states ! i))) E) kind sz (on_carrier (cs_Path (states ! i)) ps)" by simp
    from carrier_plan_Cons [OF this _ _ Cons.prems(4,5)] c(2,4) ch(2) True show ?thesis by (simp add: on_carrier_def planned_on_def)
  next
    case False
    have "cs_Path (states ! c) \<noteq> cs_Path (states ! i)"
      using Cons.prems(2,3) ch(1) False by (metis length_map nth_eq_iff_index_eq nth_map)
    then have on: "on_carrier (cs_Path (states ! i)) out = on_carrier (cs_Path (states ! i)) ps"
      by (simp add: c(4) on_carrier_def planned_on_def)
    have "slot_inv (length osds) (states ! i) E" using slot_inv_mono Cons.prems(4) by simp
    with Cons.IH [OF c(3) d i] False Cons.prems(5) on show ?thesis by simp
  qed
qed

lemma plan_loop_parents:
  assumes "plan_loop G kind sz osds states = Some (Inr out)"
  shows "length out = length osds" "\<forall>a \<in> set out. pa_ParentPath a \<in> cs_Path ` set states"
proof -
  have "length out = length osds \<and> (\<forall>a \<in> set out. pa_ParentPath a \<in> cs_Path ` set states)" using assms
  proof (induction osds arbitrary: states out)
    case (Cons osd osds)
    from Cons.prems obtain c s' ps where c: "choose_carrier states sz = Some c" "take_slot sz (states ! c) = Some s'"
      "plan_loop G kind sz osds (states[c := s']) = Some (Inr ps)" "out = planned_on kind sz (states ! c) # ps"
      by (rule plan_loop_step)
    have "cs_Path ` set (states[c := s']) = cs_Path ` set states"
      using distinct_paths_update [OF choose_Some(1) [OF c(1)] take_slot_keeps(1) [OF c(2)]] by (metis list.set_map)
    with Cons.IH [OF c(3)] c(4) choose_Some(1) [OF c(1)] show ?case by (auto simp: planned_on_def)
  qed simp
  then show "length out = length osds" "\<forall>a \<in> set out. pa_ParentPath a \<in> cs_Path ` set states" by blast+
qed


section \<open>Capacity\<close>

definition capacity :: "u64 \<Rightarrow> carrier_state list \<Rightarrow> nat" where
  "capacity sz states = sum_list (map (\<lambda>c. unat (cs_RemainingSize c) div unat sz) states)"

lemma capacity_take:
  assumes "0 < sz" "c < length states" "sz \<le> cs_RemainingSize (states ! c)" "take_slot sz (states ! c) = Some s'"
  shows "Suc (capacity sz (states[c := s'])) = capacity sz states"
proof -
  let ?f = "\<lambda>c. unat (cs_RemainingSize c) div unat sz"
  have sz: "0 < unat sz" using assms(1) by (simp add: word_less_nat_alt)
  have le: "unat sz \<le> unat (cs_RemainingSize (states ! c))" using assms(3) by (simp add: word_le_nat_alt)
  have "unat (cs_RemainingSize s') = unat (cs_RemainingSize (states ! c)) - unat sz"
    using take_slot_keeps(4) [OF assms(4)] assms(3) by (simp add: unat_sub)
  then have s: "Suc (?f s') = ?f (states ! c)" using le sz by (metis le_div_geq)
  have mem: "?f (states ! c) \<le> sum_list (map ?f states)" using assms(2) by (intro member_le_sum_list) auto
  have "sum_list (map ?f (states[c := s'])) = sum_list (map ?f states) + ?f s' - ?f (states ! c)"
    using assms(2) by (simp add: map_update sum_list_update)
  then show ?thesis using s mem by (simp add: capacity_def)
qed

definition ready_states :: "nat \<Rightarrow> carrier_state list \<Rightarrow> bool" where
  "ready_states room states \<longleftrightarrow> (\<forall>c \<in> set states. \<exists>E. slot_inv room c E)"

lemma take_slot_returns:
  assumes "slot_inv room c E"
  shows "\<exists>c'. take_slot sz c = Some c'"
proof -
  have "Suc (length (disk_Partitions (cs_Disk c))) \<le> 2 ^ 64" using assms by (simp add: slot_inv_def)
  with vacant_slot_returns [of "occupied_slots (cs_Disk c)" "Suc (length (disk_Partitions (cs_Disk c)))" "cs_PartitionNo c + 1"]
  show ?thesis by (auto simp: take_slot_def occupied_slots_def)
qed

text \<open>The loop ends, and fails exactly when the carriers cannot hold that many partitions.\<close>

lemma plan_loop_returns:
  assumes "ready_states (length osds) states"
  shows "\<exists>r. plan_loop G kind sz osds states = Some r \<and> (0 < sz \<longrightarrow> is_err r = (capacity sz states < length osds))"
  using assms
proof (induction osds arbitrary: states)
  case (Cons osd osds)
  show ?case
  proof (cases "choose_carrier states sz")
    case None
    have "unat (cs_RemainingSize c) div unat sz = 0" if "c \<in> set states" for c
      using choose_None [OF None that] by (simp add: word_less_nat_alt)
    then have "capacity sz states = 0" by (simp add: capacity_def)
    with None show ?thesis by simp
  next
    case (Some c)
    note ch = choose_Some [OF Some]
    obtain E where E: "slot_inv (Suc (length osds)) (states ! c) E"
      using Cons.prems nth_mem [OF ch(1)] by (force simp: ready_states_def)
    then obtain s' where s': "take_slot sz (states ! c) = Some s'" using take_slot_returns by blast
    have "ready_states (length osds) (states[c := s'])"
      unfolding ready_states_def
    proof
      fix x assume "x \<in> set (states[c := s'])"
      then consider "x = s'" | "x \<in> set states" using set_update_subset_insert by fast
      then show "\<exists>E. slot_inv (length osds) x E"
      proof cases
        case 1
        with slot_inv_step [OF E s'] show ?thesis by blast
      next
        case 2
        then obtain E' where "slot_inv (Suc (length osds)) x E'" using Cons.prems by (auto simp: ready_states_def)
        with slot_inv_mono show ?thesis by blast
      qed
    qed
    from Cons.IH [OF this] obtain r where r: "plan_loop G kind sz osds (states[c := s']) = Some r"
      "0 < sz \<longrightarrow> is_err r = (capacity sz (states[c := s']) < length osds)" by blast
    have e: "is_err (map_sum id f r) = is_err r" for f :: "planned_aux list \<Rightarrow> planned_aux list" by (cases r) auto
    show ?thesis using Some s' r e capacity_take [OF _ ch(1,2) s'] by auto
  qed
qed simp

section \<open>From the inventory\<close>

definition used_bytes :: "disk \<Rightarrow> nat" where
  "used_bytes d = sum_list (map (\<lambda>p. unat (part_Size p)) (disk_Partitions d))"

definition free_bytes :: "(string \<Rightarrow> bool) \<Rightarrow> disk \<Rightarrow> nat" where
  "free_bytes reset d = (if reset (GetDevicePath d) then unat (disk_Size d) else unat (disk_Size d) - used_bytes d)"

text \<open>An inventory entry whose partition sizes do not add up past 64 bits.\<close>

definition sound_disk :: "disk \<Rightarrow> bool" where
  "sound_disk d \<longleftrightarrow> used_bytes d < 2 ^ 64 \<and> length (disk_Partitions d) < 2 ^ 62"

lemma diskUsedBytes_exact:
  assumes "used_bytes d < 2 ^ 64"
  shows "unat (diskUsedBytes d) = min (unat (disk_Size d)) (used_bytes d)"
proof -
  have "unat (foldl (\<lambda>used part. used + part_Size part) u ps) = unat u + sum_list (map (\<lambda>p. unat (part_Size p)) ps)"
    if "unat u + sum_list (map (\<lambda>p. unat (part_Size p)) ps) < 2 ^ 64" for u :: u64 and ps :: "partition list"
    using that
  proof (induction ps arbitrary: u)
    case (Cons p ps)
    have "unat (u + part_Size p) = unat u + unat (part_Size p)"
      using Cons.prems by (subst unat_add_lem [THEN iffD1]) auto
    with Cons show ?case by simp
  qed simp
  from this [of 0 "disk_Partitions d"] assms
  have "unat (foldl (\<lambda>used part. used + part_Size part) 0 (disk_Partitions d)) = used_bytes d" by (simp add: used_bytes_def)
  then show ?thesis by (simp add: diskUsedBytes_def Let_def word_less_nat_alt)
qed

lemma carrier_start_props:
  assumes "sound_disk d" "room < 2 ^ 62"
  obtains c where "carrier_start reset d = Some c" "slot_inv room c {}" "cs_Path c = GetDevicePath d" "0 \<le> cs_PartitionCnt c"
    "unat (cs_RemainingSize c) = free_bytes reset d" "cs_ResetBeforeUse c = reset (GetDevicePath d)"
    "taken (cs_Disk c) = (if reset (GetDevicePath d) then {} else taken d)"
    "(cs_PartitionCnt c = 0) = (reset (GetDevicePath d) \<or> disk_Partitions d = [])"
proof -
  have len: "length (disk_Partitions d) < 2 ^ 62" "used_bytes d < 2 ^ 64" using assms(1) by (auto simp: sound_disk_def)
  obtain n where n: "nextPartitionNumber d = Some n"
    using vacant_slot_returns [of "occupied_slots d" "Suc (length (disk_Partitions d))" 1] len(1)
    by (auto simp: nextPartitionNumber_def occupied_slots_def)
  have ff: "unat n = first_free (taken d)"
    using vacant_first_free(1) [OF n [unfolded nextPartitionNumber_def], of "{}"] len(1) by simp
  have e: "first_free {} = 1" by (rule first_freeI) auto
  have rem: "unat (if diskUsedBytes d < disk_Size d then disk_Size d - diskUsedBytes d else 0) = unat (disk_Size d) - used_bytes d"
    using diskUsedBytes_exact [OF len(2)] by (auto simp: unat_sub word_less_nat_alt word_le_nat_alt)
  show thesis
  proof (cases "reset (GetDevicePath d)")
    case True
    show thesis
      by (rule that [of "\<lparr>cs_Path = GetDevicePath d, cs_Disk = d\<lparr>disk_Partitions := []\<rparr>, cs_PartitionNo = 1, cs_PartitionCnt = 0,
                      cs_RemainingSize = disk_Size d, cs_ResetBeforeUse = True\<rparr>"])
        (use True n e assms(2) in \<open>simp_all add: carrier_start_def Let_def slot_inv_def taken_def occupied_slots_def free_bytes_def\<close>)
  next
    case False
    show thesis
      by (rule that [of "\<lparr>cs_Path = GetDevicePath d, cs_Disk = d, cs_PartitionNo = n, cs_PartitionCnt = int (length (disk_Partitions d)),
                      cs_RemainingSize = (if diskUsedBytes d < disk_Size d then disk_Size d - diskUsedBytes d else 0),
                      cs_ResetBeforeUse = False\<rparr>"])
        (use False n ff rem len assms(2) in \<open>simp_all add: carrier_start_def Let_def slot_inv_def free_bytes_def\<close>)
  qed
qed


lemma those_total: "(\<And>x. x \<in> set xs \<Longrightarrow> f x = Some (g x)) \<Longrightarrow> those (map f xs) = Some (map g xs)"
  by (induction xs) auto

definition sound_carriers :: "disk list \<Rightarrow> string list \<Rightarrow> bool" where
  "sound_carriers carriers osds \<longleftrightarrow>
     carriers \<noteq> [] \<and> distinct (map GetDevicePath carriers) \<and> length osds < 2 ^ 62 \<and> list_all sound_disk carriers"

abbreviation start_of :: "(string \<Rightarrow> bool) \<Rightarrow> disk \<Rightarrow> carrier_state" where
  "start_of reset d \<equiv> the (carrier_start reset d)"

lemma start_of_props:
  assumes "sound_disk d" "room < 2 ^ 62"
  shows "carrier_start reset d = Some (start_of reset d)" "slot_inv room (start_of reset d) {}" "cs_Path (start_of reset d) = GetDevicePath d"
    "0 \<le> cs_PartitionCnt (start_of reset d)" "unat (cs_RemainingSize (start_of reset d)) = free_bytes reset d"
    "cs_ResetBeforeUse (start_of reset d) = reset (GetDevicePath d)"
    "taken (cs_Disk (start_of reset d)) = (if reset (GetDevicePath d) then {} else taken d)"
    "(cs_PartitionCnt (start_of reset d) = 0) = (reset (GetDevicePath d) \<or> disk_Partitions d = [])"
  by (rule carrier_start_props [OF assms, of reset], simp)+

lemma plan_starts:
  assumes "sound_carriers carriers osds"
  shows "planAuxiliaryPartitionsDetailed G osds carriers reset sz kind =
      (if osds = [] then Some (Inr []) else map_option (map_sum id (map Some)) (plan_loop G kind sz osds (map (start_of reset) carriers)))"
    "ready_states (length osds) (map (start_of reset) carriers)" "map cs_Path (map (start_of reset) carriers) = map GetDevicePath carriers"
    "capacity sz (map (start_of reset) carriers) = sum_list (map (\<lambda>d. free_bytes reset d div unat sz) carriers)"
proof -
  have d: "sound_disk d" if "d \<in> set carriers" for d using assms that by (simp add: sound_carriers_def list_all_iff)
  have r: "length osds < 2 ^ 62" using assms by (simp add: sound_carriers_def)
  note st = start_of_props [OF d r]
  show "planAuxiliaryPartitionsDetailed G osds carriers reset sz kind =
      (if osds = [] then Some (Inr []) else map_option (map_sum id (map Some)) (plan_loop G kind sz osds (map (start_of reset) carriers)))"
    using assms those_total [of carriers "carrier_start reset" "start_of reset"] st(1)
    by (simp add: planAuxiliaryPartitionsDetailed_def sound_carriers_def)
  show "ready_states (length osds) (map (start_of reset) carriers)" using st(2) by (auto simp: ready_states_def)
  show "map cs_Path (map (start_of reset) carriers) = map GetDevicePath carriers" using st(3) by simp
  show "capacity sz (map (start_of reset) carriers) = sum_list (map (\<lambda>d. free_bytes reset d div unat sz) carriers)"
    using st(5) by (simp add: capacity_def comp_def cong: map_cong)
qed

section \<open>Properties\<close>

text \<open>C13 (termination). Planning partitions of a positive size on carriers with distinct paths and sane
  inventories always returns, and it reports insufficient capacity exactly when the carriers together
  cannot hold one partition per OSD: the greedy choice never fails where another choice would succeed.\<close>

theorem aux_plan_capacity:
  assumes "sound_carriers carriers osds" "0 < sz"
  shows "\<exists>r. planAuxiliaryPartitionsDetailed G osds carriers reset sz kind = Some r \<and>
    (is_err r \<longleftrightarrow> sum_list (map (\<lambda>d. free_bytes reset d div unat sz) carriers) < length osds)"
proof -
  note st = plan_starts [OF assms(1)]
  obtain r where r: "plan_loop G kind sz osds (map (start_of reset) carriers) = Some r"
      "is_err r = (capacity sz (map (start_of reset) carriers) < length osds)"
    using plan_loop_returns [OF st(2)] assms(2) by blast
  have "is_err (map_sum id (map Some) r) = is_err r" by (cases r) auto
  with r show ?thesis unfolding st(1) st(4) [symmetric] by (cases "osds = []") simp_all
qed

text \<open>C14 (bounds). A plan gives every OSD a partition on one of the carriers, and on each carrier the planned
  partitions fit into its free bytes without wrapping, take in order the first free slots of its table
  (of an empty table when the carrier is reset), and only the first one may reset the carrier or write a
  new table, which happens exactly when the carrier is to be reset, or is to be reset or empty.\<close>

theorem aux_plan_fits:
  assumes "sound_carriers carriers osds" "planAuxiliaryPartitionsDetailed G osds carriers reset sz kind = Some (Inr out)"
  shows "\<exists>ps. out = map Some ps \<and> length ps = length osds \<and> (\<forall>a \<in> set ps. pa_ParentPath a \<in> GetDevicePath ` set carriers) \<and>
    (\<forall>d \<in> set carriers.
       let q = on_carrier (GetDevicePath d) ps; wipes = reset (GetDevicePath d); old = (if wipes then {} else taken d) in
       unat sz * length q \<le> free_bytes reset d \<and>
       (\<forall>k < length q.
          unat (pa_Partition (q ! k)) = first_free (old \<union> (unat \<circ> pa_Partition) ` set (take k q)) \<and>
          pa_SizeBytes (q ! k) = sz \<and> pa_ResetBeforeUse (q ! k) = (wipes \<and> k = 0) \<and>
          pa_InitializeGPT (q ! k) = ((wipes \<or> disk_Partitions d = []) \<and> k = 0)))"
proof (cases "osds = []")
  case True
  with assms show ?thesis by (auto simp: plan_starts(1) on_carrier_def Let_def)
next
  case False
  note st = plan_starts [OF assms(1)]
  let ?states = "map (start_of reset) carriers"
  from assms(2) False obtain x where x: "plan_loop G kind sz osds ?states = Some x" "map_sum id (map Some) x = Inr out"
    by (auto simp: st(1))
  then obtain ps where ps: "plan_loop G kind sz osds ?states = Some (Inr ps)" "out = map Some ps" by (cases x) auto
  note pp = plan_loop_parents [OF ps(1)]
  have r: "length osds < 2 ^ 62" using assms(1) by (simp add: sound_carriers_def)
  have dist: "distinct (map cs_Path ?states)" using assms(1) st(3) by (simp only: sound_carriers_def)
  have each: "carrier_plan (start_of reset d) {} kind sz (on_carrier (GetDevicePath d) ps)" if d: "d \<in> set carriers" for d
  proof -
    from d obtain i where i: "i < length carriers" "carriers ! i = d" by (auto simp: in_set_conv_nth)
    have "sound_disk d" using assms(1) d by (simp add: sound_carriers_def list_all_iff)
    note sd = start_of_props [OF this r, of reset]
    have "carrier_plan (?states ! i) {} kind sz (on_carrier (cs_Path (?states ! i)) ps)"
      by (rule plan_loop_carrier [OF ps(1) dist]) (use i sd in simp_all)
    with i sd(3) show ?thesis by simp
  qed
  have "\<forall>a \<in> set ps. pa_ParentPath a \<in> GetDevicePath ` set carriers" using pp(2) st(3) by (metis list.set_map)
  moreover have "sound_disk d" if "d \<in> set carriers" for d using assms(1) that by (simp add: sound_carriers_def list_all_iff)
  ultimately show ?thesis using ps(2) pp(1) each start_of_props [OF _ r, of _ reset] by (auto simp: carrier_plan_def Let_def)
qed


definition sample_carriers :: "disk list" where
  "sample_carriers =
     [\<lparr>disk_ID = ''sda'', disk_Model = '''', disk_Type = '''', disk_Size = 1000, disk_ReadOnly = False, disk_DeviceID = '''', disk_DevicePath = '''',
        disk_Partitions = [\<lparr>part_ID = ''sda2'', part_Size = 300, part_Partition = 2, part_Device = ''8:2''\<rparr>], disk_Device = ''8:0''\<rparr>,
      \<lparr>disk_ID = ''sdb'', disk_Model = '''', disk_Type = '''', disk_Size = 500, disk_ReadOnly = False, disk_DeviceID = '''', disk_DevicePath = '''',
        disk_Partitions = [], disk_Device = ''8:16''\<rparr>]"

lemma sample_sound: "sound_carriers sample_carriers [''o1'', ''o2'', ''o3'']"
  by (simp add: sound_carriers_def sample_carriers_def sound_disk_def used_bytes_def GetDevicePath_def)

theorem aux_plan_capacity_witness:
  "\<exists>r. planAuxiliaryPartitionsDetailed plain_lib [''o1'', ''o2'', ''o3''] sample_carriers (\<lambda>_. False) 300 ''wal'' = Some r \<and> \<not> is_err r"
proof -
  have "sum_list (map (\<lambda>d. free_bytes (\<lambda>_. False) d div unat (300 :: u64)) sample_carriers) = 3"
    by (simp add: sample_carriers_def free_bytes_def used_bytes_def GetDevicePath_def)
  with aux_plan_capacity [OF sample_sound, of 300 plain_lib "\<lambda>_. False" "''wal''"] show ?thesis by auto
qed

theorem aux_plan_fits_witness:
  "\<exists>ps. planAuxiliaryPartitionsDetailed plain_lib [''o1'', ''o2'', ''o3''] sample_carriers (\<lambda>_. False) 300 ''wal'' = Some (Inr (map Some ps)) \<and>
     length ps = 3 \<and> map pa_Partition ps = [1, 1, 3]"
proof -
  let ?plan = "planAuxiliaryPartitionsDetailed plain_lib [''o1'', ''o2'', ''o3''] sample_carriers (\<lambda>_. False) 300 ''wal''"
  have "map_option (\<lambda>r. \<not> is_err r \<and> map (map_option pa_Partition) (projr r) = [Some 1, Some 1, Some 3]) ?plan = Some True" by code_simp
  then obtain out where out: "?plan = Some (Inr out)" "map (map_option pa_Partition) out = [Some 1, Some 1, Some 3]"
    by (auto simp: not_is_err_iff)
  from aux_plan_fits [OF sample_sound out(1)] obtain ps where "out = map Some ps" "length ps = 3" by auto
  with out show ?thesis by auto
qed

end
