(* ===== verification/Aux_Partition.thy ===== *)
theory Aux_Partition
  imports Osd_Env Aux_Plan
begin

text \<open>
  Creating and removing generated WAL and DB partitions (\<^verbatim>\<open>ceph/osd_waldb.go\<close>): the
  partition table read from the disk, the carrier lock, allocation with rollback, the manifest that
  records what an OSD owns, and the cleanup that trusts only partition identities.
\<close>

section \<open>Partition tables\<close>

record aux_partition =
  ap_Node :: string
  ap_UUID :: string
  ap_Size :: u64

record aux_table =
  at_Label :: string
  at_SectorSize :: u64
  at_Partitions :: "aux_partition list"

definition aux_partition_zero :: aux_partition where
  "aux_partition_zero = \<lparr>ap_Node = '''', ap_UUID = '''', ap_Size = 0\<rparr>"

definition aux_table_zero :: aux_table where
  "aux_table_zero = \<lparr>at_Label = '''', at_SectorSize = 0, at_Partitions = []\<rparr>"

definition aux_partition_field :: "go_lib \<Rightarrow> string \<Rightarrow> json \<Rightarrow> aux_partition \<Rightarrow> aux_partition option option" where
  "aux_partition_field G k v p =
     (if equal_fold G k ''node'' then Some (map_option (\<lambda>s. p\<lparr>ap_Node := s\<rparr>) (dec_string (ap_Node p) v))
      else if equal_fold G k ''uuid'' then Some (map_option (\<lambda>s. p\<lparr>ap_UUID := s\<rparr>) (dec_string (ap_UUID p) v))
      else if equal_fold G k ''size'' then Some (map_option (\<lambda>n. p\<lparr>ap_Size := n\<rparr>) (dec_u64 (ap_Size p) v))
      else None)"

definition aux_table_field :: "go_lib \<Rightarrow> string \<Rightarrow> json \<Rightarrow> aux_table \<Rightarrow> aux_table option option" where
  "aux_table_field G k v t =
     (if equal_fold G k ''label'' then Some (map_option (\<lambda>s. t\<lparr>at_Label := s\<rparr>) (dec_string (at_Label t) v))
      else if equal_fold G k ''sectorsize'' then Some (map_option (\<lambda>n. t\<lparr>at_SectorSize := n\<rparr>) (dec_u64 (at_SectorSize t) v))
      else if equal_fold G k ''partitions''
      then Some (case v of
          JNull \<Rightarrow> Some (t\<lparr>at_Partitions := []\<rparr>)
        | JArr js \<Rightarrow> map_option (\<lambda>ps. t\<lparr>at_Partitions := ps\<rparr>)
            (those (map (dec_struct False (aux_partition_field G) aux_partition_zero) js))
        | _ \<Rightarrow> None)
      else None)"

definition sfdisk_field :: "go_lib \<Rightarrow> string \<Rightarrow> json \<Rightarrow> aux_table \<Rightarrow> aux_table option option" where
  "sfdisk_field G k v t =
     (if equal_fold G k ''partitiontable'' then Some (dec_struct False (aux_table_field G) t v) else None)"

definition sfdisk_json :: "string \<Rightarrow> request" where
  "sfdisk_json path = Cmd [''env'', ''LC_ALL=C'', ''sfdisk'', ''--json'', path]"

text \<open>What an answer to that command says: no table, a table, or an error.\<close>

definition table_of :: "go_lib \<Rightarrow> string \<Rightarrow> reply \<Rightarrow> go_error + aux_table option" where
  "table_of G parentPath r =
     (if \<not> answered r
      then (if contains_sub (reply_text r) ''does not contain a recognized partition table'' then Inr None
            else Inl (err_wrap (''failed to read partition table on '' @ parentPath @ '': '') (err_new (reply_text r)) ''''))
      else case Option.bind (reply_json r) (dec_struct False (sfdisk_field G) aux_table_zero) of
        None \<Rightarrow> Inl (err_new (''invalid partition table on '' @ parentPath @ '': json''))
      | Some t \<Rightarrow>
          if at_Label t = '''' \<or> at_SectorSize t = 0 then Inl (err_new (''incomplete partition table on '' @ parentPath))
          else Inr (Some t))"

definition readAuxPartitionTable :: "osd_env \<Rightarrow> string \<Rightarrow> aux_table option io" where
  "readAuxPartitionTable E parentPath = io_bind (osd_ask E (sfdisk_json parentPath)) (\<lambda>r. of_result (table_of (oe_lib E) parentPath r))"

definition partitionPathFromParentPath :: "string \<Rightarrow> u64 \<Rightarrow> string" where
  "partitionPathFromParentPath parentPath n =
     (if contains_sub parentPath ''/dev/disk/by-id/'' \<or> contains_sub parentPath ''/dev/disk/by-path/''
      then parentPath @ ''-part'' @ show_nat (unat n)
      else if parentPath \<noteq> [] \<and> is_digit_byte (last parentPath) then parentPath @ ''p'' @ show_nat (unat n)
      else parentPath @ show_nat (unat n))"

definition table_partition :: "aux_table option \<Rightarrow> string \<Rightarrow> u64 \<Rightarrow> aux_partition option" where
  "table_partition t parentPath number =
     (case t of
        None \<Rightarrow> None
      | Some t \<Rightarrow> List.find (\<lambda>p. ap_Node p = partitionPathFromParentPath parentPath number) (at_Partitions t))"

section \<open>Single steps on a carrier\<close>

definition partitionSizeMiB :: "u64 \<Rightarrow> u64" where
  "partitionSizeMiB sizeBytes = (sizeBytes + 1048576 - 1) div 1048576"

definition label_cmd :: "string \<Rightarrow> request" where
  "label_cmd parentPath =
     Cmd [''sh'', ''-c'', ''printf '' @ [CHR 0x27] @ ''label: gpt'' @ [CHR 0x0A, CHR 0x27] @ '' | sfdisk --lock=no '' @ quoted parentPath]"

definition initializeGPT :: "osd_env \<Rightarrow> string \<Rightarrow> unit io" where
  "initializeGPT E parentPath =
     io_wrap (''failed to initialize GPT on '' @ parentPath @ '': '') (io_bind (osd_must E (label_cmd parentPath)) (\<lambda>_. io_return ()))"

definition append_cmd :: "string \<Rightarrow> u64 \<Rightarrow> request" where
  "append_cmd parentPath sectors = Cmd [''sh'', ''-c'',
     ''printf '' @ [CHR 0x27] @ '','' @ show_nat (unat sectors) @ [CHR 0x0A, CHR 0x27] @
     '' | sfdisk --lock=no --append --force --no-reread --no-tell-kernel '' @ quoted parentPath]"

definition createPartition :: "osd_env \<Rightarrow> string \<Rightarrow> u64 \<Rightarrow> unit io" where
  "createPartition E parentPath sectors =
     io_wrap (''failed to create partition on '' @ parentPath @ '': '')
       (io_bind (osd_must E (append_cmd parentPath sectors)) (\<lambda>_. io_return ()))"

definition kernelPartitionDeleteAttempts :: nat where
  "kernelPartitionDeleteAttempts = 6"

definition partx_range :: "u64 \<Rightarrow> string" where
  "partx_range n = show_nat (unat n) @ '':'' @ show_nat (unat n)"

definition partx_delete :: "string \<Rightarrow> u64 \<Rightarrow> request" where
  "partx_delete parentPath n = Cmd [''partx'', ''-v'', ''-d'', ''--nr'', partx_range n, parentPath]"

text \<open>The number of attempts left; the error is that of the last one.\<close>

fun kernel_delete_loop :: "osd_env \<Rightarrow> string \<Rightarrow> u64 \<Rightarrow> nat \<Rightarrow> unit io" where
  "kernel_delete_loop E parentPath n 0 = io_return ()"
| "kernel_delete_loop E parentPath n (Suc k) =
     io_bind (osd_ask E (partx_delete parentPath n)) (\<lambda>r.
       if answered r then io_return ()
       else if 0 < k then kernel_delete_loop E parentPath n k
       else io_fail (err_wrap (''failed to remove kernel partition '' @ show_nat (unat n) @ '' on '' @ parentPath @ '' after '' @
              show_nat kernelPartitionDeleteAttempts @ '' attempts: '') (err_new (reply_text r)) ''''))"

definition deleteKernelPartitionEntry :: "osd_env \<Rightarrow> string \<Rightarrow> u64 \<Rightarrow> unit io" where
  "deleteKernelPartitionEntry E parentPath n = kernel_delete_loop E parentPath n kernelPartitionDeleteAttempts"

definition gpt_delete :: "string \<Rightarrow> u64 \<Rightarrow> request" where
  "gpt_delete parentPath n =
     Cmd [''sfdisk'', ''--delete'', ''--lock=no'', ''--no-reread'', ''--no-tell-kernel'', parentPath, show_nat (unat n)]"

definition deletePartition :: "osd_env \<Rightarrow> string \<Rightarrow> u64 \<Rightarrow> unit io" where
  "deletePartition E parentPath n =
     io_bind (deleteKernelPartitionEntry E parentPath n) (\<lambda>_.
     io_bind (io_wrap (''failed to delete GPT partition '' @ show_nat (unat n) @ '' on '' @ parentPath @ '': '')
                (osd_must E (gpt_delete parentPath n))) (\<lambda>_.
     deleteKernelPartitionEntry E parentPath n))"

definition zap_device :: "string \<Rightarrow> request" where
  "zap_device path = Cmd [''ceph-bluestore-tool'', ''zap-device'', ''--dev'', path, ''--yes-i-really-really-mean-it'']"

definition timeoutWipe :: "osd_env \<Rightarrow> string \<Rightarrow> unit io" where
  "timeoutWipe E path = io_bind (osd_must E (zap_device path)) (\<lambda>_. io_return ())"

section \<open>The carrier lock\<close>

definition EAGAIN :: nat where "EAGAIN = 11"

text \<open>The number of retries before the deadline has passed.\<close>

fun flock_loop :: "osd_env \<Rightarrow> string \<Rightarrow> nat \<Rightarrow> unit io" where
  "flock_loop E path k =
     io_bind (osd_ask E (Flock path)) (\<lambda>r.
       if answered r then io_return ()
       else if exit_code r \<noteq> Some EAGAIN
       then io_fail (err_wrap (''failed to lock carrier '' @ path @ '': '') (err_new (reply_text r)) '''')
       else case k of
         0 \<Rightarrow> io_fail (err_wrap (''timed out locking carrier '' @ path @ '': '') (err_new (reply_text r)) '''')
       | Suc k' \<Rightarrow> flock_loop E path k')"

declare flock_loop.simps [simp del]

definition withExclusiveCarrierLock :: "osd_env \<Rightarrow> string \<Rightarrow> (string \<Rightarrow> 'a io) \<Rightarrow> 'a io" where
  "withExclusiveCarrierLock E parentPath operation =
     io_bind (io_wrap ''failed to resolve carrier: '' (osd_must E (EvalSymlinks parentPath))) (\<lambda>r.
       let path = reply_text r in
       io_bind (io_wrap (''failed to open carrier '' @ path @ '': '') (osd_must E (Probe ''open'' [path]))) (\<lambda>_.
       io_bind (\<lambda>h. flock_loop E path (oe_polls E h) h) (\<lambda>_.
       io_bind (attempt (operation path)) (\<lambda>res.
       io_bind (osd_ask E (Funlock path)) (\<lambda>_. of_result res)))))"

section \<open>The manifest of generated partitions\<close>

record gen_dev =
  gd_ParentPath :: string
  gd_Partition :: u64
  gd_PartUUID :: string
  gd_Encrypted :: bool

record gen_manifest =
  gm_Version :: int
  gm_WAL :: "gen_dev option"
  gm_DB :: "gen_dev option"

definition generatedAuxManifestVersion :: int where
  "generatedAuxManifestVersion = 1"

definition gen_dev_zero :: gen_dev where
  "gen_dev_zero = \<lparr>gd_ParentPath = '''', gd_Partition = 0, gd_PartUUID = '''', gd_Encrypted = False\<rparr>"

definition gen_manifest_zero :: gen_manifest where
  "gen_manifest_zero = \<lparr>gm_Version = 0, gm_WAL = None, gm_DB = None\<rparr>"

definition enc_gen_dev :: "gen_dev \<Rightarrow> json" where
  "enc_gen_dev d = JObj
     ([(''parent_path'', JStr (gd_ParentPath d)), (''partition'', JInt (uint (gd_Partition d)))] @
      opt_field (gd_PartUUID d = '''') ''part_uuid'' (JStr (gd_PartUUID d)) @ [(''encrypted'', JBool (gd_Encrypted d))])"

definition enc_manifest :: "gen_manifest \<Rightarrow> json" where
  "enc_manifest m = JObj
     ([(''version'', JInt (gm_Version m))] @
      (case gm_WAL m of None \<Rightarrow> [] | Some d \<Rightarrow> [(''wal'', enc_gen_dev d)]) @
      (case gm_DB m of None \<Rightarrow> [] | Some d \<Rightarrow> [(''db'', enc_gen_dev d)]))"

definition gen_dev_field :: "go_lib \<Rightarrow> string \<Rightarrow> json \<Rightarrow> gen_dev \<Rightarrow> gen_dev option option" where
  "gen_dev_field G k v d =
     (if equal_fold G k ''parent_path'' then Some (map_option (\<lambda>s. d\<lparr>gd_ParentPath := s\<rparr>) (dec_string (gd_ParentPath d) v))
      else if equal_fold G k ''partition'' then Some (map_option (\<lambda>n. d\<lparr>gd_Partition := n\<rparr>) (dec_u64 (gd_Partition d) v))
      else if equal_fold G k ''part_uuid'' then Some (map_option (\<lambda>s. d\<lparr>gd_PartUUID := s\<rparr>) (dec_string (gd_PartUUID d) v))
      else if equal_fold G k ''encrypted'' then Some (map_option (\<lambda>b. d\<lparr>gd_Encrypted := b\<rparr>) (dec_bool (gd_Encrypted d) v))
      else None)"

definition dec_gen_dev_ptr :: "go_lib \<Rightarrow> gen_dev option \<Rightarrow> json \<Rightarrow> gen_dev option option" where
  "dec_gen_dev_ptr G cur j =
     (if j = JNull then Some None
      else map_option Some (dec_struct False (gen_dev_field G) (case cur of None \<Rightarrow> gen_dev_zero | Some d \<Rightarrow> d) j))"

definition manifest_field :: "go_lib \<Rightarrow> string \<Rightarrow> json \<Rightarrow> gen_manifest \<Rightarrow> gen_manifest option option" where
  "manifest_field G k v m =
     (if equal_fold G k ''version'' then Some (map_option (\<lambda>i. m\<lparr>gm_Version := i\<rparr>) (dec_int (gm_Version m) v))
      else if equal_fold G k ''wal'' then Some (map_option (\<lambda>d. m\<lparr>gm_WAL := d\<rparr>) (dec_gen_dev_ptr G (gm_WAL m) v))
      else if equal_fold G k ''db'' then Some (map_option (\<lambda>d. m\<lparr>gm_DB := d\<rparr>) (dec_gen_dev_ptr G (gm_DB m) v))
      else None)"

definition dec_manifest :: "go_lib \<Rightarrow> json \<Rightarrow> gen_manifest option" where
  "dec_manifest G = dec_struct False (manifest_field G) gen_manifest_zero"

definition generatedAuxManifestPath :: "string \<Rightarrow> string" where
  "generatedAuxManifestPath osdDataPath = osdDataPath @ ''/generated-aux-devices.json''"

text \<open>The write goes to a temporary file that is renamed; the temporary file is removed in any case.\<close>

definition writeGeneratedAuxManifest :: "osd_env \<Rightarrow> string \<Rightarrow> gen_manifest option \<Rightarrow> unit io" where
  "writeGeneratedAuxManifest E osdDataPath manifest =
     (case manifest of
        None \<Rightarrow> io_return ()
      | Some m \<Rightarrow>
          if gm_WAL m = None \<and> gm_DB m = None then io_return ()
          else
            (let path = generatedAuxManifestPath osdDataPath; tmp = path @ ''.tmp'';
                 data = enc_manifest (m\<lparr>gm_Version := generatedAuxManifestVersion\<rparr>) in
             io_bind (attempt
               (io_bind (io_wrap ''failed to write generated aux manifest: '' (osd_must E (WriteFile tmp data))) (\<lambda>_.
                io_wrap ''failed to replace generated aux manifest: '' (osd_must E (Rename tmp path))))) (\<lambda>res.
             io_bind (osd_ask E (RemoveFile tmp)) (\<lambda>_. of_result (map_sum id (\<lambda>_. ()) res)))))"

definition persistGeneratedAuxManifest :: "osd_env \<Rightarrow> string \<Rightarrow> gen_manifest option \<Rightarrow> unit io" where
  "persistGeneratedAuxManifest E osdDataPath manifest =
     (if (case manifest of None \<Rightarrow> True | Some m \<Rightarrow> gm_WAL m = None \<and> gm_DB m = None)
      then io_bind (osd_ask E (RemoveFile (generatedAuxManifestPath osdDataPath))) (\<lambda>r.
             if answered r \<or> not_exist r then io_return ()
             else io_fail (err_wrap ''failed to remove generated aux manifest: '' (err_new (reply_text r)) ''''))
      else writeGeneratedAuxManifest E osdDataPath manifest)"

definition readGeneratedAuxManifest :: "osd_env \<Rightarrow> string \<Rightarrow> gen_manifest option io" where
  "readGeneratedAuxManifest E osdDataPath =
     io_bind (osd_ask E (ReadFile (generatedAuxManifestPath osdDataPath))) (\<lambda>r.
       if not_exist r then io_return None
       else if \<not> answered r then io_fail (err_wrap ''failed to read generated aux manifest: '' (err_new (reply_text r)) '''')
       else case Option.bind (reply_json r) (dec_manifest (oe_lib E)) of
         None \<Rightarrow> io_fail (err_new ''failed to parse generated aux manifest: json'')
       | Some m \<Rightarrow>
           if gm_Version m \<noteq> 0 \<and> gm_Version m \<noteq> generatedAuxManifestVersion
           then io_fail (err_new (''unsupported generated aux manifest version '' @ show_int (gm_Version m)))
           else io_return (Some m))"

section \<open>Cleaning up a generated partition\<close>

definition auxDeviceMapperName :: "string \<Rightarrow> int \<Rightarrow> string" where
  "auxDeviceMapperName kind osdID = ''luksosd.'' @ kind @ ''-'' @ show_int osdID"

definition closeEncryptedAuxDevice :: "osd_env \<Rightarrow> string \<Rightarrow> int \<Rightarrow> unit io" where
  "closeEncryptedAuxDevice E kind osdID =
     (let name = auxDeviceMapperName kind osdID; path = ''/dev/mapper/'' @ name in
      io_bind (osd_ask E (Stat path)) (\<lambda>r.
        if not_exist r then io_return ()
        else if \<not> answered r then io_fail (err_wrap (''failed to inspect encrypted aux device '' @ path @ '': '') (err_new (reply_text r)) '''')
        else io_bind (io_wrap (''failed to close encrypted '' @ kind @ '' device '' @ name @ '': '')
               (osd_must E (Cmd [''cryptsetup'', ''close'', name]))) (\<lambda>_. io_return ())))"

text \<open>The work under the carrier lock.\<close>

definition cleanup_locked :: "osd_env \<Rightarrow> string \<Rightarrow> gen_dev \<Rightarrow> string \<Rightarrow> unit io" where
  "cleanup_locked E kind entry parentPath =
     io_bind (readAuxPartitionTable E parentPath) (\<lambda>table.
       case table_partition table parentPath (gd_Partition entry) of
         None \<Rightarrow> deleteKernelPartitionEntry E parentPath (gd_Partition entry)
       | Some part \<Rightarrow>
           if gd_PartUUID entry = ''''
           then io_fail (err_new (''generated '' @ kind @ '' partition '' @ show_nat (unat (gd_Partition entry)) @ '' on '' @
                  gd_ParentPath entry @ '' has no verified PARTUUID; manual cleanup required''))
           else if ap_UUID part = ''''
           then io_fail (err_new (''partition '' @ show_nat (unat (gd_Partition entry)) @ '' on '' @ parentPath @ '' has no PARTUUID; refusing cleanup''))
           else if \<not> equal_fold (oe_lib E) (ap_UUID part) (gd_PartUUID entry) then io_return ()
           else
             (let partitionPath = partitionPathFromParentPath parentPath (gd_Partition entry) in
              io_bind (osd_ask E (Stat partitionPath)) (\<lambda>r.
                if answered r
                then io_bind (attempt (timeoutWipe E partitionPath)) (\<lambda>_. deletePartition E parentPath (gd_Partition entry))
                else if not_exist r then deletePartition E parentPath (gd_Partition entry)
                else io_fail (err_new (reply_text r)))))"

definition cleanupGeneratedAuxDevice :: "osd_env \<Rightarrow> string \<Rightarrow> gen_dev option \<Rightarrow> int \<Rightarrow> unit io" where
  "cleanupGeneratedAuxDevice E kind entry osdID =
     (case entry of
        None \<Rightarrow> io_return ()
      | Some entry \<Rightarrow>
          io_bind (osd_ask E (Stat (gd_ParentPath entry))) (\<lambda>st.
            let missing = (gd_ParentPath entry = '''' \<or> not_exist st);
                locked = io_bind (attempt (withExclusiveCarrierLock E (gd_ParentPath entry) (cleanup_locked E kind entry))) (\<lambda>res.
                  case res of
                    Inr _ \<Rightarrow> io_return ()
                  | Inl e \<Rightarrow> io_bind (osd_ask E (Stat (gd_ParentPath entry))) (\<lambda>st2. if not_exist st2 then io_return () else io_fail e))
            in
            if \<not> answered st \<and> \<not> missing then io_fail (err_new (reply_text st))
            else if gd_Encrypted entry \<and> 0 \<le> osdID
            then io_bind (attempt (closeEncryptedAuxDevice E kind osdID)) (\<lambda>res.
              case res of
                Inr _ \<Rightarrow> if missing then io_return () else locked
              | Inl e \<Rightarrow>
                  io_bind (osd_ask E (Stat (gd_ParentPath entry))) (\<lambda>st2.
                    if \<not> missing \<and> \<not> not_exist st2 then io_fail e else io_return ()))
            else if missing then io_return () else locked))"

definition cleanupGeneratedAuxEntries :: "osd_env \<Rightarrow> gen_manifest option \<Rightarrow> int \<Rightarrow> unit io" where
  "cleanupGeneratedAuxEntries E manifest osdID =
     (case manifest of
        None \<Rightarrow> io_return ()
      | Some m \<Rightarrow>
          io_bind (cleanupGeneratedAuxDevice E ''wal'' (gm_WAL m) osdID) (\<lambda>_.
          cleanupGeneratedAuxDevice E ''db'' (gm_DB m) osdID))"

definition cleanupGeneratedAuxDevices :: "osd_env \<Rightarrow> string \<Rightarrow> int \<Rightarrow> unit io" where
  "cleanupGeneratedAuxDevices E osdDataPath osdID =
     io_bind (readGeneratedAuxManifest E osdDataPath) (\<lambda>manifest.
       case manifest of
         None \<Rightarrow> io_return ()
       | Some m \<Rightarrow>
           io_bind (if gm_WAL m = None then io_return m
                    else io_bind (cleanupGeneratedAuxDevice E ''wal'' (gm_WAL m) osdID) (\<lambda>_.
                         io_bind (persistGeneratedAuxManifest E osdDataPath (Some (m\<lparr>gm_WAL := None\<rparr>))) (\<lambda>_.
                         io_return (m\<lparr>gm_WAL := None\<rparr>)))) (\<lambda>m.
           if gm_DB m = None then io_return ()
           else io_bind (cleanupGeneratedAuxDevice E ''db'' (gm_DB m) osdID) (\<lambda>_.
                persistGeneratedAuxManifest E osdDataPath (Some (m\<lparr>gm_DB := None\<rparr>)))))"


section \<open>Creating a planned partition\<close>

text \<open>Count up from slot one until the table has no such partition; as many tries as the table has
  partitions, and one more.\<close>

fun free_table_slot :: "nat \<Rightarrow> aux_table \<Rightarrow> string \<Rightarrow> u64 \<Rightarrow> u64 option" where
  "free_table_slot 0 t parentPath n = None"
| "free_table_slot (Suc k) t parentPath n =
     (if table_partition (Some t) parentPath n \<noteq> None then free_table_slot k t parentPath (n + 1) else Some n)"

definition checkAllocationSlot :: "aux_table option \<Rightarrow> string \<Rightarrow> planned_aux \<Rightarrow> go_error + aux_table" where
  "checkAllocationSlot table parentPath plan =
     (case table of
        None \<Rightarrow> Inl (err_new (''carrier '' @ parentPath @ '' has no usable GPT''))
      | Some t \<Rightarrow>
          if at_Label t \<noteq> ''gpt'' then Inl (err_new (''carrier '' @ parentPath @ '' has no usable GPT''))
          else case free_table_slot (Suc (length (at_Partitions t))) t parentPath 1 of
            None \<Rightarrow> Inl (err_new ''no free slot'')
          | Some next \<Rightarrow>
              if next \<noteq> pa_Partition plan
              then Inl (err_new (''planned partition '' @ show_nat (unat (pa_Partition plan)) @ '' on '' @ parentPath @
                     '' does not match free slot '' @ show_nat (unat next)))
              else Inr t)"

definition sectors_for :: "u64 \<Rightarrow> u64 \<Rightarrow> u64" where
  "sectors_for sizeBytes sectorSize = (partitionSizeMiB sizeBytes * 1024 * 1024 + sectorSize - 1) div sectorSize"

text \<open>After the partition was added: identify it, check its size, publish it.\<close>

definition identify_partition :: "osd_env \<Rightarrow> planned_aux \<Rightarrow> string \<Rightarrow> u64 \<Rightarrow> string io" where
  "identify_partition E plan parentPath sectors =
     io_bind (readAuxPartitionTable E parentPath) (\<lambda>table.
       case table_partition table parentPath (pa_Partition plan) of
         None \<Rightarrow> io_fail (err_new (''cannot identify created partition '' @ show_nat (unat (pa_Partition plan)) @ '' on '' @ parentPath))
       | Some part \<Rightarrow>
           if ap_UUID part = ''''
           then io_fail (err_new (''cannot identify created partition '' @ show_nat (unat (pa_Partition plan)) @ '' on '' @ parentPath))
           else if ap_Size part \<noteq> sectors
           then io_fail (err_new (''created partition '' @ show_nat (unat (pa_Partition plan)) @ '' on '' @ parentPath @ '' has '' @
                  show_nat (unat (ap_Size part)) @ '' sectors, requested '' @ show_nat (unat sectors)))
           else io_bind (io_wrap (''failed to publish partition '' @ show_nat (unat (pa_Partition plan)) @ '' on '' @ parentPath @ '': '')
                  (osd_must E (Cmd [''partx'', ''-u'', ''--nr'', partx_range (pa_Partition plan), parentPath]))) (\<lambda>_.
                io_return (ap_UUID part)))"

definition with_rollback :: "osd_env \<Rightarrow> planned_aux \<Rightarrow> string \<Rightarrow> string io \<Rightarrow> string io" where
  "with_rollback E plan parentPath work =
     io_bind (attempt work) (\<lambda>res.
       case res of
         Inr uuid \<Rightarrow> io_return uuid
       | Inl e \<Rightarrow>
           io_bind (attempt (deletePartition E parentPath (pa_Partition plan))) (\<lambda>cleanup.
             case cleanup of
               Inl ce \<Rightarrow> io_fail (err_wrap '''' e ('' (rollback of partition '' @ show_nat (unat (pa_Partition plan)) @ '' on '' @ parentPath @
                            '' failed: '' @ etext ce @ ''; manual cleanup required)''))
             | Inr _ \<Rightarrow> io_fail e))"

definition create_locked :: "osd_env \<Rightarrow> planned_aux \<Rightarrow> string \<Rightarrow> string io" where
  "create_locked E plan parentPath =
     io_bind (readAuxPartitionTable E parentPath) (\<lambda>table.
     io_bind (if pa_ResetBeforeUse plan
              then io_wrap (''failed to reset carrier '' @ parentPath @ '': '') (timeoutWipe E parentPath)
              else if pa_InitializeGPT plan \<and> (case table of None \<Rightarrow> False | Some t \<Rightarrow> at_Partitions t \<noteq> [])
              then io_fail (err_new (''carrier '' @ parentPath @ '' is no longer empty; refusing GPT initialization''))
              else io_return ()) (\<lambda>_.
     io_bind (if pa_InitializeGPT plan \<or> pa_ResetBeforeUse plan
              then io_bind (initializeGPT E parentPath) (\<lambda>_. readAuxPartitionTable E parentPath)
              else io_return table) (\<lambda>table.
     io_bind (of_result (checkAllocationSlot table parentPath plan)) (\<lambda>t.
     io_bind (deleteKernelPartitionEntry E parentPath (pa_Partition plan)) (\<lambda>_.
       let sectors = sectors_for (pa_SizeBytes plan) (at_SectorSize t) in
     io_bind (createPartition E parentPath sectors) (\<lambda>_.
     with_rollback E plan parentPath (identify_partition E plan parentPath sectors)))))))"

definition resolvePathBestEffort :: "osd_env \<Rightarrow> string \<Rightarrow> string io" where
  "resolvePathBestEffort E path =
     io_bind (osd_ask E (EvalSymlinks path)) (\<lambda>r. io_return (if answered r then reply_text r else path))"

definition partitionPathCandidates :: "osd_env \<Rightarrow> string \<Rightarrow> u64 \<Rightarrow> string list io" where
  "partitionPathCandidates E parentPath n =
     io_bind (resolvePathBestEffort E parentPath) (\<lambda>resolved.
       io_return (remdups_adj (map (\<lambda>p. partitionPathFromParentPath p n) (filter (\<lambda>p. p \<noteq> '''') [parentPath, resolved]))))"

text \<open>The first path that exists.\<close>

fun first_existing :: "osd_env \<Rightarrow> string list \<Rightarrow> string option io" where
  "first_existing E [] = io_return None"
| "first_existing E (p # ps) = io_bind (osd_ask E (Stat p)) (\<lambda>r. if answered r then io_return (Some p) else first_existing E ps)"

definition resolvePartitionStablePath :: "osd_env \<Rightarrow> string \<Rightarrow> u64 \<Rightarrow> string io" where
  "resolvePartitionStablePath E parentPath n =
     io_bind (partitionPathCandidates E parentPath n) (\<lambda>candidates.
     io_bind (first_existing E candidates) (\<lambda>found.
       case found of
         Some p \<Rightarrow> io_return p
       | None \<Rightarrow>
           io_bind (attempt (getStorageWithRetry E)) (\<lambda>storage.
           io_bind (case storage of
                      Inl _ \<Rightarrow> io_return None
                    | Inr disks \<Rightarrow> first_existing E
                        (concat (map (\<lambda>d. map (\<lambda>p. ''/dev/'' @ part_ID p) (filter (\<lambda>p. part_Partition p = n) (disk_Partitions d)))
                           (filter (\<lambda>d. GetDevicePath d = parentPath) disks)))) (\<lambda>found.
             case found of
               Some p \<Rightarrow> io_return p
             | None \<Rightarrow> io_fail (err_new (''partition '' @ show_nat (unat n) @ '' on '' @ parentPath @ '' not found''))))))"

fun wait_partition :: "osd_env \<Rightarrow> string \<Rightarrow> u64 \<Rightarrow> nat \<Rightarrow> string option io" where
  "wait_partition E parentPath n 0 = io_return None"
| "wait_partition E parentPath n (Suc k) =
     io_bind (attempt (resolvePartitionStablePath E parentPath n)) (\<lambda>r.
       case r of Inr p \<Rightarrow> io_return (Some p) | Inl _ \<Rightarrow> wait_partition E parentPath n k)"

text \<open>The result is the path of the partition and the plan with the identity it got.\<close>

definition createPlannedAuxPartition :: "osd_env \<Rightarrow> planned_aux \<Rightarrow> (string \<times> planned_aux) io" where
  "createPlannedAuxPartition E plan =
     io_bind (withExclusiveCarrierLock E (pa_ParentPath plan) (create_locked E plan)) (\<lambda>uuid.
     io_bind (\<lambda>h. wait_partition E (pa_ParentPath plan) (pa_Partition plan) (oe_polls E h) h) (\<lambda>found.
       case found of
         Some path \<Rightarrow> io_return (path, plan\<lparr>pa_PartUUID := uuid\<rparr>)
       | None \<Rightarrow>
           (let e = err_new (''timed out waiting for '' @ pa_Kind plan @ '' partition '' @ show_nat (unat (pa_Partition plan)) @ '' on '' @
                      pa_ParentPath plan @ '' to appear'');
                entry = \<lparr>gd_ParentPath = pa_ParentPath plan, gd_Partition = pa_Partition plan, gd_PartUUID = uuid, gd_Encrypted = False\<rparr> in
            io_bind (attempt (cleanupGeneratedAuxDevice E (pa_Kind plan) (Some entry) (- 1))) (\<lambda>cleanup.
              case cleanup of
                Inl ce \<Rightarrow> io_fail (err_wrap '''' e ('' (rollback failed: '' @ etext ce @ ''; manual cleanup required)''))
              | Inr _ \<Rightarrow> io_fail e))))"

section \<open>Migrating an old manifest\<close>

definition label_field :: "go_lib \<Rightarrow> string \<Rightarrow> json \<Rightarrow> string \<Rightarrow> string option option" where
  "label_field G k v u = (if equal_fold G k ''osd_uuid'' then Some (dec_string u v) else None)"

text \<open>The identities in the labels of a device: a map from device to label.\<close>

definition label_uuids :: "go_lib \<Rightarrow> json \<Rightarrow> string list option" where
  "label_uuids G j =
     (case j of
        JNull \<Rightarrow> Some []
      | JObj kvs \<Rightarrow> map_option (map snd)
          (foldl (\<lambda>acc (k, v). Option.bind acc (\<lambda>m. map_option (\<lambda>u. AList.update k u m) (dec_struct False (label_field G) '''' v))) (Some []) kvs)
      | _ \<Rightarrow> None)"

definition migrate_locked :: "osd_env \<Rightarrow> string \<Rightarrow> string \<Rightarrow> gen_dev \<Rightarrow> string \<Rightarrow> string option io" where
  "migrate_locked E osdDataPath kind entry parentPath =
     io_bind (readAuxPartitionTable E parentPath) (\<lambda>table.
       case table_partition table parentPath (gd_Partition entry) of
         None \<Rightarrow> io_return None
       | Some part \<Rightarrow>
           if ap_UUID part = ''''
           then io_fail (err_new (''partition '' @ show_nat (unat (gd_Partition entry)) @ '' on '' @ parentPath @ '' has no GPT identity''))
           else
             (let link = (if gd_Encrypted entry then ''unencrypted.'' else ''block.'') @ kind;
                  deviceLink = osdDataPath @ ''/block.'' @ kind in
              io_bind (io_wrap (''cannot resolve OSD '' @ link @ '' link: '') (osd_must E (EvalSymlinks (osdDataPath @ ''/'' @ link)))) (\<lambda>l.
              io_bind (io_wrap ''cannot resolve carrier partition: ''
                (osd_must E (EvalSymlinks (partitionPathFromParentPath parentPath (gd_Partition entry))))) (\<lambda>c.
                let childPath = reply_text c in
                if reply_text l \<noteq> childPath
                then io_fail (err_new (''OSD '' @ link @ '' link points to '' @ reply_text l @ '', not '' @ childPath))
                else
                  io_bind (io_wrap (''cannot identify kernel partition '' @ childPath @ '': '')
                    (osd_must E (Cmd [''lsblk'', ''-no'', ''PARTUUID'', childPath]))) (\<lambda>k.
                    if \<not> equal_fold (oe_lib E) (trim_space (oe_lib E) (reply_text k)) (ap_UUID part)
                    then io_fail (err_new (''kernel and GPT identities differ for '' @ childPath))
                    else
                      io_bind (io_wrap ''cannot read OSD fsid: '' (osd_must E (ReadFile (osdDataPath @ ''/fsid'')))) (\<lambda>f.
                      io_bind (io_wrap (''cannot read BlueStore label on '' @ deviceLink @ '': '')
                        (osd_must E (Cmd [''ceph-bluestore-tool'', ''show-label'', ''--dev'', deviceLink]))) (\<lambda>lb.
                        case Option.bind (reply_json lb) (label_uuids (oe_lib E)) of
                          None \<Rightarrow> io_fail (err_new (''invalid BlueStore label on '' @ deviceLink @ '': json''))
                        | Some us \<Rightarrow>
                            if length us \<noteq> 1
                            then io_fail (err_new (''expected one BlueStore label on '' @ deviceLink @ '', got '' @ show_nat (length us)))
                            else if trim_space (oe_lib E) (reply_text f) = '''' \<or>
                              \<not> equal_fold (oe_lib E) (hd us) (trim_space (oe_lib E) (reply_text f))
                            then io_fail (err_new (''BlueStore label on '' @ deviceLink @ '' does not belong to this OSD''))
                            else io_return (Some (ap_UUID part)))))))))"

text \<open>One entry: what to record, if anything.\<close>

definition migrate_entry :: "osd_env \<Rightarrow> string \<Rightarrow> string \<Rightarrow> gen_dev option \<Rightarrow> string option io" where
  "migrate_entry E osdDataPath kind entry =
     (case entry of
        None \<Rightarrow> io_return None
      | Some entry \<Rightarrow>
          if gd_PartUUID entry \<noteq> '''' then io_return None
          else io_bind (osd_ask E (Stat (gd_ParentPath entry))) (\<lambda>st.
            if not_exist st then io_return None
            else if \<not> answered st then io_fail (err_new (reply_text st))
            else io_bind (attempt (withExclusiveCarrierLock E (gd_ParentPath entry) (migrate_locked E osdDataPath kind entry))) (\<lambda>res.
              case res of
                Inr u \<Rightarrow> io_return u
              | Inl e \<Rightarrow>
                  io_bind (osd_ask E (Stat (gd_ParentPath entry))) (\<lambda>st2.
                    if not_exist st2 then io_return None
                    else io_fail (err_wrap (''cannot migrate generated '' @ kind @ '' partition on '' @ gd_ParentPath entry @
                           ''; manual cleanup required: '') e '''')))))"

definition set_uuid :: "string option \<Rightarrow> gen_dev option \<Rightarrow> gen_dev option" where
  "set_uuid u d = (case u of None \<Rightarrow> d | Some u \<Rightarrow> map_option (\<lambda>d. d\<lparr>gd_PartUUID := u\<rparr>) d)"

definition migrateGeneratedAuxManifest :: "osd_env \<Rightarrow> string \<Rightarrow> unit io" where
  "migrateGeneratedAuxManifest E osdDataPath =
     io_bind (readGeneratedAuxManifest E osdDataPath) (\<lambda>manifest.
       case manifest of
         None \<Rightarrow> io_return ()
       | Some m \<Rightarrow>
           io_bind (migrate_entry E osdDataPath ''wal'' (gm_WAL m)) (\<lambda>w.
           io_bind (migrate_entry E osdDataPath ''db'' (gm_DB m)) (\<lambda>d.
             if w \<noteq> None \<or> d \<noteq> None \<or> gm_Version m = 0
             then writeGeneratedAuxManifest E osdDataPath (Some (m\<lparr>gm_WAL := set_uuid w (gm_WAL m), gm_DB := set_uuid d (gm_DB m)\<rparr>))
             else io_return ())))"

end
