(* ===== verification/Aux_Safety.thy ===== *)
theory Aux_Safety
  imports Aux_Partition
begin

text \<open>
  What the partition code may do to a carrier: a partition is deleted or wiped only inside a lock
  session in which the table was read and showed the recorded identity, and a partition that was added
  but not published is rolled back in the same session.
\<close>

section \<open>Lock sessions\<close>

text \<open>The log ends inside a session on the carrier \<open>p\<close>.\<close>

definition in_session :: "host \<Rightarrow> string \<Rightarrow> history \<Rightarrow> bool" where
  "in_session H p h \<longleftrightarrow> (\<exists>pre suf. h = pre @ [Flock p] @ suf \<and> answered (H pre (Flock p)) \<and> Funlock p \<notin> set suf)"

text \<open>In that session the request \<open>r\<close> got an answer with \<open>P\<close>.\<close>

definition seen_in_session :: "host \<Rightarrow> string \<Rightarrow> request \<Rightarrow> (reply \<Rightarrow> bool) \<Rightarrow> history \<Rightarrow> bool" where
  "seen_in_session H p r P h \<longleftrightarrow>
     (\<exists>pre mid suf. h = pre @ [Flock p] @ mid @ [r] @ suf \<and> answered (H pre (Flock p)) \<and>
        P (H (pre @ [Flock p] @ mid) r) \<and> Funlock p \<notin> set (mid @ suf))"

lemma in_session_step: "in_session H p h \<Longrightarrow> r \<noteq> Funlock p \<Longrightarrow> in_session H p (h @ [r])"
  unfolding in_session_def by (metis append.assoc append_Cons append_Nil set_append Un_iff empty_iff set_ConsD list.set(1))

lemma seen_step: "seen_in_session H p r P h \<Longrightarrow> x \<noteq> Funlock p \<Longrightarrow> seen_in_session H p r P (h @ [x])"
proof -
  assume "seen_in_session H p r P h" "x \<noteq> Funlock p"
  then obtain pre mid suf where "h = pre @ [Flock p] @ mid @ [r] @ suf" "answered (H pre (Flock p))"
      "P (H (pre @ [Flock p] @ mid) r)" "Funlock p \<notin> set (mid @ suf)" unfolding seen_in_session_def by blast
  with \<open>x \<noteq> Funlock p\<close> show ?thesis unfolding seen_in_session_def
    by (intro exI [of _ pre] exI [of _ mid] exI [of _ "suf @ [x]"]) auto
qed

lemma seen_now:
  assumes "in_session H p h" "P (H h r)" "r \<noteq> Funlock p"
  shows "seen_in_session H p r P (h @ [r])"
proof -
  from assms(1) obtain pre suf where "h = pre @ [Flock p] @ suf" "answered (H pre (Flock p))" "Funlock p \<notin> set suf"
    by (auto simp: in_session_def)
  with assms(2,3) show ?thesis unfolding seen_in_session_def
    by (intro exI [of _ pre] exI [of _ suf] exI [of _ "[]"]) auto
qed

lemma seen_in_session_mono: "seen_in_session H p r P h \<Longrightarrow> (\<And>x. P x \<Longrightarrow> P' x) \<Longrightarrow> seen_in_session H p r P' h"
  unfolding seen_in_session_def by blast

lemma seen_session: "seen_in_session H p r P h \<Longrightarrow> r \<noteq> Funlock p \<Longrightarrow> in_session H p h"
  unfolding seen_in_session_def in_session_def by fastforce

section \<open>Requests of the single steps\<close>

lemma only_table: "R (sfdisk_json p) \<Longrightarrow> only R (readAuxPartitionTable E p)"
  unfolding readAuxPartitionTable_def by (intro only_rules only_ask only_of_result)

lemma only_kernel_loop: "R (partx_delete p n) \<Longrightarrow> only R (kernel_delete_loop E p n k)"
proof (induction k)
  case (Suc k)
  show ?case unfolding kernel_delete_loop.simps by (intro only_rules only_ask Suc)
qed (simp add: only_return)

lemma only_kernel: "R (partx_delete p n) \<Longrightarrow> only R (deleteKernelPartitionEntry E p n)"
  unfolding deleteKernelPartitionEntry_def by (rule only_kernel_loop)

lemma only_deletePartition: "R (partx_delete p n) \<Longrightarrow> R (gpt_delete p n) \<Longrightarrow> only R (deletePartition E p n)"
  unfolding deletePartition_def by (intro only_rules only_kernel only_must)

lemma only_wipe: "R (zap_device d) \<Longrightarrow> only R (timeoutWipe E d)"
  unfolding timeoutWipe_def by (intro only_rules only_must)

section \<open>Cleanup\<close>

text \<open>The answer of the partition table shows the recorded identity in the recorded slot.\<close>

definition shows_owned :: "go_lib \<Rightarrow> gen_dev \<Rightarrow> string \<Rightarrow> reply \<Rightarrow> bool" where
  "shows_owned G entry p r \<longleftrightarrow>
     (\<exists>t part. table_of G p r = Inr (Some t) \<and> table_partition (Some t) p (gd_Partition entry) = Some part \<and>
        gd_PartUUID entry \<noteq> '''' \<and> equal_fold G (ap_UUID part) (gd_PartUUID entry))"

definition owned_session :: "osd_env \<Rightarrow> gen_dev \<Rightarrow> string \<Rightarrow> history \<Rightarrow> bool" where
  "owned_session E entry p = seen_in_session (oe_host E) p (sfdisk_json p) (shows_owned (oe_lib E) entry p)"

text \<open>Deleting a partition from a table, wiping a device, writing a table and adding a partition.\<close>

fun changes_carrier :: "request \<Rightarrow> bool" where
  "changes_carrier (Cmd (c # args)) \<longleftrightarrow> (c = ''sfdisk'' \<and> hd args = ''--delete'') \<or> (c = ''ceph-bluestore-tool'' \<and> hd args = ''zap-device'') \<or> c = ''sh''"
| "changes_carrier _ \<longleftrightarrow> False"

definition cleanup_allows :: "osd_env \<Rightarrow> gen_dev \<Rightarrow> history \<Rightarrow> request \<Rightarrow> bool" where
  "cleanup_allows E entry h r \<longleftrightarrow>
     (changes_carrier r \<longrightarrow>
        (\<exists>p. owned_session E entry p h \<and>
           (r = gpt_delete p (gd_Partition entry) \<or> r = zap_device (partitionPathFromParentPath p (gd_Partition entry)))))"

lemma harmless_requests [simp]:
  "\<not> changes_carrier (Stat p)" "\<not> changes_carrier (EvalSymlinks p)" "\<not> changes_carrier (Flock p)" "\<not> changes_carrier (Funlock p)"
  "\<not> changes_carrier (Probe s a)" "\<not> changes_carrier (sfdisk_json p)" "\<not> changes_carrier (partx_delete p n)"
  "\<not> changes_carrier (Cmd (''cryptsetup'' # a))" "\<not> changes_carrier (RemoveFile p)" "\<not> changes_carrier (Rename p q)"
  "\<not> changes_carrier (WriteFile p j)" "\<not> changes_carrier (ReadFile p)" "changes_carrier (gpt_delete p n)" "changes_carrier (zap_device p)"
  by (simp_all add: sfdisk_json_def partx_delete_def gpt_delete_def zap_device_def)

lemma not_unlock [simp]:
  "sfdisk_json p \<noteq> Funlock q" "partx_delete p n \<noteq> Funlock q" "gpt_delete p n \<noteq> Funlock q" "zap_device d \<noteq> Funlock q"
  by (simp_all add: sfdisk_json_def partx_delete_def gpt_delete_def zap_device_def)

definition quiet :: "string \<Rightarrow> request \<Rightarrow> bool" where
  "quiet p r \<longleftrightarrow> \<not> changes_carrier r \<and> r \<noteq> Funlock p"

text \<open>Inside the session nothing unlocks.\<close>

definition cleanup_in :: "osd_env \<Rightarrow> gen_dev \<Rightarrow> string \<Rightarrow> history \<Rightarrow> request \<Rightarrow> bool" where
  "cleanup_in E entry p h r \<longleftrightarrow> cleanup_allows E entry h r \<and> r \<noteq> Funlock p"

abbreviation any_result :: "'a \<Rightarrow> history \<Rightarrow> bool" where
  "any_result \<equiv> \<lambda>_ _. True"

lemma quiet_triple: "only (quiet p) f \<Longrightarrow> triple (cleanup_in E entry p) (in_session H p) f (\<lambda>_. in_session H p) any_result"
  by (rule triple_weaken [OF only_triple [where I = "in_session H p" and R = "quiet p"]])
    (auto simp: quiet_def cleanup_in_def cleanup_allows_def intro: in_session_step)

lemma owned_triple:
  assumes "only (\<lambda>r. quiet p r \<or> r = gpt_delete p (gd_Partition entry) \<or> r = zap_device (partitionPathFromParentPath p (gd_Partition entry))) f"
  shows "triple (cleanup_in E entry p) (owned_session E entry p) f any_result any_result"
proof (rule triple_weaken [OF only_triple [where I = "owned_session E entry p"]])
  show "only (\<lambda>r. quiet p r \<or> r = gpt_delete p (gd_Partition entry) \<or> r = zap_device (partitionPathFromParentPath p (gd_Partition entry))) f"
    by (rule assms)
next
  fix h r assume o: "owned_session E entry p h"
    and "quiet p r \<or> r = gpt_delete p (gd_Partition entry) \<or> r = zap_device (partitionPathFromParentPath p (gd_Partition entry))"
  then show "cleanup_in E entry p h r \<and> owned_session E entry p (h @ [r])"
    unfolding cleanup_in_def cleanup_allows_def
    by (auto simp: quiet_def owned_session_def intro!: seen_step)
qed auto

lemma triple_table:
  assumes "\<And>res h r. table_of (oe_lib E) p r = Inr res \<Longrightarrow> seen_in_session (oe_host E) p (sfdisk_json p) (\<lambda>x. x = r) h \<Longrightarrow> Post res h"
    and "\<And>h. Q h (sfdisk_json p)"
  shows "triple Q (in_session (oe_host E) p) (readAuxPartitionTable E p) Post any_result"
  unfolding readAuxPartitionTable_def
proof (rule triple_bind)
  show "triple Q (in_session (oe_host E) p) (osd_ask E (sfdisk_json p))
      (\<lambda>r. seen_in_session (oe_host E) p (sfdisk_json p) (\<lambda>x. x = r)) any_result"
    by (rule triple_ask) (auto simp: assms(2) intro!: seen_now)
next
  fix r
  show "triple Q (seen_in_session (oe_host E) p (sfdisk_json p) (\<lambda>x. x = r)) (of_result (table_of (oe_lib E) p r)) Post any_result"
    by (cases "table_of (oe_lib E) p r") (auto simp: of_result_def intro!: triple_return triple_fail assms(1))
qed

lemma cleanup_locked_safe:
  "triple (cleanup_in E entry p) (in_session (oe_host E) p) (cleanup_locked E kind entry p) any_result any_result"
  unfolding cleanup_locked_def
proof (rule triple_bind)
  let ?H = "oe_host E" and ?G = "oe_lib E" and ?n = "gd_Partition entry"
  let ?Mid = "\<lambda>res h. in_session ?H p h \<and> (\<exists>r. table_of ?G p r = Inr res \<and> seen_in_session ?H p (sfdisk_json p) (\<lambda>x. x = r) h)"
  show "triple (cleanup_in E entry p) (in_session ?H p) (readAuxPartitionTable E p) ?Mid any_result"
    by (rule triple_table) (auto simp: cleanup_in_def cleanup_allows_def dest: seen_session)
  fix res
  show "triple (cleanup_in E entry p) (?Mid res)
      (case table_partition res p ?n of
         None \<Rightarrow> deleteKernelPartitionEntry E p ?n
       | Some part \<Rightarrow>
           if gd_PartUUID entry = ''''
           then io_fail (err_new (''generated '' @ kind @ '' partition '' @ show_nat (unat ?n) @ '' on '' @
                  gd_ParentPath entry @ '' has no verified PARTUUID; manual cleanup required''))
           else if ap_UUID part = ''''
           then io_fail (err_new (''partition '' @ show_nat (unat ?n) @ '' on '' @ p @ '' has no PARTUUID; refusing cleanup''))
           else if \<not> equal_fold ?G (ap_UUID part) (gd_PartUUID entry) then io_return ()
           else
             (let partitionPath = partitionPathFromParentPath p ?n in
              io_bind (osd_ask E (Stat partitionPath)) (\<lambda>r.
                if answered r
                then io_bind (attempt (timeoutWipe E partitionPath)) (\<lambda>_. deletePartition E p ?n)
                else if not_exist r then deletePartition E p ?n
                else io_fail (err_new (reply_text r))))) any_result any_result"
  proof (cases "table_partition res p ?n")
    case None
    have "triple (cleanup_in E entry p) (in_session ?H p) (deleteKernelPartitionEntry E p ?n) (\<lambda>_. in_session ?H p) any_result"
      by (intro quiet_triple only_kernel) (simp add: quiet_def)
    then have "triple (cleanup_in E entry p) (?Mid res) (deleteKernelPartitionEntry E p ?n) any_result any_result"
      by (rule triple_weaken) auto
    with None show ?thesis by simp
  next
    case (Some part)
    let ?work = "io_bind (osd_ask E (Stat (partitionPathFromParentPath p ?n))) (\<lambda>r.
                if answered r
                then io_bind (attempt (timeoutWipe E (partitionPathFromParentPath p ?n))) (\<lambda>_. deletePartition E p ?n)
                else if not_exist r then deletePartition E p ?n
                else io_fail (err_new (reply_text r)))"
    have work: "triple (cleanup_in E entry p) (?Mid res) ?work any_result any_result"
      if u: "gd_PartUUID entry \<noteq> ''''" "equal_fold ?G (ap_UUID part) (gd_PartUUID entry)"
    proof (rule triple_weaken [OF owned_triple])
      show "only (\<lambda>r. quiet p r \<or> r = gpt_delete p ?n \<or> r = zap_device (partitionPathFromParentPath p ?n)) ?work"
        by (intro only_rules only_ask only_wipe only_deletePartition) (auto simp: quiet_def)
      fix h assume "?Mid res h"
      then obtain r where r: "table_of ?G p r = Inr res" "seen_in_session ?H p (sfdisk_json p) (\<lambda>x. x = r) h" by blast
      from Some obtain t where "res = Some t" by (cases res) (auto simp: table_partition_def)
      with r(1) Some u have "shows_owned ?G entry p r" by (auto simp: shows_owned_def)
      with r(2) show "owned_session E entry p h" unfolding owned_session_def by (auto elim: seen_in_session_mono)
    qed auto
    show ?thesis using Some work by (auto simp: Let_def intro!: triple_fail triple_return)
  qed
qed


section \<open>Around a session\<close>

lemma triple_depends: "(\<And>k. triple Q Pre (f k) Post Err) \<Longrightarrow> triple Q Pre (\<lambda>h. f (n h) h) Post Err"
  unfolding triple_def by blast

lemma session_starts: "answered (H h (Flock p)) \<Longrightarrow> in_session H p (h @ [Flock p])"
  unfolding in_session_def by (intro exI [of _ h] exI [of _ "[]"]) simp

lemma quiet_any:
  assumes "only (\<lambda>r. \<not> changes_carrier r) f" "\<And>h r. \<not> changes_carrier r \<Longrightarrow> Q h r"
  shows "triple Q (\<lambda>_. True) f any_result any_result"
  using only_triple [OF assms(1), where I = "\<lambda>_. True" and Q = Q] assms(2) by simp

lemma flock_triple:
  assumes "\<And>h. Q h (Flock p)"
  shows "triple Q (\<lambda>_. True) (flock_loop E p k) (\<lambda>_. in_session (oe_host E) p) any_result"
proof (induction k)
  let ?Mid = "\<lambda>r h. answered r \<longrightarrow> in_session (oe_host E) p h"
  have ask: "triple Q (\<lambda>_. True) (osd_ask E (Flock p)) ?Mid any_result"
    by (rule triple_ask) (use assms session_starts in auto)
  {
    case 0
    show ?case by (subst flock_loop.simps, rule triple_bind [OF ask]) (auto intro!: triple_return triple_fail)
  next
    case (Suc k)
    have "triple Q (?Mid r) (flock_loop E p k) (\<lambda>_. in_session (oe_host E) p) any_result" for r
      by (rule triple_weaken [OF Suc]) auto
    then show ?case by (subst flock_loop.simps, intro triple_bind [OF ask]) (auto intro!: triple_return triple_fail Suc)
  }
qed

lemma locked_triple:
  assumes "\<And>p. triple (Qin p) (in_session (oe_host E) p) (operation p) Post any_result"
    and "\<And>p h r. Qin p h r \<Longrightarrow> Q h r" and "\<And>h r. \<not> changes_carrier r \<Longrightarrow> Q h r" and grows: "\<And>v. grows (Post v)"
  shows "triple Q (\<lambda>_. True) (withExclusiveCarrierLock E parent operation) Post any_result"
proof -
  let ?Mid = "\<lambda>res h. case res of Inr v \<Rightarrow> Post v h | Inl _ \<Rightarrow> True"
  have fl: "triple Q (\<lambda>_. True) (\<lambda>h. flock_loop E p (oe_polls E h) h) (\<lambda>_. in_session (oe_host E) p) any_result" for p
    by (rule triple_depends, rule flock_triple) (simp add: assms(3))
  have op: "triple Q (in_session (oe_host E) p) (attempt (operation p)) ?Mid any_result" for p
    by (rule triple_attempt, simp, rule triple_allow [OF assms(1)]) (use assms(2) in auto)
  have unlock: "triple Q (?Mid res) (osd_ask E (Funlock p)) (\<lambda>_. ?Mid res) any_result" for p and res :: "go_error + 'a"
    by (rule triple_ask) (use assms(3) growsD [OF grows] in \<open>auto split: sum.splits\<close>)
  have rest: "triple Q (?Mid res) (io_bind (osd_ask E (Funlock p)) (\<lambda>_. of_result res)) Post any_result" for p and res :: "go_error + 'a"
    unfolding of_result_def by (rule triple_bind [OF unlock]) (auto split: sum.splits intro!: triple_return triple_fail)
  have inside: "triple Q (\<lambda>_. True) (io_bind (\<lambda>h. flock_loop E p (oe_polls E h) h) (\<lambda>_.
       io_bind (attempt (operation p)) (\<lambda>res. io_bind (osd_ask E (Funlock p)) (\<lambda>_. of_result res)))) Post any_result" for p
    by (rule triple_bind [OF fl], rule triple_bind [OF op], rule rest)
  have res: "triple Q (\<lambda>_. True) (io_wrap s (osd_must E r)) any_result any_result" if "\<not> changes_carrier r" for s r
    using that by (intro quiet_any only_wrap only_must assms(3)) auto
  show ?thesis unfolding withExclusiveCarrierLock_def Let_def
    by (rule triple_bind [OF res], simp, rule triple_bind [OF res], simp, rule inside)
qed

lemma cleanup_triple: "triple (cleanup_allows E entry) (\<lambda>_. True) (cleanupGeneratedAuxDevice E kind (Some entry) osdID) any_result any_result"
proof -
  let ?Q = "cleanup_allows E entry"
  have Q: "\<not> changes_carrier r \<Longrightarrow> ?Q h r" for h r by (simp add: cleanup_allows_def)
  have asks: "triple ?Q (\<lambda>_. True) (osd_ask E (Stat p)) any_result any_result" for p
    by (intro quiet_any only_ask Q) auto
  have lock: "triple ?Q (\<lambda>_. True) (attempt (withExclusiveCarrierLock E (gd_ParentPath entry) (cleanup_locked E kind entry))) any_result any_result"
    by (rule triple_attempt, rule locked_triple [OF cleanup_locked_safe]) (auto simp: cleanup_in_def cleanup_allows_def grows_const)
  have close: "triple ?Q (\<lambda>_. True) (attempt (closeEncryptedAuxDevice E kind osdID)) any_result any_result"
    unfolding closeEncryptedAuxDevice_def Let_def by (intro quiet_any only_rules only_ask only_must Q) auto
  show ?thesis
    unfolding cleanupGeneratedAuxDevice_def option.case Let_def
    by (intro triple_bind [OF asks] triple_bind [OF lock] triple_bind [OF close] triple_rules triple_return triple_fail TrueI)
qed

text \<open>C11 (safety). Cleaning up a generated partition never touches a partition it cannot prove to own. Every
  request of the cleanup that changes a carrier deletes or wipes exactly the recorded slot, and it is
  made inside a lock session on that carrier in which the partition table was read and showed the
  recorded partition identity in that slot. So a slot that was reused by something else is left alone,
  whatever the host answers.\<close>

theorem cleanup_spares_foreign:
  assumes "cleanupGeneratedAuxDevice E kind (Some entry) osdID h = (res, h @ ext)"
    and "k < length ext" "changes_carrier (ext ! k)"
  shows "\<exists>p. owned_session E entry p (h @ take k ext) \<and>
    (ext ! k = gpt_delete p (gd_Partition entry) \<or> ext ! k = zap_device (partitionPathFromParentPath p (gd_Partition entry)))"
  using triple_request [OF cleanup_triple TrueI assms(1,2)] assms(3) by (simp add: cleanup_allows_def)

text \<open>A carrier whose second partition is the recorded one.\<close>

definition demo_table :: json where
  "demo_table = JObj [(''partitiontable'', JObj [(''label'', JStr ''gpt''), (''sectorsize'', JInt 512),
     (''partitions'', JArr [JObj [(''node'', JStr ''/dev/sdb1''), (''uuid'', JStr ''AAAA''), (''size'', JInt 2048)],
                            JObj [(''node'', JStr ''/dev/sdb2''), (''uuid'', JStr ''BBBB''), (''size'', JInt 2048)]])])]"

definition demo_host :: host where
  "demo_host h r =
     (if r = EvalSymlinks ''/dev/disk/by-id/x'' then Answer ''/dev/sdb'' None
      else if r = sfdisk_json ''/dev/sdb'' then Answer '''' (Some demo_table)
      else Answer '''' None)"

definition demo_gjson :: gjson_lib where
  "demo_gjson = \<lparr>gj_get = (\<lambda>_ _. None), gj_sub = (\<lambda>_ _. None), gj_array = (\<lambda>_. []), gj_string = (\<lambda>_. ''''), gj_int = (\<lambda>_. 0),
     gj_other = (\<lambda>_. '''')\<rparr>"

definition demo_env :: osd_env where
  "demo_env = \<lparr>oe_host = demo_host, oe_lib = plain_lib, oe_polls = (\<lambda>_. 1), oe_storage = (\<lambda>_. Inr []),
     oe_name = ''n1'', oe_data = ''/data'', oe_disks = (\<lambda>_. Inr []), oe_tags = (\<lambda>_. Inr []), oe_gjson = demo_gjson, oe_run_error = (\<lambda>_. None)\<rparr>"

definition demo_entry :: gen_dev where
  "demo_entry = \<lparr>gd_ParentPath = ''/dev/disk/by-id/x'', gd_Partition = 2, gd_PartUUID = ''bbbb'', gd_Encrypted = False\<rparr>"

lemma demo_cleanup:
  "cleanupGeneratedAuxDevice demo_env ''wal'' (Some demo_entry) 3 [] =
     (Inr (), [] @ [Stat ''/dev/disk/by-id/x'', EvalSymlinks ''/dev/disk/by-id/x'', Probe ''open'' [''/dev/sdb''], Flock ''/dev/sdb'',
       sfdisk_json ''/dev/sdb'', Stat ''/dev/sdb2'', zap_device ''/dev/sdb2'', partx_delete ''/dev/sdb'' 2, gpt_delete ''/dev/sdb'' 2,
       partx_delete ''/dev/sdb'' 2, Funlock ''/dev/sdb''])"
  by code_simp

theorem cleanup_spares_foreign_witness:
  "\<exists>p. owned_session demo_env demo_entry p
       [Stat ''/dev/disk/by-id/x'', EvalSymlinks ''/dev/disk/by-id/x'', Probe ''open'' [''/dev/sdb''], Flock ''/dev/sdb'',
        sfdisk_json ''/dev/sdb'', Stat ''/dev/sdb2'', zap_device ''/dev/sdb2'', partx_delete ''/dev/sdb'' 2] \<and>
     (gpt_delete ''/dev/sdb'' 2 = gpt_delete p 2 \<or> gpt_delete ''/dev/sdb'' 2 = zap_device (partitionPathFromParentPath p 2))"
  using cleanup_spares_foreign [OF demo_cleanup, of 8] by (simp add: demo_entry_def)

section \<open>Creation\<close>

text \<open>In the current session the carrier's table was read as \<open>table\<close>.\<close>

definition saw_table :: "osd_env \<Rightarrow> string \<Rightarrow> aux_table option \<Rightarrow> history \<Rightarrow> bool" where
  "saw_table E p table = seen_in_session (oe_host E) p (sfdisk_json p) (\<lambda>x. table_of (oe_lib E) p x = Inr table)"

definition empty_table :: "aux_table option \<Rightarrow> bool" where
  "empty_table table \<longleftrightarrow> (case table of None \<Rightarrow> True | Some t \<Rightarrow> at_Partitions t = [])"

text \<open>What a plan allows on its carrier at a moment.\<close>

definition plan_allows :: "osd_env \<Rightarrow> planned_aux \<Rightarrow> string \<Rightarrow> history \<Rightarrow> request \<Rightarrow> bool" where
  "plan_allows E plan p h r \<longleftrightarrow>
     (r = zap_device p \<and> pa_ResetBeforeUse plan \<and> in_session (oe_host E) p h) \<or>
     (r = label_cmd p \<and> in_session (oe_host E) p h \<and>
        (pa_ResetBeforeUse plan \<or> (pa_InitializeGPT plan \<and> (\<exists>table. empty_table table \<and> saw_table E p table h)))) \<or>
     (\<exists>t. r = append_cmd p (sectors_for (pa_SizeBytes plan) (at_SectorSize t)) \<and> saw_table E p (Some t) h \<and>
        at_Label t = ''gpt'' \<and> table_partition (Some t) p (pa_Partition plan) = None) \<or>
     (\<exists>s. r = gpt_delete p (pa_Partition plan) \<and> seen_in_session (oe_host E) p (append_cmd p s) answered h)"

definition create_in :: "osd_env \<Rightarrow> planned_aux \<Rightarrow> string \<Rightarrow> history \<Rightarrow> request \<Rightarrow> bool" where
  "create_in E plan p h r \<longleftrightarrow> r \<noteq> Funlock p \<and> (changes_carrier r \<longrightarrow> plan_allows E plan p h r)"

text \<open>The identity was read from the slot after the partition was added.\<close>

definition shows_identity :: "go_lib \<Rightarrow> planned_aux \<Rightarrow> string \<Rightarrow> string \<Rightarrow> reply \<Rightarrow> bool" where
  "shows_identity G plan p u x \<longleftrightarrow>
     (\<exists>t part. table_of G p x = Inr (Some t) \<and> table_partition (Some t) p (pa_Partition plan) = Some part \<and> ap_UUID part = u \<and> u \<noteq> '''')"

definition identified :: "osd_env \<Rightarrow> planned_aux \<Rightarrow> string \<Rightarrow> history \<Rightarrow> bool" where
  "identified E plan u h \<longleftrightarrow> (\<exists>p. happened (oe_host E) (shows_identity (oe_lib E) plan p u) (sfdisk_json p) h)"

lemma grows_identified: "grows (identified E plan u)"
  unfolding identified_def grows_def using growsD [OF grows_happened] by blast

lemma command_kinds [simp]:
  "changes_carrier (label_cmd p)" "changes_carrier (append_cmd p s)" "label_cmd p \<noteq> Funlock q" "append_cmd p s \<noteq> Funlock q"
  by (simp_all add: label_cmd_def append_cmd_def)

lemma seen_happened: "seen_in_session H p r P h \<Longrightarrow> happened H P r h"
proof -
  assume "seen_in_session H p r P h"
  then obtain pre mid suf where h: "h = (pre @ [Flock p] @ mid) @ [r] @ suf" "P (H (pre @ [Flock p] @ mid) r)"
    unfolding seen_in_session_def by auto
  then show ?thesis unfolding happened_def h(1)
    by (intro exI [of _ "length (pre @ [Flock p] @ mid)"]) (simp add: nth_append)
qed

lemma saw_session: "saw_table E p table h \<Longrightarrow> in_session (oe_host E) p h"
  unfolding saw_table_def by (rule seen_session) (assumption, simp)

lemma read_triple:
  "triple (create_in E plan p) (in_session (oe_host E) p) (readAuxPartitionTable E p) (saw_table E p) any_result"
  by (rule triple_table) (auto simp: saw_table_def create_in_def elim: seen_in_session_mono)

text \<open>Steps that only look, or only tell the kernel, keep what the session has seen.\<close>

definition lasting :: "string \<Rightarrow> (history \<Rightarrow> bool) \<Rightarrow> bool" where
  "lasting p I \<longleftrightarrow> (\<forall>h r. I h \<longrightarrow> r \<noteq> Funlock p \<longrightarrow> I (h @ [r]))"

lemma lasting_rules:
  "lasting p (in_session H p)" "lasting p (saw_table E p table)" "lasting p (seen_in_session H p r P)"
  by (auto simp: lasting_def saw_table_def intro: in_session_step seen_step)

lemma lasting_triple: "only (quiet p) f \<Longrightarrow> lasting p I \<Longrightarrow> triple (create_in E plan p) I f (\<lambda>_. I) any_result"
  by (rule triple_weaken [OF only_triple [where I = I and R = "quiet p"]])
    (auto simp: quiet_def create_in_def lasting_def)

text \<open>A command that changes the carrier, allowed by what the session has seen.\<close>

lemma command_triple:
  assumes "\<And>h. I h \<Longrightarrow> plan_allows E plan p h r" "lasting p I" "r \<noteq> Funlock p"
    and "\<And>h. I h \<Longrightarrow> answered (oe_host E h r) \<Longrightarrow> Post () (h @ [r])"
  shows "triple (create_in E plan p) I (io_bind (osd_must E r) (\<lambda>_. io_return ())) Post any_result"
proof (rule triple_bind)
  show "triple (create_in E plan p) I (osd_must E r) (\<lambda>_. Post ()) any_result"
    by (rule triple_must) (use assms in \<open>auto simp: create_in_def\<close>)
  show "triple (create_in E plan p) (Post ()) (io_return ()) Post any_result" for v
    by (rule triple_return)
qed

lemma free_table_slot_free: "free_table_slot k t p n = Some m \<Longrightarrow> table_partition (Some t) p m = None"
  by (induction k arbitrary: n) (auto split: if_splits)

text \<open>The code counts up without a bound; with fewer partitions than slot numbers a free slot is found
  within one step more than the table has partitions.\<close>

lemma free_table_slot_None:
  "free_table_slot k t p n = None \<Longrightarrow> i < k \<Longrightarrow> table_partition (Some t) p (n + of_nat i) \<noteq> None"
proof (induction k arbitrary: n i)
  case (Suc k)
  then have taken: "table_partition (Some t) p n \<noteq> None" "free_table_slot k t p (n + 1) = None" by (auto split: if_splits)
  show ?case
  proof (cases i)
    case 0
    with taken show ?thesis by simp
  next
    case (Suc j)
    with Suc.IH [OF taken(2), of j] Suc.prems show ?thesis by (simp add: add.assoc)
  qed
qed simp

lemma partition_path_inj: "partitionPathFromParentPath p n = partitionPathFromParentPath p m \<Longrightarrow> n = m"
  by (auto simp: partitionPathFromParentPath_def show_nat_inj word_unat_eq_iff split: if_splits)

lemma free_table_slot_enough:
  assumes "length (at_Partitions t) < 2 ^ 64"
  shows "\<exists>m. free_table_slot (Suc (length (at_Partitions t))) t p 1 = Some m"
proof (rule ccontr)
  let ?k = "Suc (length (at_Partitions t))" and ?slot = "\<lambda>i. partitionPathFromParentPath p (1 + of_nat i)"
  assume "\<not> ?thesis"
  then have none: "free_table_slot ?k t p 1 = None" by simp
  have "?slot i \<in> set (map ap_Node (at_Partitions t))" if "i < ?k" for i
    using free_table_slot_None [OF none that] by (auto simp: table_partition_def find_Some_iff image_iff) (metis nth_mem)
  then have "?slot ` {..<?k} \<subseteq> set (map ap_Node (at_Partitions t))" by blast
  moreover have "inj_on ?slot {..<?k}"
  proof (rule inj_onI)
    fix i j assume ij: "i \<in> {..<?k}" "j \<in> {..<?k}" "?slot i = ?slot j"
    then have "(of_nat i :: u64) = of_nat j" using partition_path_inj by fastforce
    with ij assms show "i = j" by (simp add: word_of_nat_eq_iff take_bit_nat_eq_self_iff [THEN iffD2])
  qed
  ultimately have "?k \<le> card (set (map ap_Node (at_Partitions t)))" using card_mono card_image
    by (metis List.finite_set card_lessThan)
  then show False using card_length [of "map ap_Node (at_Partitions t)"] by simp
qed

lemma checkAllocationSlot_ok:
  "checkAllocationSlot table p plan = Inr t \<Longrightarrow>
     table = Some t \<and> at_Label t = ''gpt'' \<and> table_partition (Some t) p (pa_Partition plan) = None"
  by (auto simp: checkAllocationSlot_def dest: free_table_slot_free split: option.splits if_splits)

lemma label_triple:
  assumes "\<And>h. I h \<Longrightarrow> plan_allows E plan p h (label_cmd p)" "lasting p I"
  shows "triple (create_in E plan p) I (initializeGPT E p) (\<lambda>_. I) any_result"
  unfolding initializeGPT_def
  by (rule triple_wrap, rule command_triple) (use assms in \<open>auto simp: lasting_def\<close>)

lemma reset_triple:
  "pa_ResetBeforeUse plan \<Longrightarrow>
   triple (create_in E plan p) (in_session (oe_host E) p) (timeoutWipe E p) (\<lambda>_. in_session (oe_host E) p) any_result"
  unfolding timeoutWipe_def
  by (rule command_triple) (auto simp: plan_allows_def lasting_rules intro: in_session_step)

lemma append_triple:
  assumes "at_Label t = ''gpt''" "table_partition (Some t) p (pa_Partition plan) = None"
  shows "triple (create_in E plan p) (saw_table E p (Some t)) (createPartition E p (sectors_for (pa_SizeBytes plan) (at_SectorSize t)))
    (\<lambda>_. seen_in_session (oe_host E) p (append_cmd p (sectors_for (pa_SizeBytes plan) (at_SectorSize t))) answered) any_result"
  unfolding createPartition_def
  by (rule triple_wrap, rule command_triple)
    (use assms in \<open>auto simp: plan_allows_def lasting_rules intro!: seen_now saw_session\<close>)

lemma identify_triple:
  assumes "lasting p I" "\<And>h. I h \<Longrightarrow> in_session (oe_host E) p h"
  shows "triple (create_in E plan p) I (identify_partition E plan p s) (\<lambda>u. identified E plan u) (\<lambda>_. I)"
proof -
  let ?G = "oe_lib E" and ?n = "pa_Partition plan"
  let ?Mid = "\<lambda>table h. I h \<and> saw_table E p table h"
  have ask: "triple (create_in E plan p) I (osd_ask E (sfdisk_json p))
      (\<lambda>r h. I h \<and> seen_in_session (oe_host E) p (sfdisk_json p) (\<lambda>x. x = r) h) (\<lambda>_. I)"
    by (rule triple_ask) (use assms in \<open>auto simp: create_in_def lasting_def intro!: seen_now\<close>)
  have read: "triple (create_in E plan p) I (readAuxPartitionTable E p) ?Mid (\<lambda>_. I)"
    unfolding readAuxPartitionTable_def of_result_def
    by (rule triple_bind [OF ask], intro triple_sum triple_fail triple_return)
      (auto simp: saw_table_def elim: seen_in_session_mono)
  have publish: "triple (create_in E plan p) (?Mid (Some t))
      (io_wrap m (osd_must E (Cmd (''partx'' # a)))) (\<lambda>_. saw_table E p (Some t)) (\<lambda>_. I)" for t m a
    by (intro triple_wrap triple_must) (use assms(1) in \<open>auto simp: create_in_def lasting_def saw_table_def intro!: seen_step\<close>)
  have found: "identified E plan (ap_UUID part) h"
    if "saw_table E p (Some t) h" "table_partition (Some t) p ?n = Some part" "ap_UUID part \<noteq> ''''" for t part h
    using seen_happened [OF seen_in_session_mono [OF that(1) [unfolded saw_table_def], where P' = "shows_identity ?G plan p (ap_UUID part)"]] that(2,3)
    unfolding identified_def shows_identity_def by auto
  have publish_some: "triple (create_in E plan p) (?Mid table) (io_bind (io_wrap m (osd_must E (Cmd (''partx'' # a)))) (\<lambda>_. io_return (ap_UUID part)))
      (\<lambda>u. identified E plan u) (\<lambda>_. I)" if "table_partition table p ?n = Some part" "ap_UUID part \<noteq> ''''" for table part m a
  proof -
    from that obtain t where t: "table = Some t" by (cases table) (auto simp: table_partition_def)
    show ?thesis unfolding t by (rule triple_bind [OF publish], rule triple_return) (use found that t in auto)
  qed
  show ?thesis unfolding identify_partition_def
    by (rule triple_bind [OF read], intro triple_rules triple_fail publish_some) auto
qed

lemma allows_delete: "seen_in_session (oe_host E) p (append_cmd p s) answered h \<Longrightarrow> plan_allows E plan p h (gpt_delete p (pa_Partition plan))"
  unfolding plan_allows_def by blast

lemma rollback_triple:
  assumes "triple (create_in E plan p) I work (\<lambda>u. identified E plan u) (\<lambda>_. I)"
    and "\<And>h. I h \<Longrightarrow> seen_in_session (oe_host E) p (append_cmd p s) answered h" "lasting p I"
  shows "triple (create_in E plan p) I (with_rollback E plan p work) (\<lambda>u. identified E plan u) any_result"
proof -
  let ?Mid = "\<lambda>(res :: go_error + string) h. case res of Inr u \<Rightarrow> identified E plan u h | Inl e \<Rightarrow> I h"
  have tried: "triple (create_in E plan p) I (attempt work) ?Mid any_result"
    by (rule triple_attempt) (simp add: assms(1))
  have "only (\<lambda>r. quiet p r \<or> r = gpt_delete p (pa_Partition plan)) (deletePartition E p (pa_Partition plan))"
    by (rule only_deletePartition) (auto simp: quiet_def)
  then have del: "triple (create_in E plan p) I (deletePartition E p (pa_Partition plan)) any_result any_result"
    by (rule triple_weaken [OF only_triple [where I = I]])
      (use assms(2,3) in \<open>auto simp: quiet_def create_in_def lasting_def intro: allows_delete\<close>)
  have undo: "triple (create_in E plan p) I (io_bind (attempt (deletePartition E p (pa_Partition plan))) (\<lambda>c.
      case c of Inl ce \<Rightarrow> io_fail (f ce) | Inr _ \<Rightarrow> io_fail e)) (\<lambda>u. identified E plan u) any_result" for f e
    by (intro triple_bind [OF triple_attempt [OF del]] triple_sum triple_fail TrueI)
  show ?thesis unfolding with_rollback_def
    by (rule triple_bind [OF tried], rule triple_sum) (auto intro!: triple_return undo)
qed

lemma create_locked_safe:
  "triple (create_in E plan p) (in_session (oe_host E) p) (create_locked E plan p) (\<lambda>u. identified E plan u) any_result"
proof -
  let ?Q = "create_in E plan p" and ?in = "in_session (oe_host E) p"
  let ?Ready = "\<lambda>table h. saw_table E p table h \<and> (pa_ResetBeforeUse plan \<or> (pa_InitializeGPT plan \<longrightarrow> empty_table table))"
  have reset: "triple ?Q (saw_table E p table)
      (if pa_ResetBeforeUse plan
       then io_wrap m (timeoutWipe E p)
       else if pa_InitializeGPT plan \<and> (case table of None \<Rightarrow> False | Some t \<Rightarrow> at_Partitions t \<noteq> [])
       then io_fail e else io_return ()) (\<lambda>_ h. ?in h \<and> (pa_ResetBeforeUse plan \<or> ?Ready table h)) any_result" for table m e
    by (intro triple_if triple_fail triple_return triple_wrap triple_weaken [OF reset_triple])
      (auto simp: empty_table_def intro: saw_session split: option.splits)
  have label: "triple ?Q (\<lambda>h. ?in h \<and> (pa_ResetBeforeUse plan \<or> ?Ready table h))
      (if pa_InitializeGPT plan \<or> pa_ResetBeforeUse plan
       then io_bind (initializeGPT E p) (\<lambda>_. readAuxPartitionTable E p)
       else io_return table) (saw_table E p) any_result" for table
  proof (rule triple_if)
    let ?I = "\<lambda>h. ?in h \<and> (pa_ResetBeforeUse plan \<or> (pa_InitializeGPT plan \<and> empty_table table \<and> saw_table E p table h))"
    have "triple ?Q ?I (initializeGPT E p) (\<lambda>_. ?I) any_result"
      by (rule label_triple) (use lasting_rules in \<open>auto simp: plan_allows_def lasting_def\<close>)
    then have init: "triple ?Q ?I (initializeGPT E p) (\<lambda>_. ?in) any_result" by (rule triple_weaken) auto
    assume "pa_InitializeGPT plan \<or> pa_ResetBeforeUse plan"
    then show "triple ?Q (\<lambda>h. ?in h \<and> (pa_ResetBeforeUse plan \<or> ?Ready table h))
        (io_bind (initializeGPT E p) (\<lambda>_. readAuxPartitionTable E p)) (saw_table E p) any_result"
      by (intro triple_bind [OF triple_weaken [OF init] read_triple]) auto
  qed (auto intro!: triple_return)
  have slot: "triple ?Q (saw_table E p table) (of_result (checkAllocationSlot table p plan))
      (\<lambda>t h. saw_table E p (Some t) h \<and> at_Label t = ''gpt'' \<and> table_partition (Some t) p (pa_Partition plan) = None) any_result" for table
    unfolding of_result_def by (intro triple_sum triple_fail triple_return) (auto dest: checkAllocationSlot_ok)
  let ?Slot = "\<lambda>t h. saw_table E p (Some t) h \<and> at_Label t = ''gpt'' \<and> table_partition (Some t) p (pa_Partition plan) = None"
  have kernel: "triple ?Q (?Slot t) (deleteKernelPartitionEntry E p (pa_Partition plan)) (\<lambda>_. ?Slot t) any_result" for t
    by (rule lasting_triple) (auto simp: quiet_def lasting_def intro!: only_kernel intro: lasting_rules(2) [unfolded lasting_def, rule_format])
  have add: "triple ?Q (?Slot t) (io_bind (createPartition E p (sectors_for (pa_SizeBytes plan) (at_SectorSize t))) (\<lambda>_.
      with_rollback E plan p (identify_partition E plan p (sectors_for (pa_SizeBytes plan) (at_SectorSize t)))))
      (\<lambda>u. identified E plan u) any_result" for t
  proof (rule triple_pure)
    let ?seen = "seen_in_session (oe_host E) p (append_cmd p (sectors_for (pa_SizeBytes plan) (at_SectorSize t))) answered"
    assume ok: "at_Label t = ''gpt'' \<and> table_partition (Some t) p (pa_Partition plan) = None"
    have "triple ?Q ?seen (with_rollback E plan p (identify_partition E plan p (sectors_for (pa_SizeBytes plan) (at_SectorSize t))))
        (\<lambda>u. identified E plan u) any_result"
      by (rule rollback_triple [OF identify_triple]) (auto intro: lasting_rules elim: seen_session)
    with ok show "triple ?Q (saw_table E p (Some t)) (io_bind (createPartition E p (sectors_for (pa_SizeBytes plan) (at_SectorSize t))) (\<lambda>_.
        with_rollback E plan p (identify_partition E plan p (sectors_for (pa_SizeBytes plan) (at_SectorSize t)))))
        (\<lambda>u. identified E plan u) any_result"
      by (intro triple_bind [OF append_triple]) auto
  qed
  show ?thesis unfolding create_locked_def Let_def
    by (rule triple_bind [OF read_triple], rule triple_bind [OF reset], rule triple_bind [OF label],
      rule triple_bind [OF slot], rule triple_bind [OF kernel], rule add)
qed

text \<open>What creating a planned partition may do on any carrier: what the plan allows, and, when the new
  partition does not appear, the cleanup of exactly the partition whose identity was read.\<close>

definition plan_entry :: "planned_aux \<Rightarrow> string \<Rightarrow> gen_dev" where
  "plan_entry plan u = \<lparr>gd_ParentPath = pa_ParentPath plan, gd_Partition = pa_Partition plan, gd_PartUUID = u, gd_Encrypted = False\<rparr>"

definition create_allows :: "osd_env \<Rightarrow> planned_aux \<Rightarrow> history \<Rightarrow> request \<Rightarrow> bool" where
  "create_allows E plan h r \<longleftrightarrow>
     (changes_carrier r \<longrightarrow>
        (\<exists>p. plan_allows E plan p h r) \<or> (\<exists>u. identified E plan u h \<and> cleanup_allows E (plan_entry plan u) h r))"

lemma only_first_existing: "(\<And>p. R (Stat p)) \<Longrightarrow> only R (first_existing E ps)"
  by (induction ps) (auto intro!: only_rules only_ask)

lemma only_stable_path:
  "(\<And>p. R (Stat p)) \<Longrightarrow> (\<And>p. R (EvalSymlinks p)) \<Longrightarrow> R (Probe ''storage'' []) \<Longrightarrow> only R (resolvePartitionStablePath E p n)"
  unfolding resolvePartitionStablePath_def partitionPathCandidates_def resolvePathBestEffort_def
  by (intro only_rules only_ask only_first_existing only_storage)

lemma only_wait:
  "(\<And>p. R (Stat p)) \<Longrightarrow> (\<And>p. R (EvalSymlinks p)) \<Longrightarrow> R (Probe ''storage'' []) \<Longrightarrow> only R (wait_partition E p n k)"
proof (induction k)
  case (Suc k)
  show ?case unfolding wait_partition.simps by (intro only_rules only_stable_path Suc)
qed (simp add: only_return)

lemma create_triple:
  "triple (create_allows E plan) (\<lambda>_. True) (createPlannedAuxPartition E plan)
     (\<lambda>(_, made) h. \<exists>u. made = plan\<lparr>pa_PartUUID := u\<rparr> \<and> identified E plan u h) any_result"
proof -
  let ?Q = "create_allows E plan"
  have Q: "\<not> changes_carrier r \<Longrightarrow> ?Q h r" for h r by (simp add: create_allows_def)
  have lock: "triple ?Q (\<lambda>_. True) (withExclusiveCarrierLock E (pa_ParentPath plan) (create_locked E plan)) (\<lambda>u. identified E plan u) any_result"
    by (rule locked_triple [OF create_locked_safe]) (auto simp: create_in_def create_allows_def grows_identified)
  have wait: "triple ?Q (identified E plan u) (\<lambda>h. wait_partition E (pa_ParentPath plan) (pa_Partition plan) (oe_polls E h) h)
      (\<lambda>_. identified E plan u) any_result" for u
    by (rule triple_depends, rule triple_weaken [OF only_triple [OF only_wait, where R = "\<lambda>r. \<not> changes_carrier r" and I = "identified E plan u"]])
      (auto intro: Q growsD [OF grows_identified])
  have clean: "triple ?Q (identified E plan u) (cleanupGeneratedAuxDevice E kind (Some (plan_entry plan u)) osdID) any_result any_result" for u kind osdID
    by (rule triple_weaken [OF triple_allow [OF triple_knowing [OF cleanup_triple grows_identified]]]) (auto simp: create_allows_def)
  show ?thesis unfolding createPlannedAuxPartition_def Let_def plan_entry_def [symmetric]
    by (rule triple_bind [OF lock], rule triple_bind [OF wait], rule triple_option, rule triple_bind [OF triple_attempt [OF clean]])
      (auto intro!: triple_rules triple_fail triple_return)
qed

text \<open>C12 (safety). Creating a planned partition spares what is on the carrier. A carrier is wiped only when the
  plan says to reset it; it is given a new label only then, or when the plan says to initialize it and
  the table read in the same lock session has no partitions; a partition is appended only when the table
  read in that session is a GPT and has nothing in the planned slot; and a slot is deleted only after
  this procedure appended to it in the same session, or when a later session shows the identity that was
  read for it after the append.\<close>

theorem create_spares_existing:
  assumes "createPlannedAuxPartition E plan h = (res, h @ ext)"
    and "k < length ext" "changes_carrier (ext ! k)"
  shows "(\<exists>p. plan_allows E plan p (h @ take k ext) (ext ! k)) \<or>
    (\<exists>u p. identified E plan u (h @ take k ext) \<and> owned_session E (plan_entry plan u) p (h @ take k ext) \<and>
       (ext ! k = gpt_delete p (pa_Partition plan) \<or> ext ! k = zap_device (partitionPathFromParentPath p (pa_Partition plan))))"
  using triple_request [OF create_triple TrueI assms(1,2)] assms(3)
  by (auto simp: create_allows_def cleanup_allows_def plan_entry_def)

text \<open>A carrier to which the second partition is added: the table shows it only after the command.\<close>

definition demo_table1 :: json where
  "demo_table1 = JObj [(''partitiontable'', JObj [(''label'', JStr ''gpt''), (''sectorsize'', JInt 512),
     (''partitions'', JArr [JObj [(''node'', JStr ''/dev/sdb1''), (''uuid'', JStr ''AAAA''), (''size'', JInt 2048)]])])]"

definition grow_host :: host where
  "grow_host h r =
     (if r = EvalSymlinks ''/dev/disk/by-id/x'' then Answer ''/dev/sdb'' None
      else if r = sfdisk_json ''/dev/sdb''
      then Answer '''' (Some (if append_cmd ''/dev/sdb'' 2048 \<in> set h then demo_table else demo_table1))
      else Answer '''' None)"

definition grow_env :: osd_env where
  "grow_env = \<lparr>oe_host = grow_host, oe_lib = plain_lib, oe_polls = (\<lambda>_. 1), oe_storage = (\<lambda>_. Inr []),
     oe_name = ''n1'', oe_data = ''/data'', oe_disks = (\<lambda>_. Inr []), oe_tags = (\<lambda>_. Inr []), oe_gjson = demo_gjson, oe_run_error = (\<lambda>_. None)\<rparr>"

definition grow_plan :: planned_aux where
  "grow_plan = \<lparr>pa_Kind = ''wal'', pa_ParentPath = ''/dev/disk/by-id/x'', pa_Partition = 2, pa_SizeBytes = 1000000,
     pa_PartUUID = '''', pa_InitializeGPT = False, pa_ResetBeforeUse = False\<rparr>"

lemma grow_create:
  "createPlannedAuxPartition grow_env grow_plan [] =
     (Inr (''/dev/disk/by-id/x-part2'', grow_plan\<lparr>pa_PartUUID := ''BBBB''\<rparr>),
      [] @ [EvalSymlinks ''/dev/disk/by-id/x'', Probe ''open'' [''/dev/sdb''], Flock ''/dev/sdb'', sfdisk_json ''/dev/sdb'',
        partx_delete ''/dev/sdb'' 2, append_cmd ''/dev/sdb'' 2048, sfdisk_json ''/dev/sdb'',
        Cmd [''partx'', ''-u'', ''--nr'', ''2:2'', ''/dev/sdb''], Funlock ''/dev/sdb'', EvalSymlinks ''/dev/disk/by-id/x'',
        Stat ''/dev/disk/by-id/x-part2''])"
  by code_simp

theorem create_spares_existing_witness:
  "(\<exists>p. plan_allows grow_env grow_plan p
       [EvalSymlinks ''/dev/disk/by-id/x'', Probe ''open'' [''/dev/sdb''], Flock ''/dev/sdb'', sfdisk_json ''/dev/sdb'', partx_delete ''/dev/sdb'' 2]
       (append_cmd ''/dev/sdb'' 2048)) \<or>
   (\<exists>u p. identified grow_env grow_plan u
         [EvalSymlinks ''/dev/disk/by-id/x'', Probe ''open'' [''/dev/sdb''], Flock ''/dev/sdb'', sfdisk_json ''/dev/sdb'', partx_delete ''/dev/sdb'' 2] \<and>
       owned_session grow_env (plan_entry grow_plan u) p
         [EvalSymlinks ''/dev/disk/by-id/x'', Probe ''open'' [''/dev/sdb''], Flock ''/dev/sdb'', sfdisk_json ''/dev/sdb'', partx_delete ''/dev/sdb'' 2] \<and>
       (append_cmd ''/dev/sdb'' 2048 = gpt_delete p (pa_Partition grow_plan) \<or>
        append_cmd ''/dev/sdb'' 2048 = zap_device (partitionPathFromParentPath p (pa_Partition grow_plan))))"
  using create_spares_existing [OF grow_create, of 5] by simp

end
