(* ===== verification/Osd_Remove.thy ===== *)
theory Osd_Remove
  imports Crush Aux_Safety
begin

text \<open>
  Removing an OSD (\<^verbatim>\<open>doRemoveOSD\<close> in \<^verbatim>\<open>ceph/osd.go\<close>): safety checks, taking
  it out, stopping its process, marking it down, purging it, clearing its storage and deleting its
  record; and the endpoint that asks for it. Retries that wait for a deadline run as often as the
  environment allows.
\<close>

section \<open>Commands\<close>

definition osd_dot :: "int \<Rightarrow> string" where
  "osd_dot osd = ''osd.'' @ show_int osd"

definition getOSDDataPath :: "osd_env \<Rightarrow> int \<Rightarrow> string" where
  "getOSDDataPath E nr = oe_data E @ ''/osd/ceph-'' @ show_int nr"

definition osdReadyMarkerPath :: "string \<Rightarrow> string" where
  "osdReadyMarkerPath osdDataPath = osdDataPath @ ''/ready''"

definition osdSuppressedReadyMarkerPath :: "string \<Rightarrow> string" where
  "osdSuppressedReadyMarkerPath osdDataPath = osdDataPath @ ''/ready.removing''"

definition sanityCheck :: "osd_env \<Rightarrow> int \<Rightarrow> unit io" where
  "sanityCheck E osd =
     (if osd < 0 then io_fail (err_new ''OSD must be a positive integer'')
      else io_bind (HaveOSD E osd) (\<lambda>exists. if \<not> exists then io_fail (err_status 404 (osd_dot osd @ '' not found'')) else io_return ()))"

definition checkMinOSDs :: "osd_env \<Rightarrow> int \<Rightarrow> unit io" where
  "checkMinOSDs E osd =
     io_bind (OSD_List E) (\<lambda>disks.
       if length disks \<le> 3
       then io_fail (err_new (''cannot remove '' @ osd_dot osd @ '' we need at least 3 OSDs, have '' @ show_nat (length disks)))
       else io_return ())"

definition reweightOSD :: "osd_env \<Rightarrow> int \<Rightarrow> unit io" where
  "reweightOSD E osd =
     io_bind (osd_ask E (Cmd [''ceph'', ''osd'', ''crush'', ''reweight'', osd_dot osd, ''0.000000''])) (\<lambda>_. io_return ())"

definition outOSD :: "osd_env \<Rightarrow> int \<Rightarrow> unit io" where
  "outOSD E osd = ceph_run E (''failed to take '' @ osd_dot osd @ '' out: '') [''osd'', ''out'', osd_dot osd]"

definition downOSD :: "osd_env \<Rightarrow> int \<Rightarrow> unit io" where
  "downOSD E osd = ceph_run E (''failed to take '' @ osd_dot osd @ '' down: '') [''osd'', ''down'', osd_dot osd]"

definition outDownOSD :: "osd_env \<Rightarrow> int \<Rightarrow> unit io" where
  "outDownOSD E osd = io_bind (outOSD E osd) (\<lambda>_. downOSD E osd)"

definition ok_to_stop_cmd :: "int list \<Rightarrow> request" where
  "ok_to_stop_cmd osds = Cmd ([''ceph'', ''osd'', ''ok-to-stop''] @ map osd_dot osds)"

definition safe_destroy_cmd :: "int \<Rightarrow> request" where
  "safe_destroy_cmd osd = Cmd [''ceph'', ''osd'', ''safe-to-destroy'', osd_dot osd]"

text \<open>Ask up to \<open>k\<close> times whether a command succeeds.\<close>

fun try_until :: "osd_env \<Rightarrow> request \<Rightarrow> nat \<Rightarrow> bool io" where
  "try_until E r 0 = io_return False"
| "try_until E r (Suc k) = io_bind (osd_ask E r) (\<lambda>a. if answered a then io_return True else try_until E r k)"

fun join_ints :: "int list \<Rightarrow> string" where
  "join_ints [] = ''''"
| "join_ints [i] = show_int i"
| "join_ints (i # is) = show_int i @ '' '' @ join_ints is"

definition safetyCheckStop :: "osd_env \<Rightarrow> int list \<Rightarrow> unit io" where
  "safetyCheckStop E osds =
     io_bind (try_until E (ok_to_stop_cmd osds) 16) (\<lambda>safe.
       if safe then io_return () else io_fail (err_new (''osd.['' @ join_ints osds @ ''] failed to reach ok-to-stop'')))"

definition safetyCheckDestroy :: "osd_env \<Rightarrow> int \<Rightarrow> unit io" where
  "safetyCheckDestroy E osd =
     io_bind (try_until E (safe_destroy_cmd osd) 16) (\<lambda>safe.
       if safe then io_return () else io_fail (err_new (osd_dot osd @ '' failed to reach safe-to-destroy'')))"

section \<open>What Ceph knows of an OSD\<close>

record tree_node =
  tn_ID :: int
  tn_Type :: string

definition node_field :: "go_lib \<Rightarrow> string \<Rightarrow> json \<Rightarrow> tree_node \<Rightarrow> tree_node option option" where
  "node_field G k v n =
     (if equal_fold G k ''id'' then Some (map_option (\<lambda>i. n\<lparr>tn_ID := i\<rparr>) (dec_int (tn_ID n) v))
      else if equal_fold G k ''type'' then Some (map_option (\<lambda>s. n\<lparr>tn_Type := s\<rparr>) (dec_string (tn_Type n) v))
      else None)"

definition tree_field :: "go_lib \<Rightarrow> string \<Rightarrow> json \<Rightarrow> tree_node list \<Rightarrow> tree_node list option option" where
  "tree_field G k v ns =
     (if equal_fold G k ''nodes''
      then Some (case v of
          JNull \<Rightarrow> Some []
        | JArr js \<Rightarrow> those (map (dec_struct False (node_field G) \<lparr>tn_ID = 0, tn_Type = ''''\<rparr>) js)
        | _ \<Rightarrow> None)
      else None)"

definition haveOSDInCeph :: "osd_env \<Rightarrow> int \<Rightarrow> bool io" where
  "haveOSDInCeph E osd =
     io_bind (io_wrap ''failed to get ceph osd tree: '' (osd_must E (Cmd [''ceph'', ''osd'', ''tree'', ''-f'', ''json'']))) (\<lambda>r.
       case Option.bind (reply_json r) (dec_struct False (tree_field (oe_lib E)) []) of
         None \<Rightarrow> io_fail (err_new ''failed to parse ceph osd tree: json'')
       | Some ns \<Rightarrow> io_return (list_ex (\<lambda>n. tn_Type n = ''osd'' \<and> tn_ID n = osd) ns))"

definition osd_ls_cmd :: request where
  "osd_ls_cmd = Cmd [''ceph'', ''osd'', ''ls'', ''-f'', ''json'']"

definition dec_ids :: "json \<Rightarrow> int list option" where
  "dec_ids j = (case j of JNull \<Rightarrow> Some [] | JArr js \<Rightarrow> those (map (dec_int 0) js) | _ \<Rightarrow> None)"

definition haveOSDInOSDMap :: "osd_env \<Rightarrow> int \<Rightarrow> bool io" where
  "haveOSDInOSDMap E osd =
     io_bind (io_wrap ''failed to list the OSDs in the OSD map: '' (osd_must E osd_ls_cmd)) (\<lambda>r.
       case Option.bind (reply_json r) dec_ids of
         None \<Rightarrow> io_fail (err_new ''failed to parse ceph osd ls: json'')
       | Some ids \<Rightarrow> io_return (osd \<in> set ids))"

text \<open>Poll the tree until the OSD is there or the deadline has passed; \<open>k\<close> more polls fit.\<close>

fun presence_loop :: "osd_env \<Rightarrow> int \<Rightarrow> nat \<Rightarrow> bool io" where
  "presence_loop E osd k =
     io_bind (haveOSDInCeph E osd) (\<lambda>present.
       if present then io_return True else (case k of 0 \<Rightarrow> io_return False | Suc k' \<Rightarrow> presence_loop E osd k'))"

declare presence_loop.simps [simp del]

definition waitForOSDPresence :: "osd_env \<Rightarrow> int \<Rightarrow> bool io" where
  "waitForOSDPresence E osd h = presence_loop E osd (oe_polls E h) h"

section \<open>Purging\<close>

definition purge_cmd :: "int \<Rightarrow> request" where
  "purge_cmd osd = Cmd [''ceph'', ''osd'', ''purge'', osd_dot osd, ''--yes-i-really-mean-it'']"

definition doPurge :: "osd_env \<Rightarrow> int \<Rightarrow> unit io" where
  "doPurge E osd = io_bind (osd_must E (purge_cmd osd)) (\<lambda>_. io_return ())"

definition isOSDNotDownError :: "go_error \<Rightarrow> bool" where
  "isOSDNotDownError e = contains_sub (etext e) (''is not '' @ [CHR 0x60] @ ''down'' @ [CHR 0x60])"

fun purge_loop :: "osd_env \<Rightarrow> int \<Rightarrow> nat \<Rightarrow> unit io" where
  "purge_loop E osd 0 = io_return ()"
| "purge_loop E osd (Suc k) =
     io_bind (attempt (doPurge E osd)) (\<lambda>res.
       case res of
         Inr _ \<Rightarrow> io_return ()
       | Inl e \<Rightarrow>
           if k = 0 then io_fail (err_wrap (''failed to purge '' @ osd_dot osd @ '': '') e '''')
           else io_bind (if isOSDNotDownError e then io_bind (attempt (downOSD E osd)) (\<lambda>_. io_return ()) else io_return ()) (\<lambda>_.
                purge_loop E osd k))"

definition purgeWithRetries :: "osd_env \<Rightarrow> int \<Rightarrow> unit io" where
  "purgeWithRetries E osd = purge_loop E osd 10"

definition purge_round :: "osd_env \<Rightarrow> int \<Rightarrow> bool io" where
  "purge_round E osd =
     io_bind (purgeWithRetries E osd) (\<lambda>_.
       io_wrap (''failed to check that '' @ osd_dot osd @ '' was purged: '') (haveOSDInOSDMap E osd))"

definition purgeOSD :: "osd_env \<Rightarrow> int \<Rightarrow> unit io" where
  "purgeOSD E osd =
     io_bind (purge_round E osd) (\<lambda>inMap.
       if \<not> inMap then io_return ()
       else io_bind (downOSD E osd) (\<lambda>_.
         io_bind (purge_round E osd) (\<lambda>inMap.
           if \<not> inMap then io_return ()
           else io_fail (err_new (osd_dot osd @ '' is still in the OSD map after 2 purges'')))))"

section \<open>Autostart and the process\<close>

definition restoreOSDAutostart :: "osd_env \<Rightarrow> int \<Rightarrow> unit io" where
  "restoreOSDAutostart E osd =
     (let d = getOSDDataPath E osd; ready = osdReadyMarkerPath d; suppressed = osdSuppressedReadyMarkerPath d in
      io_bind (osd_ask E (Stat suppressed)) (\<lambda>st.
        if not_exist st then io_return ()
        else if \<not> answered st then io_fail (err_wrap (''failed to inspect suppressed autostart marker for '' @ osd_dot osd @ '': '') (err_new (reply_text st)) '''')
        else io_bind (osd_ask E (Stat ready)) (\<lambda>r.
          if answered r then io_return ()
          else if \<not> not_exist r then io_fail (err_wrap (''failed to inspect autostart marker for '' @ osd_dot osd @ '': '') (err_new (reply_text r)) '''')
          else io_wrap (''failed to restore autostart marker for '' @ osd_dot osd @ '': '')
                 (io_bind (osd_must E (Rename suppressed ready)) (\<lambda>_. io_return ())))))"

text \<open>The result says whether a marker is suppressed, which is when there is something to restore.\<close>

definition suppressOSDAutostart :: "osd_env \<Rightarrow> int \<Rightarrow> bool io" where
  "suppressOSDAutostart E osd =
     (let d = getOSDDataPath E osd; ready = osdReadyMarkerPath d; suppressed = osdSuppressedReadyMarkerPath d in
      io_bind (osd_ask E (Stat ready)) (\<lambda>r.
        if not_exist r
        then io_bind (osd_ask E (Stat suppressed)) (\<lambda>st.
          if answered st then io_return True
          else if \<not> not_exist st
          then io_fail (err_wrap (''failed to inspect suppressed autostart marker for '' @ osd_dot osd @ '': '') (err_new (reply_text st)) '''')
          else io_return False)
        else if \<not> answered r then io_fail (err_wrap (''failed to inspect autostart marker for '' @ osd_dot osd @ '': '') (err_new (reply_text r)) '''')
        else io_bind (osd_ask E (Stat suppressed)) (\<lambda>st.
          io_bind (if answered st
                   then io_wrap (''failed to clear stale suppressed autostart marker for '' @ osd_dot osd @ '': '')
                          (io_bind (osd_must E (RemoveFile suppressed)) (\<lambda>_. io_return ()))
                   else if \<not> not_exist st
                   then io_fail (err_wrap (''failed to inspect stale suppressed autostart marker for '' @ osd_dot osd @ '': '') (err_new (reply_text st)) '''')
                   else io_return ()) (\<lambda>_.
          io_bind (io_wrap (''failed to suppress autostart marker for '' @ osd_dot osd @ '': '') (osd_must E (Rename ready suppressed))) (\<lambda>_.
            io_return True)))))"

definition osd_cmdline :: "int \<Rightarrow> string" where
  "osd_cmdline osd = ''ceph-osd .* --id '' @ show_int osd @ ''$''"

definition pkill_cmd :: "int \<Rightarrow> request" where
  "pkill_cmd osd = Cmd [''pkill'', ''-f'', osd_cmdline osd]"

definition pgrep_cmd :: "int \<Rightarrow> request" where
  "pgrep_cmd osd = Cmd [''pgrep'', ''-f'', osd_cmdline osd]"

definition isExitCode :: "reply \<Rightarrow> nat \<Rightarrow> bool" where
  "isExitCode r code \<longleftrightarrow> exit_code r = Some code"

fun exit_loop :: "osd_env \<Rightarrow> int \<Rightarrow> nat \<Rightarrow> bool io" where
  "exit_loop E osd k =
     io_bind (osd_ask E (pgrep_cmd osd)) (\<lambda>r.
       if \<not> answered r
       then (if isExitCode r 1 then io_return True
             else io_fail (err_wrap (''failed to query OSD process state for '' @ quoted (osd_cmdline osd) @ '': '') (err_new (reply_text r)) ''''))
       else (case k of 0 \<Rightarrow> io_return False | Suc k' \<Rightarrow> exit_loop E osd k'))"

declare exit_loop.simps [simp del]

definition waitForOSDExit :: "osd_env \<Rightarrow> int \<Rightarrow> bool io" where
  "waitForOSDExit E osd h = exit_loop E osd (oe_polls E h) h"

definition killOSD :: "osd_env \<Rightarrow> int \<Rightarrow> unit io" where
  "killOSD E osd =
     io_bind (osd_ask E (pkill_cmd osd)) (\<lambda>r.
       if \<not> answered r
       then (if isExitCode r 1 then io_return ()
             else io_fail (err_wrap (''failed to kill '' @ osd_dot osd @ '': '') (err_new (reply_text r)) ''''))
       else io_bind (waitForOSDExit E osd) (\<lambda>exited.
         if exited then io_return ()
         else io_bind (io_wrap (''failed to force kill '' @ osd_dot osd @ '': '') (osd_must E (Cmd [''pkill'', ''-9'', ''-f'', osd_cmdline osd]))) (\<lambda>_.
           io_bind (waitForOSDExit E osd) (\<lambda>exited.
             if \<not> exited then io_fail (err_new (''timed out waiting for '' @ osd_dot osd @ '' to exit after SIGKILL'')) else io_return ()))))"

section \<open>Local storage\<close>

fun wipe_loop :: "osd_env \<Rightarrow> string \<Rightarrow> nat \<Rightarrow> unit io" where
  "wipe_loop E path 0 = io_return ()"
| "wipe_loop E path (Suc k) = io_bind (attempt (timeoutWipe E path)) (\<lambda>res. if res = Inr () then io_return () else wipe_loop E path k)"

definition wipeDevice :: "osd_env \<Rightarrow> string \<Rightarrow> unit io" where
  "wipeDevice E path = wipe_loop E path 8"

text \<open>The mode of a file is the text of its answer: \<^verbatim>\<open>L\<close> marks a symbolic link and
  \<^verbatim>\<open>D\<close> a device, as Go prints modes. The filesystem has \<^verbatim>\<open>lstat\<close>.\<close>

definition clearPrimaryStorage :: "osd_env \<Rightarrow> int \<Rightarrow> unit io" where
  "clearPrimaryStorage E osd =
     io_bind (OSD_Path E osd) (\<lambda>path.
     io_bind (osd_must E (Probe ''lstat'' [path])) (\<lambda>l.
     io_bind (if CHR ''L'' \<in> set (reply_text l) then osd_must E (Stat path) else io_return l) (\<lambda>info.
       if CHR ''D'' \<in> set (reply_text info) then wipeDevice E path else io_return ())))"

definition removeOSDConfig :: "osd_env \<Rightarrow> int \<Rightarrow> unit io" where
  "removeOSDConfig E osd =
     io_wrap (''failed to remove '' @ osd_dot osd @ '' config: '')
       (io_bind (osd_must E (RemoveAll (getOSDDataPath E osd))) (\<lambda>_. io_return ()))"

section \<open>The removal\<close>

text \<open>Before the process is stopped: drain the OSD and take it out, if Ceph knows it.\<close>

definition drain :: "osd_env \<Rightarrow> int \<Rightarrow> bool \<Rightarrow> bool io" where
  "drain E osd bypassSafety =
     io_bind (io_wrap (''failed to check if '' @ osd_dot osd @ '' is present in Ceph: '') (haveOSDInCeph E osd)) (\<lambda>isPresent.
     io_bind (if isPresent then reweightOSD E osd else io_return ()) (\<lambda>_.
     io_bind (if isPresent \<and> \<not> bypassSafety then safetyCheckStop E [osd] else io_return ()) (\<lambda>_.
     io_bind (if isPresent then outOSD E osd else io_return ()) (\<lambda>_. io_return isPresent))))"

text \<open>Stop the process and mark the OSD down, also when it shows up late. The result says whether the
  OSD is in the tree, or only in the OSD map.\<close>

definition stop_and_down :: "osd_env \<Rightarrow> int \<Rightarrow> bool \<Rightarrow> bool \<Rightarrow> (bool \<times> bool) io" where
  "stop_and_down E osd bypassSafety isPresent =
     io_bind (io_wrap (''failed to stop '' @ osd_dot osd @ '', not marking it down: '') (killOSD E osd)) (\<lambda>_.
     io_bind (if isPresent then io_bind (downOSD E osd) (\<lambda>_. io_return True)
              else io_bind (io_wrap (''failed to re-check if '' @ osd_dot osd @ '' is present in Ceph after local stop: '') (waitForOSDPresence E osd)) (\<lambda>present.
                if \<not> present then io_return False
                else io_bind (reweightOSD E osd) (\<lambda>_.
                  io_bind (if \<not> bypassSafety then safetyCheckStop E [osd] else io_return ()) (\<lambda>_.
                  io_bind (outDownOSD E osd) (\<lambda>_. io_return True))))) (\<lambda>isPresent.
       if isPresent then io_return (True, False)
       else io_bind (io_wrap (''failed to check if '' @ osd_dot osd @ '' is in the OSD map: '') (haveOSDInOSDMap E osd)) (\<lambda>inMap.
         if inMap then io_bind (downOSD E osd) (\<lambda>_. io_return (False, True)) else io_return (False, False))))"

text \<open>Committed: purge, clear the storage, forget the OSD.\<close>

definition teardown :: "osd_env \<Rightarrow> int \<Rightarrow> bool \<Rightarrow> bool \<Rightarrow> bool \<Rightarrow> unit io" where
  "teardown E osd bypassSafety isPresent inOSDMapOnly =
     io_bind (if (isPresent \<or> inOSDMapOnly) \<and> \<not> bypassSafety then safetyCheckDestroy E osd else io_return ()) (\<lambda>_.
     io_bind (if isPresent \<or> inOSDMapOnly then purgeOSD E osd else io_return ()) (\<lambda>_.
     io_bind (attempt (clearPrimaryStorage E osd)) (\<lambda>_.
     io_bind (io_wrap (''failed to clean generated WAL/DB partitions for '' @ osd_dot osd @ '': '')
                (cleanupGeneratedAuxDevices E (getOSDDataPath E osd) osd)) (\<lambda>_.
     io_bind (removeOSDConfig E osd) (\<lambda>_.
       io_wrap (''failed to remove '' @ osd_dot osd @ '' from database: '') (OSD_Delete E osd))))))"

text \<open>The deferred restore runs when the work before the commitment fails.\<close>

definition doRemoveOSD :: "osd_env \<Rightarrow> int \<Rightarrow> bool \<Rightarrow> unit io" where
  "doRemoveOSD E osd bypassSafety =
     io_bind (sanityCheck E osd) (\<lambda>_.
     io_bind (io_wrap (''failed to migrate generated WAL/DB partitions for '' @ osd_dot osd @ '': '')
                (migrateGeneratedAuxManifest E (getOSDDataPath E osd))) (\<lambda>_.
     io_bind (if \<not> bypassSafety then checkMinOSDs E osd else io_return ()) (\<lambda>_.
     io_bind (scaleDownFailureDomain E osd) (\<lambda>_.
     io_bind (drain E osd bypassSafety) (\<lambda>isPresent.
     io_bind (io_wrap (''failed to suppress autostart for '' @ osd_dot osd @ '' before removal: '') (suppressOSDAutostart E osd)) (\<lambda>suppressed.
     io_bind (attempt (stop_and_down E osd bypassSafety isPresent)) (\<lambda>res.
       case res of
         Inl e \<Rightarrow> io_bind (if suppressed then attempt (restoreOSDAutostart E osd) else io_return (Inr ())) (\<lambda>_. io_fail e)
       | Inr (present, mapOnly) \<Rightarrow> teardown E osd bypassSafety present mapOnly)))))))"

section \<open>The endpoint\<close>

record disks_delete =
  dd_BypassSafety :: bool
  dd_ConfirmDowngrade :: bool
  dd_ProhibitCrushScaledown :: bool

datatype delete_response = DeleteEmpty | DeleteBadRequest string | DeleteInternal go_error | DeleteSmart go_error

text \<open>The handler after the identifier and the body were read; the warning about racks is only logged.\<close>

definition cmdDisksDelete :: "osd_env \<Rightarrow> int \<Rightarrow> disks_delete \<Rightarrow> delete_response io" where
  "cmdDisksDelete E osdid req =
     io_bind (if \<not> dd_ProhibitCrushScaledown req
              then io_bind (attempt (IsDowngradeNeeded E osdid)) (\<lambda>res.
                case res of
                  Inl e \<Rightarrow> io_return (Some (DeleteInternal e))
                | Inr need \<Rightarrow>
                    io_return (if need \<and> \<not> dd_ConfirmDowngrade req
                      then Some (DeleteBadRequest (''removing '' @ osd_dot osdid @ '' would require a downgrade of the automatic crush rule''))
                      else None))
              else io_return None) (\<lambda>refused.
       case refused of
         Some resp \<Rightarrow> io_return resp
       | None \<Rightarrow>
           io_bind (if dd_ConfirmDowngrade req then io_bind (attempt (IsOnRackRule E)) (\<lambda>_. io_return ()) else io_return ()) (\<lambda>_.
           io_bind (if \<not> dd_BypassSafety req
                    then io_bind (attempt (IsRackDegradeBlocked E osdid)) (\<lambda>res.
                      case res of
                        Inl e \<Rightarrow> io_return (Some (DeleteInternal e))
                      | Inr blocked \<Rightarrow>
                          io_return (if blocked
                            then Some (DeleteBadRequest (''removing '' @ osd_dot osdid @ '' would leave fewer than 3 availability zones with OSDs''))
                            else None))
                    else io_return None) (\<lambda>refused.
             case refused of
               Some resp \<Rightarrow> io_return resp
             | None \<Rightarrow>
                 io_bind (attempt (doRemoveOSD E osdid (dd_BypassSafety req))) (\<lambda>res.
                   io_return (case res of Inl e \<Rightarrow> DeleteSmart e | Inr _ \<Rightarrow> DeleteEmpty)))))"

end
