(* ===== verification/Storage_Probe.thy ===== *)
theory Storage_Probe
  imports Osd_Env
begin

text \<open>
  What the program asks about a device before it uses it (\<^verbatim>\<open>common/storage.go\<close>): mounts, the
  links of existing OSDs, and whether the device is pristine. The text of an answered
  \<^verbatim>\<open>stat\<close> is the file's mode as Go prints it (\<^verbatim>\<open>D\<close> a device, \<^verbatim>\<open>c\<close> a
  character device, \<^verbatim>\<open>L\<close> a link, \<^verbatim>\<open>d\<close> a directory); its document has the device
  number and the size.
\<close>

definition stat_dev :: "reply \<Rightarrow> string option" where
  "stat_dev r = (case reply_json r of Some (JObj kvs) \<Rightarrow> (case map_of kvs ''dev'' of Some (JStr s) \<Rightarrow> Some s | _ \<Rightarrow> None) | _ \<Rightarrow> None)"

definition stat_size :: "reply \<Rightarrow> int" where
  "stat_size r = (case reply_json r of Some (JObj kvs) \<Rightarrow> (case map_of kvs ''size'' of Some (JInt i) \<Rightarrow> i | _ \<Rightarrow> 0) | _ \<Rightarrow> 0)"

definition has_mode :: "char \<Rightarrow> reply \<Rightarrow> bool" where
  "has_mode c r \<longleftrightarrow> c \<in> set (reply_text r)"

definition has_suffix :: "string \<Rightarrow> string \<Rightarrow> bool" where
  "has_suffix s suf \<longleftrightarrow> length suf \<le> length s \<and> drop (length s - length suf) s = suf"

section \<open>Mounts and links\<close>

definition IsMounted_io :: "osd_env \<Rightarrow> string \<Rightarrow> bool io" where
  "IsMounted_io E device =
     io_bind (osd_must E (EvalSymlinks device)) (\<lambda>l.
     io_bind (osd_ask E (Cmd [''findmnt'', ''--source'', reply_text l])) (\<lambda>r.
       if answered r then io_return True
       else if exit_code r = Some 1 then io_return False
       else io_fail (err_new (reply_text r))))"

text \<open>The links of an OSD directory; the flag marks the auxiliary devices.\<close>

definition CephOSDDeviceLinks :: "(string \<times> bool) list" where
  "CephOSDDeviceLinks =
     [(''block'', False), (''block.wal'', True), (''block.db'', True), (''unencrypted'', False), (''unencrypted.wal'', True), (''unencrypted.db'', True)]"

text \<open>An answer to reading a directory lists its subdirectories.\<close>

definition dir_names :: "reply \<Rightarrow> string list" where
  "dir_names r = (case reply_json r of Some (JArr js) \<Rightarrow> concat (map (\<lambda>j. case j of JStr s \<Rightarrow> [s] | _ \<Rightarrow> []) js) | _ \<Rightarrow> [])"

fun linked :: "osd_env \<Rightarrow> string \<Rightarrow> string list \<Rightarrow> bool io" where
  "linked E resolved [] = io_return False"
| "linked E resolved (p # ps) =
     io_bind (osd_ask E (EvalSymlinks p)) (\<lambda>r.
       if answered r then (if reply_text r = resolved then io_return True else linked E resolved ps)
       else if \<not> not_exist r then io_fail (err_new (reply_text r))
       else linked E resolved ps)"

definition osd_link_paths :: "osd_env \<Rightarrow> string list \<Rightarrow> string list" where
  "osd_link_paths E dirs =
     concat (map (\<lambda>d. map (\<lambda>l. oe_data E @ ''/osd/'' @ d @ ''/'' @ fst l) CephOSDDeviceLinks) (filter (\<lambda>d. has_prefix d ''ceph-'') dirs))"

definition IsCephDevice_io :: "osd_env \<Rightarrow> string \<Rightarrow> bool io" where
  "IsCephDevice_io E device =
     io_bind (osd_must E (EvalSymlinks device)) (\<lambda>l.
     io_bind (osd_ask E (Probe ''readdir'' [oe_data E @ ''/osd''])) (\<lambda>r.
       if \<not> answered r then io_return False
       else linked E (reply_text l) (osd_link_paths E (dir_names r))))"

section \<open>Pristine devices\<close>

definition is_xdigit :: "char \<Rightarrow> bool" where
  "is_xdigit c \<longleftrightarrow> is_digit_byte c \<or> (65 \<le> byte_of c \<and> byte_of c \<le> 70) \<or> (97 \<le> byte_of c \<and> byte_of c \<le> 102)"

text \<open>The pattern \<^verbatim>\<open>^CRYPT-LUKS[12]-[[:xdigit:]]{32}-.+$\<close>.\<close>

definition luksMappingUUID :: "string \<Rightarrow> bool" where
  "luksMappingUUID s \<longleftrightarrow>
     46 \<le> length s \<and> (take 12 s = ''CRYPT-LUKS1-'' \<or> take 12 s = ''CRYPT-LUKS2-'') \<and>
      list_all is_xdigit (take 32 (drop 12 s)) \<and> s ! 44 = CHR 0x2D \<and> list_all (\<lambda>c. c \<noteq> CHR 0x0A) (drop 45 s)"

definition isLUKSMapping :: "osd_env \<Rightarrow> string \<Rightarrow> bool io" where
  "isLUKSMapping E devicePath =
     io_bind (osd_must E (Stat devicePath)) (\<lambda>info.
       if \<not> has_mode (CHR ''D'') info \<or> has_mode (CHR ''c'') info then io_return False
       else case stat_dev info of
         None \<Rightarrow> io_fail (err_new (''cannot inspect device number for '' @ devicePath))
       | Some dev \<Rightarrow>
           io_bind (osd_ask E (ReadFile (''/sys/dev/block/'' @ dev @ ''/dm/uuid''))) (\<lambda>r.
             if not_exist r then io_return False
             else if \<not> answered r then io_fail (err_wrap (''cannot inspect mapper UUID for '' @ devicePath @ '': '') (err_new (reply_text r)) '''')
             else io_return (luksMappingUUID (trim_space (oe_lib E) (reply_text r)))))"

definition json_object :: "json \<Rightarrow> (string \<times> json) list option" where
  "json_object j = (case j of JNull \<Rightarrow> Some [] | JObj kvs \<Rightarrow> Some (rev kvs) | _ \<Rightarrow> None)"

definition checkDeviceSignatures :: "osd_env \<Rightarrow> string \<Rightarrow> bool io" where
  "checkDeviceSignatures E devicePath =
     io_bind (io_wrap (''cannot inspect storage signatures on '' @ devicePath @ '': '')
                (osd_must E (Cmd [''wipefs'', ''--no-act'', ''--json'', devicePath]))) (\<lambda>r.
       case Option.bind (reply_json r) json_object of
         None \<Rightarrow> io_fail (err_new (''invalid signature probe output for '' @ devicePath @ '': json''))
       | Some m \<Rightarrow>
           (case map_of m ''signatures'' of
              None \<Rightarrow> io_fail (err_new (''signature probe output for '' @ devicePath @ '' has no signatures field''))
            | Some raw \<Rightarrow>
                (case raw of
                   JNull \<Rightarrow> io_return True
                 | JArr js \<Rightarrow> io_return (js = [])
                 | _ \<Rightarrow> io_fail (err_new (''invalid signatures for '' @ devicePath @ '': json'')))))"

definition show_label_cmd :: "string \<Rightarrow> request" where
  "show_label_cmd devicePath = Cmd [''ceph-bluestore-tool'', ''show-label'', ''--dev'', devicePath]"

definition checkLUKSDeviceLabels :: "osd_env \<Rightarrow> string \<Rightarrow> bool io" where
  "checkLUKSDeviceLabels E devicePath =
     io_bind (osd_ask E (show_label_cmd devicePath)) (\<lambda>r.
       if answered r then io_return False
       else if exit_code r \<noteq> Some 1
       then io_fail (err_wrap (''cannot inspect BlueStore labels on '' @ devicePath @ '': '') (err_new (reply_text r)) '''')
       else case oe_run_error E (reply_text r) of
         None \<Rightarrow> io_fail (err_wrap (''missing BlueStore probe diagnostics for '' @ devicePath @ '': '') (err_new (reply_text r)) '''')
       | Some (stderr, stdout) \<Rightarrow>
           (let diagnostics = split_on (CHR 0x0A) (trim_space (oe_lib E) stderr) in
            if length diagnostics \<noteq> 2 \<or>
               \<not> has_suffix (diagnostics ! 0) ('' -1 bluestore('' @ devicePath @ '') No valid bdev label found'') \<or>
               diagnostics ! 1 \<noteq> ''unable to read label for '' @ devicePath @ '': (2) No such file or directory''
            then io_fail (err_wrap (''cannot establish absence of BlueStore labels on '' @ devicePath @ '': '') (err_new (reply_text r)) '''')
            else case Option.bind stdout json_object of
              None \<Rightarrow> io_fail (err_new (''invalid BlueStore probe output for '' @ devicePath @ '': json''))
            | Some labels \<Rightarrow>
                if list_ex (\<lambda>(k, v). json_object v = None) labels
                then io_fail (err_new (''invalid BlueStore probe output for '' @ devicePath @ '': json''))
                else case map_of labels devicePath of
                  Some (JObj kvs) \<Rightarrow> io_return (kvs = [])
                | _ \<Rightarrow> io_fail (err_new (''BlueStore probe output has no device result for '' @ devicePath))))"

text \<open>Signed 64-bit arithmetic and \<^verbatim>\<open>strconv.ParseInt\<close> in base ten.\<close>

definition wrap64 :: "int \<Rightarrow> int" where
  "wrap64 i = (i + 2 ^ 63) mod 2 ^ 64 - 2 ^ 63"

definition ParseInt :: "string \<Rightarrow> int option" where
  "ParseInt s =
     (let neg = (s \<noteq> [] \<and> hd s = CHR 0x2D);
          d = (if s \<noteq> [] \<and> (hd s = CHR 0x2D \<or> hd s = CHR 0x2B) then tl s else s) in
      if d = [] \<or> \<not> list_all is_digit_byte d then None
      else let i = (if neg then - int (digits_val d) else int (digits_val d)) in if int64 i then Some i else None)"

definition getBlockDeviceSize :: "osd_env \<Rightarrow> string \<Rightarrow> int io" where
  "getBlockDeviceSize E devicePath =
     io_bind (io_wrap ''failed to resolve device path: '' (osd_must E (EvalSymlinks devicePath))) (\<lambda>l.
     io_bind (io_wrap ''failed to stat device: '' (osd_must E (Stat (reply_text l)))) (\<lambda>info.
       if has_mode (CHR ''D'') info
       then case stat_dev info of
           None \<Rightarrow> io_fail (err_new ''unable to determine block device size from sysfs'')
         | Some dev \<Rightarrow>
             io_bind (osd_ask E (ReadFile (''/sys/dev/block/'' @ dev @ ''/size''))) (\<lambda>r.
               if \<not> answered r then io_fail (err_new ''unable to determine block device size from sysfs'')
               else case ParseInt (trim_space (oe_lib E) (reply_text r)) of
                 None \<Rightarrow> io_fail (err_new ''failed to parse device size from sysfs: syntax'')
               | Some sectors \<Rightarrow> io_return (wrap64 (sectors * 512)))
       else if stat_size info = 0 then io_fail (err_new ''unable to determine device size (stat returned 0)'')
       else io_return (stat_size info)))"

definition checkPoints :: "int \<Rightarrow> int list" where
  "checkPoints deviceSize =
     [0, 512, 1024, 2048, 4096, 65536, 1048576] @ (if 1048576 < deviceSize then [deviceSize - 1024, deviceSize - 512] else [])"

text \<open>The answer to reading 512 bytes at an offset is what was read.\<close>

definition read_at :: "string \<Rightarrow> int \<Rightarrow> request" where
  "read_at devicePath offset = Probe ''read'' [devicePath, show_int offset]"

fun zeros_at :: "osd_env \<Rightarrow> string \<Rightarrow> int \<Rightarrow> int list \<Rightarrow> bool io" where
  "zeros_at E devicePath deviceSize [] = io_return True"
| "zeros_at E devicePath deviceSize (offset # os) =
     (if offset < 0 \<or> deviceSize < offset + 512 then zeros_at E devicePath deviceSize os
      else io_bind (osd_must E (read_at devicePath offset)) (\<lambda>r.
        if list_all (\<lambda>c. c = CHR 0x00) (reply_text r) then zeros_at E devicePath deviceSize os else io_return False))"

definition checkForZeros :: "osd_env \<Rightarrow> string \<Rightarrow> bool io" where
  "checkForZeros E devicePath =
     io_bind (osd_must E (Probe ''open'' [devicePath])) (\<lambda>_.
     io_bind (getBlockDeviceSize E devicePath) (\<lambda>deviceSize. zeros_at E devicePath deviceSize (checkPoints deviceSize)))"

text \<open>A failing tool counts as no label.\<close>

definition checkDeviceWithBluestoreTool :: "osd_env \<Rightarrow> string \<Rightarrow> bool io" where
  "checkDeviceWithBluestoreTool E devicePath = io_bind (osd_ask E (show_label_cmd devicePath)) (\<lambda>r. io_return (\<not> answered r))"

definition IsPristineDisk :: "osd_env \<Rightarrow> string \<Rightarrow> bool io" where
  "IsPristineDisk E devicePath =
     io_bind (isLUKSMapping E devicePath) (\<lambda>luks.
       if luks
       then io_bind (checkDeviceSignatures E devicePath) (\<lambda>pristine.
         if \<not> pristine then io_return False else checkLUKSDeviceLabels E devicePath)
       else io_bind (checkForZeros E devicePath) (\<lambda>zero.
         if \<not> zero then io_return False else checkDeviceWithBluestoreTool E devicePath))"

end
