(* ===== verification/Osd_Add.thy ===== *)
theory Osd_Add
  imports Osd_Remove Storage_Probe Placement_Apply
begin

text \<open>
  Enrolling disks (\<^verbatim>\<open>ceph/osd.go\<close>): arguments and loop specifications, stable paths, the checks
  a device must pass, encryption, the creation of an OSD with its rollback, and the bulk operations. The
  storage gate reads the shared database at its moment.
\<close>

section \<open>Disk parameters\<close>

record disk_param =
  dp_Path :: string
  dp_Encrypt :: bool
  dp_Wipe :: bool
  dp_LoopSize :: u64
  dp_SkipPristineCheck :: bool

definition LoopSpecId :: string where
  "LoopSpecId = ''loop,''"

definition isLoopDevice :: "disk_param \<Rightarrow> bool" where
  "isLoopDevice d \<longleftrightarrow> dp_LoopSize d \<noteq> 0 \<or> has_prefix (dp_Path d) LoopSpecId"

definition validateAddOSDArgs :: "disk_param \<Rightarrow> disk_param option \<Rightarrow> disk_param option \<Rightarrow> go_error + unit" where
  "validateAddOSDArgs data wal db =
     (if isLoopDevice data
      then if wal \<noteq> None \<or> db \<noteq> None then Inl (err_new ''loopback and WAL/DB are mutually exclusive'')
           else if dp_Encrypt data then Inl (err_new ''encryption is not supported on loop devices'')
           else Inr ()
      else Inr ())"

definition validateBulkDiskAdditionArgs :: "disk_param list \<Rightarrow> disk_param option \<Rightarrow> disk_param option \<Rightarrow> go_error + unit" where
  "validateBulkDiskAdditionArgs disks wal db =
     (if length disks = 1 then Inr ()
      else if wal \<noteq> None \<or> db \<noteq> None then Inl (err_new ''wal/db devices are not supported in batch disk addition'')
      else case List.find (\<lambda>d. has_prefix (dp_Path d) LoopSpecId) disks of
        Some d \<Rightarrow> Inl (err_new (''cannot add loop spec '' @ [CHR 0x27] @ dp_Path d @ [CHR 0x27] @ '', add a single loop spec or one or more block device paths''))
      | None \<Rightarrow> Inr ())"

section \<open>Loop specifications\<close>

text \<open>A match of \<^verbatim>\<open>loop,([1-9][0-9]*[MGT]),([1-9][0-9]*)\<close> at the start of a text: the size
  digits, the unit and the count digits.\<close>

definition loop_match_here :: "string \<Rightarrow> (string \<times> char \<times> string) option" where
  "loop_match_here s =
     (if \<not> has_prefix s ''loop,'' then None
      else
        (let r = drop 5 s; digits = takeWhile is_digit_byte r; r2 = drop (length digits) r in
         if digits = [] \<or> hd digits = CHR ''0'' then None
         else case r2 of
           unit # comma # r3 \<Rightarrow>
             (let num = takeWhile is_digit_byte r3 in
              if unit \<in> set ''MGT'' \<and> comma = CHR '','' \<and> num \<noteq> [] \<and> hd num \<noteq> CHR ''0'' then Some (digits, unit, num) else None)
         | _ \<Rightarrow> None))"

text \<open>The leftmost match; the pattern is not anchored.\<close>

fun loop_match :: "string \<Rightarrow> (string \<times> char \<times> string) option" where
  "loop_match [] = None"
| "loop_match (c # s) = (case loop_match_here (c # s) of Some m \<Rightarrow> Some m | None \<Rightarrow> loop_match s)"

text \<open>The size in megabytes wraps as 64-bit words do; the count is a signed 64-bit integer.\<close>

definition parseBackingSpec :: "string \<Rightarrow> go_error + (u64 \<times> nat)" where
  "parseBackingSpec spec =
     (case loop_match spec of
        None \<Rightarrow> Inl (err_new (''illegal spec: '' @ spec))
      | Some (digits, unit, num) \<Rightarrow>
          if 2 ^ 64 \<le> digits_val digits then Inl (err_new (''failed to parse size from spec '' @ spec @ '': range''))
          else
            (let sz = (of_nat (digits_val digits) :: u64);
                 mb = (if unit = CHR ''G'' then sz * 1024 else if unit = CHR ''T'' then sz * (1024 * 1024) else sz) in
             if 2 ^ 63 \<le> digits_val num then Inl (err_new (''failed to parse number disks from spec '' @ spec @ '': range''))
             else Inr (mb, digits_val num)))"

section \<open>Stable paths and device checks\<close>

definition exists_at :: "osd_env \<Rightarrow> string \<Rightarrow> bool io" where
  "exists_at E p = io_bind (osd_ask E (Stat p)) (\<lambda>r. io_return (answered r))"

definition is_dir_at :: "osd_env \<Rightarrow> string \<Rightarrow> bool io" where
  "is_dir_at E p = io_bind (osd_ask E (Stat p)) (\<lambda>r. io_return (answered r \<and> has_mode (CHR ''d'') r))"

definition use_unless_dir :: "osd_env \<Rightarrow> string \<Rightarrow> string \<Rightarrow> string io" where
  "use_unless_dir E candidate path = io_bind (is_dir_at E candidate) (\<lambda>d. io_return (if d then path else candidate))"

definition stable_disk_path :: "osd_env \<Rightarrow> disk \<Rightarrow> string \<Rightarrow> string io" where
  "stable_disk_path E d path =
     io_bind (exists_at E (''/dev/disk/by-id/'' @ disk_DeviceID d)) (\<lambda>byid.
       if byid then use_unless_dir E (''/dev/disk/by-id/'' @ disk_DeviceID d) path
       else io_bind (exists_at E (''/dev/disk/by-path/'' @ disk_DevicePath d)) (\<lambda>bypath.
         if bypath then use_unless_dir E (''/dev/disk/by-path/'' @ disk_DevicePath d) path else io_return path))"

definition stable_part_path :: "osd_env \<Rightarrow> disk \<Rightarrow> partition \<Rightarrow> string \<Rightarrow> string io" where
  "stable_part_path E d part path =
     (let n = show_nat (unat (part_Partition part));
          byid = ''/dev/disk/by-id/'' @ disk_DeviceID d @ ''-part'' @ n;
          bypath = ''/dev/disk/by-path/'' @ disk_DevicePath d @ ''-part'' @ n in
      io_bind (exists_at E byid) (\<lambda>e.
        if e then io_return byid
        else io_bind (exists_at E bypath) (\<lambda>e. io_return (if e then bypath else path))))"

text \<open>The walk over the disks: a full disk ends it, a partition given by its raw name keeps the path and
  ends it, another partition replaces the path and the walk goes on.\<close>

fun stable_walk :: "osd_env \<Rightarrow> string \<Rightarrow> disk list \<Rightarrow> string \<Rightarrow> string io" where
  "stable_walk E dev [] path = io_return path"
| "stable_walk E dev (d # ds) path =
     (if disk_Device d = dev then stable_disk_path E d path
      else case List.find (\<lambda>p. part_Device p = dev) (disk_Partitions d) of
        None \<Rightarrow> stable_walk E dev ds path
      | Some part \<Rightarrow>
          if path = ''/dev/'' @ part_ID part then io_return path
          else io_bind (stable_part_path E d part path) (\<lambda>path'. stable_walk E dev ds path'))"

definition is_blockdev :: "osd_env \<Rightarrow> string \<Rightarrow> bool io" where
  "is_blockdev E path = io_bind (osd_ask E (Probe ''blockdev'' [path])) (\<lambda>r. io_return (answered r))"

definition setStablePath :: "osd_env \<Rightarrow> disk list \<Rightarrow> disk_param \<Rightarrow> disk_param io" where
  "setStablePath E storage param =
     io_bind (is_blockdev E (dp_Path param)) (\<lambda>b.
       if \<not> b then io_fail (err_new (''invalid disk path: '' @ dp_Path param))
       else io_bind (io_wrap ''invalid disk path: '' (osd_must E (Probe ''filestat'' [dp_Path param]))) (\<lambda>r.
         io_bind (stable_walk E (reply_text r) storage (dp_Path param)) (\<lambda>p. io_return (param\<lparr>dp_Path := p\<rparr>))))"

definition checkDeviceHasPartitions :: "osd_env \<Rightarrow> disk list \<Rightarrow> string \<Rightarrow> bool io" where
  "checkDeviceHasPartitions E storage path =
     io_bind (is_blockdev E path) (\<lambda>b.
       if \<not> b then io_return False
       else io_bind (io_wrap (''failed to get device info for '' @ path @ '': '') (osd_must E (Probe ''filestat'' [path]))) (\<lambda>r.
         io_return (case List.find (\<lambda>d. disk_Device d = reply_text r) storage of None \<Rightarrow> False | Some d \<Rightarrow> disk_Partitions d \<noteq> [])))"

definition checkPartitionsOnDevice :: "osd_env \<Rightarrow> disk_param \<Rightarrow> disk list \<Rightarrow> string \<Rightarrow> unit io" where
  "checkPartitionsOnDevice E d storage deviceType =
     (if dp_Wipe d then io_return ()
      else io_bind (io_wrap (''failed to check partitions on '' @ deviceType @ '' device '' @ dp_Path d @ '': '') (checkDeviceHasPartitions E storage (dp_Path d))) (\<lambda>has.
        if has then io_fail (err_new (deviceType @ '' device '' @ dp_Path d @ '' has partitions - use --wipe to override'')) else io_return ()))"

definition checkPristineDevice :: "osd_env \<Rightarrow> disk_param \<Rightarrow> string \<Rightarrow> unit io" where
  "checkPristineDevice E d deviceType =
     (if dp_SkipPristineCheck d \<or> dp_Wipe d then io_return ()
      else io_bind (io_wrap (''failed to check if '' @ deviceType @ '' device '' @ dp_Path d @ '' is pristine: '') (IsPristineDisk E (dp_Path d))) (\<lambda>p.
        if p then io_return ()
        else io_fail (err_new (deviceType @ '' device '' @ dp_Path d @ '' is not pristine (contains data) - use --wipe to override''))))"

section \<open>Encryption\<close>

definition CheckEncryptSupport :: "osd_env \<Rightarrow> unit io" where
  "CheckEncryptSupport E =
     io_bind (io_wrap ''missing /dev/mapper/control: '' (osd_must E (Stat ''/dev/mapper/control''))) (\<lambda>_.
     io_bind (osd_ask E (Cmd [''snapctl'', ''is-connected'', ''dm-crypt''])) (\<lambda>c.
       if \<not> answered c then io_fail (err_new ''dm-crypt interface connection missing'')
       else io_bind (osd_ask E (Stat ''/sys/module/dm_crypt'')) (\<lambda>m.
         if \<not> answered m \<or> \<not> has_mode (CHR ''d'') m then io_fail (err_wrap ''missing dm_crypt module: '' (err_new (reply_text m)) '''')
         else io_bind (io_wrap ''cannot access /run, might need to update snapd to >=2.59.1: '' (osd_must E (Probe ''readdir'' [''/run'']))) (\<lambda>_. io_return ()))))"

text \<open>The key is random; it reaches \<^verbatim>\<open>cryptsetup\<close> on its input, which the request does not show.\<close>

definition createKey :: "osd_env \<Rightarrow> string io" where
  "createKey E = io_wrap ''failed to generate random key: '' (io_bind (osd_must E (Probe ''rand'' [])) (\<lambda>r. io_return (reply_text r)))"

definition key_name :: "int \<Rightarrow> string \<Rightarrow> string" where
  "key_name osdID suf = ''microceph:osd'' @ suf @ ''.'' @ show_int osdID @ ''/key''"

definition storeKey :: "osd_env \<Rightarrow> string \<Rightarrow> int \<Rightarrow> string \<Rightarrow> unit io" where
  "storeKey E key osdID suf = ceph_run E ''failed to store key: '' [''config-key'', ''set'', key_name osdID suf, key]"

definition luksFormat_cmd :: "string \<Rightarrow> request" where
  "luksFormat_cmd path = Cmd [''cryptsetup'', ''--batch-mode'', ''--key-file'', ''-'', ''luksFormat'', path]"

definition encryptDevice :: "osd_env \<Rightarrow> string \<Rightarrow> unit io" where
  "encryptDevice E path =
     io_bind (osd_ask E (luksFormat_cmd path)) (\<lambda>r.
       if answered r then io_return () else io_fail (err_new (''failed to luksFormat device: '' @ path @ '', '' @ reply_text r)))"

definition mapper_name :: "int \<Rightarrow> string \<Rightarrow> string" where
  "mapper_name osdID suf = ''luksosd'' @ suf @ ''-'' @ show_int osdID"

definition openEncryptedDevice :: "osd_env \<Rightarrow> string \<Rightarrow> int \<Rightarrow> string \<Rightarrow> string io" where
  "openEncryptedDevice E path osdID suf =
     io_bind (osd_ask E (Cmd [''cryptsetup'', ''--keyfile-size'', ''128'', ''--key-file'', ''-'', ''luksOpen'', path, mapper_name osdID suf])) (\<lambda>r.
       if answered r then io_return (''/dev/mapper/'' @ mapper_name osdID suf)
       else io_fail (err_new (''failed to luksOpen: '' @ path @ '', '' @ reply_text r)))"

definition setupEncryptedOSD :: "osd_env \<Rightarrow> string \<Rightarrow> string \<Rightarrow> int \<Rightarrow> string \<Rightarrow> string io" where
  "setupEncryptedOSD E devicePath osdDataPath osdID suf =
     io_bind (io_wrap ''failed to add unencrypted block symlink: '' (osd_must E (Probe ''symlink'' [devicePath, osdDataPath @ ''/unencrypted'' @ suf]))) (\<lambda>_.
     io_bind (io_wrap ''key creation error: '' (createKey E)) (\<lambda>key.
     io_bind (io_wrap ''key store error: '' (storeKey E key osdID suf)) (\<lambda>_.
     io_bind (io_wrap ''failed to encrypt: '' (encryptDevice E devicePath)) (\<lambda>_.
       io_wrap ''failed to open: '' (openEncryptedDevice E devicePath osdID suf)))))"

text \<open>The path the device is used by from here on.\<close>

definition prepare_path :: "osd_env \<Rightarrow> disk_param \<Rightarrow> string \<Rightarrow> string \<Rightarrow> int \<Rightarrow> string io" where
  "prepare_path E d suf osdPath osdID =
     io_bind (is_blockdev E (dp_Path d)) (\<lambda>b.
     io_bind (if b
              then io_bind (io_wrap (''failed to check if device '' @ dp_Path d @ '' is mounted: '') (IsMounted_io E (dp_Path d))) (\<lambda>mounted.
                if mounted then io_fail (err_new (''device '' @ dp_Path d @ '' is currently mounted and cannot be used - aborting'')) else io_return ())
              else io_return ()) (\<lambda>_.
     io_bind (if dp_Wipe d then io_wrap (''failed to wipe device '' @ dp_Path d @ '': '') (timeoutWipe E (dp_Path d)) else io_return ()) (\<lambda>_.
       if dp_Encrypt d
       then io_bind (io_wrap ''encryption unsupported on this machine: '' (CheckEncryptSupport E)) (\<lambda>_.
         io_wrap (''failed to encrypt device '' @ dp_Path d @ '': '') (setupEncryptedOSD E (dp_Path d) osdPath osdID suf))
       else io_return (dp_Path d))))"

text \<open>The result is the parameter, whose path may have changed even when the preparation failed, and the
  error if there is one. Only the data device, with an empty suffix, is linked.\<close>

definition prepareDisk :: "osd_env \<Rightarrow> disk_param \<Rightarrow> string \<Rightarrow> string \<Rightarrow> int \<Rightarrow> (disk_param \<times> go_error option) io" where
  "prepareDisk E d suf osdPath osdID =
     io_bind (attempt (prepare_path E d suf osdPath osdID)) (\<lambda>res.
       case res of
         Inl e \<Rightarrow> io_return (d, Some e)
       | Inr path \<Rightarrow>
           if suf \<noteq> '''' then io_return (d\<lparr>dp_Path := path\<rparr>, None)
           else io_bind (osd_ask E (Probe ''symlink'' [path, osdPath @ ''/block''])) (\<lambda>r.
             io_return (d\<lparr>dp_Path := path\<rparr>, if answered r then None else Some (err_new (reply_text r)))))"

section \<open>Bootstrapping the daemon\<close>

definition prepare_aux :: "osd_env \<Rightarrow> string \<Rightarrow> string \<Rightarrow> disk_param \<Rightarrow> disk list \<Rightarrow> string \<Rightarrow> int \<Rightarrow> string io" where
  "prepare_aux E name suf d storage osdDataPath nr =
     io_bind (io_wrap (''failed to set stable path for '' @ name @ '': '') (setStablePath E storage d)) (\<lambda>d.
     io_bind (checkPartitionsOnDevice E d storage name) (\<lambda>_.
     io_bind (checkPristineDevice E d name) (\<lambda>_.
     io_bind (prepareDisk E d suf osdDataPath nr) (\<lambda>(d, err).
       case err of
         Some e \<Rightarrow> io_fail (err_wrap (''failed to set up '' @ name @ '' device: '') e '''')
       | None \<Rightarrow> io_return (dp_Path d)))))"

definition mkfs_cmd :: "int \<Rightarrow> string list \<Rightarrow> request" where
  "mkfs_cmd nr extra = Cmd ([''ceph-osd'', ''--mkfs'', ''--no-mon-config'', ''-i'', show_int nr] @ extra)"

definition bootstrapOSD :: "osd_env \<Rightarrow> string \<Rightarrow> int \<Rightarrow> disk_param option \<Rightarrow> disk_param option \<Rightarrow> disk list \<Rightarrow> unit io" where
  "bootstrapOSD E osdDataPath nr wal db storage =
     io_bind (case wal of None \<Rightarrow> io_return []
              | Some w \<Rightarrow> io_bind (prepare_aux E ''WAL'' ''.wal'' w storage osdDataPath nr) (\<lambda>p. io_return [''--bluestore-block-wal-path'', p])) (\<lambda>wargs.
     io_bind (case db of None \<Rightarrow> io_return []
              | Some d \<Rightarrow> io_bind (prepare_aux E ''DB'' ''.db'' d storage osdDataPath nr) (\<lambda>p. io_return [''--bluestore-block-db-path'', p])) (\<lambda>dargs.
     io_bind (io_wrap ''failed to bootstrap OSD: '' (osd_must E (mkfs_cmd nr (wargs @ dargs)))) (\<lambda>_.
     io_bind (io_wrap ''failed to write stamp file: '' (osd_must E (WriteFile (osdDataPath @ ''/ready'') JNull))) (\<lambda>_. io_return ()))))"

section \<open>Adding an OSD\<close>

definition stabilizeDevicePath :: "osd_env \<Rightarrow> disk_param \<Rightarrow> (disk_param \<times> disk list option) io" where
  "stabilizeDevicePath E data =
     (if dp_LoopSize data \<noteq> 0 then io_return (data, None)
      else io_bind (io_wrap ''unable to list system disks: '' (getStorageWithRetry E)) (\<lambda>storage.
        io_bind (io_wrap ''failed to set stable disk path: '' (setStablePath E storage data)) (\<lambda>d. io_return (d, Some storage))))"

definition disk_create :: "string \<Rightarrow> string \<Rightarrow> request" where
  "disk_create member path = Db ''diskCreate'' [member, path]"

text \<open>A record with the same member and path is a conflict; the answer to the insertion is the new id.\<close>

definition createDiskRecord :: "osd_env \<Rightarrow> disk_param \<Rightarrow> int io" where
  "createDiskRecord E data =
     io_bind (io_wrap ''failed to record disk: Failed to check for duplicates: '' (disks_query E ''diskID'')) (\<lambda>rows.
       if list_ex (\<lambda>d. cd_Location d = oe_name E \<and> cd_Path d = dp_Path data) rows
       then io_fail (err_wrap ''failed to record disk: '' (err_status 409 ''This disks entry already exists'') '''')
       else io_bind (io_wrap ''failed to record disk: '' (osd_must E (disk_create (oe_name E) (dp_Path data)))) (\<lambda>r.
         case reply_json r of
           Some (JInt nr) \<Rightarrow> io_return nr
         | _ \<Rightarrow> io_fail (err_new ''failed to record disk: Failed to fetch disks entry ID'')))"

definition createBackingFile :: "osd_env \<Rightarrow> string \<Rightarrow> u64 \<Rightarrow> string io" where
  "createBackingFile E dir sz =
     (let backing = dir @ ''/osd-backing.img'' in
      io_bind (io_wrap (''failed to create backing file '' @ backing @ '': '') (osd_must E (Cmd [''truncate'', ''-s'', show_nat (unat sz) @ ''M'', backing]))) (\<lambda>_.
        io_return backing))"

text \<open>As in the preparation of a disk, the path may have changed when this fails.\<close>

definition prepareOSDData :: "osd_env \<Rightarrow> disk_param \<Rightarrow> string \<Rightarrow> int \<Rightarrow> (disk_param \<times> go_error option) io" where
  "prepareOSDData E data osdDataPath nr =
     io_bind (osd_ask E (Probe ''mkdir'' [osdDataPath])) (\<lambda>r.
       if \<not> answered r then io_return (data, Some (err_wrap ''failed to create OSD directory: '' (err_new (reply_text r)) ''''))
       else if dp_LoopSize data = 0 then io_return (data, None)
       else io_bind (attempt (createBackingFile E osdDataPath (dp_LoopSize data))) (\<lambda>b.
         case b of
           Inl e \<Rightarrow> io_return (data, Some e)
         | Inr backing \<Rightarrow>
             io_bind (osd_ask E (Db ''updatePath'' [backing, show_int nr])) (\<lambda>u.
               io_return (data\<lparr>dp_Path := backing\<rparr>,
                 if answered u then None else Some (err_wrap ''failed to update disk record: '' (err_new (reply_text u)) '''')))))"

definition generateOSDFiles :: "osd_env \<Rightarrow> string \<Rightarrow> int \<Rightarrow> unit io" where
  "generateOSDFiles E osdDataPath nr =
     io_bind (ceph_run E ''failed to generate OSD keyring: ''
       [''auth'', ''get-or-create'', osd_dot nr, ''mgr'', ''allow profile osd'', ''mon'', ''allow profile osd'', ''osd'', ''allow *'', ''-o'', osdDataPath @ ''/keyring'']) (\<lambda>_.
     io_bind (osd_ask E (Probe ''uuid'' [])) (\<lambda>u.
     io_bind (io_wrap ''failed to write fsid: '' (osd_must E (WriteFile (osdDataPath @ ''/fsid'') (JStr (reply_text u))))) (\<lambda>_. io_return ())))"

definition spawnOSD :: "osd_env \<Rightarrow> int \<Rightarrow> unit io" where
  "spawnOSD E nr =
     io_bind (osd_ask E (Cmd [''snapctl'', ''restart'', ''--reload'', ''microceph.osd''])) (\<lambda>r.
       if answered r then io_return ()
       else io_bind (io_wrap (''failed to start '' @ osd_dot nr @ '': '') (osd_must E (Cmd [''snapctl'', ''start'', ''microceph.osd'', ''--enable'']))) (\<lambda>_. io_return ()))"

text \<open>The work between the record and the commitment: the second component is the error, the first the
  data parameter at that moment, whose path the rollback uses.\<close>

definition fill_osd :: "osd_env \<Rightarrow> disk_param \<Rightarrow> disk_param option \<Rightarrow> disk_param option \<Rightarrow> disk list option \<Rightarrow> gen_manifest option \<Rightarrow> int \<Rightarrow>
    (disk_param \<times> go_error option) io" where
  "fill_osd E data wal db storage generatedAux nr =
     (let osdDataPath = getOSDDataPath E nr in
      io_bind (prepareOSDData E data osdDataPath nr) (\<lambda>(data, err).
      case err of
        Some e \<Rightarrow> io_return (data, Some e)
      | None \<Rightarrow>
          io_bind (attempt (case storage of
             None \<Rightarrow> io_return ()
           | Some st \<Rightarrow> io_bind (checkPartitionsOnDevice E data st ''data'') (\<lambda>_. checkPristineDevice E data ''data''))) (\<lambda>checked.
          case checked of
            Inl e \<Rightarrow> io_return (data, Some e)
          | Inr _ \<Rightarrow>
              io_bind (prepareDisk E data '''' osdDataPath nr) (\<lambda>(data, err).
              case err of
                Some e \<Rightarrow> io_return (data, Some (err_wrap ''failed to prepare data device: '' e ''''))
              | None \<Rightarrow>
                  io_bind (attempt
                    (io_bind (generateOSDFiles E osdDataPath nr) (\<lambda>_.
                     io_bind (writeGeneratedAuxManifest E osdDataPath generatedAux) (\<lambda>_.
                     io_bind (bootstrapOSD E osdDataPath nr wal db (case storage of None \<Rightarrow> [] | Some st \<Rightarrow> st)) (\<lambda>_.
                     io_bind (spawnOSD E nr) (\<lambda>_.
                     io_bind (updateTopology E) (\<lambda>_. updateFailureDomain E))))))) (\<lambda>res.
                  io_return (data, case res of Inl e \<Rightarrow> Some e | Inr _ \<Rightarrow> None))))))"

text \<open>The rollback removes the data directory and the record under the current path; it does not fail.\<close>

definition revert_add :: "osd_env \<Rightarrow> disk_param \<Rightarrow> string \<Rightarrow> unit io" where
  "revert_add E data osdDataPath =
     io_bind (osd_ask E (RemoveAll osdDataPath)) (\<lambda>_. io_bind (attempt (DeleteDisk E (oe_name E) (dp_Path data))) (\<lambda>_. io_return ()))"

definition add_record :: "osd_env \<Rightarrow> disk_param \<Rightarrow> disk_param option \<Rightarrow> disk_param option \<Rightarrow> disk list option \<Rightarrow> gen_manifest option \<Rightarrow>
    (int \<times> go_error option) io" where
  "add_record E data wal db storage generatedAux =
     io_bind (attempt (case storage of
         None \<Rightarrow> stabilizeDevicePath E data
       | Some st \<Rightarrow> io_bind (io_wrap ''failed to set stable disk path: '' (setStablePath E st data)) (\<lambda>d. io_return (d, Some st)))) (\<lambda>stable.
       case stable of
         Inl e \<Rightarrow> io_return (-1, Some e)
       | Inr (data, storage) \<Rightarrow>
           io_bind (attempt (createDiskRecord E data)) (\<lambda>rec.
           case rec of
             Inl e \<Rightarrow> io_return (-1, Some e)
           | Inr nr \<Rightarrow>
               io_bind (fill_osd E data wal db storage generatedAux nr) (\<lambda>(data, err).
               case err of
                 None \<Rightarrow> io_return (nr, None)
               | Some e \<Rightarrow> io_bind (revert_add E data (getOSDDataPath E nr)) (\<lambda>_. io_return (nr, Some e)))))"

text \<open>The deferred cleanup of the partitions made for this OSD runs after the rollback.\<close>

definition doAddOSDWithStorage :: "osd_env \<Rightarrow> disk_param \<Rightarrow> disk_param option \<Rightarrow> disk_param option \<Rightarrow> disk list option \<Rightarrow> gen_manifest option \<Rightarrow> unit io" where
  "doAddOSDWithStorage E data wal db storage generatedAux =
     io_bind (add_record E data wal db storage generatedAux) (\<lambda>(nr, err).
       case err of
         None \<Rightarrow> io_return ()
       | Some e \<Rightarrow>
           (case generatedAux of
              None \<Rightarrow> io_fail e
            | Some m \<Rightarrow>
                io_bind (attempt (cleanupGeneratedAuxEntries E (Some m) nr)) (\<lambda>c.
                  case c of
                    Inr _ \<Rightarrow> io_fail e
                  | Inl ce \<Rightarrow> io_fail (err_wrap '''' e ('' (automatic cleanup of generated WAL/DB partitions also failed: '' @ etext ce @ '')'')))))"

definition doAddOSD :: "osd_env \<Rightarrow> disk_param \<Rightarrow> disk_param option \<Rightarrow> disk_param option \<Rightarrow> unit io" where
  "doAddOSD E data wal db = doAddOSDWithStorage E data wal db None None"

section \<open>Bulk operations\<close>

text \<open>The storage gate, asked at a moment of the log; \<open>D\<close> is the shared database then.\<close>

definition gate_query :: request where
  "gate_query = Db ''placementPolicy'' []"

definition gate :: "osd_env \<Rightarrow> (history \<Rightarrow> dbst) \<Rightarrow> unit io" where
  "gate E D h =
     (case fst (checkStorageEligibility (oe_lib E) True (oe_name E) (D h)) of
        Some e \<Rightarrow> (Inl e, h @ [gate_query])
      | None \<Rightarrow> (Inr (), h @ [gate_query]))"

record add_report =
  ar_Path :: string
  ar_Report :: string
  ar_Error :: string

record dryrun_device =
  dv_Path :: string
  dv_Model :: string
  dv_Size :: string
  dv_Type :: string
  dv_Vendor :: string

record dryrun_partition =
  dq_Kind :: string
  dq_ParentPath :: string
  dq_Partition :: u64
  dq_Size :: string
  dq_ResetBeforeUse :: bool

record dryrun_osd =
  do_OSDPath :: string
  do_WAL :: "dryrun_partition option"
  do_DB :: "dryrun_partition option"

record add_response =
  as_ValidationError :: string
  as_Reports :: "add_report list"
  as_Warnings :: "string list"
  as_DryRunDevices :: "dryrun_device list"
  as_DryRunPlan :: "dryrun_osd list"

definition empty_response :: add_response where
  "empty_response = \<lparr>as_ValidationError = '''', as_Reports = [], as_Warnings = [], as_DryRunDevices = [], as_DryRunPlan = []\<rparr>"

definition prepareValidationFailureResp :: "disk_param list \<Rightarrow> go_error \<Rightarrow> add_response" where
  "prepareValidationFailureResp disks e =
     empty_response\<lparr>as_ValidationError := etext e, as_Reports := map (\<lambda>d. \<lparr>ar_Path = dp_Path d, ar_Report = ''Failure'', ar_Error = ''''\<rparr>) disks\<rparr>"

text \<open>Free megabytes from the count and size of the free blocks the filesystem reports, in 64-bit words.\<close>

definition getFreeSpace :: "osd_env \<Rightarrow> u64 io" where
  "getFreeSpace E =
     io_bind (osd_must E (Probe ''statfs'' [''SNAP_COMMON''])) (\<lambda>r.
       case reply_json r of
         Some (JArr [JInt bavail, JInt bsize]) \<Rightarrow> io_return (word_of_int bavail * word_of_int bsize div 1024 div 1024)
       | _ \<Rightarrow> io_fail (err_new ''statfs''))"

fun add_loops :: "osd_env \<Rightarrow> u64 \<Rightarrow> nat \<Rightarrow> unit io" where
  "add_loops E sz 0 = io_return ()"
| "add_loops E sz (Suc k) =
     io_bind (io_wrap ''failed to add loop OSD: ''
       (doAddOSD E \<lparr>dp_Path = '''', dp_Encrypt = False, dp_Wipe = False, dp_LoopSize = sz, dp_SkipPristineCheck = False\<rparr> None None)) (\<lambda>_.
     add_loops E sz k)"

definition addLoopBackOSDs :: "osd_env \<Rightarrow> (history \<Rightarrow> dbst) \<Rightarrow> string \<Rightarrow> unit io" where
  "addLoopBackOSDs E D spec =
     io_bind (of_result (parseBackingSpec spec)) (\<lambda>(sz, num).
     io_bind (gate E D) (\<lambda>_.
     io_bind (getFreeSpace E) (\<lambda>freeSpace.
       if freeSpace < sz * of_nat num
       then io_fail (err_new (''insufficient free space for '' @ show_nat num @ '' loopback files of size '' @ show_nat (unat sz) @ ''MB''))
       else add_loops E sz num)))"

definition addSingleDisk :: "osd_env \<Rightarrow> (history \<Rightarrow> dbst) \<Rightarrow> disk_param \<Rightarrow> disk_param option \<Rightarrow> disk_param option \<Rightarrow> add_report io" where
  "addSingleDisk E D d wal db =
     io_bind (attempt (if isLoopDevice d then addLoopBackOSDs E D (dp_Path d)
                       else io_bind (gate E D) (\<lambda>_. doAddOSD E d wal db))) (\<lambda>res.
       io_return (case res of
           Inl e \<Rightarrow> \<lparr>ar_Path = dp_Path d, ar_Report = ''Failure'', ar_Error = etext e\<rparr>
         | Inr _ \<Rightarrow> \<lparr>ar_Path = dp_Path d, ar_Report = ''Success'', ar_Error = ''''\<rparr>))"

fun add_all :: "osd_env \<Rightarrow> (history \<Rightarrow> dbst) \<Rightarrow> disk_param list \<Rightarrow> add_report list io" where
  "add_all E D [] = io_return []"
| "add_all E D (d # ds) = io_bind (addSingleDisk E D d None None) (\<lambda>r. io_bind (add_all E D ds) (\<lambda>rs. io_return (r # rs)))"

definition addBulkDisks :: "osd_env \<Rightarrow> (history \<Rightarrow> dbst) \<Rightarrow> disk_param list \<Rightarrow> disk_param option \<Rightarrow> disk_param option \<Rightarrow> add_response io" where
  "addBulkDisks E D disks wal db =
     io_bind (attempt (gate E D)) (\<lambda>g.
       case g of
         Inl e \<Rightarrow> io_return (prepareValidationFailureResp disks e)
       | Inr _ \<Rightarrow>
           (case disks of
              [d] \<Rightarrow>
                (case validateAddOSDArgs d wal db of
                   Inl e \<Rightarrow> io_return (prepareValidationFailureResp disks e)
                 | Inr _ \<Rightarrow> io_bind (addSingleDisk E D d wal db) (\<lambda>r. io_return (empty_response\<lparr>as_Reports := [r]\<rparr>)))
            | _ \<Rightarrow>
                (case validateBulkDiskAdditionArgs disks wal db of
                   Inl e \<Rightarrow> io_return (prepareValidationFailureResp disks e)
                 | Inr _ \<Rightarrow> io_bind (add_all E D disks) (\<lambda>rs. io_return (empty_response\<lparr>as_Reports := rs\<rparr>)))))"

definition addOSD :: "osd_env \<Rightarrow> (history \<Rightarrow> dbst) \<Rightarrow> disk_param \<Rightarrow> disk_param option \<Rightarrow> disk_param option \<Rightarrow> unit io" where
  "addOSD E D data wal db =
     io_bind (gate E D) (\<lambda>_. io_bind (of_result (validateAddOSDArgs data wal db)) (\<lambda>_. doAddOSD E data wal db))"

end
