(* ===== verification/Osd_Provision.thy ===== *)
theory Osd_Provision
  imports Osd_Add DSL_Eval
begin

text \<open>
  Enrolling the disks that an expression selects (\<^verbatim>\<open>ceph/osd.go\<close>, \<^verbatim>\<open>ceph/osd_waldb.go\<close>)
  and the endpoint that accepts such requests (\<^verbatim>\<open>api/disks.go\<close>, after its body was decoded):
  which disks are available, which may carry WAL and DB partitions, the plan and its execution. The
  parser for byte sizes is a parameter.
\<close>

section \<open>Requests\<close>

record disks_post =
  rq_Path :: "string list"
  rq_Wipe :: bool
  rq_Encrypt :: bool
  rq_WALDev :: "string option"
  rq_WALWipe :: bool
  rq_WALEncrypt :: bool
  rq_DBDev :: "string option"
  rq_DBWipe :: bool
  rq_DBEncrypt :: bool
  rq_OSDMatch :: string
  rq_WALMatch :: string
  rq_WALSize :: string
  rq_DBMatch :: string
  rq_DBSize :: string
  rq_DryRun :: bool

type_synonym size_parser = "string \<Rightarrow> string + int"

section \<open>Matching disks\<close>

record dsl_match =
  dm_MatchedDisks :: "disk list"
  dm_DryRunDevices :: "dryrun_device list"
  dm_ValidationError :: string

text \<open>The parser returns on every input, so its result is the value inside the option.\<close>

definition validateDSLExpression :: "go_lib \<Rightarrow> string \<Rightarrow> go_error + expr" where
  "validateDSLExpression G input =
     (case the (Parse G input) of
        Inl e \<Rightarrow> Inl (err_wrap ''invalid DSL expression: '' (err_new (dsl_error_text e)) '''')
      | Inr expr \<Rightarrow>
          (case Validate G expr of
             Some e \<Rightarrow> Inl (err_wrap ''DSL validation error: '' (err_new (dsl_error_text e)) '''')
           | None \<Rightarrow> Inr expr))"

text \<open>Disks of a machine have different stable paths; for equal ones the order is not specified.\<close>

definition sortDisksByStablePath :: "go_lib \<Rightarrow> disk list \<Rightarrow> disk list" where
  "sortDisksByStablePath G disks = sort_key (dsl_GetDevicePath G) disks"

definition os_hostname :: "osd_env \<Rightarrow> reply io" where
  "os_hostname E = osd_must E (Probe ''hostname'' [])"

definition shortHostname :: "osd_env \<Rightarrow> string io" where
  "shortHostname E =
     io_bind (osd_ask E (Probe ''hostname'' [])) (\<lambda>r. io_return (GetHostname (if answered r then Inr (reply_text r) else Inl (reply_text r))))"

definition getStorageAndConfiguredDisks :: "osd_env \<Rightarrow> (disk list \<times> configured_disk list) io" where
  "getStorageAndConfiguredDisks E =
     io_bind (io_wrap ''failed to get storage resources: '' (getStorageWithRetry E)) (\<lambda>storage.
     io_bind (io_wrap ''failed to list configured disks: '' (OSD_List E)) (\<lambda>configured. io_return (storage, configured)))"

text \<open>A probe that fails counts against the disk.\<close>

definition usable_now :: "osd_env \<Rightarrow> string \<Rightarrow> bool io" where
  "usable_now E path =
     io_bind (attempt (IsMounted_io E path)) (\<lambda>m.
       case m of
         Inl _ \<Rightarrow> io_return False
       | Inr mounted \<Rightarrow>
           if mounted then io_return False
           else io_bind (attempt (IsCephDevice_io E path)) (\<lambda>c. io_return (case c of Inl _ \<Rightarrow> False | Inr used \<Rightarrow> \<not> used)))"

fun available_walk :: "osd_env \<Rightarrow> configured_disk list \<Rightarrow> string \<Rightarrow> disk list \<Rightarrow> disk list io" where
  "available_walk E configured host [] = io_return []"
| "available_walk E configured host (d # ds) =
     io_bind (if disk_ReadOnly d \<or> 0 < length (disk_Partitions d) \<or> disk_Size d < MinOSDSize \<or> configured_on_host configured host (GetDevicePath d)
              then io_return False
              else usable_now E (GetDevicePath d)) (\<lambda>keep.
     io_bind (available_walk E configured host ds) (\<lambda>kept. io_return (if keep then d # kept else kept)))"

definition FilterAvailableDisks_io :: "osd_env \<Rightarrow> disk list \<Rightarrow> configured_disk list \<Rightarrow> disk list io" where
  "FilterAvailableDisks_io E disks configured =
     io_bind (io_wrap ''failed to get hostname: '' (os_hostname E)) (\<lambda>host. available_walk E configured (reply_text host) disks)"

definition no_match :: dsl_match where
  "no_match = \<lparr>dm_MatchedDisks = [], dm_DryRunDevices = [], dm_ValidationError = ''''\<rparr>"

definition matchOSDDisksWithDSL :: "osd_env \<Rightarrow> string \<Rightarrow> dsl_match io" where
  "matchOSDDisksWithDSL E dslExpr =
     (if dslExpr = '''' then io_return no_match
      else case validateDSLExpression (oe_lib E) dslExpr of
        Inl e \<Rightarrow> io_return (no_match\<lparr>dm_ValidationError := etext e\<rparr>)
      | Inr expr \<Rightarrow>
          io_bind (getStorageAndConfiguredDisks E) (\<lambda>(storage, configured).
          io_bind (io_wrap ''failed to filter available disks: '' (FilterAvailableDisks_io E storage configured)) (\<lambda>available.
          io_bind (shortHostname E) (\<lambda>host.
            case MatchDevices (oe_lib E) expr available host of
              Inl e \<Rightarrow> io_return (no_match\<lparr>dm_ValidationError := ''DSL evaluation error: '' @ dsl_error_text e\<rparr>)
            | Inr matched \<Rightarrow> io_return (no_match\<lparr>dm_MatchedDisks := sortDisksByStablePath (oe_lib E) matched\<rparr>)))))"

definition dryrun_of :: "go_lib \<Rightarrow> disk \<Rightarrow> dryrun_device" where
  "dryrun_of G d =
     \<lparr>dv_Path = dsl_GetDevicePath G d, dv_Model = disk_Model d, dv_Size = formatBytesIEC (sint (disk_Size d)), dv_Type = disk_Type d,
      dv_Vendor = extractVendor G (disk_Model d)\<rparr>"

definition MatchDisksWithDSL :: "osd_env \<Rightarrow> string \<Rightarrow> bool \<Rightarrow> dsl_match io" where
  "MatchDisksWithDSL E dslExpr dryRun =
     io_bind (matchOSDDisksWithDSL E dslExpr) (\<lambda>result.
       io_return (if dm_ValidationError result \<noteq> '''' then result
                  else if dryRun then result\<lparr>dm_DryRunDevices := map (dryrun_of (oe_lib E)) (dm_MatchedDisks result)\<rparr>
                  else result))"

section \<open>Carriers for WAL and DB partitions\<close>

record disk_usage =
  du_HasData :: bool
  du_HasAux :: bool

definition unused :: disk_usage where
  "unused = \<lparr>du_HasData = False, du_HasAux = False\<rparr>"

definition part_names :: "disk \<Rightarrow> partition \<Rightarrow> string list" where
  "part_names d part =
     (let n = show_nat (unat (part_Partition part)) in
      [''/dev/'' @ part_ID part] @
      (if disk_DeviceID d \<noteq> '''' then [''/dev/disk/by-id/'' @ disk_DeviceID d @ ''-part'' @ n] else []) @
      (if disk_DevicePath d \<noteq> '''' then [''/dev/disk/by-path/'' @ disk_DevicePath d @ ''-part'' @ n] else []))"

text \<open>Each name and what it resolves to.\<close>

fun name_candidates :: "osd_env \<Rightarrow> string list \<Rightarrow> string list io" where
  "name_candidates E [] = io_return []"
| "name_candidates E (p # ps) =
     io_bind (resolvePathBestEffort E p) (\<lambda>r. io_bind (name_candidates E ps) (\<lambda>rs. io_return (p # r # rs)))"

definition auxiliaryDiskPathCandidates :: "osd_env \<Rightarrow> disk \<Rightarrow> string list io" where
  "auxiliaryDiskPathCandidates E d = name_candidates E (GetDevicePath d # concat (map (part_names d) (disk_Partitions d)))"

fun any_mounted :: "osd_env \<Rightarrow> string list \<Rightarrow> bool io" where
  "any_mounted E [] = io_return False"
| "any_mounted E (p # ps) = io_bind (IsMounted_io E p) (\<lambda>m. if m then io_return True else any_mounted E ps)"

definition diskOrAnyPartitionMounted :: "osd_env \<Rightarrow> disk \<Rightarrow> bool io" where
  "diskOrAnyPartitionMounted E d = any_mounted E (GetDevicePath d # map (\<lambda>p. ''/dev/'' @ part_ID p) (disk_Partitions d))"

text \<open>Names of devices with the disk they belong to; a later entry for a name replaces an earlier one.\<close>

fun lookup_names :: "osd_env \<Rightarrow> disk list \<Rightarrow> (string \<times> string) list io" where
  "lookup_names E [] = io_return []"
| "lookup_names E (d # ds) =
     io_bind (auxiliaryDiskPathCandidates E d) (\<lambda>cs.
     io_bind (lookup_names E ds) (\<lambda>more_names. io_return (map (\<lambda>c. (c, GetDevicePath d)) cs @ more_names)))"

definition mark_usage :: "bool \<Rightarrow> disk_usage \<Rightarrow> disk_usage" where
  "mark_usage aux u = (if aux then u\<lparr>du_HasAux := True\<rparr> else u\<lparr>du_HasData := True\<rparr>)"

fun usage_walk :: "osd_env \<Rightarrow> (string \<rightharpoonup> string) \<Rightarrow> (string \<times> bool) list \<Rightarrow> (string \<Rightarrow> disk_usage) \<Rightarrow> (string \<Rightarrow> disk_usage) io" where
  "usage_walk E lk [] u = io_return u"
| "usage_walk E lk ((target, aux) # links) u =
     io_bind (resolvePathBestEffort E target) (\<lambda>resolved.
       usage_walk E lk links (case lk resolved of None \<Rightarrow> u | Some parent \<Rightarrow> u(parent := mark_usage aux (u parent))))"

definition osd_links :: "osd_env \<Rightarrow> string list \<Rightarrow> (string \<times> bool) list" where
  "osd_links E dirs =
     concat (map (\<lambda>d. map (\<lambda>(l, aux). (oe_data E @ ''/osd/'' @ d @ ''/'' @ l, aux)) CephOSDDeviceLinks) (filter (\<lambda>d. has_prefix d ''ceph-'') dirs))"

definition collectLocalAuxDiskUsage :: "osd_env \<Rightarrow> disk list \<Rightarrow> (string \<Rightarrow> disk_usage) io" where
  "collectLocalAuxDiskUsage E storage =
     io_bind (lookup_names E storage) (\<lambda>names.
     io_bind (osd_ask E (Probe ''readdir'' [oe_data E @ ''/osd''])) (\<lambda>r.
       if answered r then usage_walk E (map_of (rev names)) (osd_links E (dir_names r)) (\<lambda>_. unused)
       else if not_exist r then io_return (\<lambda>_. unused)
       else io_fail (err_wrap ''failed to inspect local ceph device usage: '' (err_new (reply_text r)) '''')))"

text \<open>The policy for carriers: whether the disk may be one, and whether it is reset first.\<close>

definition auxiliaryDiskCandidateDisposition :: "osd_env \<Rightarrow> string \<Rightarrow> disk \<Rightarrow> disk_usage \<Rightarrow> bool \<Rightarrow> (bool \<times> bool) io" where
  "auxiliaryDiskCandidateDisposition E path d usage wipe =
     (if du_HasData usage then io_return (False, False)
      else if disk_Partitions d = []
      then if du_HasAux usage then io_return (False, False)
           else if wipe then io_return (True, True)
           else io_bind (io_wrap (''failed to check if auxiliary device '' @ path @ '' is pristine: '') (IsPristineDisk E path)) (\<lambda>p. io_return (p, False))
      else if du_HasAux usage then io_return (True, False)
      else if wipe then io_return (True, True)
      else io_return (False, False))"

fun carrier_candidates :: "osd_env \<Rightarrow> string list \<Rightarrow> disk list \<Rightarrow> disk list io" where
  "carrier_candidates E configuredPaths [] = io_return []"
| "carrier_candidates E configuredPaths (d # ds) =
     io_bind (if disk_ReadOnly d \<or> GetDevicePath d \<in> set configuredPaths then io_return False
              else io_bind (attempt (diskOrAnyPartitionMounted E d)) (\<lambda>m. io_return (case m of Inl _ \<Rightarrow> False | Inr mounted \<Rightarrow> \<not> mounted))) (\<lambda>keep.
     io_bind (carrier_candidates E configuredPaths ds) (\<lambda>kept. io_return (if keep then d # kept else kept)))"

fun eligible_walk :: "osd_env \<Rightarrow> (string \<Rightarrow> disk_usage) \<Rightarrow> bool \<Rightarrow> disk list \<Rightarrow> (disk list \<times> string list) io" where
  "eligible_walk E usage wipe [] = io_return ([], [])"
| "eligible_walk E usage wipe (d # ds) =
     io_bind (auxiliaryDiskCandidateDisposition E (GetDevicePath d) d (usage (GetDevicePath d)) wipe) (\<lambda>(eligible, reset).
     io_bind (eligible_walk E usage wipe ds) (\<lambda>(kept, resets).
       io_return (if eligible then (d # kept, if reset then GetDevicePath d # resets else resets) else (kept, resets))))"

definition configuredOSDPathSetForHost :: "configured_disk list \<Rightarrow> string \<Rightarrow> string list" where
  "configuredOSDPathSetForHost configured host = map cd_Path (filter (\<lambda>c. cd_Location c = host) configured)"

text \<open>The second component lists the carriers that are reset before use.\<close>

definition matchAuxiliaryDisksWithDSL :: "osd_env \<Rightarrow> string \<Rightarrow> bool \<Rightarrow> (disk list \<times> string list) io" where
  "matchAuxiliaryDisksWithDSL E dslExpr wipe =
     (if dslExpr = '''' then io_return ([], [])
      else io_bind (of_result (validateDSLExpression (oe_lib E) dslExpr)) (\<lambda>expr.
        io_bind (getStorageAndConfiguredDisks E) (\<lambda>(storage, configured).
        io_bind (io_wrap ''failed to get hostname: '' (os_hostname E)) (\<lambda>host.
        io_bind (collectLocalAuxDiskUsage E storage) (\<lambda>usage.
        io_bind (carrier_candidates E (configuredOSDPathSetForHost configured (reply_text host)) storage) (\<lambda>candidates.
        io_bind (shortHostname E) (\<lambda>short.
          case MatchDevices (oe_lib E) expr candidates short of
            Inl e \<Rightarrow> io_fail (err_wrap ''DSL evaluation error: '' (err_new (dsl_error_text e)) '''')
          | Inr matched \<Rightarrow>
              io_bind (eligible_walk E usage wipe matched) (\<lambda>(kept, resets).
                io_return (sortDisksByStablePath (oe_lib E) kept, resets)))))))))"

section \<open>The plan\<close>

record planned_osd =
  po_OSDPath :: string
  po_WAL :: "planned_aux option"
  po_DB :: "planned_aux option"

record provision_plan =
  pv_OSDs :: "planned_osd list"
  pv_Warnings :: "string list"

definition buildPathSet :: "go_lib \<Rightarrow> disk list \<Rightarrow> string list" where
  "buildPathSet G disks = remdups (map (dsl_GetDevicePath G) disks)"

definition intersectPathSets :: "string list \<Rightarrow> string list \<Rightarrow> string list" where
  "intersectPathSets a b = sort_strings (filter (\<lambda>p. p \<in> set b) a)"

definition buildResetBeforeUseWarnings :: "string \<Rightarrow> string list \<Rightarrow> string list" where
  "buildResetBeforeUseWarnings kind resets =
     map (\<lambda>p. kind @ '' carrier '' @ p @ '' will be wiped/reset before partitioning'') (sort_strings (remdups resets))"

definition match_kind :: "osd_env \<Rightarrow> string \<Rightarrow> string \<Rightarrow> bool \<Rightarrow> (disk list \<times> string list \<times> string list) io" where
  "match_kind E kind dslExpr wipe =
     (if dslExpr = '''' then io_return ([], [], [])
      else io_bind (matchAuxiliaryDisksWithDSL E dslExpr wipe) (\<lambda>(matches, resets).
        io_return (matches, resets,
          if matches = [] then [kind @ '' match expression resolved to no devices; proceeding without '' @ kind]
          else buildResetBeforeUseWarnings kind resets)))"

text \<open>The search for a free partition number ends unless a disk lists \<^verbatim>\<open>2^64\<close> partitions; a
  search without end has no result, which the last branch stands for.\<close>

definition plan_kind :: "osd_env \<Rightarrow> size_parser \<Rightarrow> string \<Rightarrow> string \<Rightarrow> string list \<Rightarrow> string \<Rightarrow> string \<Rightarrow> disk list \<Rightarrow> string list \<Rightarrow> planned_aux option list io" where
  "plan_kind E B upper kind osdPaths dslExpr sizeText matches resets =
     (if dslExpr \<noteq> '''' \<and> matches \<noteq> []
      then case B sizeText of
        Inl e \<Rightarrow> io_fail (err_new (''invalid '' @ upper @ '' size: '' @ e))
      | Inr n \<Rightarrow>
          (case planAuxiliaryPartitionsDetailed (oe_lib E) osdPaths matches (\<lambda>p. p \<in> set resets) (word_of_int n) kind of
             Some (Inl e) \<Rightarrow> io_fail (err_new e)
           | Some (Inr ps) \<Rightarrow> io_return ps
           | None \<Rightarrow> io_fail (err_new ''no partition number''))
      else io_return (replicate (length osdPaths) None))"

definition refuse_overlap :: "string \<Rightarrow> string \<Rightarrow> string list \<Rightarrow> string list \<Rightarrow> unit io" where
  "refuse_overlap a b xs ys =
     (let overlap = intersectPathSets xs ys in
      if overlap = [] then io_return ()
      else io_fail (err_new (a @ '' and '' @ b @ '' match sets overlap: '' @ join_with '', '' overlap)))"

definition buildDSLProvisionPlan :: "osd_env \<Rightarrow> size_parser \<Rightarrow> disks_post \<Rightarrow> provision_plan io" where
  "buildDSLProvisionPlan E B req =
     io_bind (matchOSDDisksWithDSL E (rq_OSDMatch req)) (\<lambda>osds.
       if dm_ValidationError osds \<noteq> '''' then io_fail (err_new (dm_ValidationError osds))
       else if dm_MatchedDisks osds = []
       then io_return \<lparr>pv_OSDs = [], pv_Warnings = [''WAL/DB settings ignored because no new OSDs are being added'']\<rparr>
       else
         (let paths = map (dsl_GetDevicePath (oe_lib E)) (dm_MatchedDisks osds); osdSet = buildPathSet (oe_lib E) (dm_MatchedDisks osds) in
          io_bind (match_kind E ''WAL'' (rq_WALMatch req) (rq_WALWipe req)) (\<lambda>(walMatches, walResets, walWarn).
          io_bind (match_kind E ''DB'' (rq_DBMatch req) (rq_DBWipe req)) (\<lambda>(dbMatches, dbResets, dbWarn).
          io_bind (refuse_overlap ''OSD'' ''WAL'' osdSet (buildPathSet (oe_lib E) walMatches)) (\<lambda>_.
          io_bind (refuse_overlap ''OSD'' ''DB'' osdSet (buildPathSet (oe_lib E) dbMatches)) (\<lambda>_.
          io_bind (refuse_overlap ''WAL'' ''DB'' (buildPathSet (oe_lib E) walMatches) (buildPathSet (oe_lib E) dbMatches)) (\<lambda>_.
          io_bind (plan_kind E B ''WAL'' ''wal'' paths (rq_WALMatch req) (rq_WALSize req) walMatches walResets) (\<lambda>walPlan.
          io_bind (plan_kind E B ''DB'' ''db'' paths (rq_DBMatch req) (rq_DBSize req) dbMatches dbResets) (\<lambda>dbPlan.
            io_return \<lparr>pv_OSDs = map (\<lambda>(p, w, d). \<lparr>po_OSDPath = p, po_WAL = w, po_DB = d\<rparr>) (zip paths (zip walPlan dbPlan)),
                       pv_Warnings = walWarn @ dbWarn\<rparr>)))))))))"

definition dryrun_part :: "planned_aux \<Rightarrow> dryrun_partition" where
  "dryrun_part p =
     \<lparr>dq_Kind = pa_Kind p, dq_ParentPath = pa_ParentPath p, dq_Partition = pa_Partition p, dq_Size = formatBytesIEC (sint (pa_SizeBytes p)),
      dq_ResetBeforeUse = pa_ResetBeforeUse p\<rparr>"

definition dryRunResponseFromProvisionPlan :: "provision_plan \<Rightarrow> add_response" where
  "dryRunResponseFromProvisionPlan plan =
     empty_response\<lparr>as_Warnings := pv_Warnings plan,
       as_DryRunPlan := map (\<lambda>o1. \<lparr>do_OSDPath = po_OSDPath o1, do_WAL = map_option dryrun_part (po_WAL o1), do_DB = map_option dryrun_part (po_DB o1)\<rparr>) (pv_OSDs plan)\<rparr>"

definition validation_response :: "go_error \<Rightarrow> add_response" where
  "validation_response e = empty_response\<lparr>as_ValidationError := etext e\<rparr>"

definition buildDSLDryRunPlan :: "osd_env \<Rightarrow> size_parser \<Rightarrow> disks_post \<Rightarrow> add_response io" where
  "buildDSLDryRunPlan E B req =
     io_bind (attempt (buildDSLProvisionPlan E B req)) (\<lambda>r.
       io_return (case r of Inl e \<Rightarrow> validation_response e | Inr plan \<Rightarrow> dryRunResponseFromProvisionPlan plan))"

section \<open>Its execution\<close>

definition buildGeneratedAuxDiskParameter :: "planned_aux \<Rightarrow> string \<Rightarrow> bool \<Rightarrow> bool \<Rightarrow> disk_param \<times> gen_dev" where
  "buildGeneratedAuxDiskParameter plan path encrypt wipe =
     (\<lparr>dp_Path = path, dp_Encrypt = encrypt, dp_Wipe = wipe, dp_LoopSize = 0, dp_SkipPristineCheck = True\<rparr>,
      \<lparr>gd_ParentPath = pa_ParentPath plan, gd_Partition = pa_Partition plan, gd_PartUUID = pa_PartUUID plan, gd_Encrypted = encrypt\<rparr>)"

definition make_aux :: "osd_env \<Rightarrow> planned_aux option \<Rightarrow> bool \<Rightarrow> bool \<Rightarrow> (disk_param \<times> gen_dev) option io" where
  "make_aux E plan encrypt wipe =
     (case plan of
        None \<Rightarrow> io_return None
      | Some p \<Rightarrow> io_bind (createPlannedAuxPartition E p) (\<lambda>(path, p'). io_return (Some (buildGeneratedAuxDiskParameter p' path encrypt wipe))))"

definition manifest_of :: "gen_dev option \<Rightarrow> gen_dev option \<Rightarrow> gen_manifest option" where
  "manifest_of wal db = (if wal = None \<and> db = None then None else Some \<lparr>gm_Version = 0, gm_WAL = wal, gm_DB = db\<rparr>)"

definition failure :: "string \<Rightarrow> string \<Rightarrow> add_report" where
  "failure path e = \<lparr>ar_Path = path, ar_Report = ''Failure'', ar_Error = e\<rparr>"

text \<open>One row of the plan: whether the loop goes on, its report and its warnings.\<close>

definition provision_row :: "osd_env \<Rightarrow> disks_post \<Rightarrow> planned_osd \<Rightarrow> (bool \<times> add_report \<times> string list) io" where
  "provision_row E req row =
     io_bind (attempt (getStorageWithRetry E)) (\<lambda>s.
     case s of
       Inl e \<Rightarrow> io_return (False, failure (po_OSDPath row) (''unable to list system disks: '' @ etext e), [])
     | Inr storage \<Rightarrow>
         io_bind (attempt (make_aux E (po_WAL row) (rq_WALEncrypt req) (rq_WALWipe req))) (\<lambda>w.
         case w of
           Inl e \<Rightarrow> io_return (False, failure (po_OSDPath row) (etext e), [])
         | Inr wal \<Rightarrow>
             io_bind (attempt (make_aux E (po_DB row) (rq_DBEncrypt req) (rq_DBWipe req))) (\<lambda>d.
             case d of
               Inl e \<Rightarrow>
                 io_bind (attempt (cleanupGeneratedAuxEntries E (manifest_of (map_option snd wal) None) (- 1))) (\<lambda>c.
                 io_return (case c of
                   Inr _ \<Rightarrow> (False, failure (po_OSDPath row) (etext e), [])
                 | Inl ce \<Rightarrow>
                     (False, failure (po_OSDPath row) (etext e @ '' (automatic cleanup also failed: '' @ etext ce @ '')''),
                      [''Automatic cleanup of generated WAL/DB partitions failed; manual cleanup may be required''])))
             | Inr db \<Rightarrow>
                 io_bind (attempt (doAddOSDWithStorage E
                     \<lparr>dp_Path = po_OSDPath row, dp_Encrypt = rq_Encrypt req, dp_Wipe = rq_Wipe req, dp_LoopSize = 0, dp_SkipPristineCheck = False\<rparr>
                     (map_option fst wal) (map_option fst db) (Some storage) (manifest_of (map_option snd wal) (map_option snd db)))) (\<lambda>a.
                 io_return (case a of
                   Inl e \<Rightarrow> (False, failure (po_OSDPath row) (etext e), [])
                 | Inr _ \<Rightarrow> (True, \<lparr>ar_Path = po_OSDPath row, ar_Report = ''Success'', ar_Error = ''''\<rparr>, []))))))"

fun provision_rows :: "osd_env \<Rightarrow> disks_post \<Rightarrow> planned_osd list \<Rightarrow> (add_report list \<times> string list) io" where
  "provision_rows E req [] = io_return ([], [])"
| "provision_rows E req (row # rows) =
     io_bind (provision_row E req row) (\<lambda>(go, report, warn).
       if go then io_bind (provision_rows E req rows) (\<lambda>(reports, warns). io_return (report # reports, warn @ warns))
       else io_return ([report], warn))"

definition executeDSLProvisionPlan :: "osd_env \<Rightarrow> provision_plan \<Rightarrow> disks_post \<Rightarrow> add_response io" where
  "executeDSLProvisionPlan E plan req =
     io_bind (provision_rows E req (pv_OSDs plan)) (\<lambda>(reports, warns).
       io_return (empty_response\<lparr>as_Reports := reports, as_Warnings := pv_Warnings plan @ warns\<rparr>))"

definition plain_param :: "disks_post \<Rightarrow> string \<Rightarrow> disk_param" where
  "plain_param req path = \<lparr>dp_Path = path, dp_Encrypt = rq_Encrypt req, dp_Wipe = rq_Wipe req, dp_LoopSize = 0, dp_SkipPristineCheck = False\<rparr>"

definition AddDisksWithDSLRequest :: "osd_env \<Rightarrow> (history \<Rightarrow> dbst) \<Rightarrow> size_parser \<Rightarrow> disks_post \<Rightarrow> add_response io" where
  "AddDisksWithDSLRequest E D B req =
     io_bind (attempt (gate E D)) (\<lambda>g.
     case g of
       Inl e \<Rightarrow> io_return (validation_response e)
     | Inr _ \<Rightarrow>
         if rq_WALMatch req \<noteq> '''' \<or> rq_DBMatch req \<noteq> ''''
         then if rq_DryRun req then buildDSLDryRunPlan E B req
              else io_bind (attempt (buildDSLProvisionPlan E B req)) (\<lambda>p.
                case p of Inl e \<Rightarrow> io_return (validation_response e) | Inr plan \<Rightarrow> executeDSLProvisionPlan E plan req)
         else
           io_bind (attempt (MatchDisksWithDSL E (rq_OSDMatch req) (rq_DryRun req))) (\<lambda>m.
           case m of
             Inl e \<Rightarrow> io_return (validation_response e)
           | Inr result \<Rightarrow>
               if dm_ValidationError result \<noteq> '''' then io_return (empty_response\<lparr>as_ValidationError := dm_ValidationError result\<rparr>)
               else if rq_DryRun req then io_return (empty_response\<lparr>as_DryRunDevices := dm_DryRunDevices result\<rparr>)
               else if dm_MatchedDisks result = [] then io_return empty_response
               else addBulkDisks E D (map (plain_param req \<circ> dsl_GetDevicePath (oe_lib E)) (dm_MatchedDisks result)) None None))"

section \<open>The endpoint\<close>

definition usesDSLDiskAddRequest :: "disks_post \<Rightarrow> bool" where
  "usesDSLDiskAddRequest req \<longleftrightarrow>
     rq_OSDMatch req \<noteq> '''' \<or> rq_WALMatch req \<noteq> '''' \<or> rq_DBMatch req \<noteq> '''' \<or> rq_DryRun req \<or> rq_WALSize req \<noteq> '''' \<or> rq_DBSize req \<noteq> ''''"

definition validatePositiveByteSizeString :: "size_parser \<Rightarrow> string \<Rightarrow> string \<Rightarrow> string option" where
  "validatePositiveByteSizeString B v flagName =
     (case B v of
        Inl e \<Rightarrow> Some (''invalid '' @ flagName @ '': '' @ e)
      | Inr n \<Rightarrow> if n \<le> 0 then Some (flagName @ '' must be greater than 0'') else None)"

definition validateDiskPostRequest :: "size_parser \<Rightarrow> disks_post \<Rightarrow> string option" where
  "validateDiskPostRequest B req =
     (if usesDSLDiskAddRequest req \<and> rq_Path req \<noteq> []
      then Some ''--osd-match/--wal-match/--db-match cannot be used with positional device arguments''
      else if rq_DryRun req \<and> rq_OSDMatch req = '''' then Some ''--dry-run requires --osd-match''
      else if usesDSLDiskAddRequest req \<and> (rq_WALDev req \<noteq> None \<or> rq_DBDev req \<noteq> None)
      then Some ''--wal-device and --db-device are not supported with DSL matching in this version''
      else if rq_WALMatch req \<noteq> '''' \<and> rq_OSDMatch req = '''' then Some ''--wal-match requires --osd-match''
      else if rq_DBMatch req \<noteq> '''' \<and> rq_OSDMatch req = '''' then Some ''--db-match requires --osd-match''
      else if rq_WALMatch req \<noteq> '''' \<and> rq_WALSize req = '''' then Some ''--wal-match requires --wal-size''
      else if rq_DBMatch req \<noteq> '''' \<and> rq_DBSize req = '''' then Some ''--db-match requires --db-size''
      else if rq_WALSize req \<noteq> '''' \<and> rq_WALMatch req = '''' then Some ''--wal-size requires --wal-match''
      else if rq_DBSize req \<noteq> '''' \<and> rq_DBMatch req = '''' then Some ''--db-size requires --db-match''
      else if rq_WALEncrypt req \<and> rq_WALMatch req = '''' \<and> rq_WALDev req = None then Some ''--wal-encrypt requires --wal-match or --wal-device''
      else if rq_WALWipe req \<and> rq_WALMatch req = '''' \<and> rq_WALDev req = None then Some ''--wal-wipe requires --wal-match or --wal-device''
      else if rq_DBEncrypt req \<and> rq_DBMatch req = '''' \<and> rq_DBDev req = None then Some ''--db-encrypt requires --db-match or --db-device''
      else if rq_DBWipe req \<and> rq_DBMatch req = '''' \<and> rq_DBDev req = None then Some ''--db-wipe requires --db-match or --db-device''
      else case (if rq_WALMatch req \<noteq> '''' then validatePositiveByteSizeString B (rq_WALSize req) ''--wal-size'' else None) of
        Some e \<Rightarrow> Some e
      | None \<Rightarrow> (if rq_DBMatch req \<noteq> '''' then validatePositiveByteSizeString B (rq_DBSize req) ''--db-size'' else None))"

text \<open>Every outcome is a successful response whose body tells what failed; the endpoint is serialized by
  a mutex.\<close>

definition cmdDisksPost :: "osd_env \<Rightarrow> (history \<Rightarrow> dbst) \<Rightarrow> size_parser \<Rightarrow> disks_post \<Rightarrow> add_response io" where
  "cmdDisksPost E D B req =
     (case validateDiskPostRequest B req of
        Some e \<Rightarrow> io_return (empty_response\<lparr>as_ValidationError := e\<rparr>)
      | None \<Rightarrow>
          if usesDSLDiskAddRequest req then AddDisksWithDSLRequest E D B req
          else if rq_Path req = [] then io_return empty_response
          else addBulkDisks E D (map (plain_param req) (rq_Path req))
            (map_option (\<lambda>p. \<lparr>dp_Path = p, dp_Encrypt = rq_WALEncrypt req, dp_Wipe = rq_WALWipe req, dp_LoopSize = 0, dp_SkipPristineCheck = False\<rparr>) (rq_WALDev req))
            (map_option (\<lambda>p. \<lparr>dp_Path = p, dp_Encrypt = rq_DBEncrypt req, dp_Wipe = rq_DBWipe req, dp_LoopSize = 0, dp_SkipPristineCheck = False\<rparr>) (rq_DBDev req)))"

end
