(* ===== verification/Osd_Remove_Safety.thy ===== *)
theory Osd_Remove_Safety
  imports Osd_Remove
begin

text \<open>
  What a removal may do when: an OSD is purged only after its process was seen to be gone and, unless
  safety is bypassed, Ceph said that destroying it is safe; storage is wiped, the data directory removed
  and the record deleted only after the OSD map was seen without the OSD.
\<close>

section \<open>What the log shows\<close>

definition stopped :: "osd_env \<Rightarrow> int \<Rightarrow> history \<Rightarrow> bool" where
  "stopped E osd h \<longleftrightarrow>
     happened (oe_host E) (\<lambda>x. isExitCode x 1) (pkill_cmd osd) h \<or> happened (oe_host E) (\<lambda>x. isExitCode x 1) (pgrep_cmd osd) h"

definition safe_to_destroy :: "osd_env \<Rightarrow> int \<Rightarrow> history \<Rightarrow> bool" where
  "safe_to_destroy E osd = happened (oe_host E) answered (safe_destroy_cmd osd)"

definition lists_without :: "int \<Rightarrow> reply \<Rightarrow> bool" where
  "lists_without osd x \<longleftrightarrow> (\<exists>ids. Option.bind (reply_json x) dec_ids = Some ids \<and> osd \<notin> set ids)"

definition gone :: "osd_env \<Rightarrow> int \<Rightarrow> history \<Rightarrow> bool" where
  "gone E osd = happened (oe_host E) (lists_without osd) osd_ls_cmd"

definition enough_osds :: "osd_env \<Rightarrow> history \<Rightarrow> bool" where
  "enough_osds E h \<longleftrightarrow> (\<exists>k < length h. \<exists>ds. h ! k = Db ''diskObjects'' [] \<and> oe_disks E (take k h) = Inr ds \<and> 3 < length ds)"

definition data_removed :: "osd_env \<Rightarrow> int \<Rightarrow> history \<Rightarrow> bool" where
  "data_removed E osd = happened (oe_host E) answered (RemoveAll (getOSDDataPath E osd))"

fun is_purge :: "request \<Rightarrow> bool" where
  "is_purge (Cmd (c # s # p # more_args)) \<longleftrightarrow> c = ''ceph'' \<and> s = ''osd'' \<and> p = ''purge''"
| "is_purge _ \<longleftrightarrow> False"

fun is_remove_all :: "request \<Rightarrow> bool" where
  "is_remove_all (RemoveAll p) \<longleftrightarrow> True"
| "is_remove_all _ \<longleftrightarrow> False"

fun is_record_delete :: "request \<Rightarrow> bool" where
  "is_record_delete (Db s a) \<longleftrightarrow> s = ''diskDeleteByMemberAndPath''"
| "is_record_delete _ \<longleftrightarrow> False"

definition remove_allows :: "osd_env \<Rightarrow> int \<Rightarrow> bool \<Rightarrow> history \<Rightarrow> request \<Rightarrow> bool" where
  "remove_allows E osd bypass h r \<longleftrightarrow>
     (is_purge r \<longrightarrow> r = purge_cmd osd \<and> stopped E osd h \<and> (bypass \<or> (safe_to_destroy E osd h \<and> enough_osds E h))) \<and>
     (changes_carrier r \<longrightarrow> stopped E osd h \<and> gone E osd h) \<and>
     (is_remove_all r \<longrightarrow> r = RemoveAll (getOSDDataPath E osd) \<and> stopped E osd h \<and> gone E osd h) \<and>
     (is_record_delete r \<longrightarrow> stopped E osd h \<and> gone E osd h \<and> data_removed E osd h)"

fun records :: "request \<Rightarrow> bool" where
  "records (Db s a) \<longleftrightarrow> s = ''diskCreate''"
| "records _ \<longleftrightarrow> False"

definition tame :: "request \<Rightarrow> bool" where
  "tame r \<longleftrightarrow> \<not> is_purge r \<and> \<not> changes_carrier r \<and> \<not> is_remove_all r \<and> \<not> is_record_delete r \<and> \<not> records r"

lemma grows_shown:
  "grows (stopped E osd)" "grows (safe_to_destroy E osd)" "grows (gone E osd)" "grows (data_removed E osd)"
  unfolding stopped_def safe_to_destroy_def gone_def data_removed_def by (intro grows_rules)+

lemma grows_enough: "grows (enough_osds E)"
  unfolding grows_def enough_osds_def by (fastforce simp: nth_append)

lemma tame_triple: "only tame f \<Longrightarrow> grows I \<Longrightarrow> triple (remove_allows E osd bypass) I f (\<lambda>_. I) any_result"
  by (rule triple_weaken [OF only_triple [where I = I and R = tame]])
    (auto simp: tame_def remove_allows_def dest: growsD)

lemma only_depends: "(\<And>k. only R (f k)) \<Longrightarrow> only R (\<lambda>h. f (n h) h)"
  unfolding only_def by blast

section \<open>Steps that only look\<close>

lemma tame_simps [simp]:
  "tame (Stat p)" "tame (ReadFile p)" "tame (WriteFile p j)" "tame (Rename p q)" "tame (RemoveFile p)" "tame (EvalSymlinks p)"
  "tame (Flock p)" "tame (Funlock p)" "tame (Probe s a)" "tame (sfdisk_json p)" "tame (pkill_cmd osd)" "tame (pgrep_cmd osd)"
  "tame osd_ls_cmd" "tame (safe_destroy_cmd osd)" "tame (ok_to_stop_cmd osds)" "tame (config_set_cmd k v)" "tame (pool_rule_cmd pool rule)"
  by (simp_all add: tame_def sfdisk_json_def pkill_cmd_def pgrep_cmd_def osd_ls_cmd_def safe_destroy_cmd_def ok_to_stop_cmd_def
      config_set_cmd_def pool_rule_cmd_def)

lemma tame_db [simp]: "tame (Db s a) \<longleftrightarrow> s \<noteq> ''diskDeleteByMemberAndPath'' \<and> s \<noteq> ''diskCreate''"
  by (simp add: tame_def)

lemma tame_cmd [simp]: "c \<noteq> ''sfdisk'' \<Longrightarrow> c \<noteq> ''ceph-bluestore-tool'' \<Longrightarrow> c \<noteq> ''sh'' \<Longrightarrow> c \<noteq> ''ceph'' \<Longrightarrow> tame (Cmd (c # a))"
  by (cases "Cmd (c # a)" rule: is_purge.cases) (auto simp: tame_def)

lemma tame_ceph [simp]: "tame (Cmd (''ceph'' # s # a)) \<longleftrightarrow> s \<noteq> ''osd'' \<or> a = [] \<or> hd a \<noteq> ''purge''"
  by (cases a) (auto simp: tame_def)

lemma tame_label [simp]: "tame (Cmd [''ceph-bluestore-tool'', ''show-label'', ''--dev'', d])"
  by (simp add: tame_def)

lemmas only_steps = only_rules only_ask only_must only_observe only_of_result

lemma tame_queries: "only tame (HaveOSD E osd)" "only tame (OSD_Path E osd)" "only tame (OSD_List E)" "only tame (CountExclude E osd)"
  unfolding HaveOSD_def OSD_Path_def OSD_List_def CountExclude_def disks_query_def
  by (auto intro!: only_steps split: list.split)

lemma tame_rule_id: "only tame (getCrushRuleID E name)"
  unfolding getCrushRuleID_def by (intro only_steps) simp_all

lemma tame_default_rule: "only tame (getDefaultCrushRule E)"
  unfolding getDefaultCrushRule_def GetConfigItem_def Let_def by (intro only_steps) simp_all

lemma tame_have_rule: "only tame (haveCrushRule E name)"
  unfolding haveCrushRule_def listCrushRules_def by (intro only_steps) simp_all

lemma tame_set_default: "only tame (setDefaultCrushRule E rule)"
  unfolding setDefaultCrushRule_def SetConfigItem_def setConfigItem_def by (intro only_steps tame_rule_id) simp_all

lemma tame_set_pools: "only tame (set_pools E rule ps)"
  by (induction ps) (auto simp: setPoolCrushRule_def intro!: only_steps)

lemma tame_switch: "only tame (switchFailureDomain E old new)"
  unfolding switchFailureDomain_def getPoolsForDomain_def
  by (intro only_steps tame_set_default tame_have_rule tame_rule_id tame_set_pools) simp_all

lemma tame_downgrade: "only tame (IsDowngradeNeeded E osd)"
  unfolding IsDowngradeNeeded_def by (intro only_steps tame_default_rule tame_rule_id tame_queries)

lemma tame_scale: "only tame (scaleDownFailureDomain E osd)"
  unfolding scaleDownFailureDomain_def by (intro only_steps tame_downgrade tame_switch)

lemma tame_sanity: "only tame (sanityCheck E osd)"
  unfolding sanityCheck_def by (intro only_steps tame_queries)

lemma tame_tree: "only tame (haveOSDInCeph E osd)"
  unfolding haveOSDInCeph_def by (intro only_steps) simp_all

lemma tame_try: "tame r \<Longrightarrow> only tame (try_until E r k)"
  by (induction k) (auto intro!: only_steps)

lemma tame_out_down: "only tame (outOSD E osd)" "only tame (downOSD E osd)" "only tame (outDownOSD E osd)" "only tame (reweightOSD E osd)"
  unfolding outOSD_def downOSD_def outDownOSD_def reweightOSD_def ceph_run_def by (intro only_steps; simp)+

lemma tame_stop_check: "only tame (safetyCheckStop E osds)"
  unfolding safetyCheckStop_def by (intro only_steps tame_try) simp_all

lemma tame_drain: "only tame (drain E osd bypass)"
  unfolding drain_def by (intro only_steps tame_tree tame_out_down tame_stop_check)

lemma tame_autostart: "only tame (suppressOSDAutostart E osd)" "only tame (restoreOSDAutostart E osd)"
  unfolding suppressOSDAutostart_def restoreOSDAutostart_def Let_def by (intro only_steps; simp)+

lemma tame_presence: "only tame (waitForOSDPresence E osd)"
proof -
  have "only tame (presence_loop E osd k)" for k
  proof (induction k)
    case 0
    show ?case by (subst presence_loop.simps) (auto intro!: only_steps tame_tree)
  next
    case (Suc k)
    show ?case by (subst presence_loop.simps) (auto intro!: only_steps tame_tree Suc)
  qed
  then have "only tame (\<lambda>h. presence_loop E osd (oe_polls E h) h)" by (rule only_depends)
  then show ?thesis unfolding waitForOSDPresence_def [abs_def] .
qed

lemma only_flock: "R (Flock p) \<Longrightarrow> only R (flock_loop E p k)"
proof (induction k)
  case 0
  then show ?case by (subst flock_loop.simps) (auto intro!: only_steps)
next
  case (Suc k)
  then show ?case by (subst flock_loop.simps) (auto intro!: only_steps)
qed

lemma only_lock:
  assumes "\<And>p. R (EvalSymlinks p)" "\<And>a. R (Probe ''open'' a)" "\<And>p. R (Flock p)" "\<And>p. R (Funlock p)" "\<And>p. only R (operation p)"
  shows "only R (withExclusiveCarrierLock E parent operation)"
proof -
  have lock: "only R (\<lambda>h. flock_loop E p (oe_polls E h) h)" for p
    by (rule only_depends, rule only_flock, rule assms)
  show ?thesis unfolding withExclusiveCarrierLock_def Let_def by (intro only_steps lock assms)
qed

lemma tame_manifest: "only tame (readGeneratedAuxManifest E d)" "only tame (writeGeneratedAuxManifest E d m)"
    "only tame (persistGeneratedAuxManifest E d m)"
  unfolding readGeneratedAuxManifest_def persistGeneratedAuxManifest_def writeGeneratedAuxManifest_def Let_def by (intro only_steps; simp)+

lemma tame_migrate_locked: "only tame (migrate_locked E d kind entry p)"
  unfolding migrate_locked_def Let_def by (intro only_steps only_table) simp_all

lemma tame_migrate: "only tame (migrateGeneratedAuxManifest E d)"
  unfolding migrateGeneratedAuxManifest_def migrate_entry_def
  by (intro only_steps tame_manifest only_lock tame_migrate_locked tame_simps)

section \<open>Storage is cleared only by carrier commands\<close>

definition clearing :: "request \<Rightarrow> bool" where
  "clearing r \<longleftrightarrow> \<not> is_purge r \<and> \<not> is_remove_all r \<and> \<not> is_record_delete r \<and> \<not> records r"

lemma tame_clearing: "tame r \<Longrightarrow> clearing r"
  by (simp add: tame_def clearing_def)

lemma clearing_simps [simp]:
  "clearing (gpt_delete p n)" "clearing (zap_device p)" "clearing (partx_delete p n)"
  by (simp_all add: clearing_def gpt_delete_def zap_device_def partx_delete_def)

lemma clearing_locked: "only clearing (cleanup_locked E kind entry p)"
  unfolding cleanup_locked_def Let_def
  by (intro only_steps only_table only_kernel only_wipe only_deletePartition) (simp_all add: tame_clearing)

lemma clearing_cleanup: "only clearing (cleanupGeneratedAuxDevice E kind entry osd)"
  unfolding cleanupGeneratedAuxDevice_def closeEncryptedAuxDevice_def Let_def
  by (intro only_steps only_lock clearing_locked) (simp_all add: tame_clearing)

lemma clearing_devices: "only clearing (cleanupGeneratedAuxDevices E d osd)"
  unfolding cleanupGeneratedAuxDevices_def
  by (intro only_steps clearing_cleanup only_mono [OF tame_manifest(1)] only_mono [OF tame_manifest(3)] tame_clearing)

lemma clearing_wipe: "only clearing (wipe_loop E p k)"
  by (induction k) (auto intro!: only_steps only_wipe)

lemma clearing_storage: "only clearing (clearPrimaryStorage E osd)"
  unfolding clearPrimaryStorage_def wipeDevice_def
  by (intro only_steps clearing_wipe only_mono [OF tame_queries(2)] tame_clearing) simp_all

lemma clearing_triple:
  assumes "only clearing f" "\<And>h. I h \<Longrightarrow> stopped E osd h \<and> gone E osd h" "grows I"
  shows "triple (remove_allows E osd bypass) I f (\<lambda>_. I) any_result"
  by (rule triple_weaken [OF only_triple [where I = I and R = clearing]])
    (use assms in \<open>auto simp: clearing_def remove_allows_def dest: growsD\<close>)

section \<open>Steps whose outcome the removal relies on\<close>

lemma exit_loop_stops:
  assumes "grows I"
  shows "triple (remove_allows E osd bypass) I (exit_loop E osd k) (\<lambda>exited h. I h \<and> (exited \<longrightarrow> stopped E osd h)) any_result"
proof (induction k)
  let ?Mid = "\<lambda>r h. I h \<and> (isExitCode r 1 \<longrightarrow> stopped E osd h)"
  have ask: "triple (remove_allows E osd bypass) I (osd_ask E (pgrep_cmd osd)) ?Mid any_result"
    by (rule triple_ask) (use assms tame_simps(12) [of osd] in \<open>auto simp: tame_def remove_allows_def stopped_def happened_snoc dest: growsD\<close>)
  {
    case 0
    show ?case by (subst exit_loop.simps, rule triple_bind [OF ask]) (auto intro!: triple_rules triple_return triple_fail)
  next
    case (Suc k)
    have "triple (remove_allows E osd bypass) (?Mid r) (exit_loop E osd k) (\<lambda>exited h. I h \<and> (exited \<longrightarrow> stopped E osd h)) any_result" for r
      by (rule triple_weaken [OF Suc]) auto
    then show ?case by (subst exit_loop.simps, intro triple_bind [OF ask] triple_rules) (auto intro!: triple_return triple_fail)
  }
qed

lemma kill_stops:
  assumes "grows I"
  shows "triple (remove_allows E osd bypass) I (killOSD E osd) (\<lambda>_ h. I h \<and> stopped E osd h) any_result"
proof -
  let ?Q = "remove_allows E osd bypass" and ?Mid = "\<lambda>r h. I h \<and> (isExitCode r 1 \<longrightarrow> stopped E osd h)"
  have ask: "triple ?Q I (osd_ask E (pkill_cmd osd)) ?Mid any_result"
    by (rule triple_ask) (use assms tame_simps(11) [of osd] in \<open>auto simp: tame_def remove_allows_def stopped_def happened_snoc dest: growsD\<close>)
  have wait: "triple ?Q I (waitForOSDExit E osd) (\<lambda>exited h. I h \<and> (exited \<longrightarrow> stopped E osd h)) any_result"
    unfolding waitForOSDExit_def [abs_def] by (rule triple_depends, rule exit_loop_stops [OF assms])
  have force: "triple ?Q I (io_wrap m (osd_must E (Cmd (''pkill'' # a)))) (\<lambda>_. I) any_result" for m a
    by (rule tame_triple [OF _ assms]) (auto intro!: only_steps)
  have wait': "triple ?Q (?Mid r) (waitForOSDExit E osd) (\<lambda>exited h. I h \<and> (exited \<longrightarrow> stopped E osd h)) any_result" for r
    by (rule triple_weaken [OF wait]) auto
  have force': "triple ?Q (\<lambda>h. I h \<and> (ex \<longrightarrow> stopped E osd h)) (io_wrap m (osd_must E (Cmd (''pkill'' # a)))) (\<lambda>_. I) any_result" for m a ex
    by (rule triple_weaken [OF force]) auto
  show ?thesis unfolding killOSD_def
    by (rule triple_bind [OF ask], intro triple_rules triple_bind [OF wait'] triple_bind [OF force'] triple_bind [OF wait] triple_return triple_fail)
      auto
qed

lemma try_until_seen:
  assumes "tame r" "grows I"
  shows "triple (remove_allows E osd bypass) I (try_until E r k) (\<lambda>ok h. I h \<and> (ok \<longrightarrow> happened (oe_host E) answered r h)) any_result"
proof (induction k)
  case (Suc k)
  let ?Mid = "\<lambda>a h. I h \<and> (answered a \<longrightarrow> happened (oe_host E) answered r h)"
  have ask: "triple (remove_allows E osd bypass) I (osd_ask E r) ?Mid any_result"
    by (rule triple_ask) (use assms in \<open>auto simp: tame_def remove_allows_def happened_snoc dest: growsD\<close>)
  have again: "triple (remove_allows E osd bypass) (?Mid a) (try_until E r k) (\<lambda>ok h. I h \<and> (ok \<longrightarrow> happened (oe_host E) answered r h)) any_result" for a
    by (rule triple_weaken [OF Suc]) auto
  show ?case unfolding try_until.simps by (rule triple_bind [OF ask], intro triple_rules again triple_return) auto
qed (auto intro!: triple_return)

lemma destroy_check_seen:
  assumes "grows I"
  shows "triple (remove_allows E osd bypass) I (safetyCheckDestroy E osd) (\<lambda>_ h. I h \<and> safe_to_destroy E osd h) any_result"
  unfolding safetyCheckDestroy_def
  by (rule triple_bind [OF try_until_seen [OF _ assms]], simp, intro triple_rules triple_return triple_fail) (auto simp: safe_to_destroy_def)

lemma min_check_seen:
  assumes "grows I"
  shows "triple (remove_allows E osd bypass) I (checkMinOSDs E osd) (\<lambda>_ h. I h \<and> enough_osds E h) any_result"
proof -
  let ?Mid = "\<lambda>ds h. I h \<and> (3 < length ds \<longrightarrow> enough_osds E h)"
  have seen: "enough_osds E (h @ [Db ''diskObjects'' []])" if "oe_disks E h = Inr ds" "3 < length ds" for h ds
    unfolding enough_osds_def using that by (intro exI [of _ "length h"]) auto
  have rows: "triple (remove_allows E osd bypass) I (OSD_List E) ?Mid any_result"
    unfolding OSD_List_def disks_query_def
    by (rule triple_observe) (use assms seen in \<open>auto simp: remove_allows_def dest: growsD\<close>)
  show ?thesis unfolding checkMinOSDs_def
    by (rule triple_bind [OF rows], intro triple_rules triple_return triple_fail) auto
qed

lemma map_check_seen:
  assumes "grows I"
  shows "triple (remove_allows E osd bypass) I (haveOSDInOSDMap E osd) (\<lambda>inMap h. I h \<and> (\<not> inMap \<longrightarrow> gone E osd h)) any_result"
proof -
  let ?Mid = "\<lambda>r h. I h \<and> (lists_without osd r \<longrightarrow> gone E osd h)"
  have ls: "triple (remove_allows E osd bypass) I (io_wrap m (osd_must E osd_ls_cmd)) ?Mid any_result" for m
    by (intro triple_wrap triple_must)
      (use assms tame_simps(13) in \<open>auto simp: tame_def remove_allows_def gone_def happened_snoc dest: growsD\<close>)
  show ?thesis unfolding haveOSDInOSDMap_def
    by (rule triple_bind [OF ls], intro triple_rules triple_return triple_fail) (auto simp: lists_without_def)
qed

text \<open>Purging needs the stop and, unless bypassed, the safety checks.\<close>

definition may_purge :: "osd_env \<Rightarrow> int \<Rightarrow> bool \<Rightarrow> history \<Rightarrow> bool" where
  "may_purge E osd bypass h \<longleftrightarrow> stopped E osd h \<and> (bypass \<or> (safe_to_destroy E osd h \<and> enough_osds E h))"

lemma grows_may_purge: "grows (may_purge E osd bypass)"
  unfolding may_purge_def by (intro grows_rules grows_shown grows_enough)

lemma purge_request: "is_purge (purge_cmd osd)" "\<not> changes_carrier (purge_cmd osd)" "\<not> is_remove_all (purge_cmd osd)" "\<not> is_record_delete (purge_cmd osd)"
  by (simp_all add: purge_cmd_def)

lemma may_purge_allows: "may_purge E osd bypass h \<Longrightarrow> remove_allows E osd bypass h (purge_cmd osd)"
  by (simp add: remove_allows_def purge_request may_purge_def)

lemma purge_loop_triple:
  "triple (remove_allows E osd bypass) (may_purge E osd bypass) (purge_loop E osd k) (\<lambda>_. may_purge E osd bypass) any_result"
proof (induction k)
  case (Suc k)
  let ?Q = "remove_allows E osd bypass" and ?I = "may_purge E osd bypass"
  have purge: "triple ?Q ?I (attempt (doPurge E osd)) (\<lambda>_. ?I) any_result"
    unfolding doPurge_def
    by (intro triple_attempt triple_bind triple_must triple_return)
      (auto intro: may_purge_allows growsD [OF grows_may_purge])
  have down: "triple ?Q ?I (if b then io_bind (attempt (downOSD E osd)) (\<lambda>_. io_return ()) else io_return ()) (\<lambda>_. ?I) any_result" for b
    by (rule tame_triple [OF _ grows_may_purge]) (intro only_steps tame_out_down)
  show ?case unfolding purge_loop.simps
    by (rule triple_bind [OF purge], intro triple_rules triple_return triple_fail TrueI triple_bind [OF down] Suc)
qed (auto intro!: triple_return)

lemma purge_triple:
  "triple (remove_allows E osd bypass) (may_purge E osd bypass) (purgeOSD E osd) (\<lambda>_ h. stopped E osd h \<and> gone E osd h) any_result"
proof -
  let ?Q = "remove_allows E osd bypass" and ?I = "may_purge E osd bypass"
  let ?Mid = "\<lambda>inMap h. ?I h \<and> (\<not> inMap \<longrightarrow> gone E osd h)"
  have round: "triple ?Q ?I (purge_round E osd) ?Mid any_result"
    unfolding purge_round_def purgeWithRetries_def
    by (rule triple_bind [OF purge_loop_triple], rule triple_wrap, rule map_check_seen [OF grows_may_purge])
  have down: "triple ?Q (?Mid b) (downOSD E osd) (\<lambda>_. ?I) any_result" for b
    by (rule triple_weaken [OF tame_triple [OF tame_out_down(2) grows_may_purge]]) auto
  show ?thesis unfolding purgeOSD_def
    by (rule triple_bind [OF round], intro triple_rules triple_return triple_fail triple_bind [OF down] triple_bind [OF round])
      (auto simp: may_purge_def)
qed

lemma forget_triple:
  "triple (remove_allows E osd bypass) (\<lambda>h. stopped E osd h \<and> gone E osd h) (removeOSDConfig E osd)
     (\<lambda>_ h. (stopped E osd h \<and> gone E osd h) \<and> data_removed E osd h) any_result"
proof -
  let ?I = "\<lambda>h. stopped E osd h \<and> gone E osd h"
  have I: "grows ?I" by (intro grows_rules grows_shown)
  show ?thesis unfolding removeOSDConfig_def
    by (intro triple_wrap triple_bind triple_must triple_return)
      (auto simp: remove_allows_def data_removed_def happened_snoc intro: growsD [OF grows_shown(1)] growsD [OF grows_shown(3)])
qed

text \<open>The record was deleted.\<close>

definition record_deleted :: "osd_env \<Rightarrow> history \<Rightarrow> bool" where
  "record_deleted E h \<longleftrightarrow> (\<exists>path. happened (oe_host E) answered (Db ''diskDeleteByMemberAndPath'' [oe_name E, path]) h)"

lemma delete_triple:
  "triple (remove_allows E osd bypass) (\<lambda>h. (stopped E osd h \<and> gone E osd h) \<and> data_removed E osd h) (OSD_Delete E osd)
     (\<lambda>_. record_deleted E) any_result"
proof -
  let ?I = "\<lambda>h. (stopped E osd h \<and> gone E osd h) \<and> data_removed E osd h"
  have I: "grows ?I" by (intro grows_rules grows_shown)
  show ?thesis unfolding OSD_Delete_def DeleteDisk_def
    by (rule triple_bind [OF tame_triple [OF tame_queries(2) I]], intro triple_bind triple_must triple_return)
      (auto simp: remove_allows_def record_deleted_def happened_snoc)
qed

lemma teardown_triple:
  "triple (remove_allows E osd bypass)
     (\<lambda>h. (stopped E osd h \<and> (bypass \<or> enough_osds E h)) \<and> (present \<or> mapOnly \<or> gone E osd h))
     (teardown E osd bypass present mapOnly) (\<lambda>_. record_deleted E) any_result"
proof -
  let ?Q = "remove_allows E osd bypass" and ?G = "\<lambda>h. stopped E osd h \<and> gone E osd h"
  let ?P = "\<lambda>h. (stopped E osd h \<and> (bypass \<or> enough_osds E h)) \<and> (present \<or> mapOnly \<or> gone E osd h)"
  let ?S = "\<lambda>h. if present \<or> mapOnly then may_purge E osd bypass h else ?G h"
  have P: "grows ?P" by (intro grows_rules grows_shown grows_enough)
  have G: "grows ?G" by (intro grows_rules grows_shown)
  have check: "triple ?Q ?P (if (present \<or> mapOnly) \<and> \<not> bypass then safetyCheckDestroy E osd else io_return ()) (\<lambda>_. ?S) any_result"
    by (intro triple_if triple_return triple_weaken [OF destroy_check_seen [OF P]]) (auto simp: may_purge_def)
  have purge: "triple ?Q ?S (if present \<or> mapOnly then purgeOSD E osd else io_return ()) (\<lambda>_. ?G) any_result"
    by (intro triple_if triple_return triple_weaken [OF purge_triple]) auto
  have clear: "triple ?Q ?G (attempt (clearPrimaryStorage E osd)) (\<lambda>_. ?G) any_result"
    by (rule clearing_triple [OF _ _ G]) (auto intro!: only_attempt clearing_storage)
  have aux: "triple ?Q ?G (io_wrap m (cleanupGeneratedAuxDevices E (getOSDDataPath E osd) osd)) (\<lambda>_. ?G) any_result" for m
    by (rule clearing_triple [OF _ _ G]) (auto intro!: only_wrap clearing_devices)
  show ?thesis unfolding teardown_def
    by (rule triple_bind [OF check], rule triple_bind [OF purge], rule triple_bind [OF clear], rule triple_bind [OF aux],
      rule triple_bind [OF forget_triple], rule triple_wrap, rule delete_triple)
qed

lemma stop_triple:
  assumes I: "grows I"
  shows "triple (remove_allows E osd bypass) I (stop_and_down E osd bypass isPresent)
     (\<lambda>(present, mapOnly) h. (stopped E osd h \<and> I h) \<and> (present \<or> mapOnly \<or> gone E osd h)) any_result"
proof -
  let ?Q = "remove_allows E osd bypass" and ?I = "\<lambda>h. I h \<and> stopped E osd h"
  let ?Post = "\<lambda>(present, mapOnly) h. (stopped E osd h \<and> I h) \<and> (present \<or> mapOnly \<or> gone E osd h)"
  have J: "grows ?I" using I grows_shown(1) by (rule grows_conj)
  have kill: "triple ?Q I (io_wrap m (killOSD E osd)) (\<lambda>_. ?I) any_result" for m
    by (rule triple_wrap, rule kill_stops [OF I])
  have mid: "triple ?Q ?I (if isPresent then io_bind (downOSD E osd) (\<lambda>_. io_return True)
      else io_bind (io_wrap m (waitForOSDPresence E osd)) (\<lambda>present.
        if \<not> present then io_return False
        else io_bind (reweightOSD E osd) (\<lambda>_.
          io_bind (if \<not> bypass then safetyCheckStop E [osd] else io_return ()) (\<lambda>_.
          io_bind (outDownOSD E osd) (\<lambda>_. io_return True))))) (\<lambda>_. ?I) any_result" for m
    by (rule tame_triple [OF _ J]) (intro only_steps tame_out_down tame_presence tame_stop_check)
  have ls: "triple ?Q ?I (io_wrap m (haveOSDInOSDMap E osd)) (\<lambda>inMap h. ?I h \<and> (\<not> inMap \<longrightarrow> gone E osd h)) any_result" for m
    by (rule triple_wrap, rule map_check_seen [OF J])
  have down: "triple ?Q (\<lambda>h. ?I h \<and> (\<not> b \<longrightarrow> gone E osd h)) (downOSD E osd) (\<lambda>_. ?I) any_result" for b
    by (rule triple_weaken [OF tame_triple [OF tame_out_down(2) J]]) auto
  show ?thesis unfolding stop_and_down_def
    by (rule triple_bind [OF kill], rule triple_bind [OF mid], intro triple_rules triple_return triple_bind [OF ls] triple_bind [OF down]) auto
qed

lemma remove_triple:
  "triple (remove_allows E osd bypass) (\<lambda>_. True) (doRemoveOSD E osd bypass) (\<lambda>_. record_deleted E) any_result"
proof -
  let ?Q = "remove_allows E osd bypass" and ?I = "\<lambda>h. bypass \<or> enough_osds E h"
  have I: "grows ?I" by (intro grows_rules grows_enough)
  have early: "triple ?Q (\<lambda>_. True) (sanityCheck E osd) (\<lambda>_ _. True) any_result"
      "triple ?Q (\<lambda>_. True) (io_wrap m (migrateGeneratedAuxManifest E d)) (\<lambda>_ _. True) any_result" for m d
    by (rule tame_triple, intro only_wrap tame_sanity tame_migrate, rule grows_const)+
  have check: "triple ?Q (\<lambda>_. True) (if \<not> bypass then checkMinOSDs E osd else io_return ()) (\<lambda>_. ?I) any_result"
    by (intro triple_if triple_return triple_weaken [OF min_check_seen [OF grows_const]]) auto
  have steps: "triple ?Q ?I (scaleDownFailureDomain E osd) (\<lambda>_. ?I) any_result" "triple ?Q ?I (drain E osd bypass) (\<lambda>_. ?I) any_result"
      "triple ?Q ?I (io_wrap m (suppressOSDAutostart E osd)) (\<lambda>_. ?I) any_result" for m
    by (rule tame_triple [OF _ I], intro only_wrap tame_scale tame_drain tame_autostart)+
  let ?Mid = "\<lambda>res h. case res of Inl e \<Rightarrow> True | Inr (present, mapOnly) \<Rightarrow> (stopped E osd h \<and> ?I h) \<and> (present \<or> mapOnly \<or> gone E osd h)"
  have stop: "triple ?Q ?I (attempt (stop_and_down E osd bypass isPresent)) ?Mid any_result" for isPresent
    by (rule triple_attempt, rule triple_weaken [OF stop_triple [OF I]]) auto
  have restore: "triple ?Q (\<lambda>_. True) (io_bind (if s then attempt (restoreOSDAutostart E osd) else io_return (Inr ())) (\<lambda>_. io_fail e))
      (\<lambda>_. record_deleted E) any_result" for s e
  proof -
    have "triple ?Q (\<lambda>_. True) (if s then attempt (restoreOSDAutostart E osd) else io_return (Inr ())) (\<lambda>_ _. True) any_result"
      by (rule tame_triple [OF _ grows_const]) (intro only_steps tame_autostart)
    then show ?thesis by (rule triple_bind) (rule triple_fail, rule TrueI)
  qed
  have rest: "triple ?Q (?Mid res) (case res of
         Inl e \<Rightarrow> io_bind (if s then attempt (restoreOSDAutostart E osd) else io_return (Inr ())) (\<lambda>_. io_fail e)
       | Inr (present, mapOnly) \<Rightarrow> teardown E osd bypass present mapOnly) (\<lambda>_. record_deleted E) any_result" for res s
  proof (cases res)
    case (Inl e)
    show ?thesis unfolding Inl sum.case by (rule restore)
  next
    case (Inr p)
    then show ?thesis using teardown_triple by (cases p) simp
  qed
  show ?thesis unfolding doRemoveOSD_def
    by (rule triple_bind [OF early(1)], rule triple_bind [OF early(2)], rule triple_bind [OF check], rule triple_bind [OF steps(1)],
      rule triple_bind [OF steps(2)], rule triple_bind [OF steps(3)], rule triple_bind [OF stop], rule rest)
qed

text \<open>C10 (safety). A removal destroys nothing too early, whatever the host answers and whatever fails. An
  OSD is purged only if it is the one to be removed, after a process query showed that its daemon is gone
  and, unless safety is bypassed, after Ceph answered that destroying it is safe and the table had more
  than three OSDs. Devices are wiped, partitions deleted and the data directory removed only when, in
  addition to the stop, the OSD map was listed without the OSD; the record of the OSD is deleted after
  that, and after its data directory was removed. A removal that succeeds has deleted the record.\<close>

theorem remove_osd_safe:
  assumes "doRemoveOSD E osd bypass h = (res, h @ ext)"
  shows "(\<forall>k < length ext. remove_allows E osd bypass (h @ take k ext) (ext ! k)) \<and>
    (res = Inr () \<longrightarrow> record_deleted E (h @ ext))"
proof (intro conjI allI impI)
  show "remove_allows E osd bypass (h @ take k ext) (ext ! k)" if "k < length ext" for k
    using triple_request [OF remove_triple TrueI assms that] .
  show "record_deleted E (h @ ext)" if "res = Inr ()"
    using tripleD [OF remove_triple TrueI assms] that by auto
qed

text \<open>A removal of the fourth OSD.\<close>

definition demo_rows :: "configured_disk list" where
  "demo_rows = map (\<lambda>(n, m). \<lparr>cd_OSD = n, cd_Path = ''/dev/vd'' @ m, cd_Location = m\<rparr>) [(1, ''a''), (2, ''b''), (3, ''c''), (4, ''d'')]"

definition remove_host :: host where
  "remove_host h r =
     (if r = Cmd [''ceph'', ''osd'', ''crush'', ''rule'', ''dump'', ''microceph_auto_host''] then Answer '''' (Some (JObj [(''rule_id'', JInt 1)]))
      else if r = Cmd [''ceph'', ''config'', ''get'', ''mon'', ''osd_pool_default_crush_rule''] then Answer ''0'' None
      else if r = Cmd [''ceph'', ''osd'', ''tree'', ''-f'', ''json''] then Answer '''' (Some (JObj [(''nodes'', JArr [JObj [(''id'', JInt 4), (''type'', JStr ''osd'')]])]))
      else if r = osd_ls_cmd then Answer '''' (Some (JArr [JInt 1, JInt 2, JInt 3]))
      else if r = ReadFile ''/data/osd/ceph-4/generated-aux-devices.json'' then Failed True None ''no such file''
      else if r = pkill_cmd 4 then Failed False (Some 1) ''exit status 1''
      else Answer '''' None)"

definition remove_env :: osd_env where
  "remove_env = \<lparr>oe_host = remove_host, oe_lib = plain_lib, oe_polls = (\<lambda>_. 1), oe_storage = (\<lambda>_. Inr []),
     oe_name = ''d'', oe_data = ''/data'', oe_disks = (\<lambda>_. Inr demo_rows), oe_tags = (\<lambda>_. Inr []), oe_gjson = demo_gjson, oe_run_error = (\<lambda>_. None)\<rparr>"

lemma demo_removal:
  "doRemoveOSD remove_env 4 False [] = (Inr (), [] @ snd (doRemoveOSD remove_env 4 False []))"
  "purge_cmd 4 \<in> set (snd (doRemoveOSD remove_env 4 False []))"
  by code_simp+

theorem remove_osd_safe_witness:
  "record_deleted remove_env (snd (doRemoveOSD remove_env 4 False [])) \<and>
   (\<exists>k. remove_allows remove_env 4 False (take k (snd (doRemoveOSD remove_env 4 False []))) (purge_cmd 4))"
proof
  note run = remove_osd_safe [OF demo_removal(1)]
  from run show "record_deleted remove_env (snd (doRemoveOSD remove_env 4 False []))" by simp
  from demo_removal(2) obtain k where "k < length (snd (doRemoveOSD remove_env 4 False []))" "snd (doRemoveOSD remove_env 4 False []) ! k = purge_cmd 4"
    by (auto simp: in_set_conv_nth)
  with run show "\<exists>k. remove_allows remove_env 4 False (take k (snd (doRemoveOSD remove_env 4 False []))) (purge_cmd 4)"
    by (intro exI [of _ k]) (metis append_Nil)
qed

section \<open>The failure domain at removal\<close>

text \<open>The endpoint skips its confirmation when the request prohibits scaling down the failure domain, but
  the removal itself scales it down without looking at that wish: here three members have disks, the
  request prohibits scaling down, and the default rule is switched to the domain \<^verbatim>\<open>osd\<close>.\<close>

definition scale_host :: host where
  "scale_host h r =
     (if r = Cmd [''ceph'', ''config'', ''get'', ''mon'', ''osd_pool_default_crush_rule''] then Answer ''1'' None
      else if r = Cmd [''ceph'', ''osd'', ''crush'', ''rule'', ''dump'', ''microceph_auto_osd''] then Answer '''' (Some (JObj [(''rule_id'', JInt 2)]))
      else remove_host h r)"

definition scale_env :: osd_env where
  "scale_env = remove_env\<lparr>oe_host := scale_host, oe_disks := (\<lambda>_. Inr (drop 1 demo_rows))\<rparr>"

lemma prohibited_scaledown_happens:
  "config_set_cmd ''osd_pool_default_crush_rule'' ''2'' \<in> set (snd (cmdDisksDelete scale_env 4
     \<lparr>dd_BypassSafety = True, dd_ConfirmDowngrade = False, dd_ProhibitCrushScaledown = True\<rparr> []))"
  by code_simp

end
