(* ===== verification/Osd_Add_Safety.thy ===== *)
theory Osd_Add_Safety
  imports Osd_Add Osd_Remove_Safety
begin

text \<open>
  What an enrollment may do: disks are recorded, formatted and wiped only after the storage gate was seen
  open, a device is wiped only on request and not while it is mounted, and a failed enrollment takes its
  record back.
\<close>

section \<open>What the log shows\<close>

definition gate_open :: "osd_env \<Rightarrow> (history \<Rightarrow> dbst) \<Rightarrow> history \<Rightarrow> bool" where
  "gate_open E D h \<longleftrightarrow>
     (\<exists>k < length h. h ! k = gate_query \<and> fst (checkStorageEligibility (oe_lib E) True (oe_name E) (D (take k h))) = None)"

definition unmounted :: "osd_env \<Rightarrow> string \<Rightarrow> history \<Rightarrow> bool" where
  "unmounted E p h \<longleftrightarrow>
     (\<exists>l. happened (oe_host E) (\<lambda>x. answered x \<and> reply_text x = l) (EvalSymlinks p) h \<and>
          happened (oe_host E) (\<lambda>x. exit_code x = Some 1) (Cmd [''findmnt'', ''--source'', l]) h)"

definition not_mounted :: "osd_env \<Rightarrow> string \<Rightarrow> history \<Rightarrow> bool" where
  "not_mounted E p h \<longleftrightarrow> happened (oe_host E) (\<lambda>x. \<not> answered x) (Probe ''blockdev'' [p]) h \<or> unmounted E p h"

text \<open>A new record, a new OSD on a device, and a device formatted for encryption.\<close>

fun enrolls :: "request \<Rightarrow> bool" where
  "enrolls (Db s a) \<longleftrightarrow> s = ''diskCreate''"
| "enrolls (Cmd (c # a)) \<longleftrightarrow> (c = ''ceph-osd'' \<and> ''--mkfs'' \<in> set a) \<or> (c = ''cryptsetup'' \<and> ''luksFormat'' \<in> set a)"
| "enrolls _ \<longleftrightarrow> False"

definition enroll_allows :: "osd_env \<Rightarrow> (history \<Rightarrow> dbst) \<Rightarrow> bool \<Rightarrow> history \<Rightarrow> request \<Rightarrow> bool" where
  "enroll_allows E D wipe h r \<longleftrightarrow>
     (enrolls r \<or> changes_carrier r \<longrightarrow> gate_open E D h) \<and>
     (changes_carrier r \<longrightarrow> wipe \<and> (\<exists>p. r = zap_device p \<and> not_mounted E p h))"

lemma grows_gate: "grows (gate_open E D)"
  unfolding grows_def gate_open_def by (fastforce simp: nth_append)

lemma grows_unmounted: "grows (unmounted E p)"
  unfolding unmounted_def grows_def using growsD [OF grows_happened] by blast

lemma grows_not_mounted: "grows (not_mounted E p)"
  unfolding not_mounted_def by (intro grows_rules grows_unmounted)

text \<open>Requests that neither wipe nor partition a device, nor create a record.\<close>

abbreviation mild :: "request \<Rightarrow> bool" where
  "mild r \<equiv> \<not> changes_carrier r \<and> \<not> records r"

lemma gated_triple:
  assumes "only (\<lambda>r. \<not> changes_carrier r) f" "\<And>h. I h \<Longrightarrow> gate_open E D h" "grows I"
  shows "triple (enroll_allows E D wipe) I f (\<lambda>_. I) (\<lambda>_. I)"
  by (rule only_triple [OF assms(1)]) (use assms(2,3) in \<open>auto simp: enroll_allows_def dest: growsD\<close>)

lemma mild_triple:
  assumes "only mild f" "\<And>h. I h \<Longrightarrow> gate_open E D h" "grows I"
  shows "triple (enroll_allows E D wipe) I f (\<lambda>_. I) (\<lambda>_. I)"
  by (rule gated_triple [OF only_mono [OF assms(1)] assms(2,3)]) simp_all

lemma tame_mild: "tame r \<Longrightarrow> mild r"
  by (simp add: tame_def)

lemma mild_simps [simp]:
  "s \<noteq> ''diskCreate'' \<Longrightarrow> mild (Db s a)" "mild (show_label_cmd p)" "mild (luksFormat_cmd p)" "mild (mkfs_cmd nr a)" "mild (read_at p i)" "mild (RemoveAll p)"
  by (simp_all add: show_label_cmd_def luksFormat_cmd_def mkfs_cmd_def read_at_def)

lemma mild_cmd: "c \<noteq> ''sfdisk'' \<Longrightarrow> c \<noteq> ''ceph-bluestore-tool'' \<Longrightarrow> c \<noteq> ''sh'' \<Longrightarrow> mild (Cmd (c # a))"
  by auto

lemmas mild_intros = only_steps mild_simps harmless_requests mild_cmd

section \<open>Procedures without wiping\<close>

lemma mild_exists: "only mild (exists_at E p)" "only mild (is_dir_at E p)" "only mild (is_blockdev E p)"
  unfolding exists_at_def is_dir_at_def is_blockdev_def by (intro only_steps; simp)+

lemma mild_walk: "only mild (stable_walk E dev ds p)"
  by (induction ds arbitrary: p)
    (auto simp: stable_disk_path_def stable_part_path_def use_unless_dir_def Let_def intro!: only_steps mild_exists split: option.split)

lemma mild_stable: "only mild (setStablePath E st d)"
  unfolding setStablePath_def by (intro only_steps mild_exists mild_walk) simp_all

lemma mild_partitions: "only mild (checkPartitionsOnDevice E d st n)"
  unfolding checkPartitionsOnDevice_def checkDeviceHasPartitions_def by (intro only_steps mild_exists) simp_all

lemma mild_zeros: "only mild (zeros_at E p sz os)"
  by (induction os) (auto intro!: only_steps)

lemma mild_pristine: "only mild (checkPristineDevice E d n)"
  unfolding checkPristineDevice_def IsPristineDisk_def isLUKSMapping_def checkDeviceSignatures_def checkLUKSDeviceLabels_def
    checkForZeros_def getBlockDeviceSize_def checkDeviceWithBluestoreTool_def Let_def
  by (intro only_steps mild_zeros) (auto intro!: only_steps split: json.split option.split)

lemma mild_mounted: "only mild (IsMounted_io E p)"
  unfolding IsMounted_io_def by (intro only_steps) simp_all

lemma mild_encrypt: "only mild (setupEncryptedOSD E p d nr s)" "only mild (CheckEncryptSupport E)"
  unfolding setupEncryptedOSD_def createKey_def storeKey_def ceph_run_def encryptDevice_def openEncryptedDevice_def CheckEncryptSupport_def
  by (intro only_steps; simp)+

section \<open>Enrolling one disk\<close>

lemma mounted_triple:
  assumes I: "grows I" and Q: "\<And>h r. I h \<Longrightarrow> mild r \<Longrightarrow> \<not> enrolls r \<Longrightarrow> Q h r"
  shows "triple Q I (IsMounted_io E p) (\<lambda>m h. I h \<and> (\<not> m \<longrightarrow> unmounted E p h)) (\<lambda>_. I)"
proof -
  let ?H = "oe_host E"
  let ?L = "\<lambda>l h. I h \<and> happened ?H (\<lambda>x. answered x \<and> reply_text x = reply_text l) (EvalSymlinks p) h"
  have links: "triple Q I (osd_must E (EvalSymlinks p)) ?L (\<lambda>_. I)"
    by (rule triple_must) (auto simp: happened_snoc intro!: Q dest: growsD [OF I])
  have find: "triple Q (?L l) (osd_ask E (Cmd [''findmnt'', ''--source'', reply_text l]))
      (\<lambda>r h. I h \<and> (exit_code r = Some 1 \<longrightarrow> unmounted E p h)) (\<lambda>_. I)" for l
    by (rule triple_ask) (auto simp: unmounted_def happened_snoc intro!: Q dest: growsD [OF I])
  show ?thesis unfolding IsMounted_io_def
    by (rule triple_bind [OF links], rule triple_bind [OF find], intro triple_rules triple_return triple_fail) auto
qed

lemma unmounted_triple:
  "triple (enroll_allows E D w) (gate_open E D) (IsMounted_io E p) (\<lambda>m h. gate_open E D h \<and> (\<not> m \<longrightarrow> not_mounted E p h)) (\<lambda>_. gate_open E D)"
  by (rule triple_weaken [OF mounted_triple [OF grows_gate]]) (auto simp: enroll_allows_def not_mounted_def)

lemma prepare_path_triple:
  assumes w: "dp_Wipe d \<Longrightarrow> w"
  shows "triple (enroll_allows E D w) (gate_open E D) (prepare_path E d suf osdPath nr) (\<lambda>_. gate_open E D) (\<lambda>_. gate_open E D)"
proof -
  let ?Q = "enroll_allows E D w" and ?I = "gate_open E D" and ?p = "dp_Path d"
  let ?B = "\<lambda>b h. ?I h \<and> (\<not> b \<longrightarrow> not_mounted E ?p h)" and ?M = "\<lambda>h. ?I h \<and> not_mounted E ?p h"
  have block: "triple ?Q ?I (is_blockdev E ?p) ?B (\<lambda>_. ?I)"
    unfolding is_blockdev_def
    by (rule triple_bind [where Mid = "\<lambda>r h. ?I h \<and> (\<not> answered r \<longrightarrow> not_mounted E ?p h)"], rule triple_ask)
      (auto simp: enroll_allows_def not_mounted_def happened_snoc intro!: triple_return dest: growsD [OF grows_gate])
  have mount: "triple ?Q (?B True) (io_wrap m (IsMounted_io E ?p)) (\<lambda>m h. ?I h \<and> (\<not> m \<longrightarrow> not_mounted E ?p h)) (\<lambda>_. ?I)" for m
    by (rule triple_wrap, rule triple_weaken [OF unmounted_triple]) auto
  have check: "triple ?Q (?B b) (if b then io_bind (io_wrap m (IsMounted_io E ?p)) (\<lambda>mounted. if mounted then io_fail e else io_return ()) else io_return ())
      (\<lambda>_. ?M) (\<lambda>_. ?I)" for b m e
    by (rule triple_if, simp only:, rule triple_bind [OF mount], intro triple_rules triple_return triple_fail)
      (auto intro!: triple_return)
  have wipe: "triple ?Q ?M (if dp_Wipe d then io_wrap m (timeoutWipe E ?p) else io_return ()) (\<lambda>_. ?I) (\<lambda>_. ?I)" for m
    unfolding timeoutWipe_def using w
    by (intro triple_if triple_wrap triple_bind triple_must triple_return)
      (auto simp: enroll_allows_def dest: growsD [OF grows_gate])
  have last: "triple ?Q ?I (if dp_Encrypt d then io_bind (io_wrap m (CheckEncryptSupport E)) (\<lambda>_. io_wrap m' (setupEncryptedOSD E ?p osdPath nr suf))
      else io_return ?p) (\<lambda>_. ?I) (\<lambda>_. ?I)" for m m'
    by (rule mild_triple [OF _ _ grows_gate]) (auto intro!: only_steps mild_encrypt)
  show ?thesis unfolding prepare_path_def
    by (rule triple_bind [OF block], rule triple_bind [OF check], rule triple_bind [OF wipe], rule last)
qed

lemma prepare_triple:
  assumes "dp_Wipe d \<Longrightarrow> w"
  shows "triple (enroll_allows E D w) (gate_open E D) (prepareDisk E d suf osdPath nr)
    (\<lambda>(d', _) h. gate_open E D h \<and> dp_Wipe d' = dp_Wipe d) (\<lambda>_. gate_open E D)"
proof -
  have tried: "triple (enroll_allows E D w) (gate_open E D) (attempt (prepare_path E d suf osdPath nr)) (\<lambda>_. gate_open E D) (\<lambda>_. gate_open E D)"
    by (rule triple_attempt, rule prepare_path_triple) (use assms in auto)
  have link: "triple (enroll_allows E D w) (gate_open E D) (osd_ask E (Probe ''symlink'' a)) (\<lambda>_. gate_open E D) (\<lambda>_. gate_open E D)" for a
    by (rule mild_triple [OF _ _ grows_gate]) (auto intro!: only_steps)
  show ?thesis unfolding prepareDisk_def
    by (rule triple_bind [OF tried], intro triple_rules triple_return triple_bind [OF link]) auto
qed

lemma aux_triple:
  assumes "dp_Wipe d \<Longrightarrow> w"
  shows "triple (enroll_allows E D w) (gate_open E D) (prepare_aux E name suf d st osdPath nr) (\<lambda>_. gate_open E D) (\<lambda>_. gate_open E D)"
proof -
  let ?Q = "enroll_allows E D w" and ?I = "gate_open E D"
  have wipe: "dp_Wipe d' = dp_Wipe d" if "setStablePath E st d h = (Inr d', h')" for d' h h'
    using that by (auto simp: setStablePath_def io_bind_def io_return_def io_fail_def io_wrap_def split: if_splits prod.splits sum.splits)
  have stable: "triple ?Q ?I (io_wrap m (setStablePath E st d)) (\<lambda>d' h. ?I h \<and> dp_Wipe d' = dp_Wipe d) (\<lambda>_. ?I)" for m
    by (rule triple_wrap, rule triple_result [OF mild_triple [OF mild_stable _ grows_gate]]) (use wipe in auto)
  have checks: "triple ?Q (\<lambda>h. ?I h \<and> dp_Wipe d' = dp_Wipe d) (checkPartitionsOnDevice E d' st name) (\<lambda>_ h. ?I h \<and> dp_Wipe d' = dp_Wipe d) (\<lambda>_. ?I)"
      "triple ?Q (\<lambda>h. ?I h \<and> dp_Wipe d' = dp_Wipe d) (checkPristineDevice E d' name) (\<lambda>_ h. ?I h \<and> dp_Wipe d' = dp_Wipe d) (\<lambda>_. ?I)" for d'
    by (rule triple_weaken [OF mild_triple [where I = "\<lambda>h. ?I h \<and> dp_Wipe d' = dp_Wipe d", OF mild_partitions]],
        auto intro!: grows_rules grows_gate)
      (rule triple_weaken [OF mild_triple [where I = "\<lambda>h. ?I h \<and> dp_Wipe d' = dp_Wipe d", OF mild_pristine]],
        auto intro!: grows_rules grows_gate)
  have prep: "triple ?Q (\<lambda>h. ?I h \<and> dp_Wipe d' = dp_Wipe d) (prepareDisk E d' suf osdPath nr) (\<lambda>_. ?I) (\<lambda>_. ?I)" for d'
    by (rule triple_pure, rule triple_weaken [OF prepare_triple]) (use assms in auto)
  show ?thesis unfolding prepare_aux_def
    by (rule triple_bind [OF stable], rule triple_bind [OF checks(1)], rule triple_bind [OF checks(2)], rule triple_bind [OF prep])
      (auto intro!: triple_return triple_fail split: option.split)
qed

lemma bootstrap_triple:
  assumes "\<And>d. wal = Some d \<Longrightarrow> dp_Wipe d \<Longrightarrow> w" "\<And>d. db = Some d \<Longrightarrow> dp_Wipe d \<Longrightarrow> w"
  shows "triple (enroll_allows E D w) (gate_open E D) (bootstrapOSD E p nr wal db st) (\<lambda>_. gate_open E D) (\<lambda>_. gate_open E D)"
proof -
  let ?Q = "enroll_allows E D w" and ?I = "gate_open E D"
  have dev: "triple ?Q ?I (case dev of None \<Rightarrow> io_return [] | Some d \<Rightarrow> io_bind (prepare_aux E name suf d st p nr) (\<lambda>q. io_return [opt, q])) (\<lambda>_. ?I) (\<lambda>_. ?I)"
    if "\<And>d. dev = Some d \<Longrightarrow> dp_Wipe d \<Longrightarrow> w" for dev name suf opt
    by (rule triple_option, rule triple_return, assumption, rule triple_bind, rule aux_triple) (use that in \<open>auto intro!: triple_return\<close>)
  have rest: "triple ?Q ?I (io_bind (io_wrap m (osd_must E (mkfs_cmd nr a))) (\<lambda>_. io_bind (io_wrap m' (osd_must E (WriteFile q j))) (\<lambda>_. io_return ())))
      (\<lambda>_. ?I) (\<lambda>_. ?I)" for m m' a q j
    by (rule mild_triple [OF _ _ grows_gate]) (auto intro!: only_steps)
  show ?thesis unfolding bootstrapOSD_def
    by (rule triple_bind [OF dev], rule assms(1), assumption+, rule triple_bind [OF dev], rule assms(2), assumption+, rule rest)
qed

lemma mild_topology: "only mild (updateTopology E)" "only mild (updateFailureDomain E)"
proof -
  have sw: "only mild (switchFailureDomain E a b)" for a b by (rule only_mono [OF tame_switch tame_mild])
  have hv: "only mild (haveCrushRule E a)" for a by (rule only_mono [OF tame_have_rule tame_mild])
  show "only mild (updateTopology E)" "only mild (updateFailureDomain E)"
    unfolding updateTopology_def updateFailureDomain_def getAZData_def Count_def disks_query_def getOSDTreeNodes_def ceph_run_def addCrushRule_def Let_def
    by (intro only_steps sw hv; simp)+
qed

lemma mild_manifest: "only mild (writeGeneratedAuxManifest E p m)"
  by (rule only_mono [OF tame_manifest(2) tame_mild])

lemma mild_files: "only mild (generateOSDFiles E p nr)" "only mild (spawnOSD E nr)" "only mild (prepareOSDData E d p nr)" "only mild (revert_add E d p)"
  unfolding generateOSDFiles_def spawnOSD_def prepareOSDData_def createBackingFile_def revert_add_def DeleteDisk_def ceph_run_def Let_def
  by (intro only_steps; simp)+

lemma gated_record: "only (\<lambda>r. \<not> changes_carrier r) (createDiskRecord E d)"
  unfolding createDiskRecord_def disks_query_def disk_create_def
  by (intro only_steps) (auto intro!: only_steps split: option.split json.split)

lemma mild_stabilize: "only mild (stabilizeDevicePath E d)"
  unfolding stabilizeDevicePath_def by (intro only_steps mild_stable only_storage) simp_all

text \<open>The parameters keep their wipe flag.\<close>

lemma data_keeps_wipe:
  "prepareOSDData E d p nr h = (Inr (d', e), h') \<Longrightarrow> dp_Wipe d' = dp_Wipe d"
  "stabilizeDevicePath E d h = (Inr (d', st), h') \<Longrightarrow> dp_Wipe d' = dp_Wipe d"
  "setStablePath E ds d h = (Inr d', h') \<Longrightarrow> dp_Wipe d' = dp_Wipe d"
  by (auto simp: prepareOSDData_def stabilizeDevicePath_def setStablePath_def attempt_def io_bind_def io_return_def io_fail_def io_wrap_def
      split: if_splits prod.splits sum.splits)

lemma fill_triple:
  assumes "dp_Wipe d \<Longrightarrow> w" "\<And>d. wal = Some d \<Longrightarrow> dp_Wipe d \<Longrightarrow> w" "\<And>d. db = Some d \<Longrightarrow> dp_Wipe d \<Longrightarrow> w"
  shows "triple (enroll_allows E D w) (gate_open E D) (fill_osd E d wal db st m nr) (\<lambda>_. gate_open E D) (\<lambda>_. gate_open E D)"
proof -
  let ?Q = "enroll_allows E D w" and ?I = "gate_open E D"
  have data: "triple ?Q ?I (prepareOSDData E d p nr) (\<lambda>(d', _) h. ?I h \<and> dp_Wipe d' = dp_Wipe d) (\<lambda>_. ?I)" for p
    by (rule triple_weaken [OF triple_result [where P = "\<lambda>(d', _). dp_Wipe d' = dp_Wipe d", OF mild_triple [OF mild_files(3) _ grows_gate]]])
      (use data_keeps_wipe(1) in auto)
  have checked: "triple ?Q ?I (attempt (case st of None \<Rightarrow> io_return () | Some s \<Rightarrow> io_bind (checkPartitionsOnDevice E d' s n) (\<lambda>_. checkPristineDevice E d' n)))
      (\<lambda>_. ?I) (\<lambda>_. ?I)" for d' n
    by (rule mild_triple [OF _ _ grows_gate]) (auto intro!: only_steps mild_partitions mild_pristine)
  have late: "triple ?Q ?I (attempt (io_bind (generateOSDFiles E p nr) (\<lambda>_. io_bind (writeGeneratedAuxManifest E p m) (\<lambda>_.
      io_bind (bootstrapOSD E p nr wal db s) (\<lambda>_. io_bind (spawnOSD E nr) (\<lambda>_. io_bind (updateTopology E) (\<lambda>_. updateFailureDomain E)))))))
      (\<lambda>_. ?I) (\<lambda>_. ?I)" for p s
    by (rule triple_attempt, rule triple_bind [OF mild_triple [OF mild_files(1) _ grows_gate]], assumption,
        rule triple_bind [OF mild_triple [OF mild_manifest _ grows_gate]], assumption,
        rule triple_bind [OF bootstrap_triple], erule (1) assms(2), erule (1) assms(3),
        rule triple_bind [OF mild_triple [OF mild_files(2) _ grows_gate]], assumption,
        rule triple_bind [OF mild_triple [OF mild_topology(1) _ grows_gate]], assumption,
        rule mild_triple [OF mild_topology(2) _ grows_gate])
  have prep: "triple ?Q ?I (prepareDisk E d' '''' p nr) (\<lambda>_. ?I) (\<lambda>_. ?I)" if "dp_Wipe d' = dp_Wipe d" for d' p
    by (rule triple_weaken [OF prepare_triple]) (use assms(1) that in auto)
  show ?thesis
    unfolding fill_osd_def Let_def
    apply (rule triple_bind [OF data], simp only: split_paired_all split_conv, rule triple_pure)
    apply (rule triple_option, rule triple_bind [OF checked], rule triple_sum, rule triple_return, assumption)
     apply (rule triple_bind [OF prep], assumption, simp only: split_paired_all split_conv)
     apply (rule triple_option, rule triple_bind [OF late])
    by (rule triple_return, assumption)+
qed

lemma record_triple:
  assumes "dp_Wipe d \<Longrightarrow> w" "\<And>d. wal = Some d \<Longrightarrow> dp_Wipe d \<Longrightarrow> w" "\<And>d. db = Some d \<Longrightarrow> dp_Wipe d \<Longrightarrow> w"
  shows "triple (enroll_allows E D w) (gate_open E D) (add_record E d wal db st m) (\<lambda>_. gate_open E D) (\<lambda>_. gate_open E D)"
proof -
  let ?Q = "enroll_allows E D w" and ?I = "gate_open E D"
  have stable: "triple ?Q ?I (attempt (case st of None \<Rightarrow> stabilizeDevicePath E d
       | Some s \<Rightarrow> io_bind (io_wrap t (setStablePath E s d)) (\<lambda>d. io_return (d, Some s))))
      (\<lambda>r h. ?I h \<and> (\<forall>d' s. r = Inr (d', s) \<longrightarrow> dp_Wipe d' = dp_Wipe d)) (\<lambda>_. ?I)" for t
  proof (rule triple_result [OF mild_triple [OF _ _ grows_gate]])
    show "only mild (attempt (case st of None \<Rightarrow> stabilizeDevicePath E d
       | Some s \<Rightarrow> io_bind (io_wrap t (setStablePath E s d)) (\<lambda>d. io_return (d, Some s))))"
      by (intro only_steps mild_stabilize mild_stable)
  qed (use data_keeps_wipe(2,3) in \<open>auto simp: attempt_def io_bind_def io_wrap_def io_return_def split: option.splits prod.splits sum.splits\<close>)
  have rec: "triple ?Q ?I (attempt (createDiskRecord E d')) (\<lambda>_. ?I) (\<lambda>_. ?I)" for d'
    by (rule gated_triple [OF only_attempt [OF gated_record] _ grows_gate])
  have revert: "triple ?Q ?I (revert_add E d' p) (\<lambda>_. ?I) (\<lambda>_. ?I)" for d' p
    by (rule mild_triple [OF mild_files(4) _ grows_gate])
  have fill: "triple ?Q ?I (fill_osd E d' wal db s m nr) (\<lambda>_. ?I) (\<lambda>_. ?I)" if "dp_Wipe d' = dp_Wipe d" for d' s nr
    by (rule fill_triple) (use assms that in auto)
  show ?thesis
    unfolding add_record_def
    apply (rule triple_bind [OF stable], rule triple_pure, rule triple_sum, rule triple_return, assumption)
    apply (simp only: split_paired_all split_conv, rule triple_bind [OF rec], rule triple_sum, rule triple_return, assumption)
    apply (rule triple_bind [OF fill], simp, simp only: split_paired_all split_conv)
    apply (rule triple_option, rule triple_return, assumption, rule triple_bind [OF revert], rule triple_return, assumption)
    done
qed

lemma add_triple:
  assumes "dp_Wipe d \<Longrightarrow> w" "\<And>d. wal = Some d \<Longrightarrow> dp_Wipe d \<Longrightarrow> w" "\<And>d. db = Some d \<Longrightarrow> dp_Wipe d \<Longrightarrow> w"
  shows "triple (enroll_allows E D w) (gate_open E D) (doAddOSD E d wal db) (\<lambda>_. gate_open E D) (\<lambda>_. gate_open E D)"
proof -
  have rec: "triple (enroll_allows E D w) (gate_open E D) (add_record E d wal db None None) (\<lambda>_. gate_open E D) (\<lambda>_. gate_open E D)"
    by (rule record_triple) (use assms in auto)
  show ?thesis unfolding doAddOSD_def doAddOSDWithStorage_def
    by (rule triple_bind [OF rec]) (auto intro!: triple_option triple_return triple_fail simp: split_def)
qed

section \<open>Bulk enrollment\<close>

lemma gate_triple: "triple (enroll_allows E D w) (\<lambda>_. True) (gate E D) (\<lambda>_. gate_open E D) (\<lambda>_ _. True)"
proof -
  have opened: "gate_open E D (h @ [gate_query])" if "fst (checkStorageEligibility (oe_lib E) True (oe_name E) (D h)) = None" for h
    unfolding gate_open_def using that by (intro exI [of _ "length h"]) simp
  show ?thesis
    by (rule tripleI) (auto simp: gate_def enroll_allows_def gate_query_def opened [unfolded gate_query_def] split: option.split)
qed

lemma gate_again: "triple (enroll_allows E D w) (gate_open E D) (gate E D) (\<lambda>_. gate_open E D) (\<lambda>_. gate_open E D)"
  by (rule triple_weaken [OF triple_frame [OF gate_triple grows_gate]]) auto

lemma loops_triple: "triple (enroll_allows E D w) (gate_open E D) (add_loops E sz k) (\<lambda>_. gate_open E D) (\<lambda>_. gate_open E D)"
proof (induction k)
  case (Suc k)
  show ?case unfolding add_loops.simps
    by (rule triple_bind [OF triple_wrap [OF add_triple] Suc.IH]) simp_all
qed (simp add: triple_return)

lemma mild_free: "only mild (getFreeSpace E)"
  unfolding getFreeSpace_def by (intro only_steps) (auto intro!: only_steps split: option.split json.split list.split)

lemma loopback_triple: "triple (enroll_allows E D w) (gate_open E D) (addLoopBackOSDs E D spec) (\<lambda>_. gate_open E D) (\<lambda>_. gate_open E D)"
proof -
  have parse: "triple (enroll_allows E D w) (gate_open E D) (of_result (parseBackingSpec spec)) (\<lambda>_. gate_open E D) (\<lambda>_. gate_open E D)"
    by (rule mild_triple [OF only_of_result _ grows_gate])
  show ?thesis unfolding addLoopBackOSDs_def
    by (rule triple_bind [OF parse], simp only: split_paired_all split_conv,
        rule triple_bind [OF gate_again], rule triple_bind [OF mild_triple [OF mild_free _ grows_gate]], assumption,
        intro triple_if loops_triple triple_fail)
qed

lemma single_triple:
  assumes "dp_Wipe d \<Longrightarrow> w" "\<And>d. wal = Some d \<Longrightarrow> dp_Wipe d \<Longrightarrow> w" "\<And>d. db = Some d \<Longrightarrow> dp_Wipe d \<Longrightarrow> w"
  shows "triple (enroll_allows E D w) (gate_open E D) (addSingleDisk E D d wal db) (\<lambda>_. gate_open E D) (\<lambda>_. gate_open E D)"
  unfolding addSingleDisk_def
  by (rule triple_bind, rule triple_attempt, rule triple_if, rule loopback_triple, rule triple_bind [OF gate_again], rule add_triple)
    (use assms in \<open>auto intro: triple_return\<close>)

lemma all_triple:
  "(\<forall>d \<in> set ds. dp_Wipe d \<longrightarrow> w) \<Longrightarrow>
   triple (enroll_allows E D w) (gate_open E D) (add_all E D ds) (\<lambda>_. gate_open E D) (\<lambda>_. gate_open E D)"
proof (induction ds)
  case (Cons d ds)
  show ?case unfolding add_all.simps
    by (rule triple_bind [OF single_triple], use Cons.prems in simp, simp, simp, rule triple_bind [OF Cons.IH])
      (use Cons.prems in \<open>auto intro: triple_return\<close>)
qed (simp add: triple_return)

definition wipe_requested :: "disk_param list \<Rightarrow> disk_param option \<Rightarrow> disk_param option \<Rightarrow> bool" where
  "wipe_requested disks wal db \<longleftrightarrow> list_ex dp_Wipe disks \<or> (\<exists>d. wal = Some d \<and> dp_Wipe d) \<or> (\<exists>d. db = Some d \<and> dp_Wipe d)"

lemma bulk_triple:
  "triple (enroll_allows E D (wipe_requested disks wal db)) (\<lambda>_. True) (addBulkDisks E D disks wal db) (\<lambda>_ _. True) (\<lambda>_ _. True)"
proof -
  let ?Q = "enroll_allows E D (wipe_requested disks wal db)" and ?I = "gate_open E D"
  have g: "triple ?Q (\<lambda>_. True) (attempt (gate E D)) (\<lambda>r h. (\<forall>v. r = Inr v \<longrightarrow> ?I h)) (\<lambda>_ _. True)"
    by (rule triple_attempt, rule triple_weaken [OF gate_triple]) auto
  have one: "triple ?Q ?I (addSingleDisk E D d wal db) (\<lambda>_. ?I) (\<lambda>_. ?I)" if "disks = [d]" for d
    by (rule single_triple) (use that in \<open>auto simp: wipe_requested_def\<close>)
  have all: "triple ?Q ?I (add_all E D disks) (\<lambda>_. ?I) (\<lambda>_. ?I)"
    by (rule all_triple) (auto simp: wipe_requested_def list_ex_iff)
  have opened: "triple ?Q ?I (case disks of
              [d] \<Rightarrow>
                (case validateAddOSDArgs d wal db of
                   Inl e \<Rightarrow> io_return (prepareValidationFailureResp disks e)
                 | Inr _ \<Rightarrow> io_bind (addSingleDisk E D d wal db) (\<lambda>r. io_return (empty_response\<lparr>as_Reports := [r]\<rparr>)))
            | _ \<Rightarrow>
                (case validateBulkDiskAdditionArgs disks wal db of
                   Inl e \<Rightarrow> io_return (prepareValidationFailureResp disks e)
                 | Inr _ \<Rightarrow> io_bind (add_all E D disks) (\<lambda>rs. io_return (empty_response\<lparr>as_Reports := rs\<rparr>)))) (\<lambda>_ _. True) (\<lambda>_ _. True)"
    using triple_weaken [OF one, of _ ?I "\<lambda>_. ?I" "\<lambda>_ _. True"] triple_weaken [OF all, of ?I "\<lambda>_. ?I" "\<lambda>_ _. True"]
    by (auto intro!: triple_sum triple_return triple_bind split: list.split)
  show ?thesis unfolding addBulkDisks_def
    by (rule triple_bind [OF g], rule triple_sum, rule triple_return, simp, rule triple_weaken [OF opened]) auto
qed

section \<open>Enrollments are guarded\<close>

text \<open>In an enrollment of a list of disks, a record is created, a device is formatted and an
  OSD is initialised only after this run read the placement policy and found the storage gate open; a
  device is wiped only if the request asks for a wipe of one of its disks, and only after the device was
  seen not to be mounted (or not to be a block device).\<close>

theorem enrollment_guarded:
  assumes "addBulkDisks E D disks wal db [] = (res, ext)" "k < length ext"
  shows "(enrolls (ext ! k) \<or> changes_carrier (ext ! k) \<longrightarrow> gate_open E D (take k ext)) \<and>
    (changes_carrier (ext ! k) \<longrightarrow> wipe_requested disks wal db \<and> (\<exists>p. ext ! k = zap_device p \<and> not_mounted E p (take k ext)))"
proof -
  have "addBulkDisks E D disks wal db [] = (res, [] @ ext)" using assms(1) by simp
  from triple_request [OF bulk_triple TrueI this assms(2)] show ?thesis by (simp add: enroll_allows_def)
qed

definition add_host :: host where
  "add_host h r =
     (if r = Cmd [''findmnt'', ''--source'', ''/dev/sdb''] then Failed False (Some 1) ''exit status 1''
      else if r = EvalSymlinks ''/dev/sdb'' then Answer ''/dev/sdb'' None
      else if r = Probe ''filestat'' [''/dev/sdb''] then Answer ''8:16'' None
      else if r = disk_create ''n1'' ''/dev/sdb'' then Answer '''' (Some (JInt 7))
      else if r = Cmd [''ceph'', ''osd'', ''tree'', ''-f'', ''json''] then Answer '''' (Some (JObj [(''nodes'', JArr [])]))
      else case r of Stat p \<Rightarrow> if has_prefix p ''/dev/disk'' then Failed True None ''missing'' else Answer ''d'' None | _ \<Rightarrow> Answer '''' None)"

definition add_env :: osd_env where
  "add_env = \<lparr>oe_host = add_host, oe_lib = plain_lib, oe_polls = (\<lambda>_. 1), oe_storage = (\<lambda>_. Inr []),
     oe_name = ''n1'', oe_data = ''/data'', oe_disks = (\<lambda>_. Inr []), oe_tags = (\<lambda>_. Inr []), oe_gjson = demo_gjson, oe_run_error = (\<lambda>_. None)\<rparr>"

definition open_gate :: "history \<Rightarrow> dbst" where
  "open_gate h = \<lparr>dbs = booted_db\<lparr>db_policy := Some \<lparr>pr_active = 0, pr_policy_json = None, pr_last_refusal = None, pr_apply_lock_token = 0\<rparr>\<rparr>, faults = []\<rparr>"

definition new_disk :: disk_param where
  "new_disk = \<lparr>dp_Path = ''/dev/sdb'', dp_Encrypt = False, dp_Wipe = True, dp_LoopSize = 0, dp_SkipPristineCheck = False\<rparr>"

definition demo_add :: history where
  "demo_add = snd (addBulkDisks add_env open_gate [new_disk] None None [])"

lemma demo_enrollment:
  "zap_device ''/dev/sdb'' \<in> set demo_add"
  by code_simp

theorem enrollment_guarded_witness:
  "\<exists>k < length demo_add. demo_add ! k = zap_device ''/dev/sdb'' \<and> gate_open add_env open_gate (take k demo_add) \<and> not_mounted add_env ''/dev/sdb'' (take k demo_add)"
proof -
  from demo_enrollment obtain k where k: "k < length demo_add" "demo_add ! k = zap_device ''/dev/sdb''" by (auto simp: in_set_conv_nth)
  have "addBulkDisks add_env open_gate [new_disk] None None [] = (fst (addBulkDisks add_env open_gate [new_disk] None None []), demo_add)"
    by (simp add: demo_add_def)
  from enrollment_guarded [OF this k(1)] k show ?thesis by (intro exI [of _ k]) (auto simp: zap_device_def)
qed

section \<open>A failed enrollment takes its record back\<close>

definition made_record :: "osd_env \<Rightarrow> history \<Rightarrow> nat \<Rightarrow> string \<Rightarrow> int \<Rightarrow> bool" where
  "made_record E h k p nr \<longleftrightarrow>
     k < length h \<and> h ! k = disk_create (oe_name E) p \<and> answered (oe_host E (take k h) (h ! k)) \<and> reply_json (oe_host E (take k h) (h ! k)) = Some (JInt nr)"

definition disk_delete :: "osd_env \<Rightarrow> string \<Rightarrow> request" where
  "disk_delete E p = Db ''diskDeleteByMemberAndPath'' [oe_name E, p]"

text \<open>What remains to be undone: data directories in \<open>A\<close> and records in \<open>B\<close>.\<close>

definition left :: "osd_env \<Rightarrow> (int \<Rightarrow> bool) \<Rightarrow> (string \<Rightarrow> bool) \<Rightarrow> history \<Rightarrow> bool" where
  "left E A B h \<longleftrightarrow> (\<forall>k p nr. made_record E h k p nr \<longrightarrow>
     (RemoveAll (getOSDDataPath E nr) \<in> set (drop k h) \<or> A nr) \<and> (disk_delete E p \<in> set (drop k h) \<or> B p))"

definition undone :: "osd_env \<Rightarrow> history \<Rightarrow> bool" where
  "undone E h \<longleftrightarrow> (\<forall>k p nr. made_record E h k p nr \<longrightarrow>
     RemoveAll (getOSDDataPath E nr) \<in> set (drop k h) \<and> disk_delete E p \<in> set (drop k h))"

abbreviation nothing :: "'a \<Rightarrow> bool" where
  "nothing x \<equiv> False"

lemma undone_left: "undone E h \<longleftrightarrow> left E nothing nothing h"
  by (simp add: undone_def left_def)

lemma made_snoc: "made_record E (h @ [r]) k p nr \<longleftrightarrow>
    made_record E h k p nr \<or> (k = length h \<and> r = disk_create (oe_name E) p \<and> answered (oe_host E h r) \<and> reply_json (oe_host E h r) = Some (JInt nr))"
  by (auto simp: made_record_def nth_append less_Suc_eq)

lemma made_before: "made_record E h k p nr \<Longrightarrow> set (drop k (h @ [r])) = insert r (set (drop k h))"
  by (simp add: made_record_def)

lemma left_snoc: "left E A B h \<Longrightarrow> \<not> records r \<Longrightarrow> left E A B (h @ [r])"
  unfolding left_def by (auto simp: made_snoc disk_create_def made_before simp del: drop_append)

lemma left_directory: "left E A B h \<Longrightarrow> (\<And>n. A n \<Longrightarrow> n \<noteq> nr \<Longrightarrow> A' n) \<Longrightarrow> left E A' B (h @ [RemoveAll (getOSDDataPath E nr)])"
  unfolding left_def by (auto simp: made_snoc disk_create_def made_before simp del: drop_append)

lemma left_record: "left E A B h \<Longrightarrow> (\<And>q. B q \<Longrightarrow> q \<noteq> p \<Longrightarrow> B' q) \<Longrightarrow> left E A B' (h @ [disk_delete E p])"
  unfolding left_def by (auto simp: made_snoc disk_create_def disk_delete_def made_before simp del: drop_append)

lemma left_made:
  "left E nothing nothing h \<Longrightarrow> reply_json (oe_host E h (disk_create (oe_name E) p)) = Some (JInt nr) \<Longrightarrow>
   left E (\<lambda>n. n = nr) (\<lambda>q. q = p) (h @ [disk_create (oe_name E) p])"
  unfolding left_def by (auto simp: made_snoc disk_create_def made_before simp del: drop_append)

lemma left_failed:
  "left E nothing nothing h \<Longrightarrow> (\<And>nr. answered (oe_host E h (disk_create (oe_name E) p)) \<Longrightarrow> reply_json (oe_host E h (disk_create (oe_name E) p)) \<noteq> Some (JInt nr)) \<Longrightarrow>
   left E nothing nothing (h @ [disk_create (oe_name E) p])"
  unfolding left_def by (auto simp: made_snoc disk_create_def made_before simp del: drop_append)



text \<open>Procedures that create no record keep what is left.\<close>

abbreviation recordless :: "request \<Rightarrow> bool" where
  "recordless r \<equiv> \<not> records r"

lemma recordless_triple: "only recordless f \<Longrightarrow> triple (\<lambda>_ _. True) (left E A B) f (\<lambda>_. left E A B) (\<lambda>_. left E A B)"
  by (erule only_triple) (auto intro: left_snoc)

lemma mild_recordless: "only mild f \<Longrightarrow> only recordless f"
  by (erule only_mono) simp

lemma recordless_path: "only recordless (prepare_path E d suf p nr)"
  unfolding prepare_path_def timeoutWipe_def
  by (intro only_steps mild_recordless [OF mild_exists(3)] mild_recordless [OF mild_mounted] mild_recordless [OF mild_encrypt(1)]
      mild_recordless [OF mild_encrypt(2)]) (simp_all add: zap_device_def)

lemma recordless_prepare: "only recordless (prepareDisk E d suf p nr)"
  unfolding prepareDisk_def by (intro only_steps recordless_path) simp_all

lemma recordless_aux: "only recordless (prepare_aux E name suf d st p nr)"
  unfolding prepare_aux_def split_def
  by (intro only_steps mild_recordless [OF mild_stable] mild_recordless [OF mild_partitions] mild_recordless [OF mild_pristine] recordless_prepare)

lemma recordless_bootstrap: "only recordless (bootstrapOSD E p nr wal db st)"
  unfolding bootstrapOSD_def by (intro only_steps recordless_aux) (simp_all add: mkfs_cmd_def)

lemma recordless_fill: "only recordless (fill_osd E d wal db st m nr)"
  unfolding fill_osd_def Let_def split_def
  by (intro only_steps recordless_prepare recordless_bootstrap mild_recordless [OF mild_files(1)] mild_recordless [OF mild_files(2)]
      mild_recordless [OF mild_files(3)] mild_recordless [OF mild_partitions] mild_recordless [OF mild_pristine]
      mild_recordless [OF mild_manifest] mild_recordless [OF mild_topology(1)] mild_recordless [OF mild_topology(2)])

text \<open>Without encryption and without a backing file the path stays the one that was recorded.\<close>

lemma prepare_keeps_path:
  assumes "\<not> dp_Encrypt d" "prepareDisk E d suf p nr h = (Inr (d', e), h')"
  shows "dp_Path d' = dp_Path d"
proof -
  have "q = dp_Path d" if "prepare_path E d suf p nr h = (Inr q, h1)" for q h1
    using that assms(1) by (auto simp: prepare_path_def io_bind_def io_return_def split: prod.splits sum.splits)
  with assms show ?thesis
    by (auto simp: prepareDisk_def io_bind_def attempt_def io_return_def ask_def split: prod.splits sum.splits if_splits)
qed

lemma fill_keeps_path:
  assumes "\<not> dp_Encrypt d" "dp_LoopSize d = 0" "fill_osd E d wal db st m nr h = (Inr (d', e), h')"
  shows "dp_Path d' = dp_Path d"
proof -
  have data: "d1 = d" if "prepareOSDData E d p nr h = (Inr (d1, e1), h1)" for d1 e1 h1 p
    using that assms(2) by (auto simp: prepareOSDData_def io_bind_def io_return_def ask_def split: if_splits)
  show ?thesis using assms(1,3)
    by (auto simp: fill_osd_def Let_def io_bind_def io_return_def attempt_def
        split: prod.splits sum.splits option.splits dest!: data dest: prepare_keeps_path)
qed

lemma record_left:
  "triple (\<lambda>_ _. True) (left E nothing nothing) (createDiskRecord E d)
     (\<lambda>nr. left E (\<lambda>n. n = nr) (\<lambda>q. q = dp_Path d)) (\<lambda>_. left E nothing nothing)"
proof -
  let ?c = "disk_create (oe_name E) (dp_Path d)" and ?N = "left E nothing nothing"
  have rows: "triple (\<lambda>_ _. True) ?N (io_wrap m (disks_query E ''diskID'')) (\<lambda>_. ?N) (\<lambda>_. ?N)" for m
    by (rule recordless_triple) (auto simp: disks_query_def intro!: only_steps)
  let ?made = "\<lambda>r h. \<exists>h0. h = h0 @ [?c] \<and> ?N h0 \<and> r = oe_host E h0 ?c"
  have create: "triple (\<lambda>_ _. True) ?N (io_wrap m (osd_must E ?c)) ?made (\<lambda>_. ?N)" for m
    by (intro triple_wrap triple_must) (auto intro: left_failed)
  have bad: "?N h" if "?made r h" "\<And>nr. reply_json r \<noteq> Some (JInt nr)" for r h
    using that by (auto intro!: left_failed)
  have good: "left E (\<lambda>n. n = nr) (\<lambda>q. q = dp_Path d) h" if "?made r h" "reply_json r = Some (JInt nr)" for r h nr
    using that by (auto intro!: left_made)
  have answer: "triple (\<lambda>_ _. True) (?made r) (case reply_json r of Some (JInt nr) \<Rightarrow> io_return nr | _ \<Rightarrow> io_fail e)
      (\<lambda>nr. left E (\<lambda>n. n = nr) (\<lambda>q. q = dp_Path d)) (\<lambda>_. ?N)" for r e
  proof (cases "\<exists>nr. reply_json r = Some (JInt nr)")
    case True
    then obtain nr where nr: "reply_json r = Some (JInt nr)" by blast
    show ?thesis unfolding nr option.case json.case by (rule triple_return) (rule good [OF _ nr])
  next
    case False
    then have "(case reply_json r of Some (JInt nr) \<Rightarrow> io_return nr | _ \<Rightarrow> io_fail e) = io_fail e" by (auto split: option.split json.split)
    then show ?thesis using False by (auto intro!: triple_fail bad)
  qed
  show ?thesis unfolding createDiskRecord_def
    by (rule triple_bind [OF rows], rule triple_if, rule triple_fail, assumption, rule triple_bind [OF create], rule answer)
qed

lemma revert_left:
  assumes "dp_Path d = p"
  shows "triple (\<lambda>_ _. True) (left E (\<lambda>n. n = nr) (\<lambda>q. q = p)) (revert_add E d (getOSDDataPath E nr)) (\<lambda>_. left E nothing nothing) (\<lambda>_ _. False)"
proof -
  have a: "triple (\<lambda>_ _. True) (left E (\<lambda>n. n = nr) (\<lambda>q. q = p)) (osd_ask E (RemoveAll (getOSDDataPath E nr))) (\<lambda>_. left E nothing (\<lambda>q. q = p)) (\<lambda>_ _. False)"
    by (rule triple_ask) (auto intro: left_directory)
  have b: "triple (\<lambda>_ _. True) (left E nothing (\<lambda>q. q = p)) (attempt (DeleteDisk E (oe_name E) (dp_Path d))) (\<lambda>_. left E nothing nothing) (\<lambda>_ _. False)"
    unfolding DeleteDisk_def assms
    by (rule triple_attempt, rule triple_bind [where Mid = "\<lambda>_. left E nothing nothing"], rule triple_must)
      (auto intro: left_record [unfolded disk_delete_def] triple_return)
  show ?thesis unfolding revert_add_def by (rule triple_bind [OF a], rule triple_bind [OF b], rule triple_return)
qed


lemma fill_returns: "\<exists>v. fst (fill_osd E d wal db s m nr h) = Inr v"
  by (auto simp: fill_osd_def prepareOSDData_def prepareDisk_def Let_def io_bind_def io_return_def attempt_def ask_def split: prod.splits sum.splits option.splits)

lemma triple_total: "triple Q Pre f Post Err \<Longrightarrow> (\<And>h. \<exists>v. fst (f h) = Inr v) \<Longrightarrow> triple Q Pre f Post Err'"
proof (rule tripleI)
  fix h assume t: "triple Q Pre f Post Err" "\<And>h. \<exists>v. fst (f h) = Inr v" "Pre h"
  then obtain v where "fst (f h) = Inr v" by blast
  with t(1,3) show "\<exists>ext. snd (f h) = h @ ext \<and> allowed_ext Q h ext \<and> (case fst (f h) of Inr v \<Rightarrow> Post v (h @ ext) | Inl e \<Rightarrow> Err' e (h @ ext))"
    unfolding triple_def by fastforce
qed

lemma add_undone:
  assumes "\<not> dp_Encrypt d" "dp_LoopSize d = 0"
  shows "triple (\<lambda>_ _. True) (left E nothing nothing) (add_record E d wal db st m)
    (\<lambda>(_, err) h. err \<noteq> None \<longrightarrow> left E nothing nothing h) (\<lambda>_. left E nothing nothing)"
proof -
  let ?N = "left E nothing nothing" and ?P = "\<lambda>nr p. left E (\<lambda>n. n = nr) (\<lambda>q. q = p)" and ?T = "\<lambda>_ _. True"
  let ?same = "\<lambda>d'. dp_Encrypt d' = dp_Encrypt d \<and> dp_LoopSize d' = dp_LoopSize d"
  have keeps: "?same d'" if "setStablePath E s d h = (Inr d', h')" for s d' h h'
    using that by (auto simp: setStablePath_def io_bind_def io_return_def io_fail_def io_wrap_def split: if_splits prod.splits sum.splits)
  have stable: "triple ?T ?N (attempt (case st of None \<Rightarrow> stabilizeDevicePath E d
       | Some s \<Rightarrow> io_bind (io_wrap t (setStablePath E s d)) (\<lambda>d. io_return (d, Some s))))
      (\<lambda>r h. ?N h \<and> (\<forall>d' s. r = Inr (d', s) \<longrightarrow> ?same d')) (\<lambda>_. ?N)" for t
  proof (rule triple_result [OF recordless_triple])
    show "only recordless (attempt (case st of None \<Rightarrow> stabilizeDevicePath E d
       | Some s \<Rightarrow> io_bind (io_wrap t (setStablePath E s d)) (\<lambda>d. io_return (d, Some s))))"
      by (intro only_steps mild_recordless [OF mild_stabilize] mild_recordless [OF mild_stable])
  qed (use keeps in \<open>auto simp: stabilizeDevicePath_def attempt_def io_bind_def io_wrap_def io_return_def split: option.splits prod.splits sum.splits if_splits\<close>)
  have rec: "triple ?T ?N (attempt (createDiskRecord E d')) (\<lambda>r h. case r of Inl _ \<Rightarrow> ?N h | Inr nr \<Rightarrow> ?P nr (dp_Path d') h) (\<lambda>_. ?N)" for d'
    by (rule triple_attempt, rule triple_weaken [OF record_left]) simp_all
  have fill: "triple ?T (?P nr (dp_Path d')) (fill_osd E d' wal db s m nr)
      (\<lambda>(d2, _) h. ?P nr (dp_Path d') h \<and> dp_Path d2 = dp_Path d') (\<lambda>_. ?N)" if "?same d'" for d' s nr
  proof -
    have "triple ?T (?P nr (dp_Path d')) (fill_osd E d' wal db s m nr) (\<lambda>v h. ?P nr (dp_Path d') h \<and> dp_Path (fst v) = dp_Path d') (\<lambda>_. ?P nr (dp_Path d'))"
      by (rule triple_result [OF recordless_triple [OF recordless_fill]]) (metis assms fill_keeps_path prod.collapse that)
    then have "triple ?T (?P nr (dp_Path d')) (fill_osd E d' wal db s m nr) (\<lambda>v h. ?P nr (dp_Path d') h \<and> dp_Path (fst v) = dp_Path d') (\<lambda>_. ?N)"
      by (rule triple_total) (rule fill_returns)
    then show ?thesis by (simp add: split_def)
  qed
  have revert: "triple ?T (?P nr p) (revert_add E d' (getOSDDataPath E nr)) (\<lambda>_. ?N) (\<lambda>_. ?N)" if "dp_Path d' = p" for d' p nr
    by (rule triple_weaken [OF revert_left]) (use that in auto)
  show ?thesis unfolding add_record_def
    apply (rule triple_bind [OF stable], rule triple_pure, rule triple_sum, rule triple_return, simp)
    apply (simp only: split_paired_all split_conv, rule triple_bind [OF rec], rule triple_sum, rule triple_return, simp)
    apply (simp only: sum.case, rule triple_bind [OF fill], simp, simp only: split_paired_all split_conv)
    by (rule triple_pure, rule triple_option, rule triple_return, simp, rule triple_bind [OF revert], simp, rule triple_return, simp)
qed

text \<open>C9 (error). If enrolling a disk fails, without encryption and not on a loop file, then every record that
  the run created is followed by the removal of that OSD's data directory and by the deletion of the record
  of this member with the same path.\<close>

theorem failed_add_undone:
  assumes "\<not> dp_Encrypt d" "dp_LoopSize d = 0" "doAddOSD E d wal db [] = (Inl e, h)"
  shows "undone E h"
proof -
  have start: "left E nothing nothing []" by (simp add: left_def made_record_def)
  obtain r h1 where r: "add_record E d wal db None None [] = (r, h1)" by (rule prod.exhaust)
  have "case r of Inr v \<Rightarrow> snd v \<noteq> None \<longrightarrow> left E nothing nothing h1 | Inl _ \<Rightarrow> left E nothing nothing h1"
    by (rule tripleD [OF add_undone [OF assms(1,2)] start r]) (cases r; simp add: split_def)
  with r assms(3) show ?thesis
    by (auto simp: undone_left doAddOSD_def doAddOSDWithStorage_def io_bind_def io_return_def io_fail_def split: sum.splits option.splits prod.splits)
qed

text \<open>A run in which the daemon cannot be initialised.\<close>

definition failing_env :: osd_env where
  "failing_env = add_env\<lparr>oe_host := (\<lambda>h r. if r = mkfs_cmd 7 [] then Failed False (Some 1) ''mkfs'' else add_host h r)\<rparr>"

lemma demo_failure:
  "doAddOSD failing_env new_disk None None [] =
     (Inl (err_wrap ''failed to bootstrap OSD: '' (err_new ''mkfs'') ''''), snd (doAddOSD failing_env new_disk None None []))"
  "disk_create ''n1'' ''/dev/sdb'' \<in> set (snd (doAddOSD failing_env new_disk None None []))"
  by code_simp+

theorem failed_add_undone_witness:
  "undone failing_env (snd (doAddOSD failing_env new_disk None None [])) \<and> disk_create ''n1'' ''/dev/sdb'' \<in> set (snd (doAddOSD failing_env new_disk None None []))"
  using failed_add_undone [OF _ _ demo_failure(1)] demo_failure(2) by (simp add: new_disk_def)

text \<open>With encryption the rollback uses the path of the mapped device, so the record stays.\<close>

lemma encrypted_record_stays:
  "disk_create ''n1'' ''/dev/sdb'' \<in> set (snd (doAddOSD failing_env (new_disk\<lparr>dp_Encrypt := True\<rparr>) None None []))"
  "disk_delete failing_env ''/dev/sdb'' \<notin> set (snd (doAddOSD failing_env (new_disk\<lparr>dp_Encrypt := True\<rparr>) None None []))"
  "disk_delete failing_env ''/dev/mapper/luksosd-7'' \<in> set (snd (doAddOSD failing_env (new_disk\<lparr>dp_Encrypt := True\<rparr>) None None []))"
  by code_simp+

end
