(* ===== verification/Osd_Provision_Safety.thy ===== *)
theory Osd_Provision_Safety
  imports Osd_Provision Osd_Add_Safety
begin

text \<open>
  Provisioning by expressions: planning only looks at the machine, a plan keeps the roles of devices apart
  and resets only what the request allows, and its execution changes a carrier only as the plan says.
\<close>

section \<open>Requests that only look\<close>

fun looks :: "request \<Rightarrow> bool" where
  "looks (Stat p) \<longleftrightarrow> True"
| "looks (EvalSymlinks p) \<longleftrightarrow> True"
| "looks (ReadFile p) \<longleftrightarrow> True"
| "looks (Probe s a) \<longleftrightarrow> s \<in> {''hostname'', ''storage'', ''readdir'', ''open'', ''read''}"
| "looks (Db s a) \<longleftrightarrow> s \<in> {''placementPolicy'', ''diskObjects''}"
| "looks (Cmd (c # a # more_args)) \<longleftrightarrow> c = ''findmnt'' \<or> (c = ''wipefs'' \<and> a = ''--no-act'') \<or> (c = ''ceph-bluestore-tool'' \<and> a = ''show-label'')"
| "looks r \<longleftrightarrow> False"

lemma looks_simps [simp]: "looks (show_label_cmd p)" "looks (read_at p i)" "looks gate_query"
  by (simp_all add: show_label_cmd_def read_at_def gate_query_def)

lemma looks_mild: "looks r \<Longrightarrow> \<not> changes_carrier r \<and> \<not> enrolls r"
  by (cases r rule: looks.cases) auto

named_theorems looking

lemma looks_storage [looking]: "only looks (getStorageWithRetry E)"
  by (rule only_storage) simp

lemma looks_hostname [looking]: "only looks (os_hostname E)" "only looks (shortHostname E)"
  unfolding os_hostname_def shortHostname_def by (intro only_steps; simp)+

lemma looks_configured [looking]: "only looks (getStorageAndConfiguredDisks E)"
  unfolding getStorageAndConfiguredDisks_def OSD_List_def disks_query_def by (intro only_steps looking) simp

lemma looks_mounted [looking]: "only looks (IsMounted_io E p)"
  unfolding IsMounted_io_def by (intro only_steps) simp_all

lemma looks_linked: "only looks (linked E l ps)"
  by (induction ps) (auto intro!: only_steps)

lemma looks_ceph [looking]: "only looks (IsCephDevice_io E p)"
  unfolding IsCephDevice_io_def by (intro only_steps looks_linked) simp_all

lemma looks_zeros: "only looks (zeros_at E p sz os)"
  by (induction os) (auto intro!: only_steps)

lemma looks_pristine [looking]: "only looks (IsPristineDisk E p)"
  unfolding IsPristineDisk_def isLUKSMapping_def checkDeviceSignatures_def checkLUKSDeviceLabels_def
    checkForZeros_def getBlockDeviceSize_def checkDeviceWithBluestoreTool_def Let_def
  by (intro only_steps looks_zeros) (auto intro!: only_steps split: json.split option.split)

lemma looks_usable: "only looks (usable_now E p)"
  unfolding usable_now_def by (intro only_steps looking)

lemma looks_available: "only looks (available_walk E configured host ds)"
  by (induction ds) (auto intro!: only_steps looks_usable)

lemma looks_match [looking]: "only looks (matchOSDDisksWithDSL E x)"
  unfolding matchOSDDisksWithDSL_def FilterAvailableDisks_io_def split_def
  by (intro only_steps looking looks_available)

lemma looks_resolve [looking]: "only looks (resolvePathBestEffort E p)"
  unfolding resolvePathBestEffort_def by (intro only_steps) simp

lemma looks_names: "only looks (name_candidates E ps)"
  by (induction ps) (auto intro!: only_steps looking)

lemma looks_lookup: "only looks (lookup_names E ds)"
  by (induction ds) (auto simp: auxiliaryDiskPathCandidates_def intro!: only_steps looks_names looking)

lemma looks_walk: "only looks (usage_walk E lk ls u)"
  by (induction ls arbitrary: u) (auto intro!: only_steps looking)

lemma looks_usage [looking]: "only looks (collectLocalAuxDiskUsage E ds)"
  unfolding collectLocalAuxDiskUsage_def by (intro only_steps looks_lookup looks_walk) simp

lemma looks_any_mounted: "only looks (any_mounted E ps)"
  by (induction ps) (auto intro!: only_steps looking)

lemma looks_candidates [looking]: "only looks (carrier_candidates E ps ds)"
  by (induction ds) (auto simp: diskOrAnyPartitionMounted_def intro!: only_steps looks_any_mounted looking)

lemma looks_disposition: "only looks (auxiliaryDiskCandidateDisposition E p d u w)"
  unfolding auxiliaryDiskCandidateDisposition_def by (intro only_steps looking)

lemma looks_eligible [looking]: "only looks (eligible_walk E u w ds)"
  by (induction ds) (auto simp: split_def intro!: only_steps looks_disposition)

lemma looks_auxiliary [looking]: "only looks (matchAuxiliaryDisksWithDSL E x w)"
  unfolding matchAuxiliaryDisksWithDSL_def split_def by (intro only_steps looking)

lemma looks_kind [looking]: "only looks (match_kind E k x w)"
  unfolding match_kind_def split_def by (intro only_steps looking)

lemma looks_overlap [looking]: "only looks (refuse_overlap a b xs ys)"
  unfolding refuse_overlap_def Let_def by (intro only_steps)

lemma looks_plan_kind [looking]: "only looks (plan_kind E B upper kind ps x s ms rs)"
  unfolding plan_kind_def by (intro only_steps)

lemma looks_plan [looking]: "only looks (buildDSLProvisionPlan E B req)"
  unfolding buildDSLProvisionPlan_def split_def Let_def by (intro only_steps looking)

lemma looks_gate [looking]: "only looks (gate E D)"
  unfolding only_def gate_def by (auto split: option.split)

text \<open>C8 (safety). A dry run only looks: whatever the request asks for and whatever the host answers, a
  request with the dry-run flag makes no request that could change the machine or the database. It stats,
  resolves and reads files, lists mounts, signatures and labels, and reads the policy and the disk table.\<close>

theorem dry_run_only_looks:
  assumes "rq_DryRun req" "cmdDisksPost E D B req [] = (res, ext)"
  shows "list_all looks ext"
proof -
  have "only looks (AddDisksWithDSLRequest E D B req)"
    unfolding AddDisksWithDSLRequest_def buildDSLDryRunPlan_def MatchDisksWithDSL_def
    by (intro only_steps looking) (use assms(1) in simp_all)
  moreover have "usesDSLDiskAddRequest req" using assms(1) by (simp add: usesDSLDiskAddRequest_def)
  ultimately have "only looks (cmdDisksPost E D B req)" by (auto simp: cmdDisksPost_def intro!: only_steps)
  with assms(2) show ?thesis unfolding only_def by (metis append_Nil snd_conv)
qed


section \<open>What a plan promises\<close>

abbreviation anything :: "history \<Rightarrow> request \<Rightarrow> bool" where
  "anything \<equiv> \<lambda>_ _. True"

text \<open>A disk that an inventory of this log lists.\<close>

definition seen_disk :: "osd_env \<Rightarrow> disk \<Rightarrow> history \<Rightarrow> bool" where
  "seen_disk E d h \<longleftrightarrow> (\<exists>k ds. k < length h \<and> h ! k = Probe ''storage'' [] \<and> oe_storage E (take k h) = Inr ds \<and> d \<in> set ds)"

definition free_disk :: "osd_env \<Rightarrow> disk \<Rightarrow> history \<Rightarrow> bool" where
  "free_disk E d h \<longleftrightarrow>
     seen_disk E d h \<and> \<not> disk_ReadOnly d \<and> disk_Partitions d = [] \<and> MinOSDSize \<le> disk_Size d \<and> unmounted E (GetDevicePath d) h"

definition free_carrier :: "osd_env \<Rightarrow> disk \<Rightarrow> history \<Rightarrow> bool" where
  "free_carrier E d h \<longleftrightarrow>
     seen_disk E d h \<and> \<not> disk_ReadOnly d \<and> unmounted E (GetDevicePath d) h \<and> (\<forall>q \<in> set (disk_Partitions d). unmounted E (''/dev/'' @ part_ID q) h)"

lemma grows_seen: "grows (seen_disk E d)"
  unfolding grows_def seen_disk_def by (fastforce simp: nth_append)

lemma grows_all: "(\<And>x. x \<in> A \<Longrightarrow> grows (P x)) \<Longrightarrow> grows (\<lambda>h. \<forall>x \<in> A. P x h)"
  by (simp add: grows_def)

lemma grows_free: "grows (free_disk E d)" "grows (free_carrier E d)"
  unfolding free_disk_def free_carrier_def by (intro grows_rules grows_seen grows_unmounted grows_all)+

lemma disk_seen_now: "oe_storage E h = Inr ds \<Longrightarrow> d \<in> set ds \<Longrightarrow> seen_disk E d (h @ [Probe ''storage'' []])"
  unfolding seen_disk_def by (intro exI [of _ "length h"]) auto

text \<open>A procedure that only looks keeps what the log shows.\<close>

lemma keeps_triple: "only R f \<Longrightarrow> grows I \<Longrightarrow> triple anything I f (\<lambda>_. I) (\<lambda>_ _. True)"
  by (rule triple_weaken [OF only_triple [where I = I and R = R]]) (auto dest: growsD)

lemma storage_triple:
  "triple anything (\<lambda>_. True) (getStorageWithRetry E) (\<lambda>ds h. \<forall>d \<in> set ds. seen_disk E d h) (\<lambda>_ _. True)"
proof -
  have one: "triple anything (\<lambda>_. True) (getStorage E) (\<lambda>ds h. \<forall>d \<in> set ds. seen_disk E d h) (\<lambda>_ _. True)"
    unfolding getStorage_def by (rule triple_observe) (auto intro: disk_seen_now)
  have "triple anything (\<lambda>_. True) (storage_attempts E k) (\<lambda>ds h. \<forall>d \<in> set ds. seen_disk E d h) (\<lambda>_ _. True)" for k
  proof (induction k)
    case (Suc k)
    have tried: "triple anything (\<lambda>_. True) (attempt (getStorage E)) (\<lambda>r h. \<forall>ds. r = Inr ds \<longrightarrow> (\<forall>d \<in> set ds. seen_disk E d h)) (\<lambda>_ _. True)"
      by (rule triple_attempt, rule triple_weaken [OF one]) auto
    show ?case unfolding storage_attempts.simps
      by (rule triple_bind [OF tried], rule triple_sum, rule triple_weaken [OF Suc.IH]) (auto intro!: triple_return)
  qed (simp add: one)
  then show ?thesis by (simp add: getStorageWithRetry_def)
qed

lemma configured_triple:
  "triple anything (\<lambda>_. True) (getStorageAndConfiguredDisks E) (\<lambda>(ds, _) h. \<forall>d \<in> set ds. seen_disk E d h) (\<lambda>_ _. True)"
proof -
  have rows: "triple anything (\<lambda>h. \<forall>d \<in> set ds. seen_disk E d h) (io_wrap m (OSD_List E)) (\<lambda>_ h. \<forall>d \<in> set ds. seen_disk E d h) (\<lambda>_ _. True)" for ds m
    by (rule keeps_triple [where R = looks]) (auto simp: OSD_List_def disks_query_def intro!: only_steps grows_all grows_seen)
  show ?thesis unfolding getStorageAndConfiguredDisks_def
    by (rule triple_bind [OF triple_wrap [OF storage_triple]], rule triple_bind [OF rows]) (auto intro!: triple_return)
qed

lemma usable_triple:
  assumes "grows I"
  shows "triple anything I (usable_now E p) (\<lambda>u h. I h \<and> (u \<longrightarrow> unmounted E p h)) (\<lambda>_ _. True)"
proof -
  have mounted: "triple anything I (attempt (IsMounted_io E p)) (\<lambda>r h. I h \<and> (r = Inr False \<longrightarrow> unmounted E p h)) (\<lambda>_ _. True)"
    by (rule triple_attempt, rule triple_weaken [OF mounted_triple [OF assms]]) auto
  have ceph: "triple anything (\<lambda>h. I h \<and> unmounted E p h) (attempt (IsCephDevice_io E p)) (\<lambda>_ h. I h \<and> unmounted E p h) (\<lambda>_ _. True)"
    by (rule keeps_triple [where R = looks]) (intro only_steps looking grows_rules assms grows_unmounted)+
  have last: "triple anything (\<lambda>h. I h \<and> unmounted E p h) (io_bind (attempt (IsCephDevice_io E p)) (\<lambda>c. io_return (case c of Inl _ \<Rightarrow> False | Inr used \<Rightarrow> \<not> used)))
      (\<lambda>u h. I h \<and> (u \<longrightarrow> unmounted E p h)) (\<lambda>_ _. True)"
    by (rule triple_bind [OF ceph], rule triple_return) simp
  show ?thesis unfolding usable_now_def
    by (rule triple_bind [OF mounted], rule triple_sum, rule triple_return, simp, rule triple_if, rule triple_return, simp,
        rule triple_weaken [OF last]) auto
qed

lemma available_triple:
  assumes "grows I"
  shows "triple anything (\<lambda>h. I h \<and> (\<forall>d \<in> set ds. seen_disk E d h)) (available_walk E configured host ds)
    (\<lambda>kept h. I h \<and> set kept \<subseteq> set ds \<and> (\<forall>d \<in> set kept. free_disk E d h)) (\<lambda>_ _. True)"
  using assms
proof (induction ds arbitrary: I)
  case (Cons d ds)
  let ?J = "\<lambda>h. I h \<and> (\<forall>d \<in> set (d # ds). seen_disk E d h)" and ?K = "\<lambda>keep h. I h \<and> (keep \<longrightarrow> free_disk E d h)"
  have J: "grows ?J" by (intro grows_rules grows_all grows_seen Cons.prems)
  have K: "grows (?K keep)" for keep by (cases keep) (auto intro!: grows_rules grows_free Cons.prems)
  have first: "triple anything ?J (if disk_ReadOnly d \<or> 0 < length (disk_Partitions d) \<or> disk_Size d < MinOSDSize \<or> configured_on_host configured host (GetDevicePath d)
              then io_return False else usable_now E (GetDevicePath d)) (\<lambda>keep h. ?K keep h \<and> (\<forall>d \<in> set ds. seen_disk E d h)) (\<lambda>_ _. True)"
    by (rule triple_if, rule triple_return, simp, rule triple_weaken [OF usable_triple [OF J]]) (auto simp: free_disk_def)
  show ?case unfolding available_walk.simps
    by (rule triple_bind [OF first], rule triple_bind [OF Cons.IH [OF K]], rule triple_return) auto
qed (auto intro!: triple_return)

lemma sort_set [simp]: "set (sortDisksByStablePath G ds) = set ds"
  by (simp add: sortDisksByStablePath_def)

lemma matched_subset:
  "MatchDevices G e ds host = Inr ms \<Longrightarrow> set ms \<subseteq> set ds"
  by (induction ds arbitrary: ms) (auto split: sum.splits if_splits)

lemma osd_match_triple:
  "triple anything (\<lambda>_. True) (matchOSDDisksWithDSL E x) (\<lambda>m h. \<forall>d \<in> set (dm_MatchedDisks m). free_disk E d h) (\<lambda>_ _. True)"
proof -
  have filtered: "triple anything (\<lambda>h. \<forall>d \<in> set ds. seen_disk E d h) (io_wrap t (FilterAvailableDisks_io E ds cs))
      (\<lambda>kept h. \<forall>d \<in> set kept. free_disk E d h) (\<lambda>_ _. True)" for ds cs t
  proof -
    have host: "triple anything (\<lambda>h. \<forall>d \<in> set ds. seen_disk E d h) (io_wrap u (os_hostname E)) (\<lambda>_ h. True \<and> (\<forall>d \<in> set ds. seen_disk E d h)) (\<lambda>_ _. True)" for u
      by (rule triple_weaken [OF keeps_triple [where R = looks]]) (auto intro!: only_steps looking grows_all grows_seen)
    have walk: "triple anything (\<lambda>h. True \<and> (\<forall>d \<in> set ds. seen_disk E d h)) (available_walk E cs hn ds) (\<lambda>kept h. \<forall>d \<in> set kept. free_disk E d h) (\<lambda>_ _. True)" for hn
      by (rule triple_weaken [OF available_triple [OF grows_const]]) auto
    show ?thesis unfolding FilterAvailableDisks_io_def
      by (rule triple_wrap, rule triple_bind [OF host], rule walk)
  qed
  have short: "triple anything (\<lambda>h. \<forall>d \<in> set ds. free_disk E d h) (shortHostname E) (\<lambda>_ h. \<forall>d \<in> set ds. free_disk E d h) (\<lambda>_ _. True)" for ds
    by (rule keeps_triple [where R = looks]) (intro looking grows_all grows_free)+
  show ?thesis unfolding matchOSDDisksWithDSL_def
    apply (rule triple_if, rule triple_return, simp add: no_match_def, rule triple_sum, rule triple_return, simp add: no_match_def)
    apply (rule triple_bind [OF configured_triple], simp only: split_paired_all split_conv)
    apply (rule triple_bind [OF filtered], rule triple_bind [OF short], rule triple_sum, rule triple_return, simp add: no_match_def)
    by (rule triple_return) (auto simp: no_match_def dest: matched_subset)
qed

section \<open>Carriers\<close>

lemma any_mounted_triple:
  assumes "grows I"
  shows "triple anything I (any_mounted E ps) (\<lambda>m h. I h \<and> (\<not> m \<longrightarrow> (\<forall>p \<in> set ps. unmounted E p h))) (\<lambda>_. I)"
  using assms
proof (induction ps arbitrary: I)
  case (Cons p ps)
  have head: "triple anything I (IsMounted_io E p) (\<lambda>m h. I h \<and> (\<not> m \<longrightarrow> unmounted E p h)) (\<lambda>_. I)"
    by (rule triple_weaken [OF mounted_triple [OF Cons.prems]]) auto
  have K: "grows (\<lambda>h. I h \<and> unmounted E p h)" by (intro grows_rules Cons.prems grows_unmounted)
  show ?case unfolding any_mounted.simps
    by (rule triple_bind [OF head], rule triple_if, rule triple_return, simp, rule triple_weaken [OF Cons.IH [OF K]]) auto
qed (auto intro!: triple_return)

lemma candidates_triple:
  assumes "grows I"
  shows "triple anything (\<lambda>h. I h \<and> (\<forall>d \<in> set ds. seen_disk E d h)) (carrier_candidates E configured ds)
    (\<lambda>kept h. I h \<and> (\<forall>d \<in> set kept. free_carrier E d h)) (\<lambda>_ _. True)"
  using assms
proof (induction ds arbitrary: I)
  case (Cons d ds)
  let ?J = "\<lambda>h. I h \<and> (\<forall>d \<in> set (d # ds). seen_disk E d h)" and ?K = "\<lambda>keep h. I h \<and> (keep \<longrightarrow> free_carrier E d h)"
  have J: "grows ?J" by (intro grows_rules grows_all grows_seen Cons.prems)
  have K: "grows (?K keep)" for keep by (cases keep) (auto intro!: grows_rules grows_free Cons.prems)
  have tried: "triple anything ?J (attempt (diskOrAnyPartitionMounted E d))
      (\<lambda>r h. ?J h \<and> (r = Inr False \<longrightarrow> unmounted E (GetDevicePath d) h \<and> (\<forall>q \<in> set (disk_Partitions d). unmounted E (''/dev/'' @ part_ID q) h))) (\<lambda>_ _. True)"
    unfolding diskOrAnyPartitionMounted_def
    by (rule triple_attempt, rule triple_weaken [OF any_mounted_triple [OF J]]) auto
  have first: "triple anything ?J (if disk_ReadOnly d \<or> GetDevicePath d \<in> set configured then io_return False
              else io_bind (attempt (diskOrAnyPartitionMounted E d)) (\<lambda>m. io_return (case m of Inl _ \<Rightarrow> False | Inr mounted \<Rightarrow> \<not> mounted)))
      (\<lambda>keep h. ?K keep h \<and> (\<forall>d \<in> set ds. seen_disk E d h)) (\<lambda>_ _. True)"
    by (rule triple_if, rule triple_return, simp, rule triple_bind [OF tried], rule triple_return)
      (auto simp: free_carrier_def split: sum.splits)
  show ?case unfolding carrier_candidates.simps
    by (rule triple_bind [OF first], rule triple_bind [OF Cons.IH [OF K]], rule triple_return) auto
qed (auto intro!: triple_return)


text \<open>Resets are chosen only with the wipe flag.\<close>

lemma disposition_reset:
  "auxiliaryDiskCandidateDisposition E p d u wipe h = (Inr (eligible, reset), h') \<Longrightarrow> reset \<Longrightarrow> wipe"
  by (auto simp: auxiliaryDiskCandidateDisposition_def io_return_def io_bind_def split: if_splits prod.splits sum.splits)

lemma eligible_facts:
  assumes "eligible_walk E usage wipe ds h = (Inr (kept, resets), h')"
  shows "set kept \<subseteq> set ds \<and> (resets \<noteq> [] \<longrightarrow> wipe)"
  using assms
proof (induction ds arbitrary: h kept resets h')
  case (Cons d ds)
  let ?a = "auxiliaryDiskCandidateDisposition E (GetDevicePath d) d (usage (GetDevicePath d)) wipe"
  from Cons.prems obtain el re h1 where a: "?a h = (Inr (el, re), h1)"
    by (auto simp: io_bind_def split: prod.splits sum.splits)
  with Cons.prems obtain ks rs h2 where w: "eligible_walk E usage wipe ds h1 = (Inr (ks, rs), h2)"
    by (auto simp: io_bind_def split: prod.splits sum.splits)
  have "kept = (if el then d # ks else ks)" "resets = (if el \<and> re then GetDevicePath d # rs else rs)"
    using Cons.prems a w by (auto simp: io_bind_def io_return_def split: if_splits)
  with Cons.IH [OF w] disposition_reset [OF a] show ?case by auto
qed (simp add: io_return_def)

definition kind_ok :: "osd_env \<Rightarrow> bool \<Rightarrow> disk list \<Rightarrow> string list \<Rightarrow> history \<Rightarrow> bool" where
  "kind_ok E wipe ms resets h \<longleftrightarrow> (\<forall>d \<in> set ms. free_carrier E d h) \<and> (resets \<noteq> [] \<longrightarrow> wipe)"

lemma grows_kind: "grows (kind_ok E wipe ms resets)"
  unfolding kind_ok_def by (intro grows_rules grows_all grows_free)

lemma auxiliary_triple:
  "triple anything (\<lambda>_. True) (matchAuxiliaryDisksWithDSL E x wipe) (\<lambda>(ms, resets). kind_ok E wipe ms resets) (\<lambda>_ _. True)"
proof -
  let ?S = "\<lambda>ds h. \<forall>d \<in> set ds. seen_disk E d h" and ?C = "\<lambda>ds h. \<forall>d \<in> set ds. free_carrier E d h"
  have parse: "triple anything (\<lambda>_. True) (of_result r) (\<lambda>_ _. True) (\<lambda>_ _. True)" for r :: "go_error + expr"
    by (rule keeps_triple [where R = looks]) (intro only_of_result grows_const)+
  have host: "triple anything (?S ds) (io_wrap u (os_hostname E)) (\<lambda>_. ?S ds) (\<lambda>_ _. True)" for ds u
    by (rule keeps_triple [where R = looks]) (intro only_steps looking grows_all grows_seen)+
  have usage: "triple anything (?S ds) (collectLocalAuxDiskUsage E ds) (\<lambda>_ h. True \<and> ?S ds h) (\<lambda>_ _. True)" for ds
    by (rule triple_weaken [OF keeps_triple [where R = looks and I = "?S ds"]]) (auto intro!: looking grows_all grows_seen)
  have cand: "triple anything (\<lambda>h. True \<and> ?S ds h) (carrier_candidates E cs ds) (\<lambda>kept. ?C kept) (\<lambda>_ _. True)" for ds cs
    by (rule triple_weaken [OF candidates_triple [OF grows_const]]) auto
  have short: "triple anything (?C ds) (shortHostname E) (\<lambda>_. ?C ds) (\<lambda>_ _. True)" for ds
    by (rule keeps_triple [where R = looks]) (intro looking grows_all grows_free)+
  have walk: "triple anything (?C ds) (eligible_walk E u wipe ms) (\<lambda>(kept, resets) h. ?C ds h \<and> set kept \<subseteq> set ms \<and> (resets \<noteq> [] \<longrightarrow> wipe)) (\<lambda>_ _. True)" for ds u ms
    by (rule triple_weaken [OF triple_result [where P = "\<lambda>(kept, resets). set kept \<subseteq> set ms \<and> (resets \<noteq> [] \<longrightarrow> wipe)", OF keeps_triple [where R = looks and I = "?C ds"]]])
      (auto intro!: looking grows_all grows_free dest: eligible_facts)
  show ?thesis unfolding matchAuxiliaryDisksWithDSL_def
    apply (rule triple_if, rule triple_return, simp add: kind_ok_def, rule triple_bind [OF parse])
    apply (rule triple_bind [OF configured_triple], simp only: split_paired_all split_conv)
    apply (rule triple_bind [OF host], rule triple_bind [OF usage], rule triple_bind [OF cand], rule triple_bind [OF short])
    apply (rule triple_sum, rule triple_fail, simp, rule triple_bind [OF walk], simp only: split_paired_all split_conv)
    by (rule triple_return) (auto simp: kind_ok_def dest!: matched_subset)
qed

lemma match_kind_triple:
  "triple anything (\<lambda>_. True) (match_kind E kind x wipe) (\<lambda>(ms, resets, _). kind_ok E wipe ms resets) (\<lambda>_ _. True)"
  unfolding match_kind_def
  by (rule triple_if, rule triple_return, simp add: kind_ok_def, rule triple_bind [OF auxiliary_triple]) (auto intro!: triple_return)

section \<open>The planned partitions\<close>

lemma plan_loop_facts:
  "plan_loop G kind sz osds states = Some (Inr ps) \<Longrightarrow>
   length ps = length osds \<and> (\<forall>a \<in> set ps. pa_Kind a = kind \<and>
     (\<exists>c \<in> set states. cs_Path c = pa_ParentPath a \<and> (pa_ResetBeforeUse a \<longrightarrow> cs_ResetBeforeUse c)))"
proof (induction osds arbitrary: states ps)
  case (Cons osd osds)
  from Cons.prems obtain c s' qs where c: "choose_carrier states sz = Some c" "take_slot sz (states ! c) = Some s'"
      "plan_loop G kind sz osds (states[c := s']) = Some (Inr qs)" "ps = planned_on kind sz (states ! c) # qs"
    by (rule plan_loop_step)
  have i: "states ! c \<in> set states" using choose_Some(1) [OF c(1)] by simp
  have s': "cs_Path s' = cs_Path (states ! c)" "\<not> cs_ResetBeforeUse s'" using c(2) by (auto simp: take_slot_def)
  have "\<exists>x \<in> set states. cs_Path x = pa_ParentPath a \<and> (pa_ResetBeforeUse a \<longrightarrow> cs_ResetBeforeUse x)"
    if "a \<in> set qs" for a
  proof -
    from Cons.IH [OF c(3)] that obtain x where "x \<in> set (states[c := s'])" "cs_Path x = pa_ParentPath a" "pa_ResetBeforeUse a \<longrightarrow> cs_ResetBeforeUse x" by blast
    then show ?thesis using set_update_subset_insert [of states c s'] s' i by (metis insertE subsetD)
  qed
  with Cons.IH [OF c(3)] c(4) i show ?case by (auto simp: planned_on_def)
qed simp

lemma those_members: "those xs = Some ys \<Longrightarrow> y \<in> set ys \<Longrightarrow> Some y \<in> set xs"
  by (induction xs arbitrary: ys) (auto split: option.splits)

lemma planned_facts:
  assumes "planAuxiliaryPartitionsDetailed G osds carriers reset sz kind = Some (Inr out)"
  shows "length out = length osds" "Some a \<in> set out \<Longrightarrow> pa_Kind a = kind"
    "Some a \<in> set out \<Longrightarrow> pa_ParentPath a \<in> GetDevicePath ` set carriers"
    "Some a \<in> set out \<Longrightarrow> pa_ResetBeforeUse a \<Longrightarrow> reset (pa_ParentPath a)"
proof -
  have start: "cs_Path c = GetDevicePath d \<and> (cs_ResetBeforeUse c \<longrightarrow> reset (GetDevicePath d))" if "carrier_start reset d = Some c" for c d
    using that by (auto simp: carrier_start_def Let_def split: option.splits if_splits)
  have "length out = length osds \<and> (\<forall>a. Some a \<in> set out \<longrightarrow> pa_Kind a = kind \<and> pa_ParentPath a \<in> GetDevicePath ` set carriers \<and>
      (pa_ResetBeforeUse a \<longrightarrow> reset (pa_ParentPath a)))"
  proof (cases "osds = [] \<or> carriers = []")
    case False
    then obtain states r where "those (map (carrier_start reset) carriers) = Some states"
        "plan_loop G kind sz osds states = Some r" "map_sum id (map Some) r = Inr out"
      using assms by (auto simp: planAuxiliaryPartitionsDetailed_def split: option.splits)
    then obtain ps where st: "those (map (carrier_start reset) carriers) = Some states" "plan_loop G kind sz osds states = Some (Inr ps)" "out = map Some ps"
      by (cases r) auto
    have "\<exists>d \<in> set carriers. carrier_start reset d = Some c" if "c \<in> set states" for c
      using those_members [OF st(1) that] by auto
    then have "cs_Path c \<in> GetDevicePath ` set carriers \<and> (cs_ResetBeforeUse c \<longrightarrow> reset (cs_Path c))" if "c \<in> set states" for c
      using start that by (metis imageI)
    then have "pa_ParentPath a \<in> GetDevicePath ` set carriers \<and> (pa_ResetBeforeUse a \<longrightarrow> reset (pa_ParentPath a))" if "a \<in> set ps" for a
      using plan_loop_facts [OF st(2)] that by metis
    with plan_loop_facts [OF st(2)] st(3) show ?thesis by auto
  qed (use assms in \<open>auto simp: planAuxiliaryPartitionsDetailed_def\<close>)
  then show "length out = length osds" "Some a \<in> set out \<Longrightarrow> pa_Kind a = kind"
    "Some a \<in> set out \<Longrightarrow> pa_ParentPath a \<in> GetDevicePath ` set carriers"
    "Some a \<in> set out \<Longrightarrow> pa_ResetBeforeUse a \<Longrightarrow> reset (pa_ParentPath a)" by blast+
qed


definition row_ok :: "disks_post \<Rightarrow> planned_osd \<Rightarrow> bool" where
  "row_ok req row \<longleftrightarrow>
     (\<forall>a. po_WAL row = Some a \<longrightarrow> pa_Kind a = ''wal'' \<and> (pa_ResetBeforeUse a \<longrightarrow> rq_WALWipe req)) \<and>
     (\<forall>a. po_DB row = Some a \<longrightarrow> pa_Kind a = ''db'' \<and> (pa_ResetBeforeUse a \<longrightarrow> rq_DBWipe req))"

definition osd_paths :: "provision_plan \<Rightarrow> string set" where
  "osd_paths plan = po_OSDPath ` set (pv_OSDs plan)"

definition wal_parents :: "provision_plan \<Rightarrow> string set" where
  "wal_parents plan = {pa_ParentPath a |a row. row \<in> set (pv_OSDs plan) \<and> po_WAL row = Some a}"

definition db_parents :: "provision_plan \<Rightarrow> string set" where
  "db_parents plan = {pa_ParentPath a |a row. row \<in> set (pv_OSDs plan) \<and> po_DB row = Some a}"

definition plan_ok :: "osd_env \<Rightarrow> disks_post \<Rightarrow> provision_plan \<Rightarrow> history \<Rightarrow> bool" where
  "plan_ok E req plan h \<longleftrightarrow>
     osd_paths plan \<inter> wal_parents plan = {} \<and> osd_paths plan \<inter> db_parents plan = {} \<and> wal_parents plan \<inter> db_parents plan = {} \<and>
     list_all (row_ok req) (pv_OSDs plan) \<and>
     (\<forall>p \<in> osd_paths plan. \<exists>d. GetDevicePath d = p \<and> free_disk E d h) \<and>
     (\<forall>p \<in> wal_parents plan \<union> db_parents plan. \<exists>d. GetDevicePath d = p \<and> free_carrier E d h)"

text \<open>The planned partitions of one kind.\<close>

definition parts_ok :: "string \<Rightarrow> bool \<Rightarrow> disk list \<Rightarrow> nat \<Rightarrow> planned_aux option list \<Rightarrow> bool" where
  "parts_ok kind wipe ms n out \<longleftrightarrow> length out = n \<and>
     (\<forall>a. Some a \<in> set out \<longrightarrow> pa_Kind a = kind \<and> pa_ParentPath a \<in> GetDevicePath ` set ms \<and> (pa_ResetBeforeUse a \<longrightarrow> wipe))"

lemma plan_kind_ok:
  assumes "plan_kind E B upper kind ps x s ms resets h = (Inr out, h')" "resets \<noteq> [] \<longrightarrow> wipe"
  shows "parts_ok kind wipe ms (length ps) out"
proof -
  from assms(1) consider "out = replicate (length ps) None"
    | n where "planAuxiliaryPartitionsDetailed (oe_lib E) ps ms (\<lambda>p. p \<in> set resets) (word_of_int n) kind = Some (Inr out)"
    by (auto simp: plan_kind_def io_return_def io_fail_def split: if_splits sum.splits option.splits)
  then show ?thesis
  proof cases
    case 2
    from planned_facts [OF 2] assms(2) show ?thesis unfolding parts_ok_def by (metis empty_iff list.set(1))
  qed (simp add: parts_ok_def)
qed

lemma plan_kind_triple:
  assumes "grows I" "\<And>h. I h \<Longrightarrow> resets \<noteq> [] \<longrightarrow> wipe"
  shows "triple anything I (plan_kind E B upper kind ps x s ms resets) (\<lambda>out h. I h \<and> parts_ok kind wipe ms (length ps) out) (\<lambda>_ _. True)"
proof (cases "resets \<noteq> [] \<longrightarrow> wipe")
  case True
  show ?thesis
    by (rule triple_result [OF keeps_triple [where R = looks]]) (auto intro: looking assms(1) plan_kind_ok [OF _ True])
next
  case False
  then have "\<not> I h" for h using assms(2) by blast
  then show ?thesis by (simp add: triple_def)
qed

lemma overlap_triple:
  assumes "grows I"
  shows "triple anything I (refuse_overlap a b xs ys) (\<lambda>_ h. I h \<and> set xs \<inter> set ys = {}) (\<lambda>_ _. True)"
proof -
  have "set xs \<inter> set ys = {}" if "intersectPathSets xs ys = []" 
    using that by (auto simp: intersectPathSets_def filter_empty_conv dest: arg_cong [where f = set])
  then show ?thesis unfolding refuse_overlap_def Let_def by (auto intro!: triple_if triple_return triple_fail)
qed

lemma path_set: "set (buildPathSet G ds) = GetDevicePath ` set ds"
  by (simp add: buildPathSet_def dsl_GetDevicePath_def NewDeviceContext_def)

lemma zip_rows: "length ws = length ps \<Longrightarrow> length ds = length ps \<Longrightarrow>
   row \<in> set (map (\<lambda>(p, w, d). \<lparr>po_OSDPath = p, po_WAL = w, po_DB = d\<rparr>) (zip ps (zip ws ds))) \<Longrightarrow>
   po_OSDPath row \<in> set ps \<and> po_WAL row \<in> set ws \<and> po_DB row \<in> set ds"
  by (auto simp: in_set_zip)

lemma disjoint_mono: "A \<subseteq> A' \<Longrightarrow> B \<subseteq> B' \<Longrightarrow> A' \<inter> B' = {} \<Longrightarrow> A \<inter> B = {}"
  by blast

lemma rows_ok:
  fixes osds wals dbs :: "disk list"
  assumes "parts_ok ''wal'' (rq_WALWipe req) wals (length ps) ws" "parts_ok ''db'' (rq_DBWipe req) dbs (length ps) ds"
    and "GetDevicePath ` set osds \<inter> GetDevicePath ` set wals = {}" "GetDevicePath ` set osds \<inter> GetDevicePath ` set dbs = {}"
      "GetDevicePath ` set wals \<inter> GetDevicePath ` set dbs = {}"
    and "set ps = GetDevicePath ` set osds"
    and "\<forall>d \<in> set osds. free_disk E d h" "\<forall>d \<in> set wals. free_carrier E d h" "\<forall>d \<in> set dbs. free_carrier E d h"
  shows "plan_ok E req \<lparr>pv_OSDs = map (\<lambda>(p, w, d). \<lparr>po_OSDPath = p, po_WAL = w, po_DB = d\<rparr>) (zip ps (zip ws ds)), pv_Warnings = warn\<rparr> h"
proof -
  let ?plan = "\<lparr>pv_OSDs = map (\<lambda>(p, w, d). \<lparr>po_OSDPath = p, po_WAL = w, po_DB = d\<rparr>) (zip ps (zip ws ds)), pv_Warnings = warn\<rparr>"
  have len: "length ws = length ps" "length ds = length ps" using assms(1,2) by (simp_all add: parts_ok_def)
  have row: "po_OSDPath row \<in> set ps \<and> po_WAL row \<in> set ws \<and> po_DB row \<in> set ds" if "row \<in> set (pv_OSDs ?plan)" for row
    using zip_rows [OF len] that by simp
  have osd: "osd_paths ?plan \<subseteq> GetDevicePath ` set osds" using row assms(6) unfolding osd_paths_def by blast
  have wal: "wal_parents ?plan \<subseteq> GetDevicePath ` set wals" using row assms(1) unfolding wal_parents_def parts_ok_def by force
  have db: "db_parents ?plan \<subseteq> GetDevicePath ` set dbs" using row assms(2) unfolding db_parents_def parts_ok_def by force
  have "row_ok req r" if "r \<in> set (pv_OSDs ?plan)" for r
    unfolding row_ok_def using row [OF that] assms(1,2) unfolding parts_ok_def by auto
  then have rows: "list_all (row_ok req) (pv_OSDs ?plan)" by (simp only: list_all_iff) blast
  have apart: "osd_paths ?plan \<inter> wal_parents ?plan = {}" "osd_paths ?plan \<inter> db_parents ?plan = {}" "wal_parents ?plan \<inter> db_parents ?plan = {}"
    using disjoint_mono [OF osd wal assms(3)] disjoint_mono [OF osd db assms(4)] disjoint_mono [OF wal db assms(5)] .
  have free: "\<exists>d. GetDevicePath d = p \<and> free_disk E d h" if "p \<in> osd_paths ?plan" for p
    using subsetD [OF osd that] assms(7) by blast
  have carriers: "\<exists>d. GetDevicePath d = p \<and> free_carrier E d h" if "p \<in> wal_parents ?plan \<union> db_parents ?plan" for p
    using that subsetD [OF wal] subsetD [OF db] assms(8,9) by blast
  from apart rows free carriers show ?thesis unfolding plan_ok_def by blast
qed

lemma plan_triple: "triple anything (\<lambda>_. True) (buildDSLProvisionPlan E B req) (\<lambda>plan. plan_ok E req plan) (\<lambda>_ _. True)"
proof -
  let ?F = "\<lambda>m h. \<forall>d \<in> set (dm_MatchedDisks m). free_disk E d h" and ?K = "\<lambda>wipe ms rs. kind_ok E wipe ms rs"
  have G1: "grows (?F m)" for m by (intro grows_all grows_free)
  have wal: "triple anything (?F m) (match_kind E kind x wipe) (\<lambda>(ms, rs, _) h. ?K wipe ms rs h \<and> ?F m h) (\<lambda>_ _. True)" for m kind x wipe
    by (rule triple_weaken [OF triple_frame [OF match_kind_triple G1]]) auto
  have G2: "grows (\<lambda>h. ?K w ms rs h \<and> ?F m h)" for w ms rs m by (intro grows_rules grows_kind G1)
  have db: "triple anything (\<lambda>h. ?K w ms rs h \<and> ?F m h) (match_kind E kind x wipe)
      (\<lambda>(ds, qs, _) h. ?K wipe ds qs h \<and> ?K w ms rs h \<and> ?F m h) (\<lambda>_ _. True)" for w ms rs m kind x wipe
    by (rule triple_weaken [OF triple_frame [OF match_kind_triple G2]]) auto
  have empty: "plan_ok E req \<lparr>pv_OSDs = [], pv_Warnings = w\<rparr> h" for w h
    by (simp add: plan_ok_def osd_paths_def wal_parents_def db_parents_def)
  show ?thesis unfolding buildDSLProvisionPlan_def Let_def
    apply (rule triple_bind [OF osd_match_triple], rule triple_if, rule triple_fail, simp)
    apply (rule triple_if, rule triple_return, rule empty)
    apply (rule triple_bind [OF wal], simp only: split_paired_all split_conv)
    apply (rule triple_bind [OF db], simp only: split_paired_all split_conv)
    apply (rule triple_bind [OF overlap_triple], intro grows_rules grows_kind G1)
    apply (rule triple_bind [OF overlap_triple], intro grows_rules grows_kind G1)
    apply (rule triple_bind [OF overlap_triple], intro grows_rules grows_kind G1)
    apply (rule triple_bind [OF plan_kind_triple [where wipe = "rq_WALWipe req"]], intro grows_rules grows_kind G1, simp add: kind_ok_def)
    apply (rule triple_bind [OF plan_kind_triple [where wipe = "rq_DBWipe req"]], intro grows_rules grows_kind G1, simp add: kind_ok_def)
    apply (rule triple_return, rule rows_ok)
            apply (auto simp: path_set kind_ok_def dsl_GetDevicePath_def NewDeviceContext_def)
    done
qed


text \<open>C7 (safety). A provisioning plan keeps the roles of devices apart: no device is planned both for OSD
  data and as a carrier, or as a carrier of both kinds; a carrier is reset only if the request allows
  wiping for that kind. Every data disk was listed by an inventory of this run as writable, without
  partitions and of at least the minimal size, and was seen not to be mounted; every carrier was listed as
  writable, and neither it nor any of its partitions was mounted.\<close>

theorem plan_separates:
  assumes "buildDSLProvisionPlan E B req [] = (Inr plan, h)"
  shows "plan_ok E req plan h"
  by (rule tripleD [OF plan_triple TrueI assms]) simp

section \<open>Execution\<close>

definition part_allowed :: "disks_post \<Rightarrow> planned_aux \<Rightarrow> bool" where
  "part_allowed req a \<longleftrightarrow>
     (pa_Kind a = ''wal'' \<and> (pa_ResetBeforeUse a \<longrightarrow> rq_WALWipe req)) \<or> (pa_Kind a = ''db'' \<and> (pa_ResetBeforeUse a \<longrightarrow> rq_DBWipe req))"

text \<open>A recorded partition that this run made, with the identity it read.\<close>

definition made_part :: "osd_env \<Rightarrow> disks_post \<Rightarrow> gen_dev \<Rightarrow> history \<Rightarrow> bool" where
  "made_part E req entry h \<longleftrightarrow>
     (\<exists>a. part_allowed req a \<and> identified E a (gd_PartUUID entry) h \<and> gd_ParentPath entry = pa_ParentPath a \<and> gd_Partition entry = pa_Partition a)"

definition any_wipe :: "disks_post \<Rightarrow> bool" where
  "any_wipe req \<longleftrightarrow> rq_Wipe req \<or> rq_WALWipe req \<or> rq_DBWipe req"

definition provision_allows :: "osd_env \<Rightarrow> (history \<Rightarrow> dbst) \<Rightarrow> disks_post \<Rightarrow> history \<Rightarrow> request \<Rightarrow> bool" where
  "provision_allows E D req h r \<longleftrightarrow>
     (enrolls r \<or> changes_carrier r \<longrightarrow> gate_open E D h \<and> \<not> rq_DryRun req) \<and>
     (changes_carrier r \<longrightarrow>
        (any_wipe req \<and> (\<exists>p. r = zap_device p \<and> not_mounted E p h)) \<or>
        (\<exists>a. part_allowed req a \<and> create_allows E a h r) \<or>
        (\<exists>entry. made_part E req entry h \<and> cleanup_allows E entry h r))"

lemma grows_made: "grows (made_part E req entry)"
  unfolding grows_def made_part_def using growsD [OF grows_identified] by blast

lemma allows_enroll: "enroll_allows E D w h r \<Longrightarrow> (w \<Longrightarrow> any_wipe req) \<Longrightarrow> \<not> rq_DryRun req \<Longrightarrow> provision_allows E D req h r"
  unfolding enroll_allows_def provision_allows_def by blast

abbreviation opened :: "osd_env \<Rightarrow> (history \<Rightarrow> dbst) \<Rightarrow> disks_post \<Rightarrow> history \<Rightarrow> bool" where
  "opened E D req \<equiv> \<lambda>h. gate_open E D h \<and> \<not> rq_DryRun req"

lemma grows_opened: "grows (opened E D req)"
  by (intro grows_rules grows_gate)

lemma allows_create: "part_allowed req a \<Longrightarrow> create_allows E a h r \<Longrightarrow> opened E D req h \<Longrightarrow> provision_allows E D req h r"
  unfolding provision_allows_def by blast

lemma allows_cleanup: "made_part E req e h \<Longrightarrow> cleanup_allows E e h r \<Longrightarrow> opened E D req h \<Longrightarrow> provision_allows E D req h r"
  unfolding provision_allows_def by blast

lemma look_triple:
  "only looks f \<Longrightarrow> grows I \<Longrightarrow> triple (provision_allows E D req) I f (\<lambda>_. I) (\<lambda>_. I)"
  by (rule only_triple [where R = looks]) (auto simp: provision_allows_def dest: looks_mild growsD)

text \<open>What a created device is recorded as.\<close>

definition made_of :: "osd_env \<Rightarrow> disks_post \<Rightarrow> bool \<Rightarrow> (disk_param \<times> gen_dev) option \<Rightarrow> history \<Rightarrow> bool" where
  "made_of E req wipe m h \<longleftrightarrow> (\<forall>dp gd. m = Some (dp, gd) \<longrightarrow> made_part E req gd h \<and> dp_Wipe dp = wipe)"

lemma grows_made_of: "grows (made_of E req wipe m)"
  unfolding grows_def made_of_def using growsD [OF grows_made] by blast

lemma made_ofD:
  "made_of E req wipe m h \<Longrightarrow> map_option snd m = Some e \<Longrightarrow> made_part E req e h"
  "made_of E req wipe m h \<Longrightarrow> map_option fst m = Some d \<Longrightarrow> dp_Wipe d = wipe"
  by (auto simp: made_of_def)

lemma triple_implied: "(\<And>h. Pre h \<Longrightarrow> b) \<Longrightarrow> (b \<Longrightarrow> triple Q Pre f Post Err) \<Longrightarrow> triple Q Pre f Post Err"
  by (cases b) (auto simp: triple_def)

lemma manifest_of_Some:
  "manifest_of w b = Some m \<Longrightarrow> gm_WAL m = w \<and> gm_DB m = b"
  by (auto simp: manifest_of_def split: if_splits)

text \<open>Trying a procedure and looking at its result.\<close>

lemma triple_try: "triple Q Pre f Post' Err' \<Longrightarrow> triple Q Pre (attempt f) (\<lambda>r h. case r of Inl e \<Rightarrow> Err' e h | Inr v \<Rightarrow> Post' v h) Err"
  by (rule triple_attempt) simp

lemma triple_cases:
  assumes "\<And>e. triple Q (P1 e) (f e) Post Err" "\<And>v. triple Q (P2 v) (g v) Post Err"
  shows "triple Q (\<lambda>h. case x of Inl e \<Rightarrow> P1 e h | Inr v \<Rightarrow> P2 v h) (case x of Inl e \<Rightarrow> f e | Inr v \<Rightarrow> g v) Post Err"
  using assms by (cases x) auto

lemma make_triple:
  assumes "\<And>a. plan = Some a \<Longrightarrow> part_allowed req a" "grows I"
  shows "triple (provision_allows E D req) (\<lambda>h. opened E D req h \<and> I h) (make_aux E plan encrypt wipe)
    (\<lambda>m h. made_of E req wipe m h \<and> opened E D req h \<and> I h) (\<lambda>_ h. opened E D req h \<and> I h)"
proof (cases plan)
  case None
  then show ?thesis by (simp add: make_aux_def made_of_def triple_return)
next
  case (Some a)
  let ?O = "\<lambda>h. opened E D req h \<and> I h"
  have O: "grows ?O" by (intro grows_conj grows_opened assms(2))
  let ?Post = "\<lambda>(_, made) h. \<exists>u. made = a\<lparr>pa_PartUUID := u\<rparr> \<and> identified E a u h"
  have "triple (\<lambda>h r. create_allows E a h r \<and> ?O h) (\<lambda>h. True \<and> ?O h) (createPlannedAuxPartition E a)
      (\<lambda>v h. ?Post v h \<and> ?O h) (\<lambda>_ h. True \<and> ?O h)"
    by (rule triple_weaken [OF triple_knowing [OF triple_frame [OF create_triple O] O]]) auto
  then have make: "triple (provision_allows E D req) ?O (createPlannedAuxPartition E a) (\<lambda>v h. ?Post v h \<and> ?O h) (\<lambda>_. ?O)"
    by (rule triple_weaken [OF triple_allow]) (use allows_create [OF assms(1) [OF Some]] in simp_all)
  show ?thesis unfolding make_aux_def Some option.case
    by (rule triple_bind [OF make], simp only: split_paired_all split_conv, rule triple_return)
      (use assms(1) [OF Some] in \<open>auto simp: made_of_def made_part_def buildGeneratedAuxDiskParameter_def\<close>)
qed

lemma undo_triple:
  assumes "grows I" "\<And>h e. gm_WAL m = Some e \<Longrightarrow> I h \<Longrightarrow> made_part E req e h" "\<And>h e. gm_DB m = Some e \<Longrightarrow> I h \<Longrightarrow> made_part E req e h"
  shows "triple (provision_allows E D req) (\<lambda>h. opened E D req h \<and> I h) (cleanupGeneratedAuxEntries E (Some m) nr)
    (\<lambda>_. opened E D req) (\<lambda>_. opened E D req)"
proof -
  let ?O = "\<lambda>h. opened E D req h \<and> I h"
  have O: "grows ?O" by (intro grows_conj grows_opened assms(1))
  have one: "triple (provision_allows E D req) ?O (cleanupGeneratedAuxDevice E kind entry nr) (\<lambda>_. ?O) (\<lambda>_. ?O)"
    if "\<And>h e. entry = Some e \<Longrightarrow> I h \<Longrightarrow> made_part E req e h" for kind entry
  proof (cases entry)
    case None
    then show ?thesis by (simp add: cleanupGeneratedAuxDevice_def triple_return)
  next
    case (Some e)
    have "triple (\<lambda>h r. cleanup_allows E e h r \<and> ?O h) (\<lambda>h. True \<and> ?O h) (cleanupGeneratedAuxDevice E kind entry nr) (\<lambda>_ h. True \<and> ?O h) (\<lambda>_ h. True \<and> ?O h)"
      unfolding Some by (rule triple_weaken [OF triple_knowing [OF triple_frame [OF cleanup_triple O] O]]) auto
    then show ?thesis by (rule triple_weaken [OF triple_allow]) (auto intro: allows_cleanup that [OF Some])
  qed
  show ?thesis unfolding cleanupGeneratedAuxEntries_def option.case
    by (rule triple_weaken [OF triple_bind [OF one one]]) (use assms(2,3) in auto)
qed


lemma add_storage_triple:
  assumes "\<And>d. wal = Some d \<Longrightarrow> dp_Wipe d \<Longrightarrow> any_wipe req" "\<And>d. db = Some d \<Longrightarrow> dp_Wipe d \<Longrightarrow> any_wipe req" "dp_Wipe d \<Longrightarrow> any_wipe req"
    and "grows I" "\<And>h mm e. m = Some mm \<Longrightarrow> gm_WAL mm = Some e \<Longrightarrow> I h \<Longrightarrow> made_part E req e h"
      "\<And>h mm e. m = Some mm \<Longrightarrow> gm_DB mm = Some e \<Longrightarrow> I h \<Longrightarrow> made_part E req e h"
  shows "triple (provision_allows E D req) (\<lambda>h. opened E D req h \<and> I h) (doAddOSDWithStorage E d wal db st m)
    (\<lambda>_. opened E D req) (\<lambda>_. opened E D req)"
proof -
  let ?O = "\<lambda>h. opened E D req h \<and> I h"
  have O: "grows ?O" by (intro grows_conj grows_opened assms(4))
  have "triple (enroll_allows E D (any_wipe req)) (gate_open E D) (add_record E d wal db st m) (\<lambda>_. gate_open E D) (\<lambda>_. gate_open E D)"
    by (rule record_triple) (use assms(1-3) in auto)
  from triple_knowing [OF triple_frame [OF this O] O]
  have rec: "triple (provision_allows E D req) ?O (add_record E d wal db st m) (\<lambda>_. ?O) (\<lambda>_. opened E D req)"
    by (rule triple_weaken [OF triple_allow]) (auto intro: allows_enroll)
  have undo: "triple (provision_allows E D req) ?O (attempt (cleanupGeneratedAuxEntries E (Some mm) nr)) (\<lambda>_. opened E D req) (\<lambda>_. opened E D req)"
    if "m = Some mm" for mm nr
    by (rule triple_attempt, rule undo_triple [OF assms(4)]) (use assms(5,6) that in auto)
  show ?thesis unfolding doAddOSDWithStorage_def
    apply (rule triple_bind [OF rec], simp only: split_paired_all split_conv, rule triple_option, rule triple_return, simp)
    apply (rule triple_option, rule triple_fail, simp, rule triple_bind [OF undo], assumption)
    by (rule triple_sum; rule triple_fail; simp)
qed

lemma row_triple:
  assumes "row_ok req row"
  shows "triple (provision_allows E D req) (opened E D req) (provision_row E req row) (\<lambda>_. opened E D req) (\<lambda>_. opened E D req)"
proof -
  let ?Q = "provision_allows E D req" and ?O = "opened E D req"
  let ?W = "made_of E req (rq_WALWipe req)" and ?B = "made_of E req (rq_DBWipe req)"
  have storage: "triple ?Q ?O (attempt (getStorageWithRetry E)) (\<lambda>_. ?O) (\<lambda>_. ?O)"
    by (rule look_triple) (intro only_steps looking grows_opened)+
  have plans: "part_allowed req a" if "po_WAL row = Some a \<or> po_DB row = Some a" for a
    using assms that by (auto simp: row_ok_def part_allowed_def)
  have wal: "triple ?Q ?O (make_aux E (po_WAL row) e (rq_WALWipe req)) (\<lambda>m h. ?O h \<and> ?W m h) (\<lambda>_. ?O)" for e
    by (rule triple_weaken [OF make_triple [where I = "\<lambda>_. True"]]) (auto intro: plans grows_const)
  have db: "triple ?Q (\<lambda>h. ?O h \<and> ?W w h) (make_aux E (po_DB row) e (rq_DBWipe req))
      (\<lambda>m h. ?O h \<and> ?W w h \<and> ?B m h) (\<lambda>_ h. ?O h \<and> ?W w h)" for e w
    by (rule triple_weaken [OF make_triple [where I = "?W w"]]) (auto intro: plans grows_made_of)
  have undo: "triple ?Q (\<lambda>h. ?O h \<and> ?W w h) (attempt (cleanupGeneratedAuxEntries E (manifest_of (map_option snd w) None) nr)) (\<lambda>_. ?O) (\<lambda>_. ?O)" for w nr
  proof (cases "manifest_of (map_option snd w) None")
    case None
    then show ?thesis by (auto simp: cleanupGeneratedAuxEntries_def intro!: triple_attempt triple_return)
  next
    case (Some m)
    show ?thesis unfolding Some
      by (rule triple_attempt, rule undo_triple [OF grows_made_of]) (use manifest_of_Some [OF Some] in \<open>auto dest: made_ofD\<close>)
  qed
  have add: "triple ?Q (\<lambda>h. ?O h \<and> ?W w h \<and> ?B b h)
      (attempt (doAddOSDWithStorage E \<lparr>dp_Path = p, dp_Encrypt = en, dp_Wipe = rq_Wipe req, dp_LoopSize = 0, dp_SkipPristineCheck = False\<rparr>
         (map_option fst w) (map_option fst b) st (manifest_of (map_option snd w) (map_option snd b)))) (\<lambda>_. ?O) (\<lambda>_. ?O)" for p en st w b
  proof (rule triple_implied)
    let ?wiped = "(\<forall>d. map_option fst w = Some d \<longrightarrow> dp_Wipe d = rq_WALWipe req) \<and> (\<forall>d. map_option fst b = Some d \<longrightarrow> dp_Wipe d = rq_DBWipe req)"
    show ?wiped if "?O h \<and> ?W w h \<and> ?B b h" for h using that by (auto dest: made_ofD(2))
    assume wiped: ?wiped
    show "triple ?Q (\<lambda>h. ?O h \<and> ?W w h \<and> ?B b h)
      (attempt (doAddOSDWithStorage E \<lparr>dp_Path = p, dp_Encrypt = en, dp_Wipe = rq_Wipe req, dp_LoopSize = 0, dp_SkipPristineCheck = False\<rparr>
         (map_option fst w) (map_option fst b) st (manifest_of (map_option snd w) (map_option snd b)))) (\<lambda>_. ?O) (\<lambda>_. ?O)"
    proof (rule triple_attempt, rule add_storage_triple [OF _ _ _ grows_conj [OF grows_made_of grows_made_of]])
      show "made_part E req e h" if "manifest_of (map_option snd w) (map_option snd b) = Some mm" "gm_WAL mm = Some e" "?W w h \<and> ?B b h" for h mm e
        using that manifest_of_Some [OF that(1)] made_ofD(1) by metis
      show "made_part E req e h" if "manifest_of (map_option snd w) (map_option snd b) = Some mm" "gm_DB mm = Some e" "?W w h \<and> ?B b h" for h mm e
        using that manifest_of_Some [OF that(1)] made_ofD(1) by metis
    qed (use wiped in \<open>auto simp: any_wipe_def\<close>)
  qed
  show ?thesis unfolding provision_row_def
    apply (rule triple_bind [OF storage], rule triple_sum, rule triple_return, assumption)
    apply (rule triple_bind [OF triple_try [OF wal]], rule triple_cases, rule triple_return, assumption)
    apply (rule triple_bind [OF triple_try [OF db]], rule triple_cases)
     apply (rule triple_bind [OF undo], rule triple_return, assumption)
    apply (rule triple_bind [OF add], rule triple_return, assumption)
    done
qed

lemma rows_triple:
  "list_all (row_ok req) rows \<Longrightarrow>
   triple (provision_allows E D req) (opened E D req) (provision_rows E req rows) (\<lambda>_. opened E D req) (\<lambda>_. opened E D req)"
proof (induction rows)
  case (Cons row rows)
  have row: "triple (provision_allows E D req) (opened E D req) (provision_row E req row) (\<lambda>_. opened E D req) (\<lambda>_. opened E D req)"
    by (rule row_triple) (use Cons.prems in simp)
  have rest: "triple (provision_allows E D req) (opened E D req) (provision_rows E req rows) (\<lambda>_. opened E D req) (\<lambda>_. opened E D req)"
    by (rule Cons.IH) (use Cons.prems in simp)
  show ?case unfolding provision_rows.simps
    by (rule triple_bind [OF row], simp only: split_paired_all split_conv, rule triple_if, rule triple_bind [OF rest], simp only: split_paired_all split_conv)
      (rule triple_return, assumption)+
qed (simp add: triple_return)


lemma triple_both:
  assumes "triple Q Pre f Post Err" "only R f"
  shows "triple (\<lambda>h r. Q h r \<and> R r) Pre f Post Err"
proof (rule tripleI)
  fix h assume "Pre h"
  with assms(1) obtain ext where e: "snd (f h) = h @ ext" "allowed_ext Q h ext" "case fst (f h) of Inr v \<Rightarrow> Post v (h @ ext) | Inl e \<Rightarrow> Err e (h @ ext)"
    unfolding triple_def by blast
  from assms(2) e(1) have "list_all R ext" unfolding only_def by (metis same_append_eq)
  with e(2) have "allowed_ext (\<lambda>h r. Q h r \<and> R r) h ext" by (induction ext arbitrary: h) auto
  with e show "\<exists>ext. snd (f h) = h @ ext \<and> allowed_ext (\<lambda>h r. Q h r \<and> R r) h ext \<and> (case fst (f h) of Inr v \<Rightarrow> Post v (h @ ext) | Inl e \<Rightarrow> Err e (h @ ext))"
    by blast
qed

lemma planned_triple:
  "triple (provision_allows E D req) (opened E D req) (buildDSLProvisionPlan E B req)
     (\<lambda>plan h. opened E D req h \<and> list_all (row_ok req) (pv_OSDs plan)) (\<lambda>_. opened E D req)"
  by (rule triple_weaken [OF triple_allow [OF triple_frame [OF triple_both [OF plan_triple looks_plan] grows_opened]]])
    (auto simp: plan_ok_def provision_allows_def dest: looks_mild)

lemma bulk_allowed:
  assumes "\<not> rq_DryRun req" "wipe_requested disks wal db \<Longrightarrow> any_wipe req"
  shows "triple (provision_allows E D req) Pre (addBulkDisks E D disks wal db) any_result any_result"
  by (rule triple_weaken [OF triple_allow [OF bulk_triple]]) (auto intro: allows_enroll [OF _ assms(2) assms(1)])

lemma plain_wipe: "wipe_requested (map (plain_param req \<circ> f) xs) None None \<Longrightarrow> any_wipe req"
  by (auto simp: wipe_requested_def list_ex_iff plain_param_def any_wipe_def)

lemma dsl_triple: "triple (provision_allows E D req) (\<lambda>_. True) (AddDisksWithDSLRequest E D B req) any_result any_result"
proof -
  let ?Q = "provision_allows E D req" and ?O = "opened E D req" and ?G = "gate_open E D"
  have gated: "triple ?Q (\<lambda>_. True) (gate E D) (\<lambda>_. ?G) any_result"
    by (rule triple_weaken [OF triple_allow [OF triple_both [OF gate_triple [of E D False] looks_gate]]]) (auto simp: provision_allows_def dest: looks_mild)
  have dry: "triple ?Q ?G (buildDSLDryRunPlan E B req) any_result any_result"
    unfolding buildDSLDryRunPlan_def
    by (rule triple_weaken [OF look_triple [where I = "\<lambda>_. True"]]) (intro only_steps looking grows_const | simp)+
  have plan: "triple ?Q ?G (attempt (buildDSLProvisionPlan E B req))
      (\<lambda>r h. case r of Inl _ \<Rightarrow> True | Inr plan \<Rightarrow> ?O h \<and> list_all (row_ok req) (pv_OSDs plan)) any_result" if "\<not> rq_DryRun req"
    by (rule triple_try, rule triple_weaken [OF planned_triple]) (use that in auto)
  have run: "triple ?Q (\<lambda>h. ?O h \<and> list_all (row_ok req) (pv_OSDs plan)) (executeDSLProvisionPlan E plan req) any_result any_result" for plan
    unfolding executeDSLProvisionPlan_def
    by (rule triple_pure, rule triple_bind, rule triple_weaken [OF rows_triple]) (auto intro!: triple_return)
  have match: "triple ?Q ?G (attempt (MatchDisksWithDSL E x b)) any_result any_result" for x b
    unfolding MatchDisksWithDSL_def
    by (rule triple_weaken [OF look_triple [where I = "\<lambda>_. True"]]) (intro only_steps looking grows_const | simp)+
  show ?thesis unfolding AddDisksWithDSLRequest_def
    apply (rule triple_bind [OF triple_try [OF gated]], rule triple_cases, rule triple_return, simp)
    apply (rule triple_if, rule triple_if, rule dry, rule triple_bind [OF plan], assumption, rule triple_cases, rule triple_return, simp, rule run)
    apply (rule triple_bind [OF match])
    by (intro triple_rules triple_return bulk_allowed TrueI) (auto dest: plain_wipe)
qed



section \<open>A provisioning run\<close>

definition disk_named :: "string \<Rightarrow> string \<Rightarrow> string \<Rightarrow> partition list \<Rightarrow> disk" where
  "disk_named nm ty dev parts = \<lparr>disk_ID = nm, disk_Model = ''m'', disk_Type = ty, disk_Size = 4294967296, disk_ReadOnly = False,
     disk_DeviceID = nm, disk_DevicePath = '''', disk_Partitions = parts, disk_Device = dev\<rparr>"

definition blank_table :: json where
  "blank_table = JObj [(''partitiontable'', JObj [(''label'', JStr ''gpt''), (''sectorsize'', JInt 512), (''partitions'', JArr [])])]"

definition prov_host :: host where
  "prov_host h r =
     (case r of
        EvalSymlinks p \<Rightarrow> Answer (if p = ''/dev/disk/by-id/x'' then ''/dev/sdb'' else p) None
      | Cmd (c # a) \<Rightarrow>
          if c = ''findmnt'' then Failed False (Some 1) ''exit status 1''
          else if r = sfdisk_json ''/dev/sdb''
          then Answer '''' (Some (if append_cmd ''/dev/sdb'' 2048 \<in> set h then demo_table1 else blank_table))
          else if r = Cmd [''ceph'', ''osd'', ''tree'', ''-f'', ''json''] then Answer '''' (Some (JObj [(''nodes'', JArr [])]))
          else Answer '''' None
      | Db s a \<Rightarrow> Answer '''' (Some (JInt 7))
      | Probe s a \<Rightarrow> if s = ''readdir'' then Failed True None ''missing'' else Answer ''n1'' None
      | _ \<Rightarrow> Answer '''' None)"

definition prov_env :: osd_env where
  "prov_env = \<lparr>oe_host = prov_host, oe_lib = plain_lib, oe_polls = (\<lambda>_. 1),
     oe_storage = (\<lambda>_. Inr [disk_named ''a'' ''ssd'' ''8:0'' [], disk_named ''x'' ''nvme'' ''8:16'' []]),
     oe_name = ''n1'', oe_data = ''/data'', oe_disks = (\<lambda>_. Inr []), oe_tags = (\<lambda>_. Inr []), oe_gjson = demo_gjson, oe_run_error = (\<lambda>_. None)\<rparr>"

definition one_mib :: size_parser where
  "one_mib s = Inr 1000"

definition prov_req :: disks_post where
  "prov_req = \<lparr>rq_Path = [], rq_Wipe = True, rq_Encrypt = False, rq_WALDev = None, rq_WALWipe = True, rq_WALEncrypt = False, rq_DBDev = None,
     rq_DBWipe = False, rq_DBEncrypt = False, rq_OSDMatch = ''eq(@type,'' @ [CHR 0x27] @ ''ssd'' @ [CHR 0x27] @ '')'',
     rq_WALMatch = ''eq(@type,'' @ [CHR 0x27] @ ''nvme'' @ [CHR 0x27] @ '')'', rq_WALSize = ''1MB'', rq_DBMatch = '''', rq_DBSize = '''', rq_DryRun = False\<rparr>"


definition dry_run :: history where
  "dry_run = snd (cmdDisksPost prov_env open_gate one_mib (prov_req\<lparr>rq_DryRun := True\<rparr>) [])"

definition prov_plan :: "(go_error + provision_plan) \<times> history" where
  "prov_plan = buildDSLProvisionPlan prov_env one_mib prov_req []"

lemma dry_runs: "list_ex ((=) (Cmd [''findmnt'', ''--source'', ''/dev/sdb''])) dry_run"
  by code_simp

lemma prov_planned:
  "\<not> is_err (fst prov_plan)"
  "map (map_option pa_ParentPath \<circ> po_WAL) (pv_OSDs (projr (fst prov_plan))) = [Some ''/dev/disk/by-id/x'']"
  by code_simp+

text \<open>A request for one disk by its path.\<close>

definition path_req :: disks_post where
  "path_req = prov_req\<lparr>rq_Path := [''/dev/sdb''], rq_OSDMatch := [], rq_WALMatch := [], rq_WALSize := [], rq_WALWipe := False\<rparr>"

definition path_run :: history where
  "path_run = snd (cmdDisksPost add_env open_gate one_mib path_req [])"

lemma path_runs: "list_ex ((=) (zap_device ''/dev/sdb'')) path_run"
  by code_simp


theorem dry_run_only_looks_witness:
  "list_all looks dry_run \<and> Cmd [''findmnt'', ''--source'', ''/dev/sdb''] \<in> set dry_run"
proof -
  let ?req = "prov_req\<lparr>rq_DryRun := True\<rparr>"
  have "cmdDisksPost prov_env open_gate one_mib ?req [] = (fst (cmdDisksPost prov_env open_gate one_mib ?req []), dry_run)"
    by (simp add: dry_run_def)
  from dry_run_only_looks [OF _ this] dry_runs show ?thesis by (simp add: list_ex_iff)
qed

theorem plan_separates_witness:
  "plan_ok prov_env prov_req (projr (fst prov_plan)) (snd prov_plan) \<and> wal_parents (projr (fst prov_plan)) = {''/dev/disk/by-id/x''}"
proof -
  from prov_planned(1) obtain plan where plan: "fst prov_plan = Inr plan" by (cases "fst prov_plan") auto
  then have "buildDSLProvisionPlan prov_env one_mib prov_req [] = (Inr plan, snd prov_plan)" unfolding prov_plan_def [symmetric] by (simp add: prod_eq_iff)
  from plan_separates [OF this] plan have ok: "plan_ok prov_env prov_req (projr (fst prov_plan)) (snd prov_plan)" by simp
  from prov_planned(2) obtain row where "pv_OSDs (projr (fst prov_plan)) = [row]" "map_option pa_ParentPath (po_WAL row) = Some ''/dev/disk/by-id/x''"
    by (auto simp: map_eq_Cons_conv)
  then have "wal_parents (projr (fst prov_plan)) = {''/dev/disk/by-id/x''}" by (auto simp: wal_parents_def)
  with ok show ?thesis by simp
qed

end
