(* ===== verification/Rgw_Conf.thy ===== *)
theory Rgw_Conf
  imports Storage_Probe Service_Placement
begin

text \<open>
  The text of the gateway's configuration: the template that renders it
  (\<^verbatim>\<open>ceph/configwriter.go\<close>), the functions that read and edit its frontend line
  (\<^verbatim>\<open>ceph/rgw.go\<close>), and the edits other parts of the program make to the same file
  (\<^verbatim>\<open>ceph/start.go\<close>). Text outside ASCII is split and trimmed by the Unicode tables, which
  are parameters.
\<close>

record rgw_text =
  rt_go :: go_lib
  rt_fields :: "string \<Rightarrow> string list"
  rt_parse_ip :: "string \<Rightarrow> bool"

abbreviation newline :: char where
  "newline \<equiv> CHR 0x0A"

abbreviation slash :: char where
  "slash \<equiv> CHR 0x2F"

section \<open>Text\<close>

abbreviation text_lines :: "string \<Rightarrow> string list" where
  "text_lines \<equiv> split_on newline"

abbreviation join_lines :: "string list \<Rightarrow> string" where
  "join_lines \<equiv> join_with [newline]"

lemma split_on_parts: "w \<in> set (split_on c s) \<Longrightarrow> c \<notin> set w \<and> set w \<subseteq> set s"
proof (induction s arbitrary: w)
  case (Cons x s)
  obtain v vs where "split_on c s = v # vs" by (cases "split_on c s") auto
  with Cons show ?case by (fastforce split: if_splits)
qed simp

lemma join_split [simp]: "join_with [c] (split_on c s) = s"
proof (induction s)
  case (Cons x s)
  obtain v vs where v: "split_on c s = v # vs" by (cases "split_on c s") auto
  with Cons show ?case by (cases vs) auto
qed simp

lemma split_join:
  "ls \<noteq> [] \<Longrightarrow> \<forall>l \<in> set ls. c \<notin> set l \<Longrightarrow> split_on c (join_with [c] ls) = ls"
  by (induction "[c]" ls rule: join_with.induct) (simp_all add: split_on_clean split_on_append)

lemma set_join: "set (join_with [c] ls) \<subseteq> insert c (\<Union> (set ` set ls))"
  by (induction "[c]" ls rule: join_with.induct) auto

text \<open>\<^verbatim>\<open>strings.Fields\<close>, \<^verbatim>\<open>strings.CutPrefix\<close> and
  \<^verbatim>\<open>strings.Cut\<close> at the first equals sign.\<close>

fun space_parts :: "string \<Rightarrow> string list" where
  "space_parts [] = [[]]"
| "space_parts (x # xs) =
     (if is_ascii_space x then [] # space_parts xs
      else case space_parts xs of [] \<Rightarrow> [[x]] | w # ws \<Rightarrow> (x # w) # ws)"

definition Fields :: "rgw_text \<Rightarrow> string \<Rightarrow> string list" where
  "Fields T s = (if all_ascii s then filter (\<lambda>w. w \<noteq> []) (space_parts s) else rt_fields T s)"

definition cut_prefix :: "string \<Rightarrow> string \<Rightarrow> string option" where
  "cut_prefix s p = (if has_prefix s p then Some (drop (length p) s) else None)"

definition cut_equals :: "string \<Rightarrow> (string \<times> string) option" where
  "cut_equals s = (case index_where (\<lambda>c. c = CHR ''='') s of None \<Rightarrow> None | Some i \<Rightarrow> Some (take i s, drop (Suc i) s))"

section \<open>Paths\<close>

text \<open>\<^verbatim>\<open>filepath.Clean\<close> and \<^verbatim>\<open>filepath.Dir\<close>.\<close>

fun clean_parts :: "bool \<Rightarrow> string list \<Rightarrow> string list \<Rightarrow> string list" where
  "clean_parts rooted acc [] = rev acc"
| "clean_parts rooted acc (p # ps) =
     (if p = [] \<or> p = ''.'' then clean_parts rooted acc ps
      else if p = ''..''
      then (case acc of
              [] \<Rightarrow> clean_parts rooted (if rooted then [] else [p]) ps
            | a # as \<Rightarrow> if a = ''..'' then clean_parts rooted (p # acc) ps else clean_parts rooted as ps)
      else clean_parts rooted (p # acc) ps)"

definition filepath_Clean :: "string \<Rightarrow> string" where
  "filepath_Clean p =
     (let rooted = has_prefix p [slash];
          body = join_with [slash] (clean_parts rooted [] (split_on slash p)) in
      if rooted then slash # body else if body = [] then ''.'' else body)"

definition filepath_Dir :: "string \<Rightarrow> string" where
  "filepath_Dir p = filepath_Clean (rev (dropWhile (\<lambda>c. c \<noteq> slash) (rev p)))"

section \<open>The frontend line\<close>

abbreviation frontend_key :: string where
  "frontend_key \<equiv> ''rgw frontends = ''"

definition is_frontend :: "rgw_text \<Rightarrow> string \<Rightarrow> bool" where
  "is_frontend T l \<longleftrightarrow> has_prefix (trim_space (rt_go T) l) frontend_key"

definition rgwFrontendLine :: "rgw_text \<Rightarrow> string \<Rightarrow> string" where
  "rgwFrontendLine T conf =
     (case filter (is_frontend T) (text_lines conf) of [] \<Rightarrow> [] | l # _ \<Rightarrow> trim_space (rt_go T) l)"

definition replaceRGWFrontendLine :: "rgw_text \<Rightarrow> string \<Rightarrow> string \<Rightarrow> string" where
  "replaceRGWFrontendLine T conf frontend =
     join_lines (map (\<lambda>l. if is_frontend T l then frontend else l) (text_lines conf))"

fun tls_tokens :: "string list \<Rightarrow> string \<times> string \<Rightarrow> string \<times> string" where
  "tls_tokens [] p = p"
| "tls_tokens (t # ts) (c, k) =
     (let c' = (case cut_prefix t ''ssl_certificate='' of Some v \<Rightarrow> v | None \<Rightarrow> c);
          k' = (case cut_prefix t ''ssl_private_key='' of Some v \<Rightarrow> v | None \<Rightarrow> k) in
      tls_tokens ts (c', k'))"

definition rgwConfTLSPaths :: "rgw_text \<Rightarrow> string \<Rightarrow> string \<times> string" where
  "rgwConfTLSPaths T conf = tls_tokens (Fields T (rgwFrontendLine T conf)) ([], [])"

fun port_tokens :: "string list \<Rightarrow> int \<times> int \<Rightarrow> go_error + int \<times> int" where
  "port_tokens [] p = Inr p"
| "port_tokens (t # ts) (port, sslPort) =
     (case cut_equals t of
        None \<Rightarrow> port_tokens ts (port, sslPort)
      | Some (name, value) \<Rightarrow>
          if name \<noteq> ''port'' \<and> name \<noteq> ''ssl_port'' then port_tokens ts (port, sslPort)
          else case ParseInt value of
            None \<Rightarrow> Inl (err_wrap '''' (err_of ErrPlacementOperationFailed) '': invalid RGW listener port'')
          | Some n \<Rightarrow> port_tokens ts (if name = ''port'' then (n, sslPort) else (port, n)))"

definition rgwConfPorts :: "rgw_text \<Rightarrow> string \<Rightarrow> go_error + int \<times> int" where
  "rgwConfPorts T conf = port_tokens (Fields T (rgwFrontendLine T conf)) (0, 0)"

section \<open>Rendering\<close>

definition frontend_of :: "int \<Rightarrow> int \<Rightarrow> string \<Rightarrow> string \<Rightarrow> string" where
  "frontend_of rgwPort sslPort cert key =
     ''rgw frontends = beast'' @
     (if rgwPort \<noteq> 0 \<or> cert = [] \<or> key = [] then '' port='' @ show_int rgwPort else []) @
     (if cert \<noteq> [] \<and> key \<noteq> [] then '' ssl_port='' @ show_int sslPort @ '' ssl_certificate='' @ cert @ '' ssl_private_key='' @ key else [])"

definition newRadosGWConfig :: "string \<Rightarrow> string \<Rightarrow> int \<Rightarrow> int \<Rightarrow> string \<Rightarrow> string \<Rightarrow> string" where
  "newRadosGWConfig monitors runDir rgwPort sslPort cert key =
     ''# Generated by MicroCeph, DO NOT EDIT.'' @ [newline] @
     ''[global]'' @ [newline] @
     ''mon host = '' @ monitors @ [newline] @
     ''run dir = '' @ runDir @ [newline] @
     ''auth allow insecure global id reclaim = false'' @ [newline] @ [newline] @
     ''[client.radosgw.gateway]'' @ [newline] @
     ''rgw init timeout = 1200'' @ [newline] @
     frontend_of rgwPort sslPort cert key @ [newline]"

text \<open>Monitor addresses. Slicing a \<^verbatim>\<open>v2:\<close> address of fewer than eight bytes panics, which is
  \<^const>\<open>None\<close>.\<close>

definition format_addr :: "rgw_text \<Rightarrow> string \<Rightarrow> string option" where
  "format_addr T addr =
     (let isv2 = has_prefix addr ''v2:'' in
      if isv2 \<and> length addr < 8 then None
      else let addr = (if isv2 then take (length addr - 8) (drop 3 addr) else addr) in
        if rt_parse_ip T addr \<and> CHR '':'' \<in> set addr
        then Some (if isv2 then ''v2:['' @ addr @ '']:3300'' else ''['' @ addr @ '']'')
        else Some addr)"

fun formatIPv6 :: "rgw_text \<Rightarrow> string list \<Rightarrow> string list option" where
  "formatIPv6 T [] = Some []"
| "formatIPv6 T (a # as) =
     (case format_addr T a of
        None \<Rightarrow> None
      | Some x \<Rightarrow> (case formatIPv6 T as of None \<Rightarrow> None | Some xs \<Rightarrow> Some (x # xs)))"

section \<open>Edits by other parts of the program\<close>

text \<open>\<^verbatim>\<open>fixConfigLine\<close> on the text of the file: \<^const>\<open>None\<close> when no line changed.\<close>

definition fixConfigLine :: "(string \<Rightarrow> string option) \<Rightarrow> string \<Rightarrow> string option" where
  "fixConfigLine fn conf =
     (let ls = text_lines conf in
      if list_all (\<lambda>l. fn l = None) ls then None
      else Some (join_lines (map (\<lambda>l. case fn l of Some l' \<Rightarrow> l' | None \<Rightarrow> l) ls)))"

definition set_line :: "rgw_text \<Rightarrow> string \<Rightarrow> string \<Rightarrow> string \<Rightarrow> string option" where
  "set_line T key correct l =
     (if \<not> has_prefix (trim_space (rt_go T) l) key then None else if l = correct then None else Some correct)"

definition fixRadosGWRunDir :: "rgw_text \<Rightarrow> string \<Rightarrow> string \<Rightarrow> string option" where
  "fixRadosGWRunDir T correctRunDir = fixConfigLine (set_line T ''run dir = '' (''run dir = '' @ correctRunDir))"

definition updateRadosGWMonHost :: "rgw_text \<Rightarrow> string list \<Rightarrow> string \<Rightarrow> string option" where
  "updateRadosGWMonHost T monitors conf =
     (if monitors = [] then None
      else fixConfigLine (set_line T ''mon host = '' (''mon host = '' @ join_with '','' (sort monitors))) conf)"

section \<open>Trimming and splitting ASCII text\<close>

lemma all_ascii_simps [simp]:
  "all_ascii []" "all_ascii (c # s) \<longleftrightarrow> is_ascii_byte c \<and> all_ascii s" "all_ascii (a @ b) \<longleftrightarrow> all_ascii a \<and> all_ascii b"
  by (auto simp: all_ascii_def)

lemma all_ascii_iff: "all_ascii s \<longleftrightarrow> (\<forall>c \<in> set s. is_ascii_byte c)"
  by (auto simp: all_ascii_def list_all_iff)

lemma all_ascii_subset: "all_ascii s \<Longrightarrow> set t \<subseteq> set s \<Longrightarrow> all_ascii t"
  by (auto simp: all_ascii_iff)

definition rtrim :: "string \<Rightarrow> string" where
  "rtrim s = rev (dropWhile is_ascii_space (rev s))"

lemma trim_ascii: "all_ascii s \<Longrightarrow> trim_space G s = rtrim (dropWhile is_ascii_space s)"
  by (simp add: trim_space_def rtrim_def)

lemma set_rtrim: "set (rtrim s) \<subseteq> set s"
  using set_dropWhileD by (fastforce simp: rtrim_def)

lemma set_trim: "all_ascii s \<Longrightarrow> set (trim_space G s) \<subseteq> set s"
  using set_dropWhileD set_rtrim by (fastforce simp: trim_ascii)

lemma rtrim_Cons: "\<not> is_ascii_space c \<Longrightarrow> rtrim (c # s) = c # rtrim s"
  by (auto simp: rtrim_def dropWhile_append)

lemma rtrim_snoc [simp]: "\<not> is_ascii_space c \<Longrightarrow> rtrim (s @ [c]) = s @ [c]"
  by (simp add: rtrim_def)

lemma rtrim_last: "rtrim s \<noteq> [] \<Longrightarrow> \<not> is_ascii_space (last (rtrim s))"
  by (metis hd_dropWhile last_rev rev_is_Nil_conv rtrim_def)

lemma rtrim_fixed: "s = [] \<or> \<not> is_ascii_space (last s) \<Longrightarrow> rtrim s = s"
  by (metis append_butlast_last_id dropWhile.simps(1) rev_is_Nil_conv rtrim_def rtrim_snoc)

lemma rtrim_hd:
  assumes "rtrim s \<noteq> []" "\<not> is_ascii_space (hd s)"
  shows "\<not> is_ascii_space (hd (rtrim s))"
proof (cases s)
  case Nil
  with assms show ?thesis by (simp add: rtrim_def)
next
  case (Cons c cs)
  with assms show ?thesis by (simp add: rtrim_Cons)
qed

lemma trim_fixed:
  assumes "all_ascii s" "s \<noteq> []" "\<not> is_ascii_space (hd s)" "\<not> is_ascii_space (last s)"
  shows "trim_space G s = s"
proof -
  have "dropWhile is_ascii_space s = s" using assms(2,3) by (cases s) auto
  with assms show ?thesis by (simp add: trim_ascii rtrim_fixed)
qed

lemma trim_idem:
  assumes "all_ascii s"
  shows "trim_space G (trim_space G s) = trim_space G s"
proof (cases "trim_space G s = []")
  case False
  let ?d = "dropWhile is_ascii_space s"
  from False assms have r: "rtrim ?d \<noteq> []" by (simp add: trim_ascii)
  have "rtrim [] = []" by (simp add: rtrim_def)
  with r have "?d \<noteq> []" by metis
  then have h: "\<not> is_ascii_space (hd (rtrim ?d))" using rtrim_hd [OF r] hd_dropWhile by blast
  have "all_ascii (rtrim ?d)" using assms set_trim [OF assms] all_ascii_subset by (metis trim_ascii)
  with r h show ?thesis using assms trim_fixed [of "rtrim ?d"] rtrim_last [OF r] by (simp add: trim_ascii)
next
  case True
  have "trim_space G [] = []" by (simp add: trim_space_def)
  with True show ?thesis by simp
qed

lemma space_parts_nonempty [simp]: "space_parts s \<noteq> []"
  by (cases s) (auto split: list.splits)

lemma space_parts_append: "is_ascii_space c \<Longrightarrow> space_parts (a @ c # b) = space_parts a @ space_parts b"
  by (induction a) (auto split: list.splits)

lemma space_parts_solid: "list_all (\<lambda>c. \<not> is_ascii_space c) s \<Longrightarrow> space_parts s = [s]"
  by (induction s) auto

declare space_parts.simps [simp del]

lemma newline_space: "is_ascii_space newline"
  by (simp add: is_ascii_space_def)

section \<open>The frontend line of a text\<close>

text \<open>A line that reads back as itself.\<close>

definition frontend_text :: "rgw_text \<Rightarrow> string \<Rightarrow> bool" where
  "frontend_text T l \<longleftrightarrow> l = [] \<or> (all_ascii l \<and> newline \<notin> set l \<and> trim_space (rt_go T) l = l \<and> has_prefix l frontend_key)"

lemma line_parts: "l \<in> set (text_lines conf) \<Longrightarrow> newline \<notin> set l \<and> set l \<subseteq> set conf"
  by (rule split_on_parts)

lemma line_is_frontend:
  assumes "all_ascii conf"
  shows "frontend_text T (rgwFrontendLine T conf)"
proof (cases "filter (is_frontend T) (text_lines conf)")
  case (Cons l ls)
  then have l: "l \<in> set (text_lines conf)" "is_frontend T l" by (auto simp: filter_eq_Cons_iff)
  from line_parts [OF l(1)] assms have a: "all_ascii l" "newline \<notin> set l" using all_ascii_subset by blast+
  from a(1) set_trim [OF a(1)] have "all_ascii (trim_space (rt_go T) l)" using all_ascii_subset by blast
  with Cons l(2) a set_trim [OF a(1)] trim_idem [OF a(1)] show ?thesis
    by (auto simp: rgwFrontendLine_def frontend_text_def is_frontend_def)
qed (simp add: rgwFrontendLine_def frontend_text_def)

lemma frontend_text_is: "frontend_text T l \<Longrightarrow> is_frontend T l \<longleftrightarrow> l \<noteq> []"
  by (auto simp: frontend_text_def is_frontend_def has_prefix_def trim_space_def)

lemma line_empty_iff: "rgwFrontendLine T conf = [] \<longleftrightarrow> (\<forall>l \<in> set (text_lines conf). \<not> is_frontend T l)"
  by (auto simp: rgwFrontendLine_def is_frontend_def has_prefix_def filter_empty_conv filter_eq_Cons_iff split: list.splits)

lemma replace_lines:
  assumes "frontend_text T l"
  shows "text_lines (replaceRGWFrontendLine T conf l) = map (\<lambda>x. if is_frontend T x then l else x) (text_lines conf)"
  unfolding replaceRGWFrontendLine_def using assms line_parts by (intro split_join) (auto simp: frontend_text_def)

text \<open>Replacing the line installs it, and keeps every other line.\<close>

lemma line_replace:
  assumes "frontend_text T l" "rgwFrontendLine T conf \<noteq> []"
  shows "rgwFrontendLine T (replaceRGWFrontendLine T conf l) = l"
proof (cases "l = []")
  case True
  then have "\<forall>x \<in> set (text_lines (replaceRGWFrontendLine T conf l)). \<not> is_frontend T x"
    using frontend_text_is [OF assms(1)] unfolding replace_lines [OF assms(1)] by auto
  with True show ?thesis using line_empty_iff by blast
next
  case False
  let ?f = "\<lambda>x. if is_frontend T x then l else x"
  have f: "is_frontend T (?f x) \<longleftrightarrow> is_frontend T x" for x using frontend_text_is [OF assms(1)] False by simp
  have "filter (is_frontend T) (map ?f xs) = map (\<lambda>_. l) (filter (is_frontend T) xs)" for xs
    using f by (induction xs) auto
  with assms(2) False show ?thesis
    using assms(1) by (auto simp: rgwFrontendLine_def replace_lines [OF assms(1)] frontend_text_def split: list.splits)
qed

lemma replace_ascii:
  assumes "all_ascii conf" "all_ascii l"
  shows "all_ascii (replaceRGWFrontendLine T conf l)"
proof -
  have "is_ascii_byte c" if c: "c \<in> set (replaceRGWFrontendLine T conf l)" for c
  proof -
    from c have "c = newline \<or> (\<exists>x \<in> set (text_lines conf). c \<in> set (if is_frontend T x then l else x))"
      using subsetD [OF set_join c [unfolded replaceRGWFrontendLine_def]] by (auto split: if_splits)
    moreover have "all_ascii x" if "x \<in> set (text_lines conf)" for x using assms(1) line_parts [OF that] all_ascii_subset by blast
    ultimately show ?thesis using assms(2) by (auto simp: all_ascii_iff is_ascii_byte_def split: if_splits)
  qed
  then show ?thesis by (auto simp: all_ascii_iff)
qed

lemma frontend_text_ascii: "frontend_text T l \<Longrightarrow> all_ascii l"
  by (auto simp: frontend_text_def)


section \<open>Reading a rendered configuration\<close>

lemma other_key:
  assumes "all_ascii (a # b # s)" "\<not> is_ascii_space a" "\<not> is_ascii_space b" "a \<noteq> CHR ''r'' \<or> b \<noteq> CHR ''g''"
  shows "\<not> is_frontend T (a # b # s)"
  using assms by (auto simp: is_frontend_def trim_ascii rtrim_Cons has_prefix_def)

lemma show_int_solid: "c \<in> set (show_int i) \<Longrightarrow> is_ascii_byte c \<and> \<not> is_ascii_space c"
proof -
  have "is_digit_byte c" if "c \<in> set (show_nat n)" for n using show_nat_digits that by (auto simp: list_all_iff)
  then have "c \<in> set (show_nat n) \<Longrightarrow> is_ascii_byte c \<and> \<not> is_ascii_space c" for n
    by (fastforce simp: is_digit_byte_def is_ascii_byte_def is_ascii_space_def)
  then show "c \<in> set (show_int i) \<Longrightarrow> ?thesis"
    by (auto simp: show_int_def is_ascii_byte_def is_ascii_space_def split: if_splits)
qed

text \<open>Paths that a line can hold: ASCII, and not split by white space.\<close>

definition solid :: "string \<Rightarrow> bool" where
  "solid s \<longleftrightarrow> s \<noteq> [] \<and> list_all (\<lambda>c. is_ascii_byte c \<and> \<not> is_ascii_space c) s"

lemma show_int_nonempty [simp]: "show_int i \<noteq> []"
  by (simp add: show_int_def)

lemma solid_show: "solid (show_int i)"
  using show_int_solid by (auto simp: solid_def list_all_iff)

lemma solid_facts:
  "solid s \<Longrightarrow> all_ascii s" "solid s \<Longrightarrow> newline \<notin> set s" "solid s \<Longrightarrow> space_parts s = [s]" "solid s \<Longrightarrow> s \<noteq> []"
  "solid s \<Longrightarrow> \<not> is_ascii_space (last s)"
  using newline_space by (auto simp: solid_def all_ascii_iff list_all_iff intro: space_parts_solid)

lemma frontend_of_text:
  assumes "(cert = [] \<and> key = []) \<or> (solid cert \<and> solid key)"
  shows "frontend_text T (frontend_of port sslPort cert key)"
proof -
  let ?l = "frontend_of port sslPort cert key"
  note s = solid_facts [OF solid_show]
  have a: "all_ascii ?l" "newline \<notin> set ?l"
    using assms s by (auto simp: frontend_of_def solid_facts is_ascii_byte_def)
  have "last ?l = last key \<or> last ?l = last (show_int port)" "key = [] \<Longrightarrow> last ?l = last (show_int port)"
    by (auto simp: frontend_of_def)
  then have "\<not> is_ascii_space (last ?l)" using assms solid_facts(5) s(5) by metis
  moreover have "has_prefix ?l frontend_key" by (simp add: frontend_of_def has_prefix_def)
  ultimately show ?thesis using a trim_fixed [OF a(1)] by (simp add: frontend_text_def frontend_of_def is_ascii_space_def)
qed

text \<open>The parts of the rendered text that come from the member: monitors and the run directory.\<close>

definition one_line :: "string \<Rightarrow> bool" where
  "one_line s \<longleftrightarrow> all_ascii s \<and> newline \<notin> set s"

lemma rendered_ascii:
  assumes "one_line monitors" "one_line runDir" "(cert = [] \<and> key = []) \<or> (solid cert \<and> solid key)"
  shows "all_ascii (newRadosGWConfig monitors runDir port sslPort cert key)"
  using assms frontend_text_ascii [OF frontend_of_text [OF assms(3)]]
  by (auto simp: newRadosGWConfig_def one_line_def is_ascii_byte_def)

lemma rendered_line:
  assumes "one_line monitors" "one_line runDir" "(cert = [] \<and> key = []) \<or> (solid cert \<and> solid key)"
  shows "rgwFrontendLine T (newRadosGWConfig monitors runDir port sslPort cert key) = frontend_of port sslPort cert key"
proof -
  let ?l = "frontend_of port sslPort cert key"
  note f = frontend_of_text [OF assms(3), of T port sslPort]
  have ne: "?l \<noteq> []" by (simp add: frontend_of_def)
  have nl: "newline \<notin> set ?l" using f ne by (auto simp: frontend_text_def)
  have m: "\<not> is_frontend T (''mon host = '' @ monitors)" "\<not> is_frontend T (''run dir = '' @ runDir)"
    using assms(1,2) by (simp_all add: other_key one_line_def is_ascii_byte_def is_ascii_space_def)
  have c: "\<not> is_frontend T ''# Generated by MicroCeph, DO NOT EDIT.''" "\<not> is_frontend T ''[global]''"
    "\<not> is_frontend T ''auth allow insecure global id reclaim = false''" "\<not> is_frontend T ''[client.radosgw.gateway]''"
    "\<not> is_frontend T ''rgw init timeout = 1200''" "\<not> is_frontend T []"
    by (simp_all add: is_frontend_def trim_ascii rtrim_Cons rtrim_def has_prefix_def is_ascii_byte_def is_ascii_space_def)
  have e: "newRadosGWConfig monitors runDir port sslPort cert key =
      join_lines [''# Generated by MicroCeph, DO NOT EDIT.'', ''[global]'', ''mon host = '' @ monitors, ''run dir = '' @ runDir,
        ''auth allow insecure global id reclaim = false'', [], ''[client.radosgw.gateway]'', ''rgw init timeout = 1200'', ?l, []]"
    by (simp add: newRadosGWConfig_def)
  have "text_lines (newRadosGWConfig monitors runDir port sslPort cert key) =
      [''# Generated by MicroCeph, DO NOT EDIT.'', ''[global]'', ''mon host = '' @ monitors, ''run dir = '' @ runDir,
        ''auth allow insecure global id reclaim = false'', [], ''[client.radosgw.gateway]'', ''rgw init timeout = 1200'', ?l, []]"
    unfolding e using assms(1,2) nl by (intro split_join) (auto simp: one_line_def)
  with m c frontend_text_is [OF f] ne f show ?thesis by (simp add: rgwFrontendLine_def frontend_text_def)
qed

lemma ParseInt_show: "int64 i \<Longrightarrow> ParseInt (show_int i) = Some i"
proof -
  have d: "show_nat n \<noteq> [] \<and> list_all is_digit_byte (show_nat n)" for n by (simp add: show_nat_digits)
  have "hd (show_nat n) \<noteq> CHR 0x2D \<and> hd (show_nat n) \<noteq> CHR 0x2B" for n
    using d [of n] by (cases "show_nat n") (auto simp: is_digit_byte_def)
  with d show "int64 i \<Longrightarrow> ?thesis" by (simp add: ParseInt_def show_int_def Let_def)
qed


lemma parts_of_tokens: "solid w \<Longrightarrow> space_parts (w @ CHR '' '' # s) = w # space_parts s"
  by (subst space_parts_append) (simp_all add: is_ascii_space_def solid_facts(3))

lemma solid_append: "solid a \<Longrightarrow> solid b \<Longrightarrow> solid (a @ b)"
  by (auto simp: solid_def)

definition frontend_tokens :: "int \<Rightarrow> int \<Rightarrow> string \<Rightarrow> string \<Rightarrow> string list" where
  "frontend_tokens port sslPort cert key =
     [''rgw'', ''frontends'', ''='', ''beast''] @
     (if port \<noteq> 0 \<or> cert = [] then [''port='' @ show_int port] else []) @
     (if cert \<noteq> [] then [''ssl_port='' @ show_int sslPort, ''ssl_certificate='' @ cert, ''ssl_private_key='' @ key] else [])"

lemma frontend_fields:
  assumes "(cert = [] \<and> key = []) \<or> (solid cert \<and> solid key)"
  shows "Fields T (frontend_of port sslPort cert key) = frontend_tokens port sslPort cert key"
proof -
  have lit: "solid ''rgw''" "solid ''frontends''" "solid ''=''" "solid ''beast''" "solid ''port=''" "solid ''ssl_port=''"
    "solid ''ssl_certificate=''" "solid ''ssl_private_key=''"
    by (simp_all add: solid_def is_ascii_byte_def is_ascii_space_def)
  have p: "solid (''port='' @ show_int port)" "solid (''ssl_port='' @ show_int sslPort)" by (rule solid_append [OF lit(5) solid_show], rule solid_append [OF lit(6) solid_show])
  have c: "solid (''ssl_certificate='' @ cert)" "solid (''ssl_private_key='' @ key)" if "cert \<noteq> []"
    using that assms solid_append [OF lit(7)] solid_append [OF lit(8)] by auto
  have head: "space_parts (''rgw frontends = beast '' @ s) = [''rgw'', ''frontends'', ''='', ''beast''] @ space_parts s" for s
    using parts_of_tokens [OF lit(1), of "''frontends = beast '' @ s"] parts_of_tokens [OF lit(2), of "''= beast '' @ s"]
      parts_of_tokens [OF lit(3), of "''beast '' @ s"] parts_of_tokens [OF lit(4), of s] by simp
  have tls: "space_parts (''ssl_port='' @ show_int sslPort @ '' ssl_certificate='' @ cert @ '' ssl_private_key='' @ key) =
      [''ssl_port='' @ show_int sslPort, ''ssl_certificate='' @ cert, ''ssl_private_key='' @ key]" if "cert \<noteq> []"
    using parts_of_tokens [OF p(2), of "''ssl_certificate='' @ cert @ '' ssl_private_key='' @ key"]
      parts_of_tokens [OF c(1), of "''ssl_private_key='' @ key"] solid_facts(3) [OF c(2)] that by simp
  have ne: "w \<in> set (frontend_tokens port sslPort cert key) \<Longrightarrow> w \<noteq> []" for w by (auto simp: frontend_tokens_def split: if_splits)
  have "space_parts (frontend_of port sslPort cert key) = frontend_tokens port sslPort cert key"
  proof (cases "cert = []")
    case True
    with assms show ?thesis using head [of "''port='' @ show_int port"] solid_facts(3) [OF p(1)]
      by (auto simp: frontend_of_def frontend_tokens_def solid_def)
  next
    case False
    with assms have k: "key \<noteq> []" by (auto simp: solid_def)
    let ?tls = "''ssl_port='' @ show_int sslPort @ '' ssl_certificate='' @ cert @ '' ssl_private_key='' @ key"
    from False k show ?thesis using tls head [of ?tls] head [of "''port='' @ show_int port @ '' '' @ ?tls"] parts_of_tokens [OF p(1), of ?tls]
      by (simp add: frontend_of_def frontend_tokens_def)
  qed
  moreover have "filter (\<lambda>w. w \<noteq> []) (frontend_tokens port sslPort cert key) = frontend_tokens port sslPort cert key"
    using ne by (simp add: filter_id_conv)
  ultimately show ?thesis using frontend_text_ascii [OF frontend_of_text [OF assms]] by (simp add: Fields_def)
qed

lemma tls_of_tokens:
  assumes "cert = [] \<longleftrightarrow> key = []"
  shows "tls_tokens (frontend_tokens port sslPort cert key) ([], []) = (cert, key)"
  using assms by (cases "cert = []") (auto simp: frontend_tokens_def cut_prefix_def has_prefix_def)

lemma ports_of_tokens:
  assumes "int64 port" "int64 sslPort"
  shows "port_tokens (frontend_tokens port sslPort cert key) (0, 0) = Inr (port, if cert = [] then 0 else sslPort)"
  using assms by (simp add: frontend_tokens_def cut_equals_def ParseInt_show)


text \<open>C5 (roundtrip). Rendering the gateway's configuration and reading it back: for any ports and any certificate
  and key paths without white space (or none), and whatever monitors and run directory the member
  has, the two readers find exactly the ports and the paths that were rendered; without a pair the
  TLS port is read as zero.\<close>

theorem rendered_conf_reads_back:
  assumes "one_line monitors" "one_line runDir" "(cert = [] \<and> key = []) \<or> (solid cert \<and> solid key)" "int64 port" "int64 sslPort"
  shows "rgwConfTLSPaths T (newRadosGWConfig monitors runDir port sslPort cert key) = (cert, key) \<and>
    rgwConfPorts T (newRadosGWConfig monitors runDir port sslPort cert key) = Inr (port, if cert = [] then 0 else sslPort)"
proof -
  have "cert = [] \<longleftrightarrow> key = []" using assms(3) by (auto simp: solid_def)
  then show ?thesis
    using assms(4,5) by (simp add: rgwConfTLSPaths_def rgwConfPorts_def rendered_line [OF assms(1-3)] frontend_fields [OF assms(3)]
        tls_of_tokens ports_of_tokens)
qed

lemma frontend_of_reads:
  assumes "rgwFrontendLine T conf = frontend_of port sslPort cert key" "(cert = [] \<and> key = []) \<or> (solid cert \<and> solid key)"
  shows "rgwConfTLSPaths T conf = (cert, key)"
proof -
  have "cert = [] \<longleftrightarrow> key = []" using assms(2) by (auto simp: solid_def)
  then show ?thesis by (simp add: rgwConfTLSPaths_def assms(1) frontend_fields [OF assms(2)] tls_of_tokens)
qed

theorem rendered_conf_reads_back_witness:
  "rgwConfTLSPaths \<lparr>rt_go = plain_lib, rt_fields = (\<lambda>_. []), rt_parse_ip = (\<lambda>_. False)\<rparr>
     (newRadosGWConfig ''10.0.0.1'' ''/run'' 0 443 ''/ssl/a.crt'' ''/ssl/a.key'') = (''/ssl/a.crt'', ''/ssl/a.key'')"
  using rendered_conf_reads_back [of "''10.0.0.1''" "''/run''" "''/ssl/a.crt''" "''/ssl/a.key''" 0 443
      "\<lparr>rt_go = plain_lib, rt_fields = (\<lambda>_. []), rt_parse_ip = (\<lambda>_. False)\<rparr>"]
  by (simp add: one_line_def solid_def is_ascii_byte_def is_ascii_space_def int64_def)

section \<open>Edits that leave the frontend alone\<close>

lemma set_line_key:
  assumes "set_line T key correct l = Some l'" "all_ascii l" "key \<noteq> []" "hd key \<noteq> hd frontend_key \<or> (tl key \<noteq> [] \<and> hd (tl key) \<noteq> CHR ''g'')"
  shows "\<not> is_frontend T l \<and> l' = correct"
  using assms by (cases key; cases "tl key") (auto simp: set_line_def is_frontend_def has_prefix_iff split: if_splits)

lemma fix_line_keeps:
  assumes fn: "\<And>l l'. all_ascii l \<Longrightarrow> fn l = Some l' \<Longrightarrow> \<not> is_frontend T l \<and> \<not> is_frontend T l' \<and> one_line l'"
    and conf: "all_ascii conf" "fixConfigLine fn conf = Some conf'"
  shows "rgwFrontendLine T conf' = rgwFrontendLine T conf \<and> all_ascii conf'"
proof -
  let ?f = "\<lambda>l. case fn l of Some l' \<Rightarrow> l' | None \<Rightarrow> l"
  have e: "conf' = join_lines (map ?f (text_lines conf))" using conf(2) by (auto simp: fixConfigLine_def Let_def split: if_splits)
  have a: "all_ascii l" "newline \<notin> set l" if "l \<in> set (text_lines conf)" for l
    using conf(1) line_parts [OF that] all_ascii_subset by blast+
  have one: "one_line (?f l)" if "l \<in> set (text_lines conf)" for l
    using fn a [OF that] by (auto simp: one_line_def split: option.splits)
  have ls: "text_lines conf' = map ?f (text_lines conf)"
    unfolding e using one by (intro split_join) (auto simp: one_line_def)
  have same: "is_frontend T (?f l) \<longleftrightarrow> is_frontend T l" "is_frontend T l \<Longrightarrow> ?f l = l" if "l \<in> set (text_lines conf)" for l
    using fn [OF a(1) [OF that]] by (auto split: option.splits)
  have "filter (is_frontend T) (map ?f xs) = filter (is_frontend T) xs" if "set xs \<subseteq> set (text_lines conf)" for xs
    using that same by (induction xs) auto
  moreover have "is_ascii_byte c" if "c \<in> set conf'" for c
    using subsetD [OF set_join that [unfolded e]] one by (auto simp: one_line_def all_ascii_iff is_ascii_byte_def split: option.splits)
  ultimately show ?thesis by (simp add: rgwFrontendLine_def ls all_ascii_iff)
qed


lemma mon_hosts_one_line:
  assumes "\<forall>m \<in> set ms. one_line m"
  shows "one_line (join_with '','' ms)"
  using assms by (induction "'',''" ms rule: join_with.induct) (auto simp: one_line_def is_ascii_byte_def)

definition edited :: "(string \<Rightarrow> string option) \<Rightarrow> string \<Rightarrow> string" where
  "edited edit conf = (case edit conf of Some conf' \<Rightarrow> conf' | None \<Rightarrow> conf)"

text \<open>What the publication relies on: other parts of the program edit the file between its steps, and
  their edits keep the frontend line.\<close>

locale frontend_keeper =
  fixes T :: rgw_text and edit :: "string \<Rightarrow> string option"
  assumes keeps: "all_ascii conf \<Longrightarrow> edit conf = Some conf' \<Longrightarrow> rgwFrontendLine T conf' = rgwFrontendLine T conf \<and> all_ascii conf'"
begin

lemma edited_line: "all_ascii conf \<Longrightarrow> rgwFrontendLine T (edited edit conf) = rgwFrontendLine T conf"
  using keeps by (auto simp: edited_def split: option.splits)

lemma edited_ascii: "all_ascii conf \<Longrightarrow> all_ascii (edited edit conf)"
  using keeps by (auto simp: edited_def split: option.splits)

lemma edited_paths: "all_ascii conf \<Longrightarrow> rgwConfTLSPaths T (edited edit conf) = rgwConfTLSPaths T conf"
  by (simp add: rgwConfTLSPaths_def edited_line)

end

text \<open>The edits the program makes: the monitors' line on every refresh, the run directory at startup.\<close>

datatype rgw_edit = MonHosts "string list" | RunDir string

fun run_edit :: "rgw_text \<Rightarrow> rgw_edit \<Rightarrow> string \<Rightarrow> string option" where
  "run_edit T (MonHosts ms) conf = updateRadosGWMonHost T ms conf"
| "run_edit T (RunDir d) conf = fixRadosGWRunDir T d conf"

fun plain_edit :: "rgw_edit \<Rightarrow> bool" where
  "plain_edit (MonHosts ms) \<longleftrightarrow> list_all one_line ms"
| "plain_edit (RunDir d) \<longleftrightarrow> one_line d"

lemma mon_line:
  assumes "list_all one_line ms" "all_ascii l" "set_line T ''mon host = '' (''mon host = '' @ join_with '','' (sort ms)) l = Some l'"
  shows "\<not> is_frontend T l \<and> \<not> is_frontend T l' \<and> one_line l'"
proof -
  have "one_line (join_with '','' (sort ms))" using assms(1) by (intro mon_hosts_one_line) (simp add: list_all_iff)
  then have o: "one_line (''mon host = '' @ join_with '','' (sort ms))" by (simp add: one_line_def is_ascii_byte_def)
  have "l' = ''mon host = '' @ join_with '','' (sort ms)" "\<not> is_frontend T l"
    using set_line_key [OF assms(3,2)] by simp_all
  with o show ?thesis by (simp add: other_key one_line_def is_ascii_space_def)
qed

lemma run_line:
  assumes "one_line d" "all_ascii l" "set_line T ''run dir = '' (''run dir = '' @ d) l = Some l'"
  shows "\<not> is_frontend T l \<and> \<not> is_frontend T l' \<and> one_line l'"
proof -
  have o: "one_line (''run dir = '' @ d)" using assms(1) by (simp add: one_line_def is_ascii_byte_def)
  have "l' = ''run dir = '' @ d" "\<not> is_frontend T l" using set_line_key [OF assms(3,2)] by simp_all
  with o show ?thesis by (simp add: other_key one_line_def is_ascii_space_def)
qed

lemma run_edit_keeps:
  assumes "plain_edit e" "all_ascii conf" "run_edit T e conf = Some conf'"
  shows "rgwFrontendLine T conf' = rgwFrontendLine T conf \<and> all_ascii conf'"
proof (cases e)
  case (MonHosts ms)
  with assms have f: "fixConfigLine (set_line T ''mon host = '' (''mon host = '' @ join_with '','' (sort ms))) conf = Some conf'"
    by (auto simp: updateRadosGWMonHost_def split: if_splits)
  from MonHosts assms(1) have "list_all one_line ms" by simp
  from fix_line_keeps [OF mon_line [OF this] assms(2) f] show ?thesis by blast
next
  case (RunDir d)
  with assms have f: "fixConfigLine (set_line T ''run dir = '' (''run dir = '' @ d)) conf = Some conf'" "one_line d"
    by (auto simp: fixRadosGWRunDir_def)
  from fix_line_keeps [OF run_line [OF f(2)] assms(2) f(1)] show ?thesis by blast
qed

text \<open>Edits of plain text, and no edit otherwise.\<close>

definition safe_edit :: "rgw_text \<Rightarrow> rgw_edit option \<Rightarrow> string \<Rightarrow> string option" where
  "safe_edit T e conf = (case e of Some x \<Rightarrow> if plain_edit x then run_edit T x conf else None | None \<Rightarrow> None)"

interpretation keeper: frontend_keeper T "safe_edit T e"
  by unfold_locales (auto simp: safe_edit_def dest: run_edit_keeps split: option.splits if_splits)

section \<open>Directories\<close>

definition plain_name :: "string \<Rightarrow> bool" where
  "plain_name n \<longleftrightarrow> n \<noteq> [] \<and> n \<noteq> ''.'' \<and> n \<noteq> ''..'' \<and> slash \<notin> set n"

definition abs_path :: "string list \<Rightarrow> string" where
  "abs_path cs = concat (map (\<lambda>c. slash # c) cs)"

lemma abs_path_simps [simp]: "abs_path [] = []" "abs_path (c # cs) = slash # c @ abs_path cs" "abs_path (cs @ ds) = abs_path cs @ abs_path ds"
  by (simp_all add: abs_path_def)

lemma split_abs: "list_all plain_name cs \<Longrightarrow> split_on slash (abs_path cs @ [slash]) = [] # cs @ [[]]"
proof (induction cs)
  case (Cons c cs)
  then have c: "slash \<notin> set c" "split_on slash (abs_path cs @ [slash]) = [] # cs @ [[]]" by (simp_all add: plain_name_def)
  have "split_on slash (c @ abs_path cs @ [slash]) = c # cs @ [[]]"
  proof (cases cs)
    case Nil
    with c show ?thesis using split_on_append [of slash c "[]"] by (simp add: split_on_clean)
  next
    case (Cons d ds)
    with c have "split_on slash (d @ abs_path ds @ [slash]) = d # ds @ [[]]" by simp
    with c Cons show ?thesis using split_on_append [of slash c "d @ abs_path ds @ [slash]"] by (simp add: split_on_clean)
  qed
  then show ?case by simp
qed simp

lemma clean_plain: "list_all plain_name cs \<Longrightarrow> clean_parts True acc (cs @ [[]]) = rev acc @ cs"
  by (induction cs arbitrary: acc) (auto simp: plain_name_def)

lemma join_abs: "cs \<noteq> [] \<Longrightarrow> slash # join_with [slash] cs = abs_path cs"
  by (induction "[slash]" cs rule: join_with.induct) auto

lemma dir_of_path:
  assumes "list_all plain_name cs" "cs \<noteq> []" "plain_name n"
  shows "filepath_Dir (abs_path cs @ slash # n) = abs_path cs"
proof -
  have n: "\<forall>c \<in> set (rev n). c \<noteq> slash" using assms(3) by (auto simp: plain_name_def)
  then have "rev (dropWhile (\<lambda>c. c \<noteq> slash) (rev (abs_path cs @ slash # n))) = abs_path cs @ [slash]"
    using dropWhile_append2 [of "rev n" "\<lambda>c. c \<noteq> slash"] by simp
  moreover have "has_prefix (abs_path cs @ [slash]) [slash]" using assms(2) by (cases cs) (auto simp: has_prefix_def)
  ultimately show ?thesis
    using assms clean_plain [of cs "[]"] join_abs [OF assms(2)] by (simp add: filepath_Dir_def filepath_Clean_def Let_def split_abs)
qed

end
