(* ===== verification/Rgw_Publish.thy ===== *)
theory Rgw_Publish
  imports Rgw_Conf
begin

text \<open>
  Publication of the gateway's frontend on a member (\<^verbatim>\<open>ceph/rgw.go\<close>): TLS pairs in
  generation directories, the journal of an unfinished publication, the configuration, the service,
  rollback and recovery.

  The disk is explicit: the configuration, the journal, the other regular files by path, and the
  directories the program made. Every call appends to the trace what was called and the disk after
  it, so the trace holds every state in which the machine can be cut off. Whether a call fails, what
  a command answers and which edits other parts of the program make to the configuration between two
  critical sections may depend on everything that happened. A temporary file is visible only after
  its rename, which is the step that stores the content.
\<close>

record rgw_disk =
  rd_conf :: "string option"
  rd_pending :: "json option option"
  rd_files :: "(string \<times> string) list"
  rd_dirs :: "string list"

datatype rgw_call =
    OnFile string string
  | Command "string list"
  | Connect int bool
  | ConfEdit

record rgw_world =
  rw_disk :: rgw_disk
  rw_trace :: "(rgw_call \<times> rgw_disk) list"

text \<open>The answer of a listener: status, request id header, and the decoded body, if it decodes.\<close>

record xml_body =
  xb_Space :: string
  xb_Local :: string
  xb_Code :: string
  xb_RequestID :: string

record http_answer =
  ha_Status :: int
  ha_RequestID :: string
  ha_Body :: "string + xml_body"

record rgw_env =
  re_text :: rgw_text
  re_tls :: tls_lib
  re_hash :: "string \<Rightarrow> string"
  re_utf8 :: "string \<Rightarrow> string"
  re_pem :: "string \<Rightarrow> (string \<times> string) list"
  re_ConfPath :: string
  re_RunPath :: string
  re_DataPath :: string
  re_SSLFilesPath :: string
  re_fault :: "rgw_world \<Rightarrow> rgw_call \<Rightarrow> string option"
  re_answer :: "rgw_world \<Rightarrow> string list \<Rightarrow> string + string"
  re_keyring :: "rgw_world \<Rightarrow> string + bool"
  re_link :: "rgw_world \<Rightarrow> string option"
  re_http :: "rgw_world \<Rightarrow> int \<Rightarrow> string + http_answer"
  re_peer :: "rgw_world \<Rightarrow> int \<Rightarrow> string + string list"
  re_polls :: "rgw_world \<Rightarrow> nat"
  re_edit :: "rgw_world \<Rightarrow> rgw_edit option"
  re_monitors :: "rgw_world \<Rightarrow> go_error + string list"

section \<open>Procedures on a member\<close>

type_synonym 'a rg = "rgw_world \<Rightarrow> (go_error + 'a) \<times> rgw_world"

definition rg_return :: "'a \<Rightarrow> 'a rg" where
  "rg_return v w = (Inr v, w)"

definition rg_fail :: "go_error \<Rightarrow> 'a rg" where
  "rg_fail e w = (Inl e, w)"

definition rg_bind :: "'a rg \<Rightarrow> ('a \<Rightarrow> 'b rg) \<Rightarrow> 'b rg" where
  "rg_bind f g w = (case f w of (Inl e, w1) \<Rightarrow> (Inl e, w1) | (Inr v, w1) \<Rightarrow> g v w1)"

definition rg_then :: "unit rg \<Rightarrow> 'b rg \<Rightarrow> 'b rg" where
  "rg_then f g = rg_bind f (\<lambda>_. g)"

text \<open>The result as a value, for code that looks at an error before it decides.\<close>

definition rg_try :: "'a rg \<Rightarrow> (go_error + 'a) rg" where
  "rg_try f w = (case f w of (r, w1) \<Rightarrow> (Inr r, w1))"

definition rg_error :: "unit rg \<Rightarrow> go_error option rg" where
  "rg_error f w = (case f w of (Inl e, w1) \<Rightarrow> (Inr (Some e), w1) | (Inr _, w1) \<Rightarrow> (Inr None, w1))"

definition rg_map_error :: "(go_error \<Rightarrow> go_error) \<Rightarrow> 'a rg \<Rightarrow> 'a rg" where
  "rg_map_error h f w = (case f w of (Inl e, w1) \<Rightarrow> (Inl (h e), w1) | (Inr v, w1) \<Rightarrow> (Inr v, w1))"

definition rg_get :: "(rgw_disk \<Rightarrow> 'a) \<Rightarrow> 'a rg" where
  "rg_get f w = (Inr (f (rw_disk w)), w)"

definition rg_see :: "(rgw_world \<Rightarrow> 'a) \<Rightarrow> 'a rg" where
  "rg_see f w = (Inr (f w), w)"

definition log_call :: "rgw_call \<Rightarrow> rgw_disk \<Rightarrow> rgw_world \<Rightarrow> rgw_world" where
  "log_call c d w = \<lparr>rw_disk = d, rw_trace = rw_trace w @ [(c, d)]\<rparr>"

text \<open>A system call: it fails without effect, or it has its effect.\<close>

definition sys :: "rgw_env \<Rightarrow> string \<Rightarrow> string \<Rightarrow> (rgw_disk \<Rightarrow> rgw_disk) \<Rightarrow> unit rg" where
  "sys E what path f w =
     (case re_fault E w (OnFile what path) of
        Some e \<Rightarrow> (Inl (err_new e), log_call (OnFile what path) (rw_disk w) w)
      | None \<Rightarrow> (Inr (), log_call (OnFile what path) (f (rw_disk w)) w))"

abbreviation touch :: "rgw_env \<Rightarrow> string \<Rightarrow> string \<Rightarrow> unit rg" where
  "touch E what path \<equiv> sys E what path (\<lambda>d. d)"

definition command :: "rgw_env \<Rightarrow> string list \<Rightarrow> string rg" where
  "command E args w =
     (case re_answer E w args of
        Inl e \<Rightarrow> (Inl (err_new e), log_call (Command args) (rw_disk w) w)
      | Inr out \<Rightarrow> (Inr out, log_call (Command args) (rw_disk w) w))"

definition run_cmd :: "rgw_env \<Rightarrow> string list \<Rightarrow> unit rg" where
  "run_cmd E args = rg_bind (command E args) (\<lambda>_. rg_return ())"

text \<open>Between two critical sections other parts of the program may edit the configuration; its lock is
  taken, or it is read without the lock, after that.\<close>

definition meanwhile :: "rgw_env \<Rightarrow> unit rg" where
  "meanwhile E w =
     (case re_edit E w of
        None \<Rightarrow> (Inr (), w)
      | Some e \<Rightarrow> (Inr (), log_call ConfEdit ((rw_disk w)\<lparr>rd_conf := map_option (edited (run_edit (re_text E) e)) (rd_conf (rw_disk w))\<rparr>) w))"

definition rgw_failed :: "string \<Rightarrow> go_error \<Rightarrow> go_error" where
  "rgw_failed msg e = err_wrap2 (err_of ErrPlacementOperationFailed) ('': '' @ msg @ '': '') e ''''"

definition rgw_error :: "string \<Rightarrow> go_error" where
  "rgw_error msg = err_wrap '''' (err_of ErrPlacementOperationFailed) ('': '' @ msg)"

section \<open>Files\<close>

definition rgwConfPath :: "rgw_env \<Rightarrow> string" where
  "rgwConfPath E = re_ConfPath E @ ''/radosgw.conf''"

definition rgwTLSRoot :: "rgw_env \<Rightarrow> string" where
  "rgwTLSRoot E = re_SSLFilesPath E @ ''/rgw-tls''"

definition rgwPendingApplyPath :: "rgw_env \<Rightarrow> string" where
  "rgwPendingApplyPath E = rgwConfPath E @ ''.pending''"

definition put_conf :: "string \<Rightarrow> rgw_disk \<Rightarrow> rgw_disk" where
  "put_conf c d = d\<lparr>rd_conf := Some c\<rparr>"

definition put_pending :: "json \<Rightarrow> rgw_disk \<Rightarrow> rgw_disk" where
  "put_pending j d = d\<lparr>rd_pending := Some (Some j)\<rparr>"

definition put_file :: "string \<Rightarrow> string \<Rightarrow> rgw_disk \<Rightarrow> rgw_disk" where
  "put_file p c d = d\<lparr>rd_files := AList.update p c (rd_files d)\<rparr>"

definition content_of :: "rgw_disk \<Rightarrow> string \<Rightarrow> string option" where
  "content_of d p = map_of (rd_files d) p"

text \<open>\<^verbatim>\<open>os.ReadFile\<close>: \<^const>\<open>None\<close> when the file does not exist.\<close>

definition read_conf :: "rgw_env \<Rightarrow> string option rg" where
  "read_conf E = rg_then (touch E ''read'' (rgwConfPath E)) (rg_get rd_conf)"

definition read_file :: "rgw_env \<Rightarrow> string \<Rightarrow> string rg" where
  "read_file E p =
     rg_then (touch E ''read'' p)
       (rg_bind (rg_get (\<lambda>d. content_of d p)) (\<lambda>c. case c of Some s \<Rightarrow> rg_return s | None \<Rightarrow> rg_fail (err_new (''open '' @ p @ '': no such file or directory''))))"

text \<open>Write a temporary file, rename it over the path, and sync the directory.\<close>

definition writeRGWFile :: "rgw_env \<Rightarrow> string \<Rightarrow> (rgw_disk \<Rightarrow> rgw_disk) \<Rightarrow> unit rg" where
  "writeRGWFile E path store =
     rg_then (touch E ''createtemp'' path)
       (rg_bind (rg_try (rg_bind (rg_error (rg_then (touch E ''write'' path) (rg_then (touch E ''chmod'' path) (touch E ''sync'' path)))) (\<lambda>err.
                 rg_bind (rg_error (touch E ''close'' path)) (\<lambda>closeErr.
                   case err of
                     Some e \<Rightarrow> rg_fail e
                   | None \<Rightarrow>
                       (case closeErr of
                          Some e \<Rightarrow> rg_fail e
                        | None \<Rightarrow> rg_then (sys E ''rename'' path store) (rg_then (touch E ''opendir'' path) (touch E ''syncdir'' path))))))) (\<lambda>r.
        rg_bind (rg_error (touch E ''remove'' (path @ ''.tmp''))) (\<lambda>_. case r of Inl e \<Rightarrow> rg_fail e | Inr _ \<Rightarrow> rg_return ())))"

text \<open>\<^verbatim>\<open>os.Remove\<close> where a missing file is no error, and \<^verbatim>\<open>os.RemoveAll\<close>, which
  goes on after a failure and returns the first one.\<close>

definition remove_conf :: "rgw_env \<Rightarrow> unit rg" where
  "remove_conf E = sys E ''remove'' (rgwConfPath E) (\<lambda>d. d\<lparr>rd_conf := None\<rparr>)"

definition remove_pending :: "rgw_env \<Rightarrow> unit rg" where
  "remove_pending E = sys E ''remove'' (rgwPendingApplyPath E) (\<lambda>d. d\<lparr>rd_pending := None\<rparr>)"

definition drop_file :: "string \<Rightarrow> rgw_disk \<Rightarrow> rgw_disk" where
  "drop_file p d = d\<lparr>rd_files := AList.delete p (rd_files d)\<rparr>"

definition remove_file :: "rgw_env \<Rightarrow> string \<Rightarrow> unit rg" where
  "remove_file E p = sys E ''remove'' p (drop_file p)"

definition under :: "string \<Rightarrow> string \<Rightarrow> bool" where
  "under dir p \<longleftrightarrow> p = dir \<or> has_prefix p (dir @ [slash])"

fun remove_each :: "rgw_env \<Rightarrow> string list \<Rightarrow> go_error option rg" where
  "remove_each E [] = rg_return None"
| "remove_each E (p # ps) =
     rg_bind (rg_error (remove_file E p)) (\<lambda>e.
     rg_bind (remove_each E ps) (\<lambda>e'. rg_return (case e of Some x \<Rightarrow> Some x | None \<Rightarrow> e')))"

definition os_RemoveAll :: "rgw_env \<Rightarrow> string \<Rightarrow> unit rg" where
  "os_RemoveAll E dir =
     rg_bind (rg_get (\<lambda>d. filter (under dir) (map fst (rd_files d)))) (\<lambda>ps.
     rg_bind (remove_each E ps) (\<lambda>e.
       case e of Some x \<Rightarrow> rg_fail x
       | None \<Rightarrow> sys E ''rmdir'' dir (\<lambda>d. d\<lparr>rd_dirs := filter (\<lambda>p. \<not> under dir p) (rd_dirs d)\<rparr>)))"

text \<open>The names in a directory, in the order \<^verbatim>\<open>os.ReadDir\<close> has them; a missing directory is empty.\<close>

definition entries :: "string \<Rightarrow> rgw_disk \<Rightarrow> string list" where
  "entries dir d =
     sort (remdups (map (\<lambda>p. takeWhile (\<lambda>c. c \<noteq> slash) (drop (length dir + 1) p))
       (filter (\<lambda>p. has_prefix p (dir @ [slash])) (map fst (rd_files d) @ rd_dirs d))))"

section \<open>The service\<close>

definition startRGW :: "rgw_env \<Rightarrow> unit rg" where
  "startRGW E = run_cmd E [''snapctl'', ''start'', ''microceph.rgw'', ''--enable'']"

definition stopRGW :: "rgw_env \<Rightarrow> unit rg" where
  "stopRGW E = run_cmd E [''snapctl'', ''stop'', ''microceph.rgw'', ''--disable'']"

definition restartRGW :: "rgw_env \<Rightarrow> unit rg" where
  "restartRGW E = run_cmd E [''snapctl'', ''restart'', ''microceph.rgw'']"

fun service_state :: "rgw_text \<Rightarrow> string list \<Rightarrow> bool option" where
  "service_state T [] = None"
| "service_state T (l # ls) =
     (let f = Fields T l in
      if 3 \<le> length f \<and> f ! 0 = ''microceph.rgw'' \<and> f ! 2 = ''active'' then Some True
      else if 3 \<le> length f \<and> f ! 0 = ''microceph.rgw'' \<and> f ! 2 = ''inactive'' then Some False
      else service_state T ls)"

definition checkRGWActive :: "rgw_env \<Rightarrow> unit rg" where
  "checkRGWActive E =
     rg_bind (command E [''snapctl'', ''services'', ''microceph.rgw'']) (\<lambda>out.
       case service_state (re_text E) (text_lines out) of
         Some True \<Rightarrow> rg_return ()
       | Some False \<Rightarrow> rg_fail (err_of ErrRGWInactive)
       | None \<Rightarrow> rg_fail (err_new ''cannot determine the RGW service state''))"

text \<open>A listener is ready when it answers like an S3 gateway: access denied, or a list of buckets.\<close>

definition checkRGWHTTPFrontend :: "http_answer \<Rightarrow> go_error option" where
  "checkRGWHTTPFrontend a =
     (if ha_RequestID a = [] \<or> (ha_Status a \<noteq> 200 \<and> ha_Status a \<noteq> 403)
      then Some (err_new ''RGW HTTP listener did not return a ready S3 response'')
      else case ha_Body a of
        Inl e \<Rightarrow> Some (err_wrap ''cannot decode RGW HTTP response: '' (err_new e) '''')
      | Inr b \<Rightarrow>
          if ha_Status a = 403 \<and> xb_Local b = ''Error'' \<and> xb_Code b = ''AccessDenied'' \<and> xb_RequestID b = ha_RequestID a then None
          else if ha_Status a = 200 \<and> xb_Local b = ''ListAllMyBucketsResult'' \<and> xb_Space b = ''http://s3.amazonaws.com/doc/2006-03-01/'' then None
          else Some (err_new ''RGW HTTP listener did not return a ready S3 response''))"

record rgw_frontend_spec =
  fs_port :: int
  fs_sslPort :: int
  fs_ssl :: bool
  fs_certPEM :: string
  fs_keyPEM :: string

text \<open>The listeners of a frontend: the plain one answers, and the TLS one presents the first
  certificate of the pair. \<open>re_pem\<close> gives the blocks that successive \<^verbatim>\<open>pem.Decode\<close> calls
  find.\<close>

definition connect :: "int \<Rightarrow> bool \<Rightarrow> unit rg" where
  "connect port tls w = (Inr (), log_call (Connect port tls) (rw_disk w) w)"

definition check_plain :: "rgw_env \<Rightarrow> int \<Rightarrow> unit rg" where
  "check_plain E port =
     rg_bind (rg_see (\<lambda>w. re_http E w port)) (\<lambda>r.
     rg_then (connect port False)
       (case r of
          Inl e \<Rightarrow> rg_fail (err_new e)
        | Inr a \<Rightarrow> (case checkRGWHTTPFrontend a of Some e \<Rightarrow> rg_fail e | None \<Rightarrow> rg_return ())))"

definition check_tls :: "rgw_env \<Rightarrow> string \<Rightarrow> int \<Rightarrow> unit rg" where
  "check_tls E certPEM port =
     (case filter (\<lambda>b. fst b = ''CERTIFICATE'') (re_pem E certPEM) of
        [] \<Rightarrow> rg_fail (err_new ''expected RGW certificate is unavailable'')
      | b # _ \<Rightarrow>
          rg_bind (rg_see (\<lambda>w. re_peer E w port)) (\<lambda>r.
          rg_then (connect port True)
            (case r of
               Inl e \<Rightarrow> rg_fail (err_new e)
             | Inr [] \<Rightarrow> rg_fail (err_new ''RGW did not load the expected certificate'')
             | Inr (p # _) \<Rightarrow> if p \<noteq> snd b then rg_fail (err_new ''RGW did not load the expected certificate'') else rg_return ())))"

definition checkRGWFrontend :: "rgw_env \<Rightarrow> rgw_frontend_spec \<Rightarrow> unit rg" where
  "checkRGWFrontend E spec =
     rg_then (if fs_port spec \<noteq> 0 then check_plain E (fs_port spec) else rg_return ())
       (if \<not> fs_ssl spec then rg_return () else check_tls E (fs_certPEM spec) (fs_sslPort spec))"

text \<open>Readiness is polled until a deadline, which the environment turns into a number of further polls.\<close>

definition ready_once :: "rgw_env \<Rightarrow> rgw_frontend_spec \<Rightarrow> unit rg" where
  "ready_once E spec = rg_then (checkRGWActive E) (checkRGWFrontend E spec)"

fun ready_polls :: "rgw_env \<Rightarrow> rgw_frontend_spec \<Rightarrow> nat \<Rightarrow> unit rg" where
  "ready_polls E spec 0 = ready_once E spec"
| "ready_polls E spec (Suc n) =
     rg_bind (rg_error (ready_once E spec)) (\<lambda>e. case e of None \<Rightarrow> rg_return () | Some _ \<Rightarrow> ready_polls E spec n)"

definition checkRGWReady :: "rgw_env \<Rightarrow> rgw_frontend_spec \<Rightarrow> unit rg" where
  "checkRGWReady E spec = rg_bind (rg_see (re_polls E)) (ready_polls E spec)"

section \<open>The keyring\<close>

definition createRGWKeyring :: "rgw_env \<Rightarrow> string \<Rightarrow> unit rg" where
  "createRGWKeyring E path =
     rg_then (touch E ''mkdir'' path)
       (rg_bind (rg_see (re_keyring E)) (\<lambda>s.
        rg_then (touch E ''stat'' (path @ ''/keyring''))
          (case s of
             Inl e \<Rightarrow> rg_fail (err_new e)
           | Inr True \<Rightarrow> rg_return ()
           | Inr False \<Rightarrow> run_cmd E [''ceph'', ''auth'', ''get-or-create'', ''client.radosgw.gateway'', ''mon'', ''allow rw'', ''osd'', ''allow rwx'',
                 ''-o'', path @ ''/keyring''])))"

definition symlinkRGWKeyring :: "rgw_env \<Rightarrow> string \<Rightarrow> unit rg" where
  "symlinkRGWKeyring E keyPath =
     (let path = re_ConfPath E @ ''/ceph.client.radosgw.gateway.keyring''; target = keyPath @ ''/keyring'' in
      rg_bind (rg_see (re_link E)) (\<lambda>existing.
        if existing = Some target then rg_return ()
        else rg_then (touch E ''remove'' path) (touch E ''symlink'' path)))"

definition prepareRGWKeyring :: "rgw_env \<Rightarrow> unit rg" where
  "prepareRGWKeyring E =
     (let keyringPath = re_DataPath E @ ''/radosgw/ceph-radosgw.gateway'' in
      rg_then (rg_map_error (rgw_failed ''cannot create RGW keyring'') (createRGWKeyring E keyringPath))
        (rg_map_error (rgw_failed ''cannot link RGW keyring'') (symlinkRGWKeyring E keyringPath)))"

section \<open>TLS material\<close>

definition tlsGenDir :: "rgw_env \<Rightarrow> rgw_frontend_spec \<Rightarrow> string" where
  "tlsGenDir E s = rgwTLSRoot E @ [slash] @ re_hash E (fs_certPEM s @ fs_keyPEM s)"

definition crt_in :: "string \<Rightarrow> string" where
  "crt_in dir = dir @ ''/server.crt''"

definition key_in :: "string \<Rightarrow> string" where
  "key_in dir = dir @ ''/server.key''"

definition resolveRGWTLSReuse :: "rgw_env \<Rightarrow> string \<Rightarrow> (string \<times> string) rg" where
  "resolveRGWTLSReuse E conf =
     (case rgwConfTLSPaths (re_text E) conf of (certPath, keyPath) \<Rightarrow>
        if certPath = [] \<or> keyPath = [] then rg_fail (rgw_error ''TLS material must be supplied for this member'')
        else rg_bind (rg_map_error (rgw_failed ''cannot read the local RGW certificate'') (read_file E certPath)) (\<lambda>cert.
             rg_bind (rg_map_error (rgw_failed ''cannot read the local RGW private key'') (read_file E keyPath)) (\<lambda>key.
               if \<not> x509_key_pair (re_tls E) cert key then rg_fail (rgw_error ''the local RGW TLS pair is unusable'')
               else rg_return (cert, key))))"

definition pairOnDisk :: "rgw_env \<Rightarrow> string \<Rightarrow> string \<Rightarrow> string \<Rightarrow> string \<Rightarrow> bool rg" where
  "pairOnDisk E certPath keyPath certPEM keyPEM =
     rg_bind (rg_try (read_file E certPath)) (\<lambda>cert.
     rg_bind (rg_try (read_file E keyPath)) (\<lambda>key. rg_return (cert = Inr certPEM \<and> key = Inr keyPEM)))"

definition stageRGWTLSGeneration :: "rgw_env \<Rightarrow> string \<Rightarrow> string \<Rightarrow> string \<Rightarrow> unit rg" where
  "stageRGWTLSGeneration E genDir certPEM keyPEM =
     rg_then (sys E ''mkdir'' genDir (\<lambda>d. d\<lparr>rd_dirs := List.insert genDir (rd_dirs d)\<rparr>))
      (rg_then (touch E ''chmod'' genDir)
       (rg_bind (pairOnDisk E (crt_in genDir) (key_in genDir) certPEM keyPEM) (\<lambda>on_disk.
        rg_then
         (if on_disk then rg_return ()
          else rg_then (writeRGWFile E (crt_in genDir) (put_file (crt_in genDir) certPEM))
                 (writeRGWFile E (key_in genDir) (put_file (key_in genDir) keyPEM)))
         (rg_then (touch E ''chmod'' (crt_in genDir)) (touch E ''chmod'' (key_in genDir))))))"

section \<open>The journal\<close>

record rgwPendingApply =
  pa_PreviousConfig :: "string option"
  pa_PreviousActive :: "bool option"

text \<open>The encoder replaces bytes that are not UTF-8.\<close>

definition json_text :: "rgw_env \<Rightarrow> string \<Rightarrow> string" where
  "json_text E s = (if all_ascii s then s else re_utf8 E s)"

definition pending_json :: "rgw_env \<Rightarrow> string \<Rightarrow> bool \<Rightarrow> json" where
  "pending_json E previous active = JObj [(''previous_config'', JStr (json_text E previous)), (''previously_active'', JBool active)]"

definition dec_string_ptr :: "json \<Rightarrow> string option option" where
  "dec_string_ptr j = (case j of JNull \<Rightarrow> Some None | JStr s \<Rightarrow> Some (Some s) | _ \<Rightarrow> None)"

definition pending_field :: "go_lib \<Rightarrow> string \<Rightarrow> json \<Rightarrow> rgwPendingApply \<Rightarrow> rgwPendingApply option option" where
  "pending_field G k v r =
     (if equal_fold G k ''previous_config'' then Some (map_option (\<lambda>s. r\<lparr>pa_PreviousConfig := s\<rparr>) (dec_string_ptr v))
      else if equal_fold G k ''previously_active'' then Some (map_option (\<lambda>b. r\<lparr>pa_PreviousActive := b\<rparr>) (dec_bool_ptr v))
      else None)"

definition dec_pending :: "rgw_env \<Rightarrow> json option \<Rightarrow> (string \<times> bool) option" where
  "dec_pending E doc =
     (case Option.bind doc (dec_struct False (pending_field (rt_go (re_text E))) \<lparr>pa_PreviousConfig = None, pa_PreviousActive = None\<rparr>) of
        None \<Rightarrow> None
      | Some p \<Rightarrow> (case (pa_PreviousConfig p, pa_PreviousActive p) of (Some c, Some a) \<Rightarrow> Some (c, a) | _ \<Rightarrow> None))"

definition readPendingApply :: "rgw_env \<Rightarrow> (string \<times> bool) option rg" where
  "readPendingApply E =
     rg_then (touch E ''read'' (rgwPendingApplyPath E))
       (rg_bind (rg_get rd_pending) (\<lambda>p.
          case p of
            None \<Rightarrow> rg_return None
          | Some doc \<Rightarrow>
              (case dec_pending E doc of
                 None \<Rightarrow> rg_fail (err_new ''invalid pending RGW apply journal'')
               | Some m \<Rightarrow> rg_return (Some m))))"

definition writePendingApplyMarker :: "rgw_env \<Rightarrow> string \<Rightarrow> bool \<Rightarrow> unit rg" where
  "writePendingApplyMarker E previous active =
     writeRGWFile E (rgwPendingApplyPath E) (put_pending (pending_json E previous active))"

abbreviation conf_text :: "string option \<Rightarrow> string" where
  "conf_text c \<equiv> (case c of Some s \<Rightarrow> s | None \<Rightarrow> [])"

definition readRGWState :: "rgw_env \<Rightarrow> (string \<times> (string \<times> bool) option) rg" where
  "readRGWState E =
     rg_then (meanwhile E)
       (rg_bind (rg_map_error (rgw_failed ''cannot read RGW configuration'') (read_conf E)) (\<lambda>current.
        rg_bind (rg_map_error (\<lambda>e. err_wrap2 (err_of ErrPlacementOperationFailed) '': '' e '''') (readPendingApply E)) (\<lambda>pending.
          rg_return (conf_text current, pending))))"

definition readRGWConf :: "rgw_env \<Rightarrow> string rg" where
  "readRGWConf E =
     rg_bind (rg_map_error (rgw_failed ''cannot read RGW configuration'') (read_conf E)) (\<lambda>c.
       case c of
         Some s \<Rightarrow> rg_return s
       | None \<Rightarrow> rg_fail (rgw_failed ''cannot read RGW configuration'' (err_new (''open '' @ rgwConfPath E @ '': no such file or directory''))))"

definition rgwFrontendFromConfig :: "rgw_env \<Rightarrow> string \<Rightarrow> rgw_frontend_spec rg" where
  "rgwFrontendFromConfig E conf =
     (if \<not> has_prefix (rgwFrontendLine (re_text E) conf) ''rgw frontends = beast ''
      then rg_fail (err_new ''RGW configuration has no supported frontend'')
      else case rgwConfPorts (re_text E) conf of
        Inl e \<Rightarrow> rg_fail e
      | Inr (port, sslPort) \<Rightarrow>
          if port < 0 \<or> 65535 < port \<or> sslPort < 0 \<or> 65535 < sslPort \<or> port = sslPort
          then rg_fail (err_new ''RGW configuration has invalid listener ports'')
          else case rgwConfTLSPaths (re_text E) conf of (certPath, keyPath) \<Rightarrow>
            if sslPort = 0
            then if certPath \<noteq> [] \<or> keyPath \<noteq> [] then rg_fail (err_new ''RGW TLS material has no TLS listener'')
                 else rg_return \<lparr>fs_port = port, fs_sslPort = sslPort, fs_ssl = False, fs_certPEM = [], fs_keyPEM = []\<rparr>
            else rg_bind (resolveRGWTLSReuse E conf) (\<lambda>(cert, key).
                   rg_return \<lparr>fs_port = port, fs_sslPort = sslPort, fs_ssl = True, fs_certPEM = cert, fs_keyPEM = key\<rparr>))"

section \<open>Cleaning up\<close>

definition removeLegacyRGWTLSFiles :: "rgw_env \<Rightarrow> string \<Rightarrow> string \<Rightarrow> unit rg" where
  "removeLegacyRGWTLSFiles E certPath keyPath =
     rg_bind (remove_each E (filter (\<lambda>p. p \<noteq> certPath \<and> p \<noteq> keyPath)
       [re_SSLFilesPath E @ ''/server.crt'', re_SSLFilesPath E @ ''/server.key''])) (\<lambda>_. rg_return ())"

fun prune_each :: "rgw_env \<Rightarrow> string \<Rightarrow> string list \<Rightarrow> unit rg" where
  "prune_each E keep [] = rg_return ()"
| "prune_each E keep (n # ns) =
     (let dir = rgwTLSRoot E @ [slash] @ n in
      if dir = keep then prune_each E keep ns
      else rg_bind (rg_error (os_RemoveAll E dir)) (\<lambda>_. prune_each E keep ns))"

definition pruneRGWTLSGenerations :: "rgw_env \<Rightarrow> unit rg" where
  "pruneRGWTLSGenerations E =
     rg_then (meanwhile E)
       (rg_bind (rg_try (read_conf E)) (\<lambda>r.
          case r of
            Inl _ \<Rightarrow> rg_return ()
          | Inr conf \<Rightarrow>
              (case rgwConfTLSPaths (re_text E) (conf_text conf) of (certPath, keyPath) \<Rightarrow>
               rg_bind (rg_error (touch E ''readdir'' (rgwTLSRoot E))) (\<lambda>e.
                 case e of
                   Some _ \<Rightarrow> rg_return ()
                 | None \<Rightarrow>
                     rg_bind (rg_get (entries (rgwTLSRoot E))) (\<lambda>ns.
                     rg_then (prune_each E (filepath_Dir certPath) ns)
                       (removeLegacyRGWTLSFiles E certPath keyPath))))))"

definition refreshPendingApplyMarker :: "rgw_env \<Rightarrow> unit rg" where
  "refreshPendingApplyMarker E =
     rg_then (meanwhile E)
       (rg_bind (rg_error (rg_bind (read_conf E) (\<lambda>c. case c of Some s \<Rightarrow> writePendingApplyMarker E s True | None \<Rightarrow> rg_return ())))
         (\<lambda>_. rg_return ()))"

definition finishRGWApply :: "rgw_env \<Rightarrow> unit rg" where
  "finishRGWApply E =
     rg_then (rg_map_error (rgw_failed ''cannot clear pending RGW apply'') (remove_pending E)) (pruneRGWTLSGenerations E)"

section \<open>Rollback\<close>

record rgwRollback =
  rb_prevConf :: string
  rb_prevActive :: bool
  rb_publishedGenDir :: string
  rb_prevGenDir :: string
  rb_serviceChanged :: bool

definition restore_conf :: "rgw_env \<Rightarrow> rgwRollback \<Rightarrow> unit rg" where
  "restore_conf E rb =
     (if rb_prevConf rb = [] then remove_conf E
      else rg_bind (read_conf E) (\<lambda>current.
        let previous = (if rgwFrontendLine (re_text E) (conf_text current) \<noteq> []
                        then replaceRGWFrontendLine (re_text E) (conf_text current) (rgwFrontendLine (re_text E) (rb_prevConf rb))
                        else rb_prevConf rb) in
        if previous \<noteq> conf_text current then writeRGWFile E (rgwConfPath E) (put_conf previous) else rg_return ()))"

definition restore_service :: "rgw_env \<Rightarrow> rgwRollback \<Rightarrow> unit rg" where
  "restore_service E rb =
     (if \<not> rb_serviceChanged rb then rg_return ()
      else if rb_prevActive rb
      then rg_bind (rg_map_error (\<lambda>e. err_wrap ''cannot verify restored RGW frontend: '' e '''') (rgwFrontendFromConfig E (rb_prevConf rb))) (\<lambda>spec.
             rg_map_error (\<lambda>e. err_wrap ''failed to restore RGW service state: '' e '''')
               (rg_then (restartRGW E) (checkRGWReady E spec)))
      else rg_map_error (\<lambda>e. err_wrap ''failed to restore RGW service state: '' e '''')
             (rg_then (stopRGW E)
               (rg_bind (rg_error (checkRGWActive E)) (\<lambda>activeErr.
                  case activeErr of
                    None \<Rightarrow> rg_fail (err_new ''RGW did not become inactive'')
                  | Some e \<Rightarrow> if errors_Is e ErrRGWInactive then rg_return ()
                              else rg_fail (err_join (err_new ''RGW did not become inactive'') (Some e))))))"

definition restore :: "rgw_env \<Rightarrow> rgwRollback \<Rightarrow> unit rg" where
  "restore E rb =
     rg_then (meanwhile E)
      (rg_then (rg_map_error (\<lambda>e. err_wrap ''failed to restore RGW configuration: '' e '''') (restore_conf E rb))
       (rg_then (restore_service E rb)
        (rg_then (remove_pending E)
         (rg_then (if rb_publishedGenDir rb \<noteq> [] \<and> rb_publishedGenDir rb \<noteq> rb_prevGenDir rb then os_RemoveAll E (rb_publishedGenDir rb)
                   else rg_return ())
           (pruneRGWTLSGenerations E)))))"

text \<open>Nothing to restore without a rollback.\<close>

definition restore_opt :: "rgw_env \<Rightarrow> rgwRollback option \<Rightarrow> unit rg" where
  "restore_opt E rb = (case rb of None \<Rightarrow> rg_return () | Some r \<Rightarrow> restore E r)"


section \<open>Recovery\<close>

definition inspect_active :: "rgw_env \<Rightarrow> bool rg" where
  "inspect_active E =
     rg_bind (rg_error (checkRGWActive E)) (\<lambda>e.
       case e of
         None \<Rightarrow> rg_return True
       | Some x \<Rightarrow> if errors_Is x ErrRGWInactive then rg_return False else rg_fail (rgw_failed ''cannot inspect RGW service'' x))"

definition reactivate :: "rgw_env \<Rightarrow> string \<Rightarrow> bool \<Rightarrow> unit rg" where
  "reactivate E current active =
     rg_bind (rgwFrontendFromConfig E current) (\<lambda>spec.
     rg_then (prepareRGWKeyring E)
      (rg_then (if active then restartRGW E else startRGW E) (checkRGWReady E spec)))"

text \<open>An unfinished apply: activate what is on disk, or go back to what the journal says. After a
  success the journal is rebased on the configuration as it is now, and then removed.\<close>

definition redrive :: "rgw_env \<Rightarrow> string \<Rightarrow> string \<Rightarrow> bool \<Rightarrow> unit rg" where
  "redrive E current previous prevActive =
     rg_bind (inspect_active E) (\<lambda>active.
     rg_bind (rg_error (reactivate E current active)) (\<lambda>err.
       case err of
         None \<Rightarrow>
           rg_map_error (rgw_failed ''cannot finish pending RGW recovery'')
             (rg_then (meanwhile E)
               (rg_bind (readRGWConf E) (\<lambda>conf. rg_then (writePendingApplyMarker E conf True) (remove_pending E))))
       | Some e \<Rightarrow>
           rg_bind (rg_error (restore E \<lparr>rb_prevConf = previous, rb_prevActive = prevActive, rb_publishedGenDir = [], rb_prevGenDir = [],
             rb_serviceChanged = True\<rparr>)) (\<lambda>re. rg_fail (rgw_failed ''cannot recover pending RGW apply'' (err_join e re)))))"

definition recoverPendingRGWApply :: "rgw_env \<Rightarrow> unit rg" where
  "recoverPendingRGWApply E =
     rg_bind (readRGWState E) (\<lambda>(current, pending).
       case pending of
         None \<Rightarrow> rg_return ()
       | Some (previous, prevActive) \<Rightarrow> redrive E current previous prevActive)"

section \<open>Publication\<close>

text \<open>What an apply wants on disk: the directory of the pair, and the rendered configuration.\<close>

definition gen_dir :: "rgw_env \<Rightarrow> rgw_frontend_spec \<Rightarrow> string" where
  "gen_dir E spec = (if fs_ssl spec then tlsGenDir E spec else [])"

definition desired_conf :: "rgw_env \<Rightarrow> rgw_frontend_spec \<Rightarrow> string list \<Rightarrow> string" where
  "desired_conf E spec monitors =
     newRadosGWConfig (join_with '','' (sort monitors)) (re_RunPath E) (fs_port spec) (fs_sslPort spec)
       (if fs_ssl spec then crt_in (tlsGenDir E spec) else []) (if fs_ssl spec then key_in (tlsGenDir E spec) else [])"

text \<open>The pair, then the journal, then the configuration.\<close>

definition publish :: "rgw_env \<Rightarrow> rgw_frontend_spec \<Rightarrow> string \<Rightarrow> bool \<Rightarrow> string \<Rightarrow> bool \<Rightarrow> unit rg" where
  "publish E spec current wasActive desired changed =
     rg_then (if fs_ssl spec then stageRGWTLSGeneration E (tlsGenDir E spec) (fs_certPEM spec) (fs_keyPEM spec) else rg_return ())
      (rg_then (writePendingApplyMarker E current wasActive)
        (if changed
         then writeRGWFile E (rgwConfPath E)
                (put_conf (if rgwFrontendLine (re_text E) current \<noteq> []
                           then replaceRGWFrontendLine (re_text E) current (rgwFrontendLine (re_text E) desired) else desired))
         else rg_return ()))"

definition new_rollback :: "rgw_env \<Rightarrow> rgw_frontend_spec \<Rightarrow> string \<Rightarrow> bool \<Rightarrow> rgwRollback" where
  "new_rollback E spec current wasActive =
     \<lparr>rb_prevConf = current, rb_prevActive = wasActive, rb_publishedGenDir = gen_dir E spec,
      rb_prevGenDir = (case rgwConfTLSPaths (re_text E) current of (previousCert, _) \<Rightarrow> if previousCert \<noteq> [] then filepath_Dir previousCert else []),
      rb_serviceChanged = False\<rparr>"

definition activate :: "rgw_env \<Rightarrow> rgw_frontend_spec \<Rightarrow> rgwRollback option \<Rightarrow> bool \<Rightarrow> rgwRollback option rg" where
  "activate E spec rb wasActive =
     (let act = \<not> wasActive \<or> rb \<noteq> None;
          rb = (if act then map_option (\<lambda>r. r\<lparr>rb_serviceChanged := True\<rparr>) rb else rb) in
      rg_bind (rg_error (rg_then (if act then (if wasActive then restartRGW E else startRGW E) else rg_return ()) (checkRGWReady E spec))) (\<lambda>err.
        case err of
          None \<Rightarrow> rg_return rb
        | Some e \<Rightarrow>
            rg_bind (rg_error (restore_opt E rb)) (\<lambda>re.
              rg_fail (rgw_failed ''RGW frontend did not become ready''
                (err_join e (case re of None \<Rightarrow> if rb \<noteq> None then Some (err_new ''previous configuration restored'') else None | Some x \<Rightarrow> Some x))))))"

text \<open>Under the lock: publish what differs; then, unlocked, activate it. A failed publication and a
  frontend that does not become ready are undone.\<close>

definition apply_changes :: "rgw_env \<Rightarrow> rgw_frontend_spec \<Rightarrow> string \<Rightarrow> string \<Rightarrow> bool \<Rightarrow> bool \<Rightarrow> rgwRollback option \<Rightarrow> bool \<Rightarrow> rgwRollback option rg" where
  "apply_changes E spec current desired wasActive changed rb restartOnChange =
     rg_bind (rg_error (if rb \<noteq> None then publish E spec current wasActive desired changed else rg_return ())) (\<lambda>err.
       case err of
         None \<Rightarrow>
           if \<not> restartOnChange
           then (case rb of None \<Rightarrow> rg_then (finishRGWApply E) (rg_return None) | Some _ \<Rightarrow> rg_return rb)
           else activate E spec rb wasActive
       | Some e \<Rightarrow>
           rg_bind (rg_error (restore_opt E rb)) (\<lambda>re. rg_fail (rgw_failed ''cannot publish RGW frontend'' (err_join e re))))"

definition apply_locked :: "rgw_env \<Rightarrow> rgw_frontend_spec \<Rightarrow> string \<Rightarrow> bool \<Rightarrow> bool \<Rightarrow> rgwRollback option rg" where
  "apply_locked E spec desired wasActive restartOnChange =
     rg_then (meanwhile E)
      (rg_bind (rg_map_error (rgw_failed ''cannot read RGW configuration'') (read_conf E)) (\<lambda>conf.
       rg_bind (if fs_ssl spec
                then pairOnDisk E (crt_in (tlsGenDir E spec)) (key_in (tlsGenDir E spec)) (fs_certPEM spec) (fs_keyPEM spec)
                else rg_return True) (\<lambda>on_disk.
       let current = conf_text conf;
           changed = (conf = None \<or> rgwFrontendLine (re_text E) current \<noteq> rgwFrontendLine (re_text E) desired);
           rb = (if changed \<or> \<not> on_disk then Some (new_rollback E spec current wasActive) else None) in
       apply_changes E spec current desired wasActive changed rb restartOnChange)))"

definition applyRGWFrontend :: "rgw_env \<Rightarrow> rgw_frontend_spec \<Rightarrow> string list \<Rightarrow> bool \<Rightarrow> rgwRollback option rg" where
  "applyRGWFrontend E spec monitors restartOnChange =
     rg_then (recoverPendingRGWApply E)
      (rg_bind (inspect_active E) (\<lambda>wasActive.
       rg_then (prepareRGWKeyring E)
        (case formatIPv6 (re_text E) monitors of
           None \<Rightarrow> rg_fail (err_new ''panic: slice bounds out of range'')
         | Some ms \<Rightarrow> apply_locked E spec (desired_conf E spec ms) wasActive restartOnChange)))"

definition UpdateRGWCertificates :: "rgw_env \<Rightarrow> string \<Rightarrow> string \<Rightarrow> bool \<Rightarrow> unit rg" where
  "UpdateRGWCertificates E certificate privateKey restart =
     (case DecodeRGWCertificate (re_tls E) certificate privateKey of
        Inl e \<Rightarrow> rg_fail (err_wrap2 (err_of ErrRgwFrontendInvalid) '': '' (err_new e) '''')
      | Inr (cert, key) \<Rightarrow>
          rg_then (recoverPendingRGWApply E)
           (rg_then (rg_map_error (rgw_failed ''RGW is not running'') (checkRGWActive E))
            (rg_then (meanwhile E)
             (rg_bind (readRGWConf E) (\<lambda>conf.
                case rgwConfTLSPaths (re_text E) conf of (certPath, keyPath) \<Rightarrow>
                  if certPath = [] \<or> keyPath = [] then rg_fail (rgw_error ''RGW is not configured with TLS'')
                  else case rgwConfPorts (re_text E) conf of
                    Inl e \<Rightarrow> rg_fail e
                  | Inr (port, sslPort) \<Rightarrow>
                      rg_bind (rg_see (re_monitors E)) (\<lambda>m.
                        case m of
                          Inl e \<Rightarrow> rg_fail e
                        | Inr monitors \<Rightarrow>
                            rg_bind (applyRGWFrontend E \<lparr>fs_port = port, fs_sslPort = sslPort, fs_ssl = True, fs_certPEM = cert, fs_keyPEM = key\<rparr>
                              monitors restart) (\<lambda>_. if \<not> restart then rg_return () else finishRGWApply E)))))))"

end
