(* ===== verification/Rgw_Safety.thy ===== *)
theory Rgw_Safety
  imports Rgw_Publish
begin

text \<open>
  Crash safety of publication. A procedure is \<open>guarded\<close> by an invariant when every disk it leaves
  behind on its trace satisfies it; the pre- and postconditions speak of the disk, the last one of the
  disk after an error. The invariant says that the configuration on disk, and the one the journal
  would restore, name a TLS pair that is complete and valid.
\<close>

section \<open>A program logic over disks\<close>

definition guarded :: "(rgw_disk \<Rightarrow> bool) \<Rightarrow> (rgw_disk \<Rightarrow> bool) \<Rightarrow> 'a rg \<Rightarrow> ('a \<Rightarrow> rgw_disk \<Rightarrow> bool) \<Rightarrow> (rgw_disk \<Rightarrow> bool) \<Rightarrow> bool" where
  "guarded I P m Q R \<longleftrightarrow>
     (\<forall>w. P (rw_disk w) \<longrightarrow>
       (\<exists>new. rw_trace (snd (m w)) = rw_trace w @ new \<and> (\<forall>x \<in> set new. I (snd x))) \<and>
       (case fst (m w) of Inl _ \<Rightarrow> R (rw_disk (snd (m w))) | Inr v \<Rightarrow> Q v (rw_disk (snd (m w)))))"

lemma guardedI:
  assumes "\<And>w r w'. P (rw_disk w) \<Longrightarrow> m w = (r, w') \<Longrightarrow> \<exists>new. rw_trace w' = rw_trace w @ new \<and> (\<forall>x \<in> set new. I (snd x))"
    "\<And>w v w'. P (rw_disk w) \<Longrightarrow> m w = (Inr v, w') \<Longrightarrow> Q v (rw_disk w')"
    "\<And>w e w'. P (rw_disk w) \<Longrightarrow> m w = (Inl e, w') \<Longrightarrow> R (rw_disk w')"
  shows "guarded I P m Q R"
  unfolding guarded_def
proof (intro allI impI conjI)
  fix w :: rgw_world
  assume p: "P (rw_disk w)"
  show "\<exists>new. rw_trace (snd (m w)) = rw_trace w @ new \<and> (\<forall>x \<in> set new. I (snd x))"
    using assms(1) [OF p, of "fst (m w)" "snd (m w)"] by simp
  show "case fst (m w) of Inl _ \<Rightarrow> R (rw_disk (snd (m w))) | Inr v \<Rightarrow> Q v (rw_disk (snd (m w)))"
    using assms(2,3) [OF p, of _ "snd (m w)"] by (cases "fst (m w)") (metis prod.collapse sum.case)+
qed

lemma guardedD:
  assumes "guarded I P m Q R" "P (rw_disk w)" "m w = (r, w')"
  shows "\<exists>new. rw_trace w' = rw_trace w @ new \<and> (\<forall>x \<in> set new. I (snd x))" "r = Inr v \<Longrightarrow> Q v (rw_disk w')" "r = Inl e \<Longrightarrow> R (rw_disk w')"
  using assms unfolding guarded_def by (metis fst_conv snd_conv sum.case)+

lemma guarded_conseq:
  assumes "guarded I P m Q R" "\<And>d. P' d \<Longrightarrow> P d" "\<And>v d. Q v d \<Longrightarrow> Q' v d" "\<And>d. R d \<Longrightarrow> R' d"
  shows "guarded I P' m Q' R'"
proof (rule guardedI)
  fix w r w'
  assume "P' (rw_disk w)" "m w = (r, w')"
  then show "\<exists>new. rw_trace w' = rw_trace w @ new \<and> (\<forall>x \<in> set new. I (snd x))" using guardedD(1) [OF assms(1) assms(2)] by blast
next
  fix w v w'
  assume "P' (rw_disk w)" "m w = (Inr v, w')"
  then show "Q' v (rw_disk w')" using guardedD(2) [OF assms(1) assms(2)] assms(3) by blast
next
  fix w e w'
  assume "P' (rw_disk w)" "m w = (Inl e, w')"
  then show "R' (rw_disk w')" using guardedD(3) [OF assms(1) assms(2)] assms(4) by blast
qed

lemma guarded_pre: "guarded I P m Q R \<Longrightarrow> (\<And>d. P' d \<Longrightarrow> P d) \<Longrightarrow> guarded I P' m Q R"
  by (rule guarded_conseq)

lemma guarded_assume: "(\<And>d. P d \<Longrightarrow> b) \<Longrightarrow> (b \<Longrightarrow> guarded I P m Q R) \<Longrightarrow> guarded I P m Q R"
  by (auto simp: guarded_def)

text \<open>A procedure whose precondition fixes a value of the disk can be treated for that value.\<close>

lemma guarded_fix: "(\<And>x. guarded I (\<lambda>d. P d \<and> f d = x) m Q R) \<Longrightarrow> guarded I P m Q R"
  unfolding guarded_def by blast

lemma guarded_return: "(\<And>d. P d \<Longrightarrow> Q v d) \<Longrightarrow> guarded I P (rg_return v) Q R"
  by (rule guardedI) (auto simp: rg_return_def)

lemma guarded_fail: "(\<And>d. P d \<Longrightarrow> R d) \<Longrightarrow> guarded I P (rg_fail e) Q R"
  by (rule guardedI) (auto simp: rg_fail_def)

lemma guarded_bind:
  assumes "guarded I P f M R" "\<And>v. guarded I (M v) (g v) Q R"
  shows "guarded I P (rg_bind f g) Q R"
proof (rule guardedI)
  fix w r w'
  assume p: "P (rw_disk w)" "rg_bind f g w = (r, w')"
  obtain r1 w1 where f: "f w = (r1, w1)" by fastforce
  from guardedD(1) [OF assms(1) p(1) f] obtain n where n: "rw_trace w1 = rw_trace w @ n" "\<forall>x \<in> set n. I (snd x)" by blast
  show "\<exists>new. rw_trace w' = rw_trace w @ new \<and> (\<forall>x \<in> set new. I (snd x))"
  proof (cases r1)
    case (Inl e)
    with p(2) f n show ?thesis by (auto simp: rg_bind_def)
  next
    case (Inr v)
    with p f have "g v w1 = (r, w')" "M v (rw_disk w1)" using guardedD(2) [OF assms(1) p(1) f] by (auto simp: rg_bind_def)
    from guardedD(1) [OF assms(2) this(2,1)] n show ?thesis by fastforce
  qed
next
  fix w v w'
  assume p: "P (rw_disk w)" "rg_bind f g w = (Inr v, w')"
  then obtain u w1 where f: "f w = (Inr u, w1)" "g u w1 = (Inr v, w')" by (auto simp: rg_bind_def split: prod.splits sum.splits)
  from guardedD(2) [OF assms(1) p(1) f(1)] have "M u (rw_disk w1)" by simp
  from guardedD(2) [OF assms(2) this f(2)] show "Q v (rw_disk w')" by simp
next
  fix w e w'
  assume p: "P (rw_disk w)" "rg_bind f g w = (Inl e, w')"
  then consider "f w = (Inl e, w')" | u w1 where "f w = (Inr u, w1)" "g u w1 = (Inl e, w')"
    by (auto simp: rg_bind_def split: prod.splits sum.splits)
  then show "R (rw_disk w')"
  proof cases
    case 1
    from guardedD(3) [OF assms(1) p(1) 1] show ?thesis by simp
  next
    case 2
    from guardedD(2) [OF assms(1) p(1) 2(1)] have "M u (rw_disk w1)" by simp
    from guardedD(3) [OF assms(2) this 2(2)] show ?thesis by simp
  qed
qed

lemma rg_bind_Inr: "rg_bind f g w = (Inr v, w') \<longleftrightarrow> (\<exists>u w1. f w = (Inr u, w1) \<and> g u w1 = (Inr v, w'))"
  by (auto simp: rg_bind_def split: prod.splits sum.splits)

lemma guarded_then: "guarded I P f (\<lambda>_. M) R \<Longrightarrow> guarded I M g Q R \<Longrightarrow> guarded I P (rg_then f g) Q R"
  unfolding rg_then_def by (rule guarded_bind)

lemma guarded_map_error: "guarded I P f Q R \<Longrightarrow> guarded I P (rg_map_error h f) Q R"
proof -
  assume g: "guarded I P f Q R"
  have "snd (rg_map_error h f w) = snd (f w)" "fst (rg_map_error h f w) = (case fst (f w) of Inl e \<Rightarrow> Inl (h e) | Inr v \<Rightarrow> Inr v)" for w
    by (auto simp: rg_map_error_def split: prod.splits sum.splits)
  with g show ?thesis unfolding guarded_def by (auto split: sum.splits)
qed

lemma guarded_try: "guarded I P f (\<lambda>v. Q (Inr v)) R \<Longrightarrow> (\<And>d e. R d \<Longrightarrow> Q (Inl e) d) \<Longrightarrow> guarded I P (rg_try f) Q R'"
proof -
  assume g: "guarded I P f (\<lambda>v. Q (Inr v)) R" "\<And>d e. R d \<Longrightarrow> Q (Inl e) d"
  have "snd (rg_try f w) = snd (f w)" "fst (rg_try f w) = Inr (fst (f w))" for w by (auto simp: rg_try_def split: prod.splits)
  moreover have "Q (fst (f w)) (rw_disk (snd (f w)))" if "P (rw_disk w)" for w
    using g that unfolding guarded_def by (cases "fst (f w)") fastforce+
  ultimately show ?thesis using g(1) unfolding guarded_def by simp
qed

lemma guarded_error: "guarded I P f (\<lambda>_. Q None) R \<Longrightarrow> (\<And>d e. R d \<Longrightarrow> Q (Some e) d) \<Longrightarrow> guarded I P (rg_error f) Q R'"
proof -
  assume g: "guarded I P f (\<lambda>_. Q None) R" "\<And>d e. R d \<Longrightarrow> Q (Some e) d"
  have "snd (rg_error f w) = snd (f w)" "fst (rg_error f w) = Inr (case fst (f w) of Inl e \<Rightarrow> Some e | Inr _ \<Rightarrow> None)" for w
    by (auto simp: rg_error_def split: prod.splits sum.splits)
  with g show ?thesis unfolding guarded_def by (auto split: sum.splits)
qed

lemma guarded_get: "(\<And>d. P d \<Longrightarrow> Q (f d) d) \<Longrightarrow> guarded I P (rg_get f) Q R"
  by (rule guardedI) (auto simp: rg_get_def)

lemma guarded_see: "(\<And>d v. P d \<Longrightarrow> Q v d) \<Longrightarrow> guarded I P (rg_see f) Q R"
  by (rule guardedI) (auto simp: rg_see_def)

lemma guarded_sys:
  assumes "\<And>d. P d \<Longrightarrow> I d \<and> R d" "\<And>d. P d \<Longrightarrow> I (f d) \<and> Q () (f d)"
  shows "guarded I P (sys E what path f) Q R"
  using assms by (intro guardedI) (auto simp: sys_def log_call_def split: option.splits)

lemma guarded_if: "(b \<Longrightarrow> guarded I P m Q R) \<Longrightarrow> (\<not> b \<Longrightarrow> guarded I P n Q R) \<Longrightarrow> guarded I P (if b then m else n) Q R"
  by simp

lemma guarded_option:
  "(o1 = None \<Longrightarrow> guarded I P m Q R) \<Longrightarrow> (\<And>x. o1 = Some x \<Longrightarrow> guarded I P (n x) Q R) \<Longrightarrow>
   guarded I P (case o1 of None \<Rightarrow> m | Some x \<Rightarrow> n x) Q R"
  by (cases o1) auto

lemma guarded_sum:
  "(\<And>x. o1 = Inl x \<Longrightarrow> guarded I P (m x) Q R) \<Longrightarrow> (\<And>x. o1 = Inr x \<Longrightarrow> guarded I P (n x) Q R) \<Longrightarrow>
   guarded I P (case o1 of Inl x \<Rightarrow> m x | Inr x \<Rightarrow> n x) Q R"
  by (cases o1) auto

lemma guarded_pair: "(\<And>a b. p = (a, b) \<Longrightarrow> guarded I P (m a b) Q R) \<Longrightarrow> guarded I P (case p of (a, b) \<Rightarrow> m a b) Q R"
  by (cases p) auto

section \<open>Procedures that only look\<close>

definition looks :: "'a rg \<Rightarrow> bool" where
  "looks m \<longleftrightarrow> (\<forall>D. guarded (\<lambda>d. d = D) (\<lambda>d. d = D) m (\<lambda>_ d. d = D) (\<lambda>d. d = D))"

named_theorems looks_rules "procedures that leave the disk alone"

lemma looks_guarded:
  assumes "looks m" "\<And>d. P d \<Longrightarrow> I d" "\<And>d. P d \<Longrightarrow> R d"
  shows "guarded I P m (\<lambda>_. P) R"
proof (rule guardedI)
  fix w r w'
  assume p: "P (rw_disk w)" "m w = (r, w')"
  from assms(1) have g: "guarded (\<lambda>d. d = rw_disk w) (\<lambda>d. d = rw_disk w) m (\<lambda>_ d. d = rw_disk w) (\<lambda>d. d = rw_disk w)"
    by (simp add: looks_def)
  from guardedD(1) [OF g _ p(2)] p(1) assms(2) show "\<exists>new. rw_trace w' = rw_trace w @ new \<and> (\<forall>x \<in> set new. I (snd x))" by fastforce
next
  fix w v w'
  assume p: "P (rw_disk w)" "m w = (Inr v, w')"
  from assms(1) have g: "guarded (\<lambda>d. d = rw_disk w) (\<lambda>d. d = rw_disk w) m (\<lambda>_ d. d = rw_disk w) (\<lambda>d. d = rw_disk w)"
    by (simp add: looks_def)
  from guardedD(2) [OF g _ p(2)] p(1) show "P (rw_disk w')" by simp
next
  fix w e w'
  assume p: "P (rw_disk w)" "m w = (Inl e, w')"
  from assms(1) have g: "guarded (\<lambda>d. d = rw_disk w) (\<lambda>d. d = rw_disk w) m (\<lambda>_ d. d = rw_disk w) (\<lambda>d. d = rw_disk w)"
    by (simp add: looks_def)
  from guardedD(3) [OF g _ p(2)] p(1) assms(3) show "R (rw_disk w')" by simp
qed

lemma looks_return [looks_rules]: "looks (rg_return v)"
  by (simp add: looks_def guarded_return)

lemma looks_fail [looks_rules]: "looks (rg_fail e)"
  by (simp add: looks_def guarded_fail)

lemma looks_bind [looks_rules]: "looks f \<Longrightarrow> (\<And>v. looks (g v)) \<Longrightarrow> looks (rg_bind f g)"
  unfolding looks_def by (auto intro!: guarded_bind)

lemma looks_then [looks_rules]: "looks f \<Longrightarrow> looks g \<Longrightarrow> looks (rg_then f g)"
  unfolding rg_then_def by (rule looks_bind)

lemma looks_map_error [looks_rules]: "looks f \<Longrightarrow> looks (rg_map_error h f)"
  unfolding looks_def by (auto intro!: guarded_map_error)

lemma looks_try [looks_rules]: "looks f \<Longrightarrow> looks (rg_try f)"
  unfolding looks_def by (auto intro!: guarded_try)

lemma looks_error [looks_rules]: "looks f \<Longrightarrow> looks (rg_error f)"
  unfolding looks_def by (auto intro!: guarded_error)

lemma looks_get [looks_rules]: "looks (rg_get f)"
  by (simp add: looks_def guarded_get)

lemma looks_see [looks_rules]: "looks (rg_see f)"
  by (simp add: looks_def guarded_see)

lemma looks_touch [looks_rules]: "looks (touch E what path)"
  by (simp add: looks_def guarded_sys)

lemma looks_command [looks_rules]: "looks (command E args)"
  unfolding looks_def by (intro allI guardedI) (auto simp: command_def log_call_def split: sum.splits)

lemma looks_connect [looks_rules]: "looks (connect port tls)"
  unfolding looks_def by (intro allI guardedI) (auto simp: connect_def log_call_def)

lemma looks_if [looks_rules]: "looks m \<Longrightarrow> looks n \<Longrightarrow> looks (if b then m else n)"
  by simp

lemma looks_option [looks_rules]: "looks m \<Longrightarrow> (\<And>x. looks (n x)) \<Longrightarrow> looks (case o1 of None \<Rightarrow> m | Some x \<Rightarrow> n x)"
  by (cases o1) auto

lemma looks_sum [looks_rules]: "(\<And>x. looks (m x)) \<Longrightarrow> (\<And>x. looks (n x)) \<Longrightarrow> looks (case o1 of Inl x \<Rightarrow> m x | Inr x \<Rightarrow> n x)"
  by (cases o1) auto

lemma looks_bool [looks_rules]: "looks m \<Longrightarrow> looks n \<Longrightarrow> looks (case b of True \<Rightarrow> m | False \<Rightarrow> n)"
  by (cases b) auto

lemma looks_list [looks_rules]: "looks m \<Longrightarrow> (\<And>x xs. looks (n x xs)) \<Longrightarrow> looks (case l of [] \<Rightarrow> m | x # xs \<Rightarrow> n x xs)"
  by (cases l) auto

lemma looks_pair [looks_rules]: "(\<And>a b. looks (m a b)) \<Longrightarrow> looks (case p of (a, b) \<Rightarrow> m a b)"
  by (cases p) auto

lemma looks_run [looks_rules]: "looks (run_cmd E args)"
  unfolding run_cmd_def by (intro looks_rules)

lemma looks_read [looks_rules]: "looks (read_conf E)" "looks (read_file E p)" "looks (readPendingApply E)" "looks (readRGWConf E)"
  unfolding read_conf_def read_file_def readPendingApply_def readRGWConf_def by (intro looks_rules)+

lemma looks_active [looks_rules]: "looks (checkRGWActive E)" "looks (startRGW E)" "looks (stopRGW E)" "looks (restartRGW E)"
  unfolding checkRGWActive_def startRGW_def stopRGW_def restartRGW_def by (intro looks_rules)+

lemma looks_frontend [looks_rules]: "looks (checkRGWFrontend E spec)"
  unfolding checkRGWFrontend_def check_plain_def check_tls_def by (intro looks_rules)

lemma looks_polls: "looks (ready_polls E spec n)"
  by (induction n) (auto simp: ready_once_def intro!: looks_rules)

lemma looks_ready [looks_rules]: "looks (checkRGWReady E spec)"
  unfolding checkRGWReady_def by (intro looks_rules looks_polls)

lemma looks_keyring [looks_rules]: "looks (prepareRGWKeyring E)"
  unfolding prepareRGWKeyring_def createRGWKeyring_def symlinkRGWKeyring_def Let_def by (intro looks_rules)

lemma looks_config [looks_rules]: "looks (rgwFrontendFromConfig E conf)" "looks (resolveRGWTLSReuse E conf)" "looks (pairOnDisk E c k cp kp)"
  unfolding rgwFrontendFromConfig_def resolveRGWTLSReuse_def pairOnDisk_def by (intro looks_rules)+

lemma looks_inspect [looks_rules]: "looks (inspect_active E)" "looks (reactivate E conf active)" "looks (restore_service E rb)"
  unfolding inspect_active_def reactivate_def restore_service_def by (intro looks_rules)+


section \<open>What the file operations do\<close>

lemma guarded_look: "looks m \<Longrightarrow> (\<And>d. P d \<Longrightarrow> I d \<and> R d) \<Longrightarrow> guarded I P m (\<lambda>_. P) R"
  by (rule looks_guarded) auto

lemma guarded_look_then:
  assumes "looks m" "\<And>d. P d \<Longrightarrow> I d \<and> R d" "guarded I P n Q R"
  shows "guarded I P (rg_then m n) Q R"
  by (rule guarded_then [OF guarded_look [OF assms(1,2)] assms(3)])

lemma guarded_read_conf:
  assumes "\<And>d. P d \<Longrightarrow> I d \<and> R d"
  shows "guarded I P (read_conf E) (\<lambda>c d. P d \<and> c = rd_conf d) R"
  unfolding read_conf_def by (rule guarded_look_then [OF looks_touch assms]) (auto intro: guarded_get)

lemma guarded_read_file:
  assumes "\<And>d. P d \<Longrightarrow> I d \<and> R d"
  shows "guarded I P (read_file E p) (\<lambda>s d. P d \<and> content_of d p = Some s) R"
proof -
  have g: "guarded I P (rg_get (\<lambda>d. content_of d p)) (\<lambda>c d. P d \<and> c = content_of d p) R" by (rule guarded_get) simp
  have "guarded I (\<lambda>d. P d \<and> c = content_of d p) (case c of Some s \<Rightarrow> rg_return s | None \<Rightarrow> rg_fail (err_new (''open '' @ p @ '': no such file or directory'')))
      (\<lambda>s d. P d \<and> content_of d p = Some s) R" for c
    using assms by (cases c) (auto intro!: guarded_return guarded_fail)
  then show ?thesis unfolding read_file_def by (intro guarded_look_then [OF looks_touch assms] guarded_bind [OF g])
qed

lemma guarded_readRGWConf:
  assumes "\<And>d. P d \<Longrightarrow> I d \<and> R d"
  shows "guarded I P (readRGWConf E) (\<lambda>c d. P d \<and> rd_conf d = Some c) R"
proof -
  have "guarded I (\<lambda>d. P d \<and> c = rd_conf d) (case c of Some s \<Rightarrow> rg_return s
      | None \<Rightarrow> rg_fail (rgw_failed ''cannot read RGW configuration'' (err_new (''open '' @ rgwConfPath E @ '': no such file or directory''))))
      (\<lambda>s d. P d \<and> rd_conf d = Some s) R" for c
    using assms by (cases c) (auto intro!: guarded_return guarded_fail)
  then show ?thesis unfolding readRGWConf_def by (intro guarded_bind [OF guarded_map_error [OF guarded_read_conf [OF assms]]])
qed

text \<open>What the journal says.\<close>

definition journal :: "rgw_env \<Rightarrow> rgw_disk \<Rightarrow> (string \<times> bool) option" where
  "journal E d = (case rd_pending d of None \<Rightarrow> None | Some doc \<Rightarrow> dec_pending E doc)"

lemma guarded_readPending:
  assumes "\<And>d. P d \<Longrightarrow> I d \<and> R d"
  shows "guarded I P (readPendingApply E) (\<lambda>m d. P d \<and> m = journal E d \<and> (m = None \<longrightarrow> rd_pending d = None)) R"
proof -
  have g: "guarded I P (rg_get rd_pending) (\<lambda>p d. P d \<and> p = rd_pending d) R" by (rule guarded_get) simp
  have "guarded I (\<lambda>d. P d \<and> p = rd_pending d) (case p of None \<Rightarrow> rg_return None | Some doc \<Rightarrow>
      (case dec_pending E doc of None \<Rightarrow> rg_fail (err_new ''invalid pending RGW apply journal'') | Some m \<Rightarrow> rg_return (Some m)))
      (\<lambda>m d. P d \<and> m = journal E d \<and> (m = None \<longrightarrow> rd_pending d = None)) R" for p
    using assms by (intro guarded_option) (auto intro!: guarded_return guarded_fail simp: journal_def split: option.splits)
  then show ?thesis unfolding readPendingApply_def by (intro guarded_look_then [OF looks_touch assms] guarded_bind [OF g])
qed

lemma guarded_try_read:
  assumes "\<And>d. P d \<Longrightarrow> I d"
  shows "guarded I P (rg_try (read_file E p)) (\<lambda>r d. P d \<and> (\<forall>s. r = Inr s \<longrightarrow> content_of d p = Some s)) R"
proof -
  have a: "\<And>d. P d \<Longrightarrow> I d \<and> P d" using assms by blast
  show ?thesis by (rule guarded_try [OF guarded_conseq [OF guarded_read_file [OF a]]]) auto
qed

lemma guarded_pairOnDisk:
  assumes "\<And>d. P d \<Longrightarrow> I d"
  shows "guarded I P (pairOnDisk E cp kp c k) (\<lambda>b d. P d \<and> (b \<longrightarrow> content_of d cp = Some c \<and> content_of d kp = Some k)) R"
proof -
  have "guarded I (\<lambda>d. P d \<and> (\<forall>s. r = Inr s \<longrightarrow> content_of d cp = Some s)) (rg_try (read_file E kp))
      (\<lambda>q d. (P d \<and> (\<forall>s. r = Inr s \<longrightarrow> content_of d cp = Some s)) \<and> (\<forall>s. q = Inr s \<longrightarrow> content_of d kp = Some s)) R" for r
    using assms by (intro guarded_try_read) blast
  then show ?thesis unfolding pairOnDisk_def by (intro guarded_bind [OF guarded_try_read [OF assms]] guarded_bind) (auto intro!: guarded_return)
qed

lemma guarded_write:
  assumes p: "\<And>d. P d \<Longrightarrow> I d \<and> R d" and s: "\<And>d. P d \<Longrightarrow> Q (store d)" and q: "\<And>d. Q d \<Longrightarrow> I d \<and> R d"
  shows "guarded I P (writeRGWFile E path store) (\<lambda>_. Q) R"
proof -
  let ?R = "\<lambda>d. I d \<and> R d"
  have t: "guarded I P (rg_error (rg_then (touch E ''write'' path) (rg_then (touch E ''chmod'' path) (touch E ''sync'' path)))) (\<lambda>_. P) ?R"
    "guarded I P (rg_error (touch E ''close'' path)) (\<lambda>_. P) ?R"
    using p by (intro guarded_look looks_rules; auto)+
  have r: "guarded I P (rg_then (sys E ''rename'' path store) (rg_then (touch E ''opendir'' path) (touch E ''syncdir'' path))) (\<lambda>_. Q) ?R"
    using p s q by (intro guarded_then [where M = Q] guarded_sys) blast+
  have body: "guarded I P (case err of Some e \<Rightarrow> rg_fail e | None \<Rightarrow> (case c of Some e \<Rightarrow> rg_fail e
      | None \<Rightarrow> rg_then (sys E ''rename'' path store) (rg_then (touch E ''opendir'' path) (touch E ''syncdir'' path)))) (\<lambda>_. Q) ?R" for err c
    using p r by (intro guarded_option) (auto intro!: guarded_fail)
  let ?M = "\<lambda>r :: go_error + unit. case r of Inl _ \<Rightarrow> ?R | Inr _ \<Rightarrow> Q"
  have after: "guarded I (?M r) (rg_bind (rg_error (touch E ''remove'' (path @ ''.tmp''))) (\<lambda>_. case r of Inl e \<Rightarrow> rg_fail e | Inr _ \<Rightarrow> rg_return ())) (\<lambda>_. Q) R" for r
    using q by (intro guarded_bind [OF guarded_look [where P = "?M r"]] looks_rules; cases r) (auto intro!: guarded_fail guarded_return)
  show ?thesis unfolding writeRGWFile_def
    by (rule guarded_look_then [OF looks_touch p guarded_bind [where M = ?M, OF guarded_try [where R = ?R] after]])
      (use guarded_bind [OF t(1) guarded_bind [OF t(2) body]] in simp_all)
qed


section \<open>The invariant\<close>

text \<open>What is assumed of the machine: clean paths, a hex digest that tells valid pairs apart, and plain
  text in what other parts of the program write to the configuration.\<close>

definition rgw_machine :: "rgw_env \<Rightarrow> bool" where
  "rgw_machine E \<longleftrightarrow>
     (\<exists>cs. list_all plain_name cs \<and> re_SSLFilesPath E = abs_path cs) \<and> solid (re_SSLFilesPath E) \<and> one_line (re_RunPath E) \<and>
     (\<forall>x. plain_name (re_hash E x) \<and> solid (re_hash E x)) \<and>
     (\<forall>c k c' k'. x509_key_pair (re_tls E) c k \<longrightarrow> x509_key_pair (re_tls E) c' k' \<longrightarrow> re_hash E (c @ k) = re_hash E (c' @ k') \<longrightarrow> c = c' \<and> k = k') \<and>
     (\<forall>w e. re_edit E w = Some e \<longrightarrow> plain_edit e)"

abbreviation gen :: "rgw_env \<Rightarrow> string \<Rightarrow> string" where
  "gen E n \<equiv> rgwTLSRoot E @ [slash] @ n"

text \<open>A pair on disk that the gateway can load: in the generation its digest names, or outside the
  directory of generations.\<close>

definition sound_pair :: "rgw_env \<Rightarrow> rgw_disk \<Rightarrow> string \<Rightarrow> string \<Rightarrow> bool" where
  "sound_pair E d cp kp \<longleftrightarrow>
     (\<exists>cert key. content_of d cp = Some cert \<and> content_of d kp = Some key \<and> x509_key_pair (re_tls E) cert key \<and>
       ((cp = crt_in (gen E (re_hash E (cert @ key))) \<and> kp = key_in (gen E (re_hash E (cert @ key)))) \<or>
        (\<not> under (rgwTLSRoot E) cp \<and> \<not> under (rgwTLSRoot E) kp)))"

definition intact :: "rgw_env \<Rightarrow> rgw_disk \<Rightarrow> string \<Rightarrow> bool" where
  "intact E d conf \<longleftrightarrow>
     (case rgwConfTLSPaths (re_text E) conf of (cp, kp) \<Rightarrow> (cp = [] \<and> kp = []) \<or> sound_pair E d cp kp)"

abbreviation line_of :: "rgw_env \<Rightarrow> rgw_disk \<Rightarrow> string" where
  "line_of E d \<equiv> rgwFrontendLine (re_text E) (conf_text (rd_conf d))"

definition good :: "rgw_env \<Rightarrow> rgw_disk \<Rightarrow> bool" where
  "good E d \<longleftrightarrow>
     all_ascii (conf_text (rd_conf d)) \<and> intact E d (conf_text (rd_conf d)) \<and>
     (\<forall>prev active. journal E d = Some (prev, active) \<longrightarrow> all_ascii prev \<and> intact E d prev)"

text \<open>Write-ahead: the frontend line is still the old one, or the journal would restore it.\<close>

definition ahead :: "rgw_env \<Rightarrow> string \<Rightarrow> rgw_disk \<Rightarrow> bool" where
  "ahead E l d \<longleftrightarrow> line_of E d = l \<or> (\<exists>prev active. journal E d = Some (prev, active) \<and> rgwFrontendLine (re_text E) prev = l)"

definition rgw_inv :: "rgw_env \<Rightarrow> string option \<Rightarrow> rgw_disk \<Rightarrow> bool" where
  "rgw_inv E L d \<longleftrightarrow> good E d \<and> (\<forall>l. L = Some l \<longrightarrow> ahead E l d)"

lemma content_simps [simp]:
  "content_of (d\<lparr>rd_conf := x\<rparr>) p = content_of d p"
  "content_of (d\<lparr>rd_pending := y\<rparr>) p = content_of d p"
  "content_of (d\<lparr>rd_dirs := z\<rparr>) p = content_of d p"
  "content_of (put_conf c d) p = content_of d p"
  "content_of (put_pending j d) p = content_of d p"
  "content_of (put_file q s d) p = (if p = q then Some s else content_of d p)"
  "content_of (drop_file q d) p = (if p = q then None else content_of d p)"
  by (simp_all add: content_of_def put_conf_def put_pending_def put_file_def drop_file_def update_conv delete_conv)

lemma disk_simps [simp]:
  "rd_conf (put_conf c d) = Some c" "rd_pending (put_conf c d) = rd_pending d"
  "rd_conf (put_pending j d) = rd_conf d" "rd_pending (put_pending j d) = Some (Some j)"
  "rd_conf (put_file p c d) = rd_conf d" "rd_pending (put_file p c d) = rd_pending d"
  "rd_conf (drop_file p d) = rd_conf d" "rd_pending (drop_file p d) = rd_pending d"
  by (simp_all add: put_conf_def put_pending_def put_file_def drop_file_def)

lemma journal_cong: "rd_pending d' = rd_pending d \<Longrightarrow> journal E d' = journal E d"
  by (simp add: journal_def)

lemma intact_files: "(\<And>p. content_of d' p = content_of d p) \<Longrightarrow> intact E d' conf = intact E d conf"
  by (simp add: intact_def sound_pair_def)

lemma intact_line: "rgwFrontendLine (re_text E) c = rgwFrontendLine (re_text E) c' \<Longrightarrow> intact E d c = intact E d c'"
  by (simp add: intact_def rgwConfTLSPaths_def)

lemma no_line: "rgwFrontendLine T [] = []"
  by (simp add: line_empty_iff is_frontend_def has_prefix_def trim_space_def)

lemma intact_none: "rgwFrontendLine (re_text E) c = [] \<Longrightarrow> intact E d c"
  by (simp add: intact_def rgwConfTLSPaths_def Fields_def space_parts.simps)

lemma inv_journal: "rgw_inv E L d \<Longrightarrow> journal E d = Some (prev, active) \<Longrightarrow> all_ascii prev \<and> intact E d prev"
  by (simp add: rgw_inv_def good_def)

lemma inv_current: "rgw_inv E L d \<Longrightarrow> all_ascii (conf_text (rd_conf d)) \<and> intact E d (conf_text (rd_conf d))"
  by (simp add: rgw_inv_def good_def)

text \<open>A change of the configuration that names an intact pair; the journal is untouched.\<close>

lemma good_conf:
  assumes "good E d" "all_ascii (conf_text c)" "intact E d (conf_text c)"
  shows "good E (d\<lparr>rd_conf := c\<rparr>)"
  using assms intact_files [of "d\<lparr>rd_conf := c\<rparr>" d] journal_cong [of "d\<lparr>rd_conf := c\<rparr>" d] by (simp add: good_def)

lemma good_no_journal:
  assumes "good E d"
  shows "good E (d\<lparr>rd_pending := None\<rparr>)"
  using assms intact_files [of "d\<lparr>rd_pending := None\<rparr>" d] by (simp add: good_def journal_def)

lemma good_dirs: "good E (d\<lparr>rd_dirs := x\<rparr>) \<longleftrightarrow> good E d"
  using intact_files [of "d\<lparr>rd_dirs := x\<rparr>" d] by (simp add: good_def journal_def)

lemma dec_pending_marker: "all_ascii c \<Longrightarrow> dec_pending E (Some (pending_json E c a)) = Some (c, a)"
  by (simp add: dec_pending_def pending_json_def dec_struct_def pending_field_def json_text_def dec_string_ptr_def dec_bool_ptr_def
      equal_fold_def is_ascii_byte_def ascii_lower_def)

lemma journal_marker: "all_ascii c \<Longrightarrow> journal E (put_pending (pending_json E c a) d) = Some (c, a)"
  by (simp add: journal_def dec_pending_marker)

lemma good_marker:
  assumes "good E d" "all_ascii c" "intact E d c"
  shows "good E (put_pending (pending_json E c a) d)"
  using assms intact_files [of "put_pending (pending_json E c a) d" d] by (simp add: good_def journal_marker)


section \<open>Generations\<close>

lemma slash_cut: "slash \<notin> set n \<Longrightarrow> slash \<notin> set m \<Longrightarrow> n @ slash # x = m @ slash # y \<Longrightarrow> n = m"
proof (induction n arbitrary: m)
  case Nil
  then show ?case by (cases m) auto
next
  case (Cons c n)
  then show ?case by (cases m) auto
qed

lemma gen_apart:
  assumes "slash \<notin> set n" "slash \<notin> set m" "under (gen E m) (gen E n @ slash # x)"
  shows "n = m"
proof -
  from assms(3) consider "gen E n @ slash # x = gen E m" | t where "gen E n @ slash # x = gen E m @ slash # t"
    by (auto simp: under_def has_prefix_iff)
  then show ?thesis
  proof cases
    case 1
    then have "n @ slash # x = m" by simp
    with assms(2) show ?thesis by auto
  next
    case 2
    then have "n @ slash # x = m @ slash # t" by simp
    then show ?thesis using slash_cut assms(1,2) by blast
  qed
qed

lemma gen_under: "under (gen E m) p \<Longrightarrow> under (rgwTLSRoot E) p"
  by (auto simp: under_def has_prefix_iff)

lemma crt_key_neq: "crt_in a \<noteq> key_in b"
proof
  assume "crt_in a = key_in b"
  then have "last (crt_in a) = last (key_in b)" by simp
  then show False by (simp add: crt_in_def key_in_def)
qed

lemma crt_inj: "crt_in a = crt_in b \<longleftrightarrow> a = b" "key_in a = key_in b \<longleftrightarrow> a = b"
  by (simp_all add: crt_in_def key_in_def)

lemma pair_under: "under (rgwTLSRoot E) (crt_in (gen E n))" "under (rgwTLSRoot E) (key_in (gen E n))"
  by (auto simp: under_def crt_in_def key_in_def has_prefix_iff)

lemma hash_plain: "rgw_machine E \<Longrightarrow> plain_name (re_hash E x)"
  by (auto simp: rgw_machine_def)

lemma dir_of_gen:
  assumes "rgw_machine E" "plain_name n"
  shows "filepath_Dir (crt_in (gen E n)) = gen E n"
proof -
  from assms(1) obtain cs where cs: "list_all plain_name cs" "re_SSLFilesPath E = abs_path cs" by (auto simp: rgw_machine_def)
  have p: "gen E n = abs_path (cs @ [''rgw-tls'', n])" by (simp add: rgwTLSRoot_def cs(2))
  have "list_all plain_name (cs @ [''rgw-tls'', n])" using cs(1) assms(2) by (simp add: plain_name_def)
  from dir_of_path [OF this, of "''server.crt''"] show ?thesis unfolding p by (simp add: crt_in_def plain_name_def)
qed

text \<open>Removing a file that the pair of a configuration does not use.\<close>

lemma intact_drop:
  assumes "intact E d conf" "p \<noteq> fst (rgwConfTLSPaths (re_text E) conf)" "p \<noteq> snd (rgwConfTLSPaths (re_text E) conf)"
  shows "intact E (drop_file p d) conf"
  using assms by (auto simp: intact_def sound_pair_def split: prod.splits)

text \<open>The directory of a sound pair is the only generation it uses.\<close>

lemma pair_apart:
  assumes "rgw_machine E" "intact E d conf" "rgwConfTLSPaths (re_text E) conf = (cp, kp)" "slash \<notin> set m"
    "cp \<noteq> [] \<Longrightarrow> filepath_Dir cp \<noteq> gen E m" "under (gen E m) p"
  shows "p \<noteq> cp \<and> p \<noteq> kp"
proof -
  from assms(2,3) consider "cp = []" "kp = []" | "sound_pair E d cp kp" by (auto simp: intact_def)
  then show ?thesis
  proof cases
    case 1
    then show ?thesis using assms(6) by (auto simp: under_def has_prefix_def)
  next
    case 2
    then obtain h where "(plain_name h \<and> cp = crt_in (gen E h) \<and> kp = key_in (gen E h)) \<or> (\<not> under (rgwTLSRoot E) cp \<and> \<not> under (rgwTLSRoot E) kp)"
      using hash_plain [OF assms(1)] unfolding sound_pair_def by blast
    then show ?thesis
    proof
      assume h: "plain_name h \<and> cp = crt_in (gen E h) \<and> kp = key_in (gen E h)"
      then have "cp \<noteq> []" by (simp add: crt_in_def)
      with assms(5) h dir_of_gen [OF assms(1)] have "h \<noteq> m" by auto
      with h assms(4,6) show ?thesis using gen_apart [of h m E "''server.crt''"] gen_apart [of h m E "''server.key''"]
        by (auto simp: crt_in_def key_in_def plain_name_def)
    next
      assume "\<not> under (rgwTLSRoot E) cp \<and> \<not> under (rgwTLSRoot E) kp"
      with gen_under [OF assms(6)] show ?thesis by auto
    qed
  qed
qed

text \<open>Writing the pair of a digest into its directory keeps every sound pair.\<close>

lemma intact_stage:
  assumes "rgw_machine E" "intact E d conf" "x509_key_pair (re_tls E) cert key" "g = gen E (re_hash E (cert @ key))"
  shows "intact E (put_file (crt_in g) cert d) conf \<and> intact E (put_file (key_in g) key d) conf"
proof -
  obtain cp kp where paths: "rgwConfTLSPaths (re_text E) conf = (cp, kp)" by fastforce
  have "sound_pair E (put_file (crt_in g) cert d) cp kp \<and> sound_pair E (put_file (key_in g) key d) cp kp" if s: "sound_pair E d cp kp"
  proof -
    from s obtain c k where ck: "content_of d cp = Some c" "content_of d kp = Some k" "x509_key_pair (re_tls E) c k"
      "(cp = crt_in (gen E (re_hash E (c @ k))) \<and> kp = key_in (gen E (re_hash E (c @ k)))) \<or> (\<not> under (rgwTLSRoot E) cp \<and> \<not> under (rgwTLSRoot E) kp)"
      by (auto simp: sound_pair_def)
    have same: "cp = crt_in g \<longrightarrow> c = cert \<and> k = key" "kp = key_in g \<longrightarrow> c = cert \<and> k = key"
      using assms(1,3) ck(3,4) pair_under [of E "re_hash E (cert @ key)"]
      unfolding assms(4) rgw_machine_def crt_inj by (auto simp: crt_inj)
    have "cp \<noteq> key_in g" "kp \<noteq> crt_in g"
      using ck(4) pair_under [of E "re_hash E (cert @ key)"] crt_key_neq unfolding assms(4) by metis+
    with ck same show ?thesis unfolding sound_pair_def by auto
  qed
  with assms(2) paths show ?thesis by (auto simp: intact_def)
qed

lemma good_stage:
  assumes "rgw_machine E" "good E d" "x509_key_pair (re_tls E) cert key" "g = gen E (re_hash E (cert @ key))"
  shows "good E (put_file (crt_in g) cert d) \<and> good E (put_file (key_in g) key d)"
  using assms intact_stage [OF assms(1) _ assms(3,4)] by (simp add: good_def journal_def)


section \<open>Edits and cleaning\<close>

definition edit_conf :: "rgw_env \<Rightarrow> rgw_edit \<Rightarrow> rgw_disk \<Rightarrow> rgw_disk" where
  "edit_conf E e d = d\<lparr>rd_conf := map_option (edited (run_edit (re_text E) e)) (rd_conf d)\<rparr>"

lemma edit_pending [simp]: "rd_pending (edit_conf E e d) = rd_pending d"
  by (simp add: edit_conf_def)

lemma edited_safe: "plain_edit e \<Longrightarrow> edited (run_edit T e) = edited (safe_edit T (Some e))"
  by (simp add: edited_def safe_edit_def fun_eq_iff)

lemma edit_facts:
  assumes "plain_edit e" "good E d"
  shows "line_of E (edit_conf E e d) = line_of E d" "good E (edit_conf E e d)" "rd_pending (edit_conf E e d) = rd_pending d"
    "content_of (edit_conf E e d) p = content_of d p"
proof -
  have a: "all_ascii (conf_text (rd_conf d))" "intact E d (conf_text (rd_conf d))" using assms(2) by (auto simp: good_def)
  show l: "line_of E (edit_conf E e d) = line_of E d"
    using a(1) keeper.edited_line by (cases "rd_conf d") (simp_all add: edit_conf_def edited_safe [OF assms(1)])
  have "all_ascii (conf_text (rd_conf (edit_conf E e d)))"
    using a(1) keeper.edited_ascii by (cases "rd_conf d") (simp_all add: edit_conf_def edited_safe [OF assms(1)])
  moreover have "intact E d (conf_text (rd_conf (edit_conf E e d)))" using a(2) intact_line [OF l] by simp
  ultimately show "good E (edit_conf E e d)" using good_conf [OF assms(2)] by (simp add: edit_conf_def)
qed (simp_all add: edit_conf_def)

lemma inv_edit:
  assumes "plain_edit e" "rgw_inv E L d"
  shows "rgw_inv E L (edit_conf E e d)"
proof -
  have g: "good E d" using assms(2) by (simp add: rgw_inv_def)
  show ?thesis using assms(2) edit_facts(1,2,3) [OF assms(1) g] by (simp add: rgw_inv_def ahead_def journal_def)
qed

lemma guarded_meanwhile:
  assumes "rgw_machine E" "\<And>d. P d \<Longrightarrow> I d" "\<And>d e. P d \<Longrightarrow> plain_edit e \<Longrightarrow> P (edit_conf E e d)"
  shows "guarded I P (meanwhile E) (\<lambda>_. P) R"
proof -
  have "P (edit_conf E e (rw_disk w))" if "P (rw_disk w)" "re_edit E w = Some e" for e w
    using assms(1,3) that by (auto simp: rgw_machine_def)
  then show ?thesis using assms(2)
    by (intro guardedI) (auto simp: meanwhile_def log_call_def edit_conf_def split: option.splits)
qed

text \<open>A disk on which nothing is pending.\<close>

definition settled :: "rgw_env \<Rightarrow> string option \<Rightarrow> string \<Rightarrow> rgw_disk \<Rightarrow> bool" where
  "settled E L l d \<longleftrightarrow> rgw_inv E L d \<and> rd_pending d = None \<and> line_of E d = l"

lemma settled_inv: "settled E L l d \<Longrightarrow> rgw_inv E L d"
  by (simp add: settled_def)

lemma settled_edit: "settled E L l d \<Longrightarrow> plain_edit e \<Longrightarrow> settled E L l (edit_conf E e d)"
  using inv_edit [of e E L d] edit_facts(1,3) [of e E d] by (auto simp: settled_def rgw_inv_def)

lemma settled_drop:
  assumes "settled E L l d" "p \<noteq> fst (rgwConfTLSPaths (re_text E) (conf_text (rd_conf d)))" "p \<noteq> snd (rgwConfTLSPaths (re_text E) (conf_text (rd_conf d)))"
  shows "settled E L l (drop_file p d)"
  using assms by (auto simp: settled_def rgw_inv_def good_def ahead_def journal_def intro!: intact_drop)

lemma settled_dirs: "settled E L l (d\<lparr>rd_dirs := x\<rparr>) \<longleftrightarrow> settled E L l d"
  by (simp add: settled_def rgw_inv_def good_dirs ahead_def journal_def)

lemma guarded_remove_each:
  assumes "\<And>d. P d \<Longrightarrow> I d" "\<And>p d. p \<in> set ps \<Longrightarrow> P d \<Longrightarrow> P (drop_file p d)"
  shows "guarded I P (remove_each E ps) (\<lambda>_. P) R"
  using assms(2)
proof (induction ps)
  case Nil
  then show ?case by (auto intro!: guarded_return)
next
  case (Cons p ps)
  have "guarded I P (remove_file E p) (\<lambda>_. P) P" unfolding remove_file_def
    using assms(1) Cons.prems [of p] by (intro guarded_sys) auto
  then have r: "guarded I P (rg_error (remove_file E p)) (\<lambda>_. P) R" by (rule guarded_error)
  have "guarded I P (remove_each E ps) (\<lambda>_. P) R" using Cons by simp
  then show ?case by (auto intro!: guarded_bind [OF r] guarded_bind [of I P "remove_each E ps"] guarded_return)
qed

lemma guarded_RemoveAll:
  assumes "\<And>d. P d \<Longrightarrow> I d \<and> R d" "\<And>p d. under dir p \<Longrightarrow> P d \<Longrightarrow> P (drop_file p d)" "\<And>d x. P d \<Longrightarrow> P (d\<lparr>rd_dirs := x\<rparr>)"
  shows "guarded I P (os_RemoveAll E dir) (\<lambda>_. P) R"
proof -
  have g: "guarded I P (rg_get (\<lambda>d. filter (under dir) (map fst (rd_files d)))) (\<lambda>ps d. P d \<and> (\<forall>p \<in> set ps. under dir p)) R"
    by (rule guarded_get) simp
  have "guarded I (\<lambda>d. P d \<and> (\<forall>p \<in> set ps. under dir p)) (remove_each E ps) (\<lambda>_. P) R" for ps
  proof (rule guarded_assume [where b = "\<forall>p \<in> set ps. under dir p"])
    assume u: "\<forall>p \<in> set ps. under dir p"
    have "guarded I P (remove_each E ps) (\<lambda>_. P) R"
      using assms(1,2) u by (intro guarded_remove_each) auto
    then show "guarded I (\<lambda>d. P d \<and> (\<forall>p \<in> set ps. under dir p)) (remove_each E ps) (\<lambda>_. P) R" by (rule guarded_pre) simp
  qed simp
  moreover have "guarded I P (case e of Some x \<Rightarrow> rg_fail x | None \<Rightarrow> sys E ''rmdir'' dir (\<lambda>d. d\<lparr>rd_dirs := filter (\<lambda>p. \<not> under dir p) (rd_dirs d)\<rparr>)) (\<lambda>_. P) R" for e
    using assms(1,3) by (intro guarded_option guarded_sys guarded_fail) auto
  ultimately show ?thesis unfolding os_RemoveAll_def by (intro guarded_bind [OF g] guarded_bind)
qed

lemma entries_plain: "n \<in> set (entries dir d) \<Longrightarrow> slash \<notin> set n"
  by (auto simp: entries_def dest: set_takeWhileD)

lemma guarded_prune_each:
  assumes "rgw_machine E" "\<forall>n \<in> set ns. slash \<notin> set n" "rgwConfTLSPaths (re_text E) (conf_text cf) = (cp, kp)"
  shows "guarded (rgw_inv E L) (\<lambda>d. settled E L l d \<and> rd_conf d = cf) (prune_each E (filepath_Dir cp) ns) (\<lambda>_ d. settled E L l d \<and> rd_conf d = cf) R"
  using assms(2)
proof (induction ns)
  case Nil
  then show ?case by (auto intro!: guarded_return)
next
  case (Cons n ns)
  let ?P = "\<lambda>d. settled E L l d \<and> rd_conf d = cf"
  have d: "?P (drop_file p d)" if "filepath_Dir cp \<noteq> gen E n" "under (gen E n) p" "?P d" for p d
  proof -
    from that have i: "intact E d (conf_text cf)" by (auto simp: settled_def rgw_inv_def good_def)
    from pair_apart [OF assms(1) i assms(3) _ _ that(2)] that Cons.prems have "p \<noteq> cp \<and> p \<noteq> kp" by simp
    with that assms(3) show ?thesis using settled_drop by fastforce
  qed
  have "guarded (rgw_inv E L) ?P (os_RemoveAll E (gen E n)) (\<lambda>_. ?P) ?P" if "filepath_Dir cp \<noteq> gen E n"
    using d [OF that] by (intro guarded_RemoveAll) (auto simp: settled_dirs intro: settled_inv)
  then have "filepath_Dir cp \<noteq> gen E n \<Longrightarrow> guarded (rgw_inv E L) ?P (rg_error (os_RemoveAll E (gen E n))) (\<lambda>_. ?P) R"
    by (rule guarded_error)
  with Cons show ?case by (auto simp: Let_def intro!: guarded_if intro: guarded_bind)
qed


lemma guarded_legacy:
  assumes "rgwConfTLSPaths (re_text E) (conf_text cf) = (cp, kp)"
  shows "guarded (rgw_inv E L) (\<lambda>d. settled E L l d \<and> rd_conf d = cf) (removeLegacyRGWTLSFiles E cp kp) (\<lambda>_. settled E L l) R"
proof -
  let ?P = "\<lambda>d. settled E L l d \<and> rd_conf d = cf"
  have "guarded (rgw_inv E L) ?P (remove_each E (filter (\<lambda>p. p \<noteq> cp \<and> p \<noteq> kp) ps)) (\<lambda>_. ?P) R" for ps
  proof (rule guarded_remove_each)
    fix p d
    assume "p \<in> set (filter (\<lambda>p. p \<noteq> cp \<and> p \<noteq> kp) ps)" "?P d"
    then show "?P (drop_file p d)" using assms settled_drop [of E L l d p] by simp
  qed (auto dest: settled_inv)
  then show ?thesis unfolding removeLegacyRGWTLSFiles_def
    by (rule guarded_bind [where M = "\<lambda>_. ?P"]) (rule guarded_return, simp)
qed

lemma guarded_prune:
  assumes "rgw_machine E"
  shows "guarded (rgw_inv E L) (settled E L l) (pruneRGWTLSGenerations E) (\<lambda>_. settled E L l) R"
proof -
  let ?S = "settled E L l"
  have m: "guarded (rgw_inv E L) ?S (meanwhile E) (\<lambda>_. ?S) R"
    by (rule guarded_meanwhile [OF assms]) (auto intro: settled_inv settled_edit)
  have c: "guarded (rgw_inv E L) ?S (rg_try (read_conf E)) (\<lambda>r d. ?S d \<and> (\<forall>c. r = Inr c \<longrightarrow> rd_conf d = c)) R"
    by (rule guarded_try [OF guarded_conseq [OF guarded_read_conf [of ?S _ ?S]]]) (auto intro: settled_inv)
  have body: "guarded (rgw_inv E L) (\<lambda>d. ?S d \<and> rd_conf d = cf)
      (rg_bind (rg_error (touch E ''readdir'' (rgwTLSRoot E))) (\<lambda>e. case e of Some _ \<Rightarrow> rg_return ()
        | None \<Rightarrow> rg_bind (rg_get (entries (rgwTLSRoot E))) (\<lambda>ns. rg_then (prune_each E (filepath_Dir cp) ns) (removeLegacyRGWTLSFiles E cp kp)))) (\<lambda>_. ?S) R"
    if paths: "rgwConfTLSPaths (re_text E) (conf_text cf) = (cp, kp)" for cf cp kp
  proof -
    let ?P = "\<lambda>d. ?S d \<and> rd_conf d = cf"
    have t: "guarded (rgw_inv E L) ?P (rg_error (touch E ''readdir'' (rgwTLSRoot E))) (\<lambda>_. ?P) R"
      by (rule guarded_error [OF guarded_look [OF looks_touch, of ?P _ ?P]]) (auto intro: settled_inv)
    have g: "guarded (rgw_inv E L) ?P (rg_get (entries (rgwTLSRoot E))) (\<lambda>ns d. ?P d \<and> (\<forall>n \<in> set ns. slash \<notin> set n)) R"
      by (rule guarded_get) (auto dest: entries_plain)
    have "guarded (rgw_inv E L) (\<lambda>d. ?P d \<and> (\<forall>n \<in> set ns. slash \<notin> set n)) (rg_then (prune_each E (filepath_Dir cp) ns) (removeLegacyRGWTLSFiles E cp kp)) (\<lambda>_. ?S) R" for ns
      by (rule guarded_assume [where b = "\<forall>n \<in> set ns. slash \<notin> set n"], blast)
        (rule guarded_pre [OF guarded_then [OF guarded_prune_each [OF assms _ paths] guarded_legacy [OF paths]]], auto)
    then show ?thesis by (intro guarded_bind [OF t] guarded_option guarded_bind [OF g]) (auto intro!: guarded_return)
  qed
  have "guarded (rgw_inv E L) (\<lambda>d. ?S d \<and> (\<forall>c. r = Inr c \<longrightarrow> rd_conf d = c)) (case r of Inl _ \<Rightarrow> rg_return ()
      | Inr conf \<Rightarrow> (case rgwConfTLSPaths (re_text E) (conf_text conf) of (cp, kp) \<Rightarrow>
        rg_bind (rg_error (touch E ''readdir'' (rgwTLSRoot E))) (\<lambda>e. case e of Some _ \<Rightarrow> rg_return ()
        | None \<Rightarrow> rg_bind (rg_get (entries (rgwTLSRoot E))) (\<lambda>ns. rg_then (prune_each E (filepath_Dir cp) ns) (removeLegacyRGWTLSFiles E cp kp))))) (\<lambda>_. ?S) R" for r
  proof (rule guarded_sum)
    fix x
    assume "r = Inr x"
    then show "guarded (rgw_inv E L) (\<lambda>d. ?S d \<and> (\<forall>c. r = Inr c \<longrightarrow> rd_conf d = c)) (case rgwConfTLSPaths (re_text E) (conf_text x) of (cp, kp) \<Rightarrow>
        rg_bind (rg_error (touch E ''readdir'' (rgwTLSRoot E))) (\<lambda>e. case e of Some _ \<Rightarrow> rg_return ()
        | None \<Rightarrow> rg_bind (rg_get (entries (rgwTLSRoot E))) (\<lambda>ns. rg_then (prune_each E (filepath_Dir cp) ns) (removeLegacyRGWTLSFiles E cp kp)))) (\<lambda>_. ?S) R"
      by (intro guarded_pair guarded_pre [OF body]) auto
  qed (auto intro!: guarded_return)
  then show ?thesis unfolding pruneRGWTLSGenerations_def by (intro guarded_then [OF m] guarded_bind [OF c])
qed

lemma inv_clear: "rgw_inv E L d \<Longrightarrow> (\<And>x. L = Some x \<Longrightarrow> line_of E d = x) \<Longrightarrow> settled E L (line_of E d) (d\<lparr>rd_pending := None\<rparr>)"
  using good_no_journal by (auto simp: settled_def rgw_inv_def ahead_def)

lemma guarded_clear:
  assumes "\<And>x. L = Some x \<Longrightarrow> x = l"
  shows "guarded (rgw_inv E L) (\<lambda>d. rgw_inv E L d \<and> line_of E d = l) (remove_pending E) (\<lambda>_. settled E L l) (rgw_inv E L)"
  unfolding remove_pending_def
proof (rule guarded_sys)
  fix d
  assume d: "rgw_inv E L d \<and> line_of E d = l"
  then show "rgw_inv E L d \<and> rgw_inv E L d" by simp
  from d inv_clear [of E L d] assms show "rgw_inv E L (d\<lparr>rd_pending := None\<rparr>) \<and> settled E L l (d\<lparr>rd_pending := None\<rparr>)"
    using settled_inv by blast
qed

lemma guarded_finish:
  assumes "rgw_machine E" "\<And>x. L = Some x \<Longrightarrow> x = l"
  shows "guarded (rgw_inv E L) (\<lambda>d. rgw_inv E L d \<and> line_of E d = l) (finishRGWApply E) (\<lambda>_. settled E L l) (rgw_inv E L)"
  unfolding finishRGWApply_def by (rule guarded_then [OF guarded_map_error [OF guarded_clear [OF assms(2)]] guarded_prune [OF assms(1)]])


section \<open>Rollback and recovery\<close>

text \<open>The rollback of an apply: what it restores is intact, and it knows the generation it restores.\<close>

definition rb_ok :: "rgw_env \<Rightarrow> rgwRollback \<Rightarrow> bool" where
  "rb_ok E rb \<longleftrightarrow>
     all_ascii (rb_prevConf rb) \<and>
     (rb_publishedGenDir rb = [] \<or>
      (\<exists>n. slash \<notin> set n \<and> rb_publishedGenDir rb = gen E n \<and>
        (fst (rgwConfTLSPaths (re_text E) (rb_prevConf rb)) \<noteq> [] \<longrightarrow>
         rb_prevGenDir rb = filepath_Dir (fst (rgwConfTLSPaths (re_text E) (rb_prevConf rb))))))"

abbreviation prev_line :: "rgw_env \<Rightarrow> rgwRollback \<Rightarrow> string" where
  "prev_line E rb \<equiv> rgwFrontendLine (re_text E) (rb_prevConf rb)"

lemma inv_conf:
  assumes "rgw_inv E L d" "all_ascii (conf_text c)" "intact E d (conf_text c)"
    "\<And>x. L = Some x \<Longrightarrow> rgwFrontendLine (re_text E) (conf_text c) = x \<or> (\<exists>p a. journal E d = Some (p, a) \<and> rgwFrontendLine (re_text E) p = x)"
  shows "rgw_inv E L (d\<lparr>rd_conf := c\<rparr>)"
  using assms good_conf [of E d c] by (auto simp: rgw_inv_def ahead_def journal_def)

lemma guarded_restore_conf:
  assumes "rb_ok E rb" "\<And>x. L = Some x \<Longrightarrow> x = prev_line E rb"
  shows "guarded (rgw_inv E L) (\<lambda>d. rgw_inv E L d \<and> intact E d (rb_prevConf rb)) (restore_conf E rb)
    (\<lambda>_ d. rgw_inv E L d \<and> line_of E d = prev_line E rb) (rgw_inv E L)"
proof (cases "rb_prevConf rb = []")
  case True
  have "L = Some x \<Longrightarrow> [] = x" for x using assms(2) True by (simp add: no_line)
  then have "rgw_inv E L (d\<lparr>rd_conf := None\<rparr>) \<and> line_of E (d\<lparr>rd_conf := None\<rparr>) = prev_line E rb" if "rgw_inv E L d" for d
    using inv_conf [OF that, of None] True by (auto simp: no_line intact_none)
  then show ?thesis using True by (auto simp: restore_conf_def remove_conf_def intro!: guarded_sys)
next
  case False
  let ?P = "\<lambda>d. rgw_inv E L d \<and> intact E d (rb_prevConf rb)"
  let ?Q = "\<lambda>d. rgw_inv E L d \<and> line_of E d = prev_line E rb"
  let ?prev = "\<lambda>c. if rgwFrontendLine (re_text E) (conf_text c) \<noteq> []
      then replaceRGWFrontendLine (re_text E) (conf_text c) (prev_line E rb) else rb_prevConf rb"
  have a: "all_ascii (rb_prevConf rb)" using assms(1) by (simp add: rb_ok_def)
  note f = line_is_frontend [OF a, of "re_text E"]
  have line: "rgwFrontendLine (re_text E) (?prev c) = prev_line E rb" for c using line_replace [OF f] by simp
  have ascii: "all_ascii (?prev c)" if "all_ascii (conf_text c)" for c using a that replace_ascii [OF that frontend_text_ascii [OF f]] by simp
  have store: "?Q (put_conf (?prev c) d)" if "?P d" "c = rd_conf d" for c d
  proof -
    have "intact E d (?prev c)" using that(1) intact_line [OF line] by blast
    moreover have "all_ascii (?prev c)" using that by (intro ascii) (simp add: rgw_inv_def good_def)
    ultimately have "rgw_inv E L (d\<lparr>rd_conf := Some (?prev c)\<rparr>)"
      using that(1) line [of c] assms(2) by (intro inv_conf) (simp_all del: if_split)
    then show ?thesis using line [of c] by (simp add: put_conf_def)
  qed
  have w: "guarded (rgw_inv E L) (\<lambda>d. ?P d \<and> c = rd_conf d) (writeRGWFile E (rgwConfPath E) (put_conf (?prev c))) (\<lambda>_. ?Q) (rgw_inv E L)" for c
    using store by (intro guarded_write) blast+
  have r: "guarded (rgw_inv E L) (\<lambda>d. ?P d \<and> c = rd_conf d) (rg_return ()) (\<lambda>_. ?Q) (rgw_inv E L)" if "?prev c = conf_text c" for c
    using line [of c, unfolded that] by (intro guarded_return) simp
  have body: "restore_conf E rb = rg_bind (read_conf E) (\<lambda>c. if ?prev c \<noteq> conf_text c then writeRGWFile E (rgwConfPath E) (put_conf (?prev c)) else rg_return ())"
    using False by (simp add: restore_conf_def Let_def)
  have rd: "guarded (rgw_inv E L) ?P (read_conf E) (\<lambda>c d. ?P d \<and> c = rd_conf d) (rgw_inv E L)" by (rule guarded_read_conf) simp
  have "guarded (rgw_inv E L) (\<lambda>d. ?P d \<and> c = rd_conf d) (if ?prev c \<noteq> conf_text c then writeRGWFile E (rgwConfPath E) (put_conf (?prev c)) else rg_return ())
      (\<lambda>_. ?Q) (rgw_inv E L)" for c
    by (rule guarded_if, rule w, rule r, blast)
  then show ?thesis unfolding body by (rule guarded_bind [OF rd])
qed

lemma guarded_restore:
  assumes "rgw_machine E" "rb_ok E rb" "\<And>x. L = Some x \<Longrightarrow> x = prev_line E rb"
  shows "guarded (rgw_inv E L) (\<lambda>d. rgw_inv E L d \<and> intact E d (rb_prevConf rb)) (restore E rb)
    (\<lambda>_. settled E L (prev_line E rb)) (rgw_inv E L)"
proof -
  let ?P = "\<lambda>d. rgw_inv E L d \<and> intact E d (rb_prevConf rb)" and ?Q = "\<lambda>d. rgw_inv E L d \<and> line_of E d = prev_line E rb"
  let ?S = "settled E L (prev_line E rb)"
  have m: "guarded (rgw_inv E L) ?P (meanwhile E) (\<lambda>_. ?P) (rgw_inv E L)"
  proof (rule guarded_meanwhile [OF assms(1)])
    fix d e
    assume d: "?P d" "plain_edit e"
    then have "good E d" by (simp add: rgw_inv_def)
    with d show "?P (edit_conf E e d)" using inv_edit intact_files [of "edit_conf E e d" d] edit_facts(4) by auto
  qed simp
  have s: "guarded (rgw_inv E L) ?Q (restore_service E rb) (\<lambda>_. ?Q) (rgw_inv E L)" by (rule guarded_look [OF looks_inspect(3)]) simp
  have drop: "?S (drop_file p d)" if n: "slash \<notin> set n" "rb_publishedGenDir rb = gen E n" "rb_publishedGenDir rb \<noteq> rb_prevGenDir rb"
      "under (gen E n) p" "?S d" for n p d
  proof -
    obtain cp kp where paths: "rgwConfTLSPaths (re_text E) (conf_text (rd_conf d)) = (cp, kp)" by fastforce
    then have prev: "rgwConfTLSPaths (re_text E) (rb_prevConf rb) = (cp, kp)" using n(5) by (simp add: settled_def rgwConfTLSPaths_def)
    have i: "intact E d (conf_text (rd_conf d))" using n(5) by (simp add: settled_def rgw_inv_def good_def)
    from assms(2) n prev have "cp \<noteq> [] \<Longrightarrow> filepath_Dir cp \<noteq> gen E n" by (auto simp: rb_ok_def)
    from pair_apart [OF assms(1) i paths n(1) this n(4)] n(5) paths show ?thesis using settled_drop by fastforce
  qed
  have a: "guarded (rgw_inv E L) ?S (if rb_publishedGenDir rb \<noteq> [] \<and> rb_publishedGenDir rb \<noteq> rb_prevGenDir rb
      then os_RemoveAll E (rb_publishedGenDir rb) else rg_return ()) (\<lambda>_. ?S) (rgw_inv E L)"
  proof (rule guarded_if)
    assume b: "rb_publishedGenDir rb \<noteq> [] \<and> rb_publishedGenDir rb \<noteq> rb_prevGenDir rb"
    with assms(2) obtain n where n: "slash \<notin> set n" "rb_publishedGenDir rb = gen E n" by (auto simp: rb_ok_def)
    show "guarded (rgw_inv E L) ?S (os_RemoveAll E (rb_publishedGenDir rb)) (\<lambda>_. ?S) (rgw_inv E L)"
      using drop [OF n] b unfolding n(2) by (intro guarded_RemoveAll) (simp_all add: settled_inv settled_dirs)
  qed (simp add: guarded_return)
  show ?thesis unfolding restore_def
    by (rule guarded_then [OF m guarded_then [OF guarded_map_error [OF guarded_restore_conf [OF assms(2,3)]]
        guarded_then [OF s guarded_then [OF guarded_clear [OF assms(3)] guarded_then [OF a guarded_prune [OF assms(1)]]]]]])
qed


text \<open>The state as recovery reads it.\<close>

lemma guarded_state:
  assumes "rgw_machine E" "\<And>d. P d \<Longrightarrow> I d \<and> R d" "\<And>d e. P d \<Longrightarrow> plain_edit e \<Longrightarrow> P (edit_conf E e d)"
  shows "guarded I P (readRGWState E) (\<lambda>(current, pending) d. P d \<and> current = conf_text (rd_conf d) \<and> pending = journal E d \<and>
    (pending = None \<longrightarrow> rd_pending d = None)) R"
proof -
  have m: "guarded I P (meanwhile E) (\<lambda>_. P) R" using assms by (intro guarded_meanwhile) auto
  have p: "guarded I (\<lambda>d. P d \<and> c = rd_conf d) (readPendingApply E) (\<lambda>m d. (P d \<and> c = rd_conf d) \<and> m = journal E d \<and> (m = None \<longrightarrow> rd_pending d = None)) R" for c
    by (rule guarded_readPending) (simp add: assms(2))
  show ?thesis unfolding readRGWState_def
    by (intro guarded_then [OF m] guarded_bind [OF guarded_map_error [OF guarded_read_conf]] guarded_bind [OF guarded_map_error [OF p]] guarded_return)
      (auto simp: assms(2))
qed

lemma recover_idle:
  assumes "rgw_machine E"
  shows "guarded (rgw_inv E L) (settled E L l) (recoverPendingRGWApply E) (\<lambda>_. settled E L l) (rgw_inv E L)"
proof -
  have s: "guarded (rgw_inv E L) (settled E L l) (readRGWState E) (\<lambda>(current, pending) d. settled E L l d \<and> current = conf_text (rd_conf d) \<and>
      pending = journal E d \<and> (pending = None \<longrightarrow> rd_pending d = None)) (rgw_inv E L)"
    by (rule guarded_state [OF assms]) (auto intro: settled_inv settled_edit)
  show ?thesis unfolding recoverPendingRGWApply_def
  proof (rule guarded_bind [OF s], rule guarded_pair)
    fix v current pending
    assume v: "v = (current :: string, pending :: (string \<times> bool) option)"
    let ?P = "case v of (current, pending) \<Rightarrow> \<lambda>d. settled E L l d \<and> current = conf_text (rd_conf d) \<and> pending = journal E d \<and> (pending = None \<longrightarrow> rd_pending d = None)"
    have "?P d \<Longrightarrow> pending = None" for d using v by (auto simp: settled_def journal_def)
    then show "guarded (rgw_inv E L) ?P (case pending of None \<Rightarrow> rg_return () | Some (previous, prevActive) \<Rightarrow> redrive E current previous prevActive)
        (\<lambda>_. settled E L l) (rgw_inv E L)"
      by (rule guarded_assume) (auto intro!: guarded_return simp: v)
  qed
qed

text \<open>Recovery from any journal ends with nothing pending, or with an error and a good disk.\<close>

lemma guarded_rebase:
  assumes "rgw_machine E"
  shows "guarded (rgw_inv E None) (rgw_inv E None) (rg_then (meanwhile E) (rg_bind (readRGWConf E) (\<lambda>conf. rg_then (writePendingApplyMarker E conf True) (remove_pending E))))
    (\<lambda>_ d. rgw_inv E None d \<and> rd_pending d = None) (rgw_inv E None)"
proof -
  have m: "guarded (rgw_inv E None) (rgw_inv E None) (meanwhile E) (\<lambda>_. rgw_inv E None) (rgw_inv E None)"
    by (rule guarded_meanwhile [OF assms]) (auto intro: inv_edit)
  have r: "guarded (rgw_inv E None) (rgw_inv E None) (readRGWConf E) (\<lambda>c d. rgw_inv E None d \<and> rd_conf d = Some c) (rgw_inv E None)"
    by (rule guarded_readRGWConf) simp
  have w: "guarded (rgw_inv E None) (\<lambda>d. rgw_inv E None d \<and> rd_conf d = Some c) (writePendingApplyMarker E c True) (\<lambda>_. rgw_inv E None) (rgw_inv E None)" for c
    unfolding writePendingApplyMarker_def
  proof (rule guarded_write)
    fix d
    assume d: "rgw_inv E None d \<and> rd_conf d = Some c"
    then have "all_ascii c" "intact E d c" "good E d" by (auto simp: rgw_inv_def good_def)
    then show "rgw_inv E None (put_pending (pending_json E c True) d)" using good_marker by (simp add: rgw_inv_def)
  qed simp_all
  have c: "guarded (rgw_inv E None) (rgw_inv E None) (remove_pending E) (\<lambda>_ d. rgw_inv E None d \<and> rd_pending d = None) (rgw_inv E None)"
    unfolding remove_pending_def by (rule guarded_sys) (auto simp: rgw_inv_def good_no_journal)
  show ?thesis by (rule guarded_then [OF m guarded_bind [OF r guarded_then [OF w c]]])
qed

lemma guarded_redrive:
  assumes "rgw_machine E" "all_ascii previous"
  shows "guarded (rgw_inv E None) (\<lambda>d. rgw_inv E None d \<and> intact E d previous) (redrive E current previous prevActive)
    (\<lambda>_ d. rgw_inv E None d \<and> rd_pending d = None) (rgw_inv E None)"
proof -
  let ?P = "\<lambda>d. rgw_inv E None d \<and> intact E d previous"
  let ?rb = "\<lparr>rb_prevConf = previous, rb_prevActive = prevActive, rb_publishedGenDir = [], rb_prevGenDir = [], rb_serviceChanged = True\<rparr>"
  have i: "guarded (rgw_inv E None) ?P (inspect_active E) (\<lambda>_. ?P) (rgw_inv E None)" by (rule guarded_look [OF looks_inspect(1)]) simp
  have e: "guarded (rgw_inv E None) ?P (rg_error (reactivate E current a)) (\<lambda>_. ?P) (rgw_inv E None)" for a
    by (rule guarded_look [OF looks_error [OF looks_inspect(2)]]) simp
  have "rb_ok E ?rb" using assms(2) by (simp add: rb_ok_def)
  from guarded_restore [OF assms(1) this, of None]
  have "guarded (rgw_inv E None) ?P (restore E ?rb) (\<lambda>_. rgw_inv E None) (rgw_inv E None)"
    by (rule guarded_conseq) (auto intro: settled_inv)
  then have r: "guarded (rgw_inv E None) ?P (rg_error (restore E ?rb)) (\<lambda>_. rgw_inv E None) (rgw_inv E None)"
    by (rule guarded_error)
  show ?thesis unfolding redrive_def
    by (rule guarded_bind [OF i], rule guarded_bind [OF e], rule guarded_option,
        rule guarded_map_error, rule guarded_pre [OF guarded_rebase [OF assms(1)]], simp,
        rule guarded_bind [OF r], rule guarded_fail)
qed

lemma recover_good:
  assumes "rgw_machine E"
  shows "guarded (rgw_inv E None) (rgw_inv E None) (recoverPendingRGWApply E) (\<lambda>_ d. rgw_inv E None d \<and> rd_pending d = None) (rgw_inv E None)"
proof -
  have s: "guarded (rgw_inv E None) (rgw_inv E None) (readRGWState E) (\<lambda>(current, pending) d. rgw_inv E None d \<and> current = conf_text (rd_conf d) \<and>
      pending = journal E d \<and> (pending = None \<longrightarrow> rd_pending d = None)) (rgw_inv E None)"
    by (rule guarded_state [OF assms]) (auto intro: inv_edit)
  show ?thesis unfolding recoverPendingRGWApply_def
  proof (rule guarded_bind [OF s], rule guarded_pair, rule guarded_option)
    fix v current pending
    assume v: "v = (current :: string, pending :: (string \<times> bool) option)" "pending = None"
    show "guarded (rgw_inv E None) (case v of (current, pending) \<Rightarrow> \<lambda>d. rgw_inv E None d \<and> current = conf_text (rd_conf d) \<and> pending = journal E d \<and>
        (pending = None \<longrightarrow> rd_pending d = None)) (rg_return ()) (\<lambda>_ d. rgw_inv E None d \<and> rd_pending d = None) (rgw_inv E None)"
      using v by (auto intro!: guarded_return)
  next
    fix v current pending x
    assume v: "v = (current :: string, pending :: (string \<times> bool) option)" "pending = Some x"
    obtain previous prevActive where x: "x = (previous, prevActive)" by fastforce
    let ?P = "case v of (current, pending) \<Rightarrow> \<lambda>d. rgw_inv E None d \<and> current = conf_text (rd_conf d) \<and> pending = journal E d \<and> (pending = None \<longrightarrow> rd_pending d = None)"
    have p: "all_ascii previous \<and> rgw_inv E None d \<and> intact E d previous" if "?P d" for d
    proof -
      from that have "rgw_inv E None d" "journal E d = Some (previous, prevActive)" using v x by simp_all
      with inv_journal show ?thesis by blast
    qed
    show "guarded (rgw_inv E None) ?P (case x of (previous, prevActive) \<Rightarrow> redrive E current previous prevActive)
        (\<lambda>_ d. rgw_inv E None d \<and> rd_pending d = None) (rgw_inv E None)"
      unfolding x prod.case
      by (rule guarded_assume [OF conjunct1 [OF p]], assumption, rule guarded_pre [OF guarded_redrive [OF assms] conjunct2 [OF p]])
  qed
qed


section \<open>Publication\<close>

definition staged :: "rgw_env \<Rightarrow> rgw_frontend_spec \<Rightarrow> rgw_disk \<Rightarrow> bool" where
  "staged E spec d \<longleftrightarrow>
     (fs_ssl spec \<longrightarrow> content_of d (crt_in (tlsGenDir E spec)) = Some (fs_certPEM spec) \<and>
       content_of d (key_in (tlsGenDir E spec)) = Some (fs_keyPEM spec))"

definition usable_spec :: "rgw_env \<Rightarrow> rgw_frontend_spec \<Rightarrow> bool" where
  "usable_spec E spec \<longleftrightarrow> (fs_ssl spec \<longrightarrow> x509_key_pair (re_tls E) (fs_certPEM spec) (fs_keyPEM spec))"

text \<open>The frontend line an apply asks for.\<close>

definition wanted_line :: "rgw_env \<Rightarrow> rgw_frontend_spec \<Rightarrow> string" where
  "wanted_line E spec =
     frontend_of (fs_port spec) (fs_sslPort spec) (if fs_ssl spec then crt_in (tlsGenDir E spec) else [])
       (if fs_ssl spec then key_in (tlsGenDir E spec) else [])"

lemma one_line_literals: "one_line (a @ b) \<longleftrightarrow> one_line a \<and> one_line b" "one_line ''v2:[''" "one_line '']:3300''" "one_line ''[''" "one_line '']''"
  by (auto simp: one_line_def is_ascii_byte_def)

lemma one_line_part: "one_line a \<Longrightarrow> set b \<subseteq> set a \<Longrightarrow> one_line b"
  by (auto simp: one_line_def all_ascii_iff)

lemma format_one_line: "format_addr T a = Some x \<Longrightarrow> one_line a \<Longrightarrow> one_line x"
  using one_line_part [of a "take (length a - 8) (drop 3 a)"] set_take_subset [of "length a - 8" "drop 3 a"] set_drop_subset [of 3 a]
    one_line_literals
  by (auto simp: format_addr_def Let_def split: if_splits simp del: append_Cons append.simps)

lemma formatted_one_line: "formatIPv6 T as = Some ms \<Longrightarrow> list_all one_line as \<Longrightarrow> list_all one_line ms"
  by (induction as arbitrary: ms) (auto split: option.splits intro: format_one_line)

lemma pair_paths:
  assumes "rgw_machine E"
  shows "solid (crt_in (tlsGenDir E spec)) \<and> solid (key_in (tlsGenDir E spec))"
proof -
  have "solid (re_SSLFilesPath E)" "solid (re_hash E x)" for x using assms by (auto simp: rgw_machine_def)
  then show ?thesis by (auto simp: solid_def crt_in_def key_in_def tlsGenDir_def rgwTLSRoot_def is_ascii_byte_def is_ascii_space_def)
qed

lemma desired_facts:
  assumes "rgw_machine E" "list_all one_line ms"
  shows "rgwFrontendLine (re_text E) (desired_conf E spec ms) = wanted_line E spec" "all_ascii (desired_conf E spec ms)"
proof -
  let ?c = "if fs_ssl spec then crt_in (tlsGenDir E spec) else []" and ?k = "if fs_ssl spec then key_in (tlsGenDir E spec) else []"
  have m: "one_line (join_with '','' (sort ms))" using assms(2) by (intro mon_hosts_one_line) (simp add: list_all_iff)
  have r: "one_line (re_RunPath E)" using assms(1) by (simp add: rgw_machine_def)
  have p: "(?c = [] \<and> ?k = []) \<or> (solid ?c \<and> solid ?k)" using pair_paths [OF assms(1)] by simp
  show "rgwFrontendLine (re_text E) (desired_conf E spec ms) = wanted_line E spec"
    unfolding desired_conf_def wanted_line_def by (rule rendered_line [OF m r p])
  show "all_ascii (desired_conf E spec ms)" unfolding desired_conf_def by (rule rendered_ascii [OF m r p])
qed

lemma wanted_text: "rgw_machine E \<Longrightarrow> frontend_text (re_text E) (wanted_line E spec)"
  unfolding wanted_line_def using pair_paths by (intro frontend_of_text) simp

text \<open>A configuration with the wanted line names the staged pair.\<close>

lemma staged_intact:
  assumes "rgw_machine E" "usable_spec E spec" "staged E spec d" "rgwFrontendLine (re_text E) conf = wanted_line E spec"
  shows "intact E d conf"
proof -
  let ?c = "if fs_ssl spec then crt_in (tlsGenDir E spec) else []" and ?k = "if fs_ssl spec then key_in (tlsGenDir E spec) else []"
  have "(?c = [] \<and> ?k = []) \<or> (solid ?c \<and> solid ?k)" using pair_paths [OF assms(1)] by simp
  from frontend_of_reads [OF assms(4) [unfolded wanted_line_def] this] have "rgwConfTLSPaths (re_text E) conf = (?c, ?k)" .
  then show ?thesis using assms(2,3) by (auto simp: intact_def sound_pair_def staged_def usable_spec_def tlsGenDir_def)
qed

lemma gen_dir_form: "fs_ssl spec \<Longrightarrow> tlsGenDir E spec = gen E (re_hash E (fs_certPEM spec @ fs_keyPEM spec))"
  by (simp add: tlsGenDir_def)

text \<open>The disk while a new pair is staged: only that pair changes.\<close>

definition untouched :: "rgw_env \<Rightarrow> string option \<Rightarrow> string option \<Rightarrow> rgw_disk \<Rightarrow> bool" where
  "untouched E L cf d \<longleftrightarrow> rgw_inv E L d \<and> rd_conf d = cf \<and> rd_pending d = None"

lemma untouched_inv: "untouched E L cf d \<Longrightarrow> rgw_inv E L d"
  by (simp add: untouched_def)

lemma untouched_current: "untouched E L cf d \<Longrightarrow> all_ascii (conf_text cf) \<and> intact E d (conf_text cf)"
  using inv_current by (auto simp: untouched_def)

lemma untouched_put:
  assumes "rgw_machine E" "usable_spec E spec" "fs_ssl spec" "untouched E L cf d"
  shows "untouched E L cf (put_file (crt_in (tlsGenDir E spec)) (fs_certPEM spec) d)"
    "untouched E L cf (put_file (key_in (tlsGenDir E spec)) (fs_keyPEM spec) d)"
  using assms good_stage [OF assms(1), of d "fs_certPEM spec" "fs_keyPEM spec" "tlsGenDir E spec"] gen_dir_form [OF assms(3)]
  by (auto simp: untouched_def rgw_inv_def ahead_def journal_def usable_spec_def)

lemma guarded_stage:
  assumes "rgw_machine E" "usable_spec E spec" "fs_ssl spec"
  shows "guarded (rgw_inv E L) (untouched E L cf) (stageRGWTLSGeneration E (tlsGenDir E spec) (fs_certPEM spec) (fs_keyPEM spec))
    (\<lambda>_ d. untouched E L cf d \<and> staged E spec d) (untouched E L cf)"
proof -
  let ?U = "untouched E L cf" and ?I = "rgw_inv E L" and ?crt = "crt_in (tlsGenDir E spec)" and ?key = "key_in (tlsGenDir E spec)"
  let ?H = "\<lambda>d. ?U d \<and> content_of d ?crt = Some (fs_certPEM spec)" and ?S = "\<lambda>d. ?U d \<and> staged E spec d"
  have k: "guarded ?I ?U (sys E ''mkdir'' (tlsGenDir E spec) (\<lambda>d. d\<lparr>rd_dirs := List.insert (tlsGenDir E spec) (rd_dirs d)\<rparr>)) (\<lambda>_. ?U) ?U"
    by (rule guarded_sys) (auto simp: untouched_def rgw_inv_def good_dirs ahead_def journal_def)
  have t: "guarded ?I ?U (touch E ''chmod'' (tlsGenDir E spec)) (\<lambda>_. ?U) ?U" by (rule guarded_look [OF looks_touch]) (simp add: untouched_inv)
  have p: "guarded ?I ?U (pairOnDisk E ?crt ?key (fs_certPEM spec) (fs_keyPEM spec)) (\<lambda>b d. ?U d \<and> (b \<longrightarrow> staged E spec d)) ?U"
    by (rule guarded_conseq [OF guarded_pairOnDisk [of ?U]]) (auto simp: untouched_inv staged_def)
  have w1: "guarded ?I ?U (writeRGWFile E ?crt (put_file ?crt (fs_certPEM spec))) (\<lambda>_. ?H) ?U"
    by (rule guarded_write) (auto simp: untouched_inv untouched_put [OF assms])
  have w2: "guarded ?I ?H (writeRGWFile E ?key (put_file ?key (fs_keyPEM spec))) (\<lambda>_. ?S) ?U"
    by (rule guarded_write) (auto simp: untouched_inv untouched_put [OF assms] staged_def crt_key_neq)
  have w: "guarded ?I (\<lambda>d. ?U d \<and> (b \<longrightarrow> staged E spec d)) (if b then rg_return () else rg_then (writeRGWFile E ?crt (put_file ?crt (fs_certPEM spec)))
      (writeRGWFile E ?key (put_file ?key (fs_keyPEM spec)))) (\<lambda>_. ?S) ?U" for b
    by (rule guarded_if, rule guarded_return, simp, rule guarded_pre [OF guarded_then [OF w1 w2]], simp)
  have c: "guarded ?I ?S (rg_then (touch E ''chmod'' ?crt) (touch E ''chmod'' ?key)) (\<lambda>_. ?S) ?U"
    by (intro guarded_look looks_rules) (auto dest: untouched_inv)
  show ?thesis unfolding stageRGWTLSGeneration_def
    by (rule guarded_then [OF k guarded_then [OF t guarded_bind [OF p guarded_then [OF w c]]]])
qed


text \<open>The disk after a publication: the pair is staged, the journal or the configuration itself still has
  what was there before.\<close>

definition published :: "rgw_env \<Rightarrow> string option \<Rightarrow> rgw_frontend_spec \<Rightarrow> string option \<Rightarrow> bool \<Rightarrow> rgw_disk \<Rightarrow> bool" where
  "published E L spec cf changed d \<longleftrightarrow>
     rgw_inv E L d \<and> intact E d (conf_text cf) \<and> staged E spec d \<and>
     (if changed then line_of E d = wanted_line E spec else rd_conf d = cf)"

abbreviation backed :: "rgw_env \<Rightarrow> string option \<Rightarrow> string option \<Rightarrow> rgw_disk \<Rightarrow> bool" where
  "backed E L cf d \<equiv> rgw_inv E L d \<and> intact E d (conf_text cf)"

definition next_conf :: "rgw_env \<Rightarrow> string \<Rightarrow> string \<Rightarrow> string" where
  "next_conf E current desired =
     (if rgwFrontendLine (re_text E) current \<noteq> []
      then replaceRGWFrontendLine (re_text E) current (rgwFrontendLine (re_text E) desired) else desired)"

lemma next_conf_facts:
  assumes "rgw_machine E" "list_all one_line ms" "all_ascii current"
  shows "rgwFrontendLine (re_text E) (next_conf E current (desired_conf E spec ms)) = wanted_line E spec"
    "all_ascii (next_conf E current (desired_conf E spec ms))"
  using desired_facts [OF assms(1,2), of spec] wanted_text [OF assms(1), of spec] line_replace [OF wanted_text [OF assms(1), of spec], of current]
    replace_ascii [OF assms(3) frontend_text_ascii [OF wanted_text [OF assms(1), of spec]]]
  by (auto simp: next_conf_def)

text \<open>With the journal written, and nothing else changed but the pair.\<close>

definition marked :: "rgw_env \<Rightarrow> string option \<Rightarrow> rgw_frontend_spec \<Rightarrow> string option \<Rightarrow> bool \<Rightarrow> rgw_disk \<Rightarrow> bool" where
  "marked E L spec cf active d \<longleftrightarrow>
     rgw_inv E L d \<and> rd_conf d = cf \<and> journal E d = Some (conf_text cf, active) \<and> staged E spec d"

lemma marked_backed: "marked E L spec cf active d \<Longrightarrow> backed E L cf d"
  using inv_journal by (auto simp: marked_def)

lemma mark:
  assumes "untouched E L cf d" "staged E spec d"
  shows "marked E L spec cf active (put_pending (pending_json E (conf_text cf) active) d)"
proof -
  let ?d = "put_pending (pending_json E (conf_text cf) active) d"
  from untouched_current [OF assms(1)] have a: "all_ascii (conf_text cf)" "intact E d (conf_text cf)" by auto
  have "good E d" "rd_conf d = cf" "\<And>x. L = Some x \<Longrightarrow> line_of E d = x"
    using assms(1) by (auto simp: untouched_def rgw_inv_def ahead_def journal_def)
  then have "rgw_inv E L ?d" using good_marker [OF _ a] by (auto simp: rgw_inv_def ahead_def)
  then show ?thesis using \<open>rd_conf d = cf\<close> assms(2) a(1) by (simp add: marked_def journal_marker staged_def)
qed

lemma guarded_publish:
  assumes "rgw_machine E" "usable_spec E spec" "list_all one_line ms" "\<And>x. L = Some x \<Longrightarrow> rgwFrontendLine (re_text E) (conf_text cf) = x"
  shows "guarded (rgw_inv E L) (untouched E L cf) (publish E spec (conf_text cf) wasActive (desired_conf E spec ms) changed)
    (\<lambda>_. published E L spec cf changed) (backed E L cf)"
proof -
  let ?I = "rgw_inv E L" and ?S = "\<lambda>d. untouched E L cf d \<and> staged E spec d" and ?M = "marked E L spec cf wasActive"
  let ?c = "next_conf E (conf_text cf) (desired_conf E spec ms)"
  have s: "guarded ?I (untouched E L cf) (if fs_ssl spec then stageRGWTLSGeneration E (tlsGenDir E spec) (fs_certPEM spec) (fs_keyPEM spec) else rg_return ())
      (\<lambda>_. ?S) (backed E L cf)"
  proof (rule guarded_if)
    assume "fs_ssl spec"
    from guarded_stage [OF assms(1,2) this] show "guarded ?I (untouched E L cf) (stageRGWTLSGeneration E (tlsGenDir E spec) (fs_certPEM spec) (fs_keyPEM spec))
        (\<lambda>_. ?S) (backed E L cf)"
      by (rule guarded_conseq) (auto dest: untouched_inv untouched_current)
  qed (auto intro!: guarded_return simp: staged_def)
  have j: "guarded ?I ?S (writePendingApplyMarker E (conf_text cf) wasActive) (\<lambda>_. ?M) (backed E L cf)"
    unfolding writePendingApplyMarker_def by (rule guarded_write) (auto dest: untouched_inv untouched_current marked_backed intro: mark)
  have put: "published E L spec cf True (put_conf ?c d)" if m: "?M d" for d
  proof -
    from m have a: "all_ascii (conf_text cf)" using inv_current [of E L d] by (auto simp: marked_def)
    note n = next_conf_facts [OF assms(1,3) a, of spec]
    have st: "staged E spec d" and inv: "?I d" and jr: "journal E d = Some (conf_text cf, wasActive)" using m by (simp_all add: marked_def)
    have "?I (d\<lparr>rd_conf := Some ?c\<rparr>)"
      using n staged_intact [OF assms(1,2) st n(1)] assms(4) jr by (intro inv_conf [OF inv]) auto
    moreover have "intact E (put_conf ?c d) (conf_text cf)" using marked_backed [OF m] intact_files [of "put_conf ?c d" d] by simp
    ultimately show ?thesis using n(1) st by (simp add: published_def put_conf_def staged_def)
  qed
  have w: "guarded ?I ?M (if changed then writeRGWFile E (rgwConfPath E) (put_conf ?c) else rg_return ()) (\<lambda>_. published E L spec cf changed) (backed E L cf)"
  proof (rule guarded_if)
    assume "changed"
    then show "guarded ?I ?M (writeRGWFile E (rgwConfPath E) (put_conf ?c)) (\<lambda>_. published E L spec cf changed) (backed E L cf)"
      using put by (intro guarded_write) (auto dest: marked_backed simp: published_def)
  next
    assume "\<not> changed"
    then show "guarded ?I ?M (rg_return ()) (\<lambda>_. published E L spec cf changed) (backed E L cf)"
      by (intro guarded_return) (auto dest: inv_current simp: published_def marked_def)
  qed
  show ?thesis unfolding publish_def next_conf_def [symmetric] by (rule guarded_then [OF s guarded_then [OF j w]])
qed


section \<open>Applying a frontend\<close>

lemma new_rollback_ok:
  assumes "rgw_machine E" "all_ascii current"
  shows "rb_ok E (new_rollback E spec current active)"
proof (cases "fs_ssl spec")
  case True
  have "slash \<notin> set (re_hash E x)" for x using hash_plain [OF assms(1)] by (simp add: plain_name_def)
  with True assms(2) show ?thesis
    by (auto simp: rb_ok_def new_rollback_def gen_dir_def tlsGenDir_def split: prod.splits)
qed (use assms(2) in \<open>simp add: rb_ok_def new_rollback_def gen_dir_def\<close>)

definition rb_fits :: "rgw_env \<Rightarrow> string option \<Rightarrow> rgwRollback option \<Rightarrow> bool" where
  "rb_fits E L rb \<longleftrightarrow> (\<forall>r. rb = Some r \<longrightarrow> rb_ok E r \<and> (\<forall>x. L = Some x \<longrightarrow> x = prev_line E r))"

lemma guarded_restore_opt:
  assumes "rgw_machine E" "rb_fits E L rb"
  shows "guarded (rgw_inv E L) (\<lambda>d. rgw_inv E L d \<and> (\<forall>r. rb = Some r \<longrightarrow> intact E d (rb_prevConf r))) (rg_error (restore_opt E rb)) (\<lambda>_. rgw_inv E L) R"
proof (rule guarded_error)
  show "guarded (rgw_inv E L) (\<lambda>d. rgw_inv E L d \<and> (\<forall>r. rb = Some r \<longrightarrow> intact E d (rb_prevConf r))) (restore_opt E rb) (\<lambda>_. rgw_inv E L) (rgw_inv E L)"
    unfolding restore_opt_def
  proof (rule guarded_option)
    fix r
    assume "rb = Some r"
    with assms(2) have "rb_ok E r" "\<And>x. L = Some x \<Longrightarrow> x = prev_line E r" by (auto simp: rb_fits_def)
    from guarded_restore [OF assms(1) this] \<open>rb = Some r\<close>
    show "guarded (rgw_inv E L) (\<lambda>d. rgw_inv E L d \<and> (\<forall>r. rb = Some r \<longrightarrow> intact E d (rb_prevConf r))) (restore E r) (\<lambda>_. rgw_inv E L) (rgw_inv E L)"
      by (auto intro: guarded_conseq settled_inv)
  qed (auto intro!: guarded_return)
qed

text \<open>What a successful apply leaves.\<close>

definition applied :: "rgw_env \<Rightarrow> string option \<Rightarrow> rgw_frontend_spec \<Rightarrow> rgw_disk \<Rightarrow> bool" where
  "applied E L spec d \<longleftrightarrow> rgw_inv E L d \<and> staged E spec d \<and> line_of E d = wanted_line E spec"

lemma guarded_activate:
  assumes "rgw_machine E" "rb_fits E L rb"
  shows "guarded (rgw_inv E L) (\<lambda>d. applied E L spec d \<and> (\<forall>r. rb = Some r \<longrightarrow> intact E d (rb_prevConf r))) (activate E spec rb wasActive)
    (\<lambda>_. applied E L spec) (rgw_inv E L)"
proof -
  let ?rb = "if \<not> wasActive \<or> rb \<noteq> None then map_option (\<lambda>r. r\<lparr>rb_serviceChanged := True\<rparr>) rb else rb"
  let ?P = "\<lambda>d. applied E L spec d \<and> (\<forall>r. rb = Some r \<longrightarrow> intact E d (rb_prevConf r))"
  have f: "rb_fits E L ?rb" using assms(2) by (auto simp: rb_fits_def rb_ok_def)
  have l: "guarded (rgw_inv E L) ?P (rg_error (rg_then (if \<not> wasActive \<or> rb \<noteq> None then (if wasActive then restartRGW E else startRGW E) else rg_return ())
      (checkRGWReady E spec))) (\<lambda>_. ?P) (rgw_inv E L)"
    by (intro guarded_look looks_rules) (simp add: applied_def)
  have r: "guarded (rgw_inv E L) ?P (rg_error (restore_opt E ?rb)) (\<lambda>_. rgw_inv E L) (rgw_inv E L)"
    by (rule guarded_pre [OF guarded_restore_opt [OF assms(1) f]]) (auto simp: applied_def split: if_splits)
  show ?thesis unfolding activate_def Let_def
    by (rule guarded_bind [OF l], rule guarded_option, rule guarded_return, simp, rule guarded_bind [OF r], rule guarded_fail)
qed

text \<open>A good disk whose configuration asks for a pair has it.\<close>

lemma wanted_staged:
  assumes "rgw_machine E" "usable_spec E spec" "rgw_inv E L d" "line_of E d = wanted_line E spec"
  shows "applied E L spec d"
proof -
  let ?h = "re_hash E (fs_certPEM spec @ fs_keyPEM spec)"
  have "staged E spec d"
    unfolding staged_def
  proof
    assume ssl: "fs_ssl spec"
    have g: "tlsGenDir E spec = gen E ?h" by (simp add: tlsGenDir_def)
    have "rgwConfTLSPaths (re_text E) (conf_text (rd_conf d)) = (crt_in (gen E ?h), key_in (gen E ?h))"
      using frontend_of_reads [OF assms(4) [unfolded wanted_line_def]] pair_paths [OF assms(1), of spec] ssl unfolding g by simp
    then have "sound_pair E d (crt_in (gen E ?h)) (key_in (gen E ?h))"
      using inv_current [OF assms(3)] by (auto simp: intact_def crt_in_def)
    then obtain c k where ck: "content_of d (crt_in (gen E ?h)) = Some c" "content_of d (key_in (gen E ?h)) = Some k"
      "x509_key_pair (re_tls E) c k" "re_hash E (c @ k) = ?h"
      using pair_under [of E ?h] by (auto simp: sound_pair_def crt_inj)
    then have "c = fs_certPEM spec \<and> k = fs_keyPEM spec" using assms(1,2) ssl unfolding rgw_machine_def usable_spec_def by blast
    with ck g show "content_of d (crt_in (tlsGenDir E spec)) = Some (fs_certPEM spec) \<and> content_of d (key_in (tlsGenDir E spec)) = Some (fs_keyPEM spec)"
      by simp
  qed
  with assms(3,4) show ?thesis by (simp add: applied_def)
qed

lemma guarded_changes:
  assumes "rgw_machine E" "usable_spec E spec" "list_all one_line ms" "rb_fits E L rb"
    "\<And>x. L = Some x \<Longrightarrow> rgwFrontendLine (re_text E) (conf_text cf) = x"
    "\<And>r. rb = Some r \<Longrightarrow> rb_prevConf r = conf_text cf" "\<not> changed \<Longrightarrow> rgwFrontendLine (re_text E) (conf_text cf) = wanted_line E spec"
    "rb = None \<Longrightarrow> \<not> changed"
  shows "guarded (rgw_inv E L) (\<lambda>d. untouched E L cf d \<and> (rb = None \<longrightarrow> staged E spec d))
    (apply_changes E spec (conf_text cf) (desired_conf E spec ms) wasActive changed rb restart) (\<lambda>_. applied E L spec) (rgw_inv E L)"
proof -
  let ?I = "rgw_inv E L" and ?P = "\<lambda>d. untouched E L cf d \<and> (rb = None \<longrightarrow> staged E spec d)"
  let ?Q = "\<lambda>d. applied E L spec d \<and> (\<forall>r. rb = Some r \<longrightarrow> intact E d (rb_prevConf r))"
  let ?R = "\<lambda>d. ?I d \<and> (\<forall>r. rb = Some r \<longrightarrow> intact E d (rb_prevConf r))"
  have "guarded ?I ?P (if rb \<noteq> None then publish E spec (conf_text cf) wasActive (desired_conf E spec ms) changed else rg_return ()) (\<lambda>_. ?Q) ?R"
  proof (rule guarded_if)
    have "published E L spec cf changed d \<Longrightarrow> ?Q d" for d
      using assms(6,7) by (cases changed) (auto simp: published_def applied_def)
    then show "guarded ?I ?P (publish E spec (conf_text cf) wasActive (desired_conf E spec ms) changed) (\<lambda>_. ?Q) ?R"
      using assms(6) by (intro guarded_conseq [OF guarded_publish [OF assms(1-3,5)]]) auto
  next
    assume n: "\<not> rb \<noteq> None"
    then show "guarded ?I ?P (rg_return ()) (\<lambda>_. ?Q) ?R" using assms(7,8) by (intro guarded_return) (auto simp: applied_def untouched_def)
  qed
  then have p: "guarded ?I ?P (rg_error (if rb \<noteq> None then publish E spec (conf_text cf) wasActive (desired_conf E spec ms) changed else rg_return ()))
      (\<lambda>e. if e = None then ?Q else ?R) ?I"
    by (intro guarded_error [where R = ?R]) simp_all
  have fin: "guarded ?I ?Q (rg_then (finishRGWApply E) (rg_return None)) (\<lambda>_. applied E L spec) ?I" if n: "rb = None"
  proof (rule guarded_then)
    have "x = wanted_line E spec" if "L = Some x" for x using assms(5) [OF that] assms(7) [OF assms(8) [OF n]] by simp
    from guarded_finish [OF assms(1) this] show "guarded ?I ?Q (finishRGWApply E) (\<lambda>_. applied E L spec) ?I"
      by (rule guarded_conseq) (auto simp: applied_def settled_def dest: wanted_staged [OF assms(1,2)])
  qed (auto intro!: guarded_return)
  have ok: "guarded ?I ?Q (if \<not> restart then (case rb of None \<Rightarrow> rg_then (finishRGWApply E) (rg_return None) | Some _ \<Rightarrow> rg_return rb)
      else activate E spec rb wasActive) (\<lambda>_. applied E L spec) ?I"
    by (rule guarded_if, rule guarded_option, erule fin, rule guarded_return, simp, rule guarded_activate [OF assms(1,4)])
  have bad: "guarded ?I ?R (rg_bind (rg_error (restore_opt E rb)) (\<lambda>re. rg_fail (rgw_failed ''cannot publish RGW frontend'' (err_join e re))))
      (\<lambda>_. applied E L spec) ?I" for e
    by (rule guarded_bind [OF guarded_restore_opt [OF assms(1,4)]], rule guarded_fail)
  show ?thesis unfolding apply_changes_def
    by (rule guarded_bind [OF p], rule guarded_option) (simp_all add: ok bad)
qed

lemma guarded_locked:
  assumes "rgw_machine E" "usable_spec E spec" "list_all one_line ms"
  shows "guarded (rgw_inv E L) (\<lambda>d. rgw_inv E L d \<and> rd_pending d = None) (apply_locked E spec (desired_conf E spec ms) wasActive restart)
    (\<lambda>_. applied E L spec) (rgw_inv E L)"
proof -
  let ?I = "rgw_inv E L" and ?P = "\<lambda>d. rgw_inv E L d \<and> rd_pending d = None"
  have m: "guarded ?I ?P (meanwhile E) (\<lambda>_. ?P) ?I"
    by (rule guarded_meanwhile [OF assms(1)]) (auto intro: inv_edit)
  have c: "guarded ?I ?P (rg_map_error h (read_conf E)) (\<lambda>c. untouched E L c) ?I" for h
    by (rule guarded_map_error [OF guarded_conseq [OF guarded_read_conf [of ?P]]]) (auto simp: untouched_def)
  let ?pair = "if fs_ssl spec then pairOnDisk E (crt_in (tlsGenDir E spec)) (key_in (tlsGenDir E spec)) (fs_certPEM spec) (fs_keyPEM spec) else rg_return True"
  have p: "guarded ?I (untouched E L cf) ?pair (\<lambda>b d. untouched E L cf d \<and> (b \<longrightarrow> staged E spec d)) ?I" for cf
    by (rule guarded_if, rule guarded_conseq [OF guarded_pairOnDisk [of "untouched E L cf"]])
      (auto simp: untouched_inv staged_def intro!: guarded_return)
  have b: "guarded ?I (\<lambda>d. untouched E L cf d \<and> (on_disk \<longrightarrow> staged E spec d)) (apply_changes E spec (conf_text cf) (desired_conf E spec ms) wasActive
      changed (if changed \<or> \<not> on_disk then Some (new_rollback E spec (conf_text cf) wasActive) else None) restart) (\<lambda>_. applied E L spec) ?I"
    if ch: "changed \<longleftrightarrow> cf = None \<or> rgwFrontendLine (re_text E) (conf_text cf) \<noteq> rgwFrontendLine (re_text E) (desired_conf E spec ms)" for cf on_disk changed
  proof (rule guarded_assume [where b = "all_ascii (conf_text cf) \<and> (\<forall>x. L = Some x \<longrightarrow> rgwFrontendLine (re_text E) (conf_text cf) = x)"])
    fix d
    assume "untouched E L cf d \<and> (on_disk \<longrightarrow> staged E spec d)"
    then show "all_ascii (conf_text cf) \<and> (\<forall>x. L = Some x \<longrightarrow> rgwFrontendLine (re_text E) (conf_text cf) = x)"
      using untouched_current by (auto simp: untouched_def rgw_inv_def ahead_def journal_def)
  next
    let ?rb = "if changed \<or> \<not> on_disk then Some (new_rollback E spec (conf_text cf) wasActive) else None"
    assume a: "all_ascii (conf_text cf) \<and> (\<forall>x. L = Some x \<longrightarrow> rgwFrontendLine (re_text E) (conf_text cf) = x)"
    then have "rb_fits E L ?rb" using new_rollback_ok [OF assms(1)] by (auto simp: rb_fits_def new_rollback_def)
    moreover have "L = Some x \<Longrightarrow> rgwFrontendLine (re_text E) (conf_text cf) = x" for x using a by blast
    moreover have "?rb = Some r \<Longrightarrow> rb_prevConf r = conf_text cf" for r by (auto simp: new_rollback_def split: if_splits)
    moreover have "\<not> changed \<Longrightarrow> rgwFrontendLine (re_text E) (conf_text cf) = wanted_line E spec"
      using ch desired_facts(1) [OF assms(1,3)] by simp
    moreover have "?rb = None \<Longrightarrow> \<not> changed" by (simp split: if_splits)
    ultimately have g: "guarded ?I (\<lambda>d. untouched E L cf d \<and> (?rb = None \<longrightarrow> staged E spec d)) (apply_changes E spec (conf_text cf) (desired_conf E spec ms) wasActive
        changed ?rb restart) (\<lambda>_. applied E L spec) ?I"
      by (rule guarded_changes [OF assms])
    show "guarded ?I (\<lambda>d. untouched E L cf d \<and> (on_disk \<longrightarrow> staged E spec d)) (apply_changes E spec (conf_text cf) (desired_conf E spec ms) wasActive
      changed ?rb restart) (\<lambda>_. applied E L spec) ?I"
      by (rule guarded_pre [OF g]) simp
  qed
  show ?thesis unfolding apply_locked_def Let_def
    by (rule guarded_then [OF m], rule guarded_bind [OF c], rule guarded_bind [OF p], rule b, simp)
qed

lemma guarded_apply_after:
  assumes "rgw_machine E" "usable_spec E spec" "list_all one_line monitors"
    "guarded (rgw_inv E L) P (recoverPendingRGWApply E) (\<lambda>_ d. rgw_inv E L d \<and> rd_pending d = None) (rgw_inv E L)"
  shows "guarded (rgw_inv E L) P (applyRGWFrontend E spec monitors restart) (\<lambda>_. applied E L spec) (rgw_inv E L)"
proof -
  let ?P = "\<lambda>d. rgw_inv E L d \<and> rd_pending d = None"
  have i: "guarded (rgw_inv E L) ?P (inspect_active E) (\<lambda>_. ?P) (rgw_inv E L)" by (rule guarded_look [OF looks_inspect(1)]) simp
  have k: "guarded (rgw_inv E L) ?P (prepareRGWKeyring E) (\<lambda>_. ?P) (rgw_inv E L)" by (rule guarded_look [OF looks_keyring]) simp
  have c: "guarded (rgw_inv E L) ?P (case formatIPv6 (re_text E) monitors of None \<Rightarrow> rg_fail (err_new ''panic: slice bounds out of range'')
      | Some ms \<Rightarrow> apply_locked E spec (desired_conf E spec ms) a restart) (\<lambda>_. applied E L spec) (rgw_inv E L)" for a
    by (rule guarded_option, rule guarded_fail, simp) (rule guarded_locked [OF assms(1,2) formatted_one_line [OF _ assms(3)]])
  show ?thesis unfolding applyRGWFrontend_def by (rule guarded_then [OF assms(4) guarded_bind [OF i guarded_then [OF k c]]])
qed

end
