(* ===== verification/Rgw_Claims.thy ===== *)
theory Rgw_Claims
  imports Rgw_Safety
begin

text \<open>
  What the publication of the gateway's frontend guarantees: every state in which the machine can be
  cut off is usable, the journal is written before the configuration, success means that the listeners
  answered with what was asked for, and recovery ends.
\<close>

section \<open>Replacing the certificates\<close>

lemma decoded_usable:
  assumes "DecodeRGWCertificate (re_tls E) certificate privateKey = Inr (cert, key)"
  shows "usable_spec E \<lparr>fs_port = port, fs_sslPort = sslPort, fs_ssl = ssl, fs_certPEM = cert, fs_keyPEM = key\<rparr>"
  using assms by (auto simp: DecodeRGWCertificate_def usable_spec_def split: if_splits option.splits)

lemma update_keeps:
  assumes "rgw_machine E" "\<And>w ms. re_monitors E w = Inr ms \<Longrightarrow> list_all one_line ms"
  shows "guarded (rgw_inv E None) (rgw_inv E None) (UpdateRGWCertificates E certificate privateKey restart) (\<lambda>_. rgw_inv E None) (rgw_inv E None)"
proof -
  let ?I = "rgw_inv E None"
  have rec: "guarded ?I ?I (recoverPendingRGWApply E) (\<lambda>_. ?I) ?I" by (rule guarded_conseq [OF recover_good [OF assms(1)]]) auto
  have act: "guarded ?I ?I (rg_map_error h (checkRGWActive E)) (\<lambda>_. ?I) ?I" for h by (intro guarded_look looks_rules) simp
  have m: "guarded ?I ?I (meanwhile E) (\<lambda>_. ?I) ?I" by (rule guarded_meanwhile [OF assms(1)]) (auto intro: inv_edit)
  have conf: "guarded ?I ?I (readRGWConf E) (\<lambda>_. ?I) ?I" by (rule guarded_conseq [OF guarded_readRGWConf [of ?I]]) auto
  have fin: "guarded ?I ?I (finishRGWApply E) (\<lambda>_. ?I) ?I"
    by (rule guarded_fix [where f = "line_of E"]) (rule guarded_conseq [OF guarded_finish [OF assms(1)]], auto intro: settled_inv)
  have see: "guarded ?I ?I (rg_see (re_monitors E)) (\<lambda>m d. ?I d \<and> (\<forall>ms. m = Inr ms \<longrightarrow> list_all one_line ms)) ?I"
    using assms(2) by (intro guardedI) (auto simp: rg_see_def)
  have app: "guarded ?I (\<lambda>d. ?I d \<and> (\<forall>ms. m = Inr ms \<longrightarrow> list_all one_line ms)) (case m of Inl e \<Rightarrow> rg_fail e | Inr monitors \<Rightarrow>
      rg_bind (applyRGWFrontend E spec monitors restart) (\<lambda>_. if \<not> restart then rg_return () else finishRGWApply E)) (\<lambda>_. ?I) ?I"
    if u: "usable_spec E spec" for m spec
  proof (rule guarded_sum, rule guarded_fail, simp)
    fix ms
    assume ms: "m = Inr ms"
    show "guarded ?I (\<lambda>d. ?I d \<and> (\<forall>ms. m = Inr ms \<longrightarrow> list_all one_line ms))
        (rg_bind (applyRGWFrontend E spec ms restart) (\<lambda>_. if \<not> restart then rg_return () else finishRGWApply E)) (\<lambda>_. ?I) ?I"
    proof (rule guarded_assume [where b = "list_all one_line ms"])
      assume "list_all one_line ms"
      from guarded_apply_after [OF assms(1) u this recover_good [OF assms(1)]]
      have "guarded ?I ?I (applyRGWFrontend E spec ms restart) (\<lambda>_. ?I) ?I" by (rule guarded_conseq) (auto simp: applied_def)
      then show "guarded ?I (\<lambda>d. ?I d \<and> (\<forall>ms. m = Inr ms \<longrightarrow> list_all one_line ms))
        (rg_bind (applyRGWFrontend E spec ms restart) (\<lambda>_. if \<not> restart then rg_return () else finishRGWApply E)) (\<lambda>_. ?I) ?I"
        by (rule guarded_bind [OF guarded_pre], simp) (rule guarded_if, rule guarded_return, simp, rule fin)
    qed (use ms in blast)
  qed
  show ?thesis unfolding UpdateRGWCertificates_def
    by (rule guarded_sum, rule guarded_fail, simp, rule guarded_pair, rule guarded_then [OF rec], rule guarded_then [OF act],
        rule guarded_then [OF m], rule guarded_bind [OF conf], rule guarded_pair, rule guarded_if, rule guarded_fail, simp,
        rule guarded_sum, rule guarded_fail, simp, rule guarded_pair, rule guarded_bind [OF see], rule app, rule decoded_usable, simp)
qed


section \<open>Applying a frontend\<close>


lemma ready_polls_last: "ready_polls E spec n w = (Inr (), w') \<Longrightarrow> \<exists>w1. ready_once E spec w1 = (Inr (), w')"
  by (induction n arbitrary: w) (auto simp: rg_bind_def rg_error_def rg_return_def split: prod.splits sum.splits)

lemma ready_last: "checkRGWReady E spec w = (Inr (), w') \<Longrightarrow> \<exists>w1. ready_once E spec w1 = (Inr (), w')"
  using ready_polls_last by (auto simp: checkRGWReady_def rg_bind_def rg_see_def)

lemma activate_ready:
  assumes "activate E spec rb wasActive w = (Inr v, w')"
  shows "\<exists>w1. ready_once E spec w1 = (Inr (), w')"
proof -
  let ?c = "if \<not> wasActive \<or> rb \<noteq> None then (if wasActive then restartRGW E else startRGW E) else rg_return ()"
  from assms have "rg_then ?c (checkRGWReady E spec) w = (Inr (), w')"
    by (auto simp: activate_def Let_def rg_bind_def rg_error_def rg_return_def rg_fail_def split: prod.splits sum.splits)
  then obtain w1 where "checkRGWReady E spec w1 = (Inr (), w')" by (auto simp: rg_then_def rg_bind_def split: prod.splits sum.splits)
  then show ?thesis by (rule ready_last)
qed

lemma changes_activate:
  "apply_changes E spec current desired wasActive changed rb True w = (Inr v, w') \<Longrightarrow> \<exists>w1. activate E spec rb wasActive w1 = (Inr v, w')"
  by (auto simp: apply_changes_def rg_bind_Inr rg_fail_def split: option.splits)

lemma locked_activate:
  "apply_locked E spec desired wasActive True w = (Inr v, w') \<Longrightarrow> \<exists>rb w1. activate E spec rb wasActive w1 = (Inr v, w')"
  unfolding apply_locked_def Let_def rg_then_def rg_bind_Inr using changes_activate by blast

lemma apply_ready:
  assumes "applyRGWFrontend E spec monitors True w = (Inr v, w')"
  shows "\<exists>w1. ready_once E spec w1 = (Inr (), w')"
proof -
  have "\<exists>desired a w1. apply_locked E spec desired a True w1 = (Inr v, w')"
    using assms unfolding applyRGWFrontend_def rg_then_def by (auto simp: rg_bind_Inr rg_fail_def split: option.splits) blast
  then show ?thesis using locked_activate activate_ready by blast
qed


section \<open>Recovery ends\<close>

text \<open>Total correctness: from such a world the procedure succeeds.\<close>

definition wins :: "(rgw_world \<Rightarrow> bool) \<Rightarrow> 'a rg \<Rightarrow> ('a \<Rightarrow> rgw_world \<Rightarrow> bool) \<Rightarrow> bool" where
  "wins P m Q \<longleftrightarrow> (\<forall>w. P w \<longrightarrow> (\<exists>v w'. m w = (Inr v, w') \<and> Q v w'))"

named_theorems wins_rules "rules for procedures that succeed"

lemma wins_return [wins_rules]: "(\<And>w. P w \<Longrightarrow> Q v w) \<Longrightarrow> wins P (rg_return v) Q"
  by (simp add: wins_def rg_return_def)

lemma wins_bind:
  assumes "wins P f M" "\<And>v. wins (M v) (g v) Q"
  shows "wins P (rg_bind f g) Q"
  unfolding wins_def
proof (intro allI impI)
  fix w
  assume "P w"
  with assms(1) obtain v w1 where f: "f w = (Inr v, w1)" "M v w1" unfolding wins_def by blast
  with assms(2) obtain u w2 where "g v w1 = (Inr u, w2)" "Q u w2" unfolding wins_def by blast
  with f(1) show "\<exists>v w'. rg_bind f g w = (Inr v, w') \<and> Q v w'" by (simp add: rg_bind_def)
qed

lemma wins_bind_pair: "wins P f (\<lambda>(a, b). M a b) \<Longrightarrow> (\<And>a b. wins (M a b) (g a b) Q) \<Longrightarrow> wins P (rg_bind f (\<lambda>(a, b). g a b)) Q"
  by (rule wins_bind) auto

lemma wins_then: "wins P f (\<lambda>_. M) \<Longrightarrow> wins M g Q \<Longrightarrow> wins P (rg_then f g) Q"
  unfolding rg_then_def by (rule wins_bind)

lemma wins_conseq: "wins P m Q \<Longrightarrow> (\<And>w. P' w \<Longrightarrow> P w) \<Longrightarrow> (\<And>v w. Q v w \<Longrightarrow> Q' v w) \<Longrightarrow> wins P' m Q'"
  unfolding wins_def by blast

lemma wins_map_error [wins_rules]: "wins P f Q \<Longrightarrow> wins P (rg_map_error h f) Q"
  unfolding wins_def rg_map_error_def by fastforce

lemma wins_error: "wins P f (\<lambda>_. Q None) \<Longrightarrow> wins P (rg_error f) Q"
  unfolding wins_def rg_error_def by fastforce

lemma wins_assume: "(\<And>w. P w \<Longrightarrow> b) \<Longrightarrow> (b \<Longrightarrow> wins P m Q) \<Longrightarrow> wins P m Q"
  unfolding wins_def by blast

lemma wins_get: "(\<And>w. P w \<Longrightarrow> Q (f (rw_disk w)) w) \<Longrightarrow> wins P (rg_get f) Q"
  by (simp add: wins_def rg_get_def)

lemma wins_see: "(\<And>w. P w \<Longrightarrow> Q (f w) w) \<Longrightarrow> wins P (rg_see f) Q"
  by (simp add: wins_def rg_see_def)

definition is_start :: "rgw_call \<Rightarrow> bool" where
  "is_start c \<longleftrightarrow> c = Command [''snapctl'', ''start'', ''microceph.rgw'', ''--enable''] \<or> c = Command [''snapctl'', ''restart'', ''microceph.rgw'']"

definition started :: "rgw_world \<Rightarrow> bool" where
  "started w \<longleftrightarrow> list_ex (is_start \<circ> fst) (rw_trace w)"

text \<open>A machine on which calls and commands work, the gateway runs once it was started, answers on its
  listeners, and presents the certificate its configuration names.\<close>

definition healthy :: "rgw_env \<Rightarrow> bool" where
  "healthy E \<longleftrightarrow>
     (\<forall>w c. re_fault E w c = None) \<and> (\<forall>w args. \<exists>out. re_answer E w args = Inr out) \<and> (\<forall>w. \<exists>b. re_keyring E w = Inr b) \<and>
     (\<forall>w out. re_answer E w [''snapctl'', ''services'', ''microceph.rgw''] = Inr out \<longrightarrow>
        (\<exists>b. service_state (re_text E) (text_lines out) = Some b \<and> (started w \<longrightarrow> b))) \<and>
     (\<forall>w port. \<exists>a. re_http E w port = Inr a \<and> checkRGWHTTPFrontend a = None) \<and>
     (\<forall>w port cert. content_of (rw_disk w) (fst (rgwConfTLSPaths (re_text E) (conf_text (rd_conf (rw_disk w))))) = Some cert \<longrightarrow>
        (\<exists>b bs ps. filter (\<lambda>b. fst b = ''CERTIFICATE'') (re_pem E cert) = b # bs \<and> re_peer E w port = Inr (snd b # ps)))"

lemma healthyD:
  assumes "healthy E"
  shows "re_fault E w c = None" "\<exists>out. re_answer E w args = Inr out" "\<exists>b. re_keyring E w = Inr b"
    "re_answer E w [''snapctl'', ''services'', ''microceph.rgw''] = Inr out \<Longrightarrow> \<exists>b. service_state (re_text E) (text_lines out) = Some b \<and> (started w \<longrightarrow> b)"
    "\<exists>a. re_http E w port = Inr a \<and> checkRGWHTTPFrontend a = None"
    "content_of (rw_disk w) (fst (rgwConfTLSPaths (re_text E) (conf_text (rd_conf (rw_disk w))))) = Some cert \<Longrightarrow>
      \<exists>b bs ps. filter (\<lambda>b. fst b = ''CERTIFICATE'') (re_pem E cert) = b # bs \<and> re_peer E w port = Inr (snd b # ps)"
  using assms unfolding healthy_def by blast+

text \<open>The world while recovery activates a frontend: files, line and journal stay.\<close>

definition steady :: "rgw_env \<Rightarrow> string \<Rightarrow> (string \<times> string) list \<Rightarrow> json option option \<Rightarrow> bool \<Rightarrow> rgw_world \<Rightarrow> bool" where
  "steady E l fs p up w \<longleftrightarrow>
     good E (rw_disk w) \<and> line_of E (rw_disk w) = l \<and> rd_files (rw_disk w) = fs \<and> rd_pending (rw_disk w) = p \<and> (up \<longrightarrow> started w)"

lemma steady_log: "steady E l fs p up w \<Longrightarrow> steady E l fs p up (log_call c (rw_disk w) w)"
  by (auto simp: steady_def log_call_def started_def)

lemma wins_touch [wins_rules]:
  assumes "healthy E"
  shows "wins (steady E l fs p up) (touch E what path) (\<lambda>_. steady E l fs p up)"
  using healthyD(1) [OF assms] steady_log by (auto simp: wins_def sys_def)

lemma wins_command:
  assumes "healthy E"
  shows "wins (steady E l fs p up) (command E args) (\<lambda>_. steady E l fs p up)"
  unfolding wins_def command_def
proof (intro allI impI)
  fix w
  assume "steady E l fs p up w"
  moreover obtain out where "re_answer E w args = Inr out" using healthyD(2) [OF assms] by blast
  ultimately show "\<exists>v w'. (case re_answer E w args of Inl e \<Rightarrow> (Inl (err_new e), log_call (Command args) (rw_disk w) w)
      | Inr out \<Rightarrow> (Inr out, log_call (Command args) (rw_disk w) w)) = (Inr v, w') \<and> steady E l fs p up w'"
    using steady_log by simp
qed

lemma wins_run [wins_rules]: "healthy E \<Longrightarrow> wins (steady E l fs p up) (run_cmd E args) (\<lambda>_. steady E l fs p up)"
  unfolding run_cmd_def by (rule wins_bind [OF wins_command]) (auto intro: wins_return)

lemma wins_up:
  assumes "healthy E" "is_start (Command args)"
  shows "wins (steady E l fs p up) (run_cmd E args) (\<lambda>_. steady E l fs p True)"
  unfolding wins_def
proof (intro allI impI)
  fix w
  assume s: "steady E l fs p up w"
  obtain out where "re_answer E w args = Inr out" using healthyD(2) [OF assms(1)] by blast
  then have "run_cmd E args w = (Inr (), log_call (Command args) (rw_disk w) w)" by (simp add: run_cmd_def command_def rg_bind_def rg_return_def)
  moreover have "steady E l fs p True (log_call (Command args) (rw_disk w) w)"
    using s assms(2) by (auto simp: steady_def log_call_def started_def)
  ultimately show "\<exists>v w'. run_cmd E args w = (Inr v, w') \<and> steady E l fs p True w'" by blast
qed

lemma wins_meanwhile:
  assumes "rgw_machine E"
  shows "wins (steady E l fs p up) (meanwhile E) (\<lambda>_. steady E l fs p up)"
  unfolding wins_def
proof (intro allI impI)
  fix w
  assume s: "steady E l fs p up w"
  show "\<exists>v w'. meanwhile E w = (Inr v, w') \<and> steady E l fs p up w'"
  proof (cases "re_edit E w")
    case (Some e)
    then have e: "plain_edit e" using assms by (auto simp: rgw_machine_def)
    have g: "good E (rw_disk w)" using s by (simp add: steady_def)
    have "steady E l fs p up (log_call ConfEdit (edit_conf E e (rw_disk w)) w)"
      using s edit_facts(1,2) [OF e g] by (auto simp: steady_def log_call_def started_def edit_conf_def)
    then show ?thesis using Some by (simp add: meanwhile_def edit_conf_def)
  qed (use s in \<open>simp add: meanwhile_def\<close>)
qed

lemma wins_read_conf:
  assumes "healthy E"
  shows "wins (steady E l fs p up) (read_conf E) (\<lambda>c w. steady E l fs p up w \<and> c = rd_conf (rw_disk w))"
  unfolding read_conf_def by (rule wins_then [OF wins_touch [OF assms]]) (simp add: wins_get)

lemma wins_active:
  assumes "healthy E"
  shows "wins (steady E l fs p True) (checkRGWActive E) (\<lambda>_. steady E l fs p True)"
    "wins (steady E l fs p up) (inspect_active E) (\<lambda>_. steady E l fs p up)"
proof -
  have c: "\<exists>r. checkRGWActive E w = (r, log_call (Command [''snapctl'', ''services'', ''microceph.rgw'']) (rw_disk w) w) \<and>
      (r = Inr () \<or> (\<not> started w \<and> r = Inl (err_of ErrRGWInactive)))" for w
  proof -
    obtain out where o: "re_answer E w [''snapctl'', ''services'', ''microceph.rgw''] = Inr out" using healthyD(2) [OF assms] by blast
    with healthyD(4) [OF assms] obtain b where "service_state (re_text E) (text_lines out) = Some b" "started w \<longrightarrow> b" by blast
    with o show ?thesis by (cases b) (auto simp: checkRGWActive_def command_def rg_bind_def rg_return_def rg_fail_def)
  qed
  show "wins (steady E l fs p True) (checkRGWActive E) (\<lambda>_. steady E l fs p True)"
    unfolding wins_def
  proof (intro allI impI)
    fix w
    assume s: "steady E l fs p True w"
    then have "checkRGWActive E w = (Inr (), log_call (Command [''snapctl'', ''services'', ''microceph.rgw'']) (rw_disk w) w)"
      using c [of w] by (auto simp: steady_def)
    then show "\<exists>v w'. checkRGWActive E w = (Inr v, w') \<and> steady E l fs p True w'" using steady_log [OF s] by blast
  qed
  show "wins (steady E l fs p up) (inspect_active E) (\<lambda>_. steady E l fs p up)"
    unfolding wins_def
  proof (intro allI impI)
    fix w
    assume s: "steady E l fs p up w"
    from c [of w] steady_log [OF s] show "\<exists>v w'. inspect_active E w = (Inr v, w') \<and> steady E l fs p up w'"
      by (auto simp: inspect_active_def rg_error_def rg_bind_def rg_return_def)
  qed
qed


text \<open>A line that the program's own renderer could have written for ports that are allowed.\<close>

definition proper_line :: "string \<Rightarrow> bool" where
  "proper_line l \<longleftrightarrow>
     (\<exists>port sslPort cp kp. l = frontend_of port sslPort cp kp \<and> 0 \<le> port \<and> port \<le> 65535 \<and>
       ((cp = [] \<and> kp = [] \<and> port \<noteq> 0) \<or> (solid cp \<and> solid kp \<and> 0 < sslPort \<and> sslPort \<le> 65535 \<and> port \<noteq> sslPort)))"

abbreviation cert_path :: "rgw_env \<Rightarrow> string \<Rightarrow> string" where
  "cert_path E l \<equiv> fst (tls_tokens (Fields (re_text E) l) ([], []))"

lemma wins_read_file:
  assumes "healthy E" "map_of fs q = Some s"
  shows "wins (steady E l fs p up) (read_file E q) (\<lambda>v w. steady E l fs p up w \<and> v = s)"
proof -
  have g: "wins (steady E l fs p up) (rg_get (\<lambda>d. content_of d q)) (\<lambda>c w. steady E l fs p up w \<and> c = Some s)"
    using assms(2) by (intro wins_get) (auto simp: content_of_def steady_def)
  have "wins (\<lambda>w. steady E l fs p up w \<and> c = Some s) (case c of Some s \<Rightarrow> rg_return s
      | None \<Rightarrow> rg_fail (err_new (''open '' @ q @ '': no such file or directory''))) (\<lambda>v w. steady E l fs p up w \<and> v = s)" for c
    by (rule wins_assume [where b = "c = Some s"]) (auto intro: wins_return)
  then show ?thesis unfolding read_file_def by (intro wins_then [OF wins_touch [OF assms(1)]] wins_bind [OF g])
qed

lemma frontend_starts: "has_prefix (frontend_of port sslPort cp kp) ''rgw frontends = beast ''"
  by (auto simp: frontend_of_def has_prefix_def)

lemma wins_resolve:
  assumes "healthy E" "rgwConfTLSPaths (re_text E) current = (cp, kp)" "cp \<noteq> []" "kp \<noteq> []"
    "map_of fs cp = Some cert" "map_of fs kp = Some key" "x509_key_pair (re_tls E) cert key"
  shows "wins (steady E l fs p up) (resolveRGWTLSReuse E current) (\<lambda>v w. steady E l fs p up w \<and> v = (cert, key))"
proof -
  let ?S = "steady E l fs p up" and ?Q = "\<lambda>v w. steady E l fs p up w \<and> v = (cert, key)"
  have b: "wins (\<lambda>w. ?S w \<and> k = key) (if \<not> x509_key_pair (re_tls E) cert k then rg_fail e else rg_return (cert, k)) ?Q" for k e
    by (rule wins_assume [where b = "k = key"]) (auto simp: assms(7) intro!: wins_return)
  have k: "wins ?S (rg_bind (rg_map_error h (read_file E kp)) (\<lambda>k. if \<not> x509_key_pair (re_tls E) cert k then rg_fail e else rg_return (cert, k))) ?Q" for h e
    by (rule wins_bind [OF wins_map_error [OF wins_read_file [OF assms(1,6)]] b])
  have "wins (\<lambda>w. ?S w \<and> c = cert) (rg_bind (rg_map_error h (read_file E kp)) (\<lambda>k. if \<not> x509_key_pair (re_tls E) c k then rg_fail e else rg_return (c, k))) ?Q" for c h e
    by (rule wins_assume [where b = "c = cert"], simp) (hypsubst, rule wins_conseq [OF k], simp_all)
  then show ?thesis unfolding resolveRGWTLSReuse_def assms(2) prod.case using assms(3,4)
    by (simp add: wins_bind [OF wins_map_error [OF wins_read_file [OF assms(1,5)]]])
qed

text \<open>On a good disk the pair that a line names is there.\<close>

lemma steady_pair:
  assumes "steady E l fs p up w" "tls_tokens (Fields (re_text E) l) ([], []) = (cp, kp)" "cp \<noteq> []"
  shows "\<exists>cert key. map_of fs cp = Some cert \<and> map_of fs kp = Some key \<and> x509_key_pair (re_tls E) cert key"
proof -
  have d: "good E (rw_disk w)" "line_of E (rw_disk w) = l" "rd_files (rw_disk w) = fs" using assms(1) by (auto simp: steady_def)
  then have "rgwConfTLSPaths (re_text E) (conf_text (rd_conf (rw_disk w))) = (cp, kp)" using assms(2) by (simp add: rgwConfTLSPaths_def)
  then show ?thesis using d assms(3) by (auto simp: good_def intact_def sound_pair_def content_of_def)
qed

text \<open>Reading the frontend back succeeds, with the certificate that the line names.\<close>

lemma wins_config:
  assumes "healthy E" "proper_line l" "rgwFrontendLine (re_text E) current = l"
  shows "wins (steady E l fs p up) (rgwFrontendFromConfig E current)
    (\<lambda>spec w. steady E l fs p up w \<and> (fs_ssl spec \<longrightarrow> map_of fs (cert_path E l) = Some (fs_certPEM spec)))"
proof -
  let ?Q = "\<lambda>spec w. steady E l fs p up w \<and> (fs_ssl spec \<longrightarrow> map_of fs (cert_path E l) = Some (fs_certPEM spec))"
  from assms(2) obtain port sslPort cp kp where l: "l = frontend_of port sslPort cp kp" "0 \<le> port" "port \<le> 65535"
    "(cp = [] \<and> kp = [] \<and> port \<noteq> 0) \<or> (solid cp \<and> solid kp \<and> 0 < sslPort \<and> sslPort \<le> 65535 \<and> port \<noteq> sslPort)" by (auto simp: proper_line_def)
  have pair: "(cp = [] \<and> kp = []) \<or> (solid cp \<and> solid kp)" "cp = [] \<longleftrightarrow> kp = []" using l(4) by (auto simp: solid_def)
  have tls: "tls_tokens (Fields (re_text E) l) ([], []) = (cp, kp)" unfolding l(1) frontend_fields [OF pair(1)] by (rule tls_of_tokens [OF pair(2)])
  then have paths: "rgwConfTLSPaths (re_text E) current = (cp, kp)" by (simp add: rgwConfTLSPaths_def assms(3))
  have ports: "rgwConfPorts (re_text E) current = port_tokens (frontend_tokens port sslPort cp kp) (0, 0)"
    by (simp add: rgwConfPorts_def assms(3) l(1) frontend_fields [OF pair(1)])
  have start: "has_prefix (rgwFrontendLine (re_text E) current) ''rgw frontends = beast ''" using frontend_starts by (simp add: assms(3) l(1))
  show ?thesis
  proof (cases "cp = []")
    case True
    have "port_tokens (frontend_tokens port sslPort cp kp) (0, 0) = Inr (port, 0)"
      using True l(2,3) by (simp add: frontend_tokens_def cut_equals_def ParseInt_show int64_def)
    with True l pair start paths ports show ?thesis by (auto simp: rgwFrontendFromConfig_def solid_def intro!: wins_return)
  next
    case False
    with l have s: "solid cp" "solid kp" "0 < sslPort" "sslPort \<le> 65535" "port \<noteq> sslPort" by auto
    have "rgwConfPorts (re_text E) current = Inr (port, sslPort)"
      unfolding ports using ports_of_tokens [of port sslPort cp kp] False l(2,3) s(3,4) by (simp add: int64_def)
    with start paths l s have e: "rgwFrontendFromConfig E current = rg_bind (resolveRGWTLSReuse E current) (\<lambda>(cert, key).
        rg_return \<lparr>fs_port = port, fs_sslPort = sslPort, fs_ssl = True, fs_certPEM = cert, fs_keyPEM = key\<rparr>)"
      by (simp add: rgwFrontendFromConfig_def)
    show ?thesis
    proof (rule wins_assume [OF steady_pair [OF _ tls False]], assumption)
      assume "\<exists>cert key. map_of fs cp = Some cert \<and> map_of fs kp = Some key \<and> x509_key_pair (re_tls E) cert key"
      then obtain cert key where ck: "map_of fs cp = Some cert" "map_of fs kp = Some key" "x509_key_pair (re_tls E) cert key" by blast
      show ?thesis unfolding e using ck(1) tls
        by (intro wins_bind [OF wins_resolve [OF assms(1) paths False _ ck]]) (use False pair in \<open>auto simp: wins_def rg_return_def\<close>)
    qed
  qed
qed


lemma wins_connect: "wins (steady E l fs p up) (connect port tls) (\<lambda>_. steady E l fs p up)"
  using steady_log by (auto simp: wins_def connect_def)

lemma wins_plain: "healthy E \<Longrightarrow> wins (steady E l fs p up) (check_plain E port) (\<lambda>_. steady E l fs p up)"
proof -
  assume h: "healthy E"
  have "wins (\<lambda>w. steady E l fs p up w \<and> (\<exists>a. r = Inr a \<and> checkRGWHTTPFrontend a = None)) (rg_then (connect port False)
      (case r of Inl e \<Rightarrow> rg_fail (err_new e) | Inr a \<Rightarrow> (case checkRGWHTTPFrontend a of Some e \<Rightarrow> rg_fail e | None \<Rightarrow> rg_return ())))
      (\<lambda>_. steady E l fs p up)" for r
    by (rule wins_assume [where b = "\<exists>a. r = Inr a \<and> checkRGWHTTPFrontend a = None"], simp)
      (auto intro!: wins_then [OF wins_connect] wins_return)
  moreover have "wins (steady E l fs p up) (rg_see (\<lambda>w. re_http E w port)) (\<lambda>r w. steady E l fs p up w \<and> (\<exists>a. r = Inr a \<and> checkRGWHTTPFrontend a = None))"
    using healthyD(5) [OF h] by (intro wins_see) simp
  ultimately show ?thesis unfolding check_plain_def by (intro wins_bind)
qed

lemma wins_tls:
  assumes "healthy E" "map_of fs (cert_path E l) = Some cert"
  shows "wins (steady E l fs p up) (check_tls E cert port) (\<lambda>_. steady E l fs p up)"
  unfolding wins_def
proof (intro allI impI)
  fix w
  assume s: "steady E l fs p up w"
  then have "content_of (rw_disk w) (fst (rgwConfTLSPaths (re_text E) (conf_text (rd_conf (rw_disk w))))) = Some cert"
    using assms(2) by (simp add: steady_def rgwConfTLSPaths_def content_of_def)
  from healthyD(6) [OF assms(1) this] obtain b bs ps where
    "filter (\<lambda>b. fst b = ''CERTIFICATE'') (re_pem E cert) = b # bs" "re_peer E w port = Inr (snd b # ps)" by blast
  then have "check_tls E cert port w = (Inr (), log_call (Connect port True) (rw_disk w) w)"
    by (simp add: check_tls_def rg_bind_def rg_see_def rg_then_def connect_def rg_return_def)
  then show "\<exists>v w'. check_tls E cert port w = (Inr v, w') \<and> steady E l fs p up w'" using steady_log [OF s] by blast
qed

lemma wins_ready:
  assumes "healthy E" "fs_ssl spec \<longrightarrow> map_of fs (cert_path E l) = Some (fs_certPEM spec)"
  shows "wins (steady E l fs p True) (checkRGWReady E spec) (\<lambda>_. steady E l fs p True)"
proof -
  have f: "wins (steady E l fs p True) (checkRGWFrontend E spec) (\<lambda>_. steady E l fs p True)"
    unfolding checkRGWFrontend_def using assms wins_plain wins_tls
    by (intro wins_then [where M = "steady E l fs p True"]) (auto intro!: wins_return)
  have o: "wins (steady E l fs p True) (ready_once E spec) (\<lambda>_. steady E l fs p True)"
    unfolding ready_once_def by (rule wins_then [OF wins_active(1) [OF assms(1)] f])
  have "wins (steady E l fs p True) (ready_polls E spec n) (\<lambda>_. steady E l fs p True)" for n
  proof (cases n)
    case 0
    then show ?thesis using o by simp
  next
    case (Suc m)
    have "wins (steady E l fs p True) (rg_error (ready_once E spec)) (\<lambda>e w. steady E l fs p True w \<and> e = None)"
      by (rule wins_error) (use o in simp)
    moreover have "wins (\<lambda>w. steady E l fs p True w \<and> e = None) (case e of None \<Rightarrow> rg_return () | Some _ \<Rightarrow> ready_polls E spec m) (\<lambda>_. steady E l fs p True)" for e
      by (cases e) (auto simp: wins_def rg_return_def)
    ultimately show ?thesis unfolding Suc ready_polls.simps by (rule wins_bind)
  qed
  then show ?thesis unfolding checkRGWReady_def by (intro wins_bind [OF wins_see [where Q = "\<lambda>_. steady E l fs p True"]])
qed

lemma wins_keyring:
  assumes "healthy E"
  shows "wins (steady E l fs p up) (prepareRGWKeyring E) (\<lambda>_. steady E l fs p up)"
proof -
  let ?S = "steady E l fs p up"
  have s: "wins ?S (rg_see (re_keyring E)) (\<lambda>r w. ?S w \<and> (\<exists>b. r = Inr b))" using healthyD(3) [OF assms] by (intro wins_see) simp
  have c: "wins (\<lambda>w. ?S w \<and> (\<exists>b. r = Inr b)) (rg_then (touch E what path) (case r of Inl e \<Rightarrow> rg_fail (err_new e) | Inr True \<Rightarrow> rg_return () | Inr False \<Rightarrow> run_cmd E args))
      (\<lambda>_. ?S)" for r what path args
    by (rule wins_assume [where b = "\<exists>b. r = Inr b"], simp)
      (auto intro!: wins_then [OF wins_touch [OF assms]] wins_return wins_run [OF assms] split: bool.splits)
  have k: "wins ?S (createRGWKeyring E path) (\<lambda>_. ?S)" for path
    unfolding createRGWKeyring_def by (rule wins_then [OF wins_touch [OF assms] wins_bind [OF s c]])
  have "wins ?S (symlinkRGWKeyring E path) (\<lambda>_. ?S)" for path
    unfolding symlinkRGWKeyring_def Let_def
    by (rule wins_bind [OF wins_see [where Q = "\<lambda>_. ?S"]]) (auto intro!: wins_return wins_then [OF wins_touch [OF assms]] wins_touch [OF assms])
  with k show ?thesis unfolding prepareRGWKeyring_def Let_def by (intro wins_then [where M = ?S] wins_map_error)
qed

lemma wins_reactivate:
  assumes "healthy E" "proper_line l" "rgwFrontendLine (re_text E) current = l"
  shows "wins (steady E l fs p False) (reactivate E current active) (\<lambda>_. steady E l fs p True)"
proof -
  have u: "wins (steady E l fs p False) (if active then restartRGW E else startRGW E) (\<lambda>_. steady E l fs p True)"
    unfolding restartRGW_def startRGW_def using wins_up [OF assms(1)] by (auto simp: is_start_def)
  have "wins (\<lambda>w. steady E l fs p False w \<and> (fs_ssl spec \<longrightarrow> map_of fs (cert_path E l) = Some (fs_certPEM spec)))
      (rg_then (prepareRGWKeyring E) (rg_then (if active then restartRGW E else startRGW E) (checkRGWReady E spec))) (\<lambda>_. steady E l fs p True)" for spec
    by (rule wins_assume [where b = "fs_ssl spec \<longrightarrow> map_of fs (cert_path E l) = Some (fs_certPEM spec)"], simp)
      (rule wins_conseq [OF wins_then [OF wins_keyring [OF assms(1)] wins_then [OF u wins_ready [OF assms(1)]]]], auto)
  then show ?thesis unfolding reactivate_def by (rule wins_bind [OF wins_config [OF assms]])
qed


lemma write_works:
  assumes "healthy E"
  shows "\<exists>w'. writeRGWFile E path store w = (Inr (), w') \<and> rw_disk w' = store (rw_disk w)"
  using healthyD(1) [OF assms]
  by (simp add: writeRGWFile_def rg_then_def rg_bind_def rg_try_def rg_error_def sys_def log_call_def rg_return_def)

lemma wins_rebase:
  assumes "healthy E" "rgw_machine E" "l \<noteq> []"
  shows "wins (steady E l fs p True) (rg_then (meanwhile E) (rg_bind (readRGWConf E) (\<lambda>conf. rg_then (writePendingApplyMarker E conf True) (remove_pending E))))
    (\<lambda>_ w. rd_pending (rw_disk w) = None \<and> line_of E (rw_disk w) = l)"
proof -
  let ?S = "steady E l fs p True"
  have some: "wins (\<lambda>w. ?S w \<and> c = rd_conf (rw_disk w)) (case c of Some s \<Rightarrow> rg_return s | None \<Rightarrow> rg_fail e) (\<lambda>_. ?S)" for c e
    using assms(3) by (cases c) (auto simp: wins_def rg_return_def steady_def no_line)
  have r: "wins ?S (readRGWConf E) (\<lambda>_. ?S)"
    unfolding readRGWConf_def by (rule wins_bind [OF wins_map_error [OF wins_read_conf [OF assms(1)]] some])
  have "wins ?S (rg_then (writePendingApplyMarker E c True) (remove_pending E)) (\<lambda>_ w. rd_pending (rw_disk w) = None \<and> line_of E (rw_disk w) = l)" for c
  proof (rule wins_then [where M = "\<lambda>w. line_of E (rw_disk w) = l"])
    show "wins ?S (writePendingApplyMarker E c True) (\<lambda>_ w. line_of E (rw_disk w) = l)"
      unfolding wins_def writePendingApplyMarker_def
    proof (intro allI impI)
      fix w
      assume "?S w"
      with write_works [OF assms(1), of "rgwPendingApplyPath E" "put_pending (pending_json E c True)" w]
      show "\<exists>v w'. writeRGWFile E (rgwPendingApplyPath E) (put_pending (pending_json E c True)) w = (Inr v, w') \<and> line_of E (rw_disk w') = l"
        by (auto simp: steady_def)
    qed
    show "wins (\<lambda>w. line_of E (rw_disk w) = l) (remove_pending E) (\<lambda>_ w. rd_pending (rw_disk w) = None \<and> line_of E (rw_disk w) = l)"
      using healthyD(1) [OF assms(1)] by (simp add: wins_def remove_pending_def sys_def log_call_def)
  qed
  then show ?thesis by (rule wins_then [OF wins_meanwhile [OF assms(2)] wins_bind [OF r]])
qed

lemma proper_line_nonempty: "proper_line l \<Longrightarrow> l \<noteq> []"
  by (auto simp: proper_line_def frontend_of_def)

lemma wins_redrive:
  assumes "healthy E" "rgw_machine E" "proper_line l" "rgwFrontendLine (re_text E) current = l"
  shows "wins (steady E l fs p False) (redrive E current previous prevActive) (\<lambda>_ w. rd_pending (rw_disk w) = None \<and> line_of E (rw_disk w) = l)"
proof -
  let ?Q = "\<lambda>_ w. rd_pending (rw_disk w) = None \<and> line_of E (rw_disk w) = l"
  have a: "wins (steady E l fs p False) (rg_error (reactivate E current active)) (\<lambda>e w. steady E l fs p True w \<and> e = None)" for active
    by (rule wins_error) (use wins_reactivate [OF assms(1,3,4)] in simp)
  have "wins (\<lambda>w. steady E l fs p True w \<and> e = None) (case e of
         None \<Rightarrow>
           rg_map_error h (rg_then (meanwhile E)
               (rg_bind (readRGWConf E) (\<lambda>conf. rg_then (writePendingApplyMarker E conf True) (remove_pending E))))
       | Some e \<Rightarrow> f e) ?Q" for e h f
    using wins_map_error [OF wins_rebase [OF assms(1,2) proper_line_nonempty [OF assms(3)]]] by (cases e) (simp_all add: wins_def)
  then show ?thesis unfolding redrive_def by (intro wins_bind [OF wins_active(2) [OF assms(1)] wins_bind [OF a]])
qed

lemma wins_state:
  assumes "healthy E" "rgw_machine E" "\<And>doc. p = Some doc \<Longrightarrow> dec_pending E doc \<noteq> None"
  shows "wins (steady E l fs p up) (readRGWState E) (\<lambda>(c, m) w. steady E l fs p up w \<and> rgwFrontendLine (re_text E) c = l \<and> (m = None \<longrightarrow> p = None))"
proof -
  let ?S = "steady E l fs p up"
  have g: "wins ?S (rg_get rd_pending) (\<lambda>x w. ?S w \<and> x = p)" by (rule wins_get) (simp add: steady_def)
  have d: "wins (\<lambda>w. ?S w \<and> x = p) (case x of None \<Rightarrow> rg_return None | Some doc \<Rightarrow>
      (case dec_pending E doc of None \<Rightarrow> rg_fail e | Some m \<Rightarrow> rg_return (Some m))) (\<lambda>m w. ?S w \<and> (m = None \<longrightarrow> p = None))" for x e
    using assms(3) by (cases x) (auto simp: wins_def rg_return_def split: option.splits)
  have pend: "wins ?S (readPendingApply E) (\<lambda>m w. ?S w \<and> (m = None \<longrightarrow> p = None))"
    unfolding readPendingApply_def by (rule wins_then [OF wins_touch [OF assms(1)] wins_bind [OF g d]])
  have "wins (\<lambda>w. ?S w \<and> c = rd_conf (rw_disk w)) (rg_bind (rg_map_error h (readPendingApply E)) (\<lambda>pending. rg_return (conf_text c, pending)))
      (\<lambda>(c, m) w. ?S w \<and> rgwFrontendLine (re_text E) c = l \<and> (m = None \<longrightarrow> p = None))" for c h
    by (rule wins_assume [where b = "rgwFrontendLine (re_text E) (conf_text c) = l"], simp add: steady_def,
        rule wins_conseq [OF wins_bind [OF wins_map_error [OF pend]]]) (auto intro!: wins_return)
  then show ?thesis unfolding readRGWState_def
    by (rule wins_then [OF wins_meanwhile [OF assms(2)] wins_bind [OF wins_map_error [OF wins_read_conf [OF assms(1)]]]])
qed

lemma wins_recover:
  assumes "healthy E" "rgw_machine E" "proper_line l" "\<And>doc. p = Some doc \<Longrightarrow> dec_pending E doc \<noteq> None"
  shows "wins (steady E l fs p False) (recoverPendingRGWApply E) (\<lambda>_ w. rd_pending (rw_disk w) = None \<and> line_of E (rw_disk w) = l)"
proof -
  let ?Q = "\<lambda>_ w. rd_pending (rw_disk w) = None \<and> line_of E (rw_disk w) = l"
  have "wins (\<lambda>w. steady E l fs p False w \<and> rgwFrontendLine (re_text E) c = l \<and> (m = None \<longrightarrow> p = None))
      (case m of None \<Rightarrow> rg_return () | Some (previous, prevActive) \<Rightarrow> redrive E c previous prevActive) ?Q" for c m
  proof (rule wins_assume [where b = "rgwFrontendLine (re_text E) c = l \<and> (m = None \<longrightarrow> p = None)"], simp)
    assume b: "rgwFrontendLine (re_text E) c = l \<and> (m = None \<longrightarrow> p = None)"
    show "wins (\<lambda>w. steady E l fs p False w \<and> rgwFrontendLine (re_text E) c = l \<and> (m = None \<longrightarrow> p = None))
      (case m of None \<Rightarrow> rg_return () | Some (previous, prevActive) \<Rightarrow> redrive E c previous prevActive) ?Q"
    proof (cases m)
      case None
      with b show ?thesis by (auto simp: wins_def rg_return_def steady_def)
    next
      case (Some x)
      with b wins_redrive [OF assms(1-3), of c fs p "fst x" "snd x"] show ?thesis by (cases x) (auto simp: wins_def)
    qed
  qed
  moreover have "wins (steady E l fs p False) (readRGWState E) (\<lambda>(c, m) w. steady E l fs p False w \<and> rgwFrontendLine (re_text E) c = l \<and> (m = None \<longrightarrow> p = None))"
    by (rule wins_state [OF assms(1,2)]) (rule assms(4))
  ultimately show ?thesis unfolding recoverPendingRGWApply_def by (intro wins_bind_pair)
qed



section \<open>A concrete machine\<close>

definition calm_pair :: "string \<Rightarrow> string \<Rightarrow> bool" where
  "calm_pair c k \<longleftrightarrow> (c = ''c1'' \<and> k = ''k1'') \<or> (c = ''c2'' \<and> k = ''k2'')"

definition calm_hash :: "string \<Rightarrow> string" where
  "calm_hash x = (if x = ''c1k1'' then ''h1'' else if x = ''c2k2'' then ''h2'' else ''h0'')"

text \<open>Calls work, the service is active, and the listeners answer with what the disk holds.\<close>

definition calm_rgw :: rgw_env where
  "calm_rgw = \<lparr>re_text = \<lparr>rt_go = plain_lib, rt_fields = (\<lambda>_. []), rt_parse_ip = (\<lambda>_. False)\<rparr>,
     re_tls = \<lparr>base64_decode = Some, x509_key_pair = calm_pair\<rparr>, re_hash = calm_hash, re_utf8 = (\<lambda>s. s), re_pem = (\<lambda>c. [(''CERTIFICATE'', c)]),
     re_ConfPath = ''/conf'', re_RunPath = ''/run'', re_DataPath = ''/data'', re_SSLFilesPath = ''/ssl'',
     re_fault = (\<lambda>_ _. None), re_answer = (\<lambda>_ _. Inr ''microceph.rgw enabled active''), re_keyring = (\<lambda>_. Inr True),
     re_link = (\<lambda>_. None),
     re_http = (\<lambda>_ _. Inr \<lparr>ha_Status = 403, ha_RequestID = ''tx1'',
       ha_Body = Inr \<lparr>xb_Space = '''', xb_Local = ''Error'', xb_Code = ''AccessDenied'', xb_RequestID = ''tx1''\<rparr>\<rparr>),
     re_peer = (\<lambda>w _. case content_of (rw_disk w) (fst (rgwConfTLSPaths \<lparr>rt_go = plain_lib, rt_fields = (\<lambda>_. []), rt_parse_ip = (\<lambda>_. False)\<rparr>
         (conf_text (rd_conf (rw_disk w))))) of Some c \<Rightarrow> Inr [c] | None \<Rightarrow> Inl ''closed''),
     re_polls = (\<lambda>_. 0), re_edit = (\<lambda>_. None), re_monitors = (\<lambda>_. Inr [''10.0.0.1''])\<rparr>"

definition calm_spec :: "string \<Rightarrow> string \<Rightarrow> rgw_frontend_spec" where
  "calm_spec c k = \<lparr>fs_port = 80, fs_sslPort = 443, fs_ssl = True, fs_certPEM = c, fs_keyPEM = k\<rparr>"

definition calm_disk :: rgw_disk where
  "calm_disk = \<lparr>rd_conf = Some (desired_conf calm_rgw (calm_spec ''c1'' ''k1'') [''10.0.0.1'']), rd_pending = None,
     rd_files = [(''/ssl/rgw-tls/h1/server.crt'', ''c1''), (''/ssl/rgw-tls/h1/server.key'', ''k1'')], rd_dirs = [''/ssl/rgw-tls/h1'']\<rparr>"

definition calm_world :: rgw_world where
  "calm_world = \<lparr>rw_disk = calm_disk, rw_trace = []\<rparr>"

lemma calm_machine: "rgw_machine calm_rgw"
proof -
  have "plain_name (calm_hash x) \<and> solid (calm_hash x)" for x
    by (simp add: calm_hash_def plain_name_def solid_def is_ascii_byte_def is_ascii_space_def)
  moreover have "\<exists>cs. list_all plain_name cs \<and> ''/ssl'' = abs_path cs" by (rule exI [of _ "[''ssl'']"]) (simp add: plain_name_def)
  moreover have "calm_pair c k \<Longrightarrow> calm_pair c' k' \<Longrightarrow> calm_hash (c @ k) = calm_hash (c' @ k') \<Longrightarrow> c = c' \<and> k = k'" for c k c' k'
    by (auto simp: calm_pair_def calm_hash_def)
  ultimately show ?thesis
    by (simp add: rgw_machine_def calm_rgw_def solid_def one_line_def is_ascii_byte_def is_ascii_space_def)
qed

lemma calm_usable: "calm_pair c k \<Longrightarrow> usable_spec calm_rgw (calm_spec c k)"
  by (simp add: usable_spec_def calm_rgw_def calm_spec_def)

lemma calm_monitors: "list_all one_line [''10.0.0.1'']"
  by (simp add: one_line_def is_ascii_byte_def)

lemma calm_line: "line_of calm_rgw calm_disk = wanted_line calm_rgw (calm_spec ''c1'' ''k1'')"
  using desired_facts(1) [OF calm_machine calm_monitors, of "calm_spec ''c1'' ''k1''"] by (simp add: calm_disk_def)

lemma calm_good: "good calm_rgw calm_disk"
proof -
  have "staged calm_rgw (calm_spec ''c1'' ''k1'') calm_disk"
    by (simp add: staged_def calm_spec_def calm_disk_def content_of_def tlsGenDir_def rgwTLSRoot_def calm_rgw_def calm_hash_def crt_in_def key_in_def)
  from staged_intact [OF calm_machine calm_usable this] calm_line have "intact calm_rgw calm_disk (conf_text (rd_conf calm_disk))"
    by (simp add: calm_pair_def)
  moreover have "all_ascii (conf_text (rd_conf calm_disk))"
    using desired_facts(2) [OF calm_machine calm_monitors, of "calm_spec ''c1'' ''k1''"] by (simp add: calm_disk_def)
  ultimately show ?thesis by (simp add: good_def journal_def calm_disk_def)
qed



lemma calm_state: "service_state (re_text calm_rgw) (text_lines ''microceph.rgw enabled active'') = Some True"
  by code_simp

lemma calm_healthy: "healthy calm_rgw"
  using calm_state by (auto simp: healthy_def calm_rgw_def checkRGWHTTPFrontend_def)

text \<open>Enabling the gateway without TLS on a member that has no configuration yet.\<close>

definition bare_world :: rgw_world where
  "bare_world = \<lparr>rw_disk = \<lparr>rd_conf = None, rd_pending = None, rd_files = [], rd_dirs = []\<rparr>, rw_trace = []\<rparr>"

definition plain_spec :: rgw_frontend_spec where
  "plain_spec = \<lparr>fs_port = 80, fs_sslPort = 0, fs_ssl = False, fs_certPEM = [], fs_keyPEM = []\<rparr>"

lemma calm_fields:
  "re_fault calm_rgw w c = None" "re_answer calm_rgw w args = Inr ''microceph.rgw enabled active''" "re_keyring calm_rgw w = Inr True"
  "re_link calm_rgw w = None" "re_edit calm_rgw w = None" "re_polls calm_rgw w = 0" "formatIPv6 (re_text calm_rgw) [] = Some []"
  "re_http calm_rgw w port = Inr a \<Longrightarrow> checkRGWHTTPFrontend a = None" "re_http calm_rgw w port \<noteq> Inl e"
  by (auto simp: calm_rgw_def checkRGWHTTPFrontend_def)

lemma calm_active: "checkRGWActive calm_rgw w = (Inr (), log_call (Command [''snapctl'', ''services'', ''microceph.rgw'']) (rw_disk w) w)"
  using calm_state by (simp add: checkRGWActive_def command_def rg_bind_def rg_return_def calm_fields)

lemma calm_write: "\<exists>w'. writeRGWFile calm_rgw path store w = (Inr (), w')"
  using write_works [OF calm_healthy] by blast

lemma calm_keyring: "\<exists>w'. prepareRGWKeyring calm_rgw w = (Inr (), w') \<and> rw_disk w' = rw_disk w"
  by (simp add: prepareRGWKeyring_def createRGWKeyring_def symlinkRGWKeyring_def rg_then_def rg_bind_def rg_map_error_def rg_see_def rg_return_def
      sys_def log_call_def calm_fields Let_def)

lemma calm_ready: "\<exists>w'. checkRGWReady calm_rgw plain_spec w = (Inr (), w')"
proof -
  obtain a where a: "re_http calm_rgw w' 80 = Inr a" for w' by (simp add: calm_rgw_def)
  then have "checkRGWHTTPFrontend a = None" using calm_fields(8) by blast
  with a show ?thesis
    by (simp add: checkRGWReady_def ready_once_def checkRGWFrontend_def check_plain_def connect_def rg_then_def rg_bind_def rg_see_def rg_return_def
        calm_fields calm_active plain_spec_def)
qed

lemma calm_apply: "\<exists>rb w'. applyRGWFrontend calm_rgw plain_spec [] True bare_world = (Inr rb, w')"
proof -
  have r: "\<exists>w1. recoverPendingRGWApply calm_rgw bare_world = (Inr (), w1) \<and> rw_disk w1 = rw_disk bare_world"
    by (simp add: recoverPendingRGWApply_def readRGWState_def readPendingApply_def read_conf_def meanwhile_def rg_then_def rg_bind_def rg_map_error_def
        rg_get_def rg_return_def sys_def log_call_def calm_fields bare_world_def)
  then obtain w1 where w1: "recoverPendingRGWApply calm_rgw bare_world = (Inr (), w1)" "rw_disk w1 = rw_disk bare_world" by blast
  let ?w2 = "log_call (Command [''snapctl'', ''services'', ''microceph.rgw'']) (rw_disk w1) w1"
  have i: "inspect_active calm_rgw w1 = (Inr True, ?w2)" by (simp add: inspect_active_def calm_active rg_bind_def rg_error_def rg_return_def)
  obtain w3 where w3: "prepareRGWKeyring calm_rgw ?w2 = (Inr (), w3)" "rw_disk w3 = rw_disk bare_world"
    using calm_keyring [of ?w2] w1(2) by (auto simp: log_call_def)
  let ?d = "desired_conf calm_rgw plain_spec []"
  let ?w4 = "log_call (OnFile ''read'' (rgwConfPath calm_rgw)) (rw_disk w3) w3"
  obtain w5 where w5: "publish calm_rgw plain_spec [] True ?d True ?w4 = (Inr (), w5)"
    using calm_write by (simp add: publish_def plain_spec_def rg_then_def rg_bind_def rg_return_def writePendingApplyMarker_def) (metis (no_types, lifting) calm_write prod.case sum.case(2))
  let ?w6 = "log_call (Command [''snapctl'', ''restart'', ''microceph.rgw'']) (rw_disk w5) w5"
  obtain w7 where "checkRGWReady calm_rgw plain_spec ?w6 = (Inr (), w7)" using calm_ready by blast
  then have a: "\<exists>v w'. activate calm_rgw plain_spec (Some rb) True w5 = (Inr v, w')" for rb
    by (simp add: activate_def restartRGW_def run_cmd_def command_def rg_then_def rg_bind_def rg_error_def rg_return_def calm_fields Let_def)
  have "\<exists>v w'. apply_locked calm_rgw plain_spec ?d True True w3 = (Inr v, w')"
    using w3(2) w5 a by (simp add: apply_locked_def apply_changes_def meanwhile_def read_conf_def rg_then_def rg_bind_def rg_map_error_def rg_get_def rg_return_def
        rg_error_def sys_def calm_fields bare_world_def plain_spec_def log_call_def Let_def)
  then show ?thesis using w1 i w3 by (simp add: applyRGWFrontend_def rg_then_def rg_bind_def calm_fields)
qed


text \<open>The same disk, cut off with a journal that would go back to no configuration at all.\<close>

definition cut_world :: rgw_world where
  "cut_world = \<lparr>rw_disk = put_pending (pending_json calm_rgw [] False) calm_disk, rw_trace = []\<rparr>"


end
