(* ===== verification/Go_Json.thy ===== *)
theory Go_Json
  imports Placement_Types
begin

text \<open>
  Decoding of JSON documents into structures the way \<^verbatim>\<open>encoding/json\<close> does it, for callers that look
  at what was read before an error. Values of basic types are those of the placement documents.
\<close>

text \<open>\<^verbatim>\<open>json.Unmarshal\<close> reports the first value of the wrong type but goes on with the
  rest, and one caller keeps what it read so far: decoding gives the value together with whether there
  was no error. A field function says what it makes of a key, \<open>None\<close> for a key that is not a field.\<close>

type_synonym 'r field_reader = "string \<Rightarrow> json \<Rightarrow> 'r \<Rightarrow> ('r \<times> bool) option"

fun read_fields :: "'r field_reader \<Rightarrow> (string \<times> json) list \<Rightarrow> 'r \<times> bool \<Rightarrow> 'r \<times> bool" where
  "read_fields f [] acc = acc"
| "read_fields f ((k, v) # kvs) (r, ok) =
     (case f k v r of None \<Rightarrow> read_fields f kvs (r, ok) | Some (r', ok') \<Rightarrow> read_fields f kvs (r', ok \<and> ok'))"

definition read_struct :: "'r field_reader \<Rightarrow> 'r \<Rightarrow> json \<Rightarrow> 'r \<times> bool" where
  "read_struct f r j = (case j of JNull \<Rightarrow> (r, True) | JObj kvs \<Rightarrow> read_fields f kvs (r, True) | _ \<Rightarrow> (r, False))"

definition read_list :: "(json \<Rightarrow> 'a \<times> bool) \<Rightarrow> 'a list \<Rightarrow> json \<Rightarrow> 'a list \<times> bool" where
  "read_list f cur j =
     (case j of JNull \<Rightarrow> ([], True) | JArr js \<Rightarrow> (map (fst \<circ> f) js, list_all (snd \<circ> f) js) | _ \<Rightarrow> (cur, False))"

definition read_prim :: "('a \<Rightarrow> json \<Rightarrow> 'a option) \<Rightarrow> 'a \<Rightarrow> json \<Rightarrow> 'a \<times> bool" where
  "read_prim dec cur j = (case dec cur j of None \<Rightarrow> (cur, False) | Some v \<Rightarrow> (v, True))"

text \<open>Set a field to what was read.\<close>

definition set_to :: "('a \<Rightarrow> 'r) \<Rightarrow> 'a \<times> bool \<Rightarrow> ('r \<times> bool) option" where
  "set_to upd x = Some (upd (fst x), snd x)"

text \<open>A whole text: an error when it is no document or a value has the wrong type.\<close>

definition unmarshal :: "(json \<Rightarrow> 'r \<times> bool) \<Rightarrow> json option \<Rightarrow> 'r option" where
  "unmarshal f j = (case j of None \<Rightarrow> None | Some d \<Rightarrow> if snd (f d) then Some (fst (f d)) else None)"

text \<open>A map from strings: the last value of a key counts.\<close>

fun read_entries :: "(json \<Rightarrow> 'a \<times> bool) \<Rightarrow> (string \<times> json) list \<Rightarrow> (string \<times> 'a) list \<times> bool \<Rightarrow> (string \<times> 'a) list \<times> bool" where
  "read_entries f [] acc = acc"
| "read_entries f ((k, v) # kvs) (m, ok) = read_entries f kvs (AList.update k (fst (f v)) m, ok \<and> snd (f v))"

definition read_map :: "(json \<Rightarrow> 'a \<times> bool) \<Rightarrow> (string \<times> 'a) list \<Rightarrow> json \<Rightarrow> (string \<times> 'a) list \<times> bool" where
  "read_map f cur j = (case j of JNull \<Rightarrow> ([], True) | JObj kvs \<Rightarrow> read_entries f kvs (cur, True) | _ \<Rightarrow> (cur, False))"

end
