(* ===== verification/Rbd_Mirror.thy ===== *)
theory Rbd_Mirror
  imports Osd_Env Go_Json
begin

text \<open>
  The mirroring commands of the \<^verbatim>\<open>rbd\<close> tool: the model of \<^verbatim>\<open>ceph/rbd_mirror.go\<close>,
  with the types of \<^verbatim>\<open>ceph/replication_rbd.go\<close> it decodes and \<^verbatim>\<open>ListPools\<close> of
  \<^verbatim>\<open>ceph/osd.go\<close>. Every command is a request of the log, on the local cluster or, with
  \<^verbatim>\<open>--cluster\<close> and \<^verbatim>\<open>--id\<close>, on the remote one.
\<close>

section \<open>Environment and types\<close>

record remote_record =
  rr_ID :: int
  rr_Name :: string
  rr_LocalName :: string

text \<open>The handlers of the state machine and its configuration, in the order the code makes the calls;
  what the machine does with an event is its library's.\<close>

datatype rep_handler = EnableHandler | DisableHandler | ConfigureHandler | ListHandler | StatusHandler
  | PromoteHandler | DemoteHandler

datatype rep_rule = Permit string string | OnEntryFrom string rep_handler | InternalTransition string rep_handler

type_synonym rep_machine = "(string \<times> rep_rule list) list"

text \<open>The environment of a replication request. \<open>rv_remotes\<close> is the table of remotes at a moment of
  the log. \<open>rv_sched\<close> is the order of loops over maps. \<open>rv_doc\<close> is the document read in the text of a \<^verbatim>\<open>gjson\<close> result, if it is one.
  \<open>rv_retry\<close> is the retry library, with a limit and a strategy that
  looks at the last error. \<open>rv_fire\<close> is
  the state machine library: the handlers an event runs in a state, or \<open>None\<close> when it calls the handler
  for unhandled triggers.\<close>

record rep_env =
  rv_host :: host
  rv_lib :: go_lib
  rv_remotes :: "history \<Rightarrow> string + remote_record list"
  rv_conf :: string
  rv_run :: string
  rv_gjson :: gjson_lib
  rv_sched :: sched
  rv_doc :: "json option \<Rightarrow> json option"
  rv_retry :: "nat \<Rightarrow> (go_error \<Rightarrow> bool) \<Rightarrow> (nat \<Rightarrow> unit io) \<Rightarrow> unit io"
  rv_fire :: "rep_machine \<Rightarrow> string \<Rightarrow> string \<Rightarrow> rep_handler list option"

definition StateDisabledReplication :: string where "StateDisabledReplication = ''replication_disabled''"
definition StateEnabledReplication :: string where "StateEnabledReplication = ''replication_enabled''"
definition StateInvalidReplication :: string where "StateInvalidReplication = ''replication_invalid''"

definition RbdResourceDisabled :: string where "RbdResourceDisabled = ''disabled''"
definition RbdResourcePool :: string where "RbdResourcePool = ''pool''"
definition RbdResourceImage :: string where "RbdResourceImage = ''image''"

definition RbdReplicationDisabled :: string where "RbdReplicationDisabled = ''disable''"
definition RbdReplicationJournaling :: string where "RbdReplicationJournaling = ''journal''"
definition RbdReplicationSnapshot :: string where "RbdReplicationSnapshot = ''snapshot''"

definition RbdReplicationHealthOK :: string where "RbdReplicationHealthOK = ''OK''"

lemmas rep_constants = StateDisabledReplication_def StateEnabledReplication_def StateInvalidReplication_def
  RbdResourceDisabled_def RbdResourcePool_def RbdResourceImage_def
  RbdReplicationDisabled_def RbdReplicationJournaling_def RbdReplicationSnapshot_def RbdReplicationHealthOK_def

record rbd_peer =
  rp_Id :: string
  rp_MirrorId :: string
  rp_RemoteName :: string
  rp_Direction :: string

record rbd_pool_info =
  pi_Mode :: string
  pi_LocalSiteName :: string
  pi_Peers :: "rbd_peer list"

record rbd_pool_status =
  ps_State :: string
  ps_ImageCount :: int
  ps_Health :: string
  ps_DaemonHealth :: string
  ps_ImageHealth :: string
  ps_Description :: "(string \<times> int) list"

record rbd_image_peer =
  ip_MirrorId :: string
  ip_RemoteName :: string
  ip_State :: string
  ip_Status :: string
  ip_LastUpdate :: string

record rbd_image_status =
  is_Name :: string
  is_State :: string
  is_Primary :: bool
  is_ID :: string
  is_Status :: string
  is_LastUpdate :: string
  is_Peers :: "rbd_image_peer list"
  is_Description :: string

record rbd_verbose_status =
  vs_Name :: string
  vs_Summary :: rbd_pool_status
  vs_Images :: "rbd_image_status list"

definition peer_zero :: rbd_peer where
  "peer_zero = \<lparr>rp_Id = '''', rp_MirrorId = '''', rp_RemoteName = '''', rp_Direction = ''''\<rparr>"

definition info_zero :: rbd_pool_info where
  "info_zero = \<lparr>pi_Mode = '''', pi_LocalSiteName = '''', pi_Peers = []\<rparr>"

definition status_zero :: rbd_pool_status where
  "status_zero = \<lparr>ps_State = '''', ps_ImageCount = 0, ps_Health = '''', ps_DaemonHealth = '''', ps_ImageHealth = '''', ps_Description = []\<rparr>"

definition image_peer_zero :: rbd_image_peer where
  "image_peer_zero = \<lparr>ip_MirrorId = '''', ip_RemoteName = '''', ip_State = '''', ip_Status = '''', ip_LastUpdate = ''''\<rparr>"

definition image_zero :: rbd_image_status where
  "image_zero = \<lparr>is_Name = '''', is_State = '''', is_Primary = False, is_ID = '''', is_Status = '''', is_LastUpdate = '''',
     is_Peers = [], is_Description = ''''\<rparr>"

section \<open>Decoding\<close>

definition peer_field :: "go_lib \<Rightarrow> rbd_peer field_reader" where
  "peer_field G k v p =
     (if equal_fold G k ''uuid'' then set_to (\<lambda>s. p\<lparr>rp_Id := s\<rparr>) (read_prim dec_string (rp_Id p) v)
      else if equal_fold G k ''mirror_uuid'' then set_to (\<lambda>s. p\<lparr>rp_MirrorId := s\<rparr>) (read_prim dec_string (rp_MirrorId p) v)
      else if equal_fold G k ''site_name'' then set_to (\<lambda>s. p\<lparr>rp_RemoteName := s\<rparr>) (read_prim dec_string (rp_RemoteName p) v)
      else if equal_fold G k ''direction'' then set_to (\<lambda>s. p\<lparr>rp_Direction := s\<rparr>) (read_prim dec_string (rp_Direction p) v)
      else None)"

definition info_field :: "go_lib \<Rightarrow> rbd_pool_info field_reader" where
  "info_field G k v p =
     (if equal_fold G k ''mode'' then set_to (\<lambda>s. p\<lparr>pi_Mode := s\<rparr>) (read_prim dec_string (pi_Mode p) v)
      else if equal_fold G k ''site_name'' then set_to (\<lambda>s. p\<lparr>pi_LocalSiteName := s\<rparr>) (read_prim dec_string (pi_LocalSiteName p) v)
      else if equal_fold G k ''peers''
      then set_to (\<lambda>ps. p\<lparr>pi_Peers := ps\<rparr>) (read_list (read_struct (peer_field G) peer_zero) (pi_Peers p) v)
      else None)"

definition read_info :: "go_lib \<Rightarrow> json \<Rightarrow> rbd_pool_info \<times> bool" where
  "read_info G = read_struct (info_field G) info_zero"

fun read_counts :: "(string \<times> json) list \<Rightarrow> (string \<times> int) list \<times> bool \<Rightarrow> (string \<times> int) list \<times> bool" where
  "read_counts [] acc = acc"
| "read_counts ((k, v) # kvs) (m, ok) =
     (case read_prim dec_int 0 v of (i, good) \<Rightarrow> read_counts kvs (AList.update k i m, ok \<and> good))"

definition status_field :: "go_lib \<Rightarrow> rbd_pool_status field_reader" where
  "status_field G k v p =
     (if equal_fold G k ''State'' then set_to (\<lambda>s. p\<lparr>ps_State := s\<rparr>) (read_prim dec_string (ps_State p) v)
      else if equal_fold G k ''ImageCount'' then set_to (\<lambda>i. p\<lparr>ps_ImageCount := i\<rparr>) (read_prim dec_int (ps_ImageCount p) v)
      else if equal_fold G k ''health'' then set_to (\<lambda>s. p\<lparr>ps_Health := s\<rparr>) (read_prim dec_string (ps_Health p) v)
      else if equal_fold G k ''daemon_health'' then set_to (\<lambda>s. p\<lparr>ps_DaemonHealth := s\<rparr>) (read_prim dec_string (ps_DaemonHealth p) v)
      else if equal_fold G k ''image_health'' then set_to (\<lambda>s. p\<lparr>ps_ImageHealth := s\<rparr>) (read_prim dec_string (ps_ImageHealth p) v)
      else if equal_fold G k ''states''
      then set_to (\<lambda>m. p\<lparr>ps_Description := m\<rparr>)
             (case v of JNull \<Rightarrow> ([], True) | JObj kvs \<Rightarrow> read_counts kvs (ps_Description p, True) | _ \<Rightarrow> (ps_Description p, False))
      else None)"

definition read_status :: "go_lib \<Rightarrow> json \<Rightarrow> rbd_pool_status \<times> bool" where
  "read_status G = read_struct (status_field G) status_zero"

definition summary_field :: "go_lib \<Rightarrow> rbd_pool_status field_reader" where
  "summary_field G k v p = (if equal_fold G k ''summary'' then Some (read_struct (status_field G) p v) else None)"

text \<open>\<^verbatim>\<open>populatePoolStatus\<close>.\<close>

definition populatePoolStatus :: "go_lib \<Rightarrow> json option \<Rightarrow> rbd_pool_status option" where
  "populatePoolStatus G = unmarshal (read_struct (summary_field G) status_zero)"

definition image_peer_field :: "go_lib \<Rightarrow> rbd_image_peer field_reader" where
  "image_peer_field G k v p =
     (if equal_fold G k ''mirror_uuids'' then set_to (\<lambda>s. p\<lparr>ip_MirrorId := s\<rparr>) (read_prim dec_string (ip_MirrorId p) v)
      else if equal_fold G k ''site_name'' then set_to (\<lambda>s. p\<lparr>ip_RemoteName := s\<rparr>) (read_prim dec_string (ip_RemoteName p) v)
      else if equal_fold G k ''state'' then set_to (\<lambda>s. p\<lparr>ip_State := s\<rparr>) (read_prim dec_string (ip_State p) v)
      else if equal_fold G k ''description'' then set_to (\<lambda>s. p\<lparr>ip_Status := s\<rparr>) (read_prim dec_string (ip_Status p) v)
      else if equal_fold G k ''last_update'' then set_to (\<lambda>s. p\<lparr>ip_LastUpdate := s\<rparr>) (read_prim dec_string (ip_LastUpdate p) v)
      else None)"

text \<open>The key \<^verbatim>\<open>state\<close> is the field \<^verbatim>\<open>Status\<close>; in any other case it is the earlier
  field \<^verbatim>\<open>State\<close>, which has no tag.\<close>

definition image_field :: "go_lib \<Rightarrow> rbd_image_status field_reader" where
  "image_field G k v p =
     (if k = ''state'' then set_to (\<lambda>s. p\<lparr>is_Status := s\<rparr>) (read_prim dec_string (is_Status p) v)
      else if equal_fold G k ''name'' then set_to (\<lambda>s. p\<lparr>is_Name := s\<rparr>) (read_prim dec_string (is_Name p) v)
      else if equal_fold G k ''State'' then set_to (\<lambda>s. p\<lparr>is_State := s\<rparr>) (read_prim dec_string (is_State p) v)
      else if equal_fold G k ''IsPrimary'' then set_to (\<lambda>b. p\<lparr>is_Primary := b\<rparr>) (read_prim dec_bool (is_Primary p) v)
      else if equal_fold G k ''global_id'' then set_to (\<lambda>s. p\<lparr>is_ID := s\<rparr>) (read_prim dec_string (is_ID p) v)
      else if equal_fold G k ''last_update'' then set_to (\<lambda>s. p\<lparr>is_LastUpdate := s\<rparr>) (read_prim dec_string (is_LastUpdate p) v)
      else if equal_fold G k ''peer_sites''
      then set_to (\<lambda>ps. p\<lparr>is_Peers := ps\<rparr>) (read_list (read_struct (image_peer_field G) image_peer_zero) (is_Peers p) v)
      else if equal_fold G k ''description'' then set_to (\<lambda>s. p\<lparr>is_Description := s\<rparr>) (read_prim dec_string (is_Description p) v)
      else None)"

definition read_image :: "go_lib \<Rightarrow> json \<Rightarrow> rbd_image_status \<times> bool" where
  "read_image G = read_struct (image_field G) image_zero"

section \<open>Commands\<close>

definition run :: "rep_env \<Rightarrow> string list \<Rightarrow> reply io" where
  "run E args = must (rv_host E) (Cmd args)"

definition run_ok :: "rep_env \<Rightarrow> string list \<Rightarrow> unit io" where
  "run_ok E args = io_bind (run E args) (\<lambda>_. io_return ())"

definition slashed :: "string \<Rightarrow> string \<Rightarrow> string" where
  "slashed pool img = pool @ ''/'' @ img"

definition appendRemoteClusterArgs :: "string list \<Rightarrow> string \<Rightarrow> string \<Rightarrow> string list" where
  "appendRemoteClusterArgs args cluster client =
     args @ (if cluster \<noteq> [] then [''--cluster'', cluster] else []) @ (if client \<noteq> [] then [''--id'', client] else [])"

text \<open>A failed command is a pool that is not mirrored; an answer that cannot be read is an error.\<close>

definition GetRbdMirrorPoolInfo :: "rep_env \<Rightarrow> string \<Rightarrow> string \<Rightarrow> string \<Rightarrow> rbd_pool_info io" where
  "GetRbdMirrorPoolInfo E pool cluster client =
     io_bind (attempt (run E (''rbd'' # appendRemoteClusterArgs [''mirror'', ''pool'', ''info'', pool, ''--format'', ''json''] cluster client))) (\<lambda>r.
       case r of
         Inl _ \<Rightarrow> io_return (info_zero\<lparr>pi_Mode := RbdResourceDisabled\<rparr>)
       | Inr a \<Rightarrow> (case unmarshal (read_info (rv_lib E)) (reply_json a) of
            None \<Rightarrow> io_fail (err_new ''cannot unmarshal rbd response: '')
          | Some info \<Rightarrow> io_return info))"

text \<open>The counts are machine integers.\<close>

definition add64 :: "int \<Rightarrow> int \<Rightarrow> int" where
  "add64 a b = sint (word_of_int (a + b) :: 64 word)"

definition count_images :: "(string \<times> int) list \<Rightarrow> int" where
  "count_images states = foldl (\<lambda>count kv. add64 count (snd kv)) 0 states"

definition GetRbdMirrorPoolStatus :: "rep_env \<Rightarrow> string \<Rightarrow> rbd_pool_status io" where
  "GetRbdMirrorPoolStatus E pool =
     io_bind (attempt (run E [''rbd'', ''mirror'', ''pool'', ''status'', pool, ''--format'', ''json''])) (\<lambda>r.
       case r of
         Inl _ \<Rightarrow> io_return (status_zero\<lparr>ps_State := StateDisabledReplication\<rparr>)
       | Inr a \<Rightarrow> (case populatePoolStatus (rv_lib E) (reply_json a) of
            None \<Rightarrow> io_fail (err_new ''cannot unmarshal rbd response: '')
          | Some st \<Rightarrow> io_return (st\<lparr>ps_State := StateEnabledReplication, ps_ImageCount := count_images (ps_Description st)\<rparr>)))"

definition primary_text :: string where
  "primary_text = ''local image is primary''"

text \<open>An image that cannot be read keeps what was read of it.\<close>

definition verbose_image :: "rep_env \<Rightarrow> json \<Rightarrow> rbd_image_status" where
  "verbose_image E j =
     (let i = (case rv_doc E (Some j) of None \<Rightarrow> image_zero | Some d \<Rightarrow> fst (read_image (rv_lib E) d)) in
      i\<lparr>is_State := StateEnabledReplication, is_Primary := contains_sub (is_Description i) primary_text\<rparr>)"

definition GetRbdMirrorVerbosePoolStatus :: "rep_env \<Rightarrow> string \<Rightarrow> rbd_verbose_status io" where
  "GetRbdMirrorVerbosePoolStatus E pool =
     io_bind (attempt (run E [''rbd'', ''mirror'', ''pool'', ''status'', pool, ''--verbose'', ''--format'', ''json''])) (\<lambda>r.
       case r of
         Inl _ \<Rightarrow> io_return \<lparr>vs_Name = '''', vs_Summary = status_zero\<lparr>ps_State := StateDisabledReplication\<rparr>, vs_Images = []\<rparr>
       | Inr a \<Rightarrow> (case unmarshal (read_status (rv_lib E)) (rv_doc E (gj_get (rv_gjson E) a ''summary'')) of
            None \<Rightarrow> io_fail (err_new ''cannot unmarshal rbd response: '')
          | Some summary \<Rightarrow>
              let images = map (verbose_image E) (gj_array (rv_gjson E) (gj_get (rv_gjson E) a ''images'')) in
              io_return \<lparr>vs_Name = pool,
                vs_Summary = summary\<lparr>ps_State := StateEnabledReplication, ps_ImageCount := int (length images)\<rparr>,
                vs_Images = images\<rparr>))"

definition GetRbdMirrorImageStatus :: "rep_env \<Rightarrow> string \<Rightarrow> string \<Rightarrow> rbd_image_status io" where
  "GetRbdMirrorImageStatus E pool img =
     io_bind (attempt (run E [''rbd'', ''mirror'', ''image'', ''status'', slashed pool img, ''--format'', ''json''])) (\<lambda>r.
       case r of
         Inl _ \<Rightarrow> io_return (image_zero\<lparr>is_State := StateDisabledReplication\<rparr>)
       | Inr a \<Rightarrow> (case unmarshal (read_image (rv_lib E)) (reply_json a) of
            None \<Rightarrow> io_fail (err_new ''cannot unmarshal rbd response: '')
          | Some i \<Rightarrow> io_return (i\<lparr>is_State := StateEnabledReplication, is_Primary := contains_sub (is_Description i) primary_text\<rparr>)))"

definition configurePoolMirroring :: "rep_env \<Rightarrow> string \<Rightarrow> string \<Rightarrow> string \<Rightarrow> string \<Rightarrow> unit io" where
  "configurePoolMirroring E pool mode localName remoteName =
     io_wrap ''failed to execute rbd command: ''
       (run_ok E (''rbd'' # appendRemoteClusterArgs
          (if mode = RbdResourceDisabled then [''mirror'', ''pool'', ''disable'', pool] else [''mirror'', ''pool'', ''enable'', pool, mode])
          remoteName localName))"

definition listSnapshotSchedule :: "rep_env \<Rightarrow> string \<Rightarrow> string \<Rightarrow> reply io" where
  "listSnapshotSchedule E pool img =
     run E ([''rbd'', ''mirror'', ''snapshot'', ''schedule'', ''list''] @ (if pool \<noteq> [] then [''--pool'', pool] else []) @
            (if img \<noteq> [] then [''--image'', img] else []))"

record snapshot_schedule =
  ss_Schedule :: string
  ss_StartTime :: string

definition schedule_field :: "go_lib \<Rightarrow> snapshot_schedule field_reader" where
  "schedule_field G k v p =
     (if equal_fold G k ''interval'' then set_to (\<lambda>s. p\<lparr>ss_Schedule := s\<rparr>) (read_prim dec_string (ss_Schedule p) v)
      else if equal_fold G k ''start_time'' then set_to (\<lambda>s. p\<lparr>ss_StartTime := s\<rparr>) (read_prim dec_string (ss_StartTime p) v)
      else None)"

definition schedule_zero :: snapshot_schedule where
  "schedule_zero = \<lparr>ss_Schedule = '''', ss_StartTime = ''''\<rparr>"

text \<open>A list that cannot be read is an empty schedule; the first element of an empty list is a panic.\<close>

definition getSnapshotSchedule :: "rep_env \<Rightarrow> string \<Rightarrow> string \<Rightarrow> snapshot_schedule io" where
  "getSnapshotSchedule E pool img =
     (if pool = [] \<or> img = [] then io_fail (err_new (''ImageName('' @ slashed pool img @ '') not complete''))
      else io_bind (listSnapshotSchedule E pool img) (\<lambda>a.
        case unmarshal (read_list (read_struct (schedule_field (rv_lib E)) schedule_zero) []) (reply_json a) of
          None \<Rightarrow> io_return schedule_zero
        | Some [] \<Rightarrow> io_fail (err_new ''panic: index out of range'')
        | Some (s # _) \<Rightarrow> io_return s))"

definition listAllImagesInPool :: "rep_env \<Rightarrow> string \<Rightarrow> string \<Rightarrow> string \<Rightarrow> string list io" where
  "listAllImagesInPool E pool localName remoteName =
     io_bind (attempt (run E (''rbd'' # appendRemoteClusterArgs [''ls'', pool, ''--format'', ''json''] remoteName localName))) (\<lambda>r.
       io_return (case r of
         Inl _ \<Rightarrow> []
       | Inr a \<Rightarrow> (case unmarshal (read_list (read_prim dec_string '''') []) (reply_json a) of None \<Rightarrow> [] | Some names \<Rightarrow> names)))"

definition configureSnapshotSchedule :: "rep_env \<Rightarrow> string \<Rightarrow> string \<Rightarrow> string \<Rightarrow> string \<Rightarrow> unit io" where
  "configureSnapshotSchedule E pool img schedule startTime =
     (if schedule = [] then io_return ()
      else run_ok E ([''rbd'', ''mirror'', ''snapshot'', ''schedule'', ''add'', ''--pool'', pool] @
                   (if img \<noteq> [] then [''--image'', img] else []) @
                   [schedule] @ (if startTime \<noteq> [] then [startTime] else [])))"

definition createSnapshot :: "rep_env \<Rightarrow> string \<Rightarrow> string \<Rightarrow> unit io" where
  "createSnapshot E pool img = run_ok E [''rbd'', ''mirror'', ''image'', ''snapshot'', slashed pool img]"

definition configureImageMirroring :: "rep_env \<Rightarrow> string \<Rightarrow> string \<Rightarrow> string \<Rightarrow> string \<Rightarrow> unit io" where
  "configureImageMirroring E pool img mode schedule =
     io_bind (io_wrap ''failed to configure rbd image feature: ''
       (run_ok E (if mode = RbdReplicationDisabled then [''rbd'', ''mirror'', ''image'', ''disable'', slashed pool img]
                else [''rbd'', ''mirror'', ''image'', ''enable'', slashed pool img, mode]))) (\<lambda>_.
     if mode \<noteq> RbdReplicationSnapshot then io_return ()
     else io_bind (io_wrap (''failed to create image('' @ slashed pool img @ '') snapshot : '') (createSnapshot E pool img)) (\<lambda>_.
       io_wrap (''failed to create image('' @ slashed pool img @ '') snapshot schedule('' @ schedule @ '') : '')
         (configureSnapshotSchedule E pool img schedule '''')))"

definition configureImageFeatures :: "rep_env \<Rightarrow> string \<Rightarrow> string \<Rightarrow> string \<Rightarrow> string \<Rightarrow> unit io" where
  "configureImageFeatures E pool img op feature =
     io_wrap ''failed to configure rbd image feature: '' (run_ok E [''rbd'', ''feature'', op, slashed pool img, feature])"

fun enableRbdImageFeatures :: "rep_env \<Rightarrow> string \<Rightarrow> string \<Rightarrow> string list \<Rightarrow> unit io" where
  "enableRbdImageFeatures E pool img [] = io_return ()"
| "enableRbdImageFeatures E pool img (feature # features) =
     io_bind (attempt (configureImageFeatures E pool img ''enable'' feature)) (\<lambda>r.
       case r of
         Inl e \<Rightarrow> if contains_sub (etext e) ''one or more requested features are already enabled''
                  then enableRbdImageFeatures E pool img features else io_fail e
       | Inr _ \<Rightarrow> enableRbdImageFeatures E pool img features)"

fun disableRbdImageFeatures :: "rep_env \<Rightarrow> string \<Rightarrow> string \<Rightarrow> string list \<Rightarrow> unit io" where
  "disableRbdImageFeatures E pool img [] = io_return ()"
| "disableRbdImageFeatures E pool img (feature # features) =
     io_bind (configureImageFeatures E pool img ''disable'' feature) (\<lambda>_. disableRbdImageFeatures E pool img features)"

definition flagImageForResync :: "rep_env \<Rightarrow> string \<Rightarrow> string \<Rightarrow> unit io" where
  "flagImageForResync E pool img = run_ok E [''rbd'', ''mirror'', ''image'', ''resync'', slashed pool img]"

definition peerBootstrapCreate :: "rep_env \<Rightarrow> string \<Rightarrow> string \<Rightarrow> string \<Rightarrow> string io" where
  "peerBootstrapCreate E pool client cluster =
     io_wrap ''failed to bootstrap peer token: ''
       (io_bind (run E (''rbd'' # (let args = [''mirror'', ''pool'', ''peer'', ''bootstrap'', ''create'', ''--site-name'', cluster, pool] in
          if client \<noteq> [] then appendRemoteClusterArgs args cluster client else args))) (\<lambda>a. io_return (reply_text a)))"

definition token_path :: "rep_env \<Rightarrow> string \<Rightarrow> string" where
  "token_path E name = rv_conf E @ ''/rbd_mirror/'' @ name @ ''_peer_keyring''"

definition peerBootstrapImport :: "rep_env \<Rightarrow> string \<Rightarrow> string \<Rightarrow> string \<Rightarrow> unit io" where
  "peerBootstrapImport E pool client cluster =
     io_wrap ''failed to import peer bootstrap token: ''
       (run_ok E (''rbd'' # (let args = [''mirror'', ''pool'', ''peer'', ''bootstrap'', ''import'', ''--site-name'', cluster, ''--direction'',
            ''rx-tx'', pool, token_path E cluster] in
          if client \<noteq> [] then appendRemoteClusterArgs args cluster client else args)))"

definition peerRemove :: "rep_env \<Rightarrow> string \<Rightarrow> string \<Rightarrow> string \<Rightarrow> string \<Rightarrow> unit io" where
  "peerRemove E pool peerId localName remoteName =
     io_wrap (''failed to remove peer('' @ peerId @ '') for pool('' @ pool @ ''): '')
       (run_ok E (''rbd'' # appendRemoteClusterArgs [''mirror'', ''pool'', ''peer'', ''remove'', pool, peerId] remoteName localName))"

definition promotePool :: "rep_env \<Rightarrow> string \<Rightarrow> bool \<Rightarrow> string \<Rightarrow> string \<Rightarrow> unit io" where
  "promotePool E pool isForce remoteName localName =
     io_wrap (''failed to promote pool('' @ pool @ ''): '')
       (run_ok E (''rbd'' # appendRemoteClusterArgs ([''mirror'', ''pool'', ''promote'', pool] @ (if isForce then [''--force''] else []))
          remoteName localName))"

definition demotePool :: "rep_env \<Rightarrow> string \<Rightarrow> string \<Rightarrow> string \<Rightarrow> unit io" where
  "demotePool E pool remoteName localName =
     io_wrap (''failed to promote pool('' @ pool @ ''): '')
       (run_ok E (''rbd'' # appendRemoteClusterArgs [''mirror'', ''pool'', ''demote'', pool] remoteName localName))"

text \<open>\<^verbatim>\<open>^[a-z0-9]{1,63}$\<close>.\<close>

definition IsValidClusterName :: "string \<Rightarrow> bool" where
  "IsValidClusterName name \<longleftrightarrow> 1 \<le> length name \<and> length name \<le> 63 \<and>
     list_all (\<lambda>c. is_digit_byte c \<or> (97 \<le> (of_char c :: nat) \<and> (of_char c :: nat) \<le> 122)) name"

definition writeRemotePeerToken :: "rep_env \<Rightarrow> string \<Rightarrow> string \<Rightarrow> unit io" where
  "writeRemotePeerToken E token remoteName =
     (if \<not> IsValidClusterName remoteName then io_fail (err_new ''remote names can only have [a-z] or [0-9] characters'')
      else let dir = rv_conf E @ ''/rbd_mirror''; path = token_path E remoteName in
        io_bind (io_wrap (''unable to create '' @ quoted dir @ '': '') (must (rv_host E) (Probe ''mkdir'' [dir]))) (\<lambda>_.
        io_bind (io_wrap (''failed to create the token file('' @ path @ ''): '') (must (rv_host E) (Probe ''create'' [path]))) (\<lambda>_.
        io_bind (io_wrap (''failed to write the token file('' @ path @ ''): '') (must (rv_host E) (WriteFile path (JStr token)))) (\<lambda>_.
          io_return ()))))"

section \<open>Pools\<close>

record ceph_pool =
  cp_Id :: int
  cp_Name :: string
  cp_Application :: "(string \<times> json) list"

definition pool_zero :: ceph_pool where
  "pool_zero = \<lparr>cp_Id = 0, cp_Name = '''', cp_Application = []\<rparr>"

definition pool_field :: "go_lib \<Rightarrow> ceph_pool field_reader" where
  "pool_field G k v p =
     (if equal_fold G k ''pool_id'' then set_to (\<lambda>i. p\<lparr>cp_Id := i\<rparr>) (read_prim dec_int (cp_Id p) v)
      else if equal_fold G k ''pool_name'' then set_to (\<lambda>s. p\<lparr>cp_Name := s\<rparr>) (read_prim dec_string (cp_Name p) v)
      else if equal_fold G k ''application_metadata''
      then set_to (\<lambda>m. p\<lparr>cp_Application := m\<rparr>)
             (case v of JNull \<Rightarrow> ([], True)
              | JObj kvs \<Rightarrow> (foldl (\<lambda>m kv. AList.update (fst kv) (snd kv) m) (cp_Application p) kvs, True)
              | _ \<Rightarrow> (cp_Application p, False))
      else None)"

text \<open>The filtered slice is made as long as the whole list and returned whole, so that a pool of another
  application leaves an empty record at its end.\<close>

definition filter_pools :: "string \<Rightarrow> ceph_pool list \<Rightarrow> ceph_pool list" where
  "filter_pools application ret =
     (if application = [] then ret
      else let kept = filter (\<lambda>p. map_of (cp_Application p) application \<noteq> None) ret in
           kept @ replicate (length ret - length kept) pool_zero)"

definition ListPools :: "rep_env \<Rightarrow> string \<Rightarrow> ceph_pool list io" where
  "ListPools E application =
     io_bind (attempt (run E [''ceph'', ''osd'', ''pool'', ''ls'', ''detail'', ''--format'', ''json''])) (\<lambda>r.
       io_return (case r of
         Inl _ \<Rightarrow> []
       | Inr a \<Rightarrow> (case unmarshal (read_list (read_struct (pool_field (rv_lib E)) pool_zero) []) (reply_json a) of
            None \<Rightarrow> [] | Some ret \<Rightarrow> filter_pools application ret)))"

section \<open>Peers\<close>

definition errNoPeerFound :: go_error where
  "errNoPeerFound = err_new ''no peer found''"

definition peer_ids :: "string \<Rightarrow> rbd_pool_info \<Rightarrow> string list" where
  "peer_ids peerName info = map rp_Id (filter (\<lambda>p. rp_RemoteName p = peerName) (pi_Peers info))"

definition getAllPeerUUIDs :: "rep_env \<Rightarrow> string \<Rightarrow> string \<Rightarrow> string \<Rightarrow> string \<Rightarrow> string list io" where
  "getAllPeerUUIDs E pool peerName client cluster =
     io_bind (GetRbdMirrorPoolInfo E pool cluster client) (\<lambda>info.
       if peer_ids peerName info = [] then io_fail errNoPeerFound else io_return (peer_ids peerName info))"

fun remove_peers :: "rep_env \<Rightarrow> string \<Rightarrow> string \<Rightarrow> string \<Rightarrow> string list \<Rightarrow> unit io" where
  "remove_peers E pool localName remoteName [] = io_return ()"
| "remove_peers E pool localName remoteName (i # is) =
     io_bind (peerRemove E pool i localName remoteName) (\<lambda>_. remove_peers E pool localName remoteName is)"

definition RemovePeer :: "rep_env \<Rightarrow> string \<Rightarrow> string \<Rightarrow> string \<Rightarrow> unit io" where
  "RemovePeer E pool localName remoteName =
     io_bind (getAllPeerUUIDs E pool remoteName '''' '''') (\<lambda>localPeers.
     io_bind (getAllPeerUUIDs E pool localName localName remoteName) (\<lambda>remotePeers.
     io_bind (remove_peers E pool '''' '''' localPeers) (\<lambda>_.
       remove_peers E pool localName remoteName remotePeers)))"

text \<open>Best effort: errors are logged.\<close>

fun try_remove_peers :: "rep_env \<Rightarrow> string \<Rightarrow> string \<Rightarrow> string \<Rightarrow> string list \<Rightarrow> unit io" where
  "try_remove_peers E pool client cluster [] = io_return ()"
| "try_remove_peers E pool client cluster (i # is) =
     io_bind (attempt (peerRemove E pool i client cluster)) (\<lambda>_. try_remove_peers E pool client cluster is)"

definition removeReregisteredPeers :: "rep_env \<Rightarrow> string \<Rightarrow> string \<Rightarrow> string \<Rightarrow> string \<Rightarrow> unit io" where
  "removeReregisteredPeers E pool peerName client cluster =
     io_bind (attempt (getAllPeerUUIDs E pool peerName client cluster)) (\<lambda>r.
       case r of Inl _ \<Rightarrow> io_return () | Inr ids \<Rightarrow> try_remove_peers E pool client cluster ids)"

definition BootstrapPeer :: "rep_env \<Rightarrow> string \<Rightarrow> string \<Rightarrow> string \<Rightarrow> unit io" where
  "BootstrapPeer E pool localName remoteName =
     io_bind (peerBootstrapCreate E pool '''' localName) (\<lambda>token.
     io_bind (writeRemotePeerToken E token remoteName) (\<lambda>_.
       peerBootstrapImport E pool localName remoteName))"

section \<open>Mirroring of a pool\<close>

definition EnablePoolMirroring :: "rep_env \<Rightarrow> string \<Rightarrow> string \<Rightarrow> string \<Rightarrow> string \<Rightarrow> unit io" where
  "EnablePoolMirroring E pool mode localName remoteName =
     io_bind (configurePoolMirroring E pool mode '''' '''') (\<lambda>_.
     io_bind (configurePoolMirroring E pool mode localName remoteName) (\<lambda>_.
       BootstrapPeer E pool localName remoteName))"

definition isPeerReregistrationFailure :: "go_error \<Rightarrow> bool" where
  "isPeerReregistrationFailure e = contains_sub (etext e) ''mirror peers still registered''"

text \<open>The documented behaviour of \<^verbatim>\<open>retry.Retry\<close>: attempts numbered from one while there is an
  error, the strategies agree and the limit is not reached; the result is the last error. Waiting between
  attempts is not modelled.\<close>

fun retry_loop :: "nat \<Rightarrow> nat \<Rightarrow> (go_error \<Rightarrow> bool) \<Rightarrow> (nat \<Rightarrow> unit io) \<Rightarrow> go_error option \<Rightarrow> unit io" where
  "retry_loop 0 i again action prev = (case prev of None \<Rightarrow> io_return () | Some e \<Rightarrow> io_fail e)"
| "retry_loop (Suc n) i again action prev =
     (if case prev of None \<Rightarrow> True | Some e \<Rightarrow> again e
      then io_bind (attempt (action i)) (\<lambda>r. case r of
             Inr _ \<Rightarrow> io_return () | Inl e \<Rightarrow> retry_loop n (Suc i) again action (Some e))
      else retry_loop 0 i again action prev)"

definition retry_documented :: "rep_env \<Rightarrow> bool" where
  "retry_documented E \<longleftrightarrow>
     (\<forall>limit again action. \<exists>n. n \<le> limit \<and> (0 < limit \<longrightarrow> 0 < n) \<and> rv_retry E limit again action = retry_loop n 1 again action None)"

definition local_disable_attempt :: "rep_env \<Rightarrow> string \<Rightarrow> string \<Rightarrow> nat \<Rightarrow> unit io" where
  "local_disable_attempt E pool remoteName i =
     io_bind (if 1 < i then removeReregisteredPeers E pool remoteName '''' '''' else io_return ()) (\<lambda>_.
       configurePoolMirroring E pool RbdResourceDisabled '''' '''')"

definition remote_disable_attempt :: "rep_env \<Rightarrow> string \<Rightarrow> string \<Rightarrow> string \<Rightarrow> nat \<Rightarrow> unit io" where
  "remote_disable_attempt E pool localName remoteName i =
     io_bind (if 1 < i then removeReregisteredPeers E pool localName localName remoteName else io_return ()) (\<lambda>_.
       configurePoolMirroring E pool RbdResourceDisabled localName remoteName)"

definition DisablePoolMirroring :: "rep_env \<Rightarrow> string \<Rightarrow> string \<Rightarrow> string \<Rightarrow> unit io" where
  "DisablePoolMirroring E pool localName remoteName =
     io_bind (RemovePeer E pool localName remoteName) (\<lambda>_.
     io_bind (rv_retry E 4 isPeerReregistrationFailure (local_disable_attempt E pool remoteName)) (\<lambda>_.
       rv_retry E 10 (\<lambda>_. True) (remote_disable_attempt E pool localName remoteName)))"

fun each_image :: "(string \<Rightarrow> unit io) \<Rightarrow> (string \<Rightarrow> go_error) \<Rightarrow> rbd_image_status list \<Rightarrow> unit io" where
  "each_image f err [] = io_return ()"
| "each_image f err (i # is) =
     io_bind (attempt (f (is_Name i))) (\<lambda>r. case r of Inl _ \<Rightarrow> io_fail (err (is_Name i)) | Inr _ \<Rightarrow> each_image f err is)"

definition DisableAllMirroringImagesInPool :: "rep_env \<Rightarrow> string \<Rightarrow> unit io" where
  "DisableAllMirroringImagesInPool E pool =
     io_bind (io_wrap (''failed to fetch status for '' @ pool @ '' pool: '') (GetRbdMirrorVerbosePoolStatus E pool)) (\<lambda>st.
       each_image (\<lambda>img. disableRbdImageFeatures E pool img [''journaling''])
         (\<lambda>img. err_new (''failed to disable journaling on '' @ slashed pool img)) (vs_Images st))"

definition ResyncAllMirroringImagesInPool :: "rep_env \<Rightarrow> string \<Rightarrow> unit io" where
  "ResyncAllMirroringImagesInPool E pool =
     io_bind (io_wrap (''failed to fetch status for '' @ pool @ '' pool: '') (GetRbdMirrorVerbosePoolStatus E pool)) (\<lambda>st.
       each_image (flagImageForResync E pool) (\<lambda>img. err_new (''failed to resync '' @ slashed pool img)) (vs_Images st))"

fun any_pool_with_peer :: "rep_env \<Rightarrow> string \<Rightarrow> ceph_pool list \<Rightarrow> bool io" where
  "any_pool_with_peer E remoteName [] = io_return False"
| "any_pool_with_peer E remoteName (p # ps) =
     io_bind (attempt (GetRbdMirrorPoolInfo E (cp_Name p) '''' '''')) (\<lambda>r.
       case r of
         Inl _ \<Rightarrow> io_return False
       | Inr info \<Rightarrow> if remoteName \<in> rp_RemoteName ` set (pi_Peers info) then io_return True else any_pool_with_peer E remoteName ps)"

definition IsRemoteConfiguredForRbdMirror :: "rep_env \<Rightarrow> string \<Rightarrow> bool io" where
  "IsRemoteConfiguredForRbdMirror E remoteName = io_bind (ListPools E ''rbd'') (any_pool_with_peer E remoteName)"

end
