(* ===== verification/Replication_Rbd.thy ===== *)
theory Replication_Rbd
  imports Rbd_Mirror
begin

text \<open>
  Replication requests for block device pools and images: the request types of
  \<^verbatim>\<open>api/types/replication.go\<close> and \<^verbatim>\<open>replication_rbd.go\<close>, the remotes table of
  \<^verbatim>\<open>database/remote_extras.go\<close>, and the handlers of \<^verbatim>\<open>ceph/replication_rbd.go\<close>. A handler
  returns the response document it sets, if any.
\<close>

section \<open>Requests\<close>

definition EventEnableReplication :: string where "EventEnableReplication = ''enable_replication''"
definition EventDisableReplication :: string where "EventDisableReplication = ''disable_replication''"
definition EventListReplication :: string where "EventListReplication = ''list_replication''"
definition EventStatusReplication :: string where "EventStatusReplication = ''status_replication''"
definition EventConfigureReplication :: string where "EventConfigureReplication = ''configure_replication''"
definition EventPromoteReplication :: string where "EventPromoteReplication = ''promote_replication''"
definition EventDemoteReplication :: string where "EventDemoteReplication = ''demote_replication''"

lemmas rep_events = EventEnableReplication_def EventDisableReplication_def EventListReplication_def EventStatusReplication_def
  EventConfigureReplication_def EventPromoteReplication_def EventDemoteReplication_def

definition EnableReplicationRequest :: string where "EnableReplicationRequest = ''POST-'' @ EventEnableReplication"
definition ConfigureReplicationRequest :: string where "ConfigureReplicationRequest = ''PUT-'' @ EventConfigureReplication"
definition PromoteReplicationRequest :: string where "PromoteReplicationRequest = ''PUT-'' @ EventPromoteReplication"
definition DemoteReplicationRequest :: string where "DemoteReplicationRequest = ''PUT-'' @ EventDemoteReplication"
definition DisableReplicationRequest :: string where "DisableReplicationRequest = ''DELETE-'' @ EventDisableReplication"
definition StatusReplicationRequest :: string where "StatusReplicationRequest = ''GET-'' @ EventStatusReplication"
definition ListReplicationRequest :: string where "ListReplicationRequest = ''GET-'' @ EventListReplication"
definition WorkloadReplicationRequest :: string where "WorkloadReplicationRequest = ''''"

lemmas rep_requests = EnableReplicationRequest_def ConfigureReplicationRequest_def PromoteReplicationRequest_def
  DemoteReplicationRequest_def DisableReplicationRequest_def StatusReplicationRequest_def ListReplicationRequest_def
  WorkloadReplicationRequest_def

definition GetAPIRequestTypeGeneric :: "string \<Rightarrow> string" where
  "GetAPIRequestTypeGeneric t = (case split_on (CHR ''-'') t of [] \<Rightarrow> '''' | f # _ \<Rightarrow> f)"

definition GetWorkloadRequestTypeGeneric :: "string \<Rightarrow> string" where
  "GetWorkloadRequestTypeGeneric t = (case split_on (CHR ''-'') t of _ # e # _ \<Rightarrow> e | _ \<Rightarrow> '''')"

record rbd_request =
  rq_SourcePool :: string
  rq_SourceImage :: string
  rq_RemoteName :: string
  rq_Schedule :: string
  rq_ReplicationType :: string
  rq_ResourceType :: string
  rq_RequestType :: string
  rq_IsForceOp :: bool
  rq_SkipAutoEnable :: bool

definition request_zero :: rbd_request where
  "request_zero = \<lparr>rq_SourcePool = '''', rq_SourceImage = '''', rq_RemoteName = '''', rq_Schedule = '''', rq_ReplicationType = '''',
     rq_ResourceType = '''', rq_RequestType = '''', rq_IsForceOp = False, rq_SkipAutoEnable = False\<rparr>"

definition request_field :: "go_lib \<Rightarrow> rbd_request field_reader" where
  "request_field G k v r =
     (if equal_fold G k ''source_pool'' then set_to (\<lambda>s. r\<lparr>rq_SourcePool := s\<rparr>) (read_prim dec_string (rq_SourcePool r) v)
      else if equal_fold G k ''source_image'' then set_to (\<lambda>s. r\<lparr>rq_SourceImage := s\<rparr>) (read_prim dec_string (rq_SourceImage r) v)
      else if equal_fold G k ''remote'' then set_to (\<lambda>s. r\<lparr>rq_RemoteName := s\<rparr>) (read_prim dec_string (rq_RemoteName r) v)
      else if equal_fold G k ''schedule'' then set_to (\<lambda>s. r\<lparr>rq_Schedule := s\<rparr>) (read_prim dec_string (rq_Schedule r) v)
      else if equal_fold G k ''replication_type'' then set_to (\<lambda>s. r\<lparr>rq_ReplicationType := s\<rparr>) (read_prim dec_string (rq_ReplicationType r) v)
      else if equal_fold G k ''resource_type'' then set_to (\<lambda>s. r\<lparr>rq_ResourceType := s\<rparr>) (read_prim dec_string (rq_ResourceType r) v)
      else if equal_fold G k ''request_type'' then set_to (\<lambda>s. r\<lparr>rq_RequestType := s\<rparr>) (read_prim dec_string (rq_RequestType r) v)
      else if equal_fold G k ''force'' then set_to (\<lambda>b. r\<lparr>rq_IsForceOp := b\<rparr>) (read_prim dec_bool (rq_IsForceOp r) v)
      else if equal_fold G k ''skipAutoEnable'' then set_to (\<lambda>b. r\<lparr>rq_SkipAutoEnable := b\<rparr>) (read_prim dec_bool (rq_SkipAutoEnable r) v)
      else None)"

text \<open>Percent encoding: \<^verbatim>\<open>url.QueryEscape\<close> keeps letters, digits and four marks, writes a space as a
  plus sign and any other byte as two hexadecimal digits; \<^verbatim>\<open>url.PathUnescape\<close> reads such pairs and
  leaves a plus sign alone.\<close>

definition hex_char :: "nat \<Rightarrow> char" where
  "hex_char d = (if d < 10 then char_of (48 + d) else char_of (55 + d))"

definition hex_val :: "char \<Rightarrow> nat option" where
  "hex_val c =
     (let b = of_char c :: nat in
      if 48 \<le> b \<and> b \<le> 57 then Some (b - 48) else if 65 \<le> b \<and> b \<le> 70 then Some (b - 55)
      else if 97 \<le> b \<and> b \<le> 102 then Some (b - 87) else None)"

definition plain_byte :: "char \<Rightarrow> bool" where
  "plain_byte c \<longleftrightarrow> (let b = of_char c :: nat in (65 \<le> b \<and> b \<le> 90) \<or> (97 \<le> b \<and> b \<le> 122)) \<or> is_digit_byte c \<or> c \<in> set ''-_.~''"

definition escape_byte :: "char \<Rightarrow> string" where
  "escape_byte c =
     (if plain_byte c then [c] else if c = CHR '' '' then ''+''
      else [CHR ''%'', hex_char (of_char c div 16), hex_char (of_char c mod 16)])"

definition QueryEscape :: "string \<Rightarrow> string" where
  "QueryEscape s = concat (map escape_byte s)"

fun PathUnescape :: "string \<Rightarrow> go_error + string" where
  "PathUnescape [] = Inr []"
| "PathUnescape (c # cs) =
     (if c \<noteq> CHR ''%'' then (case PathUnescape cs of Inl e \<Rightarrow> Inl e | Inr s \<Rightarrow> Inr (c # s))
      else case cs of
        h # l # rest \<Rightarrow>
          (case (hex_val h, hex_val l) of
             (Some a, Some b) \<Rightarrow> (case PathUnescape rest of Inl e \<Rightarrow> Inl e | Inr s \<Rightarrow> Inr (char_of (16 * a + b) # s))
           | _ \<Rightarrow> Inl (err_new (''invalid URL escape '' @ quoted [c, h, l])))
      | _ \<Rightarrow> Inl (err_new (''invalid URL escape '' @ quoted (c # cs))))"

definition GetAPIObjectID :: "rbd_request \<Rightarrow> string" where
  "GetAPIObjectID r =
     (if rq_SourceImage r \<noteq> [] \<and> rq_SourcePool r \<noteq> [] then QueryEscape (slashed (rq_SourcePool r) (rq_SourceImage r)) else rq_SourcePool r)"

definition SetAPIObjectID :: "string \<Rightarrow> rbd_request \<Rightarrow> go_error + rbd_request" where
  "SetAPIObjectID i r =
     (case PathUnescape i of
        Inl e \<Rightarrow> Inl e
      | Inr object \<Rightarrow> Inr (case split_on (CHR ''/'') object of
            pool # img # _ \<Rightarrow> r\<lparr>rq_SourcePool := pool, rq_SourceImage := img\<rparr>
          | _ \<Rightarrow> r\<lparr>rq_SourcePool := object\<rparr>))"

definition OverwriteRequestType :: "string \<Rightarrow> rbd_request \<Rightarrow> rbd_request" where
  "OverwriteRequestType t r = (if t \<noteq> [] then r\<lparr>rq_RequestType := t\<rparr> else r)"

definition GetRbdResourceType :: "string \<Rightarrow> string \<Rightarrow> string" where
  "GetRbdResourceType pool img = (if pool \<noteq> [] \<and> img \<noteq> [] then RbdResourceImage else RbdResourcePool)"

definition GetPoolAndImageFromResource :: "string \<Rightarrow> go_error + string \<times> string" where
  "GetPoolAndImageFromResource resource =
     (case split_on (CHR ''/'') resource of
        [pool] \<Rightarrow> Inr (pool, '''')
      | [pool, img] \<Rightarrow> Inr (pool, img)
      | _ \<Rightarrow> Inl (err_new (''check resource name '' @ resource @ '', should be in $pool/$image format'')))"

section \<open>Remotes\<close>

definition find_remotes :: "string \<Rightarrow> remote_record list \<Rightarrow> go_error + remote_record list" where
  "find_remotes name rows =
     (if name = [] then Inr rows
      else case filter (\<lambda>r. rr_Name r = name) rows of
        [] \<Rightarrow> Inl (err_new ''failed to add client config: Remote not found'')
      | [r] \<Rightarrow> Inr [r]
      | _ \<Rightarrow> Inl (err_new (''failed to add client config: More than one '' @ quoted ''remote'' @ '' entry matches'')))"

definition GetRemoteDb :: "rep_env \<Rightarrow> string \<Rightarrow> remote_record list io" where
  "GetRemoteDb E name = io_bind (observe (Db ''remoteObjects'' [name]) (rv_remotes E)) (\<lambda>rows. of_result (find_remotes name rows))"

definition errNoRemoteConfigured :: go_error where
  "errNoRemoteConfigured = err_new (''no remote configured on this site, import one with '' @ quoted ''microceph remote import'')"

definition getRemoteRecords :: "rep_env \<Rightarrow> string \<Rightarrow> remote_record list io" where
  "getRemoteRecords E name =
     io_bind (io_wrap (''remote ('' @ name @ '') does not exist: '') (GetRemoteDb E name)) (\<lambda>remotes.
       if remotes = [] then io_fail errNoRemoteConfigured else io_return remotes)"

definition remoteNames :: "remote_record list \<Rightarrow> string list" where
  "remoteNames = map rr_Name"
text \<open>The remote of the pool's only peer site: the first record with the name that all its peers have.\<close>

definition resolvePoolRemote :: "string \<Rightarrow> string \<Rightarrow> rbd_peer list \<Rightarrow> remote_record list \<Rightarrow> go_error + remote_record \<times> rbd_peer" where
  "resolvePoolRemote pool requestedName peers remotes =
     (case peers of
        [] \<Rightarrow> Inl (err_new (''pool ('' @ pool @ '') has no mirror peer registered, cannot tell which remote to disable it on''))
      | peer # others \<Rightarrow>
          (case List.find (\<lambda>other. rp_RemoteName other \<noteq> rp_RemoteName peer) others of
             Some other \<Rightarrow> Inl (err_new (''pool ('' @ pool @ '') is mirrored with multiple peer sites ('' @ rp_RemoteName peer @ '', '' @
               rp_RemoteName other @ ''), only two-site replication disable is supported''))
           | None \<Rightarrow>
               (case List.find (\<lambda>remote. rr_Name remote = rp_RemoteName peer) remotes of
                  Some remote \<Rightarrow> Inr (remote, peer)
                | None \<Rightarrow>
                    if requestedName \<noteq> []
                    then Inl (err_new (''requested remote ('' @ requestedName @ '') does not match pool ('' @ pool @ '') mirror peer site ('' @
                           rp_RemoteName peer @ '')''))
                    else Inl (err_new (''pool ('' @ pool @ '') is mirrored with '' @ rp_RemoteName peer @
                           '' but no matching remote is configured on this site (configured: '' @ join_with '', '' (remoteNames remotes) @
                           ''), import it with '' @ quoted ''microceph remote import''))))) "

section \<open>Handlers\<close>

record rbd_handler =
  rh_PoolInfo :: rbd_pool_info
  rh_PoolStatus :: rbd_pool_status
  rh_ImageStatus :: rbd_image_status
  rh_Request :: rbd_request

definition rbd_PreFill :: "rep_env \<Rightarrow> rbd_request \<Rightarrow> rbd_handler io" where
  "rbd_PreFill E req =
     io_bind (GetRbdMirrorPoolInfo E (rq_SourcePool req) '''' '''') (\<lambda>info.
     io_bind (GetRbdMirrorPoolStatus E (rq_SourcePool req)) (\<lambda>st.
     io_bind (if rq_ResourceType req = RbdResourceImage then GetRbdMirrorImageStatus E (rq_SourcePool req) (rq_SourceImage req)
              else io_return image_zero) (\<lambda>img.
       io_return \<lparr>rh_PoolInfo = info, rh_PoolStatus = st, rh_ImageStatus = img, rh_Request = req\<rparr>)))"

definition rbd_GetResourceState :: "rbd_handler \<Rightarrow> string" where
  "rbd_GetResourceState rh =
     (if rq_ResourceType (rh_Request rh) = RbdResourceImage then is_State (rh_ImageStatus rh) else ps_State (rh_PoolStatus rh))"

definition RbdJournalingEnableFeatureSet :: "string list" where
  "RbdJournalingEnableFeatureSet = [''exclusive-lock'', ''journaling'']"

fun enable_images :: "rep_env \<Rightarrow> string \<Rightarrow> string list \<Rightarrow> unit io" where
  "enable_images E pool [] = io_return ()"
| "enable_images E pool (img # imgs) =
     io_bind (enableRbdImageFeatures E pool img RbdJournalingEnableFeatureSet) (\<lambda>_. enable_images E pool imgs)"

definition handlePoolEnablement :: "rep_env \<Rightarrow> rbd_handler \<Rightarrow> string \<Rightarrow> string \<Rightarrow> unit io" where
  "handlePoolEnablement E rh localSite remoteSite =
     (let req = rh_Request rh; pool = rq_SourcePool req in
      if pi_Mode (rh_PoolInfo rh) = RbdResourcePool then io_return ()
      else if pi_Mode (rh_PoolInfo rh) = RbdResourceImage \<and> ps_ImageCount (rh_PoolStatus rh) \<noteq> 0
      then io_fail (err_new (''pool ('' @ pool @ '') in Image mirroring mode, Disable '' @ show_int (ps_ImageCount (rh_PoolStatus rh)) @
             '' mirroring Images''))
      else io_bind (EnablePoolMirroring E pool RbdResourcePool localSite remoteSite) (\<lambda>_.
        if rq_SkipAutoEnable req then io_return ()
        else io_bind (listAllImagesInPool E pool '''' '''') (enable_images E pool)))"

definition handleImageEnablement :: "rep_env \<Rightarrow> rbd_handler \<Rightarrow> string \<Rightarrow> string \<Rightarrow> unit io" where
  "handleImageEnablement E rh localSite remoteSite =
     (let req = rh_Request rh; pool = rq_SourcePool req; img = rq_SourceImage req in
      if pi_Mode (rh_PoolInfo rh) = RbdResourcePool
      then if rq_ReplicationType req = RbdReplicationJournaling
           then enableRbdImageFeatures E pool img RbdJournalingEnableFeatureSet
           else io_fail (err_new (''parent pool ('' @ pool @ '') enabled in Journaling mode, Image('' @ img @ '') requested in Snapshot mode''))
      else io_bind (if pi_Mode (rh_PoolInfo rh) = RbdResourceDisabled then EnablePoolMirroring E pool RbdResourceImage localSite remoteSite
                    else io_return ()) (\<lambda>_.
        configureImageMirroring E pool img (rq_ReplicationType req) (rq_Schedule req)))"

definition rbd_EnableHandler :: "rep_env \<Rightarrow> rbd_handler \<Rightarrow> unit io" where
  "rbd_EnableHandler E rh =
     (let req = rh_Request rh in
      io_bind (getRemoteRecords E (rq_RemoteName req)) (\<lambda>dbRec.
        let l = rr_LocalName (hd dbRec); r = rr_Name (hd dbRec) in
        if rq_ResourceType req = RbdResourcePool
        then if rq_ReplicationType req = RbdReplicationSnapshot
             then io_fail (err_new ''Snapshot-based replication is only supported for individual RBD images, not pools'')
             else handlePoolEnablement E rh l r
        else if rq_ResourceType req = RbdResourceImage then handleImageEnablement E rh l r
        else io_fail (err_new (''unknown enable request for rbd mirroring '' @ rq_ResourceType req))))"

definition handlePoolDisablement :: "rep_env \<Rightarrow> rbd_handler \<Rightarrow> remote_record list \<Rightarrow> unit io" where
  "handlePoolDisablement E rh remotes =
     (let req = rh_Request rh; pool = rq_SourcePool req; mode = pi_Mode (rh_PoolInfo rh); st = rh_PoolStatus rh in
      if mode = RbdResourceDisabled then io_return ()
      else if ps_Health st \<noteq> RbdReplicationHealthOK \<and> \<not> rq_IsForceOp req
      then io_fail (err_new (''pool replication status not OK('' @ ps_Health st @ ''), Can't proceed''))
      else if mode = RbdResourceImage \<and> ps_ImageCount st \<noteq> 0
      then io_fail (err_new (''pool ('' @ pool @ '') in Image mirroring mode, has '' @ show_int (ps_ImageCount st) @ '' images mirroring''))
      else io_bind (of_result (resolvePoolRemote pool (rq_RemoteName req) (pi_Peers (rh_PoolInfo rh)) remotes)) (\<lambda>(remote, peer).
        io_bind (if mode = RbdResourcePool then DisableAllMirroringImagesInPool E pool else io_return ()) (\<lambda>_.
          DisablePoolMirroring E pool (rr_LocalName remote) (rr_Name remote))))"

definition handleImageDisablement :: "rep_env \<Rightarrow> rbd_handler \<Rightarrow> unit io" where
  "handleImageDisablement E rh =
     (let req = rh_Request rh; mode = pi_Mode (rh_PoolInfo rh) in
      if mode = RbdResourceDisabled \<or> is_State (rh_ImageStatus rh) = StateDisabledReplication then io_return ()
      else if mode = RbdResourcePool then disableRbdImageFeatures E (rq_SourcePool req) (rq_SourceImage req) [''journaling'']
      else configureImageMirroring E (rq_SourcePool req) (rq_SourceImage req) RbdReplicationDisabled (rq_Schedule req))"

definition rbd_DisableHandler :: "rep_env \<Rightarrow> rbd_handler \<Rightarrow> unit io" where
  "rbd_DisableHandler E rh =
     (let req = rh_Request rh in
      io_bind (getRemoteRecords E (rq_RemoteName req)) (\<lambda>dbRec.
        if rq_ResourceType req = RbdResourcePool then handlePoolDisablement E rh dbRec
        else if rq_ResourceType req = RbdResourceImage then handleImageDisablement E rh
        else io_fail (err_new (''unknown disable request for rbd mirroring '' @ rq_ResourceType req))))"

definition rbd_ConfigureHandler :: "rep_env \<Rightarrow> rbd_handler \<Rightarrow> unit io" where
  "rbd_ConfigureHandler E rh =
     (let req = rh_Request rh in
      io_bind (getSnapshotSchedule E (rq_SourcePool req) (rq_SourceImage req)) (\<lambda>schedule.
        if rq_Schedule req \<noteq> ss_Schedule schedule
        then configureSnapshotSchedule E (rq_SourcePool req) (rq_SourceImage req) (rq_Schedule req) ''''
        else io_return ()))"

definition rep_type_of :: "string \<Rightarrow> string" where
  "rep_type_of text = (if contains_sub text ''snapshot'' then ''snapshot'' else ''journaling'')"

definition list_image :: "rbd_image_status \<Rightarrow> json" where
  "list_image i = JObj [(''name'', JStr (is_Name i)), (''Type'', JStr (rep_type_of (is_Description i))),
     (''is_primary'', JBool (is_Primary i)), (''last_local_update'', JStr (is_LastUpdate i))]"

text \<open>A pool whose status cannot be read is left out of the list.\<close>

fun list_pools :: "rep_env \<Rightarrow> ceph_pool list \<Rightarrow> json list io" where
  "list_pools E [] = io_return []"
| "list_pools E (p # ps) =
     io_bind (attempt (GetRbdMirrorVerbosePoolStatus E (cp_Name p))) (\<lambda>r.
     io_bind (list_pools E ps) (\<lambda>briefs.
       io_return (case r of
         Inl _ \<Rightarrow> briefs
       | Inr st \<Rightarrow> JObj [(''name'', JStr (cp_Name p)), (''Images'', JArr (map list_image (vs_Images st)))] # briefs)))"

definition rbd_ListHandler :: "rep_env \<Rightarrow> json io" where
  "rbd_ListHandler E = io_bind (ListPools E ''rbd'') (\<lambda>pools. io_bind (list_pools E pools) (\<lambda>l. io_return (JArr l)))"

definition pool_remote :: "rbd_peer \<Rightarrow> json" where
  "pool_remote p = JObj [(''name'', JStr (rp_RemoteName p)), (''uuid'', JStr (rp_Id p)), (''direction'', JStr (rp_Direction p))]"

definition image_remote :: "rbd_image_peer \<Rightarrow> json" where
  "image_remote p = JObj [(''name'', JStr (ip_RemoteName p)), (''status'', JStr (ip_Status p)), (''last_remote_update'', JStr (ip_LastUpdate p))]"

definition rbd_StatusHandler :: "rbd_handler \<Rightarrow> go_error + json" where
  "rbd_StatusHandler rh =
     (let req = rh_Request rh; st = rh_PoolStatus rh; img = rh_ImageStatus rh in
      if rq_ResourceType req = RbdResourcePool
      then Inr (JObj [(''name'', JStr (rq_SourcePool req)), (''type'', JStr (pi_Mode (rh_PoolInfo rh))),
             (''rep_health'', JStr (ps_Health st)), (''daemon_health'', JStr (ps_DaemonHealth st)), (''image_health'', JStr (ps_ImageHealth st)),
             (''image_count'', JInt (ps_ImageCount st)), (''images'', JNull),
             (''remotes'', JArr (map pool_remote (pi_Peers (rh_PoolInfo rh))))])
      else if rq_ResourceType req = RbdResourceImage
      then Inr (JObj [(''name'', JStr (slashed (rq_SourcePool req) (rq_SourceImage req))), (''id'', JStr (is_ID img)),
             (''type'', JStr (rep_type_of (is_Status img))), (''is_primary'', JBool (is_Primary img)), (''status'', JStr (is_Status img)),
             (''last_local_update'', JStr (is_LastUpdate img)), (''remotes'', JArr (map image_remote (is_Peers img)))])
      else Inl (err_new (''REPRBD: Unable resource type('' @ rq_ResourceType req @ ''), cannot find status'')))"

definition CliForcePrompt :: string where
  "CliForcePrompt = ''If you understand the *RISK* and you're *ABSOLUTELY CERTAIN* that is what you want, pass --yes-i-really-mean-it.''"

definition RbdMirrorNonPrimaryPromoteErr :: string where
  "RbdMirrorNonPrimaryPromoteErr = ''image is primary within a remote cluster or demotion is not propagated yet''"

definition handlePoolPromotion :: "rep_env \<Rightarrow> string \<Rightarrow> bool \<Rightarrow> unit io" where
  "handlePoolPromotion E pool isforce =
     io_bind (attempt (promotePool E pool isforce '''' '''')) (\<lambda>r.
       case r of
         Inl e \<Rightarrow> io_fail (if contains_sub (etext e) RbdMirrorNonPrimaryPromoteErr then err_new CliForcePrompt else e)
       | Inr _ \<Rightarrow> io_return ())"

definition handlePoolDemotion :: "rep_env \<Rightarrow> string \<Rightarrow> unit io" where
  "handlePoolDemotion E pool = io_bind (demotePool E pool '''' '''') (\<lambda>_. ResyncAllMirroringImagesInPool E pool)"

definition getMirrorPoolMetadata :: "rep_env \<Rightarrow> string \<Rightarrow> (rbd_pool_status \<times> rbd_pool_info) io" where
  "getMirrorPoolMetadata E pool =
     io_bind (GetRbdMirrorPoolStatus E pool) (\<lambda>st. io_bind (GetRbdMirrorPoolInfo E pool '''' '''') (\<lambda>info. io_return (st, info)))"

definition isPeerRegisteredForMirroring :: "rbd_peer list \<Rightarrow> string \<Rightarrow> bool" where
  "isPeerRegisteredForMirroring peers name \<longleftrightarrow> list_ex (\<lambda>p. rp_RemoteName p = name) peers"

text \<open>A failed demotion ends the loop without an error.\<close>

fun site_op_pools :: "rep_env \<Rightarrow> rbd_request \<Rightarrow> ceph_pool list \<Rightarrow> unit io" where
  "site_op_pools E req [] = io_return ()"
| "site_op_pools E req (p # ps) =
     (let pool = cp_Name p in
      io_bind (io_wrap (''failed to fetch pool ('' @ pool @ '') metadata: '') (getMirrorPoolMetadata E pool)) (\<lambda>(st, info).
        if ps_State st \<noteq> StateEnabledReplication \<or> \<not> isPeerRegisteredForMirroring (pi_Peers info) (rq_RemoteName req)
        then site_op_pools E req ps
        else if rq_RequestType req = PromoteReplicationRequest
        then io_bind (handlePoolPromotion E pool (rq_IsForceOp req)) (\<lambda>_. site_op_pools E req ps)
        else if rq_RequestType req = DemoteReplicationRequest
        then io_bind (attempt (handlePoolDemotion E pool)) (\<lambda>r.
               case r of Inl _ \<Rightarrow> io_return () | Inr _ \<Rightarrow> site_op_pools E req ps)
        else site_op_pools E req ps))"

definition handleSiteOp :: "rep_env \<Rightarrow> rbd_handler \<Rightarrow> unit io" where
  "handleSiteOp E rh = io_bind (ListPools E ''rbd'') (site_op_pools E (rh_Request rh))"

definition rbd_PromoteHandler :: "rep_env \<Rightarrow> rbd_handler \<Rightarrow> unit io" where
  "rbd_PromoteHandler E rh = handleSiteOp E rh"

definition rbd_DemoteHandler :: "rep_env \<Rightarrow> rbd_handler \<Rightarrow> unit io" where
  "rbd_DemoteHandler E rh =
     (if \<not> rq_IsForceOp (rh_Request rh) then io_fail (err_new (''demotion may cause data loss on this cluster. '' @ CliForcePrompt))
      else handleSiteOp E rh)"

definition no_response :: "unit io \<Rightarrow> json option io" where
  "no_response f = io_bind f (\<lambda>_. io_return None)"

definition with_response :: "json io \<Rightarrow> json option io" where
  "with_response f = io_bind f (\<lambda>j. io_return (Some j))"

fun rbd_run :: "rep_env \<Rightarrow> rbd_handler \<Rightarrow> rep_handler \<Rightarrow> json option io" where
  "rbd_run E rh EnableHandler = no_response (rbd_EnableHandler E rh)"
| "rbd_run E rh DisableHandler = no_response (rbd_DisableHandler E rh)"
| "rbd_run E rh ConfigureHandler = no_response (rbd_ConfigureHandler E rh)"
| "rbd_run E rh ListHandler = with_response (rbd_ListHandler E)"
| "rbd_run E rh StatusHandler = with_response (of_result (rbd_StatusHandler rh))"
| "rbd_run E rh PromoteHandler = no_response (rbd_PromoteHandler E rh)"
| "rbd_run E rh DemoteHandler = no_response (rbd_DemoteHandler E rh)"

end
