(* ===== verification/Replication_Cephfs.thy ===== *)
theory Replication_Cephfs
  imports Replication_Rbd
begin

text \<open>
  Replication requests for file system volumes: the volumes and paths of \<^verbatim>\<open>ceph/cephfs_volume.go\<close>,
  the snapshot mirror commands of \<^verbatim>\<open>ceph/cephfs_snapshot.go\<close>, the queries of
  \<^verbatim>\<open>ceph/cephfs_mirror.go\<close> and the handlers of \<^verbatim>\<open>ceph/replication_cephfs.go\<close>.
\<close>

section \<open>Volumes\<close>

definition ceph_cmd :: "rep_env \<Rightarrow> string list \<Rightarrow> reply io" where
  "ceph_cmd E args = run E (''ceph'' # args)"

definition ceph_do :: "rep_env \<Rightarrow> string list \<Rightarrow> unit io" where
  "ceph_do E args = io_bind (ceph_cmd E args) (\<lambda>_. io_return ())"

text \<open>The strings of the array at a path of the answer.\<close>

definition gj_strings :: "rep_env \<Rightarrow> reply \<Rightarrow> string \<Rightarrow> string list" where
  "gj_strings E a path = map (\<lambda>v. gj_string (rv_gjson E) (Some v)) (gj_array (rv_gjson E) (gj_get (rv_gjson E) a path))"

definition parseListVolOutputJson :: "rep_env \<Rightarrow> reply \<Rightarrow> string list" where
  "parseListVolOutputJson E a = filter (\<lambda>v. v \<noteq> []) (gj_strings E a ''#.name'')"

definition ListCephFSVolumes :: "rep_env \<Rightarrow> string list io" where
  "ListCephFSVolumes E =
     io_bind (ceph_cmd E [''fs'', ''volume'', ''ls'', ''--format=json'']) (\<lambda>a. io_return (parseListVolOutputJson E a))"

definition ListRemoteCephFSVolumes :: "rep_env \<Rightarrow> string \<Rightarrow> string \<Rightarrow> string list io" where
  "ListRemoteCephFSVolumes E remote localName =
     (if remote = [] \<or> localName = []
      then io_fail (err_new (''both remote('' @ remote @ '') and local('' @ localName @ '') names must be provided''))
      else io_bind (ceph_cmd E (appendRemoteClusterArgs [''fs'', ''volume'', ''ls'', ''--format=json''] remote localName)) (\<lambda>a.
        io_return (parseListVolOutputJson E a)))"

text \<open>A path under the prefix has at least three parts; the fourth may be missing, and reading it panics.\<close>

datatype path_parts = NotSubvolume | Parts string string | PartsPanic

definition CephFsSubvolumePathDeconstruct :: "string \<Rightarrow> path_parts" where
  "CephFsSubvolumePathDeconstruct path =
     (let parts = split_on (CHR ''/'') path in
      if length parts < 3 \<or> \<not> has_prefix path ''/volumes/'' then NotSubvolume
      else if length parts \<le> 3 then PartsPanic
      else Parts (parts ! 2) (parts ! 3))"

definition GetCephFSSubvolumePath :: "string \<Rightarrow> string \<Rightarrow> string" where
  "GetCephFSSubvolumePath grp subvolume = ''/volumes/'' @ (if grp = [] then ''_nogroup'' else grp) @ ''/'' @ subvolume"

definition GetCephFSSubvolumes :: "rep_env \<Rightarrow> string \<Rightarrow> string \<Rightarrow> string list io" where
  "GetCephFSSubvolumes E volume grp =
     io_wrap (''failed to list subvolumes for CephFS volume '' @ volume @ '' in group '' @ grp @ '': '')
       (io_bind (ceph_cmd E (if grp \<noteq> [] then [''fs'', ''subvolume'', ''ls'', volume, grp, ''--format=json'']
                             else [''fs'', ''subvolume'', ''ls'', volume, ''--format=json''])) (\<lambda>a.
          io_return (gj_strings E a ''#.name'')))"

fun groups_of :: "rep_env \<Rightarrow> string \<Rightarrow> string list \<Rightarrow> (string \<times> string list) list \<Rightarrow> (string \<times> string list) list io" where
  "groups_of E volume [] m = io_return m"
| "groups_of E volume (g # gs) m =
     io_bind (GetCephFSSubvolumes E volume g) (\<lambda>svs. groups_of E volume gs (AList.update g svs m))"

definition GetCephFSSubvolumeGroups :: "rep_env \<Rightarrow> string \<Rightarrow> (string \<times> string list) list io" where
  "GetCephFSSubvolumeGroups E volume =
     io_bind (io_wrap (''failed to list subvolume groups for CephFS volume '' @ volume @ '': '')
       (ceph_cmd E [''fs'', ''subvolumegroup'', ''ls'', volume, ''--format=json''])) (\<lambda>a.
       groups_of E volume (gj_strings E a ''#.name'') [])"

record cephfs_volume =
  cv_Name :: string
  cv_SubvolumeGroups :: "(string \<times> string list) list"
  cv_Ungrouped :: "string list"

definition GetCephFSVolume :: "rep_env \<Rightarrow> string \<Rightarrow> cephfs_volume io" where
  "GetCephFSVolume E volume =
     io_bind (io_wrap (''failed to get subvolume groups for CephFS volume '' @ volume @ '': '') (GetCephFSSubvolumeGroups E volume)) (\<lambda>groups.
     io_bind (io_wrap (''failed to get ungrouped subvolumes for CephFS volume '' @ volume @ '': '') (GetCephFSSubvolumes E volume '''')) (\<lambda>svs.
       io_return \<lparr>cv_Name = volume, cv_SubvolumeGroups = groups, cv_Ungrouped = svs\<rparr>))"

definition CephFSSubvolumeExists :: "rep_env \<Rightarrow> string \<Rightarrow> string \<Rightarrow> string \<Rightarrow> bool io" where
  "CephFSSubvolumeExists E volume grp subvolume =
     io_bind (attempt (GetCephFSSubvolumes E volume grp)) (\<lambda>r.
       io_return (case r of Inl _ \<Rightarrow> False | Inr svs \<Rightarrow> subvolume \<in> set svs))"

definition EnableMgrModule :: "rep_env \<Rightarrow> string \<Rightarrow> string \<Rightarrow> string \<Rightarrow> unit io" where
  "EnableMgrModule E module remote localName = ceph_do E (appendRemoteClusterArgs [''mgr'', ''module'', ''enable'', module] remote localName)"

definition MgrModuleMirroring :: string where
  "MgrModuleMirroring = ''mirroring''"

section \<open>Snapshot mirror commands\<close>

definition cephFSSnapshotMirrorCmd :: "string list \<Rightarrow> string list" where
  "cephFSSnapshotMirrorCmd args = [''fs'', ''snapshot'', ''mirror''] @ args"

definition cephFSSnapshotMirrorEnableVolume :: "rep_env \<Rightarrow> string \<Rightarrow> unit io" where
  "cephFSSnapshotMirrorEnableVolume E volume = ceph_do E (cephFSSnapshotMirrorCmd [''enable'', volume])"

definition cephFSSnapshotMirrorAddPath :: "rep_env \<Rightarrow> string \<Rightarrow> string \<Rightarrow> unit io" where
  "cephFSSnapshotMirrorAddPath E volume path = ceph_do E (cephFSSnapshotMirrorCmd [''add'', volume, path])"

definition cephFSSnapshotMirrorRemovePath :: "rep_env \<Rightarrow> string \<Rightarrow> string \<Rightarrow> unit io" where
  "cephFSSnapshotMirrorRemovePath E volume path = ceph_do E (cephFSSnapshotMirrorCmd [''remove'', volume, path])"

definition without_newlines :: "reply \<Rightarrow> reply" where
  "without_newlines a = Answer (filter (\<lambda>c. c \<noteq> CHR 0x0A) (reply_text a)) (reply_json a)"

definition cephFSSnapshotMirrorPeerCreate :: "rep_env \<Rightarrow> string \<Rightarrow> string \<Rightarrow> string \<Rightarrow> reply io" where
  "cephFSSnapshotMirrorPeerCreate E volume remoteName localName =
     io_bind (ceph_cmd E (cephFSSnapshotMirrorCmd [''peer_bootstrap'', ''create'', volume, ''client.fsmir-'' @ volume @ ''-'' @ remoteName,
       localName, ''--cluster'', remoteName, ''--id'', localName, ''-f'', ''json''])) (\<lambda>a. io_return (without_newlines a))"

definition cephFSSnapshotMirrorPeerImport :: "rep_env \<Rightarrow> string \<Rightarrow> string \<Rightarrow> unit io" where
  "cephFSSnapshotMirrorPeerImport E volume token = ceph_do E (cephFSSnapshotMirrorCmd [''peer_bootstrap'', ''import'', volume, token])"

record fs_peer =
  fp_ClientName :: string
  fp_SiteName :: string
  fp_Volume :: string

definition fs_peer_field :: "go_lib \<Rightarrow> fs_peer field_reader" where
  "fs_peer_field G k v p =
     (if equal_fold G k ''client_name'' then set_to (\<lambda>s. p\<lparr>fp_ClientName := s\<rparr>) (read_prim dec_string (fp_ClientName p) v)
      else if equal_fold G k ''site_name'' then set_to (\<lambda>s. p\<lparr>fp_SiteName := s\<rparr>) (read_prim dec_string (fp_SiteName p) v)
      else if equal_fold G k ''fs_name'' then set_to (\<lambda>s. p\<lparr>fp_Volume := s\<rparr>) (read_prim dec_string (fp_Volume p) v)
      else None)"

definition cephFSSnapshotMirrorPeerExists :: "rep_env \<Rightarrow> string \<Rightarrow> string \<Rightarrow> bool io" where
  "cephFSSnapshotMirrorPeerExists E volume remoteName =
     io_bind (io_wrap ''failed to get CephFS snapshot mirror list: ''
       (ceph_cmd E (cephFSSnapshotMirrorCmd [''peer_list'', volume, ''--format=json'']))) (\<lambda>a.
       case unmarshal (read_map (read_struct (fs_peer_field (rv_lib E)) \<lparr>fp_ClientName = '''', fp_SiteName = '''', fp_Volume = ''''\<rparr>) [])
              (reply_json a) of
         None \<Rightarrow> io_fail (err_new ''failed to parse CephFS snapshot mirror list: '')
       | Some peers \<Rightarrow> io_return (list_ex (\<lambda>p. fp_SiteName (snd p) = remoteName) peers))"

definition cephFSSnapshotMirrorList :: "rep_env \<Rightarrow> string \<Rightarrow> reply io" where
  "cephFSSnapshotMirrorList E volume = ceph_cmd E (cephFSSnapshotMirrorCmd [''ls'', volume, ''--format=json''])"

definition cephFSSnapshotMirrorDaemonStatus :: "rep_env \<Rightarrow> reply io" where
  "cephFSSnapshotMirrorDaemonStatus E = ceph_cmd E (cephFSSnapshotMirrorCmd [''daemon'', ''status'', ''--format=json''])"

section \<open>Daemon status\<close>

record mirror_peer =
  mp_UUID :: string
  mp_ClientName :: string
  mp_ClusterName :: string
  mp_FsName :: string
  mp_FailureCount :: int
  mp_RecoveryCount :: int

record mirror_fs =
  mf_FilesystemID :: int
  mf_Name :: string
  mf_DirectoryCount :: int
  mf_Peers :: "mirror_peer list"

record mirror_daemon =
  md_DaemonID :: int
  md_Filesystems :: "mirror_fs list"

definition peer_remote_field :: "go_lib \<Rightarrow> mirror_peer field_reader" where
  "peer_remote_field G k v p =
     (if equal_fold G k ''client_name'' then set_to (\<lambda>s. p\<lparr>mp_ClientName := s\<rparr>) (read_prim dec_string (mp_ClientName p) v)
      else if equal_fold G k ''cluster_name'' then set_to (\<lambda>s. p\<lparr>mp_ClusterName := s\<rparr>) (read_prim dec_string (mp_ClusterName p) v)
      else if equal_fold G k ''fs_name'' then set_to (\<lambda>s. p\<lparr>mp_FsName := s\<rparr>) (read_prim dec_string (mp_FsName p) v)
      else None)"

definition peer_stats_field :: "go_lib \<Rightarrow> mirror_peer field_reader" where
  "peer_stats_field G k v p =
     (if equal_fold G k ''failure_count'' then set_to (\<lambda>i. p\<lparr>mp_FailureCount := i\<rparr>) (read_prim dec_int (mp_FailureCount p) v)
      else if equal_fold G k ''recovery_count'' then set_to (\<lambda>i. p\<lparr>mp_RecoveryCount := i\<rparr>) (read_prim dec_int (mp_RecoveryCount p) v)
      else None)"

definition mirror_peer_field :: "go_lib \<Rightarrow> mirror_peer field_reader" where
  "mirror_peer_field G k v p =
     (if equal_fold G k ''uuid'' then set_to (\<lambda>s. p\<lparr>mp_UUID := s\<rparr>) (read_prim dec_string (mp_UUID p) v)
      else if equal_fold G k ''remote'' then Some (read_struct (peer_remote_field G) p v)
      else if equal_fold G k ''stats'' then Some (read_struct (peer_stats_field G) p v)
      else None)"

definition mirror_fs_field :: "go_lib \<Rightarrow> mirror_fs field_reader" where
  "mirror_fs_field G k v p =
     (if equal_fold G k ''filesystem_id'' then set_to (\<lambda>i. p\<lparr>mf_FilesystemID := i\<rparr>) (read_prim dec_int (mf_FilesystemID p) v)
      else if equal_fold G k ''name'' then set_to (\<lambda>s. p\<lparr>mf_Name := s\<rparr>) (read_prim dec_string (mf_Name p) v)
      else if equal_fold G k ''directory_count'' then set_to (\<lambda>i. p\<lparr>mf_DirectoryCount := i\<rparr>) (read_prim dec_int (mf_DirectoryCount p) v)
      else if equal_fold G k ''peers''
      then set_to (\<lambda>ps. p\<lparr>mf_Peers := ps\<rparr>) (read_list (read_struct (mirror_peer_field G)
             \<lparr>mp_UUID = '''', mp_ClientName = '''', mp_ClusterName = '''', mp_FsName = '''', mp_FailureCount = 0, mp_RecoveryCount = 0\<rparr>)
             (mf_Peers p) v)
      else None)"

definition mirror_daemon_field :: "go_lib \<Rightarrow> mirror_daemon field_reader" where
  "mirror_daemon_field G k v p =
     (if equal_fold G k ''daemon_id'' then set_to (\<lambda>i. p\<lparr>md_DaemonID := i\<rparr>) (read_prim dec_int (md_DaemonID p) v)
      else if equal_fold G k ''filesystems''
      then set_to (\<lambda>fs. p\<lparr>md_Filesystems := fs\<rparr>) (read_list (read_struct (mirror_fs_field G)
             \<lparr>mf_FilesystemID = 0, mf_Name = '''', mf_DirectoryCount = 0, mf_Peers = []\<rparr>) (md_Filesystems p) v)
      else None)"

definition GetCephFSSnapshotMirrorDaemonStatus :: "rep_env \<Rightarrow> mirror_daemon list io" where
  "GetCephFSSnapshotMirrorDaemonStatus E =
     io_bind (io_wrap ''failed to get CephFS snapshot mirror status: '' (cephFSSnapshotMirrorDaemonStatus E)) (\<lambda>a.
       case unmarshal (read_list (read_struct (mirror_daemon_field (rv_lib E)) \<lparr>md_DaemonID = 0, md_Filesystems = []\<rparr>) []) (reply_json a) of
         None \<Rightarrow> io_fail (err_new ''failed to parse CephFS snapshot mirror status: '')
       | Some daemons \<Rightarrow> io_return daemons)"

definition VolumeNotMirrored :: string where
  "VolumeNotMirrored = ''is not mirrored''"

definition GetCephFSVolumeMirrorList :: "rep_env \<Rightarrow> string \<Rightarrow> string list io" where
  "GetCephFSVolumeMirrorList E volume =
     (if volume = [] then io_fail (err_new ''volume name cannot be empty'')
      else io_bind (attempt (cephFSSnapshotMirrorList E volume)) (\<lambda>r.
        case r of
          Inl e \<Rightarrow> if contains_sub (etext e) VolumeNotMirrored then io_return []
                   else io_fail (err_wrap ''failed to get CephFS snapshot mirror list: '' e '''')
        | Inr a \<Rightarrow> (case unmarshal (read_list (read_prim dec_string '''') []) (reply_json a) of
             None \<Rightarrow> io_fail (err_new ''failed to parse CephFS snapshot mirror list: '')
           | Some paths \<Rightarrow> io_return paths)))"

text \<open>The map from volumes to their paths; volumes without a path are left out.\<close>

fun mirror_lists :: "rep_env \<Rightarrow> string list \<Rightarrow> string list \<Rightarrow> (string \<times> string list) list \<Rightarrow> (string \<times> string list) list io" where
  "mirror_lists E everything [] m = io_return m"
| "mirror_lists E everything (v # vs) m =
     io_bind (io_wrap (''failed to capture cephfs mirror list for ['' @ join_with '' '' everything @ '']: '') (GetCephFSVolumeMirrorList E v)) (\<lambda>paths.
       mirror_lists E everything vs (if paths \<noteq> [] then AList.update v paths m else m))"

definition GetCephFsAllVolumeMirrorMap :: "rep_env \<Rightarrow> (string \<times> string list) list io" where
  "GetCephFsAllVolumeMirrorMap E =
     io_bind (io_wrap ''failed to list CephFS volumes: '' (ListCephFSVolumes E)) (\<lambda>volumes. mirror_lists E volumes volumes [])"
section \<open>Requests\<close>

definition CephfsResourceVolume :: string where "CephfsResourceVolume = ''volume''"
definition CephfsResourceSubvolume :: string where "CephfsResourceSubvolume = ''subvolume''"
definition CephfsResourceDirectory :: string where "CephfsResourceDirectory = ''directory''"
definition CephfsResourceInvalid :: string where "CephfsResourceInvalid = ''invalid''"

lemmas cephfs_resources = CephfsResourceVolume_def CephfsResourceSubvolume_def CephfsResourceDirectory_def CephfsResourceInvalid_def

definition GetCephfsResourceType :: "string \<Rightarrow> string \<Rightarrow> string" where
  "GetCephfsResourceType subvolume dirpath =
     (if subvolume \<noteq> [] \<and> dirpath = [] then CephfsResourceSubvolume
      else if subvolume = [] \<and> dirpath \<noteq> [] then CephfsResourceDirectory
      else CephfsResourceInvalid)"

record cephfs_request =
  cq_Volume :: string
  cq_DirPath :: string
  cq_Subvolume :: string
  cq_SubvolumeGroup :: string
  cq_RemoteName :: string
  cq_ResourceType :: string
  cq_RequestType :: string
  cq_Schedule :: string
  cq_RetentionPolicy :: string
  cq_IsForceOp :: bool

definition cephfs_request_zero :: cephfs_request where
  "cephfs_request_zero = \<lparr>cq_Volume = '''', cq_DirPath = '''', cq_Subvolume = '''', cq_SubvolumeGroup = '''', cq_RemoteName = '''',
     cq_ResourceType = '''', cq_RequestType = '''', cq_Schedule = '''', cq_RetentionPolicy = '''', cq_IsForceOp = False\<rparr>"

definition cephfs_request_field :: "go_lib \<Rightarrow> cephfs_request field_reader" where
  "cephfs_request_field G k v r =
     (if equal_fold G k ''volume'' then set_to (\<lambda>s. r\<lparr>cq_Volume := s\<rparr>) (read_prim dec_string (cq_Volume r) v)
      else if equal_fold G k ''dir_path'' then set_to (\<lambda>s. r\<lparr>cq_DirPath := s\<rparr>) (read_prim dec_string (cq_DirPath r) v)
      else if equal_fold G k ''subvolume'' then set_to (\<lambda>s. r\<lparr>cq_Subvolume := s\<rparr>) (read_prim dec_string (cq_Subvolume r) v)
      else if equal_fold G k ''subvolume_group'' then set_to (\<lambda>s. r\<lparr>cq_SubvolumeGroup := s\<rparr>) (read_prim dec_string (cq_SubvolumeGroup r) v)
      else if equal_fold G k ''remote'' then set_to (\<lambda>s. r\<lparr>cq_RemoteName := s\<rparr>) (read_prim dec_string (cq_RemoteName r) v)
      else if equal_fold G k ''resource_type'' then set_to (\<lambda>s. r\<lparr>cq_ResourceType := s\<rparr>) (read_prim dec_string (cq_ResourceType r) v)
      else if equal_fold G k ''request_type'' then set_to (\<lambda>s. r\<lparr>cq_RequestType := s\<rparr>) (read_prim dec_string (cq_RequestType r) v)
      else if equal_fold G k ''schedule'' then set_to (\<lambda>s. r\<lparr>cq_Schedule := s\<rparr>) (read_prim dec_string (cq_Schedule r) v)
      else if equal_fold G k ''retention_policy'' then set_to (\<lambda>s. r\<lparr>cq_RetentionPolicy := s\<rparr>) (read_prim dec_string (cq_RetentionPolicy r) v)
      else if equal_fold G k ''force'' then set_to (\<lambda>b. r\<lparr>cq_IsForceOp := b\<rparr>) (read_prim dec_bool (cq_IsForceOp r) v)
      else None)"

definition cephfs_OverwriteRequestType :: "string \<Rightarrow> cephfs_request \<Rightarrow> cephfs_request" where
  "cephfs_OverwriteRequestType t r = (if t \<noteq> [] then r\<lparr>cq_RequestType := t\<rparr> else r)"

section \<open>Mirror status\<close>

record dir_status =
  ds_State :: string
  ds_Synced :: int
  ds_Deleted :: int
  ds_Renamed :: int

definition dir_status_field :: "go_lib \<Rightarrow> dir_status field_reader" where
  "dir_status_field G k v p =
     (if equal_fold G k ''state'' then set_to (\<lambda>s. p\<lparr>ds_State := s\<rparr>) (read_prim dec_string (ds_State p) v)
      else if equal_fold G k ''snaps_synced'' then set_to (\<lambda>i. p\<lparr>ds_Synced := i\<rparr>) (read_prim dec_int (ds_Synced p) v)
      else if equal_fold G k ''snaps_deleted'' then set_to (\<lambda>i. p\<lparr>ds_Deleted := i\<rparr>) (read_prim dec_int (ds_Deleted p) v)
      else if equal_fold G k ''snaps_renamed'' then set_to (\<lambda>i. p\<lparr>ds_Renamed := i\<rparr>) (read_prim dec_int (ds_Renamed p) v)
      else None)"

definition GetCephFsMirrorPeerStatus :: "rep_env \<Rightarrow> string \<Rightarrow> string \<Rightarrow> int \<Rightarrow> string \<Rightarrow> (string \<times> dir_status) list io" where
  "GetCephFsMirrorPeerStatus E adminSockPath volume volumeId peerId =
     io_bind (io_wrap ''failed to run ceph admin socket command: ''
       (ceph_cmd E [''--admin-daemon'', adminSockPath, ''fs'', ''mirror'', ''peer'', ''status'', volume @ ''@'' @ show_int volumeId, peerId])) (\<lambda>a.
       case unmarshal (read_map (read_struct (dir_status_field (rv_lib E)) \<lparr>ds_State = '''', ds_Synced = 0, ds_Deleted = 0, ds_Renamed = 0\<rparr>) [])
              (reply_json a) of
         None \<Rightarrow> io_fail (err_new ''failed to parse CephFS mirror directories: '')
       | Some m \<Rightarrow> io_return m)"

definition CheckFsMirrorHelperCommands :: "rep_env \<Rightarrow> string \<Rightarrow> unit io" where
  "CheckFsMirrorHelperCommands E admin_socket =
     io_bind (io_wrap ''failed to run ceph admin socket command: '' (ceph_cmd E [''--admin-daemon'', admin_socket, ''help''])) (\<lambda>a.
       case unmarshal (read_map (read_prim dec_string '''') []) (reply_json a) of
         None \<Rightarrow> io_fail (err_new ''failed to parse ceph admin socket command output: '')
       | Some commands \<Rightarrow>
           if list_ex (\<lambda>kv. contains_sub (fst kv) ''fs mirror'') commands then io_return ()
           else io_fail (err_new (''failed: '' @ admin_socket @ '' is not a compliant sock'')))"

fun first_sock :: "rep_env \<Rightarrow> string list \<Rightarrow> string io" where
  "first_sock E [] = io_return ''''"
| "first_sock E (s # ss) =
     (if \<not> contains_sub s ''ceph-client.cephfs-mirror'' then first_sock E ss
      else let path = rv_run E @ ''/'' @ s in
        io_bind (attempt (CheckFsMirrorHelperCommands E path)) (\<lambda>r.
          case r of Inl _ \<Rightarrow> first_sock E ss | Inr _ \<Rightarrow> io_return path))"

definition entry_names :: "reply \<Rightarrow> string list" where
  "entry_names a = (case unmarshal (read_list (read_prim dec_string '''') []) (reply_json a) of None \<Rightarrow> [] | Some ns \<Rightarrow> ns)"

definition FindCephFsMirrorAdminSockPath :: "rep_env \<Rightarrow> string io" where
  "FindCephFsMirrorAdminSockPath E =
     io_bind (must (rv_host E) (Probe ''readdir'' [rv_run E])) (\<lambda>a. first_sock E (entry_names a))"

text \<open>The last file system with the name of the volume decides; with a remote, its first peer of that
  name.\<close>

definition fs_peers :: "string \<Rightarrow> mirror_fs \<Rightarrow> string list" where
  "fs_peers remoteName fs =
     (if remoteName = [] then map mp_UUID (mf_Peers fs)
      else case List.find (\<lambda>p. mp_ClusterName p = remoteName) (mf_Peers fs) of None \<Rightarrow> [] | Some p \<Rightarrow> [mp_UUID p])"

record cephfs_handler =
  ch_Daemons :: "mirror_daemon list"
  ch_MirrorList :: "string list"
  ch_Request :: cephfs_request
  ch_Status :: "(string \<times> (string \<times> dir_status) list) list"

definition GetCephFsMirrorVolumeAndPeersId :: "cephfs_handler \<Rightarrow> int \<times> string list" where
  "GetCephFsMirrorVolumeAndPeersId rh =
     foldl (\<lambda>acc fs. if mf_Name fs = cq_Volume (ch_Request rh) then (mf_FilesystemID fs, fs_peers (cq_RemoteName (ch_Request rh)) fs) else acc)
       (-1, []) (concat (map md_Filesystems (ch_Daemons rh)))"

fun peer_statuses :: "rep_env \<Rightarrow> string \<Rightarrow> string \<Rightarrow> int \<Rightarrow> string list \<Rightarrow> (string \<times> (string \<times> dir_status) list) list \<Rightarrow>
    (string \<times> (string \<times> dir_status) list) list io" where
  "peer_statuses E sock volume i [] m = io_return m"
| "peer_statuses E sock volume i (p # ps) m =
     io_bind (io_wrap (''failed to get CephFS mirror status for peer '' @ p @ '': '') (GetCephFsMirrorPeerStatus E sock volume i p)) (\<lambda>st.
       peer_statuses E sock volume i ps (AList.update p st m))"

definition GetCephFSMirrorStatus :: "rep_env \<Rightarrow> cephfs_handler \<Rightarrow> cephfs_handler io" where
  "GetCephFSMirrorStatus E rh =
     (let req = ch_Request rh in
      if cq_RequestType req \<noteq> StatusReplicationRequest
      then io_fail (err_new (cq_RequestType req @ '' is not '' @ StatusReplicationRequest))
      else (case GetCephFsMirrorVolumeAndPeersId rh of (volumeID, peers) \<Rightarrow>
        if volumeID < 0 \<or> peers = []
        then io_fail (err_new (''no CephFS volume ('' @ show_int volumeID @ '') or peers (['' @ join_with '' '' peers @ '']) found for mirroring status''))
        else io_bind (attempt (FindCephFsMirrorAdminSockPath E)) (\<lambda>r.
          case r of
            Inl e \<Rightarrow> io_fail (err_wrap ''failed to find CephFS mirror admin socket: '' e '''')
          | Inr sock \<Rightarrow>
              if sock = [] then io_fail (err_new ''failed to find CephFS mirror admin socket: %!w(<nil>)'')
              else io_bind (peer_statuses E sock (cq_Volume req) volumeID peers []) (\<lambda>m. io_return (rh\<lparr>ch_Status := m\<rparr>)))))"

section \<open>Handlers\<close>

definition cephfs_PreFill :: "rep_env \<Rightarrow> cephfs_request \<Rightarrow> cephfs_handler io" where
  "cephfs_PreFill E req =
     io_bind (io_wrap (''failed to enable mgr module '' @ MgrModuleMirroring @ '': '') (EnableMgrModule E MgrModuleMirroring '''' '''')) (\<lambda>_.
     io_bind (io_wrap ''failed to get CephFS snapshot mirror status: '' (GetCephFSSnapshotMirrorDaemonStatus E)) (\<lambda>daemons.
     io_bind (if cq_Volume req \<noteq> []
              then io_wrap ''failed to get CephFS snapshot mirror list: '' (GetCephFSVolumeMirrorList E (cq_Volume req))
              else io_return []) (\<lambda>paths.
       let rh = \<lparr>ch_Daemons = daemons, ch_MirrorList = paths, ch_Request = req, ch_Status = []\<rparr> in
       if cq_RequestType req = StatusReplicationRequest
       then io_wrap ''failed to get CephFS mirror directories: '' (GetCephFSMirrorStatus E rh)
       else io_return rh)))"

definition GetCephFSMirrorPathState :: "cephfs_handler \<Rightarrow> string \<Rightarrow> string" where
  "GetCephFSMirrorPathState rh path = (if path \<in> set (ch_MirrorList rh) then StateEnabledReplication else StateDisabledReplication)"

definition GetCephFSSubvolumeMirrorState :: "cephfs_handler \<Rightarrow> string" where
  "GetCephFSSubvolumeMirrorState rh =
     GetCephFSMirrorPathState rh (GetCephFSSubvolumePath (cq_SubvolumeGroup (ch_Request rh)) (cq_Subvolume (ch_Request rh)))"

definition cephfs_GetResourceState :: "cephfs_handler \<Rightarrow> go_error + string" where
  "cephfs_GetResourceState rh =
     (let req = ch_Request rh in
      if \<not> list_ex (\<lambda>d. list_ex (\<lambda>fs. mf_Name fs = cq_Volume req) (md_Filesystems d)) (ch_Daemons rh) then Inr StateDisabledReplication
      else if cq_ResourceType req = CephfsResourceSubvolume then Inr (GetCephFSSubvolumeMirrorState rh)
      else if cq_ResourceType req = CephfsResourceDirectory then Inr (GetCephFSMirrorPathState rh (cq_DirPath req))
      else if cq_DirPath req \<noteq> [] \<or> cq_Subvolume req \<noteq> []
      then Inl (err_new (''invalid resource type ('' @ cq_ResourceType req @ '') for CephFS replication''))
      else Inr StateEnabledReplication)"

definition verifyEnableRequestData :: "rep_env \<Rightarrow> cephfs_request \<Rightarrow> unit io" where
  "verifyEnableRequestData E req =
     (if cq_Volume req = [] then io_fail (err_new ''missing CephFS volume name'')
      else if cq_RemoteName req = [] then io_fail (err_new ''missing remote cluster name'')
      else io_bind (GetRemoteDb E (cq_RemoteName req)) (\<lambda>remotes.
        if remotes = [] then io_fail (err_new (''Remote '' @ cq_RemoteName req @ '' not found in db ([])''))
        else if cq_ResourceType req \<noteq> CephfsResourceSubvolume \<and> cq_ResourceType req \<noteq> CephfsResourceDirectory
        then io_fail (err_new (''invalid resource type ('' @ cq_ResourceType req @ '') for CephFS replication''))
        else if cq_ResourceType req = CephfsResourceSubvolume
        then if cq_Subvolume req = []
             then io_fail (err_new (''missing subvolume name for resource type '' @ cq_ResourceType req))
             else io_bind (io_wrap (''Failed to get CephFS volume '' @ cq_Volume req @ '': '') (GetCephFSVolume E (cq_Volume req))) (\<lambda>vol.
               io_bind (CephFSSubvolumeExists E (cv_Name vol) (cq_SubvolumeGroup req) (cq_Subvolume req)) (\<lambda>found.
                 if found then io_return ()
                 else io_fail (err_new (''subvolume '' @ slashed (cq_SubvolumeGroup req) (cq_Subvolume req) @ '' not found in volume '' @ cq_Volume req))))
        else if cq_DirPath req = [] then io_fail (err_new (''missing directory path for resource type '' @ cq_ResourceType req))
        else io_return ()))"

definition verifyRemoteCephFSVolumeExists :: "rep_env \<Rightarrow> string \<Rightarrow> string \<Rightarrow> string \<Rightarrow> unit io" where
  "verifyRemoteCephFSVolumeExists E vol remote localName =
     io_bind (ListRemoteCephFSVolumes E remote localName) (\<lambda>volumes.
       if vol \<in> set volumes then io_return ()
       else io_fail (err_new (''cephfs volume '' @ vol @ '' not found, remote '' @ remote @ '' only has ['' @ join_with '' '' volumes @ '']'')))"

definition bootstrapCephFSMirrorPeerForVolume :: "rep_env \<Rightarrow> string \<Rightarrow> string \<Rightarrow> string \<Rightarrow> unit io" where
  "bootstrapCephFSMirrorPeerForVolume E volume remote localName =
     io_bind (attempt (cephFSSnapshotMirrorPeerExists E volume remote)) (\<lambda>r.
     io_bind (case r of
         Inl e \<Rightarrow> if contains_sub (etext e) VolumeNotMirrored
                  then io_bind (cephFSSnapshotMirrorEnableVolume E volume) (\<lambda>_. io_return False) else io_fail e
       | Inr b \<Rightarrow> io_return b) (\<lambda>peerExists.
       if peerExists then io_return ()
       else io_bind (cephFSSnapshotMirrorPeerCreate E volume remote localName) (\<lambda>tokenOutput.
         cephFSSnapshotMirrorPeerImport E volume (gj_string (rv_gjson E) (gj_get (rv_gjson E) tokenOutput ''token'')))))"

definition enableCephFSResourceMirror :: "rep_env \<Rightarrow> cephfs_request \<Rightarrow> unit io" where
  "enableCephFSResourceMirror E req =
     (let add = (\<lambda>path. io_wrap (''Failed to enable mirroring on CephFS volume '' @ cq_Volume req @ '': '')
                  (cephFSSnapshotMirrorAddPath E (cq_Volume req) path)) in
      if cq_ResourceType req = CephfsResourceSubvolume then add (GetCephFSSubvolumePath (cq_SubvolumeGroup req) (cq_Subvolume req))
      else if cq_ResourceType req = CephfsResourceDirectory then add (cq_DirPath req)
      else io_fail (err_new (''invalid resource type ('' @ cq_ResourceType req @ '') for CephFS replication'')))"

definition cephfs_EnableHandler :: "rep_env \<Rightarrow> cephfs_handler \<Rightarrow> unit io" where
  "cephfs_EnableHandler E rh =
     (let req = ch_Request rh in
      io_bind (verifyEnableRequestData E req) (\<lambda>_.
      io_bind (io_wrap (''remote ('' @ cq_RemoteName req @ '') does not exist: '') (GetRemoteDb E (cq_RemoteName req))) (\<lambda>dbRec.
        let remote = rr_Name (hd dbRec); l = rr_LocalName (hd dbRec) in
        io_bind (verifyRemoteCephFSVolumeExists E (cq_Volume req) remote l) (\<lambda>_.
        io_bind (io_wrap (''failed to enable mgr module '' @ MgrModuleMirroring @ '' on remote cluster '' @ remote @ '': '')
          (EnableMgrModule E MgrModuleMirroring remote l)) (\<lambda>_.
        io_bind (bootstrapCephFSMirrorPeerForVolume E (cq_Volume req) remote l) (\<lambda>_.
          enableCephFSResourceMirror E req))))))"

fun remove_mirror_paths :: "rep_env \<Rightarrow> string \<Rightarrow> string list \<Rightarrow> unit io" where
  "remove_mirror_paths E volume [] = io_return ()"
| "remove_mirror_paths E volume (p # ps) = io_bind (cephFSSnapshotMirrorRemovePath E volume p) (\<lambda>_. remove_mirror_paths E volume ps)"

definition disableCephFSVolumeMirror :: "rep_env \<Rightarrow> cephfs_request \<Rightarrow> string list \<Rightarrow> unit io" where
  "disableCephFSVolumeMirror E req paths =
     (if \<not> cq_IsForceOp req
      then io_fail (err_new (''Disabling it for the volume ('' @ cq_Volume req @ '') may result in data-loss, please use appropriate parmaters''))
      else remove_mirror_paths E (cq_Volume req) paths)"

text \<open>The message prints the request too, which is left out here.\<close>

definition cephfs_DisableHandler :: "rep_env \<Rightarrow> cephfs_handler \<Rightarrow> unit io" where
  "cephfs_DisableHandler E rh =
     (let req = ch_Request rh; failed = io_wrap ''REPCFS: Failed to disable mirroring on CephFS resource: '' in
      if cq_ResourceType req = CephfsResourceVolume
      then if cq_SubvolumeGroup req \<noteq> []
           then io_fail (err_new ''Disable not supported for subvolumegroup. Provide a subvolume name to proceed.'')
           else failed (disableCephFSVolumeMirror E req (ch_MirrorList rh))
      else if cq_ResourceType req = CephfsResourceSubvolume
      then failed (cephFSSnapshotMirrorRemovePath E (cq_Volume req) (GetCephFSSubvolumePath (cq_SubvolumeGroup req) (cq_Subvolume req)))
      else if cq_ResourceType req = CephfsResourceDirectory
      then failed (cephFSSnapshotMirrorRemovePath E (cq_Volume req) (cq_DirPath req))
      else failed (io_fail (err_new (''REPCFS: Disabe request failed, invalid resource type found ('' @ cq_ResourceType req @ '')''))))"

definition not_for_cephfs :: "string \<Rightarrow> unit io" where
  "not_for_cephfs t = io_fail (err_new (t @ '' not implemented for cephfs''))"

definition list_item :: "cephfs_volume \<Rightarrow> string \<Rightarrow> json option" where
  "list_item vol path =
     (let item = (\<lambda>t. JObj [(''resource_path'', JStr path), (''resource_type'', JStr t)]) in
      case CephFsSubvolumePathDeconstruct path of
        PartsPanic \<Rightarrow> None
      | NotSubvolume \<Rightarrow> Some (item CephfsResourceDirectory)
      | Parts g s \<Rightarrow> Some (item (
          if contains_sub g ''nogroup'' \<and> s \<in> set (cv_Ungrouped vol) then CephfsResourceSubvolume
          else case map_of (cv_SubvolumeGroups vol) g of
            None \<Rightarrow> CephfsResourceDirectory
          | Some svs \<Rightarrow> if s \<in> set svs then CephfsResourceSubvolume else CephfsResourceDirectory)))"

definition GetCephFsPerVolumeListResponse :: "rep_env \<Rightarrow> string \<Rightarrow> string list \<Rightarrow> json list io" where
  "GetCephFsPerVolumeListResponse E volume paths =
     io_bind (io_wrap (''failed to get CephFS volume '' @ volume @ '': '') (GetCephFSVolume E volume)) (\<lambda>vol.
       case those (map (list_item vol) paths) of
         None \<Rightarrow> io_fail (err_new ''panic: index out of range'')
       | Some items \<Rightarrow> io_return items)"

fun list_volumes :: "rep_env \<Rightarrow> (string \<times> string list) list \<Rightarrow> string list \<Rightarrow> (string \<times> json) list io" where
  "list_volumes E m [] = io_return []"
| "list_volumes E m (v # vs) =
     io_bind (GetCephFsPerVolumeListResponse E v (the (map_of m v))) (\<lambda>items.
     io_bind (list_volumes E m vs) (\<lambda>response.
       io_return (if items \<noteq> [] then (v, JArr items) # response else response)))"

definition cephfs_ListHandler :: "rep_env \<Rightarrow> json io" where
  "cephfs_ListHandler E =
     io_bind (GetCephFsAllVolumeMirrorMap E) (\<lambda>m.
     io_bind (list_volumes E m (loop_order (rv_sched E) 0 (keys m))) (\<lambda>response. io_return (JObj (sort_key fst response))))"

definition enc_dir_status :: "dir_status \<Rightarrow> json" where
  "enc_dir_status d = JObj [(''state'', JStr (ds_State d)), (''snaps_synced'', JInt (ds_Synced d)), (''snaps_deleted'', JInt (ds_Deleted d)),
     (''snaps_renamed'', JInt (ds_Renamed d))]"

text \<open>The peers of the response: those with a status, then the names of all the volume's peers.\<close>

definition name_peer :: "mirror_peer \<Rightarrow> (string \<times> (string \<times> (string \<times> dir_status) list option)) list \<Rightarrow>
    (string \<times> (string \<times> (string \<times> dir_status) list option)) list" where
  "name_peer p m = AList.update (mp_UUID p) (mp_ClusterName p, case map_of m (mp_UUID p) of None \<Rightarrow> None | Some (_, st) \<Rightarrow> st) m"

definition status_peers :: "cephfs_handler \<Rightarrow> (string \<times> (string \<times> (string \<times> dir_status) list option)) list" where
  "status_peers rh =
     fold name_peer (concat (map mf_Peers (filter (\<lambda>fs. mf_Name fs = cq_Volume (ch_Request rh)) (concat (map md_Filesystems (ch_Daemons rh))))))
       (map (\<lambda>(p, st). (p, ('''', Some st))) (ch_Status rh))"

definition enc_peer_item :: "string \<times> (string \<times> dir_status) list option \<Rightarrow> json" where
  "enc_peer_item p = JObj [(''name'', JStr (fst p)),
     (''mirror_status'', case snd p of None \<Rightarrow> JNull | Some m \<Rightarrow> JObj (map (\<lambda>(k, d). (k, enc_dir_status d)) (sort_key fst m)))]"

definition cephfs_StatusHandler :: "cephfs_handler \<Rightarrow> json" where
  "cephfs_StatusHandler rh =
     JObj [(''volume'', JStr (cq_Volume (ch_Request rh))), (''mirror_path_count'', JInt (int (length (ch_MirrorList rh)))),
       (''peers'', JObj (map (\<lambda>(k, p). (k, enc_peer_item p)) (sort_key fst (status_peers rh))))]"

fun cephfs_run :: "rep_env \<Rightarrow> cephfs_handler \<Rightarrow> rep_handler \<Rightarrow> json option io" where
  "cephfs_run E rh EnableHandler = no_response (cephfs_EnableHandler E rh)"
| "cephfs_run E rh DisableHandler = no_response (cephfs_DisableHandler E rh)"
| "cephfs_run E rh ConfigureHandler = no_response (not_for_cephfs ConfigureReplicationRequest)"
| "cephfs_run E rh ListHandler = with_response (cephfs_ListHandler E)"
| "cephfs_run E rh StatusHandler = with_response (io_return (cephfs_StatusHandler rh))"
| "cephfs_run E rh PromoteHandler = no_response (not_for_cephfs PromoteReplicationRequest)"
| "cephfs_run E rh DemoteHandler = no_response (not_for_cephfs DemoteReplicationRequest)"

end
