(* ===== verification/Replication_Api.thy ===== *)
theory Replication_Api
  imports Replication_Cephfs
begin

text \<open>
  The replication endpoints: the state machine of \<^verbatim>\<open>ceph/replication.go\<close> and the dispatch of
  \<^verbatim>\<open>api/ops_replication.go\<close>, for both workloads.
\<close>

section \<open>The state machine\<close>

definition GetReplicationStateMachine :: rep_machine where
  "GetReplicationStateMachine =
     [(StateDisabledReplication,
        [Permit EventEnableReplication StateEnabledReplication,
         OnEntryFrom EventDisableReplication DisableHandler,
         InternalTransition EventListReplication ListHandler,
         InternalTransition EventDisableReplication DisableHandler,
         InternalTransition EventPromoteReplication PromoteHandler,
         InternalTransition EventDemoteReplication DemoteHandler]),
      (StateEnabledReplication,
        [Permit EventDisableReplication StateDisabledReplication,
         OnEntryFrom EventEnableReplication EnableHandler,
         InternalTransition EventConfigureReplication ConfigureHandler,
         InternalTransition EventListReplication ListHandler,
         InternalTransition EventStatusReplication StatusHandler,
         InternalTransition EventPromoteReplication PromoteHandler,
         InternalTransition EventDemoteReplication DemoteHandler])]"

text \<open>The documented behaviour of the library, for a state that gives each event one meaning: an internal
  transition runs its handler, a permitted event runs the handlers the next state has for entries from
  it, and every other event is unhandled.\<close>

fun rule_event :: "rep_rule \<Rightarrow> string option" where
  "rule_event (Permit e s) = Some e"
| "rule_event (InternalTransition e h) = Some e"
| "rule_event (OnEntryFrom e h) = None"

fun entry_handlers :: "string \<Rightarrow> rep_rule list \<Rightarrow> rep_handler list" where
  "entry_handlers e [] = []"
| "entry_handlers e (OnEntryFrom e' h # rules) = (if e' = e then h # entry_handlers e rules else entry_handlers e rules)"
| "entry_handlers e (_ # rules) = entry_handlers e rules"

definition rules_of :: "rep_machine \<Rightarrow> string \<Rightarrow> rep_rule list" where
  "rules_of m s = (case map_of m s of None \<Rightarrow> [] | Some rules \<Rightarrow> rules)"

definition documented_fire :: "rep_machine \<Rightarrow> string \<Rightarrow> string \<Rightarrow> rep_handler list option" where
  "documented_fire m s e =
     (case List.find (\<lambda>r. rule_event r = Some e) (rules_of m s) of
        None \<Rightarrow> None
      | Some (Permit _ dst) \<Rightarrow> Some (entry_handlers e (rules_of m dst))
      | Some (InternalTransition _ h) \<Rightarrow> Some [h]
      | Some (OnEntryFrom _ _) \<Rightarrow> None)"

definition unambiguous :: "rep_machine \<Rightarrow> string \<Rightarrow> bool" where
  "unambiguous m s \<longleftrightarrow> distinct (filter (\<lambda>e. e \<noteq> None) (map rule_event (rules_of m s)))"

definition machine_documented :: "rep_env \<Rightarrow> bool" where
  "machine_documented E \<longleftrightarrow> (\<forall>m s e. unambiguous m s \<longrightarrow> rv_fire E m s e = documented_fire m s e)"

definition unhandledTransition :: "string \<Rightarrow> string \<Rightarrow> go_error" where
  "unhandledTransition state event = err_new (''REPFSM: operation: '' @ event @ '' is not permitted at '' @ state @ '' state'')"

text \<open>The handlers of one firing run in order; the response is the last one set.\<close>

fun run_handlers :: "(rep_handler \<Rightarrow> json option io) \<Rightarrow> rep_handler list \<Rightarrow> json option \<Rightarrow> json option io" where
  "run_handlers f [] resp = io_return resp"
| "run_handlers f (h # hs) resp = io_bind (f h) (\<lambda>r. run_handlers f hs (case r of None \<Rightarrow> resp | Some j \<Rightarrow> Some j))"

definition FireCtx :: "rep_env \<Rightarrow> string \<Rightarrow> string \<Rightarrow> (rep_handler \<Rightarrow> json option io) \<Rightarrow> json option io" where
  "FireCtx E state event f =
     (case rv_fire E GetReplicationStateMachine state event of
        None \<Rightarrow> io_fail (unhandledTransition state event)
      | Some hs \<Rightarrow> run_handlers f hs None)"

section \<open>Requests\<close>

datatype rep_request = RbdRequest rbd_request | CephfsRequest cephfs_request

datatype rep_response = SyncResponse "json option" | RepInternalError go_error | RepSmartError go_error

definition rbd_replicate :: "rep_env \<Rightarrow> rbd_request \<Rightarrow> json option io" where
  "rbd_replicate E req =
     io_bind (rbd_PreFill E req) (\<lambda>rh.
       FireCtx E (rbd_GetResourceState rh) (GetWorkloadRequestTypeGeneric (rq_RequestType req)) (rbd_run E rh))"

definition cephfs_replicate :: "rep_env \<Rightarrow> cephfs_request \<Rightarrow> json option io" where
  "cephfs_replicate E req =
     io_bind (cephfs_PreFill E req) (\<lambda>rh.
     io_bind (of_result (cephfs_GetResourceState rh)) (\<lambda>state.
       FireCtx E state (GetWorkloadRequestTypeGeneric (cq_RequestType req)) (cephfs_run E rh)))"

definition handleReplicationRequest :: "rep_env \<Rightarrow> rep_request \<Rightarrow> rep_response io" where
  "handleReplicationRequest E req =
     io_bind (attempt (case req of RbdRequest r \<Rightarrow> rbd_replicate E r | CephfsRequest r \<Rightarrow> cephfs_replicate E r)) (\<lambda>r.
       io_return (case r of Inl e \<Rightarrow> RepSmartError e | Inr resp \<Rightarrow> SyncResponse resp))"

text \<open>The body is the document in it, if there is one.\<close>

definition cmdOpsReplication :: "rep_env \<Rightarrow> string \<Rightarrow> string \<Rightarrow> json option \<Rightarrow> string \<Rightarrow> rep_response io" where
  "cmdOpsReplication E wlVar nameVar body overwriteType =
     (case (PathUnescape wlVar, PathUnescape nameVar) of
        (Inl e, _) \<Rightarrow> io_return (RepInternalError e)
      | (_, Inl e) \<Rightarrow> io_return (RepInternalError e)
      | (Inr wl, Inr resource) \<Rightarrow>
          if wl = ''rbd''
          then (case unmarshal (read_struct (request_field (rv_lib E)) request_zero) body of
                  None \<Rightarrow> io_return (RepInternalError (err_new ''failed to decode request data''))
                | Some data \<Rightarrow> (case SetAPIObjectID resource data of
                    Inl e \<Rightarrow> io_return (RepInternalError e)
                  | Inr req \<Rightarrow> handleReplicationRequest E (RbdRequest (OverwriteRequestType overwriteType req))))
          else if wl = ''cephfs''
          then (case unmarshal (read_struct (cephfs_request_field (rv_lib E)) cephfs_request_zero) body of
                  None \<Rightarrow> io_return (RepInternalError (err_new ''failed to decode request data''))
                | Some data \<Rightarrow> handleReplicationRequest E (CephfsRequest (cephfs_OverwriteRequestType overwriteType data)))
          else io_return (RepSmartError (err_new (''unknown workload '' @ wl @ '', resource '' @ resource))))"

definition getOpsReplicationWorkload :: "rep_env \<Rightarrow> string \<Rightarrow> string \<Rightarrow> json option \<Rightarrow> rep_response io" where
  "getOpsReplicationWorkload E wl name body = cmdOpsReplication E wl name body ListReplicationRequest"

definition putOpsReplicationWorkload :: "rep_env \<Rightarrow> string \<Rightarrow> string \<Rightarrow> json option \<Rightarrow> rep_response io" where
  "putOpsReplicationWorkload E wl name body = cmdOpsReplication E wl name body WorkloadReplicationRequest"

definition getOpsReplicationResource :: "rep_env \<Rightarrow> string \<Rightarrow> string \<Rightarrow> json option \<Rightarrow> rep_response io" where
  "getOpsReplicationResource E wl name body = cmdOpsReplication E wl name body StatusReplicationRequest"

definition postOpsReplicationResource :: "rep_env \<Rightarrow> string \<Rightarrow> string \<Rightarrow> json option \<Rightarrow> rep_response io" where
  "postOpsReplicationResource E wl name body = cmdOpsReplication E wl name body EnableReplicationRequest"

definition putOpsReplicationResource :: "rep_env \<Rightarrow> string \<Rightarrow> string \<Rightarrow> json option \<Rightarrow> rep_response io" where
  "putOpsReplicationResource E wl name body = cmdOpsReplication E wl name body ConfigureReplicationRequest"

definition deleteOpsReplicationResource :: "rep_env \<Rightarrow> string \<Rightarrow> string \<Rightarrow> json option \<Rightarrow> rep_response io" where
  "deleteOpsReplicationResource E wl name body = cmdOpsReplication E wl name body DisableReplicationRequest"
end
