(* ===== verification/Replication_Safety.thy ===== *)
theory Replication_Safety
  imports Replication_Api
begin

text \<open>
  Properties of replication requests: the state machine against a plain decision table, what a disable
  of a pool and a site-wide promotion or demotion may do and when, how often a refused disable is tried
  again, and the resource names of the endpoint's path.
\<close>

section \<open>The decision table\<close>

text \<open>What a request does, by whether replication of its resource is enabled.\<close>

definition rep_table :: "bool \<Rightarrow> string \<Rightarrow> rep_handler option" where
  "rep_table enabled e =
     (if e = EventListReplication then Some ListHandler
      else if e = EventPromoteReplication then Some PromoteHandler
      else if e = EventDemoteReplication then Some DemoteHandler
      else if e = EventDisableReplication then Some DisableHandler
      else if e = EventEnableReplication \<and> \<not> enabled then Some EnableHandler
      else if e = EventConfigureReplication \<and> enabled then Some ConfigureHandler
      else if e = EventStatusReplication \<and> enabled then Some StatusHandler
      else None)"

definition by_table :: "string \<Rightarrow> string \<Rightarrow> (rep_handler \<Rightarrow> json option io) \<Rightarrow> json option io" where
  "by_table state e f =
     (case rep_table (state = StateEnabledReplication) e of None \<Rightarrow> io_fail (unhandledTransition state e) | Some h \<Rightarrow> f h)"

lemma states_differ: "StateEnabledReplication \<noteq> StateDisabledReplication"
  by (simp add: rep_constants)

lemma machine_unambiguous: "unambiguous GetReplicationStateMachine s"
  by (simp add: unambiguous_def rules_of_def GetReplicationStateMachine_def rep_events)

lemma machine_table:
  assumes "s = StateEnabledReplication \<or> s = StateDisabledReplication"
  shows "documented_fire GetReplicationStateMachine s e = map_option (\<lambda>h. [h]) (rep_table (s = StateEnabledReplication) e)"
  using assms states_differ
  by (auto simp: documented_fire_def rules_of_def GetReplicationStateMachine_def rep_table_def rep_events)

lemma run_one_handler: "run_handlers f [h] None = f h"
  by (rule ext) (simp add: io_bind_def io_return_def split: prod.splits sum.splits option.splits)

lemma fire_by_table:
  assumes "machine_documented E" "s = StateEnabledReplication \<or> s = StateDisabledReplication"
  shows "FireCtx E s e f = by_table s e f"
proof -
  have "rv_fire E GetReplicationStateMachine s e = map_option (\<lambda>h. [h]) (rep_table (s = StateEnabledReplication) e)"
    using assms machine_unambiguous machine_table unfolding machine_documented_def by metis
  then show ?thesis
    by (simp add: FireCtx_def by_table_def run_one_handler del: run_handlers.simps split: option.splits)
qed

text \<open>The state a request is given is always one the machine knows.\<close>

lemma io_bind_Inr: "io_bind f g h = (Inr v, h') \<longleftrightarrow> (\<exists>x h1. f h = (Inr x, h1) \<and> g x h1 = (Inr v, h'))"
  by (auto simp: io_bind_def split: prod.splits sum.splits)

lemma io_return_Inr: "io_return x h = (Inr v, h') \<longleftrightarrow> v = x \<and> h' = h"
  by (auto simp: io_return_def)

lemma io_fail_Inr: "\<not> io_fail e h = (Inr v, h')"
  by (simp add: io_fail_def)

lemmas io_Inr = io_bind_Inr io_return_Inr io_fail_Inr

lemma pool_state_known:
  "GetRbdMirrorPoolStatus E pool h = (Inr st, h') \<Longrightarrow> ps_State st = StateEnabledReplication \<or> ps_State st = StateDisabledReplication"
  unfolding GetRbdMirrorPoolStatus_def io_bind_Inr
  by (elim exE conjE, rename_tac r h1, case_tac r) (auto simp: io_Inr split: option.split_asm)

lemma image_state_known:
  "GetRbdMirrorImageStatus E pool i h = (Inr st, h') \<Longrightarrow> is_State st = StateEnabledReplication \<or> is_State st = StateDisabledReplication"
  unfolding GetRbdMirrorImageStatus_def io_bind_Inr
  by (elim exE conjE, rename_tac r h1, case_tac r) (auto simp: io_Inr split: option.split_asm)

lemma rbd_state_known:
  assumes "rbd_PreFill E req h = (Inr rh, h')"
  shows "rbd_GetResourceState rh = StateEnabledReplication \<or> rbd_GetResourceState rh = StateDisabledReplication"
  using assms pool_state_known image_state_known
  by (fastforce simp: rbd_PreFill_def rbd_GetResourceState_def io_Inr split: if_splits)

lemma cephfs_state_known:
  "cephfs_GetResourceState rh = Inr s \<Longrightarrow> s = StateEnabledReplication \<or> s = StateDisabledReplication"
  by (auto simp: cephfs_GetResourceState_def Let_def GetCephFSSubvolumeMirrorState_def GetCephFSMirrorPathState_def split: if_splits)

lemma io_bind_known:
  assumes "\<And>v h1. f h = (Inr v, h1) \<Longrightarrow> g v h1 = g' v h1"
  shows "io_bind f g h = io_bind f g' h"
  using assms by (auto simp: io_bind_def split: prod.splits sum.splits)

definition rbd_reference :: "rep_env \<Rightarrow> rbd_request \<Rightarrow> json option io" where
  "rbd_reference E req =
     io_bind (rbd_PreFill E req) (\<lambda>rh.
       by_table (rbd_GetResourceState rh) (GetWorkloadRequestTypeGeneric (rq_RequestType req)) (rbd_run E rh))"

definition cephfs_reference :: "rep_env \<Rightarrow> cephfs_request \<Rightarrow> json option io" where
  "cephfs_reference E req =
     io_bind (cephfs_PreFill E req) (\<lambda>rh. io_bind (of_result (cephfs_GetResourceState rh)) (\<lambda>s.
       by_table s (GetWorkloadRequestTypeGeneric (cq_RequestType req)) (cephfs_run E rh)))"

lemma rbd_by_table: "machine_documented E \<Longrightarrow> rbd_replicate E req h = rbd_reference E req h"
  unfolding rbd_replicate_def rbd_reference_def
  by (rule io_bind_known) (simp add: fire_by_table rbd_state_known)

lemma cephfs_by_table: "machine_documented E \<Longrightarrow> cephfs_replicate E req h = cephfs_reference E req h"
  unfolding cephfs_replicate_def cephfs_reference_def
proof (rule io_bind_known, rule io_bind_known)
  fix rh h1 s h2
  assume "machine_documented E" "of_result (cephfs_GetResourceState rh) h1 = (Inr s, h2)"
  then show "FireCtx E s (GetWorkloadRequestTypeGeneric (cq_RequestType req)) (cephfs_run E rh) h2 =
      by_table s (GetWorkloadRequestTypeGeneric (cq_RequestType req)) (cephfs_run E rh) h2"
    by (cases "cephfs_GetResourceState rh") (auto simp: of_result_def io_Inr fire_by_table dest: cephfs_state_known)
qed
section \<open>Names in paths\<close>

lemma hex_round: "d < 16 \<Longrightarrow> hex_val (hex_char d) = Some d"
  by (auto simp: hex_val_def hex_char_def Let_def)

lemma plain_not_percent: "plain_byte c \<Longrightarrow> c \<noteq> CHR ''%''"
  by (auto simp: plain_byte_def is_digit_byte_def Let_def)

lemma byte_halves: "char_of (16 * ((of_char c :: nat) div 16) + of_char c mod 16) = c"
  by simp

lemma unescape_byte:
  assumes "CHR '' '' \<noteq> c"
  shows "PathUnescape (escape_byte c @ s) = (case PathUnescape s of Inl e \<Rightarrow> Inl e | Inr t \<Rightarrow> Inr (c # t))"
proof (cases "plain_byte c")
  case True
  then show ?thesis using plain_not_percent by (simp add: escape_byte_def)
next
  case False
  have "(of_char c :: nat) div 16 < 16" by (rule less_mult_imp_div_less) simp
  then show ?thesis using False assms by (simp add: escape_byte_def hex_round byte_halves split: sum.split)
qed

lemma unescape_escape: "CHR '' '' \<notin> set s \<Longrightarrow> PathUnescape (QueryEscape s) = Inr s"
  by (induction s) (simp_all add: QueryEscape_def unescape_byte)

lemma split_slashed: "CHR ''/'' \<notin> set a \<Longrightarrow> CHR ''/'' \<notin> set b \<Longrightarrow> split_on (CHR ''/'') (slashed a b) = [a, b]"
  by (simp add: slashed_def split_on_append split_on_clean)

text \<open>The path of a subvolume gives its group and name back.\<close>

lemma subvolume_path_round_trip:
  assumes "CHR ''/'' \<notin> set g" "CHR ''/'' \<notin> set s"
  shows "CephFsSubvolumePathDeconstruct (GetCephFSSubvolumePath g s) = Parts (if g = [] then ''_nogroup'' else g) s"
proof -
  let ?g = "if g = [] then ''_nogroup'' else g"
  have p: "GetCephFSSubvolumePath g s = [] @ CHR ''/'' # ''volumes'' @ CHR ''/'' # ?g @ CHR ''/'' # s"
    by (simp add: GetCephFSSubvolumePath_def)
  have "split_on (CHR ''/'') (GetCephFSSubvolumePath g s) = [[], ''volumes'', ?g, s]"
    unfolding p split_on_append using assms by (simp add: split_on_clean)
  moreover have "has_prefix (GetCephFSSubvolumePath g s) ''/volumes/''"
    by (simp add: GetCephFSSubvolumePath_def has_prefix_def)
  ultimately show ?thesis by (simp add: CephFsSubvolumePathDeconstruct_def)
qed

text \<open>A mirrored directory that lies directly in the directory of volumes makes the listing panic.\<close>

lemma short_path_panics: "CephFsSubvolumePathDeconstruct ''/volumes/data'' = PartsPanic"
  by (simp add: CephFsSubvolumePathDeconstruct_def has_prefix_def)

text \<open>The filtered list of pools is as long as the list of all pools: each pool without the application
  leaves a record with an empty name.\<close>

lemma filtered_pools_padded:
  "a \<noteq> [] \<Longrightarrow> length (filter_pools a ps) = length ps"
  "a \<noteq> [] \<Longrightarrow> \<exists>p \<in> set ps. map_of (cp_Application p) a = None \<Longrightarrow> pool_zero \<in> set (filter_pools a ps)"
proof -
  let ?kept = "filter (\<lambda>p. map_of (cp_Application p) a \<noteq> None) ps"
  assume a: "a \<noteq> []"
  have le: "length ?kept \<le> length ps" by (rule length_filter_le)
  with a show "length (filter_pools a ps) = length ps" by (simp add: filter_pools_def Let_def)
  assume "\<exists>p \<in> set ps. map_of (cp_Application p) a = None"
  then have "length ?kept < length ps" by (auto intro: length_filter_less)
  with a show "pool_zero \<in> set (filter_pools a ps)" by (simp add: filter_pools_def Let_def)
qed

section \<open>Requests that only look\<close>

definition rep_looks :: "request \<Rightarrow> bool" where
  "rep_looks r =
     (case r of
        Cmd args \<Rightarrow> take 4 args \<in> {[''rbd'', ''mirror'', ''pool'', ''info''], [''rbd'', ''mirror'', ''pool'', ''status''],
            [''rbd'', ''mirror'', ''image'', ''status''], [''ceph'', ''osd'', ''pool'', ''ls'']} \<or>
          take 2 args = [''rbd'', ''ls''] \<or> take 5 args = [''rbd'', ''mirror'', ''snapshot'', ''schedule'', ''list'']
      | Db s a \<Rightarrow> s = ''remoteObjects''
      | _ \<Rightarrow> False)"

definition info_cmd :: "string \<Rightarrow> string \<Rightarrow> string \<Rightarrow> request" where
  "info_cmd pool client cluster = Cmd (''rbd'' # appendRemoteClusterArgs [''mirror'', ''pool'', ''info'', pool, ''--format'', ''json''] cluster client)"

definition remove_cmd :: "string \<Rightarrow> string \<Rightarrow> string \<Rightarrow> string \<Rightarrow> request" where
  "remove_cmd pool i client cluster = Cmd (''rbd'' # appendRemoteClusterArgs [''mirror'', ''pool'', ''peer'', ''remove'', pool, i] cluster client)"

definition disable_cmd :: "string \<Rightarrow> string \<Rightarrow> string \<Rightarrow> request" where
  "disable_cmd pool client cluster = Cmd (''rbd'' # appendRemoteClusterArgs [''mirror'', ''pool'', ''disable'', pool] cluster client)"

lemma looks_info: "rep_looks (info_cmd pool client cluster)"
  by (simp add: rep_looks_def info_cmd_def appendRemoteClusterArgs_def)

lemma only_run: "R (Cmd args) \<Longrightarrow> only R (run E args)"
  unfolding run_def by (rule only_must)

lemma only_run_ok: "R (Cmd args) \<Longrightarrow> only R (run_ok E args)"
  unfolding run_ok_def by (intro only_rules only_run)

lemma only_info: "R (info_cmd pool client cluster) \<Longrightarrow> only R (GetRbdMirrorPoolInfo E pool cluster client)"
  unfolding GetRbdMirrorPoolInfo_def info_cmd_def by (intro only_rules only_run)

lemma only_pool_status: "(\<And>r. rep_looks r \<Longrightarrow> R r) \<Longrightarrow> only R (GetRbdMirrorPoolStatus E pool)"
  unfolding GetRbdMirrorPoolStatus_def by (intro only_rules only_run) (simp_all add: rep_looks_def)

lemma only_verbose: "(\<And>r. rep_looks r \<Longrightarrow> R r) \<Longrightarrow> only R (GetRbdMirrorVerbosePoolStatus E pool)"
  unfolding GetRbdMirrorVerbosePoolStatus_def Let_def by (intro only_rules only_run) (simp_all add: rep_looks_def)

lemma only_image_status: "(\<And>r. rep_looks r \<Longrightarrow> R r) \<Longrightarrow> only R (GetRbdMirrorImageStatus E pool i)"
  unfolding GetRbdMirrorImageStatus_def by (intro only_rules only_run) (simp_all add: rep_looks_def)

lemma only_pools: "(\<And>r. rep_looks r \<Longrightarrow> R r) \<Longrightarrow> only R (ListPools E a)"
  unfolding ListPools_def by (intro only_rules only_run) (simp_all add: rep_looks_def)

lemma only_remotes: "(\<And>r. rep_looks r \<Longrightarrow> R r) \<Longrightarrow> only R (getRemoteRecords E name)"
  unfolding getRemoteRecords_def GetRemoteDb_def
  by (intro only_rules only_observe only_of_result) (simp_all add: rep_looks_def)

lemma only_prefill: "only rep_looks (rbd_PreFill E req)"
  unfolding rbd_PreFill_def
  by (intro only_rules only_info looks_info only_pool_status only_image_status)

lemma only_list: "only rep_looks (rbd_ListHandler E)"
proof -
  have "only rep_looks (list_pools E ps)" for ps
    by (induction ps) (auto intro!: only_rules only_verbose)
  then show ?thesis unfolding rbd_ListHandler_def by (intro only_rules only_pools)
qed

text \<open>A request that the table does not send to a changing handler only looks.\<close>

lemma only_by_table:
  assumes "rep_table b e \<in> {None, Some ListHandler, Some StatusHandler}" "b \<longleftrightarrow> s = StateEnabledReplication"
  shows "only rep_looks (by_table s e (rbd_run E rh))"
  unfolding by_table_def
proof (rule only_option)
  fix h assume h: "rep_table (s = StateEnabledReplication) e = Some h"
  with assms have "h = ListHandler \<or> h = StatusHandler" by auto
  then show "only rep_looks (rbd_run E rh h)"
    by (auto simp: with_response_def intro!: only_rules only_list only_of_result)
qed (rule only_fail)

section \<open>Disabling a pool\<close>

text \<open>The peers of a site that an answer to \<^verbatim>\<open>rbd mirror pool info\<close> lists.\<close>

definition ids_in :: "rep_env \<Rightarrow> string \<Rightarrow> reply \<Rightarrow> string list" where
  "ids_in E site a =
     (if answered a then case unmarshal (read_info (rv_lib E)) (reply_json a) of None \<Rightarrow> [] | Some info \<Rightarrow> peer_ids site info else [])"

abbreviation listed :: "rep_env \<Rightarrow> string \<Rightarrow> string \<Rightarrow> string \<Rightarrow> string \<Rightarrow> string list \<Rightarrow> history \<Rightarrow> bool" where
  "listed E pool site client cluster ids \<equiv> happened (rv_host E) (\<lambda>a. ids_in E site a = ids) (info_cmd pool client cluster)"

abbreviation removed :: "rep_env \<Rightarrow> string \<Rightarrow> string \<Rightarrow> string \<Rightarrow> string \<Rightarrow> history \<Rightarrow> bool" where
  "removed E pool client cluster i \<equiv> happened (rv_host E) answered (remove_cmd pool i client cluster)"

text \<open>The site's peers were listed, there were some, and each of them was removed.\<close>

definition peers_gone :: "rep_env \<Rightarrow> string \<Rightarrow> string \<Rightarrow> string \<Rightarrow> string \<Rightarrow> history \<Rightarrow> bool" where
  "peers_gone E pool site client cluster log \<longleftrightarrow>
     (\<exists>ids. ids \<noteq> [] \<and> listed E pool site client cluster ids log \<and> (\<forall>i \<in> set ids. removed E pool client cluster i log))"

definition may_remove :: "rep_env \<Rightarrow> string \<Rightarrow> string \<Rightarrow> string \<Rightarrow> string \<Rightarrow> history \<Rightarrow> request \<Rightarrow> bool" where
  "may_remove E pool site client cluster log r \<longleftrightarrow>
     (\<exists>i ids. r = remove_cmd pool i client cluster \<and> i \<in> set ids \<and> listed E pool site client cluster ids log)"

text \<open>What a disable of a pool between two sites may ask for, and when.\<close>

definition disable_step :: "rep_env \<Rightarrow> string \<Rightarrow> string \<Rightarrow> string \<Rightarrow> history \<Rightarrow> request \<Rightarrow> bool" where
  "disable_step E pool here there log r \<longleftrightarrow>
     rep_looks r \<or> may_remove E pool there '''' '''' log r \<or> may_remove E pool here here there log r \<or>
     (peers_gone E pool there '''' '''' log \<and> peers_gone E pool here here there log \<and>
       (r = disable_cmd pool '''' '''' \<or>
        (r = disable_cmd pool here there \<and> happened (rv_host E) answered (disable_cmd pool '''' '''') log)))"

lemma grows_gone: "grows (peers_gone E pool site client cluster)"
  unfolding grows_def peers_gone_def by (auto simp: happened_snoc)

lemma triple_cmd:
  assumes "grows I" "\<And>log. I log \<Longrightarrow> Q log (Cmd args)"
  shows "triple Q I (run_ok E args) (\<lambda>_ log. I log \<and> happened (rv_host E) answered (Cmd args) log) (\<lambda>_. I)"
  using assms unfolding triple_def run_ok_def run_def must_def io_bind_def ask_def io_return_def io_fail_def
  by (auto simp: growsD happened_snoc)

lemma triple_info:
  assumes "grows I" "\<And>log. I log \<Longrightarrow> Q log (info_cmd pool client cluster)"
  shows "triple Q I (GetRbdMirrorPoolInfo E pool cluster client)
    (\<lambda>info log. I log \<and> listed E pool site client cluster (peer_ids site info) log) (\<lambda>_. I)"
  using assms unfolding triple_def GetRbdMirrorPoolInfo_def info_cmd_def run_def must_def attempt_def io_bind_def ask_def io_return_def io_fail_def
  by (auto simp: growsD happened_snoc ids_in_def peer_ids_def info_zero_def split: option.splits)

lemma triple_ids:
  assumes "grows I" "\<And>log. I log \<Longrightarrow> Q log (info_cmd pool client cluster)"
  shows "triple Q I (getAllPeerUUIDs E pool site client cluster)
    (\<lambda>ids log. (I log \<and> listed E pool site client cluster ids log) \<and> ids \<noteq> []) (\<lambda>_. I)"
  unfolding getAllPeerUUIDs_def
proof (rule triple_bind)
  show "triple Q I (GetRbdMirrorPoolInfo E pool cluster client)
      (\<lambda>info log. I log \<and> listed E pool site client cluster (peer_ids site info) log) (\<lambda>_. I)"
    by (rule triple_info [OF assms(1)]) (rule assms(2))
qed (auto intro!: triple_if triple_return triple_fail)

lemma triple_remove:
  assumes "grows I" "\<And>log. I log \<Longrightarrow> Q log (remove_cmd pool i client cluster)"
  shows "triple Q I (peerRemove E pool i client cluster) (\<lambda>_ log. I log \<and> removed E pool client cluster i log) (\<lambda>_. I)"
  unfolding peerRemove_def remove_cmd_def
  by (rule triple_wrap) (rule triple_cmd [OF assms(1)], simp add: assms(2) [unfolded remove_cmd_def])

lemma triple_remove_all:
  assumes "grows I" "\<And>log i. I log \<Longrightarrow> i \<in> set ids \<Longrightarrow> Q log (remove_cmd pool i client cluster)"
  shows "triple Q I (remove_peers E pool client cluster ids) (\<lambda>_ log. I log \<and> (\<forall>i \<in> set ids. removed E pool client cluster i log)) (\<lambda>_. I)"
  using assms
proof (induction ids arbitrary: I)
  case Nil
  then show ?case by (auto intro: triple_return)
next
  case (Cons i ids)
  let ?I = "\<lambda>log. I log \<and> removed E pool client cluster i log"
  have g: "grows ?I" by (intro grows_rules Cons.prems(1))
  have "triple Q ?I (remove_peers E pool client cluster ids) (\<lambda>_ log. ?I log \<and> (\<forall>i \<in> set ids. removed E pool client cluster i log)) (\<lambda>_. ?I)"
    by (rule Cons.IH [OF g]) (simp add: Cons.prems(2))
  then have rest: "triple Q ?I (remove_peers E pool client cluster ids)
      (\<lambda>_ log. I log \<and> (\<forall>j \<in> set (i # ids). removed E pool client cluster j log)) (\<lambda>_. I)"
    by (rule triple_weaken) auto
  show ?case unfolding remove_peers.simps
    by (rule triple_bind [OF triple_remove]) (use rest Cons.prems in auto)
qed

lemma triple_try_remove:
  assumes "grows I" "\<And>log i. I log \<Longrightarrow> i \<in> set ids \<Longrightarrow> Q log (remove_cmd pool i client cluster)"
  shows "triple Q I (try_remove_peers E pool client cluster ids) (\<lambda>_. I) Err"
  using assms
proof (induction ids)
  case Nil
  then show ?case by (auto intro: triple_return)
next
  case (Cons i ids)
  have "triple Q I (attempt (peerRemove E pool i client cluster)) (\<lambda>_. I) Err"
    by (rule triple_attempt, rule triple_weaken [OF triple_remove]) (use Cons.prems in auto)
  then show ?case unfolding try_remove_peers.simps by (rule triple_bind) (use Cons in auto)
qed

lemma triple_removeReregistered:
  assumes "grows I" "\<And>log. I log \<Longrightarrow> Q log (info_cmd pool client cluster)"
    "\<And>log r. I log \<Longrightarrow> may_remove E pool site client cluster log r \<Longrightarrow> Q log r"
  shows "triple Q I (removeReregisteredPeers E pool site client cluster) (\<lambda>_. I) Err"
  unfolding removeReregisteredPeers_def
proof (rule triple_bind)
  let ?L = "\<lambda>ids log. I log \<and> listed E pool site client cluster ids log"
  show "triple Q I (attempt (getAllPeerUUIDs E pool site client cluster)) (\<lambda>r log. I log \<and> (\<forall>ids. r = Inr ids \<longrightarrow> ?L ids log)) Err"
    by (rule triple_attempt, rule triple_weaken [OF triple_ids [OF assms(1)]]) (auto simp: assms(2))
  fix r
  show "triple Q (\<lambda>log. I log \<and> (\<forall>ids. r = Inr ids \<longrightarrow> ?L ids log))
      (case r of Inl _ \<Rightarrow> io_return () | Inr ids \<Rightarrow> try_remove_peers E pool client cluster ids) (\<lambda>_. I) Err"
  proof (cases r)
    case (Inl e)
    then show ?thesis by (auto intro: triple_return)
  next
    case (Inr ids)
    have "grows (?L ids)" by (intro grows_rules assms(1))
    then have "triple Q (?L ids) (try_remove_peers E pool client cluster ids) (\<lambda>_. ?L ids) Err"
      by (rule triple_try_remove) (use assms(3) in \<open>auto simp: may_remove_def\<close>)
    then show ?thesis unfolding Inr sum.case by (rule triple_weaken) auto
  qed
qed

text \<open>Under the documented retry library: every attempt keeps what it keeps, and success means that an
  attempt succeeded.\<close>

lemma triple_retry_loop:
  assumes "\<And>i. triple Q I (action i) (\<lambda>_. J) (\<lambda>_. I)" "0 < n \<or> prev \<noteq> None"
  shows "triple Q I (retry_loop n i again action prev) (\<lambda>_. J) (\<lambda>_. I)"
  using assms(2)
proof (induction n arbitrary: i prev)
  case 0
  then show ?case by (auto intro: triple_fail)
next
  case (Suc n)
  have stop: "triple Q I (retry_loop 0 i again action prev) (\<lambda>_. J) (\<lambda>_. I)" if "prev \<noteq> None" using that by (auto intro: triple_fail)
  have next_one: "triple Q (case r of Inl e \<Rightarrow> I | Inr _ \<Rightarrow> J)
      (case r of Inr _ \<Rightarrow> io_return () | Inl e \<Rightarrow> retry_loop n (Suc i) again action (Some e)) (\<lambda>_. J) (\<lambda>_. I)" for r
    using Suc.IH [of "Some e" for e] by (cases r) (auto intro: triple_return)
  have go: "triple Q I (io_bind (attempt (action i)) (\<lambda>r. case r of
      Inr _ \<Rightarrow> io_return () | Inl e \<Rightarrow> retry_loop n (Suc i) again action (Some e))) (\<lambda>_. J) (\<lambda>_. I)"
    by (rule triple_bind [OF triple_attempt next_one]) (use assms(1) in simp)
  show ?case unfolding retry_loop.simps(2) by (rule triple_if, rule go, rule stop) (auto split: option.splits)
qed

lemma triple_retry:
  assumes "retry_documented E" "0 < limit" "\<And>i. triple Q I (action i) (\<lambda>_. J) (\<lambda>_. I)"
  shows "triple Q I (rv_retry E limit again action) (\<lambda>_. J) (\<lambda>_. I)"
proof -
  from assms(1,2) obtain n where "0 < n" "rv_retry E limit again action = retry_loop n 1 again action None"
    unfolding retry_documented_def by blast
  with triple_retry_loop [OF assms(3)] show ?thesis by simp
qed

lemma triple_disable_cmd:
  assumes "grows I" "\<And>log. I log \<Longrightarrow> Q log (disable_cmd pool client cluster)"
  shows "triple Q I (configurePoolMirroring E pool RbdResourceDisabled client cluster)
    (\<lambda>_ log. I log \<and> happened (rv_host E) answered (disable_cmd pool client cluster) log) (\<lambda>_. I)"
  unfolding configurePoolMirroring_def disable_cmd_def simp_thms if_True
  by (rule triple_wrap) (rule triple_cmd [OF assms(1)], simp add: assms(2) [unfolded disable_cmd_def])

text \<open>One attempt to disable, after the peers of the site that came back are removed.\<close>

lemma triple_disable_attempt:
  assumes "grows I" "\<And>log r. I log \<Longrightarrow> rep_looks r \<or> may_remove E pool site client cluster log r \<Longrightarrow> Q log r"
    "\<And>log. I log \<Longrightarrow> Q log (disable_cmd pool client cluster)"
  shows "triple Q I (io_bind (if b then removeReregisteredPeers E pool site client cluster else io_return ()) (\<lambda>_.
      configurePoolMirroring E pool RbdResourceDisabled client cluster))
    (\<lambda>_ log. I log \<and> happened (rv_host E) answered (disable_cmd pool client cluster) log) (\<lambda>_. I)"
proof (rule triple_bind)
  show "triple Q I (if b then removeReregisteredPeers E pool site client cluster else io_return ()) (\<lambda>_. I) (\<lambda>_. I)"
    by (rule triple_if, rule triple_removeReregistered) (auto intro: triple_return assms looks_info)
qed (rule triple_disable_cmd [OF assms(1)], rule assms(3))

lemma triple_RemovePeer:
  "triple (disable_step E pool here there) (\<lambda>_. True) (RemovePeer E pool here there)
     (\<lambda>_ log. peers_gone E pool there '''' '''' log \<and> peers_gone E pool here here there log) (\<lambda>_ _. True)"
  unfolding RemovePeer_def
proof (rule triple_bind)
  let ?Q = "disable_step E pool here there"
  show "triple ?Q (\<lambda>_. True) (getAllPeerUUIDs E pool there '''' '''')
      (\<lambda>ids log. (True \<and> listed E pool there '''' '''' ids log) \<and> ids \<noteq> []) (\<lambda>_ _. True)"
    by (rule triple_ids [OF grows_const]) (simp add: disable_step_def looks_info)
  fix ids
  let ?L = "\<lambda>log. (True \<and> listed E pool there '''' '''' ids log) \<and> ids \<noteq> []"
  have gl: "grows ?L" by (intro grows_rules)
  have ask: "triple ?Q ?L (getAllPeerUUIDs E pool here here there)
      (\<lambda>rids log. (?L log \<and> listed E pool here here there rids log) \<and> rids \<noteq> []) (\<lambda>_. ?L)"
    by (rule triple_ids [OF gl]) (simp add: disable_step_def looks_info)
  have go: "triple ?Q (\<lambda>log. (?L log \<and> listed E pool here here there rids log) \<and> rids \<noteq> [])
      (io_bind (remove_peers E pool '''' '''' ids) (\<lambda>_. remove_peers E pool here there rids))
      (\<lambda>_ log. peers_gone E pool there '''' '''' log \<and> peers_gone E pool here here there log) (\<lambda>_ _. True)" for rids
  proof -
    let ?R = "\<lambda>log. (?L log \<and> listed E pool here here there rids log) \<and> rids \<noteq> []"
    let ?A = "\<lambda>log. ?R log \<and> (\<forall>i \<in> set ids. removed E pool '''' '''' i log)"
    have gr: "grows ?R" by (intro grows_rules)
    have ga: "grows ?A" unfolding grows_def by (auto simp: happened_snoc)
    have "triple ?Q ?R (remove_peers E pool '''' '''' ids) (\<lambda>_. ?A) (\<lambda>_. ?R)"
      by (rule triple_remove_all [OF gr]) (auto simp: disable_step_def may_remove_def)
    then have one: "triple ?Q ?R (remove_peers E pool '''' '''' ids) (\<lambda>_. ?A) (\<lambda>_ _. True)" by (rule triple_weaken) auto
    have "triple ?Q ?A (remove_peers E pool here there rids)
        (\<lambda>_ log. ?A log \<and> (\<forall>i \<in> set rids. removed E pool here there i log)) (\<lambda>_. ?A)"
      by (rule triple_remove_all [OF ga]) (auto simp: disable_step_def may_remove_def)
    then have two: "triple ?Q ?A (remove_peers E pool here there rids)
        (\<lambda>_ log. peers_gone E pool there '''' '''' log \<and> peers_gone E pool here here there log) (\<lambda>_ _. True)"
      by (rule triple_weaken) (auto simp: peers_gone_def)
    show ?thesis by (rule triple_bind [OF one two])
  qed
  show "triple ?Q ?L (io_bind (getAllPeerUUIDs E pool here here there) (\<lambda>remotePeers.
      io_bind (remove_peers E pool '''' '''' ids) (\<lambda>_. remove_peers E pool here there remotePeers)))
      (\<lambda>_ log. peers_gone E pool there '''' '''' log \<and> peers_gone E pool here here there log) (\<lambda>_ _. True)"
    by (rule triple_bind [OF triple_weaken [OF ask] go]) auto
qed

lemma triple_DisablePool:
  assumes "retry_documented E"
  shows "triple (disable_step E pool here there) (\<lambda>_. True) (DisablePoolMirroring E pool here there)
    (\<lambda>_ log. happened (rv_host E) answered (disable_cmd pool '''' '''') log \<and>
       happened (rv_host E) answered (disable_cmd pool here there) log) (\<lambda>_ _. True)"
proof -
  let ?Q = "disable_step E pool here there"
  let ?G = "\<lambda>log. peers_gone E pool there '''' '''' log \<and> peers_gone E pool here here there log"
  let ?H = "\<lambda>log. ?G log \<and> happened (rv_host E) answered (disable_cmd pool '''' '''') log"
  have gg: "grows ?G" by (intro grows_rules grows_gone)
  have gh: "grows ?H" by (intro grows_rules gg)
  have locally: "triple ?Q ?G (rv_retry E 4 isPeerReregistrationFailure (local_disable_attempt E pool there)) (\<lambda>_. ?H) (\<lambda>_. ?G)"
    unfolding local_disable_attempt_def
    by (rule triple_retry [OF assms], simp, rule triple_disable_attempt [OF gg, where site = there]) (auto simp: disable_step_def)
  have remotely: "triple ?Q ?H (rv_retry E 10 (\<lambda>_. True) (remote_disable_attempt E pool here there))
      (\<lambda>_ log. ?H log \<and> happened (rv_host E) answered (disable_cmd pool here there) log) (\<lambda>_. ?H)"
    unfolding remote_disable_attempt_def
    by (rule triple_retry [OF assms], simp, rule triple_disable_attempt [OF gh, where site = here]) (auto simp: disable_step_def)
  show ?thesis unfolding DisablePoolMirroring_def
  proof (rule triple_bind [OF triple_RemovePeer])
    show "triple ?Q ?G (io_bind (rv_retry E 4 isPeerReregistrationFailure (local_disable_attempt E pool there)) (\<lambda>_.
        rv_retry E 10 (\<lambda>_. True) (remote_disable_attempt E pool here there)))
        (\<lambda>_ log. happened (rv_host E) answered (disable_cmd pool '''' '''') log \<and>
          happened (rv_host E) answered (disable_cmd pool here there) log) (\<lambda>_ _. True)"
      by (rule triple_bind [OF triple_weaken [OF locally] triple_weaken [OF remotely]]) auto
  qed
qed

text \<open>The remote was read from the table of remotes.\<close>

definition table_has :: "rep_env \<Rightarrow> string \<Rightarrow> remote_record \<Rightarrow> history \<Rightarrow> bool" where
  "table_has E name remote log \<longleftrightarrow>
     (\<exists>j < length log. log ! j = Db ''remoteObjects'' [name] \<and> (\<exists>rows. rv_remotes E (take j log) = Inr rows \<and> remote \<in> set rows))"

text \<open>The pool is mirrored, its replication is healthy or the operation forced, no image is mirrored on its
  own, its peers all belong to one site, and the remote is that site's.\<close>

definition disable_justified :: "rep_env \<Rightarrow> rbd_handler \<Rightarrow> remote_record \<Rightarrow> history \<Rightarrow> bool" where
  "disable_justified E rh remote log \<longleftrightarrow>
     (let req = rh_Request rh; info = rh_PoolInfo rh; st = rh_PoolStatus rh in
      pi_Mode info \<noteq> RbdResourceDisabled \<and> (ps_Health st = RbdReplicationHealthOK \<or> rq_IsForceOp req) \<and>
      (pi_Mode info = RbdResourceImage \<longrightarrow> ps_ImageCount st = 0) \<and>
      pi_Peers info \<noteq> [] \<and> (\<forall>p \<in> set (pi_Peers info). rp_RemoteName p = rr_Name remote) \<and>
      rq_RemoteName req \<in> {[], rr_Name remote} \<and> table_has E (rq_RemoteName req) remote log)"

definition journal_cmd :: "string \<Rightarrow> string \<Rightarrow> request" where
  "journal_cmd pool img = Cmd [''rbd'', ''feature'', ''disable'', slashed pool img, ''journaling'']"

definition disable_allowed :: "rep_env \<Rightarrow> rbd_handler \<Rightarrow> history \<Rightarrow> request \<Rightarrow> bool" where
  "disable_allowed E rh log r \<longleftrightarrow>
     rep_looks r \<or>
     (\<exists>remote. disable_justified E rh remote log \<and>
       (disable_step E (rq_SourcePool (rh_Request rh)) (rr_LocalName remote) (rr_Name remote) log r \<or>
        (pi_Mode (rh_PoolInfo rh) = RbdResourcePool \<and> (\<exists>img. r = journal_cmd (rq_SourcePool (rh_Request rh)) img))))"

definition pool_disabled :: "rep_env \<Rightarrow> rbd_handler \<Rightarrow> history \<Rightarrow> bool" where
  "pool_disabled E rh log \<longleftrightarrow>
     (\<exists>remote. disable_justified E rh remote log \<and>
       happened (rv_host E) answered (disable_cmd (rq_SourcePool (rh_Request rh)) '''' '''') log \<and>
       happened (rv_host E) answered (disable_cmd (rq_SourcePool (rh_Request rh)) (rr_LocalName remote) (rr_Name remote)) log)"

lemma grows_table: "grows (table_has E name remote)"
  unfolding grows_def table_has_def by (force simp: nth_append)

lemma grows_justified: "grows (disable_justified E rh remote)"
  using grows_table [of E _ remote] unfolding grows_def disable_justified_def Let_def by blast

lemma found_remotes: "find_remotes name rows = Inr rs \<Longrightarrow> r \<in> set rs \<Longrightarrow> r \<in> set rows \<and> name \<in> {[], rr_Name r}"
proof -
  assume f: "find_remotes name rows = Inr rs" and r: "r \<in> set rs"
  show ?thesis
  proof (cases "name = []")
    case False
    with f have "rs = filter (\<lambda>r. rr_Name r = name) rows" by (auto simp: find_remotes_def split: list.splits)
    with r show ?thesis by simp
  qed (use f r in \<open>simp add: find_remotes_def\<close>)
qed

lemma triple_remotes:
  assumes "Q [] (Db ''remoteObjects'' [name])"
  shows "triple Q (\<lambda>log. log = []) (getRemoteRecords E name)
    (\<lambda>rs log. \<forall>r \<in> set rs. table_has E name r log \<and> name \<in> {[], rr_Name r}) (\<lambda>_ _. True)"
  using assms unfolding triple_def getRemoteRecords_def GetRemoteDb_def io_wrap_def io_bind_def observe_def of_result_def io_return_def io_fail_def
  by (auto simp: table_has_def dest: found_remotes split: sum.splits)

lemma resolved:
  assumes "resolvePoolRemote pool name peers remotes = Inr (remote, peer)"
  shows "remote \<in> set remotes \<and> peers \<noteq> [] \<and> (\<forall>p \<in> set peers. rp_RemoteName p = rr_Name remote)"
proof (cases peers)
  case (Cons p ps)
  with assms have same: "List.find (\<lambda>q. rp_RemoteName q \<noteq> rp_RemoteName p) ps = None"
      and found: "List.find (\<lambda>r. rr_Name r = rp_RemoteName p) remotes = Some remote"
    by (auto simp: resolvePoolRemote_def split: option.splits if_splits)
  from found have "remote \<in> set remotes" "rr_Name remote = rp_RemoteName p" by (auto simp: find_Some_iff)
  with same Cons show ?thesis by (auto simp: find_None_iff)
qed (use assms in \<open>simp add: resolvePoolRemote_def\<close>)

lemma only_each:
  assumes "\<And>i. only R (f i)"
  shows "only R (each_image f err is)"
  by (induction "is") (auto intro!: only_rules assms)

lemma only_journals:
  assumes "\<And>r. rep_looks r \<Longrightarrow> R r" "\<And>img. R (journal_cmd pool img)"
  shows "only R (DisableAllMirroringImagesInPool E pool)"
  unfolding DisableAllMirroringImagesInPool_def
proof (intro only_bind only_wrap only_verbose only_each)
  show "only R (disableRbdImageFeatures E pool i [''journaling''])" for i
    using assms(2) [of i] by (auto simp: configureImageFeatures_def journal_cmd_def intro!: only_rules only_run_ok)
qed (rule assms(1))

lemma triple_within:
  assumes "triple Q P f Post Err" "grows I"
  shows "triple (\<lambda>log r. Q log r \<and> I log) (\<lambda>log. P log \<and> I log) f (\<lambda>v log. Post v log \<and> I log) (\<lambda>e log. Err e log \<and> I log)"
  by (rule triple_weaken [OF triple_knowing [OF triple_frame [OF assms] assms(2)]]) auto

lemma triple_handlePool:
  assumes "retry_documented E"
  shows "triple (disable_allowed E rh)
    (\<lambda>log. \<forall>r \<in> set remotes. table_has E (rq_RemoteName (rh_Request rh)) r log \<and> rq_RemoteName (rh_Request rh) \<in> {[], rr_Name r})
    (handlePoolDisablement E rh remotes)
    (\<lambda>_ log. pi_Mode (rh_PoolInfo rh) = RbdResourceDisabled \<or> pool_disabled E rh log) (\<lambda>_ _. True)" (is "triple ?Q ?T _ ?Post _")
  unfolding handlePoolDisablement_def Let_def
proof (intro triple_if)
  let ?pool = "rq_SourcePool (rh_Request rh)"
  assume mode: "pi_Mode (rh_PoolInfo rh) \<noteq> RbdResourceDisabled"
    and health: "\<not> (ps_Health (rh_PoolStatus rh) \<noteq> RbdReplicationHealthOK \<and> \<not> rq_IsForceOp (rh_Request rh))"
    and images: "\<not> (pi_Mode (rh_PoolInfo rh) = RbdResourceImage \<and> ps_ImageCount (rh_PoolStatus rh) \<noteq> 0)"
  let ?res = "resolvePoolRemote ?pool (rq_RemoteName (rh_Request rh)) (pi_Peers (rh_PoolInfo rh)) remotes"
  have "triple ?Q ?T (of_result ?res) (\<lambda>(remote, peer). disable_justified E rh remote) (\<lambda>_ _. True)"
    using mode health images resolved [of ?pool "rq_RemoteName (rh_Request rh)" "pi_Peers (rh_PoolInfo rh)" remotes]
    by (cases ?res) (auto simp: of_result_def disable_justified_def intro!: triple_return triple_fail)
  then show "triple ?Q ?T (io_bind (of_result ?res) (\<lambda>(remote, peer).
      io_bind (if pi_Mode (rh_PoolInfo rh) = RbdResourcePool then DisableAllMirroringImagesInPool E ?pool else io_return ()) (\<lambda>_.
        DisablePoolMirroring E ?pool (rr_LocalName remote) (rr_Name remote)))) ?Post (\<lambda>_ _. True)"
  proof (rule triple_bind, unfold split_def)
    fix v :: "remote_record \<times> rbd_peer"
    let ?J = "disable_justified E rh (fst v)"
    have looks: "triple ?Q ?J (if pi_Mode (rh_PoolInfo rh) = RbdResourcePool then DisableAllMirroringImagesInPool E ?pool else io_return ())
        (\<lambda>_. ?J) (\<lambda>_. ?J)"
    proof (rule triple_if)
      assume pool: "pi_Mode (rh_PoolInfo rh) = RbdResourcePool"
      show "triple ?Q ?J (DisableAllMirroringImagesInPool E ?pool) (\<lambda>_. ?J) (\<lambda>_. ?J)"
        by (rule only_triple [OF only_journals [where R = "\<lambda>r. rep_looks r \<or> (\<exists>img. r = journal_cmd ?pool img)"]])
          (use pool growsD [OF grows_justified] in \<open>auto simp: disable_allowed_def\<close>)
    qed (auto intro: triple_return)
    have "triple (\<lambda>log r. disable_step E ?pool (rr_LocalName (fst v)) (rr_Name (fst v)) log r \<and> ?J log) (\<lambda>log. True \<and> ?J log)
        (DisablePoolMirroring E ?pool (rr_LocalName (fst v)) (rr_Name (fst v)))
        (\<lambda>_ log. (happened (rv_host E) answered (disable_cmd ?pool '''' '''') log \<and>
          happened (rv_host E) answered (disable_cmd ?pool (rr_LocalName (fst v)) (rr_Name (fst v))) log) \<and> ?J log) (\<lambda>_ log. True \<and> ?J log)"
      by (rule triple_within [OF triple_DisablePool [OF assms] grows_justified])
    then have off: "triple ?Q ?J (DisablePoolMirroring E ?pool (rr_LocalName (fst v)) (rr_Name (fst v))) ?Post (\<lambda>_ _. True)"
      by (rule triple_weaken [OF triple_allow]) (auto simp: disable_allowed_def pool_disabled_def)
    show "triple ?Q ?J (io_bind (if pi_Mode (rh_PoolInfo rh) = RbdResourcePool then DisableAllMirroringImagesInPool E ?pool else io_return ()) (\<lambda>_.
        DisablePoolMirroring E ?pool (rr_LocalName (fst v)) (rr_Name (fst v)))) ?Post (\<lambda>_ _. True)"
      by (rule triple_bind [OF triple_weaken [OF looks] off]) auto
  qed
qed (auto intro: triple_return triple_fail)

section \<open>Attempts to disable\<close>

text \<open>The tool refused a disable because peers are registered.\<close>

definition peer_refusal :: "reply \<Rightarrow> bool" where
  "peer_refusal a \<longleftrightarrow> \<not> answered a \<and> contains_sub (''failed to execute rbd command: '' @ reply_text a) ''mirror peers still registered''"

abbreviation count_of :: "request \<Rightarrow> history \<Rightarrow> nat" where
  "count_of r log \<equiv> length (filter (\<lambda>x. x = r) log)"

definition refused_before :: "rep_env \<Rightarrow> (reply \<Rightarrow> bool) \<Rightarrow> request \<Rightarrow> history \<Rightarrow> bool" where
  "refused_before E P r log \<longleftrightarrow> (\<forall>j < length log. log ! j = r \<longrightarrow> P (rv_host E (take j log) r))"

definition sparing :: "rep_env \<Rightarrow> (reply \<Rightarrow> bool) \<Rightarrow> nat \<Rightarrow> request \<Rightarrow> history \<Rightarrow> request \<Rightarrow> bool" where
  "sparing E P limit r log x \<longleftrightarrow> (x = r \<longrightarrow> count_of r log < limit \<and> refused_before E P r log)"

lemma refused_snoc: "refused_before E P r (log @ [x]) \<longleftrightarrow> refused_before E P r log \<and> (x = r \<longrightarrow> P (rv_host E log r))"
proof -
  have "(\<forall>j < Suc (length log). (log @ [x]) ! j = r \<longrightarrow> P (rv_host E (take j (log @ [x])) r)) \<longleftrightarrow>
      (\<forall>j < length log. log ! j = r \<longrightarrow> P (rv_host E (take j log) r)) \<and> (x = r \<longrightarrow> P (rv_host E log r))"
    by (auto simp: less_Suc_eq nth_append)
  then show ?thesis by (simp add: refused_before_def)
qed

definition tried :: "rep_env \<Rightarrow> (reply \<Rightarrow> bool) \<Rightarrow> request \<Rightarrow> nat \<Rightarrow> history \<Rightarrow> bool" where
  "tried E P r n log \<longleftrightarrow> count_of r log = n \<and> refused_before E P r log"

text \<open>A procedure that does not make the request.\<close>

lemma triple_other:
  assumes "only (\<lambda>x. x \<noteq> r) f"
  shows "triple (sparing E P limit r) (tried E P r n) f (\<lambda>_. tried E P r n) (\<lambda>_. tried E P r n)"
  by (rule only_triple [OF assms]) (auto simp: sparing_def tried_def refused_snoc)

lemma triple_other_any:
  assumes "only (\<lambda>x. x \<noteq> r) f"
  shows "triple (sparing E P limit r) (\<lambda>_. True) f (\<lambda>_ _. True) (\<lambda>_ _. True)"
  by (rule only_triple [OF assms]) (auto simp: sparing_def)

lemma triple_attempted:
  assumes "n < limit" "\<And>a. \<not> answered a \<Longrightarrow> again (err_wrap ''failed to execute rbd command: '' (err_new (reply_text a)) '''') \<Longrightarrow> P a"
  shows "triple (sparing E P limit (disable_cmd pool client cluster)) (tried E P (disable_cmd pool client cluster) n)
    (configurePoolMirroring E pool RbdResourceDisabled client cluster)
    (\<lambda>_ _. True) (\<lambda>e log. again e \<longrightarrow> tried E P (disable_cmd pool client cluster) (Suc n) log)"
  using assms unfolding triple_def configurePoolMirroring_def simp_thms if_True disable_cmd_def [symmetric]
    run_ok_def run_def must_def io_bind_def io_wrap_def ask_def io_return_def io_fail_def
  by (auto simp: sparing_def tried_def refused_snoc)

lemma triple_try_loop:
  assumes prep: "\<And>i k. triple (sparing E P limit (disable_cmd pool client cluster)) (tried E P (disable_cmd pool client cluster) k)
      (prep i) (\<lambda>_. tried E P (disable_cmd pool client cluster) k) (\<lambda>_ _. False)"
    and P: "\<And>a. \<not> answered a \<Longrightarrow> again (err_wrap ''failed to execute rbd command: '' (err_new (reply_text a)) '''') \<Longrightarrow> P a"
  shows "n + k \<le> limit \<Longrightarrow>
    triple (sparing E P limit (disable_cmd pool client cluster))
      (\<lambda>log. (case prev of None \<Rightarrow> True | Some e \<Rightarrow> again e) \<longrightarrow> tried E P (disable_cmd pool client cluster) k log)
      (retry_loop n i again (\<lambda>i. io_bind (prep i) (\<lambda>_. configurePoolMirroring E pool RbdResourceDisabled client cluster)) prev)
      (\<lambda>_ _. True) (\<lambda>_ _. True)"
proof (induction n arbitrary: i k prev)
  case 0
  then show ?case by (auto intro: triple_return triple_fail split: option.splits)
next
  case (Suc n)
  let ?r = "disable_cmd pool client cluster"
  let ?Q = "sparing E P limit ?r"
  let ?act = "\<lambda>i. io_bind (prep i) (\<lambda>_. configurePoolMirroring E pool RbdResourceDisabled client cluster)"
  let ?mid = "\<lambda>r log. case r of Inl e \<Rightarrow> again e \<longrightarrow> tried E P ?r (Suc k) log | Inr _ \<Rightarrow> True"
  have "triple ?Q (tried E P ?r k) (?act i) (\<lambda>_ _. True) (\<lambda>e log. again e \<longrightarrow> tried E P ?r (Suc k) log)"
    by (rule triple_bind [OF triple_weaken [OF prep] triple_attempted]) (use Suc.prems P in auto)
  then have act: "triple ?Q (tried E P ?r k) (attempt (?act i)) ?mid (\<lambda>_ _. True)" by (intro triple_attempt) simp
  have more: "triple ?Q (?mid r) (case r of Inr _ \<Rightarrow> io_return () | Inl e \<Rightarrow> retry_loop n (Suc i) again ?act (Some e))
      (\<lambda>_ _. True) (\<lambda>_ _. True)" for r
    using Suc.IH [where k = "Suc k" and prev = "Some e" and i = "Suc i" for e] Suc.prems
    by (cases r) (auto intro: triple_return)
  have go: "triple ?Q (tried E P ?r k) (io_bind (attempt (?act i)) (\<lambda>r. case r of
      Inr _ \<Rightarrow> io_return () | Inl e \<Rightarrow> retry_loop n (Suc i) again ?act (Some e))) (\<lambda>_ _. True) (\<lambda>_ _. True)"
    by (rule triple_bind [OF act more])
  have stop: "triple ?Q T (retry_loop 0 i again ?act prev) (\<lambda>_ _. True) (\<lambda>_ _. True)" for T
    by (auto intro: triple_return triple_fail split: option.splits)
  show ?case unfolding retry_loop.simps(2)
    by (rule triple_if) (rule triple_weaken [OF go], simp_all, rule stop [unfolded retry_loop.simps])
qed

lemma commands_differ: "disable_cmd pool c l \<noteq> info_cmd pool' c' l'" "disable_cmd pool c l \<noteq> remove_cmd pool' i c' l'"
  by (simp_all add: disable_cmd_def info_cmd_def remove_cmd_def appendRemoteClusterArgs_def)

lemma disables_differ: "\<not> (client = [] \<and> cluster = []) \<Longrightarrow> disable_cmd pool client cluster \<noteq> disable_cmd pool '''' ''''"
  by (auto simp: disable_cmd_def appendRemoteClusterArgs_def)

lemma only_ids: "R (info_cmd pool client cluster) \<Longrightarrow> only R (getAllPeerUUIDs E pool site client cluster)"
  unfolding getAllPeerUUIDs_def by (intro only_rules only_info)

lemma only_peerRemove: "R (remove_cmd pool i client cluster) \<Longrightarrow> only R (peerRemove E pool i client cluster)"
  unfolding peerRemove_def remove_cmd_def by (intro only_rules only_run_ok)

lemma only_remove_peers: "(\<And>i. R (remove_cmd pool i client cluster)) \<Longrightarrow> only R (remove_peers E pool client cluster ids)"
  by (induction ids) (auto intro!: only_rules only_peerRemove)

lemma only_RemovePeer:
  assumes "\<And>c l. R (info_cmd pool c l)" "\<And>i c l. R (remove_cmd pool i c l)"
  shows "only R (RemovePeer E pool here there)"
  unfolding RemovePeer_def by (intro only_rules only_ids only_remove_peers assms)

lemma only_try_remove: "(\<And>i. R (remove_cmd pool i client cluster)) \<Longrightarrow> only R (try_remove_peers E pool client cluster ids)"
  by (induction ids) (auto intro!: only_rules only_peerRemove)

lemma only_rereg:
  assumes "R (info_cmd pool client cluster)" "\<And>i. R (remove_cmd pool i client cluster)"
  shows "only R (removeReregisteredPeers E pool site client cluster)"
  unfolding removeReregisteredPeers_def by (intro only_rules only_ids only_try_remove assms)

lemma try_remove_ok: "\<exists>h'. try_remove_peers E pool client cluster ids h = (Inr (), h')"
  by (induction ids arbitrary: h) (auto simp: io_return_def io_bind_def attempt_def split: prod.splits)

lemma rereg_ok: "\<exists>h'. removeReregisteredPeers E pool site client cluster h = (Inr (), h')"
  unfolding removeReregisteredPeers_def io_bind_def attempt_def
  by (auto simp: try_remove_ok io_return_def split: prod.splits sum.splits)

text \<open>The preparation of an attempt never fails and does not disable anything.\<close>

lemma triple_prep:
  "triple (sparing E P limit (disable_cmd pool c l)) (tried E P (disable_cmd pool c l) k)
     (if b then removeReregisteredPeers E pool site client cluster else io_return ())
     (\<lambda>_. tried E P (disable_cmd pool c l) k) (\<lambda>_ _. False)"
proof (rule triple_if)
  let ?f = "removeReregisteredPeers E pool site client cluster"
  have "triple (sparing E P limit (disable_cmd pool c l)) (tried E P (disable_cmd pool c l) k) ?f
      (\<lambda>_. tried E P (disable_cmd pool c l) k) (\<lambda>_. tried E P (disable_cmd pool c l) k)"
    by (intro triple_other only_rereg) (metis commands_differ)+
  then show "triple (sparing E P limit (disable_cmd pool c l)) (tried E P (disable_cmd pool c l) k) ?f
      (\<lambda>_. tried E P (disable_cmd pool c l) k) (\<lambda>_ _. False)"
    unfolding triple_def using rereg_ok [of E pool site client cluster] by (metis (no_types, lifting) fst_conv sum.case(2))
qed (rule triple_return)

lemma only_retry:
  assumes "retry_documented E" "\<And>i. only R (action i)"
  shows "only R (rv_retry E limit again action)"
proof -
  have "only R (retry_loop n i again action prev)" for n i prev
    by (induction n arbitrary: i prev) (auto intro!: only_rules assms(2))
  moreover obtain n where "rv_retry E limit again action = retry_loop n 1 again action None"
    using assms(1) unfolding retry_documented_def by blast
  ultimately show ?thesis by simp
qed

lemma only_disable:
  assumes "R (disable_cmd pool client cluster)" "\<And>c l. R (info_cmd pool c l)" "\<And>i c l. R (remove_cmd pool i c l)"
  shows "only R (io_bind (if b then removeReregisteredPeers E pool site client cluster else io_return ()) (\<lambda>_.
    configurePoolMirroring E pool RbdResourceDisabled client cluster))"
proof -
  have "only R (configurePoolMirroring E pool RbdResourceDisabled client cluster)"
    unfolding configurePoolMirroring_def simp_thms if_True using assms(1) [unfolded disable_cmd_def] by (intro only_rules only_run_ok)
  then show ?thesis by (intro only_rules only_rereg assms)
qed

lemma triple_tries:
  assumes "retry_documented E" "\<And>a. \<not> answered a \<Longrightarrow> again (err_wrap ''failed to execute rbd command: '' (err_new (reply_text a)) '''') \<Longrightarrow> P a"
  shows "triple (sparing E P limit (disable_cmd pool client cluster)) (tried E P (disable_cmd pool client cluster) 0)
    (rv_retry E limit again (\<lambda>i. io_bind (if 1 < i then removeReregisteredPeers E pool site client cluster else io_return ()) (\<lambda>_.
      configurePoolMirroring E pool RbdResourceDisabled client cluster))) (\<lambda>_ _. True) (\<lambda>_ _. True)"
proof -
  let ?act = "\<lambda>i. io_bind (if 1 < i then removeReregisteredPeers E pool site client cluster else io_return ()) (\<lambda>_.
      configurePoolMirroring E pool RbdResourceDisabled client cluster)"
  obtain m where m: "m \<le> limit" "rv_retry E limit again ?act = retry_loop m 1 again ?act None" using assms(1) unfolding retry_documented_def by blast
  have "triple (sparing E P limit (disable_cmd pool client cluster)) (tried E P (disable_cmd pool client cluster) 0)
      (retry_loop m 1 again ?act None) (\<lambda>_ _. True) (\<lambda>_ _. True)"
    using triple_try_loop [OF triple_prep assms(2), where k = 0 and prev = None and n = m] m(1) by simp
  with m(2) show ?thesis by simp
qed

lemma sparing_count: "allowed_ext (sparing E P limit r) log ext \<Longrightarrow> count_of r log \<le> limit \<Longrightarrow> count_of r (log @ ext) \<le> limit"
proof (induction ext arbitrary: log)
  case (Cons x ext)
  then have "count_of r (log @ [x]) \<le> limit" by (auto simp: sparing_def)
  with Cons.IH [of "log @ [x]"] Cons.prems(1) show ?case by simp
qed simp

lemma sparing_refused:
  assumes "allowed_ext (sparing E P limit r) [] ext" "i < j" "j < length ext" "ext ! i = r" "ext ! j = r"
  shows "P (rv_host E (take i ext) r)"
proof -
  from allowed_ext_nth [OF assms(1,3)] assms(5) have "refused_before E P r (take j ext)" by (simp add: sparing_def)
  with assms(2,3,4) show ?thesis by (auto simp: refused_before_def min_def)
qed

lemma triple_sparing:
  assumes "retry_documented E" "\<not> (here = [] \<and> there = [])"
  shows "triple (sparing E peer_refusal 4 (disable_cmd pool '''' '''')) (\<lambda>log. log = []) (DisablePoolMirroring E pool here there) (\<lambda>_ _. True) (\<lambda>_ _. True)"
    and "triple (sparing E (\<lambda>a. \<not> answered a) 10 (disable_cmd pool here there)) (\<lambda>log. log = []) (DisablePoolMirroring E pool here there)
      (\<lambda>_ _. True) (\<lambda>_ _. True)"
proof -
  have first: "triple (sparing E P n r) (\<lambda>log. log = []) (RemovePeer E pool here there) (\<lambda>_. tried E P r 0) (\<lambda>_ _. True)"
    if "r = disable_cmd pool c l" for P n r c l
  proof -
    have "triple (sparing E P n r) (tried E P r 0) (RemovePeer E pool here there) (\<lambda>_. tried E P r 0) (\<lambda>_. tried E P r 0)"
      unfolding that by (intro triple_other only_RemovePeer) (metis commands_differ)+
    then show ?thesis by (rule triple_weaken) (auto simp: tried_def refused_before_def)
  qed
  let ?L = "disable_cmd pool '''' ''''" and ?R = "disable_cmd pool here there"
  have L: "triple (sparing E peer_refusal 4 ?L) (tried E peer_refusal ?L 0)
      (rv_retry E 4 isPeerReregistrationFailure (local_disable_attempt E pool there)) (\<lambda>_ _. True) (\<lambda>_ _. True)"
    unfolding local_disable_attempt_def 
    by (rule triple_tries [OF assms(1)]) (simp add: peer_refusal_def isPeerReregistrationFailure_def err_wrap_def err_new_def del: contains_sub.simps)
  have L': "triple (sparing E peer_refusal 4 ?L) (\<lambda>_. True)
      (rv_retry E 10 (\<lambda>_. True) (remote_disable_attempt E pool here there)) (\<lambda>_ _. True) (\<lambda>_ _. True)"
    unfolding remote_disable_attempt_def
    by (intro triple_other_any only_retry [OF assms(1)] only_disable disables_differ [OF assms(2)]) (metis commands_differ)+
  show "triple (sparing E peer_refusal 4 ?L) (\<lambda>log. log = []) (DisablePoolMirroring E pool here there) (\<lambda>_ _. True) (\<lambda>_ _. True)"
    unfolding DisablePoolMirroring_def by (intro triple_bind [OF first [OF refl]] triple_bind [OF L L'])
  have R: "triple (sparing E (\<lambda>a. \<not> answered a) 10 ?R) (tried E (\<lambda>a. \<not> answered a) ?R 0)
      (rv_retry E 4 isPeerReregistrationFailure (local_disable_attempt E pool there)) (\<lambda>_. tried E (\<lambda>a. \<not> answered a) ?R 0)
      (\<lambda>_. tried E (\<lambda>a. \<not> answered a) ?R 0)"
    unfolding local_disable_attempt_def
    by (intro triple_other only_retry [OF assms(1)] only_disable) (metis commands_differ disables_differ [OF assms(2)])+
  have R': "triple (sparing E (\<lambda>a. \<not> answered a) 10 ?R) (tried E (\<lambda>a. \<not> answered a) ?R 0)
      (rv_retry E 10 (\<lambda>_. True) (remote_disable_attempt E pool here there)) (\<lambda>_ _. True) (\<lambda>_ _. True)"
    unfolding remote_disable_attempt_def by (rule triple_tries [OF assms(1)])
  show "triple (sparing E (\<lambda>a. \<not> answered a) 10 ?R) (\<lambda>log. log = []) (DisablePoolMirroring E pool here there) (\<lambda>_ _. True) (\<lambda>_ _. True)"
    unfolding DisablePoolMirroring_def
    by (intro triple_bind [OF first [OF refl]] triple_bind [OF triple_weaken [OF R] R']) auto
qed

section \<open>Promotion and demotion\<close>

definition promote_cmd :: "string \<Rightarrow> bool \<Rightarrow> request" where
  "promote_cmd pool force = Cmd ([''rbd'', ''mirror'', ''pool'', ''promote'', pool] @ (if force then [''--force''] else []))"

definition demote_cmd :: "string \<Rightarrow> request" where
  "demote_cmd pool = Cmd [''rbd'', ''mirror'', ''pool'', ''demote'', pool]"

definition resync_cmd :: "string \<Rightarrow> string \<Rightarrow> request" where
  "resync_cmd pool img = Cmd [''rbd'', ''mirror'', ''image'', ''resync'', slashed pool img]"

text \<open>The pool's list of peers was read and has the site.\<close>

definition mirrors_with :: "rep_env \<Rightarrow> string \<Rightarrow> string \<Rightarrow> history \<Rightarrow> bool" where
  "mirrors_with E pool site log \<longleftrightarrow> (\<exists>ids. ids \<noteq> [] \<and> listed E pool site '''' '''' ids log)"

definition site_step :: "rep_env \<Rightarrow> rbd_request \<Rightarrow> history \<Rightarrow> request \<Rightarrow> bool" where
  "site_step E req log r \<longleftrightarrow>
     rep_looks r \<or>
     (\<exists>pool. mirrors_with E pool (rq_RemoteName req) log \<and>
       ((rq_RequestType req = PromoteReplicationRequest \<and> r = promote_cmd pool (rq_IsForceOp req)) \<or>
        (rq_RequestType req = DemoteReplicationRequest \<and>
          (r = demote_cmd pool \<or> (happened (rv_host E) answered (demote_cmd pool) log \<and> (\<exists>img. r = resync_cmd pool img))))))"

lemma grows_mirrors: "grows (mirrors_with E pool site)"
  unfolding grows_def mirrors_with_def by (auto simp: happened_snoc)

lemma request_types_differ: "PromoteReplicationRequest \<noteq> DemoteReplicationRequest"
  by (simp add: rep_requests rep_events)

lemma triple_look:
  assumes "only rep_looks f" "grows I"
  shows "triple (site_step E req) I f (\<lambda>_. I) (\<lambda>_. I)"
  by (rule only_triple [OF assms(1)]) (auto simp: site_step_def growsD [OF assms(2)])

lemma triple_promotion:
  assumes "rq_RequestType req = PromoteReplicationRequest"
  shows "triple (site_step E req) (mirrors_with E pool (rq_RemoteName req)) (handlePoolPromotion E pool (rq_IsForceOp req)) (\<lambda>_ _. True) (\<lambda>_ _. True)"
proof -
  have "triple (site_step E req) (mirrors_with E pool (rq_RemoteName req)) (promotePool E pool (rq_IsForceOp req) '''' '''')
      (\<lambda>_ log. mirrors_with E pool (rq_RemoteName req) log \<and> happened (rv_host E) answered (promote_cmd pool (rq_IsForceOp req)) log)
      (\<lambda>_. mirrors_with E pool (rq_RemoteName req))"
    unfolding promotePool_def promote_cmd_def
  proof (rule triple_wrap, simp only: appendRemoteClusterArgs_def simp_thms if_False append_Nil2 append_Cons append_Nil, rule triple_cmd [OF grows_mirrors])
    show "site_step E req log (Cmd (''rbd'' # ''mirror'' # ''pool'' # ''promote'' # pool # (if rq_IsForceOp req then [''--force''] else [])))"
      if "mirrors_with E pool (rq_RemoteName req) log" for log
      using that assms unfolding site_step_def promote_cmd_def append_Cons append_Nil by blast
  qed
  then have "triple (site_step E req) (mirrors_with E pool (rq_RemoteName req)) (attempt (promotePool E pool (rq_IsForceOp req) '''' ''''))
      (\<lambda>_ _. True) (\<lambda>_ _. True)"
    by (rule triple_attempt [OF triple_weaken]) auto
  then show ?thesis unfolding handlePoolPromotion_def by (rule triple_bind) (auto intro!: triple_sum triple_return triple_fail)
qed

lemma triple_demotion:
  assumes "rq_RequestType req = DemoteReplicationRequest"
  shows "triple (site_step E req) (mirrors_with E pool (rq_RemoteName req)) (handlePoolDemotion E pool) (\<lambda>_ _. True) (\<lambda>_ _. True)"
proof -
  let ?M = "mirrors_with E pool (rq_RemoteName req)"
  let ?D = "\<lambda>log. ?M log \<and> happened (rv_host E) answered (demote_cmd pool) log"
  have gd: "grows ?D" by (intro grows_rules grows_mirrors)
  have demote: "triple (site_step E req) ?M (demotePool E pool '''' '''') (\<lambda>_. ?D) (\<lambda>_. ?M)"
    unfolding demotePool_def demote_cmd_def
  proof (rule triple_wrap, simp only: appendRemoteClusterArgs_def simp_thms if_False append_Nil2, rule triple_cmd [OF grows_mirrors])
    show "site_step E req log (Cmd [''rbd'', ''mirror'', ''pool'', ''demote'', pool])" if "?M log" for log
      using that assms unfolding site_step_def demote_cmd_def by blast
  qed
  have "only (\<lambda>r. rep_looks r \<or> (\<exists>img. r = resync_cmd pool img)) (ResyncAllMirroringImagesInPool E pool)"
    unfolding ResyncAllMirroringImagesInPool_def
    by (intro only_bind only_wrap only_verbose only_each) (auto simp: flagImageForResync_def resync_cmd_def intro!: only_run_ok)
  then have resync: "triple (site_step E req) ?D (ResyncAllMirroringImagesInPool E pool) (\<lambda>_. ?D) (\<lambda>_. ?D)"
  proof (rule only_triple)
    fix log r assume "?D log" "rep_looks r \<or> (\<exists>img. r = resync_cmd pool img)"
    then show "site_step E req log r \<and> ?D (log @ [r])" using assms growsD [OF gd] unfolding site_step_def by blast
  qed
  show ?thesis unfolding handlePoolDemotion_def
    by (rule triple_bind [OF triple_weaken [OF demote] triple_weaken [OF resync]]) auto
qed

lemma triple_metadata:
  "triple (site_step E req) (\<lambda>_. True) (getMirrorPoolMetadata E pool)
     (\<lambda>v log. isPeerRegisteredForMirroring (pi_Peers (snd v)) (rq_RemoteName req) \<longrightarrow> mirrors_with E pool (rq_RemoteName req) log) (\<lambda>_ _. True)"
  unfolding getMirrorPoolMetadata_def
proof (rule triple_bind)
  show "triple (site_step E req) (\<lambda>_. True) (GetRbdMirrorPoolStatus E pool) (\<lambda>_ _. True) (\<lambda>_ _. True)"
    by (rule triple_look [OF only_pool_status grows_const])
  fix st
  have "triple (site_step E req) (\<lambda>_. True) (GetRbdMirrorPoolInfo E pool '''' '''')
      (\<lambda>info log. True \<and> listed E pool (rq_RemoteName req) '''' '''' (peer_ids (rq_RemoteName req) info) log) (\<lambda>_ _. True)"
    by (rule triple_info [OF grows_const]) (simp add: site_step_def looks_info)
  then show "triple (site_step E req) (\<lambda>_. True) (io_bind (GetRbdMirrorPoolInfo E pool '''' '''') (\<lambda>info. io_return (st, info)))
      (\<lambda>v log. isPeerRegisteredForMirroring (pi_Peers (snd v)) (rq_RemoteName req) \<longrightarrow> mirrors_with E pool (rq_RemoteName req) log) (\<lambda>_ _. True)"
  proof (rule triple_bind)
    fix info
    have "isPeerRegisteredForMirroring (pi_Peers info) (rq_RemoteName req) \<Longrightarrow> peer_ids (rq_RemoteName req) info \<noteq> []"
      by (auto simp: peer_ids_def isPeerRegisteredForMirroring_def filter_empty_conv list_ex_iff)
    then show "triple (site_step E req) (\<lambda>log. True \<and> listed E pool (rq_RemoteName req) [] [] (peer_ids (rq_RemoteName req) info) log)
        (io_return (st, info))
        (\<lambda>v log. isPeerRegisteredForMirroring (pi_Peers (snd v)) (rq_RemoteName req) \<longrightarrow> mirrors_with E pool (rq_RemoteName req) log) (\<lambda>_ _. True)"
      by (auto simp: mirrors_with_def intro!: triple_return)
  qed
qed

lemma triple_site_pools: "triple (site_step E req) (\<lambda>_. True) (site_op_pools E req ps) (\<lambda>_ _. True) (\<lambda>_ _. True)"
proof (induction ps)
  case (Cons p ps)
  let ?pool = "cp_Name p"
  let ?M = "\<lambda>v log. isPeerRegisteredForMirroring (pi_Peers (snd v)) (rq_RemoteName req) \<longrightarrow> mirrors_with E ?pool (rq_RemoteName req) log"
  have rest: "triple (site_step E req) I (site_op_pools E req ps) (\<lambda>_ _. True) (\<lambda>_ _. True)" for I
    by (rule triple_weaken [OF Cons.IH]) auto
  show ?case unfolding site_op_pools.simps Let_def
  proof (rule triple_bind)
    show "triple (site_step E req) (\<lambda>_. True) (io_wrap (''failed to fetch pool ('' @ ?pool @ '') metadata: '') (getMirrorPoolMetadata E ?pool)) ?M (\<lambda>_ _. True)"
      by (rule triple_wrap [OF triple_metadata])
    fix v :: "rbd_pool_status \<times> rbd_pool_info"
    show "triple (site_step E req) (?M v) (case v of (st, info) \<Rightarrow>
        if ps_State st \<noteq> StateEnabledReplication \<or> \<not> isPeerRegisteredForMirroring (pi_Peers info) (rq_RemoteName req) then site_op_pools E req ps
        else if rq_RequestType req = PromoteReplicationRequest
        then io_bind (handlePoolPromotion E ?pool (rq_IsForceOp req)) (\<lambda>_. site_op_pools E req ps)
        else if rq_RequestType req = DemoteReplicationRequest
        then io_bind (attempt (handlePoolDemotion E ?pool)) (\<lambda>r. case r of Inl _ \<Rightarrow> io_return () | Inr _ \<Rightarrow> site_op_pools E req ps)
        else site_op_pools E req ps) (\<lambda>_ _. True) (\<lambda>_ _. True)"
      unfolding split_def
    proof (intro triple_if rest)
      assume registered: "\<not> (ps_State (fst v) \<noteq> StateEnabledReplication \<or> \<not> isPeerRegisteredForMirroring (pi_Peers (snd v)) (rq_RemoteName req))"
      show "triple (site_step E req) (?M v) (io_bind (handlePoolPromotion E ?pool (rq_IsForceOp req)) (\<lambda>_. site_op_pools E req ps)) (\<lambda>_ _. True) (\<lambda>_ _. True)"
        if "rq_RequestType req = PromoteReplicationRequest"
        by (rule triple_bind [OF triple_weaken [OF triple_promotion [OF that]] rest]) (use registered in auto)
      show "triple (site_step E req) (?M v) (io_bind (attempt (handlePoolDemotion E ?pool)) (\<lambda>r.
          case r of Inl _ \<Rightarrow> io_return () | Inr _ \<Rightarrow> site_op_pools E req ps)) (\<lambda>_ _. True) (\<lambda>_ _. True)"
        if "rq_RequestType req = DemoteReplicationRequest"
      proof (rule triple_bind)
        show "triple (site_step E req) (?M v) (attempt (handlePoolDemotion E ?pool)) (\<lambda>_ _. True) (\<lambda>_ _. True)"
          by (rule triple_attempt, rule triple_weaken [OF triple_demotion [OF that]]) (use registered in auto)
      qed (auto intro!: triple_sum triple_return rest)
    qed
  qed
qed (auto intro: triple_return)

lemma triple_site: "triple (site_step E (rh_Request rh)) (\<lambda>_. True) (handleSiteOp E rh) (\<lambda>_ _. True) (\<lambda>_ _. True)"
  unfolding handleSiteOp_def by (rule triple_bind [OF triple_look [OF only_pools grows_const] triple_site_pools])

lemma prefill_request: "rbd_PreFill E req h = (Inr rh, h') \<Longrightarrow> rh_Request rh = req"
  by (auto simp: rbd_PreFill_def io_Inr)

lemma triple_reference:
  assumes looks: "\<And>log r. rep_looks r \<Longrightarrow> Q log r"
    and handler: "\<And>rh. rh_Request rh = req \<Longrightarrow> triple Q (\<lambda>_. True)
      (by_table (rbd_GetResourceState rh) (GetWorkloadRequestTypeGeneric (rq_RequestType req)) (rbd_run E rh)) (\<lambda>_ _. True) (\<lambda>_ _. True)"
  shows "triple Q (\<lambda>_. True) (rbd_reference E req) (\<lambda>_ _. True) (\<lambda>_ _. True)"
  unfolding rbd_reference_def
proof (rule triple_bind)
  have "triple Q (\<lambda>_. True) (rbd_PreFill E req) (\<lambda>_ _. True) (\<lambda>_ _. True)"
    by (rule only_triple [OF only_prefill]) (simp add: looks)
  then show "triple Q (\<lambda>_. True) (rbd_PreFill E req) (\<lambda>rh _. True \<and> rh_Request rh = req) (\<lambda>_ _. True)"
    by (rule triple_result) (rule prefill_request)
qed (rule triple_pure [OF handler])

lemma site_table: "rep_table b EventPromoteReplication = Some PromoteHandler" "rep_table b EventDemoteReplication = Some DemoteHandler"
  by (simp_all add: rep_table_def rep_events)

lemma triple_no_response: "triple Q Pre f (\<lambda>_ _. True) (\<lambda>_ _. True) \<Longrightarrow> triple Q Pre (no_response f) (\<lambda>_ _. True) (\<lambda>_ _. True)"
  unfolding no_response_def by (rule triple_bind) (auto intro: triple_return)

lemma triple_site_request:
  assumes "GetWorkloadRequestTypeGeneric (rq_RequestType req) \<in> {EventPromoteReplication, EventDemoteReplication}"
  shows "triple (site_step E req) (\<lambda>_. True) (rbd_reference E req) (\<lambda>_ _. True) (\<lambda>_ _. True)"
proof (rule triple_reference)
  fix rh :: rbd_handler assume req: "rh_Request rh = req"
  have "triple (site_step E req) (\<lambda>_. True) (handleSiteOp E rh) (\<lambda>_ _. True) (\<lambda>_ _. True)" using triple_site [of E rh] req by simp
  then show "triple (site_step E req) (\<lambda>_. True)
      (by_table (rbd_GetResourceState rh) (GetWorkloadRequestTypeGeneric (rq_RequestType req)) (rbd_run E rh)) (\<lambda>_ _. True) (\<lambda>_ _. True)"
    using assms by (auto simp: by_table_def site_table rbd_PromoteHandler_def rbd_DemoteHandler_def intro!: triple_no_response triple_fail)
qed (simp add: site_step_def)

text \<open>Without the force flag a demotion only looks.\<close>

lemma triple_unforced:
  assumes "GetWorkloadRequestTypeGeneric (rq_RequestType req) = EventDemoteReplication" "\<not> rq_IsForceOp req"
  shows "triple (\<lambda>_. rep_looks) (\<lambda>_. True) (rbd_reference E req) (\<lambda>_ _. True) (\<lambda>_ _. True)"
  by (rule triple_reference)
    (auto simp: by_table_def site_table assms rbd_DemoteHandler_def intro!: triple_no_response triple_fail)

lemma demotion_event: "GetWorkloadRequestTypeGeneric DemoteReplicationRequest = EventDemoteReplication"
  by (simp add: GetWorkloadRequestTypeGeneric_def DemoteReplicationRequest_def EventDemoteReplication_def)

lemma demotion_commands:
  "\<not> rep_looks (demote_cmd pool)" "\<not> rep_looks (resync_cmd pool img)"
  "demote_cmd pool \<noteq> promote_cmd pool' b" "resync_cmd pool img \<noteq> promote_cmd pool' b"
  by (simp_all add: rep_looks_def demote_cmd_def resync_cmd_def promote_cmd_def)

end
