(* ===== verification/Replication_Claims.thy ===== *)
theory Replication_Claims
  imports Replication_Safety
begin

text \<open>
  The properties of replication requests, with two sites that mirror a pool as the example they are
  applied to.
\<close>

section \<open>Properties\<close>

text \<open>The client names an image in the path of a request by \<^verbatim>\<open>GetAPIObjectID\<close>, and the
  endpoint reads the name back by \<^verbatim>\<open>SetAPIObjectID\<close>: for names without slashes and spaces, whatever
  other bytes they have, the endpoint gets the pool and the image of the client. A pool is named by
  itself, so that its name must have no percent sign or slash. A space comes back as a plus sign.\<close>

theorem object_id_round_trip:
  assumes "rq_SourcePool r \<noteq> []" "CHR ''/'' \<notin> set (rq_SourcePool r)" "CHR ''/'' \<notin> set (rq_SourceImage r)"
  shows "(rq_SourceImage r \<noteq> [] \<and> CHR '' '' \<notin> set (rq_SourcePool r) \<union> set (rq_SourceImage r) \<longrightarrow>
      SetAPIObjectID (GetAPIObjectID r) r0 = Inr (r0\<lparr>rq_SourcePool := rq_SourcePool r, rq_SourceImage := rq_SourceImage r\<rparr>)) \<and>
    (rq_SourceImage r = [] \<and> CHR ''%'' \<notin> set (rq_SourcePool r) \<longrightarrow>
      SetAPIObjectID (GetAPIObjectID r) r0 = Inr (r0\<lparr>rq_SourcePool := rq_SourcePool r\<rparr>))"
proof (intro conjI impI; elim conjE)
  assume "rq_SourceImage r \<noteq> []" and space: "CHR '' '' \<notin> set (rq_SourcePool r) \<union> set (rq_SourceImage r)"
  have "CHR '' '' \<notin> set (slashed (rq_SourcePool r) (rq_SourceImage r))" using space by (auto simp: slashed_def)
  from unescape_escape [OF this] show "SetAPIObjectID (GetAPIObjectID r) r0 =
      Inr (r0\<lparr>rq_SourcePool := rq_SourcePool r, rq_SourceImage := rq_SourceImage r\<rparr>)"
    using assms \<open>rq_SourceImage r \<noteq> []\<close> by (simp add: SetAPIObjectID_def GetAPIObjectID_def split_slashed)
next
  assume none: "rq_SourceImage r = []" and percent: "CHR ''%'' \<notin> set (rq_SourcePool r)"
  have "CHR ''%'' \<notin> set s \<Longrightarrow> PathUnescape s = Inr s" for s by (induction s) auto
  with percent assms(2) none show "SetAPIObjectID (GetAPIObjectID r) r0 = Inr (r0\<lparr>rq_SourcePool := rq_SourcePool r\<rparr>)"
    by (simp add: SetAPIObjectID_def GetAPIObjectID_def split_on_clean)
qed

theorem object_id_round_trip_witness:
  "SetAPIObjectID (GetAPIObjectID (request_zero\<lparr>rq_SourcePool := ''p%1'', rq_SourceImage := ''i+2''\<rparr>)) request_zero =
     Inr (request_zero\<lparr>rq_SourcePool := ''p%1'', rq_SourceImage := ''i+2''\<rparr>) \<and>
   SetAPIObjectID (GetAPIObjectID (request_zero\<lparr>rq_SourcePool := ''p1''\<rparr>)) request_zero = Inr (request_zero\<lparr>rq_SourcePool := ''p1''\<rparr>)"
  using object_id_round_trip [of "request_zero\<lparr>rq_SourcePool := ''p%1'', rq_SourceImage := ''i+2''\<rparr>" request_zero]
    object_id_round_trip [of "request_zero\<lparr>rq_SourcePool := ''p1''\<rparr>" request_zero]
  by (simp add: request_zero_def)


text \<open>C15 (safety). Whatever the cluster, its remote and the tool answer, a request to disable the
  mirroring of a pool changes nothing unless the pool is mirrored, is healthy or the operation is forced,
  has no image mirrored on its own, has peers of one site only, and a remote with that site's name was read
  from the table. Then it only disables journaling on images of a pool in pool mode, removes peers
  that were listed under the two sites' names, and disables the pool: here only after all peers listed
  on either side were removed, and on the remote only after it was disabled here. Success means
  that the pool was not mirrored, or was disabled on both sides.\<close>

theorem pool_disable_guarded:
  assumes "retry_documented E" "rq_ResourceType (rh_Request rh) = RbdResourcePool" "rbd_DisableHandler E rh [] = (r, ext)"
  shows "(\<forall>k < length ext. disable_allowed E rh (take k ext) (ext ! k)) \<and>
    (r = Inr () \<longrightarrow> pi_Mode (rh_PoolInfo rh) = RbdResourceDisabled \<or> pool_disabled E rh ext)"
proof -
  let ?name = "rq_RemoteName (rh_Request rh)"
  have ask: "triple (disable_allowed E rh) (\<lambda>log. log = []) (getRemoteRecords E ?name)
      (\<lambda>rs log. \<forall>r \<in> set rs. table_has E ?name r log \<and> ?name \<in> {[], rr_Name r}) (\<lambda>_ _. True)"
    by (rule triple_remotes) (simp add: disable_allowed_def rep_looks_def)
  have "triple (disable_allowed E rh) (\<lambda>log. log = []) (rbd_DisableHandler E rh)
      (\<lambda>_ log. pi_Mode (rh_PoolInfo rh) = RbdResourceDisabled \<or> pool_disabled E rh log) (\<lambda>_ _. True)"
    unfolding rbd_DisableHandler_def Let_def using assms(2)
    by (simp add: triple_bind [OF ask triple_handlePool [OF assms(1)]])
  from this refl assms(3) obtain ext' where "ext = [] @ ext'" "allowed_ext (disable_allowed E rh) [] ext'"
      "case r of Inr v \<Rightarrow> pi_Mode (rh_PoolInfo rh) = RbdResourceDisabled \<or> pool_disabled E rh ext | Inl e \<Rightarrow> True"
    by (rule tripleD)
  then show ?thesis using allowed_ext_nth [of "disable_allowed E rh" "[]" ext] by auto
qed

text \<open>Disabling a pool on two sites tries the local disable at most four times and the remote one
  at most ten times. The local disable is tried again only when the tool refused every attempt so far because
  mirror peers are registered; the remote one only when all attempts so far failed.\<close>

theorem disable_attempts_bounded:
  assumes "retry_documented E" "\<not> (here = [] \<and> there = [])" "DisablePoolMirroring E pool here there [] = (r, ext)"
  shows "count_of (disable_cmd pool '''' '''') ext \<le> 4 \<and> count_of (disable_cmd pool here there) ext \<le> 10 \<and>
    (\<forall>i j. i < j \<and> j < length ext \<and> ext ! i = ext ! j \<longrightarrow>
      (ext ! j = disable_cmd pool '''' '''' \<longrightarrow> peer_refusal (rv_host E (take i ext) (ext ! i))) \<and>
      (ext ! j = disable_cmd pool here there \<longrightarrow> \<not> answered (rv_host E (take i ext) (ext ! i))))"
proof -
  have "allowed_ext (sparing E peer_refusal 4 (disable_cmd pool '''' '''')) [] ext"
    using tripleD [OF triple_sparing(1) [OF assms(1,2)] refl assms(3)] by auto
  moreover have "allowed_ext (sparing E (\<lambda>a. \<not> answered a) 10 (disable_cmd pool here there)) [] ext"
    using tripleD [OF triple_sparing(2) [OF assms(1,2)] refl assms(3)] by auto
  ultimately show ?thesis
    using sparing_count [of E _ _ _ "[]" ext] sparing_refused [of E _ _ _ ext] by (fastforce dest: sparing_refused)
qed

text \<open>C16 (safety). A site-wide promotion or demotion acts, whatever the tool answers, only on pools
  whose list of peers was read and has the remote of the request: a promotion promotes them, with the
  force flag exactly when the request has it; a demotion demotes them and flags images for a resync only after the
  pool's demotion succeeded, and does so only when the request is forced.\<close>

theorem site_operations_guarded:
  assumes "machine_documented E" "rbd_replicate E req [] = (r, ext)"
    and "GetWorkloadRequestTypeGeneric (rq_RequestType req) \<in> {EventPromoteReplication, EventDemoteReplication}"
  shows "\<forall>k < length ext. site_step E req (take k ext) (ext ! k) \<and>
    (\<forall>pool img. ext ! k = demote_cmd pool \<or> ext ! k = resync_cmd pool img \<longrightarrow> rq_IsForceOp req)"
proof (intro allI impI conjI)
  fix k assume k: "k < length ext"
  have ref: "rbd_reference E req [] = (r, [] @ ext)" using assms(1,2) rbd_by_table by simp
  from triple_request [OF triple_site_request [OF assms(3)] _ ref k]
  show step: "site_step E req (take k ext) (ext ! k)" by simp
  fix pool img assume demotes: "ext ! k = demote_cmd pool \<or> ext ! k = resync_cmd pool img"
  show "rq_IsForceOp req"
  proof (rule ccontr)
    assume "\<not> rq_IsForceOp req"
    moreover have "rq_RequestType req = DemoteReplicationRequest"
      using step demotes demotion_commands unfolding site_step_def by metis
    ultimately have "rep_looks (ext ! k)" using triple_request [OF triple_unforced _ ref k] demotion_event by simp
    with demotes demotion_commands show False by auto
  qed
qed

section \<open>A pair of sites\<close>

text \<open>Site \<^verbatim>\<open>east\<close> mirrors the pool \<^verbatim>\<open>p\<close> with \<^verbatim>\<open>west\<close>; the first disable here is refused
  because a peer came back. Libraries behave as documented.\<close>

definition peer_doc :: "string \<Rightarrow> string \<Rightarrow> json" where
  "peer_doc i site = JObj [(''mode'', JStr ''image''), (''peers'', JArr [JObj [(''uuid'', JStr i), (''site_name'', JStr site)]])]"

definition pair_host :: host where
  "pair_host log r =
     (if r = info_cmd ''p'' '''' '''' then Answer '''' (Some (peer_doc ''u1'' ''west''))
      else if r = info_cmd ''p'' ''east'' ''west'' then Answer '''' (Some (peer_doc ''u2'' ''east''))
      else if r = disable_cmd ''p'' '''' '''' \<and> r \<notin> set log then Failed False (Some 1) ''mirror peers still registered''
      else if r = Cmd [''ceph'', ''osd'', ''pool'', ''ls'', ''detail'', ''--format'', ''json'']
      then Answer '''' (Some (JArr [JObj [(''pool_name'', JStr ''p''), (''application_metadata'', JObj [(''rbd'', JObj [])])]]))
      else if take 4 (case r of Cmd args \<Rightarrow> args | _ \<Rightarrow> []) = [''rbd'', ''mirror'', ''pool'', ''info''] then Failed False (Some 2) ''not mirrored''
      else if take 4 (case r of Cmd args \<Rightarrow> args | _ \<Rightarrow> []) = [''rbd'', ''mirror'', ''pool'', ''status'']
      then Answer '''' (Some (JObj [(''summary'', JObj [(''health'', JStr ''OK'')])]))
      else if r = Cmd [''rbd'', ''mirror'', ''image'', ''resync'', ''p/i''] then Failed False (Some 2) ''busy''
      else Answer '''' None)"

definition pair_env :: rep_env where
  "pair_env = \<lparr>rv_host = pair_host, rv_lib = plain_lib,
     rv_remotes = (\<lambda>_. Inr [\<lparr>rr_ID = 1, rr_Name = ''west'', rr_LocalName = ''east''\<rparr>]), rv_conf = ''/conf'', rv_run = ''/run'',
     rv_gjson = \<lparr>gj_get = (\<lambda>a path. if path = ''images'' then Some (JArr [JObj [(''name'', JStr ''i'')]]) else Some (JObj [])),
       gj_sub = (\<lambda>_ _. None), gj_array = (\<lambda>j. case j of Some (JArr js) \<Rightarrow> js | _ \<Rightarrow> []), gj_string = (\<lambda>_. ''''), gj_int = (\<lambda>_. 0), gj_other = (\<lambda>_. '''')\<rparr>,
     rv_sched = (\<lambda>_ ks. ks), rv_doc = (\<lambda>j. j),
     rv_retry = (\<lambda>limit again action. retry_loop limit 1 again action None), rv_fire = documented_fire\<rparr>"

lemma pair_documented: "retry_documented pair_env" "machine_documented pair_env"
  by (auto simp: retry_documented_def machine_documented_def pair_env_def)

definition pair_handler :: rbd_handler where
  "pair_handler = \<lparr>rh_PoolInfo = info_zero\<lparr>pi_Mode := ''image'', pi_Peers := [peer_zero\<lparr>rp_Id := ''u1'', rp_RemoteName := ''west''\<rparr>]\<rparr>,
     rh_PoolStatus = status_zero\<lparr>ps_Health := ''OK''\<rparr>, rh_ImageStatus = image_zero,
     rh_Request = request_zero\<lparr>rq_SourcePool := ''p'', rq_ResourceType := ''pool'', rq_RemoteName := ''west''\<rparr>\<rparr>"

definition pair_log :: history where
  "pair_log = [Db ''remoteObjects'' [''west''], info_cmd ''p'' '''' '''', info_cmd ''p'' ''east'' ''west'', remove_cmd ''p'' ''u1'' '''' '''',
     remove_cmd ''p'' ''u2'' ''east'' ''west'', disable_cmd ''p'' '''' '''', info_cmd ''p'' '''' '''', remove_cmd ''p'' ''u1'' '''' '''',
     disable_cmd ''p'' '''' '''', disable_cmd ''p'' ''east'' ''west'']"

lemma pair_run: "rbd_DisableHandler pair_env pair_handler [] = (Inr (), pair_log)"
  by code_simp

theorem pool_disable_guarded_witness:
  "rbd_DisableHandler pair_env pair_handler [] = (Inr (), pair_log) \<and>
   list_all (\<lambda>k. disable_allowed pair_env pair_handler (take k pair_log) (pair_log ! k)) [0..<length pair_log] \<and>
   pool_disabled pair_env pair_handler pair_log"
proof -
  have "rq_ResourceType (rh_Request pair_handler) = RbdResourcePool" "pi_Mode (rh_PoolInfo pair_handler) \<noteq> RbdResourceDisabled"
    by (simp_all add: pair_handler_def rep_constants)
  with pool_disable_guarded [OF pair_documented(1) _ pair_run] pair_run show ?thesis by (simp add: list_all_iff)
qed


theorem disable_attempts_bounded_witness:
  "DisablePoolMirroring pair_env ''p'' ''east'' ''west'' [] = (Inr (), tl pair_log) \<and>
   count_of (disable_cmd ''p'' '''' '''') (tl pair_log) \<le> 4 \<and> count_of (disable_cmd ''p'' ''east'' ''west'') (tl pair_log) \<le> 10"
proof -
  have run: "DisablePoolMirroring pair_env ''p'' ''east'' ''west'' [] = (Inr (), tl pair_log)" by code_simp
  with disable_attempts_bounded [OF pair_documented(1) _ run] show ?thesis by simp
qed

text \<open>A forced demotion of the example: the resync of the image fails, and the request is reported as done.\<close>

definition pair_demotion :: rbd_request where
  "pair_demotion = request_zero\<lparr>rq_RemoteName := ''west'', rq_RequestType := DemoteReplicationRequest, rq_IsForceOp := True\<rparr>"

definition demotion_log :: history where
  "demotion_log = [info_cmd '''' '''' '''', Cmd [''rbd'', ''mirror'', ''pool'', ''status'', '''', ''--format'', ''json''],
     Cmd [''ceph'', ''osd'', ''pool'', ''ls'', ''detail'', ''--format'', ''json''],
     Cmd [''rbd'', ''mirror'', ''pool'', ''status'', ''p'', ''--format'', ''json''], info_cmd ''p'' '''' '''', demote_cmd ''p'',
     Cmd [''rbd'', ''mirror'', ''pool'', ''status'', ''p'', ''--verbose'', ''--format'', ''json''], resync_cmd ''p'' ''i'']"

lemma failed_demotion_reported_done: "rbd_replicate pair_env pair_demotion [] = (Inr None, demotion_log)"
  by code_simp

theorem site_operations_guarded_witness:
  "rbd_replicate pair_env pair_demotion [] = (Inr None, demotion_log) \<and>
   list_all (\<lambda>k. site_step pair_env pair_demotion (take k demotion_log) (demotion_log ! k)) [0..<length demotion_log] \<and> rq_IsForceOp pair_demotion"
proof -
  have "GetWorkloadRequestTypeGeneric (rq_RequestType pair_demotion) \<in> {EventPromoteReplication, EventDemoteReplication}"
    by (simp add: pair_demotion_def demotion_event)
  from site_operations_guarded [OF pair_documented(2) failed_demotion_reported_done this] failed_demotion_reported_done
  show ?thesis by (simp add: pair_demotion_def list_all_iff)
qed

end
