(* ===== verification/Client_Config.thy ===== *)
theory Client_Config
  imports Cluster_DB "HOL-Library.AList"
begin

text \<open>
  Client configuration values in the cluster database: the migrations that make their table
  (\<^verbatim>\<open>database/schema.go\<close>), the row operations (\<^verbatim>\<open>database/client_config.mapper.go\<close>), the
  queries of \<^verbatim>\<open>database/client_config_extras.go\<close>, and the values that apply to a host
  (\<^verbatim>\<open>ceph/client_config.go\<close>).

  A row belongs to a member or, with a null \<^verbatim>\<open>member_id\<close>, to the whole cluster. Members
  are identified by their names, which are unique in their table. Whether the index that makes
  (\<^verbatim>\<open>member_id\<close>, \<^verbatim>\<open>key\<close>) unique exists is part of the table: an insert that replaces depends
  on it. The order of rows a query leaves open is a parameter.
\<close>

section \<open>The table and its migrations\<close>

record client_row =
  cr_ID :: nat
  cr_Member :: "string option"
  cr_Key :: string
  cr_Value :: string

abbreviation row_slot :: "client_row \<Rightarrow> string option \<times> string" where
  "row_slot r \<equiv> (cr_Member r, cr_Key r)"

record catalog =
  cat_tables :: "(string \<times> client_row list) list"
  cat_indexes :: "(string \<times> string) list"

datatype schema_stmt =
    DropIndexIfExists string
  | CreateTable string
  | CreateUniqueIndex string string
  | CopyRows string string
  | DropTable string
  | RenameTable string string

text \<open>A statement on the schema as SQLite runs it: an index goes with its table, and a renamed table
  keeps its indexes. A failing statement fails the migration.\<close>

fun run_schema :: "schema_stmt \<Rightarrow> catalog \<Rightarrow> string + catalog" where
  "run_schema (DropIndexIfExists i) c = Inr (c\<lparr>cat_indexes := filter (\<lambda>x. fst x \<noteq> i) (cat_indexes c)\<rparr>)"
| "run_schema (CreateTable t) c =
     (if map_of (cat_tables c) t \<noteq> None then Inl (''table '' @ t @ '' already exists'')
      else Inr (c\<lparr>cat_tables := cat_tables c @ [(t, [])]\<rparr>))"
| "run_schema (CreateUniqueIndex i t) c =
     (case map_of (cat_tables c) t of
        None \<Rightarrow> Inl (''no such table: '' @ t)
      | Some rows \<Rightarrow>
          if map_of (cat_indexes c) i \<noteq> None then Inl (''index '' @ i @ '' already exists'')
          else if \<not> distinct (map row_slot rows) then Inl (''UNIQUE constraint failed: index '' @ i)
          else Inr (c\<lparr>cat_indexes := cat_indexes c @ [(i, t)]\<rparr>))"
| "run_schema (CopyRows dst src) c =
     (case (map_of (cat_tables c) dst, map_of (cat_tables c) src) of
        (Some old, Some rows) \<Rightarrow>
          if dst \<in> snd ` set (cat_indexes c) \<and> \<not> distinct (map row_slot (old @ rows))
          then Inl ''UNIQUE constraint failed''
          else Inr (c\<lparr>cat_tables := map (\<lambda>x. if fst x = dst then (dst, old @ rows) else x) (cat_tables c)\<rparr>)
      | (None, _) \<Rightarrow> Inl (''no such table: '' @ dst)
      | (_, None) \<Rightarrow> Inl (''no such table: '' @ src))"
| "run_schema (DropTable t) c =
     (if map_of (cat_tables c) t = None then Inl (''no such table: '' @ t)
      else Inr (c\<lparr>cat_tables := filter (\<lambda>x. fst x \<noteq> t) (cat_tables c), cat_indexes := filter (\<lambda>x. snd x \<noteq> t) (cat_indexes c)\<rparr>))"
| "run_schema (RenameTable a b) c =
     (if map_of (cat_tables c) a = None then Inl (''no such table: '' @ a)
      else if map_of (cat_tables c) b \<noteq> None then Inl (''there is already another table or index with this name: '' @ b)
      else Inr (c\<lparr>cat_tables := map (\<lambda>x. if fst x = a then (b, snd x) else x) (cat_tables c),
                   cat_indexes := map (\<lambda>x. if snd x = a then (fst x, b) else x) (cat_indexes c)\<rparr>))"

fun run_schemas :: "schema_stmt list \<Rightarrow> catalog \<Rightarrow> string + catalog" where
  "run_schemas [] c = Inr c"
| "run_schemas (s # ss) c = (case run_schema s c of Inl e \<Rightarrow> Inl e | Inr c1 \<Rightarrow> run_schemas ss c1)"

text \<open>The parts of the migrations that concern this table.\<close>

definition schemaUpdate2 :: "schema_stmt list" where
  "schemaUpdate2 = [CreateTable ''client_config'', CreateUniqueIndex ''cc_index'' ''client_config'']"

definition schemaUpdate4 :: "schema_stmt list" where
  "schemaUpdate4 =
     [DropIndexIfExists ''cc_index'', CreateTable ''client_config_new'', CreateUniqueIndex ''cc_index'' ''client_config'',
      CopyRows ''client_config_new'' ''client_config'', DropTable ''client_config'',
      RenameTable ''client_config_new'' ''client_config'']"

record client_table =
  ct_rows :: "client_row list"
  ct_seq :: nat
  ct_unique :: bool

definition open_table :: "catalog \<Rightarrow> nat \<Rightarrow> client_table option" where
  "open_table c n =
     map_option (\<lambda>rows. \<lparr>ct_rows = rows, ct_seq = n, ct_unique = (''client_config'' \<in> snd ` set (cat_indexes c))\<rparr>)
       (map_of (cat_tables c) ''client_config'')"

section \<open>State\<close>

text \<open>The database, the table of client values, the files the program renders, and the members that
  were asked to render theirs. Every statement and every call consumes one outcome of the state, as in
  a transaction.\<close>

record conf_world =
  cw_db :: cluster_db
  cw_client :: client_table
  cw_files :: "(string \<times> string) list"
  cw_asked :: "string list"

type_synonym 'a cx = "conf_world db_state \<Rightarrow> (go_error + 'a) \<times> conf_world db_state"

text \<open>A statement on the other tables.\<close>

definition on_cluster :: "'a tx \<Rightarrow> 'a cx" where
  "on_cluster f st =
     (case f \<lparr>dbs = cw_db (dbs st), faults = faults st\<rparr> of
        (r, st1) \<Rightarrow> (r, \<lparr>dbs = (dbs st)\<lparr>cw_db := dbs st1\<rparr>, faults = faults st1\<rparr>))"

record client_env =
  ce_rows :: "client_row list \<Rightarrow> client_row list"
  ce_sched :: sched

definition any_order :: "client_env \<Rightarrow> client_row list \<Rightarrow> client_row list" where
  "any_order C rows = (if mset (ce_rows C rows) = mset rows then ce_rows C rows else rows)"

record client_item =
  ci_ID :: nat
  ci_Host :: string
  ci_Key :: string
  ci_Value :: string

definition ClientConfigGlobalHostConst :: string where
  "ClientConfigGlobalHostConst = ''*''"

section \<open>Row operations\<close>

record client_filter =
  cf_Host :: "string option"
  cf_Key :: "string option"

definition item_of :: "client_row \<Rightarrow> client_item" where
  "item_of r = \<lparr>ci_ID = cr_ID r, ci_Host = (case cr_Member r of Some m \<Rightarrow> m | None \<Rightarrow> ''''), ci_Key = cr_Key r, ci_Value = cr_Value r\<rparr>"

text \<open>The rows of members, by member and key; a member's place in its table is its id.\<close>

definition member_rows :: "client_env \<Rightarrow> conf_world \<Rightarrow> client_row list" where
  "member_rows C w =
     concat (map (\<lambda>m. sort_key cr_Key (filter (\<lambda>r. cr_Member r = Some m) (any_order C (ct_rows (cw_client w))))) (db_members (cw_db w)))"

definition filter_matches :: "client_filter \<Rightarrow> client_row \<Rightarrow> bool" where
  "filter_matches f r \<longleftrightarrow>
     (case cf_Key f of None \<Rightarrow> True | Some k \<Rightarrow> cr_Key r = k) \<and>
     (case cf_Host f of None \<Rightarrow> True | Some h \<Rightarrow> cr_Member r = Some h)"

abbreviation client_fetch :: string where
  "client_fetch \<equiv> ''Failed to fetch from \"client_config\" table: ''"

definition GetClientConfigItems :: "client_env \<Rightarrow> client_filter list \<Rightarrow> client_item list cx" where
  "GetClientConfigItems C filters =
     (if list_ex (\<lambda>f. cf_Host f = None \<and> cf_Key f = None) filters
      then tx_fail (err_new ''Cannot filter on empty ClientConfigItemFilter'')
      else tx_bind (tx_stmt ''Failed to get \"clientConfigItemObjects\" prepared statement: '' (\<lambda>w. ((), w))) (\<lambda>_.
        tx_stmt (client_fetch @ client_fetch)
          (\<lambda>w. (map item_of (filter (\<lambda>r. filters = [] \<or> list_ex (\<lambda>f. filter_matches f r) filters) (member_rows C w)), w))))"

definition GetClientConfigItem :: "client_env \<Rightarrow> string \<Rightarrow> string \<Rightarrow> client_item cx" where
  "GetClientConfigItem C host key =
     tx_bind (tx_wrap client_fetch (GetClientConfigItems C [\<lparr>cf_Host = Some host, cf_Key = Some key\<rparr>])) (\<lambda>items.
       case items of
         [] \<Rightarrow> tx_fail (err_status 404 ''ClientConfigItem not found'')
       | [i] \<Rightarrow> tx_return i
       | _ \<Rightarrow> tx_fail (err_new ''More than one \"client_config\" entry matches''))"

text \<open>A query for one row takes the first one.\<close>

definition GetClientConfigItemID :: "client_env \<Rightarrow> string \<Rightarrow> string \<Rightarrow> nat cx" where
  "GetClientConfigItemID C host key =
     tx_bind (tx_stmt ''Failed to get \"clientConfigItemID\" prepared statement: '' (\<lambda>w. ((), w))) (\<lambda>_.
       tx_bind (tx_stmt ''Failed to get \"client_config\" ID: ''
         (\<lambda>w. (filter (\<lambda>r. row_slot r = (Some host, key) \<and> host \<in> set (db_members (cw_db w))) (any_order C (ct_rows (cw_client w))), w)))
       (\<lambda>rows. case rows of
          [] \<Rightarrow> tx_fail (err_status 404 ''ClientConfigItem not found'')
        | r # _ \<Rightarrow> tx_return (cr_ID r)))"

definition ClientConfigItemExists :: "client_env \<Rightarrow> string \<Rightarrow> string \<Rightarrow> bool cx" where
  "ClientConfigItemExists C host key st =
     (case GetClientConfigItemID C host key st of
        (Inl e, st1) \<Rightarrow> if StatusErrorCheck e 404 then (Inr False, st1) else (Inl e, st1)
      | (Inr _, st1) \<Rightarrow> (Inr True, st1))"

text \<open>An insert finds the id of the member by a nested query: a name that is no member gives null.\<close>

definition member_id :: "conf_world \<Rightarrow> string \<Rightarrow> string option" where
  "member_id w host = (if host \<in> set (db_members (cw_db w)) then Some host else None)"

definition new_row :: "client_table \<Rightarrow> string option \<Rightarrow> string \<Rightarrow> string \<Rightarrow> client_table" where
  "new_row t m key value =
     t\<lparr>ct_rows := ct_rows t @ [\<lparr>cr_ID = Suc (ct_seq t), cr_Member = m, cr_Key = key, cr_Value = value\<rparr>], ct_seq := Suc (ct_seq t)\<rparr>"

text \<open>\<^verbatim>\<open>INSERT\<close> and \<^verbatim>\<open>INSERT OR REPLACE\<close>: only a unique index makes a conflict.\<close>

definition insert_row :: "string option \<Rightarrow> string \<Rightarrow> string \<Rightarrow> client_table \<Rightarrow> client_table option" where
  "insert_row m key value t =
     (if ct_unique t \<and> (m, key) \<in> row_slot ` set (ct_rows t) then None else Some (new_row t m key value))"

definition replace_row :: "string option \<Rightarrow> string \<Rightarrow> string \<Rightarrow> client_table \<Rightarrow> client_table" where
  "replace_row m key value t =
     new_row (if ct_unique t then t\<lparr>ct_rows := filter (\<lambda>r. row_slot r \<noteq> (m, key)) (ct_rows t)\<rparr> else t) m key value"

definition CreateClientConfigItem :: "client_env \<Rightarrow> client_item \<Rightarrow> nat cx" where
  "CreateClientConfigItem C item =
     tx_bind (tx_wrap ''Failed to check for duplicates: '' (ClientConfigItemExists C (ci_Host item) (ci_Key item))) (\<lambda>exists.
       if exists then tx_fail (err_status 409 ''This \"client_config\" entry already exists'')
       else tx_bind (tx_stmt ''Failed to get \"clientConfigItemCreate\" prepared statement: '' (\<lambda>w. ((), w))) (\<lambda>_.
         tx_bind (tx_stmt ''Failed to create \"client_config\" entry: ''
           (\<lambda>w. case insert_row (member_id w (ci_Host item)) (ci_Key item) (ci_Value item) (cw_client w) of
                  None \<Rightarrow> (False, w) | Some t \<Rightarrow> (True, w\<lparr>cw_client := t\<rparr>)))
         (\<lambda>ok. if ok then tx_stmt ''Failed to fetch \"client_config\" entry ID: '' (\<lambda>w. (ct_seq (cw_client w), w))
               else tx_fail (err_new ''Failed to create \"client_config\" entry: UNIQUE constraint failed''))))"

definition delete_rows :: "(client_row \<Rightarrow> bool) \<Rightarrow> conf_world \<Rightarrow> nat \<times> conf_world" where
  "delete_rows P w =
     (length (filter P (ct_rows (cw_client w))),
      w\<lparr>cw_client := (cw_client w)\<lparr>ct_rows := filter (\<lambda>r. \<not> P r) (ct_rows (cw_client w))\<rparr>\<rparr>)"

text \<open>Comparing with the null id of an unknown name finds nothing.\<close>

definition DeleteClientConfigItem :: "string \<Rightarrow> string \<Rightarrow> unit cx" where
  "DeleteClientConfigItem key host =
     tx_bind (tx_stmt ''Failed to get \"clientConfigItemDeleteByKeyAndHost\" prepared statement: '' (\<lambda>w. ((), w))) (\<lambda>_.
       tx_bind (tx_stmt ''Delete \"client_config\": ''
         (\<lambda>w. delete_rows (\<lambda>r. cr_Key r = key \<and> member_id w host \<noteq> None \<and> cr_Member r = member_id w host) w)) (\<lambda>n.
       tx_bind (tx_stmt ''Fetch affected rows: '' (\<lambda>w. (n, w))) (\<lambda>n.
         if n = 0 then tx_fail (err_status 404 ''ClientConfigItem not found'')
         else if 1 < n then tx_fail (err_new (''Query deleted '' @ show_nat n @ '' ClientConfigItem rows instead of 1''))
         else tx_return ())))"

definition DeleteClientConfigItems :: "string \<Rightarrow> unit cx" where
  "DeleteClientConfigItems key =
     tx_bind (tx_stmt ''Failed to get \"clientConfigItemDeleteByKey\" prepared statement: '' (\<lambda>w. ((), w))) (\<lambda>_.
       tx_bind (tx_stmt ''Delete \"client_config\": '' (delete_rows (\<lambda>r. cr_Key r = key))) (\<lambda>n.
         tx_stmt ''Fetch affected rows: '' (\<lambda>w. ((), w))))"

definition update_row :: "nat \<Rightarrow> client_item \<Rightarrow> conf_world \<Rightarrow> nat option \<times> conf_world" where
  "update_row i item w =
     (let t = cw_client w;
          rows = map (\<lambda>r. if cr_ID r = i
                   then r\<lparr>cr_Member := member_id w (ci_Host item), cr_Key := ci_Key item, cr_Value := ci_Value item\<rparr> else r) (ct_rows t) in
      if ct_unique t \<and> \<not> distinct (map row_slot rows) then (None, w)
      else (Some (length (filter (\<lambda>r. cr_ID r = i) (ct_rows t))), w\<lparr>cw_client := t\<lparr>ct_rows := rows\<rparr>\<rparr>))"

definition UpdateClientConfigItem :: "client_env \<Rightarrow> string \<Rightarrow> string \<Rightarrow> client_item \<Rightarrow> unit cx" where
  "UpdateClientConfigItem C host key item =
     tx_bind (GetClientConfigItemID C host key) (\<lambda>i.
       tx_bind (tx_stmt ''Failed to get \"clientConfigItemUpdate\" prepared statement: '' (\<lambda>w. ((), w))) (\<lambda>_.
         tx_bind (tx_stmt ''Update \"client_config\" entry failed: '' (update_row i item)) (\<lambda>m.
           case m of
             None \<Rightarrow> tx_fail (err_new ''Update \"client_config\" entry failed: UNIQUE constraint failed'')
           | Some n \<Rightarrow>
               tx_bind (tx_stmt ''Fetch affected rows: '' (\<lambda>w. (n, w))) (\<lambda>n.
                 if n \<noteq> 1 then tx_fail (err_new (''Query updated '' @ show_nat n @ '' rows instead of 1'')) else tx_return ()))))"

section \<open>Queries\<close>

text \<open>The text of a row in the messages of a failed write is a parameter of no interest: the message
  starts with what failed.\<close>

definition createOrUpdateClientConfigItem :: "client_item \<Rightarrow> unit cx" where
  "createOrUpdateClientConfigItem item =
     tx_bind (tx_stmt ''failed to prepare statement: '' (\<lambda>w. ((), w))) (\<lambda>_.
       tx_stmt ''failed to insert: ''
         (\<lambda>w. ((), w\<lparr>cw_client := replace_row (if ci_Host item = ClientConfigGlobalHostConst then None else member_id w (ci_Host item))
                        (ci_Key item) (ci_Value item) (cw_client w)\<rparr>)))"

definition AddNew :: "string \<Rightarrow> string \<Rightarrow> string \<Rightarrow> unit cx" where
  "AddNew key value host =
     Transaction (tx_opaque ''failed to add client config: ''
       (createOrUpdateClientConfigItem \<lparr>ci_ID = 0, ci_Host = host, ci_Key = key, ci_Value = value\<rparr>))"

definition global_item :: "client_row \<Rightarrow> client_item" where
  "global_item r = (item_of r)\<lparr>ci_Host := ClientConfigGlobalHostConst\<rparr>"

definition getAllGlobalConfigs :: "client_env \<Rightarrow> client_item list cx" where
  "getAllGlobalConfigs C =
     tx_bind (tx_stmt ''failed to parse sql stmt table: '' (\<lambda>w. ((), w))) (\<lambda>_.
       tx_stmt ''failed to fetch from client_config table: ''
         (\<lambda>w. (map global_item (sort_key cr_Key (filter (\<lambda>r. cr_Member r = None) (any_order C (ct_rows (cw_client w))))), w)))"

definition getOneGlobalConfigByKey :: "client_env \<Rightarrow> string \<Rightarrow> client_item list cx" where
  "getOneGlobalConfigByKey C key =
     tx_bind (tx_stmt ''failed to parse sql stmt table: '' (\<lambda>w. ((), w))) (\<lambda>_.
       tx_stmt ''failed to fetch from client_config table: ''
         (\<lambda>w. (map global_item (filter (\<lambda>r. cr_Member r = None \<and> cr_Key r = key) (any_order C (ct_rows (cw_client w)))), w)))"

definition GetGlobalConfigs :: "client_env \<Rightarrow> string \<Rightarrow> client_item list cx" where
  "GetGlobalConfigs C key = Transaction (if key \<noteq> '''' then getOneGlobalConfigByKey C key else getAllGlobalConfigs C)"

definition GetAllForFilter :: "client_env \<Rightarrow> client_filter list \<Rightarrow> client_item list cx" where
  "GetAllForFilter C filters = Transaction (GetClientConfigItems C filters)"

definition GetAll :: "client_env \<Rightarrow> client_item list cx" where
  "GetAll C =
     tx_bind (tx_wrap ''failed to fetch global client configs: '' (GetGlobalConfigs C '''')) (\<lambda>globals.
       tx_bind (tx_wrap ''failed to fetch host configured client configs: '' (GetAllForFilter C [])) (\<lambda>hosts.
         tx_return (globals @ hosts)))"

definition GetAllForKey :: "client_env \<Rightarrow> string \<Rightarrow> client_item list cx" where
  "GetAllForKey C key =
     tx_bind (tx_wrap (''failed to fetch global client configs, key '' @ key @ '': '') (GetGlobalConfigs C key)) (\<lambda>globals.
       tx_bind (tx_wrap (''failed to fetch host configured client configs, key '' @ key @ '': '')
           (GetAllForFilter C [\<lparr>cf_Host = None, cf_Key = Some key\<rparr>])) (\<lambda>hosts.
         tx_return (globals @ hosts)))"

text \<open>The map of the squashed values, and the slice made of it in the order of a loop over a map.\<close>

fun into_map :: "client_item list \<Rightarrow> (string \<times> client_item) list \<Rightarrow> (string \<times> client_item) list" where
  "into_map [] m = m"
| "into_map (i # is) m = into_map is (AList.update (ci_Key i) i m)"

definition squashClientConfigs :: "client_env \<Rightarrow> client_item list \<Rightarrow> client_item list \<Rightarrow> client_item list" where
  "squashClientConfigs C globals hosts =
     (let m = into_map hosts (into_map globals []) in
      map (\<lambda>k. the (map_of m k)) (loop_order (ce_sched C) 0 (keys m)))"

definition GetAllForHost :: "client_env \<Rightarrow> string \<Rightarrow> client_item list cx" where
  "GetAllForHost C host =
     tx_bind (tx_wrap (''failed to fetch global client configs, host '' @ host @ '': '') (GetGlobalConfigs C '''')) (\<lambda>globals.
       tx_bind (tx_wrap (''failed to fetch host client configs, host '' @ host @ '': '')
           (GetAllForFilter C [\<lparr>cf_Host = Some host, cf_Key = None\<rparr>])) (\<lambda>hosts.
         tx_return (squashClientConfigs C globals hosts)))"

definition GetAllForKeyAndHost :: "client_env \<Rightarrow> string \<Rightarrow> string \<Rightarrow> client_item list cx" where
  "GetAllForKeyAndHost C key host = GetAllForFilter C [\<lparr>cf_Host = Some host, cf_Key = Some key\<rparr>]"

definition RemoveAllForKey :: "string \<Rightarrow> unit cx" where
  "RemoveAllForKey key =
     Transaction (tx_opaque (''failed to clean existing keys '' @ key @ '': '') (DeleteClientConfigItems key))"

definition RemoveOneForKeyAndHost :: "string \<Rightarrow> string \<Rightarrow> unit cx" where
  "RemoveOneForKeyAndHost key host =
     Transaction (tx_opaque (''failed to clean existing keys '' @ key @ '': '') (DeleteClientConfigItem key host))"

definition GetClientConfigSlice :: "client_item list \<Rightarrow> (string \<times> string \<times> string) list" where
  "GetClientConfigSlice items =
     map (\<lambda>i. (ci_Key i, ci_Value i, if ci_Host i \<noteq> '''' then ci_Host i else ClientConfigGlobalHostConst)) items"

section \<open>The values that apply to a host\<close>

record client_conf =
  IsCache :: string
  CacheSize :: string
  IsCacheWritethrough :: string
  CacheMaxDirty :: string
  CacheTargetDirty :: string

definition client_conf_zero :: client_conf where
  "client_conf_zero = \<lparr>IsCache = '''', CacheSize = '''', IsCacheWritethrough = '''', CacheMaxDirty = '''', CacheTargetDirty = ''''\<rparr>"

definition GetClientConfigSet :: "(string \<times> string) list" where
  "GetClientConfigSet =
     [(''rbd_cache'', ''IsCache''), (''rbd_cache_size'', ''CacheSize''),
      (''rbd_cache_writethrough_until_flush'', ''IsCacheWritethrough''),
      (''rbd_cache_max_dirty'', ''CacheMaxDirty''), (''rbd_cache_target_dirty'', ''CacheTargetDirty'')]"

text \<open>The field is found by its name.\<close>

definition setFieldValue :: "client_conf \<Rightarrow> string \<Rightarrow> string \<Rightarrow> go_error + client_conf" where
  "setFieldValue c field value =
     (if field = ''IsCache'' then Inr (c\<lparr>IsCache := value\<rparr>)
      else if field = ''CacheSize'' then Inr (c\<lparr>CacheSize := value\<rparr>)
      else if field = ''IsCacheWritethrough'' then Inr (c\<lparr>IsCacheWritethrough := value\<rparr>)
      else if field = ''CacheMaxDirty'' then Inr (c\<lparr>CacheMaxDirty := value\<rparr>)
      else if field = ''CacheTargetDirty'' then Inr (c\<lparr>CacheTargetDirty := value\<rparr>)
      else Inl (err_new (''cannot set field '' @ field)))"

text \<open>A key that is not in the table prints as the nil interface.\<close>

definition field_of_key :: "string \<Rightarrow> string" where
  "field_of_key k = (case map_of GetClientConfigSet k of Some f \<Rightarrow> f | None \<Rightarrow> ''<nil>'')"

fun populate :: "client_item list \<Rightarrow> client_conf \<Rightarrow> go_error + client_conf" where
  "populate [] c = Inr c"
| "populate (i # is) c =
     (case setFieldValue c (field_of_key (ci_Key i)) (ci_Value i) of
        Inl e \<Rightarrow> Inl (err_new (''failed object population: '' @ etext e))
      | Inr c1 \<Rightarrow> populate is c1)"

definition GetClientConfigForHost :: "client_env \<Rightarrow> string \<Rightarrow> client_conf cx" where
  "GetClientConfigForHost C hostname =
     tx_bind (tx_opaque ''could not query database for client configs: '' (GetAllForHost C hostname)) (\<lambda>configs.
       case populate configs client_conf_zero of Inl e \<Rightarrow> tx_fail e | Inr c \<Rightarrow> tx_return c)"

end
