(* ===== verification/Conf_Files.thy ===== *)
theory Conf_Files
  imports Client_Config Rgw_Conf Go_Json
begin

text \<open>
  The configuration files of a member: networks and addresses (\<^verbatim>\<open>common/network.go\<close>), the
  templates and their atomic writing (\<^verbatim>\<open>ceph/configwriter.go\<close>,
  \<^verbatim>\<open>ceph/configwriter_ceph.go\<close>), the refresh of all files from the database
  (\<^verbatim>\<open>ceph/config.go\<close>), the loop that repeats it (\<^verbatim>\<open>ceph/start.go\<close>), and the
  endpoints for client values (\<^verbatim>\<open>api/client_configs.go\<close>, \<^verbatim>\<open>client/client_configs.go\<close>).

  Addresses are machine words. The texts of addresses and networks are read and printed by the
  \<^verbatim>\<open>net\<close> package, whose parsers are parameters.
\<close>

section \<open>Networks\<close>

datatype ip_addr = IPv4 "32 word" | IPv6 "128 word"

record ip_net =
  in_IP :: ip_addr
  in_Len :: nat

datatype if_addr = IPNetAddr ip_net | OtherAddr

record net_lib =
  nl_text :: rgw_text
  nl_parse_ip :: "string \<Rightarrow> ip_addr option"
  nl_parse_cidr :: "string \<Rightarrow> string + ip_net"
  nl_show_ip :: "ip_addr \<Rightarrow> string"
  nl_show_net :: "ip_net \<Rightarrow> string"
  nl_SplitHostPort :: "string \<Rightarrow> string + string"
  nl_Interfaces :: "string + (string + if_addr list) list"

definition net_text :: "net_lib \<Rightarrow> rgw_text" where
  "net_text L = (nl_text L)\<lparr>rt_parse_ip := (\<lambda>s. nl_parse_ip L s \<noteq> None)\<rparr>"

abbreviation net_trim :: "net_lib \<Rightarrow> string \<Rightarrow> string" where
  "net_trim L \<equiv> trim_space (rt_go (nl_text L))"

text \<open>\<^verbatim>\<open>IPNet.Contains\<close> and \<^verbatim>\<open>IP.IsGlobalUnicast\<close>; an IPv4 address in IPv6 form is an
  IPv4 address.\<close>

fun same_prefix :: "nat \<Rightarrow> ip_addr \<Rightarrow> ip_addr \<Rightarrow> bool" where
  "same_prefix n (IPv4 a) (IPv4 b) \<longleftrightarrow> drop_bit (32 - n) a = drop_bit (32 - n) b"
| "same_prefix n (IPv6 a) (IPv6 b) \<longleftrightarrow> drop_bit (128 - n) a = drop_bit (128 - n) b"
| "same_prefix n _ _ \<longleftrightarrow> False"

definition net_Contains :: "ip_net \<Rightarrow> ip_addr \<Rightarrow> bool" where
  "net_Contains n ip \<longleftrightarrow> same_prefix (in_Len n) (in_IP n) ip"

fun IsGlobalUnicast :: "ip_addr \<Rightarrow> bool" where
  "IsGlobalUnicast (IPv4 a) \<longleftrightarrow>
     a \<noteq> 0xFFFFFFFF \<and> a \<noteq> 0 \<and> drop_bit 24 a \<noteq> 127 \<and> drop_bit 28 a \<noteq> 0xE \<and> drop_bit 16 a \<noteq> 0xA9FE"
| "IsGlobalUnicast (IPv6 a) \<longleftrightarrow> a \<noteq> 0 \<and> a \<noteq> 1 \<and> drop_bit 120 a \<noteq> 0xFF \<and> drop_bit 118 a \<noteq> 0x3FA"

text \<open>Interfaces whose addresses cannot be read are passed over.\<close>

definition hostCIDRs :: "net_lib \<Rightarrow> string + ip_net list" where
  "hostCIDRs L =
     (case nl_Interfaces L of
        Inl e \<Rightarrow> Inl e
      | Inr ifaces \<Rightarrow>
          Inr (concat (map (\<lambda>addrs. case addrs of
                 Inl _ \<Rightarrow> []
               | Inr as \<Rightarrow> concat (map (\<lambda>a. case a of IPNetAddr n \<Rightarrow> [n] | OtherAddr \<Rightarrow> []) as)) ifaces)))"

fun parse_subnets :: "net_lib \<Rightarrow> string \<Rightarrow> string list \<Rightarrow> go_error + ip_net list" where
  "parse_subnets L s [] = Inr []"
| "parse_subnets L s (p # ps) =
     (let part = net_trim L p in
      if part = '''' then Inl (err_new (''empty entry in subnet list '' @ quoted s))
      else case nl_parse_cidr L part of
        Inl e \<Rightarrow> Inl (err_new (''invalid CIDR '' @ quoted part @ '' in subnet list: '' @ e))
      | Inr n \<Rightarrow> (case parse_subnets L s ps of Inl e \<Rightarrow> Inl e | Inr ns \<Rightarrow> Inr (n # ns)))"

definition ParseSubnetList :: "net_lib \<Rightarrow> string \<Rightarrow> go_error + ip_net list" where
  "ParseSubnetList L s =
     (let s = net_trim L s in
      if s = '''' then Inl (err_new ''empty subnet list'') else parse_subnets L s (split_on (CHR '','') s))"

definition FindIpOnSubnet :: "net_lib \<Rightarrow> string \<Rightarrow> go_error + string" where
  "FindIpOnSubnet L subnets =
     (case ParseSubnetList L subnets of
        Inl e \<Rightarrow> Inl e
      | Inr parsed \<Rightarrow>
          (case hostCIDRs L of
             Inl e \<Rightarrow> Inl (err_new e)
           | Inr cidrs \<Rightarrow>
               (case concat (map (\<lambda>sn. filter (\<lambda>n. IsGlobalUnicast (in_IP n) \<and> net_Contains sn (in_IP n)) cidrs) parsed) of
                  [] \<Rightarrow> Inl (err_new (''no local IP belongs to any of the listed subnets ['' @ subnets @ '']''))
                | n # _ \<Rightarrow> Inr (nl_show_ip L (in_IP n)))))"

definition FindNetworkAddress :: "net_lib \<Rightarrow> string \<Rightarrow> go_error + string" where
  "FindNetworkAddress L addr =
     (let address = net_trim L addr in
      case nl_parse_ip L address of
        None \<Rightarrow> Inl (err_new (''provided address '' @ address @ '' is invalid''))
      | Some monIP \<Rightarrow>
          (case hostCIDRs L of
             Inl e \<Rightarrow> Inl (err_new e)
           | Inr cidrs \<Rightarrow>
               (let nets = filter (\<lambda>n. IsGlobalUnicast (in_IP n)) cidrs in
                case filter (\<lambda>n. in_IP n = monIP) nets of
                  n # _ \<Rightarrow> Inr (nl_show_net L n)
                | [] \<Rightarrow> Inl (err_new (''provided mon-ip ('' @ nl_show_ip L monIP @ '') does not belong to any suitable network: ['' @
                              join_with '' '' (map (nl_show_net L) nets) @ '']'')))))"

definition IsIpOnSubnet :: "net_lib \<Rightarrow> string \<Rightarrow> string \<Rightarrow> bool" where
  "IsIpOnSubnet L address subnets \<longleftrightarrow>
     (case nl_parse_ip L (net_trim L address) of
        None \<Rightarrow> False
      | Some ip \<Rightarrow>
          (case ParseSubnetList L subnets of Inl _ \<Rightarrow> False | Inr parsed \<Rightarrow> list_ex (\<lambda>sn. net_Contains sn ip) parsed))"

definition parsePeerIP :: "net_lib \<Rightarrow> string \<Rightarrow> go_error + ip_addr" where
  "parsePeerIP L p =
     (let peer = net_trim L p in
      case nl_parse_ip L peer of
        Some ip \<Rightarrow> Inr ip
      | None \<Rightarrow>
          (case nl_SplitHostPort L peer of
             Inl e \<Rightarrow> Inl (err_new e)
           | Inr h \<Rightarrow> (case nl_parse_ip L h of None \<Rightarrow> Inl (err_new ''not an IP address'') | Some ip \<Rightarrow> Inr ip)))"

fun parse_peers :: "net_lib \<Rightarrow> string list \<Rightarrow> go_error + ip_addr list" where
  "parse_peers L [] = Inr []"
| "parse_peers L (p # ps) =
     (case parsePeerIP L p of
        Inl e \<Rightarrow> Inl (err_wrap (''invalid peer address '' @ quoted p @ '': '') e '''')
      | Inr ip \<Rightarrow> (case parse_peers L ps of Inl e \<Rightarrow> Inl e | Inr ips \<Rightarrow> Inr (ip # ips)))"

definition FindIpForPeers :: "net_lib \<Rightarrow> string list \<Rightarrow> go_error + string" where
  "FindIpForPeers L peers =
     (if peers = [] then Inl (err_new ''no peer addresses supplied'')
      else case parse_peers L peers of
        Inl e \<Rightarrow> Inl e
      | Inr ips \<Rightarrow>
          (case hostCIDRs L of
             Inl e \<Rightarrow> Inl (err_new e)
           | Inr cidrs \<Rightarrow>
               (case filter (\<lambda>n. IsGlobalUnicast (in_IP n) \<and> list_ex (net_Contains n) ips) cidrs of
                  n # _ \<Rightarrow> Inr (nl_show_ip L (in_IP n))
                | [] \<Rightarrow> Inl (err_new (''no local interface shares a subnet with any of the cluster peers ['' @ join_with '' '' peers @ '']'')))))"

section \<open>Templates\<close>

definition bool_text :: "bool \<Rightarrow> string" where
  "bool_text b = (if b then ''true'' else ''false'')"

text \<open>A line that the template leaves empty when there is no value.\<close>

definition opt_line :: "string \<Rightarrow> string \<Rightarrow> string" where
  "opt_line key v = (if v = '''' then '''' else key @ '' = '' @ v) @ [newline]"

record ceph_conf =
  cc_fsid :: string
  cc_runDir :: string
  cc_monitors :: string
  cc_pubNet :: string
  cc_ipv4 :: bool
  cc_ipv6 :: bool
  cc_client :: client_conf

definition NewCephConfig :: "ceph_conf \<Rightarrow> string" where
  "NewCephConfig c =
     ''# # Generated by MicroCeph, DO NOT EDIT.'' @ [newline] @
     ''[global]'' @ [newline] @
     opt_line ''run dir'' (cc_runDir c) @
     ''fsid = '' @ cc_fsid c @ [newline] @
     ''mon host = '' @ cc_monitors c @ [newline] @
     ''public_network = '' @ cc_pubNet c @ [newline] @
     ''auth allow insecure global id reclaim = false'' @ [newline] @
     ''ms bind ipv4 = '' @ bool_text (cc_ipv4 c) @ [newline] @
     ''ms bind ipv6 = '' @ bool_text (cc_ipv6 c) @ [newline] @
     ''# https://tracker.ceph.com/issues/70390'' @ [newline] @
     ''bluestore_elastic_shared_blobs = false'' @ [newline] @ [newline] @
     ''[client]'' @ [newline] @
     opt_line ''rbd_cache'' (IsCache (cc_client c)) @
     opt_line ''rbd_cache_size'' (CacheSize (cc_client c)) @
     opt_line ''rbd_cache_writethrough_until_flush'' (IsCacheWritethrough (cc_client c)) @
     opt_line ''rbd_cache_max_dirty'' (CacheMaxDirty (cc_client c)) @
     opt_line ''rbd_cache_target_dirty'' (CacheTargetDirty (cc_client c))"

definition NewCephKeyring :: "string \<Rightarrow> string \<Rightarrow> string" where
  "NewCephKeyring name key =
     ''# Generated by MicroCeph, DO NOT EDIT.'' @ [newline] @ ''['' @ name @ '']'' @ [newline] @
     [CHR 0x09] @ ''key = '' @ key @ [newline]"

definition newGaneshaCephConfig :: "string \<Rightarrow> string \<Rightarrow> string" where
  "newGaneshaCephConfig monitors confDir =
     ''# Generated by MicroCeph, DO NOT EDIT.'' @ [newline] @ [newline] @ ''[global]'' @ [newline] @
     ''auth supported = cephx'' @ [newline] @ ''mon host = '' @ monitors @ [newline] @
     ''keyring = '' @ confDir @ ''/keyring'' @ [newline]"

section \<open>Writing a file\<close>

definition filepath_Base :: "string \<Rightarrow> string" where
  "filepath_Base p =
     (if p = [] then ''.''
      else let q = rev (dropWhile (\<lambda>c. c = slash) (rev p)) in
        if q = [] then [slash] else rev (takeWhile (\<lambda>c. c \<noteq> slash) (rev q)))"

definition filepath_IsLocal :: "string \<Rightarrow> bool" where
  "filepath_IsLocal p \<longleftrightarrow>
     p \<noteq> [] \<and> \<not> has_prefix p [slash] \<and> filepath_Clean p \<noteq> ''..'' \<and> \<not> has_prefix (filepath_Clean p) ''../''"

definition filepath_Join :: "string \<Rightarrow> string \<Rightarrow> string" where
  "filepath_Join a b =
     (if a = [] \<and> b = [] then [] else if a = [] then filepath_Clean b else if b = [] then filepath_Clean a
      else filepath_Clean (a @ [slash] @ b))"

definition validateConfigFile :: "string \<Rightarrow> go_error + unit" where
  "validateConfigFile file =
     (if \<not> filepath_IsLocal file \<or> filepath_Base file \<noteq> file
      then Inl (err_new (''invalid config filename '' @ quoted file)) else Inr ())"

definition sys_step :: "string \<Rightarrow> unit cx" where
  "sys_step pre = tx_stmt pre (\<lambda>w. ((), w))"

text \<open>The template is written to a temporary file of its own name, which becomes visible with the
  rename. The file is closed also when writing failed.\<close>

definition write_and_close :: "string \<Rightarrow> unit cx" where
  "write_and_close file st =
     (case sys_step (''Couldn't render '' @ file @ '': '') st of
        (r, st1) \<Rightarrow>
          (case sys_step (''Couldn't close '' @ file @ '': '') st1 of
             (r1, st2) \<Rightarrow> (case r of Inl e \<Rightarrow> Inl e | Inr _ \<Rightarrow> r1, st2)))"

definition WriteConfig :: "string \<Rightarrow> string \<Rightarrow> string \<Rightarrow> unit cx" where
  "WriteConfig dir file content =
     (case validateConfigFile file of
        Inl e \<Rightarrow> tx_fail e
      | Inr _ \<Rightarrow>
          tx_bind (sys_step (''Couldn't write '' @ file @ '': '')) (\<lambda>_.
            tx_bind (sys_step (''Couldn't write '' @ file @ '': '')) (\<lambda>_.
              tx_bind (write_and_close file) (\<lambda>_.
                tx_stmt (''Couldn't rename '' @ file @ '': '')
                  (\<lambda>w. ((), w\<lparr>cw_files := AList.update (filepath_Join dir file) content (cw_files w)\<rparr>))))))"

section \<open>Refresh from the database\<close>

record conf_env =
  cv_net :: net_lib
  cv_client :: client_env
  cv_ConfPath :: string
  cv_RunPath :: string
  cv_Name :: string
  cv_Address :: string
  cv_remotes :: "(string \<times> string) list"
  cv_peers :: "string list"

definition monitor_rows :: "(string \<times> string) list cx" where
  "monitor_rows = Transaction (tx_bind (on_cluster GetServices) (\<lambda>rows. tx_return (filter (\<lambda>r. snd r = ''mon'') rows)))"

definition getMonitorCountFunc :: "nat cx" where
  "getMonitorCountFunc = tx_bind monitor_rows (\<lambda>rows. tx_return (length rows))"

definition getActiveMonitorMembersFunc :: "string list cx" where
  "getActiveMonitorMembersFunc = tx_bind monitor_rows (\<lambda>rows. tx_return (map fst rows))"

definition GetConfigDb :: "(string \<times> string) list cx" where
  "GetConfigDb = tx_bind (Transaction (on_cluster GetConfigItems)) (\<lambda>items. tx_return (AList.updates (map fst items) (map snd items) []))"

definition config_at :: "(string \<times> string) list \<Rightarrow> string \<Rightarrow> string" where
  "config_at m k = (case map_of m k of Some v \<Rightarrow> v | None \<Rightarrow> '''')"

definition insertPubnetRecord :: "string \<Rightarrow> unit cx" where
  "insertPubnetRecord pubNet =
     Transaction (tx_bind (tx_wrap ''failed to record public_network: '' (on_cluster (CreateConfigItem ''public_network'' pubNet)))
       (\<lambda>_. tx_return ()))"

definition of_sum :: "go_error + 'a \<Rightarrow> 'a cx" where
  "of_sum r = (case r of Inl e \<Rightarrow> tx_fail e | Inr v \<Rightarrow> tx_return v)"

definition ensure_pubnet :: "conf_env \<Rightarrow> unit cx" where
  "ensure_pubnet V =
     tx_bind (tx_wrap ''failed to get config from db: '' GetConfigDb) (\<lambda>config.
       case ParseSubnetList (cv_net V) (config_at config ''public_network'') of
         Inr _ \<Rightarrow> tx_return ()
       | Inl _ \<Rightarrow>
           tx_bind (tx_wrap ''failed to locate public network: '' (of_sum (FindNetworkAddress (cv_net V) (cv_Address V))))
             insertPubnetRecord)"

definition backwardCompatPubnet :: "conf_env \<Rightarrow> unit cx" where
  "backwardCompatPubnet V =
     tx_bind (tx_wrap ''failed to check for registered monitors: '' getMonitorCountFunc) (\<lambda>n.
       if n = 0 then tx_return () else ensure_pubnet V)"

text \<open>A monitor's member that the trust store does not know leaves an empty address.\<close>

definition backwardCompatMonitors :: "conf_env \<Rightarrow> string list cx" where
  "backwardCompatMonitors V =
     tx_bind monitor_rows (\<lambda>rows. tx_return (map (\<lambda>r. config_at (cv_remotes V) (fst r)) rows))"

definition isAdoptedMonitorConfigKey :: "string \<Rightarrow> bool" where
  "isAdoptedMonitorConfigKey member \<longleftrightarrow> member \<noteq> '''' \<and> list_all is_digit_byte member"

definition getMonitorsFromConfig :: "conf_env \<Rightarrow> (string \<times> string) list \<Rightarrow> string list \<Rightarrow> string list" where
  "getMonitorsFromConfig V configs active =
     concat (map (\<lambda>key.
         case cut_prefix key ''mon.host.'' of
           None \<Rightarrow> []
         | Some member \<Rightarrow>
             if member = '''' then []
             else if isAdoptedMonitorConfigKey member then [config_at configs key]
             else if member \<in> set active then [config_at configs key] else [])
       (loop_order (ce_sched (cv_client V)) 1 (keys configs)))"

text \<open>A panic of \<^const>\<open>formatIPv6\<close> ends the procedure.\<close>

definition format_monitors :: "conf_env \<Rightarrow> string list \<Rightarrow> string list cx" where
  "format_monitors V addrs =
     (case formatIPv6 (net_text (cv_net V)) addrs of
        None \<Rightarrow> tx_fail (err_new ''panic: slice bounds out of range'')
      | Some as \<Rightarrow> tx_return as)"

definition GetMonitorAddresses :: "conf_env \<Rightarrow> string list cx" where
  "GetMonitorAddresses V =
     tx_bind (tx_wrap ''failed to get config db: '' GetConfigDb) (\<lambda>config.
       tx_bind (tx_wrap ''failed to get active monitor members: '' getActiveMonitorMembersFunc) (\<lambda>active.
         tx_bind (let ms = getMonitorsFromConfig V config active in
                  if ms = [] then tx_wrap ''failed to get monitor addresses: '' (backwardCompatMonitors V) else tx_return ms) (\<lambda>ms.
           if ms = [] then tx_fail (err_new ''no monitor addresses found'') else format_monitors V ms)))"

text \<open>A file rewritten line by line: a missing file and a file without a changed line are left alone.\<close>

definition fix_file :: "string \<Rightarrow> (string \<Rightarrow> string option) \<Rightarrow> bool cx" where
  "fix_file path edit =
     tx_bind (tx_stmt '''' (\<lambda>w. (map_of (cw_files w) path, w))) (\<lambda>data.
       case data of
         None \<Rightarrow> tx_return False
       | Some text \<Rightarrow>
           (case edit text of
              None \<Rightarrow> tx_return False
            | Some text1 \<Rightarrow>
                tx_bind (sys_step (''failed to write '' @ path @ ''.tmp: '')) (\<lambda>_.
                  tx_bind (tx_stmt (''failed to replace '' @ path @ '': '') (\<lambda>w. ((), w\<lparr>cw_files := AList.update path text1 (cw_files w)\<rparr>))) (\<lambda>_.
                    tx_return True))))"

definition refresh_mon_host :: "conf_env \<Rightarrow> string list \<Rightarrow> unit cx" where
  "refresh_mon_host V monitors =
     (if monitors = [] then tx_return ()
      else tx_bind (fix_file (filepath_Join (cv_ConfPath V) ''radosgw.conf'') (updateRadosGWMonHost (net_text (cv_net V)) monitors))
             (\<lambda>_. tx_return ()))"

text \<open>An error that is only logged.\<close>

definition tolerate :: "'a cx \<Rightarrow> unit cx" where
  "tolerate f st = (Inr (), snd (f st))"

definition ceph_conf_of :: "conf_env \<Rightarrow> (string \<times> string) list \<Rightarrow> string list \<Rightarrow> client_conf \<Rightarrow> ceph_conf" where
  "ceph_conf_of V config monitors client =
     (let net = config_at config ''public_network'' in
      \<lparr>cc_fsid = config_at config ''fsid'', cc_runDir = cv_RunPath V, cc_monitors = join_with '','' monitors, cc_pubNet = net,
       cc_ipv4 = (CHR ''.'' \<in> set net), cc_ipv6 = (CHR '':'' \<in> set net), cc_client = client\<rparr>)"

text \<open>The second half of the refresh: the monitors of the gateway's file, the checks, and the two files.\<close>

definition render_files :: "conf_env \<Rightarrow> (string \<times> string) list \<Rightarrow> string list \<Rightarrow> unit cx" where
  "render_files V config monitors =
     tx_bind (tolerate (refresh_mon_host V monitors)) (\<lambda>_.
     tx_bind (tx_wrap (''failed to locate IP on public network '' @ config_at config ''public_network'' @ '': '')
         (of_sum (FindIpOnSubnet (cv_net V) (config_at config ''public_network'')))) (\<lambda>_.
     tx_bind (GetClientConfigForHost (cv_client V) (cv_Name V)) (\<lambda>client.
     tx_bind (tx_wrap ''couldn't render ceph.conf: ''
         (WriteConfig (cv_ConfPath V) ''ceph.conf'' (NewCephConfig (ceph_conf_of V config monitors client)))) (\<lambda>_.
     tx_wrap ''couldn't render ceph.client.admin.keyring: ''
       (WriteConfig (cv_ConfPath V) ''ceph.keyring'' (NewCephKeyring ''client.admin'' (config_at config ''keyring.client.admin'')))))))"

definition UpdateConfig :: "conf_env \<Rightarrow> unit cx" where
  "UpdateConfig V =
     tx_bind (tx_wrap ''failed to ensure backward compat: '' (backwardCompatPubnet V)) (\<lambda>_.
     tx_bind (tx_wrap ''failed to get config db: '' GetConfigDb) (\<lambda>config.
     tx_bind (tx_wrap ''failed to get active monitor members: '' getActiveMonitorMembersFunc) (\<lambda>active.
     tx_bind (let ms = getMonitorsFromConfig V config active in
              if ms = [] then tx_wrap ''failed to get monitor addresses: '' (backwardCompatMonitors V) else tx_return ms) (\<lambda>ms.
     tx_bind (format_monitors V ms) (render_files V config)))))"

text \<open>The same file rendered at bootstrap, without client values, after checks that nothing is missing.\<close>

record ceph_conf_file =
  cf_FsID :: string
  cf_RunDir :: string
  cf_Monitors :: "string list"
  cf_PubNet :: string

definition CephConfFile_Render :: "conf_env \<Rightarrow> ceph_conf_file \<Rightarrow> string \<Rightarrow> unit cx" where
  "CephConfFile_Render V f name =
     (if name = '''' then tx_fail (err_new ''need conf file path to render'')
      else if cf_FsID f = '''' then tx_fail (err_new ''mandatory param fsid is missing'')
      else if cf_RunDir f = '''' then tx_fail (err_new ''mandatory param runDir is missing'')
      else if cf_Monitors f = [] then tx_fail (err_new ''mandatory param monitor hosts are missing'')
      else if cf_PubNet f = '''' then tx_fail (err_new ''mandatory param pubNet is missing'')
      else tx_bind (format_monitors V (cf_Monitors f)) (\<lambda>monitors.
        WriteConfig (cv_ConfPath V) name (NewCephConfig
          \<lparr>cc_fsid = cf_FsID f, cc_runDir = cf_RunDir f, cc_monitors = join_with '','' monitors, cc_pubNet = cf_PubNet f,
           cc_ipv4 = (CHR ''.'' \<in> set (cf_PubNet f)), cc_ipv6 = (CHR '':'' \<in> set (cf_PubNet f)), cc_client = client_conf_zero\<rparr>)))"

definition CephKeyringFile_Render :: "string \<Rightarrow> string \<Rightarrow> string \<Rightarrow> string \<Rightarrow> unit cx" where
  "CephKeyringFile_Render name key confDir confFile =
     (if name = '''' then tx_fail (err_new ''no client name provided to render keyring'')
      else if key = '''' then tx_fail (err_new ''no client key provided to render keyring'')
      else WriteConfig confDir confFile (NewCephKeyring name key))"

section \<open>The refresh loop\<close>

record start_state =
  ss_first :: bool
  ss_old :: "string list"

datatype pause = TenSeconds | OneMinute

definition shouldSkipMonitorRefresh :: "bool \<Rightarrow> string list \<Rightarrow> string list \<Rightarrow> bool" where
  "shouldSkipMonitorRefresh first old monitors \<longleftrightarrow> \<not> first \<and> old = monitors"

definition start_state_zero :: start_state where
  "start_state_zero = \<lparr>ss_first = True, ss_old = []\<rparr>"

text \<open>One pass of the loop of \<^verbatim>\<open>Start\<close>: the state for the next one and how long it sleeps.\<close>

definition start_pass :: "conf_env \<Rightarrow> start_state \<Rightarrow> conf_world db_state \<Rightarrow> (start_state \<times> pause) \<times> conf_world db_state" where
  "start_pass V s st =
     (case sys_step '''' st of
        (Inl _, st1) \<Rightarrow> ((s, TenSeconds), st1)
      | (Inr _, st1) \<Rightarrow>
          (case monitor_rows st1 of
             (Inl _, st2) \<Rightarrow> ((s, TenSeconds), st2)
           | (Inr rows, st2) \<Rightarrow>
               (let monitors = map fst rows in
                if monitors = [] then ((s, TenSeconds), st2)
                else if shouldSkipMonitorRefresh (ss_first s) (ss_old s) monitors then ((s, OneMinute), st2)
                else case UpdateConfig V st2 of
                  (Inl _, st3) \<Rightarrow> ((s, TenSeconds), st3)
                | (Inr _, st3) \<Rightarrow> ((\<lparr>ss_first = False, ss_old = monitors\<rparr>, OneMinute), st3))))"

section \<open>Endpoints for client values\<close>

record client_request =
  cq_Key :: string
  cq_Value :: string
  cq_Host :: string
  cq_Wait :: bool

definition client_request_zero :: client_request where
  "client_request_zero = \<lparr>cq_Key = '''', cq_Value = '''', cq_Host = '''', cq_Wait = False\<rparr>"

definition client_request_field :: "go_lib \<Rightarrow> client_request field_reader" where
  "client_request_field G k v q =
     (if equal_fold G k ''key'' then set_to (\<lambda>s. q\<lparr>cq_Key := s\<rparr>) (read_prim dec_string (cq_Key q) v)
      else if equal_fold G k ''value'' then set_to (\<lambda>s. q\<lparr>cq_Value := s\<rparr>) (read_prim dec_string (cq_Value q) v)
      else if equal_fold G k ''host'' then set_to (\<lambda>s. q\<lparr>cq_Host := s\<rparr>) (read_prim dec_string (cq_Host q) v)
      else if equal_fold G k ''wait'' then set_to (\<lambda>b. q\<lparr>cq_Wait := b\<rparr>) (read_prim dec_bool (cq_Wait q) v)
      else None)"

datatype client_response = ClientEmpty | ClientItems "(string \<times> string \<times> string) list" | ClientFailed
  | ClientBadRequest go_error | ClientInternal go_error

type_synonym handler = "conf_world db_state \<Rightarrow> client_response \<times> conf_world db_state"

definition decode_client :: "conf_env \<Rightarrow> json option \<Rightarrow> (client_request \<Rightarrow> handler) \<Rightarrow> handler" where
  "decode_client V body h st =
     (case unmarshal (read_struct (client_request_field (rt_go (nl_text (cv_net V)))) client_request_zero) body of
        None \<Rightarrow> (ClientInternal (err_new ''request body''), st)
      | Some q \<Rightarrow> h q st)"

definition cmdClientConfigsGet :: "conf_env \<Rightarrow> json option \<Rightarrow> handler" where
  "cmdClientConfigsGet V body =
     decode_client V body (\<lambda>q st.
       case (if cq_Host q = ClientConfigGlobalHostConst then GetAll (cv_client V) else GetAllForHost (cv_client V) (cq_Host q)) st of
         (Inl _, st1) \<Rightarrow> (ClientFailed, st1)
       | (Inr items, st1) \<Rightarrow> (ClientItems (GetClientConfigSlice items), st1))"

text \<open>The answer for a failed refresh is built and dropped, so the request succeeds.\<close>

definition cmdClientConfigsPut :: "conf_env \<Rightarrow> handler" where
  "cmdClientConfigsPut V st =
     (case Transaction (\<lambda>s. case on_cluster (ConfigItemExists ''fsid'') s of
             (Inr True, s1) \<Rightarrow> (Inr (), s1)
           | (_, s1) \<Rightarrow> (Inl (err_new ''client configuration cannot be performed before bootstrapping the cluster''), s1)) st of
        (Inl e, st1) \<Rightarrow> (ClientBadRequest e, st1)
      | (Inr _, st1) \<Rightarrow> (case UpdateConfig V st1 of (_, st2) \<Rightarrow> (ClientEmpty, st2)))"

definition clientConfigsKeyGet :: "conf_env \<Rightarrow> json option \<Rightarrow> handler" where
  "clientConfigsKeyGet V body =
     decode_client V body (\<lambda>q st.
       case (if cq_Host q = ClientConfigGlobalHostConst then GetAllForKey (cv_client V) (cq_Key q)
             else GetAllForKeyAndHost (cv_client V) (cq_Key q) (cq_Host q)) st of
         (Inl e, st1) \<Rightarrow> (ClientInternal e, st1)
       | (Inr items, st1) \<Rightarrow> (ClientItems (GetClientConfigSlice items), st1))"

fun UpdateClientConfs :: "string list \<Rightarrow> unit cx" where
  "UpdateClientConfs [] = tx_return ()"
| "UpdateClientConfs (m # ms) =
     tx_bind (tx_stmt ''failed to update the configuration file: '' (\<lambda>w. ((), w\<lparr>cw_asked := cw_asked w @ [m]\<rparr>)))
       (\<lambda>_. UpdateClientConfs ms)"

definition SendUpdateClientConfRequestToClusterMembers :: "conf_env \<Rightarrow> unit cx" where
  "SendUpdateClientConfRequestToClusterMembers V = tx_bind (sys_step '''') (\<lambda>_. UpdateClientConfs (cv_peers V))"

text \<open>Without waiting the same work is done in the background and its errors are only logged; the model
  runs it at the point where it is started.\<close>

definition clientConfigUpdate :: "conf_env \<Rightarrow> bool \<Rightarrow> unit cx" where
  "clientConfigUpdate V wait =
     (if wait then tx_bind (SendUpdateClientConfRequestToClusterMembers V) (\<lambda>_. UpdateConfig V)
      else tx_bind (tolerate (SendUpdateClientConfRequestToClusterMembers V)) (\<lambda>_. tolerate (UpdateConfig V)))"

definition client_change :: "conf_env \<Rightarrow> unit cx \<Rightarrow> client_request \<Rightarrow> handler" where
  "client_change V change q st =
     (case tx_bind change (\<lambda>_. clientConfigUpdate V (cq_Wait q)) st of
        (Inl e, st1) \<Rightarrow> (ClientInternal e, st1)
      | (Inr _, st1) \<Rightarrow> (ClientEmpty, st1))"

definition clientConfigsKeyPut :: "conf_env \<Rightarrow> json option \<Rightarrow> handler" where
  "clientConfigsKeyPut V body =
     decode_client V body (\<lambda>q. client_change V (AddNew (cq_Key q) (cq_Value q) (cq_Host q)) q)"

definition clientConfigsKeyDelete :: "conf_env \<Rightarrow> json option \<Rightarrow> handler" where
  "clientConfigsKeyDelete V body =
     decode_client V body (\<lambda>q.
       client_change V
         (if cq_Host q = ClientConfigGlobalHostConst then RemoveAllForKey (cq_Key q) else RemoveOneForKeyAndHost (cq_Key q) (cq_Host q)) q)"

end
