(* ===== verification/Conf_Claims.thy ===== *)
theory Conf_Claims
  imports Conf_Files
begin

text \<open>
  What the configuration of a member shows: client values and the effect of the migrations on their
  table, the networks, and the files a refresh writes.
\<close>

section \<open>Migrations\<close>

text \<open>The migration builds the index on the table it drops two statements later.\<close>

lemma migration_drops_index:
  assumes "distinct (map row_slot rows)"
  shows "run_schemas schemaUpdate4 \<lparr>cat_tables = [(''client_config'', rows)], cat_indexes = [(''cc_index'', ''client_config'')]\<rparr> =
    Inr \<lparr>cat_tables = [(''client_config'', rows)], cat_indexes = []\<rparr>"
  using assms by (simp add: schemaUpdate4_def)

lemma migration_starts_indexed:
  "run_schemas schemaUpdate2 \<lparr>cat_tables = [], cat_indexes = []\<rparr> =
    Inr \<lparr>cat_tables = [(''client_config'', [])], cat_indexes = [(''cc_index'', ''client_config'')]\<rparr>"
  by (simp add: schemaUpdate2_def)

definition migrated :: "client_row list \<Rightarrow> nat \<Rightarrow> client_table option" where
  "migrated rows n =
     (case run_schemas schemaUpdate4 \<lparr>cat_tables = [(''client_config'', rows)], cat_indexes = [(''cc_index'', ''client_config'')]\<rparr> of
        Inl _ \<Rightarrow> None | Inr c \<Rightarrow> open_table c n)"

lemma migrated_table: "distinct (map row_slot rows) \<Longrightarrow> migrated rows n = Some \<lparr>ct_rows = rows, ct_seq = n, ct_unique = False\<rparr>"
  by (simp add: migrated_def migration_drops_index open_table_def)

section \<open>Reading rows\<close>

lemma tx_sum_Inr:
  "(case r of Inl e \<Rightarrow> f e | Inr v \<Rightarrow> g v) st = (Inr x, st') \<longleftrightarrow>
     (\<exists>e. r = Inl e \<and> f e st = (Inr x, st')) \<or> (\<exists>v. r = Inr v \<and> g v st = (Inr x, st'))"
  by (cases r) auto

lemma mset_any_order [simp]: "mset (any_order C rows) = mset rows"
  by (simp add: any_order_def)

lemma set_any_order [simp]: "set (any_order C rows) = set rows"
  by (metis mset_any_order set_mset_mset)

lemma read_transaction:
  assumes "Transaction (tx_bind (tx_stmt p (\<lambda>w. ((), w))) (\<lambda>_. tx_stmt q (\<lambda>w. (F w, w)))) st = (Inr v, st')"
  shows "v = F (dbs st) \<and> dbs st' = dbs st"
  using assms by (elim Transaction_Inr) (auto simp: tx_Inr dest!: tx_stmt_Inr)

lemma globals_read:
  assumes "GetGlobalConfigs C '''' st = (Inr g, st')"
  shows "g = map global_item (sort_key cr_Key (filter (\<lambda>r. cr_Member r = None) (any_order C (ct_rows (cw_client (dbs st)))))) \<and> dbs st' = dbs st"
  using assms read_transaction by (fastforce simp: GetGlobalConfigs_def getAllGlobalConfigs_def)

lemma hosts_read:
  assumes "GetAllForFilter C [\<lparr>cf_Host = Some host, cf_Key = None\<rparr>] st = (Inr hs, st')"
  shows "hs = map item_of (filter (\<lambda>r. cr_Member r = Some host) (member_rows C (dbs st))) \<and> dbs st' = dbs st"
  using assms read_transaction by (fastforce simp: GetAllForFilter_def GetClientConfigItems_def filter_matches_def)

lemma host_rows:
  assumes "host \<in> set (db_members (cw_db w))" "distinct (db_members (cw_db w))"
  shows "filter (\<lambda>r. cr_Member r = Some host) (member_rows C w) =
    sort_key cr_Key (filter (\<lambda>r. cr_Member r = Some host) (any_order C (ct_rows (cw_client w))))"
proof -
  let ?of = "\<lambda>m. sort_key cr_Key (filter (\<lambda>r. cr_Member r = Some m) (any_order C (ct_rows (cw_client w))))"
  have one: "filter (\<lambda>r. cr_Member r = Some host) (?of m) = (if m = host then ?of m else [])" for m
    by (auto simp: filter_id_conv filter_empty_conv)
  have "concat (map (\<lambda>m. if m = host then ?of m else []) ms) = ?of host" if "host \<in> set ms" "distinct ms" for ms
    using that by (induction ms) (auto simp: concat_eq_Nil_conv)
  with assms show ?thesis by (simp add: member_rows_def filter_concat one o_def)
qed

section \<open>Values of a host\<close>

text \<open>The value of a key at a host: its own row, or else the one of the cluster.\<close>

definition slot_value :: "client_row list \<Rightarrow> string option \<times> string \<Rightarrow> string option" where
  "slot_value rows = map_of (map (\<lambda>r. (row_slot r, cr_Value r)) rows)"

definition client_value :: "client_row list \<Rightarrow> string \<Rightarrow> string \<Rightarrow> string" where
  "client_value rows host key =
     (case slot_value rows (Some host, key) of
        Some v \<Rightarrow> v
      | None \<Rightarrow> (case slot_value rows (None, key) of Some v \<Rightarrow> v | None \<Rightarrow> ''''))"

lemma into_map_updates: "into_map xs m = AList.updates (map ci_Key xs) xs m"
  by (induction xs m rule: into_map.induct) simp_all

lemma into_map_keys: "distinct (keys m) \<Longrightarrow> distinct (keys (into_map xs m))"
  by (simp add: into_map_updates keys_def distinct_updates)

lemma into_map_of:
  assumes "distinct (map ci_Key xs)"
  shows "map_of (into_map xs m) k = (case map_of (map (\<lambda>i. (ci_Key i, i)) xs) k of Some i \<Rightarrow> Some i | None \<Rightarrow> map_of m k)"
  using assms
proof (induction xs arbitrary: m)
  case (Cons i xs)
  have "map_of (map (\<lambda>i. (ci_Key i, i)) xs) (ci_Key i) = None" using Cons.prems by (auto simp: map_of_eq_None_iff)
  with Cons show ?case by (auto simp: update_conv' split: option.split)
qed simp

lemma map_option_map_of: "map_option g (map_of (map (\<lambda>r. (key r, f r)) rs) k) = map_of (map (\<lambda>r. (key r, g (f r))) rs) k"
  by (induction rs) auto

lemma items_of:
  assumes "distinct (map row_slot rows)" "\<And>r. ci_Key (f r) = cr_Key r" "\<And>r. ci_Value (f r) = cr_Value r"
  shows "distinct (map ci_Key (map f (sort_key cr_Key (filter (\<lambda>r. cr_Member r = m) (any_order C rows))))) \<and>
    map_option ci_Value (map_of (map (\<lambda>i. (ci_Key i, i)) (map f (sort_key cr_Key (filter (\<lambda>r. cr_Member r = m) (any_order C rows))))) k) =
      slot_value rows (m, k)"
proof -
  let ?rs = "sort_key cr_Key (filter (\<lambda>r. cr_Member r = m) (any_order C rows))"
  have inj: "inj_on row_slot (set rows)" "distinct rows" using assms(1) by (simp_all add: distinct_map)
  have rs: "set ?rs = {r \<in> set rows. cr_Member r = m}" "distinct ?rs"
    using inj(2) by (auto simp: mset_eq_imp_distinct_iff [OF mset_any_order])
  then have keys: "distinct (map cr_Key ?rs)" using inj(1) by (auto simp: distinct_map inj_on_def)
  moreover have "map_of (map (\<lambda>r. (cr_Key r, cr_Value r)) ?rs) k = slot_value rows (m, k)"
  proof (cases "slot_value rows (m, k)")
    case None
    then have "\<forall>r \<in> set rows. row_slot r \<noteq> (m, k)" by (auto simp: slot_value_def map_of_eq_None_iff image_image)
    with rs(1) None show ?thesis by (auto simp: map_of_eq_None_iff)
  next
    case (Some v)
    then have "((m, k), v) \<in> set (map (\<lambda>r. (row_slot r, cr_Value r)) rows)" unfolding slot_value_def by (rule map_of_SomeD)
    then obtain r where "r \<in> set rows" "row_slot r = (m, k)" "cr_Value r = v" by auto
    with rs(1) have "(k, v) \<in> set (map (\<lambda>r. (cr_Key r, cr_Value r)) ?rs)" by force
    moreover have "distinct (map fst (map (\<lambda>r. (cr_Key r, cr_Value r)) ?rs))" using keys by (simp add: o_def)
    ultimately show ?thesis using Some by (simp only: map_of_is_SomeI)
  qed
  ultimately show ?thesis using assms(2,3) by (simp add: o_def map_option_map_of)
qed

lemma squashed_of:
  assumes "distinct (map ci_Key gs)" "distinct (map ci_Key hs)"
  shows "distinct (map ci_Key (squashClientConfigs C gs hs)) \<and>
    map_of (map (\<lambda>i. (ci_Key i, ci_Value i)) (squashClientConfigs C gs hs)) k =
      (case map_option ci_Value (map_of (map (\<lambda>i. (ci_Key i, i)) hs) k) of
         Some v \<Rightarrow> Some v | None \<Rightarrow> map_option ci_Value (map_of (map (\<lambda>i. (ci_Key i, i)) gs) k))"
proof -
  let ?m = "into_map hs (into_map gs [])" and ?ks = "\<lambda>m. loop_order (ce_sched C) 0 (keys m)"
  have m: "map_of ?m j = (case map_of (map (\<lambda>i. (ci_Key i, i)) hs) j of Some i \<Rightarrow> Some i | None \<Rightarrow> map_of (map (\<lambda>i. (ci_Key i, i)) gs) j)" for j
    using assms by (simp add: into_map_of split: option.split)
  then have key: "map_of ?m j = Some i \<Longrightarrow> ci_Key i = j" for j i by (auto dest!: map_of_SomeD split: option.splits)
  have ks: "\<exists>i. map_of ?m j = Some i" if "j \<in> set (keys ?m)" for j using that by (metis map_of_keys not_Some_eq)
  have named: "ci_Key (the (map_of ?m j)) = j" if "j \<in> set (?ks ?m)" for j using that ks key by fastforce
  then have keys: "map ci_Key (squashClientConfigs C gs hs) = ?ks ?m"
    by (simp add: squashClientConfigs_def Let_def o_def) (rule map_idI, simp)
  have named_map: "map (\<lambda>j. (ci_Key (the (map_of ?m j)), ci_Value (the (map_of ?m j)))) (?ks ?m) = map (\<lambda>j. (j, ci_Value (the (map_of ?m j)))) (?ks ?m)"
    using named by simp
  have "map_of (map (\<lambda>j. (ci_Key (the (map_of ?m j)), ci_Value (the (map_of ?m j)))) (?ks ?m)) k = map_option ci_Value (map_of ?m k)"
    unfolding named_map using ks [of k] map_of_keys [of ?m k] by (auto simp: map_of_map_restrict restrict_map_def)
  then have "map_of (map (\<lambda>i. (ci_Key i, ci_Value i)) (squashClientConfigs C gs hs)) k = map_option ci_Value (map_of ?m k)"
    by (simp add: squashClientConfigs_def Let_def o_def)
  with keys m show ?thesis by (simp add: into_map_keys split: option.split)
qed

text \<open>The fields of the result and the keys they show.\<close>

definition client_fields :: "(string \<times> (client_conf \<Rightarrow> string)) list" where
  "client_fields =
     [(''rbd_cache'', IsCache), (''rbd_cache_size'', CacheSize), (''rbd_cache_writethrough_until_flush'', IsCacheWritethrough),
      (''rbd_cache_max_dirty'', CacheMaxDirty), (''rbd_cache_target_dirty'', CacheTargetDirty)]"

lemma set_field:
  assumes "setFieldValue c (field_of_key key) v = Inr c1" "(k, get) \<in> set client_fields"
  shows "get c1 = (if k = key then v else get c)"
  using assms
  by (auto simp: setFieldValue_def field_of_key_def GetClientConfigSet_def client_fields_def split: if_splits option.splits)

lemma populate_fields:
  assumes "populate xs c = Inr c1" "(k, get) \<in> set client_fields" "distinct (map ci_Key xs)"
  shows "get c1 = (case map_of (map (\<lambda>i. (ci_Key i, ci_Value i)) xs) k of Some v \<Rightarrow> v | None \<Rightarrow> get c)"
  using assms
proof (induction xs arbitrary: c)
  case (Cons i xs)
  then obtain c2 where c2: "setFieldValue c (field_of_key (ci_Key i)) (ci_Value i) = Inr c2" "populate xs c2 = Inr c1"
    by (auto split: sum.splits)
  have "map_of (map (\<lambda>i. (ci_Key i, ci_Value i)) xs) (ci_Key i) = None" using Cons.prems(3) by (auto simp: map_of_eq_None_iff)
  with Cons.IH [OF c2(2)] Cons.prems(2,3) set_field [OF c2(1) Cons.prems(2)] show ?case by (auto split: option.splits)
qed simp

lemma client_config_read:
  assumes "GetClientConfigForHost C host st = (Inr c, st')" "distinct (map row_slot (ct_rows (cw_client (dbs st))))"
    and "host \<in> set (db_members (cw_db (dbs st)))" "distinct (db_members (cw_db (dbs st)))" "(k, get) \<in> set client_fields"
  shows "get c = client_value (ct_rows (cw_client (dbs st))) host k \<and> dbs st' = dbs st"
proof -
  let ?rows = "ct_rows (cw_client (dbs st))"
  from assms(1) obtain gs st1 hs where
    "GetGlobalConfigs C '''' st = (Inr gs, st1)" "GetAllForFilter C [\<lparr>cf_Host = Some host, cf_Key = None\<rparr>] st1 = (Inr hs, st')"
    and pop: "populate (squashClientConfigs C gs hs) client_conf_zero = Inr c"
    by (auto simp: GetClientConfigForHost_def GetAllForHost_def tx_Inr tx_sum_Inr)
  then have gs: "gs = map global_item (sort_key cr_Key (filter (\<lambda>r. cr_Member r = None) (any_order C ?rows)))"
    and hs: "hs = map item_of (sort_key cr_Key (filter (\<lambda>r. cr_Member r = Some host) (any_order C ?rows)))" and dbs: "dbs st' = dbs st"
    using host_rows [OF assms(3,4)] by (auto dest!: globals_read hosts_read)
  have "distinct (map ci_Key gs) \<and> map_option ci_Value (map_of (map (\<lambda>i. (ci_Key i, i)) gs) k) = slot_value ?rows (None, k)" unfolding gs
    by (rule items_of [OF assms(2)]) (simp_all add: global_item_def item_of_def)
  moreover have "distinct (map ci_Key hs) \<and> map_option ci_Value (map_of (map (\<lambda>i. (ci_Key i, i)) hs) k) = slot_value ?rows (Some host, k)" unfolding hs
    by (rule items_of [OF assms(2)]) (simp_all add: item_of_def)
  moreover have "get client_conf_zero = ''''" using assms(5) by (auto simp: client_fields_def client_conf_zero_def)
  ultimately show ?thesis using populate_fields [OF pop assms(5)] squashed_of [of gs hs C k] dbs
    by (auto simp: client_value_def split: option.splits)
qed

section \<open>Setting and resetting values\<close>

definition target_slot :: "conf_world \<Rightarrow> string \<Rightarrow> string \<Rightarrow> string option \<times> string" where
  "target_slot w host key = (if host = ClientConfigGlobalHostConst then None else member_id w host, key)"

lemma AddNew_rows:
  assumes "AddNew k v host st = (Inr u, st')"
  shows "dbs st' = (dbs st)\<lparr>cw_client := replace_row (fst (target_slot (dbs st) host k)) k v (cw_client (dbs st))\<rparr>"
  using assms unfolding AddNew_def
  by (elim Transaction_Inr) (auto simp: tx_Inr createOrUpdateClientConfigItem_def target_slot_def dest!: tx_stmt_Inr)

lemma replaced_free:
  assumes "(m, k) \<notin> row_slot ` set (ct_rows t)"
  shows "ct_rows (replace_row m k v t) = ct_rows t @ [\<lparr>cr_ID = Suc (ct_seq t), cr_Member = m, cr_Key = k, cr_Value = v\<rparr>]"
proof -
  have "filter (\<lambda>r. row_slot r \<noteq> (m, k)) (ct_rows t) = ct_rows t" using assms by (auto simp: filter_id_conv)
  then show ?thesis by (simp add: replace_row_def new_row_def)
qed

lemma slot_value_snoc:
  "slot_value (rows @ [r]) s = (case slot_value rows s of Some v \<Rightarrow> Some v | None \<Rightarrow> if s = row_slot r then Some (cr_Value r) else None)"
  by (auto simp: slot_value_def map_add_def split: option.split)

lemma slot_None: "slot_value rows s = None \<longleftrightarrow> s \<notin> row_slot ` set rows"
  by (auto simp: slot_value_def map_of_eq_None_iff image_image)



section \<open>What a refresh reads\<close>

lemma on_cluster_read:
  assumes "on_cluster (tx_stmt p (\<lambda>d. (F d, d))) st = (Inr v, st')"
  shows "v = F (cw_db (dbs st)) \<and> dbs st' = dbs st"
proof -
  from assms obtain t where t: "tx_stmt p (\<lambda>d. (F d, d)) \<lparr>dbs = cw_db (dbs st), faults = faults st\<rparr> = (Inr v, t)"
      "st' = \<lparr>dbs = (dbs st)\<lparr>cw_db := dbs t\<rparr>, faults = faults t\<rparr>"
    by (auto simp: on_cluster_def split: prod.splits)
  from tx_stmt_Inr [OF t(1)] have "v = F (cw_db (dbs st))" "dbs t = cw_db (dbs st)" by auto
  with t(2) show ?thesis by simp
qed

lemma monitor_rows_read:
  assumes "monitor_rows st = (Inr rows, st')"
  shows "rows = filter (\<lambda>r. snd r = ''mon'') (db_services (cw_db (dbs st))) \<and> dbs st' = dbs st"
  using assms unfolding monitor_rows_def GetServices_def
  by (elim Transaction_Inr) (auto simp: tx_Inr dest!: on_cluster_read)

lemma updates_nil:
  assumes "distinct (map fst xs)"
  shows "AList.updates (map fst xs) (map snd xs) [] = xs"
proof -
  have update: "k \<notin> fst ` set al \<Longrightarrow> AList.update k v al = al @ [(k, v)]" for k and v :: 'b and al by (induction al) auto
  have "AList.updates (map fst xs) (map snd xs) ys = ys @ xs" if "distinct (map fst (ys @ xs))" for ys using that
    by (induction xs arbitrary: ys) (auto simp: update)
  with assms show ?thesis by simp
qed

lemma config_read:
  assumes "GetConfigDb st = (Inr m, st')" "distinct (map fst (db_config (cw_db (dbs st))))"
  shows "m = sort_key fst (db_config (cw_db (dbs st))) \<and> dbs st' = dbs st"
proof -
  let ?c = "db_config (cw_db (dbs st))"
  have "distinct (map fst (sort_key fst ?c))" using assms(2) by (metis mset_map mset_sort mset_eq_imp_distinct_iff)
  moreover from assms(1) have "m = AList.updates (map fst (sort_key fst ?c)) (map snd (sort_key fst ?c)) [] \<and> dbs st' = dbs st"
    unfolding GetConfigDb_def GetConfigItems_def
    by (auto simp: tx_Inr elim!: Transaction_Inr dest!: on_cluster_read)
  ultimately show ?thesis by (simp add: updates_nil)
qed

text \<open>The addresses a refresh should list: those recorded for members with a monitor and those adopted from
  another cluster; without any, the addresses by which the cluster knows the members with a monitor.\<close>

definition monitor_hosts :: "cluster_db \<Rightarrow> string list" where
  "monitor_hosts d =
     map snd (filter (\<lambda>(k, v). case cut_prefix k ''mon.host.'' of
       None \<Rightarrow> False | Some m \<Rightarrow> m \<noteq> '''' \<and> (list_all is_digit_byte m \<or> (m, ''mon'') \<in> set (db_services d))) (db_config d))"

definition monitors_listed :: "conf_env \<Rightarrow> cluster_db \<Rightarrow> string list \<Rightarrow> bool" where
  "monitors_listed V d ms \<longleftrightarrow>
     (if monitor_hosts d = [] then ms = map (\<lambda>r. config_at (cv_remotes V) (fst r)) (filter (\<lambda>r. snd r = ''mon'') (db_services d))
      else mset ms = mset (monitor_hosts d))"

lemma concat_perm: "mset xs = mset ys \<Longrightarrow> mset (concat (map f xs)) = mset (concat (map f ys))"
  by (metis mset_concat mset_map sum_mset_sum_list map_map)

lemma config_hosts:
  assumes "distinct (map fst (db_config d))"
  shows "mset (getMonitorsFromConfig V (sort_key fst (db_config d)) (map fst (filter (\<lambda>r. snd r = ''mon'') (db_services d)))) = mset (monitor_hosts d)"
proof -
  let ?c = "sort_key fst (db_config d)"
  let ?f = "\<lambda>key. case cut_prefix key ''mon.host.'' of
      None \<Rightarrow> []
    | Some member \<Rightarrow> if member = '''' then [] else if isAdoptedMonitorConfigKey member then [config_at ?c key]
        else if member \<in> set (map fst (filter (\<lambda>r. snd r = ''mon'') (db_services d))) then [config_at ?c key] else []"
  have at: "config_at ?c k = v" if "(k, v) \<in> set (db_config d)" for k v
    using that assms map_of_sort_key [of "db_config d"] by (simp add: config_at_def keys_def)
  have each: "?f k = (if (case cut_prefix k ''mon.host.'' of None \<Rightarrow> False | Some m \<Rightarrow> m \<noteq> '''' \<and> (list_all is_digit_byte m \<or> (m, ''mon'') \<in> set (db_services d))) then [v] else [])"
    if "(k, v) \<in> set (db_config d)" for k v
  proof -
    have "m \<in> set (map fst (filter (\<lambda>r. snd r = ''mon'') (db_services d))) \<longleftrightarrow> (m, ''mon'') \<in> set (db_services d)" for m by force
    with at [OF that] show ?thesis by (simp add: isAdoptedMonitorConfigKey_def split: option.split)
  qed
  have "mset (getMonitorsFromConfig V ?c (map fst (filter (\<lambda>r. snd r = ''mon'') (db_services d)))) = mset (concat (map ?f (map fst (db_config d))))"
    unfolding getMonitorsFromConfig_def by (rule concat_perm) (simp add: keys_def)
  also have "concat (map ?f (map fst (db_config d))) = monitor_hosts d"
  proof -
    have "concat (map ?f (map fst xs)) = map snd (filter (\<lambda>(k, v). case cut_prefix k ''mon.host.'' of
       None \<Rightarrow> False | Some m \<Rightarrow> m \<noteq> '''' \<and> (list_all is_digit_byte m \<or> (m, ''mon'') \<in> set (db_services d))) xs)"
      if "set xs \<subseteq> set (db_config d)" for xs using that
    proof (induction xs)
      case (Cons x xs)
      obtain k v where x: "x = (k, v)" by (rule prod.exhaust)
      with Cons.prems have "(k, v) \<in> set (db_config d)" by simp
      from each [OF this] Cons x show ?case by simp
    qed simp
    then show ?thesis unfolding monitor_hosts_def by simp
  qed
  finally show ?thesis .
qed

section \<open>What a refresh writes\<close>

abbreviation ceph_conf_path :: "conf_env \<Rightarrow> string" where
  "ceph_conf_path V \<equiv> filepath_Join (cv_ConfPath V) ''ceph.conf''"

abbreviation keyring_path :: "conf_env \<Rightarrow> string" where
  "keyring_path V \<equiv> filepath_Join (cv_ConfPath V) ''ceph.keyring''"

abbreviation radosgw_path :: "conf_env \<Rightarrow> string" where
  "radosgw_path V \<equiv> filepath_Join (cv_ConfPath V) ''radosgw.conf''"

text \<open>Only the three files change, and the main one is at every moment the old one or a complete new one.\<close>

definition files_sound :: "conf_env \<Rightarrow> (string \<times> string) list \<Rightarrow> conf_world \<Rightarrow> bool" where
  "files_sound V old w \<longleftrightarrow>
     (\<forall>p. p \<noteq> ceph_conf_path V \<and> p \<noteq> keyring_path V \<and> p \<noteq> radosgw_path V \<longrightarrow> map_of (cw_files w) p = map_of old p) \<and>
     (map_of (cw_files w) (ceph_conf_path V) = map_of old (ceph_conf_path V) \<or>
      (\<exists>c. map_of (cw_files w) (ceph_conf_path V) = Some (NewCephConfig c)))"

lemma inv_on_cluster:
  assumes "\<And>w d. I (w\<lparr>cw_db := d\<rparr>) = I w"
  shows "tx_inv I (on_cluster f)"
  using assms by (auto simp: tx_inv_def on_cluster_def split: prod.splits)

lemma inv_tolerate: "tx_inv I f \<Longrightarrow> tx_inv I (tolerate f)"
  by (simp add: tx_inv_def tolerate_def)

lemma inv_of_sum: "tx_inv I (of_sum r)"
  by (auto simp: of_sum_def tx_inv_return split: sum.split)

lemma inv_sys_step: "tx_inv I (sys_step p)"
  unfolding sys_step_def by (rule tx_inv_stmt) simp

lemma inv_write_and_close: "tx_inv I (write_and_close f)"
  unfolding tx_inv_def
proof (intro allI impI)
  fix st :: "conf_world db_state" assume I: "I (dbs st)"
  obtain r1 st1 where 1: "sys_step (''Couldn't render '' @ f @ '': '') st = (r1, st1)" by (rule prod.exhaust)
  obtain r2 st2 where 2: "sys_step (''Couldn't close '' @ f @ '': '') st1 = (r2, st2)" by (rule prod.exhaust)
  from tx_invD [OF inv_sys_step 2] tx_invD [OF inv_sys_step 1] I have "I (dbs st2)" by blast
  with 1 2 show "I (dbs (snd (write_and_close f st)))" by (simp add: write_and_close_def)
qed

lemma inv_sum: "(\<And>e. tx_inv I (f e)) \<Longrightarrow> (\<And>v. tx_inv I (g v)) \<Longrightarrow> tx_inv I (case r of Inl e \<Rightarrow> f e | Inr v \<Rightarrow> g v)"
  by (cases r) auto

lemma inv_option: "tx_inv I f \<Longrightarrow> (\<And>v. tx_inv I (g v)) \<Longrightarrow> tx_inv I (case r of None \<Rightarrow> f | Some v \<Rightarrow> g v)"
  by (cases r) auto

lemmas inv_rules = tx_inv_return tx_inv_bind tx_inv_wrap tx_inv_opaque tx_inv_Transaction tx_inv_if
  inv_tolerate inv_of_sum inv_sys_step inv_write_and_close inv_sum inv_option

lemma inv_WriteConfig:
  assumes "\<And>w. I w \<Longrightarrow> I (w\<lparr>cw_files := AList.update (filepath_Join dir file) content (cw_files w)\<rparr>)"
  shows "tx_inv I (WriteConfig dir file content)"
  unfolding WriteConfig_def using assms by (intro inv_rules tx_inv_stmt) auto

lemma inv_client:
  "tx_inv I (GetClientConfigForHost C host)"
  unfolding GetClientConfigForHost_def GetAllForHost_def GetGlobalConfigs_def GetAllForFilter_def GetClientConfigItems_def
    getAllGlobalConfigs_def getOneGlobalConfigByKey_def
  by (intro inv_rules tx_inv_stmt) simp_all

lemma inv_monitors:
  assumes "\<And>w d. I (w\<lparr>cw_db := d\<rparr>) = I w"
  shows "tx_inv I monitor_rows" "tx_inv I getActiveMonitorMembersFunc" "tx_inv I GetConfigDb" "tx_inv I (backwardCompatMonitors V)"
    "tx_inv I (backwardCompatPubnet V)"
proof -
  show rows: "tx_inv I monitor_rows" unfolding monitor_rows_def by (intro inv_rules inv_on_cluster assms)
  show "tx_inv I getActiveMonitorMembersFunc" "tx_inv I (backwardCompatMonitors V)"
    unfolding getActiveMonitorMembersFunc_def backwardCompatMonitors_def by (intro inv_rules rows)+
  show conf: "tx_inv I GetConfigDb" unfolding GetConfigDb_def by (intro inv_rules inv_on_cluster assms)
  show "tx_inv I (backwardCompatPubnet V)"
    unfolding backwardCompatPubnet_def ensure_pubnet_def getMonitorCountFunc_def insertPubnetRecord_def
    by (intro inv_rules rows conf inv_on_cluster assms)
qed

lemma update_other: "p \<noteq> q \<Longrightarrow> map_of (AList.update q v m) p = map_of m p"
  by (simp add: update_conv')

lemma update_same: "map_of (AList.update p v m) p = Some v"
  by (simp add: update_conv')

lemma clean_last:
  assumes "p \<noteq> []" "p \<noteq> ''.''" "p \<noteq> ''..''"
  shows "clean_parts r acc (ps @ [p]) = clean_parts r acc ps @ [p]"
  using assms by (induction r acc ps rule: clean_parts.induct) (auto split: list.split)

lemma join_suffix: "\<exists>pre. join_with sep (xs @ [p]) = pre @ p"
proof (induction xs)
  case (Cons x xs)
  obtain y ys where "xs @ [p] = y # ys" by (cases "xs @ [p]") auto
  with Cons show ?case by auto
qed simp

text \<open>A path ends with its file name, so the three paths differ.\<close>

lemma Clean_suffix:
  assumes "split_on slash s = ps @ [f]" "f \<noteq> []" "f \<noteq> ''.''" "f \<noteq> ''..''"
  shows "\<exists>pre. filepath_Clean s = pre @ f"
proof -
  obtain pre where "join_with [slash] (clean_parts (has_prefix s [slash]) [] ps @ [f]) = pre @ f" using join_suffix by blast
  with assms show ?thesis by (auto simp: filepath_Clean_def Let_def clean_last)
qed

lemma Join_suffix:
  assumes "f \<noteq> []" "f \<noteq> ''.''" "f \<noteq> ''..''" "slash \<notin> set f"
  obtains pre where "filepath_Join d f = pre @ f"
proof -
  have "split_on slash f = [] @ [f]" "split_on slash (d @ [slash] @ f) = split_on slash d @ [f]"
    using assms(4) by (simp_all add: split_on_clean split_on_append)
  from Clean_suffix [OF this(1) assms(1-3)] Clean_suffix [OF this(2) assms(1-3)] assms(1)
  have "\<exists>pre. filepath_Join d f = pre @ f" by (simp add: filepath_Join_def)
  with that show thesis by blast
qed

lemma conf_paths: "ceph_conf_path V \<noteq> keyring_path V" "radosgw_path V \<noteq> ceph_conf_path V"
proof -
  obtain a b c where "ceph_conf_path V = a @ ''ceph.conf''" "keyring_path V = b @ ''ceph.keyring''" "radosgw_path V = c @ ''radosgw.conf''"
    by (rule Join_suffix [of "''ceph.conf''" "cv_ConfPath V"], simp_all, rule Join_suffix [of "''ceph.keyring''" "cv_ConfPath V"], simp_all,
        rule Join_suffix [of "''radosgw.conf''" "cv_ConfPath V"], simp_all)
  then have "rev (ceph_conf_path V) \<noteq> rev (keyring_path V)" "rev (radosgw_path V) \<noteq> rev (ceph_conf_path V)" by simp_all
  then show "ceph_conf_path V \<noteq> keyring_path V" "radosgw_path V \<noteq> ceph_conf_path V" by auto
qed

lemma write_and_close_Inr: "write_and_close f st = (Inr u, st') \<Longrightarrow> dbs st' = dbs st"
  by (auto simp: write_and_close_def sys_step_def dest!: tx_stmt_Inr split: prod.splits sum.splits)

lemma WriteConfig_Inr:
  assumes "WriteConfig dir file content st = (Inr u, st')"
  shows "dbs st' = (dbs st)\<lparr>cw_files := AList.update (filepath_Join dir file) content (cw_files (dbs st))\<rparr>"
  using assms by (auto simp: WriteConfig_def sys_step_def tx_Inr tx_sum_Inr dest!: tx_stmt_Inr write_and_close_Inr)

lemma insert_pubnet_Inr:
  assumes "insertPubnetRecord net st = (Inr u, st')"
  shows "map_of (db_config (cw_db (dbs st))) ''public_network'' = None \<and>
    dbs st' = (dbs st)\<lparr>cw_db := (cw_db (dbs st))\<lparr>db_config := db_config (cw_db (dbs st)) @ [(''public_network'', net)]\<rparr>\<rparr>"
proof -
  let ?d = "cw_db (dbs st)"
  from assms obtain s1 s2 x where "on_cluster (CreateConfigItem ''public_network'' net) s1 = (Inr x, s2)" "dbs s1 = dbs st" "dbs s2 = dbs st'"
    unfolding insertPubnetRecord_def by (auto simp: tx_Inr elim!: Transaction_Inr)
  then obtain t where t: "CreateConfigItem ''public_network'' net \<lparr>dbs = ?d, faults = faults s1\<rparr> = (Inr x, t)" "dbs st' = (dbs st)\<lparr>cw_db := dbs t\<rparr>"
    by (auto simp: on_cluster_def split: prod.splits)
  from t(1) have "dbs t = ?d\<lparr>db_config := db_config ?d @ [(''public_network'', net)]\<rparr>" "map_of (db_config ?d) ''public_network'' = None"
    by (auto simp: CreateConfigItem_def ConfigItemExists_def tx_Inr split: if_splits dest!: tx_stmt_Inr)
  with t(2) show ?thesis by simp
qed

lemma pubnet_cases:
  assumes "backwardCompatPubnet V st = (Inr u, st')" "distinct (map fst (db_config (cw_db (dbs st))))"
  obtains "dbs st' = dbs st" "filter (\<lambda>r. snd r = ''mon'') (db_services (cw_db (dbs st))) = []"
    | nets where "dbs st' = dbs st" "ParseSubnetList (cv_net V) (config_at (db_config (cw_db (dbs st))) ''public_network'') = Inr nets"
    | s addr where "insertPubnetRecord addr s = (Inr u, st')" "dbs s = dbs st"
proof -
  from assms(1) obtain n s1 where n: "getMonitorCountFunc st = (Inr n, s1)" "(if n = 0 then tx_return () else ensure_pubnet V) s1 = (Inr u, st')"
    unfolding backwardCompatPubnet_def by (auto simp: tx_Inr)
  from n(1) have s1: "dbs s1 = dbs st" "n = length (filter (\<lambda>r. snd r = ''mon'') (db_services (cw_db (dbs st))))"
    unfolding getMonitorCountFunc_def by (auto simp: tx_Inr dest!: monitor_rows_read)
  show thesis
  proof (cases "n = 0")
    case True
    with n(2) s1 that(1) show thesis by (auto simp: tx_Inr)
  next
    case False
    with n(2) obtain config s2 where c: "GetConfigDb s1 = (Inr config, s2)"
        "(\<exists>nets. ParseSubnetList (cv_net V) (config_at config ''public_network'') = Inr nets \<and> st' = s2) \<or>
         (\<exists>addr s3. of_sum (FindNetworkAddress (cv_net V) (cv_Address V)) s2 = (Inr addr, s3) \<and> insertPubnetRecord addr s3 = (Inr u, st'))"
      unfolding ensure_pubnet_def by (auto simp: tx_Inr tx_sum_Inr)
    from config_read [OF c(1)] s1 assms(2) map_of_sort_key [of "db_config (cw_db (dbs st))"]
    have "dbs s2 = dbs st" "config_at config ''public_network'' = config_at (db_config (cw_db (dbs st))) ''public_network''"
      by (simp_all add: config_at_def keys_def)
    with c(2) that(2,3) show thesis by (auto simp: of_sum_def tx_Inr split: sum.splits)
  qed
qed

lemma pubnet_Inr:
  assumes "backwardCompatPubnet V st = (Inr u, st')" "distinct (map fst (db_config (cw_db (dbs st))))"
  shows "\<exists>c. dbs st' = (dbs st)\<lparr>cw_db := (cw_db (dbs st))\<lparr>db_config := c\<rparr>\<rparr> \<and> distinct (map fst c)"
proof -
  have same: "\<exists>c. dbs st = (dbs st)\<lparr>cw_db := (cw_db (dbs st))\<lparr>db_config := c\<rparr>\<rparr> \<and> distinct (map fst c)"
    using assms(2) by (intro exI [of _ "db_config (cw_db (dbs st))"]) simp
  from assms show ?thesis
    by (cases rule: pubnet_cases) (use same assms(2) in \<open>auto simp: map_of_eq_None_iff dest!: insert_pubnet_Inr\<close>)
qed

lemma sound_update:
  assumes "files_sound V old w"
    and "p = radosgw_path V \<or> p = keyring_path V \<or> p = ceph_conf_path V \<and> (\<exists>c. text = NewCephConfig c)"
  shows "files_sound V old (w\<lparr>cw_files := AList.update p text (cw_files w)\<rparr>)"
  using assms conf_paths [of V] by (auto simp: files_sound_def update_conv')

lemma inv_refresh:
  assumes "\<And>w text. I w \<Longrightarrow> I (w\<lparr>cw_files := AList.update (radosgw_path V) text (cw_files w)\<rparr>)"
  shows "tx_inv I (tolerate (refresh_mon_host V ms))"
  unfolding refresh_mon_host_def fix_file_def using assms by (intro inv_rules tx_inv_stmt) simp_all

lemma inv_UpdateConfig: "tx_inv (files_sound V old) (UpdateConfig V)"
proof -
  have db: "files_sound V old (w\<lparr>cw_db := d\<rparr>) = files_sound V old w" for w d by (simp add: files_sound_def)
  show ?thesis unfolding UpdateConfig_def render_files_def Let_def format_monitors_def
    by (intro inv_rules inv_monitors inv_client inv_WriteConfig inv_refresh db) (auto intro!: sound_update)
qed

lemma listed_monitors:
  assumes "tx_bind (tx_wrap p GetConfigDb) (\<lambda>config. tx_bind (tx_wrap q getActiveMonitorMembersFunc) (\<lambda>active.
      tx_bind (let ms = getMonitorsFromConfig V config active in
               if ms = [] then tx_wrap e (backwardCompatMonitors V) else tx_return ms) (g config))) st = (Inr u, st')"
    and "distinct (map fst (db_config (cw_db (dbs st))))"
  obtains config ms st1 where "g config ms st1 = (Inr u, st')" "dbs st1 = dbs st" "config = sort_key fst (db_config (cw_db (dbs st)))"
    "monitors_listed V (cw_db (dbs st)) ms"
proof -
  let ?d = "cw_db (dbs st)" and ?mons = "filter (\<lambda>r. snd r = ''mon'') (db_services (cw_db (dbs st)))"
  from assms(1) obtain config st1 active st2 ms st3 where run:
    "GetConfigDb st = (Inr config, st1)" "getActiveMonitorMembersFunc st1 = (Inr active, st2)"
    "(if getMonitorsFromConfig V config active = [] then tx_wrap e (backwardCompatMonitors V) else tx_return (getMonitorsFromConfig V config active)) st2 = (Inr ms, st3)"
    "g config ms st3 = (Inr u, st')"
    by (auto simp: tx_Inr Let_def)
  from config_read [OF run(1) assms(2)] have config: "config = sort_key fst (db_config ?d)" "dbs st1 = dbs st" by auto
  with run(2) have active: "active = map fst ?mons" "dbs st2 = dbs st"
    unfolding getActiveMonitorMembersFunc_def by (auto simp: tx_Inr dest!: monitor_rows_read)
  have hosts: "mset (getMonitorsFromConfig V config active) = mset (monitor_hosts ?d)"
    unfolding config active by (rule config_hosts [OF assms(2)])
  then have "getMonitorsFromConfig V config active = [] \<longleftrightarrow> monitor_hosts ?d = []" by (metis mset_zero_iff)
  with run(3) hosts active(2) have "monitors_listed V ?d ms \<and> dbs st3 = dbs st"
    by (auto simp: monitors_listed_def backwardCompatMonitors_def tx_Inr split: if_splits dest!: monitor_rows_read)
  with run(4) config(1) that show thesis by blast
qed

lemma ceph_conf_sorted:
  assumes "distinct (map fst c)"
  shows "ceph_conf_of V (sort_key fst c) ms cl = ceph_conf_of V c ms cl" "config_at (sort_key fst c) k = config_at c k"
  using assms map_of_sort_key [of c] by (simp_all add: ceph_conf_of_def config_at_def keys_def)

lemma render_files_Inr:
  assumes "render_files V config monitors st = (Inr (), st')"
    and "distinct (map row_slot (ct_rows (cw_client (dbs st))))" "cv_Name V \<in> set (db_members (cw_db (dbs st)))" "distinct (db_members (cw_db (dbs st)))"
  shows "cw_db (dbs st') = cw_db (dbs st) \<and> cw_client (dbs st') = cw_client (dbs st) \<and> (\<exists>client.
    (\<forall>(k, get) \<in> set client_fields. get client = client_value (ct_rows (cw_client (dbs st))) (cv_Name V) k) \<and>
    map_of (cw_files (dbs st')) (ceph_conf_path V) = Some (NewCephConfig (ceph_conf_of V config monitors client)) \<and>
    map_of (cw_files (dbs st')) (keyring_path V) = Some (NewCephKeyring ''client.admin'' (config_at config ''keyring.client.admin'')))"
proof -
  from assms(1) obtain st1 u st2 x client st3 y st4 where run:
    "tolerate (refresh_mon_host V monitors) st = (Inr u, st1)" "of_sum (FindIpOnSubnet (cv_net V) (config_at config ''public_network'')) st1 = (Inr x, st2)"
    "GetClientConfigForHost (cv_client V) (cv_Name V) st2 = (Inr client, st3)"
    "WriteConfig (cv_ConfPath V) ''ceph.conf'' (NewCephConfig (ceph_conf_of V config monitors client)) st3 = (Inr y, st4)"
    "WriteConfig (cv_ConfPath V) ''ceph.keyring'' (NewCephKeyring ''client.admin'' (config_at config ''keyring.client.admin'')) st4 = (Inr (), st')"
    by (auto simp: render_files_def tx_Inr)
  have "cw_db (dbs st1) = cw_db (dbs st) \<and> cw_client (dbs st1) = cw_client (dbs st)"
    using inv_refresh [of "\<lambda>w. cw_db w = cw_db (dbs st) \<and> cw_client w = cw_client (dbs st)" V monitors] run(1)
    by (fastforce simp: tx_inv_def dest: spec [of _ st])
  moreover from run(2) have "dbs st2 = dbs st1" by (auto simp: of_sum_def tx_Inr split: sum.splits)
  ultimately have st2: "cw_db (dbs st2) = cw_db (dbs st)" "cw_client (dbs st2) = cw_client (dbs st)" by simp_all
  have client: "get client = client_value (ct_rows (cw_client (dbs st))) (cv_Name V) k \<and> dbs st3 = dbs st2" if "(k, get) \<in> set client_fields" for k get
    using client_config_read [OF run(3) _ _ _ that] assms(2-4) st2 by simp
  then have "dbs st3 = dbs st2" by (auto simp: client_fields_def)
  with client st2 WriteConfig_Inr [OF run(4)] WriteConfig_Inr [OF run(5)] conf_paths(1) [of V]
  show ?thesis by (auto simp: update_conv')
qed


section \<open>Around the refresh\<close>

text \<open>A recorded public network that cannot be parsed is not repaired: the record is only ever created, so
  with a monitor registered every refresh fails.\<close>

lemma invalid_network_stuck:
  assumes "UpdateConfig V st = (Inr u, st')" "distinct (map fst (db_config (cw_db (dbs st))))"
    and "map_of (db_config (cw_db (dbs st))) ''public_network'' = Some net" "ParseSubnetList (cv_net V) net = Inl e"
  shows "filter (\<lambda>r. snd r = ''mon'') (db_services (cw_db (dbs st))) = []"
proof -
  from assms(1) obtain w st1 where "backwardCompatPubnet V st = (Inr w, st1)" by (auto simp: UpdateConfig_def tx_Inr)
  then show ?thesis using assms(2)
    by (cases rule: pubnet_cases) (use assms(3,4) in \<open>auto simp: config_at_def dest!: insert_pubnet_Inr\<close>)
qed

text \<open>A found address lies on the listed networks, and the search fails only when there is none.\<close>

lemma found_ip_on_subnet:
  assumes "FindIpOnSubnet L subnets = Inr ip" "\<And>a. nl_parse_ip L (net_trim L (nl_show_ip L a)) = Some a"
  shows "IsIpOnSubnet L ip subnets"
proof -
  from assms(1) obtain parsed cidrs n ns where p: "ParseSubnetList L subnets = Inr parsed" "hostCIDRs L = Inr cidrs"
      "concat (map (\<lambda>sn. filter (\<lambda>n. IsGlobalUnicast (in_IP n) \<and> net_Contains sn (in_IP n)) cidrs) parsed) = n # ns" "ip = nl_show_ip L (in_IP n)"
    by (auto simp: FindIpOnSubnet_def split: sum.splits list.splits)
  then have "n \<in> set (concat (map (\<lambda>sn. filter (\<lambda>n. IsGlobalUnicast (in_IP n) \<and> net_Contains sn (in_IP n)) cidrs) parsed))" by simp
  then have "\<exists>sn \<in> set parsed. net_Contains sn (in_IP n)" by auto
  with p(1,4) assms(2) show ?thesis by (simp add: IsIpOnSubnet_def list_ex_iff)
qed

lemma missed_subnet:
  assumes "ParseSubnetList L subnets = Inr parsed" "hostCIDRs L = Inr cidrs"
  shows "(\<exists>e. FindIpOnSubnet L subnets = Inl e) \<longleftrightarrow>
    (\<forall>n \<in> set cidrs. IsGlobalUnicast (in_IP n) \<longrightarrow> (\<forall>sn \<in> set parsed. \<not> net_Contains sn (in_IP n)))"
proof -
  let ?hits = "concat (map (\<lambda>sn. filter (\<lambda>n. IsGlobalUnicast (in_IP n) \<and> net_Contains sn (in_IP n)) cidrs) parsed)"
  have none: "(\<exists>e. (case hs of [] \<Rightarrow> Inl m | n # _ \<Rightarrow> Inr (nl_show_ip L (in_IP n))) = Inl e) \<longleftrightarrow> hs = []" for hs :: "ip_net list" and m :: go_error
    by (cases hs) auto
  have "(\<exists>e. FindIpOnSubnet L subnets = Inl e) \<longleftrightarrow> ?hits = []" unfolding FindIpOnSubnet_def assms sum.case by (rule none)
  also have "\<dots> \<longleftrightarrow> (\<forall>n \<in> set cidrs. IsGlobalUnicast (in_IP n) \<longrightarrow> (\<forall>sn \<in> set parsed. \<not> net_Contains sn (in_IP n)))"
    by (auto simp: concat_eq_Nil_conv filter_empty_conv)
  finally show ?thesis .
qed

text \<open>A pass of the refresh loop that sleeps for a minute has seen the monitors as they are recorded.\<close>

lemma slow_pass_current:
  assumes "start_pass V s st = ((s', OneMinute), st')" "distinct (map fst (db_config (cw_db (dbs st))))"
  shows "\<not> ss_first s' \<and> ss_old s' = map fst (filter (\<lambda>r. snd r = ''mon'') (db_services (cw_db (dbs st)))) \<and> ss_old s' \<noteq> []"
proof -
  from assms(1) obtain u st1 rows st2 where st1: "sys_step '''' st = (Inr u, st1)" and rows: "monitor_rows st1 = (Inr rows, st2)"
    by (auto simp: start_pass_def split: prod.splits sum.splits)
  from st1 have "dbs st1 = dbs st" unfolding sys_step_def by (auto dest!: tx_stmt_Inr)
  with monitor_rows_read [OF rows] have "rows = filter (\<lambda>r. snd r = ''mon'') (db_services (cw_db (dbs st)))" by simp
  with assms(1) st1 rows show ?thesis
    by (auto simp: start_pass_def Let_def shouldSkipMonitorRefresh_def split: if_splits prod.splits sum.splits)
qed

section \<open>An example\<close>

text \<open>A member with a monitor on a small network, after its tables were migrated.\<close>

definition small_net :: net_lib where
  "small_net =
     \<lparr>nl_text = \<lparr>rt_go = plain_lib, rt_fields = (\<lambda>_. []), rt_parse_ip = (\<lambda>_. True)\<rparr>,
      nl_parse_ip = (\<lambda>s. if s = ''10.0.0.1'' then Some (IPv4 0x0A000001) else None),
      nl_parse_cidr = (\<lambda>s. if s = ''10.0.0.0/24'' then Inr \<lparr>in_IP = IPv4 0x0A000000, in_Len = 24\<rparr> else Inl ''invalid CIDR address''),
      nl_show_ip = (\<lambda>_. ''10.0.0.1''), nl_show_net = (\<lambda>_. ''10.0.0.1/24''),
      nl_SplitHostPort = (\<lambda>_. Inl ''missing port in address''),
      nl_Interfaces = Inr [Inl ''gone'', Inr [OtherAddr, IPNetAddr \<lparr>in_IP = IPv4 0x7F000001, in_Len = 8\<rparr>, IPNetAddr \<lparr>in_IP = IPv4 0x0A000001, in_Len = 24\<rparr>]]\<rparr>"

definition small_client :: client_env where
  "small_client = \<lparr>ce_rows = rev, ce_sched = (\<lambda>_. rev)\<rparr>"

definition small_env :: conf_env where
  "small_env = \<lparr>cv_net = small_net, cv_client = small_client, cv_ConfPath = ''/conf'', cv_RunPath = ''/run'', cv_Name = ''a'',
     cv_Address = ''10.0.0.1'', cv_remotes = [(''a'', ''10.0.0.1'')], cv_peers = [''b'']\<rparr>"

definition small_world :: "client_row list \<Rightarrow> nat \<Rightarrow> conf_world db_state" where
  "small_world rows n = \<lparr>dbs = \<lparr>cw_db = \<lparr>db_members = [''a'', ''b''], db_services = [(''a'', ''mon''), (''b'', ''mgr'')], db_grouped = [],
       db_rgw_frontends = [],
       db_config = [(''fsid'', ''f1''), (''public_network'', ''10.0.0.0/24''), (''mon.host.a'', ''10.0.0.1''), (''mon.host.b'', ''10.0.0.2''),
         (''keyring.client.admin'', ''k1'')], db_policy = None, db_lifecycle = None\<rparr>,
     cw_client = \<lparr>ct_rows = rows, ct_seq = n, ct_unique = False\<rparr>, cw_files = [], cw_asked = []\<rparr>, faults = []\<rparr>"

definition small_rows :: "client_row list" where
  "small_rows = [\<lparr>cr_ID = 1, cr_Member = None, cr_Key = ''rbd_cache'', cr_Value = ''false''\<rparr>,
     \<lparr>cr_ID = 2, cr_Member = Some ''b'', cr_Key = ''rbd_cache'', cr_Value = ''no''\<rparr>]"

definition own_row :: client_row where
  "own_row = \<lparr>cr_ID = 3, cr_Member = Some ''a'', cr_Key = ''rbd_cache'', cr_Value = ''true''\<rparr>"

lemma small_add: "AddNew ''rbd_cache'' ''true'' ''a'' (small_world small_rows 2) = (Inr (), small_world (small_rows @ [own_row]) 3)"
  by code_simp

lemma small_read: "GetClientConfigForHost small_client ''a'' (small_world (small_rows @ [own_row]) 3) =
    (Inr (client_conf_zero\<lparr>IsCache := ''true''\<rparr>), small_world (small_rows @ [own_row]) 3)"
  by code_simp


lemma small_resets:
  "AddNew ''rbd_cache'' ''true'' ''a'' (small_world [] 0) = (Inr (), small_world [own_row\<lparr>cr_ID := 1\<rparr>] 1)"
  "AddNew ''rbd_cache'' ''true'' ''a'' (small_world [own_row\<lparr>cr_ID := 1\<rparr>] 1) =
     (Inr (), small_world [own_row\<lparr>cr_ID := 1\<rparr>, own_row\<lparr>cr_ID := 2\<rparr>] 2)"
  by code_simp+


definition refreshed :: "conf_world db_state" where
  "refreshed = snd (UpdateConfig small_env (small_world small_rows 2))"

lemma small_refresh: "UpdateConfig small_env (small_world small_rows 2) = (Inr (), refreshed)"
proof -
  have "fst (UpdateConfig small_env (small_world small_rows 2)) = Inr ()" by code_simp
  then show ?thesis by (metis refreshed_def prod.collapse)
qed


end
