(* ===== verification/Member_Upkeep.thy ===== *)
theory Member_Upkeep
  imports Osd_Remove Rgw_Conf Go_Json Replication_Rbd
begin

text \<open>
  Upkeep of a member: snap services (\<^verbatim>\<open>ceph/snap.go\<close>), the work after a start or refresh
  (\<^verbatim>\<open>ceph/start.go\<close>), preparations for the removal of a member (\<^verbatim>\<open>ceph/remove.go\<close>), and
  maintenance mode (\<^verbatim>\<open>ceph/operations.go\<close>, \<^verbatim>\<open>ceph/maintenance.go\<close>,
  \<^verbatim>\<open>api/ops_maintenance.go\<close>). Every command, file operation, query and API call is a request of the log.
\<close>

text \<open>The tables and lists the code reads are given at a moment of the log: services as pairs of member and
  service, the services of groups on this host, and the members of the cluster.\<close>

record upkeep_env =
  ue_osd :: osd_env
  ue_text :: rgw_text
  ue_services :: "history \<Rightarrow> string + (string \<times> string) list"
  ue_grouped :: "history \<Rightarrow> string + string list"
  ue_ServerCert :: bool
  ue_members :: "history \<Rightarrow> string + string list"
  ue_ConfPath :: string
  ue_RunPath :: string

abbreviation up_ask :: "upkeep_env \<Rightarrow> request \<Rightarrow> reply io" where
  "up_ask U \<equiv> ask (oe_host (ue_osd U))"

abbreviation up_must :: "upkeep_env \<Rightarrow> request \<Rightarrow> reply io" where
  "up_must U \<equiv> must (oe_host (ue_osd U))"

section \<open>Snap services\<close>

definition isIntfConnected :: "upkeep_env \<Rightarrow> string \<Rightarrow> bool io" where
  "isIntfConnected U name = io_bind (up_ask U (Cmd [''snapctl'', ''is-connected'', name])) (\<lambda>a. io_return (answered a))"

definition snapStart :: "upkeep_env \<Rightarrow> string \<Rightarrow> bool \<Rightarrow> unit io" where
  "snapStart U service enable =
     io_bind (up_must U (Cmd ([''snapctl'', ''start'', ''microceph.'' @ service] @ (if enable then [''--enable''] else [])))) (\<lambda>_. io_return ())"

definition snapStop :: "upkeep_env \<Rightarrow> string \<Rightarrow> bool \<Rightarrow> unit io" where
  "snapStop U service disable =
     io_bind (up_must U (Cmd ([''snapctl'', ''stop'', ''microceph.'' @ service] @ (if disable then [''--disable''] else [])))) (\<lambda>_. io_return ())"

definition snapRestart :: "upkeep_env \<Rightarrow> string \<Rightarrow> bool \<Rightarrow> unit io" where
  "snapRestart U service isReload =
     io_bind (up_must U (Cmd ([''snapctl'', ''restart''] @ (if isReload then [''--reload''] else []) @ [''microceph.'' @ service]))) (\<lambda>_. io_return ())"

definition snapCheckActive :: "upkeep_env \<Rightarrow> string \<Rightarrow> unit io" where
  "snapCheckActive U service =
     io_bind (up_must U (Cmd [''snapctl'', ''services'', ''microceph.'' @ service])) (\<lambda>out.
       if contains_sub (reply_text out) ''inactive'' then io_fail (err_new (service @ '' service is not active'')) else io_return ())"

section \<open>The release of the OSDs\<close>

definition version_cmd :: request where
  "version_cmd = Cmd [''ceph'', ''-v'']"

definition getCurrentVersion :: "upkeep_env \<Rightarrow> string io" where
  "getCurrentVersion U =
     io_bind (io_wrap ''failed to get ceph version: '' (up_must U version_cmd)) (\<lambda>out.
       let parts = Fields (ue_text U) (reply_text out) in
       if length parts < 6 then io_fail (err_new (''invalid version string format: '' @ reply_text out))
       else io_return (parts ! (length parts - 2)))"

type_synonym version_counts = "(string \<times> int) list"

record ceph_version =
  cv_Mon :: version_counts
  cv_Mgr :: version_counts
  cv_Osd :: version_counts
  cv_Mds :: version_counts
  cv_Overall :: version_counts

definition dec_int32 :: "int \<Rightarrow> json \<Rightarrow> int option" where
  "dec_int32 cur j = (case j of JNull \<Rightarrow> Some cur | JInt i \<Rightarrow> if - (2 ^ 31) \<le> i \<and> i < 2 ^ 31 then Some i else None | _ \<Rightarrow> None)"

abbreviation read_counts32 :: "version_counts \<Rightarrow> json \<Rightarrow> version_counts \<times> bool" where
  "read_counts32 \<equiv> read_map (read_prim dec_int32 0)"

definition version_field :: "go_lib \<Rightarrow> ceph_version field_reader" where
  "version_field G k v c =
     (if equal_fold G k ''mon'' then set_to (\<lambda>m. c\<lparr>cv_Mon := m\<rparr>) (read_counts32 (cv_Mon c) v)
      else if equal_fold G k ''mgr'' then set_to (\<lambda>m. c\<lparr>cv_Mgr := m\<rparr>) (read_counts32 (cv_Mgr c) v)
      else if equal_fold G k ''osd'' then set_to (\<lambda>m. c\<lparr>cv_Osd := m\<rparr>) (read_counts32 (cv_Osd c) v)
      else if equal_fold G k ''mds'' then set_to (\<lambda>m. c\<lparr>cv_Mds := m\<rparr>) (read_counts32 (cv_Mds c) v)
      else if equal_fold G k ''overall'' then set_to (\<lambda>m. c\<lparr>cv_Overall := m\<rparr>) (read_counts32 (cv_Overall c) v)
      else None)"

definition read_versions :: "go_lib \<Rightarrow> json option \<Rightarrow> ceph_version option" where
  "read_versions G = unmarshal (read_struct (version_field G) \<lparr>cv_Mon = [], cv_Mgr = [], cv_Osd = [], cv_Mds = [], cv_Overall = []\<rparr>)"

definition versions_cmd :: request where
  "versions_cmd = Cmd [''ceph'', ''versions'']"

text \<open>The loop with the number of attempts left.\<close>

fun version_attempts :: "upkeep_env \<Rightarrow> nat \<Rightarrow> bool io" where
  "version_attempts U 0 = io_return False"
| "version_attempts U (Suc k) =
     io_bind (io_wrap ''failed to get Ceph versions: '' (up_must U versions_cmd)) (\<lambda>out.
       case read_versions (oe_lib (ue_osd U)) (reply_json out) of
         None \<Rightarrow> io_fail (err_new ''failed to unmarshal Ceph versions'')
       | Some v \<Rightarrow>
           if 1 < length (cv_Overall v) then (if 0 < k then version_attempts U k else io_return False)
           else if length (cv_Osd v) < 1 then io_return False
           else io_return True)"

definition checkVersions :: "upkeep_env \<Rightarrow> bool io" where
  "checkVersions U = version_attempts U 10"

definition osd_dump_cmd :: request where
  "osd_dump_cmd = Cmd [''ceph'', ''osd'', ''dump'', ''-f'', ''json'']"

text \<open>The value of a key in a map read from a document: the last one counts.\<close>

definition required_release :: "json \<Rightarrow> string option" where
  "required_release j =
     (case j of JObj kvs \<Rightarrow> (case map_of (rev kvs) ''require_osd_release'' of Some (JStr s) \<Rightarrow> Some s | _ \<Rightarrow> None) | _ \<Rightarrow> None)"

definition osdReleaseRequired :: "upkeep_env \<Rightarrow> string \<Rightarrow> bool io" where
  "osdReleaseRequired U version =
     io_bind (io_wrap ''failed to get OSD dump: '' (up_must U osd_dump_cmd)) (\<lambda>out.
       case reply_json out of
         None \<Rightarrow> io_fail (err_new ''failed to unmarshal OSD dump'')
       | Some j \<Rightarrow>
           (case j of
              JObj _ \<Rightarrow> (case required_release j of None \<Rightarrow> io_fail (err_new ''invalid or missing require_osd_release in OSD dump'') | Some r \<Rightarrow> io_return (r \<noteq> version))
            | JNull \<Rightarrow> io_fail (err_new ''invalid or missing require_osd_release in OSD dump'')
            | _ \<Rightarrow> io_fail (err_new ''failed to unmarshal OSD dump'')))"

definition require_release_cmd :: "string \<Rightarrow> request" where
  "require_release_cmd version = Cmd [''ceph'', ''osd'', ''require-osd-release'', version, ''--yes-i-really-mean-it'']"

definition updateOSDRelease :: "upkeep_env \<Rightarrow> string \<Rightarrow> unit io" where
  "updateOSDRelease U version =
     io_bind (io_wrap ''failed to update OSD release version: '' (up_must U (require_release_cmd version))) (\<lambda>_. io_return ())"

definition PostRefresh :: "upkeep_env \<Rightarrow> unit io" where
  "PostRefresh U =
     io_bind (io_wrap ''version check failed: '' (getCurrentVersion U)) (\<lambda>version.
     io_bind (io_wrap ''version equality check failed: '' (checkVersions U)) (\<lambda>equal.
       if \<not> equal then io_return ()
       else io_bind (io_wrap ''OSD release check failed: '' (osdReleaseRequired U version)) (\<lambda>mustUpdate.
         if \<not> mustUpdate then io_return ()
         else io_wrap ''OSD release update failed: '' (updateOSDRelease U version))))"

section \<open>Stale run directories\<close>

definition fix_conf_file :: "upkeep_env \<Rightarrow> string \<Rightarrow> (string \<Rightarrow> string option) \<Rightarrow> bool io" where
  "fix_conf_file U confFile edit =
     io_bind (up_ask U (ReadFile confFile)) (\<lambda>data.
       if \<not> answered data then (if not_exist data then io_return False else io_fail (err_new (reply_text data)))
       else case edit (reply_text data) of
         None \<Rightarrow> io_return False
       | Some text \<Rightarrow>
           io_bind (io_wrap (''failed to write '' @ confFile @ ''.tmp: '') (up_must U (WriteFile (confFile @ ''.tmp'') (JStr text)))) (\<lambda>_.
           io_bind (up_ask U (Rename (confFile @ ''.tmp'') confFile)) (\<lambda>r.
             if answered r then io_return True
             else io_bind (up_ask U (RemoveFile (confFile @ ''.tmp''))) (\<lambda>_.
               io_fail (err_new (''failed to replace '' @ confFile @ '': '' @ reply_text r))))))"

definition ganesha_line :: "rgw_text \<Rightarrow> string \<Rightarrow> string \<Rightarrow> string option" where
  "ganesha_line T correctRunDir l =
     (let trimmed = trim_space (rt_go T) l in
      if has_prefix trimmed ''CCacheDir = \"'' \<and> has_suffix trimmed ''/ganesha\";'' then
        (let leading = takeWhile (\<lambda>c. c = CHR 0x09 \<or> c = CHR '' '') l;
             correct = leading @ ''CCacheDir = \"'' @ correctRunDir @ ''/ganesha\";'' in
         if l = correct then None else Some correct)
      else None)"

definition fixGaneshaRunDir :: "upkeep_env \<Rightarrow> string \<Rightarrow> bool io" where
  "fixGaneshaRunDir U confFile = fix_conf_file U confFile (fixConfigLine (ganesha_line (ue_text U) (ue_RunPath U)))"

definition migrateStaleRunDir :: "upkeep_env \<Rightarrow> unit io" where
  "migrateStaleRunDir U =
     io_bind (attempt (fix_conf_file U (ue_ConfPath U @ ''/radosgw.conf'') (fixRadosGWRunDir (ue_text U) (ue_RunPath U)))) (\<lambda>_.
     io_bind (attempt (fixGaneshaRunDir U (ue_ConfPath U @ ''/ganesha/ganesha.conf''))) (\<lambda>_.
       io_return ()))"

section \<open>Services that should run\<close>

definition getServicesForHost :: "upkeep_env \<Rightarrow> string list io" where
  "getServicesForHost U =
     io_bind (observe (Db ''services'' [oe_name (ue_osd U)]) (ue_services U)) (\<lambda>rows.
       io_return (map snd (filter (\<lambda>r. fst r = oe_name (ue_osd U)) rows)))"

definition GetGroupedServicesOnHost :: "upkeep_env \<Rightarrow> string list io" where
  "GetGroupedServicesOnHost U =
     (if \<not> ue_ServerCert U then io_fail (err_new ''no server certificate'')
      else io_wrap ''failed to get grouped services records: '' (observe (Db ''grouped_services'' [oe_name (ue_osd U)]) (ue_grouped U)))"

definition re_enable :: "upkeep_env \<Rightarrow> string \<Rightarrow> unit io" where
  "re_enable U service =
     io_bind (attempt (snapCheckActive U service)) (\<lambda>active.
       case active of
         Inr _ \<Rightarrow> io_return ()
       | Inl _ \<Rightarrow> io_bind (attempt (snapStart U service True)) (\<lambda>_. io_return ()))"

fun re_enable_all :: "upkeep_env \<Rightarrow> string list \<Rightarrow> unit io" where
  "re_enable_all U [] = io_return ()"
| "re_enable_all U (s # ss) = io_bind (re_enable U s) (\<lambda>_. re_enable_all U ss)"

definition reEnableServices :: "upkeep_env \<Rightarrow> unit io" where
  "reEnableServices U =
     io_bind (attempt (getServicesForHost U)) (\<lambda>r.
       case r of
         Inl _ \<Rightarrow> io_return ()
       | Inr services \<Rightarrow>
           if services = [] then io_return ()
           else io_bind (re_enable_all U services) (\<lambda>_.
             io_bind (re_enable U ''osd'') (\<lambda>_.
               io_bind (attempt (GetGroupedServicesOnHost U)) (\<lambda>g.
                 case g of
                   Inl _ \<Rightarrow> io_return ()
                 | Inr grouped \<Rightarrow> re_enable_all U (rev (remdups (rev grouped)))))))"

section \<open>Removing a member\<close>

definition EnsureNonOsdSvcEnough :: "(string \<times> string) list \<Rightarrow> string \<Rightarrow> nat \<Rightarrow> nat \<Rightarrow> nat \<Rightarrow> go_error + unit" where
  "EnsureNonOsdSvcEnough services nodeName minMon minMgr minMds =
     (let found = (\<lambda>s. length (filter (\<lambda>r. fst r \<noteq> nodeName \<and> snd r = s) services)) in
      if found ''mon'' < minMon \<or> found ''mgr'' < minMgr \<or> found ''mds'' < minMds
      then Inl (err_new (''need at least '' @ show_nat minMon @ '' mon, '' @ show_nat minMds @ '' mds, and '' @ show_nat minMgr @
             '' mgr services in the cluster besides those in node '' @ [CHR 0x27] @ nodeName @ [CHR 0x27]))
      else Inr ())"

definition client_GetClusterMembers :: "upkeep_env \<Rightarrow> string list io" where
  "client_GetClusterMembers U = observe (Probe ''GET'' [''cluster'']) (ue_members U)"

definition client_GetDisks :: "upkeep_env \<Rightarrow> configured_disk list io" where
  "client_GetDisks U = io_wrap ''failed listing disks: '' (observe (Probe ''GET'' [''disks'']) (oe_disks (ue_osd U)))"

definition client_GetServices :: "upkeep_env \<Rightarrow> (string \<times> string) list io" where
  "client_GetServices U = io_wrap ''failed listing services: '' (observe (Probe ''GET'' [''services'']) (ue_services U))"

definition delete_service_call :: "string \<Rightarrow> string \<Rightarrow> request" where
  "delete_service_call target service = Probe ''DELETE'' [''services'', service, target]"

definition api_DeleteService :: "upkeep_env \<Rightarrow> string \<Rightarrow> string \<Rightarrow> unit io" where
  "api_DeleteService U target service =
     io_bind (io_wrap (''failed disabling service '' @ service @ '': '') (up_must U (delete_service_call target service))) (\<lambda>_. io_return ())"

text \<open>A printed error: the new error does not wrap the old one.\<close>

definition io_print :: "string \<Rightarrow> 'a io \<Rightarrow> 'a io" where
  "io_print pre f h = (case f h of (Inl e, h1) \<Rightarrow> (Inl (err_new (pre @ etext e)), h1) | (Inr v, h1) \<Rightarrow> (Inr v, h1))"

definition checkPrerequisites :: "upkeep_env \<Rightarrow> string \<Rightarrow> unit io" where
  "checkPrerequisites U name =
     io_bind (io_print ''Error getting cluster members: '' (client_GetClusterMembers U)) (\<lambda>members.
       if name \<notin> set members then io_fail (err_new (''Node '' @ name @ '' not found''))
       else io_bind (io_print ''Error getting disks: '' (client_GetDisks U)) (\<lambda>disks.
         if list_ex (\<lambda>d. cd_Location d = name) disks
         then io_fail (err_new (''Node '' @ name @ '' still has disks configured, remove before proceeding''))
         else io_bind (io_print ''Error getting services: '' (client_GetServices U)) (\<lambda>services.
           io_print ''Insufficient non OSD services: '' (of_result (EnsureNonOsdSvcEnough services name 3 1 1)))))"

text \<open>The errors of all deletions, joined line by line.\<close>

fun delete_each :: "upkeep_env \<Rightarrow> string \<Rightarrow> (string \<times> string) list \<Rightarrow> go_error list io" where
  "delete_each U name [] = io_return []"
| "delete_each U name ((location, service) # ss) =
     (if location = name
      then io_bind (attempt (api_DeleteService U location service)) (\<lambda>r.
        io_bind (delete_each U name ss) (\<lambda>es.
          io_return (case r of
            Inl e \<Rightarrow> err_wrap (''failed to delete service '' @ quoted service @ '' on node '' @ quoted location @ '': '') e '''' # es
          | Inr _ \<Rightarrow> es)))
      else delete_each U name ss)"

definition errors_Join :: "go_error list \<Rightarrow> go_error option" where
  "errors_Join es = (if es = [] then None else Some \<lparr>etext = join_with [newline] (map etext es), echain = concat (map echain es)\<rparr>)"

definition deleteNodeServices :: "upkeep_env \<Rightarrow> string \<Rightarrow> unit io" where
  "deleteNodeServices U name =
     io_bind (client_GetServices U) (\<lambda>services.
       io_bind (delete_each U name services) (\<lambda>es.
         case errors_Join es of None \<Rightarrow> io_return () | Some e \<Rightarrow> io_fail e))"

definition removeNode :: "upkeep_env \<Rightarrow> string \<Rightarrow> bool \<Rightarrow> unit io" where
  "removeNode U node force =
     io_bind (if \<not> force then checkPrerequisites U node else io_return ()) (\<lambda>_.
       io_bind (attempt (deleteNodeServices U node)) (\<lambda>r.
         case r of
           Inr _ \<Rightarrow> io_return ()
         | Inl e \<Rightarrow> if \<not> force then io_fail e else io_return ()))"

text \<open>The hook that runs before the member leaves the cluster database.\<close>

definition PreRemove :: "upkeep_env \<Rightarrow> bool \<Rightarrow> unit io" where
  "PreRemove U force =
     io_bind (up_must U (Probe ''LocalClient'' [])) (\<lambda>_. removeNode U (oe_name (ue_osd U)) force)"

section \<open>Operations of maintenance mode\<close>

datatype operation = CheckOsdOkToStopOps | CheckNonOsdSvcEnoughOps | SetNooutOps | AssertNooutFlagSetOps
  | AssertNooutFlagUnsetOps | StopOsdOps | StartOsdOps | UnsetNooutOps

record op_result =
  or_Name :: string
  or_Error :: string
  or_Action :: string

fun op_GetName :: "operation \<Rightarrow> string" where
  "op_GetName CheckOsdOkToStopOps = ''check-osd-ok-to-stop-ops''"
| "op_GetName CheckNonOsdSvcEnoughOps = ''check-non-osd-svc-enough-ops''"
| "op_GetName SetNooutOps = ''set-noout-ops''"
| "op_GetName AssertNooutFlagSetOps = ''assert-noout-flag-set-ops''"
| "op_GetName AssertNooutFlagUnsetOps = ''assert-noout-flag-unset-ops''"
| "op_GetName StopOsdOps = ''stop-osd-ops''"
| "op_GetName StartOsdOps = ''start-osd-ops''"
| "op_GetName UnsetNooutOps = ''unset-noout-ops''"

definition getOsds :: "upkeep_env \<Rightarrow> string \<Rightarrow> int list io" where
  "getOsds U name =
     io_bind (io_print ''error listing disks: '' (OSD_List (ue_osd U))) (\<lambda>disks.
       io_return (map cd_OSD (filter (\<lambda>d. cd_Location d = name) disks)))"

definition testSafeStop :: "upkeep_env \<Rightarrow> int list \<Rightarrow> bool io" where
  "testSafeStop U osds = io_bind (up_ask U (ok_to_stop_cmd osds)) (\<lambda>a. io_return (answered a))"

definition gj_names :: "upkeep_env \<Rightarrow> reply \<Rightarrow> string \<Rightarrow> string list" where
  "gj_names U out path = (let G = oe_gjson (ue_osd U) in map (\<lambda>j. gj_string G (Some j)) (gj_array G (gj_get G out path)))"

definition getActiveMons :: "upkeep_env \<Rightarrow> string list io" where
  "getActiveMons U = io_bind (up_must U (Cmd [''ceph'', ''-s'', ''-f'', ''json''])) (\<lambda>out. io_return (gj_names U out ''quorum_names''))"

definition getActiveMgrs :: "upkeep_env \<Rightarrow> string list io" where
  "getActiveMgrs U =
     io_bind (up_must U (Cmd [''ceph'', ''mgr'', ''dump'', ''-f'', ''json''])) (\<lambda>out.
       let G = oe_gjson (ue_osd U) in
       io_return (gj_names U out ''standbys.#.name'' @ [gj_string G (gj_get G out ''active_name'')]))"

definition getActiveMdss :: "upkeep_env \<Rightarrow> string list io" where
  "getActiveMdss U =
     io_bind (up_must U (Cmd [''ceph'', ''fs'', ''status'', ''-f'', ''json''])) (\<lambda>out. io_return (gj_names U out ''mdsmap.#.name''))"

definition services_List :: "upkeep_env \<Rightarrow> (string \<times> string) list io" where
  "services_List U = io_wrap ''Failed to fetch services: '' (observe (Db ''services'' []) (ue_services U))"

definition run_CheckNonOsdSvcEnough :: "upkeep_env \<Rightarrow> string \<Rightarrow> unit io" where
  "run_CheckNonOsdSvcEnough U name =
     io_bind (io_print ''error listing services: '' (services_List U)) (\<lambda>services.
       let minMon = length (filter (\<lambda>r. snd r = ''mon'') services) div 2 + 1 in
       io_bind (io_print ''Error getting active mon services: '' (getActiveMons U)) (\<lambda>mons.
       io_bind (io_print ''Error getting active mgr services: '' (getActiveMgrs U)) (\<lambda>mgrs.
       io_bind (io_print ''Error getting active mds services: '' (getActiveMdss U)) (\<lambda>mdss.
         let active = map (\<lambda>l. (l, ''mon'')) mons @ map (\<lambda>l. (l, ''mgr'')) mgrs @ map (\<lambda>l. (l, ''mds'')) mdss in
         io_print ''Insufficient non OSD services: '' (of_result (EnsureNonOsdSvcEnough active name minMon 1 1))))))"

definition noout_cmd :: "bool \<Rightarrow> request" where
  "noout_cmd flag = Cmd [''ceph'', ''osd'', if flag then ''set'' else ''unset'', ''noout'']"

definition setOsdNooutFlag :: "upkeep_env \<Rightarrow> bool \<Rightarrow> unit io" where
  "setOsdNooutFlag U flag =
     io_bind (io_wrap (''failed to '' @ (if flag then ''set'' else ''unset'') @ '' noout flag: '') (up_must U (noout_cmd flag))) (\<lambda>_. io_return ())"

definition isOsdNooutSet :: "upkeep_env \<Rightarrow> bool io" where
  "isOsdNooutSet U =
     io_bind (io_wrap ''failed to dump osd info: '' (up_must U osd_dump_cmd)) (\<lambda>out.
       io_return (''noout'' \<in> set (gj_names U out ''flags_set'')))"

definition SetOsdState :: "upkeep_env \<Rightarrow> bool \<Rightarrow> unit io" where
  "SetOsdState U up =
     io_wrap ''failed to change the state of osd service: '' (if up then snapStart U ''osd'' True else snapStop U ''osd'' True)"

fun run_op :: "upkeep_env \<Rightarrow> string \<Rightarrow> operation \<Rightarrow> unit io" where
  "run_op U name CheckOsdOkToStopOps =
     io_bind (getOsds U name) (\<lambda>osds.
       io_bind (testSafeStop U osds) (\<lambda>safe.
         if safe then io_return () else io_fail (err_new (''osds.['' @ join_ints osds @ ''] cannot be safely stopped''))))"
| "run_op U name CheckNonOsdSvcEnoughOps = run_CheckNonOsdSvcEnough U name"
| "run_op U name SetNooutOps = setOsdNooutFlag U True"
| "run_op U name AssertNooutFlagSetOps =
     io_bind (isOsdNooutSet U) (\<lambda>s. if s then io_return () else io_fail (err_new (''osd has '' @ [CHR 0x27] @ ''noout'' @ [CHR 0x27] @ '' flag unset.'')))"
| "run_op U name AssertNooutFlagUnsetOps =
     io_bind (isOsdNooutSet U) (\<lambda>s. if s then io_fail (err_new (''osd has '' @ [CHR 0x27] @ ''noout'' @ [CHR 0x27] @ '' flag set.'')) else io_return ())"
| "run_op U name StopOsdOps = SetOsdState U False"
| "run_op U name StartOsdOps = SetOsdState U True"
| "run_op U name UnsetNooutOps = setOsdNooutFlag U False"

text \<open>The description of an operation; the one of the first check lists the OSDs, or none if that fails.\<close>

fun dry_run_op :: "upkeep_env \<Rightarrow> string \<Rightarrow> operation \<Rightarrow> string io" where
  "dry_run_op U name CheckOsdOkToStopOps =
     io_bind (attempt (getOsds U name)) (\<lambda>r.
       io_return (''Check if osds.['' @ join_ints (case r of Inl _ \<Rightarrow> [] | Inr osds \<Rightarrow> osds) @ ''] in node '' @ [CHR 0x27] @ name @ [CHR 0x27] @ '' are ok-to-stop.''))"
| "dry_run_op U name CheckNonOsdSvcEnoughOps =
     io_return (''Check if there are at least a majority of mon services, 1 mds service, and 1 mgr service in the cluster besides those in node '' @
       [CHR 0x27] @ name @ [CHR 0x27])"
| "dry_run_op U name SetNooutOps = io_return ''Run `ceph osd set noout`.''"
| "dry_run_op U name AssertNooutFlagSetOps = io_return (''Assert osd has '' @ [CHR 0x27] @ ''noout'' @ [CHR 0x27] @ '' flag set.'')"
| "dry_run_op U name AssertNooutFlagUnsetOps = io_return (''Assert osd has '' @ [CHR 0x27] @ ''noout'' @ [CHR 0x27] @ '' flag unset.'')"
| "dry_run_op U name StopOsdOps = io_return (''Stop osd service in node '' @ [CHR 0x27] @ name @ [CHR 0x27] @ ''.'')"
| "dry_run_op U name StartOsdOps = io_return (''Start osd service in node '' @ [CHR 0x27] @ name @ [CHR 0x27] @ ''.'')"
| "dry_run_op U name UnsetNooutOps = io_return ''Run `ceph osd unset noout`.''"

fun RunOperations :: "upkeep_env \<Rightarrow> string \<Rightarrow> operation list \<Rightarrow> bool \<Rightarrow> bool \<Rightarrow> op_result list io" where
  "RunOperations U name [] dryRun force = io_return []"
| "RunOperations U name (p # ps) dryRun force =
     io_bind (dry_run_op U name p) (\<lambda>action.
       let res = \<lparr>or_Name = op_GetName p, or_Error = '''', or_Action = action\<rparr> in
       if dryRun then io_bind (RunOperations U name ps dryRun force) (\<lambda>rs. io_return (res # rs))
       else io_bind (attempt (run_op U name p)) (\<lambda>r.
         case r of
           Inl e \<Rightarrow>
             if force then io_bind (RunOperations U name ps dryRun force) (\<lambda>rs. io_return (res\<lparr>or_Error := etext e\<rparr> # rs))
             else io_return [res\<lparr>or_Error := etext e\<rparr>]
         | Inr _ \<Rightarrow> io_bind (RunOperations U name ps dryRun force) (\<lambda>rs. io_return (res # rs))))"

section \<open>Maintenance mode\<close>

record maintenance_request =
  mr_Status :: string
  mr_DryRun :: bool
  mr_CheckOnly :: bool
  mr_IgnoreCheck :: bool
  mr_Force :: bool
  mr_SetNoout :: bool
  mr_StopOsds :: bool

text \<open>Both directions run their checks and their operations alike; they differ in which errors of the checks
  stop them.\<close>

definition run_maintenance :: "upkeep_env \<Rightarrow> string \<Rightarrow> operation list \<Rightarrow> operation list \<Rightarrow> bool \<Rightarrow> maintenance_request \<Rightarrow> op_result list io" where
  "run_maintenance U node preflight operations goOn q =
     (if mr_CheckOnly q \<and> mr_IgnoreCheck q
      then io_fail (err_new ([CHR 0x27] @ ''check-only'' @ [CHR 0x27] @ '' and '' @ [CHR 0x27] @ ''ignore-check'' @ [CHR 0x27] @ '' are mutually exclusive.''))
      else if mr_CheckOnly q then RunOperations U node preflight (mr_DryRun q) False
      else if mr_IgnoreCheck q then RunOperations U node operations (mr_DryRun q) False
      else io_bind (RunOperations U node preflight (mr_DryRun q) False) (\<lambda>checks.
        if list_ex (\<lambda>r. or_Error r \<noteq> '''') checks \<and> \<not> goOn then io_return checks
        else io_bind (RunOperations U node operations (mr_DryRun q) False) (\<lambda>rs. io_return (checks @ rs))))"

definition exit_operations :: "operation list" where
  "exit_operations = [UnsetNooutOps, AssertNooutFlagUnsetOps, StartOsdOps]"

definition enter_operations :: "maintenance_request \<Rightarrow> operation list" where
  "enter_operations q = (if mr_SetNoout q then [SetNooutOps, AssertNooutFlagSetOps] else []) @ (if mr_StopOsds q then [StopOsdOps] else [])"

definition Maintenance_Exit :: "upkeep_env \<Rightarrow> string \<Rightarrow> maintenance_request \<Rightarrow> op_result list io" where
  "Maintenance_Exit U node q = run_maintenance U node [] exit_operations False q"

definition Maintenance_Enter :: "upkeep_env \<Rightarrow> string \<Rightarrow> maintenance_request \<Rightarrow> op_result list io" where
  "Maintenance_Enter U node q =
     run_maintenance U node [CheckOsdOkToStopOps, CheckNonOsdSvcEnoughOps] (enter_operations q) (mr_Force q) q"

definition maintenance_field :: "go_lib \<Rightarrow> maintenance_request field_reader" where
  "maintenance_field G k v q =
     (if equal_fold G k ''status'' then set_to (\<lambda>s. q\<lparr>mr_Status := s\<rparr>) (read_prim dec_string (mr_Status q) v)
      else if equal_fold G k ''dry_run'' then set_to (\<lambda>b. q\<lparr>mr_DryRun := b\<rparr>) (read_prim dec_bool (mr_DryRun q) v)
      else if equal_fold G k ''check_only'' then set_to (\<lambda>b. q\<lparr>mr_CheckOnly := b\<rparr>) (read_prim dec_bool (mr_CheckOnly q) v)
      else if equal_fold G k ''ignore_check'' then set_to (\<lambda>b. q\<lparr>mr_IgnoreCheck := b\<rparr>) (read_prim dec_bool (mr_IgnoreCheck q) v)
      else if equal_fold G k ''force'' then set_to (\<lambda>b. q\<lparr>mr_Force := b\<rparr>) (read_prim dec_bool (mr_Force q) v)
      else if equal_fold G k ''set_noout'' then set_to (\<lambda>b. q\<lparr>mr_SetNoout := b\<rparr>) (read_prim dec_bool (mr_SetNoout q) v)
      else if equal_fold G k ''stop_osds'' then set_to (\<lambda>b. q\<lparr>mr_StopOsds := b\<rparr>) (read_prim dec_bool (mr_StopOsds q) v)
      else None)"

definition maintenance_zero :: maintenance_request where
  "maintenance_zero = \<lparr>mr_Status = '''', mr_DryRun = False, mr_CheckOnly = False, mr_IgnoreCheck = False, mr_Force = False,
     mr_SetNoout = False, mr_StopOsds = False\<rparr>"

datatype maintenance_response = MaintenanceDone "op_result list" | MaintenanceFailed "op_result list"
  | MaintenanceBadRequest go_error | MaintenanceInternal go_error

definition cmdPutMaintenance :: "upkeep_env \<Rightarrow> string \<Rightarrow> json option \<Rightarrow> maintenance_response io" where
  "cmdPutMaintenance U nodeVar body =
     (case PathUnescape nodeVar of
        Inl e \<Rightarrow> io_return (MaintenanceBadRequest e)
      | Inr node \<Rightarrow>
          (case unmarshal (read_struct (maintenance_field (oe_lib (ue_osd U))) maintenance_zero) body of
             None \<Rightarrow> io_return (MaintenanceInternal (err_new ''failed decoding body''))
           | Some q \<Rightarrow>
               io_bind (attempt
                 (if mr_Status q = ''maintenance'' then Maintenance_Enter U node q
                  else if mr_Status q = ''non-maintenance'' then Maintenance_Exit U node q
                  else io_fail (err_new (''unknown status encounter: '' @ [CHR 0x27] @ mr_Status q @ [CHR 0x27] @ '', can only be '' @
                    [CHR 0x27] @ ''maintenance'' @ [CHR 0x27] @ '' or '' @ [CHR 0x27] @ ''non-maintenance'' @ [CHR 0x27])))) (\<lambda>r.
                 io_return (case r of
                   Inl e \<Rightarrow> MaintenanceBadRequest e
                 | Inr results \<Rightarrow>
                     if list_ex (\<lambda>x. or_Error x \<noteq> '''') results \<and> \<not> mr_Force q then MaintenanceFailed results
                     else MaintenanceDone results))))"

text \<open>What a failed response tells the caller.\<close>

definition failed_text :: "op_result list \<Rightarrow> string" where
  "failed_text results =
     ''maintenance operations failed: ['' @
     join_with '' '' (map (\<lambda>r. ''('' @ or_Error r @ '')'') (filter (\<lambda>r. or_Error r \<noteq> '''') results)) @ '']''"

end
