(* ===== verification/Upkeep_Claims.thy ===== *)
theory Upkeep_Claims
  imports Member_Upkeep
begin

text \<open>
  What upkeep asks for and when: the release of the OSDs, the removal of a member, and maintenance mode.
\<close>

section \<open>What the log shows\<close>

text \<open>A reading of the environment with a certain result.\<close>

definition saw :: "request \<Rightarrow> (history \<Rightarrow> string + 'a) \<Rightarrow> ('a \<Rightarrow> bool) \<Rightarrow> history \<Rightarrow> bool" where
  "saw r f P h \<longleftrightarrow> (\<exists>k < length h. h ! k = r \<and> (case f (take k h) of Inr v \<Rightarrow> P v | Inl _ \<Rightarrow> False))"

lemma saw_snoc: "saw r f P (h @ [x]) \<longleftrightarrow> saw r f P h \<or> x = r \<and> (case f h of Inr v \<Rightarrow> P v | Inl _ \<Rightarrow> False)"
proof
  assume "saw r f P (h @ [x])"
  then obtain k where "k < Suc (length h)" "(h @ [x]) ! k = r" "case f (take k (h @ [x])) of Inr v \<Rightarrow> P v | Inl _ \<Rightarrow> False"
    by (auto simp: saw_def)
  then show "saw r f P h \<or> x = r \<and> (case f h of Inr v \<Rightarrow> P v | Inl _ \<Rightarrow> False)"
    by (cases "k = length h") (auto simp: saw_def nth_append)
next
  assume "saw r f P h \<or> x = r \<and> (case f h of Inr v \<Rightarrow> P v | Inl _ \<Rightarrow> False)"
  then show "saw r f P (h @ [x])"
  proof
    assume "saw r f P h"
    then show ?thesis unfolding saw_def by (force simp: nth_append)
  next
    assume "x = r \<and> (case f h of Inr v \<Rightarrow> P v | Inl _ \<Rightarrow> False)"
    then show ?thesis unfolding saw_def by (intro exI [of _ "length h"]) simp
  qed
qed

lemma grows_saw: "grows (saw r f P)"
  by (simp add: grows_def saw_snoc)

lemma saw_mono: "saw r f P h \<Longrightarrow> (\<And>v. P v \<Longrightarrow> P' v) \<Longrightarrow> saw r f P' h"
  unfolding saw_def by (metis (mono_tags, lifting) sum.case_eq_if)

abbreviation asked :: "upkeep_env \<Rightarrow> (reply \<Rightarrow> bool) \<Rightarrow> request \<Rightarrow> history \<Rightarrow> bool" where
  "asked U \<equiv> happened (oe_host (ue_osd U))"

lemma asked_mono: "asked U P r h \<Longrightarrow> (\<And>a. P a \<Longrightarrow> P' a) \<Longrightarrow> asked U P' r h"
  unfolding happened_def by blast

text \<open>Steps that keep a growing fact and add what they saw; errors promise nothing.\<close>

lemma triple_print: "triple Q Pre f Post (\<lambda>_ _. True) \<Longrightarrow> triple Q Pre (io_print pre f) Post (\<lambda>_ _. True)"
  unfolding triple_def io_print_def
  by (intro allI impI) (drule spec, drule (1) mp, auto split: prod.splits sum.splits)

lemma triple_wrapped: "triple Q Pre f Post (\<lambda>_ _. True) \<Longrightarrow> triple Q Pre (io_wrap pre f) Post (\<lambda>_ _. True)"
  by (rule triple_wrap) (auto intro: triple_weaken)

lemma triple_command:
  assumes "grows I" "\<And>h. I h \<Longrightarrow> Q h r"
  shows "triple Q I (up_must U r) (\<lambda>a h. I h \<and> asked U (\<lambda>x. x = a \<and> answered x) r h) (\<lambda>_ _. True)"
  by (rule triple_must) (use assms in \<open>auto simp: happened_snoc dest: growsD\<close>)

lemma triple_saw:
  assumes "grows I" "\<And>h. I h \<Longrightarrow> Q h r"
  shows "triple Q I (observe r v) (\<lambda>x h. I h \<and> saw r v (\<lambda>y. y = x) h) (\<lambda>_ _. True)"
  by (rule triple_observe) (use assms in \<open>auto simp: saw_snoc dest: growsD\<close>)

lemma only_print: "only R f \<Longrightarrow> only R (io_print pre f)"
  unfolding only_def io_print_def by (metis (mono_tags, lifting) old.sum.exhaust prod.collapse snd_conv split_conv sum.case)

section \<open>The release of the OSDs\<close>

definition uniform_versions :: "upkeep_env \<Rightarrow> reply \<Rightarrow> bool" where
  "uniform_versions U a \<longleftrightarrow> answered a \<and>
     (case read_versions (oe_lib (ue_osd U)) (reply_json a) of None \<Rightarrow> False | Some v \<Rightarrow> length (cv_Overall v) \<le> 1 \<and> cv_Osd v \<noteq> [])"

definition codename :: "upkeep_env \<Rightarrow> string \<Rightarrow> reply \<Rightarrow> bool" where
  "codename U version a \<longleftrightarrow> answered a \<and> (let parts = Fields (ue_text U) (reply_text a) in 6 \<le> length parts \<and> version = parts ! (length parts - 2))"

definition other_release :: "string \<Rightarrow> reply \<Rightarrow> bool" where
  "other_release version a \<longleftrightarrow> answered a \<and> (\<exists>j r. reply_json a = Some j \<and> required_release j = Some r \<and> r \<noteq> version)"

definition same_release :: "string \<Rightarrow> reply \<Rightarrow> bool" where
  "same_release version a \<longleftrightarrow> answered a \<and> (\<exists>j. reply_json a = Some j \<and> required_release j = Some version)"

definition release_step :: "upkeep_env \<Rightarrow> history \<Rightarrow> request \<Rightarrow> bool" where
  "release_step U h r \<longleftrightarrow> r \<in> {version_cmd, versions_cmd, osd_dump_cmd} \<or>
     (\<exists>version. r = require_release_cmd version \<and> asked U (codename U version) version_cmd h \<and>
        asked U (uniform_versions U) versions_cmd h \<and> asked U (other_release version) osd_dump_cmd h)"

lemma release_steps:
  "release_step U h version_cmd" "release_step U h versions_cmd" "release_step U h osd_dump_cmd"
  by (simp_all add: release_step_def)

abbreviation mixed_so_far :: "upkeep_env \<Rightarrow> history \<Rightarrow> bool" where
  "mixed_so_far U h \<equiv> \<not> asked U (uniform_versions U) versions_cmd h"

lemma triple_current:
  "triple (release_step U) (\<lambda>h. h = []) (getCurrentVersion U)
    (\<lambda>v h. asked U (codename U v) version_cmd h \<and> mixed_so_far U h) (\<lambda>_ _. True)"
proof -
  have other: "version_cmd \<noteq> versions_cmd" by (simp add: version_cmd_def versions_cmd_def)
  have command: "triple (release_step U) (\<lambda>h. h = []) (up_must U version_cmd)
      (\<lambda>a h. asked U (\<lambda>x. x = a \<and> answered x) version_cmd h \<and> mixed_so_far U h) (\<lambda>_ _. True)"
    by (rule triple_must) (auto simp: release_steps happened_def other)
  show ?thesis unfolding getCurrentVersion_def Let_def
    by (rule triple_bind [OF triple_wrapped [OF command]])
      (auto simp: codename_def Let_def intro!: triple_if triple_return triple_fail elim!: asked_mono)
qed

lemma triple_attempts:
  assumes "grows I"
  shows "triple (release_step U) (\<lambda>h. I h \<and> mixed_so_far U h) (version_attempts U k)
    (\<lambda>b h. I h \<and> (b \<longleftrightarrow> asked U (uniform_versions U) versions_cmd h)) (\<lambda>_ _. True)"
proof (induction k)
  case 0
  show ?case by (auto intro!: triple_return)
next
  case (Suc k)
  let ?Seen = "\<lambda>a h. I h \<and> asked U (\<lambda>x. x = a \<and> answered x) versions_cmd h \<and> (uniform_versions U a \<or> mixed_so_far U h)"
  let ?Post = "\<lambda>b h. I h \<and> (b \<longleftrightarrow> asked U (uniform_versions U) versions_cmd h)"
  have command: "triple (release_step U) (\<lambda>h. I h \<and> mixed_so_far U h) (up_must U versions_cmd) ?Seen (\<lambda>_ _. True)"
    by (rule triple_must) (use assms in \<open>auto simp: release_steps happened_snoc dest: growsD\<close>)
  have more: "triple (release_step U) (?Seen a) (version_attempts U k) ?Post (\<lambda>_ _. True)" if "\<not> uniform_versions U a" for a
    by (rule triple_weaken [OF Suc]) (use that in auto)
  have yes: "triple (release_step U) (?Seen a) (io_return True) ?Post (\<lambda>_ _. True)" if "uniform_versions U a \<or> \<not> answered a" for a
    by (rule triple_return) (use that in \<open>auto elim!: asked_mono\<close>)
  have no: "triple (release_step U) (?Seen a) (io_return False) ?Post (\<lambda>_ _. True)" if "\<not> uniform_versions U a" for a
    by (rule triple_return) (use that in auto)
  show ?case unfolding version_attempts.simps
    by (rule triple_bind [OF triple_wrapped [OF command]], intro triple_option triple_if triple_fail TrueI more no yes)
      (auto simp: uniform_versions_def)
qed

lemma triple_release_required:
  assumes "grows I"
  shows "triple (release_step U) I (osdReleaseRequired U version)
    (\<lambda>b h. I h \<and> (if b then asked U (other_release version) osd_dump_cmd h else asked U (same_release version) osd_dump_cmd h)) (\<lambda>_ _. True)"
proof -
  have command: "triple (release_step U) I (up_must U osd_dump_cmd) (\<lambda>a h. I h \<and> asked U (\<lambda>x. x = a \<and> answered x) osd_dump_cmd h) (\<lambda>_ _. True)"
    by (rule triple_command [OF assms]) (rule release_steps)
  show ?thesis unfolding osdReleaseRequired_def
    by (rule triple_bind [OF triple_wrapped [OF command]])
      (auto simp: other_release_def same_release_def split: option.split json.split intro!: triple_fail triple_return elim!: asked_mono)
qed

text \<open>A bound on the number of requests.\<close>

definition at_most :: "nat \<Rightarrow> 'a io \<Rightarrow> bool" where
  "at_most n f \<longleftrightarrow> (\<forall>h. length (snd (f h)) \<le> length h + n)"

lemma at_most_return: "at_most n (io_return v)" and at_most_fail: "at_most n (io_fail e)" and at_most_must: "at_most 1 (must H r)"
  by (auto simp: at_most_def io_return_def io_fail_def must_def io_bind_def ask_def)

lemma at_most_bind: "at_most n f \<Longrightarrow> (\<And>v. at_most m (g v)) \<Longrightarrow> at_most (n + m) (io_bind f g)"
  unfolding at_most_def io_bind_def
  by (auto split: prod.splits sum.splits) (metis (no_types, lifting) add.assoc add.commute add_le_mono1 le_trans snd_conv trans_le_add1)+

lemma at_most_wrap: "at_most n f \<Longrightarrow> at_most n (io_wrap pre f)"
  unfolding at_most_def io_wrap_def by (metis (mono_tags, lifting) old.sum.exhaust prod.collapse snd_conv split_conv sum.case)

lemma at_most_more: "at_most n f \<Longrightarrow> n \<le> m \<Longrightarrow> at_most m f"
  unfolding at_most_def by (meson add_left_mono le_trans)

lemma at_most_command: "(\<And>v. at_most n (g v)) \<Longrightarrow> at_most (Suc n) (io_bind (io_wrap pre (must H r)) g)"
  using at_most_bind [OF at_most_wrap [OF at_most_must]] by fastforce

lemma at_most_attempts: "at_most k (version_attempts U k)"
proof (induction k)
  case (Suc k)
  then show ?case unfolding version_attempts.simps
    by (intro at_most_command) (auto split: option.split intro: at_most_return at_most_fail)
qed (simp add: at_most_return)

lemma at_most_PostRefresh: "at_most 13 (PostRefresh U)"
proof -
  have update: "at_most 1 (updateOSDRelease U v)" for v
    unfolding updateOSDRelease_def using at_most_command [of 0, OF at_most_return] by fastforce
  have required: "at_most 1 (osdReleaseRequired U v)" for v
    unfolding osdReleaseRequired_def using at_most_command [of 0]
    by (auto split: option.split json.split intro!: at_most_command [of 0, simplified] at_most_return at_most_fail)
  have current: "at_most 1 (getCurrentVersion U)"
    unfolding getCurrentVersion_def Let_def by (auto intro!: at_most_command [of 0, simplified] at_most_return at_most_fail)
  have "at_most (1 + (10 + (1 + 1))) (PostRefresh U)" unfolding PostRefresh_def checkVersions_def
    by (intro at_most_bind at_most_wrap current at_most_attempts)
      (auto intro!: at_most_return at_most_more [OF at_most_bind [OF at_most_wrap [OF required], of 1]] at_most_wrap update [simplified])
  then show ?thesis by simp
qed

text \<open>How a run ends without an error.\<close>

definition release_settled :: "upkeep_env \<Rightarrow> history \<Rightarrow> bool" where
  "release_settled U h \<longleftrightarrow> (\<exists>version. asked U (codename U version) version_cmd h \<and>
     (asked U (uniform_versions U) versions_cmd h \<longrightarrow>
        asked U answered (require_release_cmd version) h \<or> asked U (same_release version) osd_dump_cmd h))"

lemma triple_PostRefresh: "triple (release_step U) (\<lambda>h. h = []) (PostRefresh U) (\<lambda>_ h. release_settled U h) (\<lambda>_ _. True)"
proof -
  let ?Known = "\<lambda>version h. asked U (codename U version) version_cmd h"
  have update: "triple (release_step U) (\<lambda>h. ?Known v h \<and> asked U (uniform_versions U) versions_cmd h \<and> asked U (other_release v) osd_dump_cmd h)
      (updateOSDRelease U v) (\<lambda>_ h. release_settled U h) (\<lambda>_ _. True)" for v
    unfolding updateOSDRelease_def
    by (rule triple_bind [OF triple_wrapped [OF triple_command]], auto intro!: grows_rules simp: release_step_def)
      (rule triple_return, auto simp: release_settled_def elim!: asked_mono)
  have decide: "triple (release_step U) (\<lambda>h. ?Known v h \<and> asked U (uniform_versions U) versions_cmd h)
      (io_bind (io_wrap ''OSD release check failed: '' (osdReleaseRequired U v)) (\<lambda>b. if \<not> b then io_return ()
         else io_wrap ''OSD release update failed: '' (updateOSDRelease U v))) (\<lambda>_ h. release_settled U h) (\<lambda>_ _. True)" for v
    by (rule triple_bind [OF triple_wrapped [OF triple_release_required]], intro grows_rules)
      (auto intro!: triple_return triple_wrapped triple_weaken [OF update] simp: release_settled_def)
  show ?thesis unfolding PostRefresh_def checkVersions_def
    by (rule triple_bind [OF triple_wrapped [OF triple_current]], rule triple_bind [OF triple_wrapped [OF triple_attempts]], rule grows_happened)
      (auto intro!: triple_if triple_return triple_weaken [OF decide] simp: release_settled_def)
qed

text \<open>C20 (safety). When a refresh raises the release that OSDs must have. It makes at most thirteen requests,
  all of them queries but one: the release is required only after \<^verbatim>\<open>ceph -v\<close> named it, after all
  daemons including some OSD were seen on one version, and after the OSD map required another release. A run
  without an error knows the release of this member and, if it saw one version everywhere, raised the required
  release to it or found it there. This holds whatever the commands answer.\<close>

theorem release_update_guarded:
  assumes "PostRefresh U [] = (r, h)"
  shows "length h \<le> 13 \<and> (\<forall>k < length h. release_step U (take k h) (h ! k)) \<and> (r = Inr () \<longrightarrow> release_settled U h)"
proof -
  from triple_PostRefresh refl assms obtain ext where ext: "h = [] @ ext" "allowed_ext (release_step U) [] ext"
      "case r of Inr v \<Rightarrow> release_settled U h | Inl e \<Rightarrow> True"
    by (rule tripleD)
  moreover have "length h \<le> 13" using at_most_PostRefresh [of U] assms by (metis at_most_def add_0 list.size(3) snd_conv)
  ultimately show ?thesis using allowed_ext_nth [OF ext(2)] by auto
qed

section \<open>Removing a member\<close>

abbreviation own_name :: "upkeep_env \<Rightarrow> string" where
  "own_name U \<equiv> oe_name (ue_osd U)"

text \<open>Enough control services besides those of a node.\<close>

definition enough_without :: "string \<Rightarrow> nat \<Rightarrow> nat \<Rightarrow> nat \<Rightarrow> (string \<times> string) list \<Rightarrow> bool" where
  "enough_without node mons mgrs mdss services \<longleftrightarrow>
     (let others = (\<lambda>s. length (filter (\<lambda>r. fst r \<noteq> node \<and> snd r = s) services)) in
      mons \<le> others ''mon'' \<and> mgrs \<le> others ''mgr'' \<and> mdss \<le> others ''mds'')"

lemma EnsureNonOsdSvcEnough_iff: "EnsureNonOsdSvcEnough services node a b c = Inr () \<longleftrightarrow> enough_without node a b c services"
  by (auto simp: EnsureNonOsdSvcEnough_def enough_without_def Let_def)

abbreviation saw_services :: "upkeep_env \<Rightarrow> ((string \<times> string) list \<Rightarrow> bool) \<Rightarrow> history \<Rightarrow> bool" where
  "saw_services U \<equiv> saw (Probe ''GET'' [''services'']) (ue_services U)"

definition may_leave :: "upkeep_env \<Rightarrow> history \<Rightarrow> bool" where
  "may_leave U h \<longleftrightarrow> saw (Probe ''GET'' [''cluster'']) (ue_members U) (\<lambda>ms. own_name U \<in> set ms) h \<and>
     saw (Probe ''GET'' [''disks'']) (oe_disks (ue_osd U)) (\<lambda>ds. own_name U \<notin> cd_Location ` set ds) h \<and>
     saw_services U (enough_without (own_name U) 3 1 1) h"

definition removal_step :: "upkeep_env \<Rightarrow> bool \<Rightarrow> history \<Rightarrow> request \<Rightarrow> bool" where
  "removal_step U force h r \<longleftrightarrow>
     r \<in> {Probe ''LocalClient'' [], Probe ''GET'' [''cluster''], Probe ''GET'' [''disks''], Probe ''GET'' [''services'']} \<or>
     (\<exists>s. r = delete_service_call (own_name U) s \<and> saw_services U (\<lambda>rows. (own_name U, s) \<in> set rows) h \<and> (force \<or> may_leave U h))"

lemma grows_may_leave: "grows (may_leave U)"
  unfolding may_leave_def by (intro grows_conj grows_saw)

lemma grows_imp: "grows P \<Longrightarrow> grows (\<lambda>h. b \<longrightarrow> P h)"
  by (simp add: grows_def)

lemma triple_delete_each:
  assumes "grows K" "\<And>h s. K h \<Longrightarrow> (name, s) \<in> set rows \<Longrightarrow> Q h (delete_service_call name s)"
  shows "triple Q K (delete_each U name rows)
    (\<lambda>es h. K h \<and> (es = [] \<longrightarrow> (\<forall>s. (name, s) \<in> set rows \<longrightarrow> asked U answered (delete_service_call name s) h))) (\<lambda>_ _. True)"
  using assms
proof (induction rows arbitrary: K)
  case Nil
  then show ?case by (auto intro!: triple_return)
next
  case (Cons row rows)
  obtain l s where row: "row = (l, s)" by (cases row)
  show ?case
  proof (cases "l = name")
    case False
    have "triple Q K (delete_each U name rows)
        (\<lambda>es h. K h \<and> (es = [] \<longrightarrow> (\<forall>s. (name, s) \<in> set rows \<longrightarrow> asked U answered (delete_service_call name s) h))) (\<lambda>_ _. True)"
      by (rule Cons.IH [OF Cons.prems(1)]) (auto intro: Cons.prems(2))
    with False row show ?thesis by auto
  next
    case True
    let ?call = "delete_service_call name s"
    have one: "triple Q K (api_DeleteService U name s) (\<lambda>_ h. K h \<and> asked U answered ?call h) (\<lambda>_. K)"
      unfolding api_DeleteService_def
      by (rule triple_bind [OF triple_wrap [OF triple_must [where Post = "\<lambda>_ h. K h \<and> asked U answered ?call h"]]])
        (use Cons.prems row True in \<open>auto simp: happened_snoc dest: growsD intro!: triple_return\<close>)
    have tried: "triple Q K (attempt (api_DeleteService U name s)) (\<lambda>r h. K h \<and> ((\<exists>v. r = Inr v) \<longrightarrow> asked U answered ?call h)) (\<lambda>_ _. True)"
      by (rule triple_attempt, rule triple_weaken [OF one]) auto
    have rest: "triple Q (\<lambda>h. K h \<and> ((\<exists>v. r = Inr v) \<longrightarrow> asked U answered ?call h)) (delete_each U name rows)
        (\<lambda>es h. (K h \<and> ((\<exists>v. r = Inr v) \<longrightarrow> asked U answered ?call h)) \<and>
          (es = [] \<longrightarrow> (\<forall>s. (name, s) \<in> set rows \<longrightarrow> asked U answered (delete_service_call name s) h))) (\<lambda>_ _. True)" for r :: "go_error + unit"
      by (rule Cons.IH) (use Cons.prems in \<open>auto intro!: grows_conj grows_imp grows_happened\<close>)
    show ?thesis using True row
      by (auto intro!: triple_bind [OF tried] triple_bind [OF rest] triple_return split: sum.splits)
  qed
qed

text \<open>What an unforced removal that succeeded did.\<close>

definition services_gone :: "upkeep_env \<Rightarrow> history \<Rightarrow> bool" where
  "services_gone U h \<longleftrightarrow> saw_services U (\<lambda>rows. \<forall>s. (own_name U, s) \<in> set rows \<longrightarrow> asked U answered (delete_service_call (own_name U) s) h) h"

lemma removal_queries:
  "removal_step U force h (Probe ''LocalClient'' [])" "removal_step U force h (Probe ''GET'' [''cluster''])"
  "removal_step U force h (Probe ''GET'' [''disks''])" "removal_step U force h (Probe ''GET'' [''services''])"
  by (simp_all add: removal_step_def)

lemma triple_prerequisites:
  "triple (removal_step U force) (\<lambda>_. True) (checkPrerequisites U (own_name U)) (\<lambda>_ h. may_leave U h) (\<lambda>_ _. True)"
proof -
  let ?Members = "\<lambda>h. saw (Probe ''GET'' [''cluster'']) (ue_members U) (\<lambda>ms. own_name U \<in> set ms) h"
  let ?Disks = "\<lambda>h. saw (Probe ''GET'' [''disks'']) (oe_disks (ue_osd U)) (\<lambda>ds. own_name U \<notin> cd_Location ` set ds) h"
  have members: "triple (removal_step U force) (\<lambda>_. True) (client_GetClusterMembers U) (\<lambda>ms h. own_name U \<in> set ms \<longrightarrow> ?Members h) (\<lambda>_ _. True)"
    unfolding client_GetClusterMembers_def
    by (rule triple_weaken [OF triple_saw [where I = "\<lambda>_. True"]]) (auto simp: grows_const removal_queries elim!: saw_mono)
  have disks: "triple (removal_step U force) ?Members (client_GetDisks U)
      (\<lambda>ds h. \<not> list_ex (\<lambda>d. cd_Location d = own_name U) ds \<longrightarrow> ?Members h \<and> ?Disks h) (\<lambda>_ _. True)"
    unfolding client_GetDisks_def
    by (rule triple_wrapped, rule triple_weaken [OF triple_saw [where I = ?Members]])
      (auto simp: grows_saw removal_queries list_ex_iff elim!: saw_mono)
  have services: "triple (removal_step U force) (\<lambda>h. ?Members h \<and> ?Disks h) (client_GetServices U)
      (\<lambda>rows h. enough_without (own_name U) 3 1 1 rows \<longrightarrow> may_leave U h) (\<lambda>_ _. True)"
    unfolding client_GetServices_def
    by (rule triple_wrapped, rule triple_weaken [OF triple_saw [where I = "\<lambda>h. ?Members h \<and> ?Disks h"]])
      (auto simp: grows_saw grows_conj removal_queries may_leave_def elim!: saw_mono)
  have decide: "triple (removal_step U force) (\<lambda>h. enough_without (own_name U) 3 1 1 rows \<longrightarrow> may_leave U h)
      (of_result (EnsureNonOsdSvcEnough rows (own_name U) 3 1 1)) (\<lambda>_ h. may_leave U h) (\<lambda>_ _. True)" for rows
    by (auto simp: of_result_def EnsureNonOsdSvcEnough_iff [symmetric] split: sum.split intro!: triple_return triple_fail)
  show ?thesis unfolding checkPrerequisites_def
    by (rule triple_bind [OF triple_print [OF members]], rule triple_if, rule triple_fail, simp,
        rule triple_bind [OF triple_print [OF triple_weaken [OF disks]]], simp, assumption, simp, rule triple_if, rule triple_fail, simp,
        rule triple_bind [OF triple_print [OF triple_weaken [OF services]]], simp, assumption, simp)
      (rule triple_print [OF decide])
qed

lemma triple_delete_services:
  assumes "\<And>h. K h \<Longrightarrow> force \<or> may_leave U h" "grows K"
  shows "triple (removal_step U force) K (deleteNodeServices U (own_name U)) (\<lambda>_ h. services_gone U h) (\<lambda>_ _. True)"
proof -
  let ?name = "own_name U"
  have listed: "triple (removal_step U force) K (client_GetServices U) (\<lambda>rows h. K h \<and> saw_services U (\<lambda>y. y = rows) h) (\<lambda>_ _. True)"
    unfolding client_GetServices_def by (rule triple_wrapped, rule triple_saw [OF assms(2)]) (rule removal_queries)
  have each: "triple (removal_step U force) (\<lambda>h. K h \<and> saw_services U (\<lambda>y. y = rows) h) (delete_each U ?name rows)
      (\<lambda>es h. (K h \<and> saw_services U (\<lambda>y. y = rows) h) \<and>
        (es = [] \<longrightarrow> (\<forall>s. (?name, s) \<in> set rows \<longrightarrow> asked U answered (delete_service_call ?name s) h))) (\<lambda>_ _. True)" for rows
    by (rule triple_delete_each) (use assms in \<open>auto simp: removal_step_def intro!: grows_conj grows_saw elim!: saw_mono\<close>)
  show ?thesis unfolding deleteNodeServices_def
    by (rule triple_bind [OF listed], rule triple_bind [OF each])
      (auto simp: errors_Join_def services_gone_def intro!: triple_return triple_fail elim!: saw_mono)
qed

lemma triple_PreRemove: "triple (removal_step U force) (\<lambda>h. h = []) (PreRemove U force) (\<lambda>_ h. force \<or> services_gone U h) (\<lambda>_ _. True)"
proof -
  have connect: "triple (removal_step U force) (\<lambda>h. h = []) (up_must U (Probe ''LocalClient'' [])) (\<lambda>_ _. True) (\<lambda>_ _. True)"
    by (rule triple_must) (auto simp: removal_queries)
  have check: "triple (removal_step U force) (\<lambda>_. True) (if \<not> force then checkPrerequisites U (own_name U) else io_return ())
      (\<lambda>_ h. force \<or> may_leave U h) (\<lambda>_ _. True)"
    by (rule triple_if, rule triple_weaken [OF triple_prerequisites]) (auto intro!: triple_return)
  have delete: "triple (removal_step U force) (\<lambda>h. force \<or> may_leave U h) (attempt (deleteNodeServices U (own_name U)))
      (\<lambda>r h. (\<exists>v. r = Inr v) \<longrightarrow> services_gone U h) (\<lambda>_ _. True)"
    by (rule triple_attempt, rule triple_weaken [OF triple_delete_services [where K = "\<lambda>h. force \<or> may_leave U h"]])
      (auto intro!: grows_disj grows_const grows_may_leave)
  show ?thesis unfolding PreRemove_def removeNode_def
    by (rule triple_bind [OF connect], rule triple_bind [OF check], rule triple_bind [OF delete])
      (auto split: sum.split intro!: triple_return triple_fail)
qed

text \<open>C19 (safety). What the hook that runs before a member leaves may do. Apart from queries it only asks for the
  deletion of services that the service list showed on this member, and unless the removal is forced it does so
  only after the member was seen in the cluster, the disk list showed no disk of it, and the service list showed
  at least three monitors, one manager and one metadata server elsewhere. When an unforced run reports success,
  every service that a list showed on the member was asked to be deleted and the call succeeded.\<close>

theorem member_removal_guarded:
  assumes "PreRemove U force [] = (r, h)"
  shows "(\<forall>k < length h. removal_step U force (take k h) (h ! k)) \<and> (r = Inr () \<longrightarrow> force \<or> services_gone U h)"
proof -
  from triple_PreRemove refl assms obtain ext where ext: "h = [] @ ext" "allowed_ext (removal_step U force) [] ext"
      "case r of Inr v \<Rightarrow> force \<or> services_gone U h | Inl e \<Rightarrow> True"
    by (rule tripleD)
  then show ?thesis using allowed_ext_nth [OF ext(2)] by auto
qed

section \<open>Maintenance mode\<close>

text \<open>What the checks before maintenance look at.\<close>

definition osds_of :: "string \<Rightarrow> configured_disk list \<Rightarrow> int list" where
  "osds_of node disks = map cd_OSD (filter (\<lambda>d. cd_Location d = node) disks)"

definition disks_read :: request where
  "disks_read = Db ''diskObjects'' []"

definition services_read :: request where
  "services_read = Db ''services'' []"

definition stop_osds_cmd :: request where
  "stop_osds_cmd = Cmd [''snapctl'', ''stop'', ''microceph.osd'', ''--disable'']"

definition status_cmd :: request where
  "status_cmd = Cmd [''ceph'', ''-s'', ''-f'', ''json'']"

definition mgr_dump_cmd :: request where
  "mgr_dump_cmd = Cmd [''ceph'', ''mgr'', ''dump'', ''-f'', ''json'']"

definition fs_status_cmd :: request where
  "fs_status_cmd = Cmd [''ceph'', ''fs'', ''status'', ''-f'', ''json'']"

definition mgr_names :: "upkeep_env \<Rightarrow> reply \<Rightarrow> string list" where
  "mgr_names U out = gj_names U out ''standbys.#.name'' @ [gj_string (oe_gjson (ue_osd U)) (gj_get (oe_gjson (ue_osd U)) out ''active_name'')]"

text \<open>The OSDs of the node may stop, and elsewhere a majority of all monitors, a manager and a metadata server are active.\<close>

definition stop_allowed :: "upkeep_env \<Rightarrow> string \<Rightarrow> history \<Rightarrow> bool" where
  "stop_allowed U node h \<longleftrightarrow>
     (\<exists>disks. saw disks_read (oe_disks (ue_osd U)) (\<lambda>y. y = disks) h \<and> asked U answered (ok_to_stop_cmd (osds_of node disks)) h)"

definition daemons_enough :: "upkeep_env \<Rightarrow> string \<Rightarrow> history \<Rightarrow> bool" where
  "daemons_enough U node h \<longleftrightarrow>
     (\<exists>rows mons mgrs mdss. saw services_read (ue_services U) (\<lambda>y. y = rows) h \<and>
        asked U (\<lambda>a. answered a \<and> gj_names U a ''quorum_names'' = mons) status_cmd h \<and>
        asked U (\<lambda>a. answered a \<and> mgr_names U a = mgrs) mgr_dump_cmd h \<and>
        asked U (\<lambda>a. answered a \<and> gj_names U a ''mdsmap.#.name'' = mdss) fs_status_cmd h \<and>
        length (filter (\<lambda>r. snd r = ''mon'') rows) < 2 * length (filter (\<lambda>m. m \<noteq> node) mons) \<and>
        (\<exists>m \<in> set mgrs. m \<noteq> node) \<and> (\<exists>m \<in> set mdss. m \<noteq> node))"

lemma daemons_enoughI:
  assumes "saw services_read (ue_services U) (\<lambda>y. y = rows) h"
    and "asked U (\<lambda>a. answered a \<and> gj_names U a ''quorum_names'' = mons) status_cmd h"
    and "asked U (\<lambda>a. answered a \<and> mgr_names U a = mgrs) mgr_dump_cmd h"
    and "asked U (\<lambda>a. answered a \<and> gj_names U a ''mdsmap.#.name'' = mdss) fs_status_cmd h"
    and "enough_without node (length (filter (\<lambda>r. snd r = ''mon'') rows) div 2 + 1) 1 1
      (map (\<lambda>l. (l, ''mon'')) mons @ map (\<lambda>l. (l, ''mgr'')) mgrs @ map (\<lambda>l. (l, ''mds'')) mdss)"
  shows "daemons_enough U node h"
proof -
  let ?n = "length (filter (\<lambda>r. snd r = ''mon'') rows)"
  have "?n div 2 + 1 \<le> length (filter (\<lambda>m. m \<noteq> node) mons)" "1 \<le> length (filter (\<lambda>m. m \<noteq> node) mgrs)" "1 \<le> length (filter (\<lambda>m. m \<noteq> node) mdss)"
    using assms(5) by (simp_all add: enough_without_def Let_def filter_map comp_def)
  then have "?n < 2 * length (filter (\<lambda>m. m \<noteq> node) mons)" "\<exists>m \<in> set mgrs. m \<noteq> node" "\<exists>m \<in> set mdss. m \<noteq> node"
    by (auto simp: Suc_le_eq filter_empty_conv)
  with assms(1-4) show ?thesis unfolding daemons_enough_def by blast
qed

definition enter_looks :: "request \<Rightarrow> bool" where
  "enter_looks r \<longleftrightarrow> r \<in> {disks_read, services_read, status_cmd, mgr_dump_cmd, fs_status_cmd} \<or> (\<exists>osds. r = ok_to_stop_cmd osds)"

definition cleared :: "upkeep_env \<Rightarrow> string \<Rightarrow> maintenance_request \<Rightarrow> history \<Rightarrow> bool" where
  "cleared U node q h \<longleftrightarrow> \<not> mr_DryRun q \<and> \<not> mr_CheckOnly q \<and>
     (mr_IgnoreCheck q \<or> mr_Force q \<or> stop_allowed U node h \<and> daemons_enough U node h)"

definition noout_shown :: "upkeep_env \<Rightarrow> history \<Rightarrow> bool" where
  "noout_shown U h \<longleftrightarrow> asked U answered (noout_cmd True) h \<and>
     asked U (\<lambda>a. answered a \<and> ''noout'' \<in> set (gj_names U a ''flags_set'')) osd_dump_cmd h"

text \<open>The OSD map is read only after the flag was set.\<close>

definition enter_step :: "upkeep_env \<Rightarrow> string \<Rightarrow> maintenance_request \<Rightarrow> history \<Rightarrow> request \<Rightarrow> bool" where
  "enter_step U node q h r \<longleftrightarrow> enter_looks r \<or>
     r = noout_cmd True \<and> mr_SetNoout q \<and> cleared U node q h \<or>
     r = osd_dump_cmd \<and> asked U answered (noout_cmd True) h \<or>
     r = stop_osds_cmd \<and> mr_StopOsds q \<and> cleared U node q h \<and> (mr_SetNoout q \<longrightarrow> noout_shown U h)"

definition entered :: "upkeep_env \<Rightarrow> maintenance_request \<Rightarrow> history \<Rightarrow> bool" where
  "entered U q h \<longleftrightarrow> (mr_SetNoout q \<longrightarrow> noout_shown U h) \<and> (mr_StopOsds q \<longrightarrow> asked U answered stop_osds_cmd h)"

lemma grows_stop_allowed: "grows (stop_allowed U node)"
  unfolding stop_allowed_def grows_def by (auto simp: saw_snoc happened_snoc)

lemma grows_daemons_enough: "grows (daemons_enough U node)"
  unfolding grows_def
proof (intro allI impI)
  fix h r assume "daemons_enough U node h"
  then show "daemons_enough U node (h @ [r])" unfolding daemons_enough_def saw_snoc happened_snoc by blast
qed

lemma grows_noout_shown: "grows (noout_shown U)"
  unfolding noout_shown_def by (intro grows_rules)

lemma grows_cleared: "grows (cleared U node q)"
  unfolding cleared_def by (intro grows_rules grows_stop_allowed grows_daemons_enough)

text \<open>Errors of operations have a text, so a result without one stands for an operation that succeeded.\<close>

abbreviation says_why :: "go_error \<Rightarrow> history \<Rightarrow> bool" where
  "says_why e h \<equiv> etext e \<noteq> ''''"

definition clean :: "(history \<Rightarrow> bool) \<Rightarrow> op_result list \<Rightarrow> history \<Rightarrow> bool" where
  "clean G rs h \<longleftrightarrow> list_all (\<lambda>r. or_Error r = '''') rs \<longrightarrow> G h"

lemma triple_print_why: "triple Q Pre f Post (\<lambda>_ _. True) \<Longrightarrow> pre \<noteq> '''' \<Longrightarrow> triple Q Pre (io_print pre f) Post says_why"
  unfolding triple_def io_print_def
  by (intro allI impI) (drule spec, drule (1) mp, auto simp: err_new_def split: prod.splits sum.splits)

lemma triple_wrap_why: "triple Q Pre f Post (\<lambda>_ _. True) \<Longrightarrow> pre \<noteq> '''' \<Longrightarrow> triple Q Pre (io_wrap pre f) Post says_why"
  by (rule triple_wrap) (auto simp: err_wrap_def intro: triple_weaken)

lemma only_getOsds: "only enter_looks (getOsds U node)"
  unfolding getOsds_def OSD_List_def disks_query_def
  by (intro only_rules only_print only_observe) (simp add: enter_looks_def disks_read_def)

lemma only_dry_run_op: "only enter_looks (dry_run_op U node p)"
  by (cases p) (auto intro!: only_rules only_getOsds)

lemma only_dry_run: "only enter_looks (RunOperations U node ps True force)"
  by (induction ps) (auto simp: Let_def intro!: only_rules only_dry_run_op)

lemma triple_operation:
  assumes "grows Pre" "\<And>h r. enter_looks r \<Longrightarrow> Q h r"
    and run: "triple Q Pre (run_op U node p) (\<lambda>_. Mid) says_why"
    and rest: "triple Q Mid (RunOperations U node ps False False) (clean G) (\<lambda>_ _. True)"
  shows "triple Q Pre (RunOperations U node (p # ps) False False) (clean G) (\<lambda>_ _. True)"
proof -
  have describe: "triple Q Pre (dry_run_op U node p) (\<lambda>_. Pre) (\<lambda>_ _. True)"
    by (rule triple_weaken [OF only_triple [OF only_dry_run_op, of Pre]]) (use assms(1,2) in \<open>auto dest: growsD\<close>)
  have tried: "triple Q Pre (attempt (run_op U node p)) (\<lambda>r h. case r of Inl e \<Rightarrow> etext e \<noteq> '''' | Inr _ \<Rightarrow> Mid h) (\<lambda>_ _. True)"
    by (rule triple_attempt) (rule triple_weaken [OF run], auto)
  have step: "triple Q (\<lambda>h. case r of Inl e \<Rightarrow> etext e \<noteq> '''' | Inr _ \<Rightarrow> Mid h)
      (case r of Inl e \<Rightarrow> io_return [res e] | Inr _ \<Rightarrow> io_bind (RunOperations U node ps False False) (\<lambda>rs. io_return (ok # rs))) (clean G) (\<lambda>_ _. True)"
    if "\<And>e. or_Error (res e) = etext e" "or_Error ok = ''''" for r and res and ok
    using that by (cases r) (auto simp: clean_def intro!: triple_return triple_bind [OF rest])
  show ?thesis unfolding RunOperations.simps Let_def if_False
    by (rule triple_bind [OF describe], rule triple_bind [OF tried], rule step) simp_all
qed

lemma triple_no_operation: "(\<And>h. Pre h \<Longrightarrow> G h) \<Longrightarrow> triple Q Pre (RunOperations U node [] dry force) (clean G) (\<lambda>_ _. True)"
  by (auto simp: clean_def intro!: triple_return)

lemma enter_looking: "enter_looks r \<Longrightarrow> enter_step U node q h r"
  by (simp add: enter_step_def)

lemma triple_ok_to_stop:
  "triple (enter_step U node q) (\<lambda>_. True) (run_op U node CheckOsdOkToStopOps) (\<lambda>_. stop_allowed U node) says_why"
proof -
  have disks: "triple (enter_step U node q) (\<lambda>_. True) (getOsds U node)
      (\<lambda>osds h. \<exists>disks. saw disks_read (oe_disks (ue_osd U)) (\<lambda>y. y = disks) h \<and> osds = osds_of node disks) says_why"
    unfolding getOsds_def OSD_List_def disks_query_def disks_read_def [symmetric]
    by (rule triple_bind [OF triple_print_why [OF triple_saw [where I = "\<lambda>_. True"]]])
      (auto simp: grows_const enter_step_def enter_looks_def osds_of_def intro!: triple_return)
  have test: "triple (enter_step U node q) (\<lambda>h. \<exists>disks. saw disks_read (oe_disks (ue_osd U)) (\<lambda>y. y = disks) h \<and> osds = osds_of node disks)
      (testSafeStop U osds) (\<lambda>safe h. safe \<longrightarrow> stop_allowed U node h) says_why" for osds
    unfolding testSafeStop_def
    by (rule triple_bind [OF triple_ask [where Post = "\<lambda>a h. answered a \<longrightarrow> stop_allowed U node h"]])
      (auto simp: enter_step_def enter_looks_def stop_allowed_def saw_snoc happened_snoc intro!: triple_return)
  show ?thesis unfolding run_op.simps
    by (rule triple_bind [OF disks], rule triple_bind [OF test]) (auto simp: err_new_def intro!: triple_if triple_return triple_fail)
qed


lemma triple_named:
  assumes "grows I" "\<And>h. Q h r"
  shows "triple Q I (io_bind (up_must U r) (\<lambda>out. io_return (f out))) (\<lambda>x h. I h \<and> asked U (\<lambda>a. answered a \<and> f a = x) r h) (\<lambda>_ _. True)"
  by (rule triple_bind [OF triple_command [OF assms(1)]]) (use assms(2) in \<open>auto intro!: triple_return elim!: asked_mono\<close>)

lemma triple_daemons:
  assumes "grows I"
  shows "triple (enter_step U node q) I (run_op U node CheckNonOsdSvcEnoughOps) (\<lambda>_ h. I h \<and> daemons_enough U node h) says_why"
proof -
  let ?Q = "enter_step U node q"
  let ?Rows = "\<lambda>rows h. I h \<and> saw services_read (ue_services U) (\<lambda>y. y = rows) h"
  let ?Mons = "\<lambda>rows mons h. ?Rows rows h \<and> asked U (\<lambda>a. answered a \<and> gj_names U a ''quorum_names'' = mons) status_cmd h"
  let ?Mgrs = "\<lambda>rows mons mgrs h. ?Mons rows mons h \<and> asked U (\<lambda>a. answered a \<and> mgr_names U a = mgrs) mgr_dump_cmd h"
  let ?Mdss = "\<lambda>rows mons mgrs mdss h. ?Mgrs rows mons mgrs h \<and> asked U (\<lambda>a. answered a \<and> gj_names U a ''mdsmap.#.name'' = mdss) fs_status_cmd h"
  have looks: "?Q h services_read" "?Q h status_cmd" "?Q h mgr_dump_cmd" "?Q h fs_status_cmd" for h
    by (simp_all add: enter_step_def enter_looks_def)
  have g: "grows (?Rows rows)" "grows (?Mons rows mons)" "grows (?Mgrs rows mons mgrs)" for rows mons mgrs
    using assms by (intro grows_conj grows_saw grows_happened; assumption)+
  have rows: "triple ?Q I (services_List U) ?Rows (\<lambda>_ _. True)"
    unfolding services_List_def services_read_def [symmetric] by (rule triple_wrapped, rule triple_saw [OF assms]) (rule looks)
  have mons: "triple ?Q (?Rows rows) (getActiveMons U) (?Mons rows) (\<lambda>_ _. True)" for rows
    unfolding getActiveMons_def status_cmd_def [symmetric] by (rule triple_named [OF g(1)]) (rule looks)
  have mgrs: "triple ?Q (?Mons rows mons) (getActiveMgrs U) (?Mgrs rows mons) (\<lambda>_ _. True)" for rows mons
    unfolding getActiveMgrs_def mgr_dump_cmd_def [symmetric] Let_def mgr_names_def [symmetric] by (rule triple_named [OF g(2)]) (rule looks)
  have mdss: "triple ?Q (?Mgrs rows mons mgrs) (getActiveMdss U) (?Mdss rows mons mgrs) (\<lambda>_ _. True)" for rows mons mgrs
    unfolding getActiveMdss_def fs_status_cmd_def [symmetric] by (rule triple_named [OF g(3)]) (rule looks)
  have decide: "triple ?Q (?Mdss rows mons mgrs mdss)
      (of_result (EnsureNonOsdSvcEnough (map (\<lambda>l. (l, ''mon'')) mons @ map (\<lambda>l. (l, ''mgr'')) mgrs @ map (\<lambda>l. (l, ''mds'')) mdss) node
         (length (filter (\<lambda>r. snd r = ''mon'') rows) div 2 + 1) 1 1)) (\<lambda>_ h. I h \<and> daemons_enough U node h) (\<lambda>_ _. True)" for rows mons mgrs mdss
    unfolding of_result_def
    by (rule triple_sum, rule triple_fail, simp, rule triple_return) (auto simp: EnsureNonOsdSvcEnough_iff intro: daemons_enoughI)
  show ?thesis unfolding run_op.simps run_CheckNonOsdSvcEnough_def Let_def
    by (rule triple_bind [OF triple_print_why [OF rows]], simp, rule triple_bind [OF triple_print_why [OF mons]], simp,
        rule triple_bind [OF triple_print_why [OF mgrs]], simp, rule triple_bind [OF triple_print_why [OF mdss]], simp)
      (rule triple_print_why [OF decide], simp)
qed

lemma triple_set_noout:
  assumes "mr_SetNoout q"
  shows "triple (enter_step U node q) (cleared U node q) (run_op U node SetNooutOps)
    (\<lambda>_ h. cleared U node q h \<and> asked U answered (noout_cmd True) h) says_why"
proof -
  have "triple (enter_step U node q) (cleared U node q) (up_must U (noout_cmd True)) (\<lambda>_ h. cleared U node q h \<and> asked U answered (noout_cmd True) h) (\<lambda>_ _. True)"
    by (rule triple_must) (use assms growsD [OF grows_cleared] in \<open>auto simp: enter_step_def happened_snoc\<close>)
  from triple_wrap_why [OF this] show ?thesis unfolding run_op.simps setOsdNooutFlag_def
    by (intro triple_bind [where Mid = "\<lambda>_ h. cleared U node q h \<and> asked U answered (noout_cmd True) h"]) (auto intro!: triple_return)
qed

lemma triple_assert_noout:
  "triple (enter_step U node q) (\<lambda>h. cleared U node q h \<and> asked U answered (noout_cmd True) h) (run_op U node AssertNooutFlagSetOps)
    (\<lambda>_ h. cleared U node q h \<and> noout_shown U h) says_why"
proof -
  let ?I = "\<lambda>h. cleared U node q h \<and> asked U answered (noout_cmd True) h"
  have "triple (enter_step U node q) ?I (up_must U osd_dump_cmd) (\<lambda>a h. ?I h \<and> asked U (\<lambda>x. x = a \<and> answered x) osd_dump_cmd h) (\<lambda>_ _. True)"
    by (rule triple_command) (auto simp: enter_step_def intro!: grows_conj grows_cleared grows_happened)
  from triple_wrap_why [OF this] have "triple (enter_step U node q) ?I (isOsdNooutSet U) (\<lambda>s h. s \<longrightarrow> cleared U node q h \<and> noout_shown U h) says_why"
    unfolding isOsdNooutSet_def
    by (intro triple_bind [where Mid = "\<lambda>a h. ?I h \<and> asked U (\<lambda>x. x = a \<and> answered x) osd_dump_cmd h"])
      (auto simp: noout_shown_def intro!: triple_return elim!: asked_mono)
  then show ?thesis unfolding run_op.simps
    by (rule triple_bind) (auto simp: err_new_def intro!: triple_if triple_return triple_fail)
qed

lemma triple_stop_osds:
  assumes "mr_StopOsds q"
  shows "triple (enter_step U node q) (\<lambda>h. cleared U node q h \<and> (mr_SetNoout q \<longrightarrow> noout_shown U h)) (run_op U node StopOsdOps)
    (\<lambda>_. entered U q) says_why"
proof -
  have "triple (enter_step U node q) (\<lambda>h. cleared U node q h \<and> (mr_SetNoout q \<longrightarrow> noout_shown U h)) (up_must U stop_osds_cmd)
      (\<lambda>_. entered U q) (\<lambda>_ _. True)"
    by (rule triple_must) (use assms growsD [OF grows_noout_shown] in \<open>auto simp: enter_step_def happened_snoc entered_def\<close>)
  then have "triple (enter_step U node q) (\<lambda>h. cleared U node q h \<and> (mr_SetNoout q \<longrightarrow> noout_shown U h)) (snapStop U ''osd'' True) (\<lambda>_. entered U q) (\<lambda>_ _. True)"
    unfolding snapStop_def by (intro triple_bind [where Mid = "\<lambda>_. entered U q"]) (auto simp: stop_osds_cmd_def intro!: triple_return)
  then show ?thesis unfolding run_op.simps SetOsdState_def if_False by (rule triple_wrap_why) simp
qed

text \<open>The two halves of entering: the checks and the operations.\<close>

lemma triple_checks:
  "triple (enter_step U node q) (\<lambda>_. True) (RunOperations U node [CheckOsdOkToStopOps, CheckNonOsdSvcEnoughOps] False False)
    (clean (\<lambda>h. stop_allowed U node h \<and> daemons_enough U node h)) (\<lambda>_ _. True)"
  by (intro triple_operation [OF grows_const enter_looking triple_ok_to_stop]
        triple_operation [OF grows_stop_allowed enter_looking triple_daemons [OF grows_stop_allowed]] triple_no_operation)

lemma triple_enter_operations:
  "triple (enter_step U node q) (cleared U node q) (RunOperations U node (enter_operations q) False False) (clean (entered U q)) (\<lambda>_ _. True)"
proof -
  let ?Q = "enter_step U node q" and ?I = "\<lambda>h. cleared U node q h \<and> (mr_SetNoout q \<longrightarrow> noout_shown U h)"
  have stop: "triple ?Q ?I (RunOperations U node (if mr_StopOsds q then [StopOsdOps] else []) False False) (clean (entered U q)) (\<lambda>_ _. True)"
  proof (cases "mr_StopOsds q")
    case True
    have "triple ?Q ?I (RunOperations U node [StopOsdOps] False False) (clean (entered U q)) (\<lambda>_ _. True)"
      by (rule triple_operation [OF _ enter_looking triple_stop_osds [OF True] triple_no_operation])
        (auto intro!: grows_conj grows_cleared grows_imp grows_noout_shown)
    with True show ?thesis by simp
  qed (auto simp: entered_def clean_def intro!: triple_return)
  show ?thesis
  proof (cases "mr_SetNoout q")
    case True
    have shown: "triple ?Q (\<lambda>h. cleared U node q h \<and> noout_shown U h) (RunOperations U node (if mr_StopOsds q then [StopOsdOps] else []) False False)
        (clean (entered U q)) (\<lambda>_ _. True)"
      by (rule triple_weaken [OF stop]) auto
    have asserted: "triple ?Q (\<lambda>h. cleared U node q h \<and> asked U answered (noout_cmd True) h)
        (RunOperations U node (AssertNooutFlagSetOps # (if mr_StopOsds q then [StopOsdOps] else [])) False False) (clean (entered U q)) (\<lambda>_ _. True)"
      by (rule triple_operation [OF _ enter_looking triple_assert_noout shown]) (auto intro!: grows_conj grows_cleared grows_happened)
    from triple_operation [OF grows_cleared enter_looking triple_set_noout [OF True] asserted] True
    show ?thesis by (simp only: enter_operations_def if_True append_Cons append_Nil)
  next
    case False
    then show ?thesis using triple_weaken [OF stop, of "cleared U node q" "clean (entered U q)" "\<lambda>_ _. True"]
      by (simp add: enter_operations_def del: RunOperations.simps)
  qed
qed

lemma only_dry_maintenance: "mr_DryRun q \<Longrightarrow> only enter_looks (run_maintenance U node pre ops goOn q)"
  unfolding run_maintenance_def by (auto intro!: only_rules only_dry_run)

lemma triple_enter:
  "triple (enter_step U node q) (\<lambda>h. h = []) (Maintenance_Enter U node q)
    (\<lambda>rs h. \<not> mr_DryRun q \<and> \<not> mr_CheckOnly q \<longrightarrow> clean (entered U q) rs h) (\<lambda>_ _. True)"
proof (cases "mr_DryRun q")
  case True
  then show ?thesis unfolding Maintenance_Enter_def
    by (intro triple_weaken [OF only_triple [OF only_dry_maintenance, of q "\<lambda>_. True"]]) (auto intro: enter_looking)
next
  case False
  let ?Q = "enter_step U node q"
  have checks: "triple ?Q (\<lambda>_. True) (RunOperations U node [CheckOsdOkToStopOps, CheckNonOsdSvcEnoughOps] False False)
      (\<lambda>rs h. list_ex (\<lambda>r. or_Error r \<noteq> '''') rs \<or> stop_allowed U node h \<and> daemons_enough U node h) (\<lambda>_ _. True)"
    by (rule triple_weaken [OF triple_checks]) (auto simp: clean_def list_all_iff list_ex_iff)
  have act: "triple ?Q Pre (RunOperations U node (enter_operations q) False False) (clean (entered U q)) (\<lambda>_ _. True)"
    if "\<And>h. Pre h \<Longrightarrow> cleared U node q h" for Pre
    by (rule triple_weaken [OF triple_enter_operations]) (use that in auto)
  have acts: "triple ?Q Pre (io_bind (RunOperations U node (enter_operations q) False False) (\<lambda>rs. io_return (checks @ rs))) (clean (entered U q)) (\<lambda>_ _. True)"
    if "\<And>h. Pre h \<Longrightarrow> cleared U node q h" for Pre checks
    by (rule triple_bind [OF act [OF that]]) (auto simp: clean_def intro!: triple_return)
  have only_checks: "triple ?Q (\<lambda>h. h = []) (RunOperations U node [CheckOsdOkToStopOps, CheckNonOsdSvcEnoughOps] False False)
      (\<lambda>rs h. \<not> mr_CheckOnly q \<longrightarrow> clean (entered U q) rs h) (\<lambda>_ _. True)" if "mr_CheckOnly q"
    by (rule triple_weaken [OF triple_checks]) (use that in auto)
  have skip_checks: "triple ?Q (\<lambda>h. h = []) (RunOperations U node (enter_operations q) False False)
      (\<lambda>rs h. \<not> mr_CheckOnly q \<longrightarrow> clean (entered U q) rs h) (\<lambda>_ _. True)" if "\<not> mr_CheckOnly q" "mr_IgnoreCheck q"
    by (rule triple_weaken [OF act [of "\<lambda>h. h = []"]]) (use that False in \<open>auto simp: cleared_def\<close>)
  have both: "triple ?Q (\<lambda>h. h = []) (io_bind (RunOperations U node [CheckOsdOkToStopOps, CheckNonOsdSvcEnoughOps] False False) (\<lambda>checks.
      if list_ex (\<lambda>r. or_Error r \<noteq> '''') checks \<and> \<not> mr_Force q then io_return checks
      else io_bind (RunOperations U node (enter_operations q) False False) (\<lambda>rs. io_return (checks @ rs))))
      (\<lambda>rs h. \<not> mr_CheckOnly q \<longrightarrow> clean (entered U q) rs h) (\<lambda>_ _. True)" if "\<not> mr_CheckOnly q"
  proof -
    have decide: "triple ?Q (\<lambda>h. list_ex (\<lambda>r. or_Error r \<noteq> '''') rs \<or> stop_allowed U node h \<and> daemons_enough U node h)
      (if list_ex (\<lambda>r. or_Error r \<noteq> '''') rs \<and> \<not> mr_Force q then io_return rs
       else io_bind (RunOperations U node (enter_operations q) False False) (\<lambda>rs'. io_return (rs @ rs')))
      (\<lambda>rs h. \<not> mr_CheckOnly q \<longrightarrow> clean (entered U q) rs h) (\<lambda>_ _. True)" for rs
      by (rule triple_if, rule triple_return, force simp: clean_def list_all_iff list_ex_iff, rule triple_weaken [OF acts [of "cleared U node q"]])
        (use that False in \<open>auto simp: cleared_def\<close>)
    show ?thesis by (rule triple_bind [OF triple_weaken [OF checks, of "\<lambda>h. h = []", OF TrueI]], assumption, assumption, rule decide)
  qed
  have dry: "mr_DryRun q = False" using False by simp
  show ?thesis unfolding Maintenance_Enter_def run_maintenance_def dry using only_checks skip_checks both
    by (auto simp del: RunOperations.simps intro!: triple_fail)
qed

text \<open>C18 (safety). What bringing a node into maintenance mode may do. Apart from queries it only sets the
  \<^verbatim>\<open>noout\<close> flag and stops the OSD service, each only if requested and neither in a dry run nor when only
  checking. Unless the checks are ignored or their errors overridden by force, it does so only after the
  cluster agreed to the stop of exactly the OSDs that the database lists on the node, and after a majority of all recorded
  monitors, a manager and a metadata server were seen active elsewhere. When both are requested the OSDs are
  stopped only after the flag was set and the OSD map then showed it. When all results are free of errors,
  what was requested was done.\<close>

theorem maintenance_guarded:
  assumes "Maintenance_Enter U node q [] = (r, h)"
  shows "(\<forall>k < length h. enter_step U node q (take k h) (h ! k)) \<and>
    (\<forall>rs. r = Inr rs \<and> \<not> mr_DryRun q \<and> \<not> mr_CheckOnly q \<and> list_all (\<lambda>x. or_Error x = '''') rs \<longrightarrow> entered U q h)"
proof -
  from triple_enter refl assms obtain ext where ext: "h = [] @ ext" "allowed_ext (enter_step U node q) [] ext"
      "case r of Inr rs \<Rightarrow> \<not> mr_DryRun q \<and> \<not> mr_CheckOnly q \<longrightarrow> clean (entered U q) rs h | Inl e \<Rightarrow> True"
    by (rule tripleD)
  then show ?thesis using allowed_ext_nth [OF ext(2)] by (auto simp: clean_def)
qed

section \<open>Examples\<close>

text \<open>A node with one OSD in a cluster that was upgraded; three other nodes carry the daemons.\<close>

definition upkeep_gjson :: gjson_lib where
  "upkeep_gjson = \<lparr>gj_get = (\<lambda>a path. case reply_json a of Some (JObj kvs) \<Rightarrow> map_of kvs path | _ \<Rightarrow> None), gj_sub = (\<lambda>_ _. None),
     gj_array = (\<lambda>j. case j of Some (JArr xs) \<Rightarrow> xs | _ \<Rightarrow> []), gj_string = (\<lambda>j. case j of Some (JStr s) \<Rightarrow> s | _ \<Rightarrow> ''''),
     gj_int = (\<lambda>_. 0), gj_other = (\<lambda>_. '''')\<rparr>"

definition upkeep_host :: host where
  "upkeep_host h r =
     (if r = version_cmd then Answer ''ceph version 19.2.0 (e7ad) squid (stable)'' None
      else if r = versions_cmd then Answer '''' (Some (JObj [(''osd'', JObj [(''19.2.0'', JInt 1)]), (''overall'', JObj [(''19.2.0'', JInt 7)])]))
      else if r = osd_dump_cmd then Answer '''' (Some (JObj [(''require_osd_release'', JStr ''reef''), (''flags_set'', JArr [JStr ''noout''])]))
      else if r = status_cmd then Answer '''' (Some (JObj [(''quorum_names'', JArr [JStr ''b'', JStr ''c'', JStr ''d''])]))
      else if r = mgr_dump_cmd then Answer '''' (Some (JObj [(''standbys.#.name'', JArr [JStr ''c'']), (''active_name'', JStr ''b'')]))
      else if r = fs_status_cmd then Answer '''' (Some (JObj [(''mdsmap.#.name'', JArr [JStr ''d''])]))
      else Answer '''' None)"

definition upkeep_demo :: "configured_disk list \<Rightarrow> upkeep_env" where
  "upkeep_demo disks =
     \<lparr>ue_osd = \<lparr>oe_host = upkeep_host, oe_lib = plain_lib, oe_polls = (\<lambda>_. 1), oe_storage = (\<lambda>_. Inr []), oe_name = ''a'', oe_data = ''/data'',
        oe_disks = (\<lambda>_. Inr disks), oe_tags = (\<lambda>_. Inr []), oe_gjson = upkeep_gjson, oe_run_error = (\<lambda>_. None)\<rparr>,
      ue_text = \<lparr>rt_go = plain_lib, rt_fields = (\<lambda>s. [s]), rt_parse_ip = (\<lambda>_. False)\<rparr>,
      ue_services = (\<lambda>_. Inr [(''a'', ''mon''), (''b'', ''mon''), (''c'', ''mon''), (''d'', ''mon''), (''b'', ''mgr''), (''d'', ''mds'')]),
      ue_grouped = (\<lambda>_. Inr []), ue_ServerCert = True, ue_members = (\<lambda>_. Inr [''a'', ''b'', ''c'', ''d'']), ue_ConfPath = ''/conf'', ue_RunPath = ''/run''\<rparr>"

definition upkeep_disks :: "configured_disk list" where
  "upkeep_disks = [\<lparr>cd_OSD = 1, cd_Path = ''/dev/vda'', cd_Location = ''a''\<rparr>]"

lemma upkeep_runs:
  "PostRefresh (upkeep_demo upkeep_disks) [] = (Inr (), [version_cmd, versions_cmd, osd_dump_cmd, require_release_cmd ''squid''])"
  "PreRemove (upkeep_demo []) False [] = (Inr (), [Probe ''LocalClient'' [], Probe ''GET'' [''cluster''], Probe ''GET'' [''disks''],
     Probe ''GET'' [''services''], Probe ''GET'' [''services''], delete_service_call ''a'' ''mon''])"
  by code_simp+

definition enter_demo :: maintenance_request where
  "enter_demo = maintenance_zero\<lparr>mr_Status := ''maintenance'', mr_SetNoout := True, mr_StopOsds := True\<rparr>"

lemma enter_runs:
  "snd (Maintenance_Enter (upkeep_demo upkeep_disks) ''a'' enter_demo []) =
     [disks_read, disks_read, ok_to_stop_cmd [1], services_read, status_cmd, mgr_dump_cmd, fs_status_cmd, noout_cmd True, osd_dump_cmd, stop_osds_cmd]"
  "map_sum id (map or_Error) (fst (Maintenance_Enter (upkeep_demo upkeep_disks) ''a'' enter_demo [])) = Inr ['''', '''', '''', '''', '''']"
  by code_simp+

theorem release_update_guarded_witness:
  "release_step (upkeep_demo upkeep_disks) [version_cmd, versions_cmd, osd_dump_cmd] (require_release_cmd ''squid'') \<and>
   release_settled (upkeep_demo upkeep_disks) [version_cmd, versions_cmd, osd_dump_cmd, require_release_cmd ''squid'']"
proof
  note run = release_update_guarded [OF upkeep_runs(1)]
  from run show "release_settled (upkeep_demo upkeep_disks) [version_cmd, versions_cmd, osd_dump_cmd, require_release_cmd ''squid'']" by simp
  from run [THEN conjunct2, THEN conjunct1, rule_format, of 3]
  show "release_step (upkeep_demo upkeep_disks) [version_cmd, versions_cmd, osd_dump_cmd] (require_release_cmd ''squid'')" by simp
qed

theorem member_removal_guarded_witness:
  "removal_step (upkeep_demo []) False [Probe ''LocalClient'' [], Probe ''GET'' [''cluster''], Probe ''GET'' [''disks''], Probe ''GET'' [''services''],
     Probe ''GET'' [''services'']] (delete_service_call ''a'' ''mon'')"
  using member_removal_guarded [OF upkeep_runs(2), THEN conjunct1, rule_format, of 5] by simp

theorem maintenance_guarded_witness:
  "enter_step (upkeep_demo upkeep_disks) ''a'' enter_demo
     [disks_read, disks_read, ok_to_stop_cmd [1], services_read, status_cmd, mgr_dump_cmd, fs_status_cmd, noout_cmd True, osd_dump_cmd] stop_osds_cmd \<and>
   entered (upkeep_demo upkeep_disks) enter_demo (snd (Maintenance_Enter (upkeep_demo upkeep_disks) ''a'' enter_demo []))"
proof -
  let ?run = "Maintenance_Enter (upkeep_demo upkeep_disks) ''a'' enter_demo []"
  note safe = maintenance_guarded [OF prod.collapse [of ?run, symmetric]]
  obtain rs where rs: "fst ?run = Inr rs" "map or_Error rs = ['''', '''', '''', '''', '''']"
    using enter_runs(2) by (cases "fst ?run") auto
  have "list_all (\<lambda>x. x = '''') (map or_Error rs)" by (simp add: rs(2))
  then have "list_all (\<lambda>x. or_Error x = '''') rs" by (simp add: list_all_iff)
  then have "entered (upkeep_demo upkeep_disks) enter_demo (snd ?run)" using safe rs(1) by (auto simp: enter_demo_def maintenance_zero_def)
  moreover from safe [THEN conjunct1, rule_format, of 9]
  have "enter_step (upkeep_demo upkeep_disks) ''a'' enter_demo (take 9 (snd ?run)) (snd ?run ! 9)" by (simp add: enter_runs(1))
  ultimately show ?thesis by (simp add: enter_runs(1))
qed

end
