(* ===== verification/Spec2Isabelle.thy ===== *)
theory Spec2Isabelle
  imports DSL_Eval Placement_Api Osd_Provision_Safety Rgw_Claims Replication_Claims Conf_Claims Upkeep_Claims
begin

text \<open>
  A verification library for MicroCeph, the daemon and client that run a Ceph cluster from a snap.
  File names below are relative to \<^verbatim>\<open>src/microceph/\<close>.

  \<^bold>\<open>The program's parts.\<close> Each member runs a daemon; the members share a replicated database. An
  operator enables services, applies a placement policy that says which members carry control services,
  gateways and storage, bootstraps Ceph once for the cluster, and enrolls disks chosen by a small
  expression language. The placement engine reads the shared service table, dispatches service
  operations to members through the API and records what it refused; each member's service pipeline
  does the local work and records the result in the shared table; the storage gate that every disk
  enrollment passes reads the policy that the engine stored.

  \<^bold>\<open>Theories and what they model.\<close>
  \<^item> \<open>MC_Prelude\<close>, \<open>Go_Float\<close>: strings as byte lists, the library functions the code calls, 64-bit
    words, and the part of IEEE double arithmetic that size literals need.
  \<^item> \<open>DSL_Lexer\<close>, \<open>DSL_Parser\<close>, \<open>DSL_Eval\<close>, \<open>Disk_Types\<close>: the disk matching language of
    \<^verbatim>\<open>dsl/\<close> and the disk filter of \<^verbatim>\<open>common/storage.go\<close>. Lemmas: parsing is total,
    printing and parsing are inverse, size queries are exact below \<^verbatim>\<open>2^53\<close> bytes, validation
    rules out unknown names at evaluation.
  \<^item> \<open>Go_Env\<close>, \<open>Cluster_DB\<close>: error values with their wrapped sentinels, JSON trees, map iteration
    order, and the shared database: tables, statements that may fail, transactions that roll back, and
    the row operations of \<^verbatim>\<open>database/\<close>.
  \<^item> \<open>Placement_Lock\<close>: the lease lock of \<^verbatim>\<open>ceph/placement.go\<close> and the system of competing
    members as a step relation; mutual exclusion by rule induction. The locale \<open>lease_lock\<close> states
    what a lock row must do and is interpreted by the row operations.
  \<^item> \<open>Placement_Types\<close>: \<^verbatim>\<open>api/types/placement.go\<close>, policies, their normalization, and the
    JSON form that is stored.
  \<^item> \<open>Lifecycle\<close>: \<^verbatim>\<open>ceph/bootstrap_ceph.go\<close> and \<^verbatim>\<open>ceph/lifecycle.go\<close>, the
    bootstrap state machine over the lifecycle row.
  \<^item> \<open>Control_Readiness\<close>, \<open>Control_Removal\<close>: \<^verbatim>\<open>ceph/control_readiness.go\<close>, and the
    removal of daemons from the Ceph maps in \<^verbatim>\<open>ceph/monitor.go\<close>, \<^verbatim>\<open>manager.go\<close>,
    \<^verbatim>\<open>metadata.go\<close> and \<^verbatim>\<open>control_removal.go\<close>; also the local effects of a member
    as logged phases.
  \<^item> \<open>Placement_Engine\<close>, \<open>Placement_Apply\<close>: validation, storage and reconciliation of
    \<^verbatim>\<open>ceph/placement.go\<close>, and the storage gate of \<^verbatim>\<open>ceph/osd.go\<close>. The locale
    \<open>service_dispatch\<close> states what the engine needs of a dispatch.
  \<^item> \<open>Service_Placement\<close>: the service pipelines of \<^verbatim>\<open>ceph/services_placement*.go\<close> and
    \<^verbatim>\<open>ceph/services.go\<close>, the endpoints of \<^verbatim>\<open>api/services.go\<close>, the client calls and
    \<^verbatim>\<open>cmd/microcephd/prod_wiring.go\<close>. The locale \<open>service_client\<close> states what is assumed of
    the cluster library's client, and the production dispatch is proved to satisfy
    \<open>service_dispatch\<close> under it.
  \<^item> \<open>Placement_Claims\<close>: the properties of placement and services.
  \<^item> \<open>Redaction\<close>, \<open>Placement_Status\<close>, \<open>Placement_Api\<close>: what \<^verbatim>\<open>GET /placement\<close> reports and
    how keys and TLS material are kept out of it, and the endpoints of \<^verbatim>\<open>api/placement.go\<close>: body
    checks, the lock around the work, the status of each outcome, and what a successful installation or
    clearing means for the storage gate.
  \<^item> \<open>Host_Log\<close>: local work as requests to a host whose answers are arbitrary, and a small program
    logic for it: a triple says which requests a procedure may make given what its log shows.
  \<^item> \<open>Osd_Env\<close>, \<open>Ceph_Config\<close>, \<open>Crush\<close>: the environment of the OSD manager, the configuration keys of
    \<^verbatim>\<open>ceph/config.go\<close>, and rules and failure domains of \<^verbatim>\<open>ceph/crush.go\<close>.
  \<^item> \<open>Aux_Plan\<close>, \<open>Aux_Partition\<close>, \<open>Aux_Safety\<close>: WAL and DB partitions of \<^verbatim>\<open>ceph/osd_waldb.go\<close>:
    where to put them, how they are created under the carrier lock, recorded and cleaned up. Lemmas: a
    plan fits and planning fails only for lack of room; creation and cleanup touch only what the table
    read in the same lock session allows.
  \<^item> \<open>Osd_Remove\<close>, \<open>Osd_Remove_Safety\<close>: the removal of an OSD in \<^verbatim>\<open>ceph/osd.go\<close> and its
    endpoint; nothing is destroyed before the stop, the safety checks and the purge are confirmed.
  \<^item> \<open>Storage_Probe\<close>, \<open>Osd_Add\<close>, \<open>Osd_Add_Safety\<close>: the device probes of \<^verbatim>\<open>common/storage.go\<close> and
    the enrollment of disks in \<^verbatim>\<open>ceph/osd.go\<close>. Lemmas: nothing is recorded, formatted or wiped
    before the storage gate was seen open, wiping needs a request and an unmounted device, and a failed
    enrollment takes its record back.
  \<^item> \<open>Osd_Provision\<close>, \<open>Osd_Provision_Safety\<close>: enrollment of the disks an expression selects
    (\<^verbatim>\<open>ceph/osd.go\<close>, \<^verbatim>\<open>ceph/osd_waldb.go\<close>, \<^verbatim>\<open>api/disks.go\<close>): available disks,
    carriers, the plan, the dry run and the execution. Lemmas: a plan keeps roles apart, a dry run only
    looks, and every effect of the endpoint on a device is guarded.
  \<^item> \<open>Rgw_Conf\<close>, \<open>Rgw_Publish\<close>, \<open>Rgw_Safety\<close>, \<open>Rgw_Claims\<close>: the gateway's frontend in
    \<^verbatim>\<open>ceph/rgw.go\<close>: the text of \<^verbatim>\<open>radosgw.conf\<close>, TLS pairs in generation
    directories, the journal, publication, rollback, recovery and the replacement of certificates, over
    an explicit disk whose trace holds every state in which the machine can be cut off. The locale
    \<open>frontend_keeper\<close> states what publication relies on of the edits that the refresh loop and the
    startup migration of \<^verbatim>\<open>ceph/start.go\<close> make to the same file. Lemmas: every such state is
    usable, the journal is written first, success means what was asked for, recovery gets through.
  \<^item> \<open>Rbd_Mirror\<close>, \<open>Replication_Rbd\<close>, \<open>Replication_Cephfs\<close>, \<open>Replication_Api\<close>, \<open>Replication_Safety\<close>,
    \<open>Replication_Claims\<close>: mirroring between clusters in \<^verbatim>\<open>ceph/rbd_mirror.go\<close>,
    \<^verbatim>\<open>ceph/replication*.go\<close>, \<^verbatim>\<open>ceph/cephfs_*.go\<close> and
    \<^verbatim>\<open>api/ops_replication.go\<close>: the commands, the handlers of both workloads, the state machine
    they share and the endpoints. Lemmas: the state machine is a decision table, disabling a pool and
    operations on a whole site are guarded and ordered, repeated attempts are bounded.
  \<^item> \<open>Go_Json\<close>: decoding of JSON into records field by field, as \<^verbatim>\<open>encoding/json\<close> does it.
  \<^item> \<open>Client_Config\<close>, \<open>Conf_Files\<close>, \<open>Conf_Claims\<close>: client values (\<^verbatim>\<open>database/client_config*.go\<close>,
    the statements of \<^verbatim>\<open>database/schema.go\<close> on their table, \<^verbatim>\<open>ceph/client_config.go\<close>,
    \<^verbatim>\<open>api/client_configs.go\<close>), networks (\<^verbatim>\<open>common/network.go\<close>), the configuration
    files (\<^verbatim>\<open>ceph/config.go\<close>, \<^verbatim>\<open>ceph/configwriter*.go\<close>) and the loop of
    \<^verbatim>\<open>ceph/start.go\<close> that refreshes them. Lemmas: what a value set for a target changes for
    each member, what the migrations do to the table and why a value set twice cannot be reset, and what
    a refresh writes.
  \<^item> \<open>Member_Upkeep\<close>, \<open>Upkeep_Claims\<close>: snap services, the work after a start or refresh, the hook before a member leaves,
    and maintenance mode (\<^verbatim>\<open>ceph/snap.go\<close>, \<^verbatim>\<open>start.go\<close>, \<^verbatim>\<open>remove.go\<close>,
    \<^verbatim>\<open>operations.go\<close>, \<^verbatim>\<open>maintenance.go\<close>, \<^verbatim>\<open>api/ops_maintenance.go\<close>).
    Lemmas: the release of the OSDs is raised, services of a leaving member are deleted, and OSDs are
    stopped for maintenance only after the checks that the code promises.

  \<^bold>\<open>Parameters.\<close> Code outside the repository is a parameter: the regular expression engine and
  Unicode tables (\<open>go_lib\<close>), base64 and X.509 checks (\<open>tls_lib\<close>), the outcome of commands, snap and
  file operations (\<open>host_env\<close>), the cluster library's client and its \<^verbatim>\<open>SmartError\<close>
  (\<open>network\<close>), the
  \<^verbatim>\<open>net\<close> package's parsers (\<open>net_lib\<close>), gjson queries. Map iteration order is a
  parameter (\<open>sched\<close>), and so is every failure of a database statement (the \<open>faults\<close>
  of a state). Theorems hold for all of them unless they say otherwise.

  \<^bold>\<open>Bounds and fuel.\<close> The parser runs on fuel derived from the length of its input, which is shown to
  be enough for every input. Polling loops run over the list of observations, or the number of pauses,
  that the environment allows before the deadline. All other loops are structural.

  \<^bold>\<open>Not modelled.\<close> Concurrency of two service operations on one member (the code serializes them with a
  mutex), a handler that keeps running after its client gave up, other members writing between two
  transactions of one refresh, the text layer of JSON. The steps of bootstrap and join run commands in a
  fixed order and are a parameter of the lifecycle. Left out as glue or output: NFS and multisite gateway
  commands, import of remote clusters, generated rows of tables whose contents are answers of the
  database, the text of \<^verbatim>\<open>ganesha.conf\<close>, logging, and the command line client.
\<close>

end
